(* ===== verification/Prelude.thy ===== *)
theory Prelude
  imports Main "HOL-Library.Word"
begin

text \<open>
  Shared vocabulary of the development: the machine types of the C++ code, the
  faults an operation can end in, the state-and-exception shape of a C++ member
  function, and the list and word lemmas the component theories use.

  A member function that mutates its object and may throw is a function
  \<open>'s \<Rightarrow> (fault + 'a) \<times> 's\<close>: the second component is the object as the caller
  finds it afterwards, also when the call ended in an exception. Faults that end
  the process (a null dereference, a failed assertion, a division by zero) are
  values of the same type, so that every abort of the source is a branch of the
  model.
\<close>

unbundle bit_operations_syntax

section \<open>Machine types\<close>

type_synonym u8 = "8 word"
type_synonym u16 = "16 word"
type_synonym u32 = "32 word"
type_synonym u64 = "64 word"
type_synonym bytes = "u8 list"

section \<open>Faults and calls\<close>

datatype fault =
    Out_of_range string     \<comment> \<open>\<open>throw std::out_of_range(...)\<close>\<close>
  | Logic_error string      \<comment> \<open>\<open>throw std::logic_error(...)\<close>\<close>
  | Invalid_argument string \<comment> \<open>\<open>throw std::invalid_argument(...)\<close>\<close>
  | Null_deref              \<comment> \<open>a member access through a null pointer\<close>
  | Div_by_zero             \<comment> \<open>an integer division or remainder by zero\<close>
  | Assert_fail             \<comment> \<open>\<open>SYLAR_ASSERT\<close> failed\<close>
  | Undefined               \<comment> \<open>another operation the C++ standard leaves undefined\<close>

type_synonym ('s, 'a) call = "'s \<Rightarrow> (fault + 'a) \<times> 's"

definition ret :: "'a \<Rightarrow> ('s, 'a) call" where
  "ret a s = (Inr a, s)"

definition raise :: "fault \<Rightarrow> ('s, 'a) call" where
  "raise e s = (Inl e, s)"

text \<open>Sequential composition: the second call runs only if the first returned.\<close>

definition seqc :: "('s, 'a) call \<Rightarrow> ('a \<Rightarrow> ('s, 'b) call) \<Rightarrow> ('s, 'b) call" where
  "seqc m f s = (case m s of (Inl e, s') \<Rightarrow> (Inl e, s') | (Inr a, s') \<Rightarrow> f a s')"

named_theorems call_simps "unfolding of calls"

lemma ret_app [simp, call_simps]: "ret a s = (Inr a, s)"
  by (simp add: ret_def)

lemma raise_app [simp, call_simps]: "raise e s = (Inl e, s)"
  by (simp add: raise_def)

lemma seqc_Inl [simp, call_simps]: "m s = (Inl e, s') \<Longrightarrow> seqc m f s = (Inl e, s')"
  by (simp add: seqc_def)

lemma seqc_Inr [simp, call_simps]: "m s = (Inr a, s') \<Longrightarrow> seqc m f s = f a s'"
  by (simp add: seqc_def)

lemma seqc_eq_Inr:
  "seqc m f s = (Inr b, t) \<longleftrightarrow> (\<exists>a s'. m s = (Inr a, s') \<and> f a s' = (Inr b, t))"
  by (auto simp: seqc_def split: prod.splits sum.splits)

lemma seqc_ret [simp]: "seqc (ret a) f = f a"
  by (rule ext) (simp add: seqc_def ret_def)

lemma seqc_assoc: "seqc (seqc m f) g = seqc m (\<lambda>a. seqc (f a) g)"
  by (rule ext) (auto simp: seqc_def split: prod.splits sum.splits)

section \<open>Lists\<close>

text \<open>Overwriting a slice of a buffer: what \<open>memcpy(dst + p, src, n)\<close> does.\<close>

definition overwrite :: "nat \<Rightarrow> 'a list \<Rightarrow> 'a list \<Rightarrow> 'a list" where
  "overwrite p src dst = take p dst @ src @ drop (p + length src) dst"

named_theorems list_slices "lemmas on slices of buffers"

lemma length_overwrite [simp, list_slices]:
  "p + length src \<le> length dst \<Longrightarrow> length (overwrite p src dst) = length dst"
  by (simp add: overwrite_def)

lemma overwrite_Nil [simp, list_slices]: "overwrite p [] dst = dst"
  by (simp add: overwrite_def)

lemma overwrite_read [list_slices]:
  "p + length src \<le> length dst \<Longrightarrow>
   take (length src) (drop p (overwrite p src dst)) = src"
  by (simp add: overwrite_def)

lemma overwrite_take:
  "p + length src \<le> length dst \<Longrightarrow> take p (overwrite p src dst) = take p dst"
  by (simp add: overwrite_def)

lemma overwrite_append_left:
  "p + length src \<le> length xs \<Longrightarrow> overwrite p src (xs @ ys) = overwrite p src xs @ ys"
  by (simp add: overwrite_def)

lemma overwrite_append_right:
  "length xs \<le> p \<Longrightarrow> overwrite p src (xs @ ys) = xs @ overwrite (p - length xs) src ys"
  by (simp add: overwrite_def)

lemma overwrite_split:
  assumes "p + length a + length b \<le> length dst"
  shows "overwrite (p + length a) b (overwrite p a dst) = overwrite p (a @ b) dst"
proof -
  have "min (length dst) p = p" using assms by simp
  then show ?thesis
    using assms by (simp add: overwrite_def add.assoc add.commute[of "length b"])
qed

lemma take_split: "l \<le> a \<Longrightarrow> take a xs = take l xs @ take (a - l) (drop l xs)"
  by (metis take_add le_add_diff_inverse)

lemma concat_update:
  "i < length xss \<Longrightarrow> (\<forall>xs \<in> set xss. length xs = b) \<Longrightarrow> j + length src \<le> b \<Longrightarrow>
   concat (xss[i := overwrite j src (xss ! i)]) = overwrite (i * b + j) src (concat xss)"
proof (induction xss arbitrary: i)
  case Nil
  then show ?case by simp
next
  case (Cons xs xss)
  then have len: "length xs = b" by simp
  show ?case
  proof (cases i)
    case 0
    with Cons.prems show ?thesis by (simp add: overwrite_append_left)
  next
    case (Suc k)
    with Cons.prems len have "concat (xss[k := overwrite j src (xss ! k)]) =
        overwrite (k * b + j) src (concat xss)"
      using Cons.IH [of k] by simp
    with Suc len show ?thesis by (simp add: overwrite_append_right)
  qed
qed

lemma length_concat_uniform:
  "(\<forall>xs \<in> set xss. length xs = b) \<Longrightarrow> length (concat xss) = length xss * b"
  by (induction xss) auto

lemma concat_block:
  "i < length xss \<Longrightarrow> (\<forall>xs \<in> set xss. length xs = b) \<Longrightarrow> j \<le> b \<Longrightarrow>
   drop (i * b + j) (concat xss) = drop j (xss ! i) @ drop ((Suc i) * b) (concat xss)"
proof (induction xss arbitrary: i)
  case Nil
  then show ?case by simp
next
  case (Cons xs xss)
  then have "length xs = b" by simp
  with Cons show ?case by (cases i) auto
qed

lemma mod_div_bound:
  assumes "0 < (b::nat)" and "p < n * b"
  shows "p div b < n" and "p div b * b + p mod b = p" and "p mod b < b"
  using assms by (simp_all add: less_mult_imp_div_less)

end
