(* ===== verification/Endian.thy ===== *)
theory Endian
  imports Prelude
begin

text \<open>
  Byte order (\<open>sylar/endian.h\<close>): the two order tags, \<open>byteswap\<close> for the three
  widths the template is enabled for, and the two conditional swaps. The order of
  the host, the macro \<open>SYLAR_BYTE_ORDER\<close>, is an argument of every definition that
  depends on it. The bytes of an object in memory, which \<open>memcpy\<close> and \<open>write(&v,
  sizeof(v))\<close> see, are \<open>mem_bytes\<close>.
\<close>

datatype endian = SYLAR_LITTLE_ENDIAN | SYLAR_BIG_ENDIAN

section \<open>Bytes of a word\<close>

fun to_bytes :: "nat \<Rightarrow> 'a::len word \<Rightarrow> bytes" where
  "to_bytes 0 w = []"
| "to_bytes (Suc n) w = ucast w # to_bytes n (drop_bit 8 w)"

fun of_bytes :: "bytes \<Rightarrow> 'a::len word" where
  "of_bytes [] = 0"
| "of_bytes (b # bs) = ucast b OR push_bit 8 (of_bytes bs)"

lemma length_to_bytes [simp]: "length (to_bytes n w) = n"
  by (induction n arbitrary: w) auto

lemma of_bytes_to_bytes: "of_bytes (to_bytes n w) = take_bit (8 * n) w"
proof (induction n arbitrary: w)
  case 0
  then show ?case by simp
next
  case (Suc n)
  show ?case
    by (rule bit_word_eqI)
      (auto simp: Suc bit_or_iff bit_push_bit_iff bit_take_bit_iff bit_drop_bit_eq
        bit_ucast_iff)
qed

lemma bit_of_bytes_low:
  "LENGTH('a::len) \<ge> 8 \<Longrightarrow> (ucast (of_bytes (b # bs) :: 'a word) :: u8) = b"
  by (rule bit_word_eqI)
    (auto simp: bit_or_iff bit_push_bit_iff bit_ucast_iff)

lemma drop_bit_of_bytes:
  assumes "8 * Suc (length bs) \<le> LENGTH('a::len)"
  shows "drop_bit 8 (of_bytes (b # bs) :: 'a word) = take_bit (LENGTH('a) - 8) (of_bytes bs)"
proof (rule bit_word_eqI)
  fix n assume "n < LENGTH('a)"
  have b: "\<not> bit b (8 + n)" using bit_imp_le_length [of b "8 + n"] by auto
  show "bit (drop_bit 8 (of_bytes (b # bs) :: 'a word)) n =
        bit (take_bit (LENGTH('a) - 8) (of_bytes bs) :: 'a word) n"
    using b \<open>n < LENGTH('a)\<close>
    by (auto simp: bit_or_iff bit_push_bit_iff bit_take_bit_iff bit_drop_bit_eq bit_ucast_iff)
qed

lemma of_bytes_bound: "bit (of_bytes bs :: 'a::len word) n \<Longrightarrow> n < 8 * length bs"
proof (induction bs arbitrary: n)
  case Nil
  then show ?case by simp
next
  case (Cons b bs)
  then consider "bit b n" | "8 \<le> n" "bit (of_bytes bs :: 'a word) (n - 8)"
    by (auto simp: bit_or_iff bit_push_bit_iff bit_ucast_iff)
  then show ?case
  proof cases
    case 1
    then have "n < 8" using bit_imp_le_length [of b n] by simp
    then show ?thesis by simp
  next
    case 2
    then show ?thesis using Cons.IH [of "n - 8"] by simp
  qed
qed

lemma to_bytes_of_bytes:
  "8 * length bs \<le> LENGTH('a::len) \<Longrightarrow> to_bytes (length bs) (of_bytes bs :: 'a word) = bs"
proof (induction bs)
  case Nil
  then show ?case by simp
next
  case (Cons b bs)
  have "take_bit (LENGTH('a) - 8) (of_bytes bs :: 'a word) = of_bytes bs"
    by (rule bit_word_eqI)
      (use Cons.prems in \<open>auto simp: bit_take_bit_iff dest: of_bytes_bound\<close>)
  moreover have "drop_bit 8 (of_bytes (b # bs) :: 'a word) =
      take_bit (LENGTH('a) - 8) (of_bytes bs)"
    by (rule drop_bit_of_bytes) (use Cons.prems in simp)
  moreover have "(ucast (of_bytes (b # bs) :: 'a word) :: u8) = b"
    by (rule bit_of_bytes_low) (use Cons.prems in simp)
  ultimately show ?case
    using Cons by (simp del: of_bytes.simps)
qed

text \<open>The object representation of an integer of \<open>n\<close> bytes on a host.\<close>

definition mem_bytes :: "endian \<Rightarrow> nat \<Rightarrow> 'a::len word \<Rightarrow> bytes" where
  "mem_bytes host n w =
     (case host of SYLAR_LITTLE_ENDIAN \<Rightarrow> to_bytes n w | SYLAR_BIG_ENDIAN \<Rightarrow> rev (to_bytes n w))"

definition mem_value :: "endian \<Rightarrow> bytes \<Rightarrow> 'a::len word" where
  "mem_value host bs =
     (case host of SYLAR_LITTLE_ENDIAN \<Rightarrow> of_bytes bs | SYLAR_BIG_ENDIAN \<Rightarrow> of_bytes (rev bs))"

lemma length_mem_bytes [simp]: "length (mem_bytes host n w) = n"
  by (simp add: mem_bytes_def split: endian.splits)

lemma mem_value_mem_bytes:
  "LENGTH('a::len) = 8 * n \<Longrightarrow> mem_value host (mem_bytes host n (w :: 'a word)) = w"
  using take_bit_length_eq [of w]
  by (simp add: mem_value_def mem_bytes_def of_bytes_to_bytes take_bit_word_eq_self
      split: endian.splits)

section \<open>The byteswap template\<close>

definition bswap_bytes :: "nat \<Rightarrow> 'a::len word \<Rightarrow> 'a word" where
  "bswap_bytes n w = of_bytes (rev (to_bytes n w))"

text \<open>
  The three enabled instances. Each converts its argument to \<open>uint64_t\<close> and calls
  the \<open>bswap\<close> macro of its own width, whose parameter truncates it again.
\<close>

definition byteswap64 :: "u64 \<Rightarrow> u64" where
  "byteswap64 value = bswap_bytes 8 (ucast value :: u64)"

definition byteswap32 :: "u32 \<Rightarrow> u32" where
  "byteswap32 value = bswap_bytes 4 (ucast (ucast value :: u64) :: u32)"

definition byteswap16 :: "u16 \<Rightarrow> u16" where
  "byteswap16 value = bswap_bytes 2 (ucast (ucast value :: u64) :: u16)"

lemma byteswap_eq [simp]:
  "byteswap64 v = bswap_bytes 8 v" "byteswap32 w = bswap_bytes 4 w" "byteswap16 x = bswap_bytes 2 x"
  by (simp_all add: byteswap64_def byteswap32_def byteswap16_def ucast_up_ucast_id is_up)

lemma to_bytes_bswap:
  "LENGTH('a::len) = 8 * n \<Longrightarrow> to_bytes n (bswap_bytes n (w :: 'a word)) = rev (to_bytes n w)"
  using to_bytes_of_bytes [of "rev (to_bytes n w)", where 'a = 'a]
  by (simp add: bswap_bytes_def)

lemma bswap_involution:
  assumes "LENGTH('a::len) = 8 * n"
  shows "bswap_bytes n (bswap_bytes n (w :: 'a word)) = w"
proof -
  have "bswap_bytes n (bswap_bytes n w) = of_bytes (to_bytes n w)"
    by (simp add: bswap_bytes_def [of n "bswap_bytes n w"] to_bytes_bswap [OF assms])
  also have "\<dots> = w"
    using assms by (simp add: of_bytes_to_bytes take_bit_word_eq_self)
  finally show ?thesis .
qed

definition byteswapOnLittleEndian16 :: "endian \<Rightarrow> u16 \<Rightarrow> u16" where
  "byteswapOnLittleEndian16 host t = (if host = SYLAR_BIG_ENDIAN then t else byteswap16 t)"

definition byteswapOnLittleEndian32 :: "endian \<Rightarrow> u32 \<Rightarrow> u32" where
  "byteswapOnLittleEndian32 host t = (if host = SYLAR_BIG_ENDIAN then t else byteswap32 t)"

definition byteswapOnBigEndian32 :: "endian \<Rightarrow> u32 \<Rightarrow> u32" where
  "byteswapOnBigEndian32 host t = (if host = SYLAR_BIG_ENDIAN then byteswap32 t else t)"

lemma byteswapOnLittleEndian_involution [simp]:
  "byteswapOnLittleEndian16 host (byteswapOnLittleEndian16 host x) = x"
  "byteswapOnLittleEndian32 host (byteswapOnLittleEndian32 host y) = y"
  by (simp_all add: byteswapOnLittleEndian16_def byteswapOnLittleEndian32_def bswap_involution)

section \<open>Fixed-width encoding\<close>

text \<open>
  The order of the bytes on the wire is \<open>order\<close>, whatever the host: the swap is made
  exactly when the two differ.
\<close>

definition wire_bytes :: "endian \<Rightarrow> nat \<Rightarrow> 'a::len word \<Rightarrow> bytes" where
  "wire_bytes order n w = mem_bytes order n w"

lemma swapped_mem_bytes:
  assumes "LENGTH('a::len) = 8 * n"
  shows "mem_bytes host n (if order \<noteq> host then bswap_bytes n w else (w :: 'a word)) =
    wire_bytes order n w"
  using to_bytes_bswap [OF assms]
  by (cases host; cases order) (auto simp: mem_bytes_def wire_bytes_def)

lemma swapped_mem_value:
  assumes len: "LENGTH('a::len) = 8 * n" and bs: "length bs = n"
  shows "(if order = host then mem_value host bs else bswap_bytes n (mem_value host bs) :: 'a word) =
    mem_value order bs"
proof -
  have "to_bytes n (of_bytes bs :: 'a word) = bs" "to_bytes n (of_bytes (rev bs) :: 'a word) = rev bs"
    using to_bytes_of_bytes [of bs, where 'a = 'a] to_bytes_of_bytes [of "rev bs", where 'a = 'a]
      len bs by simp_all
  then show ?thesis
    by (cases host; cases order) (auto simp: mem_value_def bswap_bytes_def)
qed

end
