(* ===== verification/Bytearray.thy ===== *)
theory Bytearray
  imports Endian
begin

text \<open>
  The byte buffer (\<open>sylar/bytearray.h\<close>, \<open>sylar/bytearray.cc\<close>): a singly linked list
  of blocks of one size, a read/write position shared by both directions, and a
  pointer \<open>m_cur\<close> to the block that holds the position.

  The chain that starts at \<open>m_root\<close> is the list \<open>m_nodes\<close>; a block is the list of its
  bytes, so that \<open>node->size\<close> is its length. A \<open>Node*\<close> into the chain is an index,
  \<open>None\<close> the null pointer, and \<open>next\<close> of the last block is null. The bytes
  \<open>new char[s]\<close> returns are indeterminate: they are given by the field \<open>alloc_fill\<close>,
  of which nothing is assumed, at the offset of the block. Sizes are \<open>nat\<close>: they are
  bounded by the allocated memory, and the invariant \<open>ba_inv\<close> keeps every difference
  of sizes the code forms non-negative.
\<close>

section \<open>State\<close>

record bytearray =
  m_baseSize :: nat
  m_position :: nat
  m_capacity :: nat
  m_size :: nat
  m_endian :: endian
  m_nodes :: "bytes list"
  m_cur :: "nat option"
  alloc_fill :: "nat \<Rightarrow> u8"

definition Node_new :: "(nat \<Rightarrow> u8) \<Rightarrow> nat \<Rightarrow> nat \<Rightarrow> bytes" where
  "Node_new fill off s = map (\<lambda>j. fill (off + j)) [0..<s]"

definition next_node :: "bytes list \<Rightarrow> nat \<Rightarrow> nat option" where
  "next_node nodes i = (if Suc i < length nodes then Some (Suc i) else None)"

definition ByteArray_new :: "(nat \<Rightarrow> u8) \<Rightarrow> nat \<Rightarrow> bytearray" where
  "ByteArray_new fill base_size =
     \<lparr>m_baseSize = base_size, m_position = 0, m_capacity = base_size, m_size = 0,
      m_endian = SYLAR_BIG_ENDIAN, m_nodes = [Node_new fill 0 base_size], m_cur = Some 0,
      alloc_fill = fill\<rparr>"

definition isLittleEndian :: "bytearray \<Rightarrow> bool" where
  "isLittleEndian ba \<longleftrightarrow> m_endian ba = SYLAR_LITTLE_ENDIAN"

definition setIsLittleEndian :: "bool \<Rightarrow> bytearray \<Rightarrow> bytearray" where
  "setIsLittleEndian val ba =
     ba\<lparr>m_endian := (if val then SYLAR_LITTLE_ENDIAN else SYLAR_BIG_ENDIAN)\<rparr>"

definition getReadSize :: "bytearray \<Rightarrow> nat" where
  "getReadSize ba = m_size ba - m_position ba"

definition getCapacity :: "bytearray \<Rightarrow> nat" where
  "getCapacity ba = m_capacity ba - m_position ba"

section \<open>Raw reads and writes\<close>

definition addCapacity :: "nat \<Rightarrow> (bytearray, unit) call" where
  "addCapacity sz ba =
     (if sz = 0 then (Inr (), ba) else
      let old_cap = getCapacity ba in
      if old_cap \<ge> sz then (Inr (), ba) else
      if m_baseSize ba = 0 then (Inl Div_by_zero, ba) else
      let sz' = sz - old_cap;
          count = sz' div m_baseSize ba + (if sz' mod m_baseSize ba > old_cap then 1 else 0);
          first = (if count = 0 then None else Some (length (m_nodes ba)))
      in (Inr (), ba\<lparr>
            m_nodes := m_nodes ba @ map (\<lambda>i. Node_new (alloc_fill ba)
                (m_capacity ba + i * m_baseSize ba) (m_baseSize ba)) [0..<count],
            m_capacity := m_capacity ba + count * m_baseSize ba,
            m_cur := (if old_cap = 0 then first else m_cur ba)\<rparr>))"

text \<open>
  The copying loop of \<open>write\<close>: \<open>buf\<close> is what is left of the source, so its length is
  the variable \<open>size\<close> and \<open>bpos\<close> is implicit. Every turn but the last moves to the
  next block.
\<close>

function write_loop :: "bytes list \<Rightarrow> nat option \<Rightarrow> nat \<Rightarrow> nat \<Rightarrow> nat \<Rightarrow> bytes \<Rightarrow>
    fault + bytes list \<times> nat option \<times> nat" where
  "write_loop nodes cur npos ncap pos buf =
     (if buf = [] then Inr (nodes, cur, pos) else
      case cur of None \<Rightarrow> Inl Null_deref
      | Some i \<Rightarrow>
        if ncap \<ge> length buf then
          Inr (nodes[i := overwrite npos buf (nodes ! i)],
               if length (nodes ! i) = npos + length buf then next_node nodes i else Some i,
               pos + length buf)
        else
          case next_node nodes i of None \<Rightarrow> Inl Null_deref
          | Some k \<Rightarrow>
            write_loop (nodes[i := overwrite npos (take ncap buf) (nodes ! i)]) (Some k) 0
              (length (nodes ! k)) (pos + ncap) (drop ncap buf))"
  by pat_completeness auto
termination
  by (relation "measure (\<lambda>(nodes, cur, npos, ncap, pos, buf).
        length nodes - (case cur of None \<Rightarrow> 0 | Some i \<Rightarrow> i))")
    (auto simp: next_node_def split: if_splits)

declare write_loop.simps [simp del]

definition ByteArray_write :: "bytes \<Rightarrow> (bytearray, unit) call" where
  "ByteArray_write buf ba =
     (if buf = [] then (Inr (), ba) else
      case addCapacity (length buf) ba of
        (Inl e, ba) \<Rightarrow> (Inl e, ba)
      | (Inr _, ba) \<Rightarrow>
        if m_baseSize ba = 0 then (Inl Div_by_zero, ba) else
        case m_cur ba of None \<Rightarrow> (Inl Null_deref, ba)
        | Some i \<Rightarrow>
          let npos = m_position ba mod m_baseSize ba;
              ncap = length (m_nodes ba ! i) - npos
          in case write_loop (m_nodes ba) (m_cur ba) npos ncap (m_position ba) buf of
               Inl e \<Rightarrow> (Inl e, ba)
             | Inr (nodes, cur, pos) \<Rightarrow>
                 (Inr (), ba\<lparr>m_nodes := nodes, m_cur := cur, m_position := pos,
                    m_size := (if pos > m_size ba then pos else m_size ba)\<rparr>))"

text \<open>The copying loop of both \<open>read\<close>s; the bytes are returned instead of stored at \<open>buf\<close>.\<close>

function read_loop :: "bytes list \<Rightarrow> nat option \<Rightarrow> nat \<Rightarrow> nat \<Rightarrow> nat \<Rightarrow> nat \<Rightarrow>
    fault + bytes \<times> nat option \<times> nat" where
  "read_loop nodes cur npos ncap pos sz =
     (if sz = 0 then Inr ([], cur, pos) else
      case cur of None \<Rightarrow> Inl Null_deref
      | Some i \<Rightarrow>
        if ncap \<ge> sz then
          Inr (take sz (drop npos (nodes ! i)),
               if length (nodes ! i) = npos + sz then next_node nodes i else Some i,
               pos + sz)
        else
          case next_node nodes i of None \<Rightarrow> Inl Null_deref
          | Some k \<Rightarrow>
            (case read_loop nodes (Some k) 0 (length (nodes ! k)) (pos + ncap) (sz - ncap) of
               Inl e \<Rightarrow> Inl e
             | Inr (bs, cur', pos') \<Rightarrow> Inr (take ncap (drop npos (nodes ! i)) @ bs, cur', pos')))"
  by pat_completeness auto
termination
  by (relation "measure (\<lambda>(nodes, cur, npos, ncap, pos, sz).
        length nodes - (case cur of None \<Rightarrow> 0 | Some i \<Rightarrow> i))")
    (auto simp: next_node_def split: if_splits)

declare read_loop.simps [simp del]

definition not_enough_len :: fault where
  "not_enough_len = Out_of_range ''not enough len''"

definition ByteArray_read :: "nat \<Rightarrow> (bytearray, bytes) call" where
  "ByteArray_read sz ba =
     (if sz > getReadSize ba then (Inl not_enough_len, ba) else
      if m_baseSize ba = 0 then (Inl Div_by_zero, ba) else
      case m_cur ba of None \<Rightarrow> (Inl Null_deref, ba)
      | Some i \<Rightarrow>
        let npos = m_position ba mod m_baseSize ba;
            ncap = length (m_nodes ba ! i) - npos
        in case read_loop (m_nodes ba) (m_cur ba) npos ncap (m_position ba) sz of
             Inl e \<Rightarrow> (Inl e, ba)
           | Inr (bs, cur, pos) \<Rightarrow> (Inr bs, ba\<lparr>m_cur := cur, m_position := pos\<rparr>))"

text \<open>The \<open>const\<close> overload: it starts in the block \<open>m_cur\<close>, at \<open>position % m_baseSize\<close>.\<close>

definition ByteArray_read_at :: "nat \<Rightarrow> nat \<Rightarrow> bytearray \<Rightarrow> fault + bytes" where
  "ByteArray_read_at sz position ba =
     (if sz > getReadSize ba then Inl not_enough_len else
      if m_baseSize ba = 0 then Inl Div_by_zero else
      case m_cur ba of None \<Rightarrow> Inl Null_deref
      | Some i \<Rightarrow>
        let npos = position mod m_baseSize ba;
            ncap = length (m_nodes ba ! i) - npos
        in case read_loop (m_nodes ba) (m_cur ba) npos ncap position sz of
             Inl e \<Rightarrow> Inl e | Inr (bs, cur, pos) \<Rightarrow> Inr bs)"

section \<open>Position and clearing\<close>

text \<open>The search of \<open>setPosition\<close> along the chain; \<open>i\<close> is \<open>m_cur\<close>, never null on entry.\<close>

function seek_loop :: "bytes list \<Rightarrow> nat \<Rightarrow> nat \<Rightarrow> fault + nat option" where
  "seek_loop nodes i v =
     (if v > length (nodes ! i) then
        (case next_node nodes i of None \<Rightarrow> Inl Null_deref
         | Some k \<Rightarrow> seek_loop nodes k (v - length (nodes ! i)))
      else if v = length (nodes ! i) then Inr (next_node nodes i) else Inr (Some i))"
  by pat_completeness auto
termination
  by (relation "measure (\<lambda>(nodes, i, v). length nodes - i)")
    (auto simp: next_node_def split: if_splits)

declare seek_loop.simps [simp del]

definition setPosition :: "nat \<Rightarrow> (bytearray, unit) call" where
  "setPosition v ba =
     (if v > m_capacity ba then (Inl (Out_of_range ''set_position out of range''), ba) else
      let ba = ba\<lparr>m_position := v\<rparr>;
          ba = (if m_position ba > m_size ba then ba\<lparr>m_size := m_position ba\<rparr> else ba)
      in case seek_loop (m_nodes ba) 0 v of
           Inl e \<Rightarrow> (Inl e, ba)
         | Inr cur \<Rightarrow> (Inr (), ba\<lparr>m_cur := cur\<rparr>))"

definition ByteArray_clear :: "bytearray \<Rightarrow> bytearray" where
  "ByteArray_clear ba =
     ba\<lparr>m_position := 0, m_size := 0, m_capacity := m_baseSize ba,
        m_nodes := take 1 (m_nodes ba), m_cur := Some 0\<rparr>"

section \<open>Invariant\<close>

definition cur_of :: "nat \<Rightarrow> nat \<Rightarrow> nat \<Rightarrow> nat option" where
  "cur_of b k p = (if p < k * b then Some (p div b) else None)"

definition blocks :: "nat \<Rightarrow> bytes list \<Rightarrow> bool" where
  "blocks b nodes \<longleftrightarrow> (\<forall>n \<in> set nodes. length n = b)"

text \<open>
  The invariant of the class: all blocks have the base size, the capacity is what they
  hold, the position is within the written size and the size within the capacity, and
  \<open>m_cur\<close> is the block of the position, null exactly when the position is the capacity.
\<close>

definition ba_inv :: "bytearray \<Rightarrow> bool" where
  "ba_inv ba \<longleftrightarrow>
     0 < m_baseSize ba \<and> m_nodes ba \<noteq> [] \<and> blocks (m_baseSize ba) (m_nodes ba) \<and>
     m_capacity ba = length (m_nodes ba) * m_baseSize ba \<and>
     m_position ba \<le> m_size ba \<and> m_size ba \<le> m_capacity ba \<and>
     m_cur ba = cur_of (m_baseSize ba) (length (m_nodes ba)) (m_position ba)"

text \<open>The abstract content: the whole storage, the written part of it, and the unread part.\<close>

definition storage :: "bytearray \<Rightarrow> bytes" where
  "storage ba = concat (m_nodes ba)"

definition contents :: "bytearray \<Rightarrow> bytes" where
  "contents ba = take (m_size ba) (storage ba)"

definition unread :: "bytearray \<Rightarrow> bytes" where
  "unread ba = drop (m_position ba) (contents ba)"

lemma blocks_nth [simp]: "blocks b nodes \<Longrightarrow> i < length nodes \<Longrightarrow> length (nodes ! i) = b"
  by (auto simp: blocks_def)

lemma blocks_update:
  "blocks b nodes \<Longrightarrow> length x = b \<Longrightarrow> blocks b (nodes[i := x])"
  using set_update_subset_insert [of nodes i x] by (auto simp: blocks_def)

lemma blocks_append: "blocks b (xs @ ys) \<longleftrightarrow> blocks b xs \<and> blocks b ys"
  by (auto simp: blocks_def)

lemma length_storage: "ba_inv ba \<Longrightarrow> length (storage ba) = m_capacity ba"
  by (simp add: ba_inv_def storage_def blocks_def length_concat_uniform)

lemma length_unread: "ba_inv ba \<Longrightarrow> length (unread ba) = getReadSize ba"
  by (simp add: unread_def contents_def length_storage getReadSize_def ba_inv_def)

lemma cur_of_end:
  assumes "0 < b" "i < k" "n \<le> b" "0 < n"
  shows "(if b = n then (if Suc i < k then Some (Suc i) else None) else Some i) =
    cur_of b k (i * b + n)"
proof (cases "b = n")
  case True
  have "i * b + b < k * b \<longleftrightarrow> Suc i < k"
    using assms(1) by (metis add.commute mult_Suc mult_less_cancel2)
  then show ?thesis using True assms(1) by (simp add: cur_of_def)
next
  case False
  with assms have "n < b" by simp
  then have "i * b + n < Suc i * b" by simp
  also have "\<dots> \<le> k * b" using assms(2) by (metis Suc_leI mult_le_mono1)
  finally show ?thesis using False \<open>n < b\<close> by (simp add: cur_of_def)
qed

lemma next_block:
  assumes "b - npos < len" "npos \<le> b" "i * b + npos + len \<le> k * b"
  shows "Suc i < k"
proof (rule ccontr)
  assume "\<not> Suc i < k"
  then have "k * b \<le> Suc i * b" by (metis mult_le_mono1 not_less)
  with assms show False by simp
qed

section \<open>The copying loops\<close>

lemma write_loop_ok:
  assumes "0 < b" "blocks b nodes" "i < length nodes" "npos < b" "buf \<noteq> []"
    "i * b + npos + length buf \<le> length nodes * b"
  shows "\<exists>nodes'. write_loop nodes (Some i) npos (b - npos) pos buf =
      Inr (nodes', cur_of b (length nodes) (i * b + npos + length buf), pos + length buf) \<and>
    concat nodes' = overwrite (i * b + npos) buf (concat nodes) \<and>
    length nodes' = length nodes \<and> blocks b nodes'"
  using assms
proof (induction "length nodes - i" arbitrary: nodes i npos pos buf rule: less_induct)
  case less
  have upd: "concat (nodes[i := overwrite npos src (nodes ! i)]) =
      overwrite (i * b + npos) src (concat nodes)" if "npos + length src \<le> b" for src
    using less.prems that by (intro concat_update) (auto simp: blocks_def)
  show ?case
  proof (cases "length buf \<le> b - npos")
    case True
    then have "concat (nodes[i := overwrite npos buf (nodes ! i)]) =
        overwrite (i * b + npos) buf (concat nodes)"
      using less.prems by (intro upd) auto
    with True less.prems cur_of_end [of b i "length nodes" "npos + length buf"] show ?thesis
      by (subst write_loop.simps) (auto simp: next_node_def blocks_update add.assoc)
  next
    case False
    then have k: "Suc i < length nodes"
      using less.prems by (intro next_block [of b npos "length buf"]) auto
    let ?nodes = "nodes[i := overwrite npos (take (b - npos) buf) (nodes ! i)]"
    have len1: "length (take (b - npos) buf) = b - npos" using False by simp
    have bl: "blocks b ?nodes"
      using less.prems len1 by (intro blocks_update) auto
    have c1: "concat ?nodes = overwrite (i * b + npos) (take (b - npos) buf) (concat nodes)"
      using less.prems len1 by (intro upd) auto
    obtain nodes' where n': "write_loop ?nodes (Some (Suc i)) 0 (b - 0) (pos + (b - npos))
          (drop (b - npos) buf) =
        Inr (nodes', cur_of b (length ?nodes) (Suc i * b + 0 + length (drop (b - npos) buf)),
          pos + (b - npos) + length (drop (b - npos) buf))"
      "concat nodes' = overwrite (Suc i * b + 0) (drop (b - npos) buf) (concat ?nodes)"
      "length nodes' = length ?nodes" "blocks b nodes'"
      using less.hyps [of ?nodes "Suc i" 0 "drop (b - npos) buf" "pos + (b - npos)"]
        bl k False less.prems(1,4,6) by (auto simp: diff_less_mono2)
    have "length (concat nodes) = length nodes * b"
      using less.prems(2) by (intro length_concat_uniform) (simp add: blocks_def)
    then have "concat nodes' = overwrite (i * b + npos) buf (concat nodes)"
      using n'(2) c1 overwrite_split [of "i * b + npos" "take (b - npos) buf" "drop (b - npos) buf"
          "concat nodes"] len1 less.prems
      by (auto simp: add.commute add.left_commute)
    moreover have "Suc i * b + 0 + length (drop (b - npos) buf) = i * b + npos + length buf"
      "pos + (b - npos) + length (drop (b - npos) buf) = pos + length buf"
      using False less.prems(4) by auto
    ultimately show ?thesis
      using n' k False less.prems
      by (subst write_loop.simps) (auto simp: next_node_def add.assoc add.commute [of npos])
  qed
qed

lemma write_loop_overrun:
  assumes "0 < b" "blocks b nodes" "i < length nodes" "npos < b"
    "length nodes * b < i * b + npos + length buf"
  shows "write_loop nodes (Some i) npos (b - npos) pos buf = Inl Null_deref"
  using assms
proof (induction "length nodes - i" arbitrary: nodes i npos pos buf rule: less_induct)
  case less
  have "Suc i * b \<le> length nodes * b" using less.prems(3) by (intro mult_le_mono1) simp
  with less.prems have big: "b - npos < length buf" by simp
  let ?nodes = "nodes[i := overwrite npos (take (b - npos) buf) (nodes ! i)]"
  have bl: "blocks b ?nodes"
    using less.prems big by (intro blocks_update) auto
  have "write_loop ?nodes (Some (Suc i)) 0 (b - 0) (pos + (b - npos)) (drop (b - npos) buf) =
      Inl Null_deref" if "Suc i < length nodes"
    using less.hyps [of ?nodes "Suc i" 0 "drop (b - npos) buf" "pos + (b - npos)"]
      bl that big less.prems by auto
  with big less.prems show ?case
    by (subst write_loop.simps) (auto simp: next_node_def)
qed

lemma read_loop_ok:
  assumes "0 < b" "blocks b nodes" "i < length nodes" "npos < b"
    "i * b + npos + n \<le> length nodes * b"
  shows "read_loop nodes (Some i) npos (b - npos) pos n =
    Inr (take n (drop (i * b + npos) (concat nodes)),
      (if n = 0 then Some i else cur_of b (length nodes) (i * b + npos + n)), pos + n)"
  using assms
proof (induction "length nodes - i" arbitrary: i npos pos n rule: less_induct)
  case less
  have split: "drop (i * b + npos) (concat nodes) =
      drop npos (nodes ! i) @ drop (Suc i * b) (concat nodes)"
    using less.prems by (intro concat_block) (auto simp: blocks_def)
  show ?case
  proof (cases "n \<le> b - npos")
    case True
    with less.prems cur_of_end [of b i "length nodes" "npos + n"] show ?thesis
      by (subst read_loop.simps) (auto simp: next_node_def split add.assoc)
  next
    case False
    then have k: "Suc i < length nodes"
      using less.prems by (intro next_block [of b npos n]) auto
    define m where "m = n - (b - npos)"
    have m: "0 < m" "Suc i * b + 0 + m = i * b + npos + n" "pos + (b - npos) + m = pos + n"
      using False less.prems(4) by (auto simp: m_def)
    have "read_loop nodes (Some (Suc i)) 0 (b - 0) (pos + (b - npos)) m =
        Inr (take m (drop (Suc i * b + 0) (concat nodes)),
          (if m = 0 then Some (Suc i) else cur_of b (length nodes) (Suc i * b + 0 + m)),
          pos + (b - npos) + m)"
      using less.prems k m(2) by (intro less.hyps) auto
    then have rec: "read_loop nodes (Some (Suc i)) 0 b (pos + (b - npos)) (n - (b - npos)) =
        Inr (take (n - (b - npos)) (drop (Suc i * b) (concat nodes)),
          cur_of b (length nodes) (i * b + npos + n), pos + n)"
      unfolding m(2,3) using m(1) by (simp add: m_def)
    have "take n (drop (i * b + npos) (concat nodes)) =
        take (b - npos) (drop npos (nodes ! i)) @
        take (n - (b - npos)) (drop (Suc i * b) (concat nodes))"
      using False less.prems by (simp add: split)
    with rec k False less.prems show ?thesis
      by (subst read_loop.simps) (auto simp: next_node_def)
  qed
qed

lemma seek_loop_ok:
  assumes "0 < b" "blocks b nodes" "i < length nodes" "i * b + v \<le> length nodes * b"
  shows "seek_loop nodes i v = Inr (cur_of b (length nodes) (i * b + v))"
  using assms
proof (induction "length nodes - i" arbitrary: i v rule: less_induct)
  case less
  show ?case
  proof (cases "b < v")
    case True
    then have "Suc i < length nodes"
      using less.prems next_block [of b 0 v i "length nodes"] by simp
    then show ?thesis
      using True less.hyps [of "Suc i" "v - b"] less.prems
      by (subst seek_loop.simps) (simp add: next_node_def)
  next
    case False
    then consider "v = 0" | "0 < v" "v \<le> b" by linarith
    then show ?thesis
    proof cases
      case 1
      have "i * b < length nodes * b" using less.prems by simp
      then show ?thesis
        using 1 less.prems by (subst seek_loop.simps) (simp add: cur_of_def)
    next
      case 2
      then show ?thesis
        using cur_of_end [of b i "length nodes" v] less.prems
        by (subst seek_loop.simps) (auto simp: next_node_def)
    qed
  qed
qed

section \<open>Specification of the raw operations\<close>

text \<open>
  \<open>write_fits ba n\<close>: the blocks \<open>addCapacity\<close> appends are enough for \<open>n\<close> bytes. It
  rounds \<open>n - old_cap\<close> up to a block only when the remainder exceeds the room left
  before, so it can come out one block short.
\<close>

definition write_fits :: "bytearray \<Rightarrow> nat \<Rightarrow> bool" where
  "write_fits ba n \<longleftrightarrow>
     (let old_cap = getCapacity ba; r = (n - old_cap) mod m_baseSize ba
      in n \<le> old_cap \<or> r = 0 \<or> r > old_cap)"

definition grown :: "bytearray \<Rightarrow> nat \<Rightarrow> bytearray" where
  "grown ba n = snd (addCapacity n ba)"

lemma blocks_Node_new: "blocks s (map (\<lambda>i. Node_new f (g i) s) xs)"
  by (auto simp: blocks_def Node_new_def)

lemma addCapacity_ok: "ba_inv ba \<Longrightarrow> addCapacity n ba = (Inr (), grown ba n)"
  by (auto simp: grown_def addCapacity_def ba_inv_def Let_def)

lemma grown_frame [simp]:
  "m_baseSize (grown ba n) = m_baseSize ba" "m_position (grown ba n) = m_position ba"
  "m_size (grown ba n) = m_size ba" "m_endian (grown ba n) = m_endian ba"
  "alloc_fill (grown ba n) = alloc_fill ba"
  by (simp_all add: grown_def addCapacity_def Let_def)

lemma grown_count:
  assumes "ba_inv ba" "getCapacity ba < n"
  shows "\<exists>count. m_nodes (grown ba n) = m_nodes ba @ map (\<lambda>i. Node_new (alloc_fill ba)
      (m_capacity ba + i * m_baseSize ba) (m_baseSize ba)) [0..<count] \<and>
    m_capacity (grown ba n) = m_capacity ba + count * m_baseSize ba \<and>
    m_cur (grown ba n) = (if getCapacity ba = 0 then if count = 0 then None
      else Some (length (m_nodes ba)) else m_cur ba) \<and>
    count = (n - getCapacity ba) div m_baseSize ba +
      (if (n - getCapacity ba) mod m_baseSize ba > getCapacity ba then 1 else 0)"
  using assms by (auto simp: grown_def addCapacity_def ba_inv_def Let_def)

lemma grown_small: "n \<le> getCapacity ba \<Longrightarrow> grown ba n = ba"
  by (simp add: grown_def addCapacity_def Let_def)

lemma cur_of_grow:
  assumes "0 < b" "p \<le> k * b"
  shows "cur_of b (k + c) p =
    (if p = k * b then if c = 0 then None else Some k else cur_of b k p)"
proof (cases "p = k * b")
  case True
  have "k * b < (k + c) * b \<longleftrightarrow> c \<noteq> 0" using assms(1) by (simp add: add_mult_distrib)
  then show ?thesis using True assms(1) by (simp add: cur_of_def)
next
  case False
  with assms have "p < k * b" by simp
  moreover have "k * b \<le> (k + c) * b" by simp
  ultimately have "p < (k + c) * b" by linarith
  with \<open>p < k * b\<close> False show ?thesis by (simp add: cur_of_def)
qed

lemma grown_inv: 
  assumes "ba_inv ba"
  shows "ba_inv (grown ba n)" "\<exists>xs. storage (grown ba n) = storage ba @ xs"
proof -
  have "ba_inv (grown ba n) \<and> (\<exists>xs. storage (grown ba n) = storage ba @ xs)"
  proof (cases "n \<le> getCapacity ba")
    case True
    then show ?thesis using assms by (simp add: grown_small)
  next
    case False
    then obtain count where c:
      "m_nodes (grown ba n) = m_nodes ba @ map (\<lambda>i. Node_new (alloc_fill ba)
        (m_capacity ba + i * m_baseSize ba) (m_baseSize ba)) [0..<count]"
      "m_capacity (grown ba n) = m_capacity ba + count * m_baseSize ba"
      "m_cur (grown ba n) = (if getCapacity ba = 0 then if count = 0 then None
        else Some (length (m_nodes ba)) else m_cur ba)"
      using grown_count [OF assms, of n] by auto
    have "m_cur (grown ba n) =
        cur_of (m_baseSize ba) (length (m_nodes ba) + count) (m_position ba)"
      using assms c(3) cur_of_grow [of "m_baseSize ba" "m_position ba" "length (m_nodes ba)" count]
      by (auto simp: ba_inv_def getCapacity_def)
    with assms c show ?thesis
      by (auto simp: ba_inv_def storage_def blocks_append blocks_Node_new add_mult_distrib)
  qed
  then show "ba_inv (grown ba n)" "\<exists>xs. storage (grown ba n) = storage ba @ xs" by auto
qed

lemma grown_capacity:
  assumes "ba_inv ba"
  shows "write_fits ba n \<longleftrightarrow> m_position ba + n \<le> m_capacity (grown ba n)"
proof (cases "n \<le> getCapacity ba")
  case True
  with assms show ?thesis
    by (auto simp: grown_small write_fits_def getCapacity_def ba_inv_def Let_def)
next
  case False
  define b r q where "b = m_baseSize ba" and "r = (n - getCapacity ba) mod b"
    and "q = (n - getCapacity ba) div b"
  have b: "0 < b" "r < b" using assms by (auto simp: b_def r_def ba_inv_def)
  have n: "n = getCapacity ba + q * b + r"
    using False div_mult_mod_eq [of "n - getCapacity ba" b] by (simp add: q_def r_def)
  have cap: "m_capacity (grown ba n) = m_capacity ba + (q + (if r > getCapacity ba then 1 else 0)) * b"
    using grown_count [OF assms, of n] False by (auto simp: b_def r_def q_def)
  have pos: "m_position ba + getCapacity ba = m_capacity ba"
    using assms by (auto simp: getCapacity_def ba_inv_def)
  have "m_position ba + n \<le> m_capacity (grown ba n) \<longleftrightarrow>
      r \<le> (if r > getCapacity ba then b else 0)"
    unfolding cap using pos n by (auto simp: add_mult_distrib)
  also have "\<dots> \<longleftrightarrow> r = 0 \<or> r > getCapacity ba" using b by auto
  finally show ?thesis using False by (simp add: write_fits_def Let_def r_def b_def)
qed

lemma cur_of_Some_iff: "cur_of b k p = Some i \<longleftrightarrow> p < k * b \<and> i = p div b"
  by (auto simp: cur_of_def)

lemma cur_of_None_iff: "cur_of b k p = None \<longleftrightarrow> k * b \<le> p"
  by (auto simp: cur_of_def)

lemmas ba_arith = mod_div_bound [of "m_baseSize ba" "m_position ba" "length (m_nodes ba)" for ba]

text \<open>The state a write of \<open>buf\<close> leads to, in terms of the abstract content only.\<close>

definition written :: "bytearray \<Rightarrow> bytes \<Rightarrow> bytearray \<Rightarrow> bool" where
  "written ba buf ba' \<longleftrightarrow>
     ba_inv ba' \<and> m_baseSize ba' = m_baseSize ba \<and> m_endian ba' = m_endian ba \<and>
     m_position ba' = m_position ba + length buf \<and>
     m_size ba' = max (m_size ba) (m_position ba + length buf) \<and>
     m_capacity ba \<le> m_capacity ba' \<and>
     take (m_position ba) (storage ba') = take (m_position ba) (storage ba) \<and>
     take (length buf) (drop (m_position ba) (storage ba')) = buf \<and>
     drop (m_position ba + length buf) (contents ba') =
       drop (m_position ba + length buf) (contents ba)"

lemma write_grown:
  assumes inv: "ba_inv ba" and buf: "buf \<noteq> []"
    and fit: "m_position ba + length buf \<le> m_capacity ba"
  obtains ba' where "ba_inv ba'"
    "case write_loop (m_nodes ba) (m_cur ba) (m_position ba mod m_baseSize ba)
        (m_baseSize ba - m_position ba mod m_baseSize ba) (m_position ba) buf of
       Inl e \<Rightarrow> False
     | Inr (nodes, cur, pos) \<Rightarrow> ba' = ba\<lparr>m_nodes := nodes, m_cur := cur, m_position := pos,
         m_size := (if pos > m_size ba then pos else m_size ba)\<rparr>"
    "storage ba' = overwrite (m_position ba) buf (storage ba)"
    "m_position ba' = m_position ba + length buf"
    "m_size ba' = max (m_size ba) (m_position ba + length buf)"
proof -
  let ?b = "m_baseSize ba" and ?p = "m_position ba" and ?k = "length (m_nodes ba)"
  have b: "0 < ?b" and bl: "blocks ?b (m_nodes ba)" and cap: "m_capacity ba = ?k * ?b"
    and cur: "m_cur ba = cur_of ?b ?k ?p"
    using inv by (auto simp: ba_inv_def)
  from buf have "0 < length buf" by simp
  with fit cap have "?p < ?k * ?b" by linarith
  note ar = mod_div_bound [OF b this]
  have c: "m_cur ba = Some (?p div ?b)" using cur \<open>?p < ?k * ?b\<close> by (simp add: cur_of_def)
  obtain nodes' where n': "write_loop (m_nodes ba) (Some (?p div ?b)) (?p mod ?b) (?b - ?p mod ?b) ?p buf =
      Inr (nodes', cur_of ?b ?k (?p + length buf), ?p + length buf)"
    "concat nodes' = overwrite ?p buf (concat (m_nodes ba))" "length nodes' = ?k" "blocks ?b nodes'"
    using write_loop_ok [OF b bl ar(1) ar(3) buf, of ?p] fit cap ar(2) by auto
  show ?thesis
    by (rule that [of "ba\<lparr>m_nodes := nodes', m_cur := cur_of ?b ?k (?p + length buf),
          m_position := ?p + length buf,
          m_size := (if ?p + length buf > m_size ba then ?p + length buf else m_size ba)\<rparr>"])
      (use n' c inv fit cap in \<open>auto simp: ba_inv_def storage_def\<close>)
qed

lemma overwrite_contents:
  assumes "p \<le> s" "p + length buf \<le> length xs" "s \<le> length xs"
  shows "drop (p + length buf) (take (max s (p + length buf)) (overwrite p buf xs)) =
    drop (p + length buf) (take s xs)"
  using assms by (cases "s \<le> p + length buf") (auto simp: overwrite_def max_def drop_take)

lemma written_grown:
  assumes inv: "ba_inv ba" and inv': "ba_inv ba'" and fit: "m_position ba + length buf \<le> m_capacity (grown ba n)"
    and st: "storage ba' = overwrite (m_position ba) buf (storage (grown ba n))"
    and fr: "m_baseSize ba' = m_baseSize ba" "m_endian ba' = m_endian ba" "m_position ba' = m_position ba + length buf"
      "m_size ba' = max (m_size ba) (m_position ba + length buf)"
  shows "written ba buf ba'"
proof -
  let ?g = "grown ba n"
  have g: "ba_inv ?g" by (rule grown_inv(1) [OF inv])
  obtain xs where xs: "storage ?g = storage ba @ xs" using grown_inv(2) [OF inv] by blast
  have len: "length (storage ?g) = m_capacity ?g" by (rule length_storage [OF g])
  have sz: "m_position ba \<le> m_size ba" "m_size ba \<le> length (storage ba)"
    using inv by (auto simp: ba_inv_def length_storage [OF inv])
  have "drop (m_position ba + length buf) (contents ba') =
      drop (m_position ba + length buf) (take (m_size ba) (storage ?g))"
    unfolding contents_def st fr by (rule overwrite_contents) (use sz fit len xs in auto)
  also have "take (m_size ba) (storage ?g) = contents ba"
    using sz by (simp add: xs contents_def)
  finally have dr: "drop (m_position ba + length buf) (contents ba') =
      drop (m_position ba + length buf) (contents ba)" .
  have tk: "take (m_position ba) (storage ba') = take (m_position ba) (storage ba)"
    using fit len sz by (simp add: st overwrite_take xs)
  have mid: "take (length buf) (drop (m_position ba) (storage ba')) = buf"
    using fit len overwrite_read [of "m_position ba" buf "storage ?g"] by (simp add: st)
  have "length (storage ba') = length (storage ?g)" using fit len by (simp add: st)
  then have "m_capacity ba \<le> m_capacity ba'"
    using len length_storage [OF inv] by (simp add: xs length_storage [OF inv'])
  then show ?thesis using inv' dr tk mid fr by (simp add: written_def)
qed

lemma write_spec:
  assumes inv: "ba_inv ba" and fit: "write_fits ba (length buf)"
  shows "\<exists>ba'. ByteArray_write buf ba = (Inr (), ba') \<and> written ba buf ba'"
proof (cases "buf = []")
  case True
  then show ?thesis
    using inv by (auto simp: ByteArray_write_def written_def max_def ba_inv_def)
next
  case False
  let ?g = "grown ba (length buf)"
  have g: "ba_inv ?g" by (rule grown_inv(1) [OF inv])
  have fit': "m_position ?g + length buf \<le> m_capacity ?g"
    using fit grown_capacity [OF inv] by simp
  obtain ba' where ba': "ba_inv ba'"
    "case write_loop (m_nodes ?g) (m_cur ?g) (m_position ?g mod m_baseSize ?g)
        (m_baseSize ?g - m_position ?g mod m_baseSize ?g) (m_position ?g) buf of
       Inl e \<Rightarrow> False
     | Inr (nodes, cur, pos) \<Rightarrow> ba' = ?g\<lparr>m_nodes := nodes, m_cur := cur, m_position := pos,
         m_size := (if pos > m_size ?g then pos else m_size ?g)\<rparr>"
    "storage ba' = overwrite (m_position ?g) buf (storage ?g)"
    "m_position ba' = m_position ?g + length buf"
    "m_size ba' = max (m_size ?g) (m_position ?g + length buf)"
    by (rule write_grown [OF g False fit'])
  have "0 < length buf" using False by simp
  with fit' have "m_position ?g < m_capacity ?g" by linarith
  then have lt: "m_position ?g < length (m_nodes ?g) * m_baseSize ?g" and b: "0 < m_baseSize ?g"
    using g by (auto simp: ba_inv_def)
  then have cur: "m_cur ?g = Some (m_position ?g div m_baseSize ?g)"
    using g by (simp add: ba_inv_def cur_of_def)
  have nd: "length (m_nodes ?g ! (m_position ?g div m_baseSize ?g)) = m_baseSize ?g"
    using g mod_div_bound(1) [OF b lt] by (auto simp: ba_inv_def)
  have w: "ByteArray_write buf ba = (Inr (), ba')"
    using ba'(2) cur nd b False addCapacity_ok [OF inv, of "length buf"]
    by (auto simp: ByteArray_write_def Let_def split: sum.splits)
  have "written ba buf ba'"
    by (rule written_grown [OF inv ba'(1), where n = "length buf"])
      (use ba' fit' in \<open>auto split: sum.splits\<close>)
  with w show ?thesis by blast
qed

lemma written_contents:
  assumes inv: "ba_inv ba" and w: "written ba buf ba'"
  shows "contents ba' =
    take (m_position ba) (contents ba) @ buf @ drop (m_position ba + length buf) (contents ba)"
proof -
  have inv': "ba_inv ba'" using w by (simp add: written_def)
  note st = length_storage [OF inv] length_storage [OF inv']
  have bd: "m_size ba' \<le> m_capacity ba'" "m_position ba \<le> m_size ba" "m_size ba \<le> m_capacity ba"
    using inv inv' by (simp_all add: ba_inv_def)
  have sz: "m_position ba + length buf \<le> m_size ba'" "m_size ba' \<le> length (storage ba')"
      "m_position ba \<le> m_size ba" "m_size ba \<le> length (storage ba)"
    using bd w unfolding st by (auto simp: written_def)
  have "contents ba' = take (m_position ba) (contents ba') @
      take (length buf) (drop (m_position ba) (contents ba')) @
      drop (m_position ba + length buf) (contents ba')"
    by (metis append_take_drop_id drop_drop add.commute)
  moreover have "take (m_position ba) (contents ba') = take (m_position ba) (contents ba)"
    using sz w by (simp add: contents_def written_def min_absorb1)
  moreover have "take (length buf) (drop (m_position ba) (contents ba')) = buf"
    using sz w by (simp add: contents_def written_def drop_take min_absorb1)
  ultimately show ?thesis using w by (simp add: written_def)
qed

lemma write_overrun:
  assumes inv: "ba_inv ba" and nofit: "\<not> write_fits ba (length buf)"
  shows "fst (ByteArray_write buf ba) = Inl Null_deref"
proof -
  let ?g = "grown ba (length buf)"
  have g: "ba_inv ?g" by (rule grown_inv(1) [OF inv])
  have over: "m_capacity ?g < m_position ?g + length buf"
    using nofit grown_capacity [OF inv] by simp
  have big: "getCapacity ba < length buf" "getCapacity ba \<noteq> 0"
    using nofit by (auto simp: write_fits_def Let_def)
  then have buf: "buf \<noteq> []" and "m_position ba < m_capacity ba"
    by (auto simp: getCapacity_def)
  moreover obtain xs where "storage ?g = storage ba @ xs" using grown_inv(2) [OF inv] by blast
  then have "m_capacity ba \<le> m_capacity ?g"
    by (metis length_storage [OF inv] length_storage [OF g] length_append le_add1)
  ultimately have lt: "m_position ?g < length (m_nodes ?g) * m_baseSize ?g" and b: "0 < m_baseSize ?g"
    using g by (auto simp: ba_inv_def)
  note ar = mod_div_bound [OF b lt]
  have cur: "m_cur ?g = Some (m_position ?g div m_baseSize ?g)" and bl: "blocks (m_baseSize ?g) (m_nodes ?g)"
    using g lt by (auto simp: ba_inv_def cur_of_def)
  have "write_loop (m_nodes ?g) (Some (m_position ?g div m_baseSize ?g))
      (m_position ?g mod m_baseSize ?g) (m_baseSize ?g - m_position ?g mod m_baseSize ?g)
      (m_position ?g) buf = Inl Null_deref"
    using over g ar(2)
    by (intro write_loop_overrun [OF b bl ar(1) ar(3)]) (auto simp: ba_inv_def)
  then show ?thesis
    using cur b buf bl ar(1) addCapacity_ok [OF inv, of "length buf"]
    by (auto simp: ByteArray_write_def Let_def)
qed

text \<open>The buffer with its position moved to \<open>v\<close>: what a read or a seek leaves behind.\<close>

definition at_pos :: "bytearray \<Rightarrow> nat \<Rightarrow> bytearray" where
  "at_pos ba v = ba\<lparr>m_position := v, m_size := max (m_size ba) v,
     m_cur := cur_of (m_baseSize ba) (length (m_nodes ba)) v\<rparr>"

lemma at_pos_frame [simp]:
  "m_baseSize (at_pos ba v) = m_baseSize ba" "m_position (at_pos ba v) = v"
  "m_nodes (at_pos ba v) = m_nodes ba" "m_endian (at_pos ba v) = m_endian ba"
  "m_capacity (at_pos ba v) = m_capacity ba" "m_size (at_pos ba v) = max (m_size ba) v"
  "storage (at_pos ba v) = storage ba"
  by (simp_all add: at_pos_def storage_def)

lemma at_pos_inv: "ba_inv ba \<Longrightarrow> v \<le> m_capacity ba \<Longrightarrow> ba_inv (at_pos ba v)"
  by (auto simp: ba_inv_def at_pos_def)

lemma at_pos_at_pos [simp]: "v \<le> m_size ba \<Longrightarrow> w \<le> m_size ba \<Longrightarrow> at_pos (at_pos ba v) w = at_pos ba w"
  by (simp add: at_pos_def max_absorb1)

lemma at_pos_self: "ba_inv ba \<Longrightarrow> at_pos ba (m_position ba) = ba"
  by (simp add: at_pos_def ba_inv_def max_absorb1)

lemma setPosition_spec:
  assumes "ba_inv ba" "v \<le> m_capacity ba"
  shows "setPosition v ba = (Inr (), at_pos ba v)"
proof -
  have "seek_loop (m_nodes ba) 0 v = Inr (cur_of (m_baseSize ba) (length (m_nodes ba)) (0 * m_baseSize ba + v))"
    by (rule seek_loop_ok) (use assms in \<open>auto simp: ba_inv_def\<close>)
  with assms show ?thesis
    by (auto simp: setPosition_def Let_def at_pos_def max_def)
qed

lemma read_short: "getReadSize ba < n \<Longrightarrow> ByteArray_read n ba = (Inl not_enough_len, ba)"
  by (simp add: ByteArray_read_def)

lemma read_null:
  assumes "ba_inv ba" "m_position ba = m_capacity ba"
  shows "ByteArray_read 0 ba = (Inl Null_deref, ba)"
proof -
  have "m_cur ba = None" using assms by (simp add: ba_inv_def cur_of_None_iff)
  with assms show ?thesis by (simp add: ByteArray_read_def ba_inv_def)
qed

lemma read_loop_cur:
  assumes inv: "ba_inv ba" and n: "m_position ba + n \<le> m_capacity ba" "m_position ba < m_capacity ba"
  shows "read_loop (m_nodes ba) (m_cur ba) (m_position ba mod m_baseSize ba)
      (m_baseSize ba - m_position ba mod m_baseSize ba) q n =
    Inr (take n (drop (m_position ba) (storage ba)),
      cur_of (m_baseSize ba) (length (m_nodes ba)) (m_position ba + n), q + n)"
proof -
  have b: "0 < m_baseSize ba" and bl: "blocks (m_baseSize ba) (m_nodes ba)"
    and lt: "m_position ba < length (m_nodes ba) * m_baseSize ba"
    using inv n by (auto simp: ba_inv_def)
  note ar = mod_div_bound [OF b lt]
  have "m_cur ba = Some (m_position ba div m_baseSize ba)"
    using inv lt by (simp add: ba_inv_def cur_of_def)
  then show ?thesis
    using read_loop_ok [OF b bl ar(1) ar(3), of n q] ar(2) n lt inv
    by (auto simp: ba_inv_def storage_def cur_of_def)
qed

lemma cur_block:
  assumes "ba_inv ba" "m_position ba < m_capacity ba"
  obtains i where "m_cur ba = Some i" "length (m_nodes ba ! i) = m_baseSize ba"
proof -
  have b: "0 < m_baseSize ba" and lt: "m_position ba < length (m_nodes ba) * m_baseSize ba"
    using assms by (auto simp: ba_inv_def)
  then show ?thesis
    using that [of "m_position ba div m_baseSize ba"] assms mod_div_bound(1) [OF b lt]
    by (auto simp: ba_inv_def cur_of_def)
qed

lemma base_pos: "ba_inv ba \<Longrightarrow> 0 < m_baseSize ba"
  by (simp add: ba_inv_def)

lemma take_unread:
  "n \<le> getReadSize ba \<Longrightarrow> take n (unread ba) = take n (drop (m_position ba) (storage ba))"
  by (simp add: unread_def contents_def getReadSize_def drop_take)

lemma read_spec:
  assumes inv: "ba_inv ba" and n: "n \<le> getReadSize ba" "m_position ba < m_capacity ba"
  shows "ByteArray_read n ba = (Inr (take n (unread ba)), at_pos ba (m_position ba + n))"
proof -
  obtain i where "m_cur ba = Some i" "length (m_nodes ba ! i) = m_baseSize ba"
    by (rule cur_block [OF inv n(2)])
  moreover have "m_position ba + n \<le> m_capacity ba"
    using inv n by (auto simp: ba_inv_def getReadSize_def)
  moreover have "max (m_size ba) (m_position ba + n) = m_size ba"
    using inv n by (auto simp: ba_inv_def getReadSize_def)
  ultimately show ?thesis
    using read_loop_cur [OF inv _ n(2), of n] n base_pos [OF inv]
    by (simp add: ByteArray_read_def Let_def take_unread at_pos_def)
qed

lemma read_pos_room: "ba_inv ba \<Longrightarrow> 0 < n \<Longrightarrow> n \<le> getReadSize ba \<Longrightarrow> m_position ba < m_capacity ba"
  by (auto simp: ba_inv_def getReadSize_def)

lemma read_at_position:
  assumes inv: "ba_inv ba" and n: "n \<le> getReadSize ba" "m_position ba < m_capacity ba"
  shows "ByteArray_read_at n (m_position ba) ba = Inr (take n (unread ba))"
proof -
  obtain i where "m_cur ba = Some i" "length (m_nodes ba ! i) = m_baseSize ba"
    by (rule cur_block [OF inv n(2)])
  moreover have "m_position ba + n \<le> m_capacity ba"
    using inv n by (auto simp: ba_inv_def getReadSize_def)
  ultimately show ?thesis
    using read_loop_cur [OF inv _ n(2), of n] n base_pos [OF inv]
    by (simp add: ByteArray_read_at_def Let_def take_unread)
qed

section \<open>The invariant is kept\<close>

lemma new_inv: "0 < b \<Longrightarrow> ba_inv (ByteArray_new fill b)"
  by (simp add: ba_inv_def ByteArray_new_def blocks_def Node_new_def cur_of_def)

lemma clear_inv: "ba_inv ba \<Longrightarrow> ba_inv (ByteArray_clear ba) \<and> contents (ByteArray_clear ba) = []"
  by (cases "m_nodes ba")
    (auto simp: ba_inv_def ByteArray_clear_def blocks_def cur_of_def contents_def)

lemma endian_inv: "ba_inv (setIsLittleEndian v ba) = ba_inv ba"
  by (simp add: ba_inv_def setIsLittleEndian_def)

text \<open>
  After a seek back to where a write began, the written bytes are the first to be read.
\<close>

lemma written_back:
  assumes w: "written ba buf ba'"
  shows "m_position ba \<le> m_capacity ba'"
    "unread (at_pos ba' (m_position ba)) = buf @ unread ba'"
    "m_size (at_pos ba' (m_position ba)) = m_size ba'"
proof -
  have inv: "ba_inv ba'" and pos: "m_position ba' = m_position ba + length buf"
    and sz: "m_size ba' = max (m_size ba) (m_position ba + length buf)"
    and mid: "take (length buf) (drop (m_position ba) (storage ba')) = buf"
    using w by (auto simp: written_def)
  have le: "m_position ba \<le> m_size ba'" "m_size ba' \<le> length (storage ba')"
    using inv pos by (auto simp: ba_inv_def length_storage)
  then show "m_position ba \<le> m_capacity ba'" using inv by (auto simp: ba_inv_def)
  show "m_size (at_pos ba' (m_position ba)) = m_size ba'" using le by simp
  have "unread (at_pos ba' (m_position ba)) =
      take (m_size ba' - m_position ba) (drop (m_position ba) (storage ba'))"
    using le by (simp add: unread_def contents_def drop_take max_absorb1)
  also have "\<dots> = take (length buf) (drop (m_position ba) (storage ba')) @
      take (m_size ba' - m_position ba - length buf)
        (drop (length buf) (drop (m_position ba) (storage ba')))"
    using sz by (intro take_split) simp
  also have "\<dots> = buf @ unread ba'"
    by (simp add: mid unread_def contents_def drop_take pos add.commute)
  finally show "unread (at_pos ba' (m_position ba)) = buf @ unread ba'" .
qed

end
