(* ===== verification/Bytearray_Codec.thy ===== *)
theory Bytearray_Codec
  imports Bytearray
begin

text \<open>
  The typed writers and readers of the byte buffer (\<open>sylar/bytearray.cc\<close>): fixed-width
  integers in the byte order of the buffer, the zigzag code and the base-128 varints,
  floating-point numbers by their bit patterns, and the five string formats.

  Signed integers are words too (\<open>sint\<close> reads them). C++ strings are byte lists.
  The codecs are proved against an interface of a byte buffer, the locale
  \<open>byte_buffer\<close>, which the buffer of \<open>Bytearray\<close> implements; that no allocation of
  \<open>std::string::resize\<close> fails is taken for granted.
\<close>

section \<open>Fixed-width integers\<close>

definition writeFint8 :: "u8 \<Rightarrow> (bytearray, unit) call" where
  "writeFint8 value = ByteArray_write [value]"

definition writeFuint8 :: "u8 \<Rightarrow> (bytearray, unit) call" where
  "writeFuint8 value = ByteArray_write [value]"

definition writeFint16 :: "endian \<Rightarrow> u16 \<Rightarrow> (bytearray, unit) call" where
  "writeFint16 host value ba =
     (let value = (if m_endian ba \<noteq> host then byteswap16 value else value)
      in ByteArray_write (mem_bytes host 2 value) ba)"

definition writeFuint16 :: "endian \<Rightarrow> u16 \<Rightarrow> (bytearray, unit) call" where
  "writeFuint16 host value ba =
     (let value = (if m_endian ba \<noteq> host then byteswap16 value else value)
      in ByteArray_write (mem_bytes host 2 value) ba)"

definition writeFint32 :: "endian \<Rightarrow> u32 \<Rightarrow> (bytearray, unit) call" where
  "writeFint32 host value ba =
     (let value = (if m_endian ba \<noteq> host then byteswap32 value else value)
      in ByteArray_write (mem_bytes host 4 value) ba)"

definition writeFuint32 :: "endian \<Rightarrow> u32 \<Rightarrow> (bytearray, unit) call" where
  "writeFuint32 host value ba =
     (let value = (if m_endian ba \<noteq> host then byteswap32 value else value)
      in ByteArray_write (mem_bytes host 4 value) ba)"

definition writeFint64 :: "endian \<Rightarrow> u64 \<Rightarrow> (bytearray, unit) call" where
  "writeFint64 host value ba =
     (let value = (if m_endian ba \<noteq> host then byteswap64 value else value)
      in ByteArray_write (mem_bytes host 8 value) ba)"

definition writeFuint64 :: "endian \<Rightarrow> u64 \<Rightarrow> (bytearray, unit) call" where
  "writeFuint64 host value ba =
     (let value = (if m_endian ba \<noteq> host then byteswap64 value else value)
      in ByteArray_write (mem_bytes host 8 value) ba)"

definition readFint8 :: "(bytearray, u8) call" where
  "readFint8 = seqc (ByteArray_read 1) (\<lambda>bs. ret (hd bs))"

definition readFuint8 :: "(bytearray, u8) call" where
  "readFuint8 = seqc (ByteArray_read 1) (\<lambda>bs. ret (hd bs))"

text \<open>The body the macro \<open>XX(type)\<close> gives the readers of 2, 4 and 8 bytes.\<close>

definition readF_XX :: "endian \<Rightarrow> nat \<Rightarrow> ('a::len word \<Rightarrow> 'a word) \<Rightarrow> (bytearray, 'a word) call" where
  "readF_XX host n swap = seqc (ByteArray_read n) (\<lambda>bs ba.
     let v = mem_value host bs
     in (Inr (if m_endian ba = host then v else swap v), ba))"

definition readFint16 :: "endian \<Rightarrow> (bytearray, u16) call" where
  "readFint16 host = readF_XX host 2 byteswap16"

definition readFuint16 :: "endian \<Rightarrow> (bytearray, u16) call" where
  "readFuint16 host = readF_XX host 2 byteswap16"

definition readFint32 :: "endian \<Rightarrow> (bytearray, u32) call" where
  "readFint32 host = readF_XX host 4 byteswap32"

definition readFuint32 :: "endian \<Rightarrow> (bytearray, u32) call" where
  "readFuint32 host = readF_XX host 4 byteswap32"

definition readFint64 :: "endian \<Rightarrow> (bytearray, u64) call" where
  "readFint64 host = readF_XX host 8 byteswap64"

definition readFuint64 :: "endian \<Rightarrow> (bytearray, u64) call" where
  "readFuint64 host = readF_XX host 8 byteswap64"

section \<open>Zigzag and varint\<close>

text \<open>
  The signed operations \<open>-v\<close> and \<open>v * 2\<close> are taken at their two's complement values;
  \<open>zigzag_overflows\<close> says for which arguments they leave the range of the type, which
  the C++ standard leaves undefined.
\<close>

definition EncodeZigzag32 :: "u32 \<Rightarrow> u32" where
  "EncodeZigzag32 v = (if sint v < 0 then (- v) * 2 - 1 else v * 2)"

definition EncodeZigzag64 :: "u64 \<Rightarrow> u64" where
  "EncodeZigzag64 v = (if sint v < 0 then (- v) * 2 - 1 else v * 2)"

definition zigzag_overflows :: "nat \<Rightarrow> int \<Rightarrow> bool" where
  "zigzag_overflows bits v \<longleftrightarrow> v = - (2 ^ (bits - 1)) \<or> 2 ^ (bits - 1) \<le> 2 * v"

definition DecodeZigzag32 :: "u32 \<Rightarrow> u32" where
  "DecodeZigzag32 v = drop_bit 1 v XOR - (v AND 1)"

definition DecodeZigzag64 :: "u64 \<Rightarrow> u64" where
  "DecodeZigzag64 v = drop_bit 1 v XOR - (v AND 1)"

text \<open>
  The loop of \<open>writeUint32\<close> and \<open>writeUint64\<close>: the bytes it leaves in \<open>tmp\<close>. That they
  fit the arrays of 5 and 10 bytes is a theorem below.
\<close>

function varint_bytes :: "'a::len word \<Rightarrow> bytes" where
  "varint_bytes value =
     (if unat value \<ge> 0x80
      then (ucast (value AND 0x7F) OR 0x80) # varint_bytes (drop_bit 7 value)
      else [ucast value])"
  by pat_completeness auto
termination
proof (relation "measure unat", simp)
  fix w :: "'b::len word"
  assume "0x80 \<le> unat w"
  then have "drop_bit 7 (unat w) < unat w"
    by (simp add: drop_bit_eq_div)
  then show "(drop_bit 7 w, w) \<in> measure unat"
    by (simp add: unat_drop_bit_eq)
qed

declare varint_bytes.simps [simp del]

definition writeUint32 :: "u32 \<Rightarrow> (bytearray, unit) call" where
  "writeUint32 value = ByteArray_write (varint_bytes value)"

definition writeInt32 :: "u32 \<Rightarrow> (bytearray, unit) call" where
  "writeInt32 value = writeUint32 (EncodeZigzag32 value)"

definition writeUint64 :: "u64 \<Rightarrow> (bytearray, unit) call" where
  "writeUint64 value = ByteArray_write (varint_bytes value)"

definition writeInt64 :: "u64 \<Rightarrow> (bytearray, unit) call" where
  "writeInt64 value = writeUint64 (EncodeZigzag64 value)"

function readUint_loop :: "nat \<Rightarrow> nat \<Rightarrow> 'a::len word \<Rightarrow> (bytearray, 'a word) call" where
  "readUint_loop bits i result =
     (if i < bits then
        seqc readFuint8 (\<lambda>b.
          if b < 0x80 then ret (result OR push_bit i (ucast b))
          else readUint_loop bits (i + 7) (result OR push_bit i (ucast (b AND 0x7f))))
      else ret result)"
  by pat_completeness auto
termination
  by (relation "measure (\<lambda>(bits, i, result). bits - i)") auto

declare readUint_loop.simps [simp del]

definition readUint32 :: "(bytearray, u32) call" where
  "readUint32 = readUint_loop 32 0 0"

definition readInt32 :: "(bytearray, u32) call" where
  "readInt32 = seqc readUint32 (\<lambda>v. ret (DecodeZigzag32 v))"

definition readUint64 :: "(bytearray, u64) call" where
  "readUint64 = readUint_loop 64 0 0"

definition readInt64 :: "(bytearray, u64) call" where
  "readInt64 = seqc readUint64 (\<lambda>v. ret (DecodeZigzag64 v))"

section \<open>Floating-point numbers and strings\<close>

text \<open>A \<open>float\<close> or a \<open>double\<close> is its bit pattern, which is all the code touches.\<close>

definition writeFloat :: "endian \<Rightarrow> u32 \<Rightarrow> (bytearray, unit) call" where
  "writeFloat host value = writeFuint32 host value"

definition writeDouble :: "endian \<Rightarrow> u64 \<Rightarrow> (bytearray, unit) call" where
  "writeDouble host value = writeFuint64 host value"

definition readFloat :: "endian \<Rightarrow> (bytearray, u32) call" where
  "readFloat host = readFuint32 host"

definition readDouble :: "endian \<Rightarrow> (bytearray, u64) call" where
  "readDouble host = readFuint64 host"

definition writeStringF16 :: "endian \<Rightarrow> bytes \<Rightarrow> (bytearray, unit) call" where
  "writeStringF16 host value =
     seqc (writeFuint16 host (of_nat (length value))) (\<lambda>_. ByteArray_write value)"

definition writeStringF32 :: "endian \<Rightarrow> bytes \<Rightarrow> (bytearray, unit) call" where
  "writeStringF32 host value =
     seqc (writeFuint32 host (of_nat (length value))) (\<lambda>_. ByteArray_write value)"

definition writeStringF64 :: "endian \<Rightarrow> bytes \<Rightarrow> (bytearray, unit) call" where
  "writeStringF64 host value =
     seqc (writeFuint64 host (of_nat (length value))) (\<lambda>_. ByteArray_write value)"

definition writeStringVint :: "bytes \<Rightarrow> (bytearray, unit) call" where
  "writeStringVint value =
     seqc (writeUint64 (of_nat (length value))) (\<lambda>_. ByteArray_write value)"

definition writeStringWithoutLength :: "bytes \<Rightarrow> (bytearray, unit) call" where
  "writeStringWithoutLength value = ByteArray_write value"

definition readStringF16 :: "endian \<Rightarrow> (bytearray, bytes) call" where
  "readStringF16 host = seqc (readFuint16 host) (\<lambda>len. ByteArray_read (unat len))"

definition readStringF32 :: "endian \<Rightarrow> (bytearray, bytes) call" where
  "readStringF32 host = seqc (readFuint32 host) (\<lambda>len. ByteArray_read (unat len))"

definition readStringF64 :: "endian \<Rightarrow> (bytearray, bytes) call" where
  "readStringF64 host = seqc (readFuint64 host) (\<lambda>len. ByteArray_read (unat len))"

definition readStringVint :: "(bytearray, bytes) call" where
  "readStringVint = seqc readUint64 (\<lambda>len. ByteArray_read (unat len))"

section \<open>The interface of a byte buffer\<close>

text \<open>
  What the codecs need of a buffer: a write that returned appended its bytes at the
  position (\<open>wrote\<close>), writes in sequence append the concatenation, going back to where
  the writes began (\<open>rewind\<close>) makes the written bytes the first ones available, and a read
  of at least one byte takes the first available ones. \<open>room\<close> is enough for a write to
  return.
\<close>

locale byte_buffer =
  fixes wr :: "bytes \<Rightarrow> ('s, unit) call"
    and rd :: "nat \<Rightarrow> ('s, bytes) call"
    and inv :: "'s \<Rightarrow> bool"
    and room :: "'s \<Rightarrow> nat"
    and avail :: "'s \<Rightarrow> bytes"
    and ord :: "'s \<Rightarrow> endian"
    and wrote :: "'s \<Rightarrow> bytes \<Rightarrow> 's \<Rightarrow> bool"
    and rewind :: "'s \<Rightarrow> 's \<Rightarrow> 's"
  assumes wr_wrote: "inv s \<Longrightarrow> wr bs s = (Inr (), s') \<Longrightarrow> wrote s bs s'"
    and wr_room: "inv s \<Longrightarrow> length bs \<le> room s \<Longrightarrow> \<exists>s'. wr bs s = (Inr (), s')"
    and wrote_inv: "wrote s bs s' \<Longrightarrow> inv s'"
    and wrote_ord: "wrote s bs s' \<Longrightarrow> ord s' = ord s"
    and wrote_room: "wrote s bs s' \<Longrightarrow> room s \<le> room s' + length bs"
    and wrote_trans: "inv s \<Longrightarrow> wrote s a s1 \<Longrightarrow> wrote s1 b s2 \<Longrightarrow> wrote s (a @ b) s2"
    and rewind_inv: "inv s \<Longrightarrow> wrote s bs s' \<Longrightarrow> inv (rewind s s')"
    and rewind_ord: "inv s \<Longrightarrow> wrote s bs s' \<Longrightarrow> ord (rewind s s') = ord s"
    and rewind_avail: "inv s \<Longrightarrow> wrote s bs s' \<Longrightarrow> avail (rewind s s') = bs @ avail s'"
    and rd_ok: "inv s \<Longrightarrow> 0 < n \<Longrightarrow> n \<le> length (avail s) \<Longrightarrow>
      \<exists>s'. rd n s = (Inr (take n (avail s)), s') \<and> inv s' \<and>
        avail s' = drop n (avail s) \<and> ord s' = ord s"
    and rd_short: "length (avail s) < n \<Longrightarrow> inv s \<Longrightarrow> rd n s = (Inl not_enough_len, s)"
begin

text \<open>A writer emits \<open>bs\<close> in order \<open>en\<close>; a reader consumes \<open>bs\<close> and returns \<open>a\<close>.\<close>

definition emits :: "endian \<Rightarrow> ('s, unit) call \<Rightarrow> bytes \<Rightarrow> bool" where
  "emits en m bs \<longleftrightarrow> (\<forall>s. inv s \<longrightarrow> ord s = en \<longrightarrow>
     (\<forall>s'. m s = (Inr (), s') \<longrightarrow> wrote s bs s') \<and>
     (length bs \<le> room s \<longrightarrow> (\<exists>s'. m s = (Inr (), s'))))"

definition reads :: "endian \<Rightarrow> ('s, 'a) call \<Rightarrow> bytes \<Rightarrow> 'a \<Rightarrow> bool" where
  "reads en m bs a \<longleftrightarrow> (\<forall>s rest. inv s \<longrightarrow> ord s = en \<longrightarrow> avail s = bs @ rest \<longrightarrow>
     (\<exists>s'. m s = (Inr a, s') \<and> inv s' \<and> avail s' = rest \<and> ord s' = en))"

lemma emits_wr: "emits en (wr bs) bs"
  by (auto simp: emits_def wr_wrote wr_room)

lemma emits_seqc:
  assumes m: "emits en m a" and f: "emits en (f ()) b"
  shows "emits en (seqc m f) (a @ b)"
  unfolding emits_def
proof (intro allI impI conjI)
  fix s s' assume s: "inv s" "ord s = en" "seqc m f s = (Inr (), s')"
  then obtain s1 where s1: "m s = (Inr (), s1)" "f () s1 = (Inr (), s')"
    by (auto simp: seqc_eq_Inr)
  then have "wrote s a s1" using m s by (auto simp: emits_def)
  moreover have "wrote s1 b s'"
    using f s1 \<open>wrote s a s1\<close> s(2) wrote_inv wrote_ord by (auto simp: emits_def)
  ultimately show "wrote s (a @ b) s'" using s(1) wrote_trans by blast
next
  fix s assume s: "inv s" "ord s = en" "length (a @ b) \<le> room s"
  then obtain s1 where s1: "m s = (Inr (), s1)" using m by (auto simp: emits_def)
  then have w: "wrote s a s1" using m s by (auto simp: emits_def)
  then have "length b \<le> room s1" using s(3) wrote_room [OF w] by simp
  then show "\<exists>s'. seqc m f s = (Inr (), s')"
    using f s1 w s(2) wrote_inv wrote_ord by (auto simp: emits_def)
qed

lemma reads_rd: "bs \<noteq> [] \<Longrightarrow> reads en (rd (length bs)) bs bs"
  unfolding reads_def
proof (intro allI impI)
  fix s rest assume "bs \<noteq> []" "inv s" "ord s = en" "avail s = bs @ rest"
  then show "\<exists>s'. rd (length bs) s = (Inr bs, s') \<and> inv s' \<and> avail s' = rest \<and> ord s' = en"
    using rd_ok [of s "length bs"] by auto
qed

lemma reads_ret: "reads en (ret a) [] a"
  by (simp add: reads_def)

lemma reads_seqc:
  assumes "reads en m bs a" "reads en (f a) cs b"
  shows "reads en (seqc m f) (bs @ cs) b"
  unfolding reads_def
proof (intro allI impI)
  fix s rest assume s: "inv s" "ord s = en" "avail s = (bs @ cs) @ rest"
  then obtain s1 where "m s = (Inr a, s1)" "inv s1" "avail s1 = cs @ rest" "ord s1 = en"
    using assms(1) by (force simp: reads_def)
  then show "\<exists>s'. seqc m f s = (Inr b, s') \<and> inv s' \<and> avail s' = rest \<and> ord s' = en"
    using assms(2) by (auto simp: reads_def)
qed

lemma reads_map: "reads en m bs a \<Longrightarrow> reads en (seqc m (\<lambda>x. ret (g x))) bs (g a)"
  using reads_seqc [of en m bs a "\<lambda>x. ret (g x)" "[]" "g a"] by (simp add: reads_ret)

text \<open>Whatever a writer emitted is read back from where it began.\<close>

lemma reads_emitted:
  assumes "emits en w bs" "reads en r bs a" "inv s" "ord s = en" "w s = (Inr (), s')"
  shows "\<exists>s''. r (rewind s s') = (Inr a, s'') \<and> inv s'' \<and> avail s'' = avail s'"
proof -
  have "wrote s bs s'" using assms by (auto simp: emits_def)
  then show ?thesis
    using assms(2) rewind_inv [OF assms(3), of bs s'] rewind_ord [OF assms(3), of bs s']
      rewind_avail [OF assms(3), of bs s'] assms(4)
    unfolding reads_def by metis
qed

end

lemma written_trans:
  assumes inv: "ba_inv s" and a: "written s a s1" and b: "written s1 b s2"
  shows "written s (a @ b) s2"
proof -
  have st: "take (m_position s) (storage s2) = take (m_position s) (storage s)"
    using a b by (auto simp: written_def)
      (metis (no_types, lifting) add_diff_cancel_left' diff_add_0 min.absorb1 le_add1 take_take)
  have "take (length a) (drop (m_position s) (storage s2)) =
      take (length a) (drop (m_position s) (storage s1))"
    using b a unfolding written_def by (metis (no_types, lifting) add.commute take_drop)
  then have mid: "take (length (a @ b)) (drop (m_position s) (storage s2)) = a @ b"
    using a b take_split [of "length a" "length (a @ b)" "drop (m_position s) (storage s2)"]
    by (auto simp: written_def add.commute)
  have "drop (m_position s + length (a @ b)) (contents s2) =
      drop (m_position s + length (a @ b)) (contents s)"
    using a b unfolding written_def by (metis (no_types, lifting) add.assoc add.commute drop_drop length_append)
  then show ?thesis
    using a b st mid by (auto simp: written_def)
qed

interpretation ba: byte_buffer ByteArray_write ByteArray_read ba_inv getCapacity unread m_endian
  written "\<lambda>s s'. at_pos s' (m_position s)"
proof
  fix s :: bytearray and bs s' assume "ba_inv s" "ByteArray_write bs s = (Inr (), s')"
  then show "written s bs s'"
    using write_spec [of s bs] write_overrun [of s bs] by fastforce
next
  fix s :: bytearray and bs :: bytes assume "ba_inv s" "length bs \<le> getCapacity s"
  then show "\<exists>s'. ByteArray_write bs s = (Inr (), s')"
    using write_spec [of s bs] by (auto simp: write_fits_def Let_def)
next
  fix s s' :: bytearray and n assume s: "ba_inv s" "0 < n" "n \<le> length (unread s)"
  then have n: "n \<le> getReadSize s" "m_position s < m_capacity s"
    using read_pos_room [of s n] by (auto simp: length_unread)
  have "m_position s + n \<le> m_size s" using n(1) s(1,2) by (simp add: getReadSize_def)
  then have "max (m_size s) (m_position s + n) = m_size s" "m_position s + n \<le> m_capacity s"
    using s(1) by (auto simp: ba_inv_def)
  then show "\<exists>s'. ByteArray_read n s = (Inr (take n (unread s)), s') \<and> ba_inv s' \<and>
      unread s' = drop n (unread s) \<and> m_endian s' = m_endian s"
    using read_spec [OF s(1) n] at_pos_inv [OF s(1)]
    by (auto simp: unread_def contents_def add.commute)
next
  fix s s' :: bytearray and bs assume "ba_inv s" "written s bs s'"
  then show "unread (at_pos s' (m_position s)) = bs @ unread s'"
    by (simp add: written_back)
next
  fix s s' :: bytearray and bs assume "ba_inv s" and w: "written s bs s'"
  then show "ba_inv (at_pos s' (m_position s))"
    using written_back(1) [OF w] by (auto simp: written_def intro: at_pos_inv)
next
  fix s s1 s2 :: bytearray and a b
  assume "ba_inv s" "written s a s1" "written s1 b s2"
  then show "written s (a @ b) s2" by (rule written_trans)
qed (auto simp: written_def getCapacity_def length_unread read_short)

named_theorems codec "what the writers emit and the readers consume"

section \<open>Fixed-width codecs\<close>

lemma emits_fixed:
  assumes "LENGTH('a::len) = 8 * n"
    and "\<And>ba. m ba =
      ByteArray_write (mem_bytes host n (if m_endian ba \<noteq> host then bswap_bytes n w else (w :: 'a word))) ba"
  shows "ba.emits en m (wire_bytes en n w)"
  using ba.emits_wr [of en "wire_bytes en n w"] swapped_mem_bytes [OF assms(1)]
  by (auto simp: ba.emits_def assms(2))

lemma reads_fixed:
  assumes len: "LENGTH('a::len) = 8 * n" and n: "0 < n" and bs: "length bs = n"
    and sw: "\<And>w :: 'a word. swap w = bswap_bytes n w"
  shows "ba.reads en (readF_XX host n swap) bs (mem_value en bs :: 'a word)"
proof -
  have "ba.reads en (seqc (ByteArray_read (length bs)) (\<lambda>bs. ret (mem_value en bs :: 'a word)))
      bs (mem_value en bs)"
    using n bs by (intro ba.reads_map ba.reads_rd) auto
  moreover have "readF_XX host n swap ba = seqc (ByteArray_read n) (\<lambda>bs. ret (mem_value en bs)) ba"
    if h: "m_endian ba = en" "n \<le> getReadSize ba" "ba_inv ba" for ba
  proof -
    obtain ba' where "ByteArray_read n ba = (Inr (take n (unread ba)), ba')" "m_endian ba' = en"
      using ba.rd_ok [OF h(3) n] h by (auto simp: length_unread)
    moreover have "length (take n (unread ba)) = n" using h by (simp add: length_unread)
    ultimately show ?thesis
      using swapped_mem_value [OF len, of "take n (unread ba)" en host]
      by (auto simp: readF_XX_def Let_def sw)
  qed
  moreover have "n \<le> getReadSize ba" if "ba_inv ba" "unread ba = bs @ rest" for ba rest
    using that length_unread [OF that(1)] bs by simp
  ultimately show ?thesis
    unfolding ba.reads_def bs by (metis (no_types, lifting))
qed

lemma mem_value_wire: "LENGTH('a::len) = 8 * n \<Longrightarrow> mem_value en (wire_bytes en n (w :: 'a word)) = w"
  by (simp add: wire_bytes_def mem_value_mem_bytes)

lemma length_wire [simp]: "length (wire_bytes en n w) = n"
  by (simp add: wire_bytes_def)

lemma emits_F8 [codec]: "ba.emits en (writeFint8 v) [v]" "ba.emits en (writeFuint8 v) [v]"
  by (simp_all add: writeFint8_def writeFuint8_def ba.emits_wr)

lemma reads_F8 [codec]: "ba.reads en readFint8 [v] v" "ba.reads en readFuint8 [v] v"
  unfolding readFint8_def readFuint8_def
  using ba.reads_map [OF ba.reads_rd [of "[v]" en], of hd] by simp_all

lemma emits_F16 [codec]:
  "ba.emits en (writeFint16 host v) (wire_bytes en 2 v)"
  "ba.emits en (writeFuint16 host v) (wire_bytes en 2 v)"
  by (rule emits_fixed [where host = host]; simp add: writeFint16_def writeFuint16_def Let_def)+

lemma emits_F32 [codec]:
  "ba.emits en (writeFint32 host v) (wire_bytes en 4 v)"
  "ba.emits en (writeFuint32 host v) (wire_bytes en 4 v)"
  by (rule emits_fixed [where host = host]; simp add: writeFint32_def writeFuint32_def Let_def)+

lemma emits_F64 [codec]:
  "ba.emits en (writeFint64 host v) (wire_bytes en 8 v)"
  "ba.emits en (writeFuint64 host v) (wire_bytes en 8 v)"
  by (rule emits_fixed [where host = host]; simp add: writeFint64_def writeFuint64_def Let_def)+

lemma reads_F16 [codec]:
  "ba.reads en (readFint16 host) (wire_bytes en 2 v) v"
  "ba.reads en (readFuint16 host) (wire_bytes en 2 v) v"
  using reads_fixed [of 2 "wire_bytes en 2 v" byteswap16 en host]
  by (simp_all add: readFint16_def readFuint16_def mem_value_wire)

lemma reads_F32 [codec]:
  "ba.reads en (readFint32 host) (wire_bytes en 4 v) v"
  "ba.reads en (readFuint32 host) (wire_bytes en 4 v) v"
  using reads_fixed [of 4 "wire_bytes en 4 v" byteswap32 en host]
  by (simp_all add: readFint32_def readFuint32_def mem_value_wire)

lemma reads_F64 [codec]:
  "ba.reads en (readFint64 host) (wire_bytes en 8 v) v"
  "ba.reads en (readFuint64 host) (wire_bytes en 8 v) v"
  using reads_fixed [of 8 "wire_bytes en 8 v" byteswap64 en host]
  by (simp_all add: readFint64_def readFuint64_def mem_value_wire)

lemma emits_float [codec]:
  "ba.emits en (writeFloat host v) (wire_bytes en 4 v)"
  "ba.emits en (writeDouble host w) (wire_bytes en 8 w)"
  by (simp_all add: writeFloat_def writeDouble_def codec)

lemma reads_float [codec]:
  "ba.reads en (readFloat host) (wire_bytes en 4 v) v"
  "ba.reads en (readDouble host) (wire_bytes en 8 w) w"
  by (simp_all add: readFloat_def readDouble_def codec)

section \<open>Zigzag and varint codecs\<close>

text \<open>The branches of the encoder, with a sign test instead of a comparison, are one formula.\<close>

lemma sint_neg_bit: "sint (v :: 'a::len word) < 0 \<longleftrightarrow> bit v (LENGTH('a) - 1)"
  by (simp add: bit_last_iff)

lemma zigzag_if:
  "(if sint v < 0 then (- v) * 2 - 1 else v * 2) =
    (if sint v < 0 then NOT (2 * v) else 2 * (v :: 'a::len word))"
  by (simp add: not_eq_complement algebra_simps)

lemma sub_bits: "n < LENGTH('a::len) \<Longrightarrow> Suc n < LENGTH('a) \<or> n = LENGTH('a) - 1"
  by linarith

lemma zigzag_bits:
  fixes v :: "'a::len word"
  assumes "1 < LENGTH('a)"
    and e: "e = (if sint v < 0 then NOT (2 * v) else 2 * v)"
  shows "drop_bit 1 e XOR - (e AND 1) = v"
proof (cases "sint v < 0")
  case True
  have "e AND 1 = 1"
    by (rule bit_word_eqI)
      (use True in \<open>auto simp: e bit_and_iff bit_not_iff bit_double_iff bit_1_iff\<close>)
  then have "- (e AND 1) = NOT (0 :: 'a word)" by simp
  moreover have "drop_bit 1 e XOR NOT 0 = v"
  proof (rule bit_word_eqI)
    fix n assume n: "n < LENGTH('a)"
    show "bit (drop_bit 1 e XOR NOT 0) n = bit v n"
      using True n sub_bits [of n, where 'a = 'a]
      by (auto simp: e bit_xor_iff bit_not_iff bit_drop_bit_eq bit_double_iff sint_neg_bit)
  qed
  ultimately show ?thesis by simp
next
  case False
  have "e AND 1 = 0"
    by (rule bit_word_eqI) (use False in \<open>auto simp: e bit_and_iff bit_double_iff bit_1_iff\<close>)
  moreover have "drop_bit 1 e = v"
  proof (rule bit_word_eqI)
    fix n assume n: "n < LENGTH('a)"
    show "bit (drop_bit 1 e) n = bit v n"
      using False n sub_bits [of n, where 'a = 'a]
      by (auto simp: e bit_drop_bit_eq bit_double_iff sint_neg_bit)
  qed
  ultimately show ?thesis by simp
qed

lemma zigzag32: "DecodeZigzag32 (EncodeZigzag32 v) = v"
  unfolding DecodeZigzag32_def
  by (rule zigzag_bits) (simp, simp only: EncodeZigzag32_def zigzag_if)

lemma zigzag64: "DecodeZigzag64 (EncodeZigzag64 v) = v"
  unfolding DecodeZigzag64_def
  by (rule zigzag_bits) (simp, simp only: EncodeZigzag64_def zigzag_if)

lemma unat_drop7: "unat (drop_bit 7 (v :: 'a::len word)) = unat v div 128"
proof -
  have "unat (drop_bit 7 v) = drop_bit 7 (unat v)" by (rule unat_drop_bit_eq)
  then show ?thesis by (simp only: drop_bit_nat_def) simp
qed

lemma varint_length:
  "unat v < 2 ^ (7 * n) \<Longrightarrow> 0 < n \<Longrightarrow> length (varint_bytes v) \<le> n"
proof (induction n arbitrary: v)
  case 0
  then show ?case by simp
next
  case (Suc n)
  show ?case
  proof (cases "unat v \<ge> 0x80")
    case True
    then have n: "0 < n" using Suc.prems by (cases n) auto
    have "unat (drop_bit 7 v) < 2 ^ (7 * n)"
      using Suc.prems by (simp add: unat_drop7 less_mult_imp_div_less power_add mult.commute)
    then show ?thesis
      using Suc.IH [of "drop_bit 7 v"] n True by (subst varint_bytes.simps) simp
  next
    case False
    then show ?thesis by (subst varint_bytes.simps) simp
  qed
qed

lemma varint_nonempty: "varint_bytes v \<noteq> []"
  by (subst varint_bytes.simps) simp

lemma varint_byte:
  fixes v :: "'a::len word"
  assumes "8 \<le> LENGTH('a)"
  shows "(ucast ((ucast (v AND 0x7F) OR 0x80 :: u8) AND 0x7f) :: 'a word) = take_bit 7 v"
proof (rule bit_word_eqI)
  fix n assume "n < LENGTH('a)"
  have seven: "(0x7F :: 'b::len word) = mask 7" by (simp add: mask_numeral)
  have b80: "(0x80 :: u8) = push_bit 7 1" by simp
  show "bit (ucast ((ucast (v AND 0x7F) OR 0x80 :: u8) AND 0x7f) :: 'a word) n =
      bit (take_bit 7 v) n"
    unfolding seven b80 using \<open>n < LENGTH('a)\<close> assms
    by (auto simp: bit_ucast_iff bit_and_iff bit_or_iff bit_mask_iff bit_take_bit_iff
        bit_push_bit_iff bit_1_iff simp del: push_bit_of_1 dest: bit_imp_le_length)
qed

lemma varint_high: "\<not> (x OR 0x80 :: u8) < 0x80"
  using le_word_or2 [of "0x80 :: u8" x] by (metis linorder_not_less or.commute)

lemma varint_low: "unat (v :: 'a::len word) < 0x80 \<Longrightarrow> unat (ucast v :: u8) = unat v"
  by (simp add: unsigned_ucast_eq take_bit_nat_eq_self)

lemma push_take_drop:
  "push_bit i (take_bit 7 v) OR push_bit (i + 7) (drop_bit 7 v) = push_bit i (v :: 'a::len word)"
proof (rule bit_word_eqI)
  fix n assume "n < LENGTH('a)"
  show "bit (push_bit i (take_bit 7 v) OR push_bit (i + 7) (drop_bit 7 v)) n = bit (push_bit i v) n"
  proof (cases "i + 7 \<le> n")
    case True
    then have "7 + (n - (i + 7)) = n - i" by simp
    then show ?thesis using True
      by (auto simp: bit_or_iff bit_push_bit_iff bit_take_bit_iff bit_drop_bit_eq)
  next
    case False
    then show ?thesis by (auto simp: bit_or_iff bit_push_bit_iff bit_take_bit_iff)
  qed
qed

lemma reads_varint:
  assumes "8 \<le> LENGTH('a::len)" "i < bits" "unat v < 2 ^ (bits - i)"
  shows "ba.reads en (readUint_loop bits i r) (varint_bytes v) (r OR push_bit i (v :: 'a word))"
  using assms(2,3)
proof (induction v arbitrary: i r rule: varint_bytes.induct)
  case (1 v)
  show ?case
  proof (cases "unat v \<ge> 0x80")
    case True
    have "7 < bits - i"
    proof (rule ccontr)
      assume "\<not> 7 < bits - i"
      then have "(2 :: nat) ^ (bits - i) \<le> 2 ^ 7" by (intro power_increasing) auto
      then show False using 1(3) True by simp
    qed
    then have i: "i + 7 < bits" "bits - i = 7 + (bits - (i + 7))" by linarith+
    have "unat v < 2 ^ (7 + (bits - (i + 7)))" using 1(3) i(2) by metis
    then have "unat (drop_bit 7 v) < 2 ^ (bits - (i + 7))"
      by (simp add: unat_drop7 less_mult_imp_div_less power_add mult.commute)
    let ?b = "ucast (v AND 0x7F) OR 0x80 :: u8"
    let ?r = "r OR push_bit i (ucast (?b AND 0x7f))"
    have "ba.reads en (readUint_loop bits (i + 7) ?r) (varint_bytes (drop_bit 7 v))
        (?r OR push_bit (i + 7) (drop_bit 7 v))"
      using 1(1) [OF True i(1)] \<open>unat (drop_bit 7 v) < _\<close> by blast
    moreover have "?r OR push_bit (i + 7) (drop_bit 7 v) = r OR push_bit i v"
      using varint_byte [OF assms(1), of v] push_take_drop [of i v] by (simp add: or.assoc)
    ultimately have "ba.reads en (if ?b < 0x80 then ret (r OR push_bit i (ucast ?b))
        else readUint_loop bits (i + 7) ?r) (varint_bytes (drop_bit 7 v)) (r OR push_bit i v)"
      using varint_high by simp
    from ba.reads_seqc [OF reads_F8(2) [of en ?b], where cs = "varint_bytes (drop_bit 7 v)"] this
    show ?thesis
      using True 1(2) by (subst readUint_loop.simps, subst varint_bytes.simps) simp
  next
    case False
    have "(ucast v :: u8) < 0x80" using False by (simp add: word_less_nat_alt varint_low)
    moreover have "(ucast (ucast v :: u8) :: 'a word) = v"
    proof (rule word_unat_eq_iff [THEN iffD2])
      have "unat v < 2 ^ LENGTH('a)" by simp
      then show "unat (ucast (ucast v :: u8) :: 'a word) = unat v"
        using False varint_low [of v] by (simp add: unsigned_ucast_eq [of "ucast v :: u8"] take_bit_nat_eq_self)
    qed
    ultimately have "ba.reads en (if (ucast v :: u8) < 0x80 then ret (r OR push_bit i (ucast (ucast v :: u8)))
        else readUint_loop bits (i + 7) (r OR push_bit i (ucast ((ucast v :: u8) AND 0x7f)))) []
        (r OR push_bit i v)"
      by (simp add: ba.reads_ret)
    from ba.reads_seqc [OF reads_F8(2) [of en "ucast v"], where cs = "[]"] this
    show ?thesis
      using False 1(2) by (subst readUint_loop.simps, subst varint_bytes.simps) simp
  qed
qed

lemma emits_varint [codec]:
  "ba.emits en (writeUint32 v) (varint_bytes v)"
  "ba.emits en (writeUint64 w) (varint_bytes w)"
  "ba.emits en (writeInt32 v) (varint_bytes (EncodeZigzag32 v))"
  "ba.emits en (writeInt64 w) (varint_bytes (EncodeZigzag64 w))"
  by (simp_all add: writeUint32_def writeUint64_def writeInt32_def writeInt64_def ba.emits_wr)

lemma reads_Uint [codec]:
  "ba.reads en readUint32 (varint_bytes v) v"
  "ba.reads en readUint64 (varint_bytes w) w"
  using reads_varint [of 0 32 v en 0] reads_varint [of 0 64 w en 0] unsigned_less [of v] unsigned_less [of w]
  by (simp_all add: readUint32_def readUint64_def)

lemma reads_Int [codec]:
  "ba.reads en readInt32 (varint_bytes (EncodeZigzag32 v)) v"
  "ba.reads en readInt64 (varint_bytes (EncodeZigzag64 w)) w"
  using ba.reads_map [OF reads_Uint(1) [of en "EncodeZigzag32 v"], of DecodeZigzag32]
    ba.reads_map [OF reads_Uint(2) [of en "EncodeZigzag64 w"], of DecodeZigzag64]
  by (simp_all add: readInt32_def readInt64_def zigzag32 zigzag64)

section \<open>String codecs\<close>

text \<open>
  A string is its length in the given format, then its bytes. A length that the format
  cannot hold is truncated, and a string of length 0 is read with \<open>read(buf, 0)\<close>, which is
  not one of the reads the interface promises.
\<close>

lemma emits_string [codec]:
  "ba.emits en (writeStringF16 host s) (wire_bytes en 2 (of_nat (length s) :: u16) @ s)"
  "ba.emits en (writeStringF32 host s) (wire_bytes en 4 (of_nat (length s) :: u32) @ s)"
  "ba.emits en (writeStringF64 host s) (wire_bytes en 8 (of_nat (length s) :: u64) @ s)"
  "ba.emits en (writeStringVint s) (varint_bytes (of_nat (length s) :: u64) @ s)"
  "ba.emits en (writeStringWithoutLength s) s"
  unfolding writeStringF16_def writeStringF32_def writeStringF64_def writeStringVint_def
    writeStringWithoutLength_def
  by (intro ba.emits_seqc ba.emits_wr codec)+

lemma unat_length: "n < 2 ^ LENGTH('a) \<Longrightarrow> unat (of_nat n :: 'a::len word) = n"
  by (simp add: unat_of_nat take_bit_nat_eq_self)

lemma reads_string:
  assumes "ba.reads en m bs (of_nat (length s) :: 'a::len word)" "s \<noteq> []" "length s < 2 ^ LENGTH('a)"
  shows "ba.reads en (seqc m (\<lambda>len. ByteArray_read (unat len))) (bs @ s) s"
  by (rule ba.reads_seqc [OF assms(1)])
    (use ba.reads_rd [OF assms(2), of en] unat_length [OF assms(3)] in simp)

lemma reads_strings [codec]:
  "s \<noteq> [] \<Longrightarrow> length s < 2 ^ 16 \<Longrightarrow>
     ba.reads en (readStringF16 host) (wire_bytes en 2 (of_nat (length s) :: u16) @ s) s"
  "s \<noteq> [] \<Longrightarrow> length s < 2 ^ 32 \<Longrightarrow>
     ba.reads en (readStringF32 host) (wire_bytes en 4 (of_nat (length s) :: u32) @ s) s"
  "s \<noteq> [] \<Longrightarrow> length s < 2 ^ 64 \<Longrightarrow>
     ba.reads en (readStringF64 host) (wire_bytes en 8 (of_nat (length s) :: u64) @ s) s"
  "s \<noteq> [] \<Longrightarrow> length s < 2 ^ 64 \<Longrightarrow>
     ba.reads en readStringVint (varint_bytes (of_nat (length s) :: u64) @ s) s"
  unfolding readStringF16_def readStringF32_def readStringF64_def readStringVint_def
  by (intro reads_string codec; simp)+

end
