(* ===== verification/Bytearray_Io.thy ===== *)
theory Bytearray_Io
  imports Bytearray_Codec
begin

text \<open>
  The remaining operations of the byte buffer (\<open>sylar/bytearray.cc\<close>): the scatter/gather
  views of its blocks for \<open>readv\<close> and \<open>writev\<close>, the dumps to a string and to a file, and
  the load from a file.

  An \<open>iovec\<close> points into a block: it is the index of the block, an offset and a length.
  A file is its contents, \<open>None\<close> when it cannot be opened; a read of \<open>n\<close> bytes meets the
  end of the file exactly when fewer than \<open>n\<close> are left.
\<close>

section \<open>Scatter and gather\<close>

record iovec =
  iov_node :: nat
  iov_off :: nat
  iov_len :: nat

text \<open>The loop the three functions share.\<close>

function iov_loop :: "bytes list \<Rightarrow> nat option \<Rightarrow> nat \<Rightarrow> nat \<Rightarrow> nat \<Rightarrow> fault + iovec list" where
  "iov_loop nodes cur npos ncap len =
     (if len = 0 then Inr [] else
      case cur of None \<Rightarrow> Inl Null_deref
      | Some i \<Rightarrow>
        if ncap \<ge> len then Inr [\<lparr>iov_node = i, iov_off = npos, iov_len = len\<rparr>]
        else
          case next_node nodes i of None \<Rightarrow> Inl Null_deref
          | Some k \<Rightarrow>
            (case iov_loop nodes (Some k) 0 (length (nodes ! k)) (len - ncap) of
               Inl e \<Rightarrow> Inl e
             | Inr iovs \<Rightarrow> Inr (\<lparr>iov_node = i, iov_off = npos, iov_len = ncap\<rparr> # iovs)))"
  by pat_completeness auto
termination
  by (relation "measure (\<lambda>(nodes, cur, npos, ncap, len).
        length nodes - (case cur of None \<Rightarrow> 0 | Some i \<Rightarrow> i))")
    (auto simp: next_node_def split: if_splits)

declare iov_loop.simps [simp del]

definition getReadBuffers :: "nat \<Rightarrow> bytearray \<Rightarrow> fault + nat \<times> iovec list" where
  "getReadBuffers len ba =
     (let len = (if len > getReadSize ba then getReadSize ba else len) in
      if len = 0 then Inr (0, []) else
      if m_baseSize ba = 0 then Inl Div_by_zero else
      case m_cur ba of None \<Rightarrow> Inl Null_deref
      | Some i \<Rightarrow>
        let npos = m_position ba mod m_baseSize ba;
            ncap = length (m_nodes ba ! i) - npos
        in case iov_loop (m_nodes ba) (m_cur ba) npos ncap len of
             Inl e \<Rightarrow> Inl e | Inr iovs \<Rightarrow> Inr (len, iovs))"

text \<open>The walk of the overload with a position: \<open>count\<close> steps along the chain.\<close>

fun walk :: "bytes list \<Rightarrow> nat option \<Rightarrow> nat \<Rightarrow> fault + nat option" where
  "walk nodes cur 0 = Inr cur"
| "walk nodes cur (Suc count) =
     (case cur of None \<Rightarrow> Inl Null_deref | Some i \<Rightarrow> walk nodes (next_node nodes i) count)"

definition getReadBuffers_at :: "nat \<Rightarrow> nat \<Rightarrow> bytearray \<Rightarrow> fault + nat \<times> iovec list" where
  "getReadBuffers_at len position ba =
     (let len = (if len > getReadSize ba then getReadSize ba else len) in
      if len = 0 then Inr (0, []) else
      if m_baseSize ba = 0 then Inl Div_by_zero else
      let npos = position mod m_baseSize ba;
          count = position div m_baseSize ba
      in case walk (m_nodes ba) (Some 0) count of
           Inl e \<Rightarrow> Inl e
         | Inr None \<Rightarrow> Inl Null_deref
         | Inr (Some i) \<Rightarrow>
             (case iov_loop (m_nodes ba) (Some i) npos (length (m_nodes ba ! i) - npos) len of
                Inl e \<Rightarrow> Inl e | Inr iovs \<Rightarrow> Inr (len, iovs)))"

definition getWriteBuffers :: "nat \<Rightarrow> (bytearray, nat \<times> iovec list) call" where
  "getWriteBuffers len ba =
     (if len = 0 then (Inr (0, []), ba) else
      case addCapacity len ba of
        (Inl e, ba) \<Rightarrow> (Inl e, ba)
      | (Inr _, ba) \<Rightarrow>
        if m_baseSize ba = 0 then (Inl Div_by_zero, ba) else
        case m_cur ba of None \<Rightarrow> (Inl Null_deref, ba)
        | Some i \<Rightarrow>
          let npos = m_position ba mod m_baseSize ba;
              ncap = length (m_nodes ba ! i) - npos
          in case iov_loop (m_nodes ba) (m_cur ba) npos ncap len of
               Inl e \<Rightarrow> (Inl e, ba) | Inr iovs \<Rightarrow> (Inr (len, iovs), ba))"

section \<open>Dumps and files\<close>

definition toString :: "bytearray \<Rightarrow> fault + bytes" where
  "toString ba =
     (if getReadSize ba = 0 then Inr [] else
      ByteArray_read_at (getReadSize ba) (m_position ba) ba)"

definition hex_digit :: "nat \<Rightarrow> char" where
  "hex_digit d = ''0123456789abcdef'' ! d"

definition hex_byte :: "u8 \<Rightarrow> string" where
  "hex_byte b = [hex_digit (unat b div 16), hex_digit (unat b mod 16)]"

fun hex_dump :: "nat \<Rightarrow> bytes \<Rightarrow> string" where
  "hex_dump i [] = []"
| "hex_dump i (b # bs) =
     (if i > 0 \<and> i mod 32 = 0 then [CHR 0x0A] else []) @ hex_byte b @ '' '' @ hex_dump (Suc i) bs"

definition toHexString :: "bytearray \<Rightarrow> fault + string" where
  "toHexString ba = (case toString ba of Inl e \<Rightarrow> Inl e | Inr str \<Rightarrow> Inr (hex_dump 0 str))"

text \<open>
  The loop of \<open>writeToFile\<close>; the bytes given to \<open>ofs.write\<close> are returned. The length
  \<open>len\<close> is signed, and a negative one is outside the contract of \<open>write\<close>.
\<close>

function writeFile_loop :: "bytes list \<Rightarrow> nat \<Rightarrow> nat option \<Rightarrow> int \<Rightarrow> int \<Rightarrow> fault + bytes" where
  "writeFile_loop nodes base cur pos read_size =
     (if read_size \<le> 0 then Inr [] else
      if base = 0 then Inl Div_by_zero else
      let diff = pos mod int base;
          len = (if read_size > int base then int base else read_size) - diff
      in case cur of None \<Rightarrow> Inl Null_deref
         | Some i \<Rightarrow>
           if len < 0 then Inl Undefined else
           let out = take (nat len) (drop (nat diff) (nodes ! i)) in
           case next_node nodes i of
             None \<Rightarrow> if read_size - len > 0 then Inl Null_deref else Inr out
           | Some k \<Rightarrow>
             (case writeFile_loop nodes base (Some k) (pos + len) (read_size - len) of
                Inl e \<Rightarrow> Inl e | Inr bs \<Rightarrow> Inr (out @ bs)))"
  by pat_completeness auto
termination
  by (relation "measure (\<lambda>(nodes, base, cur, pos, read_size).
        length nodes - (case cur of None \<Rightarrow> 0 | Some i \<Rightarrow> i))")
    (auto simp: next_node_def split: if_splits)

declare writeFile_loop.simps [simp del]

text \<open>The returned flag and the new contents of the file, \<open>None\<close> when it was not opened.\<close>

definition writeToFile :: "bool \<Rightarrow> bytearray \<Rightarrow> fault + bool \<times> bytes option" where
  "writeToFile can_open ba =
     (if \<not> can_open then Inr (False, None) else
      case writeFile_loop (m_nodes ba) (m_baseSize ba) (m_cur ba) (int (m_position ba))
          (int (getReadSize ba)) of
        Inl e \<Rightarrow> Inl e | Inr bs \<Rightarrow> Inr (True, Some bs))"

text \<open>\<open>None\<close> is a loop that does not end: with blocks of size 0 the end is never met.\<close>

partial_function (option) readFile_loop ::
    "nat \<Rightarrow> bytes \<Rightarrow> bytearray \<Rightarrow> ((fault + unit) \<times> bytearray) option" where
  "readFile_loop base file ba =
     (case ByteArray_write (take base file) ba of
        (Inl e, ba) \<Rightarrow> Some (Inl e, ba)
      | (Inr _, ba) \<Rightarrow>
          if length file < base then Some (Inr (), ba)
          else readFile_loop base (drop base file) ba)"

definition readFromFile :: "bytes option \<Rightarrow> bytearray \<Rightarrow> ((fault + bool) \<times> bytearray) option" where
  "readFromFile file ba =
     (case file of None \<Rightarrow> Some (Inr False, ba)
      | Some bs \<Rightarrow>
        (case readFile_loop (m_baseSize ba) bs ba of
           None \<Rightarrow> None
         | Some (Inl e, ba) \<Rightarrow> Some (Inl e, ba)
         | Some (Inr _, ba) \<Rightarrow> Some (Inr True, ba)))"

section \<open>What the views denote\<close>

definition iov_bytes :: "bytes list \<Rightarrow> iovec \<Rightarrow> bytes" where
  "iov_bytes nodes v = take (iov_len v) (drop (iov_off v) (nodes ! iov_node v))"

definition gather :: "bytes list \<Rightarrow> iovec list \<Rightarrow> bytes" where
  "gather nodes iovs = concat (map (iov_bytes nodes) iovs)"

lemma iov_of_read:
  "read_loop nodes cur npos ncap pos n = Inr (bs, c, p) \<Longrightarrow>
   \<exists>iovs. iov_loop nodes cur npos ncap n = Inr iovs \<and> gather nodes iovs = bs \<and>
     sum_list (map iov_len iovs) = n"
proof (induction nodes cur npos ncap pos n arbitrary: bs c p rule: read_loop.induct)
  case (1 nodes cur npos ncap pos n)
  show ?case
  proof (cases "n = 0 \<or> cur = None \<or> ncap \<ge> n")
    case True
    then show ?thesis
      using 1(2) by (subst iov_loop.simps, subst (asm) read_loop.simps)
        (auto simp: gather_def iov_bytes_def split: option.splits if_splits)
  next
    case False
    then obtain i k bs' where ik: "cur = Some i" "next_node nodes i = Some k"
      and rd: "read_loop nodes (Some k) 0 (length (nodes ! k)) (pos + ncap) (n - ncap) = Inr (bs', c, p)"
      and bs: "bs = take ncap (drop npos (nodes ! i)) @ bs'"
      using 1(2) by (subst (asm) read_loop.simps) (auto split: option.splits sum.splits prod.splits)
    from False ik 1(1) [of i k] rd obtain iovs where
      "iov_loop nodes (Some k) 0 (length (nodes ! k)) (n - ncap) = Inr iovs"
      "gather nodes iovs = bs'" "sum_list (map iov_len iovs) = n - ncap"
      by auto
    with False ik bs show ?thesis
      by (subst iov_loop.simps) (auto simp: gather_def iov_bytes_def)
  qed
qed

lemma iov_loop_ok:
  assumes "0 < b" "blocks b nodes" "i < length nodes" "npos < b"
    "i * b + npos + n \<le> length nodes * b"
  shows "\<exists>iovs. iov_loop nodes (Some i) npos (b - npos) n = Inr iovs \<and>
    gather nodes iovs = take n (drop (i * b + npos) (concat nodes)) \<and>
    sum_list (map iov_len iovs) = n"
  using iov_of_read [OF read_loop_ok [OF assms]] by simp

lemma iov_cur:
  assumes inv: "ba_inv ba" and n: "m_position ba + n \<le> m_capacity ba" "m_position ba < m_capacity ba"
  shows "\<exists>iovs. iov_loop (m_nodes ba) (m_cur ba) (m_position ba mod m_baseSize ba)
      (m_baseSize ba - m_position ba mod m_baseSize ba) n = Inr iovs \<and>
    gather (m_nodes ba) iovs = take n (drop (m_position ba) (storage ba)) \<and>
    sum_list (map iov_len iovs) = n"
  using iov_of_read [OF read_loop_cur [OF inv n]] by simp

lemma getReadBuffers_ok:
  assumes inv: "ba_inv ba"
  shows "\<exists>iovs. getReadBuffers len ba = Inr (min len (getReadSize ba), iovs) \<and>
    gather (m_nodes ba) iovs = take len (unread ba)"
proof (cases "min len (getReadSize ba) = 0")
  case True
  then have "take len (unread ba) = []" using length_unread [OF inv]
    by (metis length_0_conv min.commute length_take)
  with True show ?thesis by (auto simp: getReadBuffers_def gather_def Let_def min_def split: if_splits)
next
  case False
  define n where "n = min len (getReadSize ba)"
  have n: "0 < n" "n \<le> getReadSize ba" using False by (simp_all add: n_def)
  have lt: "m_position ba < m_capacity ba" by (rule read_pos_room [OF inv n])
  have le: "m_position ba + n \<le> m_capacity ba" using n inv by (auto simp: getReadSize_def ba_inv_def)
  obtain i where i: "m_cur ba = Some i" "length (m_nodes ba ! i) = m_baseSize ba"
    by (rule cur_block [OF inv lt])
  obtain iovs where iovs: "iov_loop (m_nodes ba) (m_cur ba) (m_position ba mod m_baseSize ba)
      (m_baseSize ba - m_position ba mod m_baseSize ba) n = Inr iovs"
    "gather (m_nodes ba) iovs = take n (drop (m_position ba) (storage ba))"
    using iov_cur [OF inv le lt] by blast
  have "take len (unread ba) = take n (unread ba)"
    using length_unread [OF inv] by (simp add: n_def min_def)
  moreover have "(if len > getReadSize ba then getReadSize ba else len) = n"
    by (simp add: n_def)
  ultimately show ?thesis
    using iovs i n base_pos [OF inv] take_unread [OF n(2)]
    by (simp add: getReadBuffers_def n_def [symmetric])
qed

lemma getWriteBuffers_ok:
  assumes inv: "ba_inv ba" and fit: "write_fits ba len"
  shows "\<exists>iovs. getWriteBuffers len ba = (Inr (len, iovs), grown ba len) \<and>
    gather (m_nodes (grown ba len)) iovs = take len (drop (m_position ba) (storage (grown ba len))) \<and>
    sum_list (map iov_len iovs) = len"
proof (cases "len = 0")
  case True
  then show ?thesis by (simp add: getWriteBuffers_def gather_def grown_def addCapacity_def)
next
  case False
  let ?g = "grown ba len"
  have g: "ba_inv ?g" by (rule grown_inv(1) [OF inv])
  have le: "m_position ?g + len \<le> m_capacity ?g" using fit grown_capacity [OF inv] by simp
  then have lt: "m_position ?g < m_capacity ?g" using False by linarith
  obtain i where i: "m_cur ?g = Some i" "length (m_nodes ?g ! i) = m_baseSize ?g"
    by (rule cur_block [OF g lt])
  show ?thesis
    using iov_cur [OF g le lt] i False base_pos [OF g] addCapacity_ok [OF inv, of len]
    by (auto simp: getWriteBuffers_def Let_def)
qed

lemma walk_Some: "i + n < length nodes \<Longrightarrow> walk nodes (Some i) n = Inr (Some (i + n))"
  by (induction n arbitrary: i) (auto simp: next_node_def)

lemma getReadBuffers_at_ok:
  assumes inv: "ba_inv ba" and pos: "position + min len (getReadSize ba) \<le> m_capacity ba"
  shows "\<exists>iovs. getReadBuffers_at len position ba = Inr (min len (getReadSize ba), iovs) \<and>
    gather (m_nodes ba) iovs = take (min len (getReadSize ba)) (drop position (storage ba))"
proof (cases "min len (getReadSize ba) = 0")
  case True
  then show ?thesis by (auto simp: getReadBuffers_at_def gather_def Let_def min_def split: if_splits)
next
  case False
  define n where "n = min len (getReadSize ba)"
  have b: "0 < m_baseSize ba" and bl: "blocks (m_baseSize ba) (m_nodes ba)"
    and lt: "position < length (m_nodes ba) * m_baseSize ba"
    using inv pos False by (auto simp: ba_inv_def)
  note ar = mod_div_bound [OF b lt]
  have w: "walk (m_nodes ba) (Some 0) (position div m_baseSize ba) = Inr (Some (position div m_baseSize ba))"
    using walk_Some [of 0 "position div m_baseSize ba"] ar(1) by simp
  have "\<exists>iovs. iov_loop (m_nodes ba) (Some (position div m_baseSize ba)) (position mod m_baseSize ba)
      (m_baseSize ba - position mod m_baseSize ba) n = Inr iovs \<and>
    gather (m_nodes ba) iovs = take n (drop position (storage ba))"
    using iov_loop_ok [OF b bl ar(1) ar(3), of n] ar(2) pos inv
    by (auto simp: n_def storage_def ba_inv_def)
  moreover have "(if len > getReadSize ba then getReadSize ba else len) = n"
    by (simp add: n_def)
  moreover have "0 < n" using False by (simp add: n_def)
  ultimately show ?thesis
    using w b bl ar(1) unfolding getReadBuffers_at_def n_def [symmetric]
    by (auto simp: Let_def)
qed

lemma toString_ok:
  assumes inv: "ba_inv ba"
  shows "toString ba = Inr (unread ba)"
proof (cases "getReadSize ba = 0")
  case True
  then show ?thesis using length_unread [OF inv] by (simp add: toString_def)
next
  case False
  then have "m_position ba < m_capacity ba" using read_pos_room [OF inv, of "getReadSize ba"] by simp
  then show ?thesis
    using False read_at_position [OF inv, of "getReadSize ba"] length_unread [OF inv]
    by (simp add: toString_def)
qed

lemma block_step:
  assumes "i < length nodes" "blocks b nodes" "j \<le> b"
  shows "take (b - j) (drop (i * b + j) (concat nodes)) = drop j (nodes ! i)"
    and "drop (b - j) (drop (i * b + j) (concat nodes)) = drop (Suc i * b) (concat nodes)"
  using concat_block [of i nodes b j] assms by (auto simp: blocks_def)

lemma writeFile_unfold:
  assumes "0 < base" "0 < r" "next_node nodes i = Some k" "0 \<le> len"
    and "len = (if r > int base then int base else r) - pos mod int base"
  shows "writeFile_loop nodes base (Some i) pos r =
    (case writeFile_loop nodes base (Some k) (pos + len) (r - len) of
       Inl e \<Rightarrow> Inl e
     | Inr bs \<Rightarrow> Inr (take (nat len) (drop (nat (pos mod int base)) (nodes ! i)) @ bs))"
proof -
  have c: "(r \<le> 0) = False" "(base = 0) = False" "(len < 0) = False" using assms by auto
  show ?thesis
    by (subst writeFile_loop.simps)
      (simp only: Let_def assms(5) [symmetric] option.case assms(3) c if_False)
qed

lemma writeFile_step:
  assumes "0 < b" "0 < r" "next_node nodes i = Some k" "p mod b \<le> min r b"
    and n: "n = min r b - p mod b"
    and rest: "writeFile_loop nodes b (Some k) (int (p + n)) (int (r - n)) = Inr bs"
  shows "writeFile_loop nodes b (Some i) (int p) (int r) = Inr (take n (drop (p mod b) (nodes ! i)) @ bs)"
proof -
  have len: "int n = (if int r > int b then int b else int r) - int p mod int b"
    using assms(4) by (simp add: n of_nat_diff min_def zmod_int)
  have eq: "int p + int n = int (p + n)" "int r - int n = int (r - n)" using n by auto
  have m: "nat (int p mod int b) = p mod b" by (simp flip: of_nat_mod)
  have "0 < int r" "0 \<le> int n" using assms(2) by auto
  from writeFile_unfold [OF assms(1) this(1) assms(3) this(2) len]
  show ?thesis by (simp only: eq m rest sum.case nat_int)
qed

lemma writeFile_aligned:
  assumes "0 < b" "blocks b nodes" "i < length nodes" "i * b + r \<le> length nodes * b"
  shows "writeFile_loop nodes b (Some i) (int (i * b)) (int r) =
    Inr (take r (drop (i * b) (concat nodes)))"
  using assms
proof (induction "length nodes - i" arbitrary: i r rule: less_induct)
  case less
  note st = block_step [OF less.prems(3,2), of 0]
  show ?case
  proof (cases "r \<le> b")
    case True
    have "take r (drop (i * b) (concat nodes)) = take r (nodes ! i)"
      using True arg_cong [OF st(1), of "take r"] by (simp add: min_absorb1)
    then show ?thesis using True less.prems(1)
      by (subst writeFile_loop.simps)
        (auto simp: next_node_def writeFile_loop.simps [of _ _ _ _ 0])
  next
    case False
    then have k: "Suc i < length nodes"
      using less.prems next_block [of b 0 r i "length nodes"] by simp
    have len: "length (nodes ! i) = b" using less.prems by simp
    have "writeFile_loop nodes b (Some (Suc i)) (int (Suc i * b)) (int (r - b)) =
        Inr (take (r - b) (drop (Suc i * b) (concat nodes)))"
      by (rule less.hyps) (use less.prems k False in auto)
    moreover have "take r (drop (i * b) (concat nodes)) =
        nodes ! i @ take (r - b) (drop (Suc i * b) (concat nodes))"
      using take_split [of b r "drop (i * b) (concat nodes)"] st False by simp
    ultimately show ?thesis
      using False k len less.prems(1) writeFile_step [of b r nodes i "Suc i" "i * b" b]
      by (simp add: next_node_def add.commute)
  qed
qed

lemma writeToFile_ok:
  assumes inv: "ba_inv ba"
    and al: "m_position ba mod m_baseSize ba = 0 \<or> m_baseSize ba < getReadSize ba"
  shows "writeToFile True ba = Inr (True, Some (unread ba))"
proof (cases "getReadSize ba = 0")
  case True
  then show ?thesis
    using length_unread [OF inv] by (simp add: writeToFile_def writeFile_loop.simps [of _ _ _ _ 0])
next
  case False
  define b r i j where "b = m_baseSize ba" and "r = getReadSize ba"
    and "i = m_position ba div b" and "j = m_position ba mod b"
  have b: "0 < b" and bl: "blocks b (m_nodes ba)" using inv by (auto simp: ba_inv_def b_def)
  have lt: "m_position ba < length (m_nodes ba) * b"
    using read_pos_room [OF inv, of r] False inv by (auto simp: ba_inv_def b_def r_def)
  have pos: "m_position ba = i * b + j" and j: "j < b" and i: "i < length (m_nodes ba)"
    using mod_div_bound [OF b lt] by (auto simp: i_def j_def)
  have le: "i * b + j + r \<le> length (m_nodes ba) * b"
    using inv pos by (auto simp: ba_inv_def getReadSize_def r_def b_def)
  have cur: "m_cur ba = Some i" using inv lt by (simp add: ba_inv_def cur_of_def b_def i_def)
  have un: "unread ba = take r (drop (i * b + j) (concat (m_nodes ba)))"
    using take_unread [of r ba] length_unread [OF inv] pos by (simp add: r_def storage_def)
  have "writeFile_loop (m_nodes ba) b (Some i) (int (i * b + j)) (int r) = Inr (unread ba)"
  proof (cases "j = 0")
    case True
    then show ?thesis using writeFile_aligned [OF b bl i, of r] le un by simp
  next
    case off: False
    then have big: "b < r" using al by (simp add: j_def b_def r_def)
    have k: "Suc i < length (m_nodes ba)"
      using next_block [of b j r i "length (m_nodes ba)"] big le j by simp
    have st: "drop j (m_nodes ba ! i) = take (b - j) (drop (i * b + j) (concat (m_nodes ba)))"
        "drop (Suc i * b) (concat (m_nodes ba)) = drop (b - j) (drop (i * b + j) (concat (m_nodes ba)))"
      using block_step [OF i bl, of j] j by auto
    have "writeFile_loop (m_nodes ba) b (Some (Suc i)) (int (Suc i * b)) (int (r - (b - j))) =
        Inr (take (r - (b - j)) (drop (Suc i * b) (concat (m_nodes ba))))"
      by (rule writeFile_aligned [OF b bl k]) (use le j big in simp)
    moreover have "unread ba = take (b - j) (drop j (m_nodes ba ! i)) @
        take (r - (b - j)) (drop (Suc i * b) (concat (m_nodes ba)))"
      unfolding un st using take_split [of "b - j" r "drop (i * b + j) (concat (m_nodes ba))"] big
      by simp
    moreover have "i * b + j + (b - j) = Suc i * b" using j by simp
    ultimately show ?thesis
      using big b k j writeFile_step [of b r "m_nodes ba" i "Suc i" "i * b + j" "b - j"]
      by (simp add: next_node_def add.commute)
  qed
  then show ?thesis by (simp add: writeToFile_def cur b_def r_def pos)
qed

text \<open>
  The load of a file. At a block boundary every chunk finds room or is given exactly one
  new block, so that the shortage of \<open>addCapacity\<close> does not arise.
\<close>

lemma aligned_fits:
  assumes inv: "ba_inv ba" and al: "m_baseSize ba dvd m_position ba" and n: "n \<le> m_baseSize ba"
  shows "write_fits ba n"
proof -
  obtain k where k: "m_position ba = m_baseSize ba * k" using al by blast
  then have c: "getCapacity ba = (length (m_nodes ba) - k) * m_baseSize ba"
    using inv by (simp add: getCapacity_def ba_inv_def diff_mult_distrib mult.commute [of "m_baseSize ba"])
  show ?thesis
  proof (cases "length (m_nodes ba) - k = 0")
    case True
    then have "getCapacity ba = 0" using c by simp
    then show ?thesis using n by (cases "n = m_baseSize ba") (auto simp: write_fits_def)
  next
    case False
    then have "m_baseSize ba \<le> getCapacity ba" using c by (cases "length (m_nodes ba) - k") auto
    then show ?thesis using n by (simp add: write_fits_def)
  qed
qed

lemma readFile_loop_ok:
  assumes "ba_inv ba" "m_baseSize ba dvd m_position ba"
  shows "\<exists>ba'. readFile_loop (m_baseSize ba) file ba = Some (Inr (), ba') \<and> written ba file ba'"
  using assms
proof (induction "length file" arbitrary: "file" ba rule: less_induct)
  case less
  let ?b = "m_baseSize ba"
  have b: "0 < ?b" using less.prems by (simp add: ba_inv_def)
  have fit: "write_fits ba (length (take ?b file))" by (rule aligned_fits [OF less.prems]) simp
  obtain ba1 where w: "ByteArray_write (take ?b file) ba = (Inr (), ba1)" "written ba (take ?b file) ba1"
    using write_spec [OF less.prems(1) fit] by blast
  show ?case
  proof (cases "length file < ?b")
    case True
    then show ?thesis using w by (subst readFile_loop.simps) simp
  next
    case False
    have h: "ba_inv ba1" "m_baseSize ba1 = ?b" "m_position ba1 = m_position ba + ?b"
      using w(2) False by (auto simp: written_def min_def)
    then have "m_baseSize ba1 dvd m_position ba1" using less.prems(2) by simp
    moreover have "length (drop ?b file) < length file" using False b by simp
    ultimately obtain ba2 where ba2: "readFile_loop ?b (drop ?b file) ba1 = Some (Inr (), ba2)"
      "written ba1 (drop ?b file) ba2"
      using less.hyps [of "drop ?b file" ba1] h by auto
    have "written ba (take ?b file @ drop ?b file) ba2"
      by (rule written_trans [OF less.prems(1) w(2) ba2(2)])
    then show ?thesis using w ba2 False by (subst readFile_loop.simps) simp
  qed
qed

lemma length_hex_byte [simp]: "length (hex_byte b) = 2"
  by (simp add: hex_byte_def)

end
