(* ===== verification/Bytearray_Props.thy ===== *)
theory Bytearray_Props
  imports Bytearray_Io
begin

text \<open>
  The properties of the byte buffer, stated over its operations. They rest on the
  specifications of \<open>Bytearray\<close>, on the facts of the interface \<open>byte_buffer\<close> for the
  buffer's own operations (\<open>ba.reads_emitted\<close>), and on the lemmas of \<open>Bytearray_Io\<close>.
\<close>

section \<open>Vocabulary of the properties\<close>

text \<open>
  \<open>appends en w bs\<close>: on a buffer of byte order \<open>en\<close> the writer \<open>w\<close> writes \<open>bs\<close> whenever it
  returns, and it returns whenever the buffer has room for \<open>bs\<close>.
  \<open>reads_back w r v\<close>: after \<open>w\<close> returned, seeking back to where it began and running \<open>r\<close>
  gives \<open>v\<close>, and leaves unread what was unread after \<open>w\<close>.
\<close>

definition appends :: "endian \<Rightarrow> (bytearray, unit) call \<Rightarrow> bytes \<Rightarrow> bool" where
  "appends en w bs \<longleftrightarrow> (\<forall>ba. ba_inv ba \<and> m_endian ba = en \<longrightarrow>
     (\<forall>ba'. w ba = (Inr (), ba') \<longrightarrow> written ba bs ba') \<and>
     (length bs \<le> getCapacity ba \<longrightarrow> (\<exists>ba'. w ba = (Inr (), ba'))))"

definition reads_back :: "(bytearray, unit) call \<Rightarrow> (bytearray, 'a) call \<Rightarrow> 'a \<Rightarrow> bool" where
  "reads_back w r v \<longleftrightarrow> (\<forall>ba ba'. ba_inv ba \<and> w ba = (Inr (), ba') \<longrightarrow>
     (\<exists>ba''. seqc (setPosition (m_position ba)) (\<lambda>_. r) ba' = (Inr v, ba'') \<and>
       ba_inv ba'' \<and> unread ba'' = unread ba'))"

lemma appendsI: "ba.emits en w bs \<Longrightarrow> appends en w bs"
  by (auto simp: appends_def ba.emits_def)

lemma seek_back:
  assumes "ba_inv ba" "written ba bs ba'"
  shows "setPosition (m_position ba) ba' = (Inr (), at_pos ba' (m_position ba))"
  using setPosition_spec [of ba' "m_position ba"] written_back(1) [OF assms(2)] assms(2)
  by (simp add: written_def)

lemma reads_backI:
  assumes w: "\<And>en. ba.emits en w (bs en)" and r: "\<And>en. ba.reads en r (bs en) v"
  shows "reads_back w r v"
  unfolding reads_back_def
proof (intro allI impI, elim conjE)
  fix ba ba' assume h: "ba_inv ba" "w ba = (Inr (), ba')"
  then have "written ba (bs (m_endian ba)) ba'"
    using w [of "m_endian ba"] by (auto simp: ba.emits_def)
  then have "setPosition (m_position ba) ba' = (Inr (), at_pos ba' (m_position ba))"
    by (rule seek_back [OF h(1)])
  then show "\<exists>ba''. seqc (setPosition (m_position ba)) (\<lambda>_. r) ba' = (Inr v, ba'') \<and>
      ba_inv ba'' \<and> unread ba'' = unread ba'"
    using ba.reads_emitted [OF w r h(1) refl h(2)] by simp
qed

lemma varint_length32: "length (varint_bytes (v :: u32)) \<le> 5"
proof -
  have "unat v < 2 ^ 32" using unsigned_less [of v] by simp
  also have "(2 :: nat) ^ 32 \<le> 2 ^ (7 * 5)" by simp
  finally show ?thesis by (rule varint_length) simp
qed

lemma varint_length64: "length (varint_bytes (v :: u64)) \<le> 10"
proof -
  have "unat v < 2 ^ 64" using unsigned_less [of v] by simp
  also have "(2 :: nat) ^ 64 \<le> 2 ^ (7 * 10)" by simp
  finally show ?thesis by (rule varint_length) simp
qed

section \<open>Raw reads and writes\<close>

text \<open>
  C7. A write that fits returns; it replaces the bytes from the position on by its
  argument, extends the contents when it runs over their end, moves the position behind
  what it wrote, and keeps the invariant and the byte order.
\<close>

theorem write_contents:
  assumes "ba_inv ba" and "write_fits ba (length buf)"
  shows "\<exists>ba'. ByteArray_write buf ba = (Inr (), ba') \<and> ba_inv ba' \<and>
    contents ba' =
      take (m_position ba) (contents ba) @ buf @ drop (m_position ba + length buf) (contents ba) \<and>
    m_position ba' = m_position ba + length buf \<and> m_endian ba' = m_endian ba"
proof -
  obtain ba' where w: "ByteArray_write buf ba = (Inr (), ba')" "written ba buf ba'"
    using write_spec [OF assms] by blast
  then have "ba_inv ba'" "m_position ba' = m_position ba + length buf" "m_endian ba' = m_endian ba"
    by (simp_all add: written_def)
  with w written_contents [OF assms(1) w(2)] show ?thesis by blast
qed

theorem write_contents_witness:
  "\<exists>ba'. ByteArray_write [1, 2, 3, 4] (ByteArray_new (\<lambda>_. 0) 2) = (Inr (), ba') \<and>
    contents ba' = [1, 2, 3, 4]"
proof -
  let ?ba = "ByteArray_new (\<lambda>_. 0) 2"
  have "write_fits ?ba (length [1, 2, 3, 4 :: u8])"
    by (simp add: write_fits_def getCapacity_def ByteArray_new_def)
  moreover have "contents ?ba = []" "m_position ?ba = 0"
    by (simp_all add: contents_def ByteArray_new_def)
  ultimately show ?thesis
    using write_contents [OF new_inv [of 2 "\<lambda>_. 0"], of "[1, 2, 3, 4]"] by auto
qed

text \<open>
  Exactly which writes return: those for which \<open>addCapacity\<close> adds enough blocks. The
  remainder of the division is compared with the old free capacity instead of with 0, so
  every other write runs off the last block and dereferences the null pointer; for a
  fresh buffer of the default block size these are the writes of more than one and less
  than two blocks.
\<close>

theorem write_returns_iff:
  assumes "ba_inv ba"
  shows "fst (ByteArray_write buf ba) =
      (if write_fits ba (length buf) then Inr () else Inl Null_deref) \<and>
    (4096 < length big \<and> length big < 2 * 4096 \<longrightarrow>
      fst (ByteArray_write big (ByteArray_new fill 4096)) = Inl Null_deref)"
proof (intro conjI impI)
  show "fst (ByteArray_write buf ba) =
      (if write_fits ba (length buf) then Inr () else Inl Null_deref)"
    using write_spec [OF assms, of buf] write_overrun [OF assms, of buf] by auto
next
  assume big: "4096 < length big \<and> length big < 2 * 4096"
  then have "(length big - 4096) mod 4096 = length big - 4096" by (intro mod_less) linarith
  then have "\<not> write_fits (ByteArray_new fill 4096) (length big)"
    using big by (simp add: write_fits_def getCapacity_def ByteArray_new_def Let_def)
  then show "fst (ByteArray_write big (ByteArray_new fill 4096)) = Inl Null_deref"
    by (intro write_overrun new_inv) auto
qed

theorem write_returns_iff_witness:
  "fst (ByteArray_write [1, 2, 3] (ByteArray_new (\<lambda>_. 0) 2)) = Inl Null_deref \<and>
   fst (ByteArray_write (replicate 5000 0) (ByteArray_new (\<lambda>_. 0) 4096)) = Inl Null_deref"
  using write_returns_iff [of "ByteArray_new (\<lambda>_. 0) 2" "[1, 2, 3]" "replicate 5000 0" "\<lambda>_. 0"]
    new_inv [of 2 "\<lambda>_. 0"]
  by (auto simp: write_fits_def getCapacity_def ByteArray_new_def)

text \<open>
  A read of available bytes returns the next ones in order and consumes exactly
  them; asking for more than is available throws and changes nothing; a read of no bytes
  at the end of the storage dereferences the null pointer.
\<close>

theorem read_cases:
  assumes "ba_inv ba"
  shows "(0 < n \<and> n \<le> length (unread ba) \<longrightarrow>
      (\<exists>ba'. ByteArray_read n ba = (Inr (take n (unread ba)), ba') \<and> ba_inv ba' \<and>
        unread ba' = drop n (unread ba) \<and> contents ba' = contents ba)) \<and>
    (length (unread ba) < n \<longrightarrow>
      ByteArray_read n ba = (Inl (Out_of_range ''not enough len''), ba)) \<and>
    (m_position ba = m_capacity ba \<longrightarrow> ByteArray_read 0 ba = (Inl Null_deref, ba))"
proof (intro conjI impI)
  assume n: "0 < n \<and> n \<le> length (unread ba)"
  then have r: "n \<le> getReadSize ba" using length_unread [OF assms] by simp
  have "m_position ba < m_capacity ba" by (rule read_pos_room [OF assms _ r]) (use n in simp)
  then have "ByteArray_read n ba = (Inr (take n (unread ba)), at_pos ba (m_position ba + n))"
    by (rule read_spec [OF assms r])
  moreover have "m_position ba + n \<le> m_size ba" "m_size ba \<le> m_capacity ba"
    using r n assms by (auto simp: getReadSize_def ba_inv_def)
  moreover from this have "contents (at_pos ba (m_position ba + n)) = contents ba"
    by (simp add: contents_def max_absorb1)
  ultimately show "\<exists>ba'. ByteArray_read n ba = (Inr (take n (unread ba)), ba') \<and> ba_inv ba' \<and>
      unread ba' = drop n (unread ba) \<and> contents ba' = contents ba"
    using at_pos_inv [OF assms, of "m_position ba + n"]
    by (auto simp: unread_def add.commute)
next
  assume "length (unread ba) < n"
  then show "ByteArray_read n ba = (Inl (Out_of_range ''not enough len''), ba)"
    using read_short [of ba n] length_unread [OF assms] by (simp add: not_enough_len_def)
qed (rule read_null [OF assms])

theorem read_cases_witness:
  "ByteArray_read 1 (ByteArray_new (\<lambda>_. 0) 2) =
     (Inl (Out_of_range ''not enough len''), ByteArray_new (\<lambda>_. 0) 2)"
  using read_cases [of "ByteArray_new (\<lambda>_. 0) 2" 1] new_inv [of 2 "\<lambda>_. 0"]
  by (simp add: unread_def contents_def ByteArray_new_def)

section \<open>Codecs\<close>

text \<open>
  The fixed-width writers put the two's complement bytes in the byte order of the
  buffer on the wire, whatever the byte order of the host they run on.
\<close>

theorem fixed_wire_format:
  "appends en (writeFint8 a) [a] \<and> appends en (writeFuint8 a) [a] \<and>
   appends en (writeFint16 host b) (mem_bytes en 2 b) \<and>
   appends en (writeFuint16 host b) (mem_bytes en 2 b) \<and>
   appends en (writeFint32 host c) (mem_bytes en 4 c) \<and>
   appends en (writeFuint32 host c) (mem_bytes en 4 c) \<and>
   appends en (writeFint64 host d) (mem_bytes en 8 d) \<and>
   appends en (writeFuint64 host d) (mem_bytes en 8 d) \<and>
   appends en (writeFloat host c) (mem_bytes en 4 c) \<and>
   appends en (writeDouble host d) (mem_bytes en 8 d)"
  unfolding wire_bytes_def [symmetric] by (intro conjI appendsI codec)

text \<open>
  A fixed-width number written on one host is read back, from the position it was
  written at, as the same number on any host.
\<close>

theorem fixed_roundtrip:
  "reads_back (writeFint8 a) readFint8 a \<and> reads_back (writeFuint8 a) readFuint8 a \<and>
   reads_back (writeFint16 host b) (readFint16 host') b \<and>
   reads_back (writeFuint16 host b) (readFuint16 host') b \<and>
   reads_back (writeFint32 host c) (readFint32 host') c \<and>
   reads_back (writeFuint32 host c) (readFuint32 host') c \<and>
   reads_back (writeFint64 host d) (readFint64 host') d \<and>
   reads_back (writeFuint64 host d) (readFuint64 host') d \<and>
   reads_back (writeFloat host c) (readFloat host') c \<and>
   reads_back (writeDouble host d) (readDouble host') d"
  by (intro conjI; rule reads_backI; rule codec)


lemma uint_small:
  "0 \<le> k \<Longrightarrow> k < 2 ^ LENGTH('a::len) \<Longrightarrow> uint (word_of_int k :: 'a word) = k"
  by (simp add: unsigned_of_int take_bit_int_eq_self)

lemma zigzag_value:
  fixes v :: "'a::len word"
  shows "uint (if sint v < 0 then (- v) * 2 - 1 else v * 2) =
    (if sint v < 0 then - 2 * sint v - 1 else 2 * sint v)"
proof -
  have r: "- (2 ^ (LENGTH('a) - 1)) \<le> sint v" "sint v < 2 ^ (LENGTH('a) - 1)"
    using sint_ge [of v] sint_lt [of v] by auto
  have p: "(2 :: int) ^ LENGTH('a) = 2 * 2 ^ (LENGTH('a) - 1)"
    by (metis One_nat_def Suc_pred len_gt_0 power_Suc)
  have v: "v = word_of_int (sint v)" by simp
  have pos: "v * 2 = word_of_int (2 * sint v)"
    by (subst v) (simp only: mult.commute of_int_mult of_int_numeral)
  have neg: "(- v) * 2 - 1 = word_of_int (- 2 * sint v - 1)"
    by (subst v) (simp only: of_int_diff of_int_mult of_int_minus of_int_1 of_int_numeral, simp)
  have "uint (word_of_int (2 * sint v) :: 'a word) = 2 * sint v" if "\<not> sint v < 0"
    by (rule uint_small) (use that r p in linarith)+
  moreover have "uint (word_of_int (- 2 * sint v - 1) :: 'a word) = - 2 * sint v - 1" if "sint v < 0"
    by (rule uint_small) (use that r p in linarith)+
  ultimately show ?thesis unfolding pos neg by (simp only: if_distrib split: if_split) blast
qed

text \<open>
  Zigzag: the code of a non-negative number is its double and the code of a negative
  one the odd number below the double of its absolute value, so that numbers of small
  magnitude get small codes, and decoding undoes encoding.
\<close>

theorem zigzag_code:
  "uint (EncodeZigzag32 v) = (if sint v < 0 then - 2 * sint v - 1 else 2 * sint v) \<and>
   uint (EncodeZigzag64 w) = (if sint w < 0 then - 2 * sint w - 1 else 2 * sint w) \<and>
   DecodeZigzag32 (EncodeZigzag32 v) = v \<and> DecodeZigzag64 (EncodeZigzag64 w) = w"
  unfolding EncodeZigzag32_def EncodeZigzag64_def zigzag_value
  using zigzag32 [of v] zigzag64 [of w] by (simp add: EncodeZigzag32_def EncodeZigzag64_def)

text \<open>
  C32. A non-empty string whose length its format can hold is read back unchanged, in all
  four formats, also across hosts of different byte order.
\<close>

theorem string_roundtrip:
  assumes "s \<noteq> []"
  shows "(length s < 2 ^ 16 \<longrightarrow> reads_back (writeStringF16 host s) (readStringF16 host') s) \<and>
    (length s < 2 ^ 32 \<longrightarrow> reads_back (writeStringF32 host s) (readStringF32 host') s) \<and>
    (length s < 2 ^ 64 \<longrightarrow> reads_back (writeStringF64 host s) (readStringF64 host') s) \<and>
    (length s < 2 ^ 64 \<longrightarrow> reads_back (writeStringVint s) readStringVint s)"
  by (intro conjI impI; rule reads_backI; rule codec; (rule assms)?; assumption?)

theorem string_roundtrip_witness:
  "reads_back (writeStringF16 SYLAR_LITTLE_ENDIAN [104, 105]) (readStringF16 SYLAR_BIG_ENDIAN) [104, 105]"
  using string_roundtrip [of "[104, 105]" SYLAR_LITTLE_ENDIAN SYLAR_BIG_ENDIAN] by simp

text \<open>
  The empty string is the exception: written as the last thing the storage holds, it
  is followed by no block, and reading it back dereferences the null \<open>m_cur\<close> instead of
  returning the empty string.
\<close>

theorem empty_string_at_end:
  assumes inv: "ba_inv ba" and full: "m_capacity ba = m_position ba + 2"
  shows "\<exists>ba'. writeStringF16 host [] ba = (Inr (), ba') \<and>
    fst (seqc (setPosition (m_position ba)) (\<lambda>_. readStringF16 host) ba') = Inl Null_deref"
proof -
  let ?w = "wire_bytes (m_endian ba) 2 (0 :: u16)"
  have e: "ba.emits (m_endian ba) (writeStringF16 host []) (?w @ [])"
    using emits_string(1) [of "m_endian ba" host "[]"] by simp
  have room: "getCapacity ba = 2" using full by (simp add: getCapacity_def)
  then obtain ba' where w: "writeStringF16 host [] ba = (Inr (), ba')"
    using e inv by (auto simp: ba.emits_def)
  then have wr: "written ba ?w ba'" using e inv by (auto simp: ba.emits_def)
  have "writeStringF16 host [] ba = writeFuint16 host 0 ba"
    by (auto simp: writeStringF16_def seqc_def ByteArray_write_def split: prod.splits sum.splits)
  then have g: "writeFuint16 host 0 ba = (Inr (), ba')" using w by simp
  then have cap: "m_capacity ba' = m_capacity ba"
    using room by (auto simp: writeFuint16_def ByteArray_write_def addCapacity_def Let_def
        split: if_splits option.splits sum.splits prod.splits)
  have inv': "ba_inv ba'" and p': "m_position ba' = m_capacity ba'"
    using wr cap full by (simp_all add: written_def)
  have "unread ba' = []"
    using length_unread [OF inv'] inv' p' by (simp add: getReadSize_def ba_inv_def)
  obtain ba'' where r: "readFuint16 host (at_pos ba' (m_position ba)) = (Inr 0, ba'')"
    "ba_inv ba''" "unread ba'' = []"
    using ba.reads_emitted [OF emits_F16(2) reads_F16(2) inv refl g, of host] \<open>unread ba' = []\<close>
    by auto
  have "ByteArray_read 2 (at_pos ba' (m_position ba)) =
      (Inr (take 2 (unread (at_pos ba' (m_position ba)))), at_pos (at_pos ba' (m_position ba)) (m_position ba + 2))"
    using read_spec [of "at_pos ba' (m_position ba)" 2] wr inv' cap full p'
      ba.rewind_inv [OF inv wr] written_back(3) [OF wr]
    by (auto simp: getReadSize_def written_def)
  then have "m_position ba'' = m_position ba + 2" "m_capacity ba'' = m_capacity ba"
    using r(1) cap by (auto simp: readFuint16_def readF_XX_def Let_def)
  then have "ByteArray_read 0 ba'' = (Inl Null_deref, ba'')"
    using read_null [OF r(2)] full by simp
  then have "readStringF16 host (at_pos ba' (m_position ba)) = (Inl Null_deref, ba'')"
    using r(1) by (simp add: readStringF16_def)
  then show ?thesis using w seek_back [OF inv wr] by (intro exI [of _ ba']) simp
qed

theorem empty_string_at_end_witness:
  "\<exists>ba'. writeStringF16 SYLAR_LITTLE_ENDIAN [] (ByteArray_new (\<lambda>_. 0) 2) = (Inr (), ba') \<and>
    fst (seqc (setPosition 0) (\<lambda>_. readStringF16 SYLAR_LITTLE_ENDIAN) ba') = Inl Null_deref"
  using empty_string_at_end [of "ByteArray_new (\<lambda>_. 0) 2" SYLAR_LITTLE_ENDIAN] new_inv [of 2 "\<lambda>_. 0"]
  by (simp add: ByteArray_new_def)

section \<open>Views, files, position\<close>

text \<open>
  The buffers handed to \<open>writev\<close> are exactly the next unread bytes, the ones handed to
  \<open>readv\<close> are \<open>len\<close> bytes of storage from the position on, without moving the position,
  and the dump is the unread bytes.
\<close>

theorem buffers_denote:
  assumes "ba_inv ba"
  shows "(\<exists>iovs. getReadBuffers len ba = Inr (min len (length (unread ba)), iovs) \<and>
      gather (m_nodes ba) iovs = take len (unread ba)) \<and>
    (write_fits ba len \<longrightarrow> (\<exists>iovs ba'. getWriteBuffers len ba = (Inr (len, iovs), ba') \<and>
      ba_inv ba' \<and> m_position ba' = m_position ba \<and> contents ba' = contents ba \<and>
      sum_list (map iov_len iovs) = len \<and>
      gather (m_nodes ba') iovs = take len (drop (m_position ba) (storage ba')))) \<and>
    toString ba = Inr (unread ba)"
proof (intro conjI impI)
  show "\<exists>iovs. getReadBuffers len ba = Inr (min len (length (unread ba)), iovs) \<and>
      gather (m_nodes ba) iovs = take len (unread ba)"
    using getReadBuffers_ok [OF assms] length_unread [OF assms] by simp
next
  assume "write_fits ba len"
  obtain xs where "storage (grown ba len) = storage ba @ xs" using grown_inv(2) [OF assms] by blast
  moreover have "m_size ba \<le> length (storage ba)"
    using assms length_storage [OF assms] by (simp add: ba_inv_def)
  ultimately have "contents (grown ba len) = contents ba" by (simp add: contents_def)
  then show "\<exists>iovs ba'. getWriteBuffers len ba = (Inr (len, iovs), ba') \<and>
      ba_inv ba' \<and> m_position ba' = m_position ba \<and> contents ba' = contents ba \<and>
      sum_list (map iov_len iovs) = len \<and>
      gather (m_nodes ba') iovs = take len (drop (m_position ba) (storage ba'))"
    using getWriteBuffers_ok [OF assms \<open>write_fits ba len\<close>] grown_inv(1) [OF assms, of len]
    by auto
qed (rule toString_ok [OF assms])

theorem buffers_denote_witness:
  "toString (ByteArray_new (\<lambda>_. 0) 2) = Inr []"
  using buffers_denote [of "ByteArray_new (\<lambda>_. 0) 2" 0] new_inv [of 2 "\<lambda>_. 0"]
  by (simp add: unread_def contents_def ByteArray_new_def)

text \<open>
  A file loaded at a block boundary is appended in full, whatever its length. A dump
  to a file is the unread bytes when the position is at a block boundary or more than a
  block is unread; a file that cannot be opened is reported and changes nothing.
\<close>

theorem files_faithful:
  assumes "ba_inv ba"
  shows "(m_baseSize ba dvd m_position ba \<longrightarrow> (\<exists>ba'. readFromFile (Some bs) ba = Some (Inr True, ba') \<and>
      ba_inv ba' \<and> contents ba' =
        take (m_position ba) (contents ba) @ bs @ drop (m_position ba + length bs) (contents ba))) \<and>
    readFromFile None ba = Some (Inr False, ba) \<and> writeToFile False ba = Inr (False, None) \<and>
    (m_baseSize ba dvd m_position ba \<or> m_baseSize ba < length (unread ba) \<longrightarrow>
      writeToFile True ba = Inr (True, Some (unread ba)))"
proof (intro conjI impI)
  assume "m_baseSize ba dvd m_position ba"
  then obtain ba' where rf: "readFile_loop (m_baseSize ba) bs ba = Some (Inr (), ba')" "written ba bs ba'"
    using readFile_loop_ok [OF assms] by blast
  have "ba_inv ba'" using rf(2) by (simp add: written_def)
  moreover have "readFromFile (Some bs) ba = Some (Inr True, ba')"
    using rf(1) by (simp add: readFromFile_def)
  ultimately show "\<exists>ba'. readFromFile (Some bs) ba = Some (Inr True, ba') \<and> ba_inv ba' \<and> contents ba' =
      take (m_position ba) (contents ba) @ bs @ drop (m_position ba + length bs) (contents ba)"
    using written_contents [OF assms rf(2)] by blast
next
  assume "m_baseSize ba dvd m_position ba \<or> m_baseSize ba < length (unread ba)"
  then show "writeToFile True ba = Inr (True, Some (unread ba))"
    using writeToFile_ok [OF assms] length_unread [OF assms] by (auto simp: mod_eq_0_iff_dvd)
qed (simp_all add: readFromFile_def writeToFile_def)

theorem files_faithful_witness:
  "\<exists>ba'. readFromFile (Some [1, 2, 3, 4, 5]) (ByteArray_new (\<lambda>_. 0) 2) = Some (Inr True, ba') \<and>
     contents ba' = [1, 2, 3, 4, 5]"
proof -
  let ?ba = "ByteArray_new (\<lambda>_. 0) 2"
  have "contents ?ba = []" "m_position ?ba = 0" by (simp_all add: contents_def ByteArray_new_def)
  then show ?thesis
    using files_faithful [OF new_inv [of 2 "\<lambda>_. 0"], of "[1, 2, 3, 4, 5]"] by auto
qed

text \<open>
  Seeking within the capacity always succeeds, sets the position, leaves the stored
  bytes alone and extends the size to the position when it is behind the end; seeking
  beyond it throws. Clearing empties the buffer. Both keep the invariant.
\<close>

theorem seek_and_clear:
  assumes "ba_inv ba"
  shows "(v \<le> m_capacity ba \<longrightarrow> (\<exists>ba'. setPosition v ba = (Inr (), ba') \<and> ba_inv ba' \<and>
      m_position ba' = v \<and> storage ba' = storage ba \<and> m_size ba' = max (m_size ba) v)) \<and>
    (m_capacity ba < v \<longrightarrow> setPosition v ba = (Inl (Out_of_range ''set_position out of range''), ba)) \<and>
    ba_inv (ByteArray_clear ba) \<and> contents (ByteArray_clear ba) = [] \<and>
    m_position (ByteArray_clear ba) = 0"
  using setPosition_spec [OF assms] at_pos_inv [OF assms] clear_inv [OF assms]
  by (auto simp: setPosition_def ByteArray_clear_def)

theorem seek_and_clear_witness:
  "setPosition 3 (ByteArray_new (\<lambda>_. 0) 2) =
     (Inl (Out_of_range ''set_position out of range''), ByteArray_new (\<lambda>_. 0) 2)"
  using seek_and_clear [of "ByteArray_new (\<lambda>_. 0) 2" 3] new_inv [of 2 "\<lambda>_. 0"]
  by (simp add: ByteArray_new_def)

end
