(* ===== verification/Ordered_Containers.thy ===== *)
theory Ordered_Containers
  imports Prelude
begin

text \<open>
  The ordered containers of the C++ standard library as the code uses them:
  \<open>std::set<T, Compare>\<close> and \<open>std::map<K, V, Compare>\<close>. A container is the list of its
  elements in iteration order, an iterator is an index, \<open>end()\<close> the length. Searching
  goes by the comparison alone, so two keys neither of which is less than the other are
  the same key. The laws the standard asks of the comparison are the locale
  \<open>strict_weak_order\<close>; each component that brings a comparison of its own interprets it.
\<close>

section \<open>Operations\<close>

definition lower_bound :: "('a \<Rightarrow> 'a \<Rightarrow> bool) \<Rightarrow> 'a \<Rightarrow> 'a list \<Rightarrow> nat" where
  "lower_bound lt x xs = length (takeWhile (\<lambda>y. lt y x) xs)"

definition set_find :: "('a \<Rightarrow> 'a \<Rightarrow> bool) \<Rightarrow> 'a \<Rightarrow> 'a list \<Rightarrow> nat" where
  "set_find lt x xs =
     (let i = lower_bound lt x xs in if i < length xs \<and> \<not> lt x (xs ! i) then i else length xs)"

definition set_erase :: "nat \<Rightarrow> 'a list \<Rightarrow> 'a list" where
  "set_erase i xs = take i xs @ drop (Suc i) xs"

text \<open>\<open>insert\<close> returns the position and the new container; an equivalent element stays.\<close>

definition set_insert :: "('a \<Rightarrow> 'a \<Rightarrow> bool) \<Rightarrow> 'a \<Rightarrow> 'a list \<Rightarrow> nat \<times> 'a list" where
  "set_insert lt x xs =
     (let i = lower_bound lt x xs
      in if i < length xs \<and> \<not> lt x (xs ! i) then (i, xs) else (i, take i xs @ x # drop i xs))"

text \<open>A map is an association list in key order.\<close>

definition on_keys :: "('k \<Rightarrow> 'k \<Rightarrow> bool) \<Rightarrow> 'k \<times> 'v \<Rightarrow> 'k \<times> 'v \<Rightarrow> bool" where
  "on_keys lt p q = lt (fst p) (fst q)"

definition map_find :: "('k \<Rightarrow> 'k \<Rightarrow> bool) \<Rightarrow> 'k \<Rightarrow> ('k \<times> 'v) list \<Rightarrow> 'v option" where
  "map_find lt k m =
     (case dropWhile (\<lambda>p. lt (fst p) k) m of
        [] \<Rightarrow> None | p # _ \<Rightarrow> if lt k (fst p) then None else Some (snd p))"

text \<open>\<open>m[k] = v\<close>: the key that is there already is kept.\<close>

definition map_put :: "('k \<Rightarrow> 'k \<Rightarrow> bool) \<Rightarrow> 'k \<Rightarrow> 'v \<Rightarrow> ('k \<times> 'v) list \<Rightarrow> ('k \<times> 'v) list" where
  "map_put lt k v m =
     takeWhile (\<lambda>p. lt (fst p) k) m @
     (case dropWhile (\<lambda>p. lt (fst p) k) m of
        [] \<Rightarrow> [(k, v)]
      | p # ps \<Rightarrow> if lt k (fst p) then (k, v) # p # ps else (fst p, v) # ps)"

definition map_erase :: "('k \<Rightarrow> 'k \<Rightarrow> bool) \<Rightarrow> 'k \<Rightarrow> ('k \<times> 'v) list \<Rightarrow> ('k \<times> 'v) list" where
  "map_erase lt k m =
     takeWhile (\<lambda>p. lt (fst p) k) m @
     (case dropWhile (\<lambda>p. lt (fst p) k) m of
        [] \<Rightarrow> [] | p # ps \<Rightarrow> if lt k (fst p) then p # ps else ps)"

definition map_ok :: "('k \<Rightarrow> 'k \<Rightarrow> bool) \<Rightarrow> ('k \<times> 'v) list \<Rightarrow> bool" where
  "map_ok lt m \<longleftrightarrow> sorted_wrt lt (map fst m)"

section \<open>The comparison and its laws\<close>

locale strict_weak_order =
  fixes lt :: "'a \<Rightarrow> 'a \<Rightarrow> bool"
  assumes irrefl: "\<not> lt a a"
    and trans: "lt a b \<Longrightarrow> lt b c \<Longrightarrow> lt a c"
    and incomp: "\<not> lt a b \<Longrightarrow> \<not> lt b c \<Longrightarrow> \<not> lt a c"
begin

definition equiv :: "'a \<Rightarrow> 'a \<Rightarrow> bool" where
  "equiv a b \<longleftrightarrow> \<not> lt a b \<and> \<not> lt b a"

lemma asym: "lt a b \<Longrightarrow> \<not> lt b a"
  using irrefl trans by blast

lemma equiv_refl [simp]: "equiv a a"
  by (simp add: equiv_def irrefl)

lemma equiv_sym: "equiv a b \<Longrightarrow> equiv b a"
  by (simp add: equiv_def)

lemma equiv_lt: "equiv a b \<Longrightarrow> lt a c = lt b c" "equiv a b \<Longrightarrow> lt c a = lt c b"
  unfolding equiv_def using incomp by blast+

lemma after_bound:
  assumes "sorted_wrt lt xs" "y \<in> set (dropWhile (\<lambda>y. lt y x) xs)"
  shows "\<not> lt y x"
proof -
  obtain z zs where d: "dropWhile (\<lambda>y. lt y x) xs = z # zs"
    using assms(2) by (cases "dropWhile (\<lambda>y. lt y x) xs") auto
  then have z: "\<not> lt z x" by (metis dropWhile_eq_Cons_conv)
  have "sorted_wrt lt (z # zs)"
    using assms(1) d by (metis sorted_wrt_append takeWhile_dropWhile_id)
  then show ?thesis using assms(2) d z trans by auto
qed

lemma before_bound: "y \<in> set (takeWhile (\<lambda>y. lt y x) xs) \<Longrightarrow> lt y x"
  by (metis set_takeWhileD)

lemma take_bound: "take (lower_bound lt x xs) xs = takeWhile (\<lambda>y. lt y x) xs"
  by (simp add: lower_bound_def takeWhile_eq_take [symmetric])

lemma drop_bound: "drop (lower_bound lt x xs) xs = dropWhile (\<lambda>y. lt y x) xs"
  by (simp add: lower_bound_def dropWhile_eq_drop)

lemma nth_bound:
  "lower_bound lt x xs < length xs \<Longrightarrow>
   \<exists>zs. dropWhile (\<lambda>y. lt y x) xs = xs ! lower_bound lt x xs # zs"
  by (metis Cons_nth_drop_Suc drop_bound)

text \<open>\<open>find\<close> finds an element iff an equivalent one is there.\<close>

lemma find_iff:
  assumes "sorted_wrt lt xs"
  shows "set_find lt x xs < length xs \<longleftrightarrow> (\<exists>y \<in> set xs. equiv y x)"
proof
  assume "set_find lt x xs < length xs"
  then have i: "lower_bound lt x xs < length xs" "\<not> lt x (xs ! lower_bound lt x xs)"
    by (auto simp: set_find_def Let_def split: if_splits)
  then have "\<not> lt (xs ! lower_bound lt x xs) x"
    using nth_bound after_bound [OF assms] by (metis list.set_intros(1))
  with i show "\<exists>y \<in> set xs. equiv y x" by (auto simp: equiv_def)
next
  assume "\<exists>y \<in> set xs. equiv y x"
  then obtain y where y: "y \<in> set xs" "\<not> lt y x" "\<not> lt x y" by (auto simp: equiv_def)
  then have d: "y \<in> set (dropWhile (\<lambda>y. lt y x) xs)"
    by (metis Un_iff before_bound set_append takeWhile_dropWhile_id)
  then have i: "lower_bound lt x xs < length xs"
    by (metis drop_bound drop_eq_Nil2 empty_iff list.set(1) not_le)
  then obtain z zs where z: "dropWhile (\<lambda>y. lt y x) xs = z # zs" "z = xs ! lower_bound lt x xs"
    using nth_bound by blast
  have "sorted_wrt lt (z # zs)"
    using assms z by (metis sorted_wrt_append takeWhile_dropWhile_id)
  then have "\<not> lt x z" using d y z trans by auto
  then show "set_find lt x xs < length xs" using i z by (simp add: set_find_def Let_def)
qed

lemma find_equiv:
  assumes "sorted_wrt lt xs" "set_find lt x xs < length xs"
  shows "equiv (xs ! set_find lt x xs) x"
proof -
  have i: "lower_bound lt x xs < length xs" "\<not> lt x (xs ! lower_bound lt x xs)"
    "set_find lt x xs = lower_bound lt x xs"
    using assms(2) by (auto simp: set_find_def Let_def split: if_splits)
  then have "\<not> lt (xs ! lower_bound lt x xs) x"
    using nth_bound after_bound [OF assms(1)] by (metis list.set_intros(1))
  with i show ?thesis by (auto simp: equiv_def)
qed

lemma erase_sorted: "sorted_wrt lt xs \<Longrightarrow> sorted_wrt lt (set_erase i xs)"
proof -
  assume "sorted_wrt lt xs"
  then have "sorted_wrt lt (take i xs @ drop i xs)" by simp
  moreover have "set (drop (Suc i) xs) \<subseteq> set (drop i xs)" by (rule set_drop_subset_set_drop) simp
  moreover have "sorted_wrt lt (drop (Suc i) xs)" using \<open>sorted_wrt lt xs\<close> by (rule sorted_wrt_drop)
  ultimately show ?thesis unfolding set_erase_def sorted_wrt_append by blast
qed

lemma insert_sorted:
  assumes "sorted_wrt lt xs"
  shows "sorted_wrt lt (snd (set_insert lt x xs))"
proof (cases "lower_bound lt x xs < length xs \<and> \<not> lt x (xs ! lower_bound lt x xs)")
  case True
  then show ?thesis using assms by (simp add: set_insert_def Let_def)
next
  case False
  have less: "lt x y" if y: "y \<in> set (dropWhile (\<lambda>y. lt y x) xs)" for y
  proof -
    have "lower_bound lt x xs < length xs"
      using y by (metis drop_bound drop_eq_Nil2 empty_iff list.set(1) not_le)
    with False obtain z zs where z: "dropWhile (\<lambda>y. lt y x) xs = z # zs" "lt x z"
      using nth_bound by blast
    have "sorted_wrt lt (z # zs)"
      using assms z by (metis sorted_wrt_append takeWhile_dropWhile_id)
    then show ?thesis using y z trans by auto
  qed
  have "sorted_wrt lt (takeWhile (\<lambda>y. lt y x) xs @ dropWhile (\<lambda>y. lt y x) xs)"
    using assms by simp
  then have "sorted_wrt lt (takeWhile (\<lambda>y. lt y x) xs) \<and> sorted_wrt lt (dropWhile (\<lambda>y. lt y x) xs)"
    unfolding sorted_wrt_append by blast
  moreover have "\<forall>y \<in> set (takeWhile (\<lambda>y. lt y x) xs). lt y x" using before_bound by blast
  ultimately have "sorted_wrt lt (takeWhile (\<lambda>y. lt y x) xs @ x # dropWhile (\<lambda>y. lt y x) xs)"
    using less trans unfolding sorted_wrt_append sorted_wrt.simps list.set by blast
  moreover have "snd (set_insert lt x xs) = takeWhile (\<lambda>y. lt y x) xs @ x # dropWhile (\<lambda>y. lt y x) xs"
    using False by (auto simp: set_insert_def Let_def take_bound drop_bound)
  ultimately show ?thesis by simp
qed

lemma insert_set:
  assumes "\<forall>y \<in> set xs. equiv y x \<longrightarrow> y = x"
  shows "set (snd (set_insert lt x xs)) = insert x (set xs)"
proof (cases "lower_bound lt x xs < length xs \<and> \<not> lt x (xs ! lower_bound lt x xs)")
  case True
  then have "\<not> lt (xs ! lower_bound lt x xs) x"
    using nth_bound by (metis dropWhile_eq_Cons_conv)
  with True have "xs ! lower_bound lt x xs = x" using assms by (auto simp: equiv_def)
  then have "x \<in> set xs" using True by (metis nth_mem)
  with True show ?thesis by (auto simp: set_insert_def Let_def)
next
  case False
  have "set xs = set (take (lower_bound lt x xs) xs) \<union> set (drop (lower_bound lt x xs) xs)"
    by (metis append_take_drop_id set_append)
  with False show ?thesis by (auto simp: set_insert_def Let_def)
qed

text \<open>The first element is a least one.\<close>

lemma front_least: "sorted_wrt lt xs \<Longrightarrow> y \<in> set xs \<Longrightarrow> \<not> lt y (hd xs)"
  using irrefl asym by (cases xs) auto

subsection \<open>Maps\<close>

lemma find_sorted:
  assumes "map_ok lt m"
  shows "map_find lt k m = Some v \<longleftrightarrow> (\<exists>k'. (k', v) \<in> set m \<and> equiv k' k)"
  using assms
proof (induction m)
  case Nil
  then show ?case by (simp add: map_find_def)
next
  case (Cons p m)
  then have ok: "map_ok lt m" "\<forall>q \<in> set m. lt (fst p) (fst q)"
    by (auto simp: map_ok_def)
  have no: "\<not> equiv (fst q) k" if "q \<in> set m" "\<not> lt (fst p) k" for q
    using that ok(2) incomp [of "fst q" k "fst p"] asym by (metis equiv_def incomp)
  show ?case
  proof (cases "lt (fst p) k")
    case True
    then have "\<not> equiv (fst p) k" by (simp add: equiv_def)
    moreover have "map_find lt k (p # m) = map_find lt k m" using True by (simp add: map_find_def)
    ultimately show ?thesis using Cons.IH [OF ok(1)] by auto
  next
    case False
    then show ?thesis using no by (cases p) (force simp: map_find_def equiv_def)
  qed
qed

lemma find_put_same: "map_ok lt m \<Longrightarrow> equiv k k' \<Longrightarrow> map_find lt k' (map_put lt k v m) = Some v"
proof (induction m)
  case Nil
  then show ?case by (simp add: map_put_def map_find_def equiv_def)
next
  case (Cons p m)
  note e = equiv_lt [OF Cons.prems(2)]
  from Cons show ?case
    by (cases "lt (fst p) k")
      (auto simp: map_put_def map_find_def map_ok_def e equiv_def dest: asym)
qed

lemma find_put_other: "map_ok lt m \<Longrightarrow> \<not> equiv k k' \<Longrightarrow> map_find lt k' (map_put lt k v m) = map_find lt k' m"
proof (induction m)
  case Nil
  then show ?case by (auto simp: map_put_def map_find_def equiv_def)
next
  case (Cons p m)
  then have ok: "map_ok lt m" by (simp add: map_ok_def)
  show ?case
  proof (cases "lt (fst p) k")
    case True
    then have "map_put lt k v (p # m) = p # map_put lt k v m" by (simp add: map_put_def)
    then show ?thesis using Cons.IH [OF ok Cons.prems(2)]
      by (cases "lt (fst p) k'") (simp_all add: map_find_def)
  next
    case False
    show ?thesis
    proof (cases "lt k (fst p)")
      case less: True
      then have "map_put lt k v (p # m) = (k, v) # p # m" using False by (simp add: map_put_def)
      moreover have "lt k' (fst p) \<and> \<not> lt (fst p) k' \<and> \<not> lt k k'" if "lt k' k"
        using trans [OF that less] asym that by blast
      moreover have "lt k k' \<or> lt k' k" using Cons.prems(2) by (auto simp: equiv_def)
      ultimately show ?thesis by (auto simp: map_find_def)
    next
      case eq: False
      then have "map_put lt k v (p # m) = (fst p, v) # m" using False by (simp add: map_put_def)
      moreover have "equiv (fst p) k" using False eq by (simp add: equiv_def)
      then have "lt (fst p) k' = lt k k'" "lt k' (fst p) = lt k' k" by (auto dest: equiv_lt)
      moreover have "lt k k' \<or> lt k' k" using Cons.prems(2) by (auto simp: equiv_def)
      ultimately show ?thesis by (auto simp: map_find_def)
    qed
  qed
qed

lemma put_keys:
  "fst ` set (map_put lt k v m) \<subseteq> insert k (fst ` set m)"
  by (induction m) (auto simp: map_put_def)

lemma put_ok: "map_ok lt m \<Longrightarrow> map_ok lt (map_put lt k v m)"
proof (induction m)
  case Nil
  then show ?case by (simp add: map_put_def map_ok_def)
next
  case (Cons p m)
  then have ok: "map_ok lt m" "\<forall>q \<in> set m. lt (fst p) (fst q)" by (auto simp: map_ok_def)
  show ?case
  proof (cases "lt (fst p) k")
    case True
    then have "map_put lt k v (p # m) = p # map_put lt k v m" by (simp add: map_put_def)
    then show ?thesis using Cons.IH [OF ok(1)] put_keys [of k v m] True ok(2)
      by (force simp: map_ok_def)
  next
    case False
    then show ?thesis using Cons.prems ok trans
      by (auto simp: map_put_def map_ok_def)
  qed
qed

lemma erase_Cons:
  "map_erase lt k (p # m) = (if lt (fst p) k then p # map_erase lt k m
     else if lt k (fst p) then p # m else m)"
  by (simp add: map_erase_def)

lemma erase_subset: "set (map_erase lt k m) \<subseteq> set m"
  by (induction m) (auto simp: erase_Cons, simp add: map_erase_def)

lemma erase_ok: "map_ok lt m \<Longrightarrow> map_ok lt (map_erase lt k m)"
proof (induction m)
  case Nil
  then show ?case by (simp add: map_erase_def map_ok_def)
next
  case (Cons p m)
  then show ?case using erase_subset [of k m]
    by (auto simp: erase_Cons map_ok_def)
qed

lemma find_erase_same: "map_ok lt m \<Longrightarrow> equiv k k' \<Longrightarrow> map_find lt k' (map_erase lt k m) = None"
proof (induction m)
  case Nil
  then show ?case by (simp add: map_erase_def map_find_def)
next
  case (Cons p m)
  then have ok: "map_ok lt m" "\<forall>q \<in> set m. lt (fst p) (fst q)" by (auto simp: map_ok_def)
  note e = equiv_lt [OF Cons.prems(2)]
  show ?case
  proof (cases "lt (fst p) k")
    case True
    then show ?thesis using Cons.IH [OF ok(1) Cons.prems(2)] e by (simp add: map_erase_def map_find_def)
  next
    case False
    show ?thesis
    proof (cases "lt k (fst p)")
      case less: True
      then show ?thesis using False e by (simp add: map_erase_def map_find_def)
    next
      case eq: False
      have "lt k' (fst q) \<and> \<not> lt (fst q) k'" if "q \<in> set m" for q
        using that ok(2) False eq e incomp asym by metis
      then show ?thesis using False eq
        by (cases m) (auto simp: map_erase_def map_find_def)
    qed
  qed
qed

end

text \<open>An order in which equivalent elements are equal.\<close>

locale strict_linear_order = strict_weak_order +
  assumes antisym: "\<not> lt a b \<Longrightarrow> \<not> lt b a \<Longrightarrow> a = b"
begin

lemma equiv_eq [simp]: "equiv a b \<longleftrightarrow> a = b"
  using antisym irrefl by (auto simp: equiv_def)

lemma find_mem: "sorted_wrt lt xs \<Longrightarrow> set_find lt x xs < length xs \<longleftrightarrow> x \<in> set xs"
  by (simp add: find_iff)

lemma find_nth: "sorted_wrt lt xs \<Longrightarrow> x \<in> set xs \<Longrightarrow> xs ! set_find lt x xs = x"
  using find_equiv [of xs x] by (simp add: find_mem)

lemma sorted_distinct: "sorted_wrt lt xs \<Longrightarrow> distinct xs"
  using irrefl by (induction xs) auto

lemma insert_mem: "set (snd (set_insert lt x xs)) = insert x (set xs)"
  by (simp add: insert_set)

lemma erase_mem:
  assumes "sorted_wrt lt xs" "x \<in> set xs"
  shows "set (set_erase (set_find lt x xs) xs) = set xs - {x}"
proof -
  let ?i = "set_find lt x xs"
  have i: "?i < length xs" "xs ! ?i = x" using assms by (simp_all add: find_mem find_nth)
  then have split: "xs = take ?i xs @ x # drop (Suc ?i) xs" by (metis id_take_nth_drop)
  have "distinct (take ?i xs @ x # drop (Suc ?i) xs)"
    using sorted_distinct [OF assms(1)] split by simp
  then have "x \<notin> set (take ?i xs)" "x \<notin> set (drop (Suc ?i) xs)" by auto
  moreover have "set xs = set (take ?i xs) \<union> {x} \<union> set (drop (Suc ?i) xs)"
    by (subst split) auto
  ultimately show ?thesis by (auto simp: set_erase_def)
qed

end

text \<open>The order of the numbers, \<open>std::less\<close>, is one.\<close>

interpretation nat_less: strict_linear_order "(<) :: nat \<Rightarrow> nat \<Rightarrow> bool"
  by unfold_locales auto

end
