(* ===== verification/Timers.thy ===== *)
theory Timers
  imports Ordered_Containers
begin

text \<open>
  Timers and their manager (\<open>sylar/timer.h\<close>, \<open>sylar/timer.cc\<close>): a \<open>std::set\<close> of shared
  pointers to timers ordered by deadline, then by address.

  A \<open>Timer*\<close> is its address, a number; \<open>timer_at\<close> is the heap of timers. The clock,
  \<open>GetCurrentMS()\<close>, is the argument \<open>now\<close> of every operation that reads it, and \<open>addr\<close> is
  the address an allocation returns. Times are 64-bit words and wrap around. Each
  operation holds the manager's lock to its end, so it is one atomic step; only
  \<open>listExpiredCb\<close> gives the lock up in between, and is two steps. The virtual function
  \<open>onTimerInsertedAtFront\<close> belongs to the subclass: the operations return whether it is
  called.
\<close>

section \<open>State\<close>

text \<open>What a timer runs: a function, or one bound to a condition by \<open>addConditionTimer\<close>.\<close>

datatype 'c callback = Call 'c | OnTimer_bind nat 'c

text \<open>The functions that a callback runs, given which objects are still alive.\<close>

fun OnTimer :: "(nat \<Rightarrow> bool) \<Rightarrow> 'c callback \<Rightarrow> 'c list" where
  "OnTimer alive (Call cb) = [cb]"
| "OnTimer alive (OnTimer_bind weak_cond cb) = (if alive weak_cond then [cb] else [])"

record 'c timer =
  m_recurring :: bool
  m_ms :: u64
  m_next :: u64
  timer_cb :: "'c callback option"

record 'c timer_manager =
  timer_at :: "nat \<Rightarrow> 'c timer"
  m_timers :: "nat list"
  m_tickled :: bool
  m_previouseTime :: u64

definition Timer_new :: "u64 \<Rightarrow> 'c callback option \<Rightarrow> bool \<Rightarrow> u64 \<Rightarrow> 'c timer" where
  "Timer_new ms cb recurring now =
     \<lparr>m_recurring = recurring, m_ms = ms, m_next = now + ms, timer_cb = cb\<rparr>"

definition Timer_key :: "u64 \<Rightarrow> 'c timer" where
  "Timer_key nxt = \<lparr>m_recurring = False, m_ms = 0, m_next = nxt, timer_cb = None\<rparr>"

definition TimerManager_new :: "u64 \<Rightarrow> 'c timer_manager" where
  "TimerManager_new now =
     \<lparr>timer_at = (\<lambda>_. Timer_key 0), m_timers = [], m_tickled = False, m_previouseTime = now\<rparr>"

definition Comparator :: "(nat \<Rightarrow> 'c timer) \<Rightarrow> nat option \<Rightarrow> nat option \<Rightarrow> bool" where
  "Comparator h lhs rhs =
     (case (lhs, rhs) of
        (None, None) \<Rightarrow> False
      | (None, Some _) \<Rightarrow> True
      | (Some _, None) \<Rightarrow> False
      | (Some l, Some r) \<Rightarrow>
          if m_next (h l) < m_next (h r) then True
          else if m_next (h r) < m_next (h l) then False
          else l < r)"

text \<open>The set holds no null pointers.\<close>

abbreviation timer_less :: "(nat \<Rightarrow> 'c timer) \<Rightarrow> nat \<Rightarrow> nat \<Rightarrow> bool" where
  "timer_less h a b \<equiv> Comparator h (Some a) (Some b)"

definition set_timer :: "nat \<Rightarrow> ('c timer \<Rightarrow> 'c timer) \<Rightarrow> 'c timer_manager \<Rightarrow> 'c timer_manager" where
  "set_timer t f tm = tm\<lparr>timer_at := (timer_at tm)(t := f (timer_at tm t))\<rparr>"

section \<open>Operations\<close>

text \<open>\<open>addTimer(val, lock)\<close>: whether \<open>onTimerInsertedAtFront\<close> is called, and the manager.\<close>

definition addTimer_locked :: "nat \<Rightarrow> 'c timer_manager \<Rightarrow> bool \<times> 'c timer_manager" where
  "addTimer_locked val tm =
     (let (it, timers) = set_insert (timer_less (timer_at tm)) val (m_timers tm);
          at_front = (it = 0 \<and> \<not> m_tickled tm)
      in (at_front, tm\<lparr>m_timers := timers, m_tickled := (if at_front then True else m_tickled tm)\<rparr>))"

definition addTimer :: "u64 \<Rightarrow> 'c callback option \<Rightarrow> bool \<Rightarrow> u64 \<Rightarrow> nat \<Rightarrow> 'c timer_manager \<Rightarrow>
    bool \<times> 'c timer_manager" where
  "addTimer ms cb recurring now addr tm =
     addTimer_locked addr (set_timer addr (\<lambda>_. Timer_new ms cb recurring now) tm)"

definition addConditionTimer :: "u64 \<Rightarrow> 'c \<Rightarrow> nat \<Rightarrow> bool \<Rightarrow> u64 \<Rightarrow> nat \<Rightarrow> 'c timer_manager \<Rightarrow>
    bool \<times> 'c timer_manager" where
  "addConditionTimer ms cb weak_cond recurring now addr tm =
     addTimer ms (Some (OnTimer_bind weak_cond cb)) recurring now addr tm"

text \<open>\<open>cancel\<close> passes what \<open>find\<close> returned to \<open>erase\<close> unchecked, also \<open>end()\<close>.\<close>

definition Timer_cancel :: "nat \<Rightarrow> ('c timer_manager, bool) call" where
  "Timer_cancel t tm =
     (if timer_cb (timer_at tm t) \<noteq> None then
        let tm = set_timer t (\<lambda>x. x\<lparr>timer_cb := None\<rparr>) tm;
            it = set_find (timer_less (timer_at tm)) t (m_timers tm)
        in if it = length (m_timers tm) then (Inl Undefined, tm)
           else (Inr True, tm\<lparr>m_timers := set_erase it (m_timers tm)\<rparr>)
      else (Inr False, tm))"

definition Timer_refresh :: "nat \<Rightarrow> u64 \<Rightarrow> 'c timer_manager \<Rightarrow> bool \<times> 'c timer_manager" where
  "Timer_refresh t now tm =
     (if timer_cb (timer_at tm t) \<noteq> None then
        let tm = set_timer t (\<lambda>x. x\<lparr>timer_cb := None\<rparr>) tm;
            it = set_find (timer_less (timer_at tm)) t (m_timers tm)
        in if it = length (m_timers tm) then (False, tm) else
           let tm = tm\<lparr>m_timers := set_erase it (m_timers tm)\<rparr>;
               tm = set_timer t (\<lambda>x. x\<lparr>m_next := now + m_ms x\<rparr>) tm
           in (True, tm\<lparr>m_timers := snd (set_insert (timer_less (timer_at tm)) t (m_timers tm))\<rparr>)
      else (False, tm))"

text \<open>\<open>reset\<close>: its result, whether \<open>onTimerInsertedAtFront\<close> is called, and the manager.\<close>

definition Timer_reset :: "nat \<Rightarrow> u64 \<Rightarrow> bool \<Rightarrow> u64 \<Rightarrow> 'c timer_manager \<Rightarrow>
    bool \<times> bool \<times> 'c timer_manager" where
  "Timer_reset t ms from_now now tm =
     (if timer_cb (timer_at tm t) \<noteq> None then
        if ms = m_ms (timer_at tm t) \<and> \<not> from_now then (True, False, tm) else
        let tm = set_timer t (\<lambda>x. x\<lparr>timer_cb := None\<rparr>) tm;
            it = set_find (timer_less (timer_at tm)) t (m_timers tm)
        in if it = length (m_timers tm) then (False, False, tm) else
           let tm = tm\<lparr>m_timers := set_erase it (m_timers tm)\<rparr>;
               start = (if from_now then now
                 else m_next (timer_at tm t) - m_ms (timer_at tm t));
               tm = set_timer t (\<lambda>x. x\<lparr>m_ms := ms, m_next := start + ms\<rparr>) tm
           in (True, addTimer_locked t tm)
      else (False, False, tm))"

definition getNextTimer :: "u64 \<Rightarrow> 'c timer_manager \<Rightarrow> u64 \<times> 'c timer_manager" where
  "getNextTimer now tm =
     (let tm = tm\<lparr>m_tickled := False\<rparr> in
      case m_timers tm of
        [] \<Rightarrow> (NOT 0, tm)
      | t # _ \<Rightarrow>
          if now \<ge> m_next (timer_at tm t) then (0, tm) else (m_next (timer_at tm t) - now, tm))"

definition detectClockRollover :: "u64 \<Rightarrow> 'c timer_manager \<Rightarrow> bool \<times> 'c timer_manager" where
  "detectClockRollover now_ms tm =
     (now_ms < m_previouseTime tm \<and> now_ms < m_previouseTime tm - 60 * 60 * 1000,
      tm\<lparr>m_previouseTime := now_ms\<rparr>)"

text \<open>The loop over the expired timers: the collected functions, null ones included.\<close>

fun expire :: "u64 \<Rightarrow> nat list \<Rightarrow> 'c timer_manager \<Rightarrow> 'c callback option list \<times> 'c timer_manager" where
  "expire now_ms [] tm = ([], tm)"
| "expire now_ms (t # ts) tm =
     (let cb = timer_cb (timer_at tm t);
          tm = (if m_recurring (timer_at tm t) then
                  let tm = set_timer t (\<lambda>x. x\<lparr>m_next := now_ms + m_ms x\<rparr>) tm
                  in tm\<lparr>m_timers := snd (set_insert (timer_less (timer_at tm)) t (m_timers tm))\<rparr>
                else set_timer t (\<lambda>x. x\<lparr>timer_cb := None\<rparr>) tm);
          (cbs, tm) = expire now_ms ts tm
      in (cb # cbs, tm))"

text \<open>
  The two critical sections of \<open>listExpiredCb\<close>. \<open>*begin()\<close> of an empty set is undefined.
\<close>

definition listExpired_check :: "'c timer_manager \<Rightarrow> bool" where
  "listExpired_check tm \<longleftrightarrow> m_timers tm = []"

definition listExpired_take :: "u64 \<Rightarrow> nat \<Rightarrow> ('c timer_manager, 'c callback option list) call" where
  "listExpired_take now_ms addr tm =
     (let (rollover, tm) = detectClockRollover now_ms tm in
      if \<not> rollover \<and> m_timers tm = [] then (Inl Undefined, tm) else
      if \<not> rollover \<and> m_next (timer_at tm (hd (m_timers tm))) > now_ms then (Inr [], tm) else
      let h = (timer_at tm)(addr := Timer_key now_ms);
          it = (if rollover then length (m_timers tm) else lower_bound (timer_less h) addr (m_timers tm));
          it = it + length (takeWhile (\<lambda>t. m_next (timer_at tm t) = now_ms) (drop it (m_timers tm)));
          expired = take it (m_timers tm);
          (cbs, tm) = expire now_ms expired (tm\<lparr>m_timers := drop it (m_timers tm)\<rparr>)
      in (Inr cbs, tm))"

definition listExpiredCb :: "u64 \<Rightarrow> nat \<Rightarrow> ('c timer_manager, 'c callback option list) call" where
  "listExpiredCb now_ms addr tm =
     (if listExpired_check tm then (Inr [], tm) else listExpired_take now_ms addr tm)"

definition hasTimer :: "'c timer_manager \<Rightarrow> bool" where
  "hasTimer tm \<longleftrightarrow> m_timers tm \<noteq> []"

section \<open>The comparison\<close>

lemma timer_less_iff:
  "timer_less h a b \<longleftrightarrow> m_next (h a) < m_next (h b) \<or> m_next (h a) = m_next (h b) \<and> a < b"
  by (auto simp: Comparator_def)

lemma Comparator_weak: "strict_weak_order (Comparator h)"
  by unfold_locales (auto simp: Comparator_def split: option.splits if_splits)

interpretation cmp: strict_linear_order "timer_less h" for h :: "nat \<Rightarrow> 'c timer"
  by unfold_locales (auto simp: timer_less_iff)

lemma timer_less_cong:
  "m_next (h a) = m_next (h' a) \<Longrightarrow> m_next (h b) = m_next (h' b) \<Longrightarrow>
   timer_less h a b = timer_less h' a b"
  by (simp add: timer_less_iff)

lemma sorted_cong:
  "(\<And>t. t \<in> set ts \<Longrightarrow> m_next (h t) = m_next (h' t)) \<Longrightarrow>
   sorted_wrt (timer_less h) ts = sorted_wrt (timer_less h') ts"
  by (induction ts) (auto simp: timer_less_iff)

lemma set_timer_simps [simp]:
  "m_timers (set_timer t f tm) = m_timers tm"
  "m_tickled (set_timer t f tm) = m_tickled tm"
  "m_previouseTime (set_timer t f tm) = m_previouseTime tm"
  "timer_at (set_timer t f tm) = (timer_at tm)(t := f (timer_at tm t))"
  by (simp_all add: set_timer_def)

section \<open>Invariant\<close>

text \<open>
  The set is in order without duplicates, and a timer that still has its function is in it,
  so that \<open>find\<close> finds it.
\<close>

definition tm_inv :: "'c timer_manager \<Rightarrow> bool" where
  "tm_inv tm \<longleftrightarrow> sorted_wrt (timer_less (timer_at tm)) (m_timers tm) \<and>
     (\<forall>t. timer_cb (timer_at tm t) \<noteq> None \<longrightarrow> t \<in> set (m_timers tm))"

lemma new_tm_inv: "tm_inv (TimerManager_new now)"
  by (simp add: tm_inv_def TimerManager_new_def Timer_key_def)

text \<open>Putting a timer that is not in the set into it.\<close>

lemma insert_timer:
  assumes "sorted_wrt (timer_less h) ts" "t \<notin> set ts"
    and "\<And>x. x \<noteq> t \<Longrightarrow> m_next (h' x) = m_next (h x)"
  shows "sorted_wrt (timer_less h') (snd (set_insert (timer_less h') t ts))"
    and "set (snd (set_insert (timer_less h') t ts)) = insert t (set ts)"
proof -
  have "sorted_wrt (timer_less h') ts"
    using assms(1) sorted_cong [of ts h' h] assms(2,3) by metis
  then show "sorted_wrt (timer_less h') (snd (set_insert (timer_less h') t ts))"
    by (rule cmp.insert_sorted)
  show "set (snd (set_insert (timer_less h') t ts)) = insert t (set ts)"
    by (rule cmp.insert_mem)
qed

lemma set_insert_front:
  "fst (set_insert (timer_less h) t ts) = 0 \<longleftrightarrow> ts = [] \<or> \<not> timer_less h (hd ts) t"
  by (cases ts) (auto simp: set_insert_def lower_bound_def Let_def)

lemma addTimer_locked_simps:
  "fst (addTimer_locked t tm) \<longleftrightarrow>
     (m_timers tm = [] \<or> \<not> timer_less (timer_at tm) (hd (m_timers tm)) t) \<and> \<not> m_tickled tm"
  "m_timers (snd (addTimer_locked t tm)) = snd (set_insert (timer_less (timer_at tm)) t (m_timers tm))"
  "timer_at (snd (addTimer_locked t tm)) = timer_at tm"
  "m_previouseTime (snd (addTimer_locked t tm)) = m_previouseTime tm"
  "m_tickled (snd (addTimer_locked t tm)) \<longleftrightarrow> m_tickled tm \<or> fst (addTimer_locked t tm)"
  by (auto simp: addTimer_locked_def Let_def set_insert_front [symmetric] split: prod.splits)

lemma addTimer_inv:
  assumes "tm_inv tm" "addr \<notin> set (m_timers tm)"
  shows "tm_inv (snd (addTimer ms cb recurring now addr tm))"
    and "set (m_timers (snd (addTimer ms cb recurring now addr tm))) = insert addr (set (m_timers tm))"
proof -
  let ?h = "(timer_at tm)(addr := Timer_new ms cb recurring now)"
  note i = insert_timer [of "timer_at tm" "m_timers tm" addr ?h, OF _ assms(2)]
  show "set (m_timers (snd (addTimer ms cb recurring now addr tm))) = insert addr (set (m_timers tm))"
    using i(2) assms(1) by (simp add: addTimer_def addTimer_locked_simps tm_inv_def)
  then show "tm_inv (snd (addTimer ms cb recurring now addr tm))"
    using i(1) assms(1) by (auto simp: addTimer_def addTimer_locked_simps tm_inv_def)
qed

text \<open>Taking a timer out of the set; the heap may change at that timer only.\<close>

lemma erase_timer:
  assumes "sorted_wrt (timer_less h) ts" "t \<in> set ts"
    and h': "\<And>x. m_next (h' x) = m_next (h x)"
  shows "set_find (timer_less h') t ts < length ts"
    "sorted_wrt (timer_less h) (set_erase (set_find (timer_less h') t ts) ts)"
    "set (set_erase (set_find (timer_less h') t ts) ts) = set ts - {t}"
proof -
  have s: "sorted_wrt (timer_less h') ts" using assms(1) sorted_cong [of ts h' h] h' by metis
  show "set_find (timer_less h') t ts < length ts" using assms(2) by (simp add: cmp.find_mem [OF s])
  show "set (set_erase (set_find (timer_less h') t ts) ts) = set ts - {t}"
    by (rule cmp.erase_mem [OF s assms(2)])
  show "sorted_wrt (timer_less h) (set_erase (set_find (timer_less h') t ts) ts)"
    by (rule cmp.erase_sorted [OF assms(1)])
qed

lemma cancel_spec:
  assumes inv: "tm_inv tm" and cb: "timer_cb (timer_at tm t) \<noteq> None"
  shows "\<exists>tm'. Timer_cancel t tm = (Inr True, tm') \<and> tm_inv tm' \<and>
    set (m_timers tm') = set (m_timers tm) - {t} \<and> timer_cb (timer_at tm' t) = None \<and>
    (\<forall>u. u \<noteq> t \<longrightarrow> timer_at tm' u = timer_at tm u)"
proof -
  let ?h = "(timer_at tm)(t := (timer_at tm t)\<lparr>timer_cb := None\<rparr>)"
  let ?it = "set_find (timer_less ?h) t (m_timers tm)"
  have t: "t \<in> set (m_timers tm)" and s: "sorted_wrt (timer_less (timer_at tm)) (m_timers tm)"
    using assms by (auto simp: tm_inv_def)
  have h: "m_next (?h x) = m_next (timer_at tm x)" for x by simp
  note e = erase_timer [of "timer_at tm" "m_timers tm" t ?h, OF s t h]
  have "sorted_wrt (timer_less ?h) (set_erase ?it (m_timers tm))"
    using e(2) sorted_cong [of "set_erase ?it (m_timers tm)" "timer_at tm" ?h] h by metis
  then show ?thesis
    using e cb inv by (auto simp: Timer_cancel_def Let_def tm_inv_def)
qed

lemma cancel_none: "timer_cb (timer_at tm t) = None \<Longrightarrow> Timer_cancel t tm = (Inr False, tm)"
  by (simp add: Timer_cancel_def)

lemma refresh_spec:
  assumes inv: "tm_inv tm" and cb: "timer_cb (timer_at tm t) \<noteq> None"
  shows "\<exists>tm'. Timer_refresh t now tm = (True, tm') \<and> tm_inv tm' \<and>
    set (m_timers tm') = set (m_timers tm) \<and> timer_cb (timer_at tm' t) = None \<and>
    m_next (timer_at tm' t) = now + m_ms (timer_at tm t) \<and>
    (\<forall>u. u \<noteq> t \<longrightarrow> timer_at tm' u = timer_at tm u)"
proof -
  let ?h = "(timer_at tm)(t := (timer_at tm t)\<lparr>timer_cb := None\<rparr>)"
  let ?h' = "(timer_at tm)(t := (timer_at tm t)\<lparr>timer_cb := None, m_next := now + m_ms (timer_at tm t)\<rparr>)"
  let ?it = "set_find (timer_less ?h) t (m_timers tm)"
  have t: "t \<in> set (m_timers tm)" and s: "sorted_wrt (timer_less (timer_at tm)) (m_timers tm)"
    using assms by (auto simp: tm_inv_def)
  have h: "m_next (?h x) = m_next (timer_at tm x)" for x by simp
  note e = erase_timer [of "timer_at tm" "m_timers tm" t ?h, OF s t h]
  have out: "t \<notin> set (set_erase ?it (m_timers tm))" using e(3) by simp
  have h': "m_next (?h' x) = m_next (timer_at tm x)" if "x \<noteq> t" for x using that by simp
  note i = insert_timer [of "timer_at tm" "set_erase ?it (m_timers tm)" t ?h', OF e(2) out h']
  show ?thesis
    using e i cb inv t by (auto simp: Timer_refresh_def Let_def tm_inv_def)
qed

lemma reset_spec:
  assumes inv: "tm_inv tm" and cb: "timer_cb (timer_at tm t) \<noteq> None"
    and new: "ms \<noteq> m_ms (timer_at tm t) \<or> from_now"
  shows "\<exists>f tm'. Timer_reset t ms from_now now tm = (True, f, tm') \<and> tm_inv tm' \<and>
    set (m_timers tm') = set (m_timers tm) \<and> timer_cb (timer_at tm' t) = None \<and>
    m_ms (timer_at tm' t) = ms \<and>
    m_next (timer_at tm' t) =
      (if from_now then now else m_next (timer_at tm t) - m_ms (timer_at tm t)) + ms \<and>
    (\<forall>u. u \<noteq> t \<longrightarrow> timer_at tm' u = timer_at tm u)"
proof -
  let ?start = "if from_now then now else m_next (timer_at tm t) - m_ms (timer_at tm t)"
  let ?h = "(timer_at tm)(t := (timer_at tm t)\<lparr>timer_cb := None\<rparr>)"
  let ?h' = "(timer_at tm)(t := (timer_at tm t)\<lparr>timer_cb := None, m_ms := ms, m_next := ?start + ms\<rparr>)"
  let ?it = "set_find (timer_less ?h) t (m_timers tm)"
  let ?tm = "tm\<lparr>m_timers := set_erase ?it (m_timers tm), timer_at := ?h'\<rparr>"
  have t: "t \<in> set (m_timers tm)" and s: "sorted_wrt (timer_less (timer_at tm)) (m_timers tm)"
    using assms by (auto simp: tm_inv_def)
  have h: "m_next (?h x) = m_next (timer_at tm x)" for x by simp
  note e = erase_timer [of "timer_at tm" "m_timers tm" t ?h, OF s t h]
  have out: "t \<notin> set (set_erase ?it (m_timers tm))" using e(3) by simp
  have h': "m_next (?h' x) = m_next (timer_at tm x)" if "x \<noteq> t" for x using that by simp
  note i = insert_timer [of "timer_at tm" "set_erase ?it (m_timers tm)" t ?h', OF e(2) out h']
  have r: "Timer_reset t ms from_now now tm = (True, addTimer_locked t ?tm)"
    using e(1) cb new by (auto simp: Timer_reset_def Let_def set_timer_def)
  have m: "set (m_timers (snd (addTimer_locked t ?tm))) = set (m_timers tm)"
    using i(2) e t by (auto simp: addTimer_locked_simps)
  have "sorted_wrt (timer_less ?h') (m_timers (snd (addTimer_locked t ?tm)))"
    using i(1) e by (simp add: addTimer_locked_simps)
  then have "tm_inv (snd (addTimer_locked t ?tm))"
    using m inv by (auto simp: tm_inv_def addTimer_locked_simps)
  moreover obtain f tm' where a: "addTimer_locked t ?tm = (f, tm')" by (cases "addTimer_locked t ?tm")
  moreover from a have "timer_at tm' = ?h'" using addTimer_locked_simps(3) [of t ?tm] by simp
  ultimately show ?thesis using r m by auto
qed

section \<open>Expiry\<close>

text \<open>The state after the loop, for timers that were taken out of the set before it.\<close>

lemma expire_spec:
  assumes "sorted_wrt (timer_less (timer_at tm)) (m_timers tm)" "distinct es"
    "set es \<inter> set (m_timers tm) = {}"
  shows "\<exists>tm'. expire now es tm = (map (\<lambda>t. timer_cb (timer_at tm t)) es, tm') \<and>
    sorted_wrt (timer_less (timer_at tm')) (m_timers tm') \<and>
    set (m_timers tm') = set (m_timers tm) \<union> {t \<in> set es. m_recurring (timer_at tm t)} \<and>
    m_tickled tm' = m_tickled tm \<and> m_previouseTime tm' = m_previouseTime tm \<and>
    (\<forall>t. timer_at tm' t =
      (if t \<notin> set es then timer_at tm t
       else if m_recurring (timer_at tm t)
       then (timer_at tm t)\<lparr>m_next := now + m_ms (timer_at tm t)\<rparr>
       else (timer_at tm t)\<lparr>timer_cb := None\<rparr>))"
  using assms
proof (induction es arbitrary: tm)
  case Nil
  then show ?case by simp
next
  case (Cons t es)
  define tm1 where "tm1 = (if m_recurring (timer_at tm t) then
      let tm = set_timer t (\<lambda>x. x\<lparr>m_next := now + m_ms x\<rparr>) tm
      in tm\<lparr>m_timers := snd (set_insert (timer_less (timer_at tm)) t (m_timers tm))\<rparr>
    else set_timer t (\<lambda>x. x\<lparr>timer_cb := None\<rparr>) tm)"
  have at: "timer_at tm1 = (timer_at tm)(t := (if m_recurring (timer_at tm t)
      then (timer_at tm t)\<lparr>m_next := now + m_ms (timer_at tm t)\<rparr>
      else (timer_at tm t)\<lparr>timer_cb := None\<rparr>))"
    by (simp add: tm1_def Let_def)
  then have nx: "m_next (timer_at tm1 x) = m_next (timer_at tm x)" if "x \<noteq> t" for x
    using that by simp
  have out: "t \<notin> set (m_timers tm)" using Cons.prems(3) by simp
  note i = insert_timer [of "timer_at tm" "m_timers tm" t "timer_at tm1", OF Cons.prems(1) out nx]
  have s: "sorted_wrt (timer_less (timer_at tm1)) (m_timers tm1) \<and>
      set (m_timers tm1) = set (m_timers tm) \<union> (if m_recurring (timer_at tm t) then {t} else {})"
  proof (cases "m_recurring (timer_at tm t)")
    case True
    then have "m_timers tm1 = snd (set_insert (timer_less (timer_at tm1)) t (m_timers tm))"
      by (simp add: tm1_def Let_def)
    then show ?thesis using i True by simp
  next
    case False
    then have "m_timers tm1 = m_timers tm" by (simp add: tm1_def)
    moreover have "sorted_wrt (timer_less (timer_at tm1)) (m_timers tm)"
      using Cons.prems(1) sorted_cong [of "m_timers tm" "timer_at tm1" "timer_at tm"] nx out by metis
    ultimately show ?thesis using False by simp
  qed
  have fr: "m_tickled tm1 = m_tickled tm" "m_previouseTime tm1 = m_previouseTime tm"
    by (simp_all add: tm1_def Let_def)
  have "set es \<inter> set (m_timers tm1) = {}" using s Cons.prems by auto
  then obtain tm2 where e: "expire now es tm1 = (map (\<lambda>t. timer_cb (timer_at tm1 t)) es, tm2)"
    "sorted_wrt (timer_less (timer_at tm2)) (m_timers tm2)"
    "set (m_timers tm2) = set (m_timers tm1) \<union> {t \<in> set es. m_recurring (timer_at tm1 t)}"
    "m_tickled tm2 = m_tickled tm1" "m_previouseTime tm2 = m_previouseTime tm1"
    "\<forall>t. timer_at tm2 t =
      (if t \<notin> set es then timer_at tm1 t
       else if m_recurring (timer_at tm1 t)
       then (timer_at tm1 t)\<lparr>m_next := now + m_ms (timer_at tm1 t)\<rparr>
       else (timer_at tm1 t)\<lparr>timer_cb := None\<rparr>)"
    using Cons.IH [of tm1] s Cons.prems(2) by auto
  have x: "expire now (t # es) tm = (timer_cb (timer_at tm t) # map (\<lambda>t. timer_cb (timer_at tm1 t)) es, tm2)"
    using e(1) by (simp add: tm1_def [symmetric] Let_def)
  have eq: "timer_at tm1 u = timer_at tm u" if "u \<in> set es" for u
    using that Cons.prems(2) by (auto simp: at)
  have c: "map (\<lambda>t. timer_cb (timer_at tm1 t)) es = map (\<lambda>t. timer_cb (timer_at tm t)) es"
    using eq by simp
  have m: "set (m_timers tm2) = set (m_timers tm) \<union> {u \<in> set (t # es). m_recurring (timer_at tm u)}"
    using e(3) s eq by auto
  have h: "timer_at tm2 u = (if u \<notin> set (t # es) then timer_at tm u
       else if m_recurring (timer_at tm u)
       then (timer_at tm u)\<lparr>m_next := now + m_ms (timer_at tm u)\<rparr>
       else (timer_at tm u)\<lparr>timer_cb := None\<rparr>)" for u
  proof (cases "u \<in> set es")
    case True
    then show ?thesis using e(6) eq [OF True] by simp
  next
    case False
    then have "timer_at tm2 u = timer_at tm1 u" using e(6) by simp
    then show ?thesis using False by (simp add: at)
  qed
  have y: "expire now (t # es) tm = (map (\<lambda>t. timer_cb (timer_at tm t)) (t # es), tm2)"
    using x c by (simp only: list.map)
  show ?case
    by (rule exI [of _ tm2], intro conjI allI; (rule y e(2) m h)?; (simp only: e fr)?)
qed

text \<open>
  The iterator that \<open>lower_bound\<close> and the skipping loop arrive at cuts the set between the
  timers that are due and those that are not; where the key was allocated is irrelevant.
\<close>

definition due :: "u64 \<Rightarrow> 'c timer_manager \<Rightarrow> nat list" where
  "due now tm = filter (\<lambda>t. m_next (timer_at tm t) \<le> now) (m_timers tm)"

lemma sorted_deadlines:
  "sorted_wrt (timer_less h) ts \<Longrightarrow> sorted_wrt (\<lambda>a b. m_next (h a) \<le> m_next (h b)) ts"
  by (erule sorted_wrt_mono_rel [rotated]) (auto simp: timer_less_iff)

lemma due_prefix:
  assumes "sorted_wrt (\<lambda>a b. m_next (h a) \<le> m_next (h b)) (xs @ ys @ zs)"
    and "\<forall>x \<in> set (xs @ ys). m_next (h x) \<le> (now :: u64)" "zs = [] \<or> \<not> m_next (h (hd zs)) \<le> now"
  shows "filter (\<lambda>t. m_next (h t) \<le> now) (xs @ ys @ zs) = xs @ ys"
proof -
  have "\<not> m_next (h z) \<le> now" if "z \<in> set zs" for z
  proof -
    have "m_next (h (hd zs)) \<le> m_next (h z)"
      using assms(1) that by (cases zs) (auto simp: sorted_wrt_append)
    then show ?thesis using assms(3) that by (cases zs) auto
  qed
  then show ?thesis using assms(2) by (simp add: filter_empty_conv)
qed

lemma due_cut:
  fixes now :: u64
  assumes "sorted_wrt (timer_less (timer_at tm)) (m_timers tm)" "addr \<notin> set (m_timers tm)"
  defines "h \<equiv> (timer_at tm)(addr := Timer_key now)"
  defines "it \<equiv> lower_bound (timer_less h) addr (m_timers tm)"
  shows "take (it + length (takeWhile (\<lambda>t. m_next (timer_at tm t) = now) (drop it (m_timers tm)))) (m_timers tm) =
      due now tm"
proof -
  let ?ts = "m_timers tm"
  let ?xs = "takeWhile (\<lambda>y. timer_less h y addr) ?ts" and ?rest = "dropWhile (\<lambda>y. timer_less h y addr) ?ts"
  let ?ys = "takeWhile (\<lambda>t. m_next (timer_at tm t) = now) ?rest"
    and ?zs = "dropWhile (\<lambda>t. m_next (timer_at tm t) = now) ?rest"
  have split: "?ts = ?xs @ ?ys @ ?zs" by simp
  have key: "m_next (h addr) = now" and at: "m_next (h t) = m_next (timer_at tm t)" if "t \<in> set ?ts" for t
    using that assms(2) by (auto simp: h_def Timer_key_def)
  have tk: "take it ?ts = ?xs" and dr: "drop it ?ts = ?rest"
    by (simp_all add: it_def cmp.take_bound cmp.drop_bound)
  have "length ?xs = it" by (simp add: it_def lower_bound_def)
  then have lhs: "take (it + length ?ys) ?ts = ?xs @ ?ys"
    unfolding take_add tk dr by (metis takeWhile_eq_take)
  have xs: "m_next (timer_at tm x) \<le> now" if "x \<in> set ?xs" for x
  proof -
    have "x \<in> set ?ts" using that by (rule set_takeWhileD [THEN conjunct1])
    moreover have "timer_less h x addr" using that by (rule set_takeWhileD [THEN conjunct2])
    ultimately show ?thesis using at key by (auto simp: timer_less_iff)
  qed
  have ys: "m_next (timer_at tm x) \<le> now" if "x \<in> set ?ys" for x
    using set_takeWhileD [OF that] by simp
  have zs: "\<not> m_next (timer_at tm (hd ?zs)) \<le> now" if "?zs \<noteq> []"
  proof -
    have z: "hd ?zs \<in> set ?rest" using that by (metis hd_in_set set_dropWhileD)
    have zt: "hd ?zs \<in> set ?ts" using z by (rule set_dropWhileD)
    have "sorted_wrt (timer_less h) ?ts"
      using assms(1) sorted_cong [of ?ts h "timer_at tm"] at by metis
    then have "\<not> timer_less h (hd ?zs) addr" using z by (rule cmp.after_bound)
    then have "now \<le> m_next (timer_at tm (hd ?zs))" using at [OF zt] key [OF zt] by (auto simp: timer_less_iff)
    moreover have "m_next (timer_at tm (hd ?zs)) \<noteq> now" using that by (rule hd_dropWhile)
    ultimately show ?thesis by auto
  qed
  have "filter (\<lambda>t. m_next (timer_at tm t) \<le> now) (?xs @ ?ys @ ?zs) = ?xs @ ?ys"
    by (rule due_prefix) (use sorted_deadlines [OF assms(1)] split xs ys zs in auto)
  then show ?thesis using lhs split dr by (simp add: due_def)
qed

definition rolled_back :: "u64 \<Rightarrow> 'c timer_manager \<Rightarrow> bool" where
  "rolled_back now tm \<longleftrightarrow> fst (detectClockRollover now tm)"

text \<open>The timers an expiry takes: all after the clock was set back, else those that are due.\<close>

definition fired :: "u64 \<Rightarrow> 'c timer_manager \<Rightarrow> nat list" where
  "fired now tm = (if rolled_back now tm then m_timers tm else due now tm)"

lemma none_due:
  assumes "sorted_wrt (timer_less (timer_at tm)) (m_timers tm)"
    and "m_next (timer_at tm (hd (m_timers tm))) > now"
  shows "due now tm = []"
proof -
  have "now < m_next (timer_at tm t)" if "t \<in> set (m_timers tm)" for t
  proof -
    have "m_next (timer_at tm (hd (m_timers tm))) \<le> m_next (timer_at tm t)"
      using sorted_deadlines [OF assms(1)] that by (cases "m_timers tm") auto
    then show ?thesis using assms(2) by simp
  qed
  then show ?thesis by (auto simp: due_def filter_empty_conv not_le)
qed

definition after_expiry :: "u64 \<Rightarrow> 'c timer_manager \<Rightarrow> 'c timer_manager \<Rightarrow> bool" where
  "after_expiry now tm tm' \<longleftrightarrow> tm_inv tm' \<and>
     set (m_timers tm') = set (m_timers tm) - set (fired now tm) \<union>
       {t \<in> set (fired now tm). m_recurring (timer_at tm t)} \<and>
     (\<forall>t. timer_at tm' t =
       (if t \<notin> set (fired now tm) then timer_at tm t
        else if m_recurring (timer_at tm t)
        then (timer_at tm t)\<lparr>m_next := now + m_ms (timer_at tm t)\<rparr>
        else (timer_at tm t)\<lparr>timer_cb := None\<rparr>))"

lemma take_spec:
  assumes inv: "tm_inv tm" and addr: "addr \<notin> set (m_timers tm)"
    and ne: "m_timers tm \<noteq> [] \<or> rolled_back now tm"
  shows "\<exists>tm'. listExpired_take now addr tm = (Inr (map (\<lambda>t. timer_cb (timer_at tm t)) (fired now tm)), tm') \<and>
    after_expiry now tm tm'"
proof -
  let ?tm = "tm\<lparr>m_previouseTime := now\<rparr>"
  have d: "detectClockRollover now tm = (rolled_back now tm, ?tm)"
    by (simp add: rolled_back_def detectClockRollover_def)
  have s: "sorted_wrt (timer_less (timer_at tm)) (m_timers tm)" using inv by (simp add: tm_inv_def)
  show ?thesis
  proof (cases "\<not> rolled_back now tm \<and> m_next (timer_at tm (hd (m_timers tm))) > now")
    case True
    then have "fired now tm = []" using none_due [OF s] by (simp add: fired_def)
    moreover have "tm_inv ?tm" using inv by (simp add: tm_inv_def)
    ultimately show ?thesis using True ne d by (auto simp: listExpired_take_def after_expiry_def)
  next
    case False
    let ?h = "(timer_at tm)(addr := Timer_key now)"
    let ?lb = "if rolled_back now tm then length (m_timers tm)
      else lower_bound (timer_less ?h) addr (m_timers tm)"
    let ?it = "?lb + length (takeWhile (\<lambda>t. m_next (timer_at tm t) = now) (drop ?lb (m_timers tm)))"
    have f: "take ?it (m_timers tm) = fired now tm"
      using due_cut [OF s addr, of now] by (simp add: fired_def)
    have split: "m_timers tm = fired now tm @ drop ?it (m_timers tm)"
      using f append_take_drop_id [of ?it "m_timers tm"] by simp
    have dist: "distinct (m_timers tm)" by (rule cmp.sorted_distinct [OF s])
    then have dj: "distinct (fired now tm)" "set (fired now tm) \<inter> set (drop ?it (m_timers tm)) = {}"
      using split by (metis distinct_append)+
    let ?tm1 = "?tm\<lparr>m_timers := drop ?it (m_timers tm)\<rparr>"
    obtain tm' where e: "expire now (fired now tm) ?tm1 = (map (\<lambda>t. timer_cb (timer_at tm t)) (fired now tm), tm')"
      "sorted_wrt (timer_less (timer_at tm')) (m_timers tm')"
      "set (m_timers tm') = set (drop ?it (m_timers tm)) \<union> {t \<in> set (fired now tm). m_recurring (timer_at tm t)}"
      "\<forall>t. timer_at tm' t =
        (if t \<notin> set (fired now tm) then timer_at tm t
         else if m_recurring (timer_at tm t)
         then (timer_at tm t)\<lparr>m_next := now + m_ms (timer_at tm t)\<rparr>
         else (timer_at tm t)\<lparr>timer_cb := None\<rparr>)"
      using expire_spec [of ?tm1 "fired now tm" now] sorted_wrt_drop [OF s, of ?it] dj by auto
    have rest: "set (drop ?it (m_timers tm)) = set (m_timers tm) - set (fired now tm)"
      using arg_cong [OF split, of set] dj(2) by auto
    have "tm_inv tm'"
      using e inv by (auto simp: tm_inv_def rest split: if_splits)
    then have "after_expiry now tm tm'" using e(3,4) rest by (simp add: after_expiry_def)
    moreover have "listExpired_take now addr tm =
        (Inr (map (\<lambda>t. timer_cb (timer_at tm t)) (fired now tm)), tm')"
      using False ne d f e(1) by (auto simp: listExpired_take_def Let_def)
    ultimately show ?thesis by blast
  qed
qed

lemma listExpired_spec:
  assumes "tm_inv tm" "addr \<notin> set (m_timers tm)"
  shows "\<exists>tm'. listExpiredCb now addr tm = (Inr (map (\<lambda>t. timer_cb (timer_at tm t)) (fired now tm)), tm') \<and>
    after_expiry now tm tm'"
proof (cases "m_timers tm = []")
  case True
  then show ?thesis using assms
    by (auto simp: listExpiredCb_def listExpired_check_def fired_def due_def after_expiry_def)
next
  case False
  then show ?thesis using take_spec [OF assms, of now]
    by (simp add: listExpiredCb_def listExpired_check_def)
qed

section \<open>Runs of a manager\<close>

text \<open>The operations in any order, with a fresh address for every new timer.\<close>

inductive timer_step :: "'c timer_manager \<Rightarrow> 'c timer_manager \<Rightarrow> bool" where
  add: "addr \<notin> set (m_timers tm) \<Longrightarrow> timer_step tm (snd (addTimer ms cb recurring now addr tm))"
| cancel: "timer_step tm (snd (Timer_cancel t tm))"
| refresh: "timer_step tm (snd (Timer_refresh t now tm))"
| reset: "timer_step tm (snd (snd (Timer_reset t ms from_now now tm)))"
| poll: "timer_step tm (snd (getNextTimer now tm))"
| expiry: "addr \<notin> set (m_timers tm) \<Longrightarrow> timer_step tm (snd (listExpiredCb now addr tm))"

lemma getNextTimer_frame:
  "m_timers (snd (getNextTimer now tm)) = m_timers tm"
  "timer_at (snd (getNextTimer now tm)) = timer_at tm"
  "\<not> m_tickled (snd (getNextTimer now tm))"
  by (auto simp: getNextTimer_def Let_def split: list.splits)

lemma step_inv: "timer_step tm tm' \<Longrightarrow> tm_inv tm \<Longrightarrow> tm_inv tm'"
proof (induction rule: timer_step.induct)
  case (add addr tm ms cb recurring now)
  then show ?case by (simp add: addTimer_inv)
next
  case (cancel tm t)
  then show ?case using cancel_spec [of tm t] cancel_none [of tm t]
    by (cases "timer_cb (timer_at tm t) = None") auto
next
  case (refresh tm t now)
  then show ?case using refresh_spec [of tm t now]
    by (cases "timer_cb (timer_at tm t) = None") (auto simp: Timer_refresh_def)
next
  case (reset tm t ms from_now now)
  show ?case
  proof (cases "timer_cb (timer_at tm t) \<noteq> None \<and> (ms \<noteq> m_ms (timer_at tm t) \<or> from_now)")
    case True
    then show ?thesis using reset_spec [of tm t ms from_now now] reset by auto
  next
    case False
    then have "snd (snd (Timer_reset t ms from_now now tm)) = tm" by (auto simp: Timer_reset_def)
    then show ?thesis using reset by simp
  qed
next
  case (poll tm now)
  then show ?case by (simp add: tm_inv_def getNextTimer_frame)
next
  case (expiry addr tm now)
  then show ?case using listExpired_spec [of tm addr now] by (auto simp: after_expiry_def)
qed

lemma steps_inv: "timer_step\<^sup>*\<^sup>* tm tm' \<Longrightarrow> tm_inv tm \<Longrightarrow> tm_inv tm'"
  by (induction rule: rtranclp_induct) (auto intro: step_inv)

section \<open>Properties\<close>



text \<open>
  Expiry returns the functions of exactly the timers whose deadline has passed, in
  deadline order (of all timers when the clock was set back by more than an hour); the
  recurring ones are back in the set with their next deadline, the others are gone from
  it and have dropped their function, and no other timer is touched.
\<close>

theorem expiry_exact:
  assumes "tm_inv tm" "addr \<notin> set (m_timers tm)"
  shows "\<exists>tm'. listExpiredCb now addr tm =
      (Inr (map (\<lambda>t. timer_cb (timer_at tm t))
         (if now < m_previouseTime tm \<and> now < m_previouseTime tm - 60 * 60 * 1000 then m_timers tm
          else filter (\<lambda>t. m_next (timer_at tm t) \<le> now) (m_timers tm))), tm') \<and>
    after_expiry now tm tm'"
  using listExpired_spec [OF assms, of now]
  by (simp only: fired_def due_def rolled_back_def detectClockRollover_def fst_conv)

theorem expiry_exact_witness:
  "fst (listExpiredCb 105 9 (snd (addTimer 100 (Some (Call ''f'')) True 5 7 (TimerManager_new 0)))) =
    Inr [Some (Call ''f'')]"
proof -
  let ?tm = "snd (addTimer 100 (Some (Call ''f'')) True 5 7 (TimerManager_new 0))"
  have ts: "m_timers ?tm = [7]"
    by (simp add: addTimer_def addTimer_locked_simps TimerManager_new_def set_insert_def lower_bound_def)
  have "tm_inv ?tm" by (rule addTimer_inv(1) [OF new_tm_inv]) (simp add: TimerManager_new_def)
  then show ?thesis using expiry_exact [of ?tm 9 105] ts
    by (simp add: addTimer_def addTimer_locked_simps Timer_new_def TimerManager_new_def)
      (auto simp: TimerManager_new_def)
qed

text \<open>
  The poll returns the time to the earliest deadline, 0 when one has passed and the
  largest number when there is no timer; so a poller that waits that long oversleeps no
  timer that was in the set.
\<close>

theorem next_timer_minimal:
  assumes "tm_inv tm"
  shows "(m_timers tm = [] \<longrightarrow> fst (getNextTimer now tm) = NOT 0) \<and>
    (\<forall>t \<in> set (m_timers tm). fst (getNextTimer now tm) \<le> m_next (timer_at tm t) - now \<or>
       m_next (timer_at tm t) \<le> now) \<and>
    (fst (getNextTimer now tm) = 0 \<longleftrightarrow> due now tm \<noteq> [])"
proof -
  have s: "sorted_wrt (timer_less (timer_at tm)) (m_timers tm)" using assms by (simp add: tm_inv_def)
  have hd: "m_next (timer_at tm (hd (m_timers tm))) \<le> m_next (timer_at tm t)"
    if "t \<in> set (m_timers tm)" for t
    using sorted_deadlines [OF s] that by (cases "m_timers tm") auto
  have w: "y - now \<le> x - now" if "now < y" "y \<le> x" for x y :: u64
    using that by (simp add: word_le_nat_alt word_less_nat_alt unat_sub_if' split: if_splits)
  show ?thesis
  proof (cases "m_timers tm")
    case Nil
    then show ?thesis by (simp add: getNextTimer_def due_def)
  next
    case (Cons a ts)
    show ?thesis
    proof (cases "m_next (timer_at tm a) \<le> now")
      case True
      then show ?thesis using Cons by (simp add: getNextTimer_def due_def)
    next
      case False
      then have lt: "now < m_next (timer_at tm a)" by simp
      have "due now tm = []" using none_due [OF s] lt Cons by simp
      moreover have "m_next (timer_at tm a) - now \<noteq> 0" using lt by auto
      ultimately show ?thesis using Cons False hd w [OF lt] by (auto simp: getNextTimer_def Let_def)
    qed
  qed
qed

theorem next_timer_minimal_witness:
  "fst (getNextTimer 0 (TimerManager_new 0)) = NOT (0 :: u64)"
proof -
  have "m_timers (TimerManager_new 0) = []" by (simp add: TimerManager_new_def)
  then show ?thesis using next_timer_minimal [OF new_tm_inv [of 0], of 0] by blast
qed

text \<open>
  A cancelled timer never fires: \<open>cancel\<close> takes it out of the set and drops its
  function, and any expiry of the resulting manager leaves it alone.
\<close>

theorem cancelled_never_fires:
  assumes "tm_inv tm" "timer_cb (timer_at tm t) \<noteq> None"
  shows "\<exists>tm'. Timer_cancel t tm = (Inr True, tm') \<and> tm_inv tm' \<and>
    t \<notin> set (fired now tm') \<and> fst (Timer_cancel t tm') = Inr False"
proof -
  obtain tm' where c: "Timer_cancel t tm = (Inr True, tm')" "tm_inv tm'"
    "set (m_timers tm') = set (m_timers tm) - {t}" "timer_cb (timer_at tm' t) = None"
    using cancel_spec [OF assms] by blast
  then have "t \<notin> set (fired now tm')" by (auto simp: fired_def due_def)
  with c show ?thesis using cancel_none [OF c(4)] by auto
qed

theorem cancelled_never_fires_witness:
  "\<exists>tm'. Timer_cancel 7 (snd (addTimer 100 (Some (Call ''f'')) True 5 7 (TimerManager_new 0))) =
      (Inr True, tm') \<and> 7 \<notin> set (fired 500 tm')"
proof -
  let ?tm = "snd (addTimer 100 (Some (Call ''f'')) True 5 7 (TimerManager_new 0))"
  have "tm_inv ?tm" by (rule addTimer_inv(1) [OF new_tm_inv]) (simp add: TimerManager_new_def)
  then show ?thesis using cancelled_never_fires [of ?tm 7 500]
    by (auto simp: addTimer_def addTimer_locked_simps Timer_new_def)
qed

text \<open>
  \<open>refresh\<close> keeps the timer in the set with a new deadline, but it has cleared the
  timer's function and does not restore it: when the deadline passes, the null function
  is what expiry returns for it, and the timer can no longer be cancelled or refreshed.
\<close>

theorem refresh_loses_function:
  assumes "tm_inv tm" "timer_cb (timer_at tm t) \<noteq> None"
  shows "\<exists>tm'. Timer_refresh t now tm = (True, tm') \<and> tm_inv tm' \<and> t \<in> set (m_timers tm') \<and>
    m_next (timer_at tm' t) = now + m_ms (timer_at tm t) \<and> timer_cb (timer_at tm' t) = None \<and>
    (now + m_ms (timer_at tm t) \<le> later \<longrightarrow> t \<in> set (fired later tm')) \<and>
    fst (Timer_cancel t tm') = Inr False \<and> fst (Timer_refresh t later tm') = False"
proof -
  have "t \<in> set (m_timers tm)" using assms by (auto simp: tm_inv_def)
  then obtain tm' where r: "Timer_refresh t now tm = (True, tm')" "tm_inv tm'" "t \<in> set (m_timers tm')"
    "timer_cb (timer_at tm' t) = None" "m_next (timer_at tm' t) = now + m_ms (timer_at tm t)"
    using refresh_spec [OF assms, of now] by auto
  then show ?thesis using cancel_none [OF r(4)]
    by (auto simp: fired_def due_def Timer_refresh_def)
qed

theorem refresh_loses_function_witness:
  "\<exists>tm'. Timer_refresh 7 50 (snd (addTimer 100 (Some (Call ''f'')) True 5 7 (TimerManager_new 0))) =
      (True, tm') \<and> timer_cb (timer_at tm' 7) = None"
proof -
  let ?tm = "snd (addTimer 100 (Some (Call ''f'')) True 5 7 (TimerManager_new 0))"
  have "tm_inv ?tm" by (rule addTimer_inv(1) [OF new_tm_inv]) (simp add: TimerManager_new_def)
  then show ?thesis using refresh_loses_function [of ?tm 7 50 0]
    by (auto simp: addTimer_def addTimer_locked_simps Timer_new_def)
qed

fun add_all :: "(u64 \<times> 'c callback option \<times> bool \<times> u64 \<times> nat) list \<Rightarrow> 'c timer_manager \<Rightarrow>
    bool \<times> 'c timer_manager" where
  "add_all [] tm = (False, tm)"
| "add_all ((ms, cb, recurring, now, addr) # reqs) tm =
     (let (f, tm) = addTimer ms cb recurring now addr tm; (g, tm) = add_all reqs tm in (f \<or> g, tm))"

lemma add_front:
  assumes "\<not> m_tickled tm" "\<not> fst (addTimer ms cb recurring now addr tm)"
  shows "m_timers tm \<noteq> []" "hd (m_timers (snd (addTimer ms cb recurring now addr tm))) = hd (m_timers tm)"
    "\<not> m_tickled (snd (addTimer ms cb recurring now addr tm))"
proof -
  let ?h = "(timer_at tm)(addr := Timer_new ms cb recurring now)"
  have h: "m_timers tm \<noteq> [] \<and> timer_less ?h (hd (m_timers tm)) addr"
    using assms by (auto simp: addTimer_def addTimer_locked_simps)
  then show "m_timers tm \<noteq> []" by simp
  from h show "hd (m_timers (snd (addTimer ms cb recurring now addr tm))) = hd (m_timers tm)"
    by (cases "m_timers tm")
      (auto simp: addTimer_def addTimer_locked_simps set_insert_def lower_bound_def Let_def)
  show "\<not> m_tickled (snd (addTimer ms cb recurring now addr tm))"
    using assms by (auto simp: addTimer_def addTimer_locked_simps)
qed

lemma add_all_front:
  "\<not> m_tickled tm \<Longrightarrow> fst (add_all reqs tm) \<or> reqs = [] \<or>
    m_timers tm \<noteq> [] \<and> hd (m_timers (snd (add_all reqs tm))) = hd (m_timers tm)"
proof (induction reqs arbitrary: tm)
  case Nil
  then show ?case by simp
next
  case (Cons r reqs)
  obtain ms cb recurring now addr where r: "r = (ms, cb, recurring, now, addr)" by (cases r)
  obtain f tm1 where a: "addTimer ms cb recurring now addr tm = (f, tm1)"
    by (cases "addTimer ms cb recurring now addr tm")
  show ?case
  proof (cases f)
    case True
    then show ?thesis using r a by (simp split: prod.splits)
  next
    case False
    note fr = add_front [OF Cons.prems, of ms cb recurring now addr, unfolded a, simplified, OF False]
    from Cons.IH [OF fr(3)] fr(1,2) show ?thesis
      using r a False by (cases reqs) (auto split: prod.splits)
  qed
qed



text \<open>
  The emptiness test of \<open>listExpiredCb\<close> is made in an earlier critical section than the
  one that reads the first timer: a \<open>cancel\<close> of the only timer between the two makes it
  dereference the end of the set.
\<close>

theorem expiry_race:
  assumes "tm_inv tm" "timer_cb (timer_at tm t) \<noteq> None" "m_timers tm = [t]" "m_previouseTime tm \<le> now"
  shows "\<not> listExpired_check tm \<and>
    (\<exists>tm'. Timer_cancel t tm = (Inr True, tm') \<and> fst (listExpired_take now addr tm') = Inl Undefined)"
proof -
  obtain tm' where c: "Timer_cancel t tm = (Inr True, tm')" "set (m_timers tm') = {}"
    using cancel_spec [OF assms(1,2)] assms(3) by auto
  have "m_previouseTime tm' = m_previouseTime tm"
    using c(1) by (auto simp: Timer_cancel_def Let_def set_timer_def split: if_splits)
  then have "fst (listExpired_take now addr tm') = Inl Undefined"
    using c(2) assms(4) by (simp add: listExpired_take_def detectClockRollover_def not_less)
  then show ?thesis using c assms(3) by (simp add: listExpired_check_def)
qed

theorem expiry_race_witness:
  "\<exists>tm'. Timer_cancel 7 (snd (addTimer 100 (Some (Call ''f'')) True 5 7 (TimerManager_new 0))) =
      (Inr True, tm') \<and> fst (listExpired_take 6 9 tm') = Inl Undefined"
proof -
  let ?tm = "snd (addTimer 100 (Some (Call ''f'')) True 5 7 (TimerManager_new 0))"
  have "tm_inv ?tm" by (rule addTimer_inv(1) [OF new_tm_inv]) (simp add: TimerManager_new_def)
  then show ?thesis using expiry_race [of ?tm 7 6 9]
    by (simp add: addTimer_def addTimer_locked_simps Timer_new_def TimerManager_new_def
        set_insert_def lower_bound_def)
qed

end
