(* ===== verification/Fibers.thy ===== *)
theory Fibers
  imports Prelude
begin

text \<open>
  Fibers (\<open>sylar/fiber.h\<close>, \<open>sylar/fiber.cc\<close>) as one thread sees them: the fiber objects, the
  thread-local pointers to the current fiber and to the thread's main fiber, the main
  fiber of the thread's scheduler, and the machine contexts.

  \<open>swapcontext(a, b)\<close> stores whatever is executing in \<open>a\<close> and continues what is stored in
  \<open>b\<close>. So a context (\<open>ucontext_t\<close>) holds an execution: the entry function of a fiber with a
  stack of its own (\<open>Of_fiber\<close>), or the thread's native one. Nothing in the code ensures that the
  context it stores to is the one of the fiber that executes; that it is, is the
  discipline \<open>consistent\<close> below. \<open>makecontext\<close>, \<open>getcontext\<close> and \<open>malloc\<close> are taken to
  succeed; addresses of new objects are arguments.
\<close>

section \<open>State\<close>

datatype fiber_state = INIT | HOLD | EXEC | TERM_state | READY | EXCEPT

datatype fiber_entry = No_entry | MainFunc | CallerMainFunc

datatype execution = Native | Of_fiber nat

record 'c fiber =
  fiber_id :: u64
  m_stacksize :: u32
  m_stack :: bool
  m_state :: fiber_state
  fiber_cb :: "'c option"
  fiber_fn :: fiber_entry

record 'c fiber_thread =
  fibers :: "nat \<Rightarrow> 'c fiber"
  ctx :: "nat \<Rightarrow> execution"
  running :: execution
  t_fiber :: "nat option"
  t_threadFiber :: "nat option"
  main_fiber :: "nat option"
  s_fiber_id :: u64
  s_fiber_count :: u64

definition upd_fiber :: "nat \<Rightarrow> ('c fiber \<Rightarrow> 'c fiber) \<Rightarrow> 'c fiber_thread \<Rightarrow> 'c fiber_thread" where
  "upd_fiber f g w = w\<lparr>fibers := (fibers w)(f := g (fibers w f))\<rparr>"

definition set_state :: "nat \<Rightarrow> fiber_state \<Rightarrow> 'c fiber_thread \<Rightarrow> 'c fiber_thread" where
  "set_state f s = upd_fiber f (\<lambda>x. x\<lparr>m_state := s\<rparr>)"

definition swapcontext :: "nat \<Rightarrow> nat \<Rightarrow> 'c fiber_thread \<Rightarrow> 'c fiber_thread" where
  "swapcontext a b w =
     (let c = (ctx w)(a := running w) in w\<lparr>ctx := c, running := c b\<rparr>)"

definition makecontext :: "nat \<Rightarrow> 'c fiber_thread \<Rightarrow> 'c fiber_thread" where
  "makecontext f w = w\<lparr>ctx := (ctx w)(f := Of_fiber f)\<rparr>"

section \<open>Operations\<close>

definition SetThis :: "nat option \<Rightarrow> 'c fiber_thread \<Rightarrow> 'c fiber_thread" where
  "SetThis f w = w\<lparr>t_fiber := f\<rparr>"

definition GetFiberId :: "'c fiber_thread \<Rightarrow> u64" where
  "GetFiberId w = (case t_fiber w of Some f \<Rightarrow> fiber_id (fibers w f) | None \<Rightarrow> 0)"

text \<open>The private default constructor: the main fiber of a thread.\<close>

definition Fiber_main :: "nat \<Rightarrow> 'c fiber_thread \<Rightarrow> 'c fiber_thread" where
  "Fiber_main addr w =
     (let w = upd_fiber addr (\<lambda>_. \<lparr>fiber_id = 0, m_stacksize = 0, m_stack = False,
            m_state = EXEC, fiber_cb = None, fiber_fn = No_entry\<rparr>) w;
          w = SetThis (Some addr) w
      in w\<lparr>s_fiber_count := s_fiber_count w + 1\<rparr>)"

text \<open>\<open>conf_size\<close> is the value of \<open>fiber.stack_size\<close>; a 64-bit size is cut to 32 bits.\<close>

definition Fiber_new :: "u32 \<Rightarrow> 'c option \<Rightarrow> u64 \<Rightarrow> bool \<Rightarrow> nat \<Rightarrow> 'c fiber_thread \<Rightarrow> 'c fiber_thread" where
  "Fiber_new conf_size cb stacksize use_caller addr w =
     (let w = w\<lparr>s_fiber_id := s_fiber_id w + 1\<rparr>;
          w = w\<lparr>s_fiber_count := s_fiber_count w + 1\<rparr>;
          w = upd_fiber addr (\<lambda>_. \<lparr>fiber_id = s_fiber_id w,
                m_stacksize = (if stacksize \<noteq> 0 then ucast stacksize else conf_size),
                m_stack = True, m_state = INIT, fiber_cb = cb,
                fiber_fn = (if \<not> use_caller then MainFunc else CallerMainFunc)\<rparr>) w
      in makecontext addr w)"

definition Fiber_destroy :: "nat \<Rightarrow> ('c fiber_thread, unit) call" where
  "Fiber_destroy f w =
     (let w = w\<lparr>s_fiber_count := s_fiber_count w - 1\<rparr> in
      if m_stack (fibers w f) then
        if m_state (fibers w f) \<in> {TERM_state, EXCEPT, INIT} then (Inr (), w) else (Inl Assert_fail, w)
      else if fiber_cb (fibers w f) \<noteq> None then (Inl Assert_fail, w)
      else if m_state (fibers w f) \<noteq> EXEC then (Inl Assert_fail, w)
      else (Inr (), if t_fiber w = Some f then SetThis None w else w))"

definition Fiber_reset :: "nat \<Rightarrow> 'c option \<Rightarrow> ('c fiber_thread, unit) call" where
  "Fiber_reset f cb w =
     (if \<not> m_stack (fibers w f) then (Inl Assert_fail, w) else
      if m_state (fibers w f) \<notin> {TERM_state, EXCEPT, INIT} then (Inl Assert_fail, w) else
      let w = upd_fiber f (\<lambda>x. x\<lparr>fiber_cb := cb, fiber_fn := MainFunc\<rparr>) w
      in (Inr (), set_state f INIT (makecontext f w)))"

definition Fiber_call :: "nat \<Rightarrow> ('c fiber_thread, unit) call" where
  "Fiber_call f w =
     (let w = set_state f EXEC (SetThis (Some f) w) in
      case t_threadFiber w of None \<Rightarrow> (Inl Null_deref, w) | Some t \<Rightarrow> (Inr (), swapcontext t f w))"

definition swapIn :: "nat \<Rightarrow> ('c fiber_thread, unit) call" where
  "swapIn f w =
     (let w = SetThis (Some f) w in
      if m_state (fibers w f) = EXEC then (Inl Assert_fail, w) else
      let w = set_state f EXEC w in
      case main_fiber w of None \<Rightarrow> (Inl Null_deref, w) | Some m \<Rightarrow> (Inr (), swapcontext m f w))"

definition Fiber_back :: "nat \<Rightarrow> ('c fiber_thread, unit) call" where
  "Fiber_back f w =
     (let w = SetThis (t_threadFiber w) w in
      case t_threadFiber w of None \<Rightarrow> (Inl Null_deref, w) | Some t \<Rightarrow> (Inr (), swapcontext f t w))"

definition swapOut :: "nat \<Rightarrow> ('c fiber_thread, unit) call" where
  "swapOut f w =
     (let w = SetThis (main_fiber w) w in
      case main_fiber w of None \<Rightarrow> (Inl Null_deref, w) | Some m \<Rightarrow> (Inr (), swapcontext f m w))"

text \<open>\<open>GetThis\<close>: the current fiber; the first call on a thread creates its main fiber at \<open>addr\<close>.\<close>

definition Fiber_GetThis :: "nat \<Rightarrow> ('c fiber_thread, nat) call" where
  "Fiber_GetThis addr w =
     (case t_fiber w of
        Some f \<Rightarrow> (Inr f, w)
      | None \<Rightarrow>
          let w = Fiber_main addr w in
          if t_fiber w \<noteq> Some addr then (Inl Assert_fail, w)
          else (Inr addr, w\<lparr>t_threadFiber := Some addr\<rparr>))"

definition YieldToReady :: "nat \<Rightarrow> ('c fiber_thread, unit) call" where
  "YieldToReady addr =
     seqc (Fiber_GetThis addr) (\<lambda>cur w. swapOut cur (set_state cur READY w))"

definition YieldToHold :: "nat \<Rightarrow> ('c fiber_thread, unit) call" where
  "YieldToHold addr =
     seqc (Fiber_GetThis addr) (\<lambda>cur w. swapOut cur (set_state cur HOLD w))"

definition TotalFibers :: "'c fiber_thread \<Rightarrow> u64" where
  "TotalFibers w = s_fiber_count w"

text \<open>
  The entry functions, from the point where \<open>m_cb()\<close> is over; \<open>threw\<close> says that it ended
  in an exception, which calling an empty function does too.
\<close>

definition finish_state :: "bool \<Rightarrow> nat \<Rightarrow> 'c fiber_thread \<Rightarrow> 'c fiber_thread" where
  "finish_state threw cur w =
     (if threw then set_state cur EXCEPT w
      else set_state cur TERM_state (upd_fiber cur (\<lambda>x. x\<lparr>fiber_cb := None\<rparr>) w))"

definition MainFunc_end :: "bool \<Rightarrow> nat \<Rightarrow> ('c fiber_thread, unit) call" where
  "MainFunc_end threw addr =
     seqc (Fiber_GetThis addr) (\<lambda>cur w. swapOut cur (finish_state threw cur w))"

definition CallerMainFunc_end :: "bool \<Rightarrow> nat \<Rightarrow> ('c fiber_thread, unit) call" where
  "CallerMainFunc_end threw addr =
     seqc (Fiber_GetThis addr) (\<lambda>cur w. Fiber_back cur (finish_state threw cur w))"

section \<open>The context discipline\<close>

definition exec_of :: "'c fiber_thread \<Rightarrow> nat \<Rightarrow> execution" where
  "exec_of w f = (if m_stack (fibers w f) then Of_fiber f else Native)"

text \<open>
  The fiber that executes is the current one, and every other fiber that can be switched
  to has its own execution stored in its context.
\<close>

definition consistent :: "'c fiber_thread \<Rightarrow> bool" where
  "consistent w \<longleftrightarrow>
     (\<exists>f. t_fiber w = Some f \<and> running w = exec_of w f) \<and>
     (\<forall>g. t_fiber w \<noteq> Some g \<and> (m_stack (fibers w g) \<or> t_threadFiber w = Some g) \<longrightarrow>
        ctx w g = exec_of w g)"

definition switchable :: "'c fiber_thread \<Rightarrow> nat \<Rightarrow> bool" where
  "switchable w g \<longleftrightarrow> m_stack (fibers w g) \<or> t_threadFiber w = Some g"

lemma set_state_simps [simp]:
  "m_stack (fibers (set_state f s w) g) = m_stack (fibers w g)"
  "m_state (fibers (set_state f s w) g) = (if g = f then s else m_state (fibers w g))"
  "fiber_cb (fibers (set_state f s w) g) = fiber_cb (fibers w g)"
  "ctx (set_state f s w) = ctx w" "running (set_state f s w) = running w"
  "t_fiber (set_state f s w) = t_fiber w" "t_threadFiber (set_state f s w) = t_threadFiber w"
  "main_fiber (set_state f s w) = main_fiber w"
  by (simp_all add: set_state_def upd_fiber_def)

lemma SetThis_simps [simp]:
  "fibers (SetThis f w) = fibers w" "ctx (SetThis f w) = ctx w" "running (SetThis f w) = running w"
  "t_fiber (SetThis f w) = f" "t_threadFiber (SetThis f w) = t_threadFiber w"
  "main_fiber (SetThis f w) = main_fiber w"
  by (simp_all add: SetThis_def)

text \<open>
  One switch: the current fiber stores itself and another one takes over. All of
  \<open>call\<close>, \<open>swapIn\<close>, \<open>back\<close> and \<open>swapOut\<close> are instances.
\<close>

lemma switch:
  assumes c: "consistent w" and a: "t_fiber w = Some a" and b: "b \<noteq> a" "switchable w b"
    and w': "fibers w' = fibers w" "ctx w' = ctx w" "running w' = running w"
      "t_threadFiber w' = t_threadFiber w" "t_fiber w' = Some b"
  shows "consistent (swapcontext a b w')" "running (swapcontext a b w') = exec_of w b"
    "t_fiber (swapcontext a b w') = Some b"
proof -
  have "running w = exec_of w a" using c a by (auto simp: consistent_def)
  moreover have "ctx w b = exec_of w b"
    using c a b by (auto simp: consistent_def switchable_def)
  ultimately show "consistent (swapcontext a b w')" "running (swapcontext a b w') = exec_of w b"
    "t_fiber (swapcontext a b w') = Some b"
    using c a b w' by (auto simp: consistent_def swapcontext_def exec_of_def Let_def)
qed

lemma swapcontext_frame [simp]:
  "fibers (swapcontext a b w) = fibers w" "main_fiber (swapcontext a b w) = main_fiber w"
  "t_threadFiber (swapcontext a b w) = t_threadFiber w"
  by (simp_all add: swapcontext_def Let_def)

lemma consistent_cong:
  assumes "\<And>g. m_stack (fibers w' g) = m_stack (fibers w g)" "ctx w' = ctx w" "running w' = running w"
    "t_threadFiber w' = t_threadFiber w" "t_fiber w' = t_fiber w"
  shows "consistent w' = consistent w" "exec_of w' = exec_of w"
  using assms by (auto simp: consistent_def exec_of_def)

lemma set_state_consistent [simp]: "consistent (set_state f s w) = consistent w"
  by (rule consistent_cong(1)) simp_all

lemma exec_of_set_state [simp]: "exec_of (set_state f s w) = exec_of w"
  by (rule ext) (simp add: exec_of_def)

lemma swapIn_spec:
  assumes "consistent w" "t_fiber w = Some m" "main_fiber w = Some m" "f \<noteq> m"
    "m_stack (fibers w f)" "m_state (fibers w f) \<noteq> EXEC"
  shows "\<exists>w'. swapIn f w = (Inr (), w') \<and> consistent w' \<and> t_fiber w' = Some f \<and>
    main_fiber w' = Some m \<and> t_threadFiber w' = t_threadFiber w \<and> running w' = Of_fiber f \<and>
    fibers w' = (fibers w)(f := (fibers w f)\<lparr>m_state := EXEC\<rparr>)"
proof -
  let ?w = "set_state f EXEC w"
  let ?w' = "set_state f EXEC (SetThis (Some f) w)"
  have sw: "switchable ?w f" "consistent ?w" "t_fiber ?w = Some m"
    using assms by (simp_all add: switchable_def)
  have fb: "fibers ?w' = fibers ?w" "fibers ?w = (fibers w)(f := (fibers w f)\<lparr>m_state := EXEC\<rparr>)"
    by (simp_all add: set_state_def upd_fiber_def)
  note s = switch [of ?w m f ?w', OF sw(2,3) assms(4) sw(1) fb(1)]
  have "consistent (swapcontext m f ?w')" "running (swapcontext m f ?w') = Of_fiber f"
    "t_fiber (swapcontext m f ?w') = Some f"
    using s assms by (simp_all add: exec_of_def)
  moreover have "swapIn f w = (Inr (), swapcontext m f ?w')"
    using assms by (simp add: swapIn_def Let_def)
  ultimately show ?thesis using assms fb by (intro exI [of _ "swapcontext m f ?w'"]) simp
qed

lemma swapOut_spec:
  assumes "consistent w" "t_fiber w = Some f" "main_fiber w = Some m" "f \<noteq> m" "switchable w m"
  shows "\<exists>w'. swapOut f w = (Inr (), w') \<and> consistent w' \<and> t_fiber w' = Some m \<and>
    main_fiber w' = Some m \<and> t_threadFiber w' = t_threadFiber w \<and> running w' = exec_of w m \<and>
    fibers w' = fibers w"
proof -
  let ?w = "swapcontext f m (SetThis (Some m) w)"
  have "consistent ?w" "running ?w = exec_of w m" "t_fiber ?w = Some m"
    by (rule switch [of w f m "SetThis (Some m) w"]; (use assms in simp))+
  then show ?thesis using assms by (intro exI [of _ ?w]) (simp add: swapOut_def)
qed

lemma current: "t_fiber w = Some f \<Longrightarrow> Fiber_GetThis addr w = (Inr f, w)"
  by (simp add: Fiber_GetThis_def)

definition scheduled_on :: "nat \<Rightarrow> nat \<Rightarrow> 'c fiber_thread \<Rightarrow> bool" where
  "scheduled_on m f w \<longleftrightarrow> consistent w \<and> t_fiber w = Some f \<and> main_fiber w = Some m \<and>
     f \<noteq> m \<and> switchable w m \<and> m_stack (fibers w f)"

lemma leave_spec:
  assumes "scheduled_on m f w" and fb: "\<And>g. m_stack (fibers w1 g) = m_stack (fibers w g)"
    and w1: "ctx w1 = ctx w" "running w1 = running w" "t_fiber w1 = t_fiber w"
      "t_threadFiber w1 = t_threadFiber w" "main_fiber w1 = main_fiber w"
  shows "\<exists>w'. swapOut f w1 = (Inr (), w') \<and> consistent w' \<and> t_fiber w' = Some m \<and>
    main_fiber w' = Some m \<and> running w' = exec_of w m \<and> fibers w' = fibers w1"
proof -
  have "consistent w1" "exec_of w1 = exec_of w"
    using consistent_cong [of w1 w] fb w1 assms(1) by (simp_all add: scheduled_on_def)
  moreover have "switchable w1 m" using assms by (simp add: scheduled_on_def switchable_def)
  ultimately show ?thesis
    using swapOut_spec [of w1 f m] assms(1) w1 by (auto simp: scheduled_on_def)
qed

lemma finish_frame:
  "m_stack (fibers (finish_state threw f w) g) = m_stack (fibers w g)"
  "ctx (finish_state threw f w) = ctx w" "running (finish_state threw f w) = running w"
  "t_fiber (finish_state threw f w) = t_fiber w"
  "t_threadFiber (finish_state threw f w) = t_threadFiber w"
  "main_fiber (finish_state threw f w) = main_fiber w"
  "m_state (fibers (finish_state threw f w) f) = (if threw then EXCEPT else TERM_state)"
  by (simp_all add: finish_state_def upd_fiber_def)

section \<open>Properties\<close>

text \<open>
  Switching in and out keeps the context discipline: a fiber switched in from the
  scheduler's loop is the one that executes, in state \<open>EXEC\<close>; however it leaves, by a
  yield or by its end, the execution that continues is the scheduler's loop, which is the
  current fiber again, and the fiber is left in the state that tells the scheduler why.
\<close>

theorem switch_discipline:
  assumes "consistent w" "t_fiber w = Some m" "main_fiber w = Some m" "switchable w m"
    "f \<noteq> m" "m_stack (fibers w f)" "m_state (fibers w f) \<noteq> EXEC"
  shows "\<exists>w1. swapIn f w = (Inr (), w1) \<and> running w1 = Of_fiber f \<and> scheduled_on m f w1 \<and>
      m_state (fibers w1 f) = EXEC \<and>
    (\<forall>w2. scheduled_on m f w2 \<longrightarrow>
      (\<exists>w3. YieldToHold addr w2 = (Inr (), w3) \<and> consistent w3 \<and> t_fiber w3 = Some m \<and>
        running w3 = exec_of w2 m \<and> m_state (fibers w3 f) = HOLD) \<and>
      (\<exists>w3. YieldToReady addr w2 = (Inr (), w3) \<and> consistent w3 \<and> t_fiber w3 = Some m \<and>
        running w3 = exec_of w2 m \<and> m_state (fibers w3 f) = READY) \<and>
      (\<exists>w3. MainFunc_end threw addr w2 = (Inr (), w3) \<and> consistent w3 \<and> t_fiber w3 = Some m \<and>
        running w3 = exec_of w2 m \<and> m_state (fibers w3 f) = (if threw then EXCEPT else TERM_state)))"
proof -
  obtain w1 where w1: "swapIn f w = (Inr (), w1)" "consistent w1" "t_fiber w1 = Some f"
    "main_fiber w1 = Some m" "t_threadFiber w1 = t_threadFiber w" "running w1 = Of_fiber f"
    "fibers w1 = (fibers w)(f := (fibers w f)\<lparr>m_state := EXEC\<rparr>)"
    using swapIn_spec [OF assms(1,2,3,5,6,7)] by blast
  then have "scheduled_on m f w1" using assms by (auto simp: scheduled_on_def switchable_def)
  moreover have "\<exists>w3. YieldToHold addr w2 = (Inr (), w3) \<and> consistent w3 \<and> t_fiber w3 = Some m \<and>
        running w3 = exec_of w2 m \<and> m_state (fibers w3 f) = HOLD"
    if "scheduled_on m f w2" for w2
    using leave_spec [OF that, of "set_state f HOLD w2"] that
    by (auto simp: YieldToHold_def current scheduled_on_def)
  moreover have "\<exists>w3. YieldToReady addr w2 = (Inr (), w3) \<and> consistent w3 \<and> t_fiber w3 = Some m \<and>
        running w3 = exec_of w2 m \<and> m_state (fibers w3 f) = READY"
    if "scheduled_on m f w2" for w2
    using leave_spec [OF that, of "set_state f READY w2"] that
    by (auto simp: YieldToReady_def current scheduled_on_def)
  moreover have "\<exists>w3. MainFunc_end threw addr w2 = (Inr (), w3) \<and> consistent w3 \<and> t_fiber w3 = Some m \<and>
        running w3 = exec_of w2 m \<and> m_state (fibers w3 f) = (if threw then EXCEPT else TERM_state)"
    if "scheduled_on m f w2" for w2
    using leave_spec [OF that, of "finish_state threw f w2"] that finish_frame [of threw f w2]
    by (auto simp: MainFunc_end_def current scheduled_on_def)
  ultimately show ?thesis using w1 by auto
qed

text \<open>A thread whose native fiber 0 runs the scheduler, with a fresh fiber 1.\<close>

definition demo_thread :: "nat fiber_thread" where
  "demo_thread = Fiber_new 1024 (Some 5) 0 False 1
     ((snd (Fiber_GetThis 0 \<lparr>fibers = (\<lambda>_. \<lparr>fiber_id = 0, m_stacksize = 0, m_stack = False,
        m_state = INIT, fiber_cb = None, fiber_fn = No_entry\<rparr>), ctx = (\<lambda>_. Native), running = Native,
        t_fiber = None, t_threadFiber = None, main_fiber = None, s_fiber_id = 0,
        s_fiber_count = 0\<rparr>))\<lparr>main_fiber := Some 0\<rparr>)"

theorem switch_discipline_witness:
  "\<exists>w1. swapIn 1 demo_thread = (Inr (), w1) \<and> running w1 = Of_fiber 1"
proof -
  have "consistent demo_thread" "t_fiber demo_thread = Some 0" "main_fiber demo_thread = Some 0"
    "switchable demo_thread 0" "m_stack (fibers demo_thread 1)"
    "m_state (fibers demo_thread 1) \<noteq> EXEC"
    by (auto simp: demo_thread_def Fiber_new_def Fiber_GetThis_def Fiber_main_def upd_fiber_def
        makecontext_def SetThis_def Let_def consistent_def exec_of_def switchable_def split: if_splits)
  from switch_discipline [OF this(1-4) _ this(5,6)] show ?thesis by fastforce
qed

text \<open>
  A fiber object may be reused or destroyed exactly when it has not started or has
  ended: with a stack and in one of the states \<open>INIT\<close>, \<open>TERM_state\<close> and \<open>EXCEPT\<close>, \<open>reset\<close> leaves
  a fresh fiber with the new function; in every other case the assertion fails.
\<close>

theorem reuse_iff_ended:
  "fst (Fiber_reset f cb w) =
     (if m_stack (fibers w f) \<and> m_state (fibers w f) \<in> {INIT, TERM_state, EXCEPT} then Inr ()
      else Inl Assert_fail) \<and>
   (m_stack (fibers w f) \<longrightarrow> fst (Fiber_destroy f w) =
     (if m_state (fibers w f) \<in> {INIT, TERM_state, EXCEPT} then Inr () else Inl Assert_fail)) \<and>
   (fst (Fiber_reset f cb w) = Inr () \<longrightarrow>
     m_state (fibers (snd (Fiber_reset f cb w)) f) = INIT \<and>
     fiber_cb (fibers (snd (Fiber_reset f cb w)) f) = cb \<and>
     ctx (snd (Fiber_reset f cb w)) f = Of_fiber f)"
  by (auto simp: Fiber_reset_def Fiber_destroy_def Let_def makecontext_def upd_fiber_def)

theorem reuse_iff_ended_witness:
  "fst (Fiber_reset 1 (Some 9) demo_thread) = Inr () \<and> fst (Fiber_destroy 1 demo_thread) = Inr ()"
  using reuse_iff_ended [of 1 "Some 9" demo_thread]
  by (simp add: demo_thread_def Fiber_new_def Fiber_GetThis_def Fiber_main_def upd_fiber_def
      makecontext_def SetThis_def Let_def)

end
