(* ===== verification/Schedulers.thy ===== *)
theory Schedulers
  imports Fibers
begin

text \<open>
  The scheduler (\<open>sylar/scheduler.h\<close>, \<open>sylar/scheduler.cc\<close>): a list of tasks shared by the
  worker threads, each of which runs the loop \<open>Scheduler::run\<close>.

  A task names a fiber or a function, and a thread it is pinned to (-1 for any). The part
  of \<open>run\<close> up to the switch into a fiber is \<open>run_pick\<close>, the part after the fiber gave the
  thread back is \<open>run_after\<close>; both hold the queue's lock where the code does and are one
  step each. What a worker executes between them is its program counter. The states of
  the fiber objects are the map \<open>st\<close>; the switches themselves are the subject of
  \<open>Fibers\<close>. \<open>tickle\<close> is virtual: its calls are counted.
\<close>

section \<open>State\<close>

record 'c task =
  ft_fiber :: "nat option"
  ft_cb :: "'c option"
  ft_thread :: int

record 'c scheduler =
  m_fibers :: "'c task list"
  m_threads :: "int list"
  m_threadIds :: "int list"
  m_threadCount :: nat
  m_activeThreadCount :: nat
  m_idleThreadCount :: nat
  m_stopping :: bool
  m_autoStop :: bool
  m_rootThread :: int
  m_rootFiber :: "nat option"

text \<open>The four constructors of \<open>FiberAndThread\<close>: from a fiber or from a function.\<close>

datatype 'c fiber_or_cb = Sched_fiber "nat option" | Sched_cb "'c option"

definition FiberAndThread :: "'c fiber_or_cb \<Rightarrow> int \<Rightarrow> 'c task" where
  "FiberAndThread fc thread =
     (case fc of
        Sched_fiber f \<Rightarrow> \<lparr>ft_fiber = f, ft_cb = None, ft_thread = thread\<rparr>
      | Sched_cb cb \<Rightarrow> \<lparr>ft_fiber = None, ft_cb = cb, ft_thread = thread\<rparr>)"

definition FiberAndThread_reset :: "'c task" where
  "FiberAndThread_reset = \<lparr>ft_fiber = None, ft_cb = None, ft_thread = -1\<rparr>"

text \<open>
  The constructor. \<open>root\<close> is the new root fiber, \<open>me\<close> the calling thread; \<open>has_scheduler\<close>
  says that the thread already has one.
\<close>

definition Scheduler_new :: "nat \<Rightarrow> bool \<Rightarrow> bool \<Rightarrow> nat \<Rightarrow> int \<Rightarrow> fault + 'c scheduler" where
  "Scheduler_new threads use_caller has_scheduler root me =
     (let s = \<lparr>m_fibers = [], m_threads = [], m_threadIds = [], m_threadCount = 0,
          m_activeThreadCount = 0, m_idleThreadCount = 0, m_stopping = True, m_autoStop = False,
          m_rootThread = 0, m_rootFiber = None\<rparr>
      in if threads = 0 then Inl Assert_fail else
         if use_caller then
           if has_scheduler then Inl Assert_fail else
           Inr (s\<lparr>m_threadCount := threads - 1, m_rootFiber := Some root, m_rootThread := me,
             m_threadIds := [me]\<rparr>)
         else Inr (s\<lparr>m_rootThread := -1, m_threadCount := threads\<rparr>))"

section \<open>Scheduling\<close>

definition scheduleNoLock :: "'c fiber_or_cb \<Rightarrow> int \<Rightarrow> 'c scheduler \<Rightarrow> bool \<times> 'c scheduler" where
  "scheduleNoLock fc thread s =
     (let need_tickle = (m_fibers s = []);
          ft = FiberAndThread fc thread
      in (need_tickle,
          if ft_fiber ft \<noteq> None \<or> ft_cb ft \<noteq> None then s\<lparr>m_fibers := m_fibers s @ [ft]\<rparr> else s))"

text \<open>\<open>schedule\<close> and the batch overload: whether \<open>tickle\<close> is called, and the scheduler.\<close>

definition schedule :: "'c fiber_or_cb \<Rightarrow> int \<Rightarrow> 'c scheduler \<Rightarrow> bool \<times> 'c scheduler" where
  "schedule fc thread s = scheduleNoLock fc thread s"

fun schedule_all :: "'c fiber_or_cb list \<Rightarrow> 'c scheduler \<Rightarrow> bool \<times> 'c scheduler" where
  "schedule_all [] s = (False, s)"
| "schedule_all (fc # fcs) s =
     (let (t, s) = scheduleNoLock fc (-1) s; (need_tickle, s) = schedule_all fcs s
      in (t \<or> need_tickle, s))"

definition stopping :: "'c scheduler \<Rightarrow> bool" where
  "stopping s \<longleftrightarrow> m_autoStop s \<and> m_stopping s \<and> m_fibers s = [] \<and> m_activeThreadCount s = 0"

definition hasIdleThreads :: "'c scheduler \<Rightarrow> bool" where
  "hasIdleThreads s \<longleftrightarrow> 0 < m_idleThreadCount s"

text \<open>\<open>start\<close>: \<open>ids\<close> are the threads it creates, as many as \<open>m_threadCount\<close>.\<close>

definition Scheduler_start :: "int list \<Rightarrow> ('c scheduler, unit) call" where
  "Scheduler_start ids s =
     (if \<not> m_stopping s then (Inr (), s) else
      let s = s\<lparr>m_stopping := False\<rparr> in
      if m_threads s \<noteq> [] then (Inl Assert_fail, s) else
      (Inr (), s\<lparr>m_threads := take (m_threadCount s) ids,
         m_threadIds := m_threadIds s @ take (m_threadCount s) ids\<rparr>))"

text \<open>
  \<open>stop\<close>: how often \<open>tickle\<close> is called, whether the root fiber is called to run the
  loop on this thread, and the threads to join. \<open>st\<close> gives the state of the root fiber,
  \<open>here\<close> says that the current scheduler of the thread is this one.
\<close>

definition Scheduler_stop :: "(nat \<Rightarrow> fiber_state) \<Rightarrow> bool \<Rightarrow> ('c scheduler, nat \<times> bool \<times> int list) call" where
  "Scheduler_stop st here s =
     (let s = s\<lparr>m_autoStop := True\<rparr>;
          unstarted = (case m_rootFiber s of None \<Rightarrow> False
            | Some r \<Rightarrow> m_threadCount s = 0 \<and> (st r = TERM_state \<or> st r = INIT));
          s = (if unstarted then s\<lparr>m_stopping := True\<rparr> else s)
      in if unstarted \<and> stopping s then (Inr (0, False, []), s) else
         if (m_rootThread s \<noteq> -1) \<noteq> here then (Inl Assert_fail, s) else
         let s = s\<lparr>m_stopping := True\<rparr>;
             tickles = m_threadCount s + (if m_rootFiber s \<noteq> None then 1 else 0);
             call_root = (m_rootFiber s \<noteq> None \<and> \<not> stopping s)
         in (Inr (tickles, call_root, m_threads s), s\<lparr>m_threads := []\<rparr>))"

definition Scheduler_destroy :: "'c scheduler \<Rightarrow> fault + unit" where
  "Scheduler_destroy s = (if m_stopping s then Inr () else Inl Assert_fail)"

section \<open>The loop of a worker\<close>

text \<open>
  The search under the lock. \<open>me\<close> is the id of the thread; the result says whether a task
  for another thread was passed over, the task taken, and the rest of the queue.
\<close>

fun scan :: "(nat \<Rightarrow> fiber_state) \<Rightarrow> int \<Rightarrow> 'c task list \<Rightarrow>
    fault + bool \<times> 'c task option \<times> 'c task list" where
  "scan st me [] = Inr (False, None, [])"
| "scan st me (it # rest) =
     (if ft_thread it \<noteq> -1 \<and> ft_thread it \<noteq> me then
        (case scan st me rest of
           Inl e \<Rightarrow> Inl e | Inr (tickle_me, ft, q) \<Rightarrow> Inr (True, ft, it # q))
      else if ft_fiber it = None \<and> ft_cb it = None then Inl Assert_fail
      else if (case ft_fiber it of None \<Rightarrow> False | Some f \<Rightarrow> st f = EXEC) then
        (case scan st me rest of
           Inl e \<Rightarrow> Inl e | Inr (tickle_me, ft, q) \<Rightarrow> Inr (tickle_me, ft, it # q))
      else Inr (False, Some it, rest))"

datatype pc = Top | In_fiber nat int | In_cb nat int | In_idle | Exited

record worker =
  w_pc :: pc
  w_cb_fiber :: "nat option"
  w_idle_fiber :: nat

record 'c world =
  sch :: "'c scheduler"
  st :: "nat \<Rightarrow> fiber_state"
  workers :: "int \<Rightarrow> worker"
  tickles :: nat

definition set_st :: "nat \<Rightarrow> fiber_state \<Rightarrow> 'c world \<Rightarrow> 'c world" where
  "set_st f s w = w\<lparr>st := (st w)(f := s)\<rparr>"

definition set_worker :: "int \<Rightarrow> (worker \<Rightarrow> worker) \<Rightarrow> 'c world \<Rightarrow> 'c world" where
  "set_worker me g w = w\<lparr>workers := (workers w)(me := g (workers w me))\<rparr>"

definition set_pc :: "int \<Rightarrow> pc \<Rightarrow> 'c world \<Rightarrow> 'c world" where
  "set_pc me p = set_worker me (\<lambda>x. x\<lparr>w_pc := p\<rparr>)"

definition count_active :: "(nat \<Rightarrow> nat) \<Rightarrow> 'c world \<Rightarrow> 'c world" where
  "count_active g w = w\<lparr>sch := (sch w)\<lparr>m_activeThreadCount := g (m_activeThreadCount (sch w))\<rparr>\<rparr>"

definition count_idle :: "(nat \<Rightarrow> nat) \<Rightarrow> 'c world \<Rightarrow> 'c world" where
  "count_idle g w = w\<lparr>sch := (sch w)\<lparr>m_idleThreadCount := g (m_idleThreadCount (sch w))\<rparr>\<rparr>"

text \<open>A call of \<open>schedule\<close>, with its tickle.\<close>

definition world_schedule :: "'c fiber_or_cb \<Rightarrow> int \<Rightarrow> 'c world \<Rightarrow> 'c world" where
  "world_schedule fc thread w =
     (let (t, s) = schedule fc thread (sch w)
      in w\<lparr>sch := s, tickles := tickles w + (if t then 1 else 0)\<rparr>)"

text \<open>
  One turn of the loop up to the switch into a fiber (or to the end of the turn, or of the
  loop): the three branches, and the choice between them. \<open>addr\<close> is the address of a new
  fiber for a function, if one is made.
\<close>

definition run_cb :: "int \<Rightarrow> nat \<Rightarrow> 'c task \<Rightarrow> 'c world \<Rightarrow> fault + 'c world" where
  "run_cb me addr ft w =
     (case w_cb_fiber (workers w me) of
        Some c \<Rightarrow>
          if st w c \<notin> {TERM_state, EXCEPT, INIT} then Inl Assert_fail
          else Inr (set_pc me (In_cb c (ft_thread ft)) (set_st c EXEC w))
      | None \<Rightarrow>
          Inr (set_pc me (In_cb addr (ft_thread ft)) (set_st addr EXEC
            (set_worker me (\<lambda>x. x\<lparr>w_cb_fiber := Some addr\<rparr>) w))))"

definition run_idle :: "int \<Rightarrow> bool \<Rightarrow> 'c world \<Rightarrow> fault + 'c world" where
  "run_idle me is_active w =
     (if is_active then Inr (count_active (\<lambda>n. n - 1) w) else
      let idle = w_idle_fiber (workers w me) in
      if st w idle = TERM_state then Inr (set_pc me Exited w)
      else
        let w = count_idle Suc w in
        if st w idle = EXEC then Inl Assert_fail
        else Inr (set_pc me In_idle (set_st idle EXEC w)))"

definition run_pick :: "int \<Rightarrow> nat \<Rightarrow> 'c world \<Rightarrow> fault + 'c world" where
  "run_pick me addr w =
     (case scan (st w) me (m_fibers (sch w)) of
        Inl e \<Rightarrow> Inl e
      | Inr (tickle_me, taken, q) \<Rightarrow>
        let ft = (case taken of None \<Rightarrow> FiberAndThread_reset | Some it \<Rightarrow> it);
            is_active = (taken \<noteq> None);
            w = w\<lparr>sch := (sch w)\<lparr>m_fibers := q\<rparr>\<rparr>;
            w = (if is_active then count_active Suc w else w);
            w = (if tickle_me then w\<lparr>tickles := Suc (tickles w)\<rparr> else w);
            otherwise = (if ft_cb ft \<noteq> None then run_cb me addr ft w else run_idle me is_active w)
        in case ft_fiber ft of
             Some f \<Rightarrow>
               if st w f \<noteq> TERM_state \<and> st w f \<noteq> EXCEPT then
                 if st w f = EXEC then Inl Assert_fail
                 else Inr (set_pc me (In_fiber f (ft_thread ft)) (set_st f EXEC w))
               else otherwise
           | None \<Rightarrow> otherwise)"

text \<open>
  The part after the switch back, for a fiber that left in state \<open>s\<close> (its own doing).
\<close>

definition run_after :: "int \<Rightarrow> fiber_state \<Rightarrow> 'c world \<Rightarrow> 'c world" where
  "run_after me s w =
     (case w_pc (workers w me) of
        In_fiber f thr \<Rightarrow>
          let w = count_active (\<lambda>n. n - 1) (set_st f s w);
              w = (if s = READY then world_schedule (Sched_fiber (Some f)) (-1) w
                   else if s \<noteq> TERM_state \<and> s \<noteq> EXCEPT then set_st f HOLD w else w)
          in set_pc me Top w
      | In_cb c thr \<Rightarrow>
          let w = count_active (\<lambda>n. n - 1) (set_st c s w);
              w = (if s = READY then
                     set_worker me (\<lambda>x. x\<lparr>w_cb_fiber := None\<rparr>) (world_schedule (Sched_fiber (Some c)) (-1) w)
                   else if s = EXCEPT \<or> s = TERM_state then set_st c INIT w
                   else set_worker me (\<lambda>x. x\<lparr>w_cb_fiber := None\<rparr>) (set_st c HOLD w))
          in set_pc me Top w
      | In_idle \<Rightarrow>
          let i = w_idle_fiber (workers w me);
              w = count_idle (\<lambda>n. n - 1) (set_st i s w);
              w = (if s \<noteq> TERM_state \<and> s \<noteq> EXCEPT then set_st i HOLD w else w)
          in set_pc me Top w
      | _ \<Rightarrow> w)"

text \<open>The loop of \<open>Scheduler::idle\<close>: the state in which the idle fiber gives the thread back.\<close>

definition idle_turn :: "'c scheduler \<Rightarrow> fiber_state" where
  "idle_turn s = (if stopping s then TERM_state else HOLD)"

section \<open>The queue\<close>

text \<open>Tasks a thread passes over: pinned to another thread, or of a fiber that executes.\<close>

definition pinned_elsewhere :: "int \<Rightarrow> 'c task \<Rightarrow> bool" where
  "pinned_elsewhere me it \<longleftrightarrow> ft_thread it \<noteq> -1 \<and> ft_thread it \<noteq> me"

definition executing :: "(nat \<Rightarrow> fiber_state) \<Rightarrow> 'c task \<Rightarrow> bool" where
  "executing sts it \<longleftrightarrow> (\<exists>f. ft_fiber it = Some f \<and> sts f = EXEC)"

definition nonempty_task :: "'c task \<Rightarrow> bool" where
  "nonempty_task it \<longleftrightarrow> ft_fiber it \<noteq> None \<or> ft_cb it \<noteq> None"

lemma scan_found:
  "scan sts me q = Inr (t, Some it, q') \<Longrightarrow>
   \<exists>pre post. q = pre @ it # post \<and> q' = pre @ post \<and>
     (\<forall>x \<in> set pre. pinned_elsewhere me x \<or> executing sts x) \<and>
     \<not> pinned_elsewhere me it \<and> \<not> executing sts it \<and> nonempty_task it \<and>
     (t \<longleftrightarrow> (\<exists>x \<in> set pre. pinned_elsewhere me x))"
proof (induction q arbitrary: t q')
  case Nil
  then show ?case by simp
next
  case (Cons x q)
  show ?case
  proof (cases "pinned_elsewhere me x \<or> (nonempty_task x \<and> executing sts x)")
    case True
    then obtain t1 q1 where r: "scan sts me q = Inr (t1, Some it, q1)" "q' = x # q1"
      "t \<longleftrightarrow> t1 \<or> pinned_elsewhere me x"
      using Cons.prems by (auto simp: pinned_elsewhere_def executing_def nonempty_task_def
          split: if_splits sum.splits option.splits prod.splits)
    then obtain pre post where
      "q = pre @ it # post" "q1 = pre @ post"
      "\<forall>x \<in> set pre. pinned_elsewhere me x \<or> executing sts x"
      "\<not> pinned_elsewhere me it" "\<not> executing sts it" "nonempty_task it"
      "t1 \<longleftrightarrow> (\<exists>x \<in> set pre. pinned_elsewhere me x)"
      using Cons.IH by blast
    with r True show ?thesis by (intro exI [of _ "x # pre"] exI [of _ post]) auto
  next
    case False
    with Cons.prems have "it = x" "q' = q" "\<not> t" "nonempty_task x" "\<not> executing sts x"
      by (auto simp: pinned_elsewhere_def executing_def nonempty_task_def
          split: if_splits option.splits)
    with False show ?thesis by (intro exI [of _ "[]"] exI [of _ q]) auto
  qed
qed

lemma scan_none:
  "scan sts me q = Inr (t, None, q') \<Longrightarrow> q' = q \<and>
     (\<forall>x \<in> set q. pinned_elsewhere me x \<or> executing sts x) \<and>
     (t \<longleftrightarrow> (\<exists>x \<in> set q. pinned_elsewhere me x))"
proof (induction q arbitrary: t q')
  case Nil
  then show ?case by simp
next
  case (Cons x q)
  then obtain t1 q1 where "scan sts me q = Inr (t1, None, q1)" "q' = x # q1"
    "pinned_elsewhere me x \<or> executing sts x" "t \<longleftrightarrow> t1 \<or> pinned_elsewhere me x"
    by (auto simp: pinned_elsewhere_def executing_def
        split: if_splits sum.splits option.splits prod.splits)
  with Cons.IH show ?case by auto
qed

lemma scan_total: "(\<forall>x \<in> set q. nonempty_task x) \<Longrightarrow> \<exists>r. scan sts me q = Inr r"
  by (induction q) (auto simp: nonempty_task_def split: sum.splits option.splits)

section \<open>Invariant of the workers\<close>

text \<open>The fiber a worker executes.\<close>

definition executes :: "'c world \<Rightarrow> int \<Rightarrow> nat \<Rightarrow> bool" where
  "executes w me f \<longleftrightarrow>
     (\<exists>thr. w_pc (workers w me) = In_fiber f thr \<or> w_pc (workers w me) = In_cb f thr) \<or>
     w_pc (workers w me) = In_idle \<and> w_idle_fiber (workers w me) = f"

fun in_task :: "pc \<Rightarrow> bool" where
  "in_task (In_fiber f thr) = True"
| "in_task (In_cb c thr) = True"
| "in_task _ = False"

fun pin_ok :: "int \<Rightarrow> pc \<Rightarrow> bool" where
  "pin_ok me (In_fiber f thr) = (thr = -1 \<or> thr = me)"
| "pin_ok me (In_cb c thr) = (thr = -1 \<or> thr = me)"
| "pin_ok me _ = True"

definition busy :: "'c world \<Rightarrow> int set" where
  "busy w = {me. in_task (w_pc (workers w me))}"

definition world_inv :: "'c world \<Rightarrow> bool" where
  "world_inv w \<longleftrightarrow>
     (\<forall>me f. executes w me f \<longrightarrow> st w f = EXEC) \<and>
     (\<forall>me me' f. executes w me f \<longrightarrow> executes w me' f \<longrightarrow> me = me') \<and>
     (\<forall>me. pin_ok me (w_pc (workers w me))) \<and>
     finite (busy w) \<and> card (busy w) = m_activeThreadCount (sch w)"

lemma world_frame [simp]:
  "workers (set_st f s w) = workers w" "sch (set_st f s w) = sch w"
  "st (set_st f s w) = (st w)(f := s)"
  "st (set_worker me g w) = st w" "sch (set_worker me g w) = sch w"
  "workers (set_worker me g w) = (workers w)(me := g (workers w me))"
  "workers (count_active h w) = workers w" "st (count_active h w) = st w"
  "workers (count_idle h w) = workers w" "st (count_idle h w) = st w"
  "m_activeThreadCount (sch (count_active h w)) = h (m_activeThreadCount (sch w))"
  "m_activeThreadCount (sch (count_idle h w)) = m_activeThreadCount (sch w)"
  "m_fibers (sch (count_active h w)) = m_fibers (sch w)"
  "m_fibers (sch (count_idle h w)) = m_fibers (sch w)"
  by (simp_all add: set_st_def set_worker_def count_active_def count_idle_def)

lemma schedule_frame [simp]:
  "workers (world_schedule fc thr w) = workers w" "st (world_schedule fc thr w) = st w"
  "m_activeThreadCount (sch (world_schedule fc thr w)) = m_activeThreadCount (sch w)"
  by (simp_all add: world_schedule_def schedule_def scheduleNoLock_def Let_def)

text \<open>A worker that takes a fiber that nobody executes, and one that gives its fiber back.\<close>

lemma enter_inv:
  assumes inv: "world_inv w" and top: "w_pc (workers w me) = Top" and f: "st w f \<noteq> EXEC"
    and w': "workers w' = (workers w)(me := x)" "st w' = (st w)(f := EXEC)"
    and ex: "\<And>g. executes w' me g \<Longrightarrow> g = f" and pin: "pin_ok me (w_pc x)"
    and cnt: "m_activeThreadCount (sch w') = m_activeThreadCount (sch w) + (if in_task (w_pc x) then 1 else 0)"
  shows "world_inv w'"
proof -
  have other: "executes w' m g = executes w m g" if "m \<noteq> me" for m g
    using that by (simp add: executes_def w')
  have none: "\<not> executes w m f" for m using inv f by (auto simp: world_inv_def)
  have nb: "me \<notin> busy w" using top by (simp add: busy_def)
  have b: "busy w' = (if in_task (w_pc x) then insert me (busy w) else busy w)"
    using nb by (auto simp: busy_def w')
  have "finite (busy w') \<and> card (busy w') = m_activeThreadCount (sch w')"
    using inv nb by (auto simp: b cnt world_inv_def)
  moreover have "st w' g = EXEC" if "executes w' m g" for m g
    using that ex other inv by (cases "m = me") (auto simp: w' world_inv_def)
  moreover have "m = m'" if "executes w' m g" "executes w' m' g" for m m' g
    using that ex other none inv by (cases "m = me"; cases "m' = me") (auto simp: world_inv_def)
  moreover have "pin_ok m (w_pc (workers w' m))" for m
    using inv pin by (simp add: w' world_inv_def)
  ultimately show ?thesis unfolding world_inv_def by blast
qed

lemma leave_inv:
  assumes inv: "world_inv w" and e: "executes w me f"
    and w': "workers w' = (workers w)(me := x)" "st w' = (st w)(f := s)" and x: "w_pc x = Top"
    and cnt: "m_activeThreadCount (sch w') =
      m_activeThreadCount (sch w) - (if in_task (w_pc (workers w me)) then 1 else 0)"
  shows "world_inv w'"
proof -
  have me: "\<not> executes w' me g" for g using x by (simp add: executes_def w')
  have other: "executes w' m g = executes w m g" if "m \<noteq> me" for m g
    using that by (simp add: executes_def w')
  have mem: "in_task (w_pc (workers w me)) \<longleftrightarrow> me \<in> busy w" by (simp add: busy_def)
  have b: "busy w' = busy w - {me}" using x by (auto simp: busy_def w')
  have fin: "finite (busy w)" "card (busy w) = m_activeThreadCount (sch w)"
    using inv by (simp_all add: world_inv_def)
  have "card (busy w') = m_activeThreadCount (sch w')"
    using fin mem by (cases "me \<in> busy w") (auto simp: b cnt card_Diff_singleton)
  moreover have "st w' g = EXEC" if "executes w' m g" for m g
  proof -
    have m: "m \<noteq> me" using that me by auto
    then have "executes w m g" using that other by simp
    note m = m this
    then have "g \<noteq> f" using e inv by (auto simp: world_inv_def)
    then show ?thesis using m inv by (auto simp: w' world_inv_def)
  qed
  moreover have "m = m'" if "executes w' m g" "executes w' m' g" for m m' g
  proof -
    have "m \<noteq> me" "m' \<noteq> me" using that me by auto
    then show ?thesis using that other inv by (auto simp: world_inv_def)
  qed
  moreover have "pin_ok m (w_pc (workers w' m))" for m
    using inv x by (simp add: w' world_inv_def)
  ultimately show ?thesis using fin b unfolding world_inv_def by (metis finite_Diff)
qed

lemma same_inv:
  assumes "world_inv w" "workers w' = workers w" "st w' = st w"
    "m_activeThreadCount (sch w') = m_activeThreadCount (sch w)"
  shows "world_inv w'"
proof -
  have "executes w' = executes w" "busy w' = busy w"
    using assms(2) by (auto simp: executes_def busy_def fun_eq_iff)
  then show ?thesis using assms by (simp add: world_inv_def)
qed

text \<open>What a turn of the loop does to the workers and to the states of the fibers.\<close>

definition turn_result :: "int \<Rightarrow> 'c world \<Rightarrow> 'c world \<Rightarrow> bool" where
  "turn_result me w w' \<longleftrightarrow>
     (workers w' = workers w \<and> st w' = st w \<and>
        m_activeThreadCount (sch w') = m_activeThreadCount (sch w)) \<or>
     (workers w' = (workers w)(me := (workers w me)\<lparr>w_pc := Exited\<rparr>) \<and> st w' = st w \<and>
        m_activeThreadCount (sch w') = m_activeThreadCount (sch w) \<and>
        st w (w_idle_fiber (workers w me)) = TERM_state) \<or>
     (\<exists>f x. st w f \<noteq> EXEC \<and> workers w' = (workers w)(me := x) \<and> st w' = (st w)(f := EXEC) \<and>
        (\<forall>g. executes w' me g \<longrightarrow> g = f) \<and> pin_ok me (w_pc x) \<and>
        m_activeThreadCount (sch w') = m_activeThreadCount (sch w) + (if in_task (w_pc x) then 1 else 0))"

lemma run_cb_result:
  assumes "run_cb me addr ft w1 = Inr w'" "st w1 addr \<noteq> EXEC" "ft_thread ft = -1 \<or> ft_thread ft = me"
    and w1: "workers w1 = workers w" "st w1 = st w"
      "m_activeThreadCount (sch w1) = Suc (m_activeThreadCount (sch w))"
  shows "turn_result me w w'"
proof (cases "w_cb_fiber (workers w me)")
  case None
  then show ?thesis using assms unfolding turn_result_def
    by (intro disjI2 exI [of _ addr] exI [of _ "workers w' me"])
      (auto simp: run_cb_def set_pc_def executes_def)
next
  case (Some c)
  then show ?thesis using assms unfolding turn_result_def
    by (intro disjI2 exI [of _ c] exI [of _ "workers w' me"])
      (auto simp: run_cb_def set_pc_def executes_def split: if_splits)
qed

lemma run_idle_result:
  assumes "run_idle me active w1 = Inr w'"
    and w1: "workers w1 = workers w" "st w1 = st w"
      "m_activeThreadCount (sch w1) = m_activeThreadCount (sch w) + (if active then 1 else 0)"
  shows "turn_result me w w'"
proof (cases "active \<or> st w (w_idle_fiber (workers w me)) = TERM_state")
  case True
  then show ?thesis using assms unfolding turn_result_def
    by (auto simp: run_idle_def set_pc_def Let_def split: if_splits)
next
  case False
  then show ?thesis using assms unfolding turn_result_def
    by (intro disjI2 exI [of _ "w_idle_fiber (workers w me)"] exI [of _ "workers w' me"])
      (auto simp: run_idle_def set_pc_def executes_def Let_def split: if_splits)
qed

lemma run_pick_result:
  assumes r: "run_pick me addr w = Inr w'" and addr: "st w addr \<noteq> EXEC"
  shows "turn_result me w w'"
proof -
  obtain t taken q where sc: "scan (st w) me (m_fibers (sch w)) = Inr (t, taken, q)"
    using r by (cases "scan (st w) me (m_fibers (sch w))") (auto simp: run_pick_def)
  define w0 where "w0 = w\<lparr>sch := (sch w)\<lparr>m_fibers := q\<rparr>\<rparr>"
  define w1 where "w1 = (if taken \<noteq> None then count_active Suc w0 else w0)"
  define w2 where "w2 = (if t then w1\<lparr>tickles := Suc (tickles w1)\<rparr> else w1)"
  define ft where "ft = (case taken of None \<Rightarrow> FiberAndThread_reset | Some it \<Rightarrow> it)"
  have rp: "run_pick me addr w =
      (case ft_fiber ft of
         Some f \<Rightarrow>
           if st w2 f \<noteq> TERM_state \<and> st w2 f \<noteq> EXCEPT then
             if st w2 f = EXEC then Inl Assert_fail
             else Inr (set_pc me (In_fiber f (ft_thread ft)) (set_st f EXEC w2))
           else if ft_cb ft \<noteq> None then run_cb me addr ft w2 else run_idle me (taken \<noteq> None) w2
       | None \<Rightarrow> if ft_cb ft \<noteq> None then run_cb me addr ft w2 else run_idle me (taken \<noteq> None) w2)"
    by (simp only: run_pick_def sc sum.case prod.case Let_def w2_def w1_def w0_def ft_def)
  have fr: "workers w2 = workers w" "st w2 = st w"
    "m_activeThreadCount (sch w2) = m_activeThreadCount (sch w) + (if taken \<noteq> None then 1 else 0)"
    by (auto simp: w2_def w1_def w0_def)
  show ?thesis
  proof (cases taken)
    case None
    then have "run_idle me False w2 = Inr w'"
      using r rp by (simp add: ft_def FiberAndThread_reset_def)
    then show ?thesis by (rule run_idle_result) (use fr None in simp_all)
  next
    case (Some it)
    then have "it = ft" by (simp add: ft_def)
    with Some have Some: "taken = Some ft" by simp
    have ok: "ft_thread ft = -1 \<or> ft_thread ft = me" "\<not> executing (st w) ft"
      using scan_found [OF sc [unfolded Some]] by (auto simp: pinned_elsewhere_def)
    have cb: "turn_result me w w'" if "run_cb me addr ft w2 = Inr w'"
      using that by (rule run_cb_result) (use fr Some addr ok in simp_all)
    have idle: "turn_result me w w'" if "run_idle me True w2 = Inr w'"
      using that by (rule run_idle_result) (use fr Some in simp_all)
    show ?thesis
    proof (cases "\<exists>f. ft_fiber ft = Some f \<and> st w f \<noteq> TERM_state \<and> st w f \<noteq> EXCEPT")
      case True
      then obtain f where f: "ft_fiber ft = Some f" "st w f \<noteq> TERM_state" "st w f \<noteq> EXCEPT"
        by blast
      then have ne: "st w f \<noteq> EXEC" using ok by (auto simp: executing_def)
      then have "w' = set_pc me (In_fiber f (ft_thread ft)) (set_st f EXEC w2)"
        using r rp f fr by simp
      then show ?thesis using ne fr Some ok unfolding turn_result_def
        by (intro disjI2 exI [of _ f] exI [of _ "workers w' me"]) (auto simp: set_pc_def executes_def)
    next
      case False
      then have "(if ft_cb ft \<noteq> None then run_cb me addr ft w2 else run_idle me True w2) = Inr w'"
        using r rp Some fr by (cases "ft_fiber ft") auto
      then show ?thesis using cb idle by (auto split: if_splits)
    qed
  qed
qed

lemma run_pick_inv:
  assumes "world_inv w" "w_pc (workers w me) = Top" "st w addr \<noteq> EXEC" "run_pick me addr w = Inr w'"
  shows "world_inv w'"
  using run_pick_result [OF assms(4,3)] unfolding turn_result_def
proof (elim disjE conjE exE)
  assume "workers w' = workers w" "st w' = st w"
    "m_activeThreadCount (sch w') = m_activeThreadCount (sch w)"
  then show ?thesis by (rule same_inv [OF assms(1)])
next
  assume w': "workers w' = (workers w)(me := (workers w me)\<lparr>w_pc := Exited\<rparr>)" "st w' = st w"
    "m_activeThreadCount (sch w') = m_activeThreadCount (sch w)"
  have "executes w' m f \<longrightarrow> executes w m f" "busy w' = busy w" for m f
    using w' assms(2) by (auto simp: executes_def busy_def)
  moreover have "pin_ok m (w_pc (workers w' m))" for m
    using assms(1) by (simp add: w' world_inv_def)
  ultimately show ?thesis using assms(1) w' unfolding world_inv_def by metis
next
  fix f x
  assume "st w f \<noteq> EXEC" "workers w' = (workers w)(me := x)" "st w' = (st w)(f := EXEC)"
    "\<forall>g. executes w' me g \<longrightarrow> g = f" "pin_ok me (w_pc x)"
    "m_activeThreadCount (sch w') = m_activeThreadCount (sch w) + (if in_task (w_pc x) then 1 else 0)"
  then show ?thesis by (intro enter_inv [OF assms(1,2)]) auto
qed

lemma run_after_inv:
  assumes inv: "world_inv w" and e: "executes w me f"
  shows "world_inv (run_after me s w)"
proof -
  let ?w' = "run_after me s w"
  have "\<exists>s'. st ?w' = (st w)(f := s')" "w_pc (workers ?w' me) = Top"
    "workers ?w' = (workers w)(me := workers ?w' me)"
    "m_activeThreadCount (sch ?w') =
      m_activeThreadCount (sch w) - (if in_task (w_pc (workers w me)) then 1 else 0)"
    using e by (auto simp: executes_def run_after_def Let_def set_pc_def)
  then show ?thesis using leave_inv [OF inv e, of ?w' "workers ?w' me"] by blast
qed

section \<open>Runs\<close>

text \<open>
  The steps of a run: calls of \<open>schedule\<close>, \<open>start\<close> and \<open>stop\<close> from anywhere, turns of the
  workers, fibers giving their thread back in any state, idle fibers in the state
  \<open>Scheduler::idle\<close> leaves in.
\<close>

inductive world_step :: "'c world \<Rightarrow> 'c world \<Rightarrow> bool" where
  call_schedule: "world_step w (world_schedule fc thread w)"
| call_start: "world_step w (w\<lparr>sch := snd (Scheduler_start ids (sch w))\<rparr>)"
| call_stop: "world_step w (w\<lparr>sch := snd (Scheduler_stop (st w) here (sch w))\<rparr>)"
| pick: "w_pc (workers w me) = Top \<Longrightarrow> st w addr \<noteq> EXEC \<Longrightarrow> run_pick me addr w = Inr w' \<Longrightarrow>
    world_step w w'"
| leave: "in_task (w_pc (workers w me)) \<Longrightarrow> world_step w (run_after me s w)"
| leave_idle: "w_pc (workers w me) = In_idle \<Longrightarrow> world_step w (run_after me (idle_turn (sch w)) w)"

lemma in_task_executes: "in_task (w_pc (workers w me)) \<Longrightarrow> \<exists>f. executes w me f"
  by (cases "w_pc (workers w me)") (auto simp: executes_def)

lemma world_step_inv: "world_step w w' \<Longrightarrow> world_inv w \<Longrightarrow> world_inv w'"
proof (induction rule: world_step.induct)
  case (call_schedule w fc thread)
  then show ?case by (rule same_inv) simp_all
next
  case (call_start w ids)
  then show ?case by (rule same_inv) (simp_all add: Scheduler_start_def Let_def)
next
  case (call_stop w here)
  then show ?case by (rule same_inv) (simp_all add: Scheduler_stop_def Let_def)
next
  case (pick w me addr w')
  then show ?case using run_pick_inv by blast
next
  case (leave w me s)
  then show ?case using in_task_executes run_after_inv by blast
next
  case (leave_idle w me)
  then have "executes w me (w_idle_fiber (workers w me))" by (simp add: executes_def)
  with leave_idle show ?case by (blast intro: run_after_inv)
qed

text \<open>Before any worker has begun.\<close>

definition world_init :: "'c scheduler \<Rightarrow> (nat \<Rightarrow> fiber_state) \<Rightarrow> (int \<Rightarrow> nat) \<Rightarrow> 'c world" where
  "world_init s states idle =
     \<lparr>sch = s, st = states,
      workers = (\<lambda>me. \<lparr>w_pc = Top, w_cb_fiber = None, w_idle_fiber = idle me\<rparr>), tickles = 0\<rparr>"

lemma world_init_inv: "m_activeThreadCount s = 0 \<Longrightarrow> world_inv (world_init s states idle)"
  by (simp add: world_inv_def world_init_def executes_def busy_def)

lemma run_inv: "world_step\<^sup>*\<^sup>* w w' \<Longrightarrow> world_inv w \<Longrightarrow> world_inv w'"
  by (induction rule: rtranclp_induct) (auto intro: world_step_inv)

section \<open>Properties\<close>

text \<open>
  A worker takes the first task of the queue that it may run, one that is not pinned
  to another thread and whose fiber does not execute, and leaves the others in their
  order; when it takes none, there is none; it tickles exactly when it passed over a task
  of another thread. The assertion on empty tasks cannot fail.
\<close>

theorem scan_takes_first:
  assumes "\<forall>x \<in> set q. ft_fiber x \<noteq> None \<or> ft_cb x \<noteq> None"
  shows "\<exists>t taken q'. scan sts me q = Inr (t, taken, q') \<and>
    (case taken of
       None \<Rightarrow> q' = q \<and> (\<forall>x \<in> set q. pinned_elsewhere me x \<or> executing sts x) \<and>
         (t \<longleftrightarrow> (\<exists>x \<in> set q. pinned_elsewhere me x))
     | Some it \<Rightarrow> \<exists>pre post. q = pre @ it # post \<and> q' = pre @ post \<and>
         (\<forall>x \<in> set pre. pinned_elsewhere me x \<or> executing sts x) \<and>
         \<not> pinned_elsewhere me it \<and> \<not> executing sts it \<and>
         (t \<longleftrightarrow> (\<exists>x \<in> set pre. pinned_elsewhere me x)))"
proof -
  obtain t taken q' where sc: "scan sts me q = Inr (t, taken, q')"
    using scan_total [of q sts me] assms by (auto simp: nonempty_task_def)
  show ?thesis
  proof (cases taken)
    case None
    then show ?thesis using sc scan_none [of sts me q t q'] by auto
  next
    case (Some it)
    obtain pre post where "q = pre @ it # post \<and> q' = pre @ post \<and>
         (\<forall>x \<in> set pre. pinned_elsewhere me x \<or> executing sts x) \<and>
         \<not> pinned_elsewhere me it \<and> \<not> executing sts it \<and>
         (t \<longleftrightarrow> (\<exists>x \<in> set pre. pinned_elsewhere me x))"
      using scan_found [OF sc [unfolded Some]] by blast
    then show ?thesis unfolding sc Some by (intro exI [of _ t] exI [of _ "Some it"] exI [of _ q']) auto
  qed
qed

definition demo_task :: "int \<Rightarrow> nat task" where
  "demo_task thr = FiberAndThread (Sched_cb (Some 0)) thr"

theorem scan_takes_first_witness:
  "scan (\<lambda>_. INIT) 2 [demo_task 1, demo_task (-1)] = Inr (True, Some (demo_task (-1)), [demo_task 1])"
  using scan_takes_first [of "[demo_task 1, demo_task (-1)]" "\<lambda>_. INIT" 2]
  by (simp add: demo_task_def FiberAndThread_def)


definition demo_world :: "nat world" where
  "demo_world = world_init
     \<lparr>m_fibers = [], m_threads = [], m_threadIds = [], m_threadCount = 2,
      m_activeThreadCount = 0, m_idleThreadCount = 0, m_stopping = False, m_autoStop = False,
      m_rootThread = -1, m_rootFiber = None\<rparr> (\<lambda>_. INIT) (\<lambda>t. nat t)"

definition demo_next :: "nat world" where
  "demo_next = (case run_pick 1 9 (world_schedule (Sched_cb (Some 5)) 1 demo_world) of
     Inl e \<Rightarrow> demo_world | Inr w \<Rightarrow> w)"


text \<open>
  What becomes of a fiber that gave its thread back. One that yielded to be run
  again is at the end of the queue, once, open to any thread, whatever it was pinned to;
  one that ended is not queued, and the worker's own fiber for functions is made ready for
  the next one; every other one is held, and nothing is queued.
\<close>

theorem after_run:
  assumes "w_pc (workers w me) = In_fiber f thr \<or> w_pc (workers w me) = In_cb f thr"
  shows "w_pc (workers (run_after me s w) me) = Top \<and>
    m_fibers (sch (run_after me s w)) = m_fibers (sch w) @
      (if s = READY then [\<lparr>ft_fiber = Some f, ft_cb = None, ft_thread = -1\<rparr>] else []) \<and>
    tickles (run_after me s w) = tickles w + (if s = READY \<and> m_fibers (sch w) = [] then 1 else 0) \<and>
    st (run_after me s w) f =
      (if s = READY then READY
       else if s = TERM_state \<or> s = EXCEPT then
         (if w_pc (workers w me) = In_cb f thr then INIT else s)
       else HOLD) \<and>
    m_activeThreadCount (sch (run_after me s w)) = m_activeThreadCount (sch w) - 1"
  using assms
  by (auto simp: run_after_def Let_def set_pc_def world_schedule_def schedule_def scheduleNoLock_def
      FiberAndThread_def count_active_def set_st_def set_worker_def)

theorem after_run_witness:
  "m_fibers (sch (run_after 1 READY demo_next)) =
     [\<lparr>ft_fiber = Some 9, ft_cb = None, ft_thread = -1\<rparr>]"
proof -
  have "w_pc (workers demo_next 1) = In_cb 9 1" "m_fibers (sch demo_next) = []"
    by (simp_all add: demo_next_def run_pick_def world_schedule_def schedule_def scheduleNoLock_def
        FiberAndThread_def demo_world_def world_init_def run_cb_def set_pc_def Let_def)
  then show ?thesis using after_run [of demo_next 1 9 1 READY] by simp
qed

text \<open>
  The safety of a run needs a fiber's change of state and its switch away to be one
  step, which they are not: \<open>YieldToHold\<close> sets \<open>HOLD\<close> while the fiber still executes. If the
  fiber has been scheduled meanwhile, a second worker that comes by between the two takes
  it, and the two workers execute the same fiber.
\<close>

theorem double_run:
  assumes "w_pc (workers w t1) = In_fiber f thr" "t1 \<noteq> t2" "w_pc (workers w t2) = Top"
    "m_fibers (sch w) = FiberAndThread (Sched_fiber (Some f)) (-1) # rest"
  shows "\<exists>w'. run_pick t2 addr (set_st f HOLD w) = Inr w' \<and> executes w' t1 f \<and> executes w' t2 f"
  using assms
  by (auto simp: run_pick_def FiberAndThread_def set_pc_def executes_def count_active_def Let_def
      set_st_def set_worker_def)

definition demo_race :: "nat world" where
  "demo_race = demo_world\<lparr>
     sch := (sch demo_world)\<lparr>m_fibers := [FiberAndThread (Sched_fiber (Some 7)) (-1)]\<rparr>,
     workers := (workers demo_world)(1 := \<lparr>w_pc = In_fiber 7 (-1), w_cb_fiber = None, w_idle_fiber = 1\<rparr>)\<rparr>"

theorem double_run_witness:
  "\<exists>w'. run_pick 2 9 (set_st 7 HOLD demo_race) = Inr w' \<and> executes w' 1 7 \<and> executes w' 2 7"
  by (rule double_run [where thr = "-1" and rest = "[]"])
    (simp_all add: demo_race_def demo_world_def world_init_def)

end
