(* ===== verification/Fd_Manager.thy ===== *)
theory Fd_Manager
  imports Prelude
begin

text \<open>
  The table of file descriptors (\<open>sylar/fd_manager.h\<close>, \<open>sylar/fd_manager.cc\<close>). What the
  operating system says of a descriptor, \<open>fstat\<close> and \<open>fcntl(F_GETFL)\<close>, is an argument
  \<open>os_fd\<close> of the constructor; a shared pointer is the object it points to, since no
  operation of the table changes one. \<open>get\<close> has two critical sections and is two steps.
\<close>

section \<open>State\<close>

record fd_ctx =
  m_isInit :: bool
  m_isSocket :: bool
  m_sysNonblock :: bool
  m_userNonblock :: bool
  m_isClosed :: bool
  m_fd :: int
  m_recvTimeout :: u64
  m_sendTimeout :: u64

record os_fd =
  fstat_socket :: "bool option"   \<comment> \<open>\<open>None\<close>: \<open>fstat\<close> failed; else \<open>S_ISSOCK\<close>\<close>
  getfl :: u32

definition O_NONBLOCK :: u32 where
  "O_NONBLOCK = 0x800"

definition SO_RCVTIMEO :: int where
  "SO_RCVTIMEO = 20"

definition SO_SNDTIMEO :: int where
  "SO_SNDTIMEO = 21"

text \<open>\<open>init\<close>: the object, and the flags it sets on the descriptor, if it sets any.\<close>

definition FdCtx_init :: "os_fd \<Rightarrow> fd_ctx \<Rightarrow> fd_ctx \<times> u32 option" where
  "FdCtx_init os c =
     (if m_isInit c then (c, None) else
      let c = c\<lparr>m_recvTimeout := -1, m_sendTimeout := -1\<rparr>;
          c = (case fstat_socket os of
                 None \<Rightarrow> c\<lparr>m_isInit := False, m_isSocket := False\<rparr>
               | Some sock \<Rightarrow> c\<lparr>m_isInit := True, m_isSocket := sock\<rparr>);
          setfl = (if m_isSocket c \<and> getfl os AND O_NONBLOCK = 0
                   then Some (getfl os OR O_NONBLOCK) else None);
          c = c\<lparr>m_sysNonblock := m_isSocket c\<rparr>
      in (c\<lparr>m_userNonblock := False, m_isClosed := False\<rparr>, setfl))"

definition FdCtx_new :: "int \<Rightarrow> os_fd \<Rightarrow> fd_ctx \<times> u32 option" where
  "FdCtx_new fd os = FdCtx_init os
     \<lparr>m_isInit = False, m_isSocket = False, m_sysNonblock = False, m_userNonblock = False,
      m_isClosed = False, m_fd = fd, m_recvTimeout = -1, m_sendTimeout = -1\<rparr>"

definition setTimeout :: "int \<Rightarrow> u64 \<Rightarrow> fd_ctx \<Rightarrow> fd_ctx" where
  "setTimeout type v c =
     (if type = SO_RCVTIMEO then c\<lparr>m_recvTimeout := v\<rparr> else c\<lparr>m_sendTimeout := v\<rparr>)"

definition getTimeout :: "int \<Rightarrow> fd_ctx \<Rightarrow> u64" where
  "getTimeout type c = (if type = SO_RCVTIMEO then m_recvTimeout c else m_sendTimeout c)"

type_synonym fd_table = "fd_ctx option list"

definition FdManager_new :: fd_table where
  "FdManager_new = replicate 64 None"

section \<open>Operations\<close>

text \<open>\<open>vector::resize\<close> with null pointers.\<close>

definition resize :: "nat \<Rightarrow> 'a \<Rightarrow> 'a list \<Rightarrow> 'a list" where
  "resize n x xs = take n xs @ replicate (n - length xs) x"

text \<open>
  The section of \<open>get\<close> under the read lock: \<open>Inr (Some r)\<close> is its result \<open>r\<close>, \<open>Inr None\<close>
  means that an object has to be created. A negative index is out of the vector.
\<close>

definition get_lookup :: "int \<Rightarrow> bool \<Rightarrow> fd_table \<Rightarrow> fault + fd_ctx option option" where
  "get_lookup fd auto_create datas =
     (if fd = -1 then Inr (Some None) else
      if int (length datas) \<le> fd then Inr (if \<not> auto_create then Some None else None) else
      if fd < 0 then Inl Undefined else
      if datas ! nat fd \<noteq> None \<or> \<not> auto_create then Inr (Some (datas ! nat fd)) else Inr None)"

definition get_create :: "int \<Rightarrow> os_fd \<Rightarrow> fd_table \<Rightarrow> fd_ctx \<times> fd_table" where
  "get_create fd os datas =
     (let ctx = fst (FdCtx_new fd os);
          datas = (if fd \<ge> int (length datas) then resize (nat (fd * 3 div 2)) None datas else datas)
      in (ctx, datas[nat fd := Some ctx]))"

definition FdManager_get :: "int \<Rightarrow> bool \<Rightarrow> os_fd \<Rightarrow> (fd_table, fd_ctx option) call" where
  "FdManager_get fd auto_create os datas =
     (case get_lookup fd auto_create datas of
        Inl e \<Rightarrow> (Inl e, datas)
      | Inr (Some r) \<Rightarrow> (Inr r, datas)
      | Inr None \<Rightarrow> (let (ctx, datas) = get_create fd os datas in (Inr (Some ctx), datas)))"

definition FdManager_del :: "int \<Rightarrow> (fd_table, unit) call" where
  "FdManager_del fd datas =
     (if int (length datas) \<le> fd then (Inr (), datas) else
      if fd < 0 then (Inl Undefined, datas) else
      (Inr (), datas[nat fd := None]))"

section \<open>Lemmas\<close>

definition fd_entry :: "fd_table \<Rightarrow> nat \<Rightarrow> fd_ctx option" where
  "fd_entry datas n = (if n < length datas then datas ! n else None)"

lemma resize_nth: "n \<le> m \<Longrightarrow> length xs \<le> m \<Longrightarrow> length (resize m x xs) = m"
  by (simp add: resize_def)

lemma resize_entry:
  "length datas \<le> m \<Longrightarrow> fd_entry (resize m None datas) n = fd_entry datas n"
  by (auto simp: fd_entry_def resize_def nth_append)

lemma grow_room:
  assumes "64 \<le> length datas" "int (length datas) \<le> fd"
  shows "nat fd < nat (fd * 3 div 2)" "length datas \<le> nat (fd * 3 div 2)"
  using assms by auto

lemma create_entry:
  assumes "64 \<le> length datas" "0 \<le> fd"
  shows "fd_entry (snd (get_create fd os datas)) n =
      (if n = nat fd then Some (fst (FdCtx_new fd os)) else fd_entry datas n)"
    and "64 \<le> length (snd (get_create fd os datas))"
proof -
  define ds where "ds = (if fd \<ge> int (length datas) then resize (nat (fd * 3 div 2)) None datas else datas)"
  have c: "get_create fd os datas = (fst (FdCtx_new fd os), ds[nat fd := Some (fst (FdCtx_new fd os))])"
    by (simp add: get_create_def ds_def Let_def)
  have ds: "nat fd < length ds" "length datas \<le> length ds" "fd_entry ds n = fd_entry datas n"
    using assms grow_room [OF assms(1)] resize_entry
    by (auto simp: ds_def resize_def)
  then show "fd_entry (snd (get_create fd os datas)) n =
      (if n = nat fd then Some (fst (FdCtx_new fd os)) else fd_entry datas n)"
    by (auto simp: c fd_entry_def)
  show "64 \<le> length (snd (get_create fd os datas))" using ds assms by (simp add: c)
qed

section \<open>Properties\<close>

text \<open>
  C34. Asking for a valid descriptor with \<open>auto_create\<close> always gives its object, creating
  it in a table that is grown far enough when there is none; asking again gives the same
  object, other descriptors are not touched, and after \<open>del\<close> the object is gone.
\<close>

theorem fd_table_get:
  assumes "64 \<le> length datas" "0 \<le> fd"
  shows "\<exists>ctx datas'. FdManager_get fd True os datas = (Inr (Some ctx), datas') \<and>
      64 \<le> length datas' \<and>
      (fd_entry datas (nat fd) \<noteq> None \<longrightarrow> Some ctx = fd_entry datas (nat fd) \<and> datas' = datas) \<and>
      FdManager_get fd auto os' datas' = (Inr (Some ctx), datas') \<and>
      (\<forall>n. n \<noteq> nat fd \<longrightarrow> fd_entry datas' n = fd_entry datas n) \<and>
      (\<exists>datas''. FdManager_del fd datas' = (Inr (), datas'') \<and>
        FdManager_get fd False os datas'' = (Inr None, datas''))"
proof -
  obtain ctx datas' where g: "FdManager_get fd True os datas = (Inr (Some ctx), datas')"
    "64 \<le> length datas'" "fd_entry datas' (nat fd) = Some ctx"
    "fd_entry datas (nat fd) \<noteq> None \<longrightarrow> Some ctx = fd_entry datas (nat fd) \<and> datas' = datas"
    "\<forall>n. n \<noteq> nat fd \<longrightarrow> fd_entry datas' n = fd_entry datas n"
  proof (cases "fd_entry datas (nat fd)")
    case None
    then have "get_lookup fd True datas = Inr None"
      using assms(2) by (auto simp: get_lookup_def fd_entry_def split: if_splits)
    then have "FdManager_get fd True os datas =
        (Inr (Some (fst (FdCtx_new fd os))), snd (get_create fd os datas))"
      by (simp add: FdManager_get_def get_create_def Let_def)
    from that [OF this] None create_entry [OF assms] show ?thesis by simp
  next
    case (Some c)
    then have "get_lookup fd True datas = Inr (Some (Some c))"
      using assms(2) by (auto simp: get_lookup_def fd_entry_def split: if_splits)
    then have "FdManager_get fd True os datas = (Inr (Some c), datas)" by (simp add: FdManager_get_def)
    then show ?thesis by (rule that) (use Some assms in simp_all)
  qed
  have lt: "nat fd < length datas'" "datas' ! nat fd = Some ctx"
    using g(3) by (auto simp: fd_entry_def split: if_splits)
  then have again: "FdManager_get fd auto os' datas' = (Inr (Some ctx), datas')"
    using assms(2) by (auto simp: FdManager_get_def get_lookup_def)
  have gone: "FdManager_del fd datas' = (Inr (), datas'[nat fd := None])"
    using lt assms(2) by (auto simp: FdManager_del_def)
  have none: "FdManager_get fd False os (datas'[nat fd := None]) = (Inr None, datas'[nat fd := None])"
    using lt assms(2) by (auto simp: FdManager_get_def get_lookup_def)
  from g again gone none show ?thesis
    by (intro exI [of _ ctx] exI [of _ datas'] conjI exI [of _ "datas'[nat fd := None]"]) assumption+
qed

theorem fd_table_get_witness:
  "\<exists>ctx datas'. FdManager_get 70 True \<lparr>fstat_socket = Some True, getfl = 2\<rparr> FdManager_new =
     (Inr (Some ctx), datas') \<and> 64 \<le> length datas'"
proof -
  have "64 \<le> length FdManager_new" by (simp add: FdManager_new_def)
  from fd_table_get [OF this, of 70 "\<lparr>fstat_socket = Some True, getfl = 2\<rparr>" False
      "\<lparr>fstat_socket = None, getfl = 0\<rparr>"]
  show ?thesis by fastforce
qed

end
