(* ===== verification/Iomanager.thy ===== *)
theory Iomanager
  imports Schedulers Timers
begin

unbundle bit_operations_syntax

text \<open>
  The I/O manager (\<open>sylar/iomanager.h\<close>, \<open>sylar/iomanager.cc\<close>): a scheduler and a timer
  manager with a table of the events that fibers and functions wait for.

  \<open>epoll_ctl\<close> belongs to the kernel: \<open>rt\<close> is its result, and the field \<open>epolled\<close> records
  what has been installed for each descriptor, so that one can say whether a call asks
  for something the kernel refuses. What \<open>epoll_wait\<close> returns is an argument of \<open>io_turn\<close>.
  A scheduler is named by a number. What is handed to a scheduler, \<open>ctx.scheduler->schedule\<close>,
  is returned as a list. Each operation holds the lock of its descriptor's
  context from its first access to its last, so it is one step; \<open>addEvent\<close> may first grow
  the table, under a lock it takes after it has looked at the size.
\<close>

section \<open>State\<close>

definition EV_NONE :: u32 where "EV_NONE = 0x0"
definition EV_READ :: u32 where "EV_READ = 0x1"
definition EV_WRITE :: u32 where "EV_WRITE = 0x4"

text \<open>The kernel's constants of the same events.\<close>

definition EPOLLIN :: u32 where "EPOLLIN = 0x1"
definition EPOLLOUT :: u32 where "EPOLLOUT = 0x4"
definition EPOLLERR :: u32 where "EPOLLERR = 0x8"
definition EPOLLHUP :: u32 where "EPOLLHUP = 0x10"
definition EPOLLET :: u32 where "EPOLLET = 0x80000000"

lemmas event_defs = EV_NONE_def EV_READ_def EV_WRITE_def EPOLLIN_def EPOLLOUT_def EPOLLERR_def
  EPOLLHUP_def EPOLLET_def

record 'c event_context =
  ec_scheduler :: "nat option"
  ec_fiber :: "nat option"
  ec_cb :: "'c option"

record 'c fd_context =
  fc_read :: "'c event_context"
  fc_write :: "'c event_context"
  fc_fd :: nat
  fc_events :: u32

record 'c iomanager =
  io_scheduler :: "'c callback scheduler"
  io_timers :: "'c timer_manager"
  m_pendingEventCount :: nat
  m_fdContexts :: "'c callback fd_context list"
  epolled :: "nat \<Rightarrow> u32 option"

type_synonym 'c dispatch = "nat \<times> 'c callback fiber_or_cb"

definition empty_context :: "'c event_context" where
  "empty_context = \<lparr>ec_scheduler = None, ec_fiber = None, ec_cb = None\<rparr>"

definition FdContext_new :: "nat \<Rightarrow> 'c fd_context" where
  "FdContext_new fd =
     \<lparr>fc_read = empty_context, fc_write = empty_context, fc_fd = fd, fc_events = EV_NONE\<rparr>"

definition getContext :: "u32 \<Rightarrow> 'c fd_context \<Rightarrow> fault + 'c event_context" where
  "getContext event fc =
     (if event = EV_READ then Inr (fc_read fc)
      else if event = EV_WRITE then Inr (fc_write fc) else Inl Assert_fail)"

text \<open>Assignment through the reference \<open>getContext\<close> returned.\<close>

definition putContext :: "u32 \<Rightarrow> 'c event_context \<Rightarrow> 'c fd_context \<Rightarrow> 'c fd_context" where
  "putContext event c fc =
     (if event = EV_READ then fc\<lparr>fc_read := c\<rparr> else fc\<lparr>fc_write := c\<rparr>)"

definition resetContext :: "'c event_context \<Rightarrow> 'c event_context" where
  "resetContext c = c\<lparr>ec_scheduler := None, ec_fiber := None, ec_cb := None\<rparr>"

definition triggerEvent :: "u32 \<Rightarrow> 'c fd_context \<Rightarrow> fault + (nat \<times> 'c fiber_or_cb) \<times> 'c fd_context" where
  "triggerEvent event fc =
     (if fc_events fc AND event = 0 then Inl Assert_fail else
      let fc = fc\<lparr>fc_events := fc_events fc AND NOT event\<rparr> in
      case getContext event fc of Inl e \<Rightarrow> Inl e
      | Inr c \<Rightarrow>
        (case ec_scheduler c of None \<Rightarrow> Inl Null_deref
         | Some s \<Rightarrow>
           if ec_cb c \<noteq> None then
             Inr ((s, Sched_cb (ec_cb c)), putContext event (c\<lparr>ec_cb := None, ec_scheduler := None\<rparr>) fc)
           else
             Inr ((s, Sched_fiber (ec_fiber c)),
               putContext event (c\<lparr>ec_fiber := None, ec_scheduler := None\<rparr>) fc)))"

definition contextResize :: "nat \<Rightarrow> 'c fd_context list \<Rightarrow> 'c fd_context list" where
  "contextResize sz cs = take sz cs @ map FdContext_new [length cs..<sz]"

definition set_fc :: "nat \<Rightarrow> 'c callback fd_context \<Rightarrow> 'c iomanager \<Rightarrow> 'c iomanager" where
  "set_fc n fc io = io\<lparr>m_fdContexts := (m_fdContexts io)[n := fc]\<rparr>"

definition set_epolled :: "nat \<Rightarrow> u32 option \<Rightarrow> 'c iomanager \<Rightarrow> 'c iomanager" where
  "set_epolled n e io = io\<lparr>epolled := (epolled io)(n := e)\<rparr>"

definition count_pending :: "(nat \<Rightarrow> nat) \<Rightarrow> 'c iomanager \<Rightarrow> 'c iomanager" where
  "count_pending g io = io\<lparr>m_pendingEventCount := g (m_pendingEventCount io)\<rparr>"

section \<open>Events\<close>

text \<open>The slow path of \<open>addEvent\<close>, under the write lock.\<close>

definition grow_contexts :: "nat \<Rightarrow> 'c iomanager \<Rightarrow> 'c iomanager" where
  "grow_contexts fd io = io\<lparr>m_fdContexts := contextResize (fd * 3 div 2) (m_fdContexts io)\<rparr>"

text \<open>
  The rest of \<open>addEvent\<close>, on the context of the descriptor. \<open>me\<close> is the current scheduler,
  \<open>cur\<close> the current fiber and \<open>cur_state\<close> its state.
\<close>

definition addEvent_on :: "nat \<Rightarrow> u32 \<Rightarrow> 'c callback option \<Rightarrow> nat option \<Rightarrow> nat \<Rightarrow> fiber_state \<Rightarrow> int \<Rightarrow>
    ('c iomanager, int) call" where
  "addEvent_on fd event cb me cur cur_state rt io =
     (let fc = m_fdContexts io ! fd in
      if fc_events fc AND event \<noteq> 0 then (Inl Assert_fail, io) else
      if rt \<noteq> 0 then (Inr (-1), io) else
      let io = set_epolled fd (Some (EPOLLET OR fc_events fc OR event)) io;
          io = count_pending Suc io;
          fc = fc\<lparr>fc_events := fc_events fc OR event\<rparr>
      in case getContext event fc of Inl e \<Rightarrow> (Inl e, set_fc fd fc io)
         | Inr c \<Rightarrow>
           if ec_scheduler c \<noteq> None \<or> ec_fiber c \<noteq> None \<or> ec_cb c \<noteq> None
           then (Inl Assert_fail, set_fc fd fc io) else
           let c = c\<lparr>ec_scheduler := me\<rparr> in
           if cb \<noteq> None then (Inr 0, set_fc fd (putContext event (c\<lparr>ec_cb := cb\<rparr>) fc) io)
           else
             let io = set_fc fd (putContext event (c\<lparr>ec_fiber := Some cur\<rparr>) fc) io in
             if cur_state = EXEC then (Inr 0, io) else (Inl Assert_fail, io))"

definition addEvent :: "int \<Rightarrow> u32 \<Rightarrow> 'c callback option \<Rightarrow> nat option \<Rightarrow> nat \<Rightarrow> fiber_state \<Rightarrow> int \<Rightarrow>
    ('c iomanager, int) call" where
  "addEvent fd event cb me cur cur_state rt io =
     (if fd < 0 then (Inl Undefined, io) else
      let io = (if int (length (m_fdContexts io)) > fd then io else grow_contexts (nat fd) io)
      in addEvent_on (nat fd) event cb me cur cur_state rt io)"

text \<open>The operation of \<open>epoll_ctl\<close> and the new installation, for what is left of the events.\<close>

definition left_installed :: "u32 \<Rightarrow> u32 option" where
  "left_installed new_events = (if new_events \<noteq> 0 then Some (EPOLLET OR new_events) else None)"

definition delEvent :: "int \<Rightarrow> u32 \<Rightarrow> int \<Rightarrow> ('c iomanager, bool) call" where
  "delEvent fd event rt io =
     (if int (length (m_fdContexts io)) \<le> fd then (Inr False, io) else
      if fd < 0 then (Inl Undefined, io) else
      let n = nat fd; fc = m_fdContexts io ! n in
      if fc_events fc AND event = 0 then (Inr False, io) else
      let new_events = fc_events fc AND NOT event in
      if rt \<noteq> 0 then (Inr False, io) else
      let io = set_epolled n (left_installed new_events) io;
          io = count_pending (\<lambda>k. k - 1) io;
          fc = fc\<lparr>fc_events := new_events\<rparr>
      in case getContext event fc of Inl e \<Rightarrow> (Inl e, set_fc n fc io)
         | Inr c \<Rightarrow> (Inr True, set_fc n (putContext event (resetContext c) fc) io))"

text \<open>One trigger of a registered event, and the count that goes with it.\<close>

definition trigger_counted :: "nat \<Rightarrow> u32 \<Rightarrow> ('c iomanager, 'c dispatch list) call" where
  "trigger_counted n event io =
     (case triggerEvent event (m_fdContexts io ! n) of
        Inl e \<Rightarrow> (Inl e, io)
      | Inr (d, fc) \<Rightarrow> (Inr [d], count_pending (\<lambda>k. k - 1) (set_fc n fc io)))"

text \<open>\<open>cancelEvent\<close> and \<open>cancelAll\<close>: the result, and what was scheduled.\<close>

definition cancelEvent :: "int \<Rightarrow> u32 \<Rightarrow> int \<Rightarrow> ('c iomanager, bool \<times> 'c dispatch list) call" where
  "cancelEvent fd event rt io =
     (if int (length (m_fdContexts io)) \<le> fd then (Inr (False, []), io) else
      if fd < 0 then (Inl Undefined, io) else
      let n = nat fd; fc = m_fdContexts io ! n in
      if fc_events fc AND event = 0 then (Inr (False, []), io) else
      let new_events = fc_events fc AND NOT event in
      if rt \<noteq> 0 then (Inr (False, []), io) else
      seqc (trigger_counted n event) (\<lambda>ds. ret (True, ds))
        (set_epolled n (left_installed new_events) io))"

definition trigger_if :: "nat \<Rightarrow> bool \<Rightarrow> u32 \<Rightarrow> ('c iomanager, 'c dispatch list) call" where
  "trigger_if n b event = (if b then trigger_counted n event else ret [])"

definition cancelAll :: "int \<Rightarrow> int \<Rightarrow> ('c iomanager, bool \<times> 'c dispatch list) call" where
  "cancelAll fd rt io =
     (if int (length (m_fdContexts io)) \<le> fd then (Inr (False, []), io) else
      if fd < 0 then (Inl Undefined, io) else
      let n = nat fd; fc = m_fdContexts io ! n in
      if fc_events fc = 0 then (Inr (False, []), io) else
      if rt \<noteq> 0 then (Inr (False, []), io) else
      seqc (trigger_if n (fc_events fc AND EV_READ \<noteq> 0) EV_READ) (\<lambda>ds.
        seqc (\<lambda>io. trigger_if n (fc_events (m_fdContexts io ! n) AND EV_WRITE \<noteq> 0) EV_WRITE io) (\<lambda>ds'.
          \<lambda>io. if fc_events (m_fdContexts io ! n) = 0 then (Inr (True, ds @ ds'), io)
               else (Inl Assert_fail, io)))
        (set_epolled n None io))"

section \<open>The scheduler's virtual functions\<close>

text \<open>\<open>tickle\<close>: whether a byte is written to the pipe.\<close>

definition io_tickle :: "'c iomanager \<Rightarrow> bool" where
  "io_tickle io \<longleftrightarrow> \<not> hasIdleThreads (io_scheduler io)"

definition io_stopping :: "u64 \<Rightarrow> 'c iomanager \<Rightarrow> bool \<times> u64 \<times> 'c iomanager" where
  "io_stopping now io =
     (let (next_timeout, tm) = getNextTimer now (io_timers io);
          io = io\<lparr>io_timers := tm\<rparr>
      in (m_pendingEventCount io = 0 \<and> next_timeout = NOT 0 \<and> stopping (io_scheduler io),
          next_timeout, io))"

text \<open>The third argument of \<open>epoll_wait\<close>, computed with two conversions to \<open>int\<close>.\<close>

definition MAX_TIMEOUT :: int where
  "MAX_TIMEOUT = 5000"

definition to_int :: "u64 \<Rightarrow> int" where
  "to_int v = sint (ucast v :: u32)"

definition wait_timeout :: "u64 \<Rightarrow> int" where
  "wait_timeout next_timeout =
     to_int (if next_timeout \<noteq> NOT 0
             then (if to_int next_timeout > MAX_TIMEOUT then 5000 else next_timeout)
             else 5000)"

text \<open>One returned event: a byte in the pipe, or a descriptor with its events.\<close>

datatype epoll_event = Tickle_event | Fd_event nat u32 int

fun handle_event :: "epoll_event \<Rightarrow> ('c iomanager, 'c dispatch list) call" where
  "handle_event Tickle_event io = (Inr [], io)"
| "handle_event (Fd_event n evs rt2) io =
     (let fc = m_fdContexts io ! n;
          evs = (if evs AND (EPOLLERR OR EPOLLHUP) \<noteq> 0
                 then evs OR ((EPOLLIN OR EPOLLOUT) AND fc_events fc) else evs);
          real_events = (if evs AND EPOLLIN \<noteq> 0 then EV_READ else EV_NONE) OR
                        (if evs AND EPOLLOUT \<noteq> 0 then EV_WRITE else EV_NONE)
      in if fc_events fc AND real_events = EV_NONE then (Inr [], io) else
         if rt2 \<noteq> 0 then (Inr [], io) else
         let io = set_epolled n (left_installed (fc_events fc AND NOT real_events)) io
         in seqc (trigger_if n (real_events AND EV_READ \<noteq> 0) EV_READ) (\<lambda>ds.
              seqc (trigger_if n (real_events AND EV_WRITE \<noteq> 0) EV_WRITE) (\<lambda>ds'. ret (ds @ ds'))) io)"

fun handle_events :: "epoll_event list \<Rightarrow> ('c iomanager, 'c dispatch list) call" where
  "handle_events [] = ret []"
| "handle_events (e # es) =
     seqc (handle_event e) (\<lambda>ds. seqc (handle_events es) (\<lambda>ds'. ret (ds @ ds')))"

text \<open>
  One turn of the loop of \<open>idle\<close>: \<open>None\<close> when the loop is left, else the timeout it waited
  with, whether it tickled for the expired timers, and what the events scheduled.
\<close>

definition io_turn :: "u64 \<Rightarrow> u64 \<Rightarrow> nat \<Rightarrow> epoll_event list \<Rightarrow>
    ('c iomanager, (int \<times> bool \<times> 'c dispatch list) option) call" where
  "io_turn now now2 addr evs io =
     (let (stop, next_timeout, io) = io_stopping now io in
      if stop then (Inr None, io) else
      case listExpiredCb now2 addr (io_timers io) of
        (Inl e, tm) \<Rightarrow> (Inl e, io\<lparr>io_timers := tm\<rparr>)
      | (Inr cbs, tm) \<Rightarrow>
        let io = io\<lparr>io_timers := tm\<rparr>;
            (t, s) = (if cbs \<noteq> [] then schedule_all (map Sched_cb cbs) (io_scheduler io)
                      else (False, io_scheduler io))
        in seqc (handle_events evs) (\<lambda>ds. ret (Some (wait_timeout next_timeout, t, ds)))
             (io\<lparr>io_scheduler := s\<rparr>))"

section \<open>Invariant\<close>

definition valid_event :: "u32 \<Rightarrow> bool" where
  "valid_event event \<longleftrightarrow> event = EV_READ \<or> event = EV_WRITE"

definition ctx_ok :: "bool \<Rightarrow> 'c event_context \<Rightarrow> bool" where
  "ctx_ok b c \<longleftrightarrow>
     (if b then ec_scheduler c \<noteq> None \<and> (ec_cb c = None) \<noteq> (ec_fiber c = None)
      else c = empty_context)"

text \<open>
  The events are a set of the two; the context of a registered event names a scheduler and
  a function or a fiber, the context of the other is empty.
\<close>

definition fc_inv :: "'c fd_context \<Rightarrow> bool" where
  "fc_inv fc \<longleftrightarrow> fc_events fc \<in> {0, EV_READ, EV_WRITE, EV_READ OR EV_WRITE} \<and>
     ctx_ok (fc_events fc AND EV_READ \<noteq> 0) (fc_read fc) \<and>
     ctx_ok (fc_events fc AND EV_WRITE \<noteq> 0) (fc_write fc)"

definition weight :: "'c fd_context \<Rightarrow> nat" where
  "weight fc = (if fc_events fc AND EV_READ \<noteq> 0 then 1 else 0) +
     (if fc_events fc AND EV_WRITE \<noteq> 0 then 1 else 0)"

text \<open>The contexts and the count; and what the kernel has been told.\<close>

definition core_inv :: "'c iomanager \<Rightarrow> bool" where
  "core_inv io \<longleftrightarrow> 32 \<le> length (m_fdContexts io) \<and>
     (\<forall>n < length (m_fdContexts io). fc_inv (m_fdContexts io ! n)) \<and>
     m_pendingEventCount io = sum_list (map weight (m_fdContexts io))"

definition fd_events :: "'c iomanager \<Rightarrow> nat \<Rightarrow> u32" where
  "fd_events io n = (if n < length (m_fdContexts io) then fc_events (m_fdContexts io ! n) else 0)"

definition io_inv :: "'c iomanager \<Rightarrow> bool" where
  "io_inv io \<longleftrightarrow> core_inv io \<and> (\<forall>n. epolled io n = left_installed (fd_events io n))"

text \<open>What is scheduled for an event of a context.\<close>

definition stored :: "u32 \<Rightarrow> 'c fd_context \<Rightarrow> nat \<times> 'c fiber_or_cb" where
  "stored event fc =
     (let c = (if event = EV_READ then fc_read fc else fc_write fc)
      in (the (ec_scheduler c), if ec_cb c \<noteq> None then Sched_cb (ec_cb c) else Sched_fiber (ec_fiber c)))"

lemma sum_list_replace:
  "n < length xs \<Longrightarrow> sum_list (map f (xs[n := y])) + f (xs ! n) = sum_list (map f xs) + (f y :: nat)"
proof (induction xs arbitrary: n)
  case Nil
  then show ?case by simp
next
  case (Cons x xs)
  show ?case
  proof (cases n)
    case 0
    then show ?thesis by simp
  next
    case (Suc k)
    then show ?thesis using Cons.IH [of k] Cons.prems by simp
  qed
qed

lemma core_frame [simp]:
  "m_fdContexts (set_epolled n e io) = m_fdContexts io"
  "m_pendingEventCount (set_epolled n e io) = m_pendingEventCount io"
  "epolled (set_epolled n e io) = (epolled io)(n := e)"
  "m_fdContexts (count_pending g io) = m_fdContexts io"
  "m_pendingEventCount (count_pending g io) = g (m_pendingEventCount io)"
  "epolled (count_pending g io) = epolled io"
  "m_fdContexts (set_fc n fc io) = (m_fdContexts io)[n := fc]"
  "m_pendingEventCount (set_fc n fc io) = m_pendingEventCount io"
  "epolled (set_fc n fc io) = epolled io"
  by (simp_all add: set_epolled_def count_pending_def set_fc_def)

lemma core_replace:
  assumes "core_inv io" "n < length (m_fdContexts io)" "fc_inv fc"
    "m_fdContexts io' = (m_fdContexts io)[n := fc]"
    "m_pendingEventCount io' + weight (m_fdContexts io ! n) = m_pendingEventCount io + weight fc"
  shows "core_inv io'"
  using assms sum_list_replace [of n "m_fdContexts io" weight fc]
  by (auto simp: core_inv_def nth_list_update)

lemma ctx_clear:
  assumes "ctx_ok True c"
  shows "\<exists>s. ec_scheduler c = Some s"
    "ec_cb c \<noteq> None \<Longrightarrow> c\<lparr>ec_cb := None, ec_scheduler := None\<rparr> = empty_context"
    "ec_cb c = None \<Longrightarrow> c\<lparr>ec_fiber := None, ec_scheduler := None\<rparr> = empty_context"
  using assms by (cases c; auto simp: ctx_ok_def empty_context_def)+

lemma trigger_read:
  assumes "ctx_ok True (fc_read fc)" "fc_events fc AND EV_READ \<noteq> 0"
  shows "triggerEvent EV_READ fc = Inr (stored EV_READ fc,
    fc\<lparr>fc_events := fc_events fc AND NOT EV_READ, fc_read := empty_context\<rparr>)"
proof -
  obtain s where "ec_scheduler (fc_read fc) = Some s" using ctx_clear(1) [OF assms(1)] by blast
  then show ?thesis using ctx_clear(2,3) [OF assms(1)] assms(2)
    by (cases "ec_cb (fc_read fc) = None")
      (simp_all add: triggerEvent_def getContext_def putContext_def stored_def Let_def)
qed

lemma trigger_write:
  assumes "ctx_ok True (fc_write fc)" "fc_events fc AND EV_WRITE \<noteq> 0"
  shows "triggerEvent EV_WRITE fc = Inr (stored EV_WRITE fc,
    fc\<lparr>fc_events := fc_events fc AND NOT EV_WRITE, fc_write := empty_context\<rparr>)"
proof -
  obtain s where "ec_scheduler (fc_write fc) = Some s" using ctx_clear(1) [OF assms(1)] by blast
  moreover have "EV_WRITE \<noteq> EV_READ" by (simp add: event_defs)
  ultimately show ?thesis using ctx_clear(2,3) [OF assms(1)] assms(2)
    by (cases "ec_cb (fc_write fc) = None")
      (simp_all add: triggerEvent_def getContext_def putContext_def stored_def Let_def)
qed

lemma ctx_ok_empty [simp]: "ctx_ok False empty_context"
  by (simp add: ctx_ok_def)

lemma event_bits:
  "EV_READ AND EV_READ \<noteq> 0" "EV_READ AND EV_WRITE = 0" "EV_WRITE AND EV_READ = 0"
  "EV_WRITE AND EV_WRITE \<noteq> 0" "EV_READ AND NOT EV_READ = 0" "EV_WRITE AND NOT EV_WRITE = 0"
  "(EV_READ OR EV_WRITE) AND EV_READ \<noteq> 0" "(EV_READ OR EV_WRITE) AND EV_WRITE \<noteq> 0"
  "(EV_READ OR EV_WRITE) AND NOT EV_READ = EV_WRITE" "(EV_READ OR EV_WRITE) AND NOT EV_WRITE = EV_READ"
  "EV_READ \<noteq> 0" "EV_WRITE \<noteq> 0" "EV_READ \<noteq> EV_WRITE" "EV_WRITE \<noteq> EV_READ" "EV_READ OR EV_WRITE \<noteq> 0"
  "EV_READ AND NOT EV_WRITE = EV_READ" "EV_WRITE AND NOT EV_READ = EV_WRITE"
  "EV_WRITE OR EV_READ = EV_READ OR EV_WRITE"
  by (simp_all add: event_defs)

lemma fc_cases:
  assumes "fc_inv fc"
  obtains "fc_events fc = 0" "fc_read fc = empty_context" "fc_write fc = empty_context"
  | "fc_events fc = EV_READ" "ctx_ok True (fc_read fc)" "fc_write fc = empty_context"
  | "fc_events fc = EV_WRITE" "fc_read fc = empty_context" "ctx_ok True (fc_write fc)"
  | "fc_events fc = EV_READ OR EV_WRITE" "ctx_ok True (fc_read fc)" "ctx_ok True (fc_write fc)"
proof -
  have e: "fc_events fc \<in> {0, EV_READ, EV_WRITE, EV_READ OR EV_WRITE}"
    and r: "ctx_ok (fc_events fc AND EV_READ \<noteq> 0) (fc_read fc)"
    and w: "ctx_ok (fc_events fc AND EV_WRITE \<noteq> 0) (fc_write fc)"
    using assms by (auto simp: fc_inv_def)
  have f: "ctx_ok False c \<Longrightarrow> c = empty_context" for c :: "'a event_context"
    by (simp add: ctx_ok_def)
  from e consider "fc_events fc = 0" | "fc_events fc = EV_READ" | "fc_events fc = EV_WRITE"
    | "fc_events fc = EV_READ OR EV_WRITE" by auto
  then show ?thesis
    by cases (use r w f that in \<open>simp_all add: event_bits\<close>)
qed

lemma trigger_spec:
  assumes "fc_inv fc" "valid_event event" "fc_events fc AND event \<noteq> 0"
  shows "\<exists>fc'. triggerEvent event fc = Inr (stored event fc, fc') \<and> fc_inv fc' \<and>
    fc_events fc' = fc_events fc AND NOT event \<and> weight fc = Suc (weight fc') \<and>
    (event = EV_READ \<longrightarrow> fc_write fc' = fc_write fc) \<and> (event = EV_WRITE \<longrightarrow> fc_read fc' = fc_read fc)"
proof (cases "event = EV_READ")
  case True
  from assms(1) show ?thesis
    by (cases rule: fc_cases)
      (use assms(3) True trigger_read [of fc] in \<open>simp_all add: event_bits fc_inv_def weight_def\<close>)
next
  case False
  then have w: "event = EV_WRITE" using assms(2) by (simp add: valid_event_def)
  from assms(1) show ?thesis
    by (cases rule: fc_cases)
      (use assms(3) w trigger_write [of fc] in \<open>simp_all add: event_bits fc_inv_def weight_def\<close>)
qed

lemma trigger_counted_spec:
  assumes "core_inv io" "n < length (m_fdContexts io)" "valid_event event"
    "fc_events (m_fdContexts io ! n) AND event \<noteq> 0"
  shows "\<exists>io' fc'. trigger_counted n event io = (Inr [stored event (m_fdContexts io ! n)], io') \<and>
    core_inv io' \<and> m_fdContexts io' = (m_fdContexts io)[n := fc'] \<and> epolled io' = epolled io \<and>
    fc_events fc' = fc_events (m_fdContexts io ! n) AND NOT event \<and>
    (event = EV_READ \<longrightarrow> fc_write fc' = fc_write (m_fdContexts io ! n))"
proof -
  let ?fc = "m_fdContexts io ! n"
  have "fc_inv ?fc" using assms by (auto simp: core_inv_def)
  then obtain fc' where t: "triggerEvent event ?fc = Inr (stored event ?fc, fc')" "fc_inv fc'"
    "fc_events fc' = fc_events ?fc AND NOT event" "weight ?fc = Suc (weight fc')"
    "event = EV_READ \<longrightarrow> fc_write fc' = fc_write ?fc"
    using trigger_spec [OF _ assms(3,4)] by blast
  let ?io = "count_pending (\<lambda>k. k - 1) (set_fc n fc' io)"
  have "weight ?fc \<le> m_pendingEventCount io"
    using assms(1,2) by (simp add: core_inv_def elem_le_sum_list [of n "map weight (m_fdContexts io)", simplified])
  then have "core_inv ?io"
    using t by (intro core_replace [OF assms(1,2) t(2)]) auto
  then show ?thesis using t by (intro exI [of _ ?io] exI [of _ fc']) (simp add: trigger_counted_def)
qed

lemma io_inv_replace:
  assumes "core_inv io'" "n < length (m_fdContexts io)" "m_fdContexts io' = (m_fdContexts io)[n := fc]"
    "io_inv io" "epolled io' = (epolled io)(n := left_installed (fc_events fc))"
  shows "io_inv io'"
  using assms by (auto simp: io_inv_def fd_events_def)

lemma grow_inv:
  assumes "io_inv io" "length (m_fdContexts io) \<le> fd"
  shows "io_inv (grow_contexts fd io)" "fd < length (m_fdContexts (grow_contexts fd io))"
    "fd_events (grow_contexts fd io) = fd_events io"
proof -
  have len: "32 \<le> length (m_fdContexts io)" using assms by (simp add: io_inv_def core_inv_def)
  then have g: "length (m_fdContexts io) \<le> fd * 3 div 2" "fd < fd * 3 div 2" using assms(2) by auto
  have new: "fc_inv (FdContext_new k)" "weight (FdContext_new k) = 0" "fc_events (FdContext_new k) = 0" for k
    by (simp_all add: fc_inv_def FdContext_new_def weight_def ctx_ok_def EV_NONE_def)
  have c: "m_fdContexts (grow_contexts fd io) =
      m_fdContexts io @ map FdContext_new [length (m_fdContexts io)..<fd * 3 div 2]"
    using g by (simp add: grow_contexts_def contextResize_def)
  have w: "sum_list (map weight (map FdContext_new ks)) = 0" for ks
    using new(2) by (induction ks) auto
  show lt: "fd < length (m_fdContexts (grow_contexts fd io))" using g by (simp add: c)
  show ev: "fd_events (grow_contexts fd io) = fd_events io"
    using new(3) by (auto simp: fd_events_def c nth_append fun_eq_iff)
  have "fc_inv (m_fdContexts (grow_contexts fd io) ! n)" if "n < length (m_fdContexts (grow_contexts fd io))" for n
    using that assms(1) new(1) by (auto simp: c nth_append io_inv_def core_inv_def)
  moreover have "m_pendingEventCount (grow_contexts fd io) = sum_list (map weight (m_fdContexts (grow_contexts fd io)))"
    unfolding c map_append sum_list_append w
    using assms(1) by (simp add: io_inv_def core_inv_def grow_contexts_def)
  ultimately have "core_inv (grow_contexts fd io)" using len by (simp add: core_inv_def c)
  moreover have "epolled (grow_contexts fd io) = epolled io" by (simp add: grow_contexts_def)
  ultimately show "io_inv (grow_contexts fd io)" using assms(1) ev by (simp add: io_inv_def)
qed

lemma fc_at: "io_inv io \<Longrightarrow> n < length (m_fdContexts io) \<Longrightarrow> fc_inv (m_fdContexts io ! n)"
  by (simp add: io_inv_def core_inv_def)

text \<open>The context after an event was registered in it.\<close>

definition registered :: "u32 \<Rightarrow> 'c callback option \<Rightarrow> nat option \<Rightarrow> nat \<Rightarrow> 'c callback fd_context \<Rightarrow>
    'c callback fd_context" where
  "registered event cb me cur fc =
     putContext event \<lparr>ec_scheduler = me, ec_fiber = (if cb = None then Some cur else None), ec_cb = cb\<rparr>
       (fc\<lparr>fc_events := fc_events fc OR event\<rparr>)"

lemma registered_spec:
  assumes "fc_inv fc" "valid_event event" "fc_events fc AND event = 0"
  shows "fc_inv (registered event cb (Some s) cur fc)"
    "fc_events (registered event cb (Some s) cur fc) = fc_events fc OR event"
    "weight (registered event cb (Some s) cur fc) = Suc (weight fc)"
    "stored event (registered event cb (Some s) cur fc) =
      (s, if cb \<noteq> None then Sched_cb cb else Sched_fiber (Some cur))"
    "getContext event fc = Inr empty_context"
proof -
  have ok: "ctx_ok True \<lparr>ec_scheduler = Some s, ec_fiber = (if cb = None then Some cur else None), ec_cb = cb\<rparr>"
    for s cur and cb :: "'a callback option"
    by (simp add: ctx_ok_def)
  show "fc_events (registered event cb (Some s) cur fc) = fc_events fc OR event"
    by (simp add: registered_def putContext_def)
  show "stored event (registered event cb (Some s) cur fc) =
      (s, if cb \<noteq> None then Sched_cb cb else Sched_fiber (Some cur))"
    using assms(2) by (auto simp: stored_def registered_def putContext_def valid_event_def event_bits)
  from assms(1) show "fc_inv (registered event cb (Some s) cur fc)"
    by (cases rule: fc_cases)
      (use assms(2,3) ok [of s cb cur] in
        \<open>auto simp: registered_def putContext_def fc_inv_def valid_event_def event_bits\<close>)
  from assms(1) show "weight (registered event cb (Some s) cur fc) = Suc (weight fc)"
    by (cases rule: fc_cases)
      (use assms(2,3) in \<open>auto simp: registered_def putContext_def weight_def valid_event_def event_bits\<close>)
  from assms(1) show "getContext event fc = Inr empty_context"
    by (cases rule: fc_cases)
      (use assms(2,3) in \<open>auto simp: getContext_def valid_event_def event_bits\<close>)
qed

lemma addEvent_on_spec:
  assumes inv: "io_inv io" and n: "n < length (m_fdContexts io)" and e: "valid_event event"
    and free: "fd_events io n AND event = 0" and cb: "cb \<noteq> None \<or> cur_state = EXEC"
  shows "\<exists>io'. addEvent_on n event cb (Some s) cur cur_state 0 io = (Inr 0, io') \<and> io_inv io' \<and>
    m_fdContexts io' = (m_fdContexts io)[n := registered event cb (Some s) cur (m_fdContexts io ! n)]"
proof -
  let ?fc = "m_fdContexts io ! n"
  let ?fc' = "registered event cb (Some s) cur ?fc"
  let ?io = "set_fc n ?fc' (count_pending Suc (set_epolled n (Some (EPOLLET OR fc_events ?fc OR event)) io))"
  have fr: "fc_events ?fc AND event = 0" using free n by (simp add: fd_events_def)
  note r = registered_spec [OF fc_at [OF inv n] e fr]
  have "getContext event (?fc\<lparr>fc_events := fc_events ?fc OR event\<rparr>) = Inr empty_context"
    using r(5) by (simp add: getContext_def split: if_splits)
  then have a: "addEvent_on n event cb (Some s) cur cur_state 0 io = (Inr 0, ?io)"
    using fr cb by (auto simp: addEvent_on_def Let_def empty_context_def registered_def)
  have "core_inv ?io"
    by (rule core_replace [OF _ n r(1) [of cb s cur]]) (use inv r(3) [of cb s cur] in \<open>simp_all add: io_inv_def\<close>)
  moreover have "fc_events ?fc OR event \<noteq> 0"
    using e by (auto simp: valid_event_def event_bits or_eq_0_iff)
  then have "epolled ?io = (epolled io)(n := left_installed (fc_events ?fc'))"
    using r(2) [of cb s cur] by (simp add: left_installed_def or.assoc)
  ultimately have "io_inv ?io" by (intro io_inv_replace [OF _ n _ inv]) auto
  with a show ?thesis by (intro exI [of _ ?io]) simp
qed

lemma addEvent_taken:
  "fc_events (m_fdContexts io ! n) AND event \<noteq> 0 \<Longrightarrow>
   addEvent_on n event cb me cur cur_state rt io = (Inl Assert_fail, io)"
  by (simp add: addEvent_on_def Let_def)

lemma delEvent_spec:
  assumes inv: "io_inv io" and n: "n < length (m_fdContexts io)" and e: "valid_event event"
    and on: "fd_events io n AND event \<noteq> 0"
  shows "\<exists>io'. delEvent (int n) event 0 io = (Inr True, io') \<and> io_inv io' \<and>
    fd_events io' = (fd_events io)(n := fd_events io n AND NOT event)"
proof -
  let ?fc = "m_fdContexts io ! n"
  have fr: "fc_events ?fc AND event \<noteq> 0" using on n by (simp add: fd_events_def)
  have fc: "fc_inv ?fc" by (rule fc_at [OF inv n])
  obtain fc' where t: "fc_inv fc'" "fc_events fc' = fc_events ?fc AND NOT event"
    "weight ?fc = Suc (weight fc')"
    "\<exists>c. getContext event (?fc\<lparr>fc_events := fc_events ?fc AND NOT event\<rparr>) = Inr c \<and>
       fc' = putContext event (resetContext c) (?fc\<lparr>fc_events := fc_events ?fc AND NOT event\<rparr>)"
  proof (cases "event = EV_READ")
    case True
    let ?fc' = "?fc\<lparr>fc_events := fc_events ?fc AND NOT EV_READ, fc_read := resetContext (fc_read ?fc)\<rparr>"
    have "fc_inv ?fc' \<and> weight ?fc = Suc (weight ?fc')"
      using fc by (cases rule: fc_cases)
        (use fr True in \<open>simp_all add: event_bits fc_inv_def weight_def ctx_ok_def empty_context_def resetContext_def\<close>)
    then show ?thesis using True that [of ?fc'] by (simp add: getContext_def putContext_def)
  next
    case False
    then have w: "event = EV_WRITE" using e by (simp add: valid_event_def)
    let ?fc' = "?fc\<lparr>fc_events := fc_events ?fc AND NOT EV_WRITE, fc_write := resetContext (fc_write ?fc)\<rparr>"
    have "fc_inv ?fc' \<and> weight ?fc = Suc (weight ?fc')"
      using fc by (cases rule: fc_cases)
        (use fr w in \<open>simp_all add: event_bits fc_inv_def weight_def ctx_ok_def empty_context_def resetContext_def\<close>)
    then show ?thesis using w that [of ?fc'] by (simp add: getContext_def putContext_def event_bits)
  qed
  let ?io = "set_fc n fc' (count_pending (\<lambda>k. k - 1) (set_epolled n (left_installed (fc_events fc')) io))"
  have d: "delEvent (int n) event 0 io = (Inr True, ?io)"
    using t(2,4) n fr by (auto simp: delEvent_def Let_def)
  have core: "core_inv io" using inv by (simp add: io_inv_def)
  have "weight ?fc \<le> m_pendingEventCount io"
    using core n by (simp add: core_inv_def elem_le_sum_list [of n "map weight (m_fdContexts io)", simplified])
  then have "core_inv ?io" using t by (intro core_replace [OF core n t(1)]) auto
  then have "io_inv ?io" by (rule io_inv_replace [OF _ n _ inv]) simp_all
  moreover have "fd_events ?io = (fd_events io)(n := fd_events io n AND NOT event)"
    using n t(2) by (auto simp: fd_events_def)
  ultimately show ?thesis using d by blast
qed

lemma cancelEvent_spec:
  assumes inv: "io_inv io" and n: "n < length (m_fdContexts io)" and e: "valid_event event"
    and on: "fd_events io n AND event \<noteq> 0"
  shows "\<exists>io'. cancelEvent (int n) event 0 io = (Inr (True, [stored event (m_fdContexts io ! n)]), io') \<and>
    io_inv io' \<and> fd_events io' = (fd_events io)(n := fd_events io n AND NOT event)"
proof -
  let ?fc = "m_fdContexts io ! n"
  let ?io = "set_epolled n (left_installed (fc_events ?fc AND NOT event)) io"
  have fr: "fc_events ?fc AND event \<noteq> 0" using on n by (simp add: fd_events_def)
  have "core_inv ?io" using inv by (simp add: io_inv_def core_inv_def)
  from trigger_counted_spec [OF this, of n event] e n fr obtain io' fc' where
    t: "trigger_counted n event ?io = (Inr [stored event ?fc], io')" "core_inv io'"
    "m_fdContexts io' = (m_fdContexts io)[n := fc']"
    "epolled io' = (epolled io)(n := left_installed (fc_events ?fc AND NOT event))"
    "fc_events fc' = fc_events ?fc AND NOT event" by auto
  have "io_inv io'" by (rule io_inv_replace [OF t(2) n t(3) inv]) (simp add: t)
  moreover have "fd_events io' = (fd_events io)(n := fd_events io n AND NOT event)"
    using n t(3,5) by (auto simp: fd_events_def)
  moreover have "cancelEvent (int n) event 0 io = (Inr (True, [stored event ?fc]), io')"
    using n fr t(1) by (simp add: cancelEvent_def Let_def)
  ultimately show ?thesis by blast
qed

section \<open>Handling what the kernel reports\<close>

definition trigger_both :: "nat \<Rightarrow> u32 \<Rightarrow> ('c iomanager, 'c dispatch list) call" where
  "trigger_both n evs =
     seqc (trigger_if n (evs AND EV_READ \<noteq> 0) EV_READ) (\<lambda>ds.
       seqc (trigger_if n (evs AND EV_WRITE \<noteq> 0) EV_WRITE) (\<lambda>ds'. ret (ds @ ds')))"

definition items :: "u32 \<Rightarrow> 'c fd_context \<Rightarrow> (nat \<times> 'c fiber_or_cb) list" where
  "items evs fc = (if evs AND EV_READ \<noteq> 0 then [stored EV_READ fc] else []) @
     (if evs AND EV_WRITE \<noteq> 0 then [stored EV_WRITE fc] else [])"

lemma trigger_if_spec:
  assumes "core_inv io" "n < length (m_fdContexts io)" "valid_event event"
    "b \<Longrightarrow> fc_events (m_fdContexts io ! n) AND event \<noteq> 0"
  shows "\<exists>io' fc'. trigger_if n b event io =
      (Inr (if b then [stored event (m_fdContexts io ! n)] else []), io') \<and>
    core_inv io' \<and> m_fdContexts io' = (m_fdContexts io)[n := fc'] \<and> epolled io' = epolled io \<and>
    fc_events fc' = fc_events (m_fdContexts io ! n) AND NOT (if b then event else 0) \<and>
    (event = EV_READ \<longrightarrow> fc_write fc' = fc_write (m_fdContexts io ! n))"
proof (cases b)
  case True
  then show ?thesis using trigger_counted_spec [OF assms(1,2,3) assms(4) [OF True]]
    by (simp add: trigger_if_def)
next
  case False
  then show ?thesis using assms(1,2)
    by (intro exI [of _ io] exI [of _ "m_fdContexts io ! n"]) (simp add: trigger_if_def)
qed

lemma trigger_both_spec:
  assumes core: "core_inv io" and n: "n < length (m_fdContexts io)"
    and r: "evs AND EV_READ \<noteq> 0 \<Longrightarrow> fc_events (m_fdContexts io ! n) AND EV_READ \<noteq> 0"
    and w: "evs AND EV_WRITE \<noteq> 0 \<Longrightarrow> fc_events (m_fdContexts io ! n) AND EV_WRITE \<noteq> 0"
    and evs: "evs \<in> {0, EV_READ, EV_WRITE, EV_READ OR EV_WRITE}"
  shows "\<exists>io' fc'. trigger_both n evs io = (Inr (items evs (m_fdContexts io ! n)), io') \<and>
    core_inv io' \<and> m_fdContexts io' = (m_fdContexts io)[n := fc'] \<and> epolled io' = epolled io \<and>
    fc_events fc' = fc_events (m_fdContexts io ! n) AND NOT evs"
proof -
  let ?fc = "m_fdContexts io ! n" and ?r = "evs AND EV_READ \<noteq> 0" and ?w = "evs AND EV_WRITE \<noteq> 0"
  have v: "valid_event EV_READ" "valid_event EV_WRITE" by (simp_all add: valid_event_def)
  obtain io1 fc1 where t1: "trigger_if n ?r EV_READ io = (Inr (if ?r then [stored EV_READ ?fc] else []), io1)"
    "core_inv io1" "m_fdContexts io1 = (m_fdContexts io)[n := fc1]" "epolled io1 = epolled io"
    "fc_events fc1 = fc_events ?fc AND NOT (if ?r then EV_READ else 0)" "fc_write fc1 = fc_write ?fc"
    using trigger_if_spec [OF core n v(1), of ?r] r by auto
  have n1: "n < length (m_fdContexts io1)" "m_fdContexts io1 ! n = fc1" using n t1(3) by simp_all
  have fe: "fc_events ?fc \<in> {0, EV_READ, EV_WRITE, EV_READ OR EV_WRITE}"
    using core n by (auto simp: core_inv_def fc_inv_def)
  have w1: "fc_events fc1 AND EV_WRITE \<noteq> 0" if ?w
    using w [OF that] fe unfolding t1(5) by (auto simp: event_bits)
  have st: "stored EV_WRITE fc1 = stored EV_WRITE ?fc" using t1(6) by (simp add: stored_def event_bits)
  obtain io2 fc2 where t2: "trigger_if n ?w EV_WRITE io1 = (Inr (if ?w then [stored EV_WRITE ?fc] else []), io2)"
    "core_inv io2" "m_fdContexts io2 = (m_fdContexts io1)[n := fc2]" "epolled io2 = epolled io1"
    "fc_events fc2 = fc_events fc1 AND NOT (if ?w then EV_WRITE else 0)"
    using trigger_if_spec [OF t1(2) n1(1) v(2), of ?w] w1 n1(2) st by auto
  have "fc_events fc2 = fc_events ?fc AND NOT evs"
    using evs fe unfolding t2(5) t1(5) by (auto simp: event_defs)
  then show ?thesis using t1 t2
    by (intro exI [of _ io2] exI [of _ fc2]) (simp add: trigger_both_def items_def)
qed

lemma trigger_both_stale:
  assumes "evs \<in> {0, EV_READ, EV_WRITE, EV_READ OR EV_WRITE}" "core_inv io" "n < length (m_fdContexts io)"
    "evs AND EV_READ \<noteq> 0 \<and> fc_events (m_fdContexts io ! n) AND EV_READ = 0 \<or>
     evs AND EV_WRITE \<noteq> 0 \<and> fc_events (m_fdContexts io ! n) AND EV_WRITE = 0"
  shows "fst (trigger_both n evs io) = Inl Assert_fail"
proof -
  let ?fc = "m_fdContexts io ! n"
  have fe: "fc_events ?fc \<in> {0, EV_READ, EV_WRITE, EV_READ OR EV_WRITE}"
    using assms(2,3) by (auto simp: core_inv_def fc_inv_def)
  have bad: "trigger_counted n e io' = (Inl Assert_fail, io')"
    if "fc_events (m_fdContexts io' ! n) AND e = 0" for e io'
    using that by (simp add: trigger_counted_def triggerEvent_def)
  show ?thesis
  proof (cases "evs AND EV_READ \<noteq> 0 \<and> fc_events ?fc AND EV_READ = 0")
    case True
    then show ?thesis using bad [of io EV_READ] by (simp add: trigger_both_def trigger_if_def seqc_def)
  next
    case False
    then have w: "evs AND EV_WRITE \<noteq> 0" "fc_events ?fc AND EV_WRITE = 0"
      and r: "evs AND EV_READ \<noteq> 0 \<Longrightarrow> fc_events ?fc AND EV_READ \<noteq> 0"
      using assms(4) by auto
    have "valid_event EV_READ" by (simp add: valid_event_def)
    from trigger_if_spec [OF assms(2,3) this, of "evs AND EV_READ \<noteq> 0"] r obtain ds io1 fc1 where
      t: "trigger_if n (evs AND EV_READ \<noteq> 0) EV_READ io = (Inr ds, io1)"
      "m_fdContexts io1 = (m_fdContexts io)[n := fc1]"
      "fc_events fc1 = fc_events ?fc AND NOT (if evs AND EV_READ \<noteq> 0 then EV_READ else 0)"
      by blast
    have "fc_events (m_fdContexts io1 ! n) AND EV_WRITE = 0"
      using t(2,3) assms(3) w(2) fe by (auto simp: event_bits)
    then show ?thesis using t(1) w(1) bad [of io1 EV_WRITE]
      by (simp add: trigger_both_def trigger_if_def [of _ True] seqc_def)
  qed
qed

text \<open>The events a report stands for: errors wake up whatever is registered.\<close>

definition real_events :: "u32 \<Rightarrow> u32 \<Rightarrow> u32" where
  "real_events evs registered_events =
     (let evs = (if evs AND (EPOLLERR OR EPOLLHUP) \<noteq> 0
                 then evs OR ((EPOLLIN OR EPOLLOUT) AND registered_events) else evs)
      in (if evs AND EPOLLIN \<noteq> 0 then EV_READ else EV_NONE) OR
         (if evs AND EPOLLOUT \<noteq> 0 then EV_WRITE else EV_NONE))"

lemma real_events_set: "real_events evs e \<in> {0, EV_READ, EV_WRITE, EV_READ OR EV_WRITE}"
  by (auto simp: real_events_def Let_def EV_NONE_def)

lemma handle_event_unfold:
  "handle_event (Fd_event n evs rt2) io =
     (let fc = m_fdContexts io ! n; re = real_events evs (fc_events fc)
      in if fc_events fc AND re = 0 \<or> rt2 \<noteq> 0 then (Inr [], io)
         else trigger_both n re (set_epolled n (left_installed (fc_events fc AND NOT re)) io))"
  by (simp add: real_events_def trigger_both_def Let_def EV_NONE_def)

lemma handle_event_ok:
  assumes inv: "io_inv io" and n: "n < length (m_fdContexts io)"
    and re: "re = real_events evs (fd_events io n)" and sub: "re AND NOT (fd_events io n) = 0"
  shows "\<exists>io'. handle_event (Fd_event n evs 0) io = (Inr (items re (m_fdContexts io ! n)), io') \<and>
    io_inv io' \<and> fd_events io' = (fd_events io)(n := fd_events io n AND NOT re)"
proof -
  let ?fc = "m_fdContexts io ! n"
  have fe: "fd_events io n = fc_events ?fc" using n by (simp add: fd_events_def)
  have e: "fc_events ?fc \<in> {0, EV_READ, EV_WRITE, EV_READ OR EV_WRITE}"
    using fc_at [OF inv n] by (simp add: fc_inv_def)
  have rs: "re \<in> {0, EV_READ, EV_WRITE, EV_READ OR EV_WRITE}" unfolding re by (rule real_events_set)
  show ?thesis
  proof (cases "fc_events ?fc AND re = 0")
    case True
    then have z: "re = 0" using sub e rs unfolding fe by (auto simp: event_bits)
    then have "handle_event (Fd_event n evs 0) io = (Inr (items re ?fc), io)"
      using True re fe by (simp add: handle_event_unfold Let_def items_def del: handle_event.simps)
    then show ?thesis using inv z by auto
  next
    case False
    let ?io = "set_epolled n (left_installed (fc_events ?fc AND NOT re)) io"
    have core: "core_inv ?io" using inv by (simp add: io_inv_def core_inv_def)
    have r: "fc_events (m_fdContexts ?io ! n) AND EV_READ \<noteq> 0" if "re AND EV_READ \<noteq> 0"
      using that sub e rs unfolding fe by (auto simp: event_bits)
    have w: "fc_events (m_fdContexts ?io ! n) AND EV_WRITE \<noteq> 0" if "re AND EV_WRITE \<noteq> 0"
      using that sub e rs unfolding fe by (auto simp: event_bits)
    obtain io' fc' where t: "trigger_both n re ?io = (Inr (items re ?fc), io')" "core_inv io'"
      "m_fdContexts io' = (m_fdContexts io)[n := fc']" "epolled io' = epolled ?io"
      "fc_events fc' = fc_events ?fc AND NOT re"
      using trigger_both_spec [OF core _ r w rs] n by auto
    have "io_inv io'" by (rule io_inv_replace [OF t(2) n t(3) inv]) (simp add: t)
    moreover have "fd_events io' = (fd_events io)(n := fd_events io n AND NOT re)"
      using n t(3,5) by (auto simp: fd_events_def)
    moreover have "handle_event (Fd_event n evs 0) io = (Inr (items re ?fc), io')"
      using False t(1) re fe by (simp add: handle_event_unfold Let_def del: handle_event.simps)
    ultimately show ?thesis by blast
  qed
qed

lemma handle_event_stale:
  assumes inv: "io_inv io" and n: "n < length (m_fdContexts io)"
    and re: "re = real_events evs (fd_events io n)"
    and bad: "re AND NOT (fd_events io n) \<noteq> 0" "re AND fd_events io n \<noteq> 0"
  shows "fst (handle_event (Fd_event n evs 0) io) = Inl Assert_fail"
proof -
  let ?fc = "m_fdContexts io ! n"
  let ?io = "set_epolled n (left_installed (fc_events ?fc AND NOT re)) io"
  have fe: "fd_events io n = fc_events ?fc" using n by (simp add: fd_events_def)
  have e: "fc_events ?fc \<in> {0, EV_READ, EV_WRITE, EV_READ OR EV_WRITE}"
    using fc_at [OF inv n] by (simp add: fc_inv_def)
  have rs: "re \<in> {0, EV_READ, EV_WRITE, EV_READ OR EV_WRITE}" unfolding re by (rule real_events_set)
  have core: "core_inv ?io" using inv by (simp add: io_inv_def core_inv_def)
  have "re AND EV_READ \<noteq> 0 \<and> fc_events ?fc AND EV_READ = 0 \<or>
      re AND EV_WRITE \<noteq> 0 \<and> fc_events ?fc AND EV_WRITE = 0"
    using bad e rs unfolding fe by (auto simp: event_defs)
  then have "fst (trigger_both n re ?io) = Inl Assert_fail"
    by (intro trigger_both_stale [OF rs core]) (use n in auto)
  moreover have "fc_events ?fc AND re \<noteq> 0" using bad(2) fe by (simp add: and.commute)
  ultimately show ?thesis using re fe
    by (simp add: handle_event_unfold Let_def del: handle_event.simps)
qed

lemma cancelAll_spec:
  assumes inv: "io_inv io" and n: "n < length (m_fdContexts io)" and on: "fd_events io n \<noteq> 0"
  shows "\<exists>io'. cancelAll (int n) 0 io = (Inr (True, items (fd_events io n) (m_fdContexts io ! n)), io') \<and>
    io_inv io' \<and> fd_events io' = (fd_events io)(n := 0)"
proof -
  let ?fc = "m_fdContexts io ! n"
  let ?io = "set_epolled n None io"
  have fe: "fd_events io n = fc_events ?fc" using n by (simp add: fd_events_def)
  have e: "fc_events ?fc \<in> {0, EV_READ, EV_WRITE, EV_READ OR EV_WRITE}"
    using fc_at [OF inv n] by (simp add: fc_inv_def)
  have core: "core_inv ?io" using inv by (simp add: io_inv_def core_inv_def)
  have v: "valid_event EV_READ" "valid_event EV_WRITE" by (simp_all add: valid_event_def)
  have n0: "n < length (m_fdContexts ?io)" using n by simp
  obtain io1 fc1 where t1: "trigger_if n (fc_events ?fc AND EV_READ \<noteq> 0) EV_READ ?io =
      (Inr (if fc_events ?fc AND EV_READ \<noteq> 0 then [stored EV_READ ?fc] else []), io1)"
    "core_inv io1" "m_fdContexts io1 = (m_fdContexts io)[n := fc1]" "epolled io1 = epolled ?io"
    "fc_events fc1 = fc_events ?fc AND NOT (if fc_events ?fc AND EV_READ \<noteq> 0 then EV_READ else 0)"
    "fc_write fc1 = fc_write ?fc"
    using trigger_if_spec [OF core n0 v(1), of "fc_events ?fc AND EV_READ \<noteq> 0"] by auto
  have n1: "n < length (m_fdContexts io1)" "m_fdContexts io1 ! n = fc1" using n t1(3) by simp_all
  have w: "fc_events fc1 AND EV_WRITE \<noteq> 0 \<longleftrightarrow> fc_events ?fc AND EV_WRITE \<noteq> 0"
    using e unfolding t1(5) by (auto simp: event_bits)
  have st: "stored EV_WRITE fc1 = stored EV_WRITE ?fc" using t1(6) by (simp add: stored_def event_bits)
  obtain io2 fc2 where t2: "trigger_if n (fc_events fc1 AND EV_WRITE \<noteq> 0) EV_WRITE io1 =
      (Inr (if fc_events ?fc AND EV_WRITE \<noteq> 0 then [stored EV_WRITE ?fc] else []), io2)"
    "core_inv io2" "m_fdContexts io2 = (m_fdContexts io1)[n := fc2]" "epolled io2 = epolled io1"
    "fc_events fc2 = fc_events fc1 AND NOT (if fc_events ?fc AND EV_WRITE \<noteq> 0 then EV_WRITE else 0)"
    using trigger_if_spec [OF t1(2) n1(1) v(2), of "fc_events fc1 AND EV_WRITE \<noteq> 0"] n1(2) st w by auto
  have z: "fc_events fc2 = 0" using e unfolding t2(5) t1(5) by (auto simp: event_bits)
  have m2: "m_fdContexts io2 = (m_fdContexts io)[n := fc2]" using t1(3) t2(3) by simp
  have "io_inv io2"
    by (rule io_inv_replace [OF t2(2) n m2 inv]) (simp add: t1(4) t2(4) z left_installed_def)
  moreover have "fd_events io2 = (fd_events io)(n := 0)" using n m2 z by (auto simp: fd_events_def)
  moreover have "cancelAll (int n) 0 io = (Inr (True, items (fc_events ?fc) ?fc), io2)"
    using n on fe t1(1) t2(1) n1 m2 z by (simp add: cancelAll_def Let_def seqc_def items_def)
  ultimately show ?thesis using fe by auto
qed

lemma addEvent_spec:
  assumes inv: "io_inv io" and e: "valid_event event"
    and free: "fd_events io n AND event = 0" and cb: "cb \<noteq> None \<or> cur_state = EXEC"
  shows "\<exists>io'. addEvent (int n) event cb (Some s) cur cur_state 0 io = (Inr 0, io') \<and> io_inv io' \<and>
    n < length (m_fdContexts io') \<and> fd_events io' = (fd_events io)(n := fd_events io n OR event) \<and>
    stored event (m_fdContexts io' ! n) = (s, if cb \<noteq> None then Sched_cb cb else Sched_fiber (Some cur))"
proof -
  define io1 where "io1 = (if int (length (m_fdContexts io)) > int n then io else grow_contexts n io)"
  have h: "io_inv io1" "n < length (m_fdContexts io1)" "fd_events io1 = fd_events io"
    using inv grow_inv [OF inv, of n] by (auto simp: io1_def)
  obtain io' where a: "addEvent_on n event cb (Some s) cur cur_state 0 io1 = (Inr 0, io')" "io_inv io'"
    "m_fdContexts io' = (m_fdContexts io1)[n := registered event cb (Some s) cur (m_fdContexts io1 ! n)]"
    using addEvent_on_spec [OF h(1,2) e _ cb] free h(3) by auto
  have "fd_events io1 n = fc_events (m_fdContexts io1 ! n)" using h(2) by (simp add: fd_events_def)
  then have fr: "fc_events (m_fdContexts io1 ! n) AND event = 0" using free h(3) by simp
  note r2 = registered_spec(2) [OF fc_at [OF h(1,2)] e fr, of cb s cur]
  note r4 = registered_spec(4) [OF fc_at [OF h(1,2)] e fr, of cb s cur]
  have "fd_events io' k = (if k = n then fd_events io1 n OR event else fd_events io1 k)" for k
    using a(3) r2 h(2) by (simp add: fd_events_def)
  then have "fd_events io' = (fd_events io)(n := fd_events io n OR event)" using h(3) by (simp add: fun_eq_iff)
  moreover have "addEvent (int n) event cb (Some s) cur cur_state 0 io = (Inr 0, io')"
    using a(1) by (cases "n < length (m_fdContexts io)") (simp_all add: addEvent_def io1_def)
  ultimately show ?thesis using a h r4 by (intro exI [of _ io']) simp
qed

section \<open>Properties\<close>


definition demo_io :: "nat iomanager" where
  "demo_io = \<lparr>io_scheduler = \<lparr>m_fibers = [], m_threads = [], m_threadIds = [], m_threadCount = 1,
       m_activeThreadCount = 0, m_idleThreadCount = 0, m_stopping = False, m_autoStop = False,
       m_rootThread = -1, m_rootFiber = None\<rparr>,
     io_timers = TimerManager_new 0, m_pendingEventCount = 0,
     m_fdContexts = map FdContext_new [0..<32], epolled = (\<lambda>_. None)\<rparr>"

lemma demo_io_inv: "io_inv demo_io" "fd_events demo_io n = 0"
proof -
  have "map (weight \<circ> FdContext_new) ns = map (\<lambda>_. 0) ns" for ns
    by (simp add: weight_def FdContext_new_def EV_NONE_def)
  then show "fd_events demo_io n = 0" "io_inv demo_io"
    by (auto simp: io_inv_def core_inv_def demo_io_def fd_events_def FdContext_new_def fc_inv_def
        ctx_ok_def EV_NONE_def left_installed_def weight_def comp_def)
qed


text \<open>
  What was registered is what is scheduled, once: cancelling an event hands exactly
  the function, or the fiber, that \<open>addEvent\<close> was given to the scheduler that was current
  then; afterwards the event is no longer registered, and cancelling it again does
  nothing.
\<close>

theorem registered_is_scheduled:
  assumes "io_inv io" "valid_event event" "fd_events io n AND event = 0" "cb \<noteq> None \<or> cur_state = EXEC"
  shows "\<exists>io1 io2. addEvent (int n) event cb (Some s) cur cur_state 0 io = (Inr 0, io1) \<and>
    cancelEvent (int n) event 0 io1 =
      (Inr (True, [(s, if cb \<noteq> None then Sched_cb cb else Sched_fiber (Some cur))]), io2) \<and>
    fd_events io2 = fd_events io \<and>
    cancelEvent (int n) event 0 io2 = (Inr (False, []), io2)"
proof -
  obtain io1 where a: "addEvent (int n) event cb (Some s) cur cur_state 0 io = (Inr 0, io1)" "io_inv io1"
    "n < length (m_fdContexts io1)" "fd_events io1 = (fd_events io)(n := fd_events io n OR event)"
    "stored event (m_fdContexts io1 ! n) = (s, if cb \<noteq> None then Sched_cb cb else Sched_fiber (Some cur))"
    using addEvent_spec [OF assms(1,2,3,4)] by blast
  have "event \<noteq> 0" using assms(2) by (auto simp: valid_event_def event_bits)
  moreover have "(fd_events io n OR event) AND event = event" by (rule bit_eqI) (auto simp: bit_simps)
  ultimately have "fd_events io1 n AND event \<noteq> 0" using a(4) by simp
  then obtain io2 where c: "cancelEvent (int n) event 0 io1 =
      (Inr (True, [stored event (m_fdContexts io1 ! n)]), io2)" "io_inv io2"
    "fd_events io2 = (fd_events io1)(n := fd_events io1 n AND NOT event)"
    using cancelEvent_spec [OF a(2,3) assms(2)] by blast
  have "(fd_events io n OR event) AND NOT event = fd_events io n"
  proof (rule bit_eqI)
    fix k
    have "\<not> (bit (fd_events io n) k \<and> bit event k)"
      using arg_cong [OF assms(3), of "\<lambda>w. bit w k"] by (simp add: bit_and_iff)
    then show "bit ((fd_events io n OR event) AND NOT event) k = bit (fd_events io n) k"
      by (auto simp: bit_and_iff bit_or_iff bit_not_iff dest: bit_imp_le_length)
  qed
  then have "fd_events io2 = fd_events io" using c(3) a(4) by simp
  moreover from this have "fd_events io2 n AND event = 0" using assms(3) by simp
  then have "cancelEvent (int n) event 0 io2 = (Inr (False, []), io2)"
    by (auto simp: cancelEvent_def fd_events_def Let_def split: if_splits)
  ultimately show ?thesis using a(1,5) c(1) by auto
qed

theorem registered_is_scheduled_witness:
  "\<exists>io1 io2. addEvent 40 EV_WRITE None (Some 0) 1 EXEC 0 demo_io = (Inr 0, io1) \<and>
    cancelEvent 40 EV_WRITE 0 io1 = (Inr (True, [(0, Sched_fiber (Some 1))]), io2)"
  using registered_is_scheduled [OF demo_io_inv(1), of EV_WRITE 40 None EXEC 0 1] demo_io_inv(2)
  by (auto simp: valid_event_def)

text \<open>
  A report of the kernel schedules exactly the registered events it stands for (all
  of them when it is an error) and leaves the rest registered. When it stands for an
  event that has been deleted since, a report that names that event alone is ignored, but
  one that also names a registered event runs into the assertion of \<open>triggerEvent\<close>.
\<close>

theorem reports_handled:
  assumes "io_inv io" "n < length (m_fdContexts io)" "re = real_events evs (fd_events io n)"
  shows "(re AND NOT (fd_events io n) = 0 \<longrightarrow>
      (\<exists>io'. handle_event (Fd_event n evs 0) io = (Inr (items re (m_fdContexts io ! n)), io') \<and>
        io_inv io' \<and> fd_events io' = (fd_events io)(n := fd_events io n AND NOT re))) \<and>
    (re AND fd_events io n = 0 \<longrightarrow> handle_event (Fd_event n evs 0) io = (Inr [], io)) \<and>
    (re AND NOT (fd_events io n) \<noteq> 0 \<and> re AND fd_events io n \<noteq> 0 \<longrightarrow>
      fst (handle_event (Fd_event n evs 0) io) = Inl Assert_fail)"
proof (intro conjI impI)
  assume "re AND NOT (fd_events io n) = 0"
  then show "\<exists>io'. handle_event (Fd_event n evs 0) io = (Inr (items re (m_fdContexts io ! n)), io') \<and>
        io_inv io' \<and> fd_events io' = (fd_events io)(n := fd_events io n AND NOT re)"
    by (rule handle_event_ok [OF assms])
next
  assume "re AND fd_events io n = 0"
  then show "handle_event (Fd_event n evs 0) io = (Inr [], io)"
    using assms(2,3) by (simp add: handle_event_unfold fd_events_def Let_def and.commute del: handle_event.simps)
next
  assume "re AND NOT (fd_events io n) \<noteq> 0 \<and> re AND fd_events io n \<noteq> 0"
  then show "fst (handle_event (Fd_event n evs 0) io) = Inl Assert_fail"
    using handle_event_stale [OF assms] by blast
qed

theorem reports_handled_witness:
  "handle_event (Fd_event 3 EPOLLIN 0) demo_io = (Inr [], demo_io)"
proof -
  have "3 < length (m_fdContexts demo_io)" by (simp add: demo_io_def)
  from reports_handled [OF demo_io_inv(1) this refl, of EPOLLIN] demo_io_inv(2) [of 3]
  show ?thesis by (simp del: handle_event.simps)
qed

lemma to_int_wrap: "to_int v = (uint v + 2 ^ 31) mod 2 ^ 32 - 2 ^ 31"
  unfolding to_int_def ucast_eq int_word_sint by simp

text \<open>
  The wait of the idle loop: a next timer of less than \<open>2^31\<close> milliseconds, or none,
  gives a timeout of at most five seconds, and no later than the timer. A timer between
  \<open>2^31\<close> and \<open>2^32\<close> milliseconds away passes the comparison as a negative \<open>int\<close>, and the
  negative timeout makes \<open>epoll_wait\<close> wait for ever.
\<close>

theorem wait_bounded:
  "(v < 0x80000000 \<longrightarrow> 0 \<le> wait_timeout v \<and> wait_timeout v \<le> MAX_TIMEOUT \<and>
      wait_timeout v = min (uint v) MAX_TIMEOUT) \<and>
   wait_timeout (NOT 0) = MAX_TIMEOUT \<and>
   (0x80000000 \<le> v \<and> v < 0x100000000 \<longrightarrow> wait_timeout v < 0)"
proof -
  have all_ones: "uint (- 1 :: u64) = 2 ^ 64 - 1" by (simp add: unsigned_minus_1_eq_mask mask_eq_exp_minus_1)
  have small: "wait_timeout v = min (uint v) 5000" if v: "uint v < 2 ^ 31"
  proof -
    have t: "to_int v = uint v" using v by (simp add: to_int_wrap)
    have "v \<noteq> NOT 0" using v all_ones by auto
    then have "wait_timeout v = to_int (if uint v > 5000 then 5000 else v)"
      by (simp only: wait_timeout_def t MAX_TIMEOUT_def if_True simp_thms)
    then show ?thesis using t by (simp add: to_int_wrap min_def)
  qed
  have big: "wait_timeout v < 0" if v: "2 ^ 31 \<le> uint v" "uint v < 2 ^ 32"
  proof -
    have "(uint v + 2 ^ 31) mod 2 ^ 32 = (uint v - 2 ^ 31 + 2 ^ 32) mod 2 ^ 32"
      by (simp add: add.commute)
    also have "\<dots> = (uint v - 2 ^ 31) mod 2 ^ 32" by (rule mod_add_self2)
    also have "\<dots> = uint v - 2 ^ 31" using v by (intro mod_pos_pos_trivial) auto
    finally have "to_int v = uint v - 2 ^ 32" by (simp add: to_int_wrap)
    then have t: "to_int v < 0" using v by simp
    have "v \<noteq> NOT 0" using v all_ones by auto
    then have "wait_timeout v = to_int v" using t by (simp add: wait_timeout_def MAX_TIMEOUT_def)
    then show ?thesis using t by simp
  qed
  have "wait_timeout (NOT 0) = MAX_TIMEOUT" by (simp add: wait_timeout_def to_int_wrap MAX_TIMEOUT_def)
  moreover have "uint v < 2 ^ 31" if "v < 0x80000000" using that by (simp add: word_less_def)
  moreover have "2 ^ 31 \<le> uint v \<and> uint v < 2 ^ 32" if "0x80000000 \<le> v \<and> v < 0x100000000"
    using that by (simp add: word_less_def word_le_def)
  ultimately show ?thesis using small big uint_ge_0 [of v] by (auto simp: MAX_TIMEOUT_def)
qed

theorem wait_bounded_witness:
  "wait_timeout 12 = 12 \<and> wait_timeout 0x80000000 < 0"
  using wait_bounded [of 12] wait_bounded [of "0x80000000"] by (simp add: MAX_TIMEOUT_def)

text \<open>
  \<open>addEvent\<close> looks at the size of the table under one lock and grows it under
  another. When a second thread has grown it further in between, the first one shrinks
  it: contexts with registered events are dropped, while their events are still counted.
\<close>

theorem growth_race:
  assumes "io_inv io" "fd * 3 div 2 \<le> n" "length (m_fdContexts io) \<le> fd" "fd_events io n = 0"
    "valid_event event"
  shows "\<exists>io'. addEvent (int n) event (Some cb) (Some s) cur EXEC 0 io = (Inr 0, io') \<and>
    fd_events io' n = event \<and>
    fd_events (grow_contexts fd io') n = 0 \<and>
    m_pendingEventCount (grow_contexts fd io') = m_pendingEventCount io'"
proof -
  obtain io' where a: "addEvent (int n) event (Some cb) (Some s) cur EXEC 0 io = (Inr 0, io')"
    "n < length (m_fdContexts io')" "fd_events io' = (fd_events io)(n := fd_events io n OR event)"
    using addEvent_spec [OF assms(1,5), of n "Some cb" EXEC s cur] assms(4) by auto
  have "length (m_fdContexts (grow_contexts fd io')) \<le> n"
    using a(2) assms(2) by (simp add: grow_contexts_def contextResize_def)
  then have "fd_events (grow_contexts fd io') n = 0" by (simp add: fd_events_def)
  then show ?thesis using a assms(4) by (intro exI [of _ io']) (simp add: grow_contexts_def)
qed

theorem growth_race_witness:
  "\<exists>io'. addEvent 100 EV_READ (Some (Call 5)) (Some 0) 1 EXEC 0 demo_io = (Inr 0, io') \<and>
    fd_events io' 100 = EV_READ \<and> fd_events (grow_contexts 40 io') 100 = 0"
proof -
  have l: "length (m_fdContexts demo_io) \<le> 40" by (simp add: demo_io_def)
  have v: "valid_event EV_READ" by (simp add: valid_event_def)
  from growth_race [OF demo_io_inv(1) _ l demo_io_inv(2) v, of 100 "Call 5" 0 1]
  show ?thesis by auto
qed

end
