(* ===== verification/Hook.thy ===== *)
theory Hook
  imports Fd_Manager Iomanager "HOL-Library.Signed_Division"
begin

unbundle bit_operations_syntax

text \<open>
  The hooked system calls (\<open>sylar/hook.cc\<close>): calls that would block a thread wait in the
  I/O manager instead and block only their fiber.

  The original function of the C library is code of another system. Its results, one per
  call, are the list \<open>rs\<close> (value and \<open>errno\<close>); how each wait ends, by the event, by the
  timer, or not at all because \<open>addEvent\<close> failed, is the list \<open>wakes\<close>. An operation
  returns what it returns to its caller, \<open>None\<close> when the lists end before it does, and the
  list of what it did. The hook is per thread and is the argument \<open>hook\<close>; \<open>iom\<close> says that
  the thread has an I/O manager.
\<close>

section \<open>Waiting calls\<close>

type_synonym sysret = "int \<times> int"

definition EINTR :: int where "EINTR = 4"
definition EBADF :: int where "EBADF = 9"
definition EAGAIN :: int where "EAGAIN = 11"
definition ETIMEDOUT :: int where "ETIMEDOUT = 110"
definition EINPROGRESS :: int where "EINPROGRESS = 115"

lemmas errno_defs = EINTR_def EBADF_def EAGAIN_def ETIMEDOUT_def EINPROGRESS_def

datatype io_action = Sys_call | Add_timer u64 | Add_event u32 | Yield_hold | Cancel_timer

datatype wake = Add_failed int | Woken_event | Woken_timeout

definition no_timeout :: u64 where
  "no_timeout = -1"

text \<open>The part of \<open>do_io\<close> from the label \<open>retry\<close> on.\<close>

fun do_io_retry :: "bool \<Rightarrow> u64 \<Rightarrow> u32 \<Rightarrow> sysret list \<Rightarrow> wake list \<Rightarrow>
    (fault + sysret) option \<times> io_action list" where
  "do_io_retry iom to event [] wakes = (None, [])"
| "do_io_retry iom to event (r # rs) wakes =
     (if fst r = -1 \<and> snd r = EINTR then
        (let (res, acts) = do_io_retry iom to event rs wakes in (res, Sys_call # acts))
      else if fst r = -1 \<and> snd r = EAGAIN then
        if \<not> iom then (Some (Inl Null_deref), [Sys_call]) else
        let timer = (to \<noteq> no_timeout);
            before = [Sys_call] @ (if timer then [Add_timer to] else []) @ [Add_event event];
            cancel = (if timer then [Cancel_timer] else [])
        in case wakes of
             [] \<Rightarrow> (None, before)
           | Add_failed e # ws \<Rightarrow> (Some (Inr (-1, e)), before @ cancel)
           | w # ws \<Rightarrow>
               if w = Woken_timeout \<and> timer
               then (Some (Inr (-1, ETIMEDOUT)), before @ [Yield_hold] @ cancel)
               else let (res, acts) = do_io_retry iom to event rs ws
                    in (res, before @ [Yield_hold] @ cancel @ acts)
      else (Some (Inr r), [Sys_call]))"

text \<open>A call that is passed on to the original function.\<close>

definition pass_through :: "sysret list \<Rightarrow> (fault + sysret) option \<times> io_action list" where
  "pass_through rs = (case rs of [] \<Rightarrow> (None, []) | r # _ \<Rightarrow> (Some (Inr r), [Sys_call]))"

definition do_io :: "bool \<Rightarrow> bool \<Rightarrow> fd_ctx option \<Rightarrow> u32 \<Rightarrow> int \<Rightarrow> sysret list \<Rightarrow> wake list \<Rightarrow>
    (fault + sysret) option \<times> io_action list" where
  "do_io hook iom fdc event timeout_so rs wakes =
     (if \<not> hook then pass_through rs else
      case fdc of None \<Rightarrow> pass_through rs
      | Some c \<Rightarrow>
        if m_isClosed c then (Some (Inr (-1, EBADF)), []) else
        if \<not> m_isSocket c \<or> m_userNonblock c then pass_through rs else
        do_io_retry iom (getTimeout timeout_so c) event rs wakes)"

text \<open>The reading and the writing calls, which differ in what they wait for.\<close>

definition hooked_read :: "bool \<Rightarrow> bool \<Rightarrow> fd_ctx option \<Rightarrow> sysret list \<Rightarrow> wake list \<Rightarrow>
    (fault + sysret) option \<times> io_action list" where
  "hooked_read hook iom fdc = do_io hook iom fdc EV_READ SO_RCVTIMEO"

definition hooked_write :: "bool \<Rightarrow> bool \<Rightarrow> fd_ctx option \<Rightarrow> sysret list \<Rightarrow> wake list \<Rightarrow>
    (fault + sysret) option \<times> io_action list" where
  "hooked_write hook iom fdc = do_io hook iom fdc EV_WRITE SO_SNDTIMEO"

text \<open>\<open>accept\<close> and \<open>socket\<close> put a new descriptor into the table.\<close>

definition hooked_accept :: "bool \<Rightarrow> bool \<Rightarrow> fd_ctx option \<Rightarrow> sysret list \<Rightarrow> wake list \<Rightarrow> os_fd \<Rightarrow>
    fd_table \<Rightarrow> (fault + sysret) option \<times> io_action list \<times> fd_table" where
  "hooked_accept hook iom fdc rs wakes os table =
     (let (res, acts) = do_io hook iom fdc EV_READ SO_RCVTIMEO rs wakes
      in (res, acts,
          case res of Some (Inr (fd, e)) \<Rightarrow> if fd \<ge> 0 then snd (FdManager_get fd True os table) else table
          | _ \<Rightarrow> table))"

definition hooked_socket :: "bool \<Rightarrow> int \<Rightarrow> os_fd \<Rightarrow> fd_table \<Rightarrow> int \<times> fd_table" where
  "hooked_socket hook fd os table =
     (if \<not> hook then (fd, table) else
      if fd = -1 then (fd, table) else (fd, snd (FdManager_get fd True os table)))"

text \<open>\<open>connect\<close>: \<open>r\<close> is the result of the original, \<open>so\<close> what \<open>getsockopt(SO_ERROR)\<close> gives.\<close>

definition connect_with_timeout :: "bool \<Rightarrow> bool \<Rightarrow> fd_ctx option \<Rightarrow> u64 \<Rightarrow> sysret \<Rightarrow> wake option \<Rightarrow>
    sysret \<Rightarrow> int \<Rightarrow> (fault + sysret) option \<times> io_action list" where
  "connect_with_timeout hook iom fdc timeout_ms r wake gso error =
     (if \<not> hook then (Some (Inr r), [Sys_call]) else
      case fdc of None \<Rightarrow> (Some (Inr (-1, EBADF)), [])
      | Some c \<Rightarrow>
        if m_isClosed c then (Some (Inr (-1, EBADF)), []) else
        if \<not> m_isSocket c then (Some (Inr r), [Sys_call]) else
        if m_userNonblock c then (Some (Inr r), [Sys_call]) else
        if fst r = 0 then (Some (Inr (0, snd r)), [Sys_call]) else
        if fst r \<noteq> -1 \<or> snd r \<noteq> EINPROGRESS then (Some (Inr r), [Sys_call]) else
        if \<not> iom then (Some (Inl Null_deref), [Sys_call]) else
        let timer = (timeout_ms \<noteq> no_timeout);
            before = [Sys_call] @ (if timer then [Add_timer timeout_ms] else []) @ [Add_event EV_WRITE];
            cancel = (if timer then [Cancel_timer] else []);
            state = (if fst gso = -1 then (-1, snd gso) else if error = 0 then (0, 0) else (-1, error))
        in case wake of
             None \<Rightarrow> (None, before)
           | Some (Add_failed e) \<Rightarrow> (Some (Inr state), before @ cancel)
           | Some w \<Rightarrow>
               (Some (Inr (if w = Woken_timeout \<and> timer then (-1, ETIMEDOUT) else state)),
                before @ [Yield_hold] @ cancel))"

section \<open>Sleeping\<close>

text \<open>The delays the timers are given, with the conversions of the C types.\<close>

definition sleep_ms :: "u32 \<Rightarrow> u64" where
  "sleep_ms seconds = ucast (seconds * 1000)"

definition usleep_ms :: "u32 \<Rightarrow> u64" where
  "usleep_ms usec = ucast (usec div 1000)"

definition nanosleep_ms :: "u64 \<Rightarrow> u64 \<Rightarrow> u64" where
  "nanosleep_ms tv_sec tv_nsec =
     (let ms = tv_sec * 1000 + word_of_int ((sint tv_nsec sdiv 1000) sdiv 1000)
      in scast (ucast ms :: u32))"

definition hooked_sleep :: "bool \<Rightarrow> bool \<Rightarrow> u64 \<Rightarrow> fault + io_action list" where
  "hooked_sleep hook iom ms =
     (if \<not> hook then Inr [Sys_call] else
      if \<not> iom then Inl Null_deref else Inr [Add_timer ms, Yield_hold])"

section \<open>Closing and options\<close>

text \<open>\<open>close\<close>: what the I/O manager scheduled, before the original is called.\<close>

definition hooked_close :: "bool \<Rightarrow> bool \<Rightarrow> int \<Rightarrow> int \<Rightarrow> 'c iomanager \<Rightarrow> fd_table \<Rightarrow>
    (fault + 'c dispatch list) \<times> 'c iomanager \<times> fd_table" where
  "hooked_close hook iom fd rt io table =
     (if \<not> hook then (Inr [], io, table) else
      case get_lookup fd False table of
        Inl e \<Rightarrow> (Inl e, io, table)
      | Inr (Some (Some c)) \<Rightarrow>
          (if iom then
             (case cancelAll fd rt io of
                (Inl e, io) \<Rightarrow> (Inl e, io, table)
              | (Inr (b, ds), io) \<Rightarrow> (Inr ds, io, snd (FdManager_del fd table)))
           else (Inr [], io, snd (FdManager_del fd table)))
      | Inr _ \<Rightarrow> (Inr [], io, table))"

datatype fcntl_cmd =
    F_SETFL | F_GETFL
  | F_DUPFD | F_DUPFD_CLOEXEC | F_SETFD | F_SETOWN | F_SETSIG | F_SETLEASE | F_NOTIFY | F_SETPIPE_SZ
  | F_GETFD | F_GETOWN | F_GETSIG | F_GETLEASE | F_GETPIPE_SZ
  | F_SETLK | F_SETLKW | F_GETLK
  | F_GETOWN_EX | F_SETOWN_EX
  | F_other int

datatype fcntl_arg = Arg_int u32 | Arg_ptr nat | Arg_none

definition managed :: "fd_ctx option \<Rightarrow> bool" where
  "managed fdc \<longleftrightarrow> (\<exists>c. fdc = Some c \<and> \<not> m_isClosed c \<and> m_isSocket c)"

lemma managed_code [code]:
  "managed fdc = (case fdc of None \<Rightarrow> False | Some c \<Rightarrow> \<not> m_isClosed c \<and> m_isSocket c)"
  by (auto simp: managed_def split: option.splits)

text \<open>
  \<open>fcntl\<close>: the result, the object of the descriptor, and the call made to the original.
  \<open>kernel\<close> gives the results of the original; \<open>iarg\<close> and \<open>parg\<close> are the third argument
  read as an \<open>int\<close> and as a pointer.
\<close>

definition hooked_fcntl :: "(fcntl_cmd \<Rightarrow> fcntl_arg \<Rightarrow> u32) \<Rightarrow> fcntl_cmd \<Rightarrow> u32 \<Rightarrow> nat \<Rightarrow> fd_ctx option \<Rightarrow>
    u32 \<times> fd_ctx option \<times> fcntl_arg" where
  "hooked_fcntl orig cmd iarg parg fdc =
     (case cmd of
        F_SETFL \<Rightarrow>
          if \<not> managed fdc then (orig cmd (Arg_int iarg), fdc, Arg_int iarg) else
          let c = (the fdc)\<lparr>m_userNonblock := iarg AND O_NONBLOCK \<noteq> 0\<rparr>;
              arg = (if m_sysNonblock c then iarg OR O_NONBLOCK else iarg AND NOT O_NONBLOCK)
          in (orig cmd (Arg_int arg), Some c, Arg_int arg)
      | F_GETFL \<Rightarrow>
          let arg = orig cmd Arg_none in
          if \<not> managed fdc then (arg, fdc, Arg_none)
          else if m_userNonblock (the fdc) then (arg OR O_NONBLOCK, fdc, Arg_none)
          else (arg AND NOT O_NONBLOCK, fdc, Arg_none)
      | F_GETFD \<Rightarrow> (orig cmd Arg_none, fdc, Arg_none)
      | F_GETOWN \<Rightarrow> (orig cmd Arg_none, fdc, Arg_none)
      | F_GETSIG \<Rightarrow> (orig cmd Arg_none, fdc, Arg_none)
      | F_GETLEASE \<Rightarrow> (orig cmd Arg_none, fdc, Arg_none)
      | F_GETPIPE_SZ \<Rightarrow> (orig cmd Arg_none, fdc, Arg_none)
      | F_SETLK \<Rightarrow> (orig cmd (Arg_ptr parg), fdc, Arg_ptr parg)
      | F_SETLKW \<Rightarrow> (orig cmd (Arg_ptr parg), fdc, Arg_ptr parg)
      | F_GETLK \<Rightarrow> (orig cmd (Arg_ptr parg), fdc, Arg_ptr parg)
      | F_GETOWN_EX \<Rightarrow> (orig cmd (Arg_ptr parg), fdc, Arg_ptr parg)
      | F_SETOWN_EX \<Rightarrow> (orig cmd (Arg_ptr parg), fdc, Arg_ptr parg)
      | F_other n \<Rightarrow> (orig cmd Arg_none, fdc, Arg_none)
      | _ \<Rightarrow> (orig cmd (Arg_int iarg), fdc, Arg_int iarg))"

text \<open>\<open>ioctl\<close> with \<open>FIONBIO\<close>: the object of the descriptor, and the value the kernel is given.\<close>

definition hooked_ioctl :: "bool \<Rightarrow> int \<Rightarrow> fd_ctx option \<Rightarrow> fd_ctx option \<times> int" where
  "hooked_ioctl is_FIONBIO val fdc =
     (if is_FIONBIO then
        (if \<not> managed fdc then (fdc, val)
         else (Some ((the fdc)\<lparr>m_userNonblock := (val \<noteq> 0)\<rparr>), val))
      else (fdc, val))"

text \<open>\<open>setsockopt\<close> of a timeout of \<open>tv_sec\<close> seconds and \<open>tv_usec\<close> microseconds.\<close>

definition hooked_setsockopt :: "bool \<Rightarrow> bool \<Rightarrow> int \<Rightarrow> u64 \<Rightarrow> u64 \<Rightarrow> fd_ctx option \<Rightarrow> fd_ctx option" where
  "hooked_setsockopt hook is_SOL_SOCKET optname tv_sec tv_usec fdc =
     (if hook \<and> is_SOL_SOCKET \<and> (optname = SO_RCVTIMEO \<or> optname = SO_SNDTIMEO) then
        map_option (setTimeout optname (tv_sec * 1000 + word_of_int (sint tv_usec sdiv 1000))) fdc
      else fdc)"

text \<open>What the kernel's flags are after these calls.\<close>

definition kernel_after_setfl :: "fcntl_arg \<Rightarrow> u32" where
  "kernel_after_setfl a = (case a of Arg_int v \<Rightarrow> v | _ \<Rightarrow> 0)"

definition kernel_after_fionbio :: "int \<Rightarrow> u32 \<Rightarrow> u32" where
  "kernel_after_fionbio val fl = (if val \<noteq> 0 then fl OR O_NONBLOCK else fl AND NOT O_NONBLOCK)"

section \<open>Properties\<close>

definition transient :: "sysret \<Rightarrow> bool" where
  "transient r \<longleftrightarrow> fst r = -1 \<and> (snd r = EINTR \<or> snd r = EAGAIN)"

definition timers_open :: "io_action list \<Rightarrow> int" where
  "timers_open acts = (\<Sum>a \<leftarrow> acts. case a of Add_timer _ \<Rightarrow> 1 | Cancel_timer \<Rightarrow> -1 | _ \<Rightarrow> 0)"

lemma timers_open_simps [simp]:
  "timers_open [] = 0" "timers_open (a # as) =
     (case a of Add_timer _ \<Rightarrow> 1 | Cancel_timer \<Rightarrow> -1 | _ \<Rightarrow> 0) + timers_open as"
  "timers_open (as @ bs) = timers_open as + timers_open bs"
  by (simp_all add: timers_open_def)

lemma do_io_retry_result:
  "do_io_retry True to event rs wakes = (Some res, acts) \<Longrightarrow>
   timers_open acts = 0 \<and>
   (\<exists>v. res = Inr v \<and>
     (v \<in> set rs \<and> \<not> transient v \<or>
      v = (-1, ETIMEDOUT) \<and> to \<noteq> no_timeout \<and> Woken_timeout \<in> set wakes \<or>
      (\<exists>e. v = (-1, e) \<and> Add_failed e \<in> set wakes)))"
proof (induction rs arbitrary: wakes res acts)
  case Nil
  then show ?case by simp
next
  case (Cons r rs)
  consider (intr) "fst r = -1" "snd r = EINTR" | (again) "fst r = -1" "snd r = EAGAIN"
    | (final) "\<not> transient r"
    by (auto simp: transient_def)
  then show ?case
  proof cases
    case intr
    then obtain acts' where "do_io_retry True to event rs wakes = (Some res, acts')" "acts = Sys_call # acts'"
      using Cons.prems by (auto split: prod.splits)
    then show ?thesis using Cons.IH by fastforce
  next
    case again
    then have ne: "snd r \<noteq> EINTR" by (simp add: errno_defs)
    obtain w ws where w: "wakes = w # ws" using Cons.prems again ne by (cases wakes) (auto simp: Let_def)
    show ?thesis
    proof (cases "(\<exists>e. w = Add_failed e) \<or> w = Woken_timeout \<and> to \<noteq> no_timeout")
      case True
      then show ?thesis using Cons.prems again ne w by (auto simp: Let_def split: if_splits)
    next
      case False
      then obtain acts' where r: "do_io_retry True to event rs ws = (Some res, acts')"
        and a: "timers_open acts = timers_open acts'"
        using Cons.prems again ne w by (cases w) (auto simp: Let_def split: prod.splits if_splits)
      then show ?thesis using Cons.IH [OF r] w by auto
    qed
  next
    case final
    then have "res = Inr r \<and> acts = [Sys_call]" using Cons.prems by (auto simp: transient_def)
    then show ?thesis using final by simp
  qed
qed

text \<open>When only events wake it, the call returns the first result that is final.\<close>

definition blocked :: "sysret \<Rightarrow> bool" where
  "blocked r \<longleftrightarrow> fst r = -1 \<and> snd r = EAGAIN"

lemma do_io_retry_returns:
  "\<lbrakk>List.find (\<lambda>r. \<not> transient r) rs = Some v; length (filter blocked rs) \<le> length wakes;
    set wakes \<subseteq> {Woken_event}\<rbrakk> \<Longrightarrow>
   fst (do_io_retry True to event rs wakes) = Some (Inr v)"
proof (induction rs arbitrary: wakes)
  case Nil
  then show ?case by simp
next
  case (Cons r rs)
  consider (intr) "fst r = -1" "snd r = EINTR" | (again) "blocked r" | (final) "\<not> transient r"
    by (auto simp: transient_def blocked_def)
  then show ?case
  proof cases
    case intr
    then have "transient r" "\<not> blocked r" by (simp_all add: transient_def blocked_def errno_defs)
    then have "fst (do_io_retry True to event rs wakes) = Some (Inr v)" using Cons by simp
    then show ?thesis using intr by (simp add: case_prod_beta)
  next
    case again
    then have r: "fst r = -1" "snd r = EAGAIN" "snd r \<noteq> EINTR" by (simp_all add: blocked_def errno_defs)
    obtain w ws where w: "wakes = w # ws" using Cons.prems again by (cases wakes) simp_all
    then have "fst (do_io_retry True to event rs ws) = Some (Inr v)"
      using Cons again r by (simp add: transient_def)
    then show ?thesis using w r Cons.prems(3) by (simp add: Let_def case_prod_beta)
  next
    case final
    then have "v = r" using Cons.prems by simp
    then show ?thesis using final by (auto simp: transient_def)
  qed
qed

text \<open>
  C18. A hooked call returns: woken by events only, at least as often as the original
  function says \<open>EAGAIN\<close>, it gives its caller the first result that is neither \<open>EAGAIN\<close>
  nor \<open>EINTR\<close>.
\<close>

theorem hooked_call_returns:
  assumes "m_isSocket c" "\<not> m_isClosed c" "\<not> m_userNonblock c"
    and "List.find (\<lambda>r. \<not> (fst r = -1 \<and> (snd r = EINTR \<or> snd r = EAGAIN))) rs = Some v"
    and "length (filter (\<lambda>r. fst r = -1 \<and> snd r = EAGAIN) rs) \<le> length wakes"
    and "set wakes \<subseteq> {Woken_event}"
  shows "fst (do_io True True (Some c) event timeout_so rs wakes) = Some (Inr v)"
proof -
  have "List.find (\<lambda>r. \<not> transient r) rs = Some v" "length (filter blocked rs) \<le> length wakes"
    using assms(4,5) by (simp_all add: transient_def blocked_def [abs_def])
  from do_io_retry_returns [OF this assms(6)] show ?thesis using assms(1-3) by (simp add: do_io_def)
qed

theorem hooked_call_returns_witness:
  "fst (do_io True True (Some (fd_ctx.make True True True False False 5 100 no_timeout)) EV_READ SO_RCVTIMEO
      [(-1, EAGAIN), (-1, EINTR), (-1, EAGAIN), (7, 0), (9, 0)]
      [Woken_event, Woken_event]) = Some (Inr (7, 0))"
  by (rule hooked_call_returns) (simp_all add: fd_ctx.defs errno_defs)

text \<open>
  C9. A hooked call on a blocking socket gives its caller a result of the original
  function that is neither \<open>EAGAIN\<close> nor \<open>EINTR\<close>, or \<open>ETIMEDOUT\<close> when the socket has a
  timeout and it ran out, or the failure to wait; and whichever way it returns, every timer
  it has set has been cancelled.
\<close>

theorem hooked_call_result:
  assumes "m_isSocket c" "\<not> m_isClosed c" "\<not> m_userNonblock c"
    and "do_io True True (Some c) event timeout_so rs wakes = (Some res, acts)"
  shows "timers_open acts = 0 \<and>
   (\<exists>v. res = Inr v \<and>
     (v \<in> set rs \<and> \<not> (fst v = -1 \<and> (snd v = EINTR \<or> snd v = EAGAIN)) \<or>
      v = (-1, ETIMEDOUT) \<and> getTimeout timeout_so c \<noteq> -1 \<and> Woken_timeout \<in> set wakes \<or>
      (\<exists>e. v = (-1, e) \<and> Add_failed e \<in> set wakes)))"
  using do_io_retry_result [of "getTimeout timeout_so c" event rs wakes res acts] assms
  by (auto simp: do_io_def transient_def no_timeout_def)

definition demo_socket :: fd_ctx where
  "demo_socket = \<lparr>m_isInit = True, m_isSocket = True, m_sysNonblock = True, m_userNonblock = False,
     m_isClosed = False, m_fd = 5, m_recvTimeout = 100, m_sendTimeout = -1\<rparr>"

theorem hooked_call_result_witness:
  "\<exists>acts. do_io True True (Some demo_socket) EV_READ SO_RCVTIMEO [(-1, EINTR), (-1, EAGAIN), (7, 0)]
      [Woken_event] = (Some (Inr (7, 0)), acts) \<and> timers_open acts = 0"
proof -
  obtain acts where d: "do_io True True (Some demo_socket) EV_READ SO_RCVTIMEO
      [(-1, EINTR), (-1, EAGAIN), (7, 0)] [Woken_event] = (Some (Inr (7, 0)), acts)"
    by (auto simp: do_io_def demo_socket_def errno_defs Let_def getTimeout_def)
  from hooked_call_result [OF _ _ _ d] have "timers_open acts = 0" by (simp add: demo_socket_def)
  then show ?thesis using d by blast
qed

text \<open>
  The flag \<open>O_NONBLOCK\<close> of a managed socket has two faces: after \<open>fcntl(F_SETFL)\<close> the
  kernel's descriptor is non-blocking whatever the user asked for, while \<open>F_GETFL\<close>
  reports what the user asked for. \<open>ioctl(FIONBIO)\<close> keeps the same record but hands the
  user's value to the kernel, so that turning the flag off makes the descriptor blocking
  under a hook that relies on it being not.
\<close>

theorem nonblock_faces:
  assumes "m_isSocket c" "\<not> m_isClosed c" "m_sysNonblock c"
  shows "\<exists>c' a. hooked_fcntl orig F_SETFL arg p (Some c) = (orig F_SETFL a, Some c', a) \<and>
      kernel_after_setfl a AND O_NONBLOCK \<noteq> 0 \<and>
      (m_userNonblock c' \<longleftrightarrow> arg AND O_NONBLOCK \<noteq> 0) \<and>
      (fst (hooked_fcntl orig F_GETFL 0 p (Some c')) AND O_NONBLOCK \<noteq> 0 \<longleftrightarrow> arg AND O_NONBLOCK \<noteq> 0) \<and>
      hooked_ioctl True 0 (Some c') = (Some (c'\<lparr>m_userNonblock := False\<rparr>), 0) \<and>
      kernel_after_fionbio 0 (kernel_after_setfl a) AND O_NONBLOCK = 0"
proof -
  let ?c = "c\<lparr>m_userNonblock := arg AND O_NONBLOCK \<noteq> 0\<rparr>"
  let ?a = "arg OR O_NONBLOCK"
  have nb: "(v OR O_NONBLOCK) AND O_NONBLOCK \<noteq> 0" "(v AND NOT O_NONBLOCK) AND O_NONBLOCK = 0" for v
  proof -
    have "(v OR O_NONBLOCK) AND O_NONBLOCK = O_NONBLOCK" by (rule bit_eqI) (auto simp: bit_simps)
    then show "(v OR O_NONBLOCK) AND O_NONBLOCK \<noteq> 0" by (simp add: O_NONBLOCK_def)
    show "(v AND NOT O_NONBLOCK) AND O_NONBLOCK = 0" by (rule bit_eqI) (auto simp: bit_simps)
  qed
  have m: "managed (Some c)" "managed (Some ?c)" using assms by (simp_all add: managed_def)
  have "hooked_fcntl orig F_SETFL arg p (Some c) = (orig F_SETFL (Arg_int ?a), Some ?c, Arg_int ?a)"
    using m assms(3) by (simp add: hooked_fcntl_def Let_def)
  then show ?thesis using m nb
    by (intro exI [of _ ?c] exI [of _ "Arg_int ?a"])
      (simp add: hooked_fcntl_def Let_def hooked_ioctl_def kernel_after_setfl_def kernel_after_fionbio_def)
qed

theorem nonblock_faces_witness:
  "\<exists>c' a. hooked_fcntl (\<lambda>_ _. 0) F_SETFL 0 0 (Some demo_socket) = (0, Some c', a) \<and>
     \<not> m_userNonblock c' \<and> kernel_after_setfl a AND O_NONBLOCK \<noteq> 0"
  using nonblock_faces [of demo_socket "\<lambda>_ _. 0" 0 0]
  by (auto simp: demo_socket_def)

end
