(* ===== verification/Texts.thy ===== *)
theory Texts
  imports Prelude "HOL-Library.List_Lexorder" "HOL-Library.Sublist"
begin

text \<open>
  Text as the code handles it: \<open>std::string\<close> is a list of characters, \<open>c_str()\<close> the part
  before the first null character. Integers written to a stream in base ten and sixteen,
  and the comparison \<open>strcasecmp\<close> in the C locale.
\<close>

section \<open>C strings\<close>

definition c_str :: "string \<Rightarrow> string" where
  "c_str s = takeWhile (\<lambda>c. c \<noteq> CHR 0x00) s"

lemma c_str_id: "CHR 0x00 \<notin> set s \<Longrightarrow> c_str s = s"
  by (simp add: c_str_def takeWhile_eq_all_conv) blast

lemma c_str_append: "CHR 0x00 \<notin> set s \<Longrightarrow> c_str (s @ CHR 0x00 # t) = s"
  by (induction s) (auto simp: c_str_def)

lemma c_str_no_nul: "CHR 0x00 \<notin> set (c_str s)"
  by (auto simp: c_str_def dest: set_takeWhileD)

definition tolower :: "char \<Rightarrow> nat" where
  "tolower c = (let n = of_char c in if 65 \<le> n \<and> n \<le> 90 then n + 32 else n)"

lemma tolower_zero [simp]: "tolower c = 0 \<longleftrightarrow> c = CHR 0x00"
proof -
  have "(of_char c :: nat) = of_char (CHR 0x00) \<longleftrightarrow> c = CHR 0x00" by (rule of_char_eq_iff)
  then have "(of_char c :: nat) = 0 \<longleftrightarrow> c = CHR 0x00" by simp
  then show ?thesis by (auto simp: tolower_def Let_def)
qed

lemma tolower_pos: "c \<noteq> CHR 0x00 \<Longrightarrow> 0 < tolower c"
  using tolower_zero by (metis neq0_conv)

text \<open>\<open>strcasecmp\<close> on two C strings; the terminator counts as a zero.\<close>

fun strcasecmp :: "string \<Rightarrow> string \<Rightarrow> int" where
  "strcasecmp [] [] = 0"
| "strcasecmp [] (b # bs) = - int (tolower b)"
| "strcasecmp (a # as) [] = int (tolower a)"
| "strcasecmp (a # as) (b # bs) =
     (if tolower a = tolower b then strcasecmp as bs else int (tolower a) - int (tolower b))"

lemma strcasecmp_less:
  "CHR 0x00 \<notin> set a \<Longrightarrow> CHR 0x00 \<notin> set b \<Longrightarrow>
   strcasecmp a b < 0 \<longleftrightarrow> map tolower a < map tolower b"
  by (induction a b rule: strcasecmp.induct) (auto simp: tolower_pos)

lemma strcasecmp_eq:
  "CHR 0x00 \<notin> set a \<Longrightarrow> CHR 0x00 \<notin> set b \<Longrightarrow>
   strcasecmp a b = 0 \<longleftrightarrow> map tolower a = map tolower b"
  by (induction a b rule: strcasecmp.induct) auto

section \<open>Numbers\<close>

definition digit :: "nat \<Rightarrow> char" where
  "digit d = ''0123456789abcdef'' ! d"

fun show_base :: "nat \<Rightarrow> nat \<Rightarrow> string" where
  "show_base b n = (if b < 2 \<or> n < b then [digit n] else show_base b (n div b) @ [digit (n mod b)])"

declare show_base.simps [simp del]

definition dec :: "nat \<Rightarrow> string" where
  "dec n = show_base 10 n"

definition dec_int :: "int \<Rightarrow> string" where
  "dec_int n = (if n < 0 then CHR ''-'' # dec (nat (- n)) else dec (nat n))"

definition hexs :: "nat \<Rightarrow> string" where
  "hexs n = show_base 16 n"

text \<open>Reading a numeral back.\<close>

definition digit_value :: "char \<Rightarrow> nat" where
  "digit_value c = length (takeWhile (\<lambda>x. x \<noteq> c) ''0123456789abcdef'')"

definition read_base :: "nat \<Rightarrow> string \<Rightarrow> nat" where
  "read_base b s = foldl (\<lambda>n c. n * b + digit_value c) 0 s"

lemma digit_value_digit [simp]: "d < 16 \<Longrightarrow> digit_value (digit d) = d"
proof -
  assume "d < 16"
  then have "d \<in> set [0..<16]" by simp
  moreover have "\<forall>d \<in> set [0..<16]. digit_value (digit d) = d" by code_simp
  ultimately show ?thesis by blast
qed

lemma read_show: "2 \<le> b \<Longrightarrow> b \<le> 16 \<Longrightarrow> read_base b (show_base b n) = n"
proof (induction n rule: less_induct)
  case (less n)
  show ?case
  proof (cases "n < b")
    case True
    then show ?thesis using less.prems by (simp add: show_base.simps read_base_def)
  next
    case False
    then have "n div b < n" using less.prems by simp
    moreover have "n mod b < 16" using less.prems mod_less_divisor [of b n] by linarith
    ultimately show ?thesis using less False
      by (subst show_base.simps) (simp add: read_base_def)
  qed
qed

lemma digit_set: "d < 16 \<Longrightarrow> digit d \<in> set ''0123456789abcdef''"
proof -
  assume "d < 16"
  then have "d < length ''0123456789abcdef''" by simp
  then show ?thesis unfolding digit_def by (rule nth_mem)
qed

lemma show_base_set: "2 \<le> b \<Longrightarrow> b \<le> 16 \<Longrightarrow> set (show_base b n) \<subseteq> set ''0123456789abcdef''"
proof (induction n rule: less_induct)
  case (less n)
  show ?case
  proof (cases "n < b")
    case True
    then show ?thesis using less.prems digit_set [of n] by (subst show_base.simps) auto
  next
    case False
    then have "n div b < n" using less.prems by simp
    moreover have "n mod b < 16" using less.prems mod_less_divisor [of b n] by linarith
    ultimately show ?thesis using less False digit_set [of "n mod b"]
      by (subst show_base.simps) auto
  qed
qed

lemma show_base_ne [simp]: "show_base b n \<noteq> []"
  by (subst show_base.simps) simp

text \<open>A numeral has none of the characters that separate the parts of a message.\<close>

lemma dec_chars:
  "c \<in> set (dec n) \<Longrightarrow> c \<in> set ''0123456789abcdef''"
  "c \<in> set (hexs n) \<Longrightarrow> c \<in> set ''0123456789abcdef''"
  unfolding dec_def hexs_def by (rule subsetD [OF show_base_set]; simp)+

lemma dec_read [simp]: "read_base 10 (dec n) = n" "read_base 16 (hexs n) = n"
  unfolding dec_def hexs_def by (simp_all add: read_show)

lemma dec_inj: "dec m = dec n \<longleftrightarrow> m = n" "hexs m = hexs n \<longleftrightarrow> m = n"
  by (metis dec_read(1)) (metis dec_read(2))

lemma dec_ne [simp]: "dec n \<noteq> []" "hexs n \<noteq> []"
  by (simp_all add: dec_def hexs_def)

text \<open>A character as C++ compares it: \<open>char\<close> is signed.\<close>

definition char_int :: "char \<Rightarrow> int" where
  "char_int c = (let n = of_char c in if n < 128 then n else n - 256)"

section \<open>Reading numbers\<close>

definition isspace :: "char \<Rightarrow> bool" where
  "isspace c = (let n = char_int c in 9 \<le> n \<and> n \<le> 13 \<or> n = 32)"

definition digit_of :: "int \<Rightarrow> char \<Rightarrow> int option" where
  "digit_of base c =
     (let n = char_int c;
          v = (if 48 \<le> n \<and> n \<le> 57 then n - 48 else if 97 \<le> n \<and> n \<le> 122 then n - 87
               else if 65 \<le> n \<and> n \<le> 90 then n - 55 else base)
      in if v < base then Some v else None)"

fun read_digits :: "int \<Rightarrow> int \<Rightarrow> string \<Rightarrow> int" where
  "read_digits base v [] = v"
| "read_digits base v (c # s) = (case digit_of base c of None \<Rightarrow> v | Some d \<Rightarrow> read_digits base (v * base + d) s)"

definition skip_prefix :: "int \<Rightarrow> string \<Rightarrow> string" where
  "skip_prefix base s =
     (case s of z # x # d # s' \<Rightarrow>
        if base = 16 \<and> z = CHR ''0'' \<and> (x = CHR ''x'' \<or> x = CHR ''X'') \<and> digit_of 16 d \<noteq> None then d # s' else s
      | _ \<Rightarrow> s)"

definition strtol :: "int \<Rightarrow> string \<Rightarrow> int" where
  "strtol base s =
     (let t = dropWhile isspace s;
          neg = (t \<noteq> [] \<and> hd t = CHR ''-'');
          t = (if t \<noteq> [] \<and> (hd t = CHR ''-'' \<or> hd t = CHR ''+'') then tl t else t);
          v = read_digits base 0 (skip_prefix base t)
      in if neg then max (- (2 ^ 63)) (- v) else min (2 ^ 63 - 1) v)"

text \<open>The assignment of a \<open>long\<close> to an \<open>int\<close>, and \<open>atoi\<close>.\<close>

definition to_int :: "int \<Rightarrow> int" where
  "to_int v = sint (word_of_int v :: 32 word)"

definition atoi :: "string \<Rightarrow> int" where
  "atoi s = to_int (strtol 10 s)"

lemma digit_of_digits:
  "c \<in> set ''0123456789abcdef'' \<Longrightarrow> (digit_of b c = (if int (digit_value c) < b then Some (int (digit_value c)) else None)) \<and>
    \<not> isspace c \<and> c \<noteq> CHR ''-'' \<and> c \<noteq> CHR ''+'' \<and> c \<noteq> CHR ''x'' \<and> c \<noteq> CHR ''X''"
proof -
  have "\<forall>c \<in> set ''0123456789abcdef''.
      char_int c = (if digit_value c < 10 then 48 + int (digit_value c) else 87 + int (digit_value c)) \<and> digit_value c < 16 \<and>
      \<not> isspace c \<and> c \<noteq> CHR ''-'' \<and> c \<noteq> CHR ''+'' \<and> c \<noteq> CHR ''x'' \<and> c \<noteq> CHR ''X''" by code_simp
  moreover assume "c \<in> set ''0123456789abcdef''"
  ultimately have c: "char_int c = (if digit_value c < 10 then 48 + int (digit_value c) else 87 + int (digit_value c))"
      "digit_value c < 16" and r: "\<not> isspace c \<and> c \<noteq> CHR ''-'' \<and> c \<noteq> CHR ''+'' \<and> c \<noteq> CHR ''x'' \<and> c \<noteq> CHR ''X''" by blast+
  have "digit_of b c = (if int (digit_value c) < b then Some (int (digit_value c)) else None)"
    using c by (cases "digit_value c < 10") (simp_all add: digit_of_def)
  with r show ?thesis by blast
qed

lemma show_base_values: "2 \<le> b \<Longrightarrow> b \<le> 16 \<Longrightarrow> c \<in> set (show_base b n) \<Longrightarrow> digit_value c < b"
proof (induction n rule: less_induct)
  case (less n)
  have m: "n mod b < b" "n mod b < 16" using less.prems mod_less_divisor [of b n] by linarith+
  show ?case
  proof (cases "n < b")
    case True
    then have "c = digit n" using less.prems by (subst (asm) show_base.simps) auto
    then show ?thesis using True less.prems by simp
  next
    case False
    then have "n div b < n" using less.prems by simp
    moreover have "c = digit (n mod b) \<or> c \<in> set (show_base b (n div b))"
      using less.prems False by (subst (asm) show_base.simps) auto
    ultimately show ?thesis using less m by auto
  qed
qed

lemma read_digits_value:
  "\<forall>c \<in> set s. c \<in> set ''0123456789abcdef'' \<and> digit_value c < b \<Longrightarrow> t = [] \<or> digit_of (int b) (hd t) = None \<Longrightarrow>
   read_digits (int b) (int v) (s @ t) = int (foldl (\<lambda>n c. n * b + digit_value c) v s)"
proof (induction s arbitrary: v)
  case Nil
  then show ?case by (cases t) auto
next
  case (Cons c s)
  then have "digit_of (int b) c = Some (int (digit_value c))" using digit_of_digits [of c "int b"] by simp
  moreover have "read_digits (int b) (int (v * b + digit_value c)) (s @ t) =
      int (foldl (\<lambda>n c. n * b + digit_value c) (v * b + digit_value c) s)"
    by (rule Cons.IH) (use Cons.prems in simp_all)
  ultimately show ?case by simp
qed

lemma strtol_show:
  assumes "b \<in> {10, 16}" "n < 2 ^ 63" "t = [] \<or> digit_of (int b) (hd t) = None" "t = [] \<or> hd t \<notin> set ''xX''"
  shows "strtol (int b) (show_base b n @ t) = int n"
proof -
  have b: "2 \<le> b" "b \<le> 16" using assms(1) by auto
  let ?w = "show_base b n"
  obtain c s where c: "?w = c # s" by (cases ?w) auto
  have d: "\<forall>c \<in> set ?w. c \<in> set ''0123456789abcdef'' \<and> digit_value c < b"
    using show_base_set [OF b] show_base_values [OF b] by blast
  then have cd: "c \<in> set ''0123456789abcdef''" using c by simp
  have "skip_prefix (int b) (?w @ t) = ?w @ t"
  proof (cases "s @ t")
    case (Cons a u)
    then have "a \<in> set s \<or> t \<noteq> [] \<and> a = hd t" by (cases s) auto
    then consider "a \<in> set ?w" | "a \<notin> set ''xX''" using c assms(4) by (metis list.set_intros(2))
    then have "a \<noteq> CHR ''x'' \<and> a \<noteq> CHR ''X''"
    proof cases
      case 1
      with d digit_of_digits [of a 0] show ?thesis by blast
    qed simp
    then show ?thesis using c Cons by (simp add: skip_prefix_def split: list.splits)
  qed (simp add: c skip_prefix_def)
  moreover have "read_digits (int b) 0 (?w @ t) = int n"
    using read_digits_value [OF d assms(3), of 0] read_show [OF b, of n] by (simp add: read_base_def)
  ultimately show ?thesis
    using c digit_of_digits [OF cd] assms(2) by (simp add: strtol_def Let_def)
qed

lemma strtol_hexs: "n < 2 ^ 63 \<Longrightarrow> t = [] \<or> digit_of 16 (hd t) = None \<Longrightarrow> t = [] \<or> hd t \<notin> set ''xX'' \<Longrightarrow>
    strtol 16 (hexs n @ t) = int n"
  using strtol_show [of 16 n t] by (simp add: hexs_def)

lemma strtol_dec: "n < 2 ^ 63 \<Longrightarrow> t = [] \<or> digit_of 10 (hd t) = None \<Longrightarrow> t = [] \<or> hd t \<notin> set ''xX'' \<Longrightarrow>
    strtol 10 (dec n @ t) = int n"
  using strtol_show [of 10 n t] by (simp add: dec_def)

end
