(* ===== verification/Http_Messages.thy ===== *)
theory Http_Messages
  imports Texts Ordered_Containers
begin

text \<open>
  HTTP messages (\<open>sylar/http/http.h\<close>, \<open>sylar/http/http.cc\<close>): the method and status
  tables, the case-insensitive header map, requests and responses and how they are written
  out. A header map is a \<open>std::map\<close> under \<open>CaseInsensitiveLess\<close>, so it is the ordered
  association list of theory \<open>Ordered_Containers\<close>, whose locale of orders is interpreted
  here on that comparison. Bytes of a message are characters.

  \<open>HttpMethod\<close> is the enumeration. A status is the number itself: the parser casts whatever
  number the peer sent to the enumeration type, and only the table tells which are named.
\<close>

section \<open>Methods and status codes\<close>

datatype HttpMethod =
    DELETE | GET | HEAD | POST | PUT | CONNECT | OPTIONS | TRACE | COPY | LOCK | MKCOL | MOVE |
    PROPFIND | PROPPATCH | SEARCH | UNLOCK | BIND | REBIND | UNBIND | ACL | REPORT | MKACTIVITY |
    CHECKOUT | MERGE | MSEARCH | NOTIFY | SUBSCRIBE | UNSUBSCRIBE | PATCH | PURGE | MKCALENDAR |
    LINK | UNLINK | SOURCE | INVALID_METHOD

definition HTTP_METHOD_MAP :: "(nat \<times> HttpMethod \<times> string) list" where
  "HTTP_METHOD_MAP = [
     (0, DELETE, ''DELETE''), (1, GET, ''GET''), (2, HEAD, ''HEAD''), (3, POST, ''POST''),
     (4, PUT, ''PUT''), (5, CONNECT, ''CONNECT''), (6, OPTIONS, ''OPTIONS''),
     (7, TRACE, ''TRACE''), (8, COPY, ''COPY''), (9, LOCK, ''LOCK''), (10, MKCOL, ''MKCOL''),
     (11, MOVE, ''MOVE''), (12, PROPFIND, ''PROPFIND''), (13, PROPPATCH, ''PROPPATCH''),
     (14, SEARCH, ''SEARCH''), (15, UNLOCK, ''UNLOCK''), (16, BIND, ''BIND''),
     (17, REBIND, ''REBIND''), (18, UNBIND, ''UNBIND''), (19, ACL, ''ACL''),
     (20, REPORT, ''REPORT''), (21, MKACTIVITY, ''MKACTIVITY''), (22, CHECKOUT, ''CHECKOUT''),
     (23, MERGE, ''MERGE''), (24, MSEARCH, ''M-SEARCH''), (25, NOTIFY, ''NOTIFY''),
     (26, SUBSCRIBE, ''SUBSCRIBE''), (27, UNSUBSCRIBE, ''UNSUBSCRIBE''), (28, PATCH, ''PATCH''),
     (29, PURGE, ''PURGE''), (30, MKCALENDAR, ''MKCALENDAR''), (31, LINK, ''LINK''),
     (32, UNLINK, ''UNLINK''), (33, SOURCE, ''SOURCE'')]"

definition HTTP_STATUS_MAP :: "(u32 \<times> string) list" where
  "HTTP_STATUS_MAP = [
     (100, ''Continue''), (101, ''Switching Protocols''), (102, ''Processing''), (200, ''OK''),
     (201, ''Created''), (202, ''Accepted''), (203, ''Non-Authoritative Information''),
     (204, ''No Content''), (205, ''Reset Content''), (206, ''Partial Content''),
     (207, ''Multi-Status''), (208, ''Already Reported''), (226, ''IM Used''),
     (300, ''Multiple Choices''), (301, ''Moved Permanently''), (302, ''Found''),
     (303, ''See Other''), (304, ''Not Modified''), (305, ''Use Proxy''),
     (307, ''Temporary Redirect''), (308, ''Permanent Redirect''), (400, ''Bad Request''),
     (401, ''Unauthorized''), (402, ''Payment Required''), (403, ''Forbidden''),
     (404, ''Not Found''), (405, ''Method Not Allowed''), (406, ''Not Acceptable''),
     (407, ''Proxy Authentication Required''), (408, ''Request Timeout''), (409, ''Conflict''),
     (410, ''Gone''), (411, ''Length Required''), (412, ''Precondition Failed''),
     (413, ''Payload Too Large''), (414, ''URI Too Long''), (415, ''Unsupported Media Type''),
     (416, ''Range Not Satisfiable''), (417, ''Expectation Failed''),
     (421, ''Misdirected Request''), (422, ''Unprocessable Entity''), (423, ''Locked''),
     (424, ''Failed Dependency''), (426, ''Upgrade Required''), (428, ''Precondition Required''),
     (429, ''Too Many Requests''), (431, ''Request Header Fields Too Large''),
     (451, ''Unavailable For Legal Reasons''), (500, ''Internal Server Error''),
     (501, ''Not Implemented''), (502, ''Bad Gateway''), (503, ''Service Unavailable''),
     (504, ''Gateway Timeout''), (505, ''HTTP Version Not Supported''),
     (506, ''Variant Also Negotiates''), (507, ''Insufficient Storage''),
     (508, ''Loop Detected''), (510, ''Not Extended''),
     (511, ''Network Authentication Required'')]"

text \<open>The number of a method: \<open>INVALID_METHOD\<close> follows the last one of the table.\<close>

definition method_id :: "HttpMethod \<Rightarrow> nat" where
  "method_id m = (case List.find (\<lambda>(n, x, s). x = m) HTTP_METHOD_MAP of
     Some (n, x, s) \<Rightarrow> n | None \<Rightarrow> fst (last HTTP_METHOD_MAP) + 1)"

definition StringToHttpMethod :: "string \<Rightarrow> HttpMethod" where
  "StringToHttpMethod m = (case List.find (\<lambda>(n, x, s). s = c_str m) HTTP_METHOD_MAP of
     Some (n, x, s) \<Rightarrow> x | None \<Rightarrow> INVALID_METHOD)"

definition CharsToHttpMethod :: "string \<Rightarrow> HttpMethod" where
  "CharsToHttpMethod m = (case List.find (\<lambda>(n, x, s). take (length s) (c_str m) = s) HTTP_METHOD_MAP of
     Some (n, x, s) \<Rightarrow> x | None \<Rightarrow> INVALID_METHOD)"

definition s_method_string :: "string list" where
  "s_method_string = map (\<lambda>(n, x, s). s) HTTP_METHOD_MAP"

definition HttpMethodToString :: "HttpMethod \<Rightarrow> string" where
  "HttpMethodToString m =
     (let ids = method_id m
      in if ids \<ge> length s_method_string then ''<unknown>'' else s_method_string ! ids)"

definition HttpStatusToString :: "u32 \<Rightarrow> string" where
  "HttpStatusToString s = (case map_of HTTP_STATUS_MAP s of Some msg \<Rightarrow> msg | None \<Rightarrow> ''<unknown>'')"

section \<open>Header maps\<close>

definition CaseInsensitiveLess :: "string \<Rightarrow> string \<Rightarrow> bool" where
  "CaseInsensitiveLess lhs rhs \<longleftrightarrow> strcasecmp (c_str lhs) (c_str rhs) < 0"

text \<open>What the comparison sees of a key.\<close>

definition folded :: "string \<Rightarrow> nat list" where
  "folded s = map tolower (c_str s)"

lemma CaseInsensitiveLess_folded: "CaseInsensitiveLess a b \<longleftrightarrow> folded a < folded b"
  by (simp add: CaseInsensitiveLess_def folded_def strcasecmp_less c_str_no_nul)

lemma strcasecmp_folded: "strcasecmp (c_str a) (c_str b) = 0 \<longleftrightarrow> folded a = folded b"
  by (simp add: folded_def strcasecmp_eq c_str_no_nul)

interpretation ci: strict_weak_order CaseInsensitiveLess
  by unfold_locales (auto simp: CaseInsensitiveLess_folded)

lemma ci_equiv: "ci.equiv a b \<longleftrightarrow> folded a = folded b"
  by (auto simp: ci.equiv_def CaseInsensitiveLess_folded)

type_synonym header_map = "(string \<times> string) list"

record HttpRequest =
  req_method :: HttpMethod
  req_version :: u8
  req_close :: bool
  req_path :: string
  req_query :: string
  req_fragment :: string
  req_body :: string
  req_headers :: header_map
  req_params :: header_map
  req_cookies :: header_map

record HttpResponse =
  rsp_status :: u32
  rsp_version :: u8
  rsp_close :: bool
  rsp_body :: string
  rsp_reason :: string
  rsp_headers :: header_map

definition HttpRequest_new :: "u8 \<Rightarrow> bool \<Rightarrow> HttpRequest" where
  "HttpRequest_new version close =
     \<lparr>req_method = GET, req_version = version, req_close = close, req_path = ''/'', req_query = [],
      req_fragment = [], req_body = [], req_headers = [], req_params = [], req_cookies = []\<rparr>"

definition HttpResponse_new :: "u8 \<Rightarrow> bool \<Rightarrow> HttpResponse" where
  "HttpResponse_new version close =
     \<lparr>rsp_status = 200, rsp_version = version, rsp_close = close, rsp_body = [], rsp_reason = [],
      rsp_headers = []\<rparr>"

definition map_get :: "string \<Rightarrow> string \<Rightarrow> header_map \<Rightarrow> string" where
  "map_get k def m = (case map_find CaseInsensitiveLess k m of None \<Rightarrow> def | Some v \<Rightarrow> v)"

definition getHeader :: "string \<Rightarrow> string \<Rightarrow> HttpRequest \<Rightarrow> string" where
  "getHeader k def r = map_get k def (req_headers r)"

definition getParam :: "string \<Rightarrow> string \<Rightarrow> HttpRequest \<Rightarrow> string" where
  "getParam k def r = map_get k def (req_params r)"

definition getCookie :: "string \<Rightarrow> string \<Rightarrow> HttpRequest \<Rightarrow> string" where
  "getCookie k def r = map_get k def (req_cookies r)"

definition setHeader :: "string \<Rightarrow> string \<Rightarrow> HttpRequest \<Rightarrow> HttpRequest" where
  "setHeader k v r = r\<lparr>req_headers := map_put CaseInsensitiveLess k v (req_headers r)\<rparr>"

definition setParam :: "string \<Rightarrow> string \<Rightarrow> HttpRequest \<Rightarrow> HttpRequest" where
  "setParam k v r = r\<lparr>req_params := map_put CaseInsensitiveLess k v (req_params r)\<rparr>"

definition setCookie :: "string \<Rightarrow> string \<Rightarrow> HttpRequest \<Rightarrow> HttpRequest" where
  "setCookie k v r = r\<lparr>req_cookies := map_put CaseInsensitiveLess k v (req_cookies r)\<rparr>"

definition delHeader :: "string \<Rightarrow> HttpRequest \<Rightarrow> HttpRequest" where
  "delHeader k r = r\<lparr>req_headers := map_erase CaseInsensitiveLess k (req_headers r)\<rparr>"

definition delParam :: "string \<Rightarrow> HttpRequest \<Rightarrow> HttpRequest" where
  "delParam k r = r\<lparr>req_params := map_erase CaseInsensitiveLess k (req_params r)\<rparr>"

definition delCookie :: "string \<Rightarrow> HttpRequest \<Rightarrow> HttpRequest" where
  "delCookie k r = r\<lparr>req_cookies := map_erase CaseInsensitiveLess k (req_cookies r)\<rparr>"

text \<open>The three \<open>has\<close> functions: the result, and what is assigned through the pointer.\<close>

definition hasHeader :: "string \<Rightarrow> HttpRequest \<Rightarrow> bool \<times> string option" where
  "hasHeader k r = (let v = map_find CaseInsensitiveLess k (req_headers r) in (v \<noteq> None, v))"

definition hasParam :: "string \<Rightarrow> HttpRequest \<Rightarrow> bool \<times> string option" where
  "hasParam k r = (let v = map_find CaseInsensitiveLess k (req_params r) in (v \<noteq> None, v))"

definition hasCookie :: "string \<Rightarrow> HttpRequest \<Rightarrow> bool \<times> string option" where
  "hasCookie k r = (let v = map_find CaseInsensitiveLess k (req_cookies r) in (v \<noteq> None, v))"

definition rsp_getHeader :: "string \<Rightarrow> string \<Rightarrow> HttpResponse \<Rightarrow> string" where
  "rsp_getHeader k def r = map_get k def (rsp_headers r)"

definition rsp_setHeader :: "string \<Rightarrow> string \<Rightarrow> HttpResponse \<Rightarrow> HttpResponse" where
  "rsp_setHeader k v r = r\<lparr>rsp_headers := map_put CaseInsensitiveLess k v (rsp_headers r)\<rparr>"

definition rsp_delHeader :: "string \<Rightarrow> HttpResponse \<Rightarrow> HttpResponse" where
  "rsp_delHeader k r = r\<lparr>rsp_headers := map_erase CaseInsensitiveLess k (rsp_headers r)\<rparr>"

text \<open>
  \<open>checkGetAs\<close> and \<open>getAs\<close>: \<open>lexical_cast\<close> is Boost's, a parameter that is \<open>None\<close> where
  it throws.
\<close>

definition checkGetAs :: "(string \<Rightarrow> 'a option) \<Rightarrow> string \<Rightarrow> 'a \<Rightarrow> header_map \<Rightarrow> bool \<times> 'a" where
  "checkGetAs lexical_cast k def m =
     (case map_find CaseInsensitiveLess k m of
        None \<Rightarrow> (False, def)
      | Some s \<Rightarrow> (case lexical_cast s of Some v \<Rightarrow> (True, v) | None \<Rightarrow> (False, def)))"

definition getAs :: "(string \<Rightarrow> 'a option) \<Rightarrow> string \<Rightarrow> 'a \<Rightarrow> header_map \<Rightarrow> 'a" where
  "getAs lexical_cast k def m =
     (case map_find CaseInsensitiveLess k m of
        None \<Rightarrow> def
      | Some s \<Rightarrow> (case lexical_cast s of Some v \<Rightarrow> v | None \<Rightarrow> def))"

section \<open>Writing a message\<close>

definition crlf :: string where
  "crlf = [CHR 0x0D, CHR 0x0A]"

fun dump_headers :: "(string \<Rightarrow> bool) \<Rightarrow> string \<Rightarrow> header_map \<Rightarrow> string" where
  "dump_headers skip sep [] = []"
| "dump_headers skip sep ((k, v) # m) =
     (if skip k then dump_headers skip sep m else k @ sep @ v @ crlf @ dump_headers skip sep m)"

definition dump_body :: "string \<Rightarrow> string" where
  "dump_body body =
     (if body \<noteq> [] then ''content-length: '' @ dec (length body) @ crlf @ crlf @ body else crlf)"

definition version_text :: "u8 \<Rightarrow> string" where
  "version_text v = dec (unat (drop_bit 4 v)) @ ''.'' @ dec (unat (v AND 0x0F))"

definition HttpRequest_dump :: "HttpRequest \<Rightarrow> string" where
  "HttpRequest_dump r =
     HttpMethodToString (req_method r) @ '' '' @ req_path r @
     (if req_query r = [] then [] else ''?'') @ req_query r @
     (if req_fragment r = [] then [] else ''#'') @ req_fragment r @
     '' HTTP/'' @ version_text (req_version r) @ crlf @
     ''connection: '' @ (if req_close r then ''close'' else ''keep-alive'') @ crlf @
     dump_headers (\<lambda>k. strcasecmp (c_str k) ''connection'' = 0) '':'' (req_headers r) @
     dump_body (req_body r)"

definition HttpResponse_dump :: "HttpResponse \<Rightarrow> string" where
  "HttpResponse_dump r =
     ''HTTP/'' @ version_text (rsp_version r) @ '' '' @ dec (unat (rsp_status r)) @ '' '' @
     (if rsp_reason r = [] then HttpStatusToString (rsp_status r) else rsp_reason r) @ crlf @
     dump_headers (\<lambda>k. k = ''connection'') '': '' (rsp_headers r) @
     ''connection: '' @ (if rsp_close r then ''close'' else ''keep-alive'') @ crlf @
     dump_body (rsp_body r)"

section \<open>Properties\<close>

subsection \<open>Methods\<close>

text \<open>The table, read once.\<close>

lemma method_texts:
  "HttpMethodToString DELETE = ''DELETE''"
  "HttpMethodToString GET = ''GET''"
  "HttpMethodToString HEAD = ''HEAD''"
  "HttpMethodToString POST = ''POST''"
  "HttpMethodToString PUT = ''PUT''"
  "HttpMethodToString CONNECT = ''CONNECT''"
  "HttpMethodToString OPTIONS = ''OPTIONS''"
  "HttpMethodToString TRACE = ''TRACE''"
  "HttpMethodToString COPY = ''COPY''"
  "HttpMethodToString LOCK = ''LOCK''"
  "HttpMethodToString MKCOL = ''MKCOL''"
  "HttpMethodToString MOVE = ''MOVE''"
  "HttpMethodToString PROPFIND = ''PROPFIND''"
  "HttpMethodToString PROPPATCH = ''PROPPATCH''"
  "HttpMethodToString SEARCH = ''SEARCH''"
  "HttpMethodToString UNLOCK = ''UNLOCK''"
  "HttpMethodToString BIND = ''BIND''"
  "HttpMethodToString REBIND = ''REBIND''"
  "HttpMethodToString UNBIND = ''UNBIND''"
  "HttpMethodToString ACL = ''ACL''"
  "HttpMethodToString REPORT = ''REPORT''"
  "HttpMethodToString MKACTIVITY = ''MKACTIVITY''"
  "HttpMethodToString CHECKOUT = ''CHECKOUT''"
  "HttpMethodToString MERGE = ''MERGE''"
  "HttpMethodToString MSEARCH = ''M-SEARCH''"
  "HttpMethodToString NOTIFY = ''NOTIFY''"
  "HttpMethodToString SUBSCRIBE = ''SUBSCRIBE''"
  "HttpMethodToString UNSUBSCRIBE = ''UNSUBSCRIBE''"
  "HttpMethodToString PATCH = ''PATCH''"
  "HttpMethodToString PURGE = ''PURGE''"
  "HttpMethodToString MKCALENDAR = ''MKCALENDAR''"
  "HttpMethodToString LINK = ''LINK''"
  "HttpMethodToString UNLINK = ''UNLINK''"
  "HttpMethodToString SOURCE = ''SOURCE''"
  "HttpMethodToString INVALID_METHOD = ''<unknown>''"
  by code_simp+

lemma method_chars: "m \<noteq> INVALID_METHOD \<Longrightarrow> \<forall>c \<in> set (HttpMethodToString m). c \<noteq> CHR '' '' \<and> c \<noteq> CHR 0x00"
  by (cases m) (simp_all add: method_texts)

lemma StringToHttpMethod_text: "StringToHttpMethod (HttpMethodToString m) = m"
  by (cases m; simp only: method_texts; code_simp)

text \<open>Before a blank, the test for a prefix sees the whole word.\<close>

lemma prefix_before_blank:
  assumes "\<forall>c \<in> set t. c \<noteq> CHR '' '' \<and> c \<noteq> CHR 0x00" "CHR '' '' \<notin> set s"
  shows "take (length s) (c_str (t @ CHR '' '' # rest)) = s \<longleftrightarrow> take (length s) t = s"
  using assms
proof (induction s arbitrary: t)
  case (Cons a s)
  then show ?case by (cases t) (auto simp: c_str_def)
qed (simp add: c_str_def)

lemma CharsToHttpMethod_word:
  assumes "\<forall>c \<in> set t. c \<noteq> CHR '' '' \<and> c \<noteq> CHR 0x00"
  shows "CharsToHttpMethod (t @ CHR '' '' # rest) =
    (case List.find (\<lambda>(n, x, s). take (length s) t = s) HTTP_METHOD_MAP of Some (n, x, s) \<Rightarrow> x | None \<Rightarrow> INVALID_METHOD)"
proof -
  have "\<forall>(n, x, s) \<in> set HTTP_METHOD_MAP. CHR '' '' \<notin> set s" by code_simp
  then have "List.find (\<lambda>(n, x, s). take (length s) (c_str (t @ CHR '' '' # rest)) = s) HTTP_METHOD_MAP =
      List.find (\<lambda>(n, x, s). take (length s) t = s) HTTP_METHOD_MAP"
    by (intro find_cong) (auto simp: prefix_before_blank [OF assms])
  then show ?thesis by (simp add: CharsToHttpMethod_def)
qed

lemma CharsToHttpMethod_text: "CharsToHttpMethod (HttpMethodToString m @ CHR '' '' # rest) = m"
proof (cases "m = INVALID_METHOD")
  case True
  have "\<forall>c \<in> set ''<unknown>''. c \<noteq> CHR '' '' \<and> c \<noteq> CHR 0x00" by code_simp
  moreover have "List.find (\<lambda>(n, x, s). take (length s) ''<unknown>'' = s) HTTP_METHOD_MAP = None" by code_simp
  ultimately have "CharsToHttpMethod (''<unknown>'' @ CHR '' '' # rest) = INVALID_METHOD"
    by (simp only: CharsToHttpMethod_word option.case)
  then show ?thesis by (simp only: True method_texts)
next
  case False
  have "(case List.find (\<lambda>(n, x, s). take (length s) (HttpMethodToString m) = s) HTTP_METHOD_MAP of
      Some (n, x, s) \<Rightarrow> x | None \<Rightarrow> INVALID_METHOD) = m"
    by (cases m; simp only: method_texts; code_simp)
  then show ?thesis using CharsToHttpMethod_word [OF method_chars [OF False]] by simp
qed

text \<open>
  The two readings of a method invert its text, also where the text is the start of a
  request line; every method has its own text, and what is no method is written as
  \<open><unknown>\<close>.
\<close>

theorem method_text:
  "StringToHttpMethod (HttpMethodToString m) = m \<and>
   CharsToHttpMethod (HttpMethodToString m @ CHR '' '' # rest) = m \<and>
   (HttpMethodToString m = ''<unknown>'' \<longleftrightarrow> m = INVALID_METHOD)"
proof -
  have "HttpMethodToString m = ''<unknown>'' \<longleftrightarrow> m = INVALID_METHOD" by (cases m) (simp_all add: method_texts)
  then show ?thesis by (simp add: StringToHttpMethod_text CharsToHttpMethod_text)
qed

subsection \<open>Header maps\<close>

lemma map_get_put:
  "map_ok CaseInsensitiveLess m \<Longrightarrow>
   map_get k' d (map_put CaseInsensitiveLess k v m) = (if folded k' = folded k then v else map_get k' d m)"
  using ci.find_put_same [of m k k' v] ci.find_put_other [of m k k' v]
  by (auto simp: map_get_def ci_equiv)

lemma map_get_erase:
  "map_ok CaseInsensitiveLess m \<Longrightarrow> folded k' = folded k \<Longrightarrow>
   map_get k' d (map_erase CaseInsensitiveLess k m) = d"
  by (simp add: map_get_def ci.find_erase_same ci_equiv)

lemma map_get_same: "folded k' = folded k \<Longrightarrow> map_get k' d m = map_get k d m"
proof -
  assume f: "folded k' = folded k"
  then have "map_find CaseInsensitiveLess k' m = map_find CaseInsensitiveLess k m"
    by (simp add: map_find_def CaseInsensitiveLess_folded cong: list.case_cong)
  then show ?thesis by (simp add: map_get_def)
qed

text \<open>
  A header is found under its name in any case: the value last set under a name that
  differs from the one asked for in case only, and the default after it has been deleted;
  setting one header leaves the others. The map stays ordered, with one entry per name.
\<close>

theorem headers_case_insensitive:
  assumes "map_ok CaseInsensitiveLess (req_headers r)"
  shows "getHeader k' d (setHeader k v r) = (if folded k' = folded k then v else getHeader k' d r) \<and>
    (folded k' = folded k \<longrightarrow> getHeader k' d (delHeader k r) = d) \<and>
    (folded k' = folded k \<longrightarrow> getHeader k' d r = getHeader k d r) \<and>
    map_ok CaseInsensitiveLess (req_headers (setHeader k v r)) \<and>
    map_ok CaseInsensitiveLess (req_headers (delHeader k r))"
  using assms map_get_same [of k' k d "req_headers r"]
  by (simp add: getHeader_def setHeader_def delHeader_def map_get_put map_get_erase ci.put_ok ci.erase_ok)

theorem headers_case_insensitive_witness:
  "getHeader ''HOST'' [] (setHeader ''Host'' ''a'' (HttpRequest_new 0x11 True)) = ''a''"
proof -
  have "map_ok CaseInsensitiveLess (req_headers (HttpRequest_new 0x11 True))"
    by (simp add: HttpRequest_new_def map_ok_def)
  from headers_case_insensitive [OF this, of "''HOST''" "[]" "''Host''" "''a''"]
  have "getHeader ''HOST'' [] (setHeader ''Host'' ''a'' (HttpRequest_new 0x11 True)) =
    (if folded ''HOST'' = folded ''Host'' then ''a'' else getHeader ''HOST'' [] (HttpRequest_new 0x11 True))"
    by (rule conjunct1)
  moreover have "folded ''HOST'' = folded ''Host''" by code_simp
  ultimately show ?thesis by (simp only: if_True refl)
qed

subsection \<open>Framing\<close>

text \<open>
  The head of a message as its receiver reads it: the lines up to the first empty one, and
  what follows.
\<close>

fun head_lines :: "string \<Rightarrow> string \<Rightarrow> (string list \<times> string) option" where
  "head_lines acc [] = None"
| "head_lines acc (c # s) =
     (if c = CHR 0x0D \<and> s \<noteq> [] \<and> hd s = CHR 0x0A then
        (if acc = [] then Some ([], tl s)
         else map_option (\<lambda>(ls, b). (acc # ls, b)) (head_lines [] (tl s)))
      else head_lines (acc @ [c]) s)"

definition one_line :: "string \<Rightarrow> bool" where
  "one_line l \<longleftrightarrow> CHR 0x0D \<notin> set l"

lemma head_lines_line:
  "one_line l \<Longrightarrow> head_lines acc (l @ crlf @ s) =
     (if acc @ l = [] then Some ([], s)
      else map_option (\<lambda>(ls, b). ((acc @ l) # ls, b)) (head_lines [] s))"
proof (induction l arbitrary: acc)
  case Nil
  then show ?case by (simp add: crlf_def)
next
  case (Cons c l)
  then have "c \<noteq> CHR 0x0D" "one_line l" by (auto simp: one_line_def)
  then show ?case using Cons.IH [of "acc @ [c]"] by simp
qed

lemma head_lines_concat:
  "\<forall>l \<in> set ls. one_line l \<and> l \<noteq> [] \<Longrightarrow>
   head_lines [] (concat (map (\<lambda>l. l @ crlf) ls) @ crlf @ body) = Some (ls, body)"
proof (induction ls)
  case Nil
  then show ?case using head_lines_line [of "[]" "[]" body] by (simp add: one_line_def)
next
  case (Cons l ls)
  then show ?case using head_lines_line [of l "[]"] by simp
qed

definition header_lines :: "(string \<Rightarrow> bool) \<Rightarrow> string \<Rightarrow> header_map \<Rightarrow> string list" where
  "header_lines skip sep m = map (\<lambda>(k, v). k @ sep @ v) (filter (\<lambda>(k, v). \<not> skip k) m)"

definition length_line :: "string \<Rightarrow> string list" where
  "length_line body = (if body = [] then [] else [''content-length: '' @ dec (length body)])"

lemma dump_headers_lines:
  "dump_headers skip sep m = concat (map (\<lambda>l. l @ crlf) (header_lines skip sep m))"
  by (induction skip sep m rule: dump_headers.induct) (auto simp: header_lines_def)

lemma dump_body_lines:
  "dump_body body = concat (map (\<lambda>l. l @ crlf) (length_line body)) @ crlf @ body"
  by (simp add: dump_body_def length_line_def)

definition conn_line :: "bool \<Rightarrow> string" where
  "conn_line close = ''connection: '' @ (if close then ''close'' else ''keep-alive'')"

definition request_lines :: "HttpRequest \<Rightarrow> string list" where
  "request_lines r =
     [HttpMethodToString (req_method r) @ '' '' @ req_path r @
      (if req_query r = [] then [] else ''?'' @ req_query r) @
      (if req_fragment r = [] then [] else ''#'' @ req_fragment r) @
      '' HTTP/'' @ version_text (req_version r),
      conn_line (req_close r)] @
     header_lines (\<lambda>k. folded k = folded ''connection'') '':'' (req_headers r) @ length_line (req_body r)"

definition response_lines :: "HttpResponse \<Rightarrow> string list" where
  "response_lines r =
     [''HTTP/'' @ version_text (rsp_version r) @ '' '' @ dec (unat (rsp_status r)) @ '' '' @
      (if rsp_reason r = [] then HttpStatusToString (rsp_status r) else rsp_reason r)] @
     header_lines (\<lambda>k. k = ''connection'') '': '' (rsp_headers r) @
     [conn_line (rsp_close r)] @ length_line (rsp_body r)"

lemma c_str_connection: "c_str ''connection'' = ''connection''"
  by (simp add: c_str_def)

lemma HttpRequest_dump_lines:
  "HttpRequest_dump r = concat (map (\<lambda>l. l @ crlf) (request_lines r)) @ crlf @ req_body r"
  using strcasecmp_folded [of _ "''connection''"]
  by (simp add: HttpRequest_dump_def request_lines_def dump_headers_lines dump_body_lines conn_line_def
      c_str_connection)

lemma HttpResponse_dump_lines:
  "HttpResponse_dump r = concat (map (\<lambda>l. l @ crlf) (response_lines r)) @ crlf @ rsp_body r"
  by (simp add: HttpResponse_dump_def response_lines_def dump_headers_lines dump_body_lines conn_line_def)

lemma one_line_simps [simp]:
  "one_line []" "one_line (c # l) \<longleftrightarrow> c \<noteq> CHR 0x0D \<and> one_line l"
  "one_line (a @ b) \<longleftrightarrow> one_line a \<and> one_line b"
  by (auto simp: one_line_def)

lemma one_line_dec [simp]: "one_line (dec n)" "one_line (version_text v)"
proof -
  show "one_line (dec n)" for n using dec_chars(1) [of "CHR 0x0D" n] by (auto simp: one_line_def)
  then show "one_line (version_text v)" by (simp add: version_text_def)
qed

lemma one_line_method [simp]: "one_line (HttpMethodToString m)"
  by (cases m; simp only: method_texts; code_simp)

lemma one_line_status [simp]: "one_line (HttpStatusToString s)"
proof -
  have "list_all (\<lambda>(c, msg). CHR 0x0D \<notin> set msg) HTTP_STATUS_MAP"
    by (simp add: HTTP_STATUS_MAP_def)
  then show ?thesis
    by (auto simp: HttpStatusToString_def one_line_def list_all_iff dest: map_of_SomeD split: option.splits)
qed

lemma header_lines_ok:
  "\<forall>(k, v) \<in> set m. one_line k \<and> one_line v \<Longrightarrow> one_line sep \<Longrightarrow> sep \<noteq> [] \<Longrightarrow>
   l \<in> set (header_lines skip sep m) \<Longrightarrow> one_line l \<and> l \<noteq> []"
  by (auto simp: header_lines_def)

lemma length_line_ok: "l \<in> set (length_line body) \<Longrightarrow> one_line l \<and> l \<noteq> []"
  by (auto simp: length_line_def split: if_splits)

lemma conn_line_ok [simp]: "one_line (conn_line b)" "conn_line b \<noteq> []"
  by (simp_all add: conn_line_def)

text \<open>
  Framing. Where no part of a message's head contains a carriage return, a receiver
  that reads lines up to the first empty one gets back exactly the lines of the head, one
  per header that is not the connection header, and then exactly the body; and a body is
  announced by a \<open>content-length\<close> line whose number is its length.
\<close>

theorem message_framing:
  assumes "one_line (req_path rq)" "one_line (req_query rq)" "one_line (req_fragment rq)"
      "\<forall>(k, v) \<in> set (req_headers rq). one_line k \<and> one_line v"
    and "one_line (rsp_reason rp)" "\<forall>(k, v) \<in> set (rsp_headers rp). one_line k \<and> one_line v"
  shows "head_lines [] (HttpRequest_dump rq) = Some (request_lines rq, req_body rq) \<and>
    head_lines [] (HttpResponse_dump rp) = Some (response_lines rp, rsp_body rp) \<and>
    (rsp_body rp \<noteq> [] \<longrightarrow>
       (\<exists>n. last (response_lines rp) = ''content-length: '' @ n \<and> read_base 10 n = length (rsp_body rp)))"
proof -
  have "\<forall>l \<in> set (request_lines rq). one_line l \<and> l \<noteq> []"
    using assms(1-3) header_lines_ok [OF assms(4), of "'':''"] length_line_ok [of _ "req_body rq"]
    unfolding request_lines_def by auto
  moreover have "\<forall>l \<in> set (response_lines rp). one_line l \<and> l \<noteq> []"
    using assms(5) header_lines_ok [OF assms(6), of "'': ''"] length_line_ok [of _ "rsp_body rp"]
    unfolding response_lines_def by auto
  moreover have "last (response_lines rp) = ''content-length: '' @ dec (length (rsp_body rp))"
    if "rsp_body rp \<noteq> []" using that by (simp add: response_lines_def length_line_def)
  ultimately show ?thesis
    by (auto simp: HttpRequest_dump_lines HttpResponse_dump_lines head_lines_concat)
qed

theorem message_framing_witness:
  "head_lines [] (HttpResponse_dump ((HttpResponse_new 0x11 True)\<lparr>rsp_body := ''hi''\<rparr>)) =
     Some ([''HTTP/1.1 200 OK'', ''connection: close'', ''content-length: 2''], ''hi'')"
proof -
  let ?r = "(HttpResponse_new 0x11 True)\<lparr>rsp_body := ''hi''\<rparr>"
  have "response_lines ?r = [''HTTP/1.1 200 OK'', ''connection: close'', ''content-length: 2'']"
    by code_simp
  then show ?thesis
    using message_framing [of "HttpRequest_new 0x11 True" ?r]
    by (simp add: HttpRequest_new_def HttpResponse_new_def)
qed

end
