(* ===== verification/Servlets.thy ===== *)
theory Servlets
  imports Http_Messages
begin

text \<open>
  Request dispatch (\<open>sylar/http/servlet.h\<close>, \<open>sylar/http/servlet.cc\<close>): servlets, the
  404 servlet, and the dispatcher with its exact paths, its glob patterns in the order they
  were added, and its default. A servlet pointer may be null. What a servlet does to the
  request, the response and the session, whose type is \<open>'s\<close>, is its \<open>handle\<close>. The pattern
  matcher \<open>fnmatch\<close> is the C library's and an argument; it is true where the C function
  returns 0. The write lock makes each operation one step.
\<close>

section \<open>Servlets\<close>

type_synonym 's exchange = "HttpRequest \<times> HttpResponse \<times> 's"

record 's servlet =
  m_name :: string
  handle :: "'s exchange \<Rightarrow> int \<times> 's exchange"

definition FunctionServlet :: "('s exchange \<Rightarrow> int \<times> 's exchange) \<Rightarrow> 's servlet" where
  "FunctionServlet cb = \<lparr>m_name = ''FunctionServlet'', handle = cb\<rparr>"

definition RSP_BODY :: string where
  "RSP_BODY = ''<html><head><title>404 Not Found'' @
     ''</title></head><body><center><h1>404 Not Found</h1></center>'' @
     ''<hr><center>custom-server/1.0.0</center></body></html>''"

definition NotFound_handle :: "'s exchange \<Rightarrow> int \<times> 's exchange" where
  "NotFound_handle x =
     (let (req, rsp, s) = x;
          rsp = rsp\<lparr>rsp_status := 404\<rparr>;
          rsp = rsp_setHeader ''Server'' ''custom-server/1.0.0'' rsp;
          rsp = rsp_setHeader ''Content-Type'' ''text/html'' rsp
      in (0, req, rsp\<lparr>rsp_body := RSP_BODY\<rparr>, s))"

definition NotFoundServlet :: "'s servlet" where
  "NotFoundServlet = \<lparr>m_name = ''NotFoundServlet'', handle = NotFound_handle\<rparr>"

section \<open>The dispatcher\<close>

type_synonym 's servlet_ptr = "'s servlet option"

record 's servlet_dispatch =
  m_datas :: "string \<Rightarrow> 's servlet_ptr option"
  m_globs :: "(string \<times> 's servlet_ptr) list"
  m_default :: "'s servlet_ptr"

definition ServletDispatch_new :: "'s servlet_dispatch" where
  "ServletDispatch_new = \<lparr>m_datas = (\<lambda>_. None), m_globs = [], m_default = Some NotFoundServlet\<rparr>"

definition addServlet :: "string \<Rightarrow> 's servlet_ptr \<Rightarrow> 's servlet_dispatch \<Rightarrow> 's servlet_dispatch" where
  "addServlet uri slt d = d\<lparr>m_datas := (m_datas d)(uri \<mapsto> slt)\<rparr>"

definition addServlet_cb :: "string \<Rightarrow> ('s exchange \<Rightarrow> int \<times> 's exchange) \<Rightarrow> 's servlet_dispatch \<Rightarrow> 's servlet_dispatch" where
  "addServlet_cb uri cb d = d\<lparr>m_datas := (m_datas d)(uri \<mapsto> Some (FunctionServlet cb))\<rparr>"

text \<open>The loop that erases the first pattern equal to the argument.\<close>

fun erase_glob :: "string \<Rightarrow> (string \<times> 'a) list \<Rightarrow> (string \<times> 'a) list" where
  "erase_glob uri [] = []"
| "erase_glob uri (g # gs) = (if fst g = uri then gs else g # erase_glob uri gs)"

definition addGlobServlet :: "string \<Rightarrow> 's servlet_ptr \<Rightarrow> 's servlet_dispatch \<Rightarrow> 's servlet_dispatch" where
  "addGlobServlet uri slt d = d\<lparr>m_globs := erase_glob uri (m_globs d) @ [(uri, slt)]\<rparr>"

definition addGlobServlet_cb :: "string \<Rightarrow> ('s exchange \<Rightarrow> int \<times> 's exchange) \<Rightarrow> 's servlet_dispatch \<Rightarrow> 's servlet_dispatch" where
  "addGlobServlet_cb uri cb d = addGlobServlet uri (Some (FunctionServlet cb)) d"

definition delServlet :: "string \<Rightarrow> 's servlet_dispatch \<Rightarrow> 's servlet_dispatch" where
  "delServlet uri d = d\<lparr>m_datas := (m_datas d)(uri := None)\<rparr>"

definition delGlobServlet :: "string \<Rightarrow> 's servlet_dispatch \<Rightarrow> 's servlet_dispatch" where
  "delGlobServlet uri d = d\<lparr>m_globs := erase_glob uri (m_globs d)\<rparr>"

definition getServlet :: "string \<Rightarrow> 's servlet_dispatch \<Rightarrow> 's servlet_ptr" where
  "getServlet uri d = (case m_datas d uri of None \<Rightarrow> None | Some slt \<Rightarrow> slt)"

fun first_glob :: "(string \<Rightarrow> string \<Rightarrow> bool) \<Rightarrow> string \<Rightarrow> (string \<times> 'a) list \<Rightarrow> 'a option" where
  "first_glob fnmatch uri [] = None"
| "first_glob fnmatch uri (g # gs) =
     (if fnmatch (c_str (fst g)) (c_str uri) then Some (snd g) else first_glob fnmatch uri gs)"

definition getGlobServlet :: "(string \<Rightarrow> string \<Rightarrow> bool) \<Rightarrow> string \<Rightarrow> 's servlet_dispatch \<Rightarrow> 's servlet_ptr" where
  "getGlobServlet fnmatch uri d =
     (case first_glob fnmatch uri (m_globs d) of None \<Rightarrow> None | Some slt \<Rightarrow> slt)"

definition getMatchedServlet :: "(string \<Rightarrow> string \<Rightarrow> bool) \<Rightarrow> string \<Rightarrow> 's servlet_dispatch \<Rightarrow> 's servlet_ptr" where
  "getMatchedServlet fnmatch uri d =
     (case m_datas d uri of
        Some slt \<Rightarrow> slt
      | None \<Rightarrow> (case first_glob fnmatch uri (m_globs d) of Some slt \<Rightarrow> slt | None \<Rightarrow> m_default d))"

definition setDefault :: "'s servlet_ptr \<Rightarrow> 's servlet_dispatch \<Rightarrow> 's servlet_dispatch" where
  "setDefault v d = d\<lparr>m_default := v\<rparr>"

definition dispatch_handle :: "(string \<Rightarrow> string \<Rightarrow> bool) \<Rightarrow> 's servlet_dispatch \<Rightarrow> 's exchange \<Rightarrow> int \<times> 's exchange" where
  "dispatch_handle fnmatch d x =
     (case getMatchedServlet fnmatch (req_path (fst x)) d of
        Some slt \<Rightarrow> (0, snd (handle slt x))
      | None \<Rightarrow> (0, x))"

section \<open>Properties\<close>

definition globs_ok :: "'s servlet_dispatch \<Rightarrow> bool" where
  "globs_ok d \<longleftrightarrow> distinct (map fst (m_globs d))"

lemma erase_glob_filter: "distinct (map fst gs) \<Longrightarrow> erase_glob uri gs = filter (\<lambda>g. fst g \<noteq> uri) gs"
proof (induction gs)
  case (Cons g gs)
  then have "fst g \<notin> fst ` set gs" by simp
  then have "\<forall>h \<in> set gs. fst h \<noteq> fst g" by (metis imageI)
  then have "filter (\<lambda>h. fst h \<noteq> fst g) gs = gs" by (simp add: filter_id_conv)
  then show ?case using Cons by auto
qed simp

text \<open>
  What the dispatcher promises: the servlet of the exact path; else that of the first
  pattern, in the order of their last addition, that matches; else the default.
\<close>

definition dispatch_spec ::
    "(string \<Rightarrow> string \<Rightarrow> bool) \<Rightarrow> (string \<Rightarrow> 's servlet_ptr option) \<Rightarrow> (string \<times> 's servlet_ptr) list \<Rightarrow>
     's servlet_ptr \<Rightarrow> string \<Rightarrow> 's servlet_ptr" where
  "dispatch_spec fnmatch exact pats def uri =
     (case exact uri of Some slt \<Rightarrow> slt
      | None \<Rightarrow> (case filter (\<lambda>(p, _). fnmatch (c_str p) (c_str uri)) pats of
          (p, slt) # _ \<Rightarrow> slt | [] \<Rightarrow> def))"

lemma first_glob_filter:
  "first_glob f uri gs =
     (case filter (\<lambda>(p, _). f (c_str p) (c_str uri)) gs of (p, slt) # _ \<Rightarrow> Some slt | [] \<Rightarrow> None)"
  by (induction gs) (auto split: list.splits prod.splits)

lemma getMatchedServlet_spec:
  "getMatchedServlet f uri d = dispatch_spec f (m_datas d) (m_globs d) (m_default d) uri"
  unfolding getMatchedServlet_def dispatch_spec_def first_glob_filter
  by (simp split: option.splits list.splits prod.splits)

text \<open>
  C30. Dispatch. Adding an exact path decides that path and no other. Adding a pattern puts it
  last, so it decides the paths it matches that no exact path and none of the other patterns
  does, whether or not the same pattern was there before; deleting it gives those paths to
  the default. An exact path wins over every pattern; the patterns stay distinct.
\<close>

theorem dispatch_precedence:
  assumes "globs_ok d"
  shows "getMatchedServlet f v (addServlet u s d) = (if v = u then s else getMatchedServlet f v d) \<and>
    getMatchedServlet f v (addGlobServlet u s d) =
      dispatch_spec f (m_datas d) (filter (\<lambda>g. fst g \<noteq> u) (m_globs d) @ [(u, s)]) (m_default d) v \<and>
    (m_datas d v = None \<and> (\<forall>g \<in> set (m_globs d). f (c_str (fst g)) (c_str v) \<longrightarrow> fst g = u) \<longrightarrow>
       getMatchedServlet f v (addGlobServlet u s d) = (if f (c_str u) (c_str v) then s else m_default d) \<and>
       getMatchedServlet f v (delGlobServlet u d) = m_default d) \<and>
    globs_ok (addServlet u s d) \<and> globs_ok (addGlobServlet u s d) \<and> globs_ok (delGlobServlet u d)"
proof -
  have er: "erase_glob u (m_globs d) = filter (\<lambda>g. fst g \<noteq> u) (m_globs d)"
    using assms by (simp add: erase_glob_filter globs_ok_def)
  have none: "filter (\<lambda>(p, _). f (c_str p) (c_str v)) (filter (\<lambda>g. fst g \<noteq> u) (m_globs d)) = []"
    if "\<forall>g \<in> set (m_globs d). f (c_str (fst g)) (c_str v) \<longrightarrow> fst g = u"
    using that by (auto simp: filter_empty_conv)
  have "distinct (map fst (filter (\<lambda>g. fst g \<noteq> u) (m_globs d)))"
    using assms by (simp add: globs_ok_def distinct_map_filter)
  then have "globs_ok (addServlet u s d)" "globs_ok (addGlobServlet u s d)" "globs_ok (delGlobServlet u d)"
    using assms by (auto simp: globs_ok_def addServlet_def addGlobServlet_def delGlobServlet_def er)
  then show ?thesis
    using none
    by (auto simp: getMatchedServlet_spec dispatch_spec_def addServlet_def addGlobServlet_def
        delGlobServlet_def er)
qed

theorem dispatch_precedence_witness:
  "getMatchedServlet (\<lambda>p s. p = ''/*'') ''/a''
      (addGlobServlet ''/*'' (Some (FunctionServlet (\<lambda>x. (1, x)))) (ServletDispatch_new :: unit servlet_dispatch)) =
    Some (FunctionServlet (\<lambda>x. (1, x)))"
  using dispatch_precedence [of "ServletDispatch_new :: unit servlet_dispatch" "\<lambda>p s. p = ''/*''" "''/a''" "''/*''"
      "Some (FunctionServlet (\<lambda>x. (1, x)))"]
  by (simp add: globs_ok_def ServletDispatch_new_def c_str_def dispatch_spec_def)

text \<open>A path nobody claims gets the 404 page.\<close>

lemma unclaimed_path:
  assumes "m_datas d (req_path req) = None" "first_glob f (req_path req) (m_globs d) = None"
    and "m_default d = Some NotFoundServlet"
  shows "\<exists>rsp'. dispatch_handle f d (req, rsp, s) = (0, req, rsp', s) \<and> rsp_status rsp' = 404 \<and>
    rsp_body rsp' = RSP_BODY"
  using assms
  by (simp add: dispatch_handle_def getMatchedServlet_def NotFoundServlet_def NotFound_handle_def
      rsp_setHeader_def Let_def)

end
