(* ===== verification/Ragel.thy ===== *)
theory Ragel
  imports Texts
begin

text \<open>
  The shape of the three parsers of the program, C++ code written by the state machine
  compiler Ragel: a \<open>switch\<close> on the current state, one block per state that looks at the
  next character and jumps, possibly by way of a block of actions, to the next state.

  The block \<open>st_case_n\<close> is a function from the character, as the signed number C++ compares,
  to a target: the actions of the \<open>ctr\<close> block it jumps through and the state after it. State
  0 is the error state, in which the machine stops on the character it could not accept. Some
  actions leave the machine behind the character; \<open>stops\<close> tells which. An action may throw. The loop is \<open>run\<close>; it
  returns the state, the position and the data the actions worked on, or what was thrown.
\<close>

type_synonym 'a target = "'a list \<times> nat"

abbreviation st :: "nat \<Rightarrow> 'a target" where
  "st n \<equiv> ([], n)"

fun run_actions :: "('a \<Rightarrow> nat \<Rightarrow> 's \<Rightarrow> 'e + 's) \<Rightarrow> 'a list \<Rightarrow> nat \<Rightarrow> 's \<Rightarrow> 'e + 's" where
  "run_actions act [] p s = Inr s"
| "run_actions act (a # acts) p s = (case act a p s of Inl e \<Rightarrow> Inl e | Inr s' \<Rightarrow> run_actions act acts p s')"

fun run :: "(int \<Rightarrow> 'a target) list \<Rightarrow> ('a \<Rightarrow> nat \<Rightarrow> 's \<Rightarrow> 'e + 's) \<Rightarrow> ('a \<Rightarrow> bool) \<Rightarrow> nat \<Rightarrow> nat \<Rightarrow> string \<Rightarrow>
    's \<Rightarrow> 'e + nat \<times> nat \<times> 's" where
  "run states act stops cs p [] s = Inr (cs, p, s)"
| "run states act stops cs p (c # buf) s =
     (if length states \<le> cs then Inr (cs, p, s) else
      let (acts, t) = (states ! cs) (char_int c)
      in case run_actions act acts p s of
           Inl e \<Rightarrow> Inl e
         | Inr s' \<Rightarrow> if t = 0 then Inr (0, p, s')
                    else if list_ex stops acts then Inr (t, p + 1, s')
                    else run states act stops t (p + 1) buf s')"

section \<open>Runs\<close>

text \<open>One step of a machine, in the form the proofs about particular machines use.\<close>

lemma run_step:
  assumes "cs < length states" "(states ! cs) (char_int c) = (acts, t)" "t \<noteq> 0" "\<not> list_ex stops acts"
    and "run_actions act acts p s = Inr s'"
  shows "run states act stops cs p (c # buf) s = run states act stops t (p + 1) buf s'"
  using assms by simp

lemma run_stop:
  assumes "cs < length states" "(states ! cs) (char_int c) = (acts, t)" "t \<noteq> 0" "list_ex stops acts"
    and "run_actions act acts p s = Inr s'"
  shows "run states act stops cs p (c # buf) s = Inr (t, p + 1, s')"
  using assms by simp

text \<open>A state that goes to itself over a class of characters consumes them.\<close>

lemma run_loop:
  assumes "cs < length states" "cs \<noteq> 0" "\<forall>c \<in> set w. (states ! cs) (char_int c) = st cs"
  shows "run states act stops cs p (w @ buf) s = run states act stops cs (p + length w) buf s"
  using assms(3)
proof (induction w arbitrary: p)
  case (Cons c w)
  then show ?case using assms(1,2) by simp
qed simp

text \<open>The machine never leaves its buffer, and stops at its end, on an error or at a stop.\<close>

lemma run_position:
  "run states act stops cs p buf s = Inr (cs', p', s') \<Longrightarrow> p \<le> p' \<and> p' \<le> p + length buf"
proof (induction buf arbitrary: cs p s)
  case (Cons c buf)
  obtain acts t where t: "(states ! cs) (char_int c) = (acts, t)" by (cases "(states ! cs) (char_int c)")
  then show ?case using Cons
    by (auto simp: Let_def split: if_splits sum.splits dest!: Cons.IH)
qed simp

text \<open>The error state is the end of the machine.\<close>

lemma run_error:
  assumes "0 < length states" "(states ! 0) (char_int c) = st 0"
  shows "run states act stops 0 p (c # buf) s = Inr (0, p, s)"
  using assms by simp

text \<open>
  An invariant of the data that every action keeps, wherever in the buffer it is made, holds
  after a run.
\<close>

lemma run_actions_invariant:
  assumes "\<And>a s s'. I s \<Longrightarrow> act a p s = Inr s' \<Longrightarrow> I s'"
  shows "I s \<Longrightarrow> run_actions act acts p s = Inr s' \<Longrightarrow> I s'"
proof (induction acts arbitrary: s)
  case (Cons a acts)
  then show ?case by (auto split: sum.splits intro: assms)
qed simp

lemma run_invariant:
  assumes "\<And>a p s s'. p < m \<Longrightarrow> I p s \<Longrightarrow> act a p s = Inr s' \<Longrightarrow> I p s'"
    and "\<And>p s. I p s \<Longrightarrow> I (Suc p) s"
  shows "I p s \<Longrightarrow> p + length buf \<le> m \<Longrightarrow> run states act stops cs p buf s = Inr (cs', p', s') \<Longrightarrow> I p' s'"
proof (induction buf arbitrary: cs p s)
  case (Cons c buf)
  obtain acts t where t: "(states ! cs) (char_int c) = (acts, t)" by (cases "(states ! cs) (char_int c)")
  have "p < m" using Cons.prems(2) by simp
  then have k: "I p s'" if "run_actions act acts p s = Inr s'" for s'
    using run_actions_invariant [of "I p" act p s acts s'] assms(1) Cons.prems(1) that by blast
  show ?case
  proof (cases "length states \<le> cs")
    case False
    with t k Cons.prems show ?thesis
      by (auto simp: Let_def split: if_splits sum.splits intro: assms(2) elim!: Cons.IH [rotated 2])
  qed (use Cons.prems in simp)
qed simp

text \<open>
  Every state of a machine goes to a state of the machine, so that the \<open>switch\<close> of the loop
  always finds a case.
\<close>

definition machine_ok :: "(int \<Rightarrow> 'a target) list \<Rightarrow> bool" where
  "machine_ok states \<longleftrightarrow> (\<forall>f \<in> set states. \<forall>c. snd (f c) < length states)"

lemma target_if: "snd x < n \<Longrightarrow> snd y < n \<Longrightarrow> snd (if b then x else y) < n"
  by simp

lemma run_state:
  assumes "machine_ok states"
  shows "cs < length states \<Longrightarrow> run states act stops cs p buf s = Inr (cs', p', s') \<Longrightarrow> cs' < length states"
proof (induction buf arbitrary: cs p s)
  case (Cons c buf)
  obtain acts t where t: "(states ! cs) (char_int c) = (acts, t)" by (cases "(states ! cs) (char_int c)")
  have "snd ((states ! cs) (char_int c)) < length states"
    using assms Cons.prems(1) by (simp add: machine_ok_def)
  with t Cons show ?case by (auto simp: Let_def split: if_splits sum.splits)
qed simp

end
