(* ===== verification/Uri_Grammar.thy ===== *)
theory Uri_Grammar
  imports Ragel
begin

text \<open>
  What the machines of the program have in common in the language they read: the classes of
  characters of a URI and of a header, texts with escapes, and how a machine runs over such
  texts.
\<close>

section \<open>Classes of characters\<close>

text \<open>A byte outside ASCII, which the grammar takes anywhere in a path or a header value.\<close>

definition high :: "char \<Rightarrow> bool" where
  "high c \<longleftrightarrow> 128 \<le> (of_char c :: nat)"

definition path_ascii :: string where
  "path_ascii = ''!$&'()*+,-./0123456789:;=@ABCDEFGHIJKLMNOPQRSTUVWXYZ_abcdefghijklmnopqrstuvwxyz~''"

definition path_char :: "char \<Rightarrow> bool" where
  "path_char c \<longleftrightarrow> high c \<or> c \<in> set path_ascii"

definition query_char :: "char \<Rightarrow> bool" where
  "query_char c \<longleftrightarrow> path_char c \<or> c = CHR ''?''"

definition hex_char :: "char \<Rightarrow> bool" where
  "hex_char c \<longleftrightarrow> c \<in> set ''0123456789ABCDEFabcdef''"

definition token_char :: "char \<Rightarrow> bool" where
  "token_char c \<longleftrightarrow> c \<in> set ''!#$%&'*+-.0123456789ABCDEFGHIJKLMNOPQRSTUVWXYZ^_`abcdefghijklmnopqrstuvwxyz|~''"

definition value_char :: "char \<Rightarrow> bool" where
  "value_char c \<longleftrightarrow> char_int c \<notin> {0, 10, 13, 127}"

definition value_start :: "char \<Rightarrow> bool" where
  "value_start c \<longleftrightarrow> value_char c \<and> char_int c \<notin> {9, 32}"

text \<open>Text of a part of a URI: characters and escapes; a query or a fragment may hold a question mark.\<close>

fun uri_text :: "(char \<Rightarrow> bool) \<Rightarrow> string \<Rightarrow> bool" where
  "uri_text ok [] = True"
| "uri_text ok (c # w) =
     (if c = CHR ''%'' then (case w of h # l # w' \<Rightarrow> hex_char h \<and> hex_char l \<and> uri_text ok w' | _ \<Rightarrow> False)
      else ok c \<and> uri_text ok w)"

section \<open>Runs over texts\<close>

text \<open>
  Three states of which the first takes the characters of a class and goes, by way of the
  others, over an escape.
\<close>

lemma run_uri_text:
  assumes "\<And>c. ok c \<Longrightarrow> (S ! A) (char_int c) = st A" "(S ! A) 37 = st B"
    and "\<And>c. hex_char c \<Longrightarrow> (S ! B) (char_int c) = st C" "\<And>c. hex_char c \<Longrightarrow> (S ! C) (char_int c) = st A"
    and "A < length S" "B < length S" "C < length S" "A \<noteq> 0" "B \<noteq> 0" "C \<noteq> 0"
  shows "uri_text ok w \<Longrightarrow> run S act stops A p (w @ rest) s = run S act stops A (p + length w) rest s"
proof (induction "length w" arbitrary: w p rule: less_induct)
  case less
  have [simp]: "char_int (CHR ''%'') = 37" by (simp add: char_int_def)
  show ?case
  proof (cases w)
    case (Cons c w')
    show ?thesis
    proof (cases "c = CHR ''%''")
      case True
      with less.prems Cons obtain h l v where w: "w' = h # l # v" "hex_char h" "hex_char l" "uri_text ok v"
        by (auto split: list.splits)
      with True Cons less.hyps [of v] show ?thesis using assms by simp
    next
      case False
      with less.prems Cons have "ok c" "uri_text ok w'" by simp_all
      with False Cons less.hyps [of w'] show ?thesis using assms by simp
    qed
  qed simp
qed

text \<open>A text that a machine goes over without an action.\<close>

fun walk :: "(int \<Rightarrow> 'a target) list \<Rightarrow> nat \<Rightarrow> string \<Rightarrow> nat option" where
  "walk S A [] = Some A"
| "walk S A (c # w) =
     (case (S ! A) (char_int c) of
        ([], t) \<Rightarrow> if A < length S \<and> t \<noteq> 0 then walk S t w else None
      | _ \<Rightarrow> None)"

lemma run_walk:
  "walk S A w = Some B \<Longrightarrow> run S act stops A p (w @ rest) s = run S act stops B (p + length w) rest s"
  by (induction S A w arbitrary: p rule: walk.induct) (auto split: prod.splits list.splits if_splits)

lemma run_enter:
  assumes "w \<noteq> []" "(S ! E) (char_int (hd w)) = (acts, t)" "(S ! A) (char_int (hd w)) = st t" "t \<noteq> 0"
    and "E < length S" "A < length S" "\<not> list_ex stops acts" "run_actions act acts p s = Inr s'"
  shows "run S act stops E p (w @ rest) s = run S act stops A p (w @ rest) s'"
  using assms by (cases w) auto


lemma char_int_simps [simp]:
  "char_int (CHR '' '') = 32" "char_int (CHR ''%'') = 37" "char_int (CHR ''/'') = 47" "char_int (CHR '':'') = 58"
  "char_int (CHR ''?'') = 63" "char_int (CHR ''#'') = 35" "char_int (CHR 0x0D) = 13" "char_int (CHR 0x0A) = 10"
  by (simp_all add: char_int_def)

lemma high_int: "high c \<Longrightarrow> char_int c < 0"
proof -
  assume "high c"
  have "(of_char c :: int) = int (of_char c :: nat)" by (simp only: of_nat_of_char)
  moreover have "(of_char c :: nat) < 256" by simp
  ultimately have "128 \<le> (of_char c :: int)" "(of_char c :: int) < 256"
    using \<open>high c\<close> unfolding high_def by linarith+
  then show ?thesis by (simp add: char_int_def)
qed

text \<open>A state that takes the characters of a path one by one, and of a query.\<close>

lemma path_charI:
  assumes "\<And>n. n < 0 \<Longrightarrow> f n = t" "\<forall>c \<in> set path_ascii. f (char_int c) = t"
  shows "path_char c \<Longrightarrow> f (char_int c) = t"
  using assms high_int by (auto simp: path_char_def)

lemma query_charI:
  assumes "\<And>n. n < 0 \<Longrightarrow> f n = t" "\<forall>c \<in> set path_ascii. f (char_int c) = t" "f 63 = t"
  shows "query_char c \<Longrightarrow> f (char_int c) = t"
  using path_charI [of f t c] assms by (auto simp: query_char_def)

lemma char_int_inj: "char_int a = char_int b \<longleftrightarrow> a = b"
proof
  assume "char_int a = char_int b"
  moreover have "(of_char c :: int) = int (of_char c :: nat)" for c by (simp only: of_nat_of_char)
  ultimately show "a = b"
    unfolding char_int_def Let_def
    by (auto split: if_splits) (use nat_of_char_less_256 [of a] nat_of_char_less_256 [of b] in linarith)+
qed simp


lemma uri_text_first: "w \<noteq> [] \<Longrightarrow> uri_text ok w \<Longrightarrow> hd w = CHR ''%'' \<or> ok (hd w)"
  by (cases w) (auto split: if_splits)


lemma run_walkI:
  "walk S A w = Some B \<Longrightarrow> buf = w @ rest \<Longrightarrow> q = p + length w \<Longrightarrow> run S act stops A p buf s = run S act stops B q rest s"
  by (simp add: run_walk)

end
