(* ===== verification/Http11_States.thy ===== *)
theory Http11_States
  imports Ragel
begin

text \<open>
  The request parser's machine (\<open>sylar/http/http11_parser.rl.cc\<close>), block by block: the actions
  named in the grammar, the \<open>ctr\<close> blocks with the actions they make, and the 350 states. The
  characters \<open>{\<close>, \<open>}\<close> and \<open>^\<close> are accepted in a URI when the parser's flag \<open>uri_relaxed\<close> is
  set, which is the argument \<open>relaxed\<close>.
\<close>

datatype http_action =
    Mark | Start_field | Write_field | Start_value | Write_value | Request_method |
    Request_uri | Fragment | Start_query | Query_string | Http_version | Request_path | Done |
    Xml | Json

section \<open>Blocks of actions\<close>

definition http_ctr0 :: "http_action target" where
  "http_ctr0 = ([Mark], 2)"

definition http_ctr2 :: "http_action target" where
  "http_ctr2 = ([Mark], 194)"

definition http_ctr3 :: "http_action target" where
  "http_ctr3 = ([Mark], 198)"

definition http_ctr4 :: "http_action target" where
  "http_ctr4 = ([Request_method], 3)"

definition http_ctr6 :: "http_action target" where
  "http_ctr6 = ([Mark, Request_path, Request_uri], 4)"

definition http_ctr7 :: "http_action target" where
  "http_ctr7 = ([Mark], 19)"

definition http_ctr8 :: "http_action target" where
  "http_ctr8 = ([Mark, Request_path, Request_uri], 20)"

definition http_ctr9 :: "http_action target" where
  "http_ctr9 = ([Mark], 24)"

definition http_ctr10 :: "http_action target" where
  "http_ctr10 = ([Mark], 33)"

definition http_ctr11 :: "http_action target" where
  "http_ctr11 = ([Mark, Request_path], 29)"

definition http_ctr12 :: "http_action target" where
  "http_ctr12 = ([Mark], 173)"

definition http_ctr13 :: "http_action target" where
  "http_ctr13 = ([Mark], 19)"

definition http_ctr15 :: "http_action target" where
  "http_ctr15 = ([Mark], 5)"

definition http_ctr23 :: "http_action target" where
  "http_ctr23 = ([Http_version], 13)"

definition http_ctr24 :: "http_action target" where
  "http_ctr24 = ([Http_version], 17)"

definition http_ctr25 :: "http_action target" where
  "http_ctr25 = ([Start_field], 14)"

definition http_ctr26 :: "http_action target" where
  "http_ctr26 = ([Start_field, Done], 348)"

definition http_ctr27 :: "http_action target" where
  "http_ctr27 = ([Start_field], 18)"

definition http_ctr29 :: "http_action target" where
  "http_ctr29 = ([Write_field], 15)"

definition http_ctr30 :: "http_action target" where
  "http_ctr30 = ([Start_value], 16)"

definition http_ctr31 :: "http_action target" where
  "http_ctr31 = ([Start_value], 15)"

definition http_ctr32 :: "http_action target" where
  "http_ctr32 = ([Start_value, Write_value], 13)"

definition http_ctr33 :: "http_action target" where
  "http_ctr33 = ([Start_value, Write_value], 17)"

definition http_ctr35 :: "http_action target" where
  "http_ctr35 = ([Write_value], 13)"

definition http_ctr36 :: "http_action target" where
  "http_ctr36 = ([Write_value], 17)"

definition http_ctr38 :: "http_action target" where
  "http_ctr38 = ([Done], 348)"

definition http_ctr39 :: "http_action target" where
  "http_ctr39 = ([Request_path, Request_uri], 4)"

definition http_ctr41 :: "http_action target" where
  "http_ctr41 = ([Request_path, Request_uri], 20)"

definition http_ctr44 :: "http_action target" where
  "http_ctr44 = ([Request_path], 29)"

definition http_ctr46 :: "http_action target" where
  "http_ctr46 = ([Mark], 21)"

definition http_ctr47 :: "http_action target" where
  "http_ctr47 = ([Mark, Fragment], 4)"

definition http_ctr48 :: "http_action target" where
  "http_ctr48 = ([Mark], 22)"

definition http_ctr49 :: "http_action target" where
  "http_ctr49 = ([Mark], 21)"

definition http_ctr51 :: "http_action target" where
  "http_ctr51 = ([Fragment], 4)"

definition http_ctr59 :: "http_action target" where
  "http_ctr59 = ([Start_query], 30)"

definition http_ctr60 :: "http_action target" where
  "http_ctr60 = ([Start_query, Query_string, Request_uri], 4)"

definition http_ctr61 :: "http_action target" where
  "http_ctr61 = ([Start_query, Query_string, Request_uri], 20)"

definition http_ctr62 :: "http_action target" where
  "http_ctr62 = ([Start_query], 31)"

definition http_ctr63 :: "http_action target" where
  "http_ctr63 = ([Start_query], 30)"

definition http_ctr65 :: "http_action target" where
  "http_ctr65 = ([Query_string, Request_uri], 4)"

definition http_ctr66 :: "http_action target" where
  "http_ctr66 = ([Query_string, Request_uri], 20)"

definition http_ctr215 :: "http_action target" where
  "http_ctr215 = ([Mark], 26)"

definition http_ctr216 :: "http_action target" where
  "http_ctr216 = ([Mark], 27)"

definition http_ctr217 :: "http_action target" where
  "http_ctr217 = ([Mark], 26)"

definition http_ctr237 :: "http_action target" where
  "http_ctr237 = ([Request_path], 196)"

definition http_ctr240 :: "http_action target" where
  "http_ctr240 = ([Xml, Done], 349)"

definition http_ctr241 :: "http_action target" where
  "http_ctr241 = ([Request_path], 199)"

definition http_ctr246 :: "http_action target" where
  "http_ctr246 = ([Mark], 200)"

definition http_ctr249 :: "http_action target" where
  "http_ctr249 = ([Json, Done], 349)"

lemmas http_ctrs =
  http_ctr0_def http_ctr2_def http_ctr3_def http_ctr4_def http_ctr6_def http_ctr7_def
  http_ctr8_def http_ctr9_def http_ctr10_def http_ctr11_def http_ctr12_def http_ctr13_def
  http_ctr15_def http_ctr23_def http_ctr24_def http_ctr25_def http_ctr26_def http_ctr27_def
  http_ctr29_def http_ctr30_def http_ctr31_def http_ctr32_def http_ctr33_def http_ctr35_def
  http_ctr36_def http_ctr38_def http_ctr39_def http_ctr41_def http_ctr44_def http_ctr46_def
  http_ctr47_def http_ctr48_def http_ctr49_def http_ctr51_def http_ctr59_def http_ctr60_def
  http_ctr61_def http_ctr62_def http_ctr63_def http_ctr65_def http_ctr66_def http_ctr215_def
  http_ctr216_def http_ctr217_def http_ctr237_def http_ctr240_def http_ctr241_def
  http_ctr246_def http_ctr249_def

section \<open>States\<close>

definition http_st0 :: "bool \<Rightarrow> int \<Rightarrow> http_action target" where
  "http_st0 relaxed c = st 0"

definition http_st1 :: "bool \<Rightarrow> int \<Rightarrow> http_action target" where
  "http_st1 relaxed c =
     (if c = 60 then http_ctr2 else if c = 64 then http_ctr3 else if c > 57 then (if 65 \<le> c
     \<and> c \<le> 90 then http_ctr0 else st 0) else if c \<ge> 48 then http_ctr0 else st 0)"

definition http_st2 :: "bool \<Rightarrow> int \<Rightarrow> http_action target" where
  "http_st2 relaxed c =
     (if c = 32 then http_ctr4 else if c > 57 then (if 65 \<le> c \<and> c \<le> 90 then st 175
     else st 0) else if c \<ge> 48 then st 175 else st 0)"

definition http_st3 :: "bool \<Rightarrow> int \<Rightarrow> http_action target" where
  "http_st3 relaxed c =
     (if c = 32 then http_ctr6 else if c = 33 then http_ctr7 else if c = 35 then http_ctr8 else if
     c = 37 then http_ctr9 else if c = 47 then http_ctr10 else if c = 59 then http_ctr7 else if c
     = 61 then http_ctr7 else if c = 63 then http_ctr11 else if c = 64 then http_ctr7 else if c =
     94 then (if relaxed then http_ctr13 else st 0) else if c = 95 then http_ctr7 else if c = 123
     then (if relaxed then http_ctr13 else st 0) else if c = 125 then (if relaxed then http_ctr13
     else st 0) else if c = 126 then http_ctr7 else if c < 65 then (if 36 \<le> c \<and> c \<le>
     57 then http_ctr7 else st 0) else if c > 90 then (if 97 \<le> c \<and> c \<le> 122 then
     http_ctr12 else st 0) else http_ctr12)"

definition http_st4 :: "bool \<Rightarrow> int \<Rightarrow> http_action target" where
  "http_st4 relaxed c = (if c = 72 then http_ctr15 else st 0)"

definition http_st5 :: "bool \<Rightarrow> int \<Rightarrow> http_action target" where
  "http_st5 relaxed c = (if c = 84 then st 6 else st 0)"

definition http_st6 :: "bool \<Rightarrow> int \<Rightarrow> http_action target" where
  "http_st6 relaxed c = (if c = 84 then st 7 else st 0)"

definition http_st7 :: "bool \<Rightarrow> int \<Rightarrow> http_action target" where
  "http_st7 relaxed c = (if c = 80 then st 8 else st 0)"

definition http_st8 :: "bool \<Rightarrow> int \<Rightarrow> http_action target" where
  "http_st8 relaxed c = (if c = 47 then st 9 else st 0)"

definition http_st9 :: "bool \<Rightarrow> int \<Rightarrow> http_action target" where
  "http_st9 relaxed c = (if c = 49 then st 10 else st 0)"

definition http_st10 :: "bool \<Rightarrow> int \<Rightarrow> http_action target" where
  "http_st10 relaxed c = (if c = 46 then st 11 else st 0)"

definition http_st11 :: "bool \<Rightarrow> int \<Rightarrow> http_action target" where
  "http_st11 relaxed c = (if 48 \<le> c \<and> c \<le> 49 then st 12 else st 0)"

definition http_st12 :: "bool \<Rightarrow> int \<Rightarrow> http_action target" where
  "http_st12 relaxed c = (if c = 10 then http_ctr23 else if c = 13 then http_ctr24 else st 0)"

definition http_st13 :: "bool \<Rightarrow> int \<Rightarrow> http_action target" where
  "http_st13 relaxed c =
     (if c = 10 then http_ctr26 else if c = 13 then http_ctr27 else if c = 33 then http_ctr25 else
     if c = 124 then http_ctr25 else if c = 126 then http_ctr25 else if c < 42 then (if c < 11
     then (if 1 \<le> c \<and> c \<le> 8 then http_ctr25 else st 0) else if c > 31 then (if 35
     \<le> c \<and> c \<le> 39 then http_ctr25 else st 0) else http_ctr25) else if c > 43 then
     (if c < 48 then (if 45 \<le> c \<and> c \<le> 46 then http_ctr25 else st 0) else if c > 57
     then (if c > 90 then (if 94 \<le> c \<and> c \<le> 122 then http_ctr25 else st 0) else if c
     \<ge> 65 then http_ctr25 else st 0) else http_ctr25) else http_ctr25)"

definition http_st14 :: "bool \<Rightarrow> int \<Rightarrow> http_action target" where
  "http_st14 relaxed c =
     (if c = 33 then st 14 else if c = 58 then http_ctr29 else if c = 124 then st 14 else if c =
     126 then st 14 else if c < 42 then (if c < 10 then (if 1 \<le> c \<and> c \<le> 8 then st 14
     else st 0) else if c > 31 then (if 35 \<le> c \<and> c \<le> 39 then st 14 else st 0) else
     st 14) else if c > 43 then (if c < 48 then (if 45 \<le> c \<and> c \<le> 46 then st 14 else
     st 0) else if c > 57 then (if c > 90 then (if 94 \<le> c \<and> c \<le> 122 then st 14 else
     st 0) else if c \<ge> 65 then st 14 else st 0) else st 14) else st 14)"

definition http_st15 :: "bool \<Rightarrow> int \<Rightarrow> http_action target" where
  "http_st15 relaxed c =
     (if c = 0 then st 0 else if c = 9 then http_ctr31 else if c = 10 then http_ctr32 else if c =
     13 then http_ctr33 else if c = 32 then http_ctr31 else if c = 127 then st 0 else http_ctr30)"

definition http_st16 :: "bool \<Rightarrow> int \<Rightarrow> http_action target" where
  "http_st16 relaxed c =
     (if c = 0 then st 0 else if c = 10 then http_ctr35 else if c = 13 then http_ctr36 else if c =
     127 then st 0 else st 16)"

definition http_st17 :: "bool \<Rightarrow> int \<Rightarrow> http_action target" where
  "http_st17 relaxed c = (if c = 10 then st 13 else st 0)"

definition http_st18 :: "bool \<Rightarrow> int \<Rightarrow> http_action target" where
  "http_st18 relaxed c =
     (if c = 10 then http_ctr38 else if c = 33 then st 14 else if c = 58 then http_ctr29 else if c
     = 124 then st 14 else if c = 126 then st 14 else if c < 42 then (if c < 11 then (if 1 \<le>
     c \<and> c \<le> 8 then st 14 else st 0) else if c > 31 then (if 35 \<le> c \<and> c \<le>
     39 then st 14 else st 0) else st 14) else if c > 43 then (if c < 48 then (if 45 \<le> c
     \<and> c \<le> 46 then st 14 else st 0) else if c > 57 then (if c > 90 then (if 94 \<le> c
     \<and> c \<le> 122 then st 14 else st 0) else if c \<ge> 65 then st 14 else st 0) else st
     14) else st 14)"

definition http_st19 :: "bool \<Rightarrow> int \<Rightarrow> http_action target" where
  "http_st19 relaxed c =
     (if c = 32 then http_ctr39 else if c = 33 then st 19 else if c = 35 then http_ctr41 else if c
     = 37 then st 24 else if c = 47 then st 26 else if c = 59 then st 19 else if c = 61 then st
     19 else if c = 63 then http_ctr44 else if c = 94 then (if relaxed then st 19 else st 0) else
     if c = 95 then st 19 else if c = 123 then (if relaxed then st 19 else st 0) else if c = 125
     then (if relaxed then st 19 else st 0) else if c = 126 then st 19 else if c < 64 then (if 36
     \<le> c \<and> c \<le> 57 then st 19 else st 0) else if c > 90 then (if 97 \<le> c \<and> c
     \<le> 122 then st 19 else st 0) else st 19)"

definition http_st20 :: "bool \<Rightarrow> int \<Rightarrow> http_action target" where
  "http_st20 relaxed c =
     (if c = 32 then http_ctr47 else if c = 37 then http_ctr48 else if c = 60 then st 0 else if c
     = 62 then st 0 else if c = 94 then (if relaxed then http_ctr49 else st 0) else if c = 96
     then st 0 else if c = 124 then st 0 else if c = 127 then st 0 else if c < 34 then (if 0
     \<le> c \<and> c \<le> 31 then st 0 else http_ctr46) else if c > 35 then (if c > 93 then (if
     123 \<le> c \<and> c \<le> 125 then (if relaxed then http_ctr49 else st 0) else http_ctr46)
     else if c \<ge> 91 then st 0 else http_ctr46) else st 0)"

definition http_st21 :: "bool \<Rightarrow> int \<Rightarrow> http_action target" where
  "http_st21 relaxed c =
     (if c = 32 then http_ctr51 else if c = 37 then st 22 else if c = 60 then st 0 else if c = 62
     then st 0 else if c = 94 then (if relaxed then st 21 else st 0) else if c = 96 then st 0
     else if c = 124 then st 0 else if c = 127 then st 0 else if c < 34 then (if 0 \<le> c \<and>
     c \<le> 31 then st 0 else st 21) else if c > 35 then (if c > 93 then (if 123 \<le> c \<and>
     c \<le> 125 then (if relaxed then st 21 else st 0) else st 21) else if c \<ge> 91 then st 0
     else st 21) else st 0)"

definition http_st22 :: "bool \<Rightarrow> int \<Rightarrow> http_action target" where
  "http_st22 relaxed c =
     (if c < 65 then (if 48 \<le> c \<and> c \<le> 57 then st 23 else st 0) else if c > 70 then
     (if 97 \<le> c \<and> c \<le> 102 then st 23 else st 0) else st 23)"

definition http_st23 :: "bool \<Rightarrow> int \<Rightarrow> http_action target" where
  "http_st23 relaxed c =
     (if c < 65 then (if 48 \<le> c \<and> c \<le> 57 then st 21 else st 0) else if c > 70 then
     (if 97 \<le> c \<and> c \<le> 102 then st 21 else st 0) else st 21)"

definition http_st24 :: "bool \<Rightarrow> int \<Rightarrow> http_action target" where
  "http_st24 relaxed c =
     (if c < 65 then (if 48 \<le> c \<and> c \<le> 57 then st 25 else st 0) else if c > 70 then
     (if 97 \<le> c \<and> c \<le> 102 then st 25 else st 0) else st 25)"

definition http_st25 :: "bool \<Rightarrow> int \<Rightarrow> http_action target" where
  "http_st25 relaxed c =
     (if c < 65 then (if 48 \<le> c \<and> c \<le> 57 then st 19 else st 0) else if c > 70 then
     (if 97 \<le> c \<and> c \<le> 102 then st 19 else st 0) else st 19)"

definition http_st26 :: "bool \<Rightarrow> int \<Rightarrow> http_action target" where
  "http_st26 relaxed c =
     (if c = 32 then http_ctr39 else if c = 34 then st 0 else if c = 35 then http_ctr41 else if c
     = 37 then st 27 else if c = 60 then st 0 else if c = 62 then st 0 else if c = 63 then
     http_ctr44 else if c = 94 then (if relaxed then st 26 else st 0) else if c = 96 then st 0
     else if c = 124 then st 0 else if c = 127 then st 0 else if c < 91 then (if 0 \<le> c \<and>
     c \<le> 31 then st 0 else st 26) else if c > 93 then (if 123 \<le> c \<and> c \<le> 125 then
     (if relaxed then st 26 else st 0) else st 26) else st 0)"

definition http_st27 :: "bool \<Rightarrow> int \<Rightarrow> http_action target" where
  "http_st27 relaxed c =
     (if c < 65 then (if 48 \<le> c \<and> c \<le> 57 then st 28 else st 0) else if c > 70 then
     (if 97 \<le> c \<and> c \<le> 102 then st 28 else st 0) else st 28)"

definition http_st28 :: "bool \<Rightarrow> int \<Rightarrow> http_action target" where
  "http_st28 relaxed c =
     (if c < 65 then (if 48 \<le> c \<and> c \<le> 57 then st 26 else st 0) else if c > 70 then
     (if 97 \<le> c \<and> c \<le> 102 then st 26 else st 0) else st 26)"

definition http_st29 :: "bool \<Rightarrow> int \<Rightarrow> http_action target" where
  "http_st29 relaxed c =
     (if c = 32 then http_ctr60 else if c = 34 then st 0 else if c = 35 then http_ctr61 else if c
     = 37 then http_ctr62 else if c = 60 then st 0 else if c = 62 then st 0 else if c = 94 then
     (if relaxed then http_ctr63 else st 0) else if c = 96 then st 0 else if c = 124 then st 0
     else if c = 127 then st 0 else if c < 91 then (if 0 \<le> c \<and> c \<le> 31 then st 0 else
     http_ctr59) else if c > 93 then (if 123 \<le> c \<and> c \<le> 125 then (if relaxed then
     http_ctr63 else st 0) else http_ctr59) else st 0)"

definition http_st30 :: "bool \<Rightarrow> int \<Rightarrow> http_action target" where
  "http_st30 relaxed c =
     (if c = 32 then http_ctr65 else if c = 34 then st 0 else if c = 35 then http_ctr66 else if c
     = 37 then st 31 else if c = 60 then st 0 else if c = 62 then st 0 else if c = 94 then (if
     relaxed then st 30 else st 0) else if c = 96 then st 0 else if c = 124 then st 0 else if c =
     127 then st 0 else if c < 91 then (if 0 \<le> c \<and> c \<le> 31 then st 0 else st 30) else
     if c > 93 then (if 123 \<le> c \<and> c \<le> 125 then (if relaxed then st 30 else st 0)
     else st 30) else st 0)"

definition http_st31 :: "bool \<Rightarrow> int \<Rightarrow> http_action target" where
  "http_st31 relaxed c =
     (if c < 65 then (if 48 \<le> c \<and> c \<le> 57 then st 32 else st 0) else if c > 70 then
     (if 97 \<le> c \<and> c \<le> 102 then st 32 else st 0) else st 32)"

definition http_st32 :: "bool \<Rightarrow> int \<Rightarrow> http_action target" where
  "http_st32 relaxed c =
     (if c < 65 then (if 48 \<le> c \<and> c \<le> 57 then st 30 else st 0) else if c > 70 then
     (if 97 \<le> c \<and> c \<le> 102 then st 30 else st 0) else st 30)"

definition http_st33 :: "bool \<Rightarrow> int \<Rightarrow> http_action target" where
  "http_st33 relaxed c =
     (if c = 32 then http_ctr39 else if c = 34 then st 0 else if c = 35 then http_ctr41 else if c
     = 37 then st 27 else if c = 47 then st 34 else if c = 60 then st 0 else if c = 62 then st 0
     else if c = 63 then http_ctr44 else if c = 94 then (if relaxed then st 26 else st 0) else if
     c = 96 then st 0 else if c = 124 then st 0 else if c = 127 then st 0 else if c < 91 then (if
     0 \<le> c \<and> c \<le> 31 then st 0 else st 26) else if c > 93 then (if 123 \<le> c \<and>
     c \<le> 125 then (if relaxed then st 26 else st 0) else st 26) else st 0)"

definition http_st34 :: "bool \<Rightarrow> int \<Rightarrow> http_action target" where
  "http_st34 relaxed c =
     (if c = 32 then http_ctr39 else if c = 33 then st 35 else if c = 35 then http_ctr41 else if c
     = 37 then st 36 else if c = 47 then st 26 else if c = 58 then st 38 else if c = 61 then st
     35 else if c = 63 then http_ctr44 else if c = 64 then st 42 else if c = 91 then st 47 else
     if c = 94 then (if relaxed then st 35 else st 0) else if c = 95 then st 35 else if c = 123
     then (if relaxed then st 35 else st 0) else if c = 125 then (if relaxed then st 35 else st
     0) else if c = 126 then st 35 else if c < 65 then (if 36 \<le> c \<and> c \<le> 59 then st
     35 else st 0) else if c > 90 then (if 97 \<le> c \<and> c \<le> 122 then st 35 else st 0)
     else st 35)"

definition http_st35 :: "bool \<Rightarrow> int \<Rightarrow> http_action target" where
  "http_st35 relaxed c =
     (if c = 32 then http_ctr39 else if c = 33 then st 35 else if c = 35 then http_ctr41 else if c
     = 37 then st 36 else if c = 47 then st 26 else if c = 58 then st 38 else if c = 61 then st
     35 else if c = 63 then http_ctr44 else if c = 64 then st 42 else if c = 94 then (if relaxed
     then st 35 else st 0) else if c = 95 then st 35 else if c = 123 then (if relaxed then st 35
     else st 0) else if c = 125 then (if relaxed then st 35 else st 0) else if c = 126 then st 35
     else if c < 65 then (if 36 \<le> c \<and> c \<le> 59 then st 35 else st 0) else if c > 90
     then (if 97 \<le> c \<and> c \<le> 122 then st 35 else st 0) else st 35)"

definition http_st36 :: "bool \<Rightarrow> int \<Rightarrow> http_action target" where
  "http_st36 relaxed c =
     (if c < 65 then (if 48 \<le> c \<and> c \<le> 57 then st 37 else st 0) else if c > 70 then
     (if 97 \<le> c \<and> c \<le> 102 then st 37 else st 0) else st 37)"

definition http_st37 :: "bool \<Rightarrow> int \<Rightarrow> http_action target" where
  "http_st37 relaxed c =
     (if c < 65 then (if 48 \<le> c \<and> c \<le> 57 then st 35 else st 0) else if c > 70 then
     (if 97 \<le> c \<and> c \<le> 102 then st 35 else st 0) else st 35)"

definition http_st38 :: "bool \<Rightarrow> int \<Rightarrow> http_action target" where
  "http_st38 relaxed c =
     (if c = 32 then http_ctr39 else if c = 33 then st 39 else if c = 35 then http_ctr41 else if c
     = 37 then st 40 else if c = 47 then st 26 else if c = 61 then st 39 else if c = 63 then
     http_ctr44 else if c = 64 then st 42 else if c = 94 then (if relaxed then st 39 else st 0)
     else if c = 95 then st 39 else if c = 123 then (if relaxed then st 39 else st 0) else if c =
     125 then (if relaxed then st 39 else st 0) else if c = 126 then st 39 else if c < 58 then
     (if c > 46 then (if 48 \<le> c then st 38 else st 0) else if c \<ge> 36 then st 39 else st
     0) else if c > 59 then (if c > 90 then (if 97 \<le> c \<and> c \<le> 122 then st 39 else st
     0) else if c \<ge> 65 then st 39 else st 0) else st 39)"

definition http_st39 :: "bool \<Rightarrow> int \<Rightarrow> http_action target" where
  "http_st39 relaxed c =
     (if c = 33 then st 39 else if c = 37 then st 40 else if c = 61 then st 39 else if c = 64 then
     st 42 else if c = 94 then (if relaxed then st 39 else st 0) else if c = 95 then st 39 else
     if c = 123 then (if relaxed then st 39 else st 0) else if c = 125 then (if relaxed then st
     39 else st 0) else if c = 126 then st 39 else if c < 48 then (if 36 \<le> c \<and> c \<le>
     46 then st 39 else st 0) else if c > 59 then (if c > 90 then (if 97 \<le> c \<and> c \<le>
     122 then st 39 else st 0) else if c \<ge> 65 then st 39 else st 0) else st 39)"

definition http_st40 :: "bool \<Rightarrow> int \<Rightarrow> http_action target" where
  "http_st40 relaxed c =
     (if c < 65 then (if 48 \<le> c \<and> c \<le> 57 then st 41 else st 0) else if c > 70 then
     (if 97 \<le> c \<and> c \<le> 102 then st 41 else st 0) else st 41)"

definition http_st41 :: "bool \<Rightarrow> int \<Rightarrow> http_action target" where
  "http_st41 relaxed c =
     (if c < 65 then (if 48 \<le> c \<and> c \<le> 57 then st 39 else st 0) else if c > 70 then
     (if 97 \<le> c \<and> c \<le> 102 then st 39 else st 0) else st 39)"

definition http_st42 :: "bool \<Rightarrow> int \<Rightarrow> http_action target" where
  "http_st42 relaxed c =
     (if c = 32 then http_ctr39 else if c = 33 then st 43 else if c = 35 then http_ctr41 else if c
     = 37 then st 44 else if c = 47 then st 26 else if c = 58 then st 46 else if c = 61 then st
     43 else if c = 63 then http_ctr44 else if c = 91 then st 47 else if c = 94 then (if relaxed
     then st 43 else st 0) else if c = 95 then st 43 else if c = 123 then (if relaxed then st 43
     else st 0) else if c = 125 then (if relaxed then st 43 else st 0) else if c = 126 then st 43
     else if c < 65 then (if 36 \<le> c \<and> c \<le> 59 then st 43 else st 0) else if c > 90
     then (if 97 \<le> c \<and> c \<le> 122 then st 43 else st 0) else st 43)"

definition http_st43 :: "bool \<Rightarrow> int \<Rightarrow> http_action target" where
  "http_st43 relaxed c =
     (if c = 32 then http_ctr39 else if c = 33 then st 43 else if c = 35 then http_ctr41 else if c
     = 37 then st 44 else if c = 47 then st 26 else if c = 58 then st 46 else if c = 61 then st
     43 else if c = 63 then http_ctr44 else if c = 94 then (if relaxed then st 43 else st 0) else
     if c = 95 then st 43 else if c = 123 then (if relaxed then st 43 else st 0) else if c = 125
     then (if relaxed then st 43 else st 0) else if c = 126 then st 43 else if c < 65 then (if 36
     \<le> c \<and> c \<le> 59 then st 43 else st 0) else if c > 90 then (if 97 \<le> c \<and> c
     \<le> 122 then st 43 else st 0) else st 43)"

definition http_st44 :: "bool \<Rightarrow> int \<Rightarrow> http_action target" where
  "http_st44 relaxed c =
     (if c < 65 then (if 48 \<le> c \<and> c \<le> 57 then st 45 else st 0) else if c > 70 then
     (if 97 \<le> c \<and> c \<le> 102 then st 45 else st 0) else st 45)"

definition http_st45 :: "bool \<Rightarrow> int \<Rightarrow> http_action target" where
  "http_st45 relaxed c =
     (if c < 65 then (if 48 \<le> c \<and> c \<le> 57 then st 43 else st 0) else if c > 70 then
     (if 97 \<le> c \<and> c \<le> 102 then st 43 else st 0) else st 43)"

definition http_st46 :: "bool \<Rightarrow> int \<Rightarrow> http_action target" where
  "http_st46 relaxed c =
     (if c = 32 then http_ctr39 else if c = 35 then http_ctr41 else if c = 47 then st 26 else if c
     = 63 then http_ctr44 else if 48 \<le> c \<and> c \<le> 57 then st 46 else st 0)"

definition http_st47 :: "bool \<Rightarrow> int \<Rightarrow> http_action target" where
  "http_st47 relaxed c =
     (if c = 6 then st 48 else if c = 58 then st 167 else if c = 118 then st 169 else if c < 65
     then (if 48 \<le> c \<and> c \<le> 57 then st 91 else st 0) else if c > 70 then (if 97 \<le>
     c \<and> c \<le> 102 then st 91 else st 0) else st 91)"

definition http_st48 :: "bool \<Rightarrow> int \<Rightarrow> http_action target" where
  "http_st48 relaxed c =
     (if c < 65 then (if 48 \<le> c \<and> c \<le> 57 then st 49 else st 0) else if c > 70 then
     (if 97 \<le> c \<and> c \<le> 102 then st 49 else st 0) else st 49)"

definition http_st49 :: "bool \<Rightarrow> int \<Rightarrow> http_action target" where
  "http_st49 relaxed c =
     (if c = 58 then st 53 else if c < 65 then (if 48 \<le> c \<and> c \<le> 57 then st 50 else st
     0) else if c > 70 then (if 97 \<le> c \<and> c \<le> 102 then st 50 else st 0) else st 50)"

definition http_st50 :: "bool \<Rightarrow> int \<Rightarrow> http_action target" where
  "http_st50 relaxed c =
     (if c = 58 then st 53 else if c < 65 then (if 48 \<le> c \<and> c \<le> 57 then st 51 else st
     0) else if c > 70 then (if 97 \<le> c \<and> c \<le> 102 then st 51 else st 0) else st 51)"

definition http_st51 :: "bool \<Rightarrow> int \<Rightarrow> http_action target" where
  "http_st51 relaxed c =
     (if c = 58 then st 53 else if c < 65 then (if 48 \<le> c \<and> c \<le> 57 then st 52 else st
     0) else if c > 70 then (if 97 \<le> c \<and> c \<le> 102 then st 52 else st 0) else st 52)"

definition http_st52 :: "bool \<Rightarrow> int \<Rightarrow> http_action target" where
  "http_st52 relaxed c = (if c = 58 then st 53 else st 0)"

definition http_st53 :: "bool \<Rightarrow> int \<Rightarrow> http_action target" where
  "http_st53 relaxed c =
     (if c = 49 then st 84 else if c = 50 then st 87 else if c < 65 then (if 48 \<le> c \<and> c
     \<le> 57 then st 54 else st 0) else if c > 70 then (if 97 \<le> c \<and> c \<le> 102 then st
     90 else st 0) else st 90)"

definition http_st54 :: "bool \<Rightarrow> int \<Rightarrow> http_action target" where
  "http_st54 relaxed c =
     (if c = 46 then st 55 else if c = 58 then st 80 else if c < 65 then (if 48 \<le> c \<and> c
     \<le> 57 then st 77 else st 0) else if c > 70 then (if 97 \<le> c \<and> c \<le> 102 then st
     77 else st 0) else st 77)"

definition http_st55 :: "bool \<Rightarrow> int \<Rightarrow> http_action target" where
  "http_st55 relaxed c =
     (if c = 49 then st 72 else if c = 50 then st 74 else if 48 \<le> c \<and> c \<le> 57 then st
     56 else st 0)"

definition http_st56 :: "bool \<Rightarrow> int \<Rightarrow> http_action target" where
  "http_st56 relaxed c = (if c = 46 then st 57 else st 0)"

definition http_st57 :: "bool \<Rightarrow> int \<Rightarrow> http_action target" where
  "http_st57 relaxed c =
     (if c = 49 then st 67 else if c = 50 then st 69 else if 48 \<le> c \<and> c \<le> 57 then st
     58 else st 0)"

definition http_st58 :: "bool \<Rightarrow> int \<Rightarrow> http_action target" where
  "http_st58 relaxed c = (if c = 46 then st 59 else st 0)"

definition http_st59 :: "bool \<Rightarrow> int \<Rightarrow> http_action target" where
  "http_st59 relaxed c =
     (if c = 49 then st 62 else if c = 50 then st 64 else if 48 \<le> c \<and> c \<le> 57 then st
     60 else st 0)"

definition http_st60 :: "bool \<Rightarrow> int \<Rightarrow> http_action target" where
  "http_st60 relaxed c = (if c = 93 then st 61 else st 0)"

definition http_st61 :: "bool \<Rightarrow> int \<Rightarrow> http_action target" where
  "http_st61 relaxed c =
     (if c = 32 then http_ctr39 else if c = 35 then http_ctr41 else if c = 47 then st 26 else if c
     = 58 then st 46 else if c = 63 then http_ctr44 else st 0)"

definition http_st62 :: "bool \<Rightarrow> int \<Rightarrow> http_action target" where
  "http_st62 relaxed c =
     (if c = 93 then st 61 else if 48 \<le> c \<and> c \<le> 57 then st 63 else st 0)"

definition http_st63 :: "bool \<Rightarrow> int \<Rightarrow> http_action target" where
  "http_st63 relaxed c =
     (if c = 93 then st 61 else if 48 \<le> c \<and> c \<le> 57 then st 60 else st 0)"

definition http_st64 :: "bool \<Rightarrow> int \<Rightarrow> http_action target" where
  "http_st64 relaxed c =
     (if c = 48 then st 65 else if c = 53 then st 66 else if c = 93 then st 61 else st 0)"

definition http_st65 :: "bool \<Rightarrow> int \<Rightarrow> http_action target" where
  "http_st65 relaxed c = (if 48 \<le> c \<and> c \<le> 57 then st 60 else st 0)"

definition http_st66 :: "bool \<Rightarrow> int \<Rightarrow> http_action target" where
  "http_st66 relaxed c = (if c = 48 then st 60 else st 0)"

definition http_st67 :: "bool \<Rightarrow> int \<Rightarrow> http_action target" where
  "http_st67 relaxed c =
     (if c = 46 then st 59 else if 48 \<le> c \<and> c \<le> 57 then st 68 else st 0)"

definition http_st68 :: "bool \<Rightarrow> int \<Rightarrow> http_action target" where
  "http_st68 relaxed c =
     (if c = 46 then st 59 else if 48 \<le> c \<and> c \<le> 57 then st 58 else st 0)"

definition http_st69 :: "bool \<Rightarrow> int \<Rightarrow> http_action target" where
  "http_st69 relaxed c =
     (if c = 46 then st 59 else if c = 48 then st 70 else if c = 53 then st 71 else st 0)"

definition http_st70 :: "bool \<Rightarrow> int \<Rightarrow> http_action target" where
  "http_st70 relaxed c = (if 48 \<le> c \<and> c \<le> 57 then st 58 else st 0)"

definition http_st71 :: "bool \<Rightarrow> int \<Rightarrow> http_action target" where
  "http_st71 relaxed c = (if c = 48 then st 58 else st 0)"

definition http_st72 :: "bool \<Rightarrow> int \<Rightarrow> http_action target" where
  "http_st72 relaxed c =
     (if c = 46 then st 57 else if 48 \<le> c \<and> c \<le> 57 then st 73 else st 0)"

definition http_st73 :: "bool \<Rightarrow> int \<Rightarrow> http_action target" where
  "http_st73 relaxed c =
     (if c = 46 then st 57 else if 48 \<le> c \<and> c \<le> 57 then st 56 else st 0)"

definition http_st74 :: "bool \<Rightarrow> int \<Rightarrow> http_action target" where
  "http_st74 relaxed c =
     (if c = 46 then st 57 else if c = 48 then st 75 else if c = 53 then st 76 else st 0)"

definition http_st75 :: "bool \<Rightarrow> int \<Rightarrow> http_action target" where
  "http_st75 relaxed c = (if 48 \<le> c \<and> c \<le> 57 then st 56 else st 0)"

definition http_st76 :: "bool \<Rightarrow> int \<Rightarrow> http_action target" where
  "http_st76 relaxed c = (if c = 48 then st 56 else st 0)"

definition http_st77 :: "bool \<Rightarrow> int \<Rightarrow> http_action target" where
  "http_st77 relaxed c =
     (if c = 58 then st 80 else if c < 65 then (if 48 \<le> c \<and> c \<le> 57 then st 78 else st
     0) else if c > 70 then (if 97 \<le> c \<and> c \<le> 102 then st 78 else st 0) else st 78)"

definition http_st78 :: "bool \<Rightarrow> int \<Rightarrow> http_action target" where
  "http_st78 relaxed c =
     (if c = 58 then st 80 else if c < 65 then (if 48 \<le> c \<and> c \<le> 57 then st 79 else st
     0) else if c > 70 then (if 97 \<le> c \<and> c \<le> 102 then st 79 else st 0) else st 79)"

definition http_st79 :: "bool \<Rightarrow> int \<Rightarrow> http_action target" where
  "http_st79 relaxed c = (if c = 58 then st 80 else st 0)"

definition http_st80 :: "bool \<Rightarrow> int \<Rightarrow> http_action target" where
  "http_st80 relaxed c =
     (if c < 65 then (if 48 \<le> c \<and> c \<le> 57 then st 81 else st 0) else if c > 70 then
     (if 97 \<le> c \<and> c \<le> 102 then st 81 else st 0) else st 81)"

definition http_st81 :: "bool \<Rightarrow> int \<Rightarrow> http_action target" where
  "http_st81 relaxed c =
     (if c = 93 then st 61 else if c < 65 then (if 48 \<le> c \<and> c \<le> 57 then st 82 else st
     0) else if c > 70 then (if 97 \<le> c \<and> c \<le> 102 then st 82 else st 0) else st 82)"

definition http_st82 :: "bool \<Rightarrow> int \<Rightarrow> http_action target" where
  "http_st82 relaxed c =
     (if c = 93 then st 61 else if c < 65 then (if 48 \<le> c \<and> c \<le> 57 then st 83 else st
     0) else if c > 70 then (if 97 \<le> c \<and> c \<le> 102 then st 83 else st 0) else st 83)"

definition http_st83 :: "bool \<Rightarrow> int \<Rightarrow> http_action target" where
  "http_st83 relaxed c =
     (if c = 93 then st 61 else if c < 65 then (if 48 \<le> c \<and> c \<le> 57 then st 60 else st
     0) else if c > 70 then (if 97 \<le> c \<and> c \<le> 102 then st 60 else st 0) else st 60)"

definition http_st84 :: "bool \<Rightarrow> int \<Rightarrow> http_action target" where
  "http_st84 relaxed c =
     (if c = 46 then st 55 else if c = 58 then st 80 else if c < 65 then (if 48 \<le> c \<and> c
     \<le> 57 then st 85 else st 0) else if c > 70 then (if 97 \<le> c \<and> c \<le> 102 then st
     77 else st 0) else st 77)"

definition http_st85 :: "bool \<Rightarrow> int \<Rightarrow> http_action target" where
  "http_st85 relaxed c =
     (if c = 46 then st 55 else if c = 58 then st 80 else if c < 65 then (if 48 \<le> c \<and> c
     \<le> 57 then st 86 else st 0) else if c > 70 then (if 97 \<le> c \<and> c \<le> 102 then st
     78 else st 0) else st 78)"

definition http_st86 :: "bool \<Rightarrow> int \<Rightarrow> http_action target" where
  "http_st86 relaxed c =
     (if c = 46 then st 55 else if c = 58 then st 80 else if c < 65 then (if 48 \<le> c \<and> c
     \<le> 57 then st 79 else st 0) else if c > 70 then (if 97 \<le> c \<and> c \<le> 102 then st
     79 else st 0) else st 79)"

definition http_st87 :: "bool \<Rightarrow> int \<Rightarrow> http_action target" where
  "http_st87 relaxed c =
     (if c = 46 then st 55 else if c = 48 then st 88 else if c = 53 then st 89 else if c = 58 then
     st 80 else if c < 65 then (if 49 \<le> c \<and> c \<le> 57 then st 77 else st 0) else if c >
     70 then (if 97 \<le> c \<and> c \<le> 102 then st 77 else st 0) else st 77)"

definition http_st88 :: "bool \<Rightarrow> int \<Rightarrow> http_action target" where
  "http_st88 relaxed c =
     (if c = 58 then st 80 else if c < 65 then (if 48 \<le> c \<and> c \<le> 57 then st 86 else st
     0) else if c > 70 then (if 97 \<le> c \<and> c \<le> 102 then st 78 else st 0) else st 78)"

definition http_st89 :: "bool \<Rightarrow> int \<Rightarrow> http_action target" where
  "http_st89 relaxed c =
     (if c = 48 then st 86 else if c = 58 then st 80 else if c < 65 then (if 49 \<le> c \<and> c
     \<le> 57 then st 78 else st 0) else if c > 70 then (if 97 \<le> c \<and> c \<le> 102 then st
     78 else st 0) else st 78)"

definition http_st90 :: "bool \<Rightarrow> int \<Rightarrow> http_action target" where
  "http_st90 relaxed c =
     (if c = 58 then st 80 else if c < 65 then (if 48 \<le> c \<and> c \<le> 57 then st 77 else st
     0) else if c > 70 then (if 97 \<le> c \<and> c \<le> 102 then st 77 else st 0) else st 77)"

definition http_st91 :: "bool \<Rightarrow> int \<Rightarrow> http_action target" where
  "http_st91 relaxed c =
     (if c = 58 then st 95 else if c < 65 then (if 48 \<le> c \<and> c \<le> 57 then st 92 else st
     0) else if c > 70 then (if 97 \<le> c \<and> c \<le> 102 then st 92 else st 0) else st 92)"

definition http_st92 :: "bool \<Rightarrow> int \<Rightarrow> http_action target" where
  "http_st92 relaxed c =
     (if c = 58 then st 95 else if c < 65 then (if 48 \<le> c \<and> c \<le> 57 then st 93 else st
     0) else if c > 70 then (if 97 \<le> c \<and> c \<le> 102 then st 93 else st 0) else st 93)"

definition http_st93 :: "bool \<Rightarrow> int \<Rightarrow> http_action target" where
  "http_st93 relaxed c =
     (if c = 58 then st 95 else if c < 65 then (if 48 \<le> c \<and> c \<le> 57 then st 94 else st
     0) else if c > 70 then (if 97 \<le> c \<and> c \<le> 102 then st 94 else st 0) else st 94)"

definition http_st94 :: "bool \<Rightarrow> int \<Rightarrow> http_action target" where
  "http_st94 relaxed c = (if c = 58 then st 95 else st 0)"

definition http_st95 :: "bool \<Rightarrow> int \<Rightarrow> http_action target" where
  "http_st95 relaxed c =
     (if c = 58 then st 166 else if c < 65 then (if 48 \<le> c \<and> c \<le> 57 then st 96 else
     st 0) else if c > 70 then (if 97 \<le> c \<and> c \<le> 102 then st 96 else st 0) else st 96)"

definition http_st96 :: "bool \<Rightarrow> int \<Rightarrow> http_action target" where
  "http_st96 relaxed c =
     (if c = 58 then st 100 else if c < 65 then (if 48 \<le> c \<and> c \<le> 57 then st 97 else
     st 0) else if c > 70 then (if 97 \<le> c \<and> c \<le> 102 then st 97 else st 0) else st 97)"

definition http_st97 :: "bool \<Rightarrow> int \<Rightarrow> http_action target" where
  "http_st97 relaxed c =
     (if c = 58 then st 100 else if c < 65 then (if 48 \<le> c \<and> c \<le> 57 then st 98 else
     st 0) else if c > 70 then (if 97 \<le> c \<and> c \<le> 102 then st 98 else st 0) else st 98)"

definition http_st98 :: "bool \<Rightarrow> int \<Rightarrow> http_action target" where
  "http_st98 relaxed c =
     (if c = 58 then st 100 else if c < 65 then (if 48 \<le> c \<and> c \<le> 57 then st 99 else
     st 0) else if c > 70 then (if 97 \<le> c \<and> c \<le> 102 then st 99 else st 0) else st 99)"

definition http_st99 :: "bool \<Rightarrow> int \<Rightarrow> http_action target" where
  "http_st99 relaxed c = (if c = 58 then st 100 else st 0)"

definition http_st100 :: "bool \<Rightarrow> int \<Rightarrow> http_action target" where
  "http_st100 relaxed c =
     (if c = 58 then st 165 else if c < 65 then (if 48 \<le> c \<and> c \<le> 57 then st 101 else
     st 0) else if c > 70 then (if 97 \<le> c \<and> c \<le> 102 then st 101 else st 0) else st
     101)"

definition http_st101 :: "bool \<Rightarrow> int \<Rightarrow> http_action target" where
  "http_st101 relaxed c =
     (if c = 58 then st 105 else if c < 65 then (if 48 \<le> c \<and> c \<le> 57 then st 102 else
     st 0) else if c > 70 then (if 97 \<le> c \<and> c \<le> 102 then st 102 else st 0) else st
     102)"

definition http_st102 :: "bool \<Rightarrow> int \<Rightarrow> http_action target" where
  "http_st102 relaxed c =
     (if c = 58 then st 105 else if c < 65 then (if 48 \<le> c \<and> c \<le> 57 then st 103 else
     st 0) else if c > 70 then (if 97 \<le> c \<and> c \<le> 102 then st 103 else st 0) else st
     103)"

definition http_st103 :: "bool \<Rightarrow> int \<Rightarrow> http_action target" where
  "http_st103 relaxed c =
     (if c = 58 then st 105 else if c < 65 then (if 48 \<le> c \<and> c \<le> 57 then st 104 else
     st 0) else if c > 70 then (if 97 \<le> c \<and> c \<le> 102 then st 104 else st 0) else st
     104)"

definition http_st104 :: "bool \<Rightarrow> int \<Rightarrow> http_action target" where
  "http_st104 relaxed c = (if c = 58 then st 105 else st 0)"

definition http_st105 :: "bool \<Rightarrow> int \<Rightarrow> http_action target" where
  "http_st105 relaxed c =
     (if c = 58 then st 164 else if c < 65 then (if 48 \<le> c \<and> c \<le> 57 then st 106 else
     st 0) else if c > 70 then (if 97 \<le> c \<and> c \<le> 102 then st 106 else st 0) else st
     106)"

definition http_st106 :: "bool \<Rightarrow> int \<Rightarrow> http_action target" where
  "http_st106 relaxed c =
     (if c = 58 then st 110 else if c < 65 then (if 48 \<le> c \<and> c \<le> 57 then st 107 else
     st 0) else if c > 70 then (if 97 \<le> c \<and> c \<le> 102 then st 107 else st 0) else st
     107)"

definition http_st107 :: "bool \<Rightarrow> int \<Rightarrow> http_action target" where
  "http_st107 relaxed c =
     (if c = 58 then st 110 else if c < 65 then (if 48 \<le> c \<and> c \<le> 57 then st 108 else
     st 0) else if c > 70 then (if 97 \<le> c \<and> c \<le> 102 then st 108 else st 0) else st
     108)"

definition http_st108 :: "bool \<Rightarrow> int \<Rightarrow> http_action target" where
  "http_st108 relaxed c =
     (if c = 58 then st 110 else if c < 65 then (if 48 \<le> c \<and> c \<le> 57 then st 109 else
     st 0) else if c > 70 then (if 97 \<le> c \<and> c \<le> 102 then st 109 else st 0) else st
     109)"

definition http_st109 :: "bool \<Rightarrow> int \<Rightarrow> http_action target" where
  "http_st109 relaxed c = (if c = 58 then st 110 else st 0)"

definition http_st110 :: "bool \<Rightarrow> int \<Rightarrow> http_action target" where
  "http_st110 relaxed c =
     (if c = 58 then st 163 else if c < 65 then (if 48 \<le> c \<and> c \<le> 57 then st 111 else
     st 0) else if c > 70 then (if 97 \<le> c \<and> c \<le> 102 then st 111 else st 0) else st
     111)"

definition http_st111 :: "bool \<Rightarrow> int \<Rightarrow> http_action target" where
  "http_st111 relaxed c =
     (if c = 58 then st 115 else if c < 65 then (if 48 \<le> c \<and> c \<le> 57 then st 112 else
     st 0) else if c > 70 then (if 97 \<le> c \<and> c \<le> 102 then st 112 else st 0) else st
     112)"

definition http_st112 :: "bool \<Rightarrow> int \<Rightarrow> http_action target" where
  "http_st112 relaxed c =
     (if c = 58 then st 115 else if c < 65 then (if 48 \<le> c \<and> c \<le> 57 then st 113 else
     st 0) else if c > 70 then (if 97 \<le> c \<and> c \<le> 102 then st 113 else st 0) else st
     113)"

definition http_st113 :: "bool \<Rightarrow> int \<Rightarrow> http_action target" where
  "http_st113 relaxed c =
     (if c = 58 then st 115 else if c < 65 then (if 48 \<le> c \<and> c \<le> 57 then st 114 else
     st 0) else if c > 70 then (if 97 \<le> c \<and> c \<le> 102 then st 114 else st 0) else st
     114)"

definition http_st114 :: "bool \<Rightarrow> int \<Rightarrow> http_action target" where
  "http_st114 relaxed c = (if c = 58 then st 115 else st 0)"

definition http_st115 :: "bool \<Rightarrow> int \<Rightarrow> http_action target" where
  "http_st115 relaxed c =
     (if c = 58 then st 151 else if c < 65 then (if 48 \<le> c \<and> c \<le> 57 then st 116 else
     st 0) else if c > 70 then (if 97 \<le> c \<and> c \<le> 102 then st 116 else st 0) else st
     116)"

definition http_st116 :: "bool \<Rightarrow> int \<Rightarrow> http_action target" where
  "http_st116 relaxed c =
     (if c = 58 then st 120 else if c < 65 then (if 48 \<le> c \<and> c \<le> 57 then st 117 else
     st 0) else if c > 70 then (if 97 \<le> c \<and> c \<le> 102 then st 117 else st 0) else st
     117)"

definition http_st117 :: "bool \<Rightarrow> int \<Rightarrow> http_action target" where
  "http_st117 relaxed c =
     (if c = 58 then st 120 else if c < 65 then (if 48 \<le> c \<and> c \<le> 57 then st 118 else
     st 0) else if c > 70 then (if 97 \<le> c \<and> c \<le> 102 then st 118 else st 0) else st
     118)"

definition http_st118 :: "bool \<Rightarrow> int \<Rightarrow> http_action target" where
  "http_st118 relaxed c =
     (if c = 58 then st 120 else if c < 65 then (if 48 \<le> c \<and> c \<le> 57 then st 119 else
     st 0) else if c > 70 then (if 97 \<le> c \<and> c \<le> 102 then st 119 else st 0) else st
     119)"

definition http_st119 :: "bool \<Rightarrow> int \<Rightarrow> http_action target" where
  "http_st119 relaxed c = (if c = 58 then st 120 else st 0)"

definition http_st120 :: "bool \<Rightarrow> int \<Rightarrow> http_action target" where
  "http_st120 relaxed c =
     (if c = 58 then st 150 else if c < 65 then (if 48 \<le> c \<and> c \<le> 57 then st 121 else
     st 0) else if c > 70 then (if 97 \<le> c \<and> c \<le> 102 then st 121 else st 0) else st
     121)"

definition http_st121 :: "bool \<Rightarrow> int \<Rightarrow> http_action target" where
  "http_st121 relaxed c =
     (if c = 58 then st 125 else if c < 65 then (if 48 \<le> c \<and> c \<le> 57 then st 122 else
     st 0) else if c > 70 then (if 97 \<le> c \<and> c \<le> 102 then st 122 else st 0) else st
     122)"

definition http_st122 :: "bool \<Rightarrow> int \<Rightarrow> http_action target" where
  "http_st122 relaxed c =
     (if c = 58 then st 125 else if c < 65 then (if 48 \<le> c \<and> c \<le> 57 then st 123 else
     st 0) else if c > 70 then (if 97 \<le> c \<and> c \<le> 102 then st 123 else st 0) else st
     123)"

definition http_st123 :: "bool \<Rightarrow> int \<Rightarrow> http_action target" where
  "http_st123 relaxed c =
     (if c = 58 then st 125 else if c < 65 then (if 48 \<le> c \<and> c \<le> 57 then st 124 else
     st 0) else if c > 70 then (if 97 \<le> c \<and> c \<le> 102 then st 124 else st 0) else st
     124)"

definition http_st124 :: "bool \<Rightarrow> int \<Rightarrow> http_action target" where
  "http_st124 relaxed c = (if c = 58 then st 125 else st 0)"

definition http_st125 :: "bool \<Rightarrow> int \<Rightarrow> http_action target" where
  "http_st125 relaxed c =
     (if c = 58 then st 126 else if c < 65 then (if 48 \<le> c \<and> c \<le> 57 then st 121 else
     st 0) else if c > 70 then (if 97 \<le> c \<and> c \<le> 102 then st 121 else st 0) else st
     121)"

definition http_st126 :: "bool \<Rightarrow> int \<Rightarrow> http_action target" where
  "http_st126 relaxed c =
     (if c = 49 then st 143 else if c = 50 then st 146 else if c = 93 then st 61 else if c < 48
     then (if 2 \<le> c \<and> c \<le> 3 then st 48 else st 0) else if c > 57 then (if c > 70
     then (if 97 \<le> c \<and> c \<le> 102 then st 149 else st 0) else if c \<ge> 65 then st 149
     else st 0) else st 127)"

definition http_st127 :: "bool \<Rightarrow> int \<Rightarrow> http_action target" where
  "http_st127 relaxed c =
     (if c = 46 then st 55 else if c = 58 then st 131 else if c = 93 then st 61 else if c < 65
     then (if 48 \<le> c \<and> c \<le> 57 then st 128 else st 0) else if c > 70 then (if 97
     \<le> c \<and> c \<le> 102 then st 128 else st 0) else st 128)"

definition http_st128 :: "bool \<Rightarrow> int \<Rightarrow> http_action target" where
  "http_st128 relaxed c =
     (if c = 58 then st 131 else if c = 93 then st 61 else if c < 65 then (if 48 \<le> c \<and> c
     \<le> 57 then st 129 else st 0) else if c > 70 then (if 97 \<le> c \<and> c \<le> 102 then
     st 129 else st 0) else st 129)"

definition http_st129 :: "bool \<Rightarrow> int \<Rightarrow> http_action target" where
  "http_st129 relaxed c =
     (if c = 58 then st 131 else if c = 93 then st 61 else if c < 65 then (if 48 \<le> c \<and> c
     \<le> 57 then st 130 else st 0) else if c > 70 then (if 97 \<le> c \<and> c \<le> 102 then
     st 130 else st 0) else st 130)"

definition http_st130 :: "bool \<Rightarrow> int \<Rightarrow> http_action target" where
  "http_st130 relaxed c = (if c = 58 then st 131 else if c = 93 then st 61 else st 0)"

definition http_st131 :: "bool \<Rightarrow> int \<Rightarrow> http_action target" where
  "http_st131 relaxed c =
     (if c = 49 then st 136 else if c = 50 then st 139 else if c < 65 then (if 48 \<le> c \<and> c
     \<le> 57 then st 132 else st 0) else if c > 70 then (if 97 \<le> c \<and> c \<le> 102 then
     st 142 else st 0) else st 142)"

definition http_st132 :: "bool \<Rightarrow> int \<Rightarrow> http_action target" where
  "http_st132 relaxed c =
     (if c = 46 then st 55 else if c = 58 then st 80 else if c = 93 then st 61 else if c < 65 then
     (if 48 \<le> c \<and> c \<le> 57 then st 133 else st 0) else if c > 70 then (if 97 \<le> c
     \<and> c \<le> 102 then st 133 else st 0) else st 133)"

definition http_st133 :: "bool \<Rightarrow> int \<Rightarrow> http_action target" where
  "http_st133 relaxed c =
     (if c = 58 then st 80 else if c = 93 then st 61 else if c < 65 then (if 48 \<le> c \<and> c
     \<le> 57 then st 134 else st 0) else if c > 70 then (if 97 \<le> c \<and> c \<le> 102 then
     st 134 else st 0) else st 134)"

definition http_st134 :: "bool \<Rightarrow> int \<Rightarrow> http_action target" where
  "http_st134 relaxed c =
     (if c = 58 then st 80 else if c = 93 then st 61 else if c < 65 then (if 48 \<le> c \<and> c
     \<le> 57 then st 135 else st 0) else if c > 70 then (if 97 \<le> c \<and> c \<le> 102 then
     st 135 else st 0) else st 135)"

definition http_st135 :: "bool \<Rightarrow> int \<Rightarrow> http_action target" where
  "http_st135 relaxed c = (if c = 58 then st 80 else if c = 93 then st 61 else st 0)"

definition http_st136 :: "bool \<Rightarrow> int \<Rightarrow> http_action target" where
  "http_st136 relaxed c =
     (if c = 46 then st 55 else if c = 58 then st 80 else if c = 93 then st 61 else if c < 65 then
     (if 48 \<le> c \<and> c \<le> 57 then st 137 else st 0) else if c > 70 then (if 97 \<le> c
     \<and> c \<le> 102 then st 133 else st 0) else st 133)"

definition http_st137 :: "bool \<Rightarrow> int \<Rightarrow> http_action target" where
  "http_st137 relaxed c =
     (if c = 46 then st 55 else if c = 58 then st 80 else if c = 93 then st 61 else if c < 65 then
     (if 48 \<le> c \<and> c \<le> 57 then st 138 else st 0) else if c > 70 then (if 97 \<le> c
     \<and> c \<le> 102 then st 134 else st 0) else st 134)"

definition http_st138 :: "bool \<Rightarrow> int \<Rightarrow> http_action target" where
  "http_st138 relaxed c =
     (if c = 46 then st 55 else if c = 58 then st 80 else if c = 93 then st 61 else if c < 65 then
     (if 48 \<le> c \<and> c \<le> 57 then st 135 else st 0) else if c > 70 then (if 97 \<le> c
     \<and> c \<le> 102 then st 135 else st 0) else st 135)"

definition http_st139 :: "bool \<Rightarrow> int \<Rightarrow> http_action target" where
  "http_st139 relaxed c =
     (if c = 46 then st 55 else if c = 48 then st 140 else if c = 53 then st 141 else if c = 58
     then st 80 else if c = 93 then st 61 else if c < 65 then (if 49 \<le> c \<and> c \<le> 57
     then st 133 else st 0) else if c > 70 then (if 97 \<le> c \<and> c \<le> 102 then st 133
     else st 0) else st 133)"

definition http_st140 :: "bool \<Rightarrow> int \<Rightarrow> http_action target" where
  "http_st140 relaxed c =
     (if c = 58 then st 80 else if c = 93 then st 61 else if c < 65 then (if 48 \<le> c \<and> c
     \<le> 57 then st 138 else st 0) else if c > 70 then (if 97 \<le> c \<and> c \<le> 102 then
     st 134 else st 0) else st 134)"

definition http_st141 :: "bool \<Rightarrow> int \<Rightarrow> http_action target" where
  "http_st141 relaxed c =
     (if c = 48 then st 138 else if c = 58 then st 80 else if c = 93 then st 61 else if c < 65
     then (if 49 \<le> c \<and> c \<le> 57 then st 134 else st 0) else if c > 70 then (if 97
     \<le> c \<and> c \<le> 102 then st 134 else st 0) else st 134)"

definition http_st142 :: "bool \<Rightarrow> int \<Rightarrow> http_action target" where
  "http_st142 relaxed c =
     (if c = 58 then st 80 else if c = 93 then st 61 else if c < 65 then (if 48 \<le> c \<and> c
     \<le> 57 then st 133 else st 0) else if c > 70 then (if 97 \<le> c \<and> c \<le> 102 then
     st 133 else st 0) else st 133)"

definition http_st143 :: "bool \<Rightarrow> int \<Rightarrow> http_action target" where
  "http_st143 relaxed c =
     (if c = 46 then st 55 else if c = 58 then st 131 else if c = 93 then st 61 else if c < 65
     then (if 48 \<le> c \<and> c \<le> 57 then st 144 else st 0) else if c > 70 then (if 97
     \<le> c \<and> c \<le> 102 then st 128 else st 0) else st 128)"

definition http_st144 :: "bool \<Rightarrow> int \<Rightarrow> http_action target" where
  "http_st144 relaxed c =
     (if c = 46 then st 55 else if c = 58 then st 131 else if c = 93 then st 61 else if c < 65
     then (if 48 \<le> c \<and> c \<le> 57 then st 145 else st 0) else if c > 70 then (if 97
     \<le> c \<and> c \<le> 102 then st 129 else st 0) else st 129)"

definition http_st145 :: "bool \<Rightarrow> int \<Rightarrow> http_action target" where
  "http_st145 relaxed c =
     (if c = 46 then st 55 else if c = 58 then st 131 else if c = 93 then st 61 else if c < 65
     then (if 48 \<le> c \<and> c \<le> 57 then st 130 else st 0) else if c > 70 then (if 97
     \<le> c \<and> c \<le> 102 then st 130 else st 0) else st 130)"

definition http_st146 :: "bool \<Rightarrow> int \<Rightarrow> http_action target" where
  "http_st146 relaxed c =
     (if c = 46 then st 55 else if c = 48 then st 147 else if c = 53 then st 148 else if c = 58
     then st 131 else if c = 93 then st 61 else if c < 65 then (if 49 \<le> c \<and> c \<le> 57
     then st 128 else st 0) else if c > 70 then (if 97 \<le> c \<and> c \<le> 102 then st 128
     else st 0) else st 128)"

definition http_st147 :: "bool \<Rightarrow> int \<Rightarrow> http_action target" where
  "http_st147 relaxed c =
     (if c = 58 then st 131 else if c = 93 then st 61 else if c < 65 then (if 48 \<le> c \<and> c
     \<le> 57 then st 145 else st 0) else if c > 70 then (if 97 \<le> c \<and> c \<le> 102 then
     st 129 else st 0) else st 129)"

definition http_st148 :: "bool \<Rightarrow> int \<Rightarrow> http_action target" where
  "http_st148 relaxed c =
     (if c = 48 then st 145 else if c = 58 then st 131 else if c = 93 then st 61 else if c < 65
     then (if 49 \<le> c \<and> c \<le> 57 then st 129 else st 0) else if c > 70 then (if 97
     \<le> c \<and> c \<le> 102 then st 129 else st 0) else st 129)"

definition http_st149 :: "bool \<Rightarrow> int \<Rightarrow> http_action target" where
  "http_st149 relaxed c =
     (if c = 58 then st 131 else if c = 93 then st 61 else if c < 65 then (if 48 \<le> c \<and> c
     \<le> 57 then st 128 else st 0) else if c > 70 then (if 97 \<le> c \<and> c \<le> 102 then
     st 128 else st 0) else st 128)"

definition http_st150 :: "bool \<Rightarrow> int \<Rightarrow> http_action target" where
  "http_st150 relaxed c =
     (if c = 49 then st 143 else if c = 50 then st 146 else if c < 48 then (if 2 \<le> c \<and> c
     \<le> 3 then st 48 else st 0) else if c > 57 then (if c > 70 then (if 97 \<le> c \<and> c
     \<le> 102 then st 149 else st 0) else if c \<ge> 65 then st 149 else st 0) else st 127)"

definition http_st151 :: "bool \<Rightarrow> int \<Rightarrow> http_action target" where
  "http_st151 relaxed c =
     (if c = 49 then st 156 else if c = 50 then st 159 else if c < 48 then (if 2 \<le> c \<and> c
     \<le> 3 then st 48 else st 0) else if c > 57 then (if c > 70 then (if 97 \<le> c \<and> c
     \<le> 102 then st 162 else st 0) else if c \<ge> 65 then st 162 else st 0) else st 152)"

definition http_st152 :: "bool \<Rightarrow> int \<Rightarrow> http_action target" where
  "http_st152 relaxed c =
     (if c = 46 then st 55 else if c = 58 then st 131 else if c < 65 then (if 48 \<le> c \<and> c
     \<le> 57 then st 153 else st 0) else if c > 70 then (if 97 \<le> c \<and> c \<le> 102 then
     st 153 else st 0) else st 153)"

definition http_st153 :: "bool \<Rightarrow> int \<Rightarrow> http_action target" where
  "http_st153 relaxed c =
     (if c = 58 then st 131 else if c < 65 then (if 48 \<le> c \<and> c \<le> 57 then st 154 else
     st 0) else if c > 70 then (if 97 \<le> c \<and> c \<le> 102 then st 154 else st 0) else st
     154)"

definition http_st154 :: "bool \<Rightarrow> int \<Rightarrow> http_action target" where
  "http_st154 relaxed c =
     (if c = 58 then st 131 else if c < 65 then (if 48 \<le> c \<and> c \<le> 57 then st 155 else
     st 0) else if c > 70 then (if 97 \<le> c \<and> c \<le> 102 then st 155 else st 0) else st
     155)"

definition http_st155 :: "bool \<Rightarrow> int \<Rightarrow> http_action target" where
  "http_st155 relaxed c = (if c = 58 then st 131 else st 0)"

definition http_st156 :: "bool \<Rightarrow> int \<Rightarrow> http_action target" where
  "http_st156 relaxed c =
     (if c = 46 then st 55 else if c = 58 then st 131 else if c < 65 then (if 48 \<le> c \<and> c
     \<le> 57 then st 157 else st 0) else if c > 70 then (if 97 \<le> c \<and> c \<le> 102 then
     st 153 else st 0) else st 153)"

definition http_st157 :: "bool \<Rightarrow> int \<Rightarrow> http_action target" where
  "http_st157 relaxed c =
     (if c = 46 then st 55 else if c = 58 then st 131 else if c < 65 then (if 48 \<le> c \<and> c
     \<le> 57 then st 158 else st 0) else if c > 70 then (if 97 \<le> c \<and> c \<le> 102 then
     st 154 else st 0) else st 154)"

definition http_st158 :: "bool \<Rightarrow> int \<Rightarrow> http_action target" where
  "http_st158 relaxed c =
     (if c = 46 then st 55 else if c = 58 then st 131 else if c < 65 then (if 48 \<le> c \<and> c
     \<le> 57 then st 155 else st 0) else if c > 70 then (if 97 \<le> c \<and> c \<le> 102 then
     st 155 else st 0) else st 155)"

definition http_st159 :: "bool \<Rightarrow> int \<Rightarrow> http_action target" where
  "http_st159 relaxed c =
     (if c = 46 then st 55 else if c = 48 then st 160 else if c = 53 then st 161 else if c = 58
     then st 131 else if c < 65 then (if 49 \<le> c \<and> c \<le> 57 then st 153 else st 0) else
     if c > 70 then (if 97 \<le> c \<and> c \<le> 102 then st 153 else st 0) else st 153)"

definition http_st160 :: "bool \<Rightarrow> int \<Rightarrow> http_action target" where
  "http_st160 relaxed c =
     (if c = 58 then st 131 else if c < 65 then (if 48 \<le> c \<and> c \<le> 57 then st 158 else
     st 0) else if c > 70 then (if 97 \<le> c \<and> c \<le> 102 then st 154 else st 0) else st
     154)"

definition http_st161 :: "bool \<Rightarrow> int \<Rightarrow> http_action target" where
  "http_st161 relaxed c =
     (if c = 48 then st 158 else if c = 58 then st 131 else if c < 65 then (if 49 \<le> c \<and> c
     \<le> 57 then st 154 else st 0) else if c > 70 then (if 97 \<le> c \<and> c \<le> 102 then
     st 154 else st 0) else st 154)"

definition http_st162 :: "bool \<Rightarrow> int \<Rightarrow> http_action target" where
  "http_st162 relaxed c =
     (if c = 58 then st 131 else if c < 65 then (if 48 \<le> c \<and> c \<le> 57 then st 153 else
     st 0) else if c > 70 then (if 97 \<le> c \<and> c \<le> 102 then st 153 else st 0) else st
     153)"

definition http_st163 :: "bool \<Rightarrow> int \<Rightarrow> http_action target" where
  "http_st163 relaxed c =
     (if c < 48 then (if 2 \<le> c \<and> c \<le> 3 then st 48 else st 0) else if c > 57 then (if
     c > 70 then (if 97 \<le> c \<and> c \<le> 102 then st 49 else st 0) else if c \<ge> 65 then
     st 49 else st 0) else st 49)"

definition http_st164 :: "bool \<Rightarrow> int \<Rightarrow> http_action target" where
  "http_st164 relaxed c = (if 2 \<le> c \<and> c \<le> 3 then st 48 else st 0)"

definition http_st165 :: "bool \<Rightarrow> int \<Rightarrow> http_action target" where
  "http_st165 relaxed c = (if c = 3 then st 48 else st 0)"

definition http_st166 :: "bool \<Rightarrow> int \<Rightarrow> http_action target" where
  "http_st166 relaxed c = (if c = 4 then st 48 else st 0)"

definition http_st167 :: "bool \<Rightarrow> int \<Rightarrow> http_action target" where
  "http_st167 relaxed c = (if c = 58 then st 168 else st 0)"

definition http_st168 :: "bool \<Rightarrow> int \<Rightarrow> http_action target" where
  "http_st168 relaxed c =
     (if c = 49 then st 143 else if c = 50 then st 146 else if c = 93 then st 61 else if c < 48
     then (if 2 \<le> c \<and> c \<le> 5 then st 48 else st 0) else if c > 57 then (if c > 70
     then (if 97 \<le> c \<and> c \<le> 102 then st 149 else st 0) else if c \<ge> 65 then st 149
     else st 0) else st 127)"

definition http_st169 :: "bool \<Rightarrow> int \<Rightarrow> http_action target" where
  "http_st169 relaxed c =
     (if c < 65 then (if 48 \<le> c \<and> c \<le> 57 then st 170 else st 0) else if c > 70 then
     (if 97 \<le> c \<and> c \<le> 102 then st 170 else st 0) else st 170)"

definition http_st170 :: "bool \<Rightarrow> int \<Rightarrow> http_action target" where
  "http_st170 relaxed c =
     (if c = 46 then st 171 else if c < 65 then (if 48 \<le> c \<and> c \<le> 57 then st 170 else
     st 0) else if c > 70 then (if 97 \<le> c \<and> c \<le> 102 then st 170 else st 0) else st
     170)"

definition http_st171 :: "bool \<Rightarrow> int \<Rightarrow> http_action target" where
  "http_st171 relaxed c =
     (if c = 33 then st 172 else if c = 36 then st 172 else if c = 61 then st 172 else if c = 94
     then (if relaxed then st 172 else st 0) else if c = 95 then st 172 else if c = 123 then (if
     relaxed then st 172 else st 0) else if c = 125 then (if relaxed then st 172 else st 0) else
     if c = 126 then st 172 else if c < 48 then (if 38 \<le> c \<and> c \<le> 46 then st 172 else
     st 0) else if c > 59 then (if c > 90 then (if 97 \<le> c \<and> c \<le> 122 then st 172 else
     st 0) else if c \<ge> 65 then st 172 else st 0) else st 172)"

definition http_st172 :: "bool \<Rightarrow> int \<Rightarrow> http_action target" where
  "http_st172 relaxed c =
     (if c = 33 then st 172 else if c = 36 then st 172 else if c = 61 then st 172 else if c = 93
     then st 61 else if c = 94 then (if relaxed then st 172 else st 0) else if c = 95 then st 172
     else if c = 123 then (if relaxed then st 172 else st 0) else if c = 125 then (if relaxed
     then st 172 else st 0) else if c = 126 then st 172 else if c < 48 then (if 38 \<le> c \<and>
     c \<le> 46 then st 172 else st 0) else if c > 59 then (if c > 90 then (if 97 \<le> c \<and>
     c \<le> 122 then st 172 else st 0) else if c \<ge> 65 then st 172 else st 0) else st 172)"

definition http_st173 :: "bool \<Rightarrow> int \<Rightarrow> http_action target" where
  "http_st173 relaxed c =
     (if c = 32 then http_ctr39 else if c = 33 then st 19 else if c = 35 then http_ctr41 else if c
     = 37 then st 24 else if c = 43 then st 173 else if c = 47 then st 26 else if c = 58 then st
     174 else if c = 59 then st 19 else if c = 61 then st 19 else if c = 63 then http_ctr44 else
     if c = 64 then st 19 else if c = 94 then (if relaxed then st 19 else st 0) else if c = 95
     then st 19 else if c = 123 then (if relaxed then st 19 else st 0) else if c = 125 then (if
     relaxed then st 19 else st 0) else if c = 126 then st 19 else if c < 45 then (if 36 \<le> c
     then st 19 else st 0) else if c > 57 then (if c > 90 then (if 97 \<le> c \<and> c \<le> 122
     then st 173 else st 0) else if c \<ge> 65 then st 173 else st 0) else st 173)"

definition http_st174 :: "bool \<Rightarrow> int \<Rightarrow> http_action target" where
  "http_st174 relaxed c =
     (if c = 32 then http_ctr6 else if c = 34 then st 0 else if c = 35 then http_ctr8 else if c =
     37 then http_ctr216 else if c = 47 then http_ctr10 else if c = 60 then st 0 else if c = 62
     then st 0 else if c = 63 then http_ctr11 else if c = 94 then (if relaxed then http_ctr217
     else st 0) else if c = 96 then st 0 else if c = 124 then st 0 else if c = 127 then st 0 else
     if c < 91 then (if 0 \<le> c \<and> c \<le> 31 then st 0 else http_ctr215) else if c > 93
     then (if 123 \<le> c \<and> c \<le> 125 then (if relaxed then http_ctr217 else st 0) else
     http_ctr215) else st 0)"

definition http_st175 :: "bool \<Rightarrow> int \<Rightarrow> http_action target" where
  "http_st175 relaxed c =
     (if c = 32 then http_ctr4 else if c > 57 then (if 65 \<le> c \<and> c \<le> 90 then st 176
     else st 0) else if c \<ge> 48 then st 176 else st 0)"

definition http_st176 :: "bool \<Rightarrow> int \<Rightarrow> http_action target" where
  "http_st176 relaxed c =
     (if c = 32 then http_ctr4 else if c > 57 then (if 65 \<le> c \<and> c \<le> 90 then st 177
     else st 0) else if c \<ge> 48 then st 177 else st 0)"

definition http_st177 :: "bool \<Rightarrow> int \<Rightarrow> http_action target" where
  "http_st177 relaxed c =
     (if c = 32 then http_ctr4 else if c > 57 then (if 65 \<le> c \<and> c \<le> 90 then st 178
     else st 0) else if c \<ge> 48 then st 178 else st 0)"

definition http_st178 :: "bool \<Rightarrow> int \<Rightarrow> http_action target" where
  "http_st178 relaxed c =
     (if c = 32 then http_ctr4 else if c > 57 then (if 65 \<le> c \<and> c \<le> 90 then st 179
     else st 0) else if c \<ge> 48 then st 179 else st 0)"

definition http_st179 :: "bool \<Rightarrow> int \<Rightarrow> http_action target" where
  "http_st179 relaxed c =
     (if c = 32 then http_ctr4 else if c > 57 then (if 65 \<le> c \<and> c \<le> 90 then st 180
     else st 0) else if c \<ge> 48 then st 180 else st 0)"

definition http_st180 :: "bool \<Rightarrow> int \<Rightarrow> http_action target" where
  "http_st180 relaxed c =
     (if c = 32 then http_ctr4 else if c > 57 then (if 65 \<le> c \<and> c \<le> 90 then st 181
     else st 0) else if c \<ge> 48 then st 181 else st 0)"

definition http_st181 :: "bool \<Rightarrow> int \<Rightarrow> http_action target" where
  "http_st181 relaxed c =
     (if c = 32 then http_ctr4 else if c > 57 then (if 65 \<le> c \<and> c \<le> 90 then st 182
     else st 0) else if c \<ge> 48 then st 182 else st 0)"

definition http_st182 :: "bool \<Rightarrow> int \<Rightarrow> http_action target" where
  "http_st182 relaxed c =
     (if c = 32 then http_ctr4 else if c > 57 then (if 65 \<le> c \<and> c \<le> 90 then st 183
     else st 0) else if c \<ge> 48 then st 183 else st 0)"

definition http_st183 :: "bool \<Rightarrow> int \<Rightarrow> http_action target" where
  "http_st183 relaxed c =
     (if c = 32 then http_ctr4 else if c > 57 then (if 65 \<le> c \<and> c \<le> 90 then st 184
     else st 0) else if c \<ge> 48 then st 184 else st 0)"

definition http_st184 :: "bool \<Rightarrow> int \<Rightarrow> http_action target" where
  "http_st184 relaxed c =
     (if c = 32 then http_ctr4 else if c > 57 then (if 65 \<le> c \<and> c \<le> 90 then st 185
     else st 0) else if c \<ge> 48 then st 185 else st 0)"

definition http_st185 :: "bool \<Rightarrow> int \<Rightarrow> http_action target" where
  "http_st185 relaxed c =
     (if c = 32 then http_ctr4 else if c > 57 then (if 65 \<le> c \<and> c \<le> 90 then st 186
     else st 0) else if c \<ge> 48 then st 186 else st 0)"

definition http_st186 :: "bool \<Rightarrow> int \<Rightarrow> http_action target" where
  "http_st186 relaxed c =
     (if c = 32 then http_ctr4 else if c > 57 then (if 65 \<le> c \<and> c \<le> 90 then st 187
     else st 0) else if c \<ge> 48 then st 187 else st 0)"

definition http_st187 :: "bool \<Rightarrow> int \<Rightarrow> http_action target" where
  "http_st187 relaxed c =
     (if c = 32 then http_ctr4 else if c > 57 then (if 65 \<le> c \<and> c \<le> 90 then st 188
     else st 0) else if c \<ge> 48 then st 188 else st 0)"

definition http_st188 :: "bool \<Rightarrow> int \<Rightarrow> http_action target" where
  "http_st188 relaxed c =
     (if c = 32 then http_ctr4 else if c > 57 then (if 65 \<le> c \<and> c \<le> 90 then st 189
     else st 0) else if c \<ge> 48 then st 189 else st 0)"

definition http_st189 :: "bool \<Rightarrow> int \<Rightarrow> http_action target" where
  "http_st189 relaxed c =
     (if c = 32 then http_ctr4 else if c > 57 then (if 65 \<le> c \<and> c \<le> 90 then st 190
     else st 0) else if c \<ge> 48 then st 190 else st 0)"

definition http_st190 :: "bool \<Rightarrow> int \<Rightarrow> http_action target" where
  "http_st190 relaxed c =
     (if c = 32 then http_ctr4 else if c > 57 then (if 65 \<le> c \<and> c \<le> 90 then st 191
     else st 0) else if c \<ge> 48 then st 191 else st 0)"

definition http_st191 :: "bool \<Rightarrow> int \<Rightarrow> http_action target" where
  "http_st191 relaxed c =
     (if c = 32 then http_ctr4 else if c > 57 then (if 65 \<le> c \<and> c \<le> 90 then st 192
     else st 0) else if c \<ge> 48 then st 192 else st 0)"

definition http_st192 :: "bool \<Rightarrow> int \<Rightarrow> http_action target" where
  "http_st192 relaxed c =
     (if c = 32 then http_ctr4 else if c > 57 then (if 65 \<le> c \<and> c \<le> 90 then st 193
     else st 0) else if c \<ge> 48 then st 193 else st 0)"

definition http_st193 :: "bool \<Rightarrow> int \<Rightarrow> http_action target" where
  "http_st193 relaxed c = (if c = 32 then http_ctr4 else st 0)"

definition http_st194 :: "bool \<Rightarrow> int \<Rightarrow> http_action target" where
  "http_st194 relaxed c =
     (if c < 48 then (if 45 \<le> c \<and> c \<le> 46 then st 195 else st 0) else if c > 57 then
     (if c > 90 then (if 97 \<le> c \<and> c \<le> 122 then st 195 else st 0) else if c \<ge> 65
     then st 195 else st 0) else st 195)"

definition http_st195 :: "bool \<Rightarrow> int \<Rightarrow> http_action target" where
  "http_st195 relaxed c =
     (if c = 32 then http_ctr237 else if c = 47 then http_ctr237 else if c = 62 then http_ctr237
     else if c < 45 then (if 9 \<le> c \<and> c \<le> 13 then http_ctr237 else st 0) else if c >
     57 then (if c > 90 then (if 97 \<le> c \<and> c \<le> 122 then st 195 else st 0) else if c
     \<ge> 65 then st 195 else st 0) else st 195)"

definition http_st196 :: "bool \<Rightarrow> int \<Rightarrow> http_action target" where
  "http_st196 relaxed c = (if c = 62 then st 197 else st 196)"

definition http_st197 :: "bool \<Rightarrow> int \<Rightarrow> http_action target" where
  "http_st197 relaxed c = (if c = 0 then http_ctr240 else if c = 62 then st 197 else st 196)"

definition http_st198 :: "bool \<Rightarrow> int \<Rightarrow> http_action target" where
  "http_st198 relaxed c =
     (if c = 32 then http_ctr241 else if c = 33 then st 202 else if c = 37 then st 203 else if c =
     47 then st 208 else if c = 59 then st 202 else if c = 61 then st 202 else if c = 94 then (if
     relaxed then st 202 else st 0) else if c = 95 then st 202 else if c = 123 then (if relaxed
     then st 202 else st 0) else if c = 125 then (if relaxed then st 202 else st 0) else if c =
     126 then st 202 else if c < 64 then (if 36 \<le> c \<and> c \<le> 57 then st 202 else st 0)
     else if c > 90 then (if 97 \<le> c \<and> c \<le> 122 then st 202 else st 0) else st 202)"

definition http_st199 :: "bool \<Rightarrow> int \<Rightarrow> http_action target" where
  "http_st199 relaxed c = (if c = 123 then http_ctr246 else st 0)"

definition http_st200 :: "bool \<Rightarrow> int \<Rightarrow> http_action target" where
  "http_st200 relaxed c = (if c = 125 then st 201 else st 200)"

definition http_st201 :: "bool \<Rightarrow> int \<Rightarrow> http_action target" where
  "http_st201 relaxed c = (if c = 0 then http_ctr249 else if c = 125 then st 201 else st 200)"

definition http_st202 :: "bool \<Rightarrow> int \<Rightarrow> http_action target" where
  "http_st202 relaxed c =
     (if c = 32 then http_ctr241 else if c = 33 then st 202 else if c = 37 then st 203 else if c =
     47 then st 205 else if c = 59 then st 202 else if c = 61 then st 202 else if c = 94 then (if
     relaxed then st 202 else st 0) else if c = 95 then st 202 else if c = 123 then (if relaxed
     then st 202 else st 0) else if c = 125 then (if relaxed then st 202 else st 0) else if c =
     126 then st 202 else if c < 64 then (if 36 \<le> c \<and> c \<le> 57 then st 202 else st 0)
     else if c > 90 then (if 97 \<le> c \<and> c \<le> 122 then st 202 else st 0) else st 202)"

definition http_st203 :: "bool \<Rightarrow> int \<Rightarrow> http_action target" where
  "http_st203 relaxed c =
     (if c < 65 then (if 48 \<le> c \<and> c \<le> 57 then st 204 else st 0) else if c > 70 then
     (if 97 \<le> c \<and> c \<le> 102 then st 204 else st 0) else st 204)"

definition http_st204 :: "bool \<Rightarrow> int \<Rightarrow> http_action target" where
  "http_st204 relaxed c =
     (if c < 65 then (if 48 \<le> c \<and> c \<le> 57 then st 202 else st 0) else if c > 70 then
     (if 97 \<le> c \<and> c \<le> 102 then st 202 else st 0) else st 202)"

definition http_st205 :: "bool \<Rightarrow> int \<Rightarrow> http_action target" where
  "http_st205 relaxed c =
     (if c = 32 then http_ctr241 else if c = 37 then st 206 else if c = 60 then st 0 else if c =
     94 then (if relaxed then st 205 else st 0) else if c = 96 then st 0 else if c = 124 then st
     0 else if c = 127 then st 0 else if c < 62 then (if c > 31 then (if 34 \<le> c \<and> c
     \<le> 35 then st 0 else st 205) else if c \<ge> 0 then st 0 else st 205) else if c > 63 then
     (if c > 93 then (if 123 \<le> c \<and> c \<le> 125 then (if relaxed then st 205 else st 0)
     else st 205) else if c \<ge> 91 then st 0 else st 205) else st 0)"

definition http_st206 :: "bool \<Rightarrow> int \<Rightarrow> http_action target" where
  "http_st206 relaxed c =
     (if c < 65 then (if 48 \<le> c \<and> c \<le> 57 then st 207 else st 0) else if c > 70 then
     (if 97 \<le> c \<and> c \<le> 102 then st 207 else st 0) else st 207)"

definition http_st207 :: "bool \<Rightarrow> int \<Rightarrow> http_action target" where
  "http_st207 relaxed c =
     (if c < 65 then (if 48 \<le> c \<and> c \<le> 57 then st 205 else st 0) else if c > 70 then
     (if 97 \<le> c \<and> c \<le> 102 then st 205 else st 0) else st 205)"

definition http_st208 :: "bool \<Rightarrow> int \<Rightarrow> http_action target" where
  "http_st208 relaxed c =
     (if c = 32 then http_ctr241 else if c = 37 then st 206 else if c = 47 then st 209 else if c =
     60 then st 0 else if c = 94 then (if relaxed then st 205 else st 0) else if c = 96 then st 0
     else if c = 124 then st 0 else if c = 127 then st 0 else if c < 62 then (if c > 31 then (if
     34 \<le> c \<and> c \<le> 35 then st 0 else st 205) else if c \<ge> 0 then st 0 else st 205)
     else if c > 63 then (if c > 93 then (if 123 \<le> c \<and> c \<le> 125 then (if relaxed then
     st 205 else st 0) else st 205) else if c \<ge> 91 then st 0 else st 205) else st 0)"

definition http_st209 :: "bool \<Rightarrow> int \<Rightarrow> http_action target" where
  "http_st209 relaxed c =
     (if c = 32 then http_ctr241 else if c = 33 then st 210 else if c = 37 then st 211 else if c =
     47 then st 205 else if c = 58 then st 213 else if c = 61 then st 210 else if c = 64 then st
     217 else if c = 91 then st 222 else if c = 94 then (if relaxed then st 210 else st 0) else
     if c = 95 then st 210 else if c = 123 then (if relaxed then st 210 else st 0) else if c =
     125 then (if relaxed then st 210 else st 0) else if c = 126 then st 210 else if c < 65 then
     (if 36 \<le> c \<and> c \<le> 59 then st 210 else st 0) else if c > 90 then (if 97 \<le> c
     \<and> c \<le> 122 then st 210 else st 0) else st 210)"

definition http_st210 :: "bool \<Rightarrow> int \<Rightarrow> http_action target" where
  "http_st210 relaxed c =
     (if c = 32 then http_ctr241 else if c = 33 then st 210 else if c = 37 then st 211 else if c =
     47 then st 205 else if c = 58 then st 213 else if c = 61 then st 210 else if c = 64 then st
     217 else if c = 94 then (if relaxed then st 210 else st 0) else if c = 95 then st 210 else
     if c = 123 then (if relaxed then st 210 else st 0) else if c = 125 then (if relaxed then st
     210 else st 0) else if c = 126 then st 210 else if c < 65 then (if 36 \<le> c \<and> c \<le>
     59 then st 210 else st 0) else if c > 90 then (if 97 \<le> c \<and> c \<le> 122 then st 210
     else st 0) else st 210)"

definition http_st211 :: "bool \<Rightarrow> int \<Rightarrow> http_action target" where
  "http_st211 relaxed c =
     (if c < 65 then (if 48 \<le> c \<and> c \<le> 57 then st 212 else st 0) else if c > 70 then
     (if 97 \<le> c \<and> c \<le> 102 then st 212 else st 0) else st 212)"

definition http_st212 :: "bool \<Rightarrow> int \<Rightarrow> http_action target" where
  "http_st212 relaxed c =
     (if c < 65 then (if 48 \<le> c \<and> c \<le> 57 then st 210 else st 0) else if c > 70 then
     (if 97 \<le> c \<and> c \<le> 102 then st 210 else st 0) else st 210)"

definition http_st213 :: "bool \<Rightarrow> int \<Rightarrow> http_action target" where
  "http_st213 relaxed c =
     (if c = 32 then http_ctr241 else if c = 33 then st 214 else if c = 37 then st 215 else if c =
     47 then st 205 else if c = 61 then st 214 else if c = 64 then st 217 else if c = 94 then (if
     relaxed then st 214 else st 0) else if c = 95 then st 214 else if c = 123 then (if relaxed
     then st 214 else st 0) else if c = 125 then (if relaxed then st 214 else st 0) else if c =
     126 then st 214 else if c < 58 then (if c > 46 then (if 48 \<le> c then st 213 else st 0)
     else if c \<ge> 36 then st 214 else st 0) else if c > 59 then (if c > 90 then (if 97 \<le> c
     \<and> c \<le> 122 then st 214 else st 0) else if c \<ge> 65 then st 214 else st 0) else st
     214)"

definition http_st214 :: "bool \<Rightarrow> int \<Rightarrow> http_action target" where
  "http_st214 relaxed c =
     (if c = 33 then st 214 else if c = 37 then st 215 else if c = 61 then st 214 else if c = 64
     then st 217 else if c = 94 then (if relaxed then st 214 else st 0) else if c = 95 then st
     214 else if c = 123 then (if relaxed then st 214 else st 0) else if c = 125 then (if relaxed
     then st 214 else st 0) else if c = 126 then st 214 else if c < 48 then (if 36 \<le> c \<and>
     c \<le> 46 then st 214 else st 0) else if c > 59 then (if c > 90 then (if 97 \<le> c \<and>
     c \<le> 122 then st 214 else st 0) else if c \<ge> 65 then st 214 else st 0) else st 214)"

definition http_st215 :: "bool \<Rightarrow> int \<Rightarrow> http_action target" where
  "http_st215 relaxed c =
     (if c < 65 then (if 48 \<le> c \<and> c \<le> 57 then st 216 else st 0) else if c > 70 then
     (if 97 \<le> c \<and> c \<le> 102 then st 216 else st 0) else st 216)"

definition http_st216 :: "bool \<Rightarrow> int \<Rightarrow> http_action target" where
  "http_st216 relaxed c =
     (if c < 65 then (if 48 \<le> c \<and> c \<le> 57 then st 214 else st 0) else if c > 70 then
     (if 97 \<le> c \<and> c \<le> 102 then st 214 else st 0) else st 214)"

definition http_st217 :: "bool \<Rightarrow> int \<Rightarrow> http_action target" where
  "http_st217 relaxed c =
     (if c = 32 then http_ctr241 else if c = 33 then st 218 else if c = 37 then st 219 else if c =
     47 then st 205 else if c = 58 then st 221 else if c = 61 then st 218 else if c = 91 then st
     222 else if c = 94 then (if relaxed then st 218 else st 0) else if c = 95 then st 218 else
     if c = 123 then (if relaxed then st 218 else st 0) else if c = 125 then (if relaxed then st
     218 else st 0) else if c = 126 then st 218 else if c < 65 then (if 36 \<le> c \<and> c \<le>
     59 then st 218 else st 0) else if c > 90 then (if 97 \<le> c \<and> c \<le> 122 then st 218
     else st 0) else st 218)"

definition http_st218 :: "bool \<Rightarrow> int \<Rightarrow> http_action target" where
  "http_st218 relaxed c =
     (if c = 32 then http_ctr241 else if c = 33 then st 218 else if c = 37 then st 219 else if c =
     47 then st 205 else if c = 58 then st 221 else if c = 61 then st 218 else if c = 94 then (if
     relaxed then st 218 else st 0) else if c = 95 then st 218 else if c = 123 then (if relaxed
     then st 218 else st 0) else if c = 125 then (if relaxed then st 218 else st 0) else if c =
     126 then st 218 else if c < 65 then (if 36 \<le> c \<and> c \<le> 59 then st 218 else st 0)
     else if c > 90 then (if 97 \<le> c \<and> c \<le> 122 then st 218 else st 0) else st 218)"

definition http_st219 :: "bool \<Rightarrow> int \<Rightarrow> http_action target" where
  "http_st219 relaxed c =
     (if c < 65 then (if 48 \<le> c \<and> c \<le> 57 then st 220 else st 0) else if c > 70 then
     (if 97 \<le> c \<and> c \<le> 102 then st 220 else st 0) else st 220)"

definition http_st220 :: "bool \<Rightarrow> int \<Rightarrow> http_action target" where
  "http_st220 relaxed c =
     (if c < 65 then (if 48 \<le> c \<and> c \<le> 57 then st 218 else st 0) else if c > 70 then
     (if 97 \<le> c \<and> c \<le> 102 then st 218 else st 0) else st 218)"

definition http_st221 :: "bool \<Rightarrow> int \<Rightarrow> http_action target" where
  "http_st221 relaxed c =
     (if c = 32 then http_ctr241 else if c = 47 then st 205 else if 48 \<le> c \<and> c \<le> 57
     then st 221 else st 0)"

definition http_st222 :: "bool \<Rightarrow> int \<Rightarrow> http_action target" where
  "http_st222 relaxed c =
     (if c = 6 then st 223 else if c = 58 then st 342 else if c = 118 then st 344 else if c < 65
     then (if 48 \<le> c \<and> c \<le> 57 then st 266 else st 0) else if c > 70 then (if 97
     \<le> c \<and> c \<le> 102 then st 266 else st 0) else st 266)"

definition http_st223 :: "bool \<Rightarrow> int \<Rightarrow> http_action target" where
  "http_st223 relaxed c =
     (if c < 65 then (if 48 \<le> c \<and> c \<le> 57 then st 224 else st 0) else if c > 70 then
     (if 97 \<le> c \<and> c \<le> 102 then st 224 else st 0) else st 224)"

definition http_st224 :: "bool \<Rightarrow> int \<Rightarrow> http_action target" where
  "http_st224 relaxed c =
     (if c = 58 then st 228 else if c < 65 then (if 48 \<le> c \<and> c \<le> 57 then st 225 else
     st 0) else if c > 70 then (if 97 \<le> c \<and> c \<le> 102 then st 225 else st 0) else st
     225)"

definition http_st225 :: "bool \<Rightarrow> int \<Rightarrow> http_action target" where
  "http_st225 relaxed c =
     (if c = 58 then st 228 else if c < 65 then (if 48 \<le> c \<and> c \<le> 57 then st 226 else
     st 0) else if c > 70 then (if 97 \<le> c \<and> c \<le> 102 then st 226 else st 0) else st
     226)"

definition http_st226 :: "bool \<Rightarrow> int \<Rightarrow> http_action target" where
  "http_st226 relaxed c =
     (if c = 58 then st 228 else if c < 65 then (if 48 \<le> c \<and> c \<le> 57 then st 227 else
     st 0) else if c > 70 then (if 97 \<le> c \<and> c \<le> 102 then st 227 else st 0) else st
     227)"

definition http_st227 :: "bool \<Rightarrow> int \<Rightarrow> http_action target" where
  "http_st227 relaxed c = (if c = 58 then st 228 else st 0)"

definition http_st228 :: "bool \<Rightarrow> int \<Rightarrow> http_action target" where
  "http_st228 relaxed c =
     (if c = 49 then st 259 else if c = 50 then st 262 else if c < 65 then (if 48 \<le> c \<and> c
     \<le> 57 then st 229 else st 0) else if c > 70 then (if 97 \<le> c \<and> c \<le> 102 then
     st 265 else st 0) else st 265)"

definition http_st229 :: "bool \<Rightarrow> int \<Rightarrow> http_action target" where
  "http_st229 relaxed c =
     (if c = 46 then st 230 else if c = 58 then st 255 else if c < 65 then (if 48 \<le> c \<and> c
     \<le> 57 then st 252 else st 0) else if c > 70 then (if 97 \<le> c \<and> c \<le> 102 then
     st 252 else st 0) else st 252)"

definition http_st230 :: "bool \<Rightarrow> int \<Rightarrow> http_action target" where
  "http_st230 relaxed c =
     (if c = 49 then st 247 else if c = 50 then st 249 else if 48 \<le> c \<and> c \<le> 57 then
     st 231 else st 0)"

definition http_st231 :: "bool \<Rightarrow> int \<Rightarrow> http_action target" where
  "http_st231 relaxed c = (if c = 46 then st 232 else st 0)"

definition http_st232 :: "bool \<Rightarrow> int \<Rightarrow> http_action target" where
  "http_st232 relaxed c =
     (if c = 49 then st 242 else if c = 50 then st 244 else if 48 \<le> c \<and> c \<le> 57 then
     st 233 else st 0)"

definition http_st233 :: "bool \<Rightarrow> int \<Rightarrow> http_action target" where
  "http_st233 relaxed c = (if c = 46 then st 234 else st 0)"

definition http_st234 :: "bool \<Rightarrow> int \<Rightarrow> http_action target" where
  "http_st234 relaxed c =
     (if c = 49 then st 237 else if c = 50 then st 239 else if 48 \<le> c \<and> c \<le> 57 then
     st 235 else st 0)"

definition http_st235 :: "bool \<Rightarrow> int \<Rightarrow> http_action target" where
  "http_st235 relaxed c = (if c = 93 then st 236 else st 0)"

definition http_st236 :: "bool \<Rightarrow> int \<Rightarrow> http_action target" where
  "http_st236 relaxed c =
     (if c = 32 then http_ctr241 else if c = 47 then st 205 else if c = 58 then st 221 else st 0)"

definition http_st237 :: "bool \<Rightarrow> int \<Rightarrow> http_action target" where
  "http_st237 relaxed c =
     (if c = 93 then st 236 else if 48 \<le> c \<and> c \<le> 57 then st 238 else st 0)"

definition http_st238 :: "bool \<Rightarrow> int \<Rightarrow> http_action target" where
  "http_st238 relaxed c =
     (if c = 93 then st 236 else if 48 \<le> c \<and> c \<le> 57 then st 235 else st 0)"

definition http_st239 :: "bool \<Rightarrow> int \<Rightarrow> http_action target" where
  "http_st239 relaxed c =
     (if c = 48 then st 240 else if c = 53 then st 241 else if c = 93 then st 236 else st 0)"

definition http_st240 :: "bool \<Rightarrow> int \<Rightarrow> http_action target" where
  "http_st240 relaxed c = (if 48 \<le> c \<and> c \<le> 57 then st 235 else st 0)"

definition http_st241 :: "bool \<Rightarrow> int \<Rightarrow> http_action target" where
  "http_st241 relaxed c = (if c = 48 then st 235 else st 0)"

definition http_st242 :: "bool \<Rightarrow> int \<Rightarrow> http_action target" where
  "http_st242 relaxed c =
     (if c = 46 then st 234 else if 48 \<le> c \<and> c \<le> 57 then st 243 else st 0)"

definition http_st243 :: "bool \<Rightarrow> int \<Rightarrow> http_action target" where
  "http_st243 relaxed c =
     (if c = 46 then st 234 else if 48 \<le> c \<and> c \<le> 57 then st 233 else st 0)"

definition http_st244 :: "bool \<Rightarrow> int \<Rightarrow> http_action target" where
  "http_st244 relaxed c =
     (if c = 46 then st 234 else if c = 48 then st 245 else if c = 53 then st 246 else st 0)"

definition http_st245 :: "bool \<Rightarrow> int \<Rightarrow> http_action target" where
  "http_st245 relaxed c = (if 48 \<le> c \<and> c \<le> 57 then st 233 else st 0)"

definition http_st246 :: "bool \<Rightarrow> int \<Rightarrow> http_action target" where
  "http_st246 relaxed c = (if c = 48 then st 233 else st 0)"

definition http_st247 :: "bool \<Rightarrow> int \<Rightarrow> http_action target" where
  "http_st247 relaxed c =
     (if c = 46 then st 232 else if 48 \<le> c \<and> c \<le> 57 then st 248 else st 0)"

definition http_st248 :: "bool \<Rightarrow> int \<Rightarrow> http_action target" where
  "http_st248 relaxed c =
     (if c = 46 then st 232 else if 48 \<le> c \<and> c \<le> 57 then st 231 else st 0)"

definition http_st249 :: "bool \<Rightarrow> int \<Rightarrow> http_action target" where
  "http_st249 relaxed c =
     (if c = 46 then st 232 else if c = 48 then st 250 else if c = 53 then st 251 else st 0)"

definition http_st250 :: "bool \<Rightarrow> int \<Rightarrow> http_action target" where
  "http_st250 relaxed c = (if 48 \<le> c \<and> c \<le> 57 then st 231 else st 0)"

definition http_st251 :: "bool \<Rightarrow> int \<Rightarrow> http_action target" where
  "http_st251 relaxed c = (if c = 48 then st 231 else st 0)"

definition http_st252 :: "bool \<Rightarrow> int \<Rightarrow> http_action target" where
  "http_st252 relaxed c =
     (if c = 58 then st 255 else if c < 65 then (if 48 \<le> c \<and> c \<le> 57 then st 253 else
     st 0) else if c > 70 then (if 97 \<le> c \<and> c \<le> 102 then st 253 else st 0) else st
     253)"

definition http_st253 :: "bool \<Rightarrow> int \<Rightarrow> http_action target" where
  "http_st253 relaxed c =
     (if c = 58 then st 255 else if c < 65 then (if 48 \<le> c \<and> c \<le> 57 then st 254 else
     st 0) else if c > 70 then (if 97 \<le> c \<and> c \<le> 102 then st 254 else st 0) else st
     254)"

definition http_st254 :: "bool \<Rightarrow> int \<Rightarrow> http_action target" where
  "http_st254 relaxed c = (if c = 58 then st 255 else st 0)"

definition http_st255 :: "bool \<Rightarrow> int \<Rightarrow> http_action target" where
  "http_st255 relaxed c =
     (if c < 65 then (if 48 \<le> c \<and> c \<le> 57 then st 256 else st 0) else if c > 70 then
     (if 97 \<le> c \<and> c \<le> 102 then st 256 else st 0) else st 256)"

definition http_st256 :: "bool \<Rightarrow> int \<Rightarrow> http_action target" where
  "http_st256 relaxed c =
     (if c = 93 then st 236 else if c < 65 then (if 48 \<le> c \<and> c \<le> 57 then st 257 else
     st 0) else if c > 70 then (if 97 \<le> c \<and> c \<le> 102 then st 257 else st 0) else st
     257)"

definition http_st257 :: "bool \<Rightarrow> int \<Rightarrow> http_action target" where
  "http_st257 relaxed c =
     (if c = 93 then st 236 else if c < 65 then (if 48 \<le> c \<and> c \<le> 57 then st 258 else
     st 0) else if c > 70 then (if 97 \<le> c \<and> c \<le> 102 then st 258 else st 0) else st
     258)"

definition http_st258 :: "bool \<Rightarrow> int \<Rightarrow> http_action target" where
  "http_st258 relaxed c =
     (if c = 93 then st 236 else if c < 65 then (if 48 \<le> c \<and> c \<le> 57 then st 235 else
     st 0) else if c > 70 then (if 97 \<le> c \<and> c \<le> 102 then st 235 else st 0) else st
     235)"

definition http_st259 :: "bool \<Rightarrow> int \<Rightarrow> http_action target" where
  "http_st259 relaxed c =
     (if c = 46 then st 230 else if c = 58 then st 255 else if c < 65 then (if 48 \<le> c \<and> c
     \<le> 57 then st 260 else st 0) else if c > 70 then (if 97 \<le> c \<and> c \<le> 102 then
     st 252 else st 0) else st 252)"

definition http_st260 :: "bool \<Rightarrow> int \<Rightarrow> http_action target" where
  "http_st260 relaxed c =
     (if c = 46 then st 230 else if c = 58 then st 255 else if c < 65 then (if 48 \<le> c \<and> c
     \<le> 57 then st 261 else st 0) else if c > 70 then (if 97 \<le> c \<and> c \<le> 102 then
     st 253 else st 0) else st 253)"

definition http_st261 :: "bool \<Rightarrow> int \<Rightarrow> http_action target" where
  "http_st261 relaxed c =
     (if c = 46 then st 230 else if c = 58 then st 255 else if c < 65 then (if 48 \<le> c \<and> c
     \<le> 57 then st 254 else st 0) else if c > 70 then (if 97 \<le> c \<and> c \<le> 102 then
     st 254 else st 0) else st 254)"

definition http_st262 :: "bool \<Rightarrow> int \<Rightarrow> http_action target" where
  "http_st262 relaxed c =
     (if c = 46 then st 230 else if c = 48 then st 263 else if c = 53 then st 264 else if c = 58
     then st 255 else if c < 65 then (if 49 \<le> c \<and> c \<le> 57 then st 252 else st 0) else
     if c > 70 then (if 97 \<le> c \<and> c \<le> 102 then st 252 else st 0) else st 252)"

definition http_st263 :: "bool \<Rightarrow> int \<Rightarrow> http_action target" where
  "http_st263 relaxed c =
     (if c = 58 then st 255 else if c < 65 then (if 48 \<le> c \<and> c \<le> 57 then st 261 else
     st 0) else if c > 70 then (if 97 \<le> c \<and> c \<le> 102 then st 253 else st 0) else st
     253)"

definition http_st264 :: "bool \<Rightarrow> int \<Rightarrow> http_action target" where
  "http_st264 relaxed c =
     (if c = 48 then st 261 else if c = 58 then st 255 else if c < 65 then (if 49 \<le> c \<and> c
     \<le> 57 then st 253 else st 0) else if c > 70 then (if 97 \<le> c \<and> c \<le> 102 then
     st 253 else st 0) else st 253)"

definition http_st265 :: "bool \<Rightarrow> int \<Rightarrow> http_action target" where
  "http_st265 relaxed c =
     (if c = 58 then st 255 else if c < 65 then (if 48 \<le> c \<and> c \<le> 57 then st 252 else
     st 0) else if c > 70 then (if 97 \<le> c \<and> c \<le> 102 then st 252 else st 0) else st
     252)"

definition http_st266 :: "bool \<Rightarrow> int \<Rightarrow> http_action target" where
  "http_st266 relaxed c =
     (if c = 58 then st 270 else if c < 65 then (if 48 \<le> c \<and> c \<le> 57 then st 267 else
     st 0) else if c > 70 then (if 97 \<le> c \<and> c \<le> 102 then st 267 else st 0) else st
     267)"

definition http_st267 :: "bool \<Rightarrow> int \<Rightarrow> http_action target" where
  "http_st267 relaxed c =
     (if c = 58 then st 270 else if c < 65 then (if 48 \<le> c \<and> c \<le> 57 then st 268 else
     st 0) else if c > 70 then (if 97 \<le> c \<and> c \<le> 102 then st 268 else st 0) else st
     268)"

definition http_st268 :: "bool \<Rightarrow> int \<Rightarrow> http_action target" where
  "http_st268 relaxed c =
     (if c = 58 then st 270 else if c < 65 then (if 48 \<le> c \<and> c \<le> 57 then st 269 else
     st 0) else if c > 70 then (if 97 \<le> c \<and> c \<le> 102 then st 269 else st 0) else st
     269)"

definition http_st269 :: "bool \<Rightarrow> int \<Rightarrow> http_action target" where
  "http_st269 relaxed c = (if c = 58 then st 270 else st 0)"

definition http_st270 :: "bool \<Rightarrow> int \<Rightarrow> http_action target" where
  "http_st270 relaxed c =
     (if c = 58 then st 341 else if c < 65 then (if 48 \<le> c \<and> c \<le> 57 then st 271 else
     st 0) else if c > 70 then (if 97 \<le> c \<and> c \<le> 102 then st 271 else st 0) else st
     271)"

definition http_st271 :: "bool \<Rightarrow> int \<Rightarrow> http_action target" where
  "http_st271 relaxed c =
     (if c = 58 then st 275 else if c < 65 then (if 48 \<le> c \<and> c \<le> 57 then st 272 else
     st 0) else if c > 70 then (if 97 \<le> c \<and> c \<le> 102 then st 272 else st 0) else st
     272)"

definition http_st272 :: "bool \<Rightarrow> int \<Rightarrow> http_action target" where
  "http_st272 relaxed c =
     (if c = 58 then st 275 else if c < 65 then (if 48 \<le> c \<and> c \<le> 57 then st 273 else
     st 0) else if c > 70 then (if 97 \<le> c \<and> c \<le> 102 then st 273 else st 0) else st
     273)"

definition http_st273 :: "bool \<Rightarrow> int \<Rightarrow> http_action target" where
  "http_st273 relaxed c =
     (if c = 58 then st 275 else if c < 65 then (if 48 \<le> c \<and> c \<le> 57 then st 274 else
     st 0) else if c > 70 then (if 97 \<le> c \<and> c \<le> 102 then st 274 else st 0) else st
     274)"

definition http_st274 :: "bool \<Rightarrow> int \<Rightarrow> http_action target" where
  "http_st274 relaxed c = (if c = 58 then st 275 else st 0)"

definition http_st275 :: "bool \<Rightarrow> int \<Rightarrow> http_action target" where
  "http_st275 relaxed c =
     (if c = 58 then st 340 else if c < 65 then (if 48 \<le> c \<and> c \<le> 57 then st 276 else
     st 0) else if c > 70 then (if 97 \<le> c \<and> c \<le> 102 then st 276 else st 0) else st
     276)"

definition http_st276 :: "bool \<Rightarrow> int \<Rightarrow> http_action target" where
  "http_st276 relaxed c =
     (if c = 58 then st 280 else if c < 65 then (if 48 \<le> c \<and> c \<le> 57 then st 277 else
     st 0) else if c > 70 then (if 97 \<le> c \<and> c \<le> 102 then st 277 else st 0) else st
     277)"

definition http_st277 :: "bool \<Rightarrow> int \<Rightarrow> http_action target" where
  "http_st277 relaxed c =
     (if c = 58 then st 280 else if c < 65 then (if 48 \<le> c \<and> c \<le> 57 then st 278 else
     st 0) else if c > 70 then (if 97 \<le> c \<and> c \<le> 102 then st 278 else st 0) else st
     278)"

definition http_st278 :: "bool \<Rightarrow> int \<Rightarrow> http_action target" where
  "http_st278 relaxed c =
     (if c = 58 then st 280 else if c < 65 then (if 48 \<le> c \<and> c \<le> 57 then st 279 else
     st 0) else if c > 70 then (if 97 \<le> c \<and> c \<le> 102 then st 279 else st 0) else st
     279)"

definition http_st279 :: "bool \<Rightarrow> int \<Rightarrow> http_action target" where
  "http_st279 relaxed c = (if c = 58 then st 280 else st 0)"

definition http_st280 :: "bool \<Rightarrow> int \<Rightarrow> http_action target" where
  "http_st280 relaxed c =
     (if c = 58 then st 339 else if c < 65 then (if 48 \<le> c \<and> c \<le> 57 then st 281 else
     st 0) else if c > 70 then (if 97 \<le> c \<and> c \<le> 102 then st 281 else st 0) else st
     281)"

definition http_st281 :: "bool \<Rightarrow> int \<Rightarrow> http_action target" where
  "http_st281 relaxed c =
     (if c = 58 then st 285 else if c < 65 then (if 48 \<le> c \<and> c \<le> 57 then st 282 else
     st 0) else if c > 70 then (if 97 \<le> c \<and> c \<le> 102 then st 282 else st 0) else st
     282)"

definition http_st282 :: "bool \<Rightarrow> int \<Rightarrow> http_action target" where
  "http_st282 relaxed c =
     (if c = 58 then st 285 else if c < 65 then (if 48 \<le> c \<and> c \<le> 57 then st 283 else
     st 0) else if c > 70 then (if 97 \<le> c \<and> c \<le> 102 then st 283 else st 0) else st
     283)"

definition http_st283 :: "bool \<Rightarrow> int \<Rightarrow> http_action target" where
  "http_st283 relaxed c =
     (if c = 58 then st 285 else if c < 65 then (if 48 \<le> c \<and> c \<le> 57 then st 284 else
     st 0) else if c > 70 then (if 97 \<le> c \<and> c \<le> 102 then st 284 else st 0) else st
     284)"

definition http_st284 :: "bool \<Rightarrow> int \<Rightarrow> http_action target" where
  "http_st284 relaxed c = (if c = 58 then st 285 else st 0)"

definition http_st285 :: "bool \<Rightarrow> int \<Rightarrow> http_action target" where
  "http_st285 relaxed c =
     (if c = 58 then st 338 else if c < 65 then (if 48 \<le> c \<and> c \<le> 57 then st 286 else
     st 0) else if c > 70 then (if 97 \<le> c \<and> c \<le> 102 then st 286 else st 0) else st
     286)"

definition http_st286 :: "bool \<Rightarrow> int \<Rightarrow> http_action target" where
  "http_st286 relaxed c =
     (if c = 58 then st 290 else if c < 65 then (if 48 \<le> c \<and> c \<le> 57 then st 287 else
     st 0) else if c > 70 then (if 97 \<le> c \<and> c \<le> 102 then st 287 else st 0) else st
     287)"

definition http_st287 :: "bool \<Rightarrow> int \<Rightarrow> http_action target" where
  "http_st287 relaxed c =
     (if c = 58 then st 290 else if c < 65 then (if 48 \<le> c \<and> c \<le> 57 then st 288 else
     st 0) else if c > 70 then (if 97 \<le> c \<and> c \<le> 102 then st 288 else st 0) else st
     288)"

definition http_st288 :: "bool \<Rightarrow> int \<Rightarrow> http_action target" where
  "http_st288 relaxed c =
     (if c = 58 then st 290 else if c < 65 then (if 48 \<le> c \<and> c \<le> 57 then st 289 else
     st 0) else if c > 70 then (if 97 \<le> c \<and> c \<le> 102 then st 289 else st 0) else st
     289)"

definition http_st289 :: "bool \<Rightarrow> int \<Rightarrow> http_action target" where
  "http_st289 relaxed c = (if c = 58 then st 290 else st 0)"

definition http_st290 :: "bool \<Rightarrow> int \<Rightarrow> http_action target" where
  "http_st290 relaxed c =
     (if c = 58 then st 326 else if c < 65 then (if 48 \<le> c \<and> c \<le> 57 then st 291 else
     st 0) else if c > 70 then (if 97 \<le> c \<and> c \<le> 102 then st 291 else st 0) else st
     291)"

definition http_st291 :: "bool \<Rightarrow> int \<Rightarrow> http_action target" where
  "http_st291 relaxed c =
     (if c = 58 then st 295 else if c < 65 then (if 48 \<le> c \<and> c \<le> 57 then st 292 else
     st 0) else if c > 70 then (if 97 \<le> c \<and> c \<le> 102 then st 292 else st 0) else st
     292)"

definition http_st292 :: "bool \<Rightarrow> int \<Rightarrow> http_action target" where
  "http_st292 relaxed c =
     (if c = 58 then st 295 else if c < 65 then (if 48 \<le> c \<and> c \<le> 57 then st 293 else
     st 0) else if c > 70 then (if 97 \<le> c \<and> c \<le> 102 then st 293 else st 0) else st
     293)"

definition http_st293 :: "bool \<Rightarrow> int \<Rightarrow> http_action target" where
  "http_st293 relaxed c =
     (if c = 58 then st 295 else if c < 65 then (if 48 \<le> c \<and> c \<le> 57 then st 294 else
     st 0) else if c > 70 then (if 97 \<le> c \<and> c \<le> 102 then st 294 else st 0) else st
     294)"

definition http_st294 :: "bool \<Rightarrow> int \<Rightarrow> http_action target" where
  "http_st294 relaxed c = (if c = 58 then st 295 else st 0)"

definition http_st295 :: "bool \<Rightarrow> int \<Rightarrow> http_action target" where
  "http_st295 relaxed c =
     (if c = 58 then st 325 else if c < 65 then (if 48 \<le> c \<and> c \<le> 57 then st 296 else
     st 0) else if c > 70 then (if 97 \<le> c \<and> c \<le> 102 then st 296 else st 0) else st
     296)"

definition http_st296 :: "bool \<Rightarrow> int \<Rightarrow> http_action target" where
  "http_st296 relaxed c =
     (if c = 58 then st 300 else if c < 65 then (if 48 \<le> c \<and> c \<le> 57 then st 297 else
     st 0) else if c > 70 then (if 97 \<le> c \<and> c \<le> 102 then st 297 else st 0) else st
     297)"

definition http_st297 :: "bool \<Rightarrow> int \<Rightarrow> http_action target" where
  "http_st297 relaxed c =
     (if c = 58 then st 300 else if c < 65 then (if 48 \<le> c \<and> c \<le> 57 then st 298 else
     st 0) else if c > 70 then (if 97 \<le> c \<and> c \<le> 102 then st 298 else st 0) else st
     298)"

definition http_st298 :: "bool \<Rightarrow> int \<Rightarrow> http_action target" where
  "http_st298 relaxed c =
     (if c = 58 then st 300 else if c < 65 then (if 48 \<le> c \<and> c \<le> 57 then st 299 else
     st 0) else if c > 70 then (if 97 \<le> c \<and> c \<le> 102 then st 299 else st 0) else st
     299)"

definition http_st299 :: "bool \<Rightarrow> int \<Rightarrow> http_action target" where
  "http_st299 relaxed c = (if c = 58 then st 300 else st 0)"

definition http_st300 :: "bool \<Rightarrow> int \<Rightarrow> http_action target" where
  "http_st300 relaxed c =
     (if c = 58 then st 301 else if c < 65 then (if 48 \<le> c \<and> c \<le> 57 then st 296 else
     st 0) else if c > 70 then (if 97 \<le> c \<and> c \<le> 102 then st 296 else st 0) else st
     296)"

definition http_st301 :: "bool \<Rightarrow> int \<Rightarrow> http_action target" where
  "http_st301 relaxed c =
     (if c = 49 then st 318 else if c = 50 then st 321 else if c = 93 then st 236 else if c < 48
     then (if 2 \<le> c \<and> c \<le> 3 then st 223 else st 0) else if c > 57 then (if c > 70
     then (if 97 \<le> c \<and> c \<le> 102 then st 324 else st 0) else if c \<ge> 65 then st 324
     else st 0) else st 302)"

definition http_st302 :: "bool \<Rightarrow> int \<Rightarrow> http_action target" where
  "http_st302 relaxed c =
     (if c = 46 then st 230 else if c = 58 then st 306 else if c = 93 then st 236 else if c < 65
     then (if 48 \<le> c \<and> c \<le> 57 then st 303 else st 0) else if c > 70 then (if 97
     \<le> c \<and> c \<le> 102 then st 303 else st 0) else st 303)"

definition http_st303 :: "bool \<Rightarrow> int \<Rightarrow> http_action target" where
  "http_st303 relaxed c =
     (if c = 58 then st 306 else if c = 93 then st 236 else if c < 65 then (if 48 \<le> c \<and> c
     \<le> 57 then st 304 else st 0) else if c > 70 then (if 97 \<le> c \<and> c \<le> 102 then
     st 304 else st 0) else st 304)"

definition http_st304 :: "bool \<Rightarrow> int \<Rightarrow> http_action target" where
  "http_st304 relaxed c =
     (if c = 58 then st 306 else if c = 93 then st 236 else if c < 65 then (if 48 \<le> c \<and> c
     \<le> 57 then st 305 else st 0) else if c > 70 then (if 97 \<le> c \<and> c \<le> 102 then
     st 305 else st 0) else st 305)"

definition http_st305 :: "bool \<Rightarrow> int \<Rightarrow> http_action target" where
  "http_st305 relaxed c = (if c = 58 then st 306 else if c = 93 then st 236 else st 0)"

definition http_st306 :: "bool \<Rightarrow> int \<Rightarrow> http_action target" where
  "http_st306 relaxed c =
     (if c = 49 then st 311 else if c = 50 then st 314 else if c < 65 then (if 48 \<le> c \<and> c
     \<le> 57 then st 307 else st 0) else if c > 70 then (if 97 \<le> c \<and> c \<le> 102 then
     st 317 else st 0) else st 317)"

definition http_st307 :: "bool \<Rightarrow> int \<Rightarrow> http_action target" where
  "http_st307 relaxed c =
     (if c = 46 then st 230 else if c = 58 then st 255 else if c = 93 then st 236 else if c < 65
     then (if 48 \<le> c \<and> c \<le> 57 then st 308 else st 0) else if c > 70 then (if 97
     \<le> c \<and> c \<le> 102 then st 308 else st 0) else st 308)"

definition http_st308 :: "bool \<Rightarrow> int \<Rightarrow> http_action target" where
  "http_st308 relaxed c =
     (if c = 58 then st 255 else if c = 93 then st 236 else if c < 65 then (if 48 \<le> c \<and> c
     \<le> 57 then st 309 else st 0) else if c > 70 then (if 97 \<le> c \<and> c \<le> 102 then
     st 309 else st 0) else st 309)"

definition http_st309 :: "bool \<Rightarrow> int \<Rightarrow> http_action target" where
  "http_st309 relaxed c =
     (if c = 58 then st 255 else if c = 93 then st 236 else if c < 65 then (if 48 \<le> c \<and> c
     \<le> 57 then st 310 else st 0) else if c > 70 then (if 97 \<le> c \<and> c \<le> 102 then
     st 310 else st 0) else st 310)"

definition http_st310 :: "bool \<Rightarrow> int \<Rightarrow> http_action target" where
  "http_st310 relaxed c = (if c = 58 then st 255 else if c = 93 then st 236 else st 0)"

definition http_st311 :: "bool \<Rightarrow> int \<Rightarrow> http_action target" where
  "http_st311 relaxed c =
     (if c = 46 then st 230 else if c = 58 then st 255 else if c = 93 then st 236 else if c < 65
     then (if 48 \<le> c \<and> c \<le> 57 then st 312 else st 0) else if c > 70 then (if 97
     \<le> c \<and> c \<le> 102 then st 308 else st 0) else st 308)"

definition http_st312 :: "bool \<Rightarrow> int \<Rightarrow> http_action target" where
  "http_st312 relaxed c =
     (if c = 46 then st 230 else if c = 58 then st 255 else if c = 93 then st 236 else if c < 65
     then (if 48 \<le> c \<and> c \<le> 57 then st 313 else st 0) else if c > 70 then (if 97
     \<le> c \<and> c \<le> 102 then st 309 else st 0) else st 309)"

definition http_st313 :: "bool \<Rightarrow> int \<Rightarrow> http_action target" where
  "http_st313 relaxed c =
     (if c = 46 then st 230 else if c = 58 then st 255 else if c = 93 then st 236 else if c < 65
     then (if 48 \<le> c \<and> c \<le> 57 then st 310 else st 0) else if c > 70 then (if 97
     \<le> c \<and> c \<le> 102 then st 310 else st 0) else st 310)"

definition http_st314 :: "bool \<Rightarrow> int \<Rightarrow> http_action target" where
  "http_st314 relaxed c =
     (if c = 46 then st 230 else if c = 48 then st 315 else if c = 53 then st 316 else if c = 58
     then st 255 else if c = 93 then st 236 else if c < 65 then (if 49 \<le> c \<and> c \<le> 57
     then st 308 else st 0) else if c > 70 then (if 97 \<le> c \<and> c \<le> 102 then st 308
     else st 0) else st 308)"

definition http_st315 :: "bool \<Rightarrow> int \<Rightarrow> http_action target" where
  "http_st315 relaxed c =
     (if c = 58 then st 255 else if c = 93 then st 236 else if c < 65 then (if 48 \<le> c \<and> c
     \<le> 57 then st 313 else st 0) else if c > 70 then (if 97 \<le> c \<and> c \<le> 102 then
     st 309 else st 0) else st 309)"

definition http_st316 :: "bool \<Rightarrow> int \<Rightarrow> http_action target" where
  "http_st316 relaxed c =
     (if c = 48 then st 313 else if c = 58 then st 255 else if c = 93 then st 236 else if c < 65
     then (if 49 \<le> c \<and> c \<le> 57 then st 309 else st 0) else if c > 70 then (if 97
     \<le> c \<and> c \<le> 102 then st 309 else st 0) else st 309)"

definition http_st317 :: "bool \<Rightarrow> int \<Rightarrow> http_action target" where
  "http_st317 relaxed c =
     (if c = 58 then st 255 else if c = 93 then st 236 else if c < 65 then (if 48 \<le> c \<and> c
     \<le> 57 then st 308 else st 0) else if c > 70 then (if 97 \<le> c \<and> c \<le> 102 then
     st 308 else st 0) else st 308)"

definition http_st318 :: "bool \<Rightarrow> int \<Rightarrow> http_action target" where
  "http_st318 relaxed c =
     (if c = 46 then st 230 else if c = 58 then st 306 else if c = 93 then st 236 else if c < 65
     then (if 48 \<le> c \<and> c \<le> 57 then st 319 else st 0) else if c > 70 then (if 97
     \<le> c \<and> c \<le> 102 then st 303 else st 0) else st 303)"

definition http_st319 :: "bool \<Rightarrow> int \<Rightarrow> http_action target" where
  "http_st319 relaxed c =
     (if c = 46 then st 230 else if c = 58 then st 306 else if c = 93 then st 236 else if c < 65
     then (if 48 \<le> c \<and> c \<le> 57 then st 320 else st 0) else if c > 70 then (if 97
     \<le> c \<and> c \<le> 102 then st 304 else st 0) else st 304)"

definition http_st320 :: "bool \<Rightarrow> int \<Rightarrow> http_action target" where
  "http_st320 relaxed c =
     (if c = 46 then st 230 else if c = 58 then st 306 else if c = 93 then st 236 else if c < 65
     then (if 48 \<le> c \<and> c \<le> 57 then st 305 else st 0) else if c > 70 then (if 97
     \<le> c \<and> c \<le> 102 then st 305 else st 0) else st 305)"

definition http_st321 :: "bool \<Rightarrow> int \<Rightarrow> http_action target" where
  "http_st321 relaxed c =
     (if c = 46 then st 230 else if c = 48 then st 322 else if c = 53 then st 323 else if c = 58
     then st 306 else if c = 93 then st 236 else if c < 65 then (if 49 \<le> c \<and> c \<le> 57
     then st 303 else st 0) else if c > 70 then (if 97 \<le> c \<and> c \<le> 102 then st 303
     else st 0) else st 303)"

definition http_st322 :: "bool \<Rightarrow> int \<Rightarrow> http_action target" where
  "http_st322 relaxed c =
     (if c = 58 then st 306 else if c = 93 then st 236 else if c < 65 then (if 48 \<le> c \<and> c
     \<le> 57 then st 320 else st 0) else if c > 70 then (if 97 \<le> c \<and> c \<le> 102 then
     st 304 else st 0) else st 304)"

definition http_st323 :: "bool \<Rightarrow> int \<Rightarrow> http_action target" where
  "http_st323 relaxed c =
     (if c = 48 then st 320 else if c = 58 then st 306 else if c = 93 then st 236 else if c < 65
     then (if 49 \<le> c \<and> c \<le> 57 then st 304 else st 0) else if c > 70 then (if 97
     \<le> c \<and> c \<le> 102 then st 304 else st 0) else st 304)"

definition http_st324 :: "bool \<Rightarrow> int \<Rightarrow> http_action target" where
  "http_st324 relaxed c =
     (if c = 58 then st 306 else if c = 93 then st 236 else if c < 65 then (if 48 \<le> c \<and> c
     \<le> 57 then st 303 else st 0) else if c > 70 then (if 97 \<le> c \<and> c \<le> 102 then
     st 303 else st 0) else st 303)"

definition http_st325 :: "bool \<Rightarrow> int \<Rightarrow> http_action target" where
  "http_st325 relaxed c =
     (if c = 49 then st 318 else if c = 50 then st 321 else if c < 48 then (if 2 \<le> c \<and> c
     \<le> 3 then st 223 else st 0) else if c > 57 then (if c > 70 then (if 97 \<le> c \<and> c
     \<le> 102 then st 324 else st 0) else if c \<ge> 65 then st 324 else st 0) else st 302)"

definition http_st326 :: "bool \<Rightarrow> int \<Rightarrow> http_action target" where
  "http_st326 relaxed c =
     (if c = 49 then st 331 else if c = 50 then st 334 else if c < 48 then (if 2 \<le> c \<and> c
     \<le> 3 then st 223 else st 0) else if c > 57 then (if c > 70 then (if 97 \<le> c \<and> c
     \<le> 102 then st 337 else st 0) else if c \<ge> 65 then st 337 else st 0) else st 327)"

definition http_st327 :: "bool \<Rightarrow> int \<Rightarrow> http_action target" where
  "http_st327 relaxed c =
     (if c = 46 then st 230 else if c = 58 then st 306 else if c < 65 then (if 48 \<le> c \<and> c
     \<le> 57 then st 328 else st 0) else if c > 70 then (if 97 \<le> c \<and> c \<le> 102 then
     st 328 else st 0) else st 328)"

definition http_st328 :: "bool \<Rightarrow> int \<Rightarrow> http_action target" where
  "http_st328 relaxed c =
     (if c = 58 then st 306 else if c < 65 then (if 48 \<le> c \<and> c \<le> 57 then st 329 else
     st 0) else if c > 70 then (if 97 \<le> c \<and> c \<le> 102 then st 329 else st 0) else st
     329)"

definition http_st329 :: "bool \<Rightarrow> int \<Rightarrow> http_action target" where
  "http_st329 relaxed c =
     (if c = 58 then st 306 else if c < 65 then (if 48 \<le> c \<and> c \<le> 57 then st 330 else
     st 0) else if c > 70 then (if 97 \<le> c \<and> c \<le> 102 then st 330 else st 0) else st
     330)"

definition http_st330 :: "bool \<Rightarrow> int \<Rightarrow> http_action target" where
  "http_st330 relaxed c = (if c = 58 then st 306 else st 0)"

definition http_st331 :: "bool \<Rightarrow> int \<Rightarrow> http_action target" where
  "http_st331 relaxed c =
     (if c = 46 then st 230 else if c = 58 then st 306 else if c < 65 then (if 48 \<le> c \<and> c
     \<le> 57 then st 332 else st 0) else if c > 70 then (if 97 \<le> c \<and> c \<le> 102 then
     st 328 else st 0) else st 328)"

definition http_st332 :: "bool \<Rightarrow> int \<Rightarrow> http_action target" where
  "http_st332 relaxed c =
     (if c = 46 then st 230 else if c = 58 then st 306 else if c < 65 then (if 48 \<le> c \<and> c
     \<le> 57 then st 333 else st 0) else if c > 70 then (if 97 \<le> c \<and> c \<le> 102 then
     st 329 else st 0) else st 329)"

definition http_st333 :: "bool \<Rightarrow> int \<Rightarrow> http_action target" where
  "http_st333 relaxed c =
     (if c = 46 then st 230 else if c = 58 then st 306 else if c < 65 then (if 48 \<le> c \<and> c
     \<le> 57 then st 330 else st 0) else if c > 70 then (if 97 \<le> c \<and> c \<le> 102 then
     st 330 else st 0) else st 330)"

definition http_st334 :: "bool \<Rightarrow> int \<Rightarrow> http_action target" where
  "http_st334 relaxed c =
     (if c = 46 then st 230 else if c = 48 then st 335 else if c = 53 then st 336 else if c = 58
     then st 306 else if c < 65 then (if 49 \<le> c \<and> c \<le> 57 then st 328 else st 0) else
     if c > 70 then (if 97 \<le> c \<and> c \<le> 102 then st 328 else st 0) else st 328)"

definition http_st335 :: "bool \<Rightarrow> int \<Rightarrow> http_action target" where
  "http_st335 relaxed c =
     (if c = 58 then st 306 else if c < 65 then (if 48 \<le> c \<and> c \<le> 57 then st 333 else
     st 0) else if c > 70 then (if 97 \<le> c \<and> c \<le> 102 then st 329 else st 0) else st
     329)"

definition http_st336 :: "bool \<Rightarrow> int \<Rightarrow> http_action target" where
  "http_st336 relaxed c =
     (if c = 48 then st 333 else if c = 58 then st 306 else if c < 65 then (if 49 \<le> c \<and> c
     \<le> 57 then st 329 else st 0) else if c > 70 then (if 97 \<le> c \<and> c \<le> 102 then
     st 329 else st 0) else st 329)"

definition http_st337 :: "bool \<Rightarrow> int \<Rightarrow> http_action target" where
  "http_st337 relaxed c =
     (if c = 58 then st 306 else if c < 65 then (if 48 \<le> c \<and> c \<le> 57 then st 328 else
     st 0) else if c > 70 then (if 97 \<le> c \<and> c \<le> 102 then st 328 else st 0) else st
     328)"

definition http_st338 :: "bool \<Rightarrow> int \<Rightarrow> http_action target" where
  "http_st338 relaxed c =
     (if c < 48 then (if 2 \<le> c \<and> c \<le> 3 then st 223 else st 0) else if c > 57 then (if
     c > 70 then (if 97 \<le> c \<and> c \<le> 102 then st 224 else st 0) else if c \<ge> 65 then
     st 224 else st 0) else st 224)"

definition http_st339 :: "bool \<Rightarrow> int \<Rightarrow> http_action target" where
  "http_st339 relaxed c = (if 2 \<le> c \<and> c \<le> 3 then st 223 else st 0)"

definition http_st340 :: "bool \<Rightarrow> int \<Rightarrow> http_action target" where
  "http_st340 relaxed c = (if c = 3 then st 223 else st 0)"

definition http_st341 :: "bool \<Rightarrow> int \<Rightarrow> http_action target" where
  "http_st341 relaxed c = (if c = 4 then st 223 else st 0)"

definition http_st342 :: "bool \<Rightarrow> int \<Rightarrow> http_action target" where
  "http_st342 relaxed c = (if c = 58 then st 343 else st 0)"

definition http_st343 :: "bool \<Rightarrow> int \<Rightarrow> http_action target" where
  "http_st343 relaxed c =
     (if c = 49 then st 318 else if c = 50 then st 321 else if c = 93 then st 236 else if c < 48
     then (if 2 \<le> c \<and> c \<le> 5 then st 223 else st 0) else if c > 57 then (if c > 70
     then (if 97 \<le> c \<and> c \<le> 102 then st 324 else st 0) else if c \<ge> 65 then st 324
     else st 0) else st 302)"

definition http_st344 :: "bool \<Rightarrow> int \<Rightarrow> http_action target" where
  "http_st344 relaxed c =
     (if c < 65 then (if 48 \<le> c \<and> c \<le> 57 then st 345 else st 0) else if c > 70 then
     (if 97 \<le> c \<and> c \<le> 102 then st 345 else st 0) else st 345)"

definition http_st345 :: "bool \<Rightarrow> int \<Rightarrow> http_action target" where
  "http_st345 relaxed c =
     (if c = 46 then st 346 else if c < 65 then (if 48 \<le> c \<and> c \<le> 57 then st 345 else
     st 0) else if c > 70 then (if 97 \<le> c \<and> c \<le> 102 then st 345 else st 0) else st
     345)"

definition http_st346 :: "bool \<Rightarrow> int \<Rightarrow> http_action target" where
  "http_st346 relaxed c =
     (if c = 33 then st 347 else if c = 36 then st 347 else if c = 61 then st 347 else if c = 94
     then (if relaxed then st 347 else st 0) else if c = 95 then st 347 else if c = 123 then (if
     relaxed then st 347 else st 0) else if c = 125 then (if relaxed then st 347 else st 0) else
     if c = 126 then st 347 else if c < 48 then (if 38 \<le> c \<and> c \<le> 46 then st 347 else
     st 0) else if c > 59 then (if c > 90 then (if 97 \<le> c \<and> c \<le> 122 then st 347 else
     st 0) else if c \<ge> 65 then st 347 else st 0) else st 347)"

definition http_st347 :: "bool \<Rightarrow> int \<Rightarrow> http_action target" where
  "http_st347 relaxed c =
     (if c = 33 then st 347 else if c = 36 then st 347 else if c = 61 then st 347 else if c = 93
     then st 236 else if c = 94 then (if relaxed then st 347 else st 0) else if c = 95 then st
     347 else if c = 123 then (if relaxed then st 347 else st 0) else if c = 125 then (if relaxed
     then st 347 else st 0) else if c = 126 then st 347 else if c < 48 then (if 38 \<le> c \<and>
     c \<le> 46 then st 347 else st 0) else if c > 59 then (if c > 90 then (if 97 \<le> c \<and>
     c \<le> 122 then st 347 else st 0) else if c \<ge> 65 then st 347 else st 0) else st 347)"

definition http_st348 :: "bool \<Rightarrow> int \<Rightarrow> http_action target" where
  "http_st348 relaxed c =
     (if c = 33 then st 14 else if c = 58 then http_ctr29 else if c = 124 then st 14 else if c =
     126 then st 14 else if c < 42 then (if c < 10 then (if 1 \<le> c \<and> c \<le> 8 then st 14
     else st 0) else if c > 31 then (if 35 \<le> c \<and> c \<le> 39 then st 14 else st 0) else
     st 14) else if c > 43 then (if c < 48 then (if 45 \<le> c \<and> c \<le> 46 then st 14 else
     st 0) else if c > 57 then (if c > 90 then (if 94 \<le> c \<and> c \<le> 122 then st 14 else
     st 0) else if c \<ge> 65 then st 14 else st 0) else st 14) else st 14)"

definition http_st349 :: "bool \<Rightarrow> int \<Rightarrow> http_action target" where
  "http_st349 relaxed c = st 0"

section \<open>The switch\<close>

text \<open>The states in the order of their numbers.\<close>

definition http_states :: "bool \<Rightarrow> (int \<Rightarrow> http_action target) list" where
  "http_states relaxed = [
     http_st0 relaxed, http_st1 relaxed, http_st2 relaxed, http_st3 relaxed, http_st4 relaxed,
     http_st5 relaxed, http_st6 relaxed, http_st7 relaxed, http_st8 relaxed, http_st9 relaxed,
     http_st10 relaxed, http_st11 relaxed, http_st12 relaxed, http_st13 relaxed,
     http_st14 relaxed, http_st15 relaxed, http_st16 relaxed, http_st17 relaxed,
     http_st18 relaxed, http_st19 relaxed, http_st20 relaxed, http_st21 relaxed,
     http_st22 relaxed, http_st23 relaxed, http_st24 relaxed, http_st25 relaxed,
     http_st26 relaxed, http_st27 relaxed, http_st28 relaxed, http_st29 relaxed,
     http_st30 relaxed, http_st31 relaxed, http_st32 relaxed, http_st33 relaxed,
     http_st34 relaxed, http_st35 relaxed, http_st36 relaxed, http_st37 relaxed,
     http_st38 relaxed, http_st39 relaxed, http_st40 relaxed, http_st41 relaxed,
     http_st42 relaxed, http_st43 relaxed, http_st44 relaxed, http_st45 relaxed,
     http_st46 relaxed, http_st47 relaxed, http_st48 relaxed, http_st49 relaxed,
     http_st50 relaxed, http_st51 relaxed, http_st52 relaxed, http_st53 relaxed,
     http_st54 relaxed, http_st55 relaxed, http_st56 relaxed, http_st57 relaxed,
     http_st58 relaxed, http_st59 relaxed, http_st60 relaxed, http_st61 relaxed,
     http_st62 relaxed, http_st63 relaxed, http_st64 relaxed, http_st65 relaxed,
     http_st66 relaxed, http_st67 relaxed, http_st68 relaxed, http_st69 relaxed,
     http_st70 relaxed, http_st71 relaxed, http_st72 relaxed, http_st73 relaxed,
     http_st74 relaxed, http_st75 relaxed, http_st76 relaxed, http_st77 relaxed,
     http_st78 relaxed, http_st79 relaxed, http_st80 relaxed, http_st81 relaxed,
     http_st82 relaxed, http_st83 relaxed, http_st84 relaxed, http_st85 relaxed,
     http_st86 relaxed, http_st87 relaxed, http_st88 relaxed, http_st89 relaxed,
     http_st90 relaxed, http_st91 relaxed, http_st92 relaxed, http_st93 relaxed,
     http_st94 relaxed, http_st95 relaxed, http_st96 relaxed, http_st97 relaxed,
     http_st98 relaxed, http_st99 relaxed, http_st100 relaxed, http_st101 relaxed,
     http_st102 relaxed, http_st103 relaxed, http_st104 relaxed, http_st105 relaxed,
     http_st106 relaxed, http_st107 relaxed, http_st108 relaxed, http_st109 relaxed,
     http_st110 relaxed, http_st111 relaxed, http_st112 relaxed, http_st113 relaxed,
     http_st114 relaxed, http_st115 relaxed, http_st116 relaxed, http_st117 relaxed,
     http_st118 relaxed, http_st119 relaxed, http_st120 relaxed, http_st121 relaxed,
     http_st122 relaxed, http_st123 relaxed, http_st124 relaxed, http_st125 relaxed,
     http_st126 relaxed, http_st127 relaxed, http_st128 relaxed, http_st129 relaxed,
     http_st130 relaxed, http_st131 relaxed, http_st132 relaxed, http_st133 relaxed,
     http_st134 relaxed, http_st135 relaxed, http_st136 relaxed, http_st137 relaxed,
     http_st138 relaxed, http_st139 relaxed, http_st140 relaxed, http_st141 relaxed,
     http_st142 relaxed, http_st143 relaxed, http_st144 relaxed, http_st145 relaxed,
     http_st146 relaxed, http_st147 relaxed, http_st148 relaxed, http_st149 relaxed,
     http_st150 relaxed, http_st151 relaxed, http_st152 relaxed, http_st153 relaxed,
     http_st154 relaxed, http_st155 relaxed, http_st156 relaxed, http_st157 relaxed,
     http_st158 relaxed, http_st159 relaxed, http_st160 relaxed, http_st161 relaxed,
     http_st162 relaxed, http_st163 relaxed, http_st164 relaxed, http_st165 relaxed,
     http_st166 relaxed, http_st167 relaxed, http_st168 relaxed, http_st169 relaxed,
     http_st170 relaxed, http_st171 relaxed, http_st172 relaxed, http_st173 relaxed,
     http_st174 relaxed, http_st175 relaxed, http_st176 relaxed, http_st177 relaxed,
     http_st178 relaxed, http_st179 relaxed, http_st180 relaxed, http_st181 relaxed,
     http_st182 relaxed, http_st183 relaxed, http_st184 relaxed, http_st185 relaxed,
     http_st186 relaxed, http_st187 relaxed, http_st188 relaxed, http_st189 relaxed,
     http_st190 relaxed, http_st191 relaxed, http_st192 relaxed, http_st193 relaxed,
     http_st194 relaxed, http_st195 relaxed, http_st196 relaxed, http_st197 relaxed,
     http_st198 relaxed, http_st199 relaxed, http_st200 relaxed, http_st201 relaxed,
     http_st202 relaxed, http_st203 relaxed, http_st204 relaxed, http_st205 relaxed,
     http_st206 relaxed, http_st207 relaxed, http_st208 relaxed, http_st209 relaxed,
     http_st210 relaxed, http_st211 relaxed, http_st212 relaxed, http_st213 relaxed,
     http_st214 relaxed, http_st215 relaxed, http_st216 relaxed, http_st217 relaxed,
     http_st218 relaxed, http_st219 relaxed, http_st220 relaxed, http_st221 relaxed,
     http_st222 relaxed, http_st223 relaxed, http_st224 relaxed, http_st225 relaxed,
     http_st226 relaxed, http_st227 relaxed, http_st228 relaxed, http_st229 relaxed,
     http_st230 relaxed, http_st231 relaxed, http_st232 relaxed, http_st233 relaxed,
     http_st234 relaxed, http_st235 relaxed, http_st236 relaxed, http_st237 relaxed,
     http_st238 relaxed, http_st239 relaxed, http_st240 relaxed, http_st241 relaxed,
     http_st242 relaxed, http_st243 relaxed, http_st244 relaxed, http_st245 relaxed,
     http_st246 relaxed, http_st247 relaxed, http_st248 relaxed, http_st249 relaxed,
     http_st250 relaxed, http_st251 relaxed, http_st252 relaxed, http_st253 relaxed,
     http_st254 relaxed, http_st255 relaxed, http_st256 relaxed, http_st257 relaxed,
     http_st258 relaxed, http_st259 relaxed, http_st260 relaxed, http_st261 relaxed,
     http_st262 relaxed, http_st263 relaxed, http_st264 relaxed, http_st265 relaxed,
     http_st266 relaxed, http_st267 relaxed, http_st268 relaxed, http_st269 relaxed,
     http_st270 relaxed, http_st271 relaxed, http_st272 relaxed, http_st273 relaxed,
     http_st274 relaxed, http_st275 relaxed, http_st276 relaxed, http_st277 relaxed,
     http_st278 relaxed, http_st279 relaxed, http_st280 relaxed, http_st281 relaxed,
     http_st282 relaxed, http_st283 relaxed, http_st284 relaxed, http_st285 relaxed,
     http_st286 relaxed, http_st287 relaxed, http_st288 relaxed, http_st289 relaxed,
     http_st290 relaxed, http_st291 relaxed, http_st292 relaxed, http_st293 relaxed,
     http_st294 relaxed, http_st295 relaxed, http_st296 relaxed, http_st297 relaxed,
     http_st298 relaxed, http_st299 relaxed, http_st300 relaxed, http_st301 relaxed,
     http_st302 relaxed, http_st303 relaxed, http_st304 relaxed, http_st305 relaxed,
     http_st306 relaxed, http_st307 relaxed, http_st308 relaxed, http_st309 relaxed,
     http_st310 relaxed, http_st311 relaxed, http_st312 relaxed, http_st313 relaxed,
     http_st314 relaxed, http_st315 relaxed, http_st316 relaxed, http_st317 relaxed,
     http_st318 relaxed, http_st319 relaxed, http_st320 relaxed, http_st321 relaxed,
     http_st322 relaxed, http_st323 relaxed, http_st324 relaxed, http_st325 relaxed,
     http_st326 relaxed, http_st327 relaxed, http_st328 relaxed, http_st329 relaxed,
     http_st330 relaxed, http_st331 relaxed, http_st332 relaxed, http_st333 relaxed,
     http_st334 relaxed, http_st335 relaxed, http_st336 relaxed, http_st337 relaxed,
     http_st338 relaxed, http_st339 relaxed, http_st340 relaxed, http_st341 relaxed,
     http_st342 relaxed, http_st343 relaxed, http_st344 relaxed, http_st345 relaxed,
     http_st346 relaxed, http_st347 relaxed, http_st348 relaxed, http_st349 relaxed]"

lemmas http_sts =
  http_st0_def http_st1_def http_st2_def http_st3_def http_st4_def http_st5_def http_st6_def
  http_st7_def http_st8_def http_st9_def http_st10_def http_st11_def http_st12_def http_st13_def
  http_st14_def http_st15_def http_st16_def http_st17_def http_st18_def http_st19_def
  http_st20_def http_st21_def http_st22_def http_st23_def http_st24_def http_st25_def
  http_st26_def http_st27_def http_st28_def http_st29_def http_st30_def http_st31_def
  http_st32_def http_st33_def http_st34_def http_st35_def http_st36_def http_st37_def
  http_st38_def http_st39_def http_st40_def http_st41_def http_st42_def http_st43_def
  http_st44_def http_st45_def http_st46_def http_st47_def http_st48_def http_st49_def
  http_st50_def http_st51_def http_st52_def http_st53_def http_st54_def http_st55_def
  http_st56_def http_st57_def http_st58_def http_st59_def http_st60_def http_st61_def
  http_st62_def http_st63_def http_st64_def http_st65_def http_st66_def http_st67_def
  http_st68_def http_st69_def http_st70_def http_st71_def http_st72_def http_st73_def
  http_st74_def http_st75_def http_st76_def http_st77_def http_st78_def http_st79_def
  http_st80_def http_st81_def http_st82_def http_st83_def http_st84_def http_st85_def
  http_st86_def http_st87_def http_st88_def http_st89_def http_st90_def http_st91_def
  http_st92_def http_st93_def http_st94_def http_st95_def http_st96_def http_st97_def
  http_st98_def http_st99_def http_st100_def http_st101_def http_st102_def http_st103_def
  http_st104_def http_st105_def http_st106_def http_st107_def http_st108_def http_st109_def
  http_st110_def http_st111_def http_st112_def http_st113_def http_st114_def http_st115_def
  http_st116_def http_st117_def http_st118_def http_st119_def http_st120_def http_st121_def
  http_st122_def http_st123_def http_st124_def http_st125_def http_st126_def http_st127_def
  http_st128_def http_st129_def http_st130_def http_st131_def http_st132_def http_st133_def
  http_st134_def http_st135_def http_st136_def http_st137_def http_st138_def http_st139_def
  http_st140_def http_st141_def http_st142_def http_st143_def http_st144_def http_st145_def
  http_st146_def http_st147_def http_st148_def http_st149_def http_st150_def http_st151_def
  http_st152_def http_st153_def http_st154_def http_st155_def http_st156_def http_st157_def
  http_st158_def http_st159_def http_st160_def http_st161_def http_st162_def http_st163_def
  http_st164_def http_st165_def http_st166_def http_st167_def http_st168_def http_st169_def
  http_st170_def http_st171_def http_st172_def http_st173_def http_st174_def http_st175_def
  http_st176_def http_st177_def http_st178_def http_st179_def http_st180_def http_st181_def
  http_st182_def http_st183_def http_st184_def http_st185_def http_st186_def http_st187_def
  http_st188_def http_st189_def http_st190_def http_st191_def http_st192_def http_st193_def
  http_st194_def http_st195_def http_st196_def http_st197_def http_st198_def http_st199_def
  http_st200_def http_st201_def http_st202_def http_st203_def http_st204_def http_st205_def
  http_st206_def http_st207_def http_st208_def http_st209_def http_st210_def http_st211_def
  http_st212_def http_st213_def http_st214_def http_st215_def http_st216_def http_st217_def
  http_st218_def http_st219_def http_st220_def http_st221_def http_st222_def http_st223_def
  http_st224_def http_st225_def http_st226_def http_st227_def http_st228_def http_st229_def
  http_st230_def http_st231_def http_st232_def http_st233_def http_st234_def http_st235_def
  http_st236_def http_st237_def http_st238_def http_st239_def http_st240_def http_st241_def
  http_st242_def http_st243_def http_st244_def http_st245_def http_st246_def http_st247_def
  http_st248_def http_st249_def http_st250_def http_st251_def http_st252_def http_st253_def
  http_st254_def http_st255_def http_st256_def http_st257_def http_st258_def http_st259_def
  http_st260_def http_st261_def http_st262_def http_st263_def http_st264_def http_st265_def
  http_st266_def http_st267_def http_st268_def http_st269_def http_st270_def http_st271_def
  http_st272_def http_st273_def http_st274_def http_st275_def http_st276_def http_st277_def
  http_st278_def http_st279_def http_st280_def http_st281_def http_st282_def http_st283_def
  http_st284_def http_st285_def http_st286_def http_st287_def http_st288_def http_st289_def
  http_st290_def http_st291_def http_st292_def http_st293_def http_st294_def http_st295_def
  http_st296_def http_st297_def http_st298_def http_st299_def http_st300_def http_st301_def
  http_st302_def http_st303_def http_st304_def http_st305_def http_st306_def http_st307_def
  http_st308_def http_st309_def http_st310_def http_st311_def http_st312_def http_st313_def
  http_st314_def http_st315_def http_st316_def http_st317_def http_st318_def http_st319_def
  http_st320_def http_st321_def http_st322_def http_st323_def http_st324_def http_st325_def
  http_st326_def http_st327_def http_st328_def http_st329_def http_st330_def http_st331_def
  http_st332_def http_st333_def http_st334_def http_st335_def http_st336_def http_st337_def
  http_st338_def http_st339_def http_st340_def http_st341_def http_st342_def http_st343_def
  http_st344_def http_st345_def http_st346_def http_st347_def http_st348_def http_st349_def

lemma length_http_states [simp]: "length (http_states relaxed) = 350"
  by (simp add: http_states_def)

lemma http_nth:
  "http_states relaxed ! 0 = http_st0 relaxed"
  "http_states relaxed ! Suc 0 = http_st1 relaxed"
  "http_states relaxed ! 2 = http_st2 relaxed"
  "http_states relaxed ! 3 = http_st3 relaxed"
  "http_states relaxed ! 4 = http_st4 relaxed"
  "http_states relaxed ! 5 = http_st5 relaxed"
  "http_states relaxed ! 6 = http_st6 relaxed"
  "http_states relaxed ! 7 = http_st7 relaxed"
  "http_states relaxed ! 8 = http_st8 relaxed"
  "http_states relaxed ! 9 = http_st9 relaxed"
  "http_states relaxed ! 10 = http_st10 relaxed"
  "http_states relaxed ! 11 = http_st11 relaxed"
  "http_states relaxed ! 12 = http_st12 relaxed"
  "http_states relaxed ! 13 = http_st13 relaxed"
  "http_states relaxed ! 14 = http_st14 relaxed"
  "http_states relaxed ! 15 = http_st15 relaxed"
  "http_states relaxed ! 16 = http_st16 relaxed"
  "http_states relaxed ! 17 = http_st17 relaxed"
  "http_states relaxed ! 18 = http_st18 relaxed"
  "http_states relaxed ! 19 = http_st19 relaxed"
  "http_states relaxed ! 20 = http_st20 relaxed"
  "http_states relaxed ! 21 = http_st21 relaxed"
  "http_states relaxed ! 22 = http_st22 relaxed"
  "http_states relaxed ! 23 = http_st23 relaxed"
  "http_states relaxed ! 24 = http_st24 relaxed"
  "http_states relaxed ! 25 = http_st25 relaxed"
  "http_states relaxed ! 26 = http_st26 relaxed"
  "http_states relaxed ! 27 = http_st27 relaxed"
  "http_states relaxed ! 28 = http_st28 relaxed"
  "http_states relaxed ! 29 = http_st29 relaxed"
  "http_states relaxed ! 30 = http_st30 relaxed"
  "http_states relaxed ! 31 = http_st31 relaxed"
  "http_states relaxed ! 32 = http_st32 relaxed"
  "http_states relaxed ! 33 = http_st33 relaxed"
  "http_states relaxed ! 34 = http_st34 relaxed"
  "http_states relaxed ! 35 = http_st35 relaxed"
  "http_states relaxed ! 36 = http_st36 relaxed"
  "http_states relaxed ! 37 = http_st37 relaxed"
  "http_states relaxed ! 38 = http_st38 relaxed"
  "http_states relaxed ! 39 = http_st39 relaxed"
  "http_states relaxed ! 40 = http_st40 relaxed"
  "http_states relaxed ! 41 = http_st41 relaxed"
  "http_states relaxed ! 42 = http_st42 relaxed"
  "http_states relaxed ! 43 = http_st43 relaxed"
  "http_states relaxed ! 44 = http_st44 relaxed"
  "http_states relaxed ! 45 = http_st45 relaxed"
  "http_states relaxed ! 46 = http_st46 relaxed"
  "http_states relaxed ! 47 = http_st47 relaxed"
  "http_states relaxed ! 48 = http_st48 relaxed"
  "http_states relaxed ! 49 = http_st49 relaxed"
  "http_states relaxed ! 50 = http_st50 relaxed"
  "http_states relaxed ! 51 = http_st51 relaxed"
  "http_states relaxed ! 52 = http_st52 relaxed"
  "http_states relaxed ! 53 = http_st53 relaxed"
  "http_states relaxed ! 54 = http_st54 relaxed"
  "http_states relaxed ! 55 = http_st55 relaxed"
  "http_states relaxed ! 56 = http_st56 relaxed"
  "http_states relaxed ! 57 = http_st57 relaxed"
  "http_states relaxed ! 58 = http_st58 relaxed"
  "http_states relaxed ! 59 = http_st59 relaxed"
  "http_states relaxed ! 60 = http_st60 relaxed"
  "http_states relaxed ! 61 = http_st61 relaxed"
  "http_states relaxed ! 62 = http_st62 relaxed"
  "http_states relaxed ! 63 = http_st63 relaxed"
  "http_states relaxed ! 64 = http_st64 relaxed"
  "http_states relaxed ! 65 = http_st65 relaxed"
  "http_states relaxed ! 66 = http_st66 relaxed"
  "http_states relaxed ! 67 = http_st67 relaxed"
  "http_states relaxed ! 68 = http_st68 relaxed"
  "http_states relaxed ! 69 = http_st69 relaxed"
  "http_states relaxed ! 70 = http_st70 relaxed"
  "http_states relaxed ! 71 = http_st71 relaxed"
  "http_states relaxed ! 72 = http_st72 relaxed"
  "http_states relaxed ! 73 = http_st73 relaxed"
  "http_states relaxed ! 74 = http_st74 relaxed"
  "http_states relaxed ! 75 = http_st75 relaxed"
  "http_states relaxed ! 76 = http_st76 relaxed"
  "http_states relaxed ! 77 = http_st77 relaxed"
  "http_states relaxed ! 78 = http_st78 relaxed"
  "http_states relaxed ! 79 = http_st79 relaxed"
  "http_states relaxed ! 80 = http_st80 relaxed"
  "http_states relaxed ! 81 = http_st81 relaxed"
  "http_states relaxed ! 82 = http_st82 relaxed"
  "http_states relaxed ! 83 = http_st83 relaxed"
  "http_states relaxed ! 84 = http_st84 relaxed"
  "http_states relaxed ! 85 = http_st85 relaxed"
  "http_states relaxed ! 86 = http_st86 relaxed"
  "http_states relaxed ! 87 = http_st87 relaxed"
  "http_states relaxed ! 88 = http_st88 relaxed"
  "http_states relaxed ! 89 = http_st89 relaxed"
  "http_states relaxed ! 90 = http_st90 relaxed"
  "http_states relaxed ! 91 = http_st91 relaxed"
  "http_states relaxed ! 92 = http_st92 relaxed"
  "http_states relaxed ! 93 = http_st93 relaxed"
  "http_states relaxed ! 94 = http_st94 relaxed"
  "http_states relaxed ! 95 = http_st95 relaxed"
  "http_states relaxed ! 96 = http_st96 relaxed"
  "http_states relaxed ! 97 = http_st97 relaxed"
  "http_states relaxed ! 98 = http_st98 relaxed"
  "http_states relaxed ! 99 = http_st99 relaxed"
  "http_states relaxed ! 100 = http_st100 relaxed"
  "http_states relaxed ! 101 = http_st101 relaxed"
  "http_states relaxed ! 102 = http_st102 relaxed"
  "http_states relaxed ! 103 = http_st103 relaxed"
  "http_states relaxed ! 104 = http_st104 relaxed"
  "http_states relaxed ! 105 = http_st105 relaxed"
  "http_states relaxed ! 106 = http_st106 relaxed"
  "http_states relaxed ! 107 = http_st107 relaxed"
  "http_states relaxed ! 108 = http_st108 relaxed"
  "http_states relaxed ! 109 = http_st109 relaxed"
  "http_states relaxed ! 110 = http_st110 relaxed"
  "http_states relaxed ! 111 = http_st111 relaxed"
  "http_states relaxed ! 112 = http_st112 relaxed"
  "http_states relaxed ! 113 = http_st113 relaxed"
  "http_states relaxed ! 114 = http_st114 relaxed"
  "http_states relaxed ! 115 = http_st115 relaxed"
  "http_states relaxed ! 116 = http_st116 relaxed"
  "http_states relaxed ! 117 = http_st117 relaxed"
  "http_states relaxed ! 118 = http_st118 relaxed"
  "http_states relaxed ! 119 = http_st119 relaxed"
  "http_states relaxed ! 120 = http_st120 relaxed"
  "http_states relaxed ! 121 = http_st121 relaxed"
  "http_states relaxed ! 122 = http_st122 relaxed"
  "http_states relaxed ! 123 = http_st123 relaxed"
  "http_states relaxed ! 124 = http_st124 relaxed"
  "http_states relaxed ! 125 = http_st125 relaxed"
  "http_states relaxed ! 126 = http_st126 relaxed"
  "http_states relaxed ! 127 = http_st127 relaxed"
  "http_states relaxed ! 128 = http_st128 relaxed"
  "http_states relaxed ! 129 = http_st129 relaxed"
  "http_states relaxed ! 130 = http_st130 relaxed"
  "http_states relaxed ! 131 = http_st131 relaxed"
  "http_states relaxed ! 132 = http_st132 relaxed"
  "http_states relaxed ! 133 = http_st133 relaxed"
  "http_states relaxed ! 134 = http_st134 relaxed"
  "http_states relaxed ! 135 = http_st135 relaxed"
  "http_states relaxed ! 136 = http_st136 relaxed"
  "http_states relaxed ! 137 = http_st137 relaxed"
  "http_states relaxed ! 138 = http_st138 relaxed"
  "http_states relaxed ! 139 = http_st139 relaxed"
  "http_states relaxed ! 140 = http_st140 relaxed"
  "http_states relaxed ! 141 = http_st141 relaxed"
  "http_states relaxed ! 142 = http_st142 relaxed"
  "http_states relaxed ! 143 = http_st143 relaxed"
  "http_states relaxed ! 144 = http_st144 relaxed"
  "http_states relaxed ! 145 = http_st145 relaxed"
  "http_states relaxed ! 146 = http_st146 relaxed"
  "http_states relaxed ! 147 = http_st147 relaxed"
  "http_states relaxed ! 148 = http_st148 relaxed"
  "http_states relaxed ! 149 = http_st149 relaxed"
  "http_states relaxed ! 150 = http_st150 relaxed"
  "http_states relaxed ! 151 = http_st151 relaxed"
  "http_states relaxed ! 152 = http_st152 relaxed"
  "http_states relaxed ! 153 = http_st153 relaxed"
  "http_states relaxed ! 154 = http_st154 relaxed"
  "http_states relaxed ! 155 = http_st155 relaxed"
  "http_states relaxed ! 156 = http_st156 relaxed"
  "http_states relaxed ! 157 = http_st157 relaxed"
  "http_states relaxed ! 158 = http_st158 relaxed"
  "http_states relaxed ! 159 = http_st159 relaxed"
  "http_states relaxed ! 160 = http_st160 relaxed"
  "http_states relaxed ! 161 = http_st161 relaxed"
  "http_states relaxed ! 162 = http_st162 relaxed"
  "http_states relaxed ! 163 = http_st163 relaxed"
  "http_states relaxed ! 164 = http_st164 relaxed"
  "http_states relaxed ! 165 = http_st165 relaxed"
  "http_states relaxed ! 166 = http_st166 relaxed"
  "http_states relaxed ! 167 = http_st167 relaxed"
  "http_states relaxed ! 168 = http_st168 relaxed"
  "http_states relaxed ! 169 = http_st169 relaxed"
  "http_states relaxed ! 170 = http_st170 relaxed"
  "http_states relaxed ! 171 = http_st171 relaxed"
  "http_states relaxed ! 172 = http_st172 relaxed"
  "http_states relaxed ! 173 = http_st173 relaxed"
  "http_states relaxed ! 174 = http_st174 relaxed"
  "http_states relaxed ! 175 = http_st175 relaxed"
  "http_states relaxed ! 176 = http_st176 relaxed"
  "http_states relaxed ! 177 = http_st177 relaxed"
  "http_states relaxed ! 178 = http_st178 relaxed"
  "http_states relaxed ! 179 = http_st179 relaxed"
  "http_states relaxed ! 180 = http_st180 relaxed"
  "http_states relaxed ! 181 = http_st181 relaxed"
  "http_states relaxed ! 182 = http_st182 relaxed"
  "http_states relaxed ! 183 = http_st183 relaxed"
  "http_states relaxed ! 184 = http_st184 relaxed"
  "http_states relaxed ! 185 = http_st185 relaxed"
  "http_states relaxed ! 186 = http_st186 relaxed"
  "http_states relaxed ! 187 = http_st187 relaxed"
  "http_states relaxed ! 188 = http_st188 relaxed"
  "http_states relaxed ! 189 = http_st189 relaxed"
  "http_states relaxed ! 190 = http_st190 relaxed"
  "http_states relaxed ! 191 = http_st191 relaxed"
  "http_states relaxed ! 192 = http_st192 relaxed"
  "http_states relaxed ! 193 = http_st193 relaxed"
  "http_states relaxed ! 194 = http_st194 relaxed"
  "http_states relaxed ! 195 = http_st195 relaxed"
  "http_states relaxed ! 196 = http_st196 relaxed"
  "http_states relaxed ! 197 = http_st197 relaxed"
  "http_states relaxed ! 198 = http_st198 relaxed"
  "http_states relaxed ! 199 = http_st199 relaxed"
  "http_states relaxed ! 200 = http_st200 relaxed"
  "http_states relaxed ! 201 = http_st201 relaxed"
  "http_states relaxed ! 202 = http_st202 relaxed"
  "http_states relaxed ! 203 = http_st203 relaxed"
  "http_states relaxed ! 204 = http_st204 relaxed"
  "http_states relaxed ! 205 = http_st205 relaxed"
  "http_states relaxed ! 206 = http_st206 relaxed"
  "http_states relaxed ! 207 = http_st207 relaxed"
  "http_states relaxed ! 208 = http_st208 relaxed"
  "http_states relaxed ! 209 = http_st209 relaxed"
  "http_states relaxed ! 210 = http_st210 relaxed"
  "http_states relaxed ! 211 = http_st211 relaxed"
  "http_states relaxed ! 212 = http_st212 relaxed"
  "http_states relaxed ! 213 = http_st213 relaxed"
  "http_states relaxed ! 214 = http_st214 relaxed"
  "http_states relaxed ! 215 = http_st215 relaxed"
  "http_states relaxed ! 216 = http_st216 relaxed"
  "http_states relaxed ! 217 = http_st217 relaxed"
  "http_states relaxed ! 218 = http_st218 relaxed"
  "http_states relaxed ! 219 = http_st219 relaxed"
  "http_states relaxed ! 220 = http_st220 relaxed"
  "http_states relaxed ! 221 = http_st221 relaxed"
  "http_states relaxed ! 222 = http_st222 relaxed"
  "http_states relaxed ! 223 = http_st223 relaxed"
  "http_states relaxed ! 224 = http_st224 relaxed"
  "http_states relaxed ! 225 = http_st225 relaxed"
  "http_states relaxed ! 226 = http_st226 relaxed"
  "http_states relaxed ! 227 = http_st227 relaxed"
  "http_states relaxed ! 228 = http_st228 relaxed"
  "http_states relaxed ! 229 = http_st229 relaxed"
  "http_states relaxed ! 230 = http_st230 relaxed"
  "http_states relaxed ! 231 = http_st231 relaxed"
  "http_states relaxed ! 232 = http_st232 relaxed"
  "http_states relaxed ! 233 = http_st233 relaxed"
  "http_states relaxed ! 234 = http_st234 relaxed"
  "http_states relaxed ! 235 = http_st235 relaxed"
  "http_states relaxed ! 236 = http_st236 relaxed"
  "http_states relaxed ! 237 = http_st237 relaxed"
  "http_states relaxed ! 238 = http_st238 relaxed"
  "http_states relaxed ! 239 = http_st239 relaxed"
  "http_states relaxed ! 240 = http_st240 relaxed"
  "http_states relaxed ! 241 = http_st241 relaxed"
  "http_states relaxed ! 242 = http_st242 relaxed"
  "http_states relaxed ! 243 = http_st243 relaxed"
  "http_states relaxed ! 244 = http_st244 relaxed"
  "http_states relaxed ! 245 = http_st245 relaxed"
  "http_states relaxed ! 246 = http_st246 relaxed"
  "http_states relaxed ! 247 = http_st247 relaxed"
  "http_states relaxed ! 248 = http_st248 relaxed"
  "http_states relaxed ! 249 = http_st249 relaxed"
  "http_states relaxed ! 250 = http_st250 relaxed"
  "http_states relaxed ! 251 = http_st251 relaxed"
  "http_states relaxed ! 252 = http_st252 relaxed"
  "http_states relaxed ! 253 = http_st253 relaxed"
  "http_states relaxed ! 254 = http_st254 relaxed"
  "http_states relaxed ! 255 = http_st255 relaxed"
  "http_states relaxed ! 256 = http_st256 relaxed"
  "http_states relaxed ! 257 = http_st257 relaxed"
  "http_states relaxed ! 258 = http_st258 relaxed"
  "http_states relaxed ! 259 = http_st259 relaxed"
  "http_states relaxed ! 260 = http_st260 relaxed"
  "http_states relaxed ! 261 = http_st261 relaxed"
  "http_states relaxed ! 262 = http_st262 relaxed"
  "http_states relaxed ! 263 = http_st263 relaxed"
  "http_states relaxed ! 264 = http_st264 relaxed"
  "http_states relaxed ! 265 = http_st265 relaxed"
  "http_states relaxed ! 266 = http_st266 relaxed"
  "http_states relaxed ! 267 = http_st267 relaxed"
  "http_states relaxed ! 268 = http_st268 relaxed"
  "http_states relaxed ! 269 = http_st269 relaxed"
  "http_states relaxed ! 270 = http_st270 relaxed"
  "http_states relaxed ! 271 = http_st271 relaxed"
  "http_states relaxed ! 272 = http_st272 relaxed"
  "http_states relaxed ! 273 = http_st273 relaxed"
  "http_states relaxed ! 274 = http_st274 relaxed"
  "http_states relaxed ! 275 = http_st275 relaxed"
  "http_states relaxed ! 276 = http_st276 relaxed"
  "http_states relaxed ! 277 = http_st277 relaxed"
  "http_states relaxed ! 278 = http_st278 relaxed"
  "http_states relaxed ! 279 = http_st279 relaxed"
  "http_states relaxed ! 280 = http_st280 relaxed"
  "http_states relaxed ! 281 = http_st281 relaxed"
  "http_states relaxed ! 282 = http_st282 relaxed"
  "http_states relaxed ! 283 = http_st283 relaxed"
  "http_states relaxed ! 284 = http_st284 relaxed"
  "http_states relaxed ! 285 = http_st285 relaxed"
  "http_states relaxed ! 286 = http_st286 relaxed"
  "http_states relaxed ! 287 = http_st287 relaxed"
  "http_states relaxed ! 288 = http_st288 relaxed"
  "http_states relaxed ! 289 = http_st289 relaxed"
  "http_states relaxed ! 290 = http_st290 relaxed"
  "http_states relaxed ! 291 = http_st291 relaxed"
  "http_states relaxed ! 292 = http_st292 relaxed"
  "http_states relaxed ! 293 = http_st293 relaxed"
  "http_states relaxed ! 294 = http_st294 relaxed"
  "http_states relaxed ! 295 = http_st295 relaxed"
  "http_states relaxed ! 296 = http_st296 relaxed"
  "http_states relaxed ! 297 = http_st297 relaxed"
  "http_states relaxed ! 298 = http_st298 relaxed"
  "http_states relaxed ! 299 = http_st299 relaxed"
  "http_states relaxed ! 300 = http_st300 relaxed"
  "http_states relaxed ! 301 = http_st301 relaxed"
  "http_states relaxed ! 302 = http_st302 relaxed"
  "http_states relaxed ! 303 = http_st303 relaxed"
  "http_states relaxed ! 304 = http_st304 relaxed"
  "http_states relaxed ! 305 = http_st305 relaxed"
  "http_states relaxed ! 306 = http_st306 relaxed"
  "http_states relaxed ! 307 = http_st307 relaxed"
  "http_states relaxed ! 308 = http_st308 relaxed"
  "http_states relaxed ! 309 = http_st309 relaxed"
  "http_states relaxed ! 310 = http_st310 relaxed"
  "http_states relaxed ! 311 = http_st311 relaxed"
  "http_states relaxed ! 312 = http_st312 relaxed"
  "http_states relaxed ! 313 = http_st313 relaxed"
  "http_states relaxed ! 314 = http_st314 relaxed"
  "http_states relaxed ! 315 = http_st315 relaxed"
  "http_states relaxed ! 316 = http_st316 relaxed"
  "http_states relaxed ! 317 = http_st317 relaxed"
  "http_states relaxed ! 318 = http_st318 relaxed"
  "http_states relaxed ! 319 = http_st319 relaxed"
  "http_states relaxed ! 320 = http_st320 relaxed"
  "http_states relaxed ! 321 = http_st321 relaxed"
  "http_states relaxed ! 322 = http_st322 relaxed"
  "http_states relaxed ! 323 = http_st323 relaxed"
  "http_states relaxed ! 324 = http_st324 relaxed"
  "http_states relaxed ! 325 = http_st325 relaxed"
  "http_states relaxed ! 326 = http_st326 relaxed"
  "http_states relaxed ! 327 = http_st327 relaxed"
  "http_states relaxed ! 328 = http_st328 relaxed"
  "http_states relaxed ! 329 = http_st329 relaxed"
  "http_states relaxed ! 330 = http_st330 relaxed"
  "http_states relaxed ! 331 = http_st331 relaxed"
  "http_states relaxed ! 332 = http_st332 relaxed"
  "http_states relaxed ! 333 = http_st333 relaxed"
  "http_states relaxed ! 334 = http_st334 relaxed"
  "http_states relaxed ! 335 = http_st335 relaxed"
  "http_states relaxed ! 336 = http_st336 relaxed"
  "http_states relaxed ! 337 = http_st337 relaxed"
  "http_states relaxed ! 338 = http_st338 relaxed"
  "http_states relaxed ! 339 = http_st339 relaxed"
  "http_states relaxed ! 340 = http_st340 relaxed"
  "http_states relaxed ! 341 = http_st341 relaxed"
  "http_states relaxed ! 342 = http_st342 relaxed"
  "http_states relaxed ! 343 = http_st343 relaxed"
  "http_states relaxed ! 344 = http_st344 relaxed"
  "http_states relaxed ! 345 = http_st345 relaxed"
  "http_states relaxed ! 346 = http_st346 relaxed"
  "http_states relaxed ! 347 = http_st347 relaxed"
  "http_states relaxed ! 348 = http_st348 relaxed"
  "http_states relaxed ! 349 = http_st349 relaxed"
  by (simp_all add: http_states_def)

text \<open>Every jump of the machine is to one of its states.\<close>

lemma http_machine_ok: "machine_ok (http_states relaxed)"
  unfolding machine_ok_def length_http_states unfolding http_states_def
  by (simp add: http_sts http_ctrs target_if split del: if_split)

end
