(* ===== verification/Http11_Parser.thy ===== *)
theory Http11_Parser
  imports Http11_States Texts
begin

text \<open>
  The request parser around its machine (\<open>sylar/http/http11_parser.rl\<close> and the C++ file made
  from it): the parser record, the actions with their pointer arithmetic, and \<open>execute\<close> with
  its assertions.

  The record keeps offsets into the buffer as \<open>size_t\<close>; \<open>LEN\<close> subtracts them from the current
  position, so that an offset behind the position gives a length close to \<open>2^64\<close>. The two
  kinds of callback take the memory from a pointer on, and a length; they work on the user data,
  of any type, and may throw. A callback that is not set is \<open>None\<close>.
\<close>

section \<open>The parser record\<close>

record http_parser =
  hp_cs :: nat
  hp_body_start :: u64
  hp_content_len :: u32
  hp_nread :: u64
  hp_mark :: u64
  hp_field_start :: u64
  hp_field_len :: u64
  hp_query_start :: u64
  hp_xml_sent :: bool
  hp_json_sent :: bool
  hp_uri_relaxed :: bool

type_synonym 'd element_cb = "string \<Rightarrow> u64 \<Rightarrow> 'd \<Rightarrow> fault + 'd"
type_synonym 'd field_cb = "string \<Rightarrow> u64 \<Rightarrow> string \<Rightarrow> u64 \<Rightarrow> 'd \<Rightarrow> fault + 'd"

record 'd http_callbacks =
  cb_http_field :: "'d field_cb option"
  cb_request_method :: "'d element_cb option"
  cb_request_uri :: "'d element_cb option"
  cb_fragment :: "'d element_cb option"
  cb_request_path :: "'d element_cb option"
  cb_query_string :: "'d element_cb option"
  cb_http_version :: "'d element_cb option"
  cb_header_done :: "'d element_cb option"

definition call_element :: "'d element_cb option \<Rightarrow> string \<Rightarrow> u64 \<Rightarrow> 'd \<Rightarrow> fault + 'd" where
  "call_element cb at len d = (case cb of None \<Rightarrow> Inr d | Some f \<Rightarrow> f at len d)"

text \<open>
  \<open>std::string(at, length)\<close>: the length must be one a string can have, and the memory must
  reach that far.
\<close>

definition cxx_string :: "string \<Rightarrow> u64 \<Rightarrow> fault + string" where
  "cxx_string at len =
     (if 2 ^ 62 < unat len then Inl (Logic_error ''basic_string::_M_create'')
      else if length at < unat len then Inl Undefined
      else Inr (take (unat len) at))"

definition http_parser_init :: "http_parser \<Rightarrow> http_parser" where
  "http_parser_init parser = parser\<lparr>hp_cs := 1, hp_body_start := 0, hp_content_len := 0, hp_mark := 0,
     hp_nread := 0, hp_field_len := 0, hp_field_start := 0, hp_xml_sent := False, hp_json_sent := False\<rparr>"

section \<open>Actions\<close>

text \<open>\<open>LEN\<close> and \<open>PTR_TO\<close>; \<open>buffer\<close> is the memory the caller's pointer points to.\<close>

definition LEN :: "u64 \<Rightarrow> nat \<Rightarrow> u64" where
  "LEN at p = of_nat p - at"

definition PTR_TO :: "string \<Rightarrow> u64 \<Rightarrow> string" where
  "PTR_TO buffer at = drop (unat at) buffer"

fun http_act :: "'d http_callbacks \<Rightarrow> string \<Rightarrow> nat \<Rightarrow> http_action \<Rightarrow> nat \<Rightarrow> http_parser \<times> 'd \<Rightarrow>
    fault + http_parser \<times> 'd" where
  "http_act cb buffer pe Mark p (s, d) = Inr (s\<lparr>hp_mark := of_nat p\<rparr>, d)"
| "http_act cb buffer pe Start_field p (s, d) = Inr (s\<lparr>hp_field_start := of_nat p\<rparr>, d)"
| "http_act cb buffer pe Write_field p (s, d) = Inr (s\<lparr>hp_field_len := LEN (hp_field_start s) p\<rparr>, d)"
| "http_act cb buffer pe Start_value p (s, d) = Inr (s\<lparr>hp_mark := of_nat p\<rparr>, d)"
| "http_act cb buffer pe Write_value p (s, d) =
     map_sum id (Pair s) (case cb_http_field cb of None \<Rightarrow> Inr d
       | Some f \<Rightarrow> f (PTR_TO buffer (hp_field_start s)) (hp_field_len s) (PTR_TO buffer (hp_mark s)) (LEN (hp_mark s) p) d)"
| "http_act cb buffer pe Request_method p (s, d) =
     map_sum id (Pair s) (call_element (cb_request_method cb) (PTR_TO buffer (hp_mark s)) (LEN (hp_mark s) p) d)"
| "http_act cb buffer pe Request_uri p (s, d) =
     map_sum id (Pair s) (call_element (cb_request_uri cb) (PTR_TO buffer (hp_mark s)) (LEN (hp_mark s) p) d)"
| "http_act cb buffer pe Fragment p (s, d) =
     map_sum id (Pair s) (call_element (cb_fragment cb) (PTR_TO buffer (hp_mark s)) (LEN (hp_mark s) p) d)"
| "http_act cb buffer pe Start_query p (s, d) = Inr (s\<lparr>hp_query_start := of_nat p\<rparr>, d)"
| "http_act cb buffer pe Query_string p (s, d) =
     map_sum id (Pair s)
       (call_element (cb_query_string cb) (PTR_TO buffer (hp_query_start s)) (LEN (hp_query_start s) p) d)"
| "http_act cb buffer pe Http_version p (s, d) =
     map_sum id (Pair s) (call_element (cb_http_version cb) (PTR_TO buffer (hp_mark s)) (LEN (hp_mark s) p) d)"
| "http_act cb buffer pe Request_path p (s, d) =
     map_sum id (Pair s) (call_element (cb_request_path cb) (PTR_TO buffer (hp_mark s)) (LEN (hp_mark s) p) d)"
| "http_act cb buffer pe Done p (s, d) =
     (if hp_xml_sent s \<or> hp_json_sent s
      then Inr (s\<lparr>hp_body_start := hp_mark s,
                  hp_content_len := ucast (of_nat p - hp_mark s + 1 :: u64)\<rparr>, d)
      else let s' = s\<lparr>hp_body_start := of_nat p + 1\<rparr>
           in map_sum id (Pair s')
                (call_element (cb_header_done cb) (drop (p + 1) buffer) (of_nat pe - of_nat p - 1) d))"
| "http_act cb buffer pe Xml p (s, d) = Inr (s\<lparr>hp_xml_sent := True\<rparr>, d)"
| "http_act cb buffer pe Json p (s, d) = Inr (s\<lparr>hp_json_sent := True\<rparr>, d)"

section \<open>Execution\<close>

definition http_parser_has_error :: "http_parser \<Rightarrow> bool" where
  "http_parser_has_error parser \<longleftrightarrow> hp_cs parser = 0"

definition http_parser_is_finished :: "http_parser \<Rightarrow> bool" where
  "http_parser_is_finished parser \<longleftrightarrow> 348 \<le> hp_cs parser"

definition http_parser_finish :: "http_parser \<Rightarrow> int" where
  "http_parser_finish parser =
     (if http_parser_has_error parser then -1 else if http_parser_is_finished parser then 1 else 0)"

text \<open>
  \<open>http_parser_execute\<close> on the first \<open>len\<close> bytes of a buffer: the parser, the user data and the
  number of bytes taken, or the fault.
\<close>

definition http_parser_execute :: "'d http_callbacks \<Rightarrow> string \<Rightarrow> nat \<Rightarrow> nat \<Rightarrow> http_parser \<times> 'd \<Rightarrow>
    fault + u64 \<times> http_parser \<times> 'd" where
  "http_parser_execute cb buffer len off = (\<lambda>(parser, d).
     if len = 0 then Inr (0, parser, d) else
     let parser = parser\<lparr>hp_nread := 0, hp_mark := 0, hp_field_len := 0, hp_field_start := 0\<rparr>
     in if len < off then Inl Assert_fail
     else if int (len - off) \<noteq> sint (of_nat len :: 32 word) - sint (of_nat off :: 32 word) then Inl Assert_fail
     else case run (http_states (hp_uri_relaxed parser)) (http_act cb buffer len) (\<lambda>a. a = Done)
                 (hp_cs parser) off (take (len - off) (drop off buffer)) (parser, d) of
       Inl e \<Rightarrow> Inl e
     | Inr (cs, p, parser, d) \<Rightarrow>
         if len < p then Inl Assert_fail else
         let parser = (if http_parser_has_error parser then parser else parser\<lparr>hp_cs := cs\<rparr>);
             parser = parser\<lparr>hp_nread := hp_nread parser + of_nat (p - off)\<rparr>
         in if unat (hp_nread parser) \<le> len \<and> unat (hp_body_start parser) \<le> len \<and>
               unat (hp_mark parser) < len \<and> unat (hp_field_len parser) \<le> len \<and>
               unat (hp_field_start parser) < len
            then Inr (hp_nread parser, parser, d)
            else Inl Assert_fail)"

end
