(* ===== verification/Request_Grammar.thy ===== *)
theory Request_Grammar
  imports Uri_Grammar Request_Parser
begin

text \<open>
  The language of the request parser: what its machine does over each part of a request, the
  method, the target, the version, the header lines and the end.
  Each lemma goes from one state to another over one part of the buffer, with the callbacks
  made on the way.
\<close>

section \<open>The states a request goes through\<close>

lemma path_states:
  "path_char c \<Longrightarrow> (http_states r ! 26) (char_int c) = st 26" "(http_states r ! 26) 37 = st 27"
  "hex_char c \<Longrightarrow> (http_states r ! 27) (char_int c) = st 28" "hex_char c \<Longrightarrow> (http_states r ! 28) (char_int c) = st 26"
  unfolding http_nth
  by (rule path_charI, simp_all add: http_st26_def path_ascii_def char_int_def)
    (auto simp: http_st27_def http_st28_def hex_char_def char_int_def)

lemma query_states:
  "query_char c \<Longrightarrow> (http_states r ! 30) (char_int c) = st 30" "(http_states r ! 30) 37 = st 31"
  "hex_char c \<Longrightarrow> (http_states r ! 31) (char_int c) = st 32" "hex_char c \<Longrightarrow> (http_states r ! 32) (char_int c) = st 30"
  unfolding http_nth
  by (rule query_charI, simp_all add: http_st30_def path_ascii_def char_int_def)
    (auto simp: http_st31_def http_st32_def hex_char_def char_int_def)

lemma fragment_states:
  "query_char c \<Longrightarrow> (http_states r ! 21) (char_int c) = st 21" "(http_states r ! 21) 37 = st 22"
  "hex_char c \<Longrightarrow> (http_states r ! 22) (char_int c) = st 23" "hex_char c \<Longrightarrow> (http_states r ! 23) (char_int c) = st 21"
  unfolding http_nth
  by (rule query_charI, simp_all add: http_st21_def path_ascii_def char_int_def)
    (auto simp: http_st22_def http_st23_def hex_char_def char_int_def)

lemma header_states:
  "token_char c \<Longrightarrow> (http_states r ! 13) (char_int c) = ([Start_field], 14)"
  "token_char c \<Longrightarrow> (http_states r ! 14) (char_int c) = st 14"
  "value_start c \<Longrightarrow> (http_states r ! 15) (char_int c) = ([Start_value], 16)"
  "value_char c \<Longrightarrow> (http_states r ! 16) (char_int c) = st 16"
proof -
  have "\<forall>c \<in> set ''!#$%&'*+-.0123456789ABCDEFGHIJKLMNOPQRSTUVWXYZ^_`abcdefghijklmnopqrstuvwxyz|~''.
      http_st13 r (char_int c) = ([Start_field], 14) \<and> http_st14 r (char_int c) = st 14"
    by (simp add: http_st13_def http_st14_def http_ctrs char_int_def)
  then show "token_char c \<Longrightarrow> (http_states r ! 13) (char_int c) = ([Start_field], 14)"
    "token_char c \<Longrightarrow> (http_states r ! 14) (char_int c) = st 14"
    unfolding token_char_def http_nth by blast+
qed (simp_all add: http_nth http_st15_def http_st16_def value_start_def value_char_def http_ctrs)

abbreviation rq_run :: "bool \<Rightarrow> string \<Rightarrow> nat \<Rightarrow> nat \<Rightarrow> nat \<Rightarrow> string \<Rightarrow> http_parser \<times> request_sink \<Rightarrow>
    fault + nat \<times> nat \<times> http_parser \<times> request_sink" where
  "rq_run r buf n \<equiv> run (http_states r) (http_act request_callbacks buf n) (\<lambda>a. a = Done)"

lemma walk_method:
  assumes "m \<notin> {INVALID_METHOD, MSEARCH}"
  obtains c w B where "HttpMethodToString m = c # w" "(http_states r ! 1) (char_int c) = ([Mark], 2)"
    "walk (http_states r) 2 w = Some B" "B < 350" "(http_states r ! B) 32 = ([Request_method], 3)"
proof -
  have "\<exists>c w B. HttpMethodToString m = c # w \<and> (http_states r ! 1) (char_int c) = ([Mark], 2) \<and>
    walk (http_states r) 2 w = Some B \<and> B < 350 \<and> (http_states r ! B) 32 = ([Request_method], 3)"
    using assms
    by (cases m)
      (simp_all add: method_texts http_nth http_sts
        http_ctrs char_int_def split del: if_split)
  then show ?thesis using that by blast
qed

lemma run_method:
  assumes "m \<notin> {INVALID_METHOD, MSEARCH}" "buf = HttpMethodToString m @ '' '' @ rest"
  shows "rq_run r buf n 1 0 (HttpMethodToString m @ '' '' @ inp) (s, q, e) =
    rq_run r buf n 3 (length (HttpMethodToString m) + 1) inp (s\<lparr>hp_mark := 0\<rparr>, q\<lparr>req_method := m\<rparr>, e)"
proof -
  have "CharsToHttpMethod (PTR_TO buf 0) = m"
    using assms(2) CharsToHttpMethod_text [of m rest] by (simp add: PTR_TO_def)
  then have a: "run_actions (http_act request_callbacks buf n) [Request_method] p (s\<lparr>hp_mark := 0\<rparr>, q, e) =
      Inr (s\<lparr>hp_mark := 0\<rparr>, q\<lparr>req_method := m\<rparr>, e)" for p
    using assms(1) by (simp add: request_callbacks_def call_element_def on_request_method_def Let_def)
  obtain c w B where w: "HttpMethodToString m = c # w" "(http_states r ! 1) (char_int c) = ([Mark], 2)"
    "walk (http_states r) 2 w = Some B" "B < 350" "(http_states r ! B) 32 = ([Request_method], 3)"
    using walk_method [OF assms(1)] by blast
  have "rq_run r buf n 1 0 (c # w @ '' '' @ inp) (s, q, e) =
      rq_run r buf n 2 1 (w @ '' '' @ inp) (s\<lparr>hp_mark := 0\<rparr>, q, e)"
    using w(2) by (simp add: run_step)
  also have "\<dots> = rq_run r buf n B (1 + length w) ('' '' @ inp) (s\<lparr>hp_mark := 0\<rparr>, q, e)"
    by (rule run_walk [OF w(3)])
  also have "\<dots> = rq_run r buf n 3 (1 + length w + 1) inp (s\<lparr>hp_mark := 0\<rparr>, q\<lparr>req_method := m\<rparr>, e)"
    using w(4,5) a by (simp del: run_actions.simps)
  finally show ?thesis using w(1) by simp
qed

section \<open>Lengths and pointers\<close>

lemma unat_LEN: "m \<le> p \<Longrightarrow> p < 2 ^ 64 \<Longrightarrow> unat (LEN (of_nat m) p) = p - m"
proof -
  assume a: "m \<le> p" "p < 2 ^ 64"
  then have "LEN (of_nat m) p = of_nat (p - m)" by (simp add: LEN_def of_nat_diff)
  with a show ?thesis by (simp add: of_nat_inverse)
qed

text \<open>What a callback gets: the text between a mark and the position.\<close>

lemma cxx_at:
  assumes "length buf \<le> 2 ^ 62" "buf = pre @ w @ rest"
  shows "cxx_string (PTR_TO buf (of_nat (length pre))) (LEN (of_nat (length pre)) (length pre + length w)) = Inr w"
proof -
  have l: "length pre + length w < 2 ^ 64" using assms by simp
  then have "unat (of_nat (length pre) :: u64) = length pre" by (simp add: of_nat_inverse)
  moreover have "unat (LEN (of_nat (length pre)) (length pre + length w)) = length w"
    using unat_LEN [of "length pre" "length pre + length w"] l by simp
  moreover have "length w \<le> 2 ^ 62" using assms by simp
  ultimately show ?thesis using assms(2) by (simp add: cxx_string_def PTR_TO_def)
qed

text \<open>The fields of the parser that only the end of a request changes.\<close>

definition kept :: "http_parser \<Rightarrow> nat \<times> u64 \<times> u64 \<times> bool \<times> bool \<times> bool" where
  "kept s = (hp_cs s, hp_body_start s, hp_nread s, hp_xml_sent s, hp_json_sent s, hp_uri_relaxed s)"

section \<open>The request target\<close>

definition path_ok :: "string \<Rightarrow> bool" where
  "path_ok w \<longleftrightarrow> (case w of c # v \<Rightarrow> c = CHR ''/'' \<and> (v \<noteq> [] \<longrightarrow> hd v \<noteq> CHR ''/'') \<and> uri_text path_char v | _ \<Rightarrow> False)"

lemmas cb_simps = request_callbacks_def call_element_def on_request_uri_def on_request_path_def
  on_request_query_string_def on_request_fragment_def on_request_http_version_def on_request_header_done_def
  on_request_http_field_def

lemma path_end_states:
  "P \<in> {26, 33} \<Longrightarrow> (http_states r ! P) 32 = ([Request_path, Request_uri], 4) \<and>
    (http_states r ! P) 35 = ([Request_path, Request_uri], 20) \<and> (http_states r ! P) 63 = ([Request_path], 29)"
  by (auto simp: http_nth http_st26_def http_st33_def http_ctrs)

lemma path_enter:
  assumes "n \<noteq> 47" "(http_states r ! 26) n = st t" "t \<noteq> 0"
  shows "(http_states r ! 33) n = st t"
  using assms
  by (auto simp: http_nth http_st26_def http_st33_def http_ctrs split: if_splits)

lemma query_enter:
  "(http_states r ! 30) n = st t \<Longrightarrow> t \<noteq> 0 \<Longrightarrow> (http_states r ! 29) n = ([Start_query], t)"
  by (auto simp: http_nth http_st30_def http_st29_def http_ctrs split: if_splits)

lemma fragment_enter:
  "(http_states r ! 21) n = st t \<Longrightarrow> t \<noteq> 0 \<Longrightarrow> (http_states r ! 20) n = ([Mark], t)"
  by (auto simp: http_nth http_st21_def http_st20_def http_ctrs split: if_splits)

lemma run_path_text:
  "uri_text path_char w \<Longrightarrow> run (http_states r) act stops 26 p (w @ rest) s = run (http_states r) act stops 26 (p + length w) rest s"
  by (rule run_uri_text [where B = 27 and C = 28 and ok = path_char]) (simp_all add: path_states)

lemma run_query_text:
  "uri_text query_char w \<Longrightarrow> run (http_states r) act stops 30 p (w @ rest) s = run (http_states r) act stops 30 (p + length w) rest s"
  by (rule run_uri_text [where B = 31 and C = 32 and ok = query_char]) (simp_all add: query_states)

lemma run_fragment_text:
  "uri_text query_char w \<Longrightarrow> run (http_states r) act stops 21 p (w @ rest) s = run (http_states r) act stops 21 (p + length w) rest s"
  by (rule run_uri_text [where B = 22 and C = 23 and ok = query_char]) (simp_all add: fragment_states)

lemma run_path_state:
  assumes "path_ok w"
  shows "rq_run r buf n 3 p (w @ rest) (s, d) =
    rq_run r buf n (if tl w = [] then 33 else 26) (p + length w) rest (s\<lparr>hp_mark := of_nat p\<rparr>, d)"
proof -
  obtain v where v: "w = CHR ''/'' # v" "v \<noteq> [] \<longrightarrow> hd v \<noteq> CHR ''/''" "uri_text path_char v"
    using assms by (auto simp: path_ok_def split: list.splits)
  have 1: "rq_run r buf n 3 p (w @ rest) (s, d) = rq_run r buf n 33 (p + 1) (v @ rest) (s\<lparr>hp_mark := of_nat p\<rparr>, d)"
    unfolding v(1) append_Cons by (rule run_step [where acts = "[Mark]" and t = 33]) (simp_all add: http_nth http_st3_def http_ctrs)
  show ?thesis
  proof (cases "v = []")
    case True
    then show ?thesis using 1 v(1) by simp
  next
    case False
    have t: "\<exists>t. (http_states r ! 26) (char_int (hd v)) = st t \<and> t \<noteq> 0"
      using uri_text_first [OF False v(3)] path_states(1) [of _ r] path_states(2) [of r] by auto
    then obtain t where t: "(http_states r ! 26) (char_int (hd v)) = st t" "t \<noteq> 0" by blast
    moreover have "char_int (hd v) \<noteq> 47"
      using v(2) False char_int_inj [of "hd v" "CHR ''/''"] by simp
    ultimately have "(http_states r ! 33) (char_int (hd v)) = st t" by (rule path_enter [rotated])
    then have "rq_run r buf n 33 (p + 1) (v @ rest) (s\<lparr>hp_mark := of_nat p\<rparr>, d) =
        rq_run r buf n 26 (p + 1) (v @ rest) (s\<lparr>hp_mark := of_nat p\<rparr>, d)"
      using t False by (intro run_enter [where t = t and acts = "[]"]) simp_all
    also have "\<dots> = rq_run r buf n 26 (p + length w) rest (s\<lparr>hp_mark := of_nat p\<rparr>, d)"
      unfolding run_path_text [OF v(3)] by (simp add: v(1))
    finally show ?thesis using 1 v(1) False by simp
  qed
qed

lemma run_path:
  "path_ok w \<Longrightarrow> \<exists>P \<in> {26, 33}. rq_run r buf n 3 p (w @ rest) (s, d) =
    rq_run r buf n P (p + length w) rest (s\<lparr>hp_mark := of_nat p\<rparr>, d)"
  by (rule bexI [where x = "if tl w = [] then 33 else 26"], erule run_path_state) simp

lemma run_query:
  assumes "w \<noteq> []" "uri_text query_char w"
  shows "rq_run r buf n 29 p (w @ rest) (s, d) = rq_run r buf n 30 (p + length w) rest (s\<lparr>hp_query_start := of_nat p\<rparr>, d)"
proof -
  obtain t where "(http_states r ! 30) (char_int (hd w)) = st t" "t \<noteq> 0"
    using uri_text_first [OF assms] query_states(1) [of _ r] query_states(2) [of r] by auto
  then have "rq_run r buf n 29 p (w @ rest) (s, d) = rq_run r buf n 30 p (w @ rest) (s\<lparr>hp_query_start := of_nat p\<rparr>, d)"
    using assms(1) by (intro run_enter [where t = t and acts = "[Start_query]"]) (simp_all add: query_enter)
  then show ?thesis using run_query_text [OF assms(2)] by simp
qed

lemma run_fragment:
  assumes "w \<noteq> []" "uri_text query_char w"
  shows "rq_run r buf n 20 p (w @ rest) (s, d) = rq_run r buf n 21 (p + length w) rest (s\<lparr>hp_mark := of_nat p\<rparr>, d)"
proof -
  obtain t where "(http_states r ! 21) (char_int (hd w)) = st t" "t \<noteq> 0"
    using uri_text_first [OF assms] fragment_states(1) [of _ r] fragment_states(2) [of r] by auto
  then have "rq_run r buf n 20 p (w @ rest) (s, d) = rq_run r buf n 21 p (w @ rest) (s\<lparr>hp_mark := of_nat p\<rparr>, d)"
    using assms(1) by (intro run_enter [where t = t and acts = "[Mark]"]) (simp_all add: fragment_enter)
  then show ?thesis using run_fragment_text [OF assms(2)] by simp
qed

text \<open>The three text callbacks on the text they are called for.\<close>

lemma on_path_at:
  assumes "length buf \<le> 2 ^ 62" "buf = pre @ w @ rest"
  shows "on_request_path (PTR_TO buf (of_nat (length pre))) (LEN (of_nat (length pre)) (length pre + length w)) (q, e) =
      Inr (q\<lparr>req_path := w\<rparr>, e)"
    "on_request_query_string (PTR_TO buf (of_nat (length pre))) (LEN (of_nat (length pre)) (length pre + length w)) (q, e) =
      Inr (q\<lparr>req_query := w\<rparr>, e)"
    "on_request_fragment (PTR_TO buf (of_nat (length pre))) (LEN (of_nat (length pre)) (length pre + length w)) (q, e) =
      Inr (q\<lparr>req_fragment := w\<rparr>, e)"
  using cxx_at [OF assms]
  by (simp_all add: on_request_path_def on_request_query_string_def on_request_fragment_def)

lemma on_uri [simp]: "on_request_uri at len d = Inr d"
  by (simp add: on_request_uri_def)

lemma call_element_Some [simp]: "call_element (Some f) = f"
  by (rule ext)+ (simp add: call_element_def)

lemma request_callbacks_simps [simp]:
  "call_element (cb_request_uri request_callbacks) = on_request_uri"
  "call_element (cb_request_path request_callbacks) = on_request_path"
  "call_element (cb_query_string request_callbacks) = on_request_query_string"
  "call_element (cb_fragment request_callbacks) = on_request_fragment"
  "call_element (cb_http_version request_callbacks) = on_request_http_version"
  "call_element (cb_header_done request_callbacks) = on_request_header_done"
  "cb_http_field request_callbacks = Some on_request_http_field"
  by (simp_all add: request_callbacks_def)

definition part :: "string \<Rightarrow> string \<Rightarrow> string" where
  "part sep w = (if w = [] then [] else sep @ w)"

lemma run_path_query:
  assumes b: "length buf \<le> 2 ^ 62" "buf = pre @ path @ part ''?'' query @ c # rest"
    and w: "path_ok path" "uri_text query_char query" and c: "c \<in> {CHR '' '', CHR ''#''}" and q: "req_query q = []"
  shows "\<exists>s'. rq_run r buf n 3 (length pre) (path @ part ''?'' query @ c # inp) (s, q, e) =
      rq_run r buf n (if c = CHR '' '' then 4 else 20) (length pre + length path + length (part ''?'' query) + 1) inp
        (s', q\<lparr>req_path := path, req_query := query\<rparr>, e) \<and> kept s' = kept s"
proof -
  let ?s = "s\<lparr>hp_mark := of_nat (length pre)\<rparr>"
  obtain P where P: "P \<in> {26, 33}" and 1: "rq_run r buf n 3 (length pre) (path @ part ''?'' query @ c # inp) (s, q, e) =
      rq_run r buf n P (length pre + length path) (part ''?'' query @ c # inp) (?s, q, e)"
    by (rule bexE [OF run_path [OF w(1), of r buf n "length pre" "part ''?'' query @ c # inp" s "(q, e)"]])
  note path = on_path_at(1) [OF b]
  show ?thesis
  proof (cases "query = []")
    case True
    have "rq_run r buf n P (length pre + length path) (c # inp) (?s, q, e) =
        rq_run r buf n (if c = CHR '' '' then 4 else 20) (length pre + length path + 1) inp (?s, q\<lparr>req_path := path\<rparr>, e)"
    proof (rule run_step)
      show "(http_states r ! P) (char_int c) = ([Request_path, Request_uri], if c = CHR '' '' then 4 else 20)"
        using c path_end_states [OF P, of r] by auto
      show "run_actions (http_act request_callbacks buf n) [Request_path, Request_uri] (length pre + length path) (?s, q, e) =
          Inr (?s, q\<lparr>req_path := path\<rparr>, e)" by (simp add: path)
    qed (use P in auto)
    moreover have "q\<lparr>req_path := path, req_query := []\<rparr> = q\<lparr>req_path := path\<rparr>" using q by (cases q) simp
    ultimately show ?thesis using 1 True by (intro exI [of _ ?s]) (simp add: part_def kept_def)
  next
    case False
    let ?t = "?s\<lparr>hp_query_start := of_nat (length pre + length path + 1)\<rparr>"
    have "rq_run r buf n P (length pre + length path) (CHR ''?'' # query @ c # inp) (?s, q, e) =
        rq_run r buf n 29 (length pre + length path + 1) (query @ c # inp) (?s, q\<lparr>req_path := path\<rparr>, e)"
    proof (rule run_step)
      show "(http_states r ! P) (char_int (CHR ''?'')) = ([Request_path], 29)" using path_end_states [OF P, of r] by simp
      show "run_actions (http_act request_callbacks buf n) [Request_path] (length pre + length path) (?s, q, e) =
          Inr (?s, q\<lparr>req_path := path\<rparr>, e)" by (simp add: path)
    qed (use P in auto)
    also have "\<dots> = rq_run r buf n 30 (length pre + length path + 1 + length query) (c # inp) (?t, q\<lparr>req_path := path\<rparr>, e)"
      by (rule run_query [OF False w(2)])
    also have "\<dots> = rq_run r buf n (if c = CHR '' '' then 4 else 20) (length pre + length path + 1 + length query + 1) inp
        (?t, q\<lparr>req_path := path, req_query := query\<rparr>, e)"
    proof (rule run_step)
      show "(http_states r ! 30) (char_int c) = ([Query_string, Request_uri], if c = CHR '' '' then 4 else 20)"
        using c by (auto simp: http_nth http_st30_def http_ctrs)
      have "buf = (pre @ path @ ''?'') @ query @ c # rest" using b(2) False by (simp add: part_def)
      from on_path_at(2) [OF b(1) this, of "q\<lparr>req_path := path\<rparr>" e]
      show "run_actions (http_act request_callbacks buf n) [Query_string, Request_uri] (length pre + length path + 1 + length query)
          (?t, q\<lparr>req_path := path\<rparr>, e) = Inr (?t, q\<lparr>req_path := path, req_query := query\<rparr>, e)"
        by (simp add: add.assoc)
    qed simp_all
    finally show ?thesis using 1 False by (intro exI [of _ ?t]) (simp add: part_def kept_def)
  qed
qed

declare run.simps(2) [simp del]

lemma run_target:
  assumes b: "length buf \<le> 2 ^ 62" "buf = pre @ path @ part ''?'' query @ part ''#'' fragment @ '' '' @ rest"
    and w: "path_ok path" "uri_text query_char query" "uri_text query_char fragment"
    and q: "req_query q = []" "req_fragment q = []"
  shows "\<exists>s'. rq_run r buf n 3 (length pre) (path @ part ''?'' query @ part ''#'' fragment @ '' '' @ inp) (s, q, e) =
      rq_run r buf n 4 (length (pre @ path @ part ''?'' query @ part ''#'' fragment @ '' '')) inp
        (s', q\<lparr>req_path := path, req_query := query, req_fragment := fragment\<rparr>, e) \<and> kept s' = kept s"
proof (cases "fragment = []")
  case True
  have "q\<lparr>req_path := path, req_query := query, req_fragment := []\<rparr> = q\<lparr>req_path := path, req_query := query\<rparr>"
    using q by (cases q) simp
  with True show ?thesis
    using run_path_query [OF b(1) _ w(1,2), where pre = pre and c = "CHR '' ''" and rest = rest and inp = inp and q = q and r = r and n = n and s = s and e = e] b(2) q(1) by (simp add: part_def add.assoc)
next
  case False
  let ?q = "q\<lparr>req_path := path, req_query := query\<rparr>" and ?p = "length pre + length path + length (part ''?'' query) + 1"
  have b': "buf = (pre @ path @ part ''?'' query @ ''#'') @ fragment @ '' '' @ rest"
    using b(2) False by (simp add: part_def)
  have "\<exists>s'. rq_run r buf n 3 (length pre) (path @ part ''?'' query @ CHR ''#'' # fragment @ '' '' @ inp) (s, q, e) =
      rq_run r buf n 20 ?p (fragment @ '' '' @ inp) (s', ?q, e) \<and> kept s' = kept s"
    using run_path_query [OF b(1) _ w(1,2), where pre = pre and c = "CHR ''#''" and rest = "fragment @ '' '' @ rest" and
      inp = "fragment @ '' '' @ inp" and q = q and r = r and n = n and s = s and e = e] b' q(1) by simp
  then obtain s' where 1: "rq_run r buf n 3 (length pre) (path @ part ''?'' query @ CHR ''#'' # fragment @ '' '' @ inp) (s, q, e) =
      rq_run r buf n 20 ?p (fragment @ '' '' @ inp) (s', ?q, e)" "kept s' = kept s" by (elim exE conjE)
  let ?s = "s'\<lparr>hp_mark := of_nat ?p\<rparr>"
  note 1(1)
  also have "rq_run r buf n 20 ?p (fragment @ '' '' @ inp) (s', ?q, e) =
      rq_run r buf n 21 (?p + length fragment) (CHR '' '' # inp) (?s, ?q, e)"
    using run_fragment [OF False w(3), of r buf n ?p "'' '' @ inp"] by simp
  also have "\<dots> = rq_run r buf n 4 (?p + length fragment + 1) inp (?s, ?q\<lparr>req_fragment := fragment\<rparr>, e)"
  proof (rule run_step)
    show "(http_states r ! 21) (char_int (CHR '' '')) = ([Fragment], 4)" by (simp add: http_nth http_st21_def http_ctrs)
    show "run_actions (http_act request_callbacks buf n) [Fragment] (?p + length fragment) (?s, ?q, e) =
        Inr (?s, ?q\<lparr>req_fragment := fragment\<rparr>, e)"
      using on_path_at(3) [OF b(1) b', of ?q e] by (simp add: add.assoc)
  qed simp_all
  finally show ?thesis using False 1(2)
    by (intro exI [of _ ?s]) (simp add: part_def kept_def add.assoc split del: if_split)
qed

lemma version_texts: "version_text 0x10 = ''1.0''" "version_text 0x11 = ''1.1''"
  by code_simp+

lemma run_version:
  assumes b: "length buf \<le> 2 ^ 62" "buf = pre @ ''HTTP/'' @ version_text v @ crlf @ rest" and v: "v \<in> {0x10, 0x11}"
  shows "rq_run r buf n 4 (length pre) (''HTTP/'' @ version_text v @ crlf @ inp) (s, q, e) =
    rq_run r buf n 13 (length (pre @ ''HTTP/'' @ version_text v @ crlf)) inp (s\<lparr>hp_mark := of_nat (length pre)\<rparr>, q\<lparr>req_version := v\<rparr>, e)"
proof -
  obtain c where c: "version_text v = ''1.'' @ [c]" "c = (if v = 0x10 then CHR ''0'' else CHR ''1'')"
    using v version_texts by auto
  let ?s = "s\<lparr>hp_mark := of_nat (length pre)\<rparr>" and ?p = "length pre"
  have u: "unat (LEN (of_nat ?p) (?p + 8)) = 8"
    using b by (subst unat_LEN) (simp_all add: c(1))
  have t: "drop (unat (of_nat ?p :: u64)) buf = ''HTTP/'' @ version_text v @ crlf @ rest"
    using b by (subst of_nat_inverse [of "length pre"]) simp_all
  have "rq_run r buf n 4 ?p (CHR ''H'' # ''TTP/1.'' @ c # crlf @ inp) (s, q, e) =
      rq_run r buf n 5 (?p + 1) (''TTP/1.'' @ c # crlf @ inp) (?s, q, e)"
    by (rule run_step [where acts = "[Mark]"]) (simp_all add: http_nth http_st4_def http_ctrs char_int_def)
  also have "\<dots> = rq_run r buf n 11 (?p + 1 + 6) (c # crlf @ inp) (?s, q, e)"
    by (rule run_walkI [where w = "''TTP/1.''"])
      (simp_all add: http_nth http_st5_def http_st6_def http_st7_def http_st8_def http_st9_def http_st10_def char_int_def)
  also have "\<dots> = rq_run r buf n 12 (?p + 8) (CHR 0x0D # CHR 0x0A # inp) (?s, q, e)"
    by (rule run_walkI [where w = "[c]"]) (simp_all add: c(2) http_nth http_st11_def char_int_def crlf_def)
  also have "\<dots> = rq_run r buf n 17 (?p + 8 + 1) (CHR 0x0A # inp) (?s, q\<lparr>req_version := v\<rparr>, e)"
  proof (rule run_step)
    show "(http_states r ! 12) (char_int (CHR 0x0D)) = ([Http_version], 17)" by (simp add: http_nth http_st12_def http_ctrs)
    show "run_actions (http_act request_callbacks buf n) [Http_version] (?p + 8) (?s, q, e) = Inr (?s, q\<lparr>req_version := v\<rparr>, e)"
      using v c t u by (auto simp: on_request_http_version_def PTR_TO_def strncmp_eq_def c_str_def crlf_def)
  qed simp_all
  also have "\<dots> = rq_run r buf n 13 (?p + 8 + 1 + 1) inp (?s, q\<lparr>req_version := v\<rparr>, e)"
    by (rule run_step [where acts = "[]"]) (simp_all add: http_nth http_st17_def)
  finally have "rq_run r buf n 4 ?p (''HTTP/'' @ version_text v @ crlf @ inp) (s, q, e) =
      rq_run r buf n 13 (?p + 8 + 1 + 1) inp (?s, q\<lparr>req_version := v\<rparr>, e)"
    using c(1) by (simp add: crlf_def)
  moreover have "length (pre @ ''HTTP/'' @ version_text v @ crlf) = ?p + 8 + 1 + 1" using c(1) by (simp add: crlf_def)
  ultimately show ?thesis by (simp only:)
qed

section \<open>Header lines\<close>

definition header_ok :: "string \<times> string \<Rightarrow> bool" where
  "header_ok = (\<lambda>(k, v). k \<noteq> [] \<and> list_all token_char k \<and> (v \<noteq> [] \<longrightarrow> value_start (hd v)) \<and> list_all value_char v)"

definition header_line :: "string \<Rightarrow> string \<times> string \<Rightarrow> string" where
  "header_line sep = (\<lambda>(k, v). k @ sep @ v @ crlf)"

lemma on_field_at:
  assumes "length buf \<le> 2 ^ 62" "buf = pre @ k @ rest" "buf = pre' @ v @ rest'" "k \<noteq> []"
  shows "on_request_http_field (PTR_TO buf (of_nat (length pre))) (LEN (of_nat (length pre)) (length pre + length k))
      (PTR_TO buf (of_nat (length pre'))) (LEN (of_nat (length pre')) (length pre' + length v)) (q, e) = Inr (setHeader k v q, e)"
proof -
  have "length pre + length k < 2 ^ 64" using assms(1,2) by simp
  then have "unat (LEN (of_nat (length pre)) (length pre + length k)) = length k"
    using unat_LEN [of "length pre" "length pre + length k"] by simp
  then have "LEN (of_nat (length pre)) (length pre + length k) \<noteq> 0"
    using assms(4) by (metis length_0_conv unat_0)
  then show ?thesis
    using cxx_at [OF assms(1,2)] cxx_at [OF assms(1,3)] by (simp add: on_request_http_field_def)
qed

lemma run_header:
  assumes b: "length buf \<le> 2 ^ 62" "buf = pre @ header_line sep (k, v) @ rest" and h: "header_ok (k, v)" "sep \<in> {'':'', '': ''}"
  shows "\<exists>s'. rq_run r buf n 13 (length pre) (header_line sep (k, v) @ inp) (s, q, e) =
    rq_run r buf n 13 (length (pre @ header_line sep (k, v))) inp (s', setHeader k v q, e) \<and> kept s' = kept s"
proof -
  from h have k: "k \<noteq> []" "list_all token_char k" and v: "v \<noteq> [] \<longrightarrow> value_start (hd v)" "list_all value_char v"
    by (simp_all add: header_ok_def)
  obtain c w where c: "k = c # w" using k(1) by (cases k) auto
  let ?p = "length pre"
  let ?s = "s\<lparr>hp_field_start := of_nat ?p\<rparr>"
  let ?t = "?s\<lparr>hp_field_len := LEN (of_nat ?p) (?p + length k)\<rparr>"
  have 1: "rq_run r buf n 13 ?p (header_line sep (k, v) @ inp) (s, q, e) =
      rq_run r buf n 15 (?p + length k + 1) (tl sep @ v @ crlf @ inp) (?t, q, e)"
  proof -
    have "rq_run r buf n 13 ?p (c # w @ sep @ v @ crlf @ inp) (s, q, e) =
        rq_run r buf n 14 (?p + 1) (w @ sep @ v @ crlf @ inp) (?s, q, e)"
      by (rule run_step [where acts = "[Start_field]"]) (use k c header_states(1) in simp_all)
    also have "\<dots> = rq_run r buf n 14 (?p + 1 + length w) (sep @ v @ crlf @ inp) (?s, q, e)"
      by (rule run_loop) (use k c header_states(2) in \<open>simp_all add: list_all_iff\<close>)
    also have "\<dots> = rq_run r buf n 14 (?p + length k) (CHR '':'' # tl sep @ v @ crlf @ inp) (?s, q, e)"
      using h(2) c by auto
    also have "\<dots> = rq_run r buf n 15 (?p + length k + 1) (tl sep @ v @ crlf @ inp) (?t, q, e)"
      by (rule run_step [where acts = "[Write_field]"]) (simp_all add: http_nth http_st14_def http_ctrs)
    finally show ?thesis using c by (simp add: header_line_def)
  qed
  let ?P = "?p + length k + length sep"
  obtain t where 2: "rq_run r buf n 15 (?p + length k + 1) (tl sep @ v @ crlf @ inp) (?t, q, e) =
      rq_run r buf n 15 ?P (v @ crlf @ inp) (t, q, e)" "kept t = kept s" "hp_field_start t = of_nat ?p"
      "hp_field_len t = LEN (of_nat ?p) (?p + length k)"
  proof (cases "sep = '':''")
    case True
    then show ?thesis using that [of ?t] by (simp add: kept_def)
  next
    case False
    then have s: "sep = '': ''" using h(2) by simp
    have "rq_run r buf n 15 (?p + length k + 1) (CHR '' '' # v @ crlf @ inp) (?t, q, e) =
        rq_run r buf n 15 (?p + length k + 1 + 1) (v @ crlf @ inp) (?t\<lparr>hp_mark := of_nat (?p + length k + 1)\<rparr>, q, e)"
      by (rule run_step [where acts = "[Start_value]"]) (simp_all add: http_nth http_st15_def http_ctrs)
    then show ?thesis using that s by (simp add: kept_def)
  qed
  have bk: "buf = pre @ k @ (sep @ v @ crlf @ rest)" and bv: "buf = (pre @ k @ sep) @ v @ crlf @ rest"
    using b(2) by (simp_all add: header_line_def)
  note field = on_field_at [OF b(1) bk bv k(1), of q e]
  let ?u = "t\<lparr>hp_mark := of_nat ?P\<rparr>"
  have 3: "rq_run r buf n 15 ?P (v @ crlf @ inp) (t, q, e) = rq_run r buf n 17 (?P + length v + 1) (CHR 0x0A # inp) (?u, setHeader k v q, e)"
  proof (cases "v = []")
    case True
    have "rq_run r buf n 15 ?P (CHR 0x0D # CHR 0x0A # inp) (t, q, e) = rq_run r buf n 17 (?P + 1) (CHR 0x0A # inp) (?u, setHeader k v q, e)"
    proof (rule run_step)
      show "(http_states r ! 15) (char_int (CHR 0x0D)) = ([Start_value, Write_value], 17)" by (simp add: http_nth http_st15_def http_ctrs)
      show "run_actions (http_act request_callbacks buf n) [Start_value, Write_value] ?P (t, q, e) = Inr (?u, setHeader k v q, e)"
        using field 2(3,4) True by (simp add: add.assoc)
    qed simp_all
    then show ?thesis using True by (simp add: crlf_def)
  next
    case False
    then obtain a x where a: "v = a # x" by (cases v) auto
    have "rq_run r buf n 15 ?P (a # x @ crlf @ inp) (t, q, e) = rq_run r buf n 16 (?P + 1) (x @ crlf @ inp) (?u, q, e)"
      by (rule run_step [where acts = "[Start_value]"]) (use v a header_states(3) in simp_all)
    also have "\<dots> = rq_run r buf n 16 (?P + 1 + length x) (crlf @ inp) (?u, q, e)"
      by (rule run_loop) (use v a header_states(4) in \<open>simp_all add: list_all_iff\<close>)
    also have "\<dots> = rq_run r buf n 16 (?P + length v) (CHR 0x0D # CHR 0x0A # inp) (?u, q, e)" using a by (simp add: crlf_def)
    also have "\<dots> = rq_run r buf n 17 (?P + length v + 1) (CHR 0x0A # inp) (?u, setHeader k v q, e)"
    proof (rule run_step)
      show "(http_states r ! 16) (char_int (CHR 0x0D)) = ([Write_value], 17)" by (simp add: http_nth http_st16_def http_ctrs)
      show "run_actions (http_act request_callbacks buf n) [Write_value] (?P + length v) (?u, q, e) = Inr (?u, setHeader k v q, e)"
        using field 2(3,4) by (simp add: add.assoc)
    qed simp_all
    finally show ?thesis using a by simp
  qed
  have 4: "rq_run r buf n 17 (?P + length v + 1) (CHR 0x0A # inp) (?u, setHeader k v q, e) =
      rq_run r buf n 13 (?P + length v + 1 + 1) inp (?u, setHeader k v q, e)"
    by (rule run_step [where acts = "[]"]) (simp_all add: http_nth http_st17_def)
  have "length (pre @ header_line sep (k, v)) = ?P + length v + 1 + 1" by (simp add: header_line_def crlf_def)
  then show ?thesis using 1 2(1) 3 4 2(2) by (intro exI [of _ ?u]) (simp add: kept_def add.assoc)
qed

definition header_lines :: "string \<Rightarrow> (string \<times> string) list \<Rightarrow> string" where
  "header_lines sep hs = concat (map (header_line sep) hs)"

definition set_headers :: "(string \<times> string) list \<Rightarrow> HttpRequest \<Rightarrow> HttpRequest" where
  "set_headers hs q = fold (\<lambda>(k, v). setHeader k v) hs q"

lemma run_headers:
  assumes "length buf \<le> 2 ^ 62" "sep \<in> {'':'', '': ''}"
  shows "buf = pre @ header_lines sep hs @ rest \<Longrightarrow> list_all header_ok hs \<Longrightarrow>
    \<exists>s'. rq_run r buf n 13 (length pre) (header_lines sep hs @ inp) (s, q, e) =
      rq_run r buf n 13 (length (pre @ header_lines sep hs)) inp (s', set_headers hs q, e) \<and> kept s' = kept s"
proof (induction hs arbitrary: pre s q)
  case Nil
  then show ?case by (intro exI [of _ s]) (simp add: header_lines_def set_headers_def)
next
  case (Cons h hs)
  obtain k v where h: "h = (k, v)" by (cases h)
  have b: "buf = pre @ header_line sep (k, v) @ header_lines sep hs @ rest"
    using Cons.prems(1) h by (simp add: header_lines_def)
  obtain t where t: "rq_run r buf n 13 (length pre) (header_line sep (k, v) @ header_lines sep hs @ inp) (s, q, e) =
      rq_run r buf n 13 (length (pre @ header_line sep (k, v))) (header_lines sep hs @ inp) (t, setHeader k v q, e)" "kept t = kept s"
    using run_header [OF assms(1) b _ assms(2), where inp = "header_lines sep hs @ inp" and r = r and n = n and s = s and q = q and e = e]
      Cons.prems(2) h by auto
  have "buf = (pre @ header_line sep (k, v)) @ header_lines sep hs @ rest" using b by simp
  from Cons.IH [OF this, of t "setHeader k v q"] Cons.prems(2) t(2) obtain s' where
    "rq_run r buf n 13 (length (pre @ header_line sep (k, v))) (header_lines sep hs @ inp) (t, setHeader k v q, e) =
      rq_run r buf n 13 (length ((pre @ header_line sep (k, v)) @ header_lines sep hs)) inp (s', set_headers hs (setHeader k v q), e)"
    "kept s' = kept s" by auto
  with t(1) h show ?case by (intro exI [of _ s']) (simp add: header_lines_def set_headers_def)
qed

lemma run_end:
  assumes "\<not> hp_xml_sent s" "\<not> hp_json_sent s"
  shows "\<exists>s'. rq_run r buf n 13 p (crlf @ inp) (s, d) = Inr (348, p + 2, s', d) \<and>
    kept s' = (hp_cs s, of_nat (p + 2), hp_nread s, False, False, hp_uri_relaxed s)"
proof -
  let ?s = "s\<lparr>hp_field_start := of_nat p\<rparr>"
  let ?t = "?s\<lparr>hp_body_start := of_nat (p + 1) + 1\<rparr>"
  have "rq_run r buf n 13 p (CHR 0x0D # CHR 0x0A # inp) (s, d) = rq_run r buf n 18 (p + 1) (CHR 0x0A # inp) (?s, d)"
    by (rule run_step [where acts = "[Start_field]"]) (simp_all add: http_nth http_st13_def http_ctrs)
  also have "\<dots> = Inr (348, p + 1 + 1, ?t, d)"
  proof (rule run_stop)
    show "(http_states r ! 18) (char_int (CHR 0x0A)) = ([Done], 348)" by (simp add: http_nth http_st18_def http_ctrs)
    show "run_actions (http_act request_callbacks buf n) [Done] (p + 1) (?s, d) = Inr (?t, d)"
      using assms by (simp add: on_request_header_done_def)
  qed simp_all
  finally show ?thesis using assms by (intro exI [of _ ?t]) (simp add: crlf_def kept_def)
qed

text \<open>The head of a request: the request line, the header lines and the empty line.\<close>

definition request_line :: "HttpRequest \<Rightarrow> string" where
  "request_line r = HttpMethodToString (req_method r) @ '' '' @ req_path r @ part ''?'' (req_query r) @
     part ''#'' (req_fragment r) @ '' '' @ ''HTTP/'' @ version_text (req_version r) @ crlf"

definition line_ok :: "HttpRequest \<Rightarrow> bool" where
  "line_ok r \<longleftrightarrow> req_method r \<notin> {INVALID_METHOD, MSEARCH} \<and> path_ok (req_path r) \<and>
     uri_text query_char (req_query r) \<and> uri_text query_char (req_fragment r) \<and> req_version r \<in> {0x10, 0x11}"

definition copy_line :: "HttpRequest \<Rightarrow> HttpRequest \<Rightarrow> HttpRequest" where
  "copy_line r q = q\<lparr>req_method := req_method r, req_path := req_path r, req_query := req_query r,
     req_fragment := req_fragment r, req_version := req_version r\<rparr>"

lemma run_request_line:
  assumes b: "length buf \<le> 2 ^ 62" "buf = request_line r @ rest" and l: "line_ok r" and q: "req_query q = []" "req_fragment q = []"
  shows "\<exists>s'. rq_run x buf n 1 0 (request_line r @ inp) (s, q, e) =
    rq_run x buf n 13 (length (request_line r)) inp (s', copy_line r q, e) \<and> kept s' = kept s"
proof -
  let ?m = "HttpMethodToString (req_method r)" and ?s = "s\<lparr>hp_mark := 0\<rparr>" and ?q = "q\<lparr>req_method := req_method r\<rparr>"
  let ?t = "req_path r @ part ''?'' (req_query r) @ part ''#'' (req_fragment r) @ '' ''"
  let ?v = "''HTTP/'' @ version_text (req_version r) @ crlf"
  let ?p = "?q\<lparr>req_path := req_path r, req_query := req_query r, req_fragment := req_fragment r\<rparr>"
  have line: "request_line r = ?m @ '' '' @ ?t @ ?v" by (simp add: request_line_def)
  have 1: "rq_run x buf n 1 0 (request_line r @ inp) (s, q, e) = rq_run x buf n 3 (length (?m @ '' '')) (?t @ ?v @ inp) (?s, ?q, e)"
    using run_method [of "req_method r" buf "?t @ ?v @ rest" x n "?t @ ?v @ inp" s q e] b(2) l
    by (simp add: line line_ok_def)
  have "\<exists>s'. rq_run x buf n 3 (length (?m @ '' '')) (?t @ ?v @ inp) (?s, ?q, e) =
      rq_run x buf n 4 (length (?m @ '' '' @ ?t)) (?v @ inp) (s', ?p, e) \<and> kept s' = kept ?s"
    using run_target [OF b(1), of "?m @ '' ''" "req_path r" "req_query r" "req_fragment r" "?v @ rest" ?q x n "?v @ inp" ?s e] b(2) l q
    by (simp add: line line_ok_def del: fun_upd_apply)
  then obtain t where 2: "rq_run x buf n 3 (length (?m @ '' '')) (?t @ ?v @ inp) (?s, ?q, e) =
      rq_run x buf n 4 (length (?m @ '' '' @ ?t)) (?v @ inp) (t, ?p, e)" "kept t = kept ?s" by (elim exE conjE)
  have 3: "rq_run x buf n 4 (length (?m @ '' '' @ ?t)) (?v @ inp) (t, ?p, e) =
      rq_run x buf n 13 (length (request_line r)) inp
        (t\<lparr>hp_mark := of_nat (length (?m @ '' '' @ ?t))\<rparr>, ?p\<lparr>req_version := req_version r\<rparr>, e)"
    using run_version [OF b(1), of "?m @ '' '' @ ?t" "req_version r" rest x n inp t ?p e] b(2) l by (simp add: line line_ok_def)
  have "?p\<lparr>req_version := req_version r\<rparr> = copy_line r q" by (simp add: copy_line_def)
  with 1 2 3 show ?thesis
    by (intro exI [of _ "t\<lparr>hp_mark := of_nat (length (?m @ '' '' @ ?t))\<rparr>"]) (simp add: kept_def)
qed

end
