(* ===== verification/Request_Props.thy ===== *)
theory Request_Props
  imports Request_Grammar
begin

text \<open>
  The properties of the request parser: it never leaves its buffer nor fails one of its
  assertions, it inverts the writing of a request, and what happens to a request that is split
  between two reads.
\<close>

text \<open>An invariant of a machine that depends on its state, under which no action throws.\<close>

lemma run_invariant_state:
  assumes step: "\<And>cs p c s acts t. cs < length S \<Longrightarrow> p < m \<Longrightarrow> I cs p s \<Longrightarrow> (S ! cs) (char_int c) = (acts, t) \<Longrightarrow>
      \<exists>s'. run_actions act acts p s = Inr s' \<and> I t (Suc p) s' \<and> I 0 p s'"
  shows "I cs p s \<Longrightarrow> p + length buf \<le> m \<Longrightarrow> \<exists>cs' p' s'. run S act stops cs p buf s = Inr (cs', p', s') \<and> I cs' p' s'"
proof (induction buf arbitrary: cs p s)
  case (Cons c buf)
  obtain acts t where t: "(S ! cs) (char_int c) = (acts, t)" by (cases "(S ! cs) (char_int c)")
  show ?case
  proof (cases "cs < length S")
    case True
    obtain s' where s': "run_actions act acts p s = Inr s'" "I t (Suc p) s'" "I 0 p s'"
      using step [OF True _ Cons.prems(1) t] Cons.prems(2) by auto
    show ?thesis
      using True t s' Cons.IH [OF s'(2)] Cons.prems(2) by (simp add: run.simps)
  qed (use Cons.prems in \<open>simp add: run.simps\<close>)
qed simp

section \<open>The order of the actions\<close>

text \<open>
  Two facts about the offsets are needed by the actions that use them, and only the order of
  the actions gives them: a query is handed over only after its start was marked, and a header
  only after the length of its name was written. \<open>flow\<close> follows the two along a list of
  actions, and is \<open>None\<close> where an action comes too early.
\<close>

fun flow :: "bool \<times> bool \<Rightarrow> http_action list \<Rightarrow> (bool \<times> bool) option" where
  "flow b [] = Some b"
| "flow (q, f) (a # acts) =
     (if a = Start_query then flow (True, f) acts
      else if a = Start_field then flow (q, False) acts
      else if a = Write_field then flow (q, True) acts
      else if a = Query_string \<and> \<not> q \<or> a = Write_value \<and> \<not> f then None
      else flow (q, f) acts)"

text \<open>The states inside a query, and those where a header name is incomplete or nothing follows.\<close>

definition in_query :: "nat \<Rightarrow> bool" where
  "in_query cs \<longleftrightarrow> cs \<in> {30, 31, 32}"

definition in_name :: "nat \<Rightarrow> bool" where
  "in_name cs \<longleftrightarrow> cs \<in> {0, 14, 18, 348, 349}"

definition flow_ok :: "bool \<times> bool \<Rightarrow> http_action target \<Rightarrow> bool" where
  "flow_ok b x = (case flow b (fst x) of
     None \<Rightarrow> False | Some (q, f) \<Rightarrow> (in_query (snd x) \<longrightarrow> q) \<and> (\<not> in_name (snd x) \<longrightarrow> f))"

lemma flow_ok_if: "flow_ok b x \<Longrightarrow> flow_ok b y \<Longrightarrow> flow_ok b (if z then x else y)"
  by simp

lemma flow_ok_step [simp]:
  "flow_ok (False, True) ([], t) \<longleftrightarrow> \<not> in_query t"
  "flow_ok (True, True) ([], t) \<longleftrightarrow> True"
  "flow_ok (False, False) ([], t) \<longleftrightarrow> \<not> in_query t \<and> in_name t"
  by (auto simp: flow_ok_def)

lemma flow_ok_actions:
  "flow_ok (q, f) (a # acts, t) \<longleftrightarrow>
     (if a = Start_query then flow_ok (True, f) (acts, t)
      else if a = Start_field then flow_ok (q, False) (acts, t)
      else if a = Write_field then flow_ok (q, True) (acts, t)
      else if a = Query_string \<and> \<not> q \<or> a = Write_value \<and> \<not> f then False
      else flow_ok (q, f) (acts, t))"
  by (simp only: flow_ok_def fst_conv snd_conv flow.simps option.case if_distrib [of "case_option _ _"] cong: if_cong)

lemma http_flow: "cs < 350 \<Longrightarrow> flow_ok (in_query cs, \<not> in_name cs) ((http_states r ! cs) c)"
proof -
  have "list_all (\<lambda>(i, f). \<forall>c. flow_ok (in_query i, \<not> in_name i) (f c)) (enumerate 0 (http_states r))"
    unfolding http_states_def
    by (simp add: http_sts http_ctrs flow_ok_if flow_ok_actions in_query_def in_name_def split del: if_split)
  moreover assume "cs < 350"
  ultimately show ?thesis by (auto simp: list_all_length nth_enumerate_eq)
qed

section \<open>Offsets\<close>

fun offsets :: "nat \<Rightarrow> bool \<times> bool \<Rightarrow> nat \<Rightarrow> http_parser \<Rightarrow> bool" where
  "offsets m (q, f) p s \<longleftrightarrow> unat (hp_mark s) \<le> p \<and> unat (hp_mark s) < m \<and> unat (hp_field_start s) \<le> p \<and>
     unat (hp_field_start s) < m \<and> unat (hp_field_len s) \<le> m \<and> unat (hp_body_start s) \<le> m \<and>
     (q \<longrightarrow> unat (hp_query_start s) \<le> p) \<and> (f \<longrightarrow> unat (hp_field_start s) + unat (hp_field_len s) \<le> p)"

lemma unat_LEN_word: "unat m \<le> p \<Longrightarrow> p < 2 ^ 64 \<Longrightarrow> unat (LEN m p) = p - unat m"
  using unat_LEN [of "unat m" p] by simp

lemma cxx_defined:
  assumes "unat m \<le> p" "p \<le> length buf" "p \<le> 2 ^ 62"
  shows "\<exists>t. cxx_string (PTR_TO buf m) (LEN m p) = Inr t"
proof -
  have "unat (LEN m p) = p - unat m" using unat_LEN_word [OF assms(1)] assms(3) by simp
  moreover have "p - unat m \<le> length buf - unat m" "p - unat m \<le> 2 ^ 62" using assms by simp_all
  ultimately show ?thesis unfolding cxx_string_def PTR_TO_def by simp
qed

lemma call_element_defined:
  assumes "f \<in> {on_request_uri, on_request_path, on_request_query_string, on_request_fragment, on_request_http_version,
      on_request_method}" "unat m \<le> p" "p \<le> length buf" "p \<le> 2 ^ 62"
  shows "\<exists>d'. f (PTR_TO buf m) (LEN m p) d = Inr d'"
proof -
  obtain t where "cxx_string (PTR_TO buf m) (LEN m p) = Inr t" using cxx_defined [OF assms(2-4)] by blast
  with assms(1) show ?thesis
    by (cases d) (auto simp: on_request_path_def on_request_query_string_def on_request_fragment_def
      on_request_http_version_def on_request_method_def Let_def)
qed

lemma on_field_defined:
  assumes "unat fs + unat fl \<le> p" "unat m \<le> p" "p \<le> length buf" "p \<le> 2 ^ 62"
  shows "\<exists>d'. on_request_http_field (PTR_TO buf fs) fl (PTR_TO buf m) (LEN m p) d = Inr d'"
proof -
  obtain t where "cxx_string (PTR_TO buf m) (LEN m p) = Inr t" using cxx_defined [OF assms(2-4)] by blast
  moreover have "cxx_string (PTR_TO buf fs) fl = Inr (take (unat fl) (drop (unat fs) buf))"
    using assms by (simp add: cxx_string_def PTR_TO_def)
  ultimately show ?thesis by (cases d) (simp add: on_request_http_field_def)
qed

lemma act_offsets:
  assumes "offsets m b p s" "flow b [a] = Some b'" "p < m" "m \<le> length buf" "m \<le> 2 ^ 62"
  shows "\<exists>s' d'. http_act request_callbacks buf m a p (s, d) = Inr (s', d') \<and> offsets m b' p s'"
proof -
  obtain q f where b: "b = (q, f)" by (cases b)
  have p: "p \<le> length buf" "p \<le> 2 ^ 62" "p < 2 ^ 64" and up: "unat (of_nat p :: u64) = p"
    using assms(3-5) by (simp_all add: of_nat_inverse)
  have up1: "unat (of_nat p + 1 :: u64) = p + 1"
    using up p(2) by (simp add: unat_word_ariths)
  note el = call_element_defined [where m = "hp_mark s" and p = p and buf = buf and d = d]
  note defs = b up up1
  show ?thesis
  proof (cases a)
    case Write_value
    then have "f" using assms(2) b by (simp split: if_splits)
    then obtain d' where "on_request_http_field (PTR_TO buf (hp_field_start s)) (hp_field_len s) (PTR_TO buf (hp_mark s))
        (LEN (hp_mark s) p) d = Inr d'"
      using on_field_defined [OF _ _ p(1,2), of "hp_field_start s" "hp_field_len s" "hp_mark s" d] assms(1) b by auto
    with Write_value \<open>f\<close> assms(1-3) b show ?thesis by auto
  next
    case Query_string
    then have "q" using assms(2) b by (simp split: if_splits)
    then obtain d' where "on_request_query_string (PTR_TO buf (hp_query_start s)) (LEN (hp_query_start s) p) d = Inr d'"
      using call_element_defined [of on_request_query_string "hp_query_start s" p buf d] assms(1) b p by auto
    with Query_string \<open>q\<close> assms(1-3) b show ?thesis by auto
  next
    case Write_field
    have "unat (LEN (hp_field_start s) p) = p - unat (hp_field_start s)"
      using assms(1) b p by (simp add: unat_LEN_word)
    with Write_field assms(1-3) b show ?thesis by auto
  next
    case Done
    with assms(1-3) defs show ?thesis by (auto simp: on_request_header_done_def Let_def)
  next
    case Request_method
    obtain d' where "on_request_method (PTR_TO buf (hp_mark s)) (LEN (hp_mark s) p) d = Inr d'"
      using el [of on_request_method] assms(1) b p by auto
    with Request_method assms(1-3) b show ?thesis by (auto simp: request_callbacks_def)
  next
    case Request_uri
    obtain d' where "on_request_uri (PTR_TO buf (hp_mark s)) (LEN (hp_mark s) p) d = Inr d'"
      using el [of on_request_uri] assms(1) b p by auto
    with Request_uri assms(1-3) b show ?thesis by auto
  next
    case Fragment
    obtain d' where "on_request_fragment (PTR_TO buf (hp_mark s)) (LEN (hp_mark s) p) d = Inr d'"
      using el [of on_request_fragment] assms(1) b p by auto
    with Fragment assms(1-3) b show ?thesis by auto
  next
    case Http_version
    obtain d' where "on_request_http_version (PTR_TO buf (hp_mark s)) (LEN (hp_mark s) p) d = Inr d'"
      using el [of on_request_http_version] assms(1) b p by auto
    with Http_version assms(1-3) b show ?thesis by auto
  next
    case Request_path
    obtain d' where "on_request_path (PTR_TO buf (hp_mark s)) (LEN (hp_mark s) p) d = Inr d'"
      using el [of on_request_path] assms(1) b p by auto
    with Request_path assms(1-3) b show ?thesis by auto
  qed (use assms(1-3) defs in auto)
qed

lemma flow_Cons: "flow b (a # acts) = Some b' \<Longrightarrow> \<exists>c. flow b [a] = Some c \<and> flow c acts = Some b'"
  by (cases b) (auto split: if_splits)

lemma acts_offsets:
  assumes "p < m" "m \<le> length buf" "m \<le> 2 ^ 62"
  shows "offsets m b p s \<Longrightarrow> flow b acts = Some b' \<Longrightarrow>
    \<exists>s' d'. run_actions (http_act request_callbacks buf m) acts p (s, d) = Inr (s', d') \<and> offsets m b' p s'"
proof (induction acts arbitrary: b s d)
  case (Cons a acts)
  obtain c where c: "flow b [a] = Some c" "flow c acts = Some b'" using flow_Cons [OF Cons.prems(2)] by blast
  obtain s' d' where "http_act request_callbacks buf m a p (s, d) = Inr (s', d')" "offsets m c p s'"
    using act_offsets [OF Cons.prems(1) c(1) assms, of d] by blast
  with Cons.IH [OF _ c(2), of s' d'] show ?case by simp
qed (use assms in auto)

definition offsets_in :: "nat \<Rightarrow> nat \<Rightarrow> nat \<Rightarrow> http_parser \<times> request_sink \<Rightarrow> bool" where
  "offsets_in m cs p x \<longleftrightarrow> cs < 350 \<and> offsets m (in_query cs, \<not> in_name cs) p (fst x)"

lemma offsets_weaken: "offsets m (q, f) p s \<Longrightarrow> (q' \<longrightarrow> q) \<Longrightarrow> (f' \<longrightarrow> f) \<Longrightarrow> p \<le> p' \<Longrightarrow> offsets m (q', f') p' s"
  by auto

lemma run_offsets:
  assumes "m \<le> length buf" "m \<le> 2 ^ 62"
  shows "offsets_in m cs p x \<Longrightarrow> p + length inp \<le> m \<Longrightarrow>
    \<exists>cs' p' x'. rq_run r buf m cs p inp x = Inr (cs', p', x') \<and> offsets_in m cs' p' x'"
proof (rule run_invariant_state)
  fix cs p c x acts t
  assume p: "p < m" and x: "offsets_in m cs p x" and t: "(http_states r ! cs) (char_int c) = (acts, t)"
    and "cs < length (http_states r)"
  then have cs: "cs < 350" by simp
  obtain s d where s: "x = (s, d)" by (cases x)
  have "flow_ok (in_query cs, \<not> in_name cs) (acts, t)" using http_flow [OF cs, of r "char_int c"] t by simp
  then obtain q f where b: "flow (in_query cs, \<not> in_name cs) acts = Some (q, f)" "in_query t \<longrightarrow> q" "\<not> in_name t \<longrightarrow> f"
    by (auto simp: flow_ok_def split: option.splits)
  obtain s' d' where a: "run_actions (http_act request_callbacks buf m) acts p (s, d) = Inr (s', d')" "offsets m (q, f) p s'"
    using acts_offsets [OF p assms _ b(1), of s d] x s by (auto simp: offsets_in_def)
  have "http_states r ! cs \<in> set (http_states r)" using cs by simp
  then have "t < 350" using http_machine_ok [of r] t by (metis machine_ok_def length_http_states snd_conv)
  moreover have "offsets m (in_query t, \<not> in_name t) (Suc p) s'" by (rule offsets_weaken [OF a(2)]) (use b in auto)
  moreover have "offsets m (in_query 0, \<not> in_name 0) p s'"
    by (rule offsets_weaken [OF a(2)]) (simp_all add: in_query_def in_name_def)
  ultimately show "\<exists>x'. run_actions (http_act request_callbacks buf m) acts p x = Inr x' \<and>
      offsets_in m t (Suc p) x' \<and> offsets_in m 0 p x'"
    using a(1) s by (intro exI [of _ "(s', d')"]) (simp add: offsets_in_def)
qed

section \<open>Execution\<close>

text \<open>What \<open>http_parser_execute\<close> does, where its assertions hold.\<close>

lemma execute_run:
  assumes "0 < len" "len < 2 ^ 31" "len \<le> length buf" "hp_cs s = 0 \<longrightarrow> cs = 0"
    and "run (http_states (hp_uri_relaxed s)) (http_act cb buf len) (\<lambda>a. a = Done) (hp_cs s) 0 (take len buf)
      (s\<lparr>hp_nread := 0, hp_mark := 0, hp_field_len := 0, hp_field_start := 0\<rparr>, d) = Inr (cs, p, s', d')"
    and "hp_cs s' = hp_cs s" "hp_nread s' = 0" "offsets len (q, f) p s'"
  shows "http_parser_execute cb buf len 0 (s, d) = Inr (of_nat p, s'\<lparr>hp_cs := cs, hp_nread := of_nat p\<rparr>, d')"
proof -
  have p: "p \<le> len" using run_position [OF assms(5)] assms(3) by simp
  then have "unat (of_nat p :: u64) = p" using assms(2) by (simp add: of_nat_inverse)
  moreover have "int len = sint (of_nat len :: 32 word) - sint (0 :: 32 word)"
    using assms(2) by (simp add: signed_of_nat signed_take_bit_int_eq_self)
  moreover have "(if hp_cs s' = 0 then s' else s'\<lparr>hp_cs := cs\<rparr>) = s'\<lparr>hp_cs := cs\<rparr>"
    using assms(4,6) by (cases s') auto
  ultimately show ?thesis
    using assms p by (simp add: http_parser_execute_def http_parser_has_error_def)
qed

lemma map_sum_Pair: "map_sum id (Pair s) x = Inr (s', d') \<longleftrightarrow> s' = s \<and> x = Inr d'"
  by (cases x) auto

lemma act_kept:
  "http_act cb buf m a p (s, d) = Inr (s', d') \<Longrightarrow>
   hp_cs s' = hp_cs s \<and> hp_nread s' = hp_nread s \<and> hp_uri_relaxed s' = hp_uri_relaxed s"
  by (cases a) (auto simp: Let_def map_sum_Pair split: if_splits)

lemma run_kept:
  assumes "rq_run r buf m cs p inp (s, d) = Inr (cs', p', s', d')"
  shows "hp_cs s' = hp_cs s \<and> hp_nread s' = hp_nread s \<and> hp_uri_relaxed s' = hp_uri_relaxed s"
proof -
  let ?I = "\<lambda>(p::nat) (x::http_parser \<times> request_sink). hp_cs (fst x) = hp_cs s \<and> hp_nread (fst x) = hp_nread s \<and> hp_uri_relaxed (fst x) = hp_uri_relaxed s"
  have "?I p' (s', d')"
  proof (rule run_invariant [where I = ?I and m = "p + length inp", OF _ _ _ _ assms])
    fix a p' x x'
    assume "?I p' x" "http_act request_callbacks buf m a p' x = Inr x'"
    then show "?I p' x'" by (cases x, cases x') (auto dest: act_kept)
  qed simp_all
  then show ?thesis by simp
qed

section \<open>The headers after a parse\<close>

lemma map_find_Some:
  "map_ok CaseInsensitiveLess m \<Longrightarrow>
   map_find CaseInsensitiveLess k m = Some v \<longleftrightarrow> (\<exists>k'. (k', v) \<in> set m \<and> folded k' = folded k)"
  by (simp add: ci.find_sorted ci_equiv)

lemma getHeader_set:
  "map_ok CaseInsensitiveLess (req_headers q) \<Longrightarrow>
   getHeader k d (setHeader k' v q) = (if folded k = folded k' then v else getHeader k d q)"
  by (simp add: getHeader_def setHeader_def map_get_put)

lemma headers_ok_set: "map_ok CaseInsensitiveLess (req_headers q) \<Longrightarrow> map_ok CaseInsensitiveLess (req_headers (setHeader k v q))"
  by (simp add: setHeader_def ci.put_ok)

lemma headers_ok_set_headers:
  "map_ok CaseInsensitiveLess (req_headers q) \<Longrightarrow> map_ok CaseInsensitiveLess (req_headers (set_headers hs q))"
  by (induction hs arbitrary: q) (auto simp: set_headers_def headers_ok_set)

lemma getHeader_set_headers:
  "map_ok CaseInsensitiveLess hs \<Longrightarrow> map_ok CaseInsensitiveLess (req_headers q) \<Longrightarrow>
   getHeader k d (set_headers hs q) =
     (case map_find CaseInsensitiveLess k hs of Some v \<Rightarrow> v | None \<Rightarrow> getHeader k d q)"
proof (induction hs arbitrary: q)
  case Nil
  then show ?case by (simp add: set_headers_def map_find_def)
next
  case (Cons h hs)
  obtain k' v where h: "h = (k', v)" by (cases h)
  have ok: "map_ok CaseInsensitiveLess hs" "\<forall>x \<in> set hs. folded k' < folded (fst x)"
    using Cons.prems(1) h unfolding map_ok_def by (auto simp flip: CaseInsensitiveLess_folded)
  have IH: "getHeader k d (set_headers (h # hs) q) =
      (case map_find CaseInsensitiveLess k hs of Some v \<Rightarrow> v | None \<Rightarrow> if folded k = folded k' then v else getHeader k d q)"
    using Cons.IH [OF ok(1) headers_ok_set [OF Cons.prems(2)], of k' v] Cons.prems(2) h
    by (simp add: set_headers_def getHeader_set split: option.splits)
  show ?case
  proof (cases "folded k' < folded k")
    case True
    then have "map_find CaseInsensitiveLess k (h # hs) = map_find CaseInsensitiveLess k hs"
      using h by (simp add: map_find_def CaseInsensitiveLess_folded)
    with IH True show ?thesis by (auto split: option.splits)
  next
    case False
    have "map_find CaseInsensitiveLess k hs = None"
    proof (rule ccontr)
      assume "map_find CaseInsensitiveLess k hs \<noteq> None"
      then obtain w where "map_find CaseInsensitiveLess k hs = Some w" by blast
      then obtain k'' where "(k'', w) \<in> set hs" "folded k'' = folded k" using map_find_Some [OF ok(1)] by blast
      with ok(2) False show False by force
    qed
    with IH False h show ?thesis by (auto simp: map_find_def CaseInsensitiveLess_folded)
  qed
qed

definition sent_headers :: "HttpRequest \<Rightarrow> (string \<times> string) list" where
  "sent_headers r = filter (\<lambda>(k, v). folded k \<noteq> folded ''connection'') (req_headers r)"

definition all_headers :: "HttpRequest \<Rightarrow> (string \<times> string) list" where
  "all_headers r = (''connection'', if req_close r then ''close'' else ''keep-alive'') # sent_headers r @
     (if req_body r = [] then [] else [(''content-length'', dec (length (req_body r)))])"

lemma set_headers_append: "set_headers (xs @ ys) q = set_headers ys (set_headers xs q)"
  by (simp add: set_headers_def)

lemma getHeader_all:
  assumes "map_ok CaseInsensitiveLess (req_headers r)" "req_headers q = []"
    and "folded k \<notin> {folded ''connection'', folded ''content-length''}"
  shows "getHeader k d (set_headers (all_headers r) q) = getHeader k d r"
proof -
  let ?c = "(''connection'', if req_close r then ''close'' else ''keep-alive'')"
  let ?q = "set_headers [?c] q" and ?s = "set_headers (sent_headers r)"
  have ok: "map_ok CaseInsensitiveLess (req_headers q)" using assms(2) by (simp add: map_ok_def)
  then have ok1: "map_ok CaseInsensitiveLess (req_headers ?q)" by (rule headers_ok_set_headers)
  have so: "map_ok CaseInsensitiveLess (sent_headers r)"
    using assms(1) unfolding map_ok_def sent_headers_def sorted_wrt_map by (rule sorted_wrt_filter)
  have find: "map_find CaseInsensitiveLess k (sent_headers r) = map_find CaseInsensitiveLess k (req_headers r)"
  proof -
    have "map_find CaseInsensitiveLess k (sent_headers r) = Some v \<longleftrightarrow> map_find CaseInsensitiveLess k (req_headers r) = Some v" for v
      unfolding map_find_Some [OF so] map_find_Some [OF assms(1)]
      using assms(3) by (auto simp: sent_headers_def)
    then show ?thesis by (metis option.exhaust)
  qed
  have "getHeader k d (?s ?q) = getHeader k d r"
    unfolding getHeader_set_headers [OF so ok1] find
    using assms(2,3) getHeader_set [OF ok, of k d]
    by (simp add: getHeader_def map_get_def set_headers_def map_find_def split: option.splits)
  moreover have "set_headers (all_headers r) q = (if req_body r = [] then ?s ?q
      else setHeader ''content-length'' (dec (length (req_body r))) (?s ?q))"
    by (simp add: all_headers_def set_headers_def)
  ultimately show ?thesis
    using assms(3) getHeader_set [OF headers_ok_set_headers [OF ok1]] by simp
qed

lemma getHeader_length:
  "req_headers q = [] \<Longrightarrow> req_body r \<noteq> [] \<Longrightarrow>
   getHeader ''content-length'' d (set_headers (all_headers r) q) = dec (length (req_body r))"
proof -
  assume a: "req_headers q = []" "req_body r \<noteq> []"
  let ?c = "(''connection'', if req_close r then ''close'' else ''keep-alive'')"
  have "map_ok CaseInsensitiveLess (req_headers q)" using a by (simp add: map_ok_def)
  then have "map_ok CaseInsensitiveLess (req_headers (set_headers (?c # sent_headers r) q))" by (rule headers_ok_set_headers)
  then show ?thesis using a(2) getHeader_set [of "set_headers (?c # sent_headers r) q"]
    by (simp add: all_headers_def set_headers_def)
qed

section \<open>A request in one piece\<close>

definition request_head :: "HttpRequest \<Rightarrow> string" where
  "request_head r = request_line r @ header_line '': '' (''connection'', if req_close r then ''close'' else ''keep-alive'') @
     header_lines '':'' (sent_headers r) @
     (if req_body r = [] then [] else header_line '': '' (''content-length'', dec (length (req_body r)))) @ crlf"

lemma dump_headers_concat: "dump_headers skip sep m = header_lines sep (filter (\<lambda>(k, v). \<not> skip k) m)"
  by (induction m) (auto simp: header_lines_def header_line_def)

lemma dump_head: "HttpRequest_dump r = request_head r @ req_body r"
proof -
  have "strcasecmp (c_str k) ''connection'' = 0 \<longleftrightarrow> folded k = folded ''connection''" for k
    using strcasecmp_folded [of k "''connection''"] by (simp add: c_str_def)
  then show ?thesis
    by (simp add: HttpRequest_dump_def request_head_def request_line_def part_def dump_headers_concat dump_body_def
        header_line_def sent_headers_def)
qed

lemma dec_header_ok: "header_ok (''content-length'', dec n)"
proof -
  have "\<forall>c \<in> set ''0123456789abcdef''. value_start c \<and> value_char c" by code_simp
  then have "\<forall>c \<in> set (dec n). value_start c \<and> value_char c" using dec_chars(1) by blast
  moreover have "list_all token_char ''content-length''" by code_simp
  ultimately show ?thesis by (simp add: header_ok_def list_all_iff)
qed

lemma connection_header_ok: "header_ok (''connection'', if b then ''close'' else ''keep-alive'')"
proof -
  have "header_ok (''connection'', ''close'')" "header_ok (''connection'', ''keep-alive'')" by code_simp+
  then show ?thesis by simp
qed

lemma run_head:
  assumes b: "length buf \<le> 2 ^ 62" "buf = request_head r @ rest" and r: "line_ok r" "list_all header_ok (sent_headers r)"
    and q: "req_query q = []" "req_fragment q = []" and x: "\<not> hp_xml_sent s" "\<not> hp_json_sent s"
  shows "\<exists>s'. rq_run u buf n 1 0 (request_head r @ inp) (s, q, e) =
    Inr (348, length (request_head r), s', set_headers (all_headers r) (copy_line r q), e)"
proof -
  let ?c = "(''connection'', if req_close r then ''close'' else ''keep-alive'')" and ?l = "(''content-length'', dec (length (req_body r)))"
  let ?L = "if req_body r = [] then [] else [?l]"
  let ?q = "copy_line r q"
  define h1 h2 h3 where h: "h1 = header_lines '': '' [?c]" "h2 = header_lines '':'' (sent_headers r)" "h3 = header_lines '': '' ?L"
  have head: "request_head r = request_line r @ h1 @ h2 @ h3 @ crlf"
    by (simp add: request_head_def h header_lines_def)
  have "\<exists>s'. rq_run u buf n 1 0 (request_line r @ h1 @ h2 @ h3 @ crlf @ inp) (s, q, e) =
      rq_run u buf n 13 (length (request_line r)) (h1 @ h2 @ h3 @ crlf @ inp) (s', ?q, e) \<and> kept s' = kept s"
    by (rule run_request_line [OF b(1) _ r(1) q, where rest = "h1 @ h2 @ h3 @ crlf @ rest"]) (simp add: b(2) head)
  then obtain s1 where 1: "rq_run u buf n 1 0 (request_line r @ h1 @ h2 @ h3 @ crlf @ inp) (s, q, e) =
      rq_run u buf n 13 (length (request_line r)) (h1 @ h2 @ h3 @ crlf @ inp) (s1, ?q, e)" "kept s1 = kept s" by blast
  have "\<exists>s'. rq_run u buf n 13 (length (request_line r)) (h1 @ h2 @ h3 @ crlf @ inp) (s1, ?q, e) =
      rq_run u buf n 13 (length (request_line r @ h1)) (h2 @ h3 @ crlf @ inp) (s', set_headers [?c] ?q, e) \<and> kept s' = kept s1"
    unfolding h(1) by (rule run_headers [OF b(1), where rest = "h2 @ h3 @ crlf @ rest"])
      (simp_all add: b(2) head h(1) connection_header_ok)
  then obtain s2 where 2: "rq_run u buf n 13 (length (request_line r)) (h1 @ h2 @ h3 @ crlf @ inp) (s1, ?q, e) =
      rq_run u buf n 13 (length (request_line r @ h1)) (h2 @ h3 @ crlf @ inp) (s2, set_headers [?c] ?q, e)" "kept s2 = kept s1" by blast
  have "\<exists>s'. rq_run u buf n 13 (length (request_line r @ h1)) (h2 @ h3 @ crlf @ inp) (s2, set_headers [?c] ?q, e) =
      rq_run u buf n 13 (length ((request_line r @ h1) @ h2)) (h3 @ crlf @ inp) (s', set_headers (sent_headers r) (set_headers [?c] ?q), e) \<and>
      kept s' = kept s2"
    unfolding h(2) by (rule run_headers [OF b(1), where rest = "h3 @ crlf @ rest"])
      (simp_all add: b(2) head h(2) r(2))
  then obtain s3 where 3: "rq_run u buf n 13 (length (request_line r @ h1)) (h2 @ h3 @ crlf @ inp) (s2, set_headers [?c] ?q, e) =
      rq_run u buf n 13 (length ((request_line r @ h1) @ h2)) (h3 @ crlf @ inp) (s3, set_headers (sent_headers r) (set_headers [?c] ?q), e)"
      "kept s3 = kept s2" by blast
  have "\<exists>s'. rq_run u buf n 13 (length ((request_line r @ h1) @ h2)) (h3 @ crlf @ inp) (s3, set_headers (sent_headers r) (set_headers [?c] ?q), e) =
      rq_run u buf n 13 (length (((request_line r @ h1) @ h2) @ h3)) (crlf @ inp)
        (s', set_headers ?L (set_headers (sent_headers r) (set_headers [?c] ?q)), e) \<and> kept s' = kept s3"
    unfolding h(3) by (rule run_headers [OF b(1), where rest = "crlf @ rest"])
      (simp_all add: b(2) head h(3) dec_header_ok)
  then obtain s4 where 4: "rq_run u buf n 13 (length ((request_line r @ h1) @ h2)) (h3 @ crlf @ inp) (s3, set_headers (sent_headers r) (set_headers [?c] ?q), e) =
      rq_run u buf n 13 (length (((request_line r @ h1) @ h2) @ h3)) (crlf @ inp)
        (s4, set_headers ?L (set_headers (sent_headers r) (set_headers [?c] ?q)), e)" "kept s4 = kept s3" by blast
  have "\<not> hp_xml_sent s4" "\<not> hp_json_sent s4" using 1(2) 2(2) 3(2) 4(2) x by (simp_all add: kept_def)
  then obtain s5 where 5: "rq_run u buf n 13 (length (((request_line r @ h1) @ h2) @ h3)) (crlf @ inp)
        (s4, set_headers ?L (set_headers (sent_headers r) (set_headers [?c] ?q)), e) =
      Inr (348, length (((request_line r @ h1) @ h2) @ h3) + 2, s5, set_headers ?L (set_headers (sent_headers r) (set_headers [?c] ?q)), e)"
    using run_end by blast
  have "set_headers (all_headers r) ?q = set_headers ?L (set_headers (sent_headers r) (set_headers [?c] ?q))"
    by (simp add: all_headers_def set_headers_def)
  moreover have "length (request_head r) = length (((request_line r @ h1) @ h2) @ h3) + 2"
    by (simp add: head crlf_def)
  ultimately show ?thesis using 1(1) 2(1) 3(1) 4(1) 5 by (intro exI [of _ s5]) (simp add: head)
qed

section \<open>Properties\<close>

lemma fresh_offsets:
  assumes "hp_cs s < 348" "\<not> in_query (hp_cs s)" "unat (hp_body_start s) \<le> m" "0 < m"
  shows "offsets_in m (hp_cs s) 0 (s\<lparr>hp_nread := 0, hp_mark := 0, hp_field_len := 0, hp_field_start := 0\<rparr>, d)"
  using assms by (simp add: offsets_in_def)

text \<open>
  C3. No request makes the parser fail an assertion, leave its buffer or make a string of a
  length that is none: given a part of a request that does not start inside a query string,
  \<open>execute\<close> returns, having taken at most the bytes there are, in one of the states of the
  machine, and the buffer keeps its size, with the bytes not taken at its start.
\<close>

theorem request_parse_safe:
  assumes "hp_cs (rq_parser self) < 348" "\<not> in_query (hp_cs (rq_parser self))"
    and "unat (hp_body_start (rq_parser self)) \<le> len"
    and "len \<le> length buffer" "len < 2 ^ 31"
  shows "\<exists>n self' buffer'. rq_execute self buffer len = Inr (n, self', buffer') \<and> unat n \<le> len \<and>
    hp_cs (rq_parser self') < 350 \<and> length buffer' = length buffer \<and>
    take (len - unat n) buffer' = take (len - unat n) (drop (unat n) buffer)"
proof (cases "len = 0")
  case True
  then show ?thesis using assms(1) by (simp add: rq_execute_def http_parser_execute_def)
next
  case False
  let ?s = "rq_parser self"
  let ?t = "?s\<lparr>hp_nread := 0, hp_mark := 0, hp_field_len := 0, hp_field_start := 0\<rparr>"
  have "offsets_in len (hp_cs ?s) 0 (?t, rq_data self, rq_error self)"
    using fresh_offsets assms False by simp
  then obtain cs p s' d where r: "rq_run (hp_uri_relaxed ?s) buffer len (hp_cs ?s) 0 (take len buffer) (?t, rq_data self, rq_error self) =
      Inr (cs, p, s', d)" and o: "offsets_in len cs p (s', d)"
    using run_offsets [of len buffer "hp_cs ?s" 0 "(?t, rq_data self, rq_error self)" "take len buffer"] assms by force
  obtain r' e' where d: "d = (r', e')" by (cases d)
  have p: "p \<le> len" using run_position [OF r] assms(4) by simp
  have cs: "hp_cs ?s = 0 \<longrightarrow> cs = 0"
    using r False assms(4) run_error [of "http_states (hp_uri_relaxed ?s)"]
    by (cases buffer; cases len) (auto simp: http_nth http_st0_def run.simps)
  have "http_parser_execute request_callbacks buffer len 0 (?s, rq_data self, rq_error self) =
      Inr (of_nat p, s'\<lparr>hp_cs := cs, hp_nread := of_nat p\<rparr>, d)"
    by (rule execute_run [OF _ assms(5,4) _ r]) (use False o cs run_kept [OF r] in \<open>auto simp: offsets_in_def\<close>)
  moreover have "unat (of_nat p :: u64) = p" using p assms(5) by (simp add: of_nat_inverse)
  moreover have "cs < 350" using o by (simp add: offsets_in_def)
  ultimately show ?thesis
    using p assms(4) d
    by (simp add: rq_execute_def overwrite_def)
qed

lemma set_headers_fields [simp]:
  "req_method (set_headers hs q) = req_method q" "req_path (set_headers hs q) = req_path q"
  "req_query (set_headers hs q) = req_query q" "req_fragment (set_headers hs q) = req_fragment q"
  "req_version (set_headers hs q) = req_version q"
  by (induction hs arbitrary: q) (auto simp: set_headers_def setHeader_def)

definition zero_memory :: http_parser where
  "zero_memory = \<lparr>hp_cs = 0, hp_body_start = 0, hp_content_len = 0, hp_nread = 0, hp_mark = 0, hp_field_start = 0,
     hp_field_len = 0, hp_query_start = 0, hp_xml_sent = False, hp_json_sent = False, hp_uri_relaxed = False\<rparr>"

text \<open>What \<open>execute\<close> makes of a run of the machine.\<close>

lemma rq_execute_run:
  assumes "0 < len" "len < 2 ^ 31" "len \<le> length buffer" "hp_cs s < 348" "\<not> in_query (hp_cs s)"
    and "hp_cs s \<noteq> 0" "unat (hp_body_start s) \<le> len"
    and "rq_run (hp_uri_relaxed s) buffer len (hp_cs s) 0 (take len buffer)
      (s\<lparr>hp_nread := 0, hp_mark := 0, hp_field_len := 0, hp_field_start := 0\<rparr>, d, e) = Inr (cs, p, s', d', e')"
  shows "rq_execute \<lparr>rq_parser = s, rq_data = d, rq_error = e\<rparr> buffer len =
    Inr (of_nat p, \<lparr>rq_parser = s'\<lparr>hp_cs := cs, hp_nread := of_nat p\<rparr>, rq_data = d', rq_error = e'\<rparr>,
      overwrite 0 (take (len - p) (drop p buffer)) buffer)"
proof -
  let ?t = "s\<lparr>hp_nread := 0, hp_mark := 0, hp_field_len := 0, hp_field_start := 0\<rparr>"
  have "offsets_in len (hp_cs s) 0 (?t, d, e)" using fresh_offsets assms by simp
  then have o: "offsets_in len cs p (s', d', e')"
    using run_offsets [of len buffer "hp_cs s" 0 "(?t, d, e)" "take len buffer" "hp_uri_relaxed s"] assms by simp
  have "http_parser_execute request_callbacks buffer len 0 (s, d, e) =
      Inr (of_nat p, s'\<lparr>hp_cs := cs, hp_nread := of_nat p\<rparr>, d', e')"
    by (rule execute_run [OF assms(1-3) _ assms(8)]) (use assms(6) o run_kept [OF assms(8)] in \<open>auto simp: offsets_in_def\<close>)
  moreover have "p \<le> len" using run_position [OF assms(8)] assms(3) by simp
  then have "unat (of_nat p :: u64) = p" using assms(2) by (simp add: of_nat_inverse)
  ultimately show ?thesis by (simp add: rq_execute_def)
qed

lemma fresh_parser:
  "hp_cs (http_parser_init m) = 1" "hp_body_start (http_parser_init m) = 0" "\<not> hp_xml_sent (http_parser_init m)"
  "\<not> hp_json_sent (http_parser_init m)" "\<not> in_query (hp_cs (http_parser_init m))"
  by (simp_all add: http_parser_init_def in_query_def)

theorem request_parse_safe_witness:
  "\<exists>n self' buffer'. rq_execute (HttpRequestParser_new zero_memory) ''GET'' 3 = Inr (n, self', buffer') \<and> unat n \<le> 3 \<and>
    hp_cs (rq_parser self') < 350 \<and> length buffer' = length ''GET'' \<and>
    take (3 - unat n) buffer' = take (3 - unat n) (drop (unat n) ''GET'')"
  by (rule request_parse_safe [where len = 3])
    (simp_all add: HttpRequestParser_new_def http_parser_init_def in_query_def)

text \<open>
  C1. Parsing inverts writing: a request whose parts are in the grammar, written out and given
  to a new parser in one piece, is taken up to the end of its head, without an error, and the
  parser has the method, the path, the query, the fragment and the version of the request, every
  header but the two that the writer adds, and the length of the body; the body is what is left
  at the start of the buffer.
\<close>

theorem request_roundtrip:
  assumes "line_ok r" "map_ok CaseInsensitiveLess (req_headers r)" "list_all header_ok (sent_headers r)"
    and "length (HttpRequest_dump r) < 2 ^ 31" "length (HttpRequest_dump r @ junk) \<le> 2 ^ 62"
  shows "\<exists>n self buffer. rq_execute (HttpRequestParser_new memory) (HttpRequest_dump r @ junk) (length (HttpRequest_dump r)) =
      Inr (n, self, buffer) \<and> rq_isFinished self = 1 \<and> \<not> rq_hasError self \<and>
      unat n + length (req_body r) = length (HttpRequest_dump r) \<and> take (length (req_body r)) buffer = req_body r \<and>
      req_method (rq_data self) = req_method r \<and> req_path (rq_data self) = req_path r \<and>
      req_query (rq_data self) = req_query r \<and> req_fragment (rq_data self) = req_fragment r \<and>
      req_version (rq_data self) = req_version r \<and>
      (\<forall>k d. folded k \<notin> {folded ''connection'', folded ''content-length''} \<longrightarrow>
         getHeader k d (rq_data self) = getHeader k d r) \<and>
      (req_body r \<noteq> [] \<longrightarrow> getHeader ''content-length'' [] (rq_data self) = dec (length (req_body r)))"
proof -
  let ?s = "http_parser_init memory" and ?q = "HttpRequest_new 0x11 True" and ?len = "length (HttpRequest_dump r)"
  let ?t = "?s\<lparr>hp_nread := 0, hp_mark := 0, hp_field_len := 0, hp_field_start := 0\<rparr>" and ?buf = "HttpRequest_dump r @ junk"
  let ?d = "set_headers (all_headers r) (copy_line r ?q)" and ?n = "length (request_head r)"
  have q: "req_query ?q = []" "req_fragment ?q = []" "req_headers ?q = []" by (simp_all add: HttpRequest_new_def)
  have "\<exists>s'. rq_run (hp_uri_relaxed ?s) ?buf ?len 1 0 (request_head r @ req_body r) (?t, ?q, 0) = Inr (348, ?n, s', ?d, 0)"
    by (rule run_head [where rest = "req_body r @ junk"]) (use assms q fresh_parser in \<open>simp_all add: dump_head\<close>)
  then obtain s' where run: "rq_run (hp_uri_relaxed ?s) ?buf ?len (hp_cs ?s) 0 (take ?len ?buf) (?t, ?q, 0) = Inr (348, ?n, s', ?d, 0)"
    by (auto simp: dump_head fresh_parser)
  have "0 < ?len" by (simp add: dump_head request_head_def crlf_def)
  then have "rq_execute (HttpRequestParser_new memory) ?buf ?len =
      Inr (of_nat ?n, \<lparr>rq_parser = s'\<lparr>hp_cs := 348, hp_nread := of_nat ?n\<rparr>, rq_data = ?d, rq_error = 0\<rparr>,
        overwrite 0 (take (?len - ?n) (drop ?n ?buf)) ?buf)"
    unfolding HttpRequestParser_new_def
    by (intro rq_execute_run) (use run assms(4) fresh_parser in simp_all)
  moreover have "unat (of_nat ?n :: u64) = ?n" using assms(4) by (simp add: dump_head of_nat_inverse)
  moreover have "req_headers (copy_line r ?q) = []" by (simp add: copy_line_def q)
  ultimately show ?thesis
    using getHeader_all [OF assms(2), of "copy_line r ?q"] getHeader_length [of "copy_line r ?q" r "[]"]
    by (simp add: rq_isFinished_def rq_hasError_def http_parser_finish_def http_parser_has_error_def
      http_parser_is_finished_def dump_head overwrite_def copy_line_def)
qed

definition sample_request :: HttpRequest where
  "sample_request = (HttpRequest_new 0x11 False)\<lparr>req_method := POST, req_path := ''/a%20b'', req_query := ''q=1'',
     req_headers := [(''Host'', ''x y'')], req_body := ''hi''\<rparr>"

theorem request_roundtrip_witness:
  "\<exists>n self buffer. rq_execute (HttpRequestParser_new zero_memory) (HttpRequest_dump sample_request)
      (length (HttpRequest_dump sample_request)) = Inr (n, self, buffer) \<and>
    req_path (rq_data self) = ''/a%20b'' \<and> getHeader ''HOST'' [] (rq_data self) = ''x y'' \<and> take 2 buffer = ''hi''"
proof -
  have "line_ok sample_request" "map_ok CaseInsensitiveLess (req_headers sample_request)"
    "list_all header_ok (sent_headers sample_request)" by code_simp+
  note h = this
  have n: "length (HttpRequest_dump sample_request) = 83" by code_simp
  have "folded ''HOST'' \<notin> {folded ''connection'', folded ''content-length''}"
    "getHeader ''HOST'' [] sample_request = ''x y''" by code_simp+
  note k = this
  have l: "length (HttpRequest_dump sample_request) < 2 ^ 31" "length (HttpRequest_dump sample_request @ []) \<le> 2 ^ 62"
    by (simp_all add: n)
  obtain n self buffer where "rq_execute (HttpRequestParser_new zero_memory) (HttpRequest_dump sample_request @ [])
      (length (HttpRequest_dump sample_request)) = Inr (n, self, buffer)"
    "take (length (req_body sample_request)) buffer = req_body sample_request"
    "req_path (rq_data self) = req_path sample_request"
    "\<forall>k d. folded k \<notin> {folded ''connection'', folded ''content-length''} \<longrightarrow>
       getHeader k d (rq_data self) = getHeader k d sample_request"
    using request_roundtrip [OF h(1-3) l, of zero_memory] by (elim exE conjE) (rule that, assumption+)
  moreover have "length (req_body sample_request) = 2" "req_body sample_request = ''hi''" "req_path sample_request = ''/a%20b''"
    by (simp_all add: sample_request_def)
  ultimately show ?thesis using k by (auto simp: numeral_2_eq_2)
qed

section \<open>A request in two pieces\<close>

lemma run_first:
  assumes "w \<noteq> []" "path_ok (CHR ''/'' # w)" "buf = ''GET /'' @ w @ rest" "length buf \<le> 2 ^ 62"
  shows "rq_run r buf n 1 0 (''GET /'' @ w @ inp) (s, q, e) =
    rq_run r buf n 26 (length (''GET /'' @ w)) inp (s\<lparr>hp_mark := 4\<rparr>, q\<lparr>req_method := GET\<rparr>, e)"
proof -
  have g: "HttpMethodToString GET = ''GET''" "length (HttpMethodToString GET) + 1 = 4" by code_simp+
  have "rq_run r buf n 1 0 (''GET '' @ (CHR ''/'' # w) @ inp) (s, q, e) =
      rq_run r buf n 3 4 ((CHR ''/'' # w) @ inp) (s\<lparr>hp_mark := 0\<rparr>, q\<lparr>req_method := GET\<rparr>, e)"
    using run_method [of GET buf "CHR ''/'' # w @ rest" r n "CHR ''/'' # w @ inp" s q e] assms(3) unfolding g(2) by (simp add: g(1))
  also have "\<dots> = rq_run r buf n 26 (4 + length (CHR ''/'' # w)) inp (s\<lparr>hp_mark := 4\<rparr>, q\<lparr>req_method := GET\<rparr>, e)"
    using run_path_state [OF assms(2), of r buf n 4 inp "s\<lparr>hp_mark := 0\<rparr>" "(q\<lparr>req_method := GET\<rparr>, e)"] assms(1) by simp
  finally show ?thesis by (simp add: numeral_eq_Suc)
qed

text \<open>The parser after a first piece that ends inside the path.\<close>

lemma first_piece:
  assumes "w \<noteq> []" "path_ok (CHR ''/'' # w)" "length (''GET /'' @ w @ junk) \<le> 2 ^ 62" "length (''GET /'' @ w) < 2 ^ 31"
  shows "\<exists>s buffer. rq_execute (HttpRequestParser_new memory) (''GET /'' @ w @ junk) (length (''GET /'' @ w)) =
      Inr (of_nat (length (''GET /'' @ w)), \<lparr>rq_parser = s, rq_data = (HttpRequest_new 0x11 True)\<lparr>req_method := GET\<rparr>, rq_error = 0\<rparr>, buffer) \<and>
    hp_cs s = 26 \<and> hp_body_start s = 0 \<and> \<not> hp_xml_sent s \<and> \<not> hp_json_sent s"
proof -
  let ?s = "http_parser_init memory" and ?q = "HttpRequest_new 0x11 True" and ?buf = "''GET /'' @ w @ junk"
  let ?t = "?s\<lparr>hp_nread := 0, hp_mark := 0, hp_field_len := 0, hp_field_start := 0\<rparr>"
  have "rq_run (hp_uri_relaxed ?s) ?buf (length (''GET /'' @ w)) 1 0 (''GET /'' @ w @ []) (?t, ?q, 0) =
      rq_run (hp_uri_relaxed ?s) ?buf (length (''GET /'' @ w)) 26 (length (''GET /'' @ w)) [] (?t\<lparr>hp_mark := 4\<rparr>, ?q\<lparr>req_method := GET\<rparr>, 0)"
    by (rule run_first [OF assms(1,2)]) (use assms(3) in simp_all)
  then have run: "rq_run (hp_uri_relaxed ?s) ?buf (length (''GET /'' @ w)) (hp_cs ?s) 0 (take (length (''GET /'' @ w)) ?buf) (?t, ?q, 0) =
      Inr (26, length (''GET /'' @ w), ?t\<lparr>hp_mark := 4\<rparr>, ?q\<lparr>req_method := GET\<rparr>, 0)"
    by (simp add: fresh_parser)
  have "rq_execute (HttpRequestParser_new memory) ?buf (length (''GET /'' @ w)) =
      Inr (of_nat (length (''GET /'' @ w)), \<lparr>rq_parser = ?t\<lparr>hp_mark := 4, hp_cs := 26, hp_nread := of_nat (length (''GET /'' @ w))\<rparr>,
        rq_data = ?q\<lparr>req_method := GET\<rparr>, rq_error = 0\<rparr>, overwrite 0 (take (length (''GET /'' @ w) - (length (''GET /'' @ w))) (drop (length (''GET /'' @ w)) ?buf)) ?buf)"
    unfolding HttpRequestParser_new_def
    by (intro rq_execute_run) (use run assms(4) fresh_parser in simp_all)
  then show ?thesis using fresh_parser by simp
qed

text \<open>
  A request split inside its path loses the part of the path that came first: \<open>execute\<close>
  starts every piece with its mark at the start of the buffer, so the path of the finished
  request is the part in the second piece.
\<close>

theorem split_path_truncates:
  assumes "w1 \<noteq> []" "path_ok (CHR ''/'' # w1)" "uri_text path_char w2"
    and "length (''GET /'' @ w1 @ junk1) < 2 ^ 31" "length (w2 @ '' HTTP/1.1'' @ crlf @ crlf @ junk2) < 2 ^ 31"
  shows "\<exists>n1 self1 buffer1 n2 self2 buffer2.
    rq_execute (HttpRequestParser_new memory) (''GET /'' @ w1 @ junk1) (length (''GET /'' @ w1)) = Inr (n1, self1, buffer1) \<and>
    unat n1 = length (''GET /'' @ w1) \<and> rq_isFinished self1 = 0 \<and>
    rq_execute self1 (w2 @ '' HTTP/1.1'' @ crlf @ crlf @ junk2) (length (w2 @ '' HTTP/1.1'' @ crlf @ crlf)) = Inr (n2, self2, buffer2) \<and>
    rq_isFinished self2 = 1 \<and> \<not> rq_hasError self2 \<and> req_path (rq_data self2) = w2"
proof -
  let ?q = "(HttpRequest_new 0x11 True)\<lparr>req_method := GET\<rparr>" and ?buf = "w2 @ '' HTTP/1.1'' @ crlf @ crlf @ junk2"
    and ?len = "length (w2 @ '' HTTP/1.1'' @ crlf @ crlf)"
  obtain s buffer where 1: "rq_execute (HttpRequestParser_new memory) (''GET /'' @ w1 @ junk1) (length (''GET /'' @ w1)) =
      Inr (of_nat (length (''GET /'' @ w1)), \<lparr>rq_parser = s, rq_data = ?q, rq_error = 0\<rparr>, buffer)"
    and s: "hp_cs s = 26" "hp_body_start s = 0" "\<not> hp_xml_sent s" "\<not> hp_json_sent s"
    using first_piece [OF assms(1,2), of junk1 memory] assms(4) by auto
  let ?t = "s\<lparr>hp_nread := 0, hp_mark := 0, hp_field_len := 0, hp_field_start := 0\<rparr>"
  let ?r = "rq_run (hp_uri_relaxed s) ?buf ?len"
  have v: "''HTTP/'' @ version_text 0x11 = ''HTTP/1.1''" by (simp add: version_texts)
  have path: "run_actions (http_act request_callbacks ?buf ?len) [Request_path, Request_uri] (length w2) (?t, ?q, 0) =
      Inr (?t, ?q\<lparr>req_path := w2\<rparr>, 0)"
    using on_path_at(1) [of ?buf "[]" w2 "'' HTTP/1.1'' @ crlf @ crlf @ junk2" ?q 0] assms(5) by simp
  have "?r 26 0 (w2 @ '' HTTP/1.1'' @ crlf @ crlf) (?t, ?q, 0) = ?r 26 (length w2) (CHR '' '' # ''HTTP/1.1'' @ crlf @ crlf) (?t, ?q, 0)"
    by (subst run_path_text [OF assms(3)]) simp
  also have "\<dots> = ?r 4 (length w2 + 1) (''HTTP/1.1'' @ crlf @ crlf) (?t, ?q\<lparr>req_path := w2\<rparr>, 0)"
    by (rule run_step [OF _ _ _ _ path, where t = 4]) (simp_all add: http_nth http_st26_def http_ctrs)
  also have "\<dots> = ?r 13 (length (w2 @ '' '' @ ''HTTP/'' @ version_text 0x11 @ crlf)) crlf
      (?t\<lparr>hp_mark := of_nat (length (w2 @ '' ''))\<rparr>, ?q\<lparr>req_path := w2, req_version := 0x11\<rparr>, 0)"
    using run_version [of ?buf "w2 @ '' ''" "0x11" "crlf @ junk2" "hp_uri_relaxed s" ?len crlf ?t "?q\<lparr>req_path := w2\<rparr>" 0] assms(5)
    by (simp add: version_texts)
  finally have 2: "?r 26 0 (w2 @ '' HTTP/1.1'' @ crlf @ crlf) (?t, ?q, 0) = ?r 13 (length (w2 @ '' '' @ ''HTTP/'' @ version_text 0x11 @ crlf)) crlf
      (?t\<lparr>hp_mark := of_nat (length (w2 @ '' ''))\<rparr>, ?q\<lparr>req_path := w2, req_version := 0x11\<rparr>, 0)" .
  have l: "length (w2 @ '' '' @ ''HTTP/'' @ version_text 0x11 @ crlf) = length w2 + 11" by (simp add: version_texts crlf_def)
  have t: "take ?len ?buf = w2 @ '' HTTP/1.1'' @ crlf @ crlf" by (simp add: crlf_def)
  obtain s' where 3: "?r 13 (length w2 + 11) crlf (?t\<lparr>hp_mark := of_nat (length (w2 @ '' ''))\<rparr>, ?q\<lparr>req_path := w2, req_version := 0x11\<rparr>, 0) =
      Inr (348, length w2 + 11 + 2, s', ?q\<lparr>req_path := w2, req_version := 0x11\<rparr>, 0)"
    using run_end [of "?t\<lparr>hp_mark := of_nat (length (w2 @ '' ''))\<rparr>" "hp_uri_relaxed s" ?buf ?len "length w2 + 11" "[]"] s by auto
  have "rq_execute \<lparr>rq_parser = s, rq_data = ?q, rq_error = 0\<rparr> ?buf ?len =
      Inr (of_nat (length w2 + 11 + 2), \<lparr>rq_parser = s'\<lparr>hp_cs := 348, hp_nread := of_nat (length w2 + 11 + 2)\<rparr>,
        rq_data = ?q\<lparr>req_path := w2, req_version := 0x11\<rparr>, rq_error = 0\<rparr>,
        overwrite 0 (take (?len - (length w2 + 11 + 2)) (drop (length w2 + 11 + 2) ?buf)) ?buf)"
  proof (rule rq_execute_run)
    show "?r (hp_cs s) 0 (take ?len ?buf) (?t, ?q, 0) = Inr (348, length w2 + 11 + 2, s', ?q\<lparr>req_path := w2, req_version := 0x11\<rparr>, 0)"
      unfolding s(1) t 2 l by (rule 3)
  qed (use s assms(5) in \<open>simp_all add: in_query_def crlf_def\<close>)
  moreover have "unat (of_nat (length (''GET /'' @ w1)) :: u64) = length (''GET /'' @ w1)" using assms(4) by (subst of_nat_inverse) simp_all
  ultimately show ?thesis using 1 s
    by (simp add: rq_isFinished_def rq_hasError_def http_parser_finish_def http_parser_has_error_def http_parser_is_finished_def)
qed

theorem split_path_truncates_witness:
  "\<exists>n1 self1 buffer1 n2 self2 buffer2.
    rq_execute (HttpRequestParser_new zero_memory) (''GET /'' @ ''in'' @ []) (length (''GET /'' @ ''in'')) = Inr (n1, self1, buffer1) \<and>
    unat n1 = length (''GET /'' @ ''in'') \<and> rq_isFinished self1 = 0 \<and>
    rq_execute self1 (''dex'' @ '' HTTP/1.1'' @ crlf @ crlf @ []) (length (''dex'' @ '' HTTP/1.1'' @ crlf @ crlf)) = Inr (n2, self2, buffer2) \<and>
    rq_isFinished self2 = 1 \<and> \<not> rq_hasError self2 \<and> req_path (rq_data self2) = ''dex''"
proof (rule split_path_truncates)
  show "path_ok (CHR ''/'' # ''in'')" "uri_text path_char ''dex''" by code_simp+
qed (simp_all add: crlf_def)

text \<open>The parser after a first piece that ends inside the query.\<close>

lemma first_piece_query:
  assumes "w \<noteq> []" "path_ok (CHR ''/'' # w)" "v \<noteq> []" "uri_text query_char v"
    and "length (''GET /'' @ w @ ''?'' @ v @ junk) \<le> 2 ^ 62" "length (''GET /'' @ w @ ''?'' @ v) < 2 ^ 31"
  shows "\<exists>s d buffer. rq_execute (HttpRequestParser_new memory) (''GET /'' @ w @ ''?'' @ v @ junk) (length (''GET /'' @ w @ ''?'' @ v)) =
      Inr (of_nat (length (''GET /'' @ w @ ''?'' @ v)), \<lparr>rq_parser = s, rq_data = d, rq_error = 0\<rparr>, buffer) \<and>
    hp_cs s = 30 \<and> hp_query_start s = of_nat (length (''GET /'' @ w) + 1)"
proof -
  let ?s = "http_parser_init memory" and ?q = "HttpRequest_new 0x11 True" and ?buf = "''GET /'' @ w @ ''?'' @ v @ junk"
    and ?len = "length (''GET /'' @ w @ ''?'' @ v)" and ?p = "length (''GET /'' @ w)"
  let ?t = "?s\<lparr>hp_nread := 0, hp_mark := 0, hp_field_len := 0, hp_field_start := 0\<rparr>" and ?d = "?q\<lparr>req_method := GET, req_path := CHR ''/'' # w\<rparr>"
  let ?r = "rq_run (hp_uri_relaxed ?s) ?buf ?len"
  let ?u = "?t\<lparr>hp_mark := 4, hp_query_start := of_nat (?p + 1)\<rparr>"
  have path: "run_actions (http_act request_callbacks ?buf ?len) [Request_path] ?p (?t\<lparr>hp_mark := 4\<rparr>, ?q\<lparr>req_method := GET\<rparr>, 0) =
      Inr (?t\<lparr>hp_mark := 4\<rparr>, ?d, 0)"
  proof -
    have n: "of_nat (length ''GET '') = (4 :: u64)" "length ''GET '' + length (CHR ''/'' # w) = ?p" by simp_all
    have "on_request_path (PTR_TO ?buf 4) (LEN 4 ?p) (?q\<lparr>req_method := GET\<rparr>, 0) = Inr (?d, 0)"
      using on_path_at(1) [of ?buf "''GET ''" "CHR ''/'' # w" "''?'' @ v @ junk" "?q\<lparr>req_method := GET\<rparr>" 0] assms(5)
      unfolding n by simp
    then show ?thesis by (simp del: length_append)
  qed
  have "?r 1 0 (''GET /'' @ w @ CHR ''?'' # v @ []) (?t, ?q, 0) = ?r 26 ?p (CHR ''?'' # v @ []) (?t\<lparr>hp_mark := 4\<rparr>, ?q\<lparr>req_method := GET\<rparr>, 0)"
    by (rule run_first [OF assms(1,2), where rest = "''?'' @ v @ junk"]) (use assms(5) in simp_all)
  also have "\<dots> = ?r 29 (?p + 1) (v @ []) (?t\<lparr>hp_mark := 4\<rparr>, ?d, 0)"
    by (rule run_step [OF _ _ _ _ path, where t = 29]) (simp_all add: http_nth http_st26_def http_ctrs)
  also have "\<dots> = ?r 30 (?p + 1 + length v) [] (?u, ?d, 0)"
    by (rule run_query [OF assms(3,4)])
  finally have run: "?r 1 0 (''GET /'' @ w @ ''?'' @ v @ []) (?t, ?q, 0) = Inr (30, ?len, ?u, ?d, 0)" by simp
  have t: "take ?len ?buf = ''GET /'' @ w @ ''?'' @ v @ []" by simp
  have "rq_execute \<lparr>rq_parser = ?s, rq_data = ?q, rq_error = 0\<rparr> ?buf ?len =
      Inr (of_nat ?len, \<lparr>rq_parser = ?u\<lparr>hp_cs := 30, hp_nread := of_nat ?len\<rparr>, rq_data = ?d, rq_error = 0\<rparr>,
        overwrite 0 (take (?len - ?len) (drop ?len ?buf)) ?buf)"
  proof (rule rq_execute_run)
    show "?r (hp_cs ?s) 0 (take ?len ?buf) (?t, ?q, 0) = Inr (30, ?len, ?u, ?d, 0)" unfolding t fresh_parser(1) by (rule run)
  qed (use assms(6) fresh_parser in simp_all)
  then show ?thesis by (simp add: HttpRequestParser_new_def)
qed

text \<open>A length between offsets in the wrong order.\<close>

lemma unat_LEN_negative:
  assumes "p < m" "m < 2 ^ 32"
  shows "2 ^ 62 < unat (LEN (of_nat m) p)"
proof -
  have a: "int p < int m" "int m < 4294967296" "0 \<le> int p" using assms by simp_all
  have "(of_nat p - of_nat m :: u64) = word_of_int (int p - int m)" by simp
  then have "uint (LEN (of_nat m) p) = (int p - int m) mod 2 ^ LENGTH(64)"
    unfolding LEN_def by (simp only: uint_word_of_int)
  then have "uint (LEN (of_nat m) p) = (int p - int m) mod 2 ^ 64" by simp
  also have "\<dots> = (int p - int m + 2 ^ 64) mod 2 ^ 64" by (rule mod_add_self2 [symmetric])
  also have "\<dots> = int p - int m + 2 ^ 64" by (rule mod_pos_pos_trivial) (use a in simp_all)
  finally have "uint (LEN (of_nat m) p) = int p - int m + 2 ^ 64" .
  then have "(2::int) ^ 62 < uint (LEN (of_nat m) p)" using a by simp
  then show ?thesis unfolding unat_eq_nat_uint zless_nat_eq_int_zless by simp
qed

text \<open>
  A request split inside its query can end in an exception: the start of the query stays
  an offset into the first piece, and where the second piece ends the query before that
  offset, its length is negative, close to \<open>2^64\<close>, and no string has that length.
\<close>

theorem split_query_throws:
  assumes "w \<noteq> []" "path_ok (CHR ''/'' # w)" "v \<noteq> []" "uri_text query_char v" "uri_text query_char v2"
    and "length (''GET /'' @ w @ ''?'' @ v @ junk) < 2 ^ 31" "length (v2 @ '' '' @ tail) < 2 ^ 31"
    and "length v2 < length (''GET /'' @ w) + 1"
  shows "\<exists>n self buffer.
    rq_execute (HttpRequestParser_new memory) (''GET /'' @ w @ ''?'' @ v @ junk) (length (''GET /'' @ w @ ''?'' @ v)) = Inr (n, self, buffer) \<and>
    rq_isFinished self = 0 \<and> \<not> rq_hasError self \<and>
    rq_execute self (v2 @ '' '' @ tail) (length (v2 @ '' '' @ tail)) = Inl (Logic_error ''basic_string::_M_create'')"
proof -
  let ?buf = "v2 @ '' '' @ tail" and ?len = "length (v2 @ '' '' @ tail)" and ?p = "length (''GET /'' @ w) + 1"
  obtain s d buffer where 1: "rq_execute (HttpRequestParser_new memory) (''GET /'' @ w @ ''?'' @ v @ junk) (length (''GET /'' @ w @ ''?'' @ v)) =
      Inr (of_nat (length (''GET /'' @ w @ ''?'' @ v)), \<lparr>rq_parser = s, rq_data = d, rq_error = 0\<rparr>, buffer)"
    and s: "hp_cs s = 30" "hp_query_start s = of_nat ?p"
    using first_piece_query [OF assms(1-4), of junk memory] assms(6) by auto
  let ?t = "s\<lparr>hp_nread := 0, hp_mark := 0, hp_field_len := 0, hp_field_start := 0\<rparr>"
  let ?r = "rq_run (hp_uri_relaxed s) ?buf ?len"
  have big: "2 ^ 62 < unat (LEN (of_nat ?p) (length v2))"
    by (rule unat_LEN_negative) (use assms(6,8) in simp_all)
  then have "on_request_query_string (PTR_TO ?buf (of_nat ?p)) (LEN (of_nat ?p) (length v2)) d0 =
      Inl (Logic_error ''basic_string::_M_create'')" for d0
    by (cases d0) (simp add: on_request_query_string_def cxx_string_def del: of_nat_add of_nat_Suc length_append)
  then have q: "run_actions (http_act request_callbacks ?buf ?len) [Query_string, Request_uri] (length v2) (?t, d, 0) =
      Inl (Logic_error ''basic_string::_M_create'')"
    by (simp add: s(2) del: of_nat_add of_nat_Suc length_append)
  have "?r 30 0 ?buf (?t, d, 0) = ?r 30 (length v2) (CHR '' '' # tail) (?t, d, 0)"
    by (subst run_query_text [OF assms(5)]) simp
  also have "\<dots> = Inl (Logic_error ''basic_string::_M_create'')"
    using q by (simp add: run.simps http_nth http_st30_def http_ctrs del: run_actions.simps)
  finally have r: "?r 30 0 ?buf (?t, d, 0) = Inl (Logic_error ''basic_string::_M_create'')" .
  have "int ?len = sint (of_nat ?len :: 32 word) - sint (0 :: 32 word)"
    using assms(7) by (simp add: signed_of_nat signed_take_bit_int_eq_self del: length_append)
  then have "rq_execute \<lparr>rq_parser = s, rq_data = d, rq_error = 0\<rparr> ?buf ?len = Inl (Logic_error ''basic_string::_M_create'')"
    using r s by (simp add: rq_execute_def http_parser_execute_def)
  then show ?thesis using 1 s
    by (simp add: rq_isFinished_def rq_hasError_def http_parser_finish_def http_parser_has_error_def http_parser_is_finished_def)
qed

theorem split_query_throws_witness:
  "\<exists>n self buffer.
    rq_execute (HttpRequestParser_new zero_memory) (''GET /'' @ ''a'' @ ''?'' @ ''q'' @ []) (length (''GET /'' @ ''a'' @ ''?'' @ ''q'')) = Inr (n, self, buffer) \<and>
    rq_isFinished self = 0 \<and> \<not> rq_hasError self \<and>
    rq_execute self (''=1'' @ '' '' @ ''HTTP/1.1'') (length (''=1'' @ '' '' @ ''HTTP/1.1'')) = Inl (Logic_error ''basic_string::_M_create'')"
proof (rule split_query_throws)
  show "path_ok (CHR ''/'' # ''a'')" "uri_text query_char ''q''" "uri_text query_char ''=1''" by code_simp+
qed simp_all

end
