(* ===== verification/Httpclient_States.thy ===== *)
theory Httpclient_States
  imports Ragel
begin

text \<open>
  The response parser's machine (\<open>sylar/http/httpclient_parser.rl.cc\<close>), block by block: the
  actions named in the grammar, the \<open>ctr\<close> blocks with the actions they make, and the 124
  states.
\<close>

datatype client_action =
    C_mark | C_start_field | C_write_field | C_start_value | C_write_content_len |
    C_write_connection_close | C_write_value | C_reason_phrase | C_status_code |
    C_http_version | C_chunk_size | C_trans_chunked | C_done

section \<open>Blocks of actions\<close>

definition client_ctr0 :: "client_action target" where
  "client_ctr0 = ([C_mark], 2)"

definition client_ctr2 :: "client_action target" where
  "client_ctr2 = ([C_mark], 8)"

definition client_ctr3 :: "client_action target" where
  "client_ctr3 = ([C_chunk_size, C_done], 120)"

definition client_ctr4 :: "client_action target" where
  "client_ctr4 = ([C_chunk_size], 3)"

definition client_ctr6 :: "client_action target" where
  "client_ctr6 = ([C_chunk_size], 4)"

definition client_ctr7 :: "client_action target" where
  "client_ctr7 = ([C_done], 120)"

definition client_ctr8 :: "client_action target" where
  "client_ctr8 = ([C_start_field], 5)"

definition client_ctr9 :: "client_action target" where
  "client_ctr9 = ([C_write_field, C_start_value, C_write_value, C_done], 120)"

definition client_ctr10 :: "client_action target" where
  "client_ctr10 = ([C_write_field, C_start_value, C_write_value], 3)"

definition client_ctr12 :: "client_action target" where
  "client_ctr12 = ([C_write_field, C_start_value, C_write_value], 4)"

definition client_ctr13 :: "client_action target" where
  "client_ctr13 = ([C_write_field, C_start_value], 6)"

definition client_ctr14 :: "client_action target" where
  "client_ctr14 = ([C_start_value], 7)"

definition client_ctr15 :: "client_action target" where
  "client_ctr15 = ([C_write_value, C_done], 120)"

definition client_ctr16 :: "client_action target" where
  "client_ctr16 = ([C_write_value], 3)"

definition client_ctr18 :: "client_action target" where
  "client_ctr18 = ([C_write_value], 4)"

definition client_ctr26 :: "client_action target" where
  "client_ctr26 = ([C_http_version], 16)"

definition client_ctr27 :: "client_action target" where
  "client_ctr27 = ([C_mark], 17)"

definition client_ctr28 :: "client_action target" where
  "client_ctr28 = ([C_status_code], 18)"

definition client_ctr30 :: "client_action target" where
  "client_ctr30 = ([C_mark], 19)"

definition client_ctr32 :: "client_action target" where
  "client_ctr32 = ([C_reason_phrase], 20)"

definition client_ctr33 :: "client_action target" where
  "client_ctr33 = ([C_reason_phrase], 24)"

definition client_ctr35 :: "client_action target" where
  "client_ctr35 = ([C_start_field], 21)"

definition client_ctr36 :: "client_action target" where
  "client_ctr36 = ([C_start_field], 25)"

definition client_ctr37 :: "client_action target" where
  "client_ctr37 = ([C_start_field], 44)"

definition client_ctr39 :: "client_action target" where
  "client_ctr39 = ([C_write_field], 22)"

definition client_ctr40 :: "client_action target" where
  "client_ctr40 = ([C_start_value], 23)"

definition client_ctr41 :: "client_action target" where
  "client_ctr41 = ([C_start_value], 22)"

definition client_ctr42 :: "client_action target" where
  "client_ctr42 = ([C_start_value, C_write_value], 20)"

definition client_ctr43 :: "client_action target" where
  "client_ctr43 = ([C_start_value, C_write_value], 24)"

definition client_ctr45 :: "client_action target" where
  "client_ctr45 = ([C_write_value], 20)"

definition client_ctr46 :: "client_action target" where
  "client_ctr46 = ([C_write_value], 24)"

definition client_ctr58 :: "client_action target" where
  "client_ctr58 = ([C_write_field], 35)"

definition client_ctr59 :: "client_action target" where
  "client_ctr59 = ([C_start_value], 35)"

definition client_ctr60 :: "client_action target" where
  "client_ctr60 = ([C_start_value, C_write_value], 36)"

definition client_ctr61 :: "client_action target" where
  "client_ctr61 = ([C_start_value, C_write_value], 95)"

definition client_ctr62 :: "client_action target" where
  "client_ctr62 = ([C_start_value], 96)"

definition client_ctr64 :: "client_action target" where
  "client_ctr64 = ([C_done], 122)"

definition client_ctr66 :: "client_action target" where
  "client_ctr66 = ([C_start_field], 90)"

definition client_ctr74 :: "client_action target" where
  "client_ctr74 = ([C_write_connection_close, C_done], 120)"

definition client_ctr75 :: "client_action target" where
  "client_ctr75 = ([C_write_connection_close], 3)"

definition client_ctr76 :: "client_action target" where
  "client_ctr76 = ([C_write_connection_close, C_start_field], 21)"

definition client_ctr77 :: "client_action target" where
  "client_ctr77 = ([C_write_connection_close, C_start_field], 25)"

definition client_ctr78 :: "client_action target" where
  "client_ctr78 = ([C_write_connection_close, C_start_field], 44)"

definition client_ctr95 :: "client_action target" where
  "client_ctr95 = ([C_write_field], 61)"

definition client_ctr96 :: "client_action target" where
  "client_ctr96 = ([C_start_value], 61)"

definition client_ctr97 :: "client_action target" where
  "client_ctr97 = ([C_start_value, C_write_value], 62)"

definition client_ctr98 :: "client_action target" where
  "client_ctr98 = ([C_start_value, C_write_value], 80)"

definition client_ctr99 :: "client_action target" where
  "client_ctr99 = ([C_start_value], 81)"

definition client_ctr101 :: "client_action target" where
  "client_ctr101 = ([C_done], 121)"

definition client_ctr103 :: "client_action target" where
  "client_ctr103 = ([C_start_value, C_start_field], 73)"

definition client_ctr104 :: "client_action target" where
  "client_ctr104 = ([C_start_value], 64)"

definition client_ctr111 :: "client_action target" where
  "client_ctr111 = ([C_write_value, C_trans_chunked], 20)"

definition client_ctr112 :: "client_action target" where
  "client_ctr112 = ([C_write_value], 71)"

definition client_ctr113 :: "client_action target" where
  "client_ctr113 = ([C_trans_chunked], 20)"

definition client_ctr136 :: "client_action target" where
  "client_ctr136 = ([C_write_value], 43)"

definition client_ctr137 :: "client_action target" where
  "client_ctr137 = ([C_write_value], 88)"

definition client_ctr148 :: "client_action target" where
  "client_ctr148 = ([C_write_field], 112)"

definition client_ctr149 :: "client_action target" where
  "client_ctr149 = ([C_start_value], 112)"

definition client_ctr150 :: "client_action target" where
  "client_ctr150 = ([C_start_value, C_write_value], 113)"

definition client_ctr151 :: "client_action target" where
  "client_ctr151 = ([C_start_value, C_write_value], 118)"

definition client_ctr152 :: "client_action target" where
  "client_ctr152 = ([C_start_value], 119)"

definition client_ctr154 :: "client_action target" where
  "client_ctr154 = ([C_done], 123)"

definition client_ctr156 :: "client_action target" where
  "client_ctr156 = ([C_start_value, C_start_field], 117)"

definition client_ctr157 :: "client_action target" where
  "client_ctr157 = ([C_start_value], 115)"

definition client_ctr158 :: "client_action target" where
  "client_ctr158 = ([C_write_content_len, C_write_value], 20)"

definition client_ctr159 :: "client_action target" where
  "client_ctr159 = ([C_write_content_len, C_write_value], 24)"

lemmas client_ctrs =
  client_ctr0_def client_ctr2_def client_ctr3_def client_ctr4_def client_ctr6_def
  client_ctr7_def client_ctr8_def client_ctr9_def client_ctr10_def client_ctr12_def
  client_ctr13_def client_ctr14_def client_ctr15_def client_ctr16_def client_ctr18_def
  client_ctr26_def client_ctr27_def client_ctr28_def client_ctr30_def client_ctr32_def
  client_ctr33_def client_ctr35_def client_ctr36_def client_ctr37_def client_ctr39_def
  client_ctr40_def client_ctr41_def client_ctr42_def client_ctr43_def client_ctr45_def
  client_ctr46_def client_ctr58_def client_ctr59_def client_ctr60_def client_ctr61_def
  client_ctr62_def client_ctr64_def client_ctr66_def client_ctr74_def client_ctr75_def
  client_ctr76_def client_ctr77_def client_ctr78_def client_ctr95_def client_ctr96_def
  client_ctr97_def client_ctr98_def client_ctr99_def client_ctr101_def client_ctr103_def
  client_ctr104_def client_ctr111_def client_ctr112_def client_ctr113_def client_ctr136_def
  client_ctr137_def client_ctr148_def client_ctr149_def client_ctr150_def client_ctr151_def
  client_ctr152_def client_ctr154_def client_ctr156_def client_ctr157_def client_ctr158_def
  client_ctr159_def

section \<open>States\<close>

definition client_st0 :: "int \<Rightarrow> client_action target" where
  "client_st0 c = st 0"

definition client_st1 :: "int \<Rightarrow> client_action target" where
  "client_st1 c =
     (if c = 72 then client_ctr2 else if c < 65 then (if 48 \<le> c \<and> c \<le> 57 then
     client_ctr0 else st 0) else if c > 70 then (if 97 \<le> c \<and> c \<le> 102 then
     client_ctr0 else st 0) else client_ctr0)"

definition client_st2 :: "int \<Rightarrow> client_action target" where
  "client_st2 c =
     (if c = 10 then client_ctr3 else if c = 13 then client_ctr4 else if c = 59 then client_ctr6
     else if c < 65 then (if 48 \<le> c \<and> c \<le> 57 then st 2 else st 0) else if c > 70
     then (if 97 \<le> c \<and> c \<le> 102 then st 2 else st 0) else st 2)"

definition client_st3 :: "int \<Rightarrow> client_action target" where
  "client_st3 c = (if c = 10 then client_ctr7 else st 0)"

definition client_st4 :: "int \<Rightarrow> client_action target" where
  "client_st4 c =
     (if c = 33 then client_ctr8 else if c = 124 then client_ctr8 else if c = 126 then client_ctr8
     else if c < 45 then (if c > 39 then (if 42 \<le> c \<and> c \<le> 43 then client_ctr8 else
     st 0) else if c \<ge> 35 then client_ctr8 else st 0) else if c > 46 then (if c < 65 then (if
     48 \<le> c \<and> c \<le> 57 then client_ctr8 else st 0) else if c > 90 then (if 94 \<le> c
     \<and> c \<le> 122 then client_ctr8 else st 0) else client_ctr8) else client_ctr8)"

definition client_st5 :: "int \<Rightarrow> client_action target" where
  "client_st5 c =
     (if c = 10 then client_ctr9 else if c = 13 then client_ctr10 else if c = 33 then st 5 else if
     c = 59 then client_ctr12 else if c = 61 then client_ctr13 else if c = 124 then st 5 else if
     c = 126 then st 5 else if c < 45 then (if c > 39 then (if 42 \<le> c \<and> c \<le> 43 then
     st 5 else st 0) else if c \<ge> 35 then st 5 else st 0) else if c > 46 then (if c < 65 then
     (if 48 \<le> c \<and> c \<le> 57 then st 5 else st 0) else if c > 90 then (if 94 \<le> c
     \<and> c \<le> 122 then st 5 else st 0) else st 5) else st 5)"

definition client_st6 :: "int \<Rightarrow> client_action target" where
  "client_st6 c =
     (if c = 33 then client_ctr14 else if c = 124 then client_ctr14 else if c = 126 then
     client_ctr14 else if c < 45 then (if c > 39 then (if 42 \<le> c \<and> c \<le> 43 then
     client_ctr14 else st 0) else if c \<ge> 35 then client_ctr14 else st 0) else if c > 46 then
     (if c < 65 then (if 48 \<le> c \<and> c \<le> 57 then client_ctr14 else st 0) else if c > 90
     then (if 94 \<le> c \<and> c \<le> 122 then client_ctr14 else st 0) else client_ctr14) else
     client_ctr14)"

definition client_st7 :: "int \<Rightarrow> client_action target" where
  "client_st7 c =
     (if c = 10 then client_ctr15 else if c = 13 then client_ctr16 else if c = 33 then st 7 else
     if c = 59 then client_ctr18 else if c = 124 then st 7 else if c = 126 then st 7 else if c <
     45 then (if c > 39 then (if 42 \<le> c \<and> c \<le> 43 then st 7 else st 0) else if c
     \<ge> 35 then st 7 else st 0) else if c > 46 then (if c < 65 then (if 48 \<le> c \<and> c
     \<le> 57 then st 7 else st 0) else if c > 90 then (if 94 \<le> c \<and> c \<le> 122 then st
     7 else st 0) else st 7) else st 7)"

definition client_st8 :: "int \<Rightarrow> client_action target" where
  "client_st8 c = (if c = 84 then st 9 else st 0)"

definition client_st9 :: "int \<Rightarrow> client_action target" where
  "client_st9 c = (if c = 84 then st 10 else st 0)"

definition client_st10 :: "int \<Rightarrow> client_action target" where
  "client_st10 c = (if c = 80 then st 11 else st 0)"

definition client_st11 :: "int \<Rightarrow> client_action target" where
  "client_st11 c = (if c = 47 then st 12 else st 0)"

definition client_st12 :: "int \<Rightarrow> client_action target" where
  "client_st12 c = (if 48 \<le> c \<and> c \<le> 57 then st 13 else st 0)"

definition client_st13 :: "int \<Rightarrow> client_action target" where
  "client_st13 c =
     (if c = 46 then st 14 else if 48 \<le> c \<and> c \<le> 57 then st 13 else st 0)"

definition client_st14 :: "int \<Rightarrow> client_action target" where
  "client_st14 c = (if 48 \<le> c \<and> c \<le> 57 then st 15 else st 0)"

definition client_st15 :: "int \<Rightarrow> client_action target" where
  "client_st15 c =
     (if c = 32 then client_ctr26 else if 48 \<le> c \<and> c \<le> 57 then st 15 else st 0)"

definition client_st16 :: "int \<Rightarrow> client_action target" where
  "client_st16 c = (if 48 \<le> c \<and> c \<le> 57 then client_ctr27 else st 0)"

definition client_st17 :: "int \<Rightarrow> client_action target" where
  "client_st17 c =
     (if c = 32 then client_ctr28 else if 48 \<le> c \<and> c \<le> 57 then st 17 else st 0)"

definition client_st18 :: "int \<Rightarrow> client_action target" where
  "client_st18 c = (if c = 10 then st 0 else client_ctr30)"

definition client_st19 :: "int \<Rightarrow> client_action target" where
  "client_st19 c = (if c = 10 then client_ctr32 else if c = 13 then client_ctr33 else st 19)"

definition client_st20 :: "int \<Rightarrow> client_action target" where
  "client_st20 c =
     (if c = 10 then client_ctr7 else if c = 13 then st 3 else if c = 33 then client_ctr35 else if
     c = 67 then client_ctr36 else if c = 84 then client_ctr37 else if c = 99 then client_ctr36
     else if c = 116 then client_ctr37 else if c = 124 then client_ctr35 else if c = 126 then
     client_ctr35 else if c < 45 then (if c > 39 then (if 42 \<le> c \<and> c \<le> 43 then
     client_ctr35 else st 0) else if c \<ge> 35 then client_ctr35 else st 0) else if c > 46 then
     (if c < 65 then (if 48 \<le> c \<and> c \<le> 57 then client_ctr35 else st 0) else if c > 90
     then (if 94 \<le> c \<and> c \<le> 122 then client_ctr35 else st 0) else client_ctr35) else
     client_ctr35)"

definition client_st21 :: "int \<Rightarrow> client_action target" where
  "client_st21 c =
     (if c = 33 then st 21 else if c = 58 then client_ctr39 else if c = 124 then st 21 else if c =
     126 then st 21 else if c < 45 then (if c > 39 then (if 42 \<le> c \<and> c \<le> 43 then st
     21 else st 0) else if c \<ge> 35 then st 21 else st 0) else if c > 46 then (if c < 65 then
     (if 48 \<le> c \<and> c \<le> 57 then st 21 else st 0) else if c > 90 then (if 94 \<le> c
     \<and> c \<le> 122 then st 21 else st 0) else st 21) else st 21)"

definition client_st22 :: "int \<Rightarrow> client_action target" where
  "client_st22 c =
     (if c = 10 then client_ctr42 else if c = 13 then client_ctr43 else if c = 32 then
     client_ctr41 else if 9 \<le> c \<and> c \<le> 12 then client_ctr41 else client_ctr40)"

definition client_st23 :: "int \<Rightarrow> client_action target" where
  "client_st23 c = (if c = 10 then client_ctr45 else if c = 13 then client_ctr46 else st 23)"

definition client_st24 :: "int \<Rightarrow> client_action target" where
  "client_st24 c = (if c = 10 then st 20 else st 0)"

definition client_st25 :: "int \<Rightarrow> client_action target" where
  "client_st25 c =
     (if c = 33 then st 21 else if c = 58 then client_ctr39 else if c = 79 then st 26 else if c =
     111 then st 26 else if c = 124 then st 21 else if c = 126 then st 21 else if c < 45 then (if
     c > 39 then (if 42 \<le> c \<and> c \<le> 43 then st 21 else st 0) else if c \<ge> 35 then
     st 21 else st 0) else if c > 46 then (if c < 65 then (if 48 \<le> c \<and> c \<le> 57 then
     st 21 else st 0) else if c > 90 then (if 94 \<le> c \<and> c \<le> 122 then st 21 else st 0)
     else st 21) else st 21)"

definition client_st26 :: "int \<Rightarrow> client_action target" where
  "client_st26 c =
     (if c = 33 then st 21 else if c = 58 then client_ctr39 else if c = 78 then st 27 else if c =
     110 then st 27 else if c = 124 then st 21 else if c = 126 then st 21 else if c < 45 then (if
     c > 39 then (if 42 \<le> c \<and> c \<le> 43 then st 21 else st 0) else if c \<ge> 35 then
     st 21 else st 0) else if c > 46 then (if c < 65 then (if 48 \<le> c \<and> c \<le> 57 then
     st 21 else st 0) else if c > 90 then (if 94 \<le> c \<and> c \<le> 122 then st 21 else st 0)
     else st 21) else st 21)"

definition client_st27 :: "int \<Rightarrow> client_action target" where
  "client_st27 c =
     (if c = 33 then st 21 else if c = 58 then client_ctr39 else if c = 78 then st 28 else if c =
     84 then st 101 else if c = 110 then st 28 else if c = 116 then st 101 else if c = 124 then
     st 21 else if c = 126 then st 21 else if c < 45 then (if c > 39 then (if 42 \<le> c \<and> c
     \<le> 43 then st 21 else st 0) else if c \<ge> 35 then st 21 else st 0) else if c > 46 then
     (if c < 65 then (if 48 \<le> c \<and> c \<le> 57 then st 21 else st 0) else if c > 90 then
     (if 94 \<le> c \<and> c \<le> 122 then st 21 else st 0) else st 21) else st 21)"

definition client_st28 :: "int \<Rightarrow> client_action target" where
  "client_st28 c =
     (if c = 33 then st 21 else if c = 58 then client_ctr39 else if c = 69 then st 29 else if c =
     101 then st 29 else if c = 124 then st 21 else if c = 126 then st 21 else if c < 45 then (if
     c > 39 then (if 42 \<le> c \<and> c \<le> 43 then st 21 else st 0) else if c \<ge> 35 then
     st 21 else st 0) else if c > 46 then (if c < 65 then (if 48 \<le> c \<and> c \<le> 57 then
     st 21 else st 0) else if c > 90 then (if 94 \<le> c \<and> c \<le> 122 then st 21 else st 0)
     else st 21) else st 21)"

definition client_st29 :: "int \<Rightarrow> client_action target" where
  "client_st29 c =
     (if c = 33 then st 21 else if c = 58 then client_ctr39 else if c = 67 then st 30 else if c =
     99 then st 30 else if c = 124 then st 21 else if c = 126 then st 21 else if c < 45 then (if
     c > 39 then (if 42 \<le> c \<and> c \<le> 43 then st 21 else st 0) else if c \<ge> 35 then
     st 21 else st 0) else if c > 46 then (if c < 65 then (if 48 \<le> c \<and> c \<le> 57 then
     st 21 else st 0) else if c > 90 then (if 94 \<le> c \<and> c \<le> 122 then st 21 else st 0)
     else st 21) else st 21)"

definition client_st30 :: "int \<Rightarrow> client_action target" where
  "client_st30 c =
     (if c = 33 then st 21 else if c = 58 then client_ctr39 else if c = 84 then st 31 else if c =
     116 then st 31 else if c = 124 then st 21 else if c = 126 then st 21 else if c < 45 then (if
     c > 39 then (if 42 \<le> c \<and> c \<le> 43 then st 21 else st 0) else if c \<ge> 35 then
     st 21 else st 0) else if c > 46 then (if c < 65 then (if 48 \<le> c \<and> c \<le> 57 then
     st 21 else st 0) else if c > 90 then (if 94 \<le> c \<and> c \<le> 122 then st 21 else st 0)
     else st 21) else st 21)"

definition client_st31 :: "int \<Rightarrow> client_action target" where
  "client_st31 c =
     (if c = 33 then st 21 else if c = 58 then client_ctr39 else if c = 73 then st 32 else if c =
     105 then st 32 else if c = 124 then st 21 else if c = 126 then st 21 else if c < 45 then (if
     c > 39 then (if 42 \<le> c \<and> c \<le> 43 then st 21 else st 0) else if c \<ge> 35 then
     st 21 else st 0) else if c > 46 then (if c < 65 then (if 48 \<le> c \<and> c \<le> 57 then
     st 21 else st 0) else if c > 90 then (if 94 \<le> c \<and> c \<le> 122 then st 21 else st 0)
     else st 21) else st 21)"

definition client_st32 :: "int \<Rightarrow> client_action target" where
  "client_st32 c =
     (if c = 33 then st 21 else if c = 58 then client_ctr39 else if c = 79 then st 33 else if c =
     111 then st 33 else if c = 124 then st 21 else if c = 126 then st 21 else if c < 45 then (if
     c > 39 then (if 42 \<le> c \<and> c \<le> 43 then st 21 else st 0) else if c \<ge> 35 then
     st 21 else st 0) else if c > 46 then (if c < 65 then (if 48 \<le> c \<and> c \<le> 57 then
     st 21 else st 0) else if c > 90 then (if 94 \<le> c \<and> c \<le> 122 then st 21 else st 0)
     else st 21) else st 21)"

definition client_st33 :: "int \<Rightarrow> client_action target" where
  "client_st33 c =
     (if c = 33 then st 21 else if c = 58 then client_ctr39 else if c = 78 then st 34 else if c =
     110 then st 34 else if c = 124 then st 21 else if c = 126 then st 21 else if c < 45 then (if
     c > 39 then (if 42 \<le> c \<and> c \<le> 43 then st 21 else st 0) else if c \<ge> 35 then
     st 21 else st 0) else if c > 46 then (if c < 65 then (if 48 \<le> c \<and> c \<le> 57 then
     st 21 else st 0) else if c > 90 then (if 94 \<le> c \<and> c \<le> 122 then st 21 else st 0)
     else st 21) else st 21)"

definition client_st34 :: "int \<Rightarrow> client_action target" where
  "client_st34 c =
     (if c = 33 then st 21 else if c = 58 then client_ctr58 else if c = 124 then st 21 else if c =
     126 then st 21 else if c < 45 then (if c > 39 then (if 42 \<le> c \<and> c \<le> 43 then st
     21 else st 0) else if c \<ge> 35 then st 21 else st 0) else if c > 46 then (if c < 65 then
     (if 48 \<le> c \<and> c \<le> 57 then st 21 else st 0) else if c > 90 then (if 94 \<le> c
     \<and> c \<le> 122 then st 21 else st 0) else st 21) else st 21)"

definition client_st35 :: "int \<Rightarrow> client_action target" where
  "client_st35 c =
     (if c = 10 then client_ctr60 else if c = 13 then client_ctr61 else if c = 32 then
     client_ctr59 else if c = 67 then client_ctr62 else if c = 99 then client_ctr62 else if 9
     \<le> c \<and> c \<le> 12 then client_ctr59 else client_ctr40)"

definition client_st36 :: "int \<Rightarrow> client_action target" where
  "client_st36 c =
     (if c = 10 then client_ctr64 else if c = 13 then st 89 else if c = 32 then st 37 else if c =
     33 then client_ctr35 else if c = 67 then client_ctr66 else if c = 84 then client_ctr37 else
     if c = 99 then client_ctr66 else if c = 116 then client_ctr37 else if c = 124 then
     client_ctr35 else if c = 126 then client_ctr35 else if c < 45 then (if c < 35 then (if 9
     \<le> c \<and> c \<le> 12 then st 37 else st 0) else if c > 39 then (if 42 \<le> c \<and> c
     \<le> 43 then client_ctr35 else st 0) else client_ctr35) else if c > 46 then (if c < 65 then
     (if 48 \<le> c \<and> c \<le> 57 then client_ctr35 else st 0) else if c > 90 then (if 94
     \<le> c \<and> c \<le> 122 then client_ctr35 else st 0) else client_ctr35) else client_ctr35)"

definition client_st37 :: "int \<Rightarrow> client_action target" where
  "client_st37 c =
     (if c = 32 then st 37 else if c = 67 then st 38 else if c = 99 then st 38 else if 9 \<le> c
     \<and> c \<le> 13 then st 37 else st 0)"

definition client_st38 :: "int \<Rightarrow> client_action target" where
  "client_st38 c = (if c = 76 then st 39 else if c = 108 then st 39 else st 0)"

definition client_st39 :: "int \<Rightarrow> client_action target" where
  "client_st39 c = (if c = 79 then st 40 else if c = 111 then st 40 else st 0)"

definition client_st40 :: "int \<Rightarrow> client_action target" where
  "client_st40 c = (if c = 83 then st 41 else if c = 115 then st 41 else st 0)"

definition client_st41 :: "int \<Rightarrow> client_action target" where
  "client_st41 c = (if c = 69 then st 42 else if c = 101 then st 42 else st 0)"

definition client_st42 :: "int \<Rightarrow> client_action target" where
  "client_st42 c = (if c = 10 then st 43 else if c = 13 then st 88 else st 0)"

definition client_st43 :: "int \<Rightarrow> client_action target" where
  "client_st43 c =
     (if c = 10 then client_ctr74 else if c = 13 then client_ctr75 else if c = 33 then
     client_ctr76 else if c = 67 then client_ctr77 else if c = 84 then client_ctr78 else if c =
     99 then client_ctr77 else if c = 116 then client_ctr78 else if c = 124 then client_ctr76
     else if c = 126 then client_ctr76 else if c < 45 then (if c > 39 then (if 42 \<le> c \<and>
     c \<le> 43 then client_ctr76 else st 0) else if c \<ge> 35 then client_ctr76 else st 0) else
     if c > 46 then (if c < 65 then (if 48 \<le> c \<and> c \<le> 57 then client_ctr76 else st 0)
     else if c > 90 then (if 94 \<le> c \<and> c \<le> 122 then client_ctr76 else st 0) else
     client_ctr76) else client_ctr76)"

definition client_st44 :: "int \<Rightarrow> client_action target" where
  "client_st44 c =
     (if c = 33 then st 21 else if c = 58 then client_ctr39 else if c = 82 then st 45 else if c =
     114 then st 45 else if c = 124 then st 21 else if c = 126 then st 21 else if c < 45 then (if
     c > 39 then (if 42 \<le> c \<and> c \<le> 43 then st 21 else st 0) else if c \<ge> 35 then
     st 21 else st 0) else if c > 46 then (if c < 65 then (if 48 \<le> c \<and> c \<le> 57 then
     st 21 else st 0) else if c > 90 then (if 94 \<le> c \<and> c \<le> 122 then st 21 else st 0)
     else st 21) else st 21)"

definition client_st45 :: "int \<Rightarrow> client_action target" where
  "client_st45 c =
     (if c = 33 then st 21 else if c = 58 then client_ctr39 else if c = 65 then st 46 else if c =
     97 then st 46 else if c = 124 then st 21 else if c = 126 then st 21 else if c < 45 then (if
     c > 39 then (if 42 \<le> c \<and> c \<le> 43 then st 21 else st 0) else if c \<ge> 35 then
     st 21 else st 0) else if c > 46 then (if c < 66 then (if 48 \<le> c \<and> c \<le> 57 then
     st 21 else st 0) else if c > 90 then (if 94 \<le> c \<and> c \<le> 122 then st 21 else st 0)
     else st 21) else st 21)"

definition client_st46 :: "int \<Rightarrow> client_action target" where
  "client_st46 c =
     (if c = 33 then st 21 else if c = 58 then client_ctr39 else if c = 78 then st 47 else if c =
     110 then st 47 else if c = 124 then st 21 else if c = 126 then st 21 else if c < 45 then (if
     c > 39 then (if 42 \<le> c \<and> c \<le> 43 then st 21 else st 0) else if c \<ge> 35 then
     st 21 else st 0) else if c > 46 then (if c < 65 then (if 48 \<le> c \<and> c \<le> 57 then
     st 21 else st 0) else if c > 90 then (if 94 \<le> c \<and> c \<le> 122 then st 21 else st 0)
     else st 21) else st 21)"

definition client_st47 :: "int \<Rightarrow> client_action target" where
  "client_st47 c =
     (if c = 33 then st 21 else if c = 58 then client_ctr39 else if c = 83 then st 48 else if c =
     115 then st 48 else if c = 124 then st 21 else if c = 126 then st 21 else if c < 45 then (if
     c > 39 then (if 42 \<le> c \<and> c \<le> 43 then st 21 else st 0) else if c \<ge> 35 then
     st 21 else st 0) else if c > 46 then (if c < 65 then (if 48 \<le> c \<and> c \<le> 57 then
     st 21 else st 0) else if c > 90 then (if 94 \<le> c \<and> c \<le> 122 then st 21 else st 0)
     else st 21) else st 21)"

definition client_st48 :: "int \<Rightarrow> client_action target" where
  "client_st48 c =
     (if c = 33 then st 21 else if c = 58 then client_ctr39 else if c = 70 then st 49 else if c =
     102 then st 49 else if c = 124 then st 21 else if c = 126 then st 21 else if c < 45 then (if
     c > 39 then (if 42 \<le> c \<and> c \<le> 43 then st 21 else st 0) else if c \<ge> 35 then
     st 21 else st 0) else if c > 46 then (if c < 65 then (if 48 \<le> c \<and> c \<le> 57 then
     st 21 else st 0) else if c > 90 then (if 94 \<le> c \<and> c \<le> 122 then st 21 else st 0)
     else st 21) else st 21)"

definition client_st49 :: "int \<Rightarrow> client_action target" where
  "client_st49 c =
     (if c = 33 then st 21 else if c = 58 then client_ctr39 else if c = 69 then st 50 else if c =
     101 then st 50 else if c = 124 then st 21 else if c = 126 then st 21 else if c < 45 then (if
     c > 39 then (if 42 \<le> c \<and> c \<le> 43 then st 21 else st 0) else if c \<ge> 35 then
     st 21 else st 0) else if c > 46 then (if c < 65 then (if 48 \<le> c \<and> c \<le> 57 then
     st 21 else st 0) else if c > 90 then (if 94 \<le> c \<and> c \<le> 122 then st 21 else st 0)
     else st 21) else st 21)"

definition client_st50 :: "int \<Rightarrow> client_action target" where
  "client_st50 c =
     (if c = 33 then st 21 else if c = 58 then client_ctr39 else if c = 82 then st 51 else if c =
     114 then st 51 else if c = 124 then st 21 else if c = 126 then st 21 else if c < 45 then (if
     c > 39 then (if 42 \<le> c \<and> c \<le> 43 then st 21 else st 0) else if c \<ge> 35 then
     st 21 else st 0) else if c > 46 then (if c < 65 then (if 48 \<le> c \<and> c \<le> 57 then
     st 21 else st 0) else if c > 90 then (if 94 \<le> c \<and> c \<le> 122 then st 21 else st 0)
     else st 21) else st 21)"

definition client_st51 :: "int \<Rightarrow> client_action target" where
  "client_st51 c =
     (if c = 33 then st 21 else if c = 45 then st 52 else if c = 46 then st 21 else if c = 58 then
     client_ctr39 else if c = 124 then st 21 else if c = 126 then st 21 else if c < 48 then (if c
     > 39 then (if 42 \<le> c \<and> c \<le> 43 then st 21 else st 0) else if c \<ge> 35 then st
     21 else st 0) else if c > 57 then (if c > 90 then (if 94 \<le> c \<and> c \<le> 122 then st
     21 else st 0) else if c \<ge> 65 then st 21 else st 0) else st 21)"

definition client_st52 :: "int \<Rightarrow> client_action target" where
  "client_st52 c =
     (if c = 33 then st 21 else if c = 58 then client_ctr39 else if c = 69 then st 53 else if c =
     101 then st 53 else if c = 124 then st 21 else if c = 126 then st 21 else if c < 45 then (if
     c > 39 then (if 42 \<le> c \<and> c \<le> 43 then st 21 else st 0) else if c \<ge> 35 then
     st 21 else st 0) else if c > 46 then (if c < 65 then (if 48 \<le> c \<and> c \<le> 57 then
     st 21 else st 0) else if c > 90 then (if 94 \<le> c \<and> c \<le> 122 then st 21 else st 0)
     else st 21) else st 21)"

definition client_st53 :: "int \<Rightarrow> client_action target" where
  "client_st53 c =
     (if c = 33 then st 21 else if c = 58 then client_ctr39 else if c = 78 then st 54 else if c =
     110 then st 54 else if c = 124 then st 21 else if c = 126 then st 21 else if c < 45 then (if
     c > 39 then (if 42 \<le> c \<and> c \<le> 43 then st 21 else st 0) else if c \<ge> 35 then
     st 21 else st 0) else if c > 46 then (if c < 65 then (if 48 \<le> c \<and> c \<le> 57 then
     st 21 else st 0) else if c > 90 then (if 94 \<le> c \<and> c \<le> 122 then st 21 else st 0)
     else st 21) else st 21)"

definition client_st54 :: "int \<Rightarrow> client_action target" where
  "client_st54 c =
     (if c = 33 then st 21 else if c = 58 then client_ctr39 else if c = 67 then st 55 else if c =
     99 then st 55 else if c = 124 then st 21 else if c = 126 then st 21 else if c < 45 then (if
     c > 39 then (if 42 \<le> c \<and> c \<le> 43 then st 21 else st 0) else if c \<ge> 35 then
     st 21 else st 0) else if c > 46 then (if c < 65 then (if 48 \<le> c \<and> c \<le> 57 then
     st 21 else st 0) else if c > 90 then (if 94 \<le> c \<and> c \<le> 122 then st 21 else st 0)
     else st 21) else st 21)"

definition client_st55 :: "int \<Rightarrow> client_action target" where
  "client_st55 c =
     (if c = 33 then st 21 else if c = 58 then client_ctr39 else if c = 79 then st 56 else if c =
     111 then st 56 else if c = 124 then st 21 else if c = 126 then st 21 else if c < 45 then (if
     c > 39 then (if 42 \<le> c \<and> c \<le> 43 then st 21 else st 0) else if c \<ge> 35 then
     st 21 else st 0) else if c > 46 then (if c < 65 then (if 48 \<le> c \<and> c \<le> 57 then
     st 21 else st 0) else if c > 90 then (if 94 \<le> c \<and> c \<le> 122 then st 21 else st 0)
     else st 21) else st 21)"

definition client_st56 :: "int \<Rightarrow> client_action target" where
  "client_st56 c =
     (if c = 33 then st 21 else if c = 58 then client_ctr39 else if c = 68 then st 57 else if c =
     100 then st 57 else if c = 124 then st 21 else if c = 126 then st 21 else if c < 45 then (if
     c > 39 then (if 42 \<le> c \<and> c \<le> 43 then st 21 else st 0) else if c \<ge> 35 then
     st 21 else st 0) else if c > 46 then (if c < 65 then (if 48 \<le> c \<and> c \<le> 57 then
     st 21 else st 0) else if c > 90 then (if 94 \<le> c \<and> c \<le> 122 then st 21 else st 0)
     else st 21) else st 21)"

definition client_st57 :: "int \<Rightarrow> client_action target" where
  "client_st57 c =
     (if c = 33 then st 21 else if c = 58 then client_ctr39 else if c = 73 then st 58 else if c =
     105 then st 58 else if c = 124 then st 21 else if c = 126 then st 21 else if c < 45 then (if
     c > 39 then (if 42 \<le> c \<and> c \<le> 43 then st 21 else st 0) else if c \<ge> 35 then
     st 21 else st 0) else if c > 46 then (if c < 65 then (if 48 \<le> c \<and> c \<le> 57 then
     st 21 else st 0) else if c > 90 then (if 94 \<le> c \<and> c \<le> 122 then st 21 else st 0)
     else st 21) else st 21)"

definition client_st58 :: "int \<Rightarrow> client_action target" where
  "client_st58 c =
     (if c = 33 then st 21 else if c = 58 then client_ctr39 else if c = 78 then st 59 else if c =
     110 then st 59 else if c = 124 then st 21 else if c = 126 then st 21 else if c < 45 then (if
     c > 39 then (if 42 \<le> c \<and> c \<le> 43 then st 21 else st 0) else if c \<ge> 35 then
     st 21 else st 0) else if c > 46 then (if c < 65 then (if 48 \<le> c \<and> c \<le> 57 then
     st 21 else st 0) else if c > 90 then (if 94 \<le> c \<and> c \<le> 122 then st 21 else st 0)
     else st 21) else st 21)"

definition client_st59 :: "int \<Rightarrow> client_action target" where
  "client_st59 c =
     (if c = 33 then st 21 else if c = 58 then client_ctr39 else if c = 71 then st 60 else if c =
     103 then st 60 else if c = 124 then st 21 else if c = 126 then st 21 else if c < 45 then (if
     c > 39 then (if 42 \<le> c \<and> c \<le> 43 then st 21 else st 0) else if c \<ge> 35 then
     st 21 else st 0) else if c > 46 then (if c < 65 then (if 48 \<le> c \<and> c \<le> 57 then
     st 21 else st 0) else if c > 90 then (if 94 \<le> c \<and> c \<le> 122 then st 21 else st 0)
     else st 21) else st 21)"

definition client_st60 :: "int \<Rightarrow> client_action target" where
  "client_st60 c =
     (if c = 33 then st 21 else if c = 58 then client_ctr95 else if c = 124 then st 21 else if c =
     126 then st 21 else if c < 45 then (if c > 39 then (if 42 \<le> c \<and> c \<le> 43 then st
     21 else st 0) else if c \<ge> 35 then st 21 else st 0) else if c > 46 then (if c < 65 then
     (if 48 \<le> c \<and> c \<le> 57 then st 21 else st 0) else if c > 90 then (if 94 \<le> c
     \<and> c \<le> 122 then st 21 else st 0) else st 21) else st 21)"

definition client_st61 :: "int \<Rightarrow> client_action target" where
  "client_st61 c =
     (if c = 10 then client_ctr97 else if c = 13 then client_ctr98 else if c = 32 then
     client_ctr96 else if c = 67 then client_ctr99 else if c = 99 then client_ctr99 else if 9
     \<le> c \<and> c \<le> 12 then client_ctr96 else client_ctr40)"

definition client_st62 :: "int \<Rightarrow> client_action target" where
  "client_st62 c =
     (if c = 10 then client_ctr101 else if c = 13 then st 72 else if c = 32 then st 63 else if c =
     33 then client_ctr35 else if c = 67 then client_ctr103 else if c = 84 then client_ctr37 else
     if c = 99 then client_ctr103 else if c = 116 then client_ctr37 else if c = 124 then
     client_ctr35 else if c = 126 then client_ctr35 else if c < 45 then (if c < 35 then (if 9
     \<le> c \<and> c \<le> 12 then st 63 else st 0) else if c > 39 then (if 42 \<le> c \<and> c
     \<le> 43 then client_ctr35 else st 0) else client_ctr35) else if c > 46 then (if c < 65 then
     (if 48 \<le> c \<and> c \<le> 57 then client_ctr35 else st 0) else if c > 90 then (if 94
     \<le> c \<and> c \<le> 122 then client_ctr35 else st 0) else client_ctr35) else client_ctr35)"

definition client_st63 :: "int \<Rightarrow> client_action target" where
  "client_st63 c =
     (if c = 32 then st 63 else if c = 67 then client_ctr104 else if c = 99 then client_ctr104
     else if 9 \<le> c \<and> c \<le> 13 then st 63 else st 0)"

definition client_st64 :: "int \<Rightarrow> client_action target" where
  "client_st64 c = (if c = 72 then st 65 else if c = 104 then st 65 else st 0)"

definition client_st65 :: "int \<Rightarrow> client_action target" where
  "client_st65 c = (if c = 85 then st 66 else if c = 117 then st 66 else st 0)"

definition client_st66 :: "int \<Rightarrow> client_action target" where
  "client_st66 c = (if c = 78 then st 67 else if c = 110 then st 67 else st 0)"

definition client_st67 :: "int \<Rightarrow> client_action target" where
  "client_st67 c = (if c = 75 then st 68 else if c = 107 then st 68 else st 0)"

definition client_st68 :: "int \<Rightarrow> client_action target" where
  "client_st68 c = (if c = 69 then st 69 else if c = 101 then st 69 else st 0)"

definition client_st69 :: "int \<Rightarrow> client_action target" where
  "client_st69 c = (if c = 68 then st 70 else if c = 100 then st 70 else st 0)"

definition client_st70 :: "int \<Rightarrow> client_action target" where
  "client_st70 c = (if c = 10 then client_ctr111 else if c = 13 then client_ctr112 else st 0)"

definition client_st71 :: "int \<Rightarrow> client_action target" where
  "client_st71 c = (if c = 10 then client_ctr113 else st 0)"

definition client_st72 :: "int \<Rightarrow> client_action target" where
  "client_st72 c =
     (if c = 10 then client_ctr101 else if c = 32 then st 63 else if c = 67 then client_ctr104
     else if c = 99 then client_ctr104 else if 9 \<le> c \<and> c \<le> 13 then st 63 else st 0)"

definition client_st73 :: "int \<Rightarrow> client_action target" where
  "client_st73 c =
     (if c = 33 then st 21 else if c = 58 then client_ctr39 else if c = 72 then st 74 else if c =
     79 then st 26 else if c = 104 then st 74 else if c = 111 then st 26 else if c = 124 then st
     21 else if c = 126 then st 21 else if c < 45 then (if c > 39 then (if 42 \<le> c \<and> c
     \<le> 43 then st 21 else st 0) else if c \<ge> 35 then st 21 else st 0) else if c > 46 then
     (if c < 65 then (if 48 \<le> c \<and> c \<le> 57 then st 21 else st 0) else if c > 90 then
     (if 94 \<le> c \<and> c \<le> 122 then st 21 else st 0) else st 21) else st 21)"

definition client_st74 :: "int \<Rightarrow> client_action target" where
  "client_st74 c =
     (if c = 33 then st 21 else if c = 58 then client_ctr39 else if c = 85 then st 75 else if c =
     117 then st 75 else if c = 124 then st 21 else if c = 126 then st 21 else if c < 45 then (if
     c > 39 then (if 42 \<le> c \<and> c \<le> 43 then st 21 else st 0) else if c \<ge> 35 then
     st 21 else st 0) else if c > 46 then (if c < 65 then (if 48 \<le> c \<and> c \<le> 57 then
     st 21 else st 0) else if c > 90 then (if 94 \<le> c \<and> c \<le> 122 then st 21 else st 0)
     else st 21) else st 21)"

definition client_st75 :: "int \<Rightarrow> client_action target" where
  "client_st75 c =
     (if c = 33 then st 21 else if c = 58 then client_ctr39 else if c = 78 then st 76 else if c =
     110 then st 76 else if c = 124 then st 21 else if c = 126 then st 21 else if c < 45 then (if
     c > 39 then (if 42 \<le> c \<and> c \<le> 43 then st 21 else st 0) else if c \<ge> 35 then
     st 21 else st 0) else if c > 46 then (if c < 65 then (if 48 \<le> c \<and> c \<le> 57 then
     st 21 else st 0) else if c > 90 then (if 94 \<le> c \<and> c \<le> 122 then st 21 else st 0)
     else st 21) else st 21)"

definition client_st76 :: "int \<Rightarrow> client_action target" where
  "client_st76 c =
     (if c = 33 then st 21 else if c = 58 then client_ctr39 else if c = 75 then st 77 else if c =
     107 then st 77 else if c = 124 then st 21 else if c = 126 then st 21 else if c < 45 then (if
     c > 39 then (if 42 \<le> c \<and> c \<le> 43 then st 21 else st 0) else if c \<ge> 35 then
     st 21 else st 0) else if c > 46 then (if c < 65 then (if 48 \<le> c \<and> c \<le> 57 then
     st 21 else st 0) else if c > 90 then (if 94 \<le> c \<and> c \<le> 122 then st 21 else st 0)
     else st 21) else st 21)"

definition client_st77 :: "int \<Rightarrow> client_action target" where
  "client_st77 c =
     (if c = 33 then st 21 else if c = 58 then client_ctr39 else if c = 69 then st 78 else if c =
     101 then st 78 else if c = 124 then st 21 else if c = 126 then st 21 else if c < 45 then (if
     c > 39 then (if 42 \<le> c \<and> c \<le> 43 then st 21 else st 0) else if c \<ge> 35 then
     st 21 else st 0) else if c > 46 then (if c < 65 then (if 48 \<le> c \<and> c \<le> 57 then
     st 21 else st 0) else if c > 90 then (if 94 \<le> c \<and> c \<le> 122 then st 21 else st 0)
     else st 21) else st 21)"

definition client_st78 :: "int \<Rightarrow> client_action target" where
  "client_st78 c =
     (if c = 33 then st 21 else if c = 58 then client_ctr39 else if c = 68 then st 79 else if c =
     100 then st 79 else if c = 124 then st 21 else if c = 126 then st 21 else if c < 45 then (if
     c > 39 then (if 42 \<le> c \<and> c \<le> 43 then st 21 else st 0) else if c \<ge> 35 then
     st 21 else st 0) else if c > 46 then (if c < 65 then (if 48 \<le> c \<and> c \<le> 57 then
     st 21 else st 0) else if c > 90 then (if 94 \<le> c \<and> c \<le> 122 then st 21 else st 0)
     else st 21) else st 21)"

definition client_st79 :: "int \<Rightarrow> client_action target" where
  "client_st79 c =
     (if c = 10 then client_ctr111 else if c = 13 then client_ctr112 else if c = 33 then st 21
     else if c = 58 then client_ctr39 else if c = 124 then st 21 else if c = 126 then st 21 else
     if c < 45 then (if c > 39 then (if 42 \<le> c \<and> c \<le> 43 then st 21 else st 0) else
     if c \<ge> 35 then st 21 else st 0) else if c > 46 then (if c < 65 then (if 48 \<le> c
     \<and> c \<le> 57 then st 21 else st 0) else if c > 90 then (if 94 \<le> c \<and> c \<le>
     122 then st 21 else st 0) else st 21) else st 21)"

definition client_st80 :: "int \<Rightarrow> client_action target" where
  "client_st80 c =
     (if c = 10 then st 62 else if c = 32 then st 63 else if c = 67 then client_ctr104 else if c =
     99 then client_ctr104 else if 9 \<le> c \<and> c \<le> 13 then st 63 else st 0)"

definition client_st81 :: "int \<Rightarrow> client_action target" where
  "client_st81 c =
     (if c = 10 then client_ctr45 else if c = 13 then client_ctr46 else if c = 72 then st 82 else
     if c = 104 then st 82 else st 23)"

definition client_st82 :: "int \<Rightarrow> client_action target" where
  "client_st82 c =
     (if c = 10 then client_ctr45 else if c = 13 then client_ctr46 else if c = 85 then st 83 else
     if c = 117 then st 83 else st 23)"

definition client_st83 :: "int \<Rightarrow> client_action target" where
  "client_st83 c =
     (if c = 10 then client_ctr45 else if c = 13 then client_ctr46 else if c = 78 then st 84 else
     if c = 110 then st 84 else st 23)"

definition client_st84 :: "int \<Rightarrow> client_action target" where
  "client_st84 c =
     (if c = 10 then client_ctr45 else if c = 13 then client_ctr46 else if c = 75 then st 85 else
     if c = 107 then st 85 else st 23)"

definition client_st85 :: "int \<Rightarrow> client_action target" where
  "client_st85 c =
     (if c = 10 then client_ctr45 else if c = 13 then client_ctr46 else if c = 69 then st 86 else
     if c = 101 then st 86 else st 23)"

definition client_st86 :: "int \<Rightarrow> client_action target" where
  "client_st86 c =
     (if c = 10 then client_ctr45 else if c = 13 then client_ctr46 else if c = 68 then st 87 else
     if c = 100 then st 87 else st 23)"

definition client_st87 :: "int \<Rightarrow> client_action target" where
  "client_st87 c = (if c = 10 then client_ctr111 else if c = 13 then client_ctr112 else st 23)"

definition client_st88 :: "int \<Rightarrow> client_action target" where
  "client_st88 c = (if c = 10 then st 43 else st 0)"

definition client_st89 :: "int \<Rightarrow> client_action target" where
  "client_st89 c =
     (if c = 10 then client_ctr64 else if c = 32 then st 37 else if c = 67 then st 38 else if c =
     99 then st 38 else if 9 \<le> c \<and> c \<le> 13 then st 37 else st 0)"

definition client_st90 :: "int \<Rightarrow> client_action target" where
  "client_st90 c =
     (if c = 33 then st 21 else if c = 58 then client_ctr39 else if c = 76 then st 91 else if c =
     79 then st 26 else if c = 108 then st 91 else if c = 111 then st 26 else if c = 124 then st
     21 else if c = 126 then st 21 else if c < 45 then (if c > 39 then (if 42 \<le> c \<and> c
     \<le> 43 then st 21 else st 0) else if c \<ge> 35 then st 21 else st 0) else if c > 46 then
     (if c < 65 then (if 48 \<le> c \<and> c \<le> 57 then st 21 else st 0) else if c > 90 then
     (if 94 \<le> c \<and> c \<le> 122 then st 21 else st 0) else st 21) else st 21)"

definition client_st91 :: "int \<Rightarrow> client_action target" where
  "client_st91 c =
     (if c = 33 then st 21 else if c = 58 then client_ctr39 else if c = 79 then st 92 else if c =
     111 then st 92 else if c = 124 then st 21 else if c = 126 then st 21 else if c < 45 then (if
     c > 39 then (if 42 \<le> c \<and> c \<le> 43 then st 21 else st 0) else if c \<ge> 35 then
     st 21 else st 0) else if c > 46 then (if c < 65 then (if 48 \<le> c \<and> c \<le> 57 then
     st 21 else st 0) else if c > 90 then (if 94 \<le> c \<and> c \<le> 122 then st 21 else st 0)
     else st 21) else st 21)"

definition client_st92 :: "int \<Rightarrow> client_action target" where
  "client_st92 c =
     (if c = 33 then st 21 else if c = 58 then client_ctr39 else if c = 83 then st 93 else if c =
     115 then st 93 else if c = 124 then st 21 else if c = 126 then st 21 else if c < 45 then (if
     c > 39 then (if 42 \<le> c \<and> c \<le> 43 then st 21 else st 0) else if c \<ge> 35 then
     st 21 else st 0) else if c > 46 then (if c < 65 then (if 48 \<le> c \<and> c \<le> 57 then
     st 21 else st 0) else if c > 90 then (if 94 \<le> c \<and> c \<le> 122 then st 21 else st 0)
     else st 21) else st 21)"

definition client_st93 :: "int \<Rightarrow> client_action target" where
  "client_st93 c =
     (if c = 33 then st 21 else if c = 58 then client_ctr39 else if c = 69 then st 94 else if c =
     101 then st 94 else if c = 124 then st 21 else if c = 126 then st 21 else if c < 45 then (if
     c > 39 then (if 42 \<le> c \<and> c \<le> 43 then st 21 else st 0) else if c \<ge> 35 then
     st 21 else st 0) else if c > 46 then (if c < 65 then (if 48 \<le> c \<and> c \<le> 57 then
     st 21 else st 0) else if c > 90 then (if 94 \<le> c \<and> c \<le> 122 then st 21 else st 0)
     else st 21) else st 21)"

definition client_st94 :: "int \<Rightarrow> client_action target" where
  "client_st94 c =
     (if c = 10 then st 43 else if c = 13 then st 88 else if c = 33 then st 21 else if c = 58 then
     client_ctr39 else if c = 124 then st 21 else if c = 126 then st 21 else if c < 45 then (if c
     > 39 then (if 42 \<le> c \<and> c \<le> 43 then st 21 else st 0) else if c \<ge> 35 then st
     21 else st 0) else if c > 46 then (if c < 65 then (if 48 \<le> c \<and> c \<le> 57 then st
     21 else st 0) else if c > 90 then (if 94 \<le> c \<and> c \<le> 122 then st 21 else st 0)
     else st 21) else st 21)"

definition client_st95 :: "int \<Rightarrow> client_action target" where
  "client_st95 c =
     (if c = 10 then st 36 else if c = 32 then st 37 else if c = 67 then st 38 else if c = 99 then
     st 38 else if 9 \<le> c \<and> c \<le> 13 then st 37 else st 0)"

definition client_st96 :: "int \<Rightarrow> client_action target" where
  "client_st96 c =
     (if c = 10 then client_ctr45 else if c = 13 then client_ctr46 else if c = 76 then st 97 else
     if c = 108 then st 97 else st 23)"

definition client_st97 :: "int \<Rightarrow> client_action target" where
  "client_st97 c =
     (if c = 10 then client_ctr45 else if c = 13 then client_ctr46 else if c = 79 then st 98 else
     if c = 111 then st 98 else st 23)"

definition client_st98 :: "int \<Rightarrow> client_action target" where
  "client_st98 c =
     (if c = 10 then client_ctr45 else if c = 13 then client_ctr46 else if c = 83 then st 99 else
     if c = 115 then st 99 else st 23)"

definition client_st99 :: "int \<Rightarrow> client_action target" where
  "client_st99 c =
     (if c = 10 then client_ctr45 else if c = 13 then client_ctr46 else if c = 69 then st 100 else
     if c = 101 then st 100 else st 23)"

definition client_st100 :: "int \<Rightarrow> client_action target" where
  "client_st100 c = (if c = 10 then client_ctr136 else if c = 13 then client_ctr137 else st 23)"

definition client_st101 :: "int \<Rightarrow> client_action target" where
  "client_st101 c =
     (if c = 33 then st 21 else if c = 58 then client_ctr39 else if c = 69 then st 102 else if c =
     101 then st 102 else if c = 124 then st 21 else if c = 126 then st 21 else if c < 45 then
     (if c > 39 then (if 42 \<le> c \<and> c \<le> 43 then st 21 else st 0) else if c \<ge> 35
     then st 21 else st 0) else if c > 46 then (if c < 65 then (if 48 \<le> c \<and> c \<le> 57
     then st 21 else st 0) else if c > 90 then (if 94 \<le> c \<and> c \<le> 122 then st 21 else
     st 0) else st 21) else st 21)"

definition client_st102 :: "int \<Rightarrow> client_action target" where
  "client_st102 c =
     (if c = 33 then st 21 else if c = 58 then client_ctr39 else if c = 78 then st 103 else if c =
     110 then st 103 else if c = 124 then st 21 else if c = 126 then st 21 else if c < 45 then
     (if c > 39 then (if 42 \<le> c \<and> c \<le> 43 then st 21 else st 0) else if c \<ge> 35
     then st 21 else st 0) else if c > 46 then (if c < 65 then (if 48 \<le> c \<and> c \<le> 57
     then st 21 else st 0) else if c > 90 then (if 94 \<le> c \<and> c \<le> 122 then st 21 else
     st 0) else st 21) else st 21)"

definition client_st103 :: "int \<Rightarrow> client_action target" where
  "client_st103 c =
     (if c = 33 then st 21 else if c = 58 then client_ctr39 else if c = 84 then st 104 else if c =
     116 then st 104 else if c = 124 then st 21 else if c = 126 then st 21 else if c < 45 then
     (if c > 39 then (if 42 \<le> c \<and> c \<le> 43 then st 21 else st 0) else if c \<ge> 35
     then st 21 else st 0) else if c > 46 then (if c < 65 then (if 48 \<le> c \<and> c \<le> 57
     then st 21 else st 0) else if c > 90 then (if 94 \<le> c \<and> c \<le> 122 then st 21 else
     st 0) else st 21) else st 21)"

definition client_st104 :: "int \<Rightarrow> client_action target" where
  "client_st104 c =
     (if c = 33 then st 21 else if c = 45 then st 105 else if c = 46 then st 21 else if c = 58
     then client_ctr39 else if c = 124 then st 21 else if c = 126 then st 21 else if c < 48 then
     (if c > 39 then (if 42 \<le> c \<and> c \<le> 43 then st 21 else st 0) else if c \<ge> 35
     then st 21 else st 0) else if c > 57 then (if c > 90 then (if 94 \<le> c \<and> c \<le> 122
     then st 21 else st 0) else if c \<ge> 65 then st 21 else st 0) else st 21)"

definition client_st105 :: "int \<Rightarrow> client_action target" where
  "client_st105 c =
     (if c = 33 then st 21 else if c = 58 then client_ctr39 else if c = 76 then st 106 else if c =
     108 then st 106 else if c = 124 then st 21 else if c = 126 then st 21 else if c < 45 then
     (if c > 39 then (if 42 \<le> c \<and> c \<le> 43 then st 21 else st 0) else if c \<ge> 35
     then st 21 else st 0) else if c > 46 then (if c < 65 then (if 48 \<le> c \<and> c \<le> 57
     then st 21 else st 0) else if c > 90 then (if 94 \<le> c \<and> c \<le> 122 then st 21 else
     st 0) else st 21) else st 21)"

definition client_st106 :: "int \<Rightarrow> client_action target" where
  "client_st106 c =
     (if c = 33 then st 21 else if c = 58 then client_ctr39 else if c = 69 then st 107 else if c =
     101 then st 107 else if c = 124 then st 21 else if c = 126 then st 21 else if c < 45 then
     (if c > 39 then (if 42 \<le> c \<and> c \<le> 43 then st 21 else st 0) else if c \<ge> 35
     then st 21 else st 0) else if c > 46 then (if c < 65 then (if 48 \<le> c \<and> c \<le> 57
     then st 21 else st 0) else if c > 90 then (if 94 \<le> c \<and> c \<le> 122 then st 21 else
     st 0) else st 21) else st 21)"

definition client_st107 :: "int \<Rightarrow> client_action target" where
  "client_st107 c =
     (if c = 33 then st 21 else if c = 58 then client_ctr39 else if c = 78 then st 108 else if c =
     110 then st 108 else if c = 124 then st 21 else if c = 126 then st 21 else if c < 45 then
     (if c > 39 then (if 42 \<le> c \<and> c \<le> 43 then st 21 else st 0) else if c \<ge> 35
     then st 21 else st 0) else if c > 46 then (if c < 65 then (if 48 \<le> c \<and> c \<le> 57
     then st 21 else st 0) else if c > 90 then (if 94 \<le> c \<and> c \<le> 122 then st 21 else
     st 0) else st 21) else st 21)"

definition client_st108 :: "int \<Rightarrow> client_action target" where
  "client_st108 c =
     (if c = 33 then st 21 else if c = 58 then client_ctr39 else if c = 71 then st 109 else if c =
     103 then st 109 else if c = 124 then st 21 else if c = 126 then st 21 else if c < 45 then
     (if c > 39 then (if 42 \<le> c \<and> c \<le> 43 then st 21 else st 0) else if c \<ge> 35
     then st 21 else st 0) else if c > 46 then (if c < 65 then (if 48 \<le> c \<and> c \<le> 57
     then st 21 else st 0) else if c > 90 then (if 94 \<le> c \<and> c \<le> 122 then st 21 else
     st 0) else st 21) else st 21)"

definition client_st109 :: "int \<Rightarrow> client_action target" where
  "client_st109 c =
     (if c = 33 then st 21 else if c = 58 then client_ctr39 else if c = 84 then st 110 else if c =
     116 then st 110 else if c = 124 then st 21 else if c = 126 then st 21 else if c < 45 then
     (if c > 39 then (if 42 \<le> c \<and> c \<le> 43 then st 21 else st 0) else if c \<ge> 35
     then st 21 else st 0) else if c > 46 then (if c < 65 then (if 48 \<le> c \<and> c \<le> 57
     then st 21 else st 0) else if c > 90 then (if 94 \<le> c \<and> c \<le> 122 then st 21 else
     st 0) else st 21) else st 21)"

definition client_st110 :: "int \<Rightarrow> client_action target" where
  "client_st110 c =
     (if c = 33 then st 21 else if c = 58 then client_ctr39 else if c = 72 then st 111 else if c =
     104 then st 111 else if c = 124 then st 21 else if c = 126 then st 21 else if c < 45 then
     (if c > 39 then (if 42 \<le> c \<and> c \<le> 43 then st 21 else st 0) else if c \<ge> 35
     then st 21 else st 0) else if c > 46 then (if c < 65 then (if 48 \<le> c \<and> c \<le> 57
     then st 21 else st 0) else if c > 90 then (if 94 \<le> c \<and> c \<le> 122 then st 21 else
     st 0) else st 21) else st 21)"

definition client_st111 :: "int \<Rightarrow> client_action target" where
  "client_st111 c =
     (if c = 33 then st 21 else if c = 58 then client_ctr148 else if c = 124 then st 21 else if c
     = 126 then st 21 else if c < 45 then (if c > 39 then (if 42 \<le> c \<and> c \<le> 43 then
     st 21 else st 0) else if c \<ge> 35 then st 21 else st 0) else if c > 46 then (if c < 65
     then (if 48 \<le> c \<and> c \<le> 57 then st 21 else st 0) else if c > 90 then (if 94 \<le>
     c \<and> c \<le> 122 then st 21 else st 0) else st 21) else st 21)"

definition client_st112 :: "int \<Rightarrow> client_action target" where
  "client_st112 c =
     (if c = 10 then client_ctr150 else if c = 13 then client_ctr151 else if c = 32 then
     client_ctr149 else if c > 12 then (if 48 \<le> c \<and> c \<le> 57 then client_ctr152 else
     client_ctr40) else if c \<ge> 9 then client_ctr149 else client_ctr40)"

definition client_st113 :: "int \<Rightarrow> client_action target" where
  "client_st113 c =
     (if c = 10 then client_ctr154 else if c = 13 then st 116 else if c = 32 then st 114 else if c
     = 33 then client_ctr35 else if c = 67 then client_ctr36 else if c = 84 then client_ctr37
     else if c = 99 then client_ctr36 else if c = 116 then client_ctr37 else if c = 124 then
     client_ctr35 else if c = 126 then client_ctr35 else if c < 45 then (if c < 35 then (if 9
     \<le> c \<and> c \<le> 12 then st 114 else st 0) else if c > 39 then (if 42 \<le> c \<and> c
     \<le> 43 then client_ctr35 else st 0) else client_ctr35) else if c > 46 then (if c < 65 then
     (if 48 \<le> c \<and> c \<le> 57 then client_ctr156 else st 0) else if c > 90 then (if 94
     \<le> c \<and> c \<le> 122 then client_ctr35 else st 0) else client_ctr35) else client_ctr35)"

definition client_st114 :: "int \<Rightarrow> client_action target" where
  "client_st114 c =
     (if c = 32 then st 114 else if c > 13 then (if 48 \<le> c \<and> c \<le> 57 then
     client_ctr157 else st 0) else if c \<ge> 9 then st 114 else st 0)"

definition client_st115 :: "int \<Rightarrow> client_action target" where
  "client_st115 c =
     (if c = 10 then client_ctr158 else if c = 13 then client_ctr159 else if 48 \<le> c \<and> c
     \<le> 57 then st 115 else st 0)"

definition client_st116 :: "int \<Rightarrow> client_action target" where
  "client_st116 c =
     (if c = 10 then client_ctr154 else if c = 32 then st 114 else if c > 13 then (if 48 \<le> c
     \<and> c \<le> 57 then client_ctr157 else st 0) else if c \<ge> 9 then st 114 else st 0)"

definition client_st117 :: "int \<Rightarrow> client_action target" where
  "client_st117 c =
     (if c = 10 then client_ctr158 else if c = 13 then client_ctr159 else if c = 33 then st 21
     else if c = 58 then client_ctr39 else if c = 124 then st 21 else if c = 126 then st 21 else
     if c < 45 then (if c > 39 then (if 42 \<le> c \<and> c \<le> 43 then st 21 else st 0) else
     if c \<ge> 35 then st 21 else st 0) else if c > 46 then (if c < 65 then (if 48 \<le> c
     \<and> c \<le> 57 then st 117 else st 0) else if c > 90 then (if 94 \<le> c \<and> c \<le>
     122 then st 21 else st 0) else st 21) else st 21)"

definition client_st118 :: "int \<Rightarrow> client_action target" where
  "client_st118 c =
     (if c = 10 then st 113 else if c = 32 then st 114 else if c > 13 then (if 48 \<le> c \<and> c
     \<le> 57 then client_ctr157 else st 0) else if c \<ge> 9 then st 114 else st 0)"

definition client_st119 :: "int \<Rightarrow> client_action target" where
  "client_st119 c =
     (if c = 10 then client_ctr158 else if c = 13 then client_ctr159 else if 48 \<le> c \<and> c
     \<le> 57 then st 119 else st 23)"

definition client_st120 :: "int \<Rightarrow> client_action target" where
  "client_st120 c = st 0"

definition client_st121 :: "int \<Rightarrow> client_action target" where
  "client_st121 c =
     (if c = 32 then st 63 else if c = 67 then client_ctr104 else if c = 99 then client_ctr104
     else if 9 \<le> c \<and> c \<le> 13 then st 63 else st 0)"

definition client_st122 :: "int \<Rightarrow> client_action target" where
  "client_st122 c =
     (if c = 32 then st 37 else if c = 67 then st 38 else if c = 99 then st 38 else if 9 \<le> c
     \<and> c \<le> 13 then st 37 else st 0)"

definition client_st123 :: "int \<Rightarrow> client_action target" where
  "client_st123 c =
     (if c = 32 then st 114 else if c > 13 then (if 48 \<le> c \<and> c \<le> 57 then
     client_ctr157 else st 0) else if c \<ge> 9 then st 114 else st 0)"

section \<open>The switch\<close>

text \<open>The states in the order of their numbers.\<close>

definition client_states :: "(int \<Rightarrow> client_action target) list" where
  "client_states = [
     client_st0, client_st1, client_st2, client_st3, client_st4, client_st5, client_st6,
     client_st7, client_st8, client_st9, client_st10, client_st11, client_st12, client_st13,
     client_st14, client_st15, client_st16, client_st17, client_st18, client_st19, client_st20,
     client_st21, client_st22, client_st23, client_st24, client_st25, client_st26, client_st27,
     client_st28, client_st29, client_st30, client_st31, client_st32, client_st33, client_st34,
     client_st35, client_st36, client_st37, client_st38, client_st39, client_st40, client_st41,
     client_st42, client_st43, client_st44, client_st45, client_st46, client_st47, client_st48,
     client_st49, client_st50, client_st51, client_st52, client_st53, client_st54, client_st55,
     client_st56, client_st57, client_st58, client_st59, client_st60, client_st61, client_st62,
     client_st63, client_st64, client_st65, client_st66, client_st67, client_st68, client_st69,
     client_st70, client_st71, client_st72, client_st73, client_st74, client_st75, client_st76,
     client_st77, client_st78, client_st79, client_st80, client_st81, client_st82, client_st83,
     client_st84, client_st85, client_st86, client_st87, client_st88, client_st89, client_st90,
     client_st91, client_st92, client_st93, client_st94, client_st95, client_st96, client_st97,
     client_st98, client_st99, client_st100, client_st101, client_st102, client_st103,
     client_st104, client_st105, client_st106, client_st107, client_st108, client_st109,
     client_st110, client_st111, client_st112, client_st113, client_st114, client_st115,
     client_st116, client_st117, client_st118, client_st119, client_st120, client_st121,
     client_st122, client_st123]"

lemmas client_sts =
  client_st0_def client_st1_def client_st2_def client_st3_def client_st4_def client_st5_def
  client_st6_def client_st7_def client_st8_def client_st9_def client_st10_def client_st11_def
  client_st12_def client_st13_def client_st14_def client_st15_def client_st16_def
  client_st17_def client_st18_def client_st19_def client_st20_def client_st21_def
  client_st22_def client_st23_def client_st24_def client_st25_def client_st26_def
  client_st27_def client_st28_def client_st29_def client_st30_def client_st31_def
  client_st32_def client_st33_def client_st34_def client_st35_def client_st36_def
  client_st37_def client_st38_def client_st39_def client_st40_def client_st41_def
  client_st42_def client_st43_def client_st44_def client_st45_def client_st46_def
  client_st47_def client_st48_def client_st49_def client_st50_def client_st51_def
  client_st52_def client_st53_def client_st54_def client_st55_def client_st56_def
  client_st57_def client_st58_def client_st59_def client_st60_def client_st61_def
  client_st62_def client_st63_def client_st64_def client_st65_def client_st66_def
  client_st67_def client_st68_def client_st69_def client_st70_def client_st71_def
  client_st72_def client_st73_def client_st74_def client_st75_def client_st76_def
  client_st77_def client_st78_def client_st79_def client_st80_def client_st81_def
  client_st82_def client_st83_def client_st84_def client_st85_def client_st86_def
  client_st87_def client_st88_def client_st89_def client_st90_def client_st91_def
  client_st92_def client_st93_def client_st94_def client_st95_def client_st96_def
  client_st97_def client_st98_def client_st99_def client_st100_def client_st101_def
  client_st102_def client_st103_def client_st104_def client_st105_def client_st106_def
  client_st107_def client_st108_def client_st109_def client_st110_def client_st111_def
  client_st112_def client_st113_def client_st114_def client_st115_def client_st116_def
  client_st117_def client_st118_def client_st119_def client_st120_def client_st121_def
  client_st122_def client_st123_def

lemma length_client_states [simp]: "length (client_states) = 124"
  by (simp add: client_states_def)

lemma client_nth:
  "client_states ! 0 = client_st0"
  "client_states ! Suc 0 = client_st1"
  "client_states ! 2 = client_st2"
  "client_states ! 3 = client_st3"
  "client_states ! 4 = client_st4"
  "client_states ! 5 = client_st5"
  "client_states ! 6 = client_st6"
  "client_states ! 7 = client_st7"
  "client_states ! 8 = client_st8"
  "client_states ! 9 = client_st9"
  "client_states ! 10 = client_st10"
  "client_states ! 11 = client_st11"
  "client_states ! 12 = client_st12"
  "client_states ! 13 = client_st13"
  "client_states ! 14 = client_st14"
  "client_states ! 15 = client_st15"
  "client_states ! 16 = client_st16"
  "client_states ! 17 = client_st17"
  "client_states ! 18 = client_st18"
  "client_states ! 19 = client_st19"
  "client_states ! 20 = client_st20"
  "client_states ! 21 = client_st21"
  "client_states ! 22 = client_st22"
  "client_states ! 23 = client_st23"
  "client_states ! 24 = client_st24"
  "client_states ! 25 = client_st25"
  "client_states ! 26 = client_st26"
  "client_states ! 27 = client_st27"
  "client_states ! 28 = client_st28"
  "client_states ! 29 = client_st29"
  "client_states ! 30 = client_st30"
  "client_states ! 31 = client_st31"
  "client_states ! 32 = client_st32"
  "client_states ! 33 = client_st33"
  "client_states ! 34 = client_st34"
  "client_states ! 35 = client_st35"
  "client_states ! 36 = client_st36"
  "client_states ! 37 = client_st37"
  "client_states ! 38 = client_st38"
  "client_states ! 39 = client_st39"
  "client_states ! 40 = client_st40"
  "client_states ! 41 = client_st41"
  "client_states ! 42 = client_st42"
  "client_states ! 43 = client_st43"
  "client_states ! 44 = client_st44"
  "client_states ! 45 = client_st45"
  "client_states ! 46 = client_st46"
  "client_states ! 47 = client_st47"
  "client_states ! 48 = client_st48"
  "client_states ! 49 = client_st49"
  "client_states ! 50 = client_st50"
  "client_states ! 51 = client_st51"
  "client_states ! 52 = client_st52"
  "client_states ! 53 = client_st53"
  "client_states ! 54 = client_st54"
  "client_states ! 55 = client_st55"
  "client_states ! 56 = client_st56"
  "client_states ! 57 = client_st57"
  "client_states ! 58 = client_st58"
  "client_states ! 59 = client_st59"
  "client_states ! 60 = client_st60"
  "client_states ! 61 = client_st61"
  "client_states ! 62 = client_st62"
  "client_states ! 63 = client_st63"
  "client_states ! 64 = client_st64"
  "client_states ! 65 = client_st65"
  "client_states ! 66 = client_st66"
  "client_states ! 67 = client_st67"
  "client_states ! 68 = client_st68"
  "client_states ! 69 = client_st69"
  "client_states ! 70 = client_st70"
  "client_states ! 71 = client_st71"
  "client_states ! 72 = client_st72"
  "client_states ! 73 = client_st73"
  "client_states ! 74 = client_st74"
  "client_states ! 75 = client_st75"
  "client_states ! 76 = client_st76"
  "client_states ! 77 = client_st77"
  "client_states ! 78 = client_st78"
  "client_states ! 79 = client_st79"
  "client_states ! 80 = client_st80"
  "client_states ! 81 = client_st81"
  "client_states ! 82 = client_st82"
  "client_states ! 83 = client_st83"
  "client_states ! 84 = client_st84"
  "client_states ! 85 = client_st85"
  "client_states ! 86 = client_st86"
  "client_states ! 87 = client_st87"
  "client_states ! 88 = client_st88"
  "client_states ! 89 = client_st89"
  "client_states ! 90 = client_st90"
  "client_states ! 91 = client_st91"
  "client_states ! 92 = client_st92"
  "client_states ! 93 = client_st93"
  "client_states ! 94 = client_st94"
  "client_states ! 95 = client_st95"
  "client_states ! 96 = client_st96"
  "client_states ! 97 = client_st97"
  "client_states ! 98 = client_st98"
  "client_states ! 99 = client_st99"
  "client_states ! 100 = client_st100"
  "client_states ! 101 = client_st101"
  "client_states ! 102 = client_st102"
  "client_states ! 103 = client_st103"
  "client_states ! 104 = client_st104"
  "client_states ! 105 = client_st105"
  "client_states ! 106 = client_st106"
  "client_states ! 107 = client_st107"
  "client_states ! 108 = client_st108"
  "client_states ! 109 = client_st109"
  "client_states ! 110 = client_st110"
  "client_states ! 111 = client_st111"
  "client_states ! 112 = client_st112"
  "client_states ! 113 = client_st113"
  "client_states ! 114 = client_st114"
  "client_states ! 115 = client_st115"
  "client_states ! 116 = client_st116"
  "client_states ! 117 = client_st117"
  "client_states ! 118 = client_st118"
  "client_states ! 119 = client_st119"
  "client_states ! 120 = client_st120"
  "client_states ! 121 = client_st121"
  "client_states ! 122 = client_st122"
  "client_states ! 123 = client_st123"
  by (simp_all add: client_states_def)

text \<open>Every jump of the machine is to one of its states.\<close>

lemma client_machine_ok: "machine_ok (client_states)"
  unfolding machine_ok_def length_client_states unfolding client_states_def
  by (simp add: client_sts client_ctrs target_if split del: if_split)

end
