(* ===== verification/Httpclient_Parser.thy ===== *)
theory Httpclient_Parser
  imports Httpclient_States Http11_Parser
begin

text \<open>
  The response parser around its machine (\<open>sylar/http/httpclient_parser.rl\<close> and the C++ file
  made from it). It reads the head of a response, and also, newly initialised, the line that
  starts a chunk of a body. Numbers are read by \<open>strtol\<close> from the marked place on, whatever
  stands there, and assigned to an \<open>int\<close>. The buffer is asserted to end in a null character,
  so the memory the pointer points to must be one longer than the part to parse. Where one of
  the last three checks fails the function returns -1, with the state already advanced.
\<close>

section \<open>The parser record\<close>

record httpclient_parser =
  hc_cs :: nat
  hc_body_start :: u64
  hc_content_len :: int
  hc_status :: int
  hc_chunked :: bool
  hc_chunks_done :: bool
  hc_close :: bool
  hc_nread :: u64
  hc_mark :: u64
  hc_field_start :: u64
  hc_field_len :: u64

record 'd client_callbacks =
  cc_http_field :: "'d field_cb option"
  cc_reason_phrase :: "'d element_cb option"
  cc_status_code :: "'d element_cb option"
  cc_chunk_size :: "'d element_cb option"
  cc_http_version :: "'d element_cb option"
  cc_header_done :: "'d element_cb option"
  cc_last_chunk :: "'d element_cb option"

definition httpclient_parser_init :: "httpclient_parser \<Rightarrow> httpclient_parser" where
  "httpclient_parser_init parser = parser\<lparr>hc_cs := 1, hc_body_start := 0, hc_content_len := -1,
     hc_chunked := False, hc_chunks_done := False, hc_mark := 0, hc_nread := 0, hc_field_len := 0,
     hc_field_start := 0, hc_close := False\<rparr>"

section \<open>Actions\<close>

fun client_act :: "'d client_callbacks \<Rightarrow> string \<Rightarrow> nat \<Rightarrow> client_action \<Rightarrow> nat \<Rightarrow> httpclient_parser \<times> 'd \<Rightarrow>
    fault + httpclient_parser \<times> 'd" where
  "client_act cb buffer pe C_mark p (s, d) = Inr (s\<lparr>hc_mark := of_nat p\<rparr>, d)"
| "client_act cb buffer pe C_start_field p (s, d) = Inr (s\<lparr>hc_field_start := of_nat p\<rparr>, d)"
| "client_act cb buffer pe C_write_field p (s, d) = Inr (s\<lparr>hc_field_len := LEN (hc_field_start s) p\<rparr>, d)"
| "client_act cb buffer pe C_start_value p (s, d) = Inr (s\<lparr>hc_mark := of_nat p\<rparr>, d)"
| "client_act cb buffer pe C_write_content_len p (s, d) =
     Inr (s\<lparr>hc_content_len := to_int (strtol 10 (PTR_TO buffer (hc_mark s)))\<rparr>, d)"
| "client_act cb buffer pe C_write_connection_close p (s, d) = Inr (s\<lparr>hc_close := True\<rparr>, d)"
| "client_act cb buffer pe C_write_value p (s, d) =
     map_sum id (Pair s) (case cc_http_field cb of None \<Rightarrow> Inr d
       | Some f \<Rightarrow> f (PTR_TO buffer (hc_field_start s)) (hc_field_len s) (PTR_TO buffer (hc_mark s)) (LEN (hc_mark s) p) d)"
| "client_act cb buffer pe C_reason_phrase p (s, d) =
     map_sum id (Pair s) (call_element (cc_reason_phrase cb) (PTR_TO buffer (hc_mark s)) (LEN (hc_mark s) p) d)"
| "client_act cb buffer pe C_status_code p (s, d) =
     (let s' = s\<lparr>hc_status := to_int (strtol 10 (PTR_TO buffer (hc_mark s)))\<rparr>
      in map_sum id (Pair s') (call_element (cc_status_code cb) (PTR_TO buffer (hc_mark s)) (LEN (hc_mark s) p) d))"
| "client_act cb buffer pe C_http_version p (s, d) =
     map_sum id (Pair s) (call_element (cc_http_version cb) (PTR_TO buffer (hc_mark s)) (LEN (hc_mark s) p) d)"
| "client_act cb buffer pe C_chunk_size p (s, d) =
     (let len = to_int (strtol 16 (PTR_TO buffer (hc_mark s)));
          s' = s\<lparr>hc_chunked := True, hc_content_len := len, hc_chunks_done := (len \<le> 0)\<rparr>
      in map_sum id (Pair s')
           (call_element (if hc_chunks_done s' \<and> cc_last_chunk cb \<noteq> None then cc_last_chunk cb else cc_chunk_size cb)
              (PTR_TO buffer (hc_mark s)) (LEN (hc_mark s) p) d))"
| "client_act cb buffer pe C_trans_chunked p (s, d) = Inr (s\<lparr>hc_chunked := True\<rparr>, d)"
| "client_act cb buffer pe C_done p (s, d) =
     (let s' = s\<lparr>hc_body_start := of_nat p + 1\<rparr>
      in map_sum id (Pair s') (call_element (cc_header_done cb) (drop (p + 1) buffer) (of_nat pe - of_nat p - 1) d))"

section \<open>Execution\<close>

definition httpclient_parser_has_error :: "httpclient_parser \<Rightarrow> bool" where
  "httpclient_parser_has_error parser \<longleftrightarrow> hc_cs parser = 0"

definition httpclient_parser_is_finished :: "httpclient_parser \<Rightarrow> bool" where
  "httpclient_parser_is_finished parser \<longleftrightarrow> hc_cs parser = 120"

definition httpclient_parser_finish :: "httpclient_parser \<Rightarrow> int" where
  "httpclient_parser_finish parser =
     (if httpclient_parser_has_error parser then -1 else if httpclient_parser_is_finished parser then 1 else 0)"

definition httpclient_parser_execute :: "'d client_callbacks \<Rightarrow> string \<Rightarrow> nat \<Rightarrow> nat \<Rightarrow> httpclient_parser \<times> 'd \<Rightarrow>
    fault + int \<times> httpclient_parser \<times> 'd" where
  "httpclient_parser_execute cb buffer len off = (\<lambda>(parser, d).
     let parser = parser\<lparr>hc_nread := 0, hc_mark := 0, hc_field_len := 0, hc_field_start := 0\<rparr>
     in if len < off then Inl Assert_fail
     else if length buffer \<le> len then Inl Undefined
     else if buffer ! len \<noteq> CHR 0x00 then Inl Assert_fail
     else if int (len - off) \<noteq> sint (of_nat len :: 32 word) - sint (of_nat off :: 32 word) then Inl Assert_fail
     else case run client_states (client_act cb buffer len) (\<lambda>a. a = C_done)
                 (hc_cs parser) off (take (len - off) (drop off buffer)) (parser, d) of
       Inl e \<Rightarrow> Inl e
     | Inr (cs, p, parser, d) \<Rightarrow>
         let parser = parser\<lparr>hc_cs := cs, hc_nread := hc_nread parser + of_nat (p - off)\<rparr>
         in if len < p \<or> len < unat (hc_nread parser) \<or> len < unat (hc_body_start parser) then Inl Assert_fail
            else if unat (hc_mark parser) < len \<and> unat (hc_field_len parser) \<le> len \<and> unat (hc_field_start parser) < len
            then Inr (sint (ucast (hc_nread parser) :: 32 word), parser, d)
            else Inr (-1, parser, d))"

end
