(* ===== verification/Response_Parser.thy ===== *)
theory Response_Parser
  imports Httpclient_Parser Request_Parser
begin

text \<open>
  The response side of \<open>sylar/http/http_parser.cc\<close>: the callbacks by which the parser fills an
  \<open>HttpResponse\<close>, and the class \<open>HttpResponseParser\<close>, whose \<open>execute\<close> starts afresh for
  every chunk of a body. The -1 of the parser becomes a \<open>size_t\<close> there, and the move of the
  buffer then reads outside of it.
\<close>

section \<open>Callbacks\<close>

type_synonym response_sink = "HttpResponse \<times> nat"

definition on_response_reason :: "response_sink element_cb" where
  "on_response_reason at len = (\<lambda>(r, err). map_sum id (\<lambda>t. (r\<lparr>rsp_reason := t\<rparr>, err)) (cxx_string at len))"

definition on_response_status :: "response_sink element_cb" where
  "on_response_status at len = (\<lambda>(r, err). Inr (r\<lparr>rsp_status := word_of_int (atoi at)\<rparr>, err))"

definition on_response_chunk :: "response_sink element_cb" where
  "on_response_chunk at len = Inr"

definition on_response_version :: "response_sink element_cb" where
  "on_response_version at len = (\<lambda>(r, err).
     if strncmp_eq at ''HTTP/1.1'' (unat len) then Inr (r\<lparr>rsp_version := 0x11\<rparr>, err)
     else if strncmp_eq at ''HTTP/1.0'' (unat len) then Inr (r\<lparr>rsp_version := 0x10\<rparr>, err)
     else map_sum id (\<lambda>_. (r, 1001)) (cxx_string at len))"

definition on_response_header_done :: "response_sink element_cb" where
  "on_response_header_done at len = Inr"

definition on_response_last_chunk :: "response_sink element_cb" where
  "on_response_last_chunk at len = Inr"

definition on_response_http_field :: "response_sink field_cb" where
  "on_response_http_field field flen val vlen = (\<lambda>(r, err).
     if flen = 0 then Inr (r, err)
     else case cxx_string field flen of
       Inl e \<Rightarrow> Inl e
     | Inr k \<Rightarrow> map_sum id (\<lambda>v. (rsp_setHeader k v r, err)) (cxx_string val vlen))"

definition response_callbacks :: "response_sink client_callbacks" where
  "response_callbacks =
     \<lparr>cc_http_field = Some on_response_http_field, cc_reason_phrase = Some on_response_reason,
      cc_status_code = Some on_response_status, cc_chunk_size = Some on_response_chunk,
      cc_http_version = Some on_response_version, cc_header_done = Some on_response_header_done,
      cc_last_chunk = Some on_response_last_chunk\<rparr>"

section \<open>The parser class\<close>

record HttpResponseParser =
  rp_parser :: httpclient_parser
  rp_data :: HttpResponse
  rp_error :: nat

definition HttpResponseParser_new :: "httpclient_parser \<Rightarrow> HttpResponseParser" where
  "HttpResponseParser_new memory =
     \<lparr>rp_parser = httpclient_parser_init memory, rp_data = HttpResponse_new 0x11 True, rp_error = 0\<rparr>"

definition rp_getContentLength :: "(string \<Rightarrow> u64 option) \<Rightarrow> HttpResponseParser \<Rightarrow> u64" where
  "rp_getContentLength lexical_cast self = getAs lexical_cast ''content-length'' 0 (rsp_headers (rp_data self))"

definition rp_execute :: "HttpResponseParser \<Rightarrow> string \<Rightarrow> nat \<Rightarrow> bool \<Rightarrow> fault + u64 \<times> HttpResponseParser \<times> string" where
  "rp_execute self buffer len chunck =
     (let parser = (if chunck then httpclient_parser_init (rp_parser self) else rp_parser self)
      in case httpclient_parser_execute response_callbacks buffer len 0 (parser, rp_data self, rp_error self) of
        Inl e \<Rightarrow> Inl e
      | Inr (n, parser, r, err) \<Rightarrow>
          let offset = word_of_int n :: u64
          in if len < unat offset then Inl Undefined
             else Inr (offset, \<lparr>rp_parser = parser, rp_data = r, rp_error = err\<rparr>,
                       overwrite 0 (take (len - unat offset) (drop (unat offset) buffer)) buffer))"

definition rp_isFinished :: "HttpResponseParser \<Rightarrow> int" where
  "rp_isFinished self = httpclient_parser_finish (rp_parser self)"

definition rp_hasError :: "HttpResponseParser \<Rightarrow> bool" where
  "rp_hasError self \<longleftrightarrow> rp_error self \<noteq> 0 \<or> httpclient_parser_has_error (rp_parser self)"

end
