(* ===== verification/Response_Props.thy ===== *)
theory Response_Props
  imports Response_Parser Request_Props
begin

text \<open>
  The properties of the response parser: the line that starts a chunk of a body.
\<close>

section \<open>The line before a chunk\<close>

abbreviation rp_run :: "string \<Rightarrow> nat \<Rightarrow> nat \<Rightarrow> nat \<Rightarrow> string \<Rightarrow> httpclient_parser \<times> response_sink \<Rightarrow>
    fault + nat \<times> nat \<times> httpclient_parser \<times> response_sink" where
  "rp_run buf n \<equiv> run client_states (client_act response_callbacks buf n) (\<lambda>a. a = C_done)"

lemma response_callbacks_simps [simp]:
  "cc_http_field response_callbacks = Some on_response_http_field"
  "call_element (cc_reason_phrase response_callbacks) = on_response_reason"
  "call_element (cc_status_code response_callbacks) = on_response_status"
  "call_element (cc_http_version response_callbacks) = on_response_version"
  "cc_chunk_size response_callbacks = Some on_response_chunk"
  "cc_last_chunk response_callbacks = Some on_response_last_chunk"
  "call_element (cc_header_done response_callbacks) = on_response_header_done"
  by (simp_all add: response_callbacks_def)

lemma hex_states:
  "c \<in> set ''0123456789abcdef'' \<Longrightarrow> (client_states ! 1) (char_int c) = ([C_mark], 2) \<and> (client_states ! 2) (char_int c) = st 2"
proof -
  have "\<forall>c \<in> set ''0123456789abcdef''. client_st1 (char_int c) = ([C_mark], 2) \<and> client_st2 (char_int c) = st 2"
    by (simp add: client_st1_def client_st2_def client_ctrs char_int_def)
  then show "c \<in> set ''0123456789abcdef'' \<Longrightarrow> ?thesis" unfolding One_nat_def client_nth by blast
qed

lemma run_chunk_line:
  assumes "buf = hexs n @ crlf @ rest" "n < 2 ^ 63"
  shows "\<exists>s'. rp_run buf k 1 0 (hexs n @ crlf @ inp) (s, q, e) = Inr (120, length (hexs n) + 2, s', q, e) \<and>
    hc_content_len s' = to_int (int n) \<and> hc_chunked s' \<and> hc_chunks_done s' = (to_int (int n) \<le> 0) \<and>
    hc_mark s' = 0 \<and> hc_field_start s' = hc_field_start s \<and> hc_field_len s' = hc_field_len s \<and> hc_nread s' = hc_nread s \<and>
    hc_body_start s' = of_nat (length (hexs n) + 1) + 1"
proof -
  obtain c w where c: "hexs n = c # w" by (cases "hexs n") auto
  have d: "set (hexs n) \<subseteq> set ''0123456789abcdef''" using dec_chars(2) by blast
  let ?s = "s\<lparr>hc_mark := 0\<rparr>"
  let ?t = "?s\<lparr>hc_content_len := to_int (int n), hc_chunked := True, hc_chunks_done := (to_int (int n) \<le> 0)\<rparr>"
  let ?u = "?t\<lparr>hc_body_start := of_nat (length (hexs n) + 1) + 1\<rparr>"
  have "rp_run buf k 1 0 (c # w @ crlf @ inp) (s, q, e) = rp_run buf k 2 1 (w @ crlf @ inp) (?s, q, e)"
    using run_step [where acts = "[C_mark]" and t = 2] hex_states [of c] d c by (simp add: run.simps)
  also have "\<dots> = rp_run buf k 2 (1 + length w) (crlf @ inp) (?s, q, e)"
    by (rule run_loop) (use hex_states d c in auto)
  also have "\<dots> = rp_run buf k 2 (length (hexs n)) (CHR 0x0D # CHR 0x0A # inp) (?s, q, e)" using c by (simp add: crlf_def)
  also have "\<dots> = rp_run buf k 3 (length (hexs n) + 1) (CHR 0x0A # inp) (?t, q, e)"
  proof (rule run_step)
    show "(client_states ! 2) (char_int (CHR 0x0D)) = ([C_chunk_size], 3)" by (simp add: client_nth client_st2_def client_ctrs)
    have "digit_of 16 (CHR 0x0D) = None" by code_simp
    then have "strtol 16 (hexs n @ crlf @ rest) = int n" by (intro strtol_hexs) (use assms(2) in \<open>simp_all add: crlf_def\<close>)
    then show "run_actions (client_act response_callbacks buf k) [C_chunk_size] (length (hexs n)) (?s, q, e) = Inr (?t, q, e)"
      using assms(1)
      by (simp add: PTR_TO_def Let_def on_response_chunk_def on_response_last_chunk_def)
  qed simp_all
  also have "\<dots> = Inr (120, length (hexs n) + 1 + 1, ?u, q, e)"
  proof (rule run_stop)
    show "(client_states ! 3) (char_int (CHR 0x0A)) = ([C_done], 120)" by (simp add: client_nth client_st3_def client_ctrs)
    show "run_actions (client_act response_callbacks buf k) [C_done] (length (hexs n) + 1) (?t, q, e) = Inr (?u, q, e)"
      by (simp add: on_response_header_done_def)
  qed simp_all
  finally show ?thesis using c by (intro exI [of _ ?u]) simp
qed

lemma sint_ucast_nat: "p < 2 ^ 31 \<Longrightarrow> sint (ucast (of_nat p :: u64) :: 32 word) = int p"
proof -
  assume p: "p < 2 ^ 31"
  then have "unat (of_nat p :: u64) = p" by (simp add: of_nat_inverse)
  then have "(ucast (of_nat p :: u64) :: 32 word) = of_nat p" by (metis of_nat_unat)
  then show ?thesis using p by (simp add: signed_of_nat signed_take_bit_int_eq_self)
qed

lemma signed_wrap: "2 ^ 31 \<le> n \<Longrightarrow> n < 2 ^ 32 \<Longrightarrow> sint (of_nat n :: 32 word) = int n - 2 ^ 32"
proof -
  assume a: "2 ^ 31 \<le> n" "n < 2 ^ 32"
  have "sint (of_nat n :: 32 word) = signed_take_bit 31 (int n)" by (simp add: signed_of_nat)
  also have "\<dots> = (int n + 2 ^ 31) mod 2 ^ 32 - 2 ^ 31" by (simp add: signed_take_bit_eq_take_bit_shift take_bit_eq_mod)
  also have "(int n + 2 ^ 31) mod 2 ^ 32 = int n + 2 ^ 31 - 2 ^ 32"
  proof -
    have "(int n + 2 ^ 31) mod 2 ^ 32 = (int n + 2 ^ 31 - 2 ^ 32 + 2 ^ 32) mod 2 ^ 32" by (simp add: add.commute)
    also have "\<dots> = (int n + 2 ^ 31 - 2 ^ 32) mod 2 ^ 32" by (rule mod_add_self2)
    also have "\<dots> = int n + 2 ^ 31 - 2 ^ 32" by (rule mod_pos_pos_trivial) (use a in simp_all)
    finally show ?thesis .
  qed
  finally show ?thesis by simp
qed

lemma chunk_execute:
  assumes "n < 2 ^ 63" "length (hexs n @ crlf @ chunk) < 2 ^ 31"
  shows "\<exists>self' buffer'. rp_execute self (hexs n @ crlf @ chunk @ CHR 0x00 # junk) (length (hexs n @ crlf @ chunk)) True =
      Inr (of_nat (length (hexs n @ crlf)), self', buffer') \<and>
    rp_isFinished self' = 1 \<and> rp_data self' = rp_data self \<and> rp_error self' = rp_error self \<and>
    hc_cs (rp_parser self') = 120 \<and> take (length chunk) buffer' = chunk \<and>
    length buffer' = length (hexs n @ crlf @ chunk @ CHR 0x00 # junk) \<and>
    hc_content_len (rp_parser self') = to_int (int n) \<and> hc_chunks_done (rp_parser self') = (to_int (int n) \<le> 0) \<and> hc_chunked (rp_parser self') \<and>
    (n < 2 ^ 31 \<longrightarrow> to_int (int n) = int n) \<and>
    (2 ^ 31 \<le> n \<and> n < 2 ^ 32 \<longrightarrow> to_int (int n) = int n - 2 ^ 32)"
proof -
  let ?m = "httpclient_parser_init (rp_parser self)" and ?buf = "hexs n @ crlf @ chunk @ CHR 0x00 # junk"
    and ?len = "length (hexs n @ crlf @ chunk)" and ?p = "length (hexs n) + 2"
  let ?t = "?m\<lparr>hc_nread := 0, hc_mark := 0, hc_field_len := 0, hc_field_start := 0\<rparr>"
  obtain s' where r: "rp_run ?buf ?len 1 0 (hexs n @ crlf @ chunk) (?t, rp_data self, rp_error self) =
      Inr (120, ?p, s', rp_data self, rp_error self)" and s: "hc_content_len s' = to_int (int n)"
      "hc_chunks_done s' = (to_int (int n) \<le> 0)" "hc_chunked s'" "hc_mark s' = 0" "hc_field_start s' = 0" "hc_field_len s' = 0"
      "hc_nread s' = 0" "hc_body_start s' = of_nat (length (hexs n) + 1) + 1"
    using run_chunk_line [OF _ assms(1), of ?buf "chunk @ CHR 0x00 # junk" ?len chunk ?t "rp_data self" "rp_error self"] by auto
  have l: "?p \<le> ?len" "?len < 2 ^ 31" "0 < ?len" using assms(2) by (simp_all add: crlf_def)
  have b: "length ?buf > ?len" "?buf ! ?len = CHR 0x00" "take ?len ?buf = hexs n @ crlf @ chunk"
    by (simp_all add: nth_append)
  have i: "int ?len = sint (of_nat ?len :: 32 word) - sint (of_nat 0 :: 32 word)"
    using l(2) by (simp add: signed_of_nat signed_take_bit_int_eq_self del: length_append)
  have u: "unat (of_nat ?p :: u64) = ?p" using l by (simp add: of_nat_inverse del: length_append)
  have w: "of_nat (length (hexs n) + 1) + 1 = (of_nat ?p :: u64)" by simp
  have v: "sint (ucast (of_nat ?p :: u64) :: 32 word) = int ?p"
    by (rule sint_ucast_nat) (use l in simp_all)
  let ?self = "\<lparr>rp_parser = s'\<lparr>hc_cs := 120, hc_nread := of_nat ?p\<rparr>, rp_data = rp_data self, rp_error = rp_error self\<rparr>"
    and ?after = "overwrite 0 (take (?len - ?p) (drop ?p ?buf)) ?buf"
  have "httpclient_parser_execute response_callbacks ?buf ?len 0 (?m, rp_data self, rp_error self) =
      Inr (int ?p, s'\<lparr>hc_cs := 120, hc_nread := of_nat ?p\<rparr>, rp_data self, rp_error self)"
    unfolding httpclient_parser_execute_def using l b i r s u w v
    by (simp add: httpclient_parser_init_def del: length_append of_nat_add)
  then have "rp_execute self ?buf ?len True =
      Inr (of_nat ?p, ?self, ?after)"
    using u l(1) by (simp add: rp_execute_def del: length_append of_nat_add)
  moreover have "take (length chunk) ?after = chunk" "length ?after = length ?buf"
    by (simp_all add: overwrite_def crlf_def)
  moreover have "of_nat (length (hexs n @ crlf)) = (of_nat ?p :: u64)" by (simp add: crlf_def)
  moreover have "to_int (int n) = int n" if "n < 2 ^ 31"
    using that by (simp add: to_int_def signed_of_nat signed_take_bit_int_eq_self)
  moreover have "to_int (int n) = int n - 2 ^ 32" if "2 ^ 31 \<le> n" "n < 2 ^ 32"
    using that signed_wrap [of n] by (simp add: to_int_def)
  ultimately show ?thesis using s(1-3)
    by (intro exI [of _ ?self] exI [of _ ?after]) (simp add: rp_isFinished_def httpclient_parser_finish_def
      httpclient_parser_has_error_def httpclient_parser_is_finished_def)
qed

section \<open>Properties\<close>

text \<open>
  The line before a chunk of a body, its length in hexadecimal: \<open>execute\<close> starts afresh,
  takes the line and leaves the chunk at the start of the buffer, with the length read. A length
  of \<open>2^31\<close> or more is cut to an \<open>int\<close>: from there to \<open>2^32 - 1\<close> it is negative, and the chunk
  counts as the last one.
\<close>

theorem chunk_line:
  assumes "n < 2 ^ 63" "length (hexs n @ crlf @ chunk) < 2 ^ 31"
  shows "\<exists>self' buffer'. rp_execute self (hexs n @ crlf @ chunk @ CHR 0x00 # junk) (length (hexs n @ crlf @ chunk)) True =
      Inr (of_nat (length (hexs n @ crlf)), self', buffer') \<and>
    rp_isFinished self' = 1 \<and> rp_data self' = rp_data self \<and> take (length chunk) buffer' = chunk \<and>
    hc_content_len (rp_parser self') = to_int (int n) \<and> hc_chunks_done (rp_parser self') = (to_int (int n) \<le> 0) \<and>
    (n < 2 ^ 31 \<longrightarrow> to_int (int n) = int n) \<and>
    (2 ^ 31 \<le> n \<and> n < 2 ^ 32 \<longrightarrow> to_int (int n) = int n - 2 ^ 32)"
  using chunk_execute [OF assms, of self junk] by blast

definition client_memory :: httpclient_parser where
  "client_memory = \<lparr>hc_cs = 0, hc_body_start = 0, hc_content_len = 0, hc_status = 0, hc_chunked = False,
     hc_chunks_done = False, hc_close = False, hc_nread = 0, hc_mark = 0, hc_field_start = 0, hc_field_len = 0\<rparr>"

theorem chunk_line_witness:
  "\<exists>self' buffer'. rp_execute (HttpResponseParser_new client_memory) (hexs 2147483648 @ crlf @ ''x'' @ CHR 0x00 # [])
      (length (hexs 2147483648 @ crlf @ ''x'')) True = Inr (of_nat (length (hexs 2147483648 @ crlf)), self', buffer') \<and>
    take (length ''x'') buffer' = ''x'' \<and> hc_content_len (rp_parser self') = - 2147483648 \<and> hc_chunks_done (rp_parser self')"
proof -
  have l: "length (hexs 2147483648) \<le> 8"
    by (simp add: hexs_def show_base.simps)
  then have "length (hexs 2147483648 @ crlf @ ''x'') < 2 ^ 31" by (simp add: crlf_def)
  from chunk_line [OF _ this, of "HttpResponseParser_new client_memory" "[]"]
  show ?thesis by (auto simp del: length_append)
qed


end
