(* ===== verification/Uri_States.thy ===== *)
theory Uri_States
  imports Ragel
begin

text \<open>
  The machine of \<open>Uri::Create\<close> (\<open>sylar/uri.rl.cc\<close>), block by block: the actions named in the
  grammar, the \<open>ctr\<close> blocks with the actions they make, the 561 states, and the actions made at
  the end of the text.
\<close>

datatype uri_action =
    U_marku | U_markh | U_save_scheme | U_save_port | U_save_userinfo | U_save_host |
    U_save_path | U_save_query | U_save_fragment

section \<open>Blocks of actions\<close>

definition uri_ctr38 :: "uri_action target" where
  "uri_ctr38 = ([U_save_userinfo], 469)"

definition uri_ctr263 :: "uri_action target" where
  "uri_ctr263 = ([U_save_userinfo], 522)"

definition uri_ctr461 :: "uri_action target" where
  "uri_ctr461 = ([U_marku], 508)"

definition uri_ctr462 :: "uri_action target" where
  "uri_ctr462 = ([U_marku], 454)"

definition uri_ctr463 :: "uri_action target" where
  "uri_ctr463 = ([U_marku], 1)"

definition uri_ctr466 :: "uri_action target" where
  "uri_ctr466 = ([U_marku], 457)"

definition uri_ctr467 :: "uri_action target" where
  "uri_ctr467 = ([U_marku, U_save_query], 453)"

definition uri_ctr468 :: "uri_action target" where
  "uri_ctr468 = ([U_marku], 7)"

definition uri_ctr469 :: "uri_action target" where
  "uri_ctr469 = ([U_save_query], 453)"

definition uri_ctr472 :: "uri_action target" where
  "uri_ctr472 = ([U_markh], 9)"

definition uri_ctr473 :: "uri_action target" where
  "uri_ctr473 = ([U_markh], 467)"

definition uri_ctr474 :: "uri_action target" where
  "uri_ctr474 = ([U_markh, U_save_host], 453)"

definition uri_ctr475 :: "uri_action target" where
  "uri_ctr475 = ([U_markh], 31)"

definition uri_ctr476 :: "uri_action target" where
  "uri_ctr476 = ([U_markh, U_save_host], 455)"

definition uri_ctr477 :: "uri_action target" where
  "uri_ctr477 = ([U_markh], 490)"

definition uri_ctr478 :: "uri_action target" where
  "uri_ctr478 = ([U_markh], 504)"

definition uri_ctr479 :: "uri_action target" where
  "uri_ctr479 = ([U_markh], 506)"

definition uri_ctr480 :: "uri_action target" where
  "uri_ctr480 = ([U_markh], 505)"

definition uri_ctr481 :: "uri_action target" where
  "uri_ctr481 = ([U_markh, U_save_host], 468)"

definition uri_ctr482 :: "uri_action target" where
  "uri_ctr482 = ([U_markh, U_save_host], 456)"

definition uri_ctr483 :: "uri_action target" where
  "uri_ctr483 = ([U_markh, U_save_userinfo], 469)"

definition uri_ctr484 :: "uri_action target" where
  "uri_ctr484 = ([U_markh], 38)"

definition uri_ctr485 :: "uri_action target" where
  "uri_ctr485 = ([U_save_host], 453)"

definition uri_ctr486 :: "uri_action target" where
  "uri_ctr486 = ([U_save_host], 455)"

definition uri_ctr487 :: "uri_action target" where
  "uri_ctr487 = ([U_save_host], 461)"

definition uri_ctr488 :: "uri_action target" where
  "uri_ctr488 = ([U_save_host], 456)"

definition uri_ctr489 :: "uri_action target" where
  "uri_ctr489 = ([U_markh, U_save_port], 453)"

definition uri_ctr490 :: "uri_action target" where
  "uri_ctr490 = ([U_markh, U_save_port], 455)"

definition uri_ctr491 :: "uri_action target" where
  "uri_ctr491 = ([U_markh], 462)"

definition uri_ctr492 :: "uri_action target" where
  "uri_ctr492 = ([U_markh, U_save_port], 456)"

definition uri_ctr493 :: "uri_action target" where
  "uri_ctr493 = ([U_save_port], 453)"

definition uri_ctr494 :: "uri_action target" where
  "uri_ctr494 = ([U_save_port], 455)"

definition uri_ctr496 :: "uri_action target" where
  "uri_ctr496 = ([U_save_port], 456)"

definition uri_ctr499 :: "uri_action target" where
  "uri_ctr499 = ([U_save_host], 468)"

definition uri_ctr500 :: "uri_action target" where
  "uri_ctr500 = ([U_markh], 489)"

definition uri_ctr501 :: "uri_action target" where
  "uri_ctr501 = ([U_markh], 470)"

definition uri_ctr502 :: "uri_action target" where
  "uri_ctr502 = ([U_markh], 36)"

definition uri_ctr503 :: "uri_action target" where
  "uri_ctr503 = ([U_markh], 471)"

definition uri_ctr504 :: "uri_action target" where
  "uri_ctr504 = ([U_markh], 485)"

definition uri_ctr505 :: "uri_action target" where
  "uri_ctr505 = ([U_markh], 487)"

definition uri_ctr506 :: "uri_action target" where
  "uri_ctr506 = ([U_markh], 486)"

definition uri_ctr507 :: "uri_action target" where
  "uri_ctr507 = ([U_markh, U_save_host], 461)"

definition uri_ctr543 :: "uri_action target" where
  "uri_ctr543 = ([U_save_scheme], 509)"

definition uri_ctr546 :: "uri_action target" where
  "uri_ctr546 = ([U_markh], 229)"

definition uri_ctr547 :: "uri_action target" where
  "uri_ctr547 = ([U_markh], 520)"

definition uri_ctr548 :: "uri_action target" where
  "uri_ctr548 = ([U_markh, U_save_host, U_save_path], 453)"

definition uri_ctr549 :: "uri_action target" where
  "uri_ctr549 = ([U_markh], 253)"

definition uri_ctr550 :: "uri_action target" where
  "uri_ctr550 = ([U_markh, U_save_host], 513)"

definition uri_ctr551 :: "uri_action target" where
  "uri_ctr551 = ([U_markh], 543)"

definition uri_ctr552 :: "uri_action target" where
  "uri_ctr552 = ([U_markh], 557)"

definition uri_ctr553 :: "uri_action target" where
  "uri_ctr553 = ([U_markh], 559)"

definition uri_ctr554 :: "uri_action target" where
  "uri_ctr554 = ([U_markh], 558)"

definition uri_ctr555 :: "uri_action target" where
  "uri_ctr555 = ([U_markh, U_save_host], 521)"

definition uri_ctr556 :: "uri_action target" where
  "uri_ctr556 = ([U_markh, U_save_host, U_save_path], 456)"

definition uri_ctr557 :: "uri_action target" where
  "uri_ctr557 = ([U_markh, U_save_userinfo], 522)"

definition uri_ctr558 :: "uri_action target" where
  "uri_ctr558 = ([U_markh], 260)"

definition uri_ctr559 :: "uri_action target" where
  "uri_ctr559 = ([U_save_host, U_markh, U_save_path], 453)"

definition uri_ctr560 :: "uri_action target" where
  "uri_ctr560 = ([U_save_host, U_markh], 513)"

definition uri_ctr561 :: "uri_action target" where
  "uri_ctr561 = ([U_save_host], 514)"

definition uri_ctr562 :: "uri_action target" where
  "uri_ctr562 = ([U_save_host, U_markh, U_save_path], 456)"

definition uri_ctr563 :: "uri_action target" where
  "uri_ctr563 = ([U_save_path], 453)"

definition uri_ctr565 :: "uri_action target" where
  "uri_ctr565 = ([U_save_path], 456)"

definition uri_ctr566 :: "uri_action target" where
  "uri_ctr566 = ([U_markh, U_save_port, U_save_path], 453)"

definition uri_ctr567 :: "uri_action target" where
  "uri_ctr567 = ([U_markh, U_save_port], 513)"

definition uri_ctr568 :: "uri_action target" where
  "uri_ctr568 = ([U_markh], 515)"

definition uri_ctr569 :: "uri_action target" where
  "uri_ctr569 = ([U_markh, U_save_port, U_save_path], 456)"

definition uri_ctr570 :: "uri_action target" where
  "uri_ctr570 = ([U_save_port, U_markh, U_save_path], 453)"

definition uri_ctr571 :: "uri_action target" where
  "uri_ctr571 = ([U_save_port, U_markh], 513)"

definition uri_ctr573 :: "uri_action target" where
  "uri_ctr573 = ([U_save_port, U_markh, U_save_path], 456)"

definition uri_ctr576 :: "uri_action target" where
  "uri_ctr576 = ([U_save_host], 521)"

definition uri_ctr577 :: "uri_action target" where
  "uri_ctr577 = ([U_markh], 542)"

definition uri_ctr578 :: "uri_action target" where
  "uri_ctr578 = ([U_markh], 523)"

definition uri_ctr579 :: "uri_action target" where
  "uri_ctr579 = ([U_markh], 258)"

definition uri_ctr580 :: "uri_action target" where
  "uri_ctr580 = ([U_markh], 524)"

definition uri_ctr581 :: "uri_action target" where
  "uri_ctr581 = ([U_markh], 538)"

definition uri_ctr582 :: "uri_action target" where
  "uri_ctr582 = ([U_markh], 540)"

definition uri_ctr583 :: "uri_action target" where
  "uri_ctr583 = ([U_markh], 539)"

definition uri_ctr584 :: "uri_action target" where
  "uri_ctr584 = ([U_markh, U_save_host], 514)"

lemmas uri_ctrs =
  uri_ctr38_def uri_ctr263_def uri_ctr461_def uri_ctr462_def uri_ctr463_def uri_ctr466_def
  uri_ctr467_def uri_ctr468_def uri_ctr469_def uri_ctr472_def uri_ctr473_def uri_ctr474_def
  uri_ctr475_def uri_ctr476_def uri_ctr477_def uri_ctr478_def uri_ctr479_def uri_ctr480_def
  uri_ctr481_def uri_ctr482_def uri_ctr483_def uri_ctr484_def uri_ctr485_def uri_ctr486_def
  uri_ctr487_def uri_ctr488_def uri_ctr489_def uri_ctr490_def uri_ctr491_def uri_ctr492_def
  uri_ctr493_def uri_ctr494_def uri_ctr496_def uri_ctr499_def uri_ctr500_def uri_ctr501_def
  uri_ctr502_def uri_ctr503_def uri_ctr504_def uri_ctr505_def uri_ctr506_def uri_ctr507_def
  uri_ctr543_def uri_ctr546_def uri_ctr547_def uri_ctr548_def uri_ctr549_def uri_ctr550_def
  uri_ctr551_def uri_ctr552_def uri_ctr553_def uri_ctr554_def uri_ctr555_def uri_ctr556_def
  uri_ctr557_def uri_ctr558_def uri_ctr559_def uri_ctr560_def uri_ctr561_def uri_ctr562_def
  uri_ctr563_def uri_ctr565_def uri_ctr566_def uri_ctr567_def uri_ctr568_def uri_ctr569_def
  uri_ctr570_def uri_ctr571_def uri_ctr573_def uri_ctr576_def uri_ctr577_def uri_ctr578_def
  uri_ctr579_def uri_ctr580_def uri_ctr581_def uri_ctr582_def uri_ctr583_def uri_ctr584_def

section \<open>States\<close>

definition uri_st0 :: "int \<Rightarrow> uri_action target" where
  "uri_st0 c = st 0"

definition uri_st1 :: "int \<Rightarrow> uri_action target" where
  "uri_st1 c =
     (if c < 65 then (if 48 \<le> c \<and> c \<le> 57 then st 2 else st 0) else if c > 70 then (if
     97 \<le> c \<and> c \<le> 102 then st 2 else st 0) else st 2)"

definition uri_st2 :: "int \<Rightarrow> uri_action target" where
  "uri_st2 c =
     (if c < 65 then (if 48 \<le> c \<and> c \<le> 57 then st 454 else st 0) else if c > 70 then
     (if 97 \<le> c \<and> c \<le> 102 then st 454 else st 0) else st 454)"

definition uri_st3 :: "int \<Rightarrow> uri_action target" where
  "uri_st3 c =
     (if c < 65 then (if 48 \<le> c \<and> c \<le> 57 then st 4 else st 0) else if c > 70 then (if
     97 \<le> c \<and> c \<le> 102 then st 4 else st 0) else st 4)"

definition uri_st4 :: "int \<Rightarrow> uri_action target" where
  "uri_st4 c =
     (if c < 65 then (if 48 \<le> c \<and> c \<le> 57 then st 452 else st 0) else if c > 70 then
     (if 97 \<le> c \<and> c \<le> 102 then st 452 else st 0) else st 452)"

definition uri_st5 :: "int \<Rightarrow> uri_action target" where
  "uri_st5 c =
     (if c < 65 then (if 48 \<le> c \<and> c \<le> 57 then st 6 else st 0) else if c > 70 then (if
     97 \<le> c \<and> c \<le> 102 then st 6 else st 0) else st 6)"

definition uri_st6 :: "int \<Rightarrow> uri_action target" where
  "uri_st6 c =
     (if c < 65 then (if 48 \<le> c \<and> c \<le> 57 then st 455 else st 0) else if c > 70 then
     (if 97 \<le> c \<and> c \<le> 102 then st 455 else st 0) else st 455)"

definition uri_st7 :: "int \<Rightarrow> uri_action target" where
  "uri_st7 c =
     (if c < 65 then (if 48 \<le> c \<and> c \<le> 57 then st 8 else st 0) else if c > 70 then (if
     97 \<le> c \<and> c \<le> 102 then st 8 else st 0) else st 8)"

definition uri_st8 :: "int \<Rightarrow> uri_action target" where
  "uri_st8 c =
     (if c < 65 then (if 48 \<le> c \<and> c \<le> 57 then st 457 else st 0) else if c > 70 then
     (if 97 \<le> c \<and> c \<le> 102 then st 457 else st 0) else st 457)"

definition uri_st9 :: "int \<Rightarrow> uri_action target" where
  "uri_st9 c = (if 48 \<le> c \<and> c \<le> 52 then st 10 else st 0)"

definition uri_st10 :: "int \<Rightarrow> uri_action target" where
  "uri_st10 c = (if 48 \<le> c \<and> c \<le> 57 then st 11 else st 0)"

definition uri_st11 :: "int \<Rightarrow> uri_action target" where
  "uri_st11 c = (if c = 46 then st 12 else st 0)"

definition uri_st12 :: "int \<Rightarrow> uri_action target" where
  "uri_st12 c =
     (if c = 2 then st 13 else if c = 48 then st 15 else if c = 49 then st 27 else if c = 50 then
     st 29 else if 51 \<le> c \<and> c \<le> 57 then st 28 else st 0)"

definition uri_st13 :: "int \<Rightarrow> uri_action target" where
  "uri_st13 c = (if 48 \<le> c \<and> c \<le> 52 then st 14 else st 0)"

definition uri_st14 :: "int \<Rightarrow> uri_action target" where
  "uri_st14 c = (if 48 \<le> c \<and> c \<le> 57 then st 15 else st 0)"

definition uri_st15 :: "int \<Rightarrow> uri_action target" where
  "uri_st15 c = (if c = 46 then st 16 else st 0)"

definition uri_st16 :: "int \<Rightarrow> uri_action target" where
  "uri_st16 c =
     (if c = 2 then st 17 else if c = 48 then st 19 else if c = 49 then st 23 else if c = 50 then
     st 25 else if 51 \<le> c \<and> c \<le> 57 then st 24 else st 0)"

definition uri_st17 :: "int \<Rightarrow> uri_action target" where
  "uri_st17 c = (if 48 \<le> c \<and> c \<le> 52 then st 18 else st 0)"

definition uri_st18 :: "int \<Rightarrow> uri_action target" where
  "uri_st18 c = (if 48 \<le> c \<and> c \<le> 57 then st 19 else st 0)"

definition uri_st19 :: "int \<Rightarrow> uri_action target" where
  "uri_st19 c = (if c = 46 then st 20 else st 0)"

definition uri_st20 :: "int \<Rightarrow> uri_action target" where
  "uri_st20 c =
     (if c = 2 then st 21 else if c = 48 then st 460 else if c = 49 then st 463 else if c = 50
     then st 465 else if 51 \<le> c \<and> c \<le> 57 then st 464 else st 0)"

definition uri_st21 :: "int \<Rightarrow> uri_action target" where
  "uri_st21 c = (if 48 \<le> c \<and> c \<le> 52 then st 22 else st 0)"

definition uri_st22 :: "int \<Rightarrow> uri_action target" where
  "uri_st22 c = (if 48 \<le> c \<and> c \<le> 57 then st 460 else st 0)"

definition uri_st23 :: "int \<Rightarrow> uri_action target" where
  "uri_st23 c = (if c = 46 then st 20 else if 48 \<le> c \<and> c \<le> 57 then st 24 else st 0)"

definition uri_st24 :: "int \<Rightarrow> uri_action target" where
  "uri_st24 c = (if c = 46 then st 20 else if 48 \<le> c \<and> c \<le> 57 then st 19 else st 0)"

definition uri_st25 :: "int \<Rightarrow> uri_action target" where
  "uri_st25 c =
     (if c = 46 then st 20 else if c = 53 then st 26 else if 48 \<le> c \<and> c \<le> 57 then st
     19 else st 0)"

definition uri_st26 :: "int \<Rightarrow> uri_action target" where
  "uri_st26 c = (if c = 46 then st 20 else if 48 \<le> c \<and> c \<le> 53 then st 19 else st 0)"

definition uri_st27 :: "int \<Rightarrow> uri_action target" where
  "uri_st27 c = (if c = 46 then st 16 else if 48 \<le> c \<and> c \<le> 57 then st 28 else st 0)"

definition uri_st28 :: "int \<Rightarrow> uri_action target" where
  "uri_st28 c = (if c = 46 then st 16 else if 48 \<le> c \<and> c \<le> 57 then st 15 else st 0)"

definition uri_st29 :: "int \<Rightarrow> uri_action target" where
  "uri_st29 c =
     (if c = 46 then st 16 else if c = 53 then st 30 else if 48 \<le> c \<and> c \<le> 57 then st
     15 else st 0)"

definition uri_st30 :: "int \<Rightarrow> uri_action target" where
  "uri_st30 c = (if c = 46 then st 16 else if 48 \<le> c \<and> c \<le> 53 then st 15 else st 0)"

definition uri_st31 :: "int \<Rightarrow> uri_action target" where
  "uri_st31 c =
     (if c < 65 then (if 48 \<le> c \<and> c \<le> 57 then st 32 else st 0) else if c > 70 then
     (if 97 \<le> c \<and> c \<le> 102 then st 32 else st 0) else st 32)"

definition uri_st32 :: "int \<Rightarrow> uri_action target" where
  "uri_st32 c =
     (if c < 65 then (if 48 \<le> c \<and> c \<le> 57 then st 467 else st 0) else if c > 70 then
     (if 97 \<le> c \<and> c \<le> 102 then st 467 else st 0) else st 467)"

definition uri_st33 :: "int \<Rightarrow> uri_action target" where
  "uri_st33 c =
     (if c = 33 then st 33 else if c = 37 then st 34 else if c = 61 then st 33 else if c = 64 then
     uri_ctr38 else if c = 95 then st 33 else if c = 126 then st 33 else if c < 48 then (if 36
     \<le> c \<and> c \<le> 46 then st 33 else st 0) else if c > 59 then (if c > 90 then (if 97
     \<le> c \<and> c \<le> 122 then st 33 else st 0) else if c \<ge> 65 then st 33 else st 0)
     else st 33)"

definition uri_st34 :: "int \<Rightarrow> uri_action target" where
  "uri_st34 c =
     (if c < 65 then (if 48 \<le> c \<and> c \<le> 57 then st 35 else st 0) else if c > 70 then
     (if 97 \<le> c \<and> c \<le> 102 then st 35 else st 0) else st 35)"

definition uri_st35 :: "int \<Rightarrow> uri_action target" where
  "uri_st35 c =
     (if c < 65 then (if 48 \<le> c \<and> c \<le> 57 then st 33 else st 0) else if c > 70 then
     (if 97 \<le> c \<and> c \<le> 102 then st 33 else st 0) else st 33)"

definition uri_st36 :: "int \<Rightarrow> uri_action target" where
  "uri_st36 c =
     (if c < 65 then (if 48 \<le> c \<and> c \<le> 57 then st 37 else st 0) else if c > 70 then
     (if 97 \<le> c \<and> c \<le> 102 then st 37 else st 0) else st 37)"

definition uri_st37 :: "int \<Rightarrow> uri_action target" where
  "uri_st37 c =
     (if c < 65 then (if 48 \<le> c \<and> c \<le> 57 then st 470 else st 0) else if c > 70 then
     (if 97 \<le> c \<and> c \<le> 102 then st 470 else st 0) else st 470)"

definition uri_st38 :: "int \<Rightarrow> uri_action target" where
  "uri_st38 c =
     (if c = 58 then st 146 else if c = 118 then st 225 else if c < 65 then (if 48 \<le> c \<and>
     c \<le> 57 then st 39 else st 0) else if c > 70 then (if 97 \<le> c \<and> c \<le> 102 then
     st 39 else st 0) else st 39)"

definition uri_st39 :: "int \<Rightarrow> uri_action target" where
  "uri_st39 c =
     (if c = 58 then st 43 else if c < 65 then (if 48 \<le> c \<and> c \<le> 57 then st 40 else st
     0) else if c > 70 then (if 97 \<le> c \<and> c \<le> 102 then st 40 else st 0) else st 40)"

definition uri_st40 :: "int \<Rightarrow> uri_action target" where
  "uri_st40 c =
     (if c = 58 then st 43 else if c < 65 then (if 48 \<le> c \<and> c \<le> 57 then st 41 else st
     0) else if c > 70 then (if 97 \<le> c \<and> c \<le> 102 then st 41 else st 0) else st 41)"

definition uri_st41 :: "int \<Rightarrow> uri_action target" where
  "uri_st41 c =
     (if c = 58 then st 43 else if c < 65 then (if 48 \<le> c \<and> c \<le> 57 then st 42 else st
     0) else if c > 70 then (if 97 \<le> c \<and> c \<le> 102 then st 42 else st 0) else st 42)"

definition uri_st42 :: "int \<Rightarrow> uri_action target" where
  "uri_st42 c = (if c = 58 then st 43 else st 0)"

definition uri_st43 :: "int \<Rightarrow> uri_action target" where
  "uri_st43 c =
     (if c = 58 then st 141 else if c < 65 then (if 48 \<le> c \<and> c \<le> 57 then st 44 else
     st 0) else if c > 70 then (if 97 \<le> c \<and> c \<le> 102 then st 44 else st 0) else st 44)"

definition uri_st44 :: "int \<Rightarrow> uri_action target" where
  "uri_st44 c =
     (if c = 58 then st 48 else if c < 65 then (if 48 \<le> c \<and> c \<le> 57 then st 45 else st
     0) else if c > 70 then (if 97 \<le> c \<and> c \<le> 102 then st 45 else st 0) else st 45)"

definition uri_st45 :: "int \<Rightarrow> uri_action target" where
  "uri_st45 c =
     (if c = 58 then st 48 else if c < 65 then (if 48 \<le> c \<and> c \<le> 57 then st 46 else st
     0) else if c > 70 then (if 97 \<le> c \<and> c \<le> 102 then st 46 else st 0) else st 46)"

definition uri_st46 :: "int \<Rightarrow> uri_action target" where
  "uri_st46 c =
     (if c = 58 then st 48 else if c < 65 then (if 48 \<le> c \<and> c \<le> 57 then st 47 else st
     0) else if c > 70 then (if 97 \<le> c \<and> c \<le> 102 then st 47 else st 0) else st 47)"

definition uri_st47 :: "int \<Rightarrow> uri_action target" where
  "uri_st47 c = (if c = 58 then st 48 else st 0)"

definition uri_st48 :: "int \<Rightarrow> uri_action target" where
  "uri_st48 c =
     (if c = 58 then st 136 else if c < 65 then (if 48 \<le> c \<and> c \<le> 57 then st 49 else
     st 0) else if c > 70 then (if 97 \<le> c \<and> c \<le> 102 then st 49 else st 0) else st 49)"

definition uri_st49 :: "int \<Rightarrow> uri_action target" where
  "uri_st49 c =
     (if c = 58 then st 53 else if c < 65 then (if 48 \<le> c \<and> c \<le> 57 then st 50 else st
     0) else if c > 70 then (if 97 \<le> c \<and> c \<le> 102 then st 50 else st 0) else st 50)"

definition uri_st50 :: "int \<Rightarrow> uri_action target" where
  "uri_st50 c =
     (if c = 58 then st 53 else if c < 65 then (if 48 \<le> c \<and> c \<le> 57 then st 51 else st
     0) else if c > 70 then (if 97 \<le> c \<and> c \<le> 102 then st 51 else st 0) else st 51)"

definition uri_st51 :: "int \<Rightarrow> uri_action target" where
  "uri_st51 c =
     (if c = 58 then st 53 else if c < 65 then (if 48 \<le> c \<and> c \<le> 57 then st 52 else st
     0) else if c > 70 then (if 97 \<le> c \<and> c \<le> 102 then st 52 else st 0) else st 52)"

definition uri_st52 :: "int \<Rightarrow> uri_action target" where
  "uri_st52 c = (if c = 58 then st 53 else st 0)"

definition uri_st53 :: "int \<Rightarrow> uri_action target" where
  "uri_st53 c =
     (if c = 58 then st 131 else if c < 65 then (if 48 \<le> c \<and> c \<le> 57 then st 54 else
     st 0) else if c > 70 then (if 97 \<le> c \<and> c \<le> 102 then st 54 else st 0) else st 54)"

definition uri_st54 :: "int \<Rightarrow> uri_action target" where
  "uri_st54 c =
     (if c = 58 then st 58 else if c < 65 then (if 48 \<le> c \<and> c \<le> 57 then st 55 else st
     0) else if c > 70 then (if 97 \<le> c \<and> c \<le> 102 then st 55 else st 0) else st 55)"

definition uri_st55 :: "int \<Rightarrow> uri_action target" where
  "uri_st55 c =
     (if c = 58 then st 58 else if c < 65 then (if 48 \<le> c \<and> c \<le> 57 then st 56 else st
     0) else if c > 70 then (if 97 \<le> c \<and> c \<le> 102 then st 56 else st 0) else st 56)"

definition uri_st56 :: "int \<Rightarrow> uri_action target" where
  "uri_st56 c =
     (if c = 58 then st 58 else if c < 65 then (if 48 \<le> c \<and> c \<le> 57 then st 57 else st
     0) else if c > 70 then (if 97 \<le> c \<and> c \<le> 102 then st 57 else st 0) else st 57)"

definition uri_st57 :: "int \<Rightarrow> uri_action target" where
  "uri_st57 c = (if c = 58 then st 58 else st 0)"

definition uri_st58 :: "int \<Rightarrow> uri_action target" where
  "uri_st58 c =
     (if c = 58 then st 126 else if c < 65 then (if 48 \<le> c \<and> c \<le> 57 then st 59 else
     st 0) else if c > 70 then (if 97 \<le> c \<and> c \<le> 102 then st 59 else st 0) else st 59)"

definition uri_st59 :: "int \<Rightarrow> uri_action target" where
  "uri_st59 c =
     (if c = 58 then st 63 else if c < 65 then (if 48 \<le> c \<and> c \<le> 57 then st 60 else st
     0) else if c > 70 then (if 97 \<le> c \<and> c \<le> 102 then st 60 else st 0) else st 60)"

definition uri_st60 :: "int \<Rightarrow> uri_action target" where
  "uri_st60 c =
     (if c = 58 then st 63 else if c < 65 then (if 48 \<le> c \<and> c \<le> 57 then st 61 else st
     0) else if c > 70 then (if 97 \<le> c \<and> c \<le> 102 then st 61 else st 0) else st 61)"

definition uri_st61 :: "int \<Rightarrow> uri_action target" where
  "uri_st61 c =
     (if c = 58 then st 63 else if c < 65 then (if 48 \<le> c \<and> c \<le> 57 then st 62 else st
     0) else if c > 70 then (if 97 \<le> c \<and> c \<le> 102 then st 62 else st 0) else st 62)"

definition uri_st62 :: "int \<Rightarrow> uri_action target" where
  "uri_st62 c = (if c = 58 then st 63 else st 0)"

definition uri_st63 :: "int \<Rightarrow> uri_action target" where
  "uri_st63 c =
     (if c = 58 then st 113 else if c < 65 then (if 48 \<le> c \<and> c \<le> 57 then st 64 else
     st 0) else if c > 70 then (if 97 \<le> c \<and> c \<le> 102 then st 64 else st 0) else st 64)"

definition uri_st64 :: "int \<Rightarrow> uri_action target" where
  "uri_st64 c =
     (if c = 58 then st 68 else if c < 65 then (if 48 \<le> c \<and> c \<le> 57 then st 65 else st
     0) else if c > 70 then (if 97 \<le> c \<and> c \<le> 102 then st 65 else st 0) else st 65)"

definition uri_st65 :: "int \<Rightarrow> uri_action target" where
  "uri_st65 c =
     (if c = 58 then st 68 else if c < 65 then (if 48 \<le> c \<and> c \<le> 57 then st 66 else st
     0) else if c > 70 then (if 97 \<le> c \<and> c \<le> 102 then st 66 else st 0) else st 66)"

definition uri_st66 :: "int \<Rightarrow> uri_action target" where
  "uri_st66 c =
     (if c = 58 then st 68 else if c < 65 then (if 48 \<le> c \<and> c \<le> 57 then st 67 else st
     0) else if c > 70 then (if 97 \<le> c \<and> c \<le> 102 then st 67 else st 0) else st 67)"

definition uri_st67 :: "int \<Rightarrow> uri_action target" where
  "uri_st67 c = (if c = 58 then st 68 else st 0)"

definition uri_st68 :: "int \<Rightarrow> uri_action target" where
  "uri_st68 c =
     (if c = 2 then st 69 else if c = 48 then st 96 else if c = 49 then st 104 else if c = 50 then
     st 107 else if c = 58 then st 111 else if c < 65 then (if 51 \<le> c \<and> c \<le> 57 then
     st 110 else st 0) else if c > 70 then (if 97 \<le> c \<and> c \<le> 102 then st 112 else st
     0) else st 112)"

definition uri_st69 :: "int \<Rightarrow> uri_action target" where
  "uri_st69 c = (if 48 \<le> c \<and> c \<le> 52 then st 70 else st 0)"

definition uri_st70 :: "int \<Rightarrow> uri_action target" where
  "uri_st70 c = (if 48 \<le> c \<and> c \<le> 57 then st 71 else st 0)"

definition uri_st71 :: "int \<Rightarrow> uri_action target" where
  "uri_st71 c = (if c = 46 then st 72 else st 0)"

definition uri_st72 :: "int \<Rightarrow> uri_action target" where
  "uri_st72 c =
     (if c = 2 then st 73 else if c = 48 then st 75 else if c = 49 then st 92 else if c = 50 then
     st 94 else if 51 \<le> c \<and> c \<le> 57 then st 93 else st 0)"

definition uri_st73 :: "int \<Rightarrow> uri_action target" where
  "uri_st73 c = (if 48 \<le> c \<and> c \<le> 52 then st 74 else st 0)"

definition uri_st74 :: "int \<Rightarrow> uri_action target" where
  "uri_st74 c = (if 48 \<le> c \<and> c \<le> 57 then st 75 else st 0)"

definition uri_st75 :: "int \<Rightarrow> uri_action target" where
  "uri_st75 c = (if c = 46 then st 76 else st 0)"

definition uri_st76 :: "int \<Rightarrow> uri_action target" where
  "uri_st76 c =
     (if c = 2 then st 77 else if c = 48 then st 79 else if c = 49 then st 88 else if c = 50 then
     st 90 else if 51 \<le> c \<and> c \<le> 57 then st 89 else st 0)"

definition uri_st77 :: "int \<Rightarrow> uri_action target" where
  "uri_st77 c = (if 48 \<le> c \<and> c \<le> 52 then st 78 else st 0)"

definition uri_st78 :: "int \<Rightarrow> uri_action target" where
  "uri_st78 c = (if 48 \<le> c \<and> c \<le> 57 then st 79 else st 0)"

definition uri_st79 :: "int \<Rightarrow> uri_action target" where
  "uri_st79 c = (if c = 46 then st 80 else st 0)"

definition uri_st80 :: "int \<Rightarrow> uri_action target" where
  "uri_st80 c =
     (if c = 2 then st 81 else if c = 48 then st 83 else if c = 49 then st 84 else if c = 50 then
     st 86 else if 51 \<le> c \<and> c \<le> 57 then st 85 else st 0)"

definition uri_st81 :: "int \<Rightarrow> uri_action target" where
  "uri_st81 c = (if 48 \<le> c \<and> c \<le> 52 then st 82 else st 0)"

definition uri_st82 :: "int \<Rightarrow> uri_action target" where
  "uri_st82 c = (if 48 \<le> c \<and> c \<le> 57 then st 83 else st 0)"

definition uri_st83 :: "int \<Rightarrow> uri_action target" where
  "uri_st83 c = (if c = 93 then st 460 else st 0)"

definition uri_st84 :: "int \<Rightarrow> uri_action target" where
  "uri_st84 c = (if c = 93 then st 460 else if 48 \<le> c \<and> c \<le> 57 then st 85 else st 0)"

definition uri_st85 :: "int \<Rightarrow> uri_action target" where
  "uri_st85 c = (if c = 93 then st 460 else if 48 \<le> c \<and> c \<le> 57 then st 83 else st 0)"

definition uri_st86 :: "int \<Rightarrow> uri_action target" where
  "uri_st86 c =
     (if c = 53 then st 87 else if c = 93 then st 460 else if 48 \<le> c \<and> c \<le> 57 then st
     83 else st 0)"

definition uri_st87 :: "int \<Rightarrow> uri_action target" where
  "uri_st87 c = (if c = 93 then st 460 else if 48 \<le> c \<and> c \<le> 53 then st 83 else st 0)"

definition uri_st88 :: "int \<Rightarrow> uri_action target" where
  "uri_st88 c = (if c = 46 then st 80 else if 48 \<le> c \<and> c \<le> 57 then st 89 else st 0)"

definition uri_st89 :: "int \<Rightarrow> uri_action target" where
  "uri_st89 c = (if c = 46 then st 80 else if 48 \<le> c \<and> c \<le> 57 then st 79 else st 0)"

definition uri_st90 :: "int \<Rightarrow> uri_action target" where
  "uri_st90 c =
     (if c = 46 then st 80 else if c = 53 then st 91 else if 48 \<le> c \<and> c \<le> 57 then st
     79 else st 0)"

definition uri_st91 :: "int \<Rightarrow> uri_action target" where
  "uri_st91 c = (if c = 46 then st 80 else if 48 \<le> c \<and> c \<le> 53 then st 79 else st 0)"

definition uri_st92 :: "int \<Rightarrow> uri_action target" where
  "uri_st92 c = (if c = 46 then st 76 else if 48 \<le> c \<and> c \<le> 57 then st 93 else st 0)"

definition uri_st93 :: "int \<Rightarrow> uri_action target" where
  "uri_st93 c = (if c = 46 then st 76 else if 48 \<le> c \<and> c \<le> 57 then st 75 else st 0)"

definition uri_st94 :: "int \<Rightarrow> uri_action target" where
  "uri_st94 c =
     (if c = 46 then st 76 else if c = 53 then st 95 else if 48 \<le> c \<and> c \<le> 57 then st
     75 else st 0)"

definition uri_st95 :: "int \<Rightarrow> uri_action target" where
  "uri_st95 c = (if c = 46 then st 76 else if 48 \<le> c \<and> c \<le> 53 then st 75 else st 0)"

definition uri_st96 :: "int \<Rightarrow> uri_action target" where
  "uri_st96 c =
     (if c = 46 then st 72 else if c = 58 then st 100 else if c < 65 then (if 48 \<le> c \<and> c
     \<le> 57 then st 97 else st 0) else if c > 70 then (if 97 \<le> c \<and> c \<le> 102 then st
     97 else st 0) else st 97)"

definition uri_st97 :: "int \<Rightarrow> uri_action target" where
  "uri_st97 c =
     (if c = 58 then st 100 else if c < 65 then (if 48 \<le> c \<and> c \<le> 57 then st 98 else
     st 0) else if c > 70 then (if 97 \<le> c \<and> c \<le> 102 then st 98 else st 0) else st 98)"

definition uri_st98 :: "int \<Rightarrow> uri_action target" where
  "uri_st98 c =
     (if c = 58 then st 100 else if c < 65 then (if 48 \<le> c \<and> c \<le> 57 then st 99 else
     st 0) else if c > 70 then (if 97 \<le> c \<and> c \<le> 102 then st 99 else st 0) else st 99)"

definition uri_st99 :: "int \<Rightarrow> uri_action target" where
  "uri_st99 c = (if c = 58 then st 100 else st 0)"

definition uri_st100 :: "int \<Rightarrow> uri_action target" where
  "uri_st100 c =
     (if c = 58 then st 83 else if c < 65 then (if 48 \<le> c \<and> c \<le> 57 then st 101 else
     st 0) else if c > 70 then (if 97 \<le> c \<and> c \<le> 102 then st 101 else st 0) else st
     101)"

definition uri_st101 :: "int \<Rightarrow> uri_action target" where
  "uri_st101 c =
     (if c = 93 then st 460 else if c < 65 then (if 48 \<le> c \<and> c \<le> 57 then st 102 else
     st 0) else if c > 70 then (if 97 \<le> c \<and> c \<le> 102 then st 102 else st 0) else st
     102)"

definition uri_st102 :: "int \<Rightarrow> uri_action target" where
  "uri_st102 c =
     (if c = 93 then st 460 else if c < 65 then (if 48 \<le> c \<and> c \<le> 57 then st 103 else
     st 0) else if c > 70 then (if 97 \<le> c \<and> c \<le> 102 then st 103 else st 0) else st
     103)"

definition uri_st103 :: "int \<Rightarrow> uri_action target" where
  "uri_st103 c =
     (if c = 93 then st 460 else if c < 65 then (if 48 \<le> c \<and> c \<le> 57 then st 83 else
     st 0) else if c > 70 then (if 97 \<le> c \<and> c \<le> 102 then st 83 else st 0) else st 83)"

definition uri_st104 :: "int \<Rightarrow> uri_action target" where
  "uri_st104 c =
     (if c = 46 then st 72 else if c = 58 then st 100 else if c < 65 then (if 48 \<le> c \<and> c
     \<le> 57 then st 105 else st 0) else if c > 70 then (if 97 \<le> c \<and> c \<le> 102 then
     st 97 else st 0) else st 97)"

definition uri_st105 :: "int \<Rightarrow> uri_action target" where
  "uri_st105 c =
     (if c = 46 then st 72 else if c = 58 then st 100 else if c < 65 then (if 48 \<le> c \<and> c
     \<le> 57 then st 106 else st 0) else if c > 70 then (if 97 \<le> c \<and> c \<le> 102 then
     st 98 else st 0) else st 98)"

definition uri_st106 :: "int \<Rightarrow> uri_action target" where
  "uri_st106 c =
     (if c = 46 then st 72 else if c = 58 then st 100 else if c < 65 then (if 48 \<le> c \<and> c
     \<le> 57 then st 99 else st 0) else if c > 70 then (if 97 \<le> c \<and> c \<le> 102 then st
     99 else st 0) else st 99)"

definition uri_st107 :: "int \<Rightarrow> uri_action target" where
  "uri_st107 c =
     (if c = 46 then st 72 else if c = 53 then st 109 else if c = 58 then st 100 else if c < 65
     then (if 48 \<le> c \<and> c \<le> 57 then st 108 else st 0) else if c > 70 then (if 97
     \<le> c \<and> c \<le> 102 then st 97 else st 0) else st 97)"

definition uri_st108 :: "int \<Rightarrow> uri_action target" where
  "uri_st108 c =
     (if c = 46 then st 72 else if c = 58 then st 100 else if c < 65 then (if 48 \<le> c \<and> c
     \<le> 57 then st 98 else st 0) else if c > 70 then (if 97 \<le> c \<and> c \<le> 102 then st
     98 else st 0) else st 98)"

definition uri_st109 :: "int \<Rightarrow> uri_action target" where
  "uri_st109 c =
     (if c = 46 then st 72 else if c = 58 then st 100 else if c < 54 then (if 48 \<le> c then st
     106 else st 0) else if c > 57 then (if c > 70 then (if 97 \<le> c \<and> c \<le> 102 then st
     98 else st 0) else if c \<ge> 65 then st 98 else st 0) else st 98)"

definition uri_st110 :: "int \<Rightarrow> uri_action target" where
  "uri_st110 c =
     (if c = 46 then st 72 else if c = 58 then st 100 else if c < 65 then (if 48 \<le> c \<and> c
     \<le> 57 then st 108 else st 0) else if c > 70 then (if 97 \<le> c \<and> c \<le> 102 then
     st 97 else st 0) else st 97)"

definition uri_st111 :: "int \<Rightarrow> uri_action target" where
  "uri_st111 c =
     (if c < 65 then (if 48 \<le> c \<and> c \<le> 57 then st 101 else st 0) else if c > 70 then
     (if 97 \<le> c \<and> c \<le> 102 then st 101 else st 0) else st 101)"

definition uri_st112 :: "int \<Rightarrow> uri_action target" where
  "uri_st112 c =
     (if c = 58 then st 100 else if c < 65 then (if 48 \<le> c \<and> c \<le> 57 then st 97 else
     st 0) else if c > 70 then (if 97 \<le> c \<and> c \<le> 102 then st 97 else st 0) else st 97)"

definition uri_st113 :: "int \<Rightarrow> uri_action target" where
  "uri_st113 c =
     (if c = 2 then st 69 else if c = 48 then st 114 else if c = 49 then st 118 else if c = 50
     then st 121 else if c < 65 then (if 51 \<le> c \<and> c \<le> 57 then st 124 else st 0) else
     if c > 70 then (if 97 \<le> c \<and> c \<le> 102 then st 125 else st 0) else st 125)"

definition uri_st114 :: "int \<Rightarrow> uri_action target" where
  "uri_st114 c =
     (if c = 46 then st 72 else if c = 58 then st 111 else if c < 65 then (if 48 \<le> c \<and> c
     \<le> 57 then st 115 else st 0) else if c > 70 then (if 97 \<le> c \<and> c \<le> 102 then
     st 115 else st 0) else st 115)"

definition uri_st115 :: "int \<Rightarrow> uri_action target" where
  "uri_st115 c =
     (if c = 58 then st 111 else if c < 65 then (if 48 \<le> c \<and> c \<le> 57 then st 116 else
     st 0) else if c > 70 then (if 97 \<le> c \<and> c \<le> 102 then st 116 else st 0) else st
     116)"

definition uri_st116 :: "int \<Rightarrow> uri_action target" where
  "uri_st116 c =
     (if c = 58 then st 111 else if c < 65 then (if 48 \<le> c \<and> c \<le> 57 then st 117 else
     st 0) else if c > 70 then (if 97 \<le> c \<and> c \<le> 102 then st 117 else st 0) else st
     117)"

definition uri_st117 :: "int \<Rightarrow> uri_action target" where
  "uri_st117 c = (if c = 58 then st 111 else st 0)"

definition uri_st118 :: "int \<Rightarrow> uri_action target" where
  "uri_st118 c =
     (if c = 46 then st 72 else if c = 58 then st 111 else if c < 65 then (if 48 \<le> c \<and> c
     \<le> 57 then st 119 else st 0) else if c > 70 then (if 97 \<le> c \<and> c \<le> 102 then
     st 115 else st 0) else st 115)"

definition uri_st119 :: "int \<Rightarrow> uri_action target" where
  "uri_st119 c =
     (if c = 46 then st 72 else if c = 58 then st 111 else if c < 65 then (if 48 \<le> c \<and> c
     \<le> 57 then st 120 else st 0) else if c > 70 then (if 97 \<le> c \<and> c \<le> 102 then
     st 116 else st 0) else st 116)"

definition uri_st120 :: "int \<Rightarrow> uri_action target" where
  "uri_st120 c =
     (if c = 46 then st 72 else if c = 58 then st 111 else if c < 65 then (if 48 \<le> c \<and> c
     \<le> 57 then st 117 else st 0) else if c > 70 then (if 97 \<le> c \<and> c \<le> 102 then
     st 117 else st 0) else st 117)"

definition uri_st121 :: "int \<Rightarrow> uri_action target" where
  "uri_st121 c =
     (if c = 46 then st 72 else if c = 53 then st 123 else if c = 58 then st 111 else if c < 65
     then (if 48 \<le> c \<and> c \<le> 57 then st 122 else st 0) else if c > 70 then (if 97
     \<le> c \<and> c \<le> 102 then st 115 else st 0) else st 115)"

definition uri_st122 :: "int \<Rightarrow> uri_action target" where
  "uri_st122 c =
     (if c = 46 then st 72 else if c = 58 then st 111 else if c < 65 then (if 48 \<le> c \<and> c
     \<le> 57 then st 116 else st 0) else if c > 70 then (if 97 \<le> c \<and> c \<le> 102 then
     st 116 else st 0) else st 116)"

definition uri_st123 :: "int \<Rightarrow> uri_action target" where
  "uri_st123 c =
     (if c = 46 then st 72 else if c = 58 then st 111 else if c < 54 then (if 48 \<le> c then st
     120 else st 0) else if c > 57 then (if c > 70 then (if 97 \<le> c \<and> c \<le> 102 then st
     116 else st 0) else if c \<ge> 65 then st 116 else st 0) else st 116)"

definition uri_st124 :: "int \<Rightarrow> uri_action target" where
  "uri_st124 c =
     (if c = 46 then st 72 else if c = 58 then st 111 else if c < 65 then (if 48 \<le> c \<and> c
     \<le> 57 then st 122 else st 0) else if c > 70 then (if 97 \<le> c \<and> c \<le> 102 then
     st 115 else st 0) else st 115)"

definition uri_st125 :: "int \<Rightarrow> uri_action target" where
  "uri_st125 c =
     (if c = 58 then st 111 else if c < 65 then (if 48 \<le> c \<and> c \<le> 57 then st 115 else
     st 0) else if c > 70 then (if 97 \<le> c \<and> c \<le> 102 then st 115 else st 0) else st
     115)"

definition uri_st126 :: "int \<Rightarrow> uri_action target" where
  "uri_st126 c =
     (if c < 65 then (if 48 \<le> c \<and> c \<le> 57 then st 127 else st 0) else if c > 70 then
     (if 97 \<le> c \<and> c \<le> 102 then st 127 else st 0) else st 127)"

definition uri_st127 :: "int \<Rightarrow> uri_action target" where
  "uri_st127 c =
     (if c = 58 then st 113 else if c < 65 then (if 48 \<le> c \<and> c \<le> 57 then st 128 else
     st 0) else if c > 70 then (if 97 \<le> c \<and> c \<le> 102 then st 128 else st 0) else st
     128)"

definition uri_st128 :: "int \<Rightarrow> uri_action target" where
  "uri_st128 c =
     (if c = 58 then st 113 else if c < 65 then (if 48 \<le> c \<and> c \<le> 57 then st 129 else
     st 0) else if c > 70 then (if 97 \<le> c \<and> c \<le> 102 then st 129 else st 0) else st
     129)"

definition uri_st129 :: "int \<Rightarrow> uri_action target" where
  "uri_st129 c =
     (if c = 58 then st 113 else if c < 65 then (if 48 \<le> c \<and> c \<le> 57 then st 130 else
     st 0) else if c > 70 then (if 97 \<le> c \<and> c \<le> 102 then st 130 else st 0) else st
     130)"

definition uri_st130 :: "int \<Rightarrow> uri_action target" where
  "uri_st130 c = (if c = 58 then st 113 else st 0)"

definition uri_st131 :: "int \<Rightarrow> uri_action target" where
  "uri_st131 c =
     (if c < 65 then (if 48 \<le> c \<and> c \<le> 57 then st 132 else st 0) else if c > 70 then
     (if 97 \<le> c \<and> c \<le> 102 then st 132 else st 0) else st 132)"

definition uri_st132 :: "int \<Rightarrow> uri_action target" where
  "uri_st132 c =
     (if c = 58 then st 126 else if c < 65 then (if 48 \<le> c \<and> c \<le> 57 then st 133 else
     st 0) else if c > 70 then (if 97 \<le> c \<and> c \<le> 102 then st 133 else st 0) else st
     133)"

definition uri_st133 :: "int \<Rightarrow> uri_action target" where
  "uri_st133 c =
     (if c = 58 then st 126 else if c < 65 then (if 48 \<le> c \<and> c \<le> 57 then st 134 else
     st 0) else if c > 70 then (if 97 \<le> c \<and> c \<le> 102 then st 134 else st 0) else st
     134)"

definition uri_st134 :: "int \<Rightarrow> uri_action target" where
  "uri_st134 c =
     (if c = 58 then st 126 else if c < 65 then (if 48 \<le> c \<and> c \<le> 57 then st 135 else
     st 0) else if c > 70 then (if 97 \<le> c \<and> c \<le> 102 then st 135 else st 0) else st
     135)"

definition uri_st135 :: "int \<Rightarrow> uri_action target" where
  "uri_st135 c = (if c = 58 then st 126 else st 0)"

definition uri_st136 :: "int \<Rightarrow> uri_action target" where
  "uri_st136 c =
     (if c < 65 then (if 48 \<le> c \<and> c \<le> 57 then st 137 else st 0) else if c > 70 then
     (if 97 \<le> c \<and> c \<le> 102 then st 137 else st 0) else st 137)"

definition uri_st137 :: "int \<Rightarrow> uri_action target" where
  "uri_st137 c =
     (if c = 58 then st 131 else if c < 65 then (if 48 \<le> c \<and> c \<le> 57 then st 138 else
     st 0) else if c > 70 then (if 97 \<le> c \<and> c \<le> 102 then st 138 else st 0) else st
     138)"

definition uri_st138 :: "int \<Rightarrow> uri_action target" where
  "uri_st138 c =
     (if c = 58 then st 131 else if c < 65 then (if 48 \<le> c \<and> c \<le> 57 then st 139 else
     st 0) else if c > 70 then (if 97 \<le> c \<and> c \<le> 102 then st 139 else st 0) else st
     139)"

definition uri_st139 :: "int \<Rightarrow> uri_action target" where
  "uri_st139 c =
     (if c = 58 then st 131 else if c < 65 then (if 48 \<le> c \<and> c \<le> 57 then st 140 else
     st 0) else if c > 70 then (if 97 \<le> c \<and> c \<le> 102 then st 140 else st 0) else st
     140)"

definition uri_st140 :: "int \<Rightarrow> uri_action target" where
  "uri_st140 c = (if c = 58 then st 131 else st 0)"

definition uri_st141 :: "int \<Rightarrow> uri_action target" where
  "uri_st141 c =
     (if c < 65 then (if 48 \<le> c \<and> c \<le> 57 then st 142 else st 0) else if c > 70 then
     (if 97 \<le> c \<and> c \<le> 102 then st 142 else st 0) else st 142)"

definition uri_st142 :: "int \<Rightarrow> uri_action target" where
  "uri_st142 c =
     (if c = 58 then st 136 else if c < 65 then (if 48 \<le> c \<and> c \<le> 57 then st 143 else
     st 0) else if c > 70 then (if 97 \<le> c \<and> c \<le> 102 then st 143 else st 0) else st
     143)"

definition uri_st143 :: "int \<Rightarrow> uri_action target" where
  "uri_st143 c =
     (if c = 58 then st 136 else if c < 65 then (if 48 \<le> c \<and> c \<le> 57 then st 144 else
     st 0) else if c > 70 then (if 97 \<le> c \<and> c \<le> 102 then st 144 else st 0) else st
     144)"

definition uri_st144 :: "int \<Rightarrow> uri_action target" where
  "uri_st144 c =
     (if c = 58 then st 136 else if c < 65 then (if 48 \<le> c \<and> c \<le> 57 then st 145 else
     st 0) else if c > 70 then (if 97 \<le> c \<and> c \<le> 102 then st 145 else st 0) else st
     145)"

definition uri_st145 :: "int \<Rightarrow> uri_action target" where
  "uri_st145 c = (if c = 58 then st 136 else st 0)"

definition uri_st146 :: "int \<Rightarrow> uri_action target" where
  "uri_st146 c = (if c = 58 then st 147 else st 0)"

definition uri_st147 :: "int \<Rightarrow> uri_action target" where
  "uri_st147 c =
     (if c = 2 then st 69 else if c = 48 then st 148 else if c = 49 then st 217 else if c = 50
     then st 220 else if c = 93 then st 460 else if c < 65 then (if 51 \<le> c \<and> c \<le> 57
     then st 223 else st 0) else if c > 70 then (if 97 \<le> c \<and> c \<le> 102 then st 224
     else st 0) else st 224)"

definition uri_st148 :: "int \<Rightarrow> uri_action target" where
  "uri_st148 c =
     (if c = 46 then st 72 else if c = 58 then st 152 else if c = 93 then st 460 else if c < 65
     then (if 48 \<le> c \<and> c \<le> 57 then st 149 else st 0) else if c > 70 then (if 97
     \<le> c \<and> c \<le> 102 then st 149 else st 0) else st 149)"

definition uri_st149 :: "int \<Rightarrow> uri_action target" where
  "uri_st149 c =
     (if c = 58 then st 152 else if c = 93 then st 460 else if c < 65 then (if 48 \<le> c \<and> c
     \<le> 57 then st 150 else st 0) else if c > 70 then (if 97 \<le> c \<and> c \<le> 102 then
     st 150 else st 0) else st 150)"

definition uri_st150 :: "int \<Rightarrow> uri_action target" where
  "uri_st150 c =
     (if c = 58 then st 152 else if c = 93 then st 460 else if c < 65 then (if 48 \<le> c \<and> c
     \<le> 57 then st 151 else st 0) else if c > 70 then (if 97 \<le> c \<and> c \<le> 102 then
     st 151 else st 0) else st 151)"

definition uri_st151 :: "int \<Rightarrow> uri_action target" where
  "uri_st151 c = (if c = 58 then st 152 else if c = 93 then st 460 else st 0)"

definition uri_st152 :: "int \<Rightarrow> uri_action target" where
  "uri_st152 c =
     (if c = 2 then st 69 else if c = 48 then st 153 else if c = 49 then st 209 else if c = 50
     then st 212 else if c < 65 then (if 51 \<le> c \<and> c \<le> 57 then st 215 else st 0) else
     if c > 70 then (if 97 \<le> c \<and> c \<le> 102 then st 216 else st 0) else st 216)"

definition uri_st153 :: "int \<Rightarrow> uri_action target" where
  "uri_st153 c =
     (if c = 46 then st 72 else if c = 58 then st 157 else if c = 93 then st 460 else if c < 65
     then (if 48 \<le> c \<and> c \<le> 57 then st 154 else st 0) else if c > 70 then (if 97
     \<le> c \<and> c \<le> 102 then st 154 else st 0) else st 154)"

definition uri_st154 :: "int \<Rightarrow> uri_action target" where
  "uri_st154 c =
     (if c = 58 then st 157 else if c = 93 then st 460 else if c < 65 then (if 48 \<le> c \<and> c
     \<le> 57 then st 155 else st 0) else if c > 70 then (if 97 \<le> c \<and> c \<le> 102 then
     st 155 else st 0) else st 155)"

definition uri_st155 :: "int \<Rightarrow> uri_action target" where
  "uri_st155 c =
     (if c = 58 then st 157 else if c = 93 then st 460 else if c < 65 then (if 48 \<le> c \<and> c
     \<le> 57 then st 156 else st 0) else if c > 70 then (if 97 \<le> c \<and> c \<le> 102 then
     st 156 else st 0) else st 156)"

definition uri_st156 :: "int \<Rightarrow> uri_action target" where
  "uri_st156 c = (if c = 58 then st 157 else if c = 93 then st 460 else st 0)"

definition uri_st157 :: "int \<Rightarrow> uri_action target" where
  "uri_st157 c =
     (if c = 2 then st 69 else if c = 48 then st 158 else if c = 49 then st 201 else if c = 50
     then st 204 else if c < 65 then (if 51 \<le> c \<and> c \<le> 57 then st 207 else st 0) else
     if c > 70 then (if 97 \<le> c \<and> c \<le> 102 then st 208 else st 0) else st 208)"

definition uri_st158 :: "int \<Rightarrow> uri_action target" where
  "uri_st158 c =
     (if c = 46 then st 72 else if c = 58 then st 162 else if c = 93 then st 460 else if c < 65
     then (if 48 \<le> c \<and> c \<le> 57 then st 159 else st 0) else if c > 70 then (if 97
     \<le> c \<and> c \<le> 102 then st 159 else st 0) else st 159)"

definition uri_st159 :: "int \<Rightarrow> uri_action target" where
  "uri_st159 c =
     (if c = 58 then st 162 else if c = 93 then st 460 else if c < 65 then (if 48 \<le> c \<and> c
     \<le> 57 then st 160 else st 0) else if c > 70 then (if 97 \<le> c \<and> c \<le> 102 then
     st 160 else st 0) else st 160)"

definition uri_st160 :: "int \<Rightarrow> uri_action target" where
  "uri_st160 c =
     (if c = 58 then st 162 else if c = 93 then st 460 else if c < 65 then (if 48 \<le> c \<and> c
     \<le> 57 then st 161 else st 0) else if c > 70 then (if 97 \<le> c \<and> c \<le> 102 then
     st 161 else st 0) else st 161)"

definition uri_st161 :: "int \<Rightarrow> uri_action target" where
  "uri_st161 c = (if c = 58 then st 162 else if c = 93 then st 460 else st 0)"

definition uri_st162 :: "int \<Rightarrow> uri_action target" where
  "uri_st162 c =
     (if c = 2 then st 69 else if c = 48 then st 163 else if c = 49 then st 193 else if c = 50
     then st 196 else if c < 65 then (if 51 \<le> c \<and> c \<le> 57 then st 199 else st 0) else
     if c > 70 then (if 97 \<le> c \<and> c \<le> 102 then st 200 else st 0) else st 200)"

definition uri_st163 :: "int \<Rightarrow> uri_action target" where
  "uri_st163 c =
     (if c = 46 then st 72 else if c = 58 then st 167 else if c = 93 then st 460 else if c < 65
     then (if 48 \<le> c \<and> c \<le> 57 then st 164 else st 0) else if c > 70 then (if 97
     \<le> c \<and> c \<le> 102 then st 164 else st 0) else st 164)"

definition uri_st164 :: "int \<Rightarrow> uri_action target" where
  "uri_st164 c =
     (if c = 58 then st 167 else if c = 93 then st 460 else if c < 65 then (if 48 \<le> c \<and> c
     \<le> 57 then st 165 else st 0) else if c > 70 then (if 97 \<le> c \<and> c \<le> 102 then
     st 165 else st 0) else st 165)"

definition uri_st165 :: "int \<Rightarrow> uri_action target" where
  "uri_st165 c =
     (if c = 58 then st 167 else if c = 93 then st 460 else if c < 65 then (if 48 \<le> c \<and> c
     \<le> 57 then st 166 else st 0) else if c > 70 then (if 97 \<le> c \<and> c \<le> 102 then
     st 166 else st 0) else st 166)"

definition uri_st166 :: "int \<Rightarrow> uri_action target" where
  "uri_st166 c = (if c = 58 then st 167 else if c = 93 then st 460 else st 0)"

definition uri_st167 :: "int \<Rightarrow> uri_action target" where
  "uri_st167 c =
     (if c = 2 then st 69 else if c = 48 then st 168 else if c = 49 then st 185 else if c = 50
     then st 188 else if c < 65 then (if 51 \<le> c \<and> c \<le> 57 then st 191 else st 0) else
     if c > 70 then (if 97 \<le> c \<and> c \<le> 102 then st 192 else st 0) else st 192)"

definition uri_st168 :: "int \<Rightarrow> uri_action target" where
  "uri_st168 c =
     (if c = 46 then st 72 else if c = 58 then st 172 else if c = 93 then st 460 else if c < 65
     then (if 48 \<le> c \<and> c \<le> 57 then st 169 else st 0) else if c > 70 then (if 97
     \<le> c \<and> c \<le> 102 then st 169 else st 0) else st 169)"

definition uri_st169 :: "int \<Rightarrow> uri_action target" where
  "uri_st169 c =
     (if c = 58 then st 172 else if c = 93 then st 460 else if c < 65 then (if 48 \<le> c \<and> c
     \<le> 57 then st 170 else st 0) else if c > 70 then (if 97 \<le> c \<and> c \<le> 102 then
     st 170 else st 0) else st 170)"

definition uri_st170 :: "int \<Rightarrow> uri_action target" where
  "uri_st170 c =
     (if c = 58 then st 172 else if c = 93 then st 460 else if c < 65 then (if 48 \<le> c \<and> c
     \<le> 57 then st 171 else st 0) else if c > 70 then (if 97 \<le> c \<and> c \<le> 102 then
     st 171 else st 0) else st 171)"

definition uri_st171 :: "int \<Rightarrow> uri_action target" where
  "uri_st171 c = (if c = 58 then st 172 else if c = 93 then st 460 else st 0)"

definition uri_st172 :: "int \<Rightarrow> uri_action target" where
  "uri_st172 c =
     (if c = 2 then st 69 else if c = 48 then st 173 else if c = 49 then st 177 else if c = 50
     then st 180 else if c < 65 then (if 51 \<le> c \<and> c \<le> 57 then st 183 else st 0) else
     if c > 70 then (if 97 \<le> c \<and> c \<le> 102 then st 184 else st 0) else st 184)"

definition uri_st173 :: "int \<Rightarrow> uri_action target" where
  "uri_st173 c =
     (if c = 46 then st 72 else if c = 58 then st 111 else if c = 93 then st 460 else if c < 65
     then (if 48 \<le> c \<and> c \<le> 57 then st 174 else st 0) else if c > 70 then (if 97
     \<le> c \<and> c \<le> 102 then st 174 else st 0) else st 174)"

definition uri_st174 :: "int \<Rightarrow> uri_action target" where
  "uri_st174 c =
     (if c = 58 then st 111 else if c = 93 then st 460 else if c < 65 then (if 48 \<le> c \<and> c
     \<le> 57 then st 175 else st 0) else if c > 70 then (if 97 \<le> c \<and> c \<le> 102 then
     st 175 else st 0) else st 175)"

definition uri_st175 :: "int \<Rightarrow> uri_action target" where
  "uri_st175 c =
     (if c = 58 then st 111 else if c = 93 then st 460 else if c < 65 then (if 48 \<le> c \<and> c
     \<le> 57 then st 176 else st 0) else if c > 70 then (if 97 \<le> c \<and> c \<le> 102 then
     st 176 else st 0) else st 176)"

definition uri_st176 :: "int \<Rightarrow> uri_action target" where
  "uri_st176 c = (if c = 58 then st 111 else if c = 93 then st 460 else st 0)"

definition uri_st177 :: "int \<Rightarrow> uri_action target" where
  "uri_st177 c =
     (if c = 46 then st 72 else if c = 58 then st 111 else if c = 93 then st 460 else if c < 65
     then (if 48 \<le> c \<and> c \<le> 57 then st 178 else st 0) else if c > 70 then (if 97
     \<le> c \<and> c \<le> 102 then st 174 else st 0) else st 174)"

definition uri_st178 :: "int \<Rightarrow> uri_action target" where
  "uri_st178 c =
     (if c = 46 then st 72 else if c = 58 then st 111 else if c = 93 then st 460 else if c < 65
     then (if 48 \<le> c \<and> c \<le> 57 then st 179 else st 0) else if c > 70 then (if 97
     \<le> c \<and> c \<le> 102 then st 175 else st 0) else st 175)"

definition uri_st179 :: "int \<Rightarrow> uri_action target" where
  "uri_st179 c =
     (if c = 46 then st 72 else if c = 58 then st 111 else if c = 93 then st 460 else if c < 65
     then (if 48 \<le> c \<and> c \<le> 57 then st 176 else st 0) else if c > 70 then (if 97
     \<le> c \<and> c \<le> 102 then st 176 else st 0) else st 176)"

definition uri_st180 :: "int \<Rightarrow> uri_action target" where
  "uri_st180 c =
     (if c = 46 then st 72 else if c = 53 then st 182 else if c = 58 then st 111 else if c = 93
     then st 460 else if c < 65 then (if 48 \<le> c \<and> c \<le> 57 then st 181 else st 0) else
     if c > 70 then (if 97 \<le> c \<and> c \<le> 102 then st 174 else st 0) else st 174)"

definition uri_st181 :: "int \<Rightarrow> uri_action target" where
  "uri_st181 c =
     (if c = 46 then st 72 else if c = 58 then st 111 else if c = 93 then st 460 else if c < 65
     then (if 48 \<le> c \<and> c \<le> 57 then st 175 else st 0) else if c > 70 then (if 97
     \<le> c \<and> c \<le> 102 then st 175 else st 0) else st 175)"

definition uri_st182 :: "int \<Rightarrow> uri_action target" where
  "uri_st182 c =
     (if c = 46 then st 72 else if c = 58 then st 111 else if c = 93 then st 460 else if c < 54
     then (if 48 \<le> c then st 179 else st 0) else if c > 57 then (if c > 70 then (if 97 \<le>
     c \<and> c \<le> 102 then st 175 else st 0) else if c \<ge> 65 then st 175 else st 0) else
     st 175)"

definition uri_st183 :: "int \<Rightarrow> uri_action target" where
  "uri_st183 c =
     (if c = 46 then st 72 else if c = 58 then st 111 else if c = 93 then st 460 else if c < 65
     then (if 48 \<le> c \<and> c \<le> 57 then st 181 else st 0) else if c > 70 then (if 97
     \<le> c \<and> c \<le> 102 then st 174 else st 0) else st 174)"

definition uri_st184 :: "int \<Rightarrow> uri_action target" where
  "uri_st184 c =
     (if c = 58 then st 111 else if c = 93 then st 460 else if c < 65 then (if 48 \<le> c \<and> c
     \<le> 57 then st 174 else st 0) else if c > 70 then (if 97 \<le> c \<and> c \<le> 102 then
     st 174 else st 0) else st 174)"

definition uri_st185 :: "int \<Rightarrow> uri_action target" where
  "uri_st185 c =
     (if c = 46 then st 72 else if c = 58 then st 172 else if c = 93 then st 460 else if c < 65
     then (if 48 \<le> c \<and> c \<le> 57 then st 186 else st 0) else if c > 70 then (if 97
     \<le> c \<and> c \<le> 102 then st 169 else st 0) else st 169)"

definition uri_st186 :: "int \<Rightarrow> uri_action target" where
  "uri_st186 c =
     (if c = 46 then st 72 else if c = 58 then st 172 else if c = 93 then st 460 else if c < 65
     then (if 48 \<le> c \<and> c \<le> 57 then st 187 else st 0) else if c > 70 then (if 97
     \<le> c \<and> c \<le> 102 then st 170 else st 0) else st 170)"

definition uri_st187 :: "int \<Rightarrow> uri_action target" where
  "uri_st187 c =
     (if c = 46 then st 72 else if c = 58 then st 172 else if c = 93 then st 460 else if c < 65
     then (if 48 \<le> c \<and> c \<le> 57 then st 171 else st 0) else if c > 70 then (if 97
     \<le> c \<and> c \<le> 102 then st 171 else st 0) else st 171)"

definition uri_st188 :: "int \<Rightarrow> uri_action target" where
  "uri_st188 c =
     (if c = 46 then st 72 else if c = 53 then st 190 else if c = 58 then st 172 else if c = 93
     then st 460 else if c < 65 then (if 48 \<le> c \<and> c \<le> 57 then st 189 else st 0) else
     if c > 70 then (if 97 \<le> c \<and> c \<le> 102 then st 169 else st 0) else st 169)"

definition uri_st189 :: "int \<Rightarrow> uri_action target" where
  "uri_st189 c =
     (if c = 46 then st 72 else if c = 58 then st 172 else if c = 93 then st 460 else if c < 65
     then (if 48 \<le> c \<and> c \<le> 57 then st 170 else st 0) else if c > 70 then (if 97
     \<le> c \<and> c \<le> 102 then st 170 else st 0) else st 170)"

definition uri_st190 :: "int \<Rightarrow> uri_action target" where
  "uri_st190 c =
     (if c = 46 then st 72 else if c = 58 then st 172 else if c = 93 then st 460 else if c < 54
     then (if 48 \<le> c then st 187 else st 0) else if c > 57 then (if c > 70 then (if 97 \<le>
     c \<and> c \<le> 102 then st 170 else st 0) else if c \<ge> 65 then st 170 else st 0) else
     st 170)"

definition uri_st191 :: "int \<Rightarrow> uri_action target" where
  "uri_st191 c =
     (if c = 46 then st 72 else if c = 58 then st 172 else if c = 93 then st 460 else if c < 65
     then (if 48 \<le> c \<and> c \<le> 57 then st 189 else st 0) else if c > 70 then (if 97
     \<le> c \<and> c \<le> 102 then st 169 else st 0) else st 169)"

definition uri_st192 :: "int \<Rightarrow> uri_action target" where
  "uri_st192 c =
     (if c = 58 then st 172 else if c = 93 then st 460 else if c < 65 then (if 48 \<le> c \<and> c
     \<le> 57 then st 169 else st 0) else if c > 70 then (if 97 \<le> c \<and> c \<le> 102 then
     st 169 else st 0) else st 169)"

definition uri_st193 :: "int \<Rightarrow> uri_action target" where
  "uri_st193 c =
     (if c = 46 then st 72 else if c = 58 then st 167 else if c = 93 then st 460 else if c < 65
     then (if 48 \<le> c \<and> c \<le> 57 then st 194 else st 0) else if c > 70 then (if 97
     \<le> c \<and> c \<le> 102 then st 164 else st 0) else st 164)"

definition uri_st194 :: "int \<Rightarrow> uri_action target" where
  "uri_st194 c =
     (if c = 46 then st 72 else if c = 58 then st 167 else if c = 93 then st 460 else if c < 65
     then (if 48 \<le> c \<and> c \<le> 57 then st 195 else st 0) else if c > 70 then (if 97
     \<le> c \<and> c \<le> 102 then st 165 else st 0) else st 165)"

definition uri_st195 :: "int \<Rightarrow> uri_action target" where
  "uri_st195 c =
     (if c = 46 then st 72 else if c = 58 then st 167 else if c = 93 then st 460 else if c < 65
     then (if 48 \<le> c \<and> c \<le> 57 then st 166 else st 0) else if c > 70 then (if 97
     \<le> c \<and> c \<le> 102 then st 166 else st 0) else st 166)"

definition uri_st196 :: "int \<Rightarrow> uri_action target" where
  "uri_st196 c =
     (if c = 46 then st 72 else if c = 53 then st 198 else if c = 58 then st 167 else if c = 93
     then st 460 else if c < 65 then (if 48 \<le> c \<and> c \<le> 57 then st 197 else st 0) else
     if c > 70 then (if 97 \<le> c \<and> c \<le> 102 then st 164 else st 0) else st 164)"

definition uri_st197 :: "int \<Rightarrow> uri_action target" where
  "uri_st197 c =
     (if c = 46 then st 72 else if c = 58 then st 167 else if c = 93 then st 460 else if c < 65
     then (if 48 \<le> c \<and> c \<le> 57 then st 165 else st 0) else if c > 70 then (if 97
     \<le> c \<and> c \<le> 102 then st 165 else st 0) else st 165)"

definition uri_st198 :: "int \<Rightarrow> uri_action target" where
  "uri_st198 c =
     (if c = 46 then st 72 else if c = 58 then st 167 else if c = 93 then st 460 else if c < 54
     then (if 48 \<le> c then st 195 else st 0) else if c > 57 then (if c > 70 then (if 97 \<le>
     c \<and> c \<le> 102 then st 165 else st 0) else if c \<ge> 65 then st 165 else st 0) else
     st 165)"

definition uri_st199 :: "int \<Rightarrow> uri_action target" where
  "uri_st199 c =
     (if c = 46 then st 72 else if c = 58 then st 167 else if c = 93 then st 460 else if c < 65
     then (if 48 \<le> c \<and> c \<le> 57 then st 197 else st 0) else if c > 70 then (if 97
     \<le> c \<and> c \<le> 102 then st 164 else st 0) else st 164)"

definition uri_st200 :: "int \<Rightarrow> uri_action target" where
  "uri_st200 c =
     (if c = 58 then st 167 else if c = 93 then st 460 else if c < 65 then (if 48 \<le> c \<and> c
     \<le> 57 then st 164 else st 0) else if c > 70 then (if 97 \<le> c \<and> c \<le> 102 then
     st 164 else st 0) else st 164)"

definition uri_st201 :: "int \<Rightarrow> uri_action target" where
  "uri_st201 c =
     (if c = 46 then st 72 else if c = 58 then st 162 else if c = 93 then st 460 else if c < 65
     then (if 48 \<le> c \<and> c \<le> 57 then st 202 else st 0) else if c > 70 then (if 97
     \<le> c \<and> c \<le> 102 then st 159 else st 0) else st 159)"

definition uri_st202 :: "int \<Rightarrow> uri_action target" where
  "uri_st202 c =
     (if c = 46 then st 72 else if c = 58 then st 162 else if c = 93 then st 460 else if c < 65
     then (if 48 \<le> c \<and> c \<le> 57 then st 203 else st 0) else if c > 70 then (if 97
     \<le> c \<and> c \<le> 102 then st 160 else st 0) else st 160)"

definition uri_st203 :: "int \<Rightarrow> uri_action target" where
  "uri_st203 c =
     (if c = 46 then st 72 else if c = 58 then st 162 else if c = 93 then st 460 else if c < 65
     then (if 48 \<le> c \<and> c \<le> 57 then st 161 else st 0) else if c > 70 then (if 97
     \<le> c \<and> c \<le> 102 then st 161 else st 0) else st 161)"

definition uri_st204 :: "int \<Rightarrow> uri_action target" where
  "uri_st204 c =
     (if c = 46 then st 72 else if c = 53 then st 206 else if c = 58 then st 162 else if c = 93
     then st 460 else if c < 65 then (if 48 \<le> c \<and> c \<le> 57 then st 205 else st 0) else
     if c > 70 then (if 97 \<le> c \<and> c \<le> 102 then st 159 else st 0) else st 159)"

definition uri_st205 :: "int \<Rightarrow> uri_action target" where
  "uri_st205 c =
     (if c = 46 then st 72 else if c = 58 then st 162 else if c = 93 then st 460 else if c < 65
     then (if 48 \<le> c \<and> c \<le> 57 then st 160 else st 0) else if c > 70 then (if 97
     \<le> c \<and> c \<le> 102 then st 160 else st 0) else st 160)"

definition uri_st206 :: "int \<Rightarrow> uri_action target" where
  "uri_st206 c =
     (if c = 46 then st 72 else if c = 58 then st 162 else if c = 93 then st 460 else if c < 54
     then (if 48 \<le> c then st 203 else st 0) else if c > 57 then (if c > 70 then (if 97 \<le>
     c \<and> c \<le> 102 then st 160 else st 0) else if c \<ge> 65 then st 160 else st 0) else
     st 160)"

definition uri_st207 :: "int \<Rightarrow> uri_action target" where
  "uri_st207 c =
     (if c = 46 then st 72 else if c = 58 then st 162 else if c = 93 then st 460 else if c < 65
     then (if 48 \<le> c \<and> c \<le> 57 then st 205 else st 0) else if c > 70 then (if 97
     \<le> c \<and> c \<le> 102 then st 159 else st 0) else st 159)"

definition uri_st208 :: "int \<Rightarrow> uri_action target" where
  "uri_st208 c =
     (if c = 58 then st 162 else if c = 93 then st 460 else if c < 65 then (if 48 \<le> c \<and> c
     \<le> 57 then st 159 else st 0) else if c > 70 then (if 97 \<le> c \<and> c \<le> 102 then
     st 159 else st 0) else st 159)"

definition uri_st209 :: "int \<Rightarrow> uri_action target" where
  "uri_st209 c =
     (if c = 46 then st 72 else if c = 58 then st 157 else if c = 93 then st 460 else if c < 65
     then (if 48 \<le> c \<and> c \<le> 57 then st 210 else st 0) else if c > 70 then (if 97
     \<le> c \<and> c \<le> 102 then st 154 else st 0) else st 154)"

definition uri_st210 :: "int \<Rightarrow> uri_action target" where
  "uri_st210 c =
     (if c = 46 then st 72 else if c = 58 then st 157 else if c = 93 then st 460 else if c < 65
     then (if 48 \<le> c \<and> c \<le> 57 then st 211 else st 0) else if c > 70 then (if 97
     \<le> c \<and> c \<le> 102 then st 155 else st 0) else st 155)"

definition uri_st211 :: "int \<Rightarrow> uri_action target" where
  "uri_st211 c =
     (if c = 46 then st 72 else if c = 58 then st 157 else if c = 93 then st 460 else if c < 65
     then (if 48 \<le> c \<and> c \<le> 57 then st 156 else st 0) else if c > 70 then (if 97
     \<le> c \<and> c \<le> 102 then st 156 else st 0) else st 156)"

definition uri_st212 :: "int \<Rightarrow> uri_action target" where
  "uri_st212 c =
     (if c = 46 then st 72 else if c = 53 then st 214 else if c = 58 then st 157 else if c = 93
     then st 460 else if c < 65 then (if 48 \<le> c \<and> c \<le> 57 then st 213 else st 0) else
     if c > 70 then (if 97 \<le> c \<and> c \<le> 102 then st 154 else st 0) else st 154)"

definition uri_st213 :: "int \<Rightarrow> uri_action target" where
  "uri_st213 c =
     (if c = 46 then st 72 else if c = 58 then st 157 else if c = 93 then st 460 else if c < 65
     then (if 48 \<le> c \<and> c \<le> 57 then st 155 else st 0) else if c > 70 then (if 97
     \<le> c \<and> c \<le> 102 then st 155 else st 0) else st 155)"

definition uri_st214 :: "int \<Rightarrow> uri_action target" where
  "uri_st214 c =
     (if c = 46 then st 72 else if c = 58 then st 157 else if c = 93 then st 460 else if c < 54
     then (if 48 \<le> c then st 211 else st 0) else if c > 57 then (if c > 70 then (if 97 \<le>
     c \<and> c \<le> 102 then st 155 else st 0) else if c \<ge> 65 then st 155 else st 0) else
     st 155)"

definition uri_st215 :: "int \<Rightarrow> uri_action target" where
  "uri_st215 c =
     (if c = 46 then st 72 else if c = 58 then st 157 else if c = 93 then st 460 else if c < 65
     then (if 48 \<le> c \<and> c \<le> 57 then st 213 else st 0) else if c > 70 then (if 97
     \<le> c \<and> c \<le> 102 then st 154 else st 0) else st 154)"

definition uri_st216 :: "int \<Rightarrow> uri_action target" where
  "uri_st216 c =
     (if c = 58 then st 157 else if c = 93 then st 460 else if c < 65 then (if 48 \<le> c \<and> c
     \<le> 57 then st 154 else st 0) else if c > 70 then (if 97 \<le> c \<and> c \<le> 102 then
     st 154 else st 0) else st 154)"

definition uri_st217 :: "int \<Rightarrow> uri_action target" where
  "uri_st217 c =
     (if c = 46 then st 72 else if c = 58 then st 152 else if c = 93 then st 460 else if c < 65
     then (if 48 \<le> c \<and> c \<le> 57 then st 218 else st 0) else if c > 70 then (if 97
     \<le> c \<and> c \<le> 102 then st 149 else st 0) else st 149)"

definition uri_st218 :: "int \<Rightarrow> uri_action target" where
  "uri_st218 c =
     (if c = 46 then st 72 else if c = 58 then st 152 else if c = 93 then st 460 else if c < 65
     then (if 48 \<le> c \<and> c \<le> 57 then st 219 else st 0) else if c > 70 then (if 97
     \<le> c \<and> c \<le> 102 then st 150 else st 0) else st 150)"

definition uri_st219 :: "int \<Rightarrow> uri_action target" where
  "uri_st219 c =
     (if c = 46 then st 72 else if c = 58 then st 152 else if c = 93 then st 460 else if c < 65
     then (if 48 \<le> c \<and> c \<le> 57 then st 151 else st 0) else if c > 70 then (if 97
     \<le> c \<and> c \<le> 102 then st 151 else st 0) else st 151)"

definition uri_st220 :: "int \<Rightarrow> uri_action target" where
  "uri_st220 c =
     (if c = 46 then st 72 else if c = 53 then st 222 else if c = 58 then st 152 else if c = 93
     then st 460 else if c < 65 then (if 48 \<le> c \<and> c \<le> 57 then st 221 else st 0) else
     if c > 70 then (if 97 \<le> c \<and> c \<le> 102 then st 149 else st 0) else st 149)"

definition uri_st221 :: "int \<Rightarrow> uri_action target" where
  "uri_st221 c =
     (if c = 46 then st 72 else if c = 58 then st 152 else if c = 93 then st 460 else if c < 65
     then (if 48 \<le> c \<and> c \<le> 57 then st 150 else st 0) else if c > 70 then (if 97
     \<le> c \<and> c \<le> 102 then st 150 else st 0) else st 150)"

definition uri_st222 :: "int \<Rightarrow> uri_action target" where
  "uri_st222 c =
     (if c = 46 then st 72 else if c = 58 then st 152 else if c = 93 then st 460 else if c < 54
     then (if 48 \<le> c then st 219 else st 0) else if c > 57 then (if c > 70 then (if 97 \<le>
     c \<and> c \<le> 102 then st 150 else st 0) else if c \<ge> 65 then st 150 else st 0) else
     st 150)"

definition uri_st223 :: "int \<Rightarrow> uri_action target" where
  "uri_st223 c =
     (if c = 46 then st 72 else if c = 58 then st 152 else if c = 93 then st 460 else if c < 65
     then (if 48 \<le> c \<and> c \<le> 57 then st 221 else st 0) else if c > 70 then (if 97
     \<le> c \<and> c \<le> 102 then st 149 else st 0) else st 149)"

definition uri_st224 :: "int \<Rightarrow> uri_action target" where
  "uri_st224 c =
     (if c = 58 then st 152 else if c = 93 then st 460 else if c < 65 then (if 48 \<le> c \<and> c
     \<le> 57 then st 149 else st 0) else if c > 70 then (if 97 \<le> c \<and> c \<le> 102 then
     st 149 else st 0) else st 149)"

definition uri_st225 :: "int \<Rightarrow> uri_action target" where
  "uri_st225 c =
     (if c < 65 then (if 48 \<le> c \<and> c \<le> 57 then st 226 else st 0) else if c > 70 then
     (if 97 \<le> c \<and> c \<le> 102 then st 226 else st 0) else st 226)"

definition uri_st226 :: "int \<Rightarrow> uri_action target" where
  "uri_st226 c =
     (if c = 46 then st 227 else if c < 65 then (if 48 \<le> c \<and> c \<le> 57 then st 226 else
     st 0) else if c > 70 then (if 97 \<le> c \<and> c \<le> 102 then st 226 else st 0) else st
     226)"

definition uri_st227 :: "int \<Rightarrow> uri_action target" where
  "uri_st227 c =
     (if c = 33 then st 228 else if c = 36 then st 228 else if c = 61 then st 228 else if c = 95
     then st 228 else if c = 126 then st 228 else if c < 48 then (if 38 \<le> c \<and> c \<le> 46
     then st 228 else st 0) else if c > 59 then (if c > 90 then (if 97 \<le> c \<and> c \<le> 122
     then st 228 else st 0) else if c \<ge> 65 then st 228 else st 0) else st 228)"

definition uri_st228 :: "int \<Rightarrow> uri_action target" where
  "uri_st228 c =
     (if c = 33 then st 228 else if c = 36 then st 228 else if c = 61 then st 228 else if c = 93
     then st 460 else if c = 95 then st 228 else if c = 126 then st 228 else if c < 48 then (if
     38 \<le> c \<and> c \<le> 46 then st 228 else st 0) else if c > 59 then (if c > 90 then (if
     97 \<le> c \<and> c \<le> 122 then st 228 else st 0) else if c \<ge> 65 then st 228 else st
     0) else st 228)"

definition uri_st229 :: "int \<Rightarrow> uri_action target" where
  "uri_st229 c = (if 48 \<le> c \<and> c \<le> 52 then st 230 else st 0)"

definition uri_st230 :: "int \<Rightarrow> uri_action target" where
  "uri_st230 c = (if 48 \<le> c \<and> c \<le> 57 then st 231 else st 0)"

definition uri_st231 :: "int \<Rightarrow> uri_action target" where
  "uri_st231 c = (if c = 46 then st 232 else st 0)"

definition uri_st232 :: "int \<Rightarrow> uri_action target" where
  "uri_st232 c =
     (if c = 2 then st 233 else if c = 48 then st 235 else if c = 49 then st 249 else if c = 50
     then st 251 else if 51 \<le> c \<and> c \<le> 57 then st 250 else st 0)"

definition uri_st233 :: "int \<Rightarrow> uri_action target" where
  "uri_st233 c = (if 48 \<le> c \<and> c \<le> 52 then st 234 else st 0)"

definition uri_st234 :: "int \<Rightarrow> uri_action target" where
  "uri_st234 c = (if 48 \<le> c \<and> c \<le> 57 then st 235 else st 0)"

definition uri_st235 :: "int \<Rightarrow> uri_action target" where
  "uri_st235 c = (if c = 46 then st 236 else st 0)"

definition uri_st236 :: "int \<Rightarrow> uri_action target" where
  "uri_st236 c =
     (if c = 2 then st 237 else if c = 48 then st 239 else if c = 49 then st 245 else if c = 50
     then st 247 else if 51 \<le> c \<and> c \<le> 57 then st 246 else st 0)"

definition uri_st237 :: "int \<Rightarrow> uri_action target" where
  "uri_st237 c = (if 48 \<le> c \<and> c \<le> 52 then st 238 else st 0)"

definition uri_st238 :: "int \<Rightarrow> uri_action target" where
  "uri_st238 c = (if 48 \<le> c \<and> c \<le> 57 then st 239 else st 0)"

definition uri_st239 :: "int \<Rightarrow> uri_action target" where
  "uri_st239 c = (if c = 46 then st 240 else st 0)"

definition uri_st240 :: "int \<Rightarrow> uri_action target" where
  "uri_st240 c =
     (if c = 2 then st 241 else if c = 48 then st 512 else if c = 49 then st 516 else if c = 50
     then st 518 else if 51 \<le> c \<and> c \<le> 57 then st 517 else st 0)"

definition uri_st241 :: "int \<Rightarrow> uri_action target" where
  "uri_st241 c = (if 48 \<le> c \<and> c \<le> 52 then st 242 else st 0)"

definition uri_st242 :: "int \<Rightarrow> uri_action target" where
  "uri_st242 c = (if 48 \<le> c \<and> c \<le> 57 then st 512 else st 0)"

definition uri_st243 :: "int \<Rightarrow> uri_action target" where
  "uri_st243 c =
     (if c < 65 then (if 48 \<le> c \<and> c \<le> 57 then st 244 else st 0) else if c > 70 then
     (if 97 \<le> c \<and> c \<le> 102 then st 244 else st 0) else st 244)"

definition uri_st244 :: "int \<Rightarrow> uri_action target" where
  "uri_st244 c =
     (if c < 65 then (if 48 \<le> c \<and> c \<le> 57 then st 513 else st 0) else if c > 70 then
     (if 97 \<le> c \<and> c \<le> 102 then st 513 else st 0) else st 513)"

definition uri_st245 :: "int \<Rightarrow> uri_action target" where
  "uri_st245 c =
     (if c = 46 then st 240 else if 48 \<le> c \<and> c \<le> 57 then st 246 else st 0)"

definition uri_st246 :: "int \<Rightarrow> uri_action target" where
  "uri_st246 c =
     (if c = 46 then st 240 else if 48 \<le> c \<and> c \<le> 57 then st 239 else st 0)"

definition uri_st247 :: "int \<Rightarrow> uri_action target" where
  "uri_st247 c =
     (if c = 46 then st 240 else if c = 53 then st 248 else if 48 \<le> c \<and> c \<le> 57 then
     st 239 else st 0)"

definition uri_st248 :: "int \<Rightarrow> uri_action target" where
  "uri_st248 c =
     (if c = 46 then st 240 else if 48 \<le> c \<and> c \<le> 53 then st 239 else st 0)"

definition uri_st249 :: "int \<Rightarrow> uri_action target" where
  "uri_st249 c =
     (if c = 46 then st 236 else if 48 \<le> c \<and> c \<le> 57 then st 250 else st 0)"

definition uri_st250 :: "int \<Rightarrow> uri_action target" where
  "uri_st250 c =
     (if c = 46 then st 236 else if 48 \<le> c \<and> c \<le> 57 then st 235 else st 0)"

definition uri_st251 :: "int \<Rightarrow> uri_action target" where
  "uri_st251 c =
     (if c = 46 then st 236 else if c = 53 then st 252 else if 48 \<le> c \<and> c \<le> 57 then
     st 235 else st 0)"

definition uri_st252 :: "int \<Rightarrow> uri_action target" where
  "uri_st252 c =
     (if c = 46 then st 236 else if 48 \<le> c \<and> c \<le> 53 then st 235 else st 0)"

definition uri_st253 :: "int \<Rightarrow> uri_action target" where
  "uri_st253 c =
     (if c < 65 then (if 48 \<le> c \<and> c \<le> 57 then st 254 else st 0) else if c > 70 then
     (if 97 \<le> c \<and> c \<le> 102 then st 254 else st 0) else st 254)"

definition uri_st254 :: "int \<Rightarrow> uri_action target" where
  "uri_st254 c =
     (if c < 65 then (if 48 \<le> c \<and> c \<le> 57 then st 520 else st 0) else if c > 70 then
     (if 97 \<le> c \<and> c \<le> 102 then st 520 else st 0) else st 520)"

definition uri_st255 :: "int \<Rightarrow> uri_action target" where
  "uri_st255 c =
     (if c = 33 then st 255 else if c = 37 then st 256 else if c = 61 then st 255 else if c = 64
     then uri_ctr263 else if c = 95 then st 255 else if c = 126 then st 255 else if c < 48 then
     (if 36 \<le> c \<and> c \<le> 46 then st 255 else st 0) else if c > 59 then (if c > 90 then
     (if 97 \<le> c \<and> c \<le> 122 then st 255 else st 0) else if c \<ge> 65 then st 255 else
     st 0) else st 255)"

definition uri_st256 :: "int \<Rightarrow> uri_action target" where
  "uri_st256 c =
     (if c < 65 then (if 48 \<le> c \<and> c \<le> 57 then st 257 else st 0) else if c > 70 then
     (if 97 \<le> c \<and> c \<le> 102 then st 257 else st 0) else st 257)"

definition uri_st257 :: "int \<Rightarrow> uri_action target" where
  "uri_st257 c =
     (if c < 65 then (if 48 \<le> c \<and> c \<le> 57 then st 255 else st 0) else if c > 70 then
     (if 97 \<le> c \<and> c \<le> 102 then st 255 else st 0) else st 255)"

definition uri_st258 :: "int \<Rightarrow> uri_action target" where
  "uri_st258 c =
     (if c < 65 then (if 48 \<le> c \<and> c \<le> 57 then st 259 else st 0) else if c > 70 then
     (if 97 \<le> c \<and> c \<le> 102 then st 259 else st 0) else st 259)"

definition uri_st259 :: "int \<Rightarrow> uri_action target" where
  "uri_st259 c =
     (if c < 65 then (if 48 \<le> c \<and> c \<le> 57 then st 523 else st 0) else if c > 70 then
     (if 97 \<le> c \<and> c \<le> 102 then st 523 else st 0) else st 523)"

definition uri_st260 :: "int \<Rightarrow> uri_action target" where
  "uri_st260 c =
     (if c = 58 then st 368 else if c = 118 then st 447 else if c < 65 then (if 48 \<le> c \<and>
     c \<le> 57 then st 261 else st 0) else if c > 70 then (if 97 \<le> c \<and> c \<le> 102 then
     st 261 else st 0) else st 261)"

definition uri_st261 :: "int \<Rightarrow> uri_action target" where
  "uri_st261 c =
     (if c = 58 then st 265 else if c < 65 then (if 48 \<le> c \<and> c \<le> 57 then st 262 else
     st 0) else if c > 70 then (if 97 \<le> c \<and> c \<le> 102 then st 262 else st 0) else st
     262)"

definition uri_st262 :: "int \<Rightarrow> uri_action target" where
  "uri_st262 c =
     (if c = 58 then st 265 else if c < 65 then (if 48 \<le> c \<and> c \<le> 57 then st 263 else
     st 0) else if c > 70 then (if 97 \<le> c \<and> c \<le> 102 then st 263 else st 0) else st
     263)"

definition uri_st263 :: "int \<Rightarrow> uri_action target" where
  "uri_st263 c =
     (if c = 58 then st 265 else if c < 65 then (if 48 \<le> c \<and> c \<le> 57 then st 264 else
     st 0) else if c > 70 then (if 97 \<le> c \<and> c \<le> 102 then st 264 else st 0) else st
     264)"

definition uri_st264 :: "int \<Rightarrow> uri_action target" where
  "uri_st264 c = (if c = 58 then st 265 else st 0)"

definition uri_st265 :: "int \<Rightarrow> uri_action target" where
  "uri_st265 c =
     (if c = 58 then st 363 else if c < 65 then (if 48 \<le> c \<and> c \<le> 57 then st 266 else
     st 0) else if c > 70 then (if 97 \<le> c \<and> c \<le> 102 then st 266 else st 0) else st
     266)"

definition uri_st266 :: "int \<Rightarrow> uri_action target" where
  "uri_st266 c =
     (if c = 58 then st 270 else if c < 65 then (if 48 \<le> c \<and> c \<le> 57 then st 267 else
     st 0) else if c > 70 then (if 97 \<le> c \<and> c \<le> 102 then st 267 else st 0) else st
     267)"

definition uri_st267 :: "int \<Rightarrow> uri_action target" where
  "uri_st267 c =
     (if c = 58 then st 270 else if c < 65 then (if 48 \<le> c \<and> c \<le> 57 then st 268 else
     st 0) else if c > 70 then (if 97 \<le> c \<and> c \<le> 102 then st 268 else st 0) else st
     268)"

definition uri_st268 :: "int \<Rightarrow> uri_action target" where
  "uri_st268 c =
     (if c = 58 then st 270 else if c < 65 then (if 48 \<le> c \<and> c \<le> 57 then st 269 else
     st 0) else if c > 70 then (if 97 \<le> c \<and> c \<le> 102 then st 269 else st 0) else st
     269)"

definition uri_st269 :: "int \<Rightarrow> uri_action target" where
  "uri_st269 c = (if c = 58 then st 270 else st 0)"

definition uri_st270 :: "int \<Rightarrow> uri_action target" where
  "uri_st270 c =
     (if c = 58 then st 358 else if c < 65 then (if 48 \<le> c \<and> c \<le> 57 then st 271 else
     st 0) else if c > 70 then (if 97 \<le> c \<and> c \<le> 102 then st 271 else st 0) else st
     271)"

definition uri_st271 :: "int \<Rightarrow> uri_action target" where
  "uri_st271 c =
     (if c = 58 then st 275 else if c < 65 then (if 48 \<le> c \<and> c \<le> 57 then st 272 else
     st 0) else if c > 70 then (if 97 \<le> c \<and> c \<le> 102 then st 272 else st 0) else st
     272)"

definition uri_st272 :: "int \<Rightarrow> uri_action target" where
  "uri_st272 c =
     (if c = 58 then st 275 else if c < 65 then (if 48 \<le> c \<and> c \<le> 57 then st 273 else
     st 0) else if c > 70 then (if 97 \<le> c \<and> c \<le> 102 then st 273 else st 0) else st
     273)"

definition uri_st273 :: "int \<Rightarrow> uri_action target" where
  "uri_st273 c =
     (if c = 58 then st 275 else if c < 65 then (if 48 \<le> c \<and> c \<le> 57 then st 274 else
     st 0) else if c > 70 then (if 97 \<le> c \<and> c \<le> 102 then st 274 else st 0) else st
     274)"

definition uri_st274 :: "int \<Rightarrow> uri_action target" where
  "uri_st274 c = (if c = 58 then st 275 else st 0)"

definition uri_st275 :: "int \<Rightarrow> uri_action target" where
  "uri_st275 c =
     (if c = 58 then st 353 else if c < 65 then (if 48 \<le> c \<and> c \<le> 57 then st 276 else
     st 0) else if c > 70 then (if 97 \<le> c \<and> c \<le> 102 then st 276 else st 0) else st
     276)"

definition uri_st276 :: "int \<Rightarrow> uri_action target" where
  "uri_st276 c =
     (if c = 58 then st 280 else if c < 65 then (if 48 \<le> c \<and> c \<le> 57 then st 277 else
     st 0) else if c > 70 then (if 97 \<le> c \<and> c \<le> 102 then st 277 else st 0) else st
     277)"

definition uri_st277 :: "int \<Rightarrow> uri_action target" where
  "uri_st277 c =
     (if c = 58 then st 280 else if c < 65 then (if 48 \<le> c \<and> c \<le> 57 then st 278 else
     st 0) else if c > 70 then (if 97 \<le> c \<and> c \<le> 102 then st 278 else st 0) else st
     278)"

definition uri_st278 :: "int \<Rightarrow> uri_action target" where
  "uri_st278 c =
     (if c = 58 then st 280 else if c < 65 then (if 48 \<le> c \<and> c \<le> 57 then st 279 else
     st 0) else if c > 70 then (if 97 \<le> c \<and> c \<le> 102 then st 279 else st 0) else st
     279)"

definition uri_st279 :: "int \<Rightarrow> uri_action target" where
  "uri_st279 c = (if c = 58 then st 280 else st 0)"

definition uri_st280 :: "int \<Rightarrow> uri_action target" where
  "uri_st280 c =
     (if c = 58 then st 348 else if c < 65 then (if 48 \<le> c \<and> c \<le> 57 then st 281 else
     st 0) else if c > 70 then (if 97 \<le> c \<and> c \<le> 102 then st 281 else st 0) else st
     281)"

definition uri_st281 :: "int \<Rightarrow> uri_action target" where
  "uri_st281 c =
     (if c = 58 then st 285 else if c < 65 then (if 48 \<le> c \<and> c \<le> 57 then st 282 else
     st 0) else if c > 70 then (if 97 \<le> c \<and> c \<le> 102 then st 282 else st 0) else st
     282)"

definition uri_st282 :: "int \<Rightarrow> uri_action target" where
  "uri_st282 c =
     (if c = 58 then st 285 else if c < 65 then (if 48 \<le> c \<and> c \<le> 57 then st 283 else
     st 0) else if c > 70 then (if 97 \<le> c \<and> c \<le> 102 then st 283 else st 0) else st
     283)"

definition uri_st283 :: "int \<Rightarrow> uri_action target" where
  "uri_st283 c =
     (if c = 58 then st 285 else if c < 65 then (if 48 \<le> c \<and> c \<le> 57 then st 284 else
     st 0) else if c > 70 then (if 97 \<le> c \<and> c \<le> 102 then st 284 else st 0) else st
     284)"

definition uri_st284 :: "int \<Rightarrow> uri_action target" where
  "uri_st284 c = (if c = 58 then st 285 else st 0)"

definition uri_st285 :: "int \<Rightarrow> uri_action target" where
  "uri_st285 c =
     (if c = 58 then st 335 else if c < 65 then (if 48 \<le> c \<and> c \<le> 57 then st 286 else
     st 0) else if c > 70 then (if 97 \<le> c \<and> c \<le> 102 then st 286 else st 0) else st
     286)"

definition uri_st286 :: "int \<Rightarrow> uri_action target" where
  "uri_st286 c =
     (if c = 58 then st 290 else if c < 65 then (if 48 \<le> c \<and> c \<le> 57 then st 287 else
     st 0) else if c > 70 then (if 97 \<le> c \<and> c \<le> 102 then st 287 else st 0) else st
     287)"

definition uri_st287 :: "int \<Rightarrow> uri_action target" where
  "uri_st287 c =
     (if c = 58 then st 290 else if c < 65 then (if 48 \<le> c \<and> c \<le> 57 then st 288 else
     st 0) else if c > 70 then (if 97 \<le> c \<and> c \<le> 102 then st 288 else st 0) else st
     288)"

definition uri_st288 :: "int \<Rightarrow> uri_action target" where
  "uri_st288 c =
     (if c = 58 then st 290 else if c < 65 then (if 48 \<le> c \<and> c \<le> 57 then st 289 else
     st 0) else if c > 70 then (if 97 \<le> c \<and> c \<le> 102 then st 289 else st 0) else st
     289)"

definition uri_st289 :: "int \<Rightarrow> uri_action target" where
  "uri_st289 c = (if c = 58 then st 290 else st 0)"

definition uri_st290 :: "int \<Rightarrow> uri_action target" where
  "uri_st290 c =
     (if c = 2 then st 291 else if c = 48 then st 318 else if c = 49 then st 326 else if c = 50
     then st 329 else if c = 58 then st 333 else if c < 65 then (if 51 \<le> c \<and> c \<le> 57
     then st 332 else st 0) else if c > 70 then (if 97 \<le> c \<and> c \<le> 102 then st 334
     else st 0) else st 334)"

definition uri_st291 :: "int \<Rightarrow> uri_action target" where
  "uri_st291 c = (if 48 \<le> c \<and> c \<le> 52 then st 292 else st 0)"

definition uri_st292 :: "int \<Rightarrow> uri_action target" where
  "uri_st292 c = (if 48 \<le> c \<and> c \<le> 57 then st 293 else st 0)"

definition uri_st293 :: "int \<Rightarrow> uri_action target" where
  "uri_st293 c = (if c = 46 then st 294 else st 0)"

definition uri_st294 :: "int \<Rightarrow> uri_action target" where
  "uri_st294 c =
     (if c = 2 then st 295 else if c = 48 then st 297 else if c = 49 then st 314 else if c = 50
     then st 316 else if 51 \<le> c \<and> c \<le> 57 then st 315 else st 0)"

definition uri_st295 :: "int \<Rightarrow> uri_action target" where
  "uri_st295 c = (if 48 \<le> c \<and> c \<le> 52 then st 296 else st 0)"

definition uri_st296 :: "int \<Rightarrow> uri_action target" where
  "uri_st296 c = (if 48 \<le> c \<and> c \<le> 57 then st 297 else st 0)"

definition uri_st297 :: "int \<Rightarrow> uri_action target" where
  "uri_st297 c = (if c = 46 then st 298 else st 0)"

definition uri_st298 :: "int \<Rightarrow> uri_action target" where
  "uri_st298 c =
     (if c = 2 then st 299 else if c = 48 then st 301 else if c = 49 then st 310 else if c = 50
     then st 312 else if 51 \<le> c \<and> c \<le> 57 then st 311 else st 0)"

definition uri_st299 :: "int \<Rightarrow> uri_action target" where
  "uri_st299 c = (if 48 \<le> c \<and> c \<le> 52 then st 300 else st 0)"

definition uri_st300 :: "int \<Rightarrow> uri_action target" where
  "uri_st300 c = (if 48 \<le> c \<and> c \<le> 57 then st 301 else st 0)"

definition uri_st301 :: "int \<Rightarrow> uri_action target" where
  "uri_st301 c = (if c = 46 then st 302 else st 0)"

definition uri_st302 :: "int \<Rightarrow> uri_action target" where
  "uri_st302 c =
     (if c = 2 then st 303 else if c = 48 then st 305 else if c = 49 then st 306 else if c = 50
     then st 308 else if 51 \<le> c \<and> c \<le> 57 then st 307 else st 0)"

definition uri_st303 :: "int \<Rightarrow> uri_action target" where
  "uri_st303 c = (if 48 \<le> c \<and> c \<le> 52 then st 304 else st 0)"

definition uri_st304 :: "int \<Rightarrow> uri_action target" where
  "uri_st304 c = (if 48 \<le> c \<and> c \<le> 57 then st 305 else st 0)"

definition uri_st305 :: "int \<Rightarrow> uri_action target" where
  "uri_st305 c = (if c = 93 then st 512 else st 0)"

definition uri_st306 :: "int \<Rightarrow> uri_action target" where
  "uri_st306 c =
     (if c = 93 then st 512 else if 48 \<le> c \<and> c \<le> 57 then st 307 else st 0)"

definition uri_st307 :: "int \<Rightarrow> uri_action target" where
  "uri_st307 c =
     (if c = 93 then st 512 else if 48 \<le> c \<and> c \<le> 57 then st 305 else st 0)"

definition uri_st308 :: "int \<Rightarrow> uri_action target" where
  "uri_st308 c =
     (if c = 53 then st 309 else if c = 93 then st 512 else if 48 \<le> c \<and> c \<le> 57 then
     st 305 else st 0)"

definition uri_st309 :: "int \<Rightarrow> uri_action target" where
  "uri_st309 c =
     (if c = 93 then st 512 else if 48 \<le> c \<and> c \<le> 53 then st 305 else st 0)"

definition uri_st310 :: "int \<Rightarrow> uri_action target" where
  "uri_st310 c =
     (if c = 46 then st 302 else if 48 \<le> c \<and> c \<le> 57 then st 311 else st 0)"

definition uri_st311 :: "int \<Rightarrow> uri_action target" where
  "uri_st311 c =
     (if c = 46 then st 302 else if 48 \<le> c \<and> c \<le> 57 then st 301 else st 0)"

definition uri_st312 :: "int \<Rightarrow> uri_action target" where
  "uri_st312 c =
     (if c = 46 then st 302 else if c = 53 then st 313 else if 48 \<le> c \<and> c \<le> 57 then
     st 301 else st 0)"

definition uri_st313 :: "int \<Rightarrow> uri_action target" where
  "uri_st313 c =
     (if c = 46 then st 302 else if 48 \<le> c \<and> c \<le> 53 then st 301 else st 0)"

definition uri_st314 :: "int \<Rightarrow> uri_action target" where
  "uri_st314 c =
     (if c = 46 then st 298 else if 48 \<le> c \<and> c \<le> 57 then st 315 else st 0)"

definition uri_st315 :: "int \<Rightarrow> uri_action target" where
  "uri_st315 c =
     (if c = 46 then st 298 else if 48 \<le> c \<and> c \<le> 57 then st 297 else st 0)"

definition uri_st316 :: "int \<Rightarrow> uri_action target" where
  "uri_st316 c =
     (if c = 46 then st 298 else if c = 53 then st 317 else if 48 \<le> c \<and> c \<le> 57 then
     st 297 else st 0)"

definition uri_st317 :: "int \<Rightarrow> uri_action target" where
  "uri_st317 c =
     (if c = 46 then st 298 else if 48 \<le> c \<and> c \<le> 53 then st 297 else st 0)"

definition uri_st318 :: "int \<Rightarrow> uri_action target" where
  "uri_st318 c =
     (if c = 46 then st 294 else if c = 58 then st 322 else if c < 65 then (if 48 \<le> c \<and> c
     \<le> 57 then st 319 else st 0) else if c > 70 then (if 97 \<le> c \<and> c \<le> 102 then
     st 319 else st 0) else st 319)"

definition uri_st319 :: "int \<Rightarrow> uri_action target" where
  "uri_st319 c =
     (if c = 58 then st 322 else if c < 65 then (if 48 \<le> c \<and> c \<le> 57 then st 320 else
     st 0) else if c > 70 then (if 97 \<le> c \<and> c \<le> 102 then st 320 else st 0) else st
     320)"

definition uri_st320 :: "int \<Rightarrow> uri_action target" where
  "uri_st320 c =
     (if c = 58 then st 322 else if c < 65 then (if 48 \<le> c \<and> c \<le> 57 then st 321 else
     st 0) else if c > 70 then (if 97 \<le> c \<and> c \<le> 102 then st 321 else st 0) else st
     321)"

definition uri_st321 :: "int \<Rightarrow> uri_action target" where
  "uri_st321 c = (if c = 58 then st 322 else st 0)"

definition uri_st322 :: "int \<Rightarrow> uri_action target" where
  "uri_st322 c =
     (if c = 58 then st 305 else if c < 65 then (if 48 \<le> c \<and> c \<le> 57 then st 323 else
     st 0) else if c > 70 then (if 97 \<le> c \<and> c \<le> 102 then st 323 else st 0) else st
     323)"

definition uri_st323 :: "int \<Rightarrow> uri_action target" where
  "uri_st323 c =
     (if c = 93 then st 512 else if c < 65 then (if 48 \<le> c \<and> c \<le> 57 then st 324 else
     st 0) else if c > 70 then (if 97 \<le> c \<and> c \<le> 102 then st 324 else st 0) else st
     324)"

definition uri_st324 :: "int \<Rightarrow> uri_action target" where
  "uri_st324 c =
     (if c = 93 then st 512 else if c < 65 then (if 48 \<le> c \<and> c \<le> 57 then st 325 else
     st 0) else if c > 70 then (if 97 \<le> c \<and> c \<le> 102 then st 325 else st 0) else st
     325)"

definition uri_st325 :: "int \<Rightarrow> uri_action target" where
  "uri_st325 c =
     (if c = 93 then st 512 else if c < 65 then (if 48 \<le> c \<and> c \<le> 57 then st 305 else
     st 0) else if c > 70 then (if 97 \<le> c \<and> c \<le> 102 then st 305 else st 0) else st
     305)"

definition uri_st326 :: "int \<Rightarrow> uri_action target" where
  "uri_st326 c =
     (if c = 46 then st 294 else if c = 58 then st 322 else if c < 65 then (if 48 \<le> c \<and> c
     \<le> 57 then st 327 else st 0) else if c > 70 then (if 97 \<le> c \<and> c \<le> 102 then
     st 319 else st 0) else st 319)"

definition uri_st327 :: "int \<Rightarrow> uri_action target" where
  "uri_st327 c =
     (if c = 46 then st 294 else if c = 58 then st 322 else if c < 65 then (if 48 \<le> c \<and> c
     \<le> 57 then st 328 else st 0) else if c > 70 then (if 97 \<le> c \<and> c \<le> 102 then
     st 320 else st 0) else st 320)"

definition uri_st328 :: "int \<Rightarrow> uri_action target" where
  "uri_st328 c =
     (if c = 46 then st 294 else if c = 58 then st 322 else if c < 65 then (if 48 \<le> c \<and> c
     \<le> 57 then st 321 else st 0) else if c > 70 then (if 97 \<le> c \<and> c \<le> 102 then
     st 321 else st 0) else st 321)"

definition uri_st329 :: "int \<Rightarrow> uri_action target" where
  "uri_st329 c =
     (if c = 46 then st 294 else if c = 53 then st 331 else if c = 58 then st 322 else if c < 65
     then (if 48 \<le> c \<and> c \<le> 57 then st 330 else st 0) else if c > 70 then (if 97
     \<le> c \<and> c \<le> 102 then st 319 else st 0) else st 319)"

definition uri_st330 :: "int \<Rightarrow> uri_action target" where
  "uri_st330 c =
     (if c = 46 then st 294 else if c = 58 then st 322 else if c < 65 then (if 48 \<le> c \<and> c
     \<le> 57 then st 320 else st 0) else if c > 70 then (if 97 \<le> c \<and> c \<le> 102 then
     st 320 else st 0) else st 320)"

definition uri_st331 :: "int \<Rightarrow> uri_action target" where
  "uri_st331 c =
     (if c = 46 then st 294 else if c = 58 then st 322 else if c < 54 then (if 48 \<le> c then st
     328 else st 0) else if c > 57 then (if c > 70 then (if 97 \<le> c \<and> c \<le> 102 then st
     320 else st 0) else if c \<ge> 65 then st 320 else st 0) else st 320)"

definition uri_st332 :: "int \<Rightarrow> uri_action target" where
  "uri_st332 c =
     (if c = 46 then st 294 else if c = 58 then st 322 else if c < 65 then (if 48 \<le> c \<and> c
     \<le> 57 then st 330 else st 0) else if c > 70 then (if 97 \<le> c \<and> c \<le> 102 then
     st 319 else st 0) else st 319)"

definition uri_st333 :: "int \<Rightarrow> uri_action target" where
  "uri_st333 c =
     (if c < 65 then (if 48 \<le> c \<and> c \<le> 57 then st 323 else st 0) else if c > 70 then
     (if 97 \<le> c \<and> c \<le> 102 then st 323 else st 0) else st 323)"

definition uri_st334 :: "int \<Rightarrow> uri_action target" where
  "uri_st334 c =
     (if c = 58 then st 322 else if c < 65 then (if 48 \<le> c \<and> c \<le> 57 then st 319 else
     st 0) else if c > 70 then (if 97 \<le> c \<and> c \<le> 102 then st 319 else st 0) else st
     319)"

definition uri_st335 :: "int \<Rightarrow> uri_action target" where
  "uri_st335 c =
     (if c = 2 then st 291 else if c = 48 then st 336 else if c = 49 then st 340 else if c = 50
     then st 343 else if c < 65 then (if 51 \<le> c \<and> c \<le> 57 then st 346 else st 0) else
     if c > 70 then (if 97 \<le> c \<and> c \<le> 102 then st 347 else st 0) else st 347)"

definition uri_st336 :: "int \<Rightarrow> uri_action target" where
  "uri_st336 c =
     (if c = 46 then st 294 else if c = 58 then st 333 else if c < 65 then (if 48 \<le> c \<and> c
     \<le> 57 then st 337 else st 0) else if c > 70 then (if 97 \<le> c \<and> c \<le> 102 then
     st 337 else st 0) else st 337)"

definition uri_st337 :: "int \<Rightarrow> uri_action target" where
  "uri_st337 c =
     (if c = 58 then st 333 else if c < 65 then (if 48 \<le> c \<and> c \<le> 57 then st 338 else
     st 0) else if c > 70 then (if 97 \<le> c \<and> c \<le> 102 then st 338 else st 0) else st
     338)"

definition uri_st338 :: "int \<Rightarrow> uri_action target" where
  "uri_st338 c =
     (if c = 58 then st 333 else if c < 65 then (if 48 \<le> c \<and> c \<le> 57 then st 339 else
     st 0) else if c > 70 then (if 97 \<le> c \<and> c \<le> 102 then st 339 else st 0) else st
     339)"

definition uri_st339 :: "int \<Rightarrow> uri_action target" where
  "uri_st339 c = (if c = 58 then st 333 else st 0)"

definition uri_st340 :: "int \<Rightarrow> uri_action target" where
  "uri_st340 c =
     (if c = 46 then st 294 else if c = 58 then st 333 else if c < 65 then (if 48 \<le> c \<and> c
     \<le> 57 then st 341 else st 0) else if c > 70 then (if 97 \<le> c \<and> c \<le> 102 then
     st 337 else st 0) else st 337)"

definition uri_st341 :: "int \<Rightarrow> uri_action target" where
  "uri_st341 c =
     (if c = 46 then st 294 else if c = 58 then st 333 else if c < 65 then (if 48 \<le> c \<and> c
     \<le> 57 then st 342 else st 0) else if c > 70 then (if 97 \<le> c \<and> c \<le> 102 then
     st 338 else st 0) else st 338)"

definition uri_st342 :: "int \<Rightarrow> uri_action target" where
  "uri_st342 c =
     (if c = 46 then st 294 else if c = 58 then st 333 else if c < 65 then (if 48 \<le> c \<and> c
     \<le> 57 then st 339 else st 0) else if c > 70 then (if 97 \<le> c \<and> c \<le> 102 then
     st 339 else st 0) else st 339)"

definition uri_st343 :: "int \<Rightarrow> uri_action target" where
  "uri_st343 c =
     (if c = 46 then st 294 else if c = 53 then st 345 else if c = 58 then st 333 else if c < 65
     then (if 48 \<le> c \<and> c \<le> 57 then st 344 else st 0) else if c > 70 then (if 97
     \<le> c \<and> c \<le> 102 then st 337 else st 0) else st 337)"

definition uri_st344 :: "int \<Rightarrow> uri_action target" where
  "uri_st344 c =
     (if c = 46 then st 294 else if c = 58 then st 333 else if c < 65 then (if 48 \<le> c \<and> c
     \<le> 57 then st 338 else st 0) else if c > 70 then (if 97 \<le> c \<and> c \<le> 102 then
     st 338 else st 0) else st 338)"

definition uri_st345 :: "int \<Rightarrow> uri_action target" where
  "uri_st345 c =
     (if c = 46 then st 294 else if c = 58 then st 333 else if c < 54 then (if 48 \<le> c then st
     342 else st 0) else if c > 57 then (if c > 70 then (if 97 \<le> c \<and> c \<le> 102 then st
     338 else st 0) else if c \<ge> 65 then st 338 else st 0) else st 338)"

definition uri_st346 :: "int \<Rightarrow> uri_action target" where
  "uri_st346 c =
     (if c = 46 then st 294 else if c = 58 then st 333 else if c < 65 then (if 48 \<le> c \<and> c
     \<le> 57 then st 344 else st 0) else if c > 70 then (if 97 \<le> c \<and> c \<le> 102 then
     st 337 else st 0) else st 337)"

definition uri_st347 :: "int \<Rightarrow> uri_action target" where
  "uri_st347 c =
     (if c = 58 then st 333 else if c < 65 then (if 48 \<le> c \<and> c \<le> 57 then st 337 else
     st 0) else if c > 70 then (if 97 \<le> c \<and> c \<le> 102 then st 337 else st 0) else st
     337)"

definition uri_st348 :: "int \<Rightarrow> uri_action target" where
  "uri_st348 c =
     (if c < 65 then (if 48 \<le> c \<and> c \<le> 57 then st 349 else st 0) else if c > 70 then
     (if 97 \<le> c \<and> c \<le> 102 then st 349 else st 0) else st 349)"

definition uri_st349 :: "int \<Rightarrow> uri_action target" where
  "uri_st349 c =
     (if c = 58 then st 335 else if c < 65 then (if 48 \<le> c \<and> c \<le> 57 then st 350 else
     st 0) else if c > 70 then (if 97 \<le> c \<and> c \<le> 102 then st 350 else st 0) else st
     350)"

definition uri_st350 :: "int \<Rightarrow> uri_action target" where
  "uri_st350 c =
     (if c = 58 then st 335 else if c < 65 then (if 48 \<le> c \<and> c \<le> 57 then st 351 else
     st 0) else if c > 70 then (if 97 \<le> c \<and> c \<le> 102 then st 351 else st 0) else st
     351)"

definition uri_st351 :: "int \<Rightarrow> uri_action target" where
  "uri_st351 c =
     (if c = 58 then st 335 else if c < 65 then (if 48 \<le> c \<and> c \<le> 57 then st 352 else
     st 0) else if c > 70 then (if 97 \<le> c \<and> c \<le> 102 then st 352 else st 0) else st
     352)"

definition uri_st352 :: "int \<Rightarrow> uri_action target" where
  "uri_st352 c = (if c = 58 then st 335 else st 0)"

definition uri_st353 :: "int \<Rightarrow> uri_action target" where
  "uri_st353 c =
     (if c < 65 then (if 48 \<le> c \<and> c \<le> 57 then st 354 else st 0) else if c > 70 then
     (if 97 \<le> c \<and> c \<le> 102 then st 354 else st 0) else st 354)"

definition uri_st354 :: "int \<Rightarrow> uri_action target" where
  "uri_st354 c =
     (if c = 58 then st 348 else if c < 65 then (if 48 \<le> c \<and> c \<le> 57 then st 355 else
     st 0) else if c > 70 then (if 97 \<le> c \<and> c \<le> 102 then st 355 else st 0) else st
     355)"

definition uri_st355 :: "int \<Rightarrow> uri_action target" where
  "uri_st355 c =
     (if c = 58 then st 348 else if c < 65 then (if 48 \<le> c \<and> c \<le> 57 then st 356 else
     st 0) else if c > 70 then (if 97 \<le> c \<and> c \<le> 102 then st 356 else st 0) else st
     356)"

definition uri_st356 :: "int \<Rightarrow> uri_action target" where
  "uri_st356 c =
     (if c = 58 then st 348 else if c < 65 then (if 48 \<le> c \<and> c \<le> 57 then st 357 else
     st 0) else if c > 70 then (if 97 \<le> c \<and> c \<le> 102 then st 357 else st 0) else st
     357)"

definition uri_st357 :: "int \<Rightarrow> uri_action target" where
  "uri_st357 c = (if c = 58 then st 348 else st 0)"

definition uri_st358 :: "int \<Rightarrow> uri_action target" where
  "uri_st358 c =
     (if c < 65 then (if 48 \<le> c \<and> c \<le> 57 then st 359 else st 0) else if c > 70 then
     (if 97 \<le> c \<and> c \<le> 102 then st 359 else st 0) else st 359)"

definition uri_st359 :: "int \<Rightarrow> uri_action target" where
  "uri_st359 c =
     (if c = 58 then st 353 else if c < 65 then (if 48 \<le> c \<and> c \<le> 57 then st 360 else
     st 0) else if c > 70 then (if 97 \<le> c \<and> c \<le> 102 then st 360 else st 0) else st
     360)"

definition uri_st360 :: "int \<Rightarrow> uri_action target" where
  "uri_st360 c =
     (if c = 58 then st 353 else if c < 65 then (if 48 \<le> c \<and> c \<le> 57 then st 361 else
     st 0) else if c > 70 then (if 97 \<le> c \<and> c \<le> 102 then st 361 else st 0) else st
     361)"

definition uri_st361 :: "int \<Rightarrow> uri_action target" where
  "uri_st361 c =
     (if c = 58 then st 353 else if c < 65 then (if 48 \<le> c \<and> c \<le> 57 then st 362 else
     st 0) else if c > 70 then (if 97 \<le> c \<and> c \<le> 102 then st 362 else st 0) else st
     362)"

definition uri_st362 :: "int \<Rightarrow> uri_action target" where
  "uri_st362 c = (if c = 58 then st 353 else st 0)"

definition uri_st363 :: "int \<Rightarrow> uri_action target" where
  "uri_st363 c =
     (if c < 65 then (if 48 \<le> c \<and> c \<le> 57 then st 364 else st 0) else if c > 70 then
     (if 97 \<le> c \<and> c \<le> 102 then st 364 else st 0) else st 364)"

definition uri_st364 :: "int \<Rightarrow> uri_action target" where
  "uri_st364 c =
     (if c = 58 then st 358 else if c < 65 then (if 48 \<le> c \<and> c \<le> 57 then st 365 else
     st 0) else if c > 70 then (if 97 \<le> c \<and> c \<le> 102 then st 365 else st 0) else st
     365)"

definition uri_st365 :: "int \<Rightarrow> uri_action target" where
  "uri_st365 c =
     (if c = 58 then st 358 else if c < 65 then (if 48 \<le> c \<and> c \<le> 57 then st 366 else
     st 0) else if c > 70 then (if 97 \<le> c \<and> c \<le> 102 then st 366 else st 0) else st
     366)"

definition uri_st366 :: "int \<Rightarrow> uri_action target" where
  "uri_st366 c =
     (if c = 58 then st 358 else if c < 65 then (if 48 \<le> c \<and> c \<le> 57 then st 367 else
     st 0) else if c > 70 then (if 97 \<le> c \<and> c \<le> 102 then st 367 else st 0) else st
     367)"

definition uri_st367 :: "int \<Rightarrow> uri_action target" where
  "uri_st367 c = (if c = 58 then st 358 else st 0)"

definition uri_st368 :: "int \<Rightarrow> uri_action target" where
  "uri_st368 c = (if c = 58 then st 369 else st 0)"

definition uri_st369 :: "int \<Rightarrow> uri_action target" where
  "uri_st369 c =
     (if c = 2 then st 291 else if c = 48 then st 370 else if c = 49 then st 439 else if c = 50
     then st 442 else if c = 93 then st 512 else if c < 65 then (if 51 \<le> c \<and> c \<le> 57
     then st 445 else st 0) else if c > 70 then (if 97 \<le> c \<and> c \<le> 102 then st 446
     else st 0) else st 446)"

definition uri_st370 :: "int \<Rightarrow> uri_action target" where
  "uri_st370 c =
     (if c = 46 then st 294 else if c = 58 then st 374 else if c = 93 then st 512 else if c < 65
     then (if 48 \<le> c \<and> c \<le> 57 then st 371 else st 0) else if c > 70 then (if 97
     \<le> c \<and> c \<le> 102 then st 371 else st 0) else st 371)"

definition uri_st371 :: "int \<Rightarrow> uri_action target" where
  "uri_st371 c =
     (if c = 58 then st 374 else if c = 93 then st 512 else if c < 65 then (if 48 \<le> c \<and> c
     \<le> 57 then st 372 else st 0) else if c > 70 then (if 97 \<le> c \<and> c \<le> 102 then
     st 372 else st 0) else st 372)"

definition uri_st372 :: "int \<Rightarrow> uri_action target" where
  "uri_st372 c =
     (if c = 58 then st 374 else if c = 93 then st 512 else if c < 65 then (if 48 \<le> c \<and> c
     \<le> 57 then st 373 else st 0) else if c > 70 then (if 97 \<le> c \<and> c \<le> 102 then
     st 373 else st 0) else st 373)"

definition uri_st373 :: "int \<Rightarrow> uri_action target" where
  "uri_st373 c = (if c = 58 then st 374 else if c = 93 then st 512 else st 0)"

definition uri_st374 :: "int \<Rightarrow> uri_action target" where
  "uri_st374 c =
     (if c = 2 then st 291 else if c = 48 then st 375 else if c = 49 then st 431 else if c = 50
     then st 434 else if c < 65 then (if 51 \<le> c \<and> c \<le> 57 then st 437 else st 0) else
     if c > 70 then (if 97 \<le> c \<and> c \<le> 102 then st 438 else st 0) else st 438)"

definition uri_st375 :: "int \<Rightarrow> uri_action target" where
  "uri_st375 c =
     (if c = 46 then st 294 else if c = 58 then st 379 else if c = 93 then st 512 else if c < 65
     then (if 48 \<le> c \<and> c \<le> 57 then st 376 else st 0) else if c > 70 then (if 97
     \<le> c \<and> c \<le> 102 then st 376 else st 0) else st 376)"

definition uri_st376 :: "int \<Rightarrow> uri_action target" where
  "uri_st376 c =
     (if c = 58 then st 379 else if c = 93 then st 512 else if c < 65 then (if 48 \<le> c \<and> c
     \<le> 57 then st 377 else st 0) else if c > 70 then (if 97 \<le> c \<and> c \<le> 102 then
     st 377 else st 0) else st 377)"

definition uri_st377 :: "int \<Rightarrow> uri_action target" where
  "uri_st377 c =
     (if c = 58 then st 379 else if c = 93 then st 512 else if c < 65 then (if 48 \<le> c \<and> c
     \<le> 57 then st 378 else st 0) else if c > 70 then (if 97 \<le> c \<and> c \<le> 102 then
     st 378 else st 0) else st 378)"

definition uri_st378 :: "int \<Rightarrow> uri_action target" where
  "uri_st378 c = (if c = 58 then st 379 else if c = 93 then st 512 else st 0)"

definition uri_st379 :: "int \<Rightarrow> uri_action target" where
  "uri_st379 c =
     (if c = 2 then st 291 else if c = 48 then st 380 else if c = 49 then st 423 else if c = 50
     then st 426 else if c < 65 then (if 51 \<le> c \<and> c \<le> 57 then st 429 else st 0) else
     if c > 70 then (if 97 \<le> c \<and> c \<le> 102 then st 430 else st 0) else st 430)"

definition uri_st380 :: "int \<Rightarrow> uri_action target" where
  "uri_st380 c =
     (if c = 46 then st 294 else if c = 58 then st 384 else if c = 93 then st 512 else if c < 65
     then (if 48 \<le> c \<and> c \<le> 57 then st 381 else st 0) else if c > 70 then (if 97
     \<le> c \<and> c \<le> 102 then st 381 else st 0) else st 381)"

definition uri_st381 :: "int \<Rightarrow> uri_action target" where
  "uri_st381 c =
     (if c = 58 then st 384 else if c = 93 then st 512 else if c < 65 then (if 48 \<le> c \<and> c
     \<le> 57 then st 382 else st 0) else if c > 70 then (if 97 \<le> c \<and> c \<le> 102 then
     st 382 else st 0) else st 382)"

definition uri_st382 :: "int \<Rightarrow> uri_action target" where
  "uri_st382 c =
     (if c = 58 then st 384 else if c = 93 then st 512 else if c < 65 then (if 48 \<le> c \<and> c
     \<le> 57 then st 383 else st 0) else if c > 70 then (if 97 \<le> c \<and> c \<le> 102 then
     st 383 else st 0) else st 383)"

definition uri_st383 :: "int \<Rightarrow> uri_action target" where
  "uri_st383 c = (if c = 58 then st 384 else if c = 93 then st 512 else st 0)"

definition uri_st384 :: "int \<Rightarrow> uri_action target" where
  "uri_st384 c =
     (if c = 2 then st 291 else if c = 48 then st 385 else if c = 49 then st 415 else if c = 50
     then st 418 else if c < 65 then (if 51 \<le> c \<and> c \<le> 57 then st 421 else st 0) else
     if c > 70 then (if 97 \<le> c \<and> c \<le> 102 then st 422 else st 0) else st 422)"

definition uri_st385 :: "int \<Rightarrow> uri_action target" where
  "uri_st385 c =
     (if c = 46 then st 294 else if c = 58 then st 389 else if c = 93 then st 512 else if c < 65
     then (if 48 \<le> c \<and> c \<le> 57 then st 386 else st 0) else if c > 70 then (if 97
     \<le> c \<and> c \<le> 102 then st 386 else st 0) else st 386)"

definition uri_st386 :: "int \<Rightarrow> uri_action target" where
  "uri_st386 c =
     (if c = 58 then st 389 else if c = 93 then st 512 else if c < 65 then (if 48 \<le> c \<and> c
     \<le> 57 then st 387 else st 0) else if c > 70 then (if 97 \<le> c \<and> c \<le> 102 then
     st 387 else st 0) else st 387)"

definition uri_st387 :: "int \<Rightarrow> uri_action target" where
  "uri_st387 c =
     (if c = 58 then st 389 else if c = 93 then st 512 else if c < 65 then (if 48 \<le> c \<and> c
     \<le> 57 then st 388 else st 0) else if c > 70 then (if 97 \<le> c \<and> c \<le> 102 then
     st 388 else st 0) else st 388)"

definition uri_st388 :: "int \<Rightarrow> uri_action target" where
  "uri_st388 c = (if c = 58 then st 389 else if c = 93 then st 512 else st 0)"

definition uri_st389 :: "int \<Rightarrow> uri_action target" where
  "uri_st389 c =
     (if c = 2 then st 291 else if c = 48 then st 390 else if c = 49 then st 407 else if c = 50
     then st 410 else if c < 65 then (if 51 \<le> c \<and> c \<le> 57 then st 413 else st 0) else
     if c > 70 then (if 97 \<le> c \<and> c \<le> 102 then st 414 else st 0) else st 414)"

definition uri_st390 :: "int \<Rightarrow> uri_action target" where
  "uri_st390 c =
     (if c = 46 then st 294 else if c = 58 then st 394 else if c = 93 then st 512 else if c < 65
     then (if 48 \<le> c \<and> c \<le> 57 then st 391 else st 0) else if c > 70 then (if 97
     \<le> c \<and> c \<le> 102 then st 391 else st 0) else st 391)"

definition uri_st391 :: "int \<Rightarrow> uri_action target" where
  "uri_st391 c =
     (if c = 58 then st 394 else if c = 93 then st 512 else if c < 65 then (if 48 \<le> c \<and> c
     \<le> 57 then st 392 else st 0) else if c > 70 then (if 97 \<le> c \<and> c \<le> 102 then
     st 392 else st 0) else st 392)"

definition uri_st392 :: "int \<Rightarrow> uri_action target" where
  "uri_st392 c =
     (if c = 58 then st 394 else if c = 93 then st 512 else if c < 65 then (if 48 \<le> c \<and> c
     \<le> 57 then st 393 else st 0) else if c > 70 then (if 97 \<le> c \<and> c \<le> 102 then
     st 393 else st 0) else st 393)"

definition uri_st393 :: "int \<Rightarrow> uri_action target" where
  "uri_st393 c = (if c = 58 then st 394 else if c = 93 then st 512 else st 0)"

definition uri_st394 :: "int \<Rightarrow> uri_action target" where
  "uri_st394 c =
     (if c = 2 then st 291 else if c = 48 then st 395 else if c = 49 then st 399 else if c = 50
     then st 402 else if c < 65 then (if 51 \<le> c \<and> c \<le> 57 then st 405 else st 0) else
     if c > 70 then (if 97 \<le> c \<and> c \<le> 102 then st 406 else st 0) else st 406)"

definition uri_st395 :: "int \<Rightarrow> uri_action target" where
  "uri_st395 c =
     (if c = 46 then st 294 else if c = 58 then st 333 else if c = 93 then st 512 else if c < 65
     then (if 48 \<le> c \<and> c \<le> 57 then st 396 else st 0) else if c > 70 then (if 97
     \<le> c \<and> c \<le> 102 then st 396 else st 0) else st 396)"

definition uri_st396 :: "int \<Rightarrow> uri_action target" where
  "uri_st396 c =
     (if c = 58 then st 333 else if c = 93 then st 512 else if c < 65 then (if 48 \<le> c \<and> c
     \<le> 57 then st 397 else st 0) else if c > 70 then (if 97 \<le> c \<and> c \<le> 102 then
     st 397 else st 0) else st 397)"

definition uri_st397 :: "int \<Rightarrow> uri_action target" where
  "uri_st397 c =
     (if c = 58 then st 333 else if c = 93 then st 512 else if c < 65 then (if 48 \<le> c \<and> c
     \<le> 57 then st 398 else st 0) else if c > 70 then (if 97 \<le> c \<and> c \<le> 102 then
     st 398 else st 0) else st 398)"

definition uri_st398 :: "int \<Rightarrow> uri_action target" where
  "uri_st398 c = (if c = 58 then st 333 else if c = 93 then st 512 else st 0)"

definition uri_st399 :: "int \<Rightarrow> uri_action target" where
  "uri_st399 c =
     (if c = 46 then st 294 else if c = 58 then st 333 else if c = 93 then st 512 else if c < 65
     then (if 48 \<le> c \<and> c \<le> 57 then st 400 else st 0) else if c > 70 then (if 97
     \<le> c \<and> c \<le> 102 then st 396 else st 0) else st 396)"

definition uri_st400 :: "int \<Rightarrow> uri_action target" where
  "uri_st400 c =
     (if c = 46 then st 294 else if c = 58 then st 333 else if c = 93 then st 512 else if c < 65
     then (if 48 \<le> c \<and> c \<le> 57 then st 401 else st 0) else if c > 70 then (if 97
     \<le> c \<and> c \<le> 102 then st 397 else st 0) else st 397)"

definition uri_st401 :: "int \<Rightarrow> uri_action target" where
  "uri_st401 c =
     (if c = 46 then st 294 else if c = 58 then st 333 else if c = 93 then st 512 else if c < 65
     then (if 48 \<le> c \<and> c \<le> 57 then st 398 else st 0) else if c > 70 then (if 97
     \<le> c \<and> c \<le> 102 then st 398 else st 0) else st 398)"

definition uri_st402 :: "int \<Rightarrow> uri_action target" where
  "uri_st402 c =
     (if c = 46 then st 294 else if c = 53 then st 404 else if c = 58 then st 333 else if c = 93
     then st 512 else if c < 65 then (if 48 \<le> c \<and> c \<le> 57 then st 403 else st 0) else
     if c > 70 then (if 97 \<le> c \<and> c \<le> 102 then st 396 else st 0) else st 396)"

definition uri_st403 :: "int \<Rightarrow> uri_action target" where
  "uri_st403 c =
     (if c = 46 then st 294 else if c = 58 then st 333 else if c = 93 then st 512 else if c < 65
     then (if 48 \<le> c \<and> c \<le> 57 then st 397 else st 0) else if c > 70 then (if 97
     \<le> c \<and> c \<le> 102 then st 397 else st 0) else st 397)"

definition uri_st404 :: "int \<Rightarrow> uri_action target" where
  "uri_st404 c =
     (if c = 46 then st 294 else if c = 58 then st 333 else if c = 93 then st 512 else if c < 54
     then (if 48 \<le> c then st 401 else st 0) else if c > 57 then (if c > 70 then (if 97 \<le>
     c \<and> c \<le> 102 then st 397 else st 0) else if c \<ge> 65 then st 397 else st 0) else
     st 397)"

definition uri_st405 :: "int \<Rightarrow> uri_action target" where
  "uri_st405 c =
     (if c = 46 then st 294 else if c = 58 then st 333 else if c = 93 then st 512 else if c < 65
     then (if 48 \<le> c \<and> c \<le> 57 then st 403 else st 0) else if c > 70 then (if 97
     \<le> c \<and> c \<le> 102 then st 396 else st 0) else st 396)"

definition uri_st406 :: "int \<Rightarrow> uri_action target" where
  "uri_st406 c =
     (if c = 58 then st 333 else if c = 93 then st 512 else if c < 65 then (if 48 \<le> c \<and> c
     \<le> 57 then st 396 else st 0) else if c > 70 then (if 97 \<le> c \<and> c \<le> 102 then
     st 396 else st 0) else st 396)"

definition uri_st407 :: "int \<Rightarrow> uri_action target" where
  "uri_st407 c =
     (if c = 46 then st 294 else if c = 58 then st 394 else if c = 93 then st 512 else if c < 65
     then (if 48 \<le> c \<and> c \<le> 57 then st 408 else st 0) else if c > 70 then (if 97
     \<le> c \<and> c \<le> 102 then st 391 else st 0) else st 391)"

definition uri_st408 :: "int \<Rightarrow> uri_action target" where
  "uri_st408 c =
     (if c = 46 then st 294 else if c = 58 then st 394 else if c = 93 then st 512 else if c < 65
     then (if 48 \<le> c \<and> c \<le> 57 then st 409 else st 0) else if c > 70 then (if 97
     \<le> c \<and> c \<le> 102 then st 392 else st 0) else st 392)"

definition uri_st409 :: "int \<Rightarrow> uri_action target" where
  "uri_st409 c =
     (if c = 46 then st 294 else if c = 58 then st 394 else if c = 93 then st 512 else if c < 65
     then (if 48 \<le> c \<and> c \<le> 57 then st 393 else st 0) else if c > 70 then (if 97
     \<le> c \<and> c \<le> 102 then st 393 else st 0) else st 393)"

definition uri_st410 :: "int \<Rightarrow> uri_action target" where
  "uri_st410 c =
     (if c = 46 then st 294 else if c = 53 then st 412 else if c = 58 then st 394 else if c = 93
     then st 512 else if c < 65 then (if 48 \<le> c \<and> c \<le> 57 then st 411 else st 0) else
     if c > 70 then (if 97 \<le> c \<and> c \<le> 102 then st 391 else st 0) else st 391)"

definition uri_st411 :: "int \<Rightarrow> uri_action target" where
  "uri_st411 c =
     (if c = 46 then st 294 else if c = 58 then st 394 else if c = 93 then st 512 else if c < 65
     then (if 48 \<le> c \<and> c \<le> 57 then st 392 else st 0) else if c > 70 then (if 97
     \<le> c \<and> c \<le> 102 then st 392 else st 0) else st 392)"

definition uri_st412 :: "int \<Rightarrow> uri_action target" where
  "uri_st412 c =
     (if c = 46 then st 294 else if c = 58 then st 394 else if c = 93 then st 512 else if c < 54
     then (if 48 \<le> c then st 409 else st 0) else if c > 57 then (if c > 70 then (if 97 \<le>
     c \<and> c \<le> 102 then st 392 else st 0) else if c \<ge> 65 then st 392 else st 0) else
     st 392)"

definition uri_st413 :: "int \<Rightarrow> uri_action target" where
  "uri_st413 c =
     (if c = 46 then st 294 else if c = 58 then st 394 else if c = 93 then st 512 else if c < 65
     then (if 48 \<le> c \<and> c \<le> 57 then st 411 else st 0) else if c > 70 then (if 97
     \<le> c \<and> c \<le> 102 then st 391 else st 0) else st 391)"

definition uri_st414 :: "int \<Rightarrow> uri_action target" where
  "uri_st414 c =
     (if c = 58 then st 394 else if c = 93 then st 512 else if c < 65 then (if 48 \<le> c \<and> c
     \<le> 57 then st 391 else st 0) else if c > 70 then (if 97 \<le> c \<and> c \<le> 102 then
     st 391 else st 0) else st 391)"

definition uri_st415 :: "int \<Rightarrow> uri_action target" where
  "uri_st415 c =
     (if c = 46 then st 294 else if c = 58 then st 389 else if c = 93 then st 512 else if c < 65
     then (if 48 \<le> c \<and> c \<le> 57 then st 416 else st 0) else if c > 70 then (if 97
     \<le> c \<and> c \<le> 102 then st 386 else st 0) else st 386)"

definition uri_st416 :: "int \<Rightarrow> uri_action target" where
  "uri_st416 c =
     (if c = 46 then st 294 else if c = 58 then st 389 else if c = 93 then st 512 else if c < 65
     then (if 48 \<le> c \<and> c \<le> 57 then st 417 else st 0) else if c > 70 then (if 97
     \<le> c \<and> c \<le> 102 then st 387 else st 0) else st 387)"

definition uri_st417 :: "int \<Rightarrow> uri_action target" where
  "uri_st417 c =
     (if c = 46 then st 294 else if c = 58 then st 389 else if c = 93 then st 512 else if c < 65
     then (if 48 \<le> c \<and> c \<le> 57 then st 388 else st 0) else if c > 70 then (if 97
     \<le> c \<and> c \<le> 102 then st 388 else st 0) else st 388)"

definition uri_st418 :: "int \<Rightarrow> uri_action target" where
  "uri_st418 c =
     (if c = 46 then st 294 else if c = 53 then st 420 else if c = 58 then st 389 else if c = 93
     then st 512 else if c < 65 then (if 48 \<le> c \<and> c \<le> 57 then st 419 else st 0) else
     if c > 70 then (if 97 \<le> c \<and> c \<le> 102 then st 386 else st 0) else st 386)"

definition uri_st419 :: "int \<Rightarrow> uri_action target" where
  "uri_st419 c =
     (if c = 46 then st 294 else if c = 58 then st 389 else if c = 93 then st 512 else if c < 65
     then (if 48 \<le> c \<and> c \<le> 57 then st 387 else st 0) else if c > 70 then (if 97
     \<le> c \<and> c \<le> 102 then st 387 else st 0) else st 387)"

definition uri_st420 :: "int \<Rightarrow> uri_action target" where
  "uri_st420 c =
     (if c = 46 then st 294 else if c = 58 then st 389 else if c = 93 then st 512 else if c < 54
     then (if 48 \<le> c then st 417 else st 0) else if c > 57 then (if c > 70 then (if 97 \<le>
     c \<and> c \<le> 102 then st 387 else st 0) else if c \<ge> 65 then st 387 else st 0) else
     st 387)"

definition uri_st421 :: "int \<Rightarrow> uri_action target" where
  "uri_st421 c =
     (if c = 46 then st 294 else if c = 58 then st 389 else if c = 93 then st 512 else if c < 65
     then (if 48 \<le> c \<and> c \<le> 57 then st 419 else st 0) else if c > 70 then (if 97
     \<le> c \<and> c \<le> 102 then st 386 else st 0) else st 386)"

definition uri_st422 :: "int \<Rightarrow> uri_action target" where
  "uri_st422 c =
     (if c = 58 then st 389 else if c = 93 then st 512 else if c < 65 then (if 48 \<le> c \<and> c
     \<le> 57 then st 386 else st 0) else if c > 70 then (if 97 \<le> c \<and> c \<le> 102 then
     st 386 else st 0) else st 386)"

definition uri_st423 :: "int \<Rightarrow> uri_action target" where
  "uri_st423 c =
     (if c = 46 then st 294 else if c = 58 then st 384 else if c = 93 then st 512 else if c < 65
     then (if 48 \<le> c \<and> c \<le> 57 then st 424 else st 0) else if c > 70 then (if 97
     \<le> c \<and> c \<le> 102 then st 381 else st 0) else st 381)"

definition uri_st424 :: "int \<Rightarrow> uri_action target" where
  "uri_st424 c =
     (if c = 46 then st 294 else if c = 58 then st 384 else if c = 93 then st 512 else if c < 65
     then (if 48 \<le> c \<and> c \<le> 57 then st 425 else st 0) else if c > 70 then (if 97
     \<le> c \<and> c \<le> 102 then st 382 else st 0) else st 382)"

definition uri_st425 :: "int \<Rightarrow> uri_action target" where
  "uri_st425 c =
     (if c = 46 then st 294 else if c = 58 then st 384 else if c = 93 then st 512 else if c < 65
     then (if 48 \<le> c \<and> c \<le> 57 then st 383 else st 0) else if c > 70 then (if 97
     \<le> c \<and> c \<le> 102 then st 383 else st 0) else st 383)"

definition uri_st426 :: "int \<Rightarrow> uri_action target" where
  "uri_st426 c =
     (if c = 46 then st 294 else if c = 53 then st 428 else if c = 58 then st 384 else if c = 93
     then st 512 else if c < 65 then (if 48 \<le> c \<and> c \<le> 57 then st 427 else st 0) else
     if c > 70 then (if 97 \<le> c \<and> c \<le> 102 then st 381 else st 0) else st 381)"

definition uri_st427 :: "int \<Rightarrow> uri_action target" where
  "uri_st427 c =
     (if c = 46 then st 294 else if c = 58 then st 384 else if c = 93 then st 512 else if c < 65
     then (if 48 \<le> c \<and> c \<le> 57 then st 382 else st 0) else if c > 70 then (if 97
     \<le> c \<and> c \<le> 102 then st 382 else st 0) else st 382)"

definition uri_st428 :: "int \<Rightarrow> uri_action target" where
  "uri_st428 c =
     (if c = 46 then st 294 else if c = 58 then st 384 else if c = 93 then st 512 else if c < 54
     then (if 48 \<le> c then st 425 else st 0) else if c > 57 then (if c > 70 then (if 97 \<le>
     c \<and> c \<le> 102 then st 382 else st 0) else if c \<ge> 65 then st 382 else st 0) else
     st 382)"

definition uri_st429 :: "int \<Rightarrow> uri_action target" where
  "uri_st429 c =
     (if c = 46 then st 294 else if c = 58 then st 384 else if c = 93 then st 512 else if c < 65
     then (if 48 \<le> c \<and> c \<le> 57 then st 427 else st 0) else if c > 70 then (if 97
     \<le> c \<and> c \<le> 102 then st 381 else st 0) else st 381)"

definition uri_st430 :: "int \<Rightarrow> uri_action target" where
  "uri_st430 c =
     (if c = 58 then st 384 else if c = 93 then st 512 else if c < 65 then (if 48 \<le> c \<and> c
     \<le> 57 then st 381 else st 0) else if c > 70 then (if 97 \<le> c \<and> c \<le> 102 then
     st 381 else st 0) else st 381)"

definition uri_st431 :: "int \<Rightarrow> uri_action target" where
  "uri_st431 c =
     (if c = 46 then st 294 else if c = 58 then st 379 else if c = 93 then st 512 else if c < 65
     then (if 48 \<le> c \<and> c \<le> 57 then st 432 else st 0) else if c > 70 then (if 97
     \<le> c \<and> c \<le> 102 then st 376 else st 0) else st 376)"

definition uri_st432 :: "int \<Rightarrow> uri_action target" where
  "uri_st432 c =
     (if c = 46 then st 294 else if c = 58 then st 379 else if c = 93 then st 512 else if c < 65
     then (if 48 \<le> c \<and> c \<le> 57 then st 433 else st 0) else if c > 70 then (if 97
     \<le> c \<and> c \<le> 102 then st 377 else st 0) else st 377)"

definition uri_st433 :: "int \<Rightarrow> uri_action target" where
  "uri_st433 c =
     (if c = 46 then st 294 else if c = 58 then st 379 else if c = 93 then st 512 else if c < 65
     then (if 48 \<le> c \<and> c \<le> 57 then st 378 else st 0) else if c > 70 then (if 97
     \<le> c \<and> c \<le> 102 then st 378 else st 0) else st 378)"

definition uri_st434 :: "int \<Rightarrow> uri_action target" where
  "uri_st434 c =
     (if c = 46 then st 294 else if c = 53 then st 436 else if c = 58 then st 379 else if c = 93
     then st 512 else if c < 65 then (if 48 \<le> c \<and> c \<le> 57 then st 435 else st 0) else
     if c > 70 then (if 97 \<le> c \<and> c \<le> 102 then st 376 else st 0) else st 376)"

definition uri_st435 :: "int \<Rightarrow> uri_action target" where
  "uri_st435 c =
     (if c = 46 then st 294 else if c = 58 then st 379 else if c = 93 then st 512 else if c < 65
     then (if 48 \<le> c \<and> c \<le> 57 then st 377 else st 0) else if c > 70 then (if 97
     \<le> c \<and> c \<le> 102 then st 377 else st 0) else st 377)"

definition uri_st436 :: "int \<Rightarrow> uri_action target" where
  "uri_st436 c =
     (if c = 46 then st 294 else if c = 58 then st 379 else if c = 93 then st 512 else if c < 54
     then (if 48 \<le> c then st 433 else st 0) else if c > 57 then (if c > 70 then (if 97 \<le>
     c \<and> c \<le> 102 then st 377 else st 0) else if c \<ge> 65 then st 377 else st 0) else
     st 377)"

definition uri_st437 :: "int \<Rightarrow> uri_action target" where
  "uri_st437 c =
     (if c = 46 then st 294 else if c = 58 then st 379 else if c = 93 then st 512 else if c < 65
     then (if 48 \<le> c \<and> c \<le> 57 then st 435 else st 0) else if c > 70 then (if 97
     \<le> c \<and> c \<le> 102 then st 376 else st 0) else st 376)"

definition uri_st438 :: "int \<Rightarrow> uri_action target" where
  "uri_st438 c =
     (if c = 58 then st 379 else if c = 93 then st 512 else if c < 65 then (if 48 \<le> c \<and> c
     \<le> 57 then st 376 else st 0) else if c > 70 then (if 97 \<le> c \<and> c \<le> 102 then
     st 376 else st 0) else st 376)"

definition uri_st439 :: "int \<Rightarrow> uri_action target" where
  "uri_st439 c =
     (if c = 46 then st 294 else if c = 58 then st 374 else if c = 93 then st 512 else if c < 65
     then (if 48 \<le> c \<and> c \<le> 57 then st 440 else st 0) else if c > 70 then (if 97
     \<le> c \<and> c \<le> 102 then st 371 else st 0) else st 371)"

definition uri_st440 :: "int \<Rightarrow> uri_action target" where
  "uri_st440 c =
     (if c = 46 then st 294 else if c = 58 then st 374 else if c = 93 then st 512 else if c < 65
     then (if 48 \<le> c \<and> c \<le> 57 then st 441 else st 0) else if c > 70 then (if 97
     \<le> c \<and> c \<le> 102 then st 372 else st 0) else st 372)"

definition uri_st441 :: "int \<Rightarrow> uri_action target" where
  "uri_st441 c =
     (if c = 46 then st 294 else if c = 58 then st 374 else if c = 93 then st 512 else if c < 65
     then (if 48 \<le> c \<and> c \<le> 57 then st 373 else st 0) else if c > 70 then (if 97
     \<le> c \<and> c \<le> 102 then st 373 else st 0) else st 373)"

definition uri_st442 :: "int \<Rightarrow> uri_action target" where
  "uri_st442 c =
     (if c = 46 then st 294 else if c = 53 then st 444 else if c = 58 then st 374 else if c = 93
     then st 512 else if c < 65 then (if 48 \<le> c \<and> c \<le> 57 then st 443 else st 0) else
     if c > 70 then (if 97 \<le> c \<and> c \<le> 102 then st 371 else st 0) else st 371)"

definition uri_st443 :: "int \<Rightarrow> uri_action target" where
  "uri_st443 c =
     (if c = 46 then st 294 else if c = 58 then st 374 else if c = 93 then st 512 else if c < 65
     then (if 48 \<le> c \<and> c \<le> 57 then st 372 else st 0) else if c > 70 then (if 97
     \<le> c \<and> c \<le> 102 then st 372 else st 0) else st 372)"

definition uri_st444 :: "int \<Rightarrow> uri_action target" where
  "uri_st444 c =
     (if c = 46 then st 294 else if c = 58 then st 374 else if c = 93 then st 512 else if c < 54
     then (if 48 \<le> c then st 441 else st 0) else if c > 57 then (if c > 70 then (if 97 \<le>
     c \<and> c \<le> 102 then st 372 else st 0) else if c \<ge> 65 then st 372 else st 0) else
     st 372)"

definition uri_st445 :: "int \<Rightarrow> uri_action target" where
  "uri_st445 c =
     (if c = 46 then st 294 else if c = 58 then st 374 else if c = 93 then st 512 else if c < 65
     then (if 48 \<le> c \<and> c \<le> 57 then st 443 else st 0) else if c > 70 then (if 97
     \<le> c \<and> c \<le> 102 then st 371 else st 0) else st 371)"

definition uri_st446 :: "int \<Rightarrow> uri_action target" where
  "uri_st446 c =
     (if c = 58 then st 374 else if c = 93 then st 512 else if c < 65 then (if 48 \<le> c \<and> c
     \<le> 57 then st 371 else st 0) else if c > 70 then (if 97 \<le> c \<and> c \<le> 102 then
     st 371 else st 0) else st 371)"

definition uri_st447 :: "int \<Rightarrow> uri_action target" where
  "uri_st447 c =
     (if c < 65 then (if 48 \<le> c \<and> c \<le> 57 then st 448 else st 0) else if c > 70 then
     (if 97 \<le> c \<and> c \<le> 102 then st 448 else st 0) else st 448)"

definition uri_st448 :: "int \<Rightarrow> uri_action target" where
  "uri_st448 c =
     (if c = 46 then st 449 else if c < 65 then (if 48 \<le> c \<and> c \<le> 57 then st 448 else
     st 0) else if c > 70 then (if 97 \<le> c \<and> c \<le> 102 then st 448 else st 0) else st
     448)"

definition uri_st449 :: "int \<Rightarrow> uri_action target" where
  "uri_st449 c =
     (if c = 33 then st 450 else if c = 36 then st 450 else if c = 61 then st 450 else if c = 95
     then st 450 else if c = 126 then st 450 else if c < 48 then (if 38 \<le> c \<and> c \<le> 46
     then st 450 else st 0) else if c > 59 then (if c > 90 then (if 97 \<le> c \<and> c \<le> 122
     then st 450 else st 0) else if c \<ge> 65 then st 450 else st 0) else st 450)"

definition uri_st450 :: "int \<Rightarrow> uri_action target" where
  "uri_st450 c =
     (if c = 33 then st 450 else if c = 36 then st 450 else if c = 61 then st 450 else if c = 93
     then st 512 else if c = 95 then st 450 else if c = 126 then st 450 else if c < 48 then (if
     38 \<le> c \<and> c \<le> 46 then st 450 else st 0) else if c > 59 then (if c > 90 then (if
     97 \<le> c \<and> c \<le> 122 then st 450 else st 0) else if c \<ge> 65 then st 450 else st
     0) else st 450)"

definition uri_st451 :: "int \<Rightarrow> uri_action target" where
  "uri_st451 c =
     (if c = 34 then st 0 else if c = 35 then st 453 else if c = 37 then st 3 else if c = 47 then
     st 458 else if c = 58 then st 0 else if c = 60 then st 0 else if c = 62 then st 0 else if c
     = 63 then st 456 else if c = 96 then st 0 else if c = 127 then st 0 else if c < 91 then (if
     c > 32 then (if 65 \<le> c then uri_ctr461 else st 452) else if c \<ge> 0 then st 0 else st
     452) else if c > 94 then (if c > 122 then (if c \<le> 125 then st 0 else st 452) else if c
     \<ge> 97 then uri_ctr461 else st 452) else st 0)"

definition uri_st452 :: "int \<Rightarrow> uri_action target" where
  "uri_st452 c =
     (if c = 34 then st 0 else if c = 35 then st 453 else if c = 37 then st 3 else if c = 47 then
     st 455 else if c = 58 then st 0 else if c = 60 then st 0 else if c = 62 then st 0 else if c
     = 63 then st 456 else if c = 96 then st 0 else if c = 127 then st 0 else if c < 91 then (if
     0 \<le> c \<and> c \<le> 32 then st 0 else st 452) else if c > 94 then (if 123 \<le> c
     \<and> c \<le> 125 then st 0 else st 452) else st 0)"

definition uri_st453 :: "int \<Rightarrow> uri_action target" where
  "uri_st453 c =
     (if c = 37 then uri_ctr463 else if c = 60 then st 0 else if c = 62 then st 0 else if c = 96
     then st 0 else if c = 127 then st 0 else if c < 34 then (if 0 \<le> c \<and> c \<le> 32 then
     st 0 else uri_ctr462) else if c > 35 then (if c > 94 then (if 123 \<le> c \<and> c \<le> 125
     then st 0 else uri_ctr462) else if c \<ge> 91 then st 0 else uri_ctr462) else st 0)"

definition uri_st454 :: "int \<Rightarrow> uri_action target" where
  "uri_st454 c =
     (if c = 37 then st 1 else if c = 60 then st 0 else if c = 62 then st 0 else if c = 96 then st
     0 else if c = 127 then st 0 else if c < 34 then (if 0 \<le> c \<and> c \<le> 32 then st 0
     else st 454) else if c > 35 then (if c > 94 then (if 123 \<le> c \<and> c \<le> 125 then st
     0 else st 454) else if c \<ge> 91 then st 0 else st 454) else st 0)"

definition uri_st455 :: "int \<Rightarrow> uri_action target" where
  "uri_st455 c =
     (if c = 34 then st 0 else if c = 35 then st 453 else if c = 37 then st 5 else if c = 60 then
     st 0 else if c = 62 then st 0 else if c = 63 then st 456 else if c = 96 then st 0 else if c
     = 127 then st 0 else if c < 91 then (if 0 \<le> c \<and> c \<le> 32 then st 0 else st 455)
     else if c > 94 then (if 123 \<le> c \<and> c \<le> 125 then st 0 else st 455) else st 0)"

definition uri_st456 :: "int \<Rightarrow> uri_action target" where
  "uri_st456 c =
     (if c = 34 then st 0 else if c = 35 then uri_ctr467 else if c = 37 then uri_ctr468 else if c
     = 60 then st 0 else if c = 62 then st 0 else if c = 96 then st 0 else if c = 127 then st 0
     else if c < 91 then (if 0 \<le> c \<and> c \<le> 32 then st 0 else uri_ctr466) else if c >
     94 then (if 123 \<le> c \<and> c \<le> 125 then st 0 else uri_ctr466) else st 0)"

definition uri_st457 :: "int \<Rightarrow> uri_action target" where
  "uri_st457 c =
     (if c = 34 then st 0 else if c = 35 then uri_ctr469 else if c = 37 then st 7 else if c = 60
     then st 0 else if c = 62 then st 0 else if c = 96 then st 0 else if c = 127 then st 0 else
     if c < 91 then (if 0 \<le> c \<and> c \<le> 32 then st 0 else st 457) else if c > 94 then
     (if 123 \<le> c \<and> c \<le> 125 then st 0 else st 457) else st 0)"

definition uri_st458 :: "int \<Rightarrow> uri_action target" where
  "uri_st458 c =
     (if c = 34 then st 0 else if c = 35 then st 453 else if c = 37 then st 5 else if c = 47 then
     st 459 else if c = 60 then st 0 else if c = 62 then st 0 else if c = 63 then st 456 else if
     c = 96 then st 0 else if c = 127 then st 0 else if c < 91 then (if 0 \<le> c \<and> c \<le>
     32 then st 0 else st 455) else if c > 94 then (if 123 \<le> c \<and> c \<le> 125 then st 0
     else st 455) else st 0)"

definition uri_st459 :: "int \<Rightarrow> uri_action target" where
  "uri_st459 c =
     (if c = 2 then uri_ctr472 else if c = 33 then uri_ctr473 else if c = 35 then uri_ctr474 else
     if c = 37 then uri_ctr475 else if c = 47 then uri_ctr476 else if c = 48 then uri_ctr477 else
     if c = 49 then uri_ctr478 else if c = 50 then uri_ctr479 else if c = 58 then uri_ctr481 else
     if c = 59 then uri_ctr473 else if c = 61 then uri_ctr473 else if c = 63 then uri_ctr482 else
     if c = 64 then uri_ctr483 else if c = 91 then uri_ctr484 else if c = 95 then uri_ctr473 else
     if c = 126 then uri_ctr473 else if c < 51 then (if 36 \<le> c \<and> c \<le> 46 then
     uri_ctr473 else st 0) else if c > 57 then (if c > 90 then (if 97 \<le> c \<and> c \<le> 122
     then uri_ctr473 else st 0) else if c \<ge> 65 then uri_ctr473 else st 0) else uri_ctr480)"

definition uri_st460 :: "int \<Rightarrow> uri_action target" where
  "uri_st460 c =
     (if c = 35 then uri_ctr485 else if c = 47 then uri_ctr486 else if c = 58 then uri_ctr487 else
     if c = 63 then uri_ctr488 else st 0)"

definition uri_st461 :: "int \<Rightarrow> uri_action target" where
  "uri_st461 c =
     (if c = 35 then uri_ctr489 else if c = 47 then uri_ctr490 else if c = 63 then uri_ctr492 else
     if 48 \<le> c \<and> c \<le> 57 then uri_ctr491 else st 0)"

definition uri_st462 :: "int \<Rightarrow> uri_action target" where
  "uri_st462 c =
     (if c = 35 then uri_ctr493 else if c = 47 then uri_ctr494 else if c = 63 then uri_ctr496 else
     if 48 \<le> c \<and> c \<le> 57 then st 462 else st 0)"

definition uri_st463 :: "int \<Rightarrow> uri_action target" where
  "uri_st463 c =
     (if c = 35 then uri_ctr485 else if c = 47 then uri_ctr486 else if c = 58 then uri_ctr487 else
     if c = 63 then uri_ctr488 else if 48 \<le> c \<and> c \<le> 57 then st 464 else st 0)"

definition uri_st464 :: "int \<Rightarrow> uri_action target" where
  "uri_st464 c =
     (if c = 35 then uri_ctr485 else if c = 47 then uri_ctr486 else if c = 58 then uri_ctr487 else
     if c = 63 then uri_ctr488 else if 48 \<le> c \<and> c \<le> 57 then st 460 else st 0)"

definition uri_st465 :: "int \<Rightarrow> uri_action target" where
  "uri_st465 c =
     (if c = 35 then uri_ctr485 else if c = 47 then uri_ctr486 else if c = 53 then st 466 else if
     c = 58 then uri_ctr487 else if c = 63 then uri_ctr488 else if 48 \<le> c \<and> c \<le> 57
     then st 460 else st 0)"

definition uri_st466 :: "int \<Rightarrow> uri_action target" where
  "uri_st466 c =
     (if c = 35 then uri_ctr485 else if c = 47 then uri_ctr486 else if c = 58 then uri_ctr487 else
     if c = 63 then uri_ctr488 else if 48 \<le> c \<and> c \<le> 53 then st 460 else st 0)"

definition uri_st467 :: "int \<Rightarrow> uri_action target" where
  "uri_st467 c =
     (if c = 33 then st 467 else if c = 35 then uri_ctr485 else if c = 37 then st 31 else if c =
     47 then uri_ctr486 else if c = 58 then uri_ctr499 else if c = 61 then st 467 else if c = 63
     then uri_ctr488 else if c = 64 then uri_ctr38 else if c = 95 then st 467 else if c = 126
     then st 467 else if c < 65 then (if 36 \<le> c \<and> c \<le> 59 then st 467 else st 0) else
     if c > 90 then (if 97 \<le> c \<and> c \<le> 122 then st 467 else st 0) else st 467)"

definition uri_st468 :: "int \<Rightarrow> uri_action target" where
  "uri_st468 c =
     (if c = 33 then st 33 else if c = 35 then uri_ctr489 else if c = 37 then st 34 else if c = 47
     then uri_ctr490 else if c = 61 then st 33 else if c = 63 then uri_ctr492 else if c = 64 then
     uri_ctr38 else if c = 95 then st 33 else if c = 126 then st 33 else if c < 58 then (if c >
     46 then (if 48 \<le> c then uri_ctr500 else st 0) else if c \<ge> 36 then st 33 else st 0)
     else if c > 59 then (if c > 90 then (if 97 \<le> c \<and> c \<le> 122 then st 33 else st 0)
     else if c \<ge> 65 then st 33 else st 0) else st 33)"

definition uri_st469 :: "int \<Rightarrow> uri_action target" where
  "uri_st469 c =
     (if c = 2 then uri_ctr472 else if c = 33 then uri_ctr501 else if c = 35 then uri_ctr474 else
     if c = 37 then uri_ctr502 else if c = 47 then uri_ctr476 else if c = 48 then uri_ctr503 else
     if c = 49 then uri_ctr504 else if c = 50 then uri_ctr505 else if c = 58 then uri_ctr507 else
     if c = 59 then uri_ctr501 else if c = 61 then uri_ctr501 else if c = 63 then uri_ctr482 else
     if c = 91 then uri_ctr484 else if c = 95 then uri_ctr501 else if c = 126 then uri_ctr501
     else if c < 51 then (if 36 \<le> c \<and> c \<le> 46 then uri_ctr501 else st 0) else if c >
     57 then (if c > 90 then (if 97 \<le> c \<and> c \<le> 122 then uri_ctr501 else st 0) else if
     c \<ge> 65 then uri_ctr501 else st 0) else uri_ctr506)"

definition uri_st470 :: "int \<Rightarrow> uri_action target" where
  "uri_st470 c =
     (if c = 33 then st 470 else if c = 35 then uri_ctr485 else if c = 37 then st 36 else if c =
     47 then uri_ctr486 else if c = 58 then uri_ctr487 else if c = 61 then st 470 else if c = 63
     then uri_ctr488 else if c = 95 then st 470 else if c = 126 then st 470 else if c < 65 then
     (if 36 \<le> c \<and> c \<le> 59 then st 470 else st 0) else if c > 90 then (if 97 \<le> c
     \<and> c \<le> 122 then st 470 else st 0) else st 470)"

definition uri_st471 :: "int \<Rightarrow> uri_action target" where
  "uri_st471 c =
     (if c = 33 then st 470 else if c = 35 then uri_ctr485 else if c = 37 then st 36 else if c =
     46 then st 472 else if c = 47 then uri_ctr486 else if c = 58 then uri_ctr487 else if c = 61
     then st 470 else if c = 63 then uri_ctr488 else if c = 95 then st 470 else if c = 126 then
     st 470 else if c < 65 then (if 36 \<le> c \<and> c \<le> 59 then st 470 else st 0) else if c
     > 90 then (if 97 \<le> c \<and> c \<le> 122 then st 470 else st 0) else st 470)"

definition uri_st472 :: "int \<Rightarrow> uri_action target" where
  "uri_st472 c =
     (if c = 2 then st 13 else if c = 33 then st 470 else if c = 35 then uri_ctr485 else if c = 37
     then st 36 else if c = 47 then uri_ctr486 else if c = 48 then st 473 else if c = 49 then st
     481 else if c = 50 then st 483 else if c = 58 then uri_ctr487 else if c = 59 then st 470
     else if c = 61 then st 470 else if c = 63 then uri_ctr488 else if c = 95 then st 470 else if
     c = 126 then st 470 else if c < 51 then (if 36 \<le> c \<and> c \<le> 46 then st 470 else st
     0) else if c > 57 then (if c > 90 then (if 97 \<le> c \<and> c \<le> 122 then st 470 else st
     0) else if c \<ge> 65 then st 470 else st 0) else st 482)"

definition uri_st473 :: "int \<Rightarrow> uri_action target" where
  "uri_st473 c =
     (if c = 33 then st 470 else if c = 35 then uri_ctr485 else if c = 37 then st 36 else if c =
     46 then st 474 else if c = 47 then uri_ctr486 else if c = 58 then uri_ctr487 else if c = 61
     then st 470 else if c = 63 then uri_ctr488 else if c = 95 then st 470 else if c = 126 then
     st 470 else if c < 65 then (if 36 \<le> c \<and> c \<le> 59 then st 470 else st 0) else if c
     > 90 then (if 97 \<le> c \<and> c \<le> 122 then st 470 else st 0) else st 470)"

definition uri_st474 :: "int \<Rightarrow> uri_action target" where
  "uri_st474 c =
     (if c = 2 then st 17 else if c = 33 then st 470 else if c = 35 then uri_ctr485 else if c = 37
     then st 36 else if c = 47 then uri_ctr486 else if c = 48 then st 475 else if c = 49 then st
     477 else if c = 50 then st 479 else if c = 58 then uri_ctr487 else if c = 59 then st 470
     else if c = 61 then st 470 else if c = 63 then uri_ctr488 else if c = 95 then st 470 else if
     c = 126 then st 470 else if c < 51 then (if 36 \<le> c \<and> c \<le> 46 then st 470 else st
     0) else if c > 57 then (if c > 90 then (if 97 \<le> c \<and> c \<le> 122 then st 470 else st
     0) else if c \<ge> 65 then st 470 else st 0) else st 478)"

definition uri_st475 :: "int \<Rightarrow> uri_action target" where
  "uri_st475 c =
     (if c = 33 then st 470 else if c = 35 then uri_ctr485 else if c = 37 then st 36 else if c =
     46 then st 476 else if c = 47 then uri_ctr486 else if c = 58 then uri_ctr487 else if c = 61
     then st 470 else if c = 63 then uri_ctr488 else if c = 95 then st 470 else if c = 126 then
     st 470 else if c < 65 then (if 36 \<le> c \<and> c \<le> 59 then st 470 else st 0) else if c
     > 90 then (if 97 \<le> c \<and> c \<le> 122 then st 470 else st 0) else st 470)"

definition uri_st476 :: "int \<Rightarrow> uri_action target" where
  "uri_st476 c =
     (if c = 2 then st 21 else if c = 33 then st 470 else if c = 35 then uri_ctr485 else if c = 37
     then st 36 else if c = 47 then uri_ctr486 else if c = 58 then uri_ctr487 else if c = 61 then
     st 470 else if c = 63 then uri_ctr488 else if c = 95 then st 470 else if c = 126 then st 470
     else if c < 65 then (if 36 \<le> c \<and> c \<le> 59 then st 470 else st 0) else if c > 90
     then (if 97 \<le> c \<and> c \<le> 122 then st 470 else st 0) else st 470)"

definition uri_st477 :: "int \<Rightarrow> uri_action target" where
  "uri_st477 c =
     (if c = 33 then st 470 else if c = 35 then uri_ctr485 else if c = 37 then st 36 else if c =
     46 then st 476 else if c = 47 then uri_ctr486 else if c = 58 then uri_ctr487 else if c = 59
     then st 470 else if c = 61 then st 470 else if c = 63 then uri_ctr488 else if c = 95 then st
     470 else if c = 126 then st 470 else if c < 48 then (if 36 \<le> c \<and> c \<le> 45 then st
     470 else st 0) else if c > 57 then (if c > 90 then (if 97 \<le> c \<and> c \<le> 122 then st
     470 else st 0) else if c \<ge> 65 then st 470 else st 0) else st 478)"

definition uri_st478 :: "int \<Rightarrow> uri_action target" where
  "uri_st478 c =
     (if c = 33 then st 470 else if c = 35 then uri_ctr485 else if c = 37 then st 36 else if c =
     46 then st 476 else if c = 47 then uri_ctr486 else if c = 58 then uri_ctr487 else if c = 59
     then st 470 else if c = 61 then st 470 else if c = 63 then uri_ctr488 else if c = 95 then st
     470 else if c = 126 then st 470 else if c < 48 then (if 36 \<le> c \<and> c \<le> 45 then st
     470 else st 0) else if c > 57 then (if c > 90 then (if 97 \<le> c \<and> c \<le> 122 then st
     470 else st 0) else if c \<ge> 65 then st 470 else st 0) else st 475)"

definition uri_st479 :: "int \<Rightarrow> uri_action target" where
  "uri_st479 c =
     (if c = 33 then st 470 else if c = 35 then uri_ctr485 else if c = 37 then st 36 else if c =
     46 then st 476 else if c = 47 then uri_ctr486 else if c = 53 then st 480 else if c = 58 then
     uri_ctr487 else if c = 59 then st 470 else if c = 61 then st 470 else if c = 63 then
     uri_ctr488 else if c = 95 then st 470 else if c = 126 then st 470 else if c < 48 then (if 36
     \<le> c \<and> c \<le> 45 then st 470 else st 0) else if c > 57 then (if c > 90 then (if 97
     \<le> c \<and> c \<le> 122 then st 470 else st 0) else if c \<ge> 65 then st 470 else st 0)
     else st 475)"

definition uri_st480 :: "int \<Rightarrow> uri_action target" where
  "uri_st480 c =
     (if c = 33 then st 470 else if c = 35 then uri_ctr485 else if c = 37 then st 36 else if c =
     46 then st 476 else if c = 47 then uri_ctr486 else if c = 58 then uri_ctr487 else if c = 61
     then st 470 else if c = 63 then uri_ctr488 else if c = 95 then st 470 else if c = 126 then
     st 470 else if c < 54 then (if c > 45 then (if 48 \<le> c then st 475 else st 0) else if c
     \<ge> 36 then st 470 else st 0) else if c > 59 then (if c > 90 then (if 97 \<le> c \<and> c
     \<le> 122 then st 470 else st 0) else if c \<ge> 65 then st 470 else st 0) else st 470)"

definition uri_st481 :: "int \<Rightarrow> uri_action target" where
  "uri_st481 c =
     (if c = 33 then st 470 else if c = 35 then uri_ctr485 else if c = 37 then st 36 else if c =
     46 then st 474 else if c = 47 then uri_ctr486 else if c = 58 then uri_ctr487 else if c = 59
     then st 470 else if c = 61 then st 470 else if c = 63 then uri_ctr488 else if c = 95 then st
     470 else if c = 126 then st 470 else if c < 48 then (if 36 \<le> c \<and> c \<le> 45 then st
     470 else st 0) else if c > 57 then (if c > 90 then (if 97 \<le> c \<and> c \<le> 122 then st
     470 else st 0) else if c \<ge> 65 then st 470 else st 0) else st 482)"

definition uri_st482 :: "int \<Rightarrow> uri_action target" where
  "uri_st482 c =
     (if c = 33 then st 470 else if c = 35 then uri_ctr485 else if c = 37 then st 36 else if c =
     46 then st 474 else if c = 47 then uri_ctr486 else if c = 58 then uri_ctr487 else if c = 59
     then st 470 else if c = 61 then st 470 else if c = 63 then uri_ctr488 else if c = 95 then st
     470 else if c = 126 then st 470 else if c < 48 then (if 36 \<le> c \<and> c \<le> 45 then st
     470 else st 0) else if c > 57 then (if c > 90 then (if 97 \<le> c \<and> c \<le> 122 then st
     470 else st 0) else if c \<ge> 65 then st 470 else st 0) else st 473)"

definition uri_st483 :: "int \<Rightarrow> uri_action target" where
  "uri_st483 c =
     (if c = 33 then st 470 else if c = 35 then uri_ctr485 else if c = 37 then st 36 else if c =
     46 then st 474 else if c = 47 then uri_ctr486 else if c = 53 then st 484 else if c = 58 then
     uri_ctr487 else if c = 59 then st 470 else if c = 61 then st 470 else if c = 63 then
     uri_ctr488 else if c = 95 then st 470 else if c = 126 then st 470 else if c < 48 then (if 36
     \<le> c \<and> c \<le> 45 then st 470 else st 0) else if c > 57 then (if c > 90 then (if 97
     \<le> c \<and> c \<le> 122 then st 470 else st 0) else if c \<ge> 65 then st 470 else st 0)
     else st 473)"

definition uri_st484 :: "int \<Rightarrow> uri_action target" where
  "uri_st484 c =
     (if c = 33 then st 470 else if c = 35 then uri_ctr485 else if c = 37 then st 36 else if c =
     46 then st 474 else if c = 47 then uri_ctr486 else if c = 58 then uri_ctr487 else if c = 61
     then st 470 else if c = 63 then uri_ctr488 else if c = 95 then st 470 else if c = 126 then
     st 470 else if c < 54 then (if c > 45 then (if 48 \<le> c then st 473 else st 0) else if c
     \<ge> 36 then st 470 else st 0) else if c > 59 then (if c > 90 then (if 97 \<le> c \<and> c
     \<le> 122 then st 470 else st 0) else if c \<ge> 65 then st 470 else st 0) else st 470)"

definition uri_st485 :: "int \<Rightarrow> uri_action target" where
  "uri_st485 c =
     (if c = 33 then st 470 else if c = 35 then uri_ctr485 else if c = 37 then st 36 else if c =
     46 then st 472 else if c = 47 then uri_ctr486 else if c = 58 then uri_ctr487 else if c = 59
     then st 470 else if c = 61 then st 470 else if c = 63 then uri_ctr488 else if c = 95 then st
     470 else if c = 126 then st 470 else if c < 48 then (if 36 \<le> c \<and> c \<le> 45 then st
     470 else st 0) else if c > 57 then (if c > 90 then (if 97 \<le> c \<and> c \<le> 122 then st
     470 else st 0) else if c \<ge> 65 then st 470 else st 0) else st 486)"

definition uri_st486 :: "int \<Rightarrow> uri_action target" where
  "uri_st486 c =
     (if c = 33 then st 470 else if c = 35 then uri_ctr485 else if c = 37 then st 36 else if c =
     46 then st 472 else if c = 47 then uri_ctr486 else if c = 58 then uri_ctr487 else if c = 59
     then st 470 else if c = 61 then st 470 else if c = 63 then uri_ctr488 else if c = 95 then st
     470 else if c = 126 then st 470 else if c < 48 then (if 36 \<le> c \<and> c \<le> 45 then st
     470 else st 0) else if c > 57 then (if c > 90 then (if 97 \<le> c \<and> c \<le> 122 then st
     470 else st 0) else if c \<ge> 65 then st 470 else st 0) else st 471)"

definition uri_st487 :: "int \<Rightarrow> uri_action target" where
  "uri_st487 c =
     (if c = 33 then st 470 else if c = 35 then uri_ctr485 else if c = 37 then st 36 else if c =
     46 then st 472 else if c = 47 then uri_ctr486 else if c = 53 then st 488 else if c = 58 then
     uri_ctr487 else if c = 59 then st 470 else if c = 61 then st 470 else if c = 63 then
     uri_ctr488 else if c = 95 then st 470 else if c = 126 then st 470 else if c < 48 then (if 36
     \<le> c \<and> c \<le> 45 then st 470 else st 0) else if c > 57 then (if c > 90 then (if 97
     \<le> c \<and> c \<le> 122 then st 470 else st 0) else if c \<ge> 65 then st 470 else st 0)
     else st 471)"

definition uri_st488 :: "int \<Rightarrow> uri_action target" where
  "uri_st488 c =
     (if c = 33 then st 470 else if c = 35 then uri_ctr485 else if c = 37 then st 36 else if c =
     46 then st 472 else if c = 47 then uri_ctr486 else if c = 58 then uri_ctr487 else if c = 61
     then st 470 else if c = 63 then uri_ctr488 else if c = 95 then st 470 else if c = 126 then
     st 470 else if c < 54 then (if c > 45 then (if 48 \<le> c then st 471 else st 0) else if c
     \<ge> 36 then st 470 else st 0) else if c > 59 then (if c > 90 then (if 97 \<le> c \<and> c
     \<le> 122 then st 470 else st 0) else if c \<ge> 65 then st 470 else st 0) else st 470)"

definition uri_st489 :: "int \<Rightarrow> uri_action target" where
  "uri_st489 c =
     (if c = 33 then st 33 else if c = 35 then uri_ctr493 else if c = 37 then st 34 else if c = 47
     then uri_ctr494 else if c = 61 then st 33 else if c = 63 then uri_ctr496 else if c = 64 then
     uri_ctr38 else if c = 95 then st 33 else if c = 126 then st 33 else if c < 58 then (if c >
     46 then (if 48 \<le> c then st 489 else st 0) else if c \<ge> 36 then st 33 else st 0) else
     if c > 59 then (if c > 90 then (if 97 \<le> c \<and> c \<le> 122 then st 33 else st 0) else
     if c \<ge> 65 then st 33 else st 0) else st 33)"

definition uri_st490 :: "int \<Rightarrow> uri_action target" where
  "uri_st490 c =
     (if c = 33 then st 467 else if c = 35 then uri_ctr485 else if c = 37 then st 31 else if c =
     46 then st 491 else if c = 47 then uri_ctr486 else if c = 58 then uri_ctr499 else if c = 61
     then st 467 else if c = 63 then uri_ctr488 else if c = 64 then uri_ctr38 else if c = 95 then
     st 467 else if c = 126 then st 467 else if c < 65 then (if 36 \<le> c \<and> c \<le> 59 then
     st 467 else st 0) else if c > 90 then (if 97 \<le> c \<and> c \<le> 122 then st 467 else st
     0) else st 467)"

definition uri_st491 :: "int \<Rightarrow> uri_action target" where
  "uri_st491 c =
     (if c = 2 then st 13 else if c = 33 then st 467 else if c = 35 then uri_ctr485 else if c = 37
     then st 31 else if c = 47 then uri_ctr486 else if c = 48 then st 492 else if c = 49 then st
     500 else if c = 50 then st 502 else if c = 58 then uri_ctr499 else if c = 59 then st 467
     else if c = 61 then st 467 else if c = 63 then uri_ctr488 else if c = 64 then uri_ctr38 else
     if c = 95 then st 467 else if c = 126 then st 467 else if c < 51 then (if 36 \<le> c \<and>
     c \<le> 46 then st 467 else st 0) else if c > 57 then (if c > 90 then (if 97 \<le> c \<and>
     c \<le> 122 then st 467 else st 0) else if c \<ge> 65 then st 467 else st 0) else st 501)"

definition uri_st492 :: "int \<Rightarrow> uri_action target" where
  "uri_st492 c =
     (if c = 33 then st 467 else if c = 35 then uri_ctr485 else if c = 37 then st 31 else if c =
     46 then st 493 else if c = 47 then uri_ctr486 else if c = 58 then uri_ctr499 else if c = 61
     then st 467 else if c = 63 then uri_ctr488 else if c = 64 then uri_ctr38 else if c = 95 then
     st 467 else if c = 126 then st 467 else if c < 65 then (if 36 \<le> c \<and> c \<le> 59 then
     st 467 else st 0) else if c > 90 then (if 97 \<le> c \<and> c \<le> 122 then st 467 else st
     0) else st 467)"

definition uri_st493 :: "int \<Rightarrow> uri_action target" where
  "uri_st493 c =
     (if c = 2 then st 17 else if c = 33 then st 467 else if c = 35 then uri_ctr485 else if c = 37
     then st 31 else if c = 47 then uri_ctr486 else if c = 48 then st 494 else if c = 49 then st
     496 else if c = 50 then st 498 else if c = 58 then uri_ctr499 else if c = 59 then st 467
     else if c = 61 then st 467 else if c = 63 then uri_ctr488 else if c = 64 then uri_ctr38 else
     if c = 95 then st 467 else if c = 126 then st 467 else if c < 51 then (if 36 \<le> c \<and>
     c \<le> 46 then st 467 else st 0) else if c > 57 then (if c > 90 then (if 97 \<le> c \<and>
     c \<le> 122 then st 467 else st 0) else if c \<ge> 65 then st 467 else st 0) else st 497)"

definition uri_st494 :: "int \<Rightarrow> uri_action target" where
  "uri_st494 c =
     (if c = 33 then st 467 else if c = 35 then uri_ctr485 else if c = 37 then st 31 else if c =
     46 then st 495 else if c = 47 then uri_ctr486 else if c = 58 then uri_ctr499 else if c = 61
     then st 467 else if c = 63 then uri_ctr488 else if c = 64 then uri_ctr38 else if c = 95 then
     st 467 else if c = 126 then st 467 else if c < 65 then (if 36 \<le> c \<and> c \<le> 59 then
     st 467 else st 0) else if c > 90 then (if 97 \<le> c \<and> c \<le> 122 then st 467 else st
     0) else st 467)"

definition uri_st495 :: "int \<Rightarrow> uri_action target" where
  "uri_st495 c =
     (if c = 2 then st 21 else if c = 33 then st 467 else if c = 35 then uri_ctr485 else if c = 37
     then st 31 else if c = 47 then uri_ctr486 else if c = 58 then uri_ctr499 else if c = 61 then
     st 467 else if c = 63 then uri_ctr488 else if c = 64 then uri_ctr38 else if c = 95 then st
     467 else if c = 126 then st 467 else if c < 65 then (if 36 \<le> c \<and> c \<le> 59 then st
     467 else st 0) else if c > 90 then (if 97 \<le> c \<and> c \<le> 122 then st 467 else st 0)
     else st 467)"

definition uri_st496 :: "int \<Rightarrow> uri_action target" where
  "uri_st496 c =
     (if c = 33 then st 467 else if c = 35 then uri_ctr485 else if c = 37 then st 31 else if c =
     46 then st 495 else if c = 47 then uri_ctr486 else if c = 58 then uri_ctr499 else if c = 59
     then st 467 else if c = 61 then st 467 else if c = 63 then uri_ctr488 else if c = 64 then
     uri_ctr38 else if c = 95 then st 467 else if c = 126 then st 467 else if c < 48 then (if 36
     \<le> c \<and> c \<le> 45 then st 467 else st 0) else if c > 57 then (if c > 90 then (if 97
     \<le> c \<and> c \<le> 122 then st 467 else st 0) else if c \<ge> 65 then st 467 else st 0)
     else st 497)"

definition uri_st497 :: "int \<Rightarrow> uri_action target" where
  "uri_st497 c =
     (if c = 33 then st 467 else if c = 35 then uri_ctr485 else if c = 37 then st 31 else if c =
     46 then st 495 else if c = 47 then uri_ctr486 else if c = 58 then uri_ctr499 else if c = 59
     then st 467 else if c = 61 then st 467 else if c = 63 then uri_ctr488 else if c = 64 then
     uri_ctr38 else if c = 95 then st 467 else if c = 126 then st 467 else if c < 48 then (if 36
     \<le> c \<and> c \<le> 45 then st 467 else st 0) else if c > 57 then (if c > 90 then (if 97
     \<le> c \<and> c \<le> 122 then st 467 else st 0) else if c \<ge> 65 then st 467 else st 0)
     else st 494)"

definition uri_st498 :: "int \<Rightarrow> uri_action target" where
  "uri_st498 c =
     (if c = 33 then st 467 else if c = 35 then uri_ctr485 else if c = 37 then st 31 else if c =
     46 then st 495 else if c = 47 then uri_ctr486 else if c = 53 then st 499 else if c = 58 then
     uri_ctr499 else if c = 59 then st 467 else if c = 61 then st 467 else if c = 63 then
     uri_ctr488 else if c = 64 then uri_ctr38 else if c = 95 then st 467 else if c = 126 then st
     467 else if c < 48 then (if 36 \<le> c \<and> c \<le> 45 then st 467 else st 0) else if c >
     57 then (if c > 90 then (if 97 \<le> c \<and> c \<le> 122 then st 467 else st 0) else if c
     \<ge> 65 then st 467 else st 0) else st 494)"

definition uri_st499 :: "int \<Rightarrow> uri_action target" where
  "uri_st499 c =
     (if c = 33 then st 467 else if c = 35 then uri_ctr485 else if c = 37 then st 31 else if c =
     46 then st 495 else if c = 47 then uri_ctr486 else if c = 58 then uri_ctr499 else if c = 61
     then st 467 else if c = 63 then uri_ctr488 else if c = 64 then uri_ctr38 else if c = 95 then
     st 467 else if c = 126 then st 467 else if c < 54 then (if c > 45 then (if 48 \<le> c then
     st 494 else st 0) else if c \<ge> 36 then st 467 else st 0) else if c > 59 then (if c > 90
     then (if 97 \<le> c \<and> c \<le> 122 then st 467 else st 0) else if c \<ge> 65 then st 467
     else st 0) else st 467)"

definition uri_st500 :: "int \<Rightarrow> uri_action target" where
  "uri_st500 c =
     (if c = 33 then st 467 else if c = 35 then uri_ctr485 else if c = 37 then st 31 else if c =
     46 then st 493 else if c = 47 then uri_ctr486 else if c = 58 then uri_ctr499 else if c = 59
     then st 467 else if c = 61 then st 467 else if c = 63 then uri_ctr488 else if c = 64 then
     uri_ctr38 else if c = 95 then st 467 else if c = 126 then st 467 else if c < 48 then (if 36
     \<le> c \<and> c \<le> 45 then st 467 else st 0) else if c > 57 then (if c > 90 then (if 97
     \<le> c \<and> c \<le> 122 then st 467 else st 0) else if c \<ge> 65 then st 467 else st 0)
     else st 501)"

definition uri_st501 :: "int \<Rightarrow> uri_action target" where
  "uri_st501 c =
     (if c = 33 then st 467 else if c = 35 then uri_ctr485 else if c = 37 then st 31 else if c =
     46 then st 493 else if c = 47 then uri_ctr486 else if c = 58 then uri_ctr499 else if c = 59
     then st 467 else if c = 61 then st 467 else if c = 63 then uri_ctr488 else if c = 64 then
     uri_ctr38 else if c = 95 then st 467 else if c = 126 then st 467 else if c < 48 then (if 36
     \<le> c \<and> c \<le> 45 then st 467 else st 0) else if c > 57 then (if c > 90 then (if 97
     \<le> c \<and> c \<le> 122 then st 467 else st 0) else if c \<ge> 65 then st 467 else st 0)
     else st 492)"

definition uri_st502 :: "int \<Rightarrow> uri_action target" where
  "uri_st502 c =
     (if c = 33 then st 467 else if c = 35 then uri_ctr485 else if c = 37 then st 31 else if c =
     46 then st 493 else if c = 47 then uri_ctr486 else if c = 53 then st 503 else if c = 58 then
     uri_ctr499 else if c = 59 then st 467 else if c = 61 then st 467 else if c = 63 then
     uri_ctr488 else if c = 64 then uri_ctr38 else if c = 95 then st 467 else if c = 126 then st
     467 else if c < 48 then (if 36 \<le> c \<and> c \<le> 45 then st 467 else st 0) else if c >
     57 then (if c > 90 then (if 97 \<le> c \<and> c \<le> 122 then st 467 else st 0) else if c
     \<ge> 65 then st 467 else st 0) else st 492)"

definition uri_st503 :: "int \<Rightarrow> uri_action target" where
  "uri_st503 c =
     (if c = 33 then st 467 else if c = 35 then uri_ctr485 else if c = 37 then st 31 else if c =
     46 then st 493 else if c = 47 then uri_ctr486 else if c = 58 then uri_ctr499 else if c = 61
     then st 467 else if c = 63 then uri_ctr488 else if c = 64 then uri_ctr38 else if c = 95 then
     st 467 else if c = 126 then st 467 else if c < 54 then (if c > 45 then (if 48 \<le> c then
     st 492 else st 0) else if c \<ge> 36 then st 467 else st 0) else if c > 59 then (if c > 90
     then (if 97 \<le> c \<and> c \<le> 122 then st 467 else st 0) else if c \<ge> 65 then st 467
     else st 0) else st 467)"

definition uri_st504 :: "int \<Rightarrow> uri_action target" where
  "uri_st504 c =
     (if c = 33 then st 467 else if c = 35 then uri_ctr485 else if c = 37 then st 31 else if c =
     46 then st 491 else if c = 47 then uri_ctr486 else if c = 58 then uri_ctr499 else if c = 59
     then st 467 else if c = 61 then st 467 else if c = 63 then uri_ctr488 else if c = 64 then
     uri_ctr38 else if c = 95 then st 467 else if c = 126 then st 467 else if c < 48 then (if 36
     \<le> c \<and> c \<le> 45 then st 467 else st 0) else if c > 57 then (if c > 90 then (if 97
     \<le> c \<and> c \<le> 122 then st 467 else st 0) else if c \<ge> 65 then st 467 else st 0)
     else st 505)"

definition uri_st505 :: "int \<Rightarrow> uri_action target" where
  "uri_st505 c =
     (if c = 33 then st 467 else if c = 35 then uri_ctr485 else if c = 37 then st 31 else if c =
     46 then st 491 else if c = 47 then uri_ctr486 else if c = 58 then uri_ctr499 else if c = 59
     then st 467 else if c = 61 then st 467 else if c = 63 then uri_ctr488 else if c = 64 then
     uri_ctr38 else if c = 95 then st 467 else if c = 126 then st 467 else if c < 48 then (if 36
     \<le> c \<and> c \<le> 45 then st 467 else st 0) else if c > 57 then (if c > 90 then (if 97
     \<le> c \<and> c \<le> 122 then st 467 else st 0) else if c \<ge> 65 then st 467 else st 0)
     else st 490)"

definition uri_st506 :: "int \<Rightarrow> uri_action target" where
  "uri_st506 c =
     (if c = 33 then st 467 else if c = 35 then uri_ctr485 else if c = 37 then st 31 else if c =
     46 then st 491 else if c = 47 then uri_ctr486 else if c = 53 then st 507 else if c = 58 then
     uri_ctr499 else if c = 59 then st 467 else if c = 61 then st 467 else if c = 63 then
     uri_ctr488 else if c = 64 then uri_ctr38 else if c = 95 then st 467 else if c = 126 then st
     467 else if c < 48 then (if 36 \<le> c \<and> c \<le> 45 then st 467 else st 0) else if c >
     57 then (if c > 90 then (if 97 \<le> c \<and> c \<le> 122 then st 467 else st 0) else if c
     \<ge> 65 then st 467 else st 0) else st 490)"

definition uri_st507 :: "int \<Rightarrow> uri_action target" where
  "uri_st507 c =
     (if c = 33 then st 467 else if c = 35 then uri_ctr485 else if c = 37 then st 31 else if c =
     46 then st 491 else if c = 47 then uri_ctr486 else if c = 58 then uri_ctr499 else if c = 61
     then st 467 else if c = 63 then uri_ctr488 else if c = 64 then uri_ctr38 else if c = 95 then
     st 467 else if c = 126 then st 467 else if c < 54 then (if c > 45 then (if 48 \<le> c then
     st 490 else st 0) else if c \<ge> 36 then st 467 else st 0) else if c > 59 then (if c > 90
     then (if 97 \<le> c \<and> c \<le> 122 then st 467 else st 0) else if c \<ge> 65 then st 467
     else st 0) else st 467)"

definition uri_st508 :: "int \<Rightarrow> uri_action target" where
  "uri_st508 c =
     (if c = 34 then st 0 else if c = 35 then st 453 else if c = 37 then st 3 else if c = 43 then
     st 508 else if c = 47 then st 455 else if c = 58 then uri_ctr543 else if c = 60 then st 0
     else if c = 62 then st 0 else if c = 63 then st 456 else if c = 96 then st 0 else if c = 127
     then st 0 else if c < 65 then (if c > 32 then (if 45 \<le> c \<and> c \<le> 57 then st 508
     else st 452) else if c \<ge> 0 then st 0 else st 452) else if c > 90 then (if c < 97 then
     (if c \<le> 94 then st 0 else st 452) else if c > 122 then (if c \<le> 125 then st 0 else st
     452) else st 508) else st 508)"

definition uri_st509 :: "int \<Rightarrow> uri_action target" where
  "uri_st509 c =
     (if c = 34 then st 0 else if c = 35 then st 453 else if c = 37 then st 5 else if c = 47 then
     st 510 else if c = 60 then st 0 else if c = 62 then st 0 else if c = 63 then st 456 else if
     c = 96 then st 0 else if c = 127 then st 0 else if c < 91 then (if 0 \<le> c \<and> c \<le>
     32 then st 0 else st 455) else if c > 94 then (if 123 \<le> c \<and> c \<le> 125 then st 0
     else st 455) else st 0)"

definition uri_st510 :: "int \<Rightarrow> uri_action target" where
  "uri_st510 c =
     (if c = 34 then st 0 else if c = 35 then st 453 else if c = 37 then st 5 else if c = 47 then
     st 511 else if c = 60 then st 0 else if c = 62 then st 0 else if c = 63 then st 456 else if
     c = 96 then st 0 else if c = 127 then st 0 else if c < 91 then (if 0 \<le> c \<and> c \<le>
     32 then st 0 else st 455) else if c > 94 then (if 123 \<le> c \<and> c \<le> 125 then st 0
     else st 455) else st 0)"

definition uri_st511 :: "int \<Rightarrow> uri_action target" where
  "uri_st511 c =
     (if c = 2 then uri_ctr546 else if c = 33 then uri_ctr547 else if c = 35 then uri_ctr548 else
     if c = 37 then uri_ctr549 else if c = 47 then uri_ctr550 else if c = 48 then uri_ctr551 else
     if c = 49 then uri_ctr552 else if c = 50 then uri_ctr553 else if c = 58 then uri_ctr555 else
     if c = 59 then uri_ctr547 else if c = 61 then uri_ctr547 else if c = 63 then uri_ctr556 else
     if c = 64 then uri_ctr557 else if c = 91 then uri_ctr558 else if c = 95 then uri_ctr547 else
     if c = 126 then uri_ctr547 else if c < 51 then (if 36 \<le> c \<and> c \<le> 46 then
     uri_ctr547 else st 0) else if c > 57 then (if c > 90 then (if 97 \<le> c \<and> c \<le> 122
     then uri_ctr547 else st 0) else if c \<ge> 65 then uri_ctr547 else st 0) else uri_ctr554)"

definition uri_st512 :: "int \<Rightarrow> uri_action target" where
  "uri_st512 c =
     (if c = 35 then uri_ctr559 else if c = 47 then uri_ctr560 else if c = 58 then uri_ctr561 else
     if c = 63 then uri_ctr562 else st 0)"

definition uri_st513 :: "int \<Rightarrow> uri_action target" where
  "uri_st513 c =
     (if c = 34 then st 0 else if c = 35 then uri_ctr563 else if c = 37 then st 243 else if c = 60
     then st 0 else if c = 62 then st 0 else if c = 63 then uri_ctr565 else if c = 96 then st 0
     else if c = 127 then st 0 else if c < 91 then (if 0 \<le> c \<and> c \<le> 32 then st 0 else
     st 513) else if c > 94 then (if 123 \<le> c \<and> c \<le> 125 then st 0 else st 513) else
     st 0)"

definition uri_st514 :: "int \<Rightarrow> uri_action target" where
  "uri_st514 c =
     (if c = 35 then uri_ctr566 else if c = 47 then uri_ctr567 else if c = 63 then uri_ctr569 else
     if 48 \<le> c \<and> c \<le> 57 then uri_ctr568 else st 0)"

definition uri_st515 :: "int \<Rightarrow> uri_action target" where
  "uri_st515 c =
     (if c = 35 then uri_ctr570 else if c = 47 then uri_ctr571 else if c = 63 then uri_ctr573 else
     if 48 \<le> c \<and> c \<le> 57 then st 515 else st 0)"

definition uri_st516 :: "int \<Rightarrow> uri_action target" where
  "uri_st516 c =
     (if c = 35 then uri_ctr559 else if c = 47 then uri_ctr560 else if c = 58 then uri_ctr561 else
     if c = 63 then uri_ctr562 else if 48 \<le> c \<and> c \<le> 57 then st 517 else st 0)"

definition uri_st517 :: "int \<Rightarrow> uri_action target" where
  "uri_st517 c =
     (if c = 35 then uri_ctr559 else if c = 47 then uri_ctr560 else if c = 58 then uri_ctr561 else
     if c = 63 then uri_ctr562 else if 48 \<le> c \<and> c \<le> 57 then st 512 else st 0)"

definition uri_st518 :: "int \<Rightarrow> uri_action target" where
  "uri_st518 c =
     (if c = 35 then uri_ctr559 else if c = 47 then uri_ctr560 else if c = 53 then st 519 else if
     c = 58 then uri_ctr561 else if c = 63 then uri_ctr562 else if 48 \<le> c \<and> c \<le> 57
     then st 512 else st 0)"

definition uri_st519 :: "int \<Rightarrow> uri_action target" where
  "uri_st519 c =
     (if c = 35 then uri_ctr559 else if c = 47 then uri_ctr560 else if c = 58 then uri_ctr561 else
     if c = 63 then uri_ctr562 else if 48 \<le> c \<and> c \<le> 53 then st 512 else st 0)"

definition uri_st520 :: "int \<Rightarrow> uri_action target" where
  "uri_st520 c =
     (if c = 33 then st 520 else if c = 35 then uri_ctr559 else if c = 37 then st 253 else if c =
     47 then uri_ctr560 else if c = 58 then uri_ctr576 else if c = 61 then st 520 else if c = 63
     then uri_ctr562 else if c = 64 then uri_ctr263 else if c = 95 then st 520 else if c = 126
     then st 520 else if c < 65 then (if 36 \<le> c \<and> c \<le> 59 then st 520 else st 0) else
     if c > 90 then (if 97 \<le> c \<and> c \<le> 122 then st 520 else st 0) else st 520)"

definition uri_st521 :: "int \<Rightarrow> uri_action target" where
  "uri_st521 c =
     (if c = 33 then st 255 else if c = 35 then uri_ctr566 else if c = 37 then st 256 else if c =
     47 then uri_ctr567 else if c = 61 then st 255 else if c = 63 then uri_ctr569 else if c = 64
     then uri_ctr263 else if c = 95 then st 255 else if c = 126 then st 255 else if c < 58 then
     (if c > 46 then (if 48 \<le> c then uri_ctr577 else st 0) else if c \<ge> 36 then st 255
     else st 0) else if c > 59 then (if c > 90 then (if 97 \<le> c \<and> c \<le> 122 then st 255
     else st 0) else if c \<ge> 65 then st 255 else st 0) else st 255)"

definition uri_st522 :: "int \<Rightarrow> uri_action target" where
  "uri_st522 c =
     (if c = 2 then uri_ctr546 else if c = 33 then uri_ctr578 else if c = 35 then uri_ctr548 else
     if c = 37 then uri_ctr579 else if c = 47 then uri_ctr550 else if c = 48 then uri_ctr580 else
     if c = 49 then uri_ctr581 else if c = 50 then uri_ctr582 else if c = 58 then uri_ctr584 else
     if c = 59 then uri_ctr578 else if c = 61 then uri_ctr578 else if c = 63 then uri_ctr556 else
     if c = 91 then uri_ctr558 else if c = 95 then uri_ctr578 else if c = 126 then uri_ctr578
     else if c < 51 then (if 36 \<le> c \<and> c \<le> 46 then uri_ctr578 else st 0) else if c >
     57 then (if c > 90 then (if 97 \<le> c \<and> c \<le> 122 then uri_ctr578 else st 0) else if
     c \<ge> 65 then uri_ctr578 else st 0) else uri_ctr583)"

definition uri_st523 :: "int \<Rightarrow> uri_action target" where
  "uri_st523 c =
     (if c = 33 then st 523 else if c = 35 then uri_ctr559 else if c = 37 then st 258 else if c =
     47 then uri_ctr560 else if c = 58 then uri_ctr561 else if c = 61 then st 523 else if c = 63
     then uri_ctr562 else if c = 95 then st 523 else if c = 126 then st 523 else if c < 65 then
     (if 36 \<le> c \<and> c \<le> 59 then st 523 else st 0) else if c > 90 then (if 97 \<le> c
     \<and> c \<le> 122 then st 523 else st 0) else st 523)"

definition uri_st524 :: "int \<Rightarrow> uri_action target" where
  "uri_st524 c =
     (if c = 33 then st 523 else if c = 35 then uri_ctr559 else if c = 37 then st 258 else if c =
     46 then st 525 else if c = 47 then uri_ctr560 else if c = 58 then uri_ctr561 else if c = 61
     then st 523 else if c = 63 then uri_ctr562 else if c = 95 then st 523 else if c = 126 then
     st 523 else if c < 65 then (if 36 \<le> c \<and> c \<le> 59 then st 523 else st 0) else if c
     > 90 then (if 97 \<le> c \<and> c \<le> 122 then st 523 else st 0) else st 523)"

definition uri_st525 :: "int \<Rightarrow> uri_action target" where
  "uri_st525 c =
     (if c = 2 then st 233 else if c = 33 then st 523 else if c = 35 then uri_ctr559 else if c =
     37 then st 258 else if c = 47 then uri_ctr560 else if c = 48 then st 526 else if c = 49 then
     st 534 else if c = 50 then st 536 else if c = 58 then uri_ctr561 else if c = 59 then st 523
     else if c = 61 then st 523 else if c = 63 then uri_ctr562 else if c = 95 then st 523 else if
     c = 126 then st 523 else if c < 51 then (if 36 \<le> c \<and> c \<le> 46 then st 523 else st
     0) else if c > 57 then (if c > 90 then (if 97 \<le> c \<and> c \<le> 122 then st 523 else st
     0) else if c \<ge> 65 then st 523 else st 0) else st 535)"

definition uri_st526 :: "int \<Rightarrow> uri_action target" where
  "uri_st526 c =
     (if c = 33 then st 523 else if c = 35 then uri_ctr559 else if c = 37 then st 258 else if c =
     46 then st 527 else if c = 47 then uri_ctr560 else if c = 58 then uri_ctr561 else if c = 61
     then st 523 else if c = 63 then uri_ctr562 else if c = 95 then st 523 else if c = 126 then
     st 523 else if c < 65 then (if 36 \<le> c \<and> c \<le> 59 then st 523 else st 0) else if c
     > 90 then (if 97 \<le> c \<and> c \<le> 122 then st 523 else st 0) else st 523)"

definition uri_st527 :: "int \<Rightarrow> uri_action target" where
  "uri_st527 c =
     (if c = 2 then st 237 else if c = 33 then st 523 else if c = 35 then uri_ctr559 else if c =
     37 then st 258 else if c = 47 then uri_ctr560 else if c = 48 then st 528 else if c = 49 then
     st 530 else if c = 50 then st 532 else if c = 58 then uri_ctr561 else if c = 59 then st 523
     else if c = 61 then st 523 else if c = 63 then uri_ctr562 else if c = 95 then st 523 else if
     c = 126 then st 523 else if c < 51 then (if 36 \<le> c \<and> c \<le> 46 then st 523 else st
     0) else if c > 57 then (if c > 90 then (if 97 \<le> c \<and> c \<le> 122 then st 523 else st
     0) else if c \<ge> 65 then st 523 else st 0) else st 531)"

definition uri_st528 :: "int \<Rightarrow> uri_action target" where
  "uri_st528 c =
     (if c = 33 then st 523 else if c = 35 then uri_ctr559 else if c = 37 then st 258 else if c =
     46 then st 529 else if c = 47 then uri_ctr560 else if c = 58 then uri_ctr561 else if c = 61
     then st 523 else if c = 63 then uri_ctr562 else if c = 95 then st 523 else if c = 126 then
     st 523 else if c < 65 then (if 36 \<le> c \<and> c \<le> 59 then st 523 else st 0) else if c
     > 90 then (if 97 \<le> c \<and> c \<le> 122 then st 523 else st 0) else st 523)"

definition uri_st529 :: "int \<Rightarrow> uri_action target" where
  "uri_st529 c =
     (if c = 2 then st 241 else if c = 33 then st 523 else if c = 35 then uri_ctr559 else if c =
     37 then st 258 else if c = 47 then uri_ctr560 else if c = 58 then uri_ctr561 else if c = 61
     then st 523 else if c = 63 then uri_ctr562 else if c = 95 then st 523 else if c = 126 then
     st 523 else if c < 65 then (if 36 \<le> c \<and> c \<le> 59 then st 523 else st 0) else if c
     > 90 then (if 97 \<le> c \<and> c \<le> 122 then st 523 else st 0) else st 523)"

definition uri_st530 :: "int \<Rightarrow> uri_action target" where
  "uri_st530 c =
     (if c = 33 then st 523 else if c = 35 then uri_ctr559 else if c = 37 then st 258 else if c =
     46 then st 529 else if c = 47 then uri_ctr560 else if c = 58 then uri_ctr561 else if c = 59
     then st 523 else if c = 61 then st 523 else if c = 63 then uri_ctr562 else if c = 95 then st
     523 else if c = 126 then st 523 else if c < 48 then (if 36 \<le> c \<and> c \<le> 45 then st
     523 else st 0) else if c > 57 then (if c > 90 then (if 97 \<le> c \<and> c \<le> 122 then st
     523 else st 0) else if c \<ge> 65 then st 523 else st 0) else st 531)"

definition uri_st531 :: "int \<Rightarrow> uri_action target" where
  "uri_st531 c =
     (if c = 33 then st 523 else if c = 35 then uri_ctr559 else if c = 37 then st 258 else if c =
     46 then st 529 else if c = 47 then uri_ctr560 else if c = 58 then uri_ctr561 else if c = 59
     then st 523 else if c = 61 then st 523 else if c = 63 then uri_ctr562 else if c = 95 then st
     523 else if c = 126 then st 523 else if c < 48 then (if 36 \<le> c \<and> c \<le> 45 then st
     523 else st 0) else if c > 57 then (if c > 90 then (if 97 \<le> c \<and> c \<le> 122 then st
     523 else st 0) else if c \<ge> 65 then st 523 else st 0) else st 528)"

definition uri_st532 :: "int \<Rightarrow> uri_action target" where
  "uri_st532 c =
     (if c = 33 then st 523 else if c = 35 then uri_ctr559 else if c = 37 then st 258 else if c =
     46 then st 529 else if c = 47 then uri_ctr560 else if c = 53 then st 533 else if c = 58 then
     uri_ctr561 else if c = 59 then st 523 else if c = 61 then st 523 else if c = 63 then
     uri_ctr562 else if c = 95 then st 523 else if c = 126 then st 523 else if c < 48 then (if 36
     \<le> c \<and> c \<le> 45 then st 523 else st 0) else if c > 57 then (if c > 90 then (if 97
     \<le> c \<and> c \<le> 122 then st 523 else st 0) else if c \<ge> 65 then st 523 else st 0)
     else st 528)"

definition uri_st533 :: "int \<Rightarrow> uri_action target" where
  "uri_st533 c =
     (if c = 33 then st 523 else if c = 35 then uri_ctr559 else if c = 37 then st 258 else if c =
     46 then st 529 else if c = 47 then uri_ctr560 else if c = 58 then uri_ctr561 else if c = 61
     then st 523 else if c = 63 then uri_ctr562 else if c = 95 then st 523 else if c = 126 then
     st 523 else if c < 54 then (if c > 45 then (if 48 \<le> c then st 528 else st 0) else if c
     \<ge> 36 then st 523 else st 0) else if c > 59 then (if c > 90 then (if 97 \<le> c \<and> c
     \<le> 122 then st 523 else st 0) else if c \<ge> 65 then st 523 else st 0) else st 523)"

definition uri_st534 :: "int \<Rightarrow> uri_action target" where
  "uri_st534 c =
     (if c = 33 then st 523 else if c = 35 then uri_ctr559 else if c = 37 then st 258 else if c =
     46 then st 527 else if c = 47 then uri_ctr560 else if c = 58 then uri_ctr561 else if c = 59
     then st 523 else if c = 61 then st 523 else if c = 63 then uri_ctr562 else if c = 95 then st
     523 else if c = 126 then st 523 else if c < 48 then (if 36 \<le> c \<and> c \<le> 45 then st
     523 else st 0) else if c > 57 then (if c > 90 then (if 97 \<le> c \<and> c \<le> 122 then st
     523 else st 0) else if c \<ge> 65 then st 523 else st 0) else st 535)"

definition uri_st535 :: "int \<Rightarrow> uri_action target" where
  "uri_st535 c =
     (if c = 33 then st 523 else if c = 35 then uri_ctr559 else if c = 37 then st 258 else if c =
     46 then st 527 else if c = 47 then uri_ctr560 else if c = 58 then uri_ctr561 else if c = 59
     then st 523 else if c = 61 then st 523 else if c = 63 then uri_ctr562 else if c = 95 then st
     523 else if c = 126 then st 523 else if c < 48 then (if 36 \<le> c \<and> c \<le> 45 then st
     523 else st 0) else if c > 57 then (if c > 90 then (if 97 \<le> c \<and> c \<le> 122 then st
     523 else st 0) else if c \<ge> 65 then st 523 else st 0) else st 526)"

definition uri_st536 :: "int \<Rightarrow> uri_action target" where
  "uri_st536 c =
     (if c = 33 then st 523 else if c = 35 then uri_ctr559 else if c = 37 then st 258 else if c =
     46 then st 527 else if c = 47 then uri_ctr560 else if c = 53 then st 537 else if c = 58 then
     uri_ctr561 else if c = 59 then st 523 else if c = 61 then st 523 else if c = 63 then
     uri_ctr562 else if c = 95 then st 523 else if c = 126 then st 523 else if c < 48 then (if 36
     \<le> c \<and> c \<le> 45 then st 523 else st 0) else if c > 57 then (if c > 90 then (if 97
     \<le> c \<and> c \<le> 122 then st 523 else st 0) else if c \<ge> 65 then st 523 else st 0)
     else st 526)"

definition uri_st537 :: "int \<Rightarrow> uri_action target" where
  "uri_st537 c =
     (if c = 33 then st 523 else if c = 35 then uri_ctr559 else if c = 37 then st 258 else if c =
     46 then st 527 else if c = 47 then uri_ctr560 else if c = 58 then uri_ctr561 else if c = 61
     then st 523 else if c = 63 then uri_ctr562 else if c = 95 then st 523 else if c = 126 then
     st 523 else if c < 54 then (if c > 45 then (if 48 \<le> c then st 526 else st 0) else if c
     \<ge> 36 then st 523 else st 0) else if c > 59 then (if c > 90 then (if 97 \<le> c \<and> c
     \<le> 122 then st 523 else st 0) else if c \<ge> 65 then st 523 else st 0) else st 523)"

definition uri_st538 :: "int \<Rightarrow> uri_action target" where
  "uri_st538 c =
     (if c = 33 then st 523 else if c = 35 then uri_ctr559 else if c = 37 then st 258 else if c =
     46 then st 525 else if c = 47 then uri_ctr560 else if c = 58 then uri_ctr561 else if c = 59
     then st 523 else if c = 61 then st 523 else if c = 63 then uri_ctr562 else if c = 95 then st
     523 else if c = 126 then st 523 else if c < 48 then (if 36 \<le> c \<and> c \<le> 45 then st
     523 else st 0) else if c > 57 then (if c > 90 then (if 97 \<le> c \<and> c \<le> 122 then st
     523 else st 0) else if c \<ge> 65 then st 523 else st 0) else st 539)"

definition uri_st539 :: "int \<Rightarrow> uri_action target" where
  "uri_st539 c =
     (if c = 33 then st 523 else if c = 35 then uri_ctr559 else if c = 37 then st 258 else if c =
     46 then st 525 else if c = 47 then uri_ctr560 else if c = 58 then uri_ctr561 else if c = 59
     then st 523 else if c = 61 then st 523 else if c = 63 then uri_ctr562 else if c = 95 then st
     523 else if c = 126 then st 523 else if c < 48 then (if 36 \<le> c \<and> c \<le> 45 then st
     523 else st 0) else if c > 57 then (if c > 90 then (if 97 \<le> c \<and> c \<le> 122 then st
     523 else st 0) else if c \<ge> 65 then st 523 else st 0) else st 524)"

definition uri_st540 :: "int \<Rightarrow> uri_action target" where
  "uri_st540 c =
     (if c = 33 then st 523 else if c = 35 then uri_ctr559 else if c = 37 then st 258 else if c =
     46 then st 525 else if c = 47 then uri_ctr560 else if c = 53 then st 541 else if c = 58 then
     uri_ctr561 else if c = 59 then st 523 else if c = 61 then st 523 else if c = 63 then
     uri_ctr562 else if c = 95 then st 523 else if c = 126 then st 523 else if c < 48 then (if 36
     \<le> c \<and> c \<le> 45 then st 523 else st 0) else if c > 57 then (if c > 90 then (if 97
     \<le> c \<and> c \<le> 122 then st 523 else st 0) else if c \<ge> 65 then st 523 else st 0)
     else st 524)"

definition uri_st541 :: "int \<Rightarrow> uri_action target" where
  "uri_st541 c =
     (if c = 33 then st 523 else if c = 35 then uri_ctr559 else if c = 37 then st 258 else if c =
     46 then st 525 else if c = 47 then uri_ctr560 else if c = 58 then uri_ctr561 else if c = 61
     then st 523 else if c = 63 then uri_ctr562 else if c = 95 then st 523 else if c = 126 then
     st 523 else if c < 54 then (if c > 45 then (if 48 \<le> c then st 524 else st 0) else if c
     \<ge> 36 then st 523 else st 0) else if c > 59 then (if c > 90 then (if 97 \<le> c \<and> c
     \<le> 122 then st 523 else st 0) else if c \<ge> 65 then st 523 else st 0) else st 523)"

definition uri_st542 :: "int \<Rightarrow> uri_action target" where
  "uri_st542 c =
     (if c = 33 then st 255 else if c = 35 then uri_ctr570 else if c = 37 then st 256 else if c =
     47 then uri_ctr571 else if c = 61 then st 255 else if c = 63 then uri_ctr573 else if c = 64
     then uri_ctr263 else if c = 95 then st 255 else if c = 126 then st 255 else if c < 58 then
     (if c > 46 then (if 48 \<le> c then st 542 else st 0) else if c \<ge> 36 then st 255 else st
     0) else if c > 59 then (if c > 90 then (if 97 \<le> c \<and> c \<le> 122 then st 255 else st
     0) else if c \<ge> 65 then st 255 else st 0) else st 255)"

definition uri_st543 :: "int \<Rightarrow> uri_action target" where
  "uri_st543 c =
     (if c = 33 then st 520 else if c = 35 then uri_ctr559 else if c = 37 then st 253 else if c =
     46 then st 544 else if c = 47 then uri_ctr560 else if c = 58 then uri_ctr576 else if c = 61
     then st 520 else if c = 63 then uri_ctr562 else if c = 64 then uri_ctr263 else if c = 95
     then st 520 else if c = 126 then st 520 else if c < 65 then (if 36 \<le> c \<and> c \<le> 59
     then st 520 else st 0) else if c > 90 then (if 97 \<le> c \<and> c \<le> 122 then st 520
     else st 0) else st 520)"

definition uri_st544 :: "int \<Rightarrow> uri_action target" where
  "uri_st544 c =
     (if c = 2 then st 233 else if c = 33 then st 520 else if c = 35 then uri_ctr559 else if c =
     37 then st 253 else if c = 47 then uri_ctr560 else if c = 48 then st 545 else if c = 49 then
     st 553 else if c = 50 then st 555 else if c = 58 then uri_ctr576 else if c = 59 then st 520
     else if c = 61 then st 520 else if c = 63 then uri_ctr562 else if c = 64 then uri_ctr263
     else if c = 95 then st 520 else if c = 126 then st 520 else if c < 51 then (if 36 \<le> c
     \<and> c \<le> 46 then st 520 else st 0) else if c > 57 then (if c > 90 then (if 97 \<le> c
     \<and> c \<le> 122 then st 520 else st 0) else if c \<ge> 65 then st 520 else st 0) else st
     554)"

definition uri_st545 :: "int \<Rightarrow> uri_action target" where
  "uri_st545 c =
     (if c = 33 then st 520 else if c = 35 then uri_ctr559 else if c = 37 then st 253 else if c =
     46 then st 546 else if c = 47 then uri_ctr560 else if c = 58 then uri_ctr576 else if c = 61
     then st 520 else if c = 63 then uri_ctr562 else if c = 64 then uri_ctr263 else if c = 95
     then st 520 else if c = 126 then st 520 else if c < 65 then (if 36 \<le> c \<and> c \<le> 59
     then st 520 else st 0) else if c > 90 then (if 97 \<le> c \<and> c \<le> 122 then st 520
     else st 0) else st 520)"

definition uri_st546 :: "int \<Rightarrow> uri_action target" where
  "uri_st546 c =
     (if c = 2 then st 237 else if c = 33 then st 520 else if c = 35 then uri_ctr559 else if c =
     37 then st 253 else if c = 47 then uri_ctr560 else if c = 48 then st 547 else if c = 49 then
     st 549 else if c = 50 then st 551 else if c = 58 then uri_ctr576 else if c = 59 then st 520
     else if c = 61 then st 520 else if c = 63 then uri_ctr562 else if c = 64 then uri_ctr263
     else if c = 95 then st 520 else if c = 126 then st 520 else if c < 51 then (if 36 \<le> c
     \<and> c \<le> 46 then st 520 else st 0) else if c > 57 then (if c > 90 then (if 97 \<le> c
     \<and> c \<le> 122 then st 520 else st 0) else if c \<ge> 65 then st 520 else st 0) else st
     550)"

definition uri_st547 :: "int \<Rightarrow> uri_action target" where
  "uri_st547 c =
     (if c = 33 then st 520 else if c = 35 then uri_ctr559 else if c = 37 then st 253 else if c =
     46 then st 548 else if c = 47 then uri_ctr560 else if c = 58 then uri_ctr576 else if c = 61
     then st 520 else if c = 63 then uri_ctr562 else if c = 64 then uri_ctr263 else if c = 95
     then st 520 else if c = 126 then st 520 else if c < 65 then (if 36 \<le> c \<and> c \<le> 59
     then st 520 else st 0) else if c > 90 then (if 97 \<le> c \<and> c \<le> 122 then st 520
     else st 0) else st 520)"

definition uri_st548 :: "int \<Rightarrow> uri_action target" where
  "uri_st548 c =
     (if c = 2 then st 241 else if c = 33 then st 520 else if c = 35 then uri_ctr559 else if c =
     37 then st 253 else if c = 47 then uri_ctr560 else if c = 58 then uri_ctr576 else if c = 61
     then st 520 else if c = 63 then uri_ctr562 else if c = 64 then uri_ctr263 else if c = 95
     then st 520 else if c = 126 then st 520 else if c < 65 then (if 36 \<le> c \<and> c \<le> 59
     then st 520 else st 0) else if c > 90 then (if 97 \<le> c \<and> c \<le> 122 then st 520
     else st 0) else st 520)"

definition uri_st549 :: "int \<Rightarrow> uri_action target" where
  "uri_st549 c =
     (if c = 33 then st 520 else if c = 35 then uri_ctr559 else if c = 37 then st 253 else if c =
     46 then st 548 else if c = 47 then uri_ctr560 else if c = 58 then uri_ctr576 else if c = 59
     then st 520 else if c = 61 then st 520 else if c = 63 then uri_ctr562 else if c = 64 then
     uri_ctr263 else if c = 95 then st 520 else if c = 126 then st 520 else if c < 48 then (if 36
     \<le> c \<and> c \<le> 45 then st 520 else st 0) else if c > 57 then (if c > 90 then (if 97
     \<le> c \<and> c \<le> 122 then st 520 else st 0) else if c \<ge> 65 then st 520 else st 0)
     else st 550)"

definition uri_st550 :: "int \<Rightarrow> uri_action target" where
  "uri_st550 c =
     (if c = 33 then st 520 else if c = 35 then uri_ctr559 else if c = 37 then st 253 else if c =
     46 then st 548 else if c = 47 then uri_ctr560 else if c = 58 then uri_ctr576 else if c = 59
     then st 520 else if c = 61 then st 520 else if c = 63 then uri_ctr562 else if c = 64 then
     uri_ctr263 else if c = 95 then st 520 else if c = 126 then st 520 else if c < 48 then (if 36
     \<le> c \<and> c \<le> 45 then st 520 else st 0) else if c > 57 then (if c > 90 then (if 97
     \<le> c \<and> c \<le> 122 then st 520 else st 0) else if c \<ge> 65 then st 520 else st 0)
     else st 547)"

definition uri_st551 :: "int \<Rightarrow> uri_action target" where
  "uri_st551 c =
     (if c = 33 then st 520 else if c = 35 then uri_ctr559 else if c = 37 then st 253 else if c =
     46 then st 548 else if c = 47 then uri_ctr560 else if c = 53 then st 552 else if c = 58 then
     uri_ctr576 else if c = 59 then st 520 else if c = 61 then st 520 else if c = 63 then
     uri_ctr562 else if c = 64 then uri_ctr263 else if c = 95 then st 520 else if c = 126 then st
     520 else if c < 48 then (if 36 \<le> c \<and> c \<le> 45 then st 520 else st 0) else if c >
     57 then (if c > 90 then (if 97 \<le> c \<and> c \<le> 122 then st 520 else st 0) else if c
     \<ge> 65 then st 520 else st 0) else st 547)"

definition uri_st552 :: "int \<Rightarrow> uri_action target" where
  "uri_st552 c =
     (if c = 33 then st 520 else if c = 35 then uri_ctr559 else if c = 37 then st 253 else if c =
     46 then st 548 else if c = 47 then uri_ctr560 else if c = 58 then uri_ctr576 else if c = 61
     then st 520 else if c = 63 then uri_ctr562 else if c = 64 then uri_ctr263 else if c = 95
     then st 520 else if c = 126 then st 520 else if c < 54 then (if c > 45 then (if 48 \<le> c
     then st 547 else st 0) else if c \<ge> 36 then st 520 else st 0) else if c > 59 then (if c >
     90 then (if 97 \<le> c \<and> c \<le> 122 then st 520 else st 0) else if c \<ge> 65 then st
     520 else st 0) else st 520)"

definition uri_st553 :: "int \<Rightarrow> uri_action target" where
  "uri_st553 c =
     (if c = 33 then st 520 else if c = 35 then uri_ctr559 else if c = 37 then st 253 else if c =
     46 then st 546 else if c = 47 then uri_ctr560 else if c = 58 then uri_ctr576 else if c = 59
     then st 520 else if c = 61 then st 520 else if c = 63 then uri_ctr562 else if c = 64 then
     uri_ctr263 else if c = 95 then st 520 else if c = 126 then st 520 else if c < 48 then (if 36
     \<le> c \<and> c \<le> 45 then st 520 else st 0) else if c > 57 then (if c > 90 then (if 97
     \<le> c \<and> c \<le> 122 then st 520 else st 0) else if c \<ge> 65 then st 520 else st 0)
     else st 554)"

definition uri_st554 :: "int \<Rightarrow> uri_action target" where
  "uri_st554 c =
     (if c = 33 then st 520 else if c = 35 then uri_ctr559 else if c = 37 then st 253 else if c =
     46 then st 546 else if c = 47 then uri_ctr560 else if c = 58 then uri_ctr576 else if c = 59
     then st 520 else if c = 61 then st 520 else if c = 63 then uri_ctr562 else if c = 64 then
     uri_ctr263 else if c = 95 then st 520 else if c = 126 then st 520 else if c < 48 then (if 36
     \<le> c \<and> c \<le> 45 then st 520 else st 0) else if c > 57 then (if c > 90 then (if 97
     \<le> c \<and> c \<le> 122 then st 520 else st 0) else if c \<ge> 65 then st 520 else st 0)
     else st 545)"

definition uri_st555 :: "int \<Rightarrow> uri_action target" where
  "uri_st555 c =
     (if c = 33 then st 520 else if c = 35 then uri_ctr559 else if c = 37 then st 253 else if c =
     46 then st 546 else if c = 47 then uri_ctr560 else if c = 53 then st 556 else if c = 58 then
     uri_ctr576 else if c = 59 then st 520 else if c = 61 then st 520 else if c = 63 then
     uri_ctr562 else if c = 64 then uri_ctr263 else if c = 95 then st 520 else if c = 126 then st
     520 else if c < 48 then (if 36 \<le> c \<and> c \<le> 45 then st 520 else st 0) else if c >
     57 then (if c > 90 then (if 97 \<le> c \<and> c \<le> 122 then st 520 else st 0) else if c
     \<ge> 65 then st 520 else st 0) else st 545)"

definition uri_st556 :: "int \<Rightarrow> uri_action target" where
  "uri_st556 c =
     (if c = 33 then st 520 else if c = 35 then uri_ctr559 else if c = 37 then st 253 else if c =
     46 then st 546 else if c = 47 then uri_ctr560 else if c = 58 then uri_ctr576 else if c = 61
     then st 520 else if c = 63 then uri_ctr562 else if c = 64 then uri_ctr263 else if c = 95
     then st 520 else if c = 126 then st 520 else if c < 54 then (if c > 45 then (if 48 \<le> c
     then st 545 else st 0) else if c \<ge> 36 then st 520 else st 0) else if c > 59 then (if c >
     90 then (if 97 \<le> c \<and> c \<le> 122 then st 520 else st 0) else if c \<ge> 65 then st
     520 else st 0) else st 520)"

definition uri_st557 :: "int \<Rightarrow> uri_action target" where
  "uri_st557 c =
     (if c = 33 then st 520 else if c = 35 then uri_ctr559 else if c = 37 then st 253 else if c =
     46 then st 544 else if c = 47 then uri_ctr560 else if c = 58 then uri_ctr576 else if c = 59
     then st 520 else if c = 61 then st 520 else if c = 63 then uri_ctr562 else if c = 64 then
     uri_ctr263 else if c = 95 then st 520 else if c = 126 then st 520 else if c < 48 then (if 36
     \<le> c \<and> c \<le> 45 then st 520 else st 0) else if c > 57 then (if c > 90 then (if 97
     \<le> c \<and> c \<le> 122 then st 520 else st 0) else if c \<ge> 65 then st 520 else st 0)
     else st 558)"

definition uri_st558 :: "int \<Rightarrow> uri_action target" where
  "uri_st558 c =
     (if c = 33 then st 520 else if c = 35 then uri_ctr559 else if c = 37 then st 253 else if c =
     46 then st 544 else if c = 47 then uri_ctr560 else if c = 58 then uri_ctr576 else if c = 59
     then st 520 else if c = 61 then st 520 else if c = 63 then uri_ctr562 else if c = 64 then
     uri_ctr263 else if c = 95 then st 520 else if c = 126 then st 520 else if c < 48 then (if 36
     \<le> c \<and> c \<le> 45 then st 520 else st 0) else if c > 57 then (if c > 90 then (if 97
     \<le> c \<and> c \<le> 122 then st 520 else st 0) else if c \<ge> 65 then st 520 else st 0)
     else st 543)"

definition uri_st559 :: "int \<Rightarrow> uri_action target" where
  "uri_st559 c =
     (if c = 33 then st 520 else if c = 35 then uri_ctr559 else if c = 37 then st 253 else if c =
     46 then st 544 else if c = 47 then uri_ctr560 else if c = 53 then st 560 else if c = 58 then
     uri_ctr576 else if c = 59 then st 520 else if c = 61 then st 520 else if c = 63 then
     uri_ctr562 else if c = 64 then uri_ctr263 else if c = 95 then st 520 else if c = 126 then st
     520 else if c < 48 then (if 36 \<le> c \<and> c \<le> 45 then st 520 else st 0) else if c >
     57 then (if c > 90 then (if 97 \<le> c \<and> c \<le> 122 then st 520 else st 0) else if c
     \<ge> 65 then st 520 else st 0) else st 543)"

definition uri_st560 :: "int \<Rightarrow> uri_action target" where
  "uri_st560 c =
     (if c = 33 then st 520 else if c = 35 then uri_ctr559 else if c = 37 then st 253 else if c =
     46 then st 544 else if c = 47 then uri_ctr560 else if c = 58 then uri_ctr576 else if c = 61
     then st 520 else if c = 63 then uri_ctr562 else if c = 64 then uri_ctr263 else if c = 95
     then st 520 else if c = 126 then st 520 else if c < 54 then (if c > 45 then (if 48 \<le> c
     then st 543 else st 0) else if c \<ge> 36 then st 520 else st 0) else if c > 59 then (if c >
     90 then (if 97 \<le> c \<and> c \<le> 122 then st 520 else st 0) else if c \<ge> 65 then st
     520 else st 0) else st 520)"

section \<open>The switch\<close>

text \<open>The states in the order of their numbers.\<close>

definition uri_states :: "(int \<Rightarrow> uri_action target) list" where
  "uri_states = [
     uri_st0, uri_st1, uri_st2, uri_st3, uri_st4, uri_st5, uri_st6, uri_st7, uri_st8, uri_st9,
     uri_st10, uri_st11, uri_st12, uri_st13, uri_st14, uri_st15, uri_st16, uri_st17, uri_st18,
     uri_st19, uri_st20, uri_st21, uri_st22, uri_st23, uri_st24, uri_st25, uri_st26, uri_st27,
     uri_st28, uri_st29, uri_st30, uri_st31, uri_st32, uri_st33, uri_st34, uri_st35, uri_st36,
     uri_st37, uri_st38, uri_st39, uri_st40, uri_st41, uri_st42, uri_st43, uri_st44, uri_st45,
     uri_st46, uri_st47, uri_st48, uri_st49, uri_st50, uri_st51, uri_st52, uri_st53, uri_st54,
     uri_st55, uri_st56, uri_st57, uri_st58, uri_st59, uri_st60, uri_st61, uri_st62, uri_st63,
     uri_st64, uri_st65, uri_st66, uri_st67, uri_st68, uri_st69, uri_st70, uri_st71, uri_st72,
     uri_st73, uri_st74, uri_st75, uri_st76, uri_st77, uri_st78, uri_st79, uri_st80, uri_st81,
     uri_st82, uri_st83, uri_st84, uri_st85, uri_st86, uri_st87, uri_st88, uri_st89, uri_st90,
     uri_st91, uri_st92, uri_st93, uri_st94, uri_st95, uri_st96, uri_st97, uri_st98, uri_st99,
     uri_st100, uri_st101, uri_st102, uri_st103, uri_st104, uri_st105, uri_st106, uri_st107,
     uri_st108, uri_st109, uri_st110, uri_st111, uri_st112, uri_st113, uri_st114, uri_st115,
     uri_st116, uri_st117, uri_st118, uri_st119, uri_st120, uri_st121, uri_st122, uri_st123,
     uri_st124, uri_st125, uri_st126, uri_st127, uri_st128, uri_st129, uri_st130, uri_st131,
     uri_st132, uri_st133, uri_st134, uri_st135, uri_st136, uri_st137, uri_st138, uri_st139,
     uri_st140, uri_st141, uri_st142, uri_st143, uri_st144, uri_st145, uri_st146, uri_st147,
     uri_st148, uri_st149, uri_st150, uri_st151, uri_st152, uri_st153, uri_st154, uri_st155,
     uri_st156, uri_st157, uri_st158, uri_st159, uri_st160, uri_st161, uri_st162, uri_st163,
     uri_st164, uri_st165, uri_st166, uri_st167, uri_st168, uri_st169, uri_st170, uri_st171,
     uri_st172, uri_st173, uri_st174, uri_st175, uri_st176, uri_st177, uri_st178, uri_st179,
     uri_st180, uri_st181, uri_st182, uri_st183, uri_st184, uri_st185, uri_st186, uri_st187,
     uri_st188, uri_st189, uri_st190, uri_st191, uri_st192, uri_st193, uri_st194, uri_st195,
     uri_st196, uri_st197, uri_st198, uri_st199, uri_st200, uri_st201, uri_st202, uri_st203,
     uri_st204, uri_st205, uri_st206, uri_st207, uri_st208, uri_st209, uri_st210, uri_st211,
     uri_st212, uri_st213, uri_st214, uri_st215, uri_st216, uri_st217, uri_st218, uri_st219,
     uri_st220, uri_st221, uri_st222, uri_st223, uri_st224, uri_st225, uri_st226, uri_st227,
     uri_st228, uri_st229, uri_st230, uri_st231, uri_st232, uri_st233, uri_st234, uri_st235,
     uri_st236, uri_st237, uri_st238, uri_st239, uri_st240, uri_st241, uri_st242, uri_st243,
     uri_st244, uri_st245, uri_st246, uri_st247, uri_st248, uri_st249, uri_st250, uri_st251,
     uri_st252, uri_st253, uri_st254, uri_st255, uri_st256, uri_st257, uri_st258, uri_st259,
     uri_st260, uri_st261, uri_st262, uri_st263, uri_st264, uri_st265, uri_st266, uri_st267,
     uri_st268, uri_st269, uri_st270, uri_st271, uri_st272, uri_st273, uri_st274, uri_st275,
     uri_st276, uri_st277, uri_st278, uri_st279, uri_st280, uri_st281, uri_st282, uri_st283,
     uri_st284, uri_st285, uri_st286, uri_st287, uri_st288, uri_st289, uri_st290, uri_st291,
     uri_st292, uri_st293, uri_st294, uri_st295, uri_st296, uri_st297, uri_st298, uri_st299,
     uri_st300, uri_st301, uri_st302, uri_st303, uri_st304, uri_st305, uri_st306, uri_st307,
     uri_st308, uri_st309, uri_st310, uri_st311, uri_st312, uri_st313, uri_st314, uri_st315,
     uri_st316, uri_st317, uri_st318, uri_st319, uri_st320, uri_st321, uri_st322, uri_st323,
     uri_st324, uri_st325, uri_st326, uri_st327, uri_st328, uri_st329, uri_st330, uri_st331,
     uri_st332, uri_st333, uri_st334, uri_st335, uri_st336, uri_st337, uri_st338, uri_st339,
     uri_st340, uri_st341, uri_st342, uri_st343, uri_st344, uri_st345, uri_st346, uri_st347,
     uri_st348, uri_st349, uri_st350, uri_st351, uri_st352, uri_st353, uri_st354, uri_st355,
     uri_st356, uri_st357, uri_st358, uri_st359, uri_st360, uri_st361, uri_st362, uri_st363,
     uri_st364, uri_st365, uri_st366, uri_st367, uri_st368, uri_st369, uri_st370, uri_st371,
     uri_st372, uri_st373, uri_st374, uri_st375, uri_st376, uri_st377, uri_st378, uri_st379,
     uri_st380, uri_st381, uri_st382, uri_st383, uri_st384, uri_st385, uri_st386, uri_st387,
     uri_st388, uri_st389, uri_st390, uri_st391, uri_st392, uri_st393, uri_st394, uri_st395,
     uri_st396, uri_st397, uri_st398, uri_st399, uri_st400, uri_st401, uri_st402, uri_st403,
     uri_st404, uri_st405, uri_st406, uri_st407, uri_st408, uri_st409, uri_st410, uri_st411,
     uri_st412, uri_st413, uri_st414, uri_st415, uri_st416, uri_st417, uri_st418, uri_st419,
     uri_st420, uri_st421, uri_st422, uri_st423, uri_st424, uri_st425, uri_st426, uri_st427,
     uri_st428, uri_st429, uri_st430, uri_st431, uri_st432, uri_st433, uri_st434, uri_st435,
     uri_st436, uri_st437, uri_st438, uri_st439, uri_st440, uri_st441, uri_st442, uri_st443,
     uri_st444, uri_st445, uri_st446, uri_st447, uri_st448, uri_st449, uri_st450, uri_st451,
     uri_st452, uri_st453, uri_st454, uri_st455, uri_st456, uri_st457, uri_st458, uri_st459,
     uri_st460, uri_st461, uri_st462, uri_st463, uri_st464, uri_st465, uri_st466, uri_st467,
     uri_st468, uri_st469, uri_st470, uri_st471, uri_st472, uri_st473, uri_st474, uri_st475,
     uri_st476, uri_st477, uri_st478, uri_st479, uri_st480, uri_st481, uri_st482, uri_st483,
     uri_st484, uri_st485, uri_st486, uri_st487, uri_st488, uri_st489, uri_st490, uri_st491,
     uri_st492, uri_st493, uri_st494, uri_st495, uri_st496, uri_st497, uri_st498, uri_st499,
     uri_st500, uri_st501, uri_st502, uri_st503, uri_st504, uri_st505, uri_st506, uri_st507,
     uri_st508, uri_st509, uri_st510, uri_st511, uri_st512, uri_st513, uri_st514, uri_st515,
     uri_st516, uri_st517, uri_st518, uri_st519, uri_st520, uri_st521, uri_st522, uri_st523,
     uri_st524, uri_st525, uri_st526, uri_st527, uri_st528, uri_st529, uri_st530, uri_st531,
     uri_st532, uri_st533, uri_st534, uri_st535, uri_st536, uri_st537, uri_st538, uri_st539,
     uri_st540, uri_st541, uri_st542, uri_st543, uri_st544, uri_st545, uri_st546, uri_st547,
     uri_st548, uri_st549, uri_st550, uri_st551, uri_st552, uri_st553, uri_st554, uri_st555,
     uri_st556, uri_st557, uri_st558, uri_st559, uri_st560]"

lemmas uri_sts =
  uri_st0_def uri_st1_def uri_st2_def uri_st3_def uri_st4_def uri_st5_def uri_st6_def
  uri_st7_def uri_st8_def uri_st9_def uri_st10_def uri_st11_def uri_st12_def uri_st13_def
  uri_st14_def uri_st15_def uri_st16_def uri_st17_def uri_st18_def uri_st19_def uri_st20_def
  uri_st21_def uri_st22_def uri_st23_def uri_st24_def uri_st25_def uri_st26_def uri_st27_def
  uri_st28_def uri_st29_def uri_st30_def uri_st31_def uri_st32_def uri_st33_def uri_st34_def
  uri_st35_def uri_st36_def uri_st37_def uri_st38_def uri_st39_def uri_st40_def uri_st41_def
  uri_st42_def uri_st43_def uri_st44_def uri_st45_def uri_st46_def uri_st47_def uri_st48_def
  uri_st49_def uri_st50_def uri_st51_def uri_st52_def uri_st53_def uri_st54_def uri_st55_def
  uri_st56_def uri_st57_def uri_st58_def uri_st59_def uri_st60_def uri_st61_def uri_st62_def
  uri_st63_def uri_st64_def uri_st65_def uri_st66_def uri_st67_def uri_st68_def uri_st69_def
  uri_st70_def uri_st71_def uri_st72_def uri_st73_def uri_st74_def uri_st75_def uri_st76_def
  uri_st77_def uri_st78_def uri_st79_def uri_st80_def uri_st81_def uri_st82_def uri_st83_def
  uri_st84_def uri_st85_def uri_st86_def uri_st87_def uri_st88_def uri_st89_def uri_st90_def
  uri_st91_def uri_st92_def uri_st93_def uri_st94_def uri_st95_def uri_st96_def uri_st97_def
  uri_st98_def uri_st99_def uri_st100_def uri_st101_def uri_st102_def uri_st103_def
  uri_st104_def uri_st105_def uri_st106_def uri_st107_def uri_st108_def uri_st109_def
  uri_st110_def uri_st111_def uri_st112_def uri_st113_def uri_st114_def uri_st115_def
  uri_st116_def uri_st117_def uri_st118_def uri_st119_def uri_st120_def uri_st121_def
  uri_st122_def uri_st123_def uri_st124_def uri_st125_def uri_st126_def uri_st127_def
  uri_st128_def uri_st129_def uri_st130_def uri_st131_def uri_st132_def uri_st133_def
  uri_st134_def uri_st135_def uri_st136_def uri_st137_def uri_st138_def uri_st139_def
  uri_st140_def uri_st141_def uri_st142_def uri_st143_def uri_st144_def uri_st145_def
  uri_st146_def uri_st147_def uri_st148_def uri_st149_def uri_st150_def uri_st151_def
  uri_st152_def uri_st153_def uri_st154_def uri_st155_def uri_st156_def uri_st157_def
  uri_st158_def uri_st159_def uri_st160_def uri_st161_def uri_st162_def uri_st163_def
  uri_st164_def uri_st165_def uri_st166_def uri_st167_def uri_st168_def uri_st169_def
  uri_st170_def uri_st171_def uri_st172_def uri_st173_def uri_st174_def uri_st175_def
  uri_st176_def uri_st177_def uri_st178_def uri_st179_def uri_st180_def uri_st181_def
  uri_st182_def uri_st183_def uri_st184_def uri_st185_def uri_st186_def uri_st187_def
  uri_st188_def uri_st189_def uri_st190_def uri_st191_def uri_st192_def uri_st193_def
  uri_st194_def uri_st195_def uri_st196_def uri_st197_def uri_st198_def uri_st199_def
  uri_st200_def uri_st201_def uri_st202_def uri_st203_def uri_st204_def uri_st205_def
  uri_st206_def uri_st207_def uri_st208_def uri_st209_def uri_st210_def uri_st211_def
  uri_st212_def uri_st213_def uri_st214_def uri_st215_def uri_st216_def uri_st217_def
  uri_st218_def uri_st219_def uri_st220_def uri_st221_def uri_st222_def uri_st223_def
  uri_st224_def uri_st225_def uri_st226_def uri_st227_def uri_st228_def uri_st229_def
  uri_st230_def uri_st231_def uri_st232_def uri_st233_def uri_st234_def uri_st235_def
  uri_st236_def uri_st237_def uri_st238_def uri_st239_def uri_st240_def uri_st241_def
  uri_st242_def uri_st243_def uri_st244_def uri_st245_def uri_st246_def uri_st247_def
  uri_st248_def uri_st249_def uri_st250_def uri_st251_def uri_st252_def uri_st253_def
  uri_st254_def uri_st255_def uri_st256_def uri_st257_def uri_st258_def uri_st259_def
  uri_st260_def uri_st261_def uri_st262_def uri_st263_def uri_st264_def uri_st265_def
  uri_st266_def uri_st267_def uri_st268_def uri_st269_def uri_st270_def uri_st271_def
  uri_st272_def uri_st273_def uri_st274_def uri_st275_def uri_st276_def uri_st277_def
  uri_st278_def uri_st279_def uri_st280_def uri_st281_def uri_st282_def uri_st283_def
  uri_st284_def uri_st285_def uri_st286_def uri_st287_def uri_st288_def uri_st289_def
  uri_st290_def uri_st291_def uri_st292_def uri_st293_def uri_st294_def uri_st295_def
  uri_st296_def uri_st297_def uri_st298_def uri_st299_def uri_st300_def uri_st301_def
  uri_st302_def uri_st303_def uri_st304_def uri_st305_def uri_st306_def uri_st307_def
  uri_st308_def uri_st309_def uri_st310_def uri_st311_def uri_st312_def uri_st313_def
  uri_st314_def uri_st315_def uri_st316_def uri_st317_def uri_st318_def uri_st319_def
  uri_st320_def uri_st321_def uri_st322_def uri_st323_def uri_st324_def uri_st325_def
  uri_st326_def uri_st327_def uri_st328_def uri_st329_def uri_st330_def uri_st331_def
  uri_st332_def uri_st333_def uri_st334_def uri_st335_def uri_st336_def uri_st337_def
  uri_st338_def uri_st339_def uri_st340_def uri_st341_def uri_st342_def uri_st343_def
  uri_st344_def uri_st345_def uri_st346_def uri_st347_def uri_st348_def uri_st349_def
  uri_st350_def uri_st351_def uri_st352_def uri_st353_def uri_st354_def uri_st355_def
  uri_st356_def uri_st357_def uri_st358_def uri_st359_def uri_st360_def uri_st361_def
  uri_st362_def uri_st363_def uri_st364_def uri_st365_def uri_st366_def uri_st367_def
  uri_st368_def uri_st369_def uri_st370_def uri_st371_def uri_st372_def uri_st373_def
  uri_st374_def uri_st375_def uri_st376_def uri_st377_def uri_st378_def uri_st379_def
  uri_st380_def uri_st381_def uri_st382_def uri_st383_def uri_st384_def uri_st385_def
  uri_st386_def uri_st387_def uri_st388_def uri_st389_def uri_st390_def uri_st391_def
  uri_st392_def uri_st393_def uri_st394_def uri_st395_def uri_st396_def uri_st397_def
  uri_st398_def uri_st399_def uri_st400_def uri_st401_def uri_st402_def uri_st403_def
  uri_st404_def uri_st405_def uri_st406_def uri_st407_def uri_st408_def uri_st409_def
  uri_st410_def uri_st411_def uri_st412_def uri_st413_def uri_st414_def uri_st415_def
  uri_st416_def uri_st417_def uri_st418_def uri_st419_def uri_st420_def uri_st421_def
  uri_st422_def uri_st423_def uri_st424_def uri_st425_def uri_st426_def uri_st427_def
  uri_st428_def uri_st429_def uri_st430_def uri_st431_def uri_st432_def uri_st433_def
  uri_st434_def uri_st435_def uri_st436_def uri_st437_def uri_st438_def uri_st439_def
  uri_st440_def uri_st441_def uri_st442_def uri_st443_def uri_st444_def uri_st445_def
  uri_st446_def uri_st447_def uri_st448_def uri_st449_def uri_st450_def uri_st451_def
  uri_st452_def uri_st453_def uri_st454_def uri_st455_def uri_st456_def uri_st457_def
  uri_st458_def uri_st459_def uri_st460_def uri_st461_def uri_st462_def uri_st463_def
  uri_st464_def uri_st465_def uri_st466_def uri_st467_def uri_st468_def uri_st469_def
  uri_st470_def uri_st471_def uri_st472_def uri_st473_def uri_st474_def uri_st475_def
  uri_st476_def uri_st477_def uri_st478_def uri_st479_def uri_st480_def uri_st481_def
  uri_st482_def uri_st483_def uri_st484_def uri_st485_def uri_st486_def uri_st487_def
  uri_st488_def uri_st489_def uri_st490_def uri_st491_def uri_st492_def uri_st493_def
  uri_st494_def uri_st495_def uri_st496_def uri_st497_def uri_st498_def uri_st499_def
  uri_st500_def uri_st501_def uri_st502_def uri_st503_def uri_st504_def uri_st505_def
  uri_st506_def uri_st507_def uri_st508_def uri_st509_def uri_st510_def uri_st511_def
  uri_st512_def uri_st513_def uri_st514_def uri_st515_def uri_st516_def uri_st517_def
  uri_st518_def uri_st519_def uri_st520_def uri_st521_def uri_st522_def uri_st523_def
  uri_st524_def uri_st525_def uri_st526_def uri_st527_def uri_st528_def uri_st529_def
  uri_st530_def uri_st531_def uri_st532_def uri_st533_def uri_st534_def uri_st535_def
  uri_st536_def uri_st537_def uri_st538_def uri_st539_def uri_st540_def uri_st541_def
  uri_st542_def uri_st543_def uri_st544_def uri_st545_def uri_st546_def uri_st547_def
  uri_st548_def uri_st549_def uri_st550_def uri_st551_def uri_st552_def uri_st553_def
  uri_st554_def uri_st555_def uri_st556_def uri_st557_def uri_st558_def uri_st559_def
  uri_st560_def

lemma length_uri_states [simp]: "length (uri_states) = 561"
  by (simp add: uri_states_def)

lemma uri_nth:
  "uri_states ! 0 = uri_st0"
  "uri_states ! Suc 0 = uri_st1"
  "uri_states ! 2 = uri_st2"
  "uri_states ! 3 = uri_st3"
  "uri_states ! 4 = uri_st4"
  "uri_states ! 5 = uri_st5"
  "uri_states ! 6 = uri_st6"
  "uri_states ! 7 = uri_st7"
  "uri_states ! 8 = uri_st8"
  "uri_states ! 9 = uri_st9"
  "uri_states ! 10 = uri_st10"
  "uri_states ! 11 = uri_st11"
  "uri_states ! 12 = uri_st12"
  "uri_states ! 13 = uri_st13"
  "uri_states ! 14 = uri_st14"
  "uri_states ! 15 = uri_st15"
  "uri_states ! 16 = uri_st16"
  "uri_states ! 17 = uri_st17"
  "uri_states ! 18 = uri_st18"
  "uri_states ! 19 = uri_st19"
  "uri_states ! 20 = uri_st20"
  "uri_states ! 21 = uri_st21"
  "uri_states ! 22 = uri_st22"
  "uri_states ! 23 = uri_st23"
  "uri_states ! 24 = uri_st24"
  "uri_states ! 25 = uri_st25"
  "uri_states ! 26 = uri_st26"
  "uri_states ! 27 = uri_st27"
  "uri_states ! 28 = uri_st28"
  "uri_states ! 29 = uri_st29"
  "uri_states ! 30 = uri_st30"
  "uri_states ! 31 = uri_st31"
  "uri_states ! 32 = uri_st32"
  "uri_states ! 33 = uri_st33"
  "uri_states ! 34 = uri_st34"
  "uri_states ! 35 = uri_st35"
  "uri_states ! 36 = uri_st36"
  "uri_states ! 37 = uri_st37"
  "uri_states ! 38 = uri_st38"
  "uri_states ! 39 = uri_st39"
  "uri_states ! 40 = uri_st40"
  "uri_states ! 41 = uri_st41"
  "uri_states ! 42 = uri_st42"
  "uri_states ! 43 = uri_st43"
  "uri_states ! 44 = uri_st44"
  "uri_states ! 45 = uri_st45"
  "uri_states ! 46 = uri_st46"
  "uri_states ! 47 = uri_st47"
  "uri_states ! 48 = uri_st48"
  "uri_states ! 49 = uri_st49"
  "uri_states ! 50 = uri_st50"
  "uri_states ! 51 = uri_st51"
  "uri_states ! 52 = uri_st52"
  "uri_states ! 53 = uri_st53"
  "uri_states ! 54 = uri_st54"
  "uri_states ! 55 = uri_st55"
  "uri_states ! 56 = uri_st56"
  "uri_states ! 57 = uri_st57"
  "uri_states ! 58 = uri_st58"
  "uri_states ! 59 = uri_st59"
  "uri_states ! 60 = uri_st60"
  "uri_states ! 61 = uri_st61"
  "uri_states ! 62 = uri_st62"
  "uri_states ! 63 = uri_st63"
  "uri_states ! 64 = uri_st64"
  "uri_states ! 65 = uri_st65"
  "uri_states ! 66 = uri_st66"
  "uri_states ! 67 = uri_st67"
  "uri_states ! 68 = uri_st68"
  "uri_states ! 69 = uri_st69"
  "uri_states ! 70 = uri_st70"
  "uri_states ! 71 = uri_st71"
  "uri_states ! 72 = uri_st72"
  "uri_states ! 73 = uri_st73"
  "uri_states ! 74 = uri_st74"
  "uri_states ! 75 = uri_st75"
  "uri_states ! 76 = uri_st76"
  "uri_states ! 77 = uri_st77"
  "uri_states ! 78 = uri_st78"
  "uri_states ! 79 = uri_st79"
  "uri_states ! 80 = uri_st80"
  "uri_states ! 81 = uri_st81"
  "uri_states ! 82 = uri_st82"
  "uri_states ! 83 = uri_st83"
  "uri_states ! 84 = uri_st84"
  "uri_states ! 85 = uri_st85"
  "uri_states ! 86 = uri_st86"
  "uri_states ! 87 = uri_st87"
  "uri_states ! 88 = uri_st88"
  "uri_states ! 89 = uri_st89"
  "uri_states ! 90 = uri_st90"
  "uri_states ! 91 = uri_st91"
  "uri_states ! 92 = uri_st92"
  "uri_states ! 93 = uri_st93"
  "uri_states ! 94 = uri_st94"
  "uri_states ! 95 = uri_st95"
  "uri_states ! 96 = uri_st96"
  "uri_states ! 97 = uri_st97"
  "uri_states ! 98 = uri_st98"
  "uri_states ! 99 = uri_st99"
  "uri_states ! 100 = uri_st100"
  "uri_states ! 101 = uri_st101"
  "uri_states ! 102 = uri_st102"
  "uri_states ! 103 = uri_st103"
  "uri_states ! 104 = uri_st104"
  "uri_states ! 105 = uri_st105"
  "uri_states ! 106 = uri_st106"
  "uri_states ! 107 = uri_st107"
  "uri_states ! 108 = uri_st108"
  "uri_states ! 109 = uri_st109"
  "uri_states ! 110 = uri_st110"
  "uri_states ! 111 = uri_st111"
  "uri_states ! 112 = uri_st112"
  "uri_states ! 113 = uri_st113"
  "uri_states ! 114 = uri_st114"
  "uri_states ! 115 = uri_st115"
  "uri_states ! 116 = uri_st116"
  "uri_states ! 117 = uri_st117"
  "uri_states ! 118 = uri_st118"
  "uri_states ! 119 = uri_st119"
  "uri_states ! 120 = uri_st120"
  "uri_states ! 121 = uri_st121"
  "uri_states ! 122 = uri_st122"
  "uri_states ! 123 = uri_st123"
  "uri_states ! 124 = uri_st124"
  "uri_states ! 125 = uri_st125"
  "uri_states ! 126 = uri_st126"
  "uri_states ! 127 = uri_st127"
  "uri_states ! 128 = uri_st128"
  "uri_states ! 129 = uri_st129"
  "uri_states ! 130 = uri_st130"
  "uri_states ! 131 = uri_st131"
  "uri_states ! 132 = uri_st132"
  "uri_states ! 133 = uri_st133"
  "uri_states ! 134 = uri_st134"
  "uri_states ! 135 = uri_st135"
  "uri_states ! 136 = uri_st136"
  "uri_states ! 137 = uri_st137"
  "uri_states ! 138 = uri_st138"
  "uri_states ! 139 = uri_st139"
  "uri_states ! 140 = uri_st140"
  "uri_states ! 141 = uri_st141"
  "uri_states ! 142 = uri_st142"
  "uri_states ! 143 = uri_st143"
  "uri_states ! 144 = uri_st144"
  "uri_states ! 145 = uri_st145"
  "uri_states ! 146 = uri_st146"
  "uri_states ! 147 = uri_st147"
  "uri_states ! 148 = uri_st148"
  "uri_states ! 149 = uri_st149"
  "uri_states ! 150 = uri_st150"
  "uri_states ! 151 = uri_st151"
  "uri_states ! 152 = uri_st152"
  "uri_states ! 153 = uri_st153"
  "uri_states ! 154 = uri_st154"
  "uri_states ! 155 = uri_st155"
  "uri_states ! 156 = uri_st156"
  "uri_states ! 157 = uri_st157"
  "uri_states ! 158 = uri_st158"
  "uri_states ! 159 = uri_st159"
  "uri_states ! 160 = uri_st160"
  "uri_states ! 161 = uri_st161"
  "uri_states ! 162 = uri_st162"
  "uri_states ! 163 = uri_st163"
  "uri_states ! 164 = uri_st164"
  "uri_states ! 165 = uri_st165"
  "uri_states ! 166 = uri_st166"
  "uri_states ! 167 = uri_st167"
  "uri_states ! 168 = uri_st168"
  "uri_states ! 169 = uri_st169"
  "uri_states ! 170 = uri_st170"
  "uri_states ! 171 = uri_st171"
  "uri_states ! 172 = uri_st172"
  "uri_states ! 173 = uri_st173"
  "uri_states ! 174 = uri_st174"
  "uri_states ! 175 = uri_st175"
  "uri_states ! 176 = uri_st176"
  "uri_states ! 177 = uri_st177"
  "uri_states ! 178 = uri_st178"
  "uri_states ! 179 = uri_st179"
  "uri_states ! 180 = uri_st180"
  "uri_states ! 181 = uri_st181"
  "uri_states ! 182 = uri_st182"
  "uri_states ! 183 = uri_st183"
  "uri_states ! 184 = uri_st184"
  "uri_states ! 185 = uri_st185"
  "uri_states ! 186 = uri_st186"
  "uri_states ! 187 = uri_st187"
  "uri_states ! 188 = uri_st188"
  "uri_states ! 189 = uri_st189"
  "uri_states ! 190 = uri_st190"
  "uri_states ! 191 = uri_st191"
  "uri_states ! 192 = uri_st192"
  "uri_states ! 193 = uri_st193"
  "uri_states ! 194 = uri_st194"
  "uri_states ! 195 = uri_st195"
  "uri_states ! 196 = uri_st196"
  "uri_states ! 197 = uri_st197"
  "uri_states ! 198 = uri_st198"
  "uri_states ! 199 = uri_st199"
  "uri_states ! 200 = uri_st200"
  "uri_states ! 201 = uri_st201"
  "uri_states ! 202 = uri_st202"
  "uri_states ! 203 = uri_st203"
  "uri_states ! 204 = uri_st204"
  "uri_states ! 205 = uri_st205"
  "uri_states ! 206 = uri_st206"
  "uri_states ! 207 = uri_st207"
  "uri_states ! 208 = uri_st208"
  "uri_states ! 209 = uri_st209"
  "uri_states ! 210 = uri_st210"
  "uri_states ! 211 = uri_st211"
  "uri_states ! 212 = uri_st212"
  "uri_states ! 213 = uri_st213"
  "uri_states ! 214 = uri_st214"
  "uri_states ! 215 = uri_st215"
  "uri_states ! 216 = uri_st216"
  "uri_states ! 217 = uri_st217"
  "uri_states ! 218 = uri_st218"
  "uri_states ! 219 = uri_st219"
  "uri_states ! 220 = uri_st220"
  "uri_states ! 221 = uri_st221"
  "uri_states ! 222 = uri_st222"
  "uri_states ! 223 = uri_st223"
  "uri_states ! 224 = uri_st224"
  "uri_states ! 225 = uri_st225"
  "uri_states ! 226 = uri_st226"
  "uri_states ! 227 = uri_st227"
  "uri_states ! 228 = uri_st228"
  "uri_states ! 229 = uri_st229"
  "uri_states ! 230 = uri_st230"
  "uri_states ! 231 = uri_st231"
  "uri_states ! 232 = uri_st232"
  "uri_states ! 233 = uri_st233"
  "uri_states ! 234 = uri_st234"
  "uri_states ! 235 = uri_st235"
  "uri_states ! 236 = uri_st236"
  "uri_states ! 237 = uri_st237"
  "uri_states ! 238 = uri_st238"
  "uri_states ! 239 = uri_st239"
  "uri_states ! 240 = uri_st240"
  "uri_states ! 241 = uri_st241"
  "uri_states ! 242 = uri_st242"
  "uri_states ! 243 = uri_st243"
  "uri_states ! 244 = uri_st244"
  "uri_states ! 245 = uri_st245"
  "uri_states ! 246 = uri_st246"
  "uri_states ! 247 = uri_st247"
  "uri_states ! 248 = uri_st248"
  "uri_states ! 249 = uri_st249"
  "uri_states ! 250 = uri_st250"
  "uri_states ! 251 = uri_st251"
  "uri_states ! 252 = uri_st252"
  "uri_states ! 253 = uri_st253"
  "uri_states ! 254 = uri_st254"
  "uri_states ! 255 = uri_st255"
  "uri_states ! 256 = uri_st256"
  "uri_states ! 257 = uri_st257"
  "uri_states ! 258 = uri_st258"
  "uri_states ! 259 = uri_st259"
  "uri_states ! 260 = uri_st260"
  "uri_states ! 261 = uri_st261"
  "uri_states ! 262 = uri_st262"
  "uri_states ! 263 = uri_st263"
  "uri_states ! 264 = uri_st264"
  "uri_states ! 265 = uri_st265"
  "uri_states ! 266 = uri_st266"
  "uri_states ! 267 = uri_st267"
  "uri_states ! 268 = uri_st268"
  "uri_states ! 269 = uri_st269"
  "uri_states ! 270 = uri_st270"
  "uri_states ! 271 = uri_st271"
  "uri_states ! 272 = uri_st272"
  "uri_states ! 273 = uri_st273"
  "uri_states ! 274 = uri_st274"
  "uri_states ! 275 = uri_st275"
  "uri_states ! 276 = uri_st276"
  "uri_states ! 277 = uri_st277"
  "uri_states ! 278 = uri_st278"
  "uri_states ! 279 = uri_st279"
  "uri_states ! 280 = uri_st280"
  "uri_states ! 281 = uri_st281"
  "uri_states ! 282 = uri_st282"
  "uri_states ! 283 = uri_st283"
  "uri_states ! 284 = uri_st284"
  "uri_states ! 285 = uri_st285"
  "uri_states ! 286 = uri_st286"
  "uri_states ! 287 = uri_st287"
  "uri_states ! 288 = uri_st288"
  "uri_states ! 289 = uri_st289"
  "uri_states ! 290 = uri_st290"
  "uri_states ! 291 = uri_st291"
  "uri_states ! 292 = uri_st292"
  "uri_states ! 293 = uri_st293"
  "uri_states ! 294 = uri_st294"
  "uri_states ! 295 = uri_st295"
  "uri_states ! 296 = uri_st296"
  "uri_states ! 297 = uri_st297"
  "uri_states ! 298 = uri_st298"
  "uri_states ! 299 = uri_st299"
  "uri_states ! 300 = uri_st300"
  "uri_states ! 301 = uri_st301"
  "uri_states ! 302 = uri_st302"
  "uri_states ! 303 = uri_st303"
  "uri_states ! 304 = uri_st304"
  "uri_states ! 305 = uri_st305"
  "uri_states ! 306 = uri_st306"
  "uri_states ! 307 = uri_st307"
  "uri_states ! 308 = uri_st308"
  "uri_states ! 309 = uri_st309"
  "uri_states ! 310 = uri_st310"
  "uri_states ! 311 = uri_st311"
  "uri_states ! 312 = uri_st312"
  "uri_states ! 313 = uri_st313"
  "uri_states ! 314 = uri_st314"
  "uri_states ! 315 = uri_st315"
  "uri_states ! 316 = uri_st316"
  "uri_states ! 317 = uri_st317"
  "uri_states ! 318 = uri_st318"
  "uri_states ! 319 = uri_st319"
  "uri_states ! 320 = uri_st320"
  "uri_states ! 321 = uri_st321"
  "uri_states ! 322 = uri_st322"
  "uri_states ! 323 = uri_st323"
  "uri_states ! 324 = uri_st324"
  "uri_states ! 325 = uri_st325"
  "uri_states ! 326 = uri_st326"
  "uri_states ! 327 = uri_st327"
  "uri_states ! 328 = uri_st328"
  "uri_states ! 329 = uri_st329"
  "uri_states ! 330 = uri_st330"
  "uri_states ! 331 = uri_st331"
  "uri_states ! 332 = uri_st332"
  "uri_states ! 333 = uri_st333"
  "uri_states ! 334 = uri_st334"
  "uri_states ! 335 = uri_st335"
  "uri_states ! 336 = uri_st336"
  "uri_states ! 337 = uri_st337"
  "uri_states ! 338 = uri_st338"
  "uri_states ! 339 = uri_st339"
  "uri_states ! 340 = uri_st340"
  "uri_states ! 341 = uri_st341"
  "uri_states ! 342 = uri_st342"
  "uri_states ! 343 = uri_st343"
  "uri_states ! 344 = uri_st344"
  "uri_states ! 345 = uri_st345"
  "uri_states ! 346 = uri_st346"
  "uri_states ! 347 = uri_st347"
  "uri_states ! 348 = uri_st348"
  "uri_states ! 349 = uri_st349"
  "uri_states ! 350 = uri_st350"
  "uri_states ! 351 = uri_st351"
  "uri_states ! 352 = uri_st352"
  "uri_states ! 353 = uri_st353"
  "uri_states ! 354 = uri_st354"
  "uri_states ! 355 = uri_st355"
  "uri_states ! 356 = uri_st356"
  "uri_states ! 357 = uri_st357"
  "uri_states ! 358 = uri_st358"
  "uri_states ! 359 = uri_st359"
  "uri_states ! 360 = uri_st360"
  "uri_states ! 361 = uri_st361"
  "uri_states ! 362 = uri_st362"
  "uri_states ! 363 = uri_st363"
  "uri_states ! 364 = uri_st364"
  "uri_states ! 365 = uri_st365"
  "uri_states ! 366 = uri_st366"
  "uri_states ! 367 = uri_st367"
  "uri_states ! 368 = uri_st368"
  "uri_states ! 369 = uri_st369"
  "uri_states ! 370 = uri_st370"
  "uri_states ! 371 = uri_st371"
  "uri_states ! 372 = uri_st372"
  "uri_states ! 373 = uri_st373"
  "uri_states ! 374 = uri_st374"
  "uri_states ! 375 = uri_st375"
  "uri_states ! 376 = uri_st376"
  "uri_states ! 377 = uri_st377"
  "uri_states ! 378 = uri_st378"
  "uri_states ! 379 = uri_st379"
  "uri_states ! 380 = uri_st380"
  "uri_states ! 381 = uri_st381"
  "uri_states ! 382 = uri_st382"
  "uri_states ! 383 = uri_st383"
  "uri_states ! 384 = uri_st384"
  "uri_states ! 385 = uri_st385"
  "uri_states ! 386 = uri_st386"
  "uri_states ! 387 = uri_st387"
  "uri_states ! 388 = uri_st388"
  "uri_states ! 389 = uri_st389"
  "uri_states ! 390 = uri_st390"
  "uri_states ! 391 = uri_st391"
  "uri_states ! 392 = uri_st392"
  "uri_states ! 393 = uri_st393"
  "uri_states ! 394 = uri_st394"
  "uri_states ! 395 = uri_st395"
  "uri_states ! 396 = uri_st396"
  "uri_states ! 397 = uri_st397"
  "uri_states ! 398 = uri_st398"
  "uri_states ! 399 = uri_st399"
  "uri_states ! 400 = uri_st400"
  "uri_states ! 401 = uri_st401"
  "uri_states ! 402 = uri_st402"
  "uri_states ! 403 = uri_st403"
  "uri_states ! 404 = uri_st404"
  "uri_states ! 405 = uri_st405"
  "uri_states ! 406 = uri_st406"
  "uri_states ! 407 = uri_st407"
  "uri_states ! 408 = uri_st408"
  "uri_states ! 409 = uri_st409"
  "uri_states ! 410 = uri_st410"
  "uri_states ! 411 = uri_st411"
  "uri_states ! 412 = uri_st412"
  "uri_states ! 413 = uri_st413"
  "uri_states ! 414 = uri_st414"
  "uri_states ! 415 = uri_st415"
  "uri_states ! 416 = uri_st416"
  "uri_states ! 417 = uri_st417"
  "uri_states ! 418 = uri_st418"
  "uri_states ! 419 = uri_st419"
  "uri_states ! 420 = uri_st420"
  "uri_states ! 421 = uri_st421"
  "uri_states ! 422 = uri_st422"
  "uri_states ! 423 = uri_st423"
  "uri_states ! 424 = uri_st424"
  "uri_states ! 425 = uri_st425"
  "uri_states ! 426 = uri_st426"
  "uri_states ! 427 = uri_st427"
  "uri_states ! 428 = uri_st428"
  "uri_states ! 429 = uri_st429"
  "uri_states ! 430 = uri_st430"
  "uri_states ! 431 = uri_st431"
  "uri_states ! 432 = uri_st432"
  "uri_states ! 433 = uri_st433"
  "uri_states ! 434 = uri_st434"
  "uri_states ! 435 = uri_st435"
  "uri_states ! 436 = uri_st436"
  "uri_states ! 437 = uri_st437"
  "uri_states ! 438 = uri_st438"
  "uri_states ! 439 = uri_st439"
  "uri_states ! 440 = uri_st440"
  "uri_states ! 441 = uri_st441"
  "uri_states ! 442 = uri_st442"
  "uri_states ! 443 = uri_st443"
  "uri_states ! 444 = uri_st444"
  "uri_states ! 445 = uri_st445"
  "uri_states ! 446 = uri_st446"
  "uri_states ! 447 = uri_st447"
  "uri_states ! 448 = uri_st448"
  "uri_states ! 449 = uri_st449"
  "uri_states ! 450 = uri_st450"
  "uri_states ! 451 = uri_st451"
  "uri_states ! 452 = uri_st452"
  "uri_states ! 453 = uri_st453"
  "uri_states ! 454 = uri_st454"
  "uri_states ! 455 = uri_st455"
  "uri_states ! 456 = uri_st456"
  "uri_states ! 457 = uri_st457"
  "uri_states ! 458 = uri_st458"
  "uri_states ! 459 = uri_st459"
  "uri_states ! 460 = uri_st460"
  "uri_states ! 461 = uri_st461"
  "uri_states ! 462 = uri_st462"
  "uri_states ! 463 = uri_st463"
  "uri_states ! 464 = uri_st464"
  "uri_states ! 465 = uri_st465"
  "uri_states ! 466 = uri_st466"
  "uri_states ! 467 = uri_st467"
  "uri_states ! 468 = uri_st468"
  "uri_states ! 469 = uri_st469"
  "uri_states ! 470 = uri_st470"
  "uri_states ! 471 = uri_st471"
  "uri_states ! 472 = uri_st472"
  "uri_states ! 473 = uri_st473"
  "uri_states ! 474 = uri_st474"
  "uri_states ! 475 = uri_st475"
  "uri_states ! 476 = uri_st476"
  "uri_states ! 477 = uri_st477"
  "uri_states ! 478 = uri_st478"
  "uri_states ! 479 = uri_st479"
  "uri_states ! 480 = uri_st480"
  "uri_states ! 481 = uri_st481"
  "uri_states ! 482 = uri_st482"
  "uri_states ! 483 = uri_st483"
  "uri_states ! 484 = uri_st484"
  "uri_states ! 485 = uri_st485"
  "uri_states ! 486 = uri_st486"
  "uri_states ! 487 = uri_st487"
  "uri_states ! 488 = uri_st488"
  "uri_states ! 489 = uri_st489"
  "uri_states ! 490 = uri_st490"
  "uri_states ! 491 = uri_st491"
  "uri_states ! 492 = uri_st492"
  "uri_states ! 493 = uri_st493"
  "uri_states ! 494 = uri_st494"
  "uri_states ! 495 = uri_st495"
  "uri_states ! 496 = uri_st496"
  "uri_states ! 497 = uri_st497"
  "uri_states ! 498 = uri_st498"
  "uri_states ! 499 = uri_st499"
  "uri_states ! 500 = uri_st500"
  "uri_states ! 501 = uri_st501"
  "uri_states ! 502 = uri_st502"
  "uri_states ! 503 = uri_st503"
  "uri_states ! 504 = uri_st504"
  "uri_states ! 505 = uri_st505"
  "uri_states ! 506 = uri_st506"
  "uri_states ! 507 = uri_st507"
  "uri_states ! 508 = uri_st508"
  "uri_states ! 509 = uri_st509"
  "uri_states ! 510 = uri_st510"
  "uri_states ! 511 = uri_st511"
  "uri_states ! 512 = uri_st512"
  "uri_states ! 513 = uri_st513"
  "uri_states ! 514 = uri_st514"
  "uri_states ! 515 = uri_st515"
  "uri_states ! 516 = uri_st516"
  "uri_states ! 517 = uri_st517"
  "uri_states ! 518 = uri_st518"
  "uri_states ! 519 = uri_st519"
  "uri_states ! 520 = uri_st520"
  "uri_states ! 521 = uri_st521"
  "uri_states ! 522 = uri_st522"
  "uri_states ! 523 = uri_st523"
  "uri_states ! 524 = uri_st524"
  "uri_states ! 525 = uri_st525"
  "uri_states ! 526 = uri_st526"
  "uri_states ! 527 = uri_st527"
  "uri_states ! 528 = uri_st528"
  "uri_states ! 529 = uri_st529"
  "uri_states ! 530 = uri_st530"
  "uri_states ! 531 = uri_st531"
  "uri_states ! 532 = uri_st532"
  "uri_states ! 533 = uri_st533"
  "uri_states ! 534 = uri_st534"
  "uri_states ! 535 = uri_st535"
  "uri_states ! 536 = uri_st536"
  "uri_states ! 537 = uri_st537"
  "uri_states ! 538 = uri_st538"
  "uri_states ! 539 = uri_st539"
  "uri_states ! 540 = uri_st540"
  "uri_states ! 541 = uri_st541"
  "uri_states ! 542 = uri_st542"
  "uri_states ! 543 = uri_st543"
  "uri_states ! 544 = uri_st544"
  "uri_states ! 545 = uri_st545"
  "uri_states ! 546 = uri_st546"
  "uri_states ! 547 = uri_st547"
  "uri_states ! 548 = uri_st548"
  "uri_states ! 549 = uri_st549"
  "uri_states ! 550 = uri_st550"
  "uri_states ! 551 = uri_st551"
  "uri_states ! 552 = uri_st552"
  "uri_states ! 553 = uri_st553"
  "uri_states ! 554 = uri_st554"
  "uri_states ! 555 = uri_st555"
  "uri_states ! 556 = uri_st556"
  "uri_states ! 557 = uri_st557"
  "uri_states ! 558 = uri_st558"
  "uri_states ! 559 = uri_st559"
  "uri_states ! 560 = uri_st560"
  by (simp_all add: uri_states_def)

text \<open>Every jump of the machine is to one of its states.\<close>

lemma uri_machine_ok: "machine_ok (uri_states)"
  unfolding machine_ok_def length_uri_states unfolding uri_states_def
  by (simp add: uri_sts uri_ctrs target_if split del: if_split)

section \<open>The end of the text\<close>

definition uri_eof :: "nat \<Rightarrow> uri_action list" where
  "uri_eof cs =
     (if cs \<in> {462, 489} then [U_save_port] else
      if cs \<in> {460, 463, 464, 465, 466, 467, 470, 471, 472, 473, 474, 475, 476, 477, 478,
        479, 480, 481, 482, 483, 484, 485, 486, 487, 488, 490, 491, 492, 493, 494, 495, 496,
        497, 498, 499, 500, 501, 502, 503, 504, 505, 506, 507} then [U_save_host] else
      if cs \<in> {513} then [U_save_path] else
      if cs \<in> {457} then [U_save_query] else
      if cs \<in> {454} then [U_save_fragment] else
      if cs \<in> {456} then [U_marku, U_save_query] else
      if cs \<in> {453} then [U_marku, U_save_fragment] else
      if cs \<in> {461, 468} then [U_markh, U_save_port] else
      if cs \<in> {459, 469} then [U_markh, U_save_host] else
      if cs \<in> {514, 521} then [U_markh, U_save_port, U_save_path] else
      if cs \<in> {511, 522} then [U_markh, U_save_host, U_save_path] else
      if cs \<in> {515, 542} then [U_save_port, U_markh, U_save_path] else
      if cs \<in> {512, 516, 517, 518, 519, 520, 523, 524, 525, 526, 527, 528, 529, 530, 531,
        532, 533, 534, 535, 536, 537, 538, 539, 540, 541, 543, 544, 545, 546, 547, 548, 549,
        550, 551, 552, 553, 554, 555, 556, 557, 558, 559, 560} then [U_save_host, U_markh,
        U_save_path] else
      [])"

end
