(* ===== verification/Addresses.thy ===== *)
theory Addresses
  imports Texts Endian
begin

text \<open>
  Socket addresses (\<open>sylar/address.h\<close>, \<open>sylar/address.cc\<close>). The structures of the socket
  interface keep ports and IPv4 addresses in network order, as the code stores them; the
  order of the host is the argument \<open>host\<close>. The bytes of a structure in memory, which the
  comparison operators read with \<open>memcmp\<close>, are \<open>getAddr\<close>. Name resolution
  (\<open>getaddrinfo\<close>, \<open>inet_pton\<close>) and the list of interfaces (\<open>getifaddrs\<close>) are the system's:
  their results are arguments.
\<close>

unbundle bit_operations_syntax

section \<open>The address types\<close>

definition AF_UNSPEC :: u16 where "AF_UNSPEC = 0"
definition AF_UNIX :: u16 where "AF_UNIX = 1"
definition AF_INET :: u16 where "AF_INET = 2"
definition AF_INET6 :: u16 where "AF_INET6 = 10"

record sockaddr_in =
  sin_family :: u16
  sin_port :: u16
  s_addr :: u32
  sin_zero :: bytes

record sockaddr_in6 =
  sin6_family :: u16
  sin6_port :: u16
  sin6_flowinfo :: u32
  s6_addr :: bytes
  sin6_scope_id :: u32

record sockaddr_un =
  sun_family :: u16
  sun_path :: bytes

record sockaddr =
  sa_family :: u16
  sa_data :: bytes

datatype address =
    IPv4Address sockaddr_in
  | IPv6Address sockaddr_in6
  | UnixAddress sockaddr_un u32
  | UnknownAddress sockaddr

fun getAddr :: "endian \<Rightarrow> address \<Rightarrow> bytes" where
  "getAddr host (IPv4Address a) =
     mem_bytes host 2 (sin_family a) @ mem_bytes host 2 (sin_port a) @ mem_bytes host 4 (s_addr a) @ sin_zero a"
| "getAddr host (IPv6Address a) =
     mem_bytes host 2 (sin6_family a) @ mem_bytes host 2 (sin6_port a) @
     mem_bytes host 4 (sin6_flowinfo a) @ s6_addr a @ mem_bytes host 4 (sin6_scope_id a)"
| "getAddr host (UnixAddress a len) = mem_bytes host 2 (sun_family a) @ sun_path a"
| "getAddr host (UnknownAddress a) = mem_bytes host 2 (sa_family a) @ sa_data a"

fun getAddrLen :: "address \<Rightarrow> nat" where
  "getAddrLen (IPv4Address a) = 16"
| "getAddrLen (IPv6Address a) = 28"
| "getAddrLen (UnixAddress a len) = unat len"
| "getAddrLen (UnknownAddress a) = 16"

fun getFamily :: "address \<Rightarrow> u16" where
  "getFamily (IPv4Address a) = sin_family a"
| "getFamily (IPv6Address a) = sin6_family a"
| "getFamily (UnixAddress a len) = sun_family a"
| "getFamily (UnknownAddress a) = sa_family a"

definition IPv4Address_new :: "endian \<Rightarrow> u32 \<Rightarrow> u16 \<Rightarrow> sockaddr_in" where
  "IPv4Address_new host addr port =
     \<lparr>sin_family = AF_INET, sin_port = byteswapOnLittleEndian16 host port,
      s_addr = byteswapOnLittleEndian32 host addr, sin_zero = replicate 8 0\<rparr>"

definition IPv6Address_new :: "endian \<Rightarrow> bytes \<Rightarrow> u16 \<Rightarrow> sockaddr_in6" where
  "IPv6Address_new host addr port =
     \<lparr>sin6_family = AF_INET6, sin6_port = byteswapOnLittleEndian16 host port, sin6_flowinfo = 0,
      s6_addr = addr, sin6_scope_id = 0\<rparr>"

definition IPv6Address_any :: sockaddr_in6 where
  "IPv6Address_any =
     \<lparr>sin6_family = AF_INET6, sin6_port = 0, sin6_flowinfo = 0, s6_addr = replicate 16 0,
      sin6_scope_id = 0\<rparr>"

definition MAX_PATH_LEN :: nat where
  "MAX_PATH_LEN = 108 - 1"

definition UnixAddress_any :: address where
  "UnixAddress_any =
     UnixAddress \<lparr>sun_family = AF_UNIX, sun_path = replicate 108 0\<rparr> (of_nat (2 + MAX_PATH_LEN))"

text \<open>The constructor from a path, a list of bytes; a leading null makes it an abstract name.\<close>

definition UnixAddress_new :: "bytes \<Rightarrow> fault + address" where
  "UnixAddress_new path =
     (let len = (of_nat (length path) + 1 :: u32);
          len = (if path \<noteq> [] \<and> path ! 0 = 0 then len - 1 else len)
      in if unat len > 108 then Inl (Logic_error ''path too long'')
         else Inr (UnixAddress
           \<lparr>sun_family = AF_UNIX, sun_path = overwrite 0 (take (unat len) (path @ [0])) (replicate 108 0)\<rparr>
           (len + 2)))"

definition UnknownAddress_new :: "u16 \<Rightarrow> address" where
  "UnknownAddress_new family = UnknownAddress \<lparr>sa_family = family, sa_data = replicate 14 0\<rparr>"

definition setAddrLen :: "u32 \<Rightarrow> address \<Rightarrow> address" where
  "setAddrLen v a = (case a of UnixAddress u len \<Rightarrow> UnixAddress u v | _ \<Rightarrow> a)"

text \<open>
  \<open>Address::Create\<close>: what a pointer to a \<open>sockaddr\<close> of each family is read as is the
  argument, since the cast reinterprets the bytes behind it.
\<close>

definition Address_Create :: "(u16 \<times> sockaddr_in \<times> sockaddr_in6 \<times> sockaddr) option \<Rightarrow> address option" where
  "Address_Create addr =
     (case addr of
        None \<Rightarrow> None
      | Some (family, a4, a6, a) \<Rightarrow>
          Some (if family = AF_INET then IPv4Address a4
                else if family = AF_INET6 then IPv6Address a6 else UnknownAddress a))"

text \<open>The port, of the IP addresses only.\<close>

definition getPort :: "endian \<Rightarrow> address \<Rightarrow> u32" where
  "getPort host a =
     (case a of IPv4Address a \<Rightarrow> ucast (byteswapOnLittleEndian16 host (sin_port a))
      | IPv6Address a \<Rightarrow> ucast (byteswapOnLittleEndian16 host (sin6_port a)) | _ \<Rightarrow> 0)"

definition setPort :: "endian \<Rightarrow> u16 \<Rightarrow> address \<Rightarrow> address" where
  "setPort host v a =
     (case a of IPv4Address a \<Rightarrow> IPv4Address (a\<lparr>sin_port := byteswapOnLittleEndian16 host v\<rparr>)
      | IPv6Address a \<Rightarrow> IPv6Address (a\<lparr>sin6_port := byteswapOnLittleEndian16 host v\<rparr>) | _ \<Rightarrow> a)"

section \<open>Comparison\<close>

fun memcmp :: "bytes \<Rightarrow> bytes \<Rightarrow> int" where
  "memcmp (a # as) (b # bs) = (if a = b then memcmp as bs else uint a - uint b)"
| "memcmp _ _ = 0"

definition Address_less :: "endian \<Rightarrow> address \<Rightarrow> address \<Rightarrow> bool" where
  "Address_less host lhs rhs =
     (let minlen = min (getAddrLen lhs) (getAddrLen rhs);
          result = memcmp (take minlen (getAddr host lhs)) (take minlen (getAddr host rhs))
      in if result < 0 then True else if result > 0 then False
         else if getAddrLen lhs < getAddrLen rhs then True else False)"

definition Address_eq :: "endian \<Rightarrow> address \<Rightarrow> address \<Rightarrow> bool" where
  "Address_eq host lhs rhs \<longleftrightarrow>
     getAddrLen lhs = getAddrLen rhs \<and>
     memcmp (take (getAddrLen lhs) (getAddr host lhs)) (take (getAddrLen lhs) (getAddr host rhs)) = 0"

definition Address_neq :: "endian \<Rightarrow> address \<Rightarrow> address \<Rightarrow> bool" where
  "Address_neq host lhs rhs \<longleftrightarrow> \<not> Address_eq host lhs rhs"

section \<open>Masks\<close>

text \<open>
  \<open>CreateMask\<close>. For 32 bits the shift and the subtraction are in \<open>int\<close>: a shift by 32 or
  more, and the subtraction from \<open>1 << 31\<close>, are undefined. For 8 bits they never are.
\<close>

definition CreateMask32 :: "u32 \<Rightarrow> fault + u32" where
  "CreateMask32 bits =
     (if bits < 2 \<or> bits > 32 then Inl Undefined else Inr (push_bit (32 - unat bits) 1 - 1))"

definition CreateMask8 :: "nat \<Rightarrow> u8" where
  "CreateMask8 bits = word_of_int (2 ^ (8 - bits) - 1)"

definition broadcastAddress4 :: "endian \<Rightarrow> u32 \<Rightarrow> sockaddr_in \<Rightarrow> fault + sockaddr_in option" where
  "broadcastAddress4 host prefix_len a =
     (if prefix_len > 32 then Inr None else
      case CreateMask32 prefix_len of
        Inl e \<Rightarrow> Inl e
      | Inr m \<Rightarrow> Inr (Some (a\<lparr>s_addr := s_addr a OR byteswapOnLittleEndian32 host m\<rparr>)))"

definition networkAddress4 :: "endian \<Rightarrow> u32 \<Rightarrow> sockaddr_in \<Rightarrow> fault + sockaddr_in option" where
  "networkAddress4 host prefix_len a =
     (if prefix_len > 32 then Inr None else
      case CreateMask32 prefix_len of
        Inl e \<Rightarrow> Inl e
      | Inr m \<Rightarrow> Inr (Some (a\<lparr>s_addr := s_addr a AND byteswapOnLittleEndian32 host m\<rparr>)))"

definition subnetMask4 :: "endian \<Rightarrow> u32 \<Rightarrow> fault + sockaddr_in" where
  "subnetMask4 host prefix_len =
     (case CreateMask32 prefix_len of
        Inl e \<Rightarrow> Inl e
      | Inr m \<Rightarrow> Inr \<lparr>sin_family = AF_INET, sin_port = 0,
          s_addr = NOT (byteswapOnLittleEndian32 host m), sin_zero = replicate 8 0\<rparr>)"

text \<open>IPv6: the array has 16 bytes, and an index beyond it is undefined.\<close>

definition broadcastAddress6 :: "u32 \<Rightarrow> sockaddr_in6 \<Rightarrow> fault + sockaddr_in6" where
  "broadcastAddress6 prefix_len a =
     (let p = unat prefix_len; i = p div 8
      in if i \<ge> 16 then Inl Undefined else
         let b = (s6_addr a)[i := s6_addr a ! i OR CreateMask8 (p mod 8)]
         in Inr (a\<lparr>s6_addr := take (i + 1) b @ replicate (16 - (i + 1)) 0xff\<rparr>))"

definition networkAddress6 :: "u32 \<Rightarrow> sockaddr_in6 \<Rightarrow> fault + sockaddr_in6" where
  "networkAddress6 prefix_len a =
     (let p = unat prefix_len; i = p div 8
      in if i \<ge> 16 then Inl Undefined else
         Inr (a\<lparr>s6_addr := (s6_addr a)[i := s6_addr a ! i AND CreateMask8 (p mod 8)]\<rparr>))"

text \<open>The loop of \<open>subnetMask\<close> counts its index down.\<close>

function subnet_loop :: "u32 \<Rightarrow> u32 \<Rightarrow> bytes \<Rightarrow> bytes" where
  "subnet_loop i n b = (if i < n then subnet_loop (i - 1) n (b[unat i := 0xff]) else b)"
  by pat_completeness auto

termination
proof (relation "measure (\<lambda>(i, n, _). if i < n then unat i + 1 else 0)")
  fix i n :: u32 and b :: bytes
  assume "i < n"
  show "((i - 1, n, b[unat i := 0xff]), i, n, b) \<in> measure (\<lambda>(i, n, _). if i < n then unat i + 1 else 0)"
  proof (cases "i = 0")
    case True
    have "\<not> (-1 :: u32) < n" using word_order.extremum [of n] by (simp add: not_less)
    then show ?thesis using True \<open>i < n\<close> by simp
  next
    case False
    then have "unat (i - 1) = unat i - 1" "0 < unat i" by (simp_all add: unat_minus_one unat_gt_0)
    then show ?thesis using \<open>i < n\<close> by simp
  qed
qed simp

declare subnet_loop.simps [simp del]

definition subnetMask6 :: "u32 \<Rightarrow> fault + sockaddr_in6" where
  "subnetMask6 prefix_len =
     (let p = unat prefix_len; i = p div 8
      in if i \<ge> 16 then Inl Undefined else
         Inr (IPv6Address_any\<lparr>s6_addr :=
           subnet_loop 0 (prefix_len div 8) ((replicate 16 0)[i := NOT (CreateMask8 (p mod 8))])\<rparr>))"

section \<open>Text\<close>

definition insert4 :: "endian \<Rightarrow> sockaddr_in \<Rightarrow> string" where
  "insert4 host a =
     (let addr = byteswapOnLittleEndian32 host (s_addr a)
      in dec (unat (drop_bit 24 addr AND 0xff)) @ ''.'' @ dec (unat (drop_bit 16 addr AND 0xff)) @ ''.'' @
         dec (unat (drop_bit 8 addr AND 0xff)) @ ''.'' @ dec (unat (addr AND 0xff)) @
         '':'' @ dec (unat (byteswapOnLittleEndian16 host (sin_port a))))"

text \<open>The array of bytes read as eight 16-bit numbers of the host.\<close>

fun addr16 :: "endian \<Rightarrow> bytes \<Rightarrow> u16 list" where
  "addr16 host (a # b # bs) = mem_value host [a, b] # addr16 host bs"
| "addr16 host _ = []"

text \<open>
  The loop of \<open>IPv6Address::insert\<close>: the index, the previous number, whether the
  abbreviation has been used, and the numbers left; what is written, and the flag.
\<close>

fun insert6_loop :: "endian \<Rightarrow> nat \<Rightarrow> u16 \<Rightarrow> bool \<Rightarrow> u16 list \<Rightarrow> string \<times> bool" where
  "insert6_loop host i prev used [] = ([], used)"
| "insert6_loop host i prev used (g # gs) =
     (if g = 0 \<and> \<not> used then insert6_loop host (i + 1) g used gs
      else
        let zeros = (i > 0 \<and> prev = 0 \<and> \<not> used);
            (rest, used') = insert6_loop host (i + 1) g (used \<or> zeros) gs
        in ((if zeros then '':'' else []) @ (if i > 0 then '':'' else []) @
            hexs (unat (byteswapOnLittleEndian16 host g)) @ rest, used'))"

definition insert6 :: "endian \<Rightarrow> sockaddr_in6 \<Rightarrow> string" where
  "insert6 host a =
     (let gs = addr16 host (s6_addr a);
          (body, used) = insert6_loop host 0 0 False gs
      in ''['' @ body @ (if \<not> used \<and> gs ! 7 = 0 then ''::'' else []) @ '']:'' @
         dec (unat (byteswapOnLittleEndian16 host (sin6_port a))))"

definition chars :: "bytes \<Rightarrow> string" where
  "chars bs = map (\<lambda>b. char_of (unat b)) bs"

definition insert_unix :: "sockaddr_un \<Rightarrow> u32 \<Rightarrow> string" where
  "insert_unix a len =
     (if unat len > 2 \<and> sun_path a ! 0 = 0
      then [CHR 0x5C, CHR ''0''] @ chars (take (unat len - 2 - 1) (drop 1 (sun_path a)))
      else c_str (chars (sun_path a)))"

definition toString :: "endian \<Rightarrow> address \<Rightarrow> string" where
  "toString host a =
     (case a of IPv4Address a \<Rightarrow> insert4 host a | IPv6Address a \<Rightarrow> insert6 host a
      | UnixAddress a len \<Rightarrow> insert_unix a len
      | UnknownAddress a \<Rightarrow> ''[UnknownAddress family='' @ dec (unat (sa_family a)) @ '']'')"

section \<open>Lookup\<close>

text \<open>
  How \<open>Lookup\<close> takes a host name apart: the node and the service passed to
  \<open>getaddrinfo\<close>. \<open>index c s\<close> is \<open>memchr\<close>; the string is terminated by a null.
\<close>

definition index :: "char \<Rightarrow> string \<Rightarrow> nat option" where
  "index c s = (let i = length (takeWhile (\<lambda>x. x \<noteq> c) s) in if i < length s then Some i else None)"

definition bracketed :: "string \<Rightarrow> string \<times> string option" where
  "bracketed host =
     (if host \<noteq> [] \<and> host ! 0 = CHR ''['' then
        (case index (CHR '']'') (drop 1 host) of
           None \<Rightarrow> ([], None)
         | Some k \<Rightarrow>
             (take k (drop 1 host),
              if k + 2 < length host \<and> host ! (k + 2) = CHR '':'' then Some (drop (k + 3) host) else None))
      else ([], None))"

definition lookup_split :: "string \<Rightarrow> string \<times> string option" where
  "lookup_split host =
     (let (node, service) = bracketed host;
          (node, service) =
            (if node = [] then
               (case index (CHR '':'') host of
                  None \<Rightarrow> (node, None)
                | Some k \<Rightarrow>
                    if CHR '':'' \<in> set (drop (k + 1) host) then (node, Some (drop k host))
                    else (take k host, Some (drop (k + 1) host)))
             else (node, service))
      in (if node = [] then host else node, service))"

definition Lookup :: "(string \<Rightarrow> string option \<Rightarrow> address list option) \<Rightarrow> string \<Rightarrow> bool \<times> address list" where
  "Lookup getaddrinfo host =
     (let (node, service) = lookup_split host
      in case getaddrinfo (c_str node) (map_option c_str service) of
           None \<Rightarrow> (False, []) | Some addrs \<Rightarrow> (True, addrs))"

text \<open>A successful \<open>getaddrinfo\<close> gives at least one address.\<close>

definition LookupAny :: "(string \<Rightarrow> string option \<Rightarrow> address list option) \<Rightarrow> string \<Rightarrow> address option" where
  "LookupAny getaddrinfo host =
     (let (ok, addrs) = Lookup getaddrinfo host
      in if ok then (case addrs of a # _ \<Rightarrow> Some a | [] \<Rightarrow> None) else None)"

definition is_ip :: "address \<Rightarrow> bool" where
  "is_ip a = (case a of IPv4Address _ \<Rightarrow> True | IPv6Address _ \<Rightarrow> True | _ \<Rightarrow> False)"

definition LookupAnyIPAddress :: "(string \<Rightarrow> string option \<Rightarrow> address list option) \<Rightarrow> string \<Rightarrow> address option" where
  "LookupAnyIPAddress getaddrinfo host =
     (let (ok, addrs) = Lookup getaddrinfo host in if ok then List.find is_ip addrs else None)"

definition IPAddress_Create :: "endian \<Rightarrow> (string \<Rightarrow> address list option) \<Rightarrow> string \<Rightarrow> u16 \<Rightarrow> address option" where
  "IPAddress_Create host getaddrinfo addr port =
     (case getaddrinfo addr of
        None \<Rightarrow> None
      | Some results \<Rightarrow>
          (case results of [] \<Rightarrow> None
           | r # _ \<Rightarrow> if is_ip r then Some (setPort host port r) else None))"

definition IPv4Address_Create :: "endian \<Rightarrow> (string \<Rightarrow> u32 option) \<Rightarrow> string \<Rightarrow> u16 \<Rightarrow> sockaddr_in option" where
  "IPv4Address_Create host inet_pton addr port =
     (let rt = (IPv4Address_new host 0 0)\<lparr>sin_port := byteswapOnLittleEndian16 host port\<rparr>
      in case inet_pton addr of None \<Rightarrow> None | Some v \<Rightarrow> Some (rt\<lparr>s_addr := v\<rparr>))"

definition IPv6Address_Create :: "endian \<Rightarrow> (string \<Rightarrow> bytes option) \<Rightarrow> string \<Rightarrow> u16 \<Rightarrow> sockaddr_in6 option" where
  "IPv6Address_Create host inet_pton addr port =
     (let rt = IPv6Address_any\<lparr>sin6_port := byteswapOnLittleEndian16 host port\<rparr>
      in case inet_pton addr of None \<Rightarrow> None | Some v \<Rightarrow> Some (rt\<lparr>s6_addr := v\<rparr>))"

section \<open>Interfaces\<close>

function CountBytes :: "u32 \<Rightarrow> u32" where
  "CountBytes v = (if v = 0 then 0 else 1 + CountBytes (v AND (v - 1)))"
  by pat_completeness auto

termination
proof (relation "measure unat")
  fix v :: u32
  assume "v \<noteq> 0"
  have "v AND (v - 1) \<le> v - 1" by (simp add: word_and_le1)
  also have "v - 1 < v" using \<open>v \<noteq> 0\<close> by (simp add: word_less_nat_alt unat_minus_one unat_gt_0)
  finally show "(v AND (v - 1), v) \<in> measure unat" by (simp add: word_less_nat_alt)
qed simp

declare CountBytes.simps [simp del]

text \<open>
  An interface as \<open>getifaddrs\<close> lists it: its name, the family, its address and netmask.
\<close>

record ifaddr =
  ifa_name :: string
  ifa_addr :: address
  ifa_netmask :: address

definition prefix_len :: "ifaddr \<Rightarrow> u32" where
  "prefix_len ifa =
     (case ifa_netmask ifa of
        IPv4Address m \<Rightarrow> CountBytes (s_addr m)
      | IPv6Address m \<Rightarrow> fold (\<lambda>b n. n + CountBytes (ucast b)) (take 16 (s6_addr m)) (NOT 0)
      | _ \<Rightarrow> NOT 0)"

definition interface_entry :: "u16 \<Rightarrow> ifaddr \<Rightarrow> (string \<times> address \<times> u32) list" where
  "interface_entry family ifa =
     (let fam = getFamily (ifa_addr ifa)
      in if family \<noteq> AF_UNSPEC \<and> family \<noteq> fam then []
         else if fam = AF_INET \<or> fam = AF_INET6 then [(ifa_name ifa, ifa_addr ifa, prefix_len ifa)]
         else [])"

text \<open>Both overloads; the \<open>multimap\<close> of the first keeps the entries of a name in order.\<close>

definition GetInterfaceAddresses :: "ifaddr list option \<Rightarrow> u16 \<Rightarrow> bool \<times> (string \<times> address \<times> u32) list" where
  "GetInterfaceAddresses ifas family =
     (case ifas of None \<Rightarrow> (False, []) | Some l \<Rightarrow> (True, concat (map (interface_entry family) l)))"

definition GetInterfaceAddresses_of :: "endian \<Rightarrow> ifaddr list option \<Rightarrow> string \<Rightarrow> u16 \<Rightarrow> bool \<times> (address \<times> u32) list" where
  "GetInterfaceAddresses_of host ifas iface family =
     (if iface = [] \<or> iface = ''*'' then
        (True,
         (if family = AF_INET \<or> family = AF_UNSPEC then [(IPv4Address (IPv4Address_new host 0 0), 0)] else []) @
         (if family = AF_INET6 \<or> family = AF_UNSPEC then [(IPv6Address IPv6Address_any, 0)] else []))
      else
        let (ok, results) = GetInterfaceAddresses ifas family
        in if \<not> ok then (False, []) else (True, map snd (filter (\<lambda>e. fst e = iface) results)))"

end
