(* ===== verification/Address_Props.thy ===== *)
theory Address_Props
  imports Addresses
begin

text \<open>
  Properties of socket addresses: the order and equality, the masks bit by bit, the text of
  IPv4 and IPv6 addresses and what a reader recovers from it, the taking apart of host names
  and the count of set bits.
\<close>

unbundle bit_operations_syntax

section \<open>Order and equality\<close>

lemma memcmp_less: "length as = length bs \<Longrightarrow> memcmp as bs < 0 \<longleftrightarrow> as < bs"
  by (induction as bs rule: memcmp.induct) (auto simp: word_less_def)

lemma memcmp_zero: "length as = length bs \<Longrightarrow> memcmp as bs = 0 \<longleftrightarrow> as = bs"
  by (induction as bs rule: memcmp.induct) (auto simp: word_uint_eq_iff)

lemma memcmp_pos: "length as = length bs \<Longrightarrow> memcmp as bs > 0 \<longleftrightarrow> bs < as"
  using memcmp_less [of as bs] memcmp_zero [of as bs] by (metis linorder_neqE less_asym)

definition wf_address :: "address \<Rightarrow> bool" where
  "wf_address a \<longleftrightarrow>
     (case a of IPv4Address s \<Rightarrow> length (sin_zero s) = 8 | IPv6Address s \<Rightarrow> length (s6_addr s) = 16
      | UnixAddress s len \<Rightarrow> length (sun_path s) = 108 \<and> unat len \<le> 110
      | UnknownAddress s \<Rightarrow> length (sa_data s) = 14)"

lemma wf_length: "wf_address a \<Longrightarrow> getAddrLen a \<le> length (getAddr host a)"
  by (cases a) (auto simp: wf_address_def)

text \<open>What the comparison depends on: the bytes that count.\<close>

definition address_key :: "endian \<Rightarrow> address \<Rightarrow> bytes" where
  "address_key host a = take (getAddrLen a) (getAddr host a)"

lemma lex_prefix:
  fixes xs ys :: "'a::linorder list"
  shows "xs < ys \<longleftrightarrow>
    (let n = min (length xs) (length ys)
     in take n xs < take n ys \<or> take n xs = take n ys \<and> length xs < length ys)"
proof (induction xs arbitrary: ys)
  case Nil
  then show ?case by (cases ys) auto
next
  case (Cons x xs)
  then show ?case by (cases ys) (auto simp: Let_def)
qed

lemma Address_less_key:
  assumes "wf_address a" "wf_address b"
  shows "Address_less host a b \<longleftrightarrow> address_key host a < address_key host b"
proof -
  let ?n = "min (getAddrLen a) (getAddrLen b)"
  have len: "length (address_key host a) = getAddrLen a" "length (address_key host b) = getAddrLen b"
    using wf_length assms by (simp_all add: address_key_def min_absorb1 min_absorb2)
  have t: "take ?n (address_key host a) = take ?n (getAddr host a)"
      "take ?n (address_key host b) = take ?n (getAddr host b)"
    by (simp_all add: address_key_def)
  have l: "length (take ?n (getAddr host a)) = length (take ?n (getAddr host b))"
    using wf_length [OF assms(1), of host] wf_length [OF assms(2), of host] by simp
  show ?thesis
    unfolding lex_prefix [of "address_key host a"] len Let_def t Address_less_def
    using memcmp_less [OF l] memcmp_zero [OF l] memcmp_pos [OF l] by auto
qed

lemma Address_eq_key:
  assumes "wf_address a" "wf_address b"
  shows "Address_eq host a b \<longleftrightarrow> address_key host a = address_key host b"
proof (cases "getAddrLen a = getAddrLen b")
  case True
  then have "length (take (getAddrLen a) (getAddr host a)) = length (take (getAddrLen a) (getAddr host b))"
    using wf_length [OF assms(1), of host] wf_length [OF assms(2), of host] by simp
  then show ?thesis using True memcmp_zero by (simp add: Address_eq_def address_key_def)
next
  case False
  have "length (address_key host a) = getAddrLen a" "length (address_key host b) = getAddrLen b"
    using wf_length assms by (simp_all add: address_key_def min_absorb1 min_absorb2)
  then show ?thesis using False by (auto simp: Address_eq_def)
qed

text \<open>
  Addresses may be kept in ordered containers: of two addresses, of any two families,
  one is less than the other or they are equal, never both, and the order is transitive;
  equality is an equivalence, and equal addresses are interchangeable in comparisons.
\<close>

theorem address_order:
  assumes "wf_address a" "wf_address b" "wf_address c"
  shows "(Address_less host a b \<or> Address_less host b a \<longleftrightarrow> Address_neq host a b) \<and>
    \<not> (Address_less host a b \<and> Address_less host b a) \<and>
    (Address_less host a b \<and> Address_less host b c \<longrightarrow> Address_less host a c) \<and>
    (Address_eq host a b \<and> Address_eq host b c \<longrightarrow> Address_eq host a c) \<and>
    (Address_eq host a b \<longrightarrow> Address_less host a c = Address_less host b c)"
  using assms by (auto simp: Address_less_key Address_eq_key Address_neq_def)

theorem address_order_witness:
  "Address_less SYLAR_LITTLE_ENDIAN (IPv4Address (IPv4Address_new SYLAR_LITTLE_ENDIAN 0x0A000001 80))
     (IPv4Address (IPv4Address_new SYLAR_LITTLE_ENDIAN 0x0A000001 443)) \<or>
   Address_less SYLAR_LITTLE_ENDIAN (IPv4Address (IPv4Address_new SYLAR_LITTLE_ENDIAN 0x0A000001 443))
     (IPv4Address (IPv4Address_new SYLAR_LITTLE_ENDIAN 0x0A000001 80))"
proof -
  let ?a = "\<lambda>p. IPv4Address (IPv4Address_new SYLAR_LITTLE_ENDIAN 0x0A000001 p)"
  have "wf_address (?a p)" for p by (simp add: wf_address_def IPv4Address_new_def)
  from address_order [OF this this this, of SYLAR_LITTLE_ENDIAN 80 443 80]
  have "Address_less SYLAR_LITTLE_ENDIAN (?a 80) (?a 443) \<or> Address_less SYLAR_LITTLE_ENDIAN (?a 443) (?a 80)
      \<longleftrightarrow> Address_neq SYLAR_LITTLE_ENDIAN (?a 80) (?a 443)" by (rule conjunct1)
  moreover have "Address_neq SYLAR_LITTLE_ENDIAN (?a 80) (?a 443)" by code_simp
  ultimately show ?thesis by blast
qed

section \<open>Masks\<close>

lemma bit_of_bytes_nth:
  "bit (of_bytes bs :: 'a::len word) n \<longleftrightarrow>
     n < LENGTH('a) \<and> n div 8 < length bs \<and> bit (bs ! (n div 8)) (n mod 8)"
proof (induction bs arbitrary: n)
  case Nil
  then show ?case by simp
next
  case (Cons b bs)
  have b8: "\<not> bit b k" if "8 \<le> k" for k using that bit_imp_le_length [of b k] by auto
  show ?case
  proof (cases "n < 8")
    case True
    then show ?thesis by (auto simp: bit_or_iff bit_push_bit_iff bit_ucast_iff)
  next
    case False
    then have "n div 8 = Suc ((n - 8) div 8)" "n mod 8 = (n - 8) mod 8"
      by (simp_all add: le_div_geq le_mod_geq not_less)
    then show ?thesis using False b8 Cons.IH [of "n - 8"]
      by (auto simp: bit_or_iff bit_push_bit_iff bit_ucast_iff)
  qed
qed

lemma to_bytes_nth: "i < k \<Longrightarrow> to_bytes k w ! i = ucast (drop_bit (8 * i) w)"
proof (induction k arbitrary: w i)
  case (Suc k)
  then show ?case by (cases i) (simp_all add: drop_bit_drop_bit add.commute)
qed simp

lemma bit_bswap:
  assumes "LENGTH('a::len) = 8 * k"
  shows "bit (bswap_bytes k (w :: 'a word)) n \<longleftrightarrow> n < 8 * k \<and> bit w (8 * (k - 1 - n div 8) + n mod 8)"
proof (cases "n < 8 * k")
  case True
  then have d: "n div 8 < k" by (simp add: less_mult_imp_div_less mult.commute)
  then have "rev (to_bytes k w) ! (n div 8) = ucast (drop_bit (8 * (k - 1 - n div 8)) w)"
    by (simp add: rev_nth to_bytes_nth)
  then show ?thesis using True d assms
    by (simp add: bswap_bytes_def bit_of_bytes_nth bit_ucast_iff bit_drop_bit_eq)
qed (simp add: assms bswap_bytes_def bit_of_bytes_nth)

lemma bswap_ops:
  assumes "LENGTH('a::len) = 8 * k"
  shows "bswap_bytes k (v OR w) = bswap_bytes k v OR bswap_bytes k (w :: 'a word)"
    "bswap_bytes k (v AND w) = bswap_bytes k v AND bswap_bytes k w"
    "bswap_bytes k (NOT w) = NOT (bswap_bytes k w)"
proof -
  have pos: "8 * (k - 1 - n div 8) + n mod 8 < 8 * k" if "n < 8 * k" for n
  proof -
    have "n div 8 < k" using that by (simp add: less_mult_imp_div_less mult.commute)
    then have "8 * (k - 1 - n div 8) + 8 \<le> 8 * k" by simp
    then show ?thesis using mod_less_divisor [of 8 n] by linarith
  qed
  show "bswap_bytes k (v OR w) = bswap_bytes k v OR bswap_bytes k w"
    "bswap_bytes k (v AND w) = bswap_bytes k v AND bswap_bytes k w"
    by (rule bit_word_eqI; simp add: bit_bswap [OF assms] bit_or_iff bit_and_iff; blast)+
  show "bswap_bytes k (NOT w) = NOT (bswap_bytes k w)"
    by (rule bit_word_eqI) (use assms pos in \<open>auto simp: bit_bswap [OF assms] bit_not_iff\<close>)
qed

lemma byteswap_ops:
  "byteswapOnLittleEndian32 host (v OR w) = byteswapOnLittleEndian32 host v OR byteswapOnLittleEndian32 host w"
  "byteswapOnLittleEndian32 host (v AND w) = byteswapOnLittleEndian32 host v AND byteswapOnLittleEndian32 host w"
  "byteswapOnLittleEndian32 host (NOT w) = NOT (byteswapOnLittleEndian32 host w)"
  by (simp_all add: byteswapOnLittleEndian32_def bswap_ops [where k = 4])

text \<open>An IPv4 address as a number, as it is written.\<close>

definition ip4 :: "endian \<Rightarrow> sockaddr_in \<Rightarrow> u32" where
  "ip4 host a = byteswapOnLittleEndian32 host (s_addr a)"

lemma CreateMask32_mask:
  "2 \<le> p \<Longrightarrow> p \<le> 32 \<Longrightarrow> CreateMask32 p = Inr (mask (32 - unat p))"
  by (simp add: CreateMask32_def mask_eq_decr_exp not_less push_bit_eq_mult)

text \<open>
  The masks of IPv4, for the prefix lengths for which the shift and the subtraction in
  \<open>CreateMask\<close> are defined: the broadcast address has the host bits set and \<open>subnetMask\<close>
  is the mask of the network bits. \<open>networkAddress\<close>, however, keeps the host bits and clears
  the network bits. Prefix lengths above 32 are refused; for 0 and 1 the behaviour is
  undefined.
\<close>

theorem ipv4_masks:
  assumes "2 \<le> p" "p \<le> 32"
  shows "(\<exists>b. broadcastAddress4 host p a = Inr (Some b) \<and> ip4 host b = ip4 host a OR mask (32 - unat p)) \<and>
    (\<exists>n. networkAddress4 host p a = Inr (Some n) \<and> ip4 host n = ip4 host a AND mask (32 - unat p)) \<and>
    (\<exists>m. subnetMask4 host p = Inr m \<and> ip4 host m = NOT (mask (32 - unat p))) \<and>
    broadcastAddress4 host 0 a = Inl Undefined \<and> broadcastAddress4 host 1 a = Inl Undefined \<and>
    (32 < q \<longrightarrow> broadcastAddress4 host q a = Inr None \<and> networkAddress4 host q a = Inr None)"
  using assms CreateMask32_mask [OF assms]
  by (auto simp: broadcastAddress4_def networkAddress4_def subnetMask4_def ip4_def byteswap_ops not_less)
    (simp_all add: CreateMask32_def)

theorem ipv4_masks_witness:
  "(\<exists>b. broadcastAddress4 SYLAR_LITTLE_ENDIAN 24 (IPv4Address_new SYLAR_LITTLE_ENDIAN 0xC0A80A05 0) =
      Inr (Some b) \<and> ip4 SYLAR_LITTLE_ENDIAN b = 0xC0A80AFF)"
proof -
  let ?a = "IPv4Address_new SYLAR_LITTLE_ENDIAN 0xC0A80A05 0"
  have "ip4 SYLAR_LITTLE_ENDIAN ?a = 0xC0A80A05" by (simp add: ip4_def IPv4Address_new_def)
  moreover have "(0xC0A80A05 :: u32) OR mask (32 - unat (24 :: u32)) = 0xC0A80AFF" by code_simp
  ultimately show ?thesis using ipv4_masks [of 24 SYLAR_LITTLE_ENDIAN ?a] by auto
qed

text \<open>An IPv6 address bit by bit, the first bit first.\<close>

definition ip6_bit :: "bytes \<Rightarrow> nat \<Rightarrow> bool" where
  "ip6_bit b k = bit (b ! (k div 8)) (7 - k mod 8)"

lemma CreateMask8_mask: "CreateMask8 r = mask (8 - r)"
  by (simp add: CreateMask8_def mask_eq_exp_minus_1)

lemma bit_CreateMask8: "k < 8 \<Longrightarrow> bit (CreateMask8 r) k \<longleftrightarrow> k < 8 - r"
  unfolding CreateMask8_mask bit_mask_iff by simp

text \<open>Where a bit lies relative to a prefix.\<close>

lemma prefix_position:
  fixes k p :: nat
  shows "k div 8 < p div 8 \<Longrightarrow> k < p" "p div 8 < k div 8 \<Longrightarrow> p \<le> k"
    "k div 8 = p div 8 \<Longrightarrow> p \<le> k \<longleftrightarrow> p mod 8 \<le> k mod 8"
proof -
  show "k div 8 < p div 8 \<Longrightarrow> k < p" "p div 8 < k div 8 \<Longrightarrow> p \<le> k"
    using div_le_mono [of p k 8] div_le_mono [of k p 8] by linarith+
  show "k div 8 = p div 8 \<Longrightarrow> p \<le> k \<longleftrightarrow> p mod 8 \<le> k mod 8"
    using div_mult_mod_eq [of k 8] div_mult_mod_eq [of p 8] by linarith
qed

lemma mask_bit6: "k div 8 = p div 8 \<Longrightarrow> bit (CreateMask8 (p mod 8)) (7 - k mod 8) \<longleftrightarrow> p \<le> k"
  using prefix_position(3) [of k p] mod_less_divisor [of 8 k] by (auto simp: bit_CreateMask8)

lemma subnet_loop_once:
  "n < 2 ^ 31 \<Longrightarrow> subnet_loop 0 n b = (if 0 < n then b[0 := 0xff] else b)"
proof -
  assume "n < 2 ^ 31"
  then have "\<not> (-1 :: u32) < n" using word_order.extremum [of n] by (simp add: not_less)
  then show ?thesis by (subst subnet_loop.simps, subst subnet_loop.simps) simp
qed

lemma subnet_bits:
  assumes "unat p < 128"
  shows "(\<forall>k < 128. ip6_bit (subnet_loop 0 (p div 8)
      ((replicate 16 0)[unat p div 8 := NOT (CreateMask8 (unat p mod 8))])) k \<longleftrightarrow> k < unat p) \<longleftrightarrow> unat p < 16"
proof -
  let ?p = "unat p" and ?m = "NOT (CreateMask8 (unat p mod 8))"
  let ?b = "(replicate 16 0)[?p div 8 := ?m] :: bytes"
  have d: "unat (p div 8) = ?p div 8" by (simp add: unat_div)
  then have "p div 8 < 2 ^ 31" using assms by (simp add: word_less_nat_alt)
  then have l: "subnet_loop 0 (p div 8) ?b = (if 0 < ?p div 8 then ?b[0 := 0xff] else ?b)"
    using subnet_loop_once [of "p div 8" ?b] d by (simp add: word_less_nat_alt)
  have m: "bit ?m (7 - k mod 8) \<longleftrightarrow> k < ?p" if "k div 8 = ?p div 8" for k
    using mask_bit6 [OF that] by (auto simp: bit_not_iff)
  have ff: "bit (0xff :: u8) (7 - k mod 8)" for k
    using bit_mask_iff [of 8 "7 - k mod 8", where 'a = "8 word"] by (simp add: mask_numeral)
  consider "?p < 8" | "8 \<le> ?p" "?p < 16" | "16 \<le> ?p" by linarith
  then show ?thesis
  proof cases
    case 1
    then have "ip6_bit ?b k \<longleftrightarrow> k < ?p" if "k < 128" for k
      using that m [of k] prefix_position(2) [of ?p k] by (auto simp: ip6_bit_def nth_list_update not_less)
    with 1 l show ?thesis by simp
  next
    case 2
    then have i: "?p div 8 = 1" by (simp add: div_nat_eqI)
    have "ip6_bit (?b[0 := 0xff]) k \<longleftrightarrow> k < ?p" if "k < 128" for k
    proof -
      consider "k div 8 = 0" | "k div 8 = 1" | "1 < k div 8" by linarith
      then show ?thesis using that i m [of k] ff [of k] prefix_position [of k ?p]
        by cases (auto simp: ip6_bit_def)
    qed
    with 2 l i show ?thesis by simp
  next
    case 3
    then have i: "2 \<le> ?p div 8" by (simp add: div_le_mono [of 16 ?p 8, simplified])
    then have "\<not> ip6_bit (?b[0 := 0xff]) 8" using assms by (simp add: ip6_bit_def nth_list_update)
    with 3 l i show ?thesis by (auto intro!: exI [of _ 8])
  qed
qed

text \<open>
  The masks of IPv6, for prefix lengths below 128: the broadcast address is right, with
  every bit from the prefix on set; \<open>networkAddress\<close> clears bits of the network part, those
  of the byte the prefix ends in, and nothing of the host part; \<open>subnetMask\<close>, whose loop
  counts down from 0 and stops after one round, is the mask of the prefix exactly for
  lengths below 16. The length 128, which fits no byte, is undefined.
\<close>

theorem ipv6_masks:
  assumes "unat p < 128" "length (s6_addr a) = 16"
  shows "(\<exists>b. broadcastAddress6 p a = Inr b \<and>
      (\<forall>k < 128. ip6_bit (s6_addr b) k \<longleftrightarrow> ip6_bit (s6_addr a) k \<or> unat p \<le> k)) \<and>
    (\<exists>n. networkAddress6 p a = Inr n \<and>
      (\<forall>k < 128. ip6_bit (s6_addr n) k \<longleftrightarrow>
        ip6_bit (s6_addr a) k \<and> \<not> (k div 8 = unat p div 8 \<and> k < unat p))) \<and>
    (\<exists>m. subnetMask6 p = Inr m \<and>
      ((\<forall>k < 128. ip6_bit (s6_addr m) k \<longleftrightarrow> k < unat p) \<longleftrightarrow> unat p < 16)) \<and>
    broadcastAddress6 128 a = Inl Undefined"
proof (intro conjI)
  let ?p = "unat p" and ?i = "unat p div 8" and ?bs = "s6_addr a"
  have i: "?i < 16" using assms(1) by simp
  show "\<exists>b. broadcastAddress6 p a = Inr b \<and>
      (\<forall>k < 128. ip6_bit (s6_addr b) k \<longleftrightarrow> ip6_bit ?bs k \<or> ?p \<le> k)"
  proof -
    let ?b = "take (?i + 1) (?bs[?i := ?bs ! ?i OR CreateMask8 (?p mod 8)]) @ replicate (16 - (?i + 1)) 0xff"
    have nth: "?b ! j = (if j < ?i then ?bs ! j else if j = ?i then ?bs ! j OR CreateMask8 (?p mod 8) else 0xff)"
      if "j < 16" for j using that i assms(2) by (auto simp: nth_append min_def)
    have ff: "bit (0xff :: u8) (7 - k mod 8)" for k
      using bit_mask_iff [of 8 "7 - k mod 8", where 'a = "8 word"] by (simp add: mask_numeral)
    have "ip6_bit ?b k \<longleftrightarrow> ip6_bit ?bs k \<or> ?p \<le> k" if "k < 128" for k
      using that nth [of "k div 8"] prefix_position [of k ?p] mask_bit6 [of k ?p] ff
      by (auto simp: ip6_bit_def bit_or_iff)
    then show ?thesis using i by (simp add: broadcastAddress6_def Let_def)
  qed
  show "\<exists>n. networkAddress6 p a = Inr n \<and>
      (\<forall>k < 128. ip6_bit (s6_addr n) k \<longleftrightarrow> ip6_bit ?bs k \<and> \<not> (k div 8 = ?i \<and> k < ?p))"
  proof -
    have "ip6_bit (?bs[?i := ?bs ! ?i AND CreateMask8 (?p mod 8)]) k \<longleftrightarrow>
        ip6_bit ?bs k \<and> \<not> (k div 8 = ?i \<and> k < ?p)" if "k < 128" for k
      using that i assms(2) mask_bit6 [of k ?p] by (auto simp: ip6_bit_def bit_and_iff nth_list_update)
    then show ?thesis using i by (simp add: networkAddress6_def Let_def)
  qed
  show "\<exists>m. subnetMask6 p = Inr m \<and> ((\<forall>k < 128. ip6_bit (s6_addr m) k \<longleftrightarrow> k < ?p) \<longleftrightarrow> ?p < 16)"
    using subnet_bits [OF assms(1)] i by (simp add: subnetMask6_def Let_def)
  show "broadcastAddress6 128 a = Inl Undefined" by (simp add: broadcastAddress6_def Let_def)
qed

theorem ipv6_masks_witness:
  "(\<exists>m. subnetMask6 8 = Inr m \<and> (\<forall>k < 128. ip6_bit (s6_addr m) k \<longleftrightarrow> k < 8))"
  using ipv6_masks [of 8 IPv6Address_any] by (auto simp: IPv6Address_any_def)

section \<open>Text\<close>

fun split_on :: "char \<Rightarrow> string \<Rightarrow> string list" where
  "split_on c [] = [[]]"
| "split_on c (x # xs) =
     (if x = c then [] # split_on c xs
      else case split_on c xs of [] \<Rightarrow> [[x]] | f # fs \<Rightarrow> (x # f) # fs)"

lemma split_on_ne [simp]: "split_on c s \<noteq> []"
  by (cases s) (auto split: list.splits)

lemma split_on_field: "c \<notin> set f \<Longrightarrow> split_on c f = [f]"
  by (induction f) auto

lemma split_on_append: "c \<notin> set f \<Longrightarrow> split_on c (f @ c # s) = f # split_on c s"
  by (induction f) auto

fun join :: "char \<Rightarrow> string list \<Rightarrow> string" where
  "join c [] = []"
| "join c [f] = f"
| "join c (f # g # fs) = f @ c # join c (g # fs)"

lemma split_join: "fs \<noteq> [] \<Longrightarrow> \<forall>f \<in> set fs. c \<notin> set f \<Longrightarrow> split_on c (join c fs) = fs"
  by (induction c fs rule: join.induct) (simp_all add: split_on_field split_on_append)

lemma join_Cons: "join c (f # fs) = f @ concat (map (\<lambda>g. c # g) fs)"
  by (induction fs arbitrary: f) simp_all

lemma split_join_append:
  "fs \<noteq> [] \<Longrightarrow> \<forall>f \<in> set fs. c \<notin> set f \<Longrightarrow> split_on c (join c fs @ c # s) = fs @ split_on c s"
  by (induction c fs rule: join.induct) (simp_all add: split_on_append)

definition group :: "endian \<Rightarrow> u16 \<Rightarrow> string" where
  "group host g = hexs (unat (byteswapOnLittleEndian16 host g))"

definition groups_tail :: "endian \<Rightarrow> u16 list \<Rightarrow> string" where
  "groups_tail host gs = concat (map (\<lambda>g. CHR '':'' # group host g) gs)"

lemma join_groups: "join (CHR '':'') (map (group host) (g # gs)) = group host g @ groups_tail host gs"
  by (simp add: join_Cons groups_tail_def o_def)

lemma group_chars [simp]: "CHR '':'' \<notin> set (group host g)" "CHR '']'' \<notin> set (group host g)" "group host g \<noteq> []"
  using dec_chars(2) [of "CHR '':''"] dec_chars(2) [of "CHR '']''"] by (auto simp: group_def)

lemma insert6_used: "0 < i \<Longrightarrow> insert6_loop host i prev True gs = (groups_tail host gs, True)"
  by (induction gs arbitrary: i prev) (simp_all add: groups_tail_def group_def)

lemma insert6_plain:
  "0 < i \<Longrightarrow> prev \<noteq> 0 \<Longrightarrow> 0 \<notin> set pre \<Longrightarrow>
   insert6_loop host i prev False (pre @ gs) =
     (let (rest, used) = insert6_loop host (i + length pre) (last (prev # pre)) False gs
      in (groups_tail host pre @ rest, used))"
  by (induction pre arbitrary: i prev)
    (auto simp: groups_tail_def group_def Let_def split: prod.splits)

lemma insert6_zeros:
  "insert6_loop host i prev False (replicate k 0 @ gs) =
     insert6_loop host (i + k) (if k = 0 then prev else 0) False gs"
  by (induction k arbitrary: i prev) auto

text \<open>The body the loop writes, and the two colons after it, for the first run of zeros.\<close>

definition text6 :: "endian \<Rightarrow> u16 list \<Rightarrow> u16 list \<Rightarrow> string" where
  "text6 host pre post =
     join (CHR '':'') (map (group host) pre) @ ''::'' @ join (CHR '':'') (map (group host) post)"

lemma insert6_run:
  assumes "0 \<notin> set pre" "0 < k" "post = [] \<or> hd post \<noteq> 0"
  shows "insert6_loop host 0 0 False (pre @ replicate k 0 @ post) =
    (if post = [] then (join (CHR '':'') (map (group host) pre), False) else (text6 host pre post, True))"
proof -
  have tail: "insert6_loop host (i + k) 0 False post =
      (if post = [] then ([], False) else (''::'' @ join (CHR '':'') (map (group host) post), True))" for i
    using assms(2,3) by (cases post) (simp_all add: insert6_used join_Cons groups_tail_def group_def o_def)
  show ?thesis
  proof (cases pre)
    case Nil
    then show ?thesis using assms(2) tail [of 0]
      by (auto simp: insert6_zeros text6_def)
  next
    case (Cons g pre')
    then have g: "g \<noteq> 0" "0 \<notin> set pre'" using assms(1) by auto
    have "insert6_loop host (Suc 0) g False (pre' @ replicate k 0 @ post) =
        (groups_tail host pre' @ fst (insert6_loop host (Suc (length pre') + k) 0 False post),
         snd (insert6_loop host (Suc (length pre') + k) 0 False post))"
      using insert6_plain [OF _ g, of "Suc 0" host "replicate k 0 @ post"] assms(2)
      by (simp add: insert6_zeros case_prod_beta)
    then show ?thesis using Cons g tail [of "Suc (length pre')"]
      by (auto simp: text6_def join_Cons groups_tail_def group_def o_def)
  qed
qed

lemma insert6_no_zero:
  assumes "0 \<notin> set gs" "gs \<noteq> []"
  shows "insert6_loop host 0 0 False gs = (join (CHR '':'') (map (group host) gs), False)"
proof -
  obtain g gs' where "gs = g # gs'" using assms(2) by (cases gs) auto
  then show ?thesis
    using assms(1) insert6_plain [of "Suc 0" g gs' host "[]"]
    by (simp add: join_Cons groups_tail_def group_def o_def)
qed

lemma first_zero_run:
  assumes "0 \<in> set (gs :: u16 list)"
  obtains pre k post where "gs = pre @ replicate k 0 @ post" "0 \<notin> set pre" "0 < k" "post = [] \<or> hd post \<noteq> 0"
proof -
  let ?pre = "takeWhile (\<lambda>g. g \<noteq> 0) gs" and ?rest = "dropWhile (\<lambda>g. g \<noteq> 0) gs"
  let ?zs = "takeWhile (\<lambda>g. g = 0) ?rest" and ?post = "dropWhile (\<lambda>g. g = 0) ?rest"
  have rest: "?rest \<noteq> []" "hd ?rest = 0"
    using assms hd_dropWhile [of "\<lambda>g. g \<noteq> 0" gs] by auto
  have "?zs = replicate (length ?zs) 0"
    by (rule replicate_eqI) (auto dest: set_takeWhileD)
  moreover have "?zs \<noteq> []" using rest by (cases ?rest) auto
  moreover have "?post = [] \<or> hd ?post \<noteq> 0"
    using hd_dropWhile [of "\<lambda>g. g = 0" ?rest] by auto
  moreover have "gs = ?pre @ ?zs @ ?post" by simp
  moreover have "0 \<notin> set ?pre" by (auto dest: set_takeWhileD)
  ultimately show ?thesis using that [of ?pre "length ?zs" ?post] by auto
qed

text \<open>How a reader of the text recovers the eight numbers: a double colon stands for zeros.\<close>

definition read_group :: "string \<Rightarrow> u16" where
  "read_group f = of_nat (read_base 16 f)"

definition read6 :: "string \<Rightarrow> u16 list" where
  "read6 body =
     (let fs = split_on (CHR '':'') body;
          pre = takeWhile (\<lambda>f. f \<noteq> []) fs; post = rev (takeWhile (\<lambda>f. f \<noteq> []) (rev fs))
      in if [] \<in> set fs
         then map read_group pre @ replicate (8 - length pre - length post) 0 @ map read_group post
         else map read_group fs)"

lemma read_group_group [simp]: "read_group (group host g) = byteswapOnLittleEndian16 host g"
  by (simp add: read_group_def group_def)

lemma byteswap16_zero [simp]: "byteswapOnLittleEndian16 host 0 = 0"
  by (cases host) (simp_all add: byteswapOnLittleEndian16_def bswap_bytes_def numeral_2_eq_2)

lemma read6_no_zero:
  "gs \<noteq> [] \<Longrightarrow> read6 (join (CHR '':'') (map (group host) gs)) = map (byteswapOnLittleEndian16 host) gs"
  by (simp add: read6_def split_join Let_def image_iff eq_commute [of "[]"] o_def)

lemma takeWhile_groups:
  "takeWhile (\<lambda>f. f \<noteq> []) (map (group host) gs @ [] # fs) = map (group host) gs"
  by (induction gs) auto

lemma read6_text6:
  assumes "length pre + k + length post = 8" "0 < k"
  shows "read6 (text6 host pre post) = map (byteswapOnLittleEndian16 host) (pre @ replicate k 0 @ post)"
proof -
  have fields: "split_on (CHR '':'') (text6 host pre post) =
      (if pre = [] then [[]] else map (group host) pre) @ [[]] @
      (if post = [] then [[]] else map (group host) post)"
    using split_join_append [of "map (group host) pre" "CHR '':''"]
      split_join [of "map (group host) post" "CHR '':''"]
    by (auto simp: text6_def)
  have pre: "takeWhile (\<lambda>f. f \<noteq> []) (split_on (CHR '':'') (text6 host pre post)) = map (group host) pre"
    unfolding fields using takeWhile_groups by (auto simp: takeWhile_groups)
  have "rev (split_on (CHR '':'') (text6 host pre post)) =
      (if post = [] then [[]] else map (group host) (rev post)) @ [[]] @
      (if pre = [] then [[]] else map (group host) (rev pre))"
    unfolding fields by (simp add: rev_map)
  then have "takeWhile (\<lambda>f. f \<noteq> []) (rev (split_on (CHR '':'') (text6 host pre post))) =
      map (group host) (rev post)"
    using takeWhile_groups by (auto simp: takeWhile_groups)
  then have post: "rev (takeWhile (\<lambda>f. f \<noteq> []) (rev (split_on (CHR '':'') (text6 host pre post)))) =
      map (group host) post"
    by (simp add: rev_map)
  have "[] \<in> set (split_on (CHR '':'') (text6 host pre post))" unfolding fields by simp
  moreover have "8 - length pre - length post = k" using assms by simp
  ultimately show ?thesis unfolding read6_def Let_def pre post by (simp add: o_def)
qed

lemma length_addr16: "length bs = 16 \<Longrightarrow> length (addr16 host bs) = 8"
proof -
  have "length (addr16 host bs) = length bs div 2" for bs
    by (induction host bs rule: addr16.induct) auto
  then show "length bs = 16 \<Longrightarrow> length (addr16 host bs) = 8" by simp
qed

lemma join_chars: "c \<in> set (join d fs) \<Longrightarrow> c = d \<or> (\<exists>f \<in> set fs. c \<in> set f)"
  by (induction d fs rule: join.induct) auto

text \<open>
  The text of an IPv6 address names that address: between the brackets, whatever run of
  zeros the loop has abbreviated, a reader that fills a double colon up to eight numbers
  recovers the eight numbers of the address in order; the port follows in decimal.
\<close>

theorem ipv6_text:
  assumes "length (s6_addr a) = 16"
  shows "\<exists>body. insert6 host a = ''['' @ body @ '']:'' @ dec (unat (byteswapOnLittleEndian16 host (sin6_port a))) \<and>
    CHR '']'' \<notin> set body \<and>
    read6 body = map (byteswapOnLittleEndian16 host) (addr16 host (s6_addr a))"
proof -
  define gs where "gs = addr16 host (s6_addr a)"
  have len: "length gs = 8" using assms by (simp add: gs_def length_addr16)
  then have ne: "gs \<noteq> []" by auto
  have brk: "CHR '']'' \<notin> set (join (CHR '':'') (map (group host) xs))" for xs
    using join_chars [of "CHR '']''" "CHR '':''" "map (group host) xs"] by auto
  show ?thesis
  proof (cases "0 \<in> set gs")
    case False
    have "gs ! 7 \<in> set gs" using len by simp
    then have "gs ! 7 \<noteq> 0" using False by metis
    then have "insert6 host a = ''['' @ join (CHR '':'') (map (group host) gs) @ '']:'' @
        dec (unat (byteswapOnLittleEndian16 host (sin6_port a)))"
      using insert6_no_zero [OF False ne] by (simp add: insert6_def gs_def Let_def)
    then show ?thesis using read6_no_zero [OF ne, of host] brk [of gs] unfolding gs_def by blast
  next
    case True
    then obtain pre k post where d: "gs = pre @ replicate k 0 @ post" "0 \<notin> set pre" "0 < k"
        "post = [] \<or> hd post \<noteq> 0" by (rule first_zero_run)
    have l: "length pre + k + length post = 8" using len d(1) by simp
    have last: "gs ! 7 = 0" if "post = []"
      using that d(1,3) l by (simp add: nth_append)
    have "insert6 host a = ''['' @ text6 host pre post @ '']:'' @
        dec (unat (byteswapOnLittleEndian16 host (sin6_port a)))"
      using insert6_run [OF d(2,3,4), of host] last
      by (auto simp: insert6_def gs_def [symmetric] d(1) [symmetric] Let_def text6_def)
    moreover have "CHR '']'' \<notin> set (text6 host pre post)" using brk by (simp add: text6_def)
    moreover have "read6 (text6 host pre post) = map (byteswapOnLittleEndian16 host) gs"
      using read6_text6 [OF l d(3), of host] d(1) by simp
    ultimately show ?thesis unfolding gs_def by blast
  qed
qed

theorem ipv6_text_witness:
  "\<exists>body. insert6 SYLAR_LITTLE_ENDIAN (IPv6Address_new SYLAR_LITTLE_ENDIAN ([0x20, 1, 0xd, 0xb8] @ replicate 11 0 @ [1]) 80) =
      ''['' @ body @ '']:80'' \<and>
    read6 body = [0x2001, 0xdb8, 0, 0, 0, 0, 0, 1]"
proof -
  let ?a = "IPv6Address_new SYLAR_LITTLE_ENDIAN ([0x20, 1, 0xd, 0xb8] @ replicate 11 0 @ [1]) 80"
  have "dec (unat (byteswapOnLittleEndian16 SYLAR_LITTLE_ENDIAN (sin6_port ?a))) = ''80''" by code_simp
  moreover have "map (byteswapOnLittleEndian16 SYLAR_LITTLE_ENDIAN) (addr16 SYLAR_LITTLE_ENDIAN (s6_addr ?a)) =
      [0x2001, 0xdb8, 0, 0, 0, 0, 0, 1]" by code_simp
  moreover have "length (s6_addr ?a) = 16" by (simp add: IPv6Address_new_def)
  ultimately show ?thesis using ipv6_text [of ?a SYLAR_LITTLE_ENDIAN] by auto
qed

section \<open>Host names\<close>

lemma index_append: "c \<notin> set s \<Longrightarrow> index c (s @ c # t) = Some (length s)"
proof -
  assume "c \<notin> set s"
  then have "takeWhile (\<lambda>x. x \<noteq> c) (s @ c # t) = s" by (induction s) auto
  then show ?thesis by (simp add: index_def)
qed

lemma index_none: "c \<notin> set s \<Longrightarrow> index c s = None"
proof -
  assume "c \<notin> set s"
  then have "length (takeWhile (\<lambda>x. x \<noteq> c) s) = length s" by (induction s) auto
  then show ?thesis by (simp add: index_def)
qed

text \<open>
  A host name is taken apart as documented: \<open>host:service\<close> at its only colon,
  \<open>[address]:service\<close> at the closing bracket, with or without the service, and a name
  without colon is the node. A name with two colons and no bracket, such as a bare IPv6
  address, is the node as a whole, but what follows its first colon, with the colon, is
  still passed as the service.
\<close>

theorem host_split:
  assumes "CHR '':'' \<notin> set name" "name \<noteq> []" "name ! 0 \<noteq> CHR ''[''" "CHR '':'' \<notin> set service"
    "CHR '']'' \<notin> set addr" "addr \<noteq> []"
  shows "lookup_split name = (name, None) \<and>
    lookup_split (name @ '':'' @ service) = (name, Some service) \<and>
    lookup_split (''['' @ addr @ '']'') = (addr, None) \<and>
    lookup_split (''['' @ addr @ '']:'' @ service) = (addr, Some service) \<and>
    lookup_split (name @ '':'' @ a @ '':'' @ b) = (name @ '':'' @ a @ '':'' @ b, Some ('':'' @ a @ '':'' @ b))"
proof -
  have nb: "bracketed (name @ s) = ([], None)" for s
    using assms(2,3) by (simp add: bracketed_def nth_append)
  note nb0 = nb [of "[]", simplified]
  show ?thesis
    using assms nb nb0 index_append [OF assms(1)] index_append [OF assms(5)] index_none [OF assms(1)]
    by (auto simp: lookup_split_def bracketed_def Let_def nth_append numeral_3_eq_3)
qed

theorem host_split_witness:
  "lookup_split ''www.a.com:80'' = (''www.a.com'', Some ''80'') \<and>
   lookup_split ''[::1]:80'' = (''::1'', Some ''80'')"
  using host_split [of "''www.a.com''" "''80''" "''::1''"] by simp

section \<open>Counting bits\<close>

lemma clear_lowest_nat:
  "0 < (x :: nat) \<Longrightarrow> \<exists>n. bit x n \<and> (\<forall>m. bit (x AND (x - 1)) m \<longleftrightarrow> bit x m \<and> m \<noteq> n)"
proof (induction x rule: less_induct)
  case (less x)
  show ?case
  proof (cases "odd x")
    case True
    then have "bit (x - 1) m \<longleftrightarrow> bit x m \<and> m \<noteq> 0" for m
      by (cases m) (auto simp: bit_0 bit_Suc elim: oddE)
    then show ?thesis using True by (intro exI [of _ 0]) (auto simp: bit_and_iff bit_0)
  next
    case False
    then obtain y where y: "x = 2 * y" by (auto elim: evenE)
    then have "0 < y" "y < x" using less.prems by simp_all
    then obtain n where n: "bit y n" "\<forall>m. bit (y AND (y - 1)) m \<longleftrightarrow> bit y m \<and> m \<noteq> n"
      using less.IH by blast
    have "x - 1 = 2 * (y - 1) + 1" using y \<open>0 < y\<close> by simp
    then have "bit (x - 1) (Suc m) \<longleftrightarrow> bit (y - 1) m" for m by (simp add: bit_Suc)
    then have "bit x m \<and> bit (x - 1) m \<longleftrightarrow> bit x m \<and> m \<noteq> Suc n" for m
      using n(2) y by (cases m) (auto simp: bit_and_iff bit_Suc bit_0)
    then have "bit (x AND (x - 1)) m \<longleftrightarrow> bit x m \<and> m \<noteq> Suc n" for m
      unfolding bit_and_iff .
    then show ?thesis using n(1) y by (intro exI [of _ "Suc n"]) (simp add: bit_Suc)
  qed
qed

lemma clear_lowest:
  assumes "(v :: u32) \<noteq> 0"
  shows "\<exists>n. bit v n \<and> (\<forall>m. bit (v AND (v - 1)) m \<longleftrightarrow> bit v m \<and> m \<noteq> n)"
proof -
  have "unat (v AND (v - 1)) = unat v AND (unat v - 1)"
    using assms by (simp add: unsigned_and_eq unat_minus_one)
  then have "bit (v AND (v - 1)) m \<longleftrightarrow> bit (unat v AND (unat v - 1)) m" for m
    by (metis bit_unsigned_iff possible_bit_nat)
  moreover have "bit (unat v) m \<longleftrightarrow> bit v m" for m by (simp add: bit_unsigned_iff)
  moreover have "0 < unat v" using assms by (simp add: unat_gt_0)
  ultimately show ?thesis using clear_lowest_nat [of "unat v"] by auto
qed

text \<open>
  C35. The loop that clears the lowest set bit until none is left counts the bits that are
  set; so the prefix length of an IPv4 interface is the number of ones in its netmask, while
  that of an IPv6 interface, whose sum starts from all ones, is one less.
\<close>

theorem count_bits:
  "CountBytes v = of_nat (card {n. bit v n}) \<and>
   prefix_len (ifa\<lparr>ifa_netmask := IPv4Address m\<rparr>) = of_nat (card {n. bit (s_addr m) n}) \<and>
   (length (s6_addr m6) = 16 \<longrightarrow>
    prefix_len (ifa\<lparr>ifa_netmask := IPv6Address m6\<rparr>) = (\<Sum>b \<leftarrow> s6_addr m6. of_nat (card {n. bit b n})) - 1)"
proof -
  have count: "CountBytes v = of_nat (card {n. bit v n})" for v
  proof (induction v rule: CountBytes.induct)
    case (1 v)
    show ?case
    proof (cases "v = 0")
      case True
      then show ?thesis by (simp add: CountBytes.simps [of 0])
    next
      case False
      then obtain n where n: "bit v n" "\<forall>m. bit (v AND (v - 1)) m \<longleftrightarrow> bit v m \<and> m \<noteq> n"
        using clear_lowest by blast
      have "{m. bit (v AND (v - 1)) m} = {m. bit v m} - {n}" using n(2) by auto
      moreover have "finite {m. bit v m}"
        by (rule finite_subset [of _ "{..<32}"]) (auto dest: bit_imp_le_length)
      ultimately have "Suc (card {m. bit (v AND (v - 1)) m}) = card {m. bit v m}"
        using n(1) card_Suc_Diff1 [of "{m. bit v m}" n] by (simp only: mem_Collect_eq)
      then have "1 + (of_nat (card {m. bit (v AND (v - 1)) m}) :: u32) = of_nat (card {m. bit v m})"
        by (metis of_nat_Suc)
      then show ?thesis using 1 [OF False] False by (simp add: CountBytes.simps [of v])
    qed
  qed
  have "bit (ucast b :: u32) n \<longleftrightarrow> bit b n" for b :: u8 and n
    using bit_imp_le_length [of b n] by (auto simp: bit_ucast_iff)
  then have c8: "CountBytes (ucast b) = of_nat (card {n. bit b n})" for b :: u8
    by (simp add: count)
  have f: "fold (\<lambda>b n. n + CountBytes (ucast b)) bs x = x + (\<Sum>b \<leftarrow> bs. of_nat (card {n. bit b n}))"
    for x :: u32 and bs :: bytes
    by (induction bs arbitrary: x) (simp_all add: c8 add.assoc)
  show ?thesis by (simp add: prefix_len_def f) (simp add: count)
qed

theorem count_bits_witness:
  "prefix_len \<lparr>ifa_name = ''lo'', ifa_addr = IPv6Address IPv6Address_any, ifa_netmask = IPv6Address IPv6Address_any\<rparr> =
     0xFFFFFFFF"
proof -
  let ?ifa = "\<lparr>ifa_name = ''lo'', ifa_addr = IPv6Address IPv6Address_any,
    ifa_netmask = IPv6Address IPv6Address_any\<rparr>"
  have "length (s6_addr IPv6Address_any) = 16" by (simp add: IPv6Address_any_def)
  then have "prefix_len (?ifa\<lparr>ifa_netmask := IPv6Address IPv6Address_any\<rparr>) =
      (\<Sum>b \<leftarrow> s6_addr IPv6Address_any. of_nat (card {n. bit b n})) - 1"
    using count_bits by blast
  moreover have "Collect (bot :: nat \<Rightarrow> bool) = {}" by auto
  ultimately show ?thesis by (simp add: IPv6Address_any_def sum_list_replicate)
qed

section \<open>Unix addresses\<close>

text \<open>The path given to the constructor, unless it is empty, is the text of the address.\<close>

lemma unix_text:
  assumes "0 \<notin> set path" "length path < 108" "path \<noteq> []"
  shows "\<exists>a. UnixAddress_new path = Inr a \<and> toString host a = chars path"
proof -
  let ?len = "of_nat (length path) + 1 :: u32"
  have u: "unat ?len = length path + 1"
    by (rule of_nat_inverse) (use assms(2) in simp_all)
  have np: "\<not> (path \<noteq> [] \<and> path ! 0 = 0)" using assms(1) by (cases path) auto
  have n: "\<not> 108 < unat ?len" and t: "take (unat ?len) (path @ [0]) = path @ [0]"
    using u assms(2) by simp_all
  have "UnixAddress_new path = Inr (UnixAddress \<lparr>sun_family = AF_UNIX,
      sun_path = overwrite 0 (path @ [0]) (replicate 108 0)\<rparr> (?len + 2))"
    unfolding UnixAddress_new_def Let_def by (simp only: if_not_P [OF np] if_not_P [OF n] t)
  moreover have "c_str (chars (overwrite 0 (path @ [0]) (replicate 108 0))) = chars path"
  proof -
    have "CHR 0x00 \<notin> set (chars path)"
    proof
      assume "CHR 0x00 \<in> set (chars path)"
      then obtain b where b: "b \<in> set path" "char_of (unat b) = CHR 0x00" by (auto simp: chars_def)
      have "(of_char (char_of (unat b)) :: nat) = unat b"
        using unsigned_less [of b, where ?'a = nat] by (simp add: of_char_of)
      with b(2) have "unat b = 0" by simp
      with b(1) assms(1) show False by (simp add: unat_eq_zero)
    qed
    moreover have "chars (overwrite 0 (path @ [0]) z) = chars path @ CHR 0x00 # chars (drop (length path + 1) z)" for z
      by (simp add: overwrite_def chars_def char_of_def)
    ultimately show ?thesis by (simp only:) (rule c_str_append)
  qed
  moreover have "overwrite 0 (path @ [0]) (replicate 108 0) ! 0 \<noteq> 0"
    using assms(1,3) by (cases path) (auto simp: overwrite_def)
  ultimately show ?thesis
    by (auto simp: toString_def insert_unix_def)
qed

end
