(* ===== verification/Uris.thy ===== *)
theory Uris
  imports Uri_States Uri_Grammar Address_Props
begin

text \<open>
  URIs (\<open>sylar/uri.h\<close>, \<open>sylar/uri.rl\<close> and the C++ file made from it): \<open>Uri::Create\<close> around its
  machine, the port and path with their defaults, the text of a URI, and the address of its
  host. \<open>mark\<close> is a pointer into the text, an offset here, and \<open>NULL\<close> is \<open>None\<close>. A string made
  of a null pointer throws, and \<open>atoi\<close> of one is a null dereference.
\<close>

section \<open>The class\<close>

record uri =
  m_scheme :: string
  m_userinfo :: string
  m_host :: string
  m_path :: string
  m_query :: string
  m_fragment :: string
  m_port :: int

definition Uri_new :: uri where
  "Uri_new = \<lparr>m_scheme = [], m_userinfo = [], m_host = [], m_path = [], m_query = [], m_fragment = [], m_port = 0\<rparr>"

section \<open>Parsing\<close>

text \<open>\<open>std::string(mark, fpc - mark)\<close>.\<close>

definition marked :: "string \<Rightarrow> nat option \<Rightarrow> nat \<Rightarrow> fault + string" where
  "marked uristr mark p =
     (case mark of
        None \<Rightarrow> Inl (Logic_error ''basic_string::_M_construct null not valid'')
      | Some m \<Rightarrow> Inr (take (p - m) (drop m uristr)))"

definition save :: "(string \<Rightarrow> uri \<Rightarrow> uri) \<Rightarrow> string \<Rightarrow> nat \<Rightarrow> nat option \<times> uri \<Rightarrow> fault + nat option \<times> uri" where
  "save setter uristr p = (\<lambda>(mark, u). map_sum id (\<lambda>t. (None, setter t u)) (marked uristr mark p))"

fun uri_act :: "string \<Rightarrow> uri_action \<Rightarrow> nat \<Rightarrow> nat option \<times> uri \<Rightarrow> fault + nat option \<times> uri" where
  "uri_act uristr U_marku p (mark, u) = Inr (Some p, u)"
| "uri_act uristr U_markh p (mark, u) = Inr (Some p, u)"
| "uri_act uristr U_save_scheme p (mark, u) = save (\<lambda>t u. u\<lparr>m_scheme := t\<rparr>) uristr p (mark, u)"
| "uri_act uristr U_save_port p (mark, u) =
     (if mark = Some p then Inr (None, u)
      else case mark of None \<Rightarrow> Inl Null_deref | Some m \<Rightarrow> Inr (None, u\<lparr>m_port := atoi (drop m uristr)\<rparr>))"
| "uri_act uristr U_save_userinfo p (mark, u) =
     (if mark \<noteq> None then save (\<lambda>t u. u\<lparr>m_userinfo := t\<rparr>) uristr p (mark, u) else Inr (None, u))"
| "uri_act uristr U_save_host p (mark, u) =
     (if mark \<noteq> None then map_sum id (\<lambda>t. (mark, u\<lparr>m_host := t\<rparr>)) (marked uristr mark p) else Inr (mark, u))"
| "uri_act uristr U_save_path p (mark, u) = save (\<lambda>t u. u\<lparr>m_path := t\<rparr>) uristr p (mark, u)"
| "uri_act uristr U_save_query p (mark, u) = save (\<lambda>t u. u\<lparr>m_query := t\<rparr>) uristr p (mark, u)"
| "uri_act uristr U_save_fragment p (mark, u) = save (\<lambda>t u. u\<lparr>m_fragment := t\<rparr>) uristr p (mark, u)"

text \<open>\<open>Uri::Create\<close>: the URI, or the null pointer.\<close>

definition Uri_Create :: "string \<Rightarrow> fault + uri option" where
  "Uri_Create uristr =
     (case run uri_states (uri_act uristr) (\<lambda>a. False) 451 0 uristr (None, Uri_new) of
        Inl e \<Rightarrow> Inl e
      | Inr (cs, p, x) \<Rightarrow>
          (case (if p = length uristr then run_actions (uri_act uristr) (uri_eof cs) p x else Inr x) of
             Inl e \<Rightarrow> Inl e
           | Inr (mark, u) \<Rightarrow> if cs = 0 then Inr None else if 451 \<le> cs then Inr (Some u) else Inr None))"

section \<open>Defaults and text\<close>

definition isDefaultPort :: "uri \<Rightarrow> bool" where
  "isDefaultPort u =
     (if m_port u = 0 then True
      else if m_scheme u = ''http'' then m_port u = 80
      else if m_scheme u = ''https'' then m_port u = 443 else False)"

definition getPath :: "uri \<Rightarrow> string" where
  "getPath u = (if m_path u = [] then ''/'' else m_path u)"

definition Uri_getPort :: "uri \<Rightarrow> int" where
  "Uri_getPort u =
     (if m_port u \<noteq> 0 then m_port u
      else if m_scheme u = ''http'' then 80
      else if m_scheme u = ''https'' then 443 else m_port u)"

definition Uri_toString :: "uri \<Rightarrow> string" where
  "Uri_toString u =
     m_scheme u @ ''://'' @ m_userinfo u @ (if m_userinfo u = [] then [] else ''@'') @ m_host u @
     (if isDefaultPort u then [] else '':'' @ dec_int (m_port u)) @ getPath u @
     (if m_query u = [] then [] else ''?'') @ m_query u @
     (if m_fragment u = [] then [] else ''#'') @ m_fragment u"

text \<open>\<open>createAddress\<close>; the address takes the port as a \<open>uint16_t\<close>.\<close>

definition createAddress :: "endian \<Rightarrow> (string \<Rightarrow> string option \<Rightarrow> address list option) \<Rightarrow> uri \<Rightarrow> address option" where
  "createAddress host getaddrinfo u =
     map_option (setPort host (word_of_int (Uri_getPort u))) (LookupAnyIPAddress getaddrinfo (m_host u))"

end
