(* ===== verification/Uri_Runs.thy ===== *)
theory Uri_Runs
  imports Uris
begin

text \<open>
  How the machine of a URI runs: its states on the characters of a scheme, a host, a port, a
  path, a query and a fragment, and the run over an authority.
\<close>

declare run.simps(2) [simp del]

section \<open>The states of a URI\<close>

definition alpha_chars :: string where
  "alpha_chars = ''ABCDEFGHIJKLMNOPQRSTUVWXYZabcdefghijklmnopqrstuvwxyz''"

definition digit_chars :: string where
  "digit_chars = ''0123456789''"

definition host_start_chars :: string where
  "host_start_chars = ''!$&'()*+,-.;=_~'' @ alpha_chars"

lemma scheme_states:
  "\<forall>c \<in> set alpha_chars. (uri_states ! 451) (char_int c) = ([U_marku], 508)"
  "\<forall>c \<in> set (''+-.'' @ digit_chars @ alpha_chars). (uri_states ! 508) (char_int c) = st 508"
  unfolding uri_nth
  by (simp_all add: uri_st451_def uri_st508_def uri_ctrs alpha_chars_def digit_chars_def char_int_def)

lemma host_states:
  "\<forall>c \<in> set host_start_chars. (uri_states ! 511) (char_int c) = ([U_markh], 520)"
  "\<forall>c \<in> set (host_start_chars @ digit_chars). (uri_states ! 520) (char_int c) = st 520"
  "\<forall>c \<in> set host_start_chars. (uri_states ! 522) (char_int c) = ([U_markh], 523)"
  "\<forall>c \<in> set (host_start_chars @ digit_chars). (uri_states ! 523) (char_int c) = st 523"
  unfolding uri_nth
  by (simp_all add: uri_st511_def uri_st520_def uri_st522_def uri_st523_def uri_ctrs host_start_chars_def alpha_chars_def
      digit_chars_def char_int_def)


definition digits_char :: "char \<Rightarrow> bool" where
  "digits_char c \<longleftrightarrow> c \<in> set digit_chars"

lemma port_states:
  "\<forall>c \<in> set digit_chars. (uri_states ! 521) (char_int c) = ([U_markh], 542)"
  "\<forall>c \<in> set digit_chars. (uri_states ! 542) (char_int c) = st 542"
  "\<forall>c \<in> set digit_chars. (uri_states ! 514) (char_int c) = ([U_markh], 515)"
  "\<forall>c \<in> set digit_chars. (uri_states ! 515) (char_int c) = st 515"
  unfolding uri_nth
  by (simp_all add: uri_st521_def uri_st542_def uri_st514_def uri_st515_def uri_ctrs digit_chars_def char_int_def)

lemma separator_states:
  "(uri_states ! 508) 58 = ([U_save_scheme], 509)" "(uri_states ! 509) 47 = st 510" "(uri_states ! 510) 47 = st 511"
  "(uri_states ! 520) 64 = ([U_save_userinfo], 522)"
  "(uri_states ! 520) 58 = ([U_save_host], 521)" "(uri_states ! 523) 58 = ([U_save_host], 514)"
  "(uri_states ! 520) 47 = ([U_save_host, U_markh], 513)" "(uri_states ! 523) 47 = ([U_save_host, U_markh], 513)"
  "(uri_states ! 542) 47 = ([U_save_port, U_markh], 513)" "(uri_states ! 515) 47 = ([U_save_port, U_markh], 513)"
  "(uri_states ! 513) 63 = ([U_save_path], 456)" "(uri_states ! 513) 35 = ([U_save_path], 453)"
  "(uri_states ! 457) 35 = ([U_save_query], 453)"
  "(uri_states ! 521) 47 = ([U_markh, U_save_port], 513)"
  "(uri_states ! 521) 63 = ([U_markh, U_save_port, U_save_path], 456)"
  "(uri_states ! 521) 35 = ([U_markh, U_save_port, U_save_path], 453)"
  unfolding uri_nth
  by (simp_all add: uri_st508_def uri_st509_def uri_st510_def uri_st513_def uri_st515_def uri_st520_def uri_st521_def
    uri_st523_def uri_st542_def uri_st457_def uri_ctrs)

lemma uri_path_chars:
  "\<forall>c \<in> set path_ascii. uri_st513 (char_int c) = st 513" "n < 0 \<Longrightarrow> uri_st513 n = st 513" "uri_st513 37 = st 243"
  by (simp_all add: uri_st513_def path_ascii_def char_int_def)

lemma uri_path_hex:
  "hex_char c \<Longrightarrow> uri_st243 (char_int c) = st 244" "hex_char c \<Longrightarrow> uri_st244 (char_int c) = st 513"
  by (auto simp: uri_st243_def uri_st244_def hex_char_def char_int_def)

lemma uri_path_states:
  "path_char c \<Longrightarrow> (uri_states ! 513) (char_int c) = st 513" "(uri_states ! 513) 37 = st 243"
  "hex_char c \<Longrightarrow> (uri_states ! 243) (char_int c) = st 244" "hex_char c \<Longrightarrow> (uri_states ! 244) (char_int c) = st 513"
  unfolding uri_nth by (simp_all add: uri_path_hex uri_path_chars(3) path_charI [OF uri_path_chars(2,1)])

lemma uri_query_chars:
  "\<forall>c \<in> set path_ascii. uri_st457 (char_int c) = st 457" "n < 0 \<Longrightarrow> uri_st457 n = st 457" "uri_st457 37 = st 7" "uri_st457 63 = st 457"
  by (simp_all add: uri_st457_def path_ascii_def char_int_def)

lemma uri_query_hex:
  "hex_char c \<Longrightarrow> uri_st7 (char_int c) = st 8" "hex_char c \<Longrightarrow> uri_st8 (char_int c) = st 457"
  by (auto simp: uri_st7_def uri_st8_def hex_char_def char_int_def)

lemma uri_query_states:
  "query_char c \<Longrightarrow> (uri_states ! 457) (char_int c) = st 457" "(uri_states ! 457) 37 = st 7"
  "hex_char c \<Longrightarrow> (uri_states ! 7) (char_int c) = st 8" "hex_char c \<Longrightarrow> (uri_states ! 8) (char_int c) = st 457"
  unfolding uri_nth by (simp_all add: uri_query_hex uri_query_chars(3) query_charI [OF uri_query_chars(2,1,4)])

lemma uri_fragment_chars:
  "\<forall>c \<in> set path_ascii. uri_st454 (char_int c) = st 454" "n < 0 \<Longrightarrow> uri_st454 n = st 454" "uri_st454 37 = st 1" "uri_st454 63 = st 454"
  by (simp_all add: uri_st454_def path_ascii_def char_int_def)

lemma uri_fragment_hex:
  "hex_char c \<Longrightarrow> uri_st1 (char_int c) = st 2" "hex_char c \<Longrightarrow> uri_st2 (char_int c) = st 454"
  by (auto simp: uri_st1_def uri_st2_def hex_char_def char_int_def)

lemma uri_fragment_states:
  "query_char c \<Longrightarrow> (uri_states ! 454) (char_int c) = st 454" "(uri_states ! 454) 37 = st 1"
  "hex_char c \<Longrightarrow> (uri_states ! Suc 0) (char_int c) = st 2" "hex_char c \<Longrightarrow> (uri_states ! 2) (char_int c) = st 454"
  unfolding uri_nth by (simp_all add: uri_fragment_hex uri_fragment_chars(3) query_charI [OF uri_fragment_chars(2,1,4)])

lemma uri_query_enter: "(uri_states ! 457) n = st t \<Longrightarrow> t \<noteq> 0 \<Longrightarrow> (uri_states ! 456) n = ([U_marku], t)"
  by (auto simp: uri_nth uri_st457_def uri_st456_def uri_ctrs split: if_splits)

lemma uri_fragment_enter: "(uri_states ! 454) n = st t \<Longrightarrow> t \<noteq> 0 \<Longrightarrow> (uri_states ! 453) n = ([U_marku], t)"
  by (auto simp: uri_nth uri_st454_def uri_st453_def uri_ctrs split: if_splits)

section \<open>Runs over the parts of a URI\<close>

abbreviation uri_run :: "string \<Rightarrow> nat \<Rightarrow> nat \<Rightarrow> string \<Rightarrow> nat option \<times> uri \<Rightarrow> fault + nat \<times> nat \<times> nat option \<times> uri" where
  "uri_run buf \<equiv> run uri_states (uri_act buf) (\<lambda>a. False)"

lemma marked_at: "buf = pre @ w @ rest \<Longrightarrow> marked buf (Some (length pre)) (length pre + length w) = Inr w"
  by (simp add: marked_def)

text \<open>A state that marks the first character of a word, and one that takes the others.\<close>

lemma run_word:
  assumes "w \<noteq> []" "(uri_states ! A) (char_int (hd w)) = ([m], H)" "\<forall>c \<in> set (tl w). (uri_states ! H) (char_int c) = st H"
    and "m \<in> {U_marku, U_markh}" "A < 561" "H < 561" "H \<noteq> 0"
  shows "uri_run buf A p (w @ rest) (mark, u) = uri_run buf H (p + length w) rest (Some p, u)"
proof -
  obtain c v where w: "w = c # v" using assms(1) by (cases w) auto
  have "uri_run buf A p (c # v @ rest) (mark, u) = uri_run buf H (p + 1) (v @ rest) (Some p, u)"
    by (rule run_step [where acts = "[m]"]) (use assms w in auto)
  also have "\<dots> = uri_run buf H (p + 1 + length v) rest (Some p, u)"
    by (rule run_loop) (use assms w in auto)
  finally show ?thesis using w by simp
qed

text \<open>
  The host and the port, up to the slash of the path: once for a URI without user information
  and once for one with it, which differ in their states.
\<close>

definition port_text :: "nat option \<Rightarrow> string" where
  "port_text port = (case port of None \<Rightarrow> [] | Some n \<Rightarrow> CHR '':'' # dec n)"

lemma dec_digits: "c \<in> set (dec n) \<Longrightarrow> c \<in> set digit_chars"
proof -
  assume "c \<in> set (dec n)"
  then have "c \<in> set ''0123456789abcdef'' \<and> digit_value c < 10"
    unfolding dec_def using subsetD [OF show_base_set [of 10 n], of c] show_base_values [of 10 c n] by simp
  moreover have "\<forall>c \<in> set ''0123456789abcdef''. digit_value c < 10 \<longrightarrow> c \<in> set digit_chars" by code_simp
  ultimately show ?thesis by blast
qed

lemma run_authority:
  assumes s: "(A :: nat, H :: nat, C :: nat, P :: nat) \<in> {(511, 520, 521, 542), (522, 523, 514, 515)}"
    and b: "buf = pre @ h @ port_text port @ CHR ''/'' # rest" and h: "h \<noteq> []" "hd h \<in> set host_start_chars"
      "\<forall>c \<in> set h. c \<in> set (host_start_chars @ digit_chars)"
    and p: "case port of None \<Rightarrow> True | Some n \<Rightarrow> n < 2 ^ 31"
  shows "uri_run buf A (length pre) (h @ port_text port @ CHR ''/'' # rest) (mark, u) =
    uri_run buf 513 (length (pre @ h @ port_text port) + 1) rest
      (Some (length (pre @ h @ port_text port)), u\<lparr>m_host := h, m_port := (case port of None \<Rightarrow> m_port u | Some n \<Rightarrow> int n)\<rparr>)"
proof -
  let ?p = "length pre"
  have lt: "A < 561" "H < 561" "C < 561" "P < 561" "H \<noteq> 0" "C \<noteq> 0" "P \<noteq> 0" using s by auto
  have st: "(uri_states ! A) (char_int (hd h)) = ([U_markh], H)" "\<forall>c \<in> set (tl h). (uri_states ! H) (char_int c) = st H"
    "(uri_states ! H) 47 = ([U_save_host, U_markh], 513)" "(uri_states ! H) 58 = ([U_save_host], C)"
    "\<forall>c \<in> set digit_chars. (uri_states ! C) (char_int c) = ([U_markh], P)"
    "\<forall>c \<in> set digit_chars. (uri_states ! P) (char_int c) = st P" "(uri_states ! P) 47 = ([U_save_port, U_markh], 513)"
    using s h host_states port_states separator_states by (auto dest: list.set_sel(2))
  have m: "marked buf (Some ?p) (?p + length h) = Inr h" using b by (rule marked_at)
  have 1: "uri_run buf A ?p (h @ port_text port @ CHR ''/'' # rest) (mark, u) =
      uri_run buf H (?p + length h) (port_text port @ CHR ''/'' # rest) (Some ?p, u)"
    by (rule run_word [OF h(1) st(1,2)]) (use lt in simp_all)
  show ?thesis
  proof (cases port)
    case None
    have "uri_run buf H (?p + length h) (CHR ''/'' # rest) (Some ?p, u) =
        uri_run buf 513 (?p + length h + 1) rest (Some (?p + length h), u\<lparr>m_host := h\<rparr>)"
      by (rule run_step [where acts = "[U_save_host, U_markh]"]) (use lt st(3) m in simp_all)
    moreover have "u\<lparr>m_host := h, m_port := m_port u\<rparr> = u\<lparr>m_host := h\<rparr>" by (cases u) simp
    ultimately show ?thesis using 1 None by (simp add: port_text_def)
  next
    case (Some n)
    let ?q = "?p + length h + 1"
    have at: "atoi (drop ?q buf) = int n"
    proof -
      have "drop ?q buf = dec n @ CHR ''/'' # rest" using b Some by (simp add: port_text_def)
      moreover have "digit_of 10 (CHR ''/'') = None" by code_simp
      ultimately have "strtol 10 (drop ?q buf) = int n" using p Some by (simp add: strtol_dec)
      then show ?thesis using p Some by (simp add: atoi_def to_int_def signed_of_nat signed_take_bit_int_eq_self)
    qed
    have "uri_run buf H (?p + length h) (CHR '':'' # dec n @ CHR ''/'' # rest) (Some ?p, u) =
        uri_run buf C ?q (dec n @ CHR ''/'' # rest) (Some ?p, u\<lparr>m_host := h\<rparr>)"
      by (rule run_step [where acts = "[U_save_host]"]) (use lt st(4) m in simp_all)
    also have "\<dots> = uri_run buf P (?q + length (dec n)) (CHR ''/'' # rest) (Some ?q, u\<lparr>m_host := h\<rparr>)"
    proof (rule run_word)
      show "(uri_states ! C) (char_int (hd (dec n))) = ([U_markh], P)" using st(5) dec_digits [of "hd (dec n)" n] by simp
      show "\<forall>c \<in> set (tl (dec n)). (uri_states ! P) (char_int c) = st P"
        using st(6) dec_digits [of _ n] list.set_sel(2) [of "dec n"] by simp
    qed (use lt in simp_all)
    also have "\<dots> = uri_run buf 513 (?q + length (dec n) + 1) rest
        (Some (?q + length (dec n)), u\<lparr>m_host := h, m_port := int n\<rparr>)"
      by (rule run_step [where acts = "[U_save_port, U_markh]"]) (use lt st(7) at in simp_all)
    finally show ?thesis using 1 Some by (simp add: port_text_def add.assoc)
  qed
qed

end
