(* ===== verification/Uri_Props.thy ===== *)
theory Uri_Props
  imports Uri_Runs
begin

text \<open>
  The properties of a URI: reading inverts writing, and an empty port throws.
\<close>

section \<open>The end of the text\<close>

definition uri_finish :: "string \<Rightarrow> fault + nat \<times> nat \<times> nat option \<times> uri \<Rightarrow> fault + uri option" where
  "uri_finish uristr r =
     (case r of
        Inl e \<Rightarrow> Inl e
      | Inr (cs, p, x) \<Rightarrow>
          (case (if p = length uristr then run_actions (uri_act uristr) (uri_eof cs) p x else Inr x) of
             Inl e \<Rightarrow> Inl e
           | Inr (mark, u) \<Rightarrow> if cs = 0 then Inr None else if 451 \<le> cs then Inr (Some u) else Inr None))"

lemma run_throw:
  assumes "cs < length states" "(states ! cs) (char_int c) = (acts, t)" "t \<noteq> 0" "run_actions act acts p s = Inl e"
  shows "run states act stops cs p (c # buf) s = Inl e"
  using assms by (simp add: run.simps(2))

lemma Uri_Create_run: "Uri_Create t = uri_finish t (uri_run t 451 0 t (None, Uri_new))"
  by (simp add: Uri_Create_def uri_finish_def)

lemma eof_states:
  "uri_eof 513 = [U_save_path]" "uri_eof 457 = [U_save_query]" "uri_eof 454 = [U_save_fragment]"
  "uri_eof 521 = [U_markh, U_save_port, U_save_path]"
  by (simp_all add: uri_eof_def)

lemma run_uri_path:
  "uri_text path_char w \<Longrightarrow> uri_run buf 513 p (w @ rest) s = uri_run buf 513 (p + length w) rest s"
  by (rule run_uri_text [where B = 243 and C = 244 and ok = path_char]) (simp_all add: uri_path_states)

lemma run_uri_query:
  assumes "w \<noteq> []" "uri_text query_char w"
  shows "uri_run buf 456 p (w @ rest) (mark, u) = uri_run buf 457 (p + length w) rest (Some p, u)"
proof -
  obtain t where "(uri_states ! 457) (char_int (hd w)) = st t" "t \<noteq> 0"
    using uri_text_first [OF assms] uri_query_states(1) uri_query_states(2) by auto
  then have "uri_run buf 456 p (w @ rest) (mark, u) = uri_run buf 457 p (w @ rest) (Some p, u)"
    using assms(1) by (intro run_enter [where t = t and acts = "[U_marku]"]) (simp_all add: uri_query_enter)
  also have "\<dots> = uri_run buf 457 (p + length w) rest (Some p, u)"
    by (rule run_uri_text [where B = 7 and C = 8 and ok = query_char]) (simp_all add: uri_query_states assms(2))
  finally show ?thesis .
qed

lemma run_uri_fragment:
  assumes "w \<noteq> []" "uri_text query_char w"
  shows "uri_run buf 453 p (w @ rest) (mark, u) = uri_run buf 454 (p + length w) rest (Some p, u)"
proof -
  obtain t where "(uri_states ! 454) (char_int (hd w)) = st t" "t \<noteq> 0"
    using uri_text_first [OF assms] uri_fragment_states(1) uri_fragment_states(2) by auto
  then have "uri_run buf 453 p (w @ rest) (mark, u) = uri_run buf 454 p (w @ rest) (Some p, u)"
    using assms(1) by (intro run_enter [where t = t and acts = "[U_marku]"]) (simp_all add: uri_fragment_enter)
  also have "\<dots> = uri_run buf 454 (p + length w) rest (Some p, u)"
    by (rule run_uri_text [where B = 1 and C = 2 and ok = query_char]) (simp_all add: uri_fragment_states assms(2))
  finally show ?thesis .
qed

definition tail_part :: "string \<Rightarrow> string \<Rightarrow> string" where
  "tail_part sep w = (if w = [] then [] else sep @ w)"

text \<open>The fragment at the end, from a state that saves what was marked before it.\<close>

lemma finish_fragment:
  assumes b: "buf = pre @ tail_part ''#'' f" and f: "uri_text query_char f"
    and s: "cs < 561" "451 \<le> cs" "uri_eof cs = [a]" "(uri_states ! cs) 35 = ([a], 453)"
    and a: "uri_act buf a (length pre) (mark, u) = Inr (None, u')" and u: "m_fragment u' = []"
  shows "uri_finish buf (uri_run buf cs (length pre) (tail_part ''#'' f) (mark, u)) = Inr (Some (u'\<lparr>m_fragment := f\<rparr>))"
proof (cases "f = []")
  case True
  moreover have "u'\<lparr>m_fragment := []\<rparr> = u'" using u by (cases u') simp
  ultimately show ?thesis using b s a by (simp add: tail_part_def uri_finish_def)
next
  case False
  have "uri_run buf cs (length pre) (CHR ''#'' # f @ []) (mark, u) = uri_run buf 453 (length pre + 1) (f @ []) (None, u')"
    by (rule run_step [where acts = "[a]"]) (use s a in simp_all)
  also have "\<dots> = Inr (454, length pre + 1 + length f, Some (length pre + 1), u')"
    unfolding run_uri_fragment [OF False f] by simp
  finally show ?thesis using False b
    by (simp add: tail_part_def uri_finish_def eof_states save_def marked_def)
qed

text \<open>The path, the query and the fragment, up to the end.\<close>

lemma finish_path:
  assumes b: "buf = pre @ CHR ''/'' # w @ tail_part ''?'' q @ tail_part ''#'' f"
    and w: "uri_text path_char w" "uri_text query_char q" "uri_text query_char f" and u: "m_fragment u = []" "m_query u = []"
  shows "uri_finish buf (uri_run buf 513 (length pre + 1) (w @ tail_part ''?'' q @ tail_part ''#'' f) (Some (length pre), u)) =
    Inr (Some (u\<lparr>m_path := CHR ''/'' # w, m_query := q, m_fragment := f\<rparr>))"
proof -
  let ?p = "length (pre @ CHR ''/'' # w)" and ?u = "u\<lparr>m_path := CHR ''/'' # w\<rparr>"
  have 1: "uri_run buf 513 (length pre + 1) (w @ tail_part ''?'' q @ tail_part ''#'' f) (Some (length pre), u) =
      uri_run buf 513 ?p (tail_part ''?'' q @ tail_part ''#'' f) (Some (length pre), u)"
    unfolding run_uri_path [OF w(1)] by simp
  have path: "uri_act buf U_save_path ?p (Some (length pre), u) = Inr (None, ?u)"
    using marked_at [of buf pre "CHR ''/'' # w"] b by (simp add: save_def)
  show ?thesis
  proof (cases "q = []")
    case True
    have "uri_finish buf (uri_run buf 513 ?p (tail_part ''#'' f) (Some (length pre), u)) = Inr (Some (?u\<lparr>m_fragment := f\<rparr>))"
      by (rule finish_fragment [OF _ w(3) _ _ _ _ path])
        (use u b True in \<open>simp_all add: tail_part_def eof_states separator_states\<close>)
    moreover have "u\<lparr>m_path := CHR ''/'' # w, m_query := [], m_fragment := f\<rparr> = ?u\<lparr>m_fragment := f\<rparr>" using u by (cases u) simp
    ultimately show ?thesis using 1 True by (simp add: tail_part_def)
  next
    case False
    have 2: "uri_run buf 513 ?p (CHR ''?'' # q @ tail_part ''#'' f) (Some (length pre), u) =
        uri_run buf 457 (?p + 1 + length q) (tail_part ''#'' f) (Some (?p + 1), ?u)"
    proof -
      have "uri_run buf 513 ?p (CHR ''?'' # q @ tail_part ''#'' f) (Some (length pre), u) =
          uri_run buf 456 (?p + 1) (q @ tail_part ''#'' f) (None, ?u)"
        by (rule run_step [where acts = "[U_save_path]"]) (use path in \<open>simp_all add: separator_states del: uri_act.simps\<close>)
      then show ?thesis unfolding run_uri_query [OF False w(2)] .
    qed
    let ?pre = "pre @ CHR ''/'' # w @ CHR ''?'' # q"
    have "buf = (pre @ CHR ''/'' # w @ ''?'') @ q @ tail_part ''#'' f" using b False by (simp add: tail_part_def)
    from marked_at [OF this] have query: "uri_act buf U_save_query (length ?pre) (Some (?p + 1), ?u) = Inr (None, ?u\<lparr>m_query := q\<rparr>)"
      by (simp add: save_def add.assoc)
    have "uri_finish buf (uri_run buf 457 (length ?pre) (tail_part ''#'' f) (Some (?p + 1), ?u)) =
        Inr (Some (?u\<lparr>m_query := q, m_fragment := f\<rparr>))"
      by (rule finish_fragment [OF _ w(3) _ _ _ _ query])
        (use u b False in \<open>simp_all add: tail_part_def eof_states separator_states\<close>)
    moreover have "length ?pre = ?p + 1 + length q" by simp
    ultimately show ?thesis using 1 2 False by (simp add: tail_part_def add.assoc)
  qed
qed


section \<open>Properties\<close>

text \<open>The URIs of the theorems: parts of plain characters and escapes.\<close>

definition scheme_ok :: "string \<Rightarrow> bool" where
  "scheme_ok s \<longleftrightarrow> s \<noteq> [] \<and> hd s \<in> set alpha_chars \<and> (\<forall>c \<in> set s. c \<in> set (''+-.'' @ digit_chars @ alpha_chars))"

definition host_ok :: "string \<Rightarrow> bool" where
  "host_ok h \<longleftrightarrow> h \<noteq> [] \<and> hd h \<in> set host_start_chars \<and> (\<forall>c \<in> set h. c \<in> set (host_start_chars @ digit_chars))"

definition abs_path_ok :: "string \<Rightarrow> bool" where
  "abs_path_ok w \<longleftrightarrow> w = [] \<or> hd w = CHR ''/'' \<and> uri_text path_char (tl w)"

definition uri_ok :: "uri \<Rightarrow> bool" where
  "uri_ok u \<longleftrightarrow> scheme_ok (m_scheme u) \<and> (m_userinfo u = [] \<or> host_ok (m_userinfo u)) \<and> host_ok (m_host u) \<and>
     0 \<le> m_port u \<and> m_port u < 2 ^ 31 \<and> abs_path_ok (m_path u) \<and>
     uri_text query_char (m_query u) \<and> uri_text query_char (m_fragment u)"

lemma run_scheme:
  assumes "scheme_ok w" "buf = w @ rest"
  shows "uri_run buf 451 0 (w @ ''://'' @ inp) (None, u) = uri_run buf 511 (length w + 3) inp (None, u\<lparr>m_scheme := w\<rparr>)"
proof -
  have st: "w \<noteq> []" "(uri_states ! 451) (char_int (hd w)) = ([U_marku], 508)" "\<forall>c \<in> set (tl w). (uri_states ! 508) (char_int c) = st 508"
    using assms(1) scheme_states unfolding scheme_ok_def by (blast dest: list.set_sel(2))+
  have "uri_run buf 451 0 (w @ ''://'' @ inp) (None, u) = uri_run buf 508 (0 + length w) (''://'' @ inp) (Some 0, u)"
    by (rule run_word [OF st]) simp_all
  also have "\<dots> = uri_run buf 508 (length w) (CHR '':'' # ''//'' @ inp) (Some 0, u)" by simp
  also have "\<dots> = uri_run buf 509 (length w + 1) (''//'' @ inp) (None, u\<lparr>m_scheme := w\<rparr>)"
    by (rule run_step [where acts = "[U_save_scheme]"])
      (use assms(2) in \<open>simp_all add: separator_states save_def marked_def\<close>)
  also have "\<dots> = uri_run buf 511 (length w + 3) inp (None, u\<lparr>m_scheme := w\<rparr>)"
    by (rule run_walkI [where w = "''//''"]) (simp_all add: separator_states)
  finally show ?thesis .
qed

lemma run_userinfo:
  assumes "host_ok w" "buf = pre @ w @ rest"
  shows "uri_run buf 511 (length pre) (w @ ''@'' @ inp) (mark, u) = uri_run buf 522 (length pre + length w + 1) inp (None, u\<lparr>m_userinfo := w\<rparr>)"
proof -
  have st: "w \<noteq> []" "(uri_states ! 511) (char_int (hd w)) = ([U_markh], 520)" "\<forall>c \<in> set (tl w). (uri_states ! 520) (char_int c) = st 520"
    using assms(1) host_states unfolding host_ok_def by (blast dest: list.set_sel(2))+
  have "uri_run buf 511 (length pre) (w @ ''@'' @ inp) (mark, u) = uri_run buf 520 (length pre + length w) (''@'' @ inp) (Some (length pre), u)"
    by (rule run_word [OF st]) simp_all
  also have "\<dots> = uri_run buf 520 (length pre + length w) (CHR ''@'' # inp) (Some (length pre), u)" by simp
  also have "\<dots> = uri_run buf 522 (length pre + length w + 1) inp (None, u\<lparr>m_userinfo := w\<rparr>)"
    by (rule run_step [where acts = "[U_save_userinfo]"])
      (use assms(2) in \<open>simp_all add: separator_states save_def marked_def char_int_def\<close>)
  finally show ?thesis .
qed

definition shown_port :: "uri \<Rightarrow> nat option" where
  "shown_port u = (if isDefaultPort u then None else Some (nat (m_port u)))"


text \<open>What a URI looks like after it was written out and read.\<close>

definition reread :: "uri \<Rightarrow> uri" where
  "reread u = u\<lparr>m_path := getPath u, m_port := (if isDefaultPort u then 0 else m_port u)\<rparr>"

definition user_part :: "uri \<Rightarrow> string" where
  "user_part u = (if m_userinfo u = [] then [] else m_userinfo u @ ''@'')"

lemma Uri_text:
  assumes "0 \<le> m_port u" "getPath u = CHR ''/'' # w"
  shows "Uri_toString u = m_scheme u @ ''://'' @ user_part u @ m_host u @ port_text (shown_port u) @ CHR ''/'' # w @
    tail_part ''?'' (m_query u) @ tail_part ''#'' (m_fragment u)"
  using assms by (auto simp: Uri_toString_def user_part_def port_text_def shown_port_def tail_part_def dec_int_def)

text \<open>
  C12. Reading a URI inverts writing it: for a scheme and a host of plain characters, with or
  without user information and a port, and a path, query and fragment of URI characters and
  escapes, \<open>Uri::Create\<close> of the text gives back every part, the path with its default and no
  port where it was the default one; so \<open>getPath\<close> and \<open>getPort\<close> answer as before.
\<close>

theorem uri_roundtrip:
  assumes "uri_ok u"
  shows "Uri_Create (Uri_toString u) = Inr (Some (reread u)) \<and> getPath (reread u) = getPath u \<and>
    Uri_getPort (reread u) = Uri_getPort u \<and> Uri_toString (reread u) = Uri_toString u"
proof -
  have ok: "scheme_ok (m_scheme u)" "m_userinfo u = [] \<or> host_ok (m_userinfo u)" "host_ok (m_host u)" "0 \<le> m_port u"
    "m_port u < 2 ^ 31" "abs_path_ok (m_path u)" "uri_text query_char (m_query u)" "uri_text query_char (m_fragment u)"
    using assms by (simp_all add: uri_ok_def)
  obtain w where w: "getPath u = CHR ''/'' # w" "uri_text path_char w"
    using ok(6) by (cases "m_path u") (auto simp: getPath_def abs_path_ok_def)
  let ?buf = "Uri_toString u" and ?P = "port_text (shown_port u)"
  let ?T = "w @ tail_part ''?'' (m_query u) @ tail_part ''#'' (m_fragment u)"
  have buf: "?buf = m_scheme u @ ''://'' @ user_part u @ m_host u @ ?P @ CHR ''/'' # ?T"
    using Uri_text [OF ok(4) w(1)] by simp
  let ?s = "Uri_new\<lparr>m_scheme := m_scheme u\<rparr>"
  let ?u = "?s\<lparr>m_userinfo := m_userinfo u\<rparr>"
  let ?pre = "(m_scheme u @ ''://'') @ user_part u"
  let ?h = "?u\<lparr>m_host := m_host u, m_port := (case shown_port u of None \<Rightarrow> 0 | Some n \<Rightarrow> int n)\<rparr>"
  have 1: "uri_run ?buf 451 0 ?buf (None, Uri_new) =
      uri_run ?buf 511 (length (m_scheme u @ ''://'')) (user_part u @ m_host u @ ?P @ CHR ''/'' # ?T) (None, ?s)"
    using run_scheme [OF ok(1), of ?buf "''://'' @ user_part u @ m_host u @ ?P @ CHR ''/'' # ?T"
        "user_part u @ m_host u @ ?P @ CHR ''/'' # ?T" Uri_new] buf
    by (simp add: numeral_3_eq_3)
  have 2: "uri_run ?buf 511 (length (m_scheme u @ ''://'')) (user_part u @ m_host u @ ?P @ CHR ''/'' # ?T) (None, ?s) =
      uri_run ?buf 513 (length (?pre @ m_host u @ ?P) + 1) ?T (Some (length (?pre @ m_host u @ ?P)), ?h)"
  proof -
    have h: "m_host u \<noteq> []" "hd (m_host u) \<in> set host_start_chars" "\<forall>c \<in> set (m_host u). c \<in> set (host_start_chars @ digit_chars)"
      using ok(3) by (simp_all add: host_ok_def)
    have p: "case shown_port u of None \<Rightarrow> True | Some n \<Rightarrow> n < 2 ^ 31" using ok(4,5) by (simp add: shown_port_def nat_less_iff)
    have b: "?buf = ?pre @ m_host u @ ?P @ CHR ''/'' # ?T" using buf by simp
    note auth = run_authority [OF _ b h p]
    show ?thesis
    proof (cases "m_userinfo u = []")
    case True
    have u: "?u = ?s" using True by (simp add: Uri_new_def)
    have p: "?pre = m_scheme u @ ''://''" using True by (simp add: user_part_def)
    show ?thesis
      using auth [of 511 520 521 542 None ?s] True unfolding u p
      by (cases "shown_port u") (simp_all add: user_part_def Uri_new_def)
  next
    case False
    then have ui: "host_ok (m_userinfo u)" "user_part u = m_userinfo u @ ''@''" using ok(2) by (simp_all add: user_part_def)
    have "uri_run ?buf 511 (length (m_scheme u @ ''://'')) (m_userinfo u @ ''@'' @ m_host u @ ?P @ CHR ''/'' # ?T) (None, ?s) =
        uri_run ?buf 522 (length (m_scheme u @ ''://'') + length (m_userinfo u) + 1) (m_host u @ ?P @ CHR ''/'' # ?T) (None, ?u)"
      by (rule run_userinfo [OF ui(1), where rest = "''@'' @ m_host u @ ?P @ CHR ''/'' # ?T"]) (use buf ui(2) in simp)
    moreover have "length (m_scheme u @ ''://'') + length (m_userinfo u) + 1 = length ?pre" by (simp add: ui(2))
    ultimately show ?thesis
      using auth [of 522 523 514 515 None ?u] unfolding ui(2)
      by (cases "shown_port u") (simp_all add: Uri_new_def)
  qed
  qed
  have 3: "uri_finish ?buf (uri_run ?buf 513 (length (?pre @ m_host u @ ?P) + 1) ?T (Some (length (?pre @ m_host u @ ?P)), ?h)) =
      Inr (Some (?h\<lparr>m_path := CHR ''/'' # w, m_query := m_query u, m_fragment := m_fragment u\<rparr>))"
    by (rule finish_path) (use buf w ok in \<open>simp_all add: Uri_new_def\<close>)
  have 4: "?h\<lparr>m_path := CHR ''/'' # w, m_query := m_query u, m_fragment := m_fragment u\<rparr> = reread u"
    using ok(4) w(1) by (cases u) (auto simp: reread_def shown_port_def Uri_new_def)
  have "Uri_Create ?buf = Inr (Some (reread u))" using 1 2 3 4 by (simp add: Uri_Create_run)
  moreover have "getPath (reread u) = getPath u" using w(1) by (simp add: getPath_def reread_def)
  moreover have "Uri_getPort (reread u) = Uri_getPort u" by (auto simp: Uri_getPort_def reread_def isDefaultPort_def)
  moreover have "Uri_toString (reread u) = Uri_toString u"
    using w(1) by (auto simp: Uri_toString_def getPath_def reread_def isDefaultPort_def)
  ultimately show ?thesis by blast
qed

lemma uri_roundtrip_witness:
  "Uri_Create ''http://me@a.com:8080/x%20y?q=1#top'' =
     Inr (Some \<lparr>m_scheme = ''http'', m_userinfo = ''me'', m_host = ''a.com'', m_path = ''/x%20y'',
       m_query = ''q=1'', m_fragment = ''top'', m_port = 8080\<rparr>)"
proof -
  let ?u = "\<lparr>m_scheme = ''http'', m_userinfo = ''me'', m_host = ''a.com'', m_path = ''/x%20y'', m_query = ''q=1'', m_fragment = ''top'', m_port = 8080\<rparr>"
  have parts: "scheme_ok ''http''" "host_ok ''me''" "host_ok ''a.com''" "abs_path_ok ''/x%20y''" "uri_text query_char ''q=1''"
    "uri_text query_char ''top''"
    by code_simp+
  have ok: "uri_ok ?u" using parts by (simp add: uri_ok_def)
  have d: "dec 8080 = ''8080''" by (simp add: dec_def show_base.simps digit_def)
  have t: "Uri_toString ?u = ''http://me@a.com:8080/x%20y?q=1#top''"
    by (simp add: Uri_toString_def isDefaultPort_def getPath_def dec_int_def d)
  have r: "reread ?u = ?u" by (simp add: reread_def isDefaultPort_def getPath_def)
  show ?thesis using uri_roundtrip [OF ok] unfolding t r by blast
qed

section \<open>Empty ports\<close>

text \<open>
  An empty port throws: after a scheme and a host, a colon with no digit leaves the mark
  null, and the path that follows it, empty or not, is made from the null pointer, so
  \<open>Uri::Create\<close> ends with the exception of \<open>std::string(nullptr)\<close>, not with a URI or a null result.
\<close>

theorem empty_port_throws:
  assumes "scheme_ok w" "host_ok h" "abs_path_ok path" "t = [] \<or> hd t = CHR ''?'' \<or> hd t = CHR ''#''"
  shows "Uri_Create (w @ ''://'' @ h @ '':'' @ path @ t) = Inl (Logic_error ''basic_string::_M_construct null not valid'')"
proof -
  let ?buf = "w @ ''://'' @ h @ '':'' @ path @ t" and ?p = "length (w @ ''://'')"
  let ?u = "Uri_new\<lparr>m_scheme := w\<rparr>" and ?q = "length (w @ ''://'' @ h @ '':'')"
  have 1: "uri_run ?buf 451 0 ?buf (None, Uri_new) = uri_run ?buf 511 ?p (h @ '':'' @ path @ t) (None, ?u)"
    using run_scheme [OF assms(1), of ?buf "''://'' @ h @ '':'' @ path @ t" "h @ '':'' @ path @ t" Uri_new]
    by (simp add: numeral_3_eq_3)
  have st: "h \<noteq> []" "(uri_states ! 511) (char_int (hd h)) = ([U_markh], 520)" "\<forall>c \<in> set (tl h). (uri_states ! 520) (char_int c) = st 520"
    using assms(2) host_states unfolding host_ok_def by (blast dest: list.set_sel(2))+
  have 2: "uri_run ?buf 511 ?p (h @ '':'' @ path @ t) (None, ?u) = uri_run ?buf 520 (?p + length h) ('':'' @ path @ t) (Some ?p, ?u)"
    by (rule run_word [OF st]) simp_all
  have m: "marked ?buf (Some ?p) (?p + length h) = Inr h" by (rule marked_at [where rest = "'':'' @ path @ t"]) simp
  have "uri_run ?buf 520 (?p + length h) (CHR '':'' # path @ t) (Some ?p, ?u) =
      uri_run ?buf 521 (?p + length h + 1) (path @ t) (Some ?p, ?u\<lparr>m_host := h\<rparr>)"
    by (rule run_step [where acts = "[U_save_host]"]) (use m in \<open>simp_all add: separator_states\<close>)
  then have 3: "uri_run ?buf 451 0 ?buf (None, Uri_new) = uri_run ?buf 521 ?q (path @ t) (Some ?p, ?u\<lparr>m_host := h\<rparr>)"
    using 1 2 by simp
  show ?thesis
  proof (cases path)
    case Nil
    show ?thesis
    proof (cases t)
      case t: Nil
      show ?thesis using 3 Nil t unfolding Uri_Create_run by (simp add: uri_finish_def eof_states save_def marked_def)
    next
      case t: (Cons d y)
      obtain T where T: "(uri_states ! 521) (char_int d) = ([U_markh, U_save_port, U_save_path], T)" "T \<noteq> 0"
        using assms(4) t separator_states by auto
      have "uri_run ?buf 521 ?q (d # y) (Some ?p, ?u\<lparr>m_host := h\<rparr>) =
          Inl (Logic_error ''basic_string::_M_construct null not valid'')"
        by (rule run_throw [OF _ T]) (simp_all add: save_def marked_def)
      then show ?thesis using 3 Nil t unfolding Uri_Create_run by (simp add: uri_finish_def)
    qed
  next
    case (Cons c x)
    then have x: "c = CHR ''/''" "uri_text path_char x" using assms(3) by (simp_all add: abs_path_ok_def)
    have "uri_run ?buf 521 ?q (CHR ''/'' # x @ t) (Some ?p, ?u\<lparr>m_host := h\<rparr>) =
        uri_run ?buf 513 (?q + 1) (x @ t) (None, ?u\<lparr>m_host := h\<rparr>)"
      by (rule run_step [where acts = "[U_markh, U_save_port]"]) (simp_all add: separator_states)
    also have "\<dots> = uri_run ?buf 513 (?q + 1 + length x) t (None, ?u\<lparr>m_host := h\<rparr>)"
      by (rule run_uri_path [OF x(2)])
    finally have 4: "uri_run ?buf 451 0 ?buf (None, Uri_new) = uri_run ?buf 513 (?q + 1 + length x) t (None, ?u\<lparr>m_host := h\<rparr>)"
      using 3 Cons x(1) by simp
    show ?thesis
    proof (cases t)
      case t: Nil
      show ?thesis using 4 Cons t unfolding Uri_Create_run by (simp add: uri_finish_def eof_states save_def marked_def)
    next
      case t: (Cons d y)
      obtain T where T: "(uri_states ! 513) (char_int d) = ([U_save_path], T)" "T \<noteq> 0"
        using assms(4) t separator_states by auto
      have "uri_run ?buf 513 (?q + 1 + length x) (d # y) (None, ?u\<lparr>m_host := h\<rparr>) =
          Inl (Logic_error ''basic_string::_M_construct null not valid'')"
        by (rule run_throw [OF _ T]) (simp_all add: save_def marked_def)
      then show ?thesis using 4 t unfolding Uri_Create_run by (simp add: uri_finish_def)
    qed
  qed
qed

lemma empty_port_throws_witness:
  "Uri_Create ''http://a.com:/x?q'' = Inl (Logic_error ''basic_string::_M_construct null not valid'')"
proof -
  have "scheme_ok ''http''" "host_ok ''a.com''" "abs_path_ok ''/x''" by code_simp+
  from empty_port_throws [OF this, of "''?q''"] show ?thesis by simp
qed

end
