(* ===== verification/Sockets.thy ===== *)
theory Sockets
  imports Addresses Hook
begin

text \<open>
  Sockets (\<open>sylar/socket.h\<close>, \<open>sylar/socket.cc\<close>): the class over the calls of the system. What
  the system answers is the argument \<open>k\<close>, and every operation also returns the calls it made,
  in order, so that the life of a descriptor can be followed. The hooked calls and the table of
  descriptors are those of the theories \<open>Hook\<close> and \<open>Fd_Manager\<close>; log output is left out.
\<close>

section \<open>State and system\<close>

record sock =
  sk_sock :: int
  sk_family :: u16
  sk_type :: int
  sk_protocol :: int
  sk_isConnected :: bool
  sk_local :: "address option"
  sk_remote :: "address option"

text \<open>
  The answers of the system: new descriptors or -1, results of calls, and for the two names the
  address the kernel wrote with its length, \<open>None\<close> where the call failed.
\<close>

record kernel =
  k_socket :: int
  k_accept :: int
  k_bind :: int
  k_connect :: int
  k_listen :: int
  k_sockname :: "(address \<times> u32) option"
  k_peername :: "(address \<times> u32) option"

datatype sock_call =
    Call_socket int
  | Call_accept int
  | Call_option int int int
  | Call_bind int
  | Call_connect int u64
  | Call_listen int
  | Call_close int

definition TCP :: int where "TCP = 1"
definition UDP :: int where "UDP = 2"
definition SOL_SOCKET :: int where "SOL_SOCKET = 1"
definition SO_REUSEADDR :: int where "SO_REUSEADDR = 2"
definition IPPROTO_TCP :: int where "IPPROTO_TCP = 6"
definition TCP_NODELAY :: int where "TCP_NODELAY = 1"

definition Socket_new :: "u16 \<Rightarrow> int \<Rightarrow> int \<Rightarrow> sock" where
  "Socket_new family type protocol =
     \<lparr>sk_sock = -1, sk_family = family, sk_type = type, sk_protocol = protocol, sk_isConnected = False,
      sk_local = None, sk_remote = None\<rparr>"

definition CreateTCP :: "address \<Rightarrow> sock" where
  "CreateTCP addr = Socket_new (getFamily addr) TCP 0"

definition CreateUDP :: "address \<Rightarrow> sock" where
  "CreateUDP addr = Socket_new (getFamily addr) UDP 0"

definition CreateTCPSocket :: sock where "CreateTCPSocket = Socket_new AF_INET TCP 0"
definition CreateUDPSocket :: sock where "CreateUDPSocket = Socket_new AF_INET UDP 0"
definition CreateTCPSocket6 :: sock where "CreateTCPSocket6 = Socket_new AF_INET6 TCP 0"
definition CreateUDPSocket6 :: sock where "CreateUDPSocket6 = Socket_new AF_INET6 UDP 0"
definition CreateUnixTCPSocket :: sock where "CreateUnixTCPSocket = Socket_new AF_UNIX TCP 0"
definition CreateUnixUDPSocket :: sock where "CreateUnixUDPSocket = Socket_new AF_UNIX UDP 0"

definition isValid :: "sock \<Rightarrow> bool" where
  "isValid s \<longleftrightarrow> sk_sock s \<noteq> -1"

section \<open>Addresses\<close>

definition named :: "u16 \<Rightarrow> address \<times> u32 \<Rightarrow> address" where
  "named family = (\<lambda>(a, len). if family = AF_UNIX then setAddrLen len a else a)"

definition getRemoteAddress :: "kernel \<Rightarrow> sock \<Rightarrow> address \<times> sock" where
  "getRemoteAddress k s =
     (case sk_remote s of
        Some a \<Rightarrow> (a, s)
      | None \<Rightarrow>
          (case k_peername k of
             None \<Rightarrow> (UnknownAddress_new (sk_family s), s)
           | Some r \<Rightarrow> let result = named (sk_family s) r in (result, s\<lparr>sk_remote := Some result\<rparr>)))"

definition getLocalAddress :: "kernel \<Rightarrow> sock \<Rightarrow> address \<times> sock" where
  "getLocalAddress k s =
     (case sk_local s of
        Some a \<Rightarrow> (a, s)
      | None \<Rightarrow>
          (case k_sockname k of
             None \<Rightarrow> (UnknownAddress_new (sk_family s), s)
           | Some r \<Rightarrow> let result = named (sk_family s) r in (result, s\<lparr>sk_local := Some result\<rparr>)))"

section \<open>Operations\<close>

definition initSock :: "sock \<Rightarrow> sock_call list" where
  "initSock s =
     Call_option (sk_sock s) SOL_SOCKET SO_REUSEADDR #
     (if sk_type s = TCP then [Call_option (sk_sock s) IPPROTO_TCP TCP_NODELAY] else [])"

definition newSock :: "kernel \<Rightarrow> sock \<Rightarrow> sock \<times> sock_call list" where
  "newSock k s =
     (let s = s\<lparr>sk_sock := k_socket k\<rparr>
      in (s, Call_socket (k_socket k) # (if sk_sock s \<noteq> -1 then initSock s else [])))"

definition Socket_close :: "sock \<Rightarrow> bool \<times> sock \<times> sock_call list" where
  "Socket_close s =
     (if \<not> sk_isConnected s \<and> sk_sock s = -1 then (True, s, []) else
      let s = s\<lparr>sk_isConnected := False\<rparr>
      in if sk_sock s \<noteq> -1 then (False, s\<lparr>sk_sock := -1\<rparr>, [Call_close (sk_sock s)]) else (False, s, []))"

text \<open>\<open>init\<close> of an accepted descriptor; \<open>table\<close> is the table of descriptors.\<close>

definition Socket_init :: "kernel \<Rightarrow> fd_table \<Rightarrow> int \<Rightarrow> sock \<Rightarrow> fault + bool \<times> sock \<times> sock_call list" where
  "Socket_init k table fd s =
     (case get_lookup fd False table of
        Inl e \<Rightarrow> Inl e
      | Inr r \<Rightarrow>
          (case r of
             Some (Some c) \<Rightarrow>
               if m_isSocket c \<and> \<not> m_isClosed c then
                 let s = s\<lparr>sk_sock := fd, sk_isConnected := True\<rparr>;
                     calls = initSock s;
                     s = snd (getLocalAddress k s);
                     s = snd (getRemoteAddress k s)
                 in Inr (True, s, calls)
               else Inr (False, s, [])
           | _ \<Rightarrow> Inr (False, s, [])))"

text \<open>
  \<open>accept\<close>: the socket of the new connection, or the null pointer. \<open>table\<close> is the table after
  the hooked call, which may have entered the new descriptor. The object that \<open>init\<close> refuses
  has no descriptor, and its destructor closes nothing.
\<close>

definition Socket_accept :: "kernel \<Rightarrow> fd_table \<Rightarrow> sock \<Rightarrow> fault + sock option \<times> sock_call list" where
  "Socket_accept k table s =
     (let fd = k_accept k; calls = [Call_accept fd] in
      if fd = -1 then Inr (None, calls)
      else case Socket_init k table fd (Socket_new (sk_family s) (sk_type s) (sk_protocol s)) of
        Inl e \<Rightarrow> Inl e
      | Inr (ok, sock, cs) \<Rightarrow>
          let cs = calls @ cs
          in if ok then Inr (Some sock, cs)
             else Inr (None, cs @ snd (snd (Socket_close sock))))"

definition ensure_valid :: "kernel \<Rightarrow> sock \<Rightarrow> sock \<times> sock_call list" where
  "ensure_valid k s = (if isValid s then (s, []) else newSock k s)"

definition Socket_bind :: "kernel \<Rightarrow> address \<Rightarrow> sock \<Rightarrow> bool \<times> sock \<times> sock_call list" where
  "Socket_bind k addr s =
     (let (s, calls) = ensure_valid k s in
      if \<not> isValid s then (False, s, calls)
      else if getFamily addr \<noteq> sk_family s then (False, s, calls)
      else let calls = calls @ [Call_bind (sk_sock s)] in
        if k_bind k \<noteq> 0 then (False, s, calls) else (True, snd (getLocalAddress k s), calls))"

definition Socket_connect :: "kernel \<Rightarrow> address \<Rightarrow> u64 \<Rightarrow> sock \<Rightarrow> bool \<times> sock \<times> sock_call list" where
  "Socket_connect k addr timeout_ms s =
     (let (s, calls) = ensure_valid k s in
      if \<not> isValid s then (False, s, calls)
      else if getFamily addr \<noteq> sk_family s then (False, s, calls)
      else let calls = calls @ [Call_connect (sk_sock s) timeout_ms] in
        if k_connect k \<noteq> 0 then let (_, s, cs) = Socket_close s in (False, s, calls @ cs)
        else let s = s\<lparr>sk_isConnected := True\<rparr>;
                 s = snd (getRemoteAddress k s);
                 s = snd (getLocalAddress k s)
             in (True, s, calls))"

definition Socket_listen :: "kernel \<Rightarrow> sock \<Rightarrow> bool \<times> sock \<times> sock_call list" where
  "Socket_listen k s =
     (if \<not> isValid s then (False, s, []) else (k_listen k = 0, s, [Call_listen (sk_sock s)]))"

section \<open>Sending and receiving\<close>

text \<open>
  The overloads over memory and over a vector of parts, with and without an address. The system
  call is the argument \<open>sys\<close>; on a socket that is not connected it is not made.
\<close>

record msghdr =
  msg_name :: "address option"
  msg_iov :: "string list"

definition Socket_send :: "(int \<Rightarrow> string \<Rightarrow> int \<Rightarrow> int) \<Rightarrow> string \<Rightarrow> int \<Rightarrow> sock \<Rightarrow> int" where
  "Socket_send sys buffer flags s = (if sk_isConnected s then sys (sk_sock s) buffer flags else -1)"

definition Socket_sendv :: "(int \<Rightarrow> msghdr \<Rightarrow> int \<Rightarrow> int) \<Rightarrow> string list \<Rightarrow> int \<Rightarrow> sock \<Rightarrow> int" where
  "Socket_sendv sys buffers flags s =
     (if sk_isConnected s then sys (sk_sock s) \<lparr>msg_name = None, msg_iov = buffers\<rparr> flags else -1)"

definition Socket_sendTo :: "(int \<Rightarrow> string \<Rightarrow> int \<Rightarrow> address \<Rightarrow> int) \<Rightarrow> string \<Rightarrow> address \<Rightarrow> int \<Rightarrow> sock \<Rightarrow> int" where
  "Socket_sendTo sys buffer addr flags s = (if sk_isConnected s then sys (sk_sock s) buffer flags addr else -1)"

definition Socket_sendvTo :: "(int \<Rightarrow> msghdr \<Rightarrow> int \<Rightarrow> int) \<Rightarrow> string list \<Rightarrow> address \<Rightarrow> int \<Rightarrow> sock \<Rightarrow> int" where
  "Socket_sendvTo sys buffers addr flags s =
     (if sk_isConnected s then sys (sk_sock s) \<lparr>msg_name = Some addr, msg_iov = buffers\<rparr> flags else -1)"

text \<open>
  Receiving: the result and what was written to the memory, or to its parts. The system also
  writes the address of the sender into \<open>from\<close>.
\<close>

definition Socket_recv :: "(int \<Rightarrow> nat \<Rightarrow> int \<Rightarrow> int \<times> string) \<Rightarrow> nat \<Rightarrow> int \<Rightarrow> sock \<Rightarrow> int \<times> string" where
  "Socket_recv sys len flags s = (if sk_isConnected s then sys (sk_sock s) len flags else (-1, []))"

definition Socket_recvv :: "(int \<Rightarrow> msghdr \<Rightarrow> int \<Rightarrow> int \<times> msghdr) \<Rightarrow> string list \<Rightarrow> int \<Rightarrow> sock \<Rightarrow> int \<times> string list" where
  "Socket_recvv sys buffers flags s =
     (if sk_isConnected s then
        let (rt, msg) = sys (sk_sock s) \<lparr>msg_name = None, msg_iov = buffers\<rparr> flags in (rt, msg_iov msg)
      else (-1, buffers))"

definition Socket_recvFrom ::
    "(int \<Rightarrow> nat \<Rightarrow> int \<Rightarrow> address \<Rightarrow> int \<times> string \<times> address) \<Rightarrow> nat \<Rightarrow> address \<Rightarrow> int \<Rightarrow> sock \<Rightarrow> int \<times> string \<times> address" where
  "Socket_recvFrom sys len frm flags s =
     (if sk_isConnected s then sys (sk_sock s) len flags frm else (-1, [], frm))"

definition Socket_recvvFrom ::
    "(int \<Rightarrow> msghdr \<Rightarrow> int \<Rightarrow> int \<times> msghdr) \<Rightarrow> string list \<Rightarrow> address \<Rightarrow> int \<Rightarrow> sock \<Rightarrow> int \<times> string list \<times> address" where
  "Socket_recvvFrom sys buffers frm flags s =
     (if sk_isConnected s then
        let (rt, msg) = sys (sk_sock s) \<lparr>msg_name = Some frm, msg_iov = buffers\<rparr> flags
        in (rt, msg_iov msg, case msg_name msg of Some a \<Rightarrow> a | None \<Rightarrow> frm)
      else (-1, buffers, frm))"

section \<open>Options, text, cancelling\<close>

definition getOption :: "(int \<Rightarrow> int \<Rightarrow> int \<Rightarrow> int \<times> 'a) \<Rightarrow> int \<Rightarrow> int \<Rightarrow> sock \<Rightarrow> bool \<times> 'a" where
  "getOption sys level option s = (let (rt, v) = sys (sk_sock s) level option in (if rt \<noteq> 0 then False else True, v))"

definition setOption :: "(int \<Rightarrow> int \<Rightarrow> int \<Rightarrow> 'a \<Rightarrow> int) \<Rightarrow> int \<Rightarrow> int \<Rightarrow> 'a \<Rightarrow> sock \<Rightarrow> bool" where
  "setOption sys level option v s = (if sys (sk_sock s) level option v \<noteq> 0 then False else True)"

definition SO_ERROR :: int where "SO_ERROR = 4"

definition getError :: "(int \<Rightarrow> int \<Rightarrow> int \<Rightarrow> int \<times> int) \<Rightarrow> sock \<Rightarrow> int" where
  "getError sys s = (let (ok, error) = getOption sys SOL_SOCKET SO_ERROR s in if \<not> ok then -1 else error)"

definition Socket_dump :: "endian \<Rightarrow> sock \<Rightarrow> string" where
  "Socket_dump host s =
     ''[Socket sock='' @ dec_int (sk_sock s) @ '' is_connected ='' @ (if sk_isConnected s then ''1'' else ''0'') @
     '' family='' @ dec (unat (sk_family s)) @ '' type='' @ dec_int (sk_type s) @ '' protocol='' @ dec_int (sk_protocol s) @
     (case sk_local s of Some a \<Rightarrow> '' local_address='' @ toString host a | None \<Rightarrow> []) @
     (case sk_remote s of Some a \<Rightarrow> '' remote_address='' @ toString host a | None \<Rightarrow> []) @ '']''"

text \<open>The manager of the thread is the argument; \<open>rt\<close> is the answer of \<open>epoll_ctl\<close>.\<close>

definition cancelRead :: "int \<Rightarrow> sock \<Rightarrow> ('c iomanager, bool \<times> 'c dispatch list) call" where
  "cancelRead rt s = cancelEvent (sk_sock s) EV_READ rt"

definition cancelWrite :: "int \<Rightarrow> sock \<Rightarrow> ('c iomanager, bool \<times> 'c dispatch list) call" where
  "cancelWrite rt s = cancelEvent (sk_sock s) EV_WRITE rt"

definition cancelAccept :: "int \<Rightarrow> sock \<Rightarrow> ('c iomanager, bool \<times> 'c dispatch list) call" where
  "cancelAccept rt s = cancelEvent (sk_sock s) EV_READ rt"

definition Socket_cancelAll :: "int \<Rightarrow> sock \<Rightarrow> ('c iomanager, bool \<times> 'c dispatch list) call" where
  "Socket_cancelAll rt s = cancelAll (sk_sock s) rt"

section \<open>Timeouts\<close>

text \<open>\<open>setSendTimeout\<close> and \<open>setRecvTimeout\<close> narrow both parts of the \<open>timeval\<close> to \<open>int\<close>.\<close>

definition timeval_of :: "u64 \<Rightarrow> u64 \<times> u64" where
  "timeval_of v = (scast (ucast (v div 1000) :: u32), scast (ucast (v mod 1000 * 1000) :: u32))"

definition setSockTimeout :: "bool \<Rightarrow> int \<Rightarrow> u64 \<Rightarrow> fd_ctx option \<Rightarrow> fd_ctx option" where
  "setSockTimeout hook optname v fdc =
     (let (sec, usec) = timeval_of v in hooked_setsockopt hook True optname sec usec fdc)"

definition getSockTimeout :: "int \<Rightarrow> fd_ctx option \<Rightarrow> int" where
  "getSockTimeout optname fdc = (case fdc of Some c \<Rightarrow> sint (getTimeout optname c) | None \<Rightarrow> -1)"

section \<open>Properties\<close>

subsection \<open>Descriptors\<close>

text \<open>What a list of calls does to the set of open descriptors.\<close>

fun held :: "int set \<Rightarrow> sock_call list \<Rightarrow> int set" where
  "held fds [] = fds"
| "held fds (Call_socket fd # cs) = held (if fd = -1 then fds else insert fd fds) cs"
| "held fds (Call_accept fd # cs) = held (if fd = -1 then fds else insert fd fds) cs"
| "held fds (Call_close fd # cs) = held (fds - {fd}) cs"
| "held fds (_ # cs) = held fds cs"

lemma held_append: "held fds (as @ bs) = held (held fds as) bs"
  by (induction fds as rule: held.induct) simp_all

lemma held_options [simp]: "held fds (initSock s) = fds"
  by (simp add: initSock_def)

inductive sock_step :: "sock \<times> int set \<Rightarrow> sock \<times> int set \<Rightarrow> bool" where
  bind: "Socket_bind k addr s = (b, s', cs) \<Longrightarrow> sock_step (s, fds) (s', held fds cs)"
| connect: "Socket_connect k addr t s = (b, s', cs) \<Longrightarrow> sock_step (s, fds) (s', held fds cs)"
| listen: "Socket_listen k s = (b, s', cs) \<Longrightarrow> sock_step (s, fds) (s', held fds cs)"
| close: "Socket_close s = (b, s', cs) \<Longrightarrow> sock_step (s, fds) (s', held fds cs)"
| peer: "getRemoteAddress k s = (a, s') \<Longrightarrow> sock_step (s, fds) (s', fds)"
| name: "getLocalAddress k s = (a, s') \<Longrightarrow> sock_step (s, fds) (s', fds)"

definition owns :: "sock \<times> int set \<Rightarrow> bool" where
  "owns = (\<lambda>(s, fds). fds = (if sk_sock s = -1 then {} else {sk_sock s}) \<and> (sk_isConnected s \<longrightarrow> sk_sock s \<noteq> -1))"

lemma address_frame [simp]:
  "sk_family (snd (getLocalAddress k s)) = sk_family s" "sk_family (snd (getRemoteAddress k s)) = sk_family s"
  "sk_sock (snd (getLocalAddress k s)) = sk_sock s" "sk_isConnected (snd (getLocalAddress k s)) = sk_isConnected s"
  "sk_sock (snd (getRemoteAddress k s)) = sk_sock s" "sk_isConnected (snd (getRemoteAddress k s)) = sk_isConnected s"
  by (simp_all add: getLocalAddress_def getRemoteAddress_def Let_def split: option.split)

lemma ensure_valid_owns:
  assumes "owns (s, fds)" "ensure_valid k s = (s', cs)"
  shows "owns (s', held fds cs)"
  using assms by (auto simp: ensure_valid_def newSock_def owns_def isValid_def Let_def split: if_splits)

lemma close_owns:
  assumes "owns (s, fds)" "Socket_close s = (b, s', cs)"
  shows "owns (s', held fds cs) \<and> held fds cs = {}"
  using assms by (auto simp: Socket_close_def owns_def Let_def split: if_splits)

lemma connect_cases:
  assumes "Socket_connect k addr t s = (b, s', cs)" "ensure_valid k s = (s1, c1)" "Socket_close s1 = (b2, s2, c2)"
  shows "s' = s1 \<and> cs = c1 \<or> s' = s2 \<and> cs = c1 @ Call_connect (sk_sock s1) t # c2 \<or>
    isValid s1 \<and> sk_sock s' = sk_sock s1 \<and> cs = c1 @ [Call_connect (sk_sock s1) t]"
proof (cases "isValid s1 \<and> getFamily addr = sk_family s1 \<and> k_connect k = 0")
  case True
  then have "s' = snd (getLocalAddress k (snd (getRemoteAddress k (s1\<lparr>sk_isConnected := True\<rparr>))))"
      "cs = c1 @ [Call_connect (sk_sock s1) t]"
    using assms(1,2) by (simp_all add: Socket_connect_def Let_def)
  then show ?thesis using True by simp
next
  case False
  then show ?thesis using assms by (cases "isValid s1"; cases "getFamily addr = sk_family s1") (simp_all add: Socket_connect_def Let_def)
qed

lemma bind_cases:
  assumes "Socket_bind k addr s = (b, s', cs)" "ensure_valid k s = (s1, c1)"
  shows "sk_sock s' = sk_sock s1 \<and> sk_isConnected s' = sk_isConnected s1 \<and> (cs = c1 \<or> cs = c1 @ [Call_bind (sk_sock s1)])"
proof (cases "isValid s1 \<and> getFamily addr = sk_family s1 \<and> k_bind k = 0")
  case True
  then have "s' = snd (getLocalAddress k s1)" "cs = c1 @ [Call_bind (sk_sock s1)]"
    using assms by (simp_all add: Socket_bind_def Let_def)
  then show ?thesis by simp
next
  case False
  then show ?thesis using assms by (cases "isValid s1"; cases "getFamily addr = sk_family s1") (simp_all add: Socket_bind_def Let_def)
qed

lemma sock_step_owns: "sock_step x y \<Longrightarrow> owns x \<Longrightarrow> owns y"
proof (induction rule: sock_step.induct)
  case (bind k addr s b s' cs fds)
  obtain s1 c1 where v: "ensure_valid k s = (s1, c1)" by fastforce
  note o = ensure_valid_owns [OF bind.prems v]
  note e = bind_cases [OF bind.hyps v]
  have "held fds cs = held fds c1" using e by (auto simp: held_append)
  then show ?case using o e by (simp add: owns_def)
next
  case (connect k addr t s b s' cs fds)
  obtain s1 c1 where v: "ensure_valid k s = (s1, c1)" by fastforce
  obtain b2 s2 c2 where c: "Socket_close s1 = (b2, s2, c2)" by (cases "Socket_close s1")
  note o = ensure_valid_owns [OF connect.prems v]
  from connect_cases [OF connect.hyps v c] show ?case
  proof (elim disjE conjE)
    assume "s' = s1" "cs = c1"
    then show ?case using o by simp
  next
    assume e: "s' = s2" "cs = c1 @ Call_connect (sk_sock s1) t # c2"
    have h: "held fds cs = held (held fds c1) c2" by (simp add: e(2) held_append)
    show ?case using close_owns [OF o c] unfolding h e(1) by blast
  next
    assume "isValid s1" "sk_sock s' = sk_sock s1" "cs = c1 @ [Call_connect (sk_sock s1) t]"
    then show ?case using o by (simp add: held_append owns_def isValid_def)
  qed
next
  case (listen k s b s' cs fds)
  then show ?case by (auto simp: Socket_listen_def split: if_splits)
next
  case (close s b s' cs fds)
  then show ?case using close_owns by blast
next
  case (peer k s a s' fds)
  then show ?case using address_frame(5,6) [of k s] by (simp add: owns_def)
next
  case (name k s a s' fds)
  then show ?case using address_frame(3,4) [of k s] by (simp add: owns_def)
qed



text \<open>
  An accepted descriptor is either the new socket's or lost: \<open>accept\<close> gives a connected
  socket that holds it exactly when the table has it as an open socket, as it has after the
  hooked call; without the hook it returns null with the descriptor open, and nothing of the
  program knows it any more.
\<close>

theorem accepted_or_lost:
  assumes "k_accept k = fd" "0 \<le> fd" "64 \<le> length table" "fd_entry table (nat fd) = None" "fstat_socket os = Some True"
  shows "(\<exists>s' cs. Socket_accept k (snd (FdManager_get fd True os table)) s = Inr (Some s', cs) \<and>
      sk_sock s' = fd \<and> sk_isConnected s' \<and> sk_family s' = sk_family s \<and> held {} cs = {fd}) \<and>
    Socket_accept k table s = Inr (None, [Call_accept fd]) \<and> held {} [Call_accept fd] = {fd}"
proof (intro conjI)
  let ?t = "snd (FdManager_get fd True os table)"
  have "get_lookup fd True table = Inr None"
    using assms(2,4) by (auto simp: get_lookup_def fd_entry_def split: if_splits)
  then have t: "?t = snd (get_create fd os table)" by (simp add: FdManager_get_def split: prod.split)
  have e: "fd_entry ?t (nat fd) = Some (fst (FdCtx_new fd os))" "64 \<le> length ?t"
    unfolding t using create_entry [OF assms(3,2), of os] by simp_all
  then have l: "get_lookup fd False ?t = Inr (Some (Some (fst (FdCtx_new fd os))))"
    using assms(2) by (auto simp: get_lookup_def fd_entry_def split: if_splits)
  have c: "m_isSocket (fst (FdCtx_new fd os))" "\<not> m_isClosed (fst (FdCtx_new fd os))"
    using assms(5) by (simp_all add: FdCtx_new_def FdCtx_init_def Let_def)
  show "\<exists>s' cs. Socket_accept k ?t s = Inr (Some s', cs) \<and> sk_sock s' = fd \<and> sk_isConnected s' \<and>
      sk_family s' = sk_family s \<and> held {} cs = {fd}"
    using l c assms(1,2) by (auto simp: Socket_accept_def Socket_init_def Let_def held_append Socket_new_def)
  have "get_lookup fd False table = Inr (Some None)"
    using assms(2,4) by (auto simp: get_lookup_def fd_entry_def split: if_splits)
  then show "Socket_accept k table s = Inr (None, [Call_accept fd])"
    using assms(1,2) by (simp add: Socket_accept_def Socket_init_def Let_def Socket_new_def Socket_close_def)
  show "held {} [Call_accept fd] = {fd}" using assms(2) by simp
qed

lemma accepted_or_lost_witness:
  "Socket_accept \<lparr>k_socket = -1, k_accept = 9, k_bind = -1, k_connect = -1, k_listen = -1, k_sockname = None, k_peername = None\<rparr>
     FdManager_new CreateTCPSocket = Inr (None, [Call_accept 9])"
  by (rule accepted_or_lost [of _ 9 _ "\<lparr>fstat_socket = Some True, getfl = 2\<rparr>", THEN conjunct2, THEN conjunct1])
    (simp_all add: FdManager_new_def fd_entry_def)

text \<open>
  A socket keeps the names it was first asked for: once a socket knows its peer, closing it
  and connecting it to another one leaves \<open>getRemoteAddress\<close> with the old peer, whatever the
  system would answer.
\<close>

theorem reconnected_name_stale:
  assumes "sk_remote s = Some a" "Socket_connect k addr t (fst (snd (Socket_close s))) = (True, s', cs)"
  shows "fst (getRemoteAddress k' s') = a \<and> sk_isConnected s'"
proof -
  obtain s1 c1 where v: "ensure_valid k (fst (snd (Socket_close s))) = (s1, c1)" by fastforce
  have "sk_remote (fst (snd (Socket_close s))) = Some a" using assms(1) by (simp add: Socket_close_def Let_def)
  then have r: "sk_remote s1 = Some a" using v by (auto simp: ensure_valid_def newSock_def Let_def split: if_splits)
  have "isValid s1 \<and> getFamily addr = sk_family s1 \<and> k_connect k = 0"
    using assms(2) v
    by (cases "isValid s1"; cases "getFamily addr = sk_family s1"; cases "k_connect k = 0")
      (simp_all add: Socket_connect_def Let_def split: prod.splits)
  then have "s' = snd (getLocalAddress k (snd (getRemoteAddress k (s1\<lparr>sk_isConnected := True\<rparr>))))"
    using assms(2) v by (simp add: Socket_connect_def Let_def)
  then show ?thesis using r by (simp add: getRemoteAddress_def getLocalAddress_def Let_def split: option.split)
qed

lemma sint_small: "unat w < 2 ^ 63 \<Longrightarrow> sint (w :: u64) = int (unat w)"
proof -
  assume a: "unat w < 2 ^ 63"
  have "sint (of_nat (unat w) :: u64) = int (unat w)"
    using a by (simp add: signed_of_nat signed_take_bit_int_eq_self del: of_nat_unat)
  then show ?thesis by simp
qed

lemma int_part: "w < 2 ^ 31 \<Longrightarrow> scast (ucast (w :: u64) :: u32) = w"
proof -
  assume "w < 2 ^ 31"
  then have b: "unat w < 2 ^ 31" by (simp add: word_less_nat_alt)
  have "(ucast w :: u32) = of_nat (unat w)" by (metis of_nat_unat)
  then have "sint (ucast w :: u32) = int (unat w)"
    using b by (simp add: signed_of_nat signed_take_bit_int_eq_self del: of_nat_unat)
  then show ?thesis by (simp add: scast_eq)
qed

lemma timeval_parts:
  assumes "(v :: u64) < 2 ^ 31 * 1000" 
  shows "v div 1000 < 2 ^ 31" "v mod 1000 * 1000 < 2 ^ 31" "unat (v mod 1000 * 1000) = unat v mod 1000 * 1000" 
proof -
  have n: "unat v < 2 ^ 31 * 1000" using assms by (simp add: word_less_nat_alt)
  show "v div 1000 < 2 ^ 31" using n by (simp add: word_less_nat_alt unat_div less_mult_imp_div_less)
  have "unat v mod 1000 < 1000" by simp
  then have "unat v mod 1000 * 1000 < 1000000" by linarith
  then show u: "unat (v mod 1000 * 1000) = unat v mod 1000 * 1000"
    by (simp add: unat_word_ariths(2) unat_mod)
  show "v mod 1000 * 1000 < 2 ^ 31" using u \<open>unat v mod 1000 * 1000 < 1000000\<close> by (simp add: word_less_nat_alt)
qed

text \<open>
  A timeout that is set is read back to the millisecond while its seconds fit an \<open>int\<close>; the
  first value beyond comes back negative.
\<close>

theorem timeout_roundtrip:
  assumes "optname = SO_RCVTIMEO \<or> optname = SO_SNDTIMEO" "v < 2 ^ 31 * 1000"
  shows "getSockTimeout optname (setSockTimeout True optname v (Some c)) = int (unat v) \<and>
    getSockTimeout optname (setSockTimeout True optname (2 ^ 31 * 1000) (Some c)) < 0"
proof -
  have g: "getSockTimeout optname (setSockTimeout True optname v (Some c)) =
      sint (fst (timeval_of v) * 1000 + word_of_int (sint (snd (timeval_of v)) sdiv 1000))" for v
    using assms(1)
    by (auto simp: setSockTimeout_def getSockTimeout_def hooked_setsockopt_def setTimeout_def getTimeout_def SO_RCVTIMEO_def
        SO_SNDTIMEO_def split: prod.split)
  note p = timeval_parts [OF assms(2)]
  have n: "unat v < 2 ^ 31 * 1000" using assms(2) by (simp add: word_less_nat_alt)
  have "unat (v mod 1000 * 1000) < 2 ^ 31" using p(2) by (simp add: word_less_nat_alt)
  then have "sint (v mod 1000 * 1000) = int (unat v mod 1000 * 1000)"
    unfolding p(3) [symmetric] by (intro sint_small) simp
  then have "sint (v mod 1000 * 1000) sdiv 1000 = int (unat v mod 1000)"
    by (simp add: signed_divide_int_def sgn_if)
  then have "(word_of_int (sint (v mod 1000 * 1000) sdiv 1000) :: u64) = of_nat (unat (v mod 1000))"
    by (simp add: unat_mod)
  then have "fst (timeval_of v) * 1000 + word_of_int (sint (snd (timeval_of v)) sdiv 1000) = v"
    using p(1,2) by (simp add: timeval_of_def int_part div_mult_mod_eq)
  moreover have "sint v = int (unat v)" using n by (intro sint_small) simp
  ultimately have "getSockTimeout optname (setSockTimeout True optname v (Some c)) = int (unat v)" using g by simp
  moreover have "getSockTimeout optname (setSockTimeout True optname (2 ^ 31 * 1000) (Some c)) < 0"
    unfolding g by (simp add: timeval_of_def)
  ultimately show ?thesis by blast
qed

lemma timeout_roundtrip_witness:
  "getSockTimeout SO_RCVTIMEO (setSockTimeout True SO_RCVTIMEO 1500 (Some (fd_ctx.make True True True False False 5 100 no_timeout))) = 1500"
  using timeout_roundtrip [of SO_RCVTIMEO 1500 "fd_ctx.make True True True False False 5 100 no_timeout"] by simp

lemma reconnected_name_stale_witness:
  "\<forall>k'. fst (getRemoteAddress k' (fst (snd (Socket_connect
     \<lparr>k_socket = 8, k_accept = -1, k_bind = 0, k_connect = 0, k_listen = 0, k_sockname = None, k_peername = None\<rparr>
     (UnknownAddress_new AF_INET) 0
     (CreateTCPSocket\<lparr>sk_remote := Some UnixAddress_any\<rparr>))))) = UnixAddress_any"
proof -
  let ?k = "\<lparr>k_socket = 8, k_accept = -1, k_bind = 0, k_connect = 0, k_listen = 0, k_sockname = None, k_peername = None\<rparr>"
  let ?s = "CreateTCPSocket\<lparr>sk_remote := Some UnixAddress_any\<rparr>" and ?a = "UnknownAddress_new AF_INET"
  have c: "fst (snd (Socket_close ?s)) = ?s" by (simp add: Socket_close_def CreateTCPSocket_def Socket_new_def)
  have "fst (Socket_connect ?k ?a 0 ?s)"
    by (simp add: Socket_connect_def ensure_valid_def newSock_def isValid_def CreateTCPSocket_def Socket_new_def UnknownAddress_new_def Let_def)
  then have "Socket_connect ?k ?a 0 (fst (snd (Socket_close ?s))) =
      (True, fst (snd (Socket_connect ?k ?a 0 ?s)), snd (snd (Socket_connect ?k ?a 0 ?s)))"
    unfolding c by (metis prod.collapse)
  from reconnected_name_stale [OF _ this] show ?thesis by simp
qed

text \<open>The sockets that come from one by calls of \<open>bind\<close>.\<close>

inductive binds :: "sock \<Rightarrow> sock \<Rightarrow> bool" where
  none: "binds s s"
| bound: "binds s s' \<Longrightarrow> Socket_bind k addr s' = (b, s'', cs) \<Longrightarrow> binds s s''"

lemma ensure_valid_connected: "ensure_valid k s = (s', cs) \<Longrightarrow> sk_isConnected s' = sk_isConnected s"
  by (auto simp: ensure_valid_def newSock_def Let_def split: if_splits)

lemma binds_connected: "binds s s' \<Longrightarrow> sk_isConnected s' = sk_isConnected s"
proof (induction rule: binds.induct)
  case (bound s s' k addr b s'' cs)
  obtain s1 c1 where v: "ensure_valid k s' = (s1, c1)" by fastforce
  show ?case using bind_cases [OF bound.hyps(2) v] ensure_valid_connected [OF v] bound.IH by simp
qed simp

text \<open>
  A datagram socket that is only bound is mute: after \<open>CreateUDP\<close> and any number of \<open>bind\<close>s
  every \<open>sendTo\<close> and \<open>recvFrom\<close> fails with -1 and makes no call of the system, since all of them
  ask for a connected socket and only \<open>connect\<close> and \<open>accept\<close> make one.
\<close>

theorem bound_udp_mute:
  assumes "binds (CreateUDP addr) s"
  shows "Socket_sendTo sys buffer dest flags s = -1 \<and> Socket_sendvTo sysv buffers dest flags s = -1 \<and>
    Socket_recvFrom sysr len frm flags s = (-1, [], frm) \<and> Socket_recvvFrom sysrv buffers frm flags s = (-1, buffers, frm)"
  using binds_connected [OF assms]
  by (simp add: CreateUDP_def Socket_new_def Socket_sendTo_def Socket_sendvTo_def Socket_recvFrom_def Socket_recvvFrom_def)

lemma bound_udp_mute_witness:
  "Socket_sendTo (\<lambda>fd buffer flags dest. int (length buffer)) ''ping'' (UnknownAddress_new AF_INET) 0
     (CreateUDP (UnknownAddress_new AF_INET)) = -1"
  using bound_udp_mute [OF binds.none] by blast

end
