(* ===== verification/Streams.thy ===== *)
theory Streams
  imports Sockets Texts
begin

text \<open>
  Streams (\<open>sylar/stream.h\<close>, \<open>sylar/stream.cc\<close>, \<open>sylar/socket_stream.h\<close>,
  \<open>sylar/socket_stream.cc\<close>). The other end of a connected socket is part of the state: what
  it still sends, in the pieces in which the kernel will deliver it, how much of each write it
  accepts, and what it has been sent. An operation that waits for the peer for ever, or loops
  for ever, has the result \<open>None\<close>: the loops are partial functions.

  The loops of \<open>readFixSize\<close> and \<open>writeFixSize\<close> keep the \<open>int\<close> that a read or a write returns in
  a \<open>size_t\<close>, so -1 is \<open>2^64 - 1\<close>, the test for a negative length is never true, and the offset
  goes back by one.
\<close>

section \<open>State\<close>

datatype arrival = Piece string | Peer_closed | Recv_failed

datatype acceptance = Accepts nat | Send_failed

record stream =
  m_socket :: "sock option"
  m_owner :: bool
  incoming :: "arrival list"
  outgoing :: "acceptance list"
  sent :: string

type_synonym 'a io = "stream \<Rightarrow> ((fault + 'a) \<times> stream) option"

definition isConnected :: "stream \<Rightarrow> bool" where
  "isConnected s = (case m_socket s of None \<Rightarrow> False | Some k \<Rightarrow> sk_isConnected k)"

definition SocketStream_new :: "sock option \<Rightarrow> bool \<Rightarrow> arrival list \<Rightarrow> acceptance list \<Rightarrow> stream" where
  "SocketStream_new k owner ins outs =
     \<lparr>m_socket = k, m_owner = owner, incoming = ins, outgoing = outs, sent = []\<rparr>"

definition stream_close :: "stream \<Rightarrow> stream" where
  "stream_close s = s\<lparr>m_socket := map_option (\<lambda>k. fst (snd (Socket_close k))) (m_socket s)\<rparr>"

definition SocketStream_delete :: "stream \<Rightarrow> sock_call list" where
  "SocketStream_delete s =
     (case m_socket s of Some k \<Rightarrow> if m_owner s then snd (snd (Socket_close k)) else [] | None \<Rightarrow> [])"

section \<open>One read, one write\<close>

text \<open>
  The kernel's \<open>recv\<close> and \<open>send\<close> of at most \<open>n\<close> bytes. An end of the stream stays an end; what
  of a piece does not fit is delivered later.
\<close>

definition kernel_recv :: "nat \<Rightarrow> stream \<Rightarrow> (int \<times> string \<times> stream) option" where
  "kernel_recv n s =
     (case incoming s of
        [] \<Rightarrow> None
      | Piece t # es \<Rightarrow>
          if length t \<le> n then Some (int (length t), t, s\<lparr>incoming := es\<rparr>)
          else Some (int n, take n t, s\<lparr>incoming := Piece (drop n t) # es\<rparr>)
      | Peer_closed # es \<Rightarrow> Some (0, [], s)
      | Recv_failed # es \<Rightarrow> Some (-1, [], s\<lparr>incoming := es\<rparr>))"

definition kernel_send :: "string \<Rightarrow> stream \<Rightarrow> (int \<times> stream) option" where
  "kernel_send t s =
     (case outgoing s of
        [] \<Rightarrow> None
      | Accepts k # es \<Rightarrow> let n = min k (length t)
          in Some (int n, s\<lparr>outgoing := es, sent := sent s @ take n t\<rparr>)
      | Send_failed # es \<Rightarrow> Some (-1, s\<lparr>outgoing := es\<rparr>))"

text \<open>\<open>SocketStream::read\<close> and \<open>write\<close>: the result and the bytes that were read.\<close>

definition stream_read :: "nat \<Rightarrow> stream \<Rightarrow> (int \<times> string \<times> stream) option" where
  "stream_read n s = (if \<not> isConnected s then Some (-1, [], s) else kernel_recv n s)"

definition stream_write :: "string \<Rightarrow> stream \<Rightarrow> (int \<times> stream) option" where
  "stream_write t s = (if \<not> isConnected s then Some (-1, s) else kernel_send t s)"

section \<open>Reading and writing a fixed size\<close>

text \<open>
  The loop of \<open>readFixSize\<close>: \<open>buffer\<close> is the memory from the pointer to its end. Bytes that
  arrive for a place outside of it are undefined behaviour.
\<close>

partial_function (option) readFix_loop :: "u64 \<Rightarrow> u64 \<Rightarrow> string \<Rightarrow> string io" where
  "readFix_loop offset left buffer s =
     (if left = 0 then Some (Inr buffer, s) else
      Option.bind (stream_read (unat left) s) (\<lambda>(rt, t, s).
        let len = word_of_int rt :: u64 in
        if t \<noteq> [] \<and> length buffer < unat offset + length t then Some (Inl Undefined, s)
        else readFix_loop (offset + len) (left - len) (overwrite (unat offset) t buffer) s))"

definition readFixSize :: "u64 \<Rightarrow> string \<Rightarrow> (int \<times> string) io" where
  "readFixSize n buffer s =
     map_option (\<lambda>(r, s). (map_sum id (Pair (sint (ucast n :: u32))) r, s)) (readFix_loop 0 n buffer s)"

text \<open>The loop of \<open>writeFixSize\<close> over the memory \<open>buffer\<close>.\<close>

partial_function (option) writeFix_loop :: "u64 \<Rightarrow> u64 \<Rightarrow> string \<Rightarrow> unit io" where
  "writeFix_loop offset left buffer s =
     (if left = 0 then Some (Inr (), s) else
      if isConnected s \<and> length buffer < unat offset + unat left then Some (Inl Undefined, s) else
      Option.bind (stream_write (take (unat left) (drop (unat offset) buffer)) s) (\<lambda>(rt, s).
        let len = word_of_int rt :: u64 in writeFix_loop (offset + len) (left - len) buffer s))"

definition writeFixSize :: "string \<Rightarrow> u64 \<Rightarrow> int io" where
  "writeFixSize buffer n s =
     map_option (\<lambda>(r, s). (map_sum id (\<lambda>_. sint (ucast n :: u32)) r, s)) (writeFix_loop 0 n buffer s)"

section \<open>Properties\<close>

lemma isConnected_simps [simp]:
  "isConnected (s\<lparr>incoming := a\<rparr>) = isConnected s" "isConnected (s\<lparr>outgoing := b\<rparr>) = isConnected s"
  "isConnected (s\<lparr>sent := c\<rparr>) = isConnected s"
  by (simp_all add: isConnected_def)

declare readFix_loop.simps [code] writeFix_loop.simps [code]

lemma readFix_done: "readFix_loop offset 0 buffer s = Some (Inr buffer, s)"
  by (simp add: readFix_loop.simps)

lemma readFix_step:
  "left \<noteq> 0 \<Longrightarrow> stream_read (unat left) s = Some (rt, t, s') \<Longrightarrow> readFix_loop offset left buffer s =
    (if t \<noteq> [] \<and> length buffer < unat offset + length t then Some (Inl Undefined, s')
     else readFix_loop (offset + word_of_int rt) (left - word_of_int rt) (overwrite (unat offset) t buffer) s')"
  by (subst readFix_loop.simps) (simp add: Let_def)

text \<open>A piece that is wanted as a whole, and one that is more than is wanted.\<close>

lemma readFix_piece:
  assumes "isConnected s" "incoming s = Piece t # es" "left \<noteq> 0" "length t \<le> unat left"
    and "unat offset + unat left \<le> length buffer"
  shows "readFix_loop offset left buffer s =
    readFix_loop (offset + of_nat (length t)) (left - of_nat (length t)) (overwrite (unat offset) t buffer) (s\<lparr>incoming := es\<rparr>)"
  using assms by (subst readFix_step [where rt = "int (length t)"]) (auto simp: stream_read_def kernel_recv_def)

lemma readFix_pieces:
  assumes "isConnected s" "incoming s = map Piece ts @ es" "unat left \<le> length (concat ts)"
    and "unat offset + unat left \<le> length buffer" "length buffer < 2 ^ 64"
  shows "\<exists>ts'. concat ts' = drop (unat left) (concat ts) \<and> readFix_loop offset left buffer s =
    Some (Inr (overwrite (unat offset) (take (unat left) (concat ts)) buffer), s\<lparr>incoming := map Piece ts' @ es\<rparr>)"
  using assms
proof (induction ts arbitrary: s left offset buffer)
  case Nil
  then have "left = 0" by (simp add: unat_eq_zero)
  then show ?case using Nil by (intro exI [of _ "[]"]) (simp add: readFix_done)
next
  case (Cons t ts)
  show ?case
  proof (cases "left = 0")
    case True
    then show ?thesis using Cons.prems by (intro exI [of _ "t # ts"]) (simp add: readFix_done)
  next
    case False
    show ?thesis
    proof (cases "length t \<le> unat left")
      case fits: True
      let ?o = "offset + of_nat (length t)" and ?l = "left - of_nat (length t)" and ?b = "overwrite (unat offset) t buffer"
      have t: "unat (of_nat (length t) :: u64) = length t"
        by (rule of_nat_inverse [OF refl le_less_trans [OF fits unsigned_less]])
      have l: "unat ?l = unat left - length t" using fits t by (simp add: unat_sub word_le_nat_alt)
      have o: "unat ?o = unat offset + length t" using fits t Cons.prems(4,5) by (subst unat_add_lem [THEN iffD1]) simp_all
      have b: "length ?b = length buffer" using fits Cons.prems(4) by simp
      have "\<exists>ts'. concat ts' = drop (unat ?l) (concat ts) \<and> readFix_loop ?o ?l ?b (s\<lparr>incoming := map Piece ts @ es\<rparr>) =
          Some (Inr (overwrite (unat ?o) (take (unat ?l) (concat ts)) ?b), s\<lparr>incoming := map Piece ts @ es\<rparr>\<lparr>incoming := map Piece ts' @ es\<rparr>)"
        using Cons.prems fits by (intro Cons.IH) (simp_all add: l o b)
      moreover have "readFix_loop offset left buffer s = readFix_loop ?o ?l ?b (s\<lparr>incoming := map Piece ts @ es\<rparr>)"
        using Cons.prems False fits by (intro readFix_piece) simp_all
      moreover have "overwrite (unat ?o) (take (unat ?l) (concat ts)) ?b =
          overwrite (unat offset) (take (unat left) (concat (t # ts))) buffer"
        using fits Cons.prems(4) by (simp add: o l overwrite_split)
      moreover have "drop (unat ?l) (concat ts) = drop (unat left) (concat (t # ts))" using fits by (simp add: l)
      ultimately show ?thesis by auto
    next
      case False': False
      let ?m = "unat left"
      have "readFix_loop offset left buffer s =
          readFix_loop (offset + left) 0 (overwrite (unat offset) (take ?m t) buffer) (s\<lparr>incoming := Piece (drop ?m t) # map Piece ts @ es\<rparr>)"
        using Cons.prems False False'
        by (subst readFix_step [where rt = "int ?m"]) (auto simp: stream_read_def kernel_recv_def)
      then show ?thesis using False' by (intro exI [of _ "drop ?m t # ts"]) (simp add: readFix_done)
    qed
  qed
qed

text \<open>
  C29. A fixed size is read whatever the pieces are in which it arrives: if a connected peer
  sends at least that many bytes before its stream ends or fails, \<open>readFixSize\<close> returns with
  exactly the first of them in the buffer, in order, nothing else in the buffer changed, and
  what came after them is still to be read.
\<close>

theorem readFixSize_reassembles:
  assumes "isConnected s" "incoming s = map Piece ts @ es" "n \<le> length (concat ts)" "n \<le> length buffer" "length buffer < 2 ^ 31"
  shows "\<exists>ts'. concat ts' = drop n (concat ts) \<and>
    readFixSize (of_nat n) buffer s =
      Some (Inr (int n, overwrite 0 (take n (concat ts)) buffer), s\<lparr>incoming := map Piece ts' @ es\<rparr>)"
proof -
  have n: "unat (of_nat n :: u64) = n" using assms(4,5) by (intro of_nat_inverse [OF refl]) simp
  have "(ucast (of_nat n :: u64) :: u32) = of_nat n" using n by (metis of_nat_unat)
  then have i: "sint (ucast (of_nat n :: u64) :: u32) = int n"
    using assms(4,5) by (simp add: signed_of_nat signed_take_bit_int_eq_self)
  from readFix_pieces [OF assms(1,2), of "of_nat n" 0 buffer] show ?thesis
    using assms(3-5) n i by (auto simp: readFixSize_def)
qed

lemma readFixSize_reassembles_witness:
  "\<exists>ts'. concat ts' = ''lo'' \<and>
    readFixSize 3 ''....'' (SocketStream_new (Some (CreateTCPSocket\<lparr>sk_isConnected := True\<rparr>)) True [Piece ''h'', Piece ''ello'', Peer_closed] []) =
      Some (Inr (3, ''hel.''),
        SocketStream_new (Some (CreateTCPSocket\<lparr>sk_isConnected := True\<rparr>)) True (map Piece ts' @ [Peer_closed]) [])"
  using readFixSize_reassembles [of "SocketStream_new (Some (CreateTCPSocket\<lparr>sk_isConnected := True\<rparr>)) True [Piece ''h'', Piece ''ello'', Peer_closed] []"
      "[''h'', ''ello'']" "[Peer_closed]" 3 "''....''"]
  by (simp add: isConnected_def SocketStream_new_def overwrite_def numeral_3_eq_3)

subsection \<open>Failures\<close>

text \<open>Reads that fail bring nothing and add one to what is left, until it has wrapped to zero.\<close>

lemma readFix_unconnected:
  "\<not> isConnected s \<Longrightarrow> readFix_loop offset left buffer s = Some (Inr buffer, s)"
proof (induction "unat (- left)" arbitrary: offset left rule: less_induct)
  case less
  show ?case
  proof (cases "left = 0")
    case True
    then show ?thesis by (simp add: readFix_done)
  next
    case False
    then have "unat (- left - 1) = unat (- left) - 1" "0 < unat (- left)" by (simp_all add: unat_minus_one unat_gt_0)
    then have "unat (- (left + 1)) < unat (- left)" by simp
    then have "readFix_loop (offset - 1) (left + 1) buffer s = Some (Inr buffer, s)" using less by blast
    then show ?thesis using False less.prems by (subst readFix_step [where rt = "-1" and t = "[]" and s' = s]) (simp_all add: stream_read_def)
  qed
qed

text \<open>The end of the stream is a read of nothing, again and again.\<close>

lemma readFix_closed:
  assumes "isConnected s" "incoming s = Peer_closed # es" "left \<noteq> 0"
  shows "readFix_loop offset left buffer s = None"
proof -
  let ?P = "\<lambda>offset left buffer s r. \<not> (left \<noteq> (0 :: u64) \<and> isConnected s \<and> incoming s = Peer_closed # es)"
  have "?P offset left buffer s r" if "readFix_loop offset left buffer s = Some r" for r
  proof (rule readFix_loop.raw_induct [of ?P, OF _ that])
    fix f :: "u64 \<Rightarrow> u64 \<Rightarrow> string \<Rightarrow> string io" and offset left buffer s r
    assume ih: "\<And>offset left buffer s r. f offset left buffer s = Some r \<Longrightarrow> ?P offset left buffer s r"
      and b: "(if left = 0 then Some (Inr buffer, s) else
        Option.bind (stream_read (unat left) s) (\<lambda>(rt, t, s).
          let len = word_of_int rt :: u64 in
          if t \<noteq> [] \<and> length buffer < unat offset + length t then Some (Inl Undefined, s)
          else f (offset + len) (left - len) (overwrite (unat offset) t buffer) s)) = Some r"
    show "?P offset left buffer s r"
    proof
      assume a: "left \<noteq> 0 \<and> isConnected s \<and> incoming s = Peer_closed # es"
      then have "stream_read (unat left) s = Some (0, [], s)" by (simp add: stream_read_def kernel_recv_def)
      then have "f offset left buffer s = Some r" using b a by simp
      from ih [OF this] a show False by blast
    qed
  qed
  then show ?thesis using assms by (cases "readFix_loop offset left buffer s") blast+
qed

lemma far_back: "n < 2 ^ 63 \<Longrightarrow> n < unat (- 1 :: u64) + m"
proof -
  have "unat (- 1 :: u64) = 2 ^ 64 - 1" by (simp add: unsigned_minus_1_eq_mask mask_eq_exp_minus_1)
  then show "n < 2 ^ 63 \<Longrightarrow> ?thesis" by simp
qed

lemma readFix_failed:
  assumes "isConnected s" "incoming s = Recv_failed # Piece (c # t) # es" "left \<noteq> 0" "left + 1 \<noteq> 0" "length buffer < 2 ^ 63"
  shows "map_option fst (readFix_loop 0 left buffer s) = Some (Inl Undefined)"
proof -
  let ?s = "s\<lparr>incoming := Piece (c # t) # es\<rparr>"
  have "readFix_loop 0 left buffer s = readFix_loop (- 1) (left + 1) buffer ?s"
    using assms by (subst readFix_step [where rt = "-1" and t = "[]" and s' = ?s]) (simp_all add: stream_read_def kernel_recv_def)
  moreover have "0 < unat (left + 1)" using assms(4) by (simp add: unat_gt_0)
  then obtain rt u s' where r: "stream_read (unat (left + 1)) ?s = Some (rt, u, s')" "u \<noteq> []"
    using assms(1) by (cases "length (c # t) \<le> unat (left + 1)") (auto simp: stream_read_def kernel_recv_def)
  have "length buffer < unat (- 1 :: u64) + length u" using assms(5) by (rule far_back)
  then have "readFix_loop (- 1) (left + 1) buffer ?s = Some (Inl Undefined, s')"
    using r assms(4) by (simp add: readFix_step)
  ultimately show ?thesis by simp
qed

text \<open>The same of writing.\<close>

lemma take_pieces: "k \<le> n \<Longrightarrow> take k (drop p xs) @ take (n - k) (drop (p + k) xs) = take n (drop p xs)"
  using take_split [of k n "drop p xs"] by (simp add: add.commute)

lemma writeFix_done: "writeFix_loop offset 0 buffer s = Some (Inr (), s)"
  by (simp add: writeFix_loop.simps)

lemma writeFix_step:
  "left \<noteq> 0 \<Longrightarrow> \<not> (isConnected s \<and> length buffer < unat offset + unat left) \<Longrightarrow>
   stream_write (take (unat left) (drop (unat offset) buffer)) s = Some (rt, s') \<Longrightarrow>
   writeFix_loop offset left buffer s = writeFix_loop (offset + word_of_int rt) (left - word_of_int rt) buffer s'"
  by (subst writeFix_loop.simps) (auto simp: Let_def)

lemma writeFix_unconnected:
  "\<not> isConnected s \<Longrightarrow> writeFix_loop offset left buffer s = Some (Inr (), s)"
proof (induction "unat (- left)" arbitrary: offset left rule: less_induct)
  case less
  show ?case
  proof (cases "left = 0")
    case True
    then show ?thesis by (simp add: writeFix_done)
  next
    case False
    then have "unat (- left - 1) = unat (- left) - 1" "0 < unat (- left)" by (simp_all add: unat_minus_one unat_gt_0)
    then have "unat (- (left + 1)) < unat (- left)" by simp
    then have "writeFix_loop (offset - 1) (left + 1) buffer s = Some (Inr (), s)" using less by blast
    then show ?thesis using False less.prems by (subst writeFix_step [where rt = "-1" and s' = s]) (simp_all add: stream_write_def)
  qed
qed

lemma writeFix_failed:
  assumes "isConnected s" "outgoing s = Send_failed # es" "left \<noteq> 0" "left + 1 \<noteq> 0" "unat left \<le> length buffer" "length buffer < 2 ^ 63"
  shows "map_option fst (writeFix_loop 0 left buffer s) = Some (Inl Undefined)"
proof -
  let ?s = "s\<lparr>outgoing := es\<rparr>"
  have "writeFix_loop 0 left buffer s = writeFix_loop (- 1) (left + 1) buffer ?s"
    using assms by (subst writeFix_step [where rt = "-1" and s' = ?s]) (simp_all add: stream_write_def kernel_send_def)
  moreover have "length buffer < unat (- 1 :: u64) + unat (left + 1)" using assms(6) by (rule far_back)
  then have "writeFix_loop (- 1) (left + 1) buffer ?s = Some (Inl Undefined, ?s)"
    using assms(1,4) by (subst writeFix_loop.simps) simp
  ultimately show ?thesis by simp
qed

lemma writeFix_accepts:
  assumes "isConnected s" "outgoing s = map Accepts ks @ es" "0 \<notin> set ks" "unat left \<le> sum_list ks"
    and "unat offset + unat left \<le> length buffer" "length buffer < 2 ^ 64"
  shows "\<exists>s'. writeFix_loop offset left buffer s = Some (Inr (), s') \<and> isConnected s' \<and> incoming s' = incoming s \<and>
    m_socket s' = m_socket s \<and> sent s' = sent s @ take (unat left) (drop (unat offset) buffer)"
  using assms
proof (induction ks arbitrary: s left offset)
  case Nil
  then have "left = 0" by (simp add: unat_eq_zero)
  then show ?case using Nil by (simp add: writeFix_done)
next
  case (Cons k ks)
  show ?case
  proof (cases "left = 0")
    case True
    then show ?thesis using Cons.prems by (simp add: writeFix_done)
  next
    case False
    let ?n = "min k (unat left)" and ?d = "take (unat left) (drop (unat offset) buffer)"
    let ?s = "s\<lparr>outgoing := map Accepts ks @ es, sent := sent s @ take ?n ?d\<rparr>"
    let ?o = "offset + of_nat ?n" and ?l = "left - of_nat ?n"
    have d: "length ?d = unat left" using Cons.prems(5) by simp
    have t: "unat (of_nat ?n :: u64) = ?n"
      by (rule of_nat_inverse [OF refl le_less_trans [OF _ unsigned_less [of left]]]) simp
    have l: "unat ?l = unat left - ?n" using t by (simp add: unat_sub word_le_nat_alt)
    have o: "unat ?o = unat offset + ?n" using t Cons.prems(5,6) by (subst unat_add_lem [THEN iffD1]) simp_all
    have "writeFix_loop offset left buffer s = writeFix_loop ?o ?l buffer ?s"
      using Cons.prems False d
      by (subst writeFix_step [where rt = "int ?n" and s' = ?s]) (simp_all add: stream_write_def kernel_send_def Let_def)
    moreover have "\<exists>s'. writeFix_loop ?o ?l buffer ?s = Some (Inr (), s') \<and> isConnected s' \<and> incoming s' = incoming ?s \<and>
        m_socket s' = m_socket ?s \<and> sent s' = sent ?s @ take (unat ?l) (drop (unat ?o) buffer)"
      using Cons.prems by (intro Cons.IH) (simp_all add: l o)
    moreover have "take ?n ?d @ take (unat ?l) (drop (unat ?o) buffer) = ?d"
      by (simp add: l o take_pieces)
    ultimately show ?thesis by auto
  qed
qed

text \<open>
  What is written is what the peer gets: however little of it the kernel takes at a time,
  as long as it takes something each time and everything in the end, \<open>writeFixSize\<close> returns the
  size and the peer has been sent exactly these bytes after what it had.
\<close>

theorem writeFixSize_sends:
  assumes "isConnected s" "outgoing s = map Accepts ks @ es" "0 \<notin> set ks" "n \<le> sum_list ks" "n \<le> length buffer"
    "length buffer < 2 ^ 31"
  shows "\<exists>s'. writeFixSize buffer (of_nat n) s = Some (Inr (int n), s') \<and> sent s' = sent s @ take n buffer \<and>
    isConnected s' \<and> incoming s' = incoming s"
proof -
  have n: "unat (of_nat n :: u64) = n" using assms(5,6) by (intro of_nat_inverse [OF refl]) simp
  have "(ucast (of_nat n :: u64) :: u32) = of_nat n" using n by (metis of_nat_unat)
  then have i: "sint (ucast (of_nat n :: u64) :: u32) = int n"
    using assms(5,6) by (simp add: signed_of_nat signed_take_bit_int_eq_self)
  from writeFix_accepts [OF assms(1-3), of "of_nat n" 0 buffer] show ?thesis
    using assms(4-6) n i by (auto simp: writeFixSize_def)
qed

definition open_stream :: "arrival list \<Rightarrow> acceptance list \<Rightarrow> stream" where
  "open_stream ins outs = SocketStream_new (Some (CreateTCPSocket\<lparr>sk_isConnected := True\<rparr>)) True ins outs"

lemma open_stream_simps [simp]:
  "isConnected (open_stream ins outs)" "incoming (open_stream ins outs) = ins" "outgoing (open_stream ins outs) = outs"
  "sent (open_stream ins outs) = []"
  by (simp_all add: open_stream_def SocketStream_new_def isConnected_def)

lemma writeFixSize_sends_witness:
  "\<exists>s'. writeFixSize ''hello'' 5 (open_stream [] [Accepts 2, Accepts 9]) = Some (Inr 5, s') \<and> sent s' = ''hello''"
  using writeFixSize_sends [of "open_stream [] [Accepts 2, Accepts 9]" "[2, 9]" "[]" 5 "''hello''"] by auto

text \<open>
  No failure is reported: on a stream that is not connected, \<open>readFixSize\<close> and
  \<open>writeFixSize\<close> return the full size and have read and written nothing, after as many failing
  calls as it takes the remainder to wrap to zero; on a connected one, the end of the peer's
  stream makes \<open>readFixSize\<close> loop for ever, and a call that fails once moves the offset to
  before the buffer, so that the next bytes are read or written outside of it.
\<close>

theorem fixed_size_failures:
  assumes "0 < n" "n \<le> length buffer" "length buffer < 2 ^ 31"
  shows "(\<not> isConnected s \<longrightarrow> readFixSize (of_nat n) buffer s = Some (Inr (int n, buffer), s) \<and>
      writeFixSize buffer (of_nat n) s = Some (Inr (int n), s)) \<and>
    (isConnected s \<and> incoming s = Peer_closed # es \<longrightarrow> readFixSize (of_nat n) buffer s = None) \<and>
    (isConnected s \<and> incoming s = Recv_failed # Piece (c # t) # es \<longrightarrow>
      map_option fst (readFixSize (of_nat n) buffer s) = Some (Inl Undefined)) \<and>
    (isConnected s \<and> outgoing s = Send_failed # es' \<longrightarrow>
      map_option fst (writeFixSize buffer (of_nat n) s) = Some (Inl Undefined))"
proof -
  have n: "unat (of_nat n :: u64) = n" using assms(2,3) by (intro of_nat_inverse [OF refl]) simp
  have "(ucast (of_nat n :: u64) :: u32) = of_nat n" using n by (metis of_nat_unat)
  then have i: "sint (ucast (of_nat n :: u64) :: u32) = int n"
    using assms(2,3) by (simp add: signed_of_nat signed_take_bit_int_eq_self)
  have "unat (of_nat (n + 1) :: u64) = n + 1" by (rule of_nat_inverse [OF refl]) (use assms(2,3) in simp)
  then have "(of_nat (n + 1) :: u64) \<noteq> 0" by (metis add_is_0 one_neq_zero unsigned_0)
  then have z: "(of_nat n :: u64) \<noteq> 0" "(of_nat n + 1 :: u64) \<noteq> 0" using n assms(1) by (auto simp: add.commute)
  have f: "map_option fst (map_option (\<lambda>(r, s). (map_sum id g r, s)) x) = Some (Inl Undefined)"
    if "map_option fst x = Some (Inl Undefined)" for x :: "((fault + 'x) \<times> stream) option" and g :: "'x \<Rightarrow> 'y"
    using that by (cases x) auto
  have l: "length buffer < 2 ^ 63" "unat (of_nat n :: u64) \<le> length buffer" using assms n by simp_all
  show ?thesis
  proof (intro conjI impI; (elim conjE)?)
    assume "\<not> isConnected s"
    then show "readFixSize (of_nat n) buffer s = Some (Inr (int n, buffer), s)"
      "writeFixSize buffer (of_nat n) s = Some (Inr (int n), s)"
      by (simp_all add: readFixSize_def writeFixSize_def readFix_unconnected writeFix_unconnected i)
  next
    assume "isConnected s" "incoming s = Peer_closed # es"
    then show "readFixSize (of_nat n) buffer s = None" using z(1) by (simp add: readFixSize_def readFix_closed)
  next
    assume "isConnected s" "incoming s = Recv_failed # Piece (c # t) # es"
    from readFix_failed [OF this z l(1)]
    show "map_option fst (readFixSize (of_nat n) buffer s) = Some (Inl Undefined)"
      unfolding readFixSize_def by (rule f)
  next
    assume "isConnected s" "outgoing s = Send_failed # es'"
    from writeFix_failed [OF this z l(2,1)]
    show "map_option fst (writeFixSize buffer (of_nat n) s) = Some (Inl Undefined)"
      unfolding writeFixSize_def by (rule f)
  qed
qed

lemma fixed_size_failures_witness:
  "readFixSize 4 ''....'' (open_stream [Peer_closed] []) = None"
  using fixed_size_failures [of 4 "''....''" "open_stream [Peer_closed] []" "[]"] by simp

end
