(* ===== verification/Http_Sessions.thy ===== *)
theory Http_Sessions
  imports Streams Servlets Request_Props
begin

text \<open>
  The server side of a connection (\<open>sylar/http/http_session.cc\<close>, \<open>sylar/http/http_server.cc\<close>):
  \<open>recvRequest\<close> reads until the parser has a head and then the body, \<open>sendResponse\<close> writes a
  response, and \<open>handleClient\<close> serves the requests of a connection one after the other. The
  configured size of the buffer is the argument \<open>buff_size\<close>, the memory that \<open>new char[]\<close> and
  the parser are allocated in are \<open>data\<close> and \<open>memory\<close>, and \<open>lexical_cast\<close> is Boost's.
\<close>

section \<open>Receiving a request\<close>

text \<open>
  The loop of \<open>recvRequest\<close> up to the end of the head: the parser, the buffer and the number of
  bytes in it that belong to the body, or nothing where the connection was closed.
\<close>

partial_function (option) recv_head ::
  "u64 \<Rightarrow> HttpRequestParser \<Rightarrow> string \<Rightarrow> int \<Rightarrow> (HttpRequestParser \<times> string \<times> int) option io" where
  "recv_head buff_size parser data offset s =
     Option.bind (stream_read (unat (buff_size - word_of_int offset)) s) (\<lambda>(rt, t, s).
       if rt \<le> 0 then Some (Inr None, stream_close s) else
       let data = overwrite (nat offset) t data; len = rt + offset in
       case rq_execute parser data (nat len) of
         Inl e \<Rightarrow> Some (Inl e, s)
       | Inr (n, parser, data) \<Rightarrow>
           let nparser = sint (ucast n :: u32) in
           if rq_hasError parser then Some (Inr None, stream_close s) else
           let offset = len - nparser in
           if offset = sint (ucast buff_size :: u32) then Some (Inr None, stream_close s)
           else if rq_isFinished parser \<noteq> 0 then Some (Inr (Some (parser, data, offset)), s)
           else recv_head buff_size parser data offset s)"

text \<open>The body, of \<open>len\<close> bytes; a string of more than \<open>max_size()\<close> throws.\<close>

definition recv_body :: "int \<Rightarrow> string \<Rightarrow> int \<Rightarrow> string option io" where
  "recv_body len data offset s =
     (if 2 ^ 62 < len then Some (Inl (Logic_error ''basic_string::_M_replace_aux''), s) else
      let body = replicate (nat len) (CHR 0x00);
          n = nat (if offset \<le> len then offset else len);
          body = overwrite 0 (take n data) body;
          left = len - offset
      in if 0 < left then
           Option.bind (readFixSize (word_of_int left) (drop n body) s) (\<lambda>(r, s).
             case r of
               Inl e \<Rightarrow> Some (Inl e, s)
             | Inr (rt, rest) \<Rightarrow>
                 if rt \<le> 0 then Some (Inr None, stream_close s) else Some (Inr (Some (take n body @ rest)), s))
         else Some (Inr (Some body), s))"

definition keep_alive :: "HttpRequest \<Rightarrow> HttpRequest" where
  "keep_alive r =
     (if strcasecmp (c_str (getHeader ''Connection'' [] r)) ''keep-alive'' = 0 then r\<lparr>req_close := False\<rparr> else r)"

definition recvRequest :: "(string \<Rightarrow> u64 option) \<Rightarrow> u64 \<Rightarrow> http_parser \<Rightarrow> string \<Rightarrow> HttpRequest option io" where
  "recvRequest lexical_cast buff_size memory data s =
     Option.bind (recv_head buff_size (HttpRequestParser_new memory) data 0 s) (\<lambda>(r, s).
       case r of
         Inl e \<Rightarrow> Some (Inl e, s)
       | Inr None \<Rightarrow> Some (Inr None, s)
       | Inr (Some (parser, data, offset)) \<Rightarrow>
           let len = sint (rq_getContentLength lexical_cast parser) in
           if 0 < len then
             Option.bind (recv_body len data offset s) (\<lambda>(r, s).
               case r of
                 Inl e \<Rightarrow> Some (Inl e, s)
               | Inr None \<Rightarrow> Some (Inr None, s)
               | Inr (Some body) \<Rightarrow> Some (Inr (Some (keep_alive (rq_data parser\<lparr>req_body := body\<rparr>))), s))
           else Some (Inr (Some (keep_alive (rq_data parser))), s))"

definition sendResponse :: "HttpResponse \<Rightarrow> int io" where
  "sendResponse rsp s = (let data = HttpResponse_dump rsp in writeFixSize data (of_nat (length data)) s)"

section \<open>Serving a connection\<close>

text \<open>
  \<open>handleClient\<close>. The servlets see the request and the response, and \<open>'a\<close> is whatever else they
  act on; they do not touch the session here.
\<close>

partial_function (option) handleClient ::
  "(string \<Rightarrow> u64 option) \<Rightarrow> (string \<Rightarrow> string \<Rightarrow> bool) \<Rightarrow> u64 \<Rightarrow> http_parser \<Rightarrow> string \<Rightarrow> bool \<Rightarrow> 'a servlet_dispatch \<Rightarrow>
    'a \<Rightarrow> 'a io" where
  "handleClient lexical_cast fnmatch buff_size memory data keepalive d a s =
     Option.bind (recvRequest lexical_cast buff_size memory data s) (\<lambda>(r, s).
       case r of
         Inl e \<Rightarrow> Some (Inl e, s)
       | Inr None \<Rightarrow> Some (Inr a, stream_close s)
       | Inr (Some req) \<Rightarrow>
           let rsp = HttpResponse_new (req_version req) (req_close req \<or> \<not> keepalive);
               (req, rsp, a) = snd (dispatch_handle fnmatch d (req, rsp, a))
           in Option.bind (sendResponse rsp s) (\<lambda>(r, s).
                case r of
                  Inl e \<Rightarrow> Some (Inl e, s)
                | Inr _ \<Rightarrow>
                    if \<not> keepalive \<or> req_close req then Some (Inr a, stream_close s)
                    else handleClient lexical_cast fnmatch buff_size memory data keepalive d a s))"

section \<open>One request\<close>

lemma head_execute:
  assumes "line_ok r" "list_all header_ok (sent_headers r)" "buffer = request_head r @ b @ junk"
    and "length (request_head r @ b) < 2 ^ 31" "length buffer \<le> 2 ^ 62"
  shows "\<exists>self buffer'. rq_execute (HttpRequestParser_new memory) buffer (length (request_head r @ b)) =
      Inr (of_nat (length (request_head r)), self, buffer') \<and> rq_isFinished self = 1 \<and> \<not> rq_hasError self \<and>
      rq_data self = set_headers (all_headers r) (copy_line r (HttpRequest_new 0x11 True)) \<and>
      take (length b) buffer' = b \<and> length buffer' = length buffer"
proof -
  let ?s = "http_parser_init memory" and ?q = "HttpRequest_new 0x11 True" and ?len = "length (request_head r @ b)"
  let ?t = "?s\<lparr>hp_nread := 0, hp_mark := 0, hp_field_len := 0, hp_field_start := 0\<rparr>"
  let ?d = "set_headers (all_headers r) (copy_line r ?q)" and ?n = "length (request_head r)"
  have q: "req_query ?q = []" "req_fragment ?q = []" by (simp_all add: HttpRequest_new_def)
  have "\<exists>s'. rq_run (hp_uri_relaxed ?s) buffer ?len 1 0 (request_head r @ b) (?t, ?q, 0) = Inr (348, ?n, s', ?d, 0)"
    by (rule run_head [where rest = "b @ junk"]) (use assms q fresh_parser in simp_all)
  then obtain s' where run: "rq_run (hp_uri_relaxed ?s) buffer ?len (hp_cs ?s) 0 (take ?len buffer) (?t, ?q, 0) = Inr (348, ?n, s', ?d, 0)"
    using assms(3) by (auto simp: fresh_parser)
  have "0 < ?len" by (simp add: request_head_def crlf_def)
  then have "rq_execute (HttpRequestParser_new memory) buffer ?len =
      Inr (of_nat ?n, \<lparr>rq_parser = s'\<lparr>hp_cs := 348, hp_nread := of_nat ?n\<rparr>, rq_data = ?d, rq_error = 0\<rparr>,
        overwrite 0 (take (?len - ?n) (drop ?n buffer)) buffer)"
    unfolding HttpRequestParser_new_def
    by (intro rq_execute_run) (use run assms(3,4) fresh_parser in simp_all)
  then show ?thesis using assms(3)
    by (simp add: rq_isFinished_def rq_hasError_def http_parser_finish_def http_parser_has_error_def
      http_parser_is_finished_def overwrite_def)
qed

lemma int_word: "n < 2 ^ 31 \<Longrightarrow> sint (ucast (of_nat n :: u64) :: u32) = int n"
proof -
  assume a: "n < 2 ^ 31"
  then have "unat (of_nat n :: u64) = n" by (intro of_nat_inverse [OF refl]) simp
  then have "(ucast (of_nat n :: u64) :: u32) = of_nat n" by (metis of_nat_unat)
  then show ?thesis using a by (simp add: signed_of_nat signed_take_bit_int_eq_self)
qed

lemma recv_head_first:
  assumes "isConnected s" "incoming s = Piece (request_head r @ b) # es"
    and "line_ok r" "list_all header_ok (sent_headers r)"
    and "length (request_head r @ b) \<le> B" "length data = B" "B < 2 ^ 31"
  shows "\<exists>self buffer. recv_head (of_nat B) (HttpRequestParser_new memory) data 0 s =
      Some (Inr (Some (self, buffer, int (length b))), s\<lparr>incoming := es\<rparr>) \<and>
    rq_data self = set_headers (all_headers r) (copy_line r (HttpRequest_new 0x11 True)) \<and> take (length b) buffer = b \<and>
    length b \<le> length buffer"
proof -
  let ?t = "request_head r @ b" and ?s = "s\<lparr>incoming := es\<rparr>"
  let ?data = "overwrite 0 ?t data"
  have B: "unat (of_nat B :: u64) = B" using assms(7) by (intro of_nat_inverse [OF refl]) simp
  have h: "0 < length (request_head r)" by (simp add: request_head_def crlf_def)
  have d: "?data = request_head r @ b @ drop (length ?t) data" by (simp add: overwrite_def)
  have len: "length ?data = B" using assms(5,6) by simp
  obtain self buffer where x: "rq_execute (HttpRequestParser_new memory) ?data (length ?t) =
      Inr (of_nat (length (request_head r)), self, buffer)" "rq_isFinished self = 1" "\<not> rq_hasError self"
    "rq_data self = set_headers (all_headers r) (copy_line r (HttpRequest_new 0x11 True))"
    "take (length b) buffer = b" "length buffer = B"
    using head_execute [OF assms(3,4) d, of memory] assms(5,7) unfolding len by force
  have r: "stream_read (unat (of_nat B - word_of_int 0 :: u64)) s = Some (int (length ?t), ?t, ?s)"
    using assms(1,2,5) B by (simp add: stream_read_def kernel_recv_def)
  have n: "sint (ucast (of_nat (length (request_head r)) :: u64) :: u32) = int (length (request_head r))"
    using assms(5,7) by (intro int_word) simp
  have "recv_head (of_nat B) (HttpRequestParser_new memory) data 0 s = Some (Inr (Some (self, buffer, int (length b))), ?s)"
  proof -
    have "nat (int (length (request_head r)) + int (length b)) = length (request_head r) + length b"
      "\<not> int (length (request_head r)) + int (length b) \<le> 0"
      "int (length b) \<noteq> int B" "int (length (request_head r)) + int (length b) - int (length (request_head r)) = int (length b)"
      using h assms(5) by (simp_all add: nat_int_add del: length_greater_0_conv)
    then show ?thesis using x(1-3) n r int_word [OF assms(7)]
      by (subst recv_head.simps) (simp add: Let_def del: length_greater_0_conv)
  qed
  then show ?thesis using x assms(5) by auto
qed

lemma recv_body_rest:
  assumes "isConnected s" "incoming s = map Piece ts @ es" "body \<noteq> []" "body = b @ rest" "length rest \<le> length (concat ts)"
    and "take (length rest) (concat ts) = rest" "length body < 2 ^ 31" "take (length b) data = b"
  shows "\<exists>ts'. concat ts' = drop (length rest) (concat ts) \<and>
    recv_body (int (length body)) data (int (length b)) s = Some (Inr (Some body), s\<lparr>incoming := map Piece ts' @ es\<rparr>)"
proof -
  let ?z = "replicate (length body) (CHR 0x00)"
  have o: "overwrite 0 (take (length b) data) ?z = b @ replicate (length rest) (CHR 0x00)"
    using assms(4,8) by (simp add: overwrite_def)
  show ?thesis
  proof (cases "rest = []")
    case True
    then show ?thesis using assms o by (intro exI [of _ ts]) (auto simp: recv_body_def Let_def)
  next
    case False
    let ?n = "length rest" and ?buf = "replicate (length rest) (CHR 0x00)"
    have l: "unat (of_nat ?n :: u64) = ?n" using assms(4,7) by (intro of_nat_inverse [OF refl]) simp
    have i: "sint (ucast (of_nat ?n :: u64) :: u32) = int ?n" using assms(4,7) by (intro int_word) simp
    have "\<exists>ts'. concat ts' = drop (unat (of_nat ?n :: u64)) (concat ts) \<and>
        readFix_loop 0 (of_nat ?n) ?buf s =
          Some (Inr (overwrite (unat (0 :: u64)) (take (unat (of_nat ?n :: u64)) (concat ts)) ?buf), s\<lparr>incoming := map Piece ts' @ es\<rparr>)"
      by (rule readFix_pieces [OF assms(1,2)]) (use assms(4,5,7) l in simp_all)
    then obtain ts' where t: "concat ts' = drop ?n (concat ts)"
      "readFix_loop 0 (of_nat ?n) ?buf s = Some (Inr rest, s\<lparr>incoming := map Piece ts' @ es\<rparr>)"
      using assms(6) l by (auto simp: overwrite_def)
    have "readFixSize (of_nat ?n) ?buf s = Some (Inr (int ?n, rest), s\<lparr>incoming := map Piece ts' @ es\<rparr>)"
      using t(2) i by (simp add: readFixSize_def)
    then show ?thesis using t(1) False assms(4,7) o
      by (intro exI [of _ ts']) (simp add: recv_body_def Let_def nat_int_add)
  qed
qed

text \<open>The request as the server sees it.\<close>

definition received :: "HttpRequest \<Rightarrow> HttpRequest" where
  "received r =
     keep_alive (set_headers (all_headers r) (copy_line r (HttpRequest_new 0x11 True))\<lparr>req_body := req_body r\<rparr>)"

definition sendable :: "HttpRequest \<Rightarrow> bool" where
  "sendable r \<longleftrightarrow> line_ok r \<and> map_ok CaseInsensitiveLess (req_headers r) \<and> list_all header_ok (sent_headers r) \<and>
     length (req_body r) < 2 ^ 31 \<and>
     (req_body r = [] \<longrightarrow> map_find CaseInsensitiveLess ''content-length'' (req_headers r) = None)"

text \<open>What \<open>boost::lexical_cast\<close> does on the numbers the writer writes.\<close>

definition casts_dec :: "(string \<Rightarrow> u64 option) \<Rightarrow> bool" where
  "casts_dec lexical_cast \<longleftrightarrow> (\<forall>n < 2 ^ 31. lexical_cast (dec n) = Some (of_nat n))"

lemma plain_line: "req_headers (copy_line r (HttpRequest_new 0x11 True)) = []" "req_body (copy_line r (HttpRequest_new 0x11 True)) = []"
  by (simp_all add: copy_line_def HttpRequest_new_def)

lemma sent_sorted: "map_ok CaseInsensitiveLess (req_headers r) \<Longrightarrow> map_ok CaseInsensitiveLess (sent_headers r)"
  unfolding map_ok_def sent_headers_def sorted_wrt_map by (rule sorted_wrt_filter)

lemma getHeader_sent:
  assumes "map_ok CaseInsensitiveLess (req_headers r)" "req_headers q = []"
    and "map_find CaseInsensitiveLess k (sent_headers r) = None"
  shows "getHeader k d (set_headers (all_headers r) q) =
    (if req_body r \<noteq> [] \<and> folded k = folded ''content-length'' then dec (length (req_body r))
     else if folded k = folded ''connection'' then (if req_close r then ''close'' else ''keep-alive'') else d)"
proof -
  let ?c = "(''connection'', if req_close r then ''close'' else ''keep-alive'')"
  let ?q = "set_headers [?c] q" and ?s = "set_headers (sent_headers r)"
  have ok: "map_ok CaseInsensitiveLess (req_headers q)" using assms(2) by (simp add: map_ok_def)
  then have ok1: "map_ok CaseInsensitiveLess (req_headers ?q)" by (rule headers_ok_set_headers)
  have "getHeader k d (?s ?q) = (if folded k = folded ''connection'' then snd ?c else d)"
    unfolding getHeader_set_headers [OF sent_sorted [OF assms(1)] ok1] assms(3)
    using assms(2) getHeader_set [OF ok, of k d]
    by (simp add: getHeader_def map_get_def set_headers_def map_find_def)
  moreover have "set_headers (all_headers r) q = (if req_body r = [] then ?s ?q
      else setHeader ''content-length'' (dec (length (req_body r))) (?s ?q))"
    by (simp add: all_headers_def set_headers_def)
  moreover note getHeader_set [OF headers_ok_set_headers [OF ok1]]
  ultimately show ?thesis by (cases "req_body r = []") simp_all
qed

lemma find_sent:
  assumes "map_ok CaseInsensitiveLess (req_headers r)"
  shows "map_find CaseInsensitiveLess ''Connection'' (sent_headers r) = None"
    and "map_find CaseInsensitiveLess k (req_headers r) = None \<Longrightarrow> map_find CaseInsensitiveLess k (sent_headers r) = None"
proof -
  have f: "folded ''Connection'' = folded ''connection''" by code_simp
  have "map_find CaseInsensitiveLess ''Connection'' (sent_headers r) \<noteq> Some v" for v
    unfolding map_find_Some [OF sent_sorted [OF assms]] by (auto simp: sent_headers_def f)
  then show "map_find CaseInsensitiveLess ''Connection'' (sent_headers r) = None" by (metis not_None_eq)
  assume n: "map_find CaseInsensitiveLess k (req_headers r) = None"
  have "map_find CaseInsensitiveLess k (sent_headers r) \<noteq> Some v" for v
    using map_find_Some [OF assms, of k v] n
    unfolding map_find_Some [OF sent_sorted [OF assms]] by (auto simp: sent_headers_def)
  then show "map_find CaseInsensitiveLess k (sent_headers r) = None" by (metis not_None_eq)
qed

lemma received_length:
  assumes "sendable r" "casts_dec lc" "rq_data self = set_headers (all_headers r) (copy_line r (HttpRequest_new 0x11 True))"
  shows "sint (rq_getContentLength lc self) = int (length (req_body r))"
proof -
  let ?q = "copy_line r (HttpRequest_new 0x11 True)" and ?m = "req_headers (rq_data self)"
  have s: "map_ok CaseInsensitiveLess (req_headers r)" "length (req_body r) < 2 ^ 31"
    "req_body r = [] \<Longrightarrow> map_find CaseInsensitiveLess ''content-length'' (req_headers r) = None"
    using assms(1) by (simp_all add: sendable_def)
  show ?thesis
  proof (cases "req_body r = []")
    case True
    have "getHeader ''content-length'' ''x'' (rq_data self) = ''x''" "getHeader ''content-length'' ''y'' (rq_data self) = ''y''"
      using getHeader_sent [OF s(1) plain_line(1) find_sent(2) [OF s(1) s(3) [OF True]]] True assms(3)
      by (simp_all add: folded_def c_str_def)
    then have "map_find CaseInsensitiveLess ''content-length'' ?m = None"
      by (auto simp: getHeader_def map_get_def split: option.splits)
    then show ?thesis using True by (simp add: rq_getContentLength_def getAs_def)
  next
    case False
    have "getHeader ''content-length'' [] (rq_data self) = dec (length (req_body r))"
      using getHeader_length [OF plain_line(1) False] assms(3) by simp
    then have "map_find CaseInsensitiveLess ''content-length'' ?m = Some (dec (length (req_body r)))"
      by (cases "map_find CaseInsensitiveLess ''content-length'' ?m") (simp_all add: getHeader_def map_get_def dec_ne [symmetric] del: dec_ne)
    then have "rq_getContentLength lc self = of_nat (length (req_body r))"
      using assms(2) s(2) by (simp add: rq_getContentLength_def getAs_def casts_dec_def)
    moreover have "unat (of_nat (length (req_body r)) :: u64) = length (req_body r)"
      using s(2) by (intro of_nat_inverse [OF refl]) simp
    ultimately show ?thesis using s(2) sint_small [of "of_nat (length (req_body r))"] by simp
  qed
qed

lemma keep_alive_body:
  "keep_alive (q\<lparr>req_body := b\<rparr>) = (keep_alive q)\<lparr>req_body := b\<rparr>"
  by (simp add: keep_alive_def getHeader_def)

lemma received_plain: "req_body r = [] \<Longrightarrow> received r = keep_alive (set_headers (all_headers r) (copy_line r (HttpRequest_new 0x11 True)))"
proof -
  assume "req_body r = []"
  moreover have "req_body (set_headers hs q) = req_body q" for hs q
    by (induction hs arbitrary: q) (auto simp: set_headers_def setHeader_def)
  then have "req_body (set_headers (all_headers r) (copy_line r (HttpRequest_new 0x11 True))) = []" by (simp add: plain_line)
  moreover have "q\<lparr>req_body := req_body q\<rparr> = q" for q :: HttpRequest by (cases q) simp
  ultimately show ?thesis unfolding received_def by metis
qed

text \<open>\<open>recvRequest\<close>, given its body.\<close>

lemma recvRequest_received:
  assumes "isConnected s" "incoming s = Piece (request_head r @ b) # es" "sendable r" "casts_dec lc"
    and "length (request_head r @ b) \<le> B" "length data = B" "B < 2 ^ 31"
    and "\<And>buffer. take (length b) buffer = b \<Longrightarrow> length b \<le> length buffer \<Longrightarrow> req_body r \<noteq> [] \<Longrightarrow>
      recv_body (int (length (req_body r))) buffer (int (length b)) (s\<lparr>incoming := es\<rparr>) = Some (Inr (Some (req_body r)), s')"
    and "req_body r = [] \<Longrightarrow> s' = s\<lparr>incoming := es\<rparr>"
  shows "recvRequest lc (of_nat B) memory data s = Some (Inr (Some (received r)), s')"
proof -
  have ok: "line_ok r" "list_all header_ok (sent_headers r)" using assms(3) by (simp_all add: sendable_def)
  obtain self buffer where h: "recv_head (of_nat B) (HttpRequestParser_new memory) data 0 s =
      Some (Inr (Some (self, buffer, int (length b))), s\<lparr>incoming := es\<rparr>)"
    "rq_data self = set_headers (all_headers r) (copy_line r (HttpRequest_new 0x11 True))" "take (length b) buffer = b"
    "length b \<le> length buffer"
    using recv_head_first [OF assms(1,2) ok assms(5-7)] by blast
  note l = received_length [OF assms(3,4) h(2)]
  show ?thesis
  proof (cases "req_body r = []")
    case True
    then show ?thesis using h(1,2) l assms(9) received_plain [OF True] by (simp add: recvRequest_def Let_def)
  next
    case False
    then have "0 < int (length (req_body r))" by simp
    then show ?thesis using h(1,2) l assms(8) [OF h(3,4) False] by (simp add: recvRequest_def Let_def received_def)
  qed
qed

text \<open>What the server sees of a request is what was sent.\<close>

definition same_request :: "HttpRequest \<Rightarrow> HttpRequest \<Rightarrow> bool" where
  "same_request q r \<longleftrightarrow>
     req_method q = req_method r \<and> req_path q = req_path r \<and> req_query q = req_query r \<and>
     req_fragment q = req_fragment r \<and> req_version q = req_version r \<and> req_close q = req_close r \<and>
     req_body q = req_body r \<and>
     (\<forall>k d. folded k \<notin> {folded ''connection'', folded ''content-length''} \<longrightarrow> getHeader k d q = getHeader k d r)"

lemma set_headers_line [simp]:
  "req_method (set_headers hs q) = req_method q" "req_path (set_headers hs q) = req_path q"
  "req_query (set_headers hs q) = req_query q" "req_fragment (set_headers hs q) = req_fragment q"
  "req_version (set_headers hs q) = req_version q" "req_close (set_headers hs q) = req_close q"
  by (induction hs arbitrary: q) (auto simp: set_headers_def setHeader_def)

lemma received_same:
  assumes "sendable r"
  shows "same_request (received r) r"
proof -
  let ?q = "copy_line r (HttpRequest_new 0x11 True)"
  let ?p = "set_headers (all_headers r) ?q"
  have s: "map_ok CaseInsensitiveLess (req_headers r)" using assms by (simp add: sendable_def)
  have f: "folded ''Connection'' = folded ''connection''" "folded ''Connection'' \<noteq> folded ''content-length''" by code_simp+
  have "getHeader ''Connection'' [] ?p = (if req_close r then ''close'' else ''keep-alive'')"
    using getHeader_sent [OF s plain_line(1) find_sent(1) [OF s]] f by simp
  moreover have "strcasecmp (c_str ''close'') ''keep-alive'' \<noteq> 0" "strcasecmp (c_str ''keep-alive'') ''keep-alive'' = 0"
    by code_simp+
  ultimately have k: "received r = (if req_close r then ?p\<lparr>req_body := req_body r\<rparr> else ?p\<lparr>req_body := req_body r, req_close := False\<rparr>)"
    unfolding received_def keep_alive_body by (simp add: keep_alive_def)
  have "req_close ?q" by (simp add: copy_line_def HttpRequest_new_def)
  moreover have "getHeader k d (received r) = getHeader k d ?p" for k d by (simp add: k getHeader_def)
  ultimately show ?thesis
    using getHeader_all [OF s plain_line(1)] by (simp add: same_request_def k copy_line_def)
qed

section \<open>Properties\<close>

text \<open>
  C16. The server receives the request that was sent: if the first piece that arrives has the
  whole head, and however the body is split over it and the pieces after it, \<open>recvRequest\<close>
  returns a request with the method, target, version, body, the wish to close and every header
  of the one that was written, and leaves the bytes after the body to be read.
\<close>

theorem session_roundtrip:
  assumes "isConnected s" "incoming s = Piece (request_head r @ b) # map Piece ts @ es" "sendable r" "casts_dec lexical_cast"
    and "req_body r = b @ rest" "length rest \<le> length (concat ts)" "take (length rest) (concat ts) = rest"
    and "length (request_head r @ b) \<le> B" "length data = B" "B < 2 ^ 31"
  shows "\<exists>q ts'. recvRequest lexical_cast (of_nat B) memory data s = Some (Inr (Some q), s\<lparr>incoming := map Piece ts' @ es\<rparr>) \<and>
    same_request q r \<and> concat ts' = drop (length rest) (concat ts)"
proof -
  let ?s = "s\<lparr>incoming := map Piece ts @ es\<rparr>"
  have l: "length (req_body r) < 2 ^ 31" using assms(3) by (simp add: sendable_def)
  have body: "\<exists>ts'. concat ts' = drop (length rest) (concat ts) \<and> (\<forall>buffer. take (length b) buffer = b \<longrightarrow> req_body r \<noteq> [] \<longrightarrow>
      recv_body (int (length (req_body r))) buffer (int (length b)) ?s = Some (Inr (Some (req_body r)), s\<lparr>incoming := map Piece ts' @ es\<rparr>))
      \<and> (req_body r = [] \<longrightarrow> ts' = ts)"
  proof (cases "req_body r = []")
    case True
    then show ?thesis using assms(5) by (intro exI [of _ ts]) simp
  next
    case False
    have r: "\<exists>ts'. concat ts' = drop (length rest) (concat ts) \<and> recv_body (int (length (req_body r))) buffer (int (length b)) ?s =
        Some (Inr (Some (req_body r)), ?s\<lparr>incoming := map Piece ts' @ es\<rparr>)" if "take (length b) buffer = b" for buffer
      by (rule recv_body_rest [OF _ _ False assms(5,6,7) l that]) (use assms(1) in simp_all)
    have e: "recv_body n buffer (int (length b)) ?s = recv_body n b (int (length b)) ?s" if "take (length b) buffer = b"
      "n = int (length (req_body r))" for buffer n
    proof -
      have n: "nat (if int (length b) \<le> n then int (length b) else n) = length b" using that(2) assms(5) by simp
      show ?thesis unfolding recv_body_def Let_def n that(1) take_all [OF order_refl] ..
    qed
    obtain ts' where x: "concat ts' = drop (length rest) (concat ts)" "recv_body (int (length (req_body r))) b (int (length b)) ?s =
        Some (Inr (Some (req_body r)), ?s\<lparr>incoming := map Piece ts' @ es\<rparr>)"
      using r [OF take_all [OF order_refl]] by blast
    have "recv_body (int (length (req_body r))) buffer (int (length b)) ?s =
        Some (Inr (Some (req_body r)), s\<lparr>incoming := map Piece ts' @ es\<rparr>)" if "take (length b) buffer = b" for buffer
      using x(2) unfolding e [OF that refl] by simp
    then show ?thesis using x(1) False by blast
  qed
  then obtain ts' where t: "concat ts' = drop (length rest) (concat ts)"
    "\<And>buffer. take (length b) buffer = b \<Longrightarrow> req_body r \<noteq> [] \<Longrightarrow>
      recv_body (int (length (req_body r))) buffer (int (length b)) ?s = Some (Inr (Some (req_body r)), s\<lparr>incoming := map Piece ts' @ es\<rparr>)"
    "req_body r = [] \<Longrightarrow> ts' = ts"
    by blast
  have "recvRequest lexical_cast (of_nat B) memory data s = Some (Inr (Some (received r)), s\<lparr>incoming := map Piece ts' @ es\<rparr>)"
    by (rule recvRequest_received [OF assms(1,2,3,4,8,9,10)]) (use t in auto)
  then show ?thesis using received_same [OF assms(3)] t(1) by blast
qed

definition read_dec :: "string \<Rightarrow> u64 option" where
  "read_dec t = Some (of_nat (read_base 10 t))"

lemma read_dec_casts: "casts_dec read_dec"
  by (simp add: casts_dec_def read_dec_def)

lemma sample_sendable: "sendable sample_request"
proof -
  have "line_ok sample_request" "map_ok CaseInsensitiveLess (req_headers sample_request)"
    "list_all header_ok (sent_headers sample_request)" by code_simp+
  moreover have "req_body sample_request = ''hi''" by (simp add: sample_request_def)
  ultimately show ?thesis by (simp add: sendable_def)
qed

lemma sample_length: "length (request_head sample_request) = 81"
  by code_simp

lemma session_roundtrip_witness:
  "\<exists>q s'. recvRequest read_dec 200 zero_memory (replicate 200 (CHR 0x00))
     (open_stream [Piece (request_head sample_request @ ''h''), Piece ''i'', Piece ''GET'', Peer_closed] []) = Some (Inr (Some q), s') \<and>
   same_request q sample_request"
proof -
  let ?s = "open_stream [Piece (request_head sample_request @ ''h''), Piece ''i'', Piece ''GET'', Peer_closed] []"
  have "\<exists>q ts'. recvRequest read_dec (of_nat 200) zero_memory (replicate 200 (CHR 0x00)) ?s =
      Some (Inr (Some q), ?s\<lparr>incoming := map Piece ts' @ [Peer_closed]\<rparr>) \<and>
      same_request q sample_request \<and> concat ts' = drop (length ''i'') (concat [''i'', ''GET''])"
    by (rule session_roundtrip [OF _ _ sample_sendable read_dec_casts, where b = "''h''" and rest = "''i''"])
      (use sample_length in \<open>simp_all add: sample_request_def\<close>)
  then show ?thesis by auto
qed

subsection \<open>Requests of one piece\<close>

lemma recv_body_whole:
  "take (length (body @ extra)) data = body @ extra \<Longrightarrow> length body < 2 ^ 31 \<Longrightarrow>
   recv_body (int (length body)) data (int (length (body @ extra))) s = Some (Inr (Some body), s)"
proof -
  assume a: "take (length (body @ extra)) data = body @ extra" "length body < 2 ^ 31"
  have "take (length body) (take (length (body @ extra)) data) = body" unfolding a(1) by simp
  then have t: "take (length body) data = body" by (simp add: min_def split: if_splits)
  have n: "nat (if int (length (body @ extra)) \<le> int (length body) then int (length (body @ extra)) else int (length body)) = length body"
    by simp
  have "\<not> 2 ^ 62 < int (length body)" using a(2) by simp
  then show ?thesis unfolding recv_body_def Let_def n t by (simp add: overwrite_def)
qed

lemma recvRequest_whole:
  assumes "isConnected s" "incoming s = Piece (HttpRequest_dump r @ extra) # es" "sendable r" "casts_dec lc"
    and "length (HttpRequest_dump r @ extra) \<le> B" "length data = B" "B < 2 ^ 31"
  shows "recvRequest lc (of_nat B) memory data s = Some (Inr (Some (received r)), s\<lparr>incoming := es\<rparr>)"
proof (rule recvRequest_received [where b = "req_body r @ extra"])
  show "incoming s = Piece (request_head r @ req_body r @ extra) # es" using assms(2) by (simp add: dump_head)
  show "recv_body (int (length (req_body r))) buffer (int (length (req_body r @ extra))) (s\<lparr>incoming := es\<rparr>) =
      Some (Inr (Some (req_body r)), s\<lparr>incoming := es\<rparr>)" if "take (length (req_body r @ extra)) buffer = req_body r @ extra" for buffer
    by (rule recv_body_whole [OF that]) (use assms(3) in \<open>simp add: sendable_def\<close>)
qed (use assms dump_head in simp_all)

text \<open>
  What a client sends ahead of the answer is lost: of a piece that has a whole request and
  more, the bytes after the request are in the buffer of that call of \<open>recvRequest\<close> and nowhere
  else, so the next call starts with the next piece.
\<close>

theorem pipelined_lost:
  assumes "isConnected s" "incoming s = Piece (HttpRequest_dump r @ HttpRequest_dump r2) # es" "sendable r" "casts_dec lexical_cast"
    and "length (HttpRequest_dump r @ HttpRequest_dump r2) \<le> B" "length data = B" "B < 2 ^ 31"
  shows "\<exists>q. recvRequest lexical_cast (of_nat B) memory data s = Some (Inr (Some q), s\<lparr>incoming := es\<rparr>) \<and> same_request q r"
  using recvRequest_whole [OF assms] received_same [OF assms(3)] by blast

lemma pipelined_lost_witness:
  "\<exists>q. recvRequest read_dec 200 zero_memory (replicate 200 (CHR 0x00))
     (open_stream [Piece (HttpRequest_dump sample_request @ HttpRequest_dump sample_request), Peer_closed] []) =
   Some (Inr (Some q), open_stream [Peer_closed] []) \<and> same_request q sample_request"
proof -
  have "length (HttpRequest_dump sample_request) = 83" by code_simp
  then have "\<exists>q. recvRequest read_dec (of_nat 200) zero_memory (replicate 200 (CHR 0x00))
      (open_stream [Piece (HttpRequest_dump sample_request @ HttpRequest_dump sample_request), Peer_closed] []) =
      Some (Inr (Some q), (open_stream [Piece (HttpRequest_dump sample_request @ HttpRequest_dump sample_request), Peer_closed] [])
        \<lparr>incoming := [Peer_closed]\<rparr>) \<and> same_request q sample_request"
    by (intro pipelined_lost [OF _ _ sample_sendable read_dec_casts, where ?r2.0 = sample_request]) simp_all
  then show ?thesis by (simp add: open_stream_def SocketStream_new_def)
qed

subsection \<open>A connection\<close>

lemma writeFixSize_whole:
  assumes "isConnected s" "outgoing s = Accepts k # os" "0 < length t" "length t \<le> k" "length t < 2 ^ 31"
  shows "writeFixSize t (of_nat (length t)) s = Some (Inr (int (length t)), s\<lparr>outgoing := os, sent := sent s @ t\<rparr>)"
proof -
  let ?n = "of_nat (length t) :: u64" and ?s = "s\<lparr>outgoing := os, sent := sent s @ t\<rparr>"
  have n: "unat ?n = length t" using assms(5) by (intro of_nat_inverse [OF refl]) simp
  then have "?n \<noteq> 0" using assms(3) by auto
  then have "writeFix_loop 0 ?n t s = writeFix_loop ?n 0 t ?s"
    using assms n by (subst writeFix_step [where rt = "int (length t)" and s' = ?s]) (simp_all add: stream_write_def kernel_send_def)
  then show ?thesis using int_word [OF assms(5)] by (simp add: writeFixSize_def writeFix_done)
qed

lemma closed_unconnected [simp]: "\<not> isConnected (stream_close s)"
  by (auto simp: isConnected_def stream_close_def Socket_close_def Let_def split: option.splits)

lemma stream_close_simps [simp]: "sent (stream_close s) = sent s"
  by (simp add: stream_close_def)

lemma recvRequest_closed:
  "isConnected s \<Longrightarrow> incoming s = Peer_closed # es \<Longrightarrow> recvRequest lc B memory data s = Some (Inr None, stream_close s)"
  by (simp add: recvRequest_def recv_head.simps stream_read_def kernel_recv_def)

text \<open>The answers to a list of requests, and what the servlets act on afterwards.\<close>

fun serve :: "(string \<Rightarrow> string \<Rightarrow> bool) \<Rightarrow> 'a servlet_dispatch \<Rightarrow> 'a \<Rightarrow> HttpRequest list \<Rightarrow> string \<times> 'a" where
  "serve fnmatch d a [] = ([], a)"
| "serve fnmatch d a (r # rs) =
     (let (q, rsp, a) = snd (dispatch_handle fnmatch d (received r, HttpResponse_new (req_version r) (req_close r), a))
      in if req_close q then (HttpResponse_dump rsp, a)
         else let (t, a) = serve fnmatch d a rs in (HttpResponse_dump rsp @ t, a))"

lemma dump_nonempty: "HttpResponse_dump r \<noteq> []"
  by (simp add: HttpResponse_dump_def)



end
