(* ===== verification/Stream_Bytes.thy ===== *)
theory Stream_Bytes
  imports Streams Bytearray_Props
begin

text \<open>
  Streams and byte buffers: the operations of \<open>Stream\<close> and \<open>SocketStream\<close> that read into a
  \<open>ByteArray\<close> and write from one, through its \<open>iovec\<close> views. The kernel fills the parts of the
  memory it is given in their order.
\<close>

section \<open>Scattered reads and gathered writes\<close>

definition byte_of :: "char \<Rightarrow> u8" where
  "byte_of c = of_nat (of_char c)"

definition char_of_byte :: "u8 \<Rightarrow> char" where
  "char_of_byte b = char_of (unat b)"

fun scatter :: "iovec list \<Rightarrow> bytes \<Rightarrow> bytes list \<Rightarrow> bytes list" where
  "scatter [] bs nodes = nodes"
| "scatter (v # vs) bs nodes =
     scatter vs (drop (iov_len v) bs)
       (nodes[iov_node v := overwrite (iov_off v) (take (iov_len v) bs) (nodes ! iov_node v)])"

text \<open>\<open>SocketStream::read(ba, length)\<close> and \<open>write(ba, length)\<close>: the result, the buffer and the stream.\<close>

definition stream_read_ba :: "nat \<Rightarrow> bytearray \<Rightarrow> stream \<Rightarrow> ((fault + int) \<times> bytearray \<times> stream) option" where
  "stream_read_ba len ba s =
     (if \<not> isConnected s then Some (Inr (-1), ba, s) else
      case getWriteBuffers len ba of
        (Inl e, ba) \<Rightarrow> Some (Inl e, ba, s)
      | (Inr (n, iovs), ba) \<Rightarrow>
          Option.bind (kernel_recv (sum_list (map iov_len iovs)) s) (\<lambda>(rt, t, s).
            let ba = ba\<lparr>m_nodes := scatter iovs (map byte_of t) (m_nodes ba)\<rparr>
            in if 0 < rt then
                 (case setPosition (m_position ba + nat rt) ba of
                    (Inl e, ba) \<Rightarrow> Some (Inl e, ba, s) | (Inr _, ba) \<Rightarrow> Some (Inr rt, ba, s))
               else Some (Inr rt, ba, s)))"

definition stream_write_ba :: "nat \<Rightarrow> bytearray \<Rightarrow> stream \<Rightarrow> ((fault + int) \<times> bytearray \<times> stream) option" where
  "stream_write_ba len ba s =
     (if \<not> isConnected s then Some (Inr (-1), ba, s) else
      case getReadBuffers len ba of
        Inl e \<Rightarrow> Some (Inl e, ba, s)
      | Inr (n, iovs) \<Rightarrow>
          Option.bind (kernel_send (map char_of_byte (gather (m_nodes ba) iovs)) s) (\<lambda>(rt, s).
            if 0 < rt then
              (case setPosition (m_position ba + nat rt) ba of
                 (Inl e, ba) \<Rightarrow> Some (Inl e, ba, s) | (Inr _, ba) \<Rightarrow> Some (Inr rt, ba, s))
            else Some (Inr rt, ba, s)))"

text \<open>The loops of \<open>readFixSize(ba, length)\<close> and \<open>writeFixSize(ba, length)\<close>.\<close>

partial_function (option) readFix_ba :: "u64 \<Rightarrow> bytearray \<Rightarrow> stream \<Rightarrow> ((fault + unit) \<times> bytearray \<times> stream) option" where
  "readFix_ba left ba s =
     (if left = 0 then Some (Inr (), ba, s) else
      Option.bind (stream_read_ba (unat left) ba s) (\<lambda>(r, ba, s).
        case r of Inl e \<Rightarrow> Some (Inl e, ba, s) | Inr rt \<Rightarrow> readFix_ba (left - word_of_int rt) ba s))"

partial_function (option) writeFix_ba :: "u64 \<Rightarrow> bytearray \<Rightarrow> stream \<Rightarrow> ((fault + unit) \<times> bytearray \<times> stream) option" where
  "writeFix_ba left ba s =
     (if left = 0 then Some (Inr (), ba, s) else
      Option.bind (stream_write_ba (unat left) ba s) (\<lambda>(r, ba, s).
        case r of Inl e \<Rightarrow> Some (Inl e, ba, s) | Inr rt \<Rightarrow> writeFix_ba (left - word_of_int rt) ba s))"

definition readFixSize_ba :: "u64 \<Rightarrow> bytearray \<Rightarrow> stream \<Rightarrow> ((fault + int) \<times> bytearray \<times> stream) option" where
  "readFixSize_ba n ba s =
     map_option (\<lambda>(r, ba, s). (map_sum id (\<lambda>_. sint (ucast n :: u32)) r, ba, s)) (readFix_ba n ba s)"

definition writeFixSize_ba :: "u64 \<Rightarrow> bytearray \<Rightarrow> stream \<Rightarrow> ((fault + int) \<times> bytearray \<times> stream) option" where
  "writeFixSize_ba n ba s =
     map_option (\<lambda>(r, ba, s). (map_sum id (\<lambda>_. sint (ucast n :: u32)) r, ba, s)) (writeFix_ba n ba s)"

declare readFix_ba.simps [code] writeFix_ba.simps [code]

section \<open>Properties\<close>

lemma scatter_ok:
  assumes "0 < b" "blocks b nodes" "blocks b nodes0" "length nodes0 = length nodes" "i < length nodes" "npos < b"
    and "i * b + npos + n \<le> length nodes * b" "length bs \<le> n" "iov_loop nodes0 (Some i) npos (b - npos) n = Inr iovs"
  shows "concat (scatter iovs bs nodes) = overwrite (i * b + npos) bs (concat nodes) \<and>
    length (scatter iovs bs nodes) = length nodes \<and> blocks b (scatter iovs bs nodes)"
  using assms
proof (induction "length nodes - i" arbitrary: nodes i npos n bs iovs rule: less_induct)
  case less
  have upd: "concat (nodes[i := overwrite npos src (nodes ! i)]) = overwrite (i * b + npos) src (concat nodes)"
    "blocks b (nodes[i := overwrite npos src (nodes ! i)])" if "npos + length src \<le> b" for src
  proof -
    have "length (nodes ! i) = b" using less.prems(2,5) by (simp add: blocks_def)
    then have l: "length (overwrite npos src (nodes ! i)) = b" using that by simp
    show "blocks b (nodes[i := overwrite npos src (nodes ! i)])"
      by (rule blocks_update [OF less.prems(2) l])
    show "concat (nodes[i := overwrite npos src (nodes ! i)]) = overwrite (i * b + npos) src (concat nodes)"
      using less.prems(2,5) that by (intro concat_update) (auto simp: blocks_def)
  qed
  show ?case
  proof (cases "n = 0")
    case True
    then have "iovs = []" "bs = []" using less.prems(8,9) by (simp_all add: iov_loop.simps)
    then show ?thesis using less.prems(2) by simp
  next
    case n: False
    show ?thesis
    proof (cases "n \<le> b - npos")
      case True
      then have "iovs = [\<lparr>iov_node = i, iov_off = npos, iov_len = n\<rparr>]"
        using less.prems(9) n by (simp add: iov_loop.simps)
      then show ?thesis using upd [of bs] True less.prems(6,8) by simp
    next
      case False
      have k: "Suc i < length nodes"
        by (rule next_block [of b npos n]) (use False less.prems in simp_all)
      then have "next_node nodes0 i = Some (Suc i)" "length (nodes0 ! Suc i) = b"
        using less.prems(3,4) by (simp_all add: next_node_def)
      then obtain iovs' where vs: "iov_loop nodes0 (Some (Suc i)) 0 (b - 0) (n - (b - npos)) = Inr iovs'"
        "iovs = \<lparr>iov_node = i, iov_off = npos, iov_len = b - npos\<rparr> # iovs'"
        using less.prems(9) n False by (subst (asm) (1) iov_loop.simps) (auto split: sum.splits)
      let ?a = "take (b - npos) bs" and ?r = "drop (b - npos) bs"
      let ?nodes = "nodes[i := overwrite npos ?a (nodes ! i)]"
      have u: "concat ?nodes = overwrite (i * b + npos) ?a (concat nodes)" "blocks b ?nodes"
        using upd [of ?a] less.prems(6) by simp_all
      have s: "Suc i * b + 0 = i * b + npos + (b - npos)" using less.prems(6) by simp
      have ih: "concat (scatter iovs' ?r ?nodes) = overwrite (Suc i * b + 0) ?r (concat ?nodes) \<and>
          length (scatter iovs' ?r ?nodes) = length ?nodes \<and> blocks b (scatter iovs' ?r ?nodes)"
        by (rule less.hyps [OF _ less.prems(1) u(2) less.prems(3) _ _ _ _ _ vs(1)])
          (use k less.prems False in simp_all)
      have "overwrite (Suc i * b + 0) ?r (concat ?nodes) = overwrite (i * b + npos) bs (concat nodes)"
      proof (cases "length bs \<le> b - npos")
        case True
        then show ?thesis using u(1) by simp
      next
        case long: False
        have l: "length (concat nodes) = length nodes * b" using less.prems(2) by (rule length_concat_uniform [OF blocks_def [THEN iffD1]])
        have "overwrite (i * b + npos + length ?a) ?r (overwrite (i * b + npos) ?a (concat nodes)) =
            overwrite (i * b + npos) (?a @ ?r) (concat nodes)"
          by (rule overwrite_split) (use long less.prems(7,8) l in simp)
        then show ?thesis using long s less.prems(6) by (simp add: u(1) add.commute)
      qed
      then show ?thesis using ih vs(2) by simp
    qed
  qed
qed

lemma getWriteBuffers_scatter:
  assumes inv: "ba_inv ba" and fit: "write_fits ba len" and bs: "length bs \<le> len"
  shows "\<exists>iovs. getWriteBuffers len ba = (Inr (len, iovs), grown ba len) \<and> sum_list (map iov_len iovs) = len \<and>
    concat (scatter iovs bs (m_nodes (grown ba len))) = overwrite (m_position ba) bs (storage (grown ba len)) \<and>
    length (scatter iovs bs (m_nodes (grown ba len))) = length (m_nodes (grown ba len)) \<and>
    blocks (m_baseSize ba) (scatter iovs bs (m_nodes (grown ba len)))"
proof (cases "len = 0")
  case True
  then show ?thesis
    using inv bs by (simp add: getWriteBuffers_def grown_def addCapacity_def storage_def ba_inv_def)
next
  case False
  let ?g = "grown ba len" and ?b = "m_baseSize ba"
  have g: "ba_inv ?g" by (rule grown_inv(1) [OF inv])
  have le: "m_position ?g + len \<le> m_capacity ?g" using fit grown_capacity [OF inv] by simp
  then have lt: "m_position ?g < m_capacity ?g" using False by linarith
  have b: "0 < ?b" "blocks ?b (m_nodes ?g)" "m_position ba < length (m_nodes ?g) * ?b"
    "m_capacity ?g = length (m_nodes ?g) * ?b" "m_cur ?g = Some (m_position ba div ?b)"
    using g lt by (auto simp: ba_inv_def cur_of_def)
  note ar = mod_div_bound [OF b(1) b(3)]
  obtain iovs where io: "iov_loop (m_nodes ?g) (m_cur ?g) (m_position ?g mod m_baseSize ?g)
      (m_baseSize ?g - m_position ?g mod m_baseSize ?g) len = Inr iovs" "sum_list (map iov_len iovs) = len"
    using iov_cur [OF g le lt] by blast
  then have w: "getWriteBuffers len ba = (Inr (len, iovs), ?g)"
    using b ar(1) False addCapacity_ok [OF inv, of len]
    by (simp add: getWriteBuffers_def Let_def)
  have "concat (scatter iovs bs (m_nodes ?g)) =
      overwrite (m_position ba div ?b * ?b + m_position ba mod ?b) bs (concat (m_nodes ?g)) \<and>
    length (scatter iovs bs (m_nodes ?g)) = length (m_nodes ?g) \<and> blocks ?b (scatter iovs bs (m_nodes ?g))"
    by (rule scatter_ok [where n = len and ?nodes0.0 = "m_nodes ?g"]) (use b ar io(1) bs le in simp_all)
  then show ?thesis using w io(2) by (simp add: storage_def)
qed

text \<open>One read: the array is where \<open>read(buffer, length)\<close> would have put the bytes.\<close>

lemma stream_read_ba_ok:
  assumes inv: "ba_inv ba" and fit: "write_fits ba len" and rd: "stream_read len s = Some (rt, t, s')"
  shows "\<exists>ba'. stream_read_ba len ba s = Some (Inr rt, ba', s') \<and> ba_inv ba' \<and>
    m_position ba' = m_position ba + length t \<and>
    contents ba' = take (m_position ba) (contents ba) @ map byte_of t @ drop (m_position ba + length t) (contents ba) \<and>
    write_fits ba' (len - length t)"
proof (cases "isConnected s")
  case False
  then show ?thesis using rd inv fit by (auto simp: stream_read_ba_def stream_read_def)
next
  case True
  then have k: "kernel_recv len s = Some (rt, t, s')" using rd by (simp add: stream_read_def)
  then have t: "length t \<le> len" "0 < rt \<Longrightarrow> rt = int (length t)" "\<not> 0 < rt \<Longrightarrow> t = []"
    by (auto simp: kernel_recv_def split: list.splits arrival.splits if_splits)
  let ?g = "grown ba len" and ?bs = "map byte_of t"
  obtain iovs where w: "getWriteBuffers len ba = (Inr (len, iovs), ?g)" "sum_list (map iov_len iovs) = len"
    and sc: "concat (scatter iovs ?bs (m_nodes ?g)) = overwrite (m_position ba) ?bs (storage ?g)"
      "length (scatter iovs ?bs (m_nodes ?g)) = length (m_nodes ?g)"
      "blocks (m_baseSize ba) (scatter iovs ?bs (m_nodes ?g))"
    using getWriteBuffers_scatter [OF inv fit, of ?bs] t(1) by auto
  define h where "h = ?g\<lparr>m_nodes := scatter iovs ?bs (m_nodes ?g)\<rparr>"
  have g: "ba_inv ?g" by (rule grown_inv(1) [OF inv])
  have h: "ba_inv h" "storage h = overwrite (m_position ba) ?bs (storage ?g)" "m_capacity h = m_capacity ?g"
    using g sc by (auto simp: h_def ba_inv_def storage_def)
  have fr: "m_baseSize h = m_baseSize ba" "m_endian h = m_endian ba" "m_position h = m_position ba" "m_size h = m_size ba"
    by (simp_all add: h_def)
  have p: "m_position ba + length t \<le> m_capacity h"
    using fit grown_capacity [OF inv] t(1) h(3) by simp
  have "written ba ?bs (at_pos h (m_position ba + length t))"
    by (rule written_grown [OF inv, where n = len]) (use h p fr at_pos_inv [OF h(1) p] in simp_all)
  then have c: "contents (at_pos h (m_position ba + length t)) =
      take (m_position ba) (contents ba) @ ?bs @ drop (m_position ba + length t) (contents ba)"
    using written_contents [OF inv] by fastforce
  have room: "write_fits (at_pos h (m_position ba + length t)) (len - length t)"
    using fit grown_capacity [OF inv] t(1) h(3) by (simp add: write_fits_def getCapacity_def Let_def)
  show ?thesis
  proof (cases "0 < rt")
    case True
    then show ?thesis
      using \<open>isConnected s\<close> k w setPosition_spec [OF h(1) p] t(2) at_pos_inv [OF h(1) p] c room
      by (simp add: stream_read_ba_def h_def)
  next
    case False
    then have "at_pos h (m_position ba + length t) = h" using t(3) at_pos_self [OF h(1)] fr by simp
    then show ?thesis
      using \<open>isConnected s\<close> False t(3) k w h c fr room by (auto simp: stream_read_ba_def h_def)
  qed
qed

lemma stream_write_ba_ok:
  assumes inv: "ba_inv ba" and wr: "stream_write (map char_of_byte (take len (unread ba))) s = Some (rt, s')"
  shows "\<exists>ba'. stream_write_ba len ba s = Some (Inr rt, ba', s') \<and> ba_inv ba' \<and>
    m_position ba' = m_position ba + nat rt \<and> contents ba' = contents ba"
proof (cases "isConnected s")
  case False
  then show ?thesis using wr inv by (auto simp: stream_write_ba_def stream_write_def)
next
  case True
  then have k: "kernel_send (map char_of_byte (take len (unread ba))) s = Some (rt, s')"
    using wr by (simp add: stream_write_def)
  then have "nat rt \<le> length (unread ba)"
    by (auto simp: kernel_send_def Let_def split: list.splits acceptance.splits)
  then have p: "m_position ba + nat rt \<le> m_size ba" "m_position ba + nat rt \<le> m_capacity ba"
    using length_unread [OF inv] inv by (auto simp: getReadSize_def ba_inv_def)
  obtain iovs where "getReadBuffers len ba = Inr (min len (getReadSize ba), iovs)"
    "gather (m_nodes ba) iovs = take len (unread ba)"
    using getReadBuffers_ok [OF inv] by blast
  then show ?thesis
    using True k inv p setPosition_spec [OF inv p(2)] at_pos_inv [OF inv p(2)]
    by (auto simp: stream_write_ba_def contents_def max_absorb1)
qed

lemma readFix_ba_pieces:
  assumes "isConnected s" "incoming s = map Piece ts @ es" "unat left \<le> length (concat ts)"
    and "ba_inv ba" "write_fits ba (unat left)"
  shows "\<exists>ba' ts'. concat ts' = drop (unat left) (concat ts) \<and>
    readFix_ba left ba s = Some (Inr (), ba', s\<lparr>incoming := map Piece ts' @ es\<rparr>) \<and> ba_inv ba' \<and>
    m_position ba' = m_position ba + unat left \<and>
    contents ba' = take (m_position ba) (contents ba) @ map byte_of (take (unat left) (concat ts)) @
      drop (m_position ba + unat left) (contents ba)"
  using assms
proof (induction ts arbitrary: s left ba)
  case Nil
  then have "left = 0" by (simp add: unat_eq_zero)
  then show ?case using Nil by (intro exI [of _ ba] exI [of _ "[]"]) (simp add: readFix_ba.simps)
next
  case (Cons t ts)
  show ?case
  proof (cases "left = 0")
    case True
    then show ?thesis
      using Cons.prems by (intro exI [of _ ba] exI [of _ "t # ts"]) (simp add: readFix_ba.simps)
  next
    case False
    have one: "\<exists>ba1. readFix_ba left ba s = readFix_ba (left - of_nat (length u)) ba1 s1 \<and> ba_inv ba1 \<and>
        m_position ba1 = m_position ba + length u \<and>
        contents ba1 = take (m_position ba) (contents ba) @ map byte_of u @ drop (m_position ba + length u) (contents ba) \<and>
        write_fits ba1 (unat left - length u)"
      if "stream_read (unat left) s = Some (int (length u), u, s1)" for u s1
      using stream_read_ba_ok [OF Cons.prems(4,5) that] False
      by (subst readFix_ba.simps) auto
    have sz: "m_position ba \<le> length (contents ba)"
      using Cons.prems(4) length_storage [OF Cons.prems(4)] by (auto simp: contents_def ba_inv_def)
    show ?thesis
    proof (cases "length t \<le> unat left")
      case fits: True
      let ?l = "left - of_nat (length t) :: u64" and ?s = "s\<lparr>incoming := map Piece ts @ es\<rparr>"
      have t: "unat (of_nat (length t) :: u64) = length t"
        by (rule of_nat_inverse [OF refl le_less_trans [OF fits unsigned_less]])
      have l: "unat ?l = unat left - length t" using fits t by (simp add: unat_sub word_le_nat_alt)
      have "stream_read (unat left) s = Some (int (length t), t, ?s)"
        using Cons.prems(1,2) fits by (simp add: stream_read_def kernel_recv_def)
      from one [OF this] obtain ba1 where b1: "readFix_ba left ba s = readFix_ba ?l ba1 ?s" "ba_inv ba1"
        "m_position ba1 = m_position ba + length t"
        "contents ba1 = take (m_position ba) (contents ba) @ map byte_of t @ drop (m_position ba + length t) (contents ba)"
        "write_fits ba1 (unat left - length t)" by blast
      have "\<exists>ba' ts'. concat ts' = drop (unat ?l) (concat ts) \<and>
          readFix_ba ?l ba1 ?s = Some (Inr (), ba', ?s\<lparr>incoming := map Piece ts' @ es\<rparr>) \<and> ba_inv ba' \<and>
          m_position ba' = m_position ba1 + unat ?l \<and>
          contents ba' = take (m_position ba1) (contents ba1) @ map byte_of (take (unat ?l) (concat ts)) @
            drop (m_position ba1 + unat ?l) (contents ba1)"
        by (rule Cons.IH) (use Cons.prems fits b1 l in simp_all)
      moreover have "take (m_position ba1) (contents ba1) = take (m_position ba) (contents ba) @ map byte_of t"
        "drop (m_position ba1 + unat ?l) (contents ba1) = drop (m_position ba + unat left) (contents ba)"
        using sz fits by (simp_all add: b1(3,4) l min_absorb1 add.commute [of "unat left"])
      ultimately show ?thesis using fits b1(1,3) l by auto
    next
      case big: False
      let ?u = "take (unat left) t" and ?s = "s\<lparr>incoming := Piece (drop (unat left) t) # map Piece ts @ es\<rparr>"
      have u: "length ?u = unat left" using big by simp
      have "stream_read (unat left) s = Some (int (length ?u), ?u, ?s)"
        using Cons.prems(1,2) big by (simp add: stream_read_def kernel_recv_def)
      from one [OF this] obtain ba1 where b1: "readFix_ba left ba s = Some (Inr (), ba1, ?s)" "ba_inv ba1"
        "m_position ba1 = m_position ba + unat left"
        "contents ba1 = take (m_position ba) (contents ba) @ map byte_of ?u @ drop (m_position ba + unat left) (contents ba)"
        unfolding u by (auto simp: readFix_ba.simps)
      then show ?thesis using big by (intro exI [of _ ba1] exI [of _ "drop (unat left) t # ts"]) simp
    qed
  qed
qed

lemma writeFix_ba_accepts:
  assumes "isConnected s" "outgoing s = map Accepts ks @ es" "unat left \<le> sum_list ks"
    and "ba_inv ba" "unat left \<le> length (unread ba)"
  shows "\<exists>ba' s'. writeFix_ba left ba s = Some (Inr (), ba', s') \<and> ba_inv ba' \<and> contents ba' = contents ba \<and>
    m_position ba' = m_position ba + unat left \<and> isConnected s' \<and> incoming s' = incoming s \<and>
    sent s' = sent s @ map char_of_byte (take (unat left) (unread ba))"
  using assms
proof (induction ks arbitrary: s left ba)
  case Nil
  then have "left = 0" by (simp add: unat_eq_zero)
  then show ?case using Nil by (simp add: writeFix_ba.simps)
next
  case (Cons k ks)
  show ?case
  proof (cases "left = 0")
    case True
    then show ?thesis using Cons.prems by (simp add: writeFix_ba.simps)
  next
    case False
    let ?n = "min k (unat left)" and ?d = "map char_of_byte (take (unat left) (unread ba))"
    let ?s = "s\<lparr>outgoing := map Accepts ks @ es, sent := sent s @ take ?n ?d\<rparr>" and ?l = "left - of_nat ?n :: u64"
    have t: "unat (of_nat ?n :: u64) = ?n"
      by (rule of_nat_inverse [OF refl le_less_trans [OF _ unsigned_less [of left]]]) simp
    have l: "unat ?l = unat left - ?n" using t by (simp add: unat_sub word_le_nat_alt)
    have "stream_write ?d s = Some (int ?n, ?s)"
      using Cons.prems(1,2,5) by (simp add: stream_write_def kernel_send_def Let_def)
    from stream_write_ba_ok [OF Cons.prems(4) this] obtain ba1
      where b1: "stream_write_ba (unat left) ba s = Some (Inr (int ?n), ba1, ?s)" "ba_inv ba1"
        "m_position ba1 = m_position ba + ?n" "contents ba1 = contents ba" by (metis nat_int)
    have u: "unread ba1 = drop ?n (unread ba)" using b1(3,4) by (simp add: unread_def add.commute)
    have "writeFix_ba left ba s = writeFix_ba ?l ba1 ?s"
      using False b1(1) by (subst writeFix_ba.simps) (simp add: of_int_of_nat_eq)
    moreover have "\<exists>ba' s'. writeFix_ba ?l ba1 ?s = Some (Inr (), ba', s') \<and> ba_inv ba' \<and> contents ba' = contents ba1 \<and>
        m_position ba' = m_position ba1 + unat ?l \<and> isConnected s' \<and> incoming s' = incoming ?s \<and>
        sent s' = sent ?s @ map char_of_byte (take (unat ?l) (unread ba1))"
      using Cons.prems b1(2) by (intro Cons.IH) (simp_all add: l u)
    moreover have "take ?n ?d @ map char_of_byte (take (unat ?l) (unread ba1)) = ?d"
      using take_pieces [of ?n "unat left" 0 "unread ba"]
      by (simp add: l u take_map flip: map_append)
    ultimately show ?thesis by (auto simp: b1(3,4) l)
  qed
qed

lemma small_size:
  assumes "n < 2 ^ 31"
  shows "unat (of_nat n :: u64) = n" "sint (ucast (of_nat n :: u64) :: u32) = int n"
proof -
  show n: "unat (of_nat n :: u64) = n" using assms by (intro of_nat_inverse [OF refl]) simp
  have "(ucast (of_nat n :: u64) :: u32) = of_nat n" using n by (metis of_nat_unat)
  then show "sint (ucast (of_nat n :: u64) :: u32) = int n"
    using assms by (simp add: signed_of_nat signed_take_bit_int_eq_self)
qed



text \<open>
  A fixed size is read through a byte array whatever the pieces are in which the peer
  sends it: the array has exactly the first \<open>n\<close> bytes at its position, and what came after them is
  still to be read.
\<close>

theorem array_readFix:
  assumes "isConnected s" "incoming s = map Piece ts @ es" "n \<le> length (concat ts)" "n < 2 ^ 31"
    and "ba_inv ba" "write_fits ba n"
  shows "\<exists>ba' ts'. readFixSize_ba (of_nat n) ba s = Some (Inr (int n), ba', s\<lparr>incoming := map Piece ts' @ es\<rparr>) \<and>
    concat ts' = drop n (concat ts) \<and> ba_inv ba' \<and> m_position ba' = m_position ba + n \<and>
    contents ba' = take (m_position ba) (contents ba) @ map byte_of (take n (concat ts)) @
      drop (m_position ba + n) (contents ba)"
  using readFix_ba_pieces [OF assms(1,2), of "of_nat n" ba] assms(3,5,6) small_size [OF assms(4)]
  by (auto simp: readFixSize_ba_def)

lemma array_readFix_witness:
  "\<exists>ba' s'. readFixSize_ba 4 (ByteArray_new (\<lambda>_. 0) 2) (open_stream [Piece ''he'', Piece ''llo''] []) = Some (Inr 4, ba', s') \<and>
    contents ba' = [104, 101, 108, 108]"
proof -
  let ?ba = "ByteArray_new (\<lambda>_. 0) 2"
  have "write_fits ?ba 4" "contents ?ba = []" "m_position ?ba = 0"
    by (simp_all add: write_fits_def getCapacity_def ByteArray_new_def contents_def)
  then show ?thesis
    using array_readFix [of "open_stream [Piece ''he'', Piece ''llo''] []" "[''he'', ''llo'']" "[]" 4 ?ba] new_inv [of 2 "\<lambda>_. 0"]
    by (auto simp: byte_of_def)
qed

text \<open>
  \<open>writeFixSize\<close> sends exactly the unread bytes it was asked for, however little of them the
  kernel takes at a time, keeps the contents of the array and moves its position past them.
\<close>

theorem array_writeFix:
  assumes "isConnected s" "outgoing s = map Accepts ks @ es" "n \<le> sum_list ks" "n < 2 ^ 31"
    and "ba_inv ba" "n \<le> length (unread ba)"
  shows "\<exists>ba' s'. writeFixSize_ba (of_nat n) ba s = Some (Inr (int n), ba', s') \<and> ba_inv ba' \<and>
    contents ba' = contents ba \<and> m_position ba' = m_position ba + n \<and>
    incoming s' = incoming s \<and> sent s' = sent s @ map char_of_byte (take n (unread ba))"
  using writeFix_ba_accepts [OF assms(1,2), of "of_nat n" ba] assms(3,5,6) small_size [OF assms(4)]
  by (auto simp: writeFixSize_ba_def)

lemma array_writeFix_witness:
  "\<exists>ba' s'. writeFixSize_ba 2 ((ByteArray_new (\<lambda>_. 104) 2)\<lparr>m_size := 2\<rparr>) (open_stream [] [Accepts 1, Accepts 7]) =
    Some (Inr 2, ba', s') \<and> m_position ba' = 2 \<and> sent s' = ''hh''"
proof -
  let ?ba = "(ByteArray_new (\<lambda>_. 104) 2)\<lparr>m_size := 2\<rparr>"
  have "ba_inv ?ba" "m_position ?ba = 0" using new_inv [of 2 "\<lambda>_. 104"] by (simp_all add: ba_inv_def ByteArray_new_def)
  moreover have "unread ?ba = [104, 104]"
    by (simp add: unread_def contents_def storage_def ByteArray_new_def Node_new_def upt_rec)
  moreover have "char_of (104 :: nat) = CHR ''h''" by code_simp
  ultimately show ?thesis
    using array_writeFix [of "open_stream [] [Accepts 1, Accepts 7]" "[1, 7]" "[]" 2 ?ba]
    by (auto simp: char_of_byte_def)
qed

end
