(* ===== verification/Http_Connections.thy ===== *)
theory Http_Connections
  imports Http_Sessions Response_Props Uris
begin

text \<open>
  The client side of a connection (\<open>sylar/http/http_connection.h\<close>, \<open>http_connection.cc\<close>):
  \<open>recvResponse\<close> with the chunks of a body, \<open>sendRequest\<close>, and the functions that make one request
  on a new connection. As for the session, the configured size of the buffer is the argument
  \<open>buff_size\<close>, and the memory of \<open>new char[]\<close> and of the parser are \<open>data\<close> and \<open>memory\<close>. Log
  and debugging output is left out.
\<close>

section \<open>Receiving a response\<close>

text \<open>
  The first loop of \<open>recvResponse\<close>, up to the end of the head: as for a request, with the null
  character that the parser asks for written after the bytes that were read.
\<close>

partial_function (option) recv_response_head ::
  "u64 \<Rightarrow> HttpResponseParser \<Rightarrow> string \<Rightarrow> int \<Rightarrow> (HttpResponseParser \<times> string \<times> int) option io" where
  "recv_response_head buff_size parser data offset s =
     Option.bind (stream_read (unat (buff_size - word_of_int offset)) s) (\<lambda>(rt, t, s).
       if rt \<le> 0 then Some (Inr None, stream_close s) else
       let data = overwrite (nat offset) t data; len = rt + offset; data = data[nat len := CHR 0x00] in
       case rp_execute parser data (nat len) False of
         Inl e \<Rightarrow> Some (Inl e, s)
       | Inr (n, parser, data) \<Rightarrow>
           let nparser = sint (ucast n :: u32) in
           if rp_hasError parser then Some (Inr None, stream_close s) else
           let offset = len - nparser in
           if offset = sint (ucast buff_size :: u32) then Some (Inr None, stream_close s)
           else if rp_isFinished parser \<noteq> 0 then Some (Inr (Some (parser, data, offset)), s)
           else recv_response_head buff_size parser data offset s)"

text \<open>
  The inner loop before a chunk: it reads first, and asks the parser, made new each time, for
  the line of the chunk. \<open>len\<close> bytes of the buffer are in use.
\<close>

partial_function (option) recv_chunk_line ::
  "u64 \<Rightarrow> HttpResponseParser \<Rightarrow> string \<Rightarrow> int \<Rightarrow> (HttpResponseParser \<times> string \<times> int) option io" where
  "recv_chunk_line buff_size parser data len s =
     Option.bind (stream_read (unat (buff_size - word_of_int len)) s) (\<lambda>(rt, t, s).
       if rt \<le> 0 then Some (Inr None, stream_close s) else
       let data = overwrite (nat len) t data; len = len + rt; data = data[nat len := CHR 0x00] in
       case rp_execute parser data (nat len) True of
         Inl e \<Rightarrow> Some (Inl e, s)
       | Inr (n, parser, data) \<Rightarrow>
           if rp_hasError parser then Some (Inr None, stream_close s) else
           let len = sint (ucast (word_of_int len - n) :: u32) in
           if len = sint (ucast buff_size :: u32) then Some (Inr None, stream_close s)
           else if rp_isFinished parser \<noteq> 0 then Some (Inr (Some (parser, data, len)), s)
           else recv_chunk_line buff_size parser data len s)"

text \<open>The loop that reads the \<open>left\<close> bytes of a chunk that are not yet there, and adds them to the body.\<close>

partial_function (option) recv_chunk_rest :: "u64 \<Rightarrow> string \<Rightarrow> string \<Rightarrow> int \<Rightarrow> (string \<times> string) option io" where
  "recv_chunk_rest buff_size data body left s =
     (if left \<le> 0 then Some (Inr (Some (data, body)), s) else
      let size = sint (ucast buff_size :: u32) in
      Option.bind (stream_read (unat (word_of_int (if size < left then size else left) :: u64)) s) (\<lambda>(rt, t, s).
        if rt \<le> 0 then Some (Inr None, stream_close s)
        else let data = overwrite 0 t data
             in recv_chunk_rest buff_size data (body @ take (nat rt) data) (left - rt) s))"

text \<open>The outer loop over the chunks; a negative count to append is a huge \<open>size_t\<close>.\<close>

definition length_error :: fault where
  "length_error = Logic_error ''basic_string::append''"

partial_function (option) recv_chunks :: "u64 \<Rightarrow> HttpResponseParser \<Rightarrow> string \<Rightarrow> int \<Rightarrow> string \<Rightarrow> (HttpResponseParser \<times> string) option io" where
  "recv_chunks buff_size parser data len body s =
     Option.bind (recv_chunk_line buff_size parser data len s) (\<lambda>(r, s).
       case r of
         Inl e \<Rightarrow> Some (Inl e, s)
       | Inr None \<Rightarrow> Some (Inr None, s)
       | Inr (Some (parser, data, len)) \<Rightarrow>
           let len = len - 2; content_len = hc_content_len (rp_parser parser) in
           if content_len \<le> len then
             if content_len < 0 then Some (Inl length_error, s) else
             let body = body @ take (nat content_len) data;
                 data = overwrite 0 (take (nat (len - content_len)) (drop (nat content_len) data)) data;
                 len = len - content_len
             in if hc_chunks_done (rp_parser parser) then Some (Inr (Some (parser, body)), s)
                else recv_chunks buff_size parser data len body s
           else if len < 0 then Some (Inl length_error, s)
           else
             Option.bind (recv_chunk_rest buff_size data (body @ take (nat len) data) (content_len - len) s) (\<lambda>(r, s).
               case r of
                 Inl e \<Rightarrow> Some (Inl e, s)
               | Inr None \<Rightarrow> Some (Inr None, s)
               | Inr (Some (data, body)) \<Rightarrow>
                   if hc_chunks_done (rp_parser parser) then Some (Inr (Some (parser, body)), s)
                   else recv_chunks buff_size parser data 0 body s))"

text \<open>
  \<open>recvResponse\<close>. The body of a response with a length is read as that of a request is:
  the statements of the two functions are the same, and so is their definition here.
\<close>

definition recvResponse :: "(string \<Rightarrow> u64 option) \<Rightarrow> u64 \<Rightarrow> httpclient_parser \<Rightarrow> string \<Rightarrow> HttpResponse option io" where
  "recvResponse lexical_cast buff_size memory data s =
     Option.bind (recv_response_head buff_size (HttpResponseParser_new memory) data 0 s) (\<lambda>(r, s).
       case r of
         Inl e \<Rightarrow> Some (Inl e, s)
       | Inr None \<Rightarrow> Some (Inr None, s)
       | Inr (Some (parser, data, offset)) \<Rightarrow>
           if hc_chunked (rp_parser parser) then
             Option.bind (recv_chunks buff_size parser data offset [] s) (\<lambda>(r, s).
               case r of
                 Inl e \<Rightarrow> Some (Inl e, s)
               | Inr None \<Rightarrow> Some (Inr None, s)
               | Inr (Some (parser, body)) \<Rightarrow> Some (Inr (Some (rp_data parser\<lparr>rsp_body := body\<rparr>)), s))
           else
             let len = sint (rp_getContentLength lexical_cast parser) in
             if 0 < len then
               Option.bind (recv_body len data offset s) (\<lambda>(r, s).
                 case r of
                   Inl e \<Rightarrow> Some (Inl e, s)
                 | Inr None \<Rightarrow> Some (Inr None, s)
                 | Inr (Some body) \<Rightarrow> Some (Inr (Some (rp_data parser\<lparr>rsp_body := body\<rparr>)), s))
             else Some (Inr (Some (rp_data parser)), s))"

definition sendRequest :: "HttpRequest \<Rightarrow> int io" where
  "sendRequest req s = (let data = HttpRequest_dump req in writeFixSize data (of_nat (length data)) s)"

section \<open>One request on a new connection\<close>

datatype http_error =
    OK | INVALID_URL | INVALID_HOST | CONNECT_FAIL | SEND_CLOSE_BY_PEER | SEND_SOCKET_ERROR | TIMEOUT
  | CREATE_SOCKET_ERROR | POOL_GET_CONNECTION | POOL_INVALID_CONNECTION

record HttpResult =
  hr_result :: http_error
  hr_response :: "HttpResponse option"
  hr_error :: string

text \<open>
  What the client finds: the names that resolve, the answers to the calls on the new socket, the
  peer's side of the stream, and the \<open>errno\<close> and its text after a failed write.
\<close>

record client_net =
  cn_host :: endian
  cn_getaddrinfo :: "string \<Rightarrow> string option \<Rightarrow> address list option"
  cn_kernel :: kernel
  cn_incoming :: "arrival list"
  cn_outgoing :: "acceptance list"
  cn_errno :: "int \<times> string"
  cn_cast :: "string \<Rightarrow> u64 option"
  cn_buff_size :: u64
  cn_memory :: httpclient_parser
  cn_data :: string

definition send_error :: "client_net \<Rightarrow> HttpResult" where
  "send_error net = \<lparr>hr_result = SEND_SOCKET_ERROR, hr_response = None,
     hr_error = ''send request socket error, errno= '' @ dec_int (fst (cn_errno net)) @ '' errstr='' @ snd (cn_errno net)\<rparr>"

text \<open>From the connected socket on; \<open>peer\<close> is the text of the address in the messages.\<close>

definition exchange_request :: "client_net \<Rightarrow> HttpRequest \<Rightarrow> u64 \<Rightarrow> string \<Rightarrow> HttpResult io" where
  "exchange_request net req timeout_ms peer s =
     Option.bind (sendRequest req s) (\<lambda>(r, s).
       case r of
         Inl e \<Rightarrow> Some (Inl e, s)
       | Inr rt \<Rightarrow>
           if rt = 0 then
             Some (Inr \<lparr>hr_result = SEND_CLOSE_BY_PEER, hr_response = None, hr_error = ''send request close by peer: '' @ peer\<rparr>, s)
           else if rt < 0 then Some (Inr (send_error net), s)
           else Option.bind (recvResponse (cn_cast net) (cn_buff_size net) (cn_memory net) (cn_data net) s) (\<lambda>(r, s).
             case r of
               Inl e \<Rightarrow> Some (Inl e, s)
             | Inr None \<Rightarrow>
                 Some (Inr \<lparr>hr_result = TIMEOUT, hr_response = None,
                   hr_error = ''recv response timeout: '' @ peer @ '' timeout_ms:'' @ dec (unat timeout_ms)\<rparr>, s)
             | Inr (Some rsp) \<Rightarrow> Some (Inr \<lparr>hr_result = OK, hr_response = Some rsp, hr_error = ''ok''\<rparr>, s)))"

text \<open>
  \<open>DoRequest(req, uri, timeout_ms)\<close>: the result, with what was sent and with the calls on the
  socket, whose last is the \<open>close\<close> of \<open>recvResponse\<close> or of the destructor. \<open>CreateTCP\<close> never
  returns null.
\<close>

definition DoRequest_req :: "client_net \<Rightarrow> HttpRequest \<Rightarrow> uri \<Rightarrow> u64 \<Rightarrow> ((fault + HttpResult) \<times> string \<times> sock_call list) option" where
  "DoRequest_req net req uri timeout_ms =
     (case createAddress (cn_host net) (cn_getaddrinfo net) uri of
        None \<Rightarrow> Some (Inr \<lparr>hr_result = INVALID_HOST, hr_response = None, hr_error = ''invalid host: '' @ m_host uri\<rparr>, [], [])
      | Some addr \<Rightarrow>
          let peer = toString (cn_host net) addr;
              (ok, sock, calls) = Socket_connect (cn_kernel net) addr (-1) (CreateTCP addr)
          in if \<not> ok then
               Some (Inr \<lparr>hr_result = CONNECT_FAIL, hr_response = None, hr_error = ''connect fail: '' @ peer\<rparr>, [],
                 calls @ snd (snd (Socket_close sock)))
             else map_option (\<lambda>(r, s). (r, sent s,
                 calls @ Call_option (sk_sock sock) SOL_SOCKET SO_RCVTIMEO # snd (snd (Socket_close sock))))
               (exchange_request net req timeout_ms peer (SocketStream_new (Some sock) True (cn_incoming net) (cn_outgoing net))))"

text \<open>
  The headers a caller gives, in the order of the map: \<open>Connection\<close> only sets the flag, the
  others are set, and a \<open>Host\<close> that is not empty is remembered.
\<close>

definition copy_header :: "string \<times> string \<Rightarrow> HttpRequest \<times> bool \<Rightarrow> HttpRequest \<times> bool" where
  "copy_header = (\<lambda>(k, v) (req, has_host).
     if strcasecmp (c_str k) ''connection'' = 0 then
       (if strcasecmp (c_str v) ''keep-alive'' = 0 then req\<lparr>req_close := False\<rparr> else req, has_host)
     else (setHeader k v req, if \<not> has_host \<and> strcasecmp (c_str k) ''host'' = 0 then v \<noteq> [] else has_host))"

definition build_request :: "HttpRequest \<Rightarrow> string \<Rightarrow> (string \<times> string) list \<Rightarrow> string \<Rightarrow> HttpRequest" where
  "build_request req host headers body =
     (let (req, has_host) = fold copy_header headers (req, False);
          req = (if \<not> has_host then setHeader ''Host'' host req else req)
      in req\<lparr>req_body := body\<rparr>)"

definition DoRequest :: "client_net \<Rightarrow> HttpMethod \<Rightarrow> uri \<Rightarrow> u64 \<Rightarrow> (string \<times> string) list \<Rightarrow> string \<Rightarrow>
    ((fault + HttpResult) \<times> string \<times> sock_call list) option" where
  "DoRequest net m uri timeout_ms headers body =
     (let req = (HttpRequest_new 0x11 True)\<lparr>req_path := getPath uri, req_query := m_query uri, req_fragment := m_fragment uri,
            req_method := m\<rparr>
      in DoRequest_req net (build_request req (m_host uri) headers body) uri timeout_ms)"

definition DoRequest_url :: "client_net \<Rightarrow> HttpMethod \<Rightarrow> string \<Rightarrow> u64 \<Rightarrow> (string \<times> string) list \<Rightarrow> string \<Rightarrow>
    ((fault + HttpResult) \<times> string \<times> sock_call list) option" where
  "DoRequest_url net m url timeout_ms headers body =
     (case Uri_Create url of
        Inl e \<Rightarrow> Some (Inl e, [], [])
      | Inr None \<Rightarrow> Some (Inr \<lparr>hr_result = INVALID_URL, hr_response = None, hr_error = ''invalid url: '' @ url\<rparr>, [], [])
      | Inr (Some uri) \<Rightarrow> DoRequest net m uri timeout_ms headers body)"

definition DoGet :: "client_net \<Rightarrow> uri \<Rightarrow> u64 \<Rightarrow> (string \<times> string) list \<Rightarrow> string \<Rightarrow>
    ((fault + HttpResult) \<times> string \<times> sock_call list) option" where
  "DoGet net = DoRequest net GET"

definition DoPost :: "client_net \<Rightarrow> uri \<Rightarrow> u64 \<Rightarrow> (string \<times> string) list \<Rightarrow> string \<Rightarrow>
    ((fault + HttpResult) \<times> string \<times> sock_call list) option" where
  "DoPost net = DoRequest net POST"

definition DoGet_url :: "client_net \<Rightarrow> string \<Rightarrow> u64 \<Rightarrow> (string \<times> string) list \<Rightarrow> string \<Rightarrow>
    ((fault + HttpResult) \<times> string \<times> sock_call list) option" where
  "DoGet_url net url timeout_ms headers body =
     (case Uri_Create url of
        Inl e \<Rightarrow> Some (Inl e, [], [])
      | Inr None \<Rightarrow> Some (Inr \<lparr>hr_result = INVALID_URL, hr_response = None, hr_error = ''invalid url: '' @ url\<rparr>, [], [])
      | Inr (Some uri) \<Rightarrow> DoGet net uri timeout_ms headers body)"

definition DoPost_url :: "client_net \<Rightarrow> string \<Rightarrow> u64 \<Rightarrow> (string \<times> string) list \<Rightarrow> string \<Rightarrow>
    ((fault + HttpResult) \<times> string \<times> sock_call list) option" where
  "DoPost_url net url timeout_ms headers body =
     (case Uri_Create url of
        Inl e \<Rightarrow> Some (Inl e, [], [])
      | Inr None \<Rightarrow> Some (Inr \<lparr>hr_result = INVALID_URL, hr_response = None, hr_error = ''invalid url: '' @ url\<rparr>, [], [])
      | Inr (Some uri) \<Rightarrow> DoPost net uri timeout_ms headers body)"

definition HttpResult_toString :: "HttpResult \<Rightarrow> string" where
  "HttpResult_toString r =
     ''[HttpResult result='' @ dec (case hr_result r of OK \<Rightarrow> 0 | INVALID_URL \<Rightarrow> 1 | INVALID_HOST \<Rightarrow> 2 | CONNECT_FAIL \<Rightarrow> 3
       | SEND_CLOSE_BY_PEER \<Rightarrow> 4 | SEND_SOCKET_ERROR \<Rightarrow> 5 | TIMEOUT \<Rightarrow> 6 | CREATE_SOCKET_ERROR \<Rightarrow> 7 | POOL_GET_CONNECTION \<Rightarrow> 8
       | POOL_INVALID_CONNECTION \<Rightarrow> 9) @ '' error='' @ hr_error r @
     '' response='' @ (case hr_response r of Some rsp \<Rightarrow> HttpResponse_dump rsp | None \<Rightarrow> ''nullptr'') @ '']''"

section \<open>Chunked bodies\<close>

text \<open>A chunk on the wire.\<close>

definition chunk_text :: "string \<Rightarrow> string" where
  "chunk_text c = hexs (length c) @ crlf @ c @ crlf"

declare recv_response_head.simps [code] recv_chunk_line.simps [code] recv_chunk_rest.simps [code] recv_chunks.simps [code]

lemma recv_chunk_line_step:
  "stream_read (unat (buff_size - word_of_int len)) s = Some (rt, t, s') \<Longrightarrow> 0 < rt \<Longrightarrow>
    rp_execute parser ((overwrite (nat len) t data)[nat (len + rt) := CHR 0x00]) (nat (len + rt)) True = Inr (n, parser', data') \<Longrightarrow>
    \<not> rp_hasError parser' \<Longrightarrow> sint (ucast (word_of_int (len + rt) - n) :: u32) = len' \<Longrightarrow>
    len' \<noteq> sint (ucast buff_size :: u32) \<Longrightarrow> rp_isFinished parser' \<noteq> 0 \<Longrightarrow>
    recv_chunk_line buff_size parser data len s = Some (Inr (Some (parser', data', len')), s')"
  by (subst recv_chunk_line.simps) (simp add: Let_def)

text \<open>
  The first bytes of a chunk, its line and a part \<open>a\<close> of what follows it, arrive in one piece in
  an empty buffer.
\<close>

lemma recv_chunk_line_piece:
  assumes "isConnected s" "incoming s = Piece (hexs n @ crlf @ a) # es" "n < 2 ^ 31"
    and "length (hexs n @ crlf @ a) \<le> unat buff_size" "unat buff_size < 2 ^ 31" "length data = unat buff_size + 1"
    and "rp_error parser = 0"
  shows "\<exists>parser' data'. recv_chunk_line buff_size parser data 0 s =
      Some (Inr (Some (parser', data', int (length a))), s\<lparr>incoming := es\<rparr>) \<and>
    take (length a) data' = a \<and> length data' = length data \<and> rp_data parser' = rp_data parser \<and>
    rp_error parser' = 0 \<and> hc_content_len (rp_parser parser') = int n \<and> hc_chunks_done (rp_parser parser') = (n = 0)"
proof -
  let ?t = "hexs n @ crlf @ a" and ?k = "length (hexs n @ crlf)"
  have l: "length ?t < 2 ^ 31" "0 < length ?t" "length ?t < length data" using assms(4-6) by (simp_all add: crlf_def)
  have d: "(overwrite 0 ?t data)[length ?t := CHR 0x00] = hexs n @ crlf @ a @ CHR 0x00 # drop (Suc (length ?t)) data"
    using l(3) by (simp add: overwrite_def list_update_append Cons_nth_drop_Suc [symmetric] del: append_assoc)
  obtain parser' data' where x: "rp_execute parser (hexs n @ crlf @ a @ CHR 0x00 # drop (Suc (length ?t)) data) (length ?t) True =
      Inr (of_nat ?k, parser', data')" "rp_isFinished parser' = 1" "rp_data parser' = rp_data parser"
      "rp_error parser' = rp_error parser" "hc_cs (rp_parser parser') = 120" "take (length a) data' = a"
      "length data' = length (hexs n @ crlf @ a @ CHR 0x00 # drop (Suc (length ?t)) data)"
      "hc_content_len (rp_parser parser') = int n" "hc_chunks_done (rp_parser parser') = (int n \<le> 0)"
    using chunk_execute [of n a parser "drop (Suc (length ?t)) data"] l(1) assms(3) by auto
  have len: "word_of_int (0 + int (length ?t)) - of_nat ?k = (of_nat (length a) :: u64)"
    by (simp add: algebra_simps)
  have la: "length a < 2 ^ 31" using l(1) by simp
  have b: "sint (ucast buff_size :: u32) = int (unat buff_size)"
    using int_word [OF assms(5)] by simp
  have "recv_chunk_line buff_size parser data 0 s = Some (Inr (Some (parser', data', int (length a))), s\<lparr>incoming := es\<rparr>)"
  proof (rule recv_chunk_line_step)
    show "stream_read (unat (buff_size - word_of_int 0)) s = Some (int (length ?t), ?t, s\<lparr>incoming := es\<rparr>)"
      using assms(1,2,4) by (simp add: stream_read_def kernel_recv_def)
    show "rp_execute parser ((overwrite (nat 0) ?t data)[nat (0 + int (length ?t)) := CHR 0x00]) (nat (0 + int (length ?t))) True =
        Inr (of_nat ?k, parser', data')"
      using x(1) d by (simp only: nat_int add_0_left nat_0)
    show "sint (ucast (word_of_int (0 + int (length ?t)) - of_nat ?k :: u64) :: u32) = int (length a)"
      unfolding len by (rule int_word [OF la])
    show "\<not> rp_hasError parser'"
      using x(4,5) assms(7) by (simp add: rp_hasError_def httpclient_parser_has_error_def)
    have "length a < unat buff_size" using assms(4) by (simp add: crlf_def)
    then show "int (length a) \<noteq> sint (ucast buff_size :: u32)" using b by linarith
    show "0 < int (length ?t)" using l(2) by linarith
  qed (use x(2) in simp_all)
  moreover have "length data' = length data" using x(7) l(3) by simp
  ultimately show ?thesis using x assms(7) by auto
qed

lemma recv_chunks_aligned:
  assumes "isConnected s" "incoming s = map (\<lambda>c. Piece (chunk_text c)) (cs @ [[]]) @ es" "[] \<notin> set cs"
    and "\<forall>c \<in> set (cs @ [[]]). length (chunk_text c) \<le> unat buff_size" "unat buff_size < 2 ^ 31"
    and "length data = unat buff_size + 1" "rp_error parser = 0"
  shows "\<exists>parser'. recv_chunks buff_size parser data 0 body s = Some (Inr (Some (parser', body @ concat cs)), s\<lparr>incoming := es\<rparr>) \<and>
    rp_data parser' = rp_data parser"
  using assms
proof (induction cs arbitrary: s data parser body)
  case Nil
  obtain parser' data' where l: "recv_chunk_line buff_size parser data 0 s =
      Some (Inr (Some (parser', data', int (length crlf))), s\<lparr>incoming := es\<rparr>)"
    "rp_data parser' = rp_data parser" "hc_content_len (rp_parser parser') = 0" "hc_chunks_done (rp_parser parser')"
    using recv_chunk_line_piece [of s 0 crlf es buff_size data parser] Nil.prems by (auto simp: chunk_text_def)
  then show ?case by (subst recv_chunks.simps) (simp add: l(1) crlf_def Let_def)
next
  case (Cons c cs)
  let ?es = "map (\<lambda>c. Piece (chunk_text c)) (cs @ [[]]) @ es"
  have c: "c \<noteq> []" "length (chunk_text c) \<le> unat buff_size" "length c < 2 ^ 31"
    using Cons.prems(3-5) by (auto simp: chunk_text_def)
  obtain parser' data' where l: "recv_chunk_line buff_size parser data 0 s =
      Some (Inr (Some (parser', data', int (length (c @ crlf)))), s\<lparr>incoming := ?es\<rparr>)"
    "take (length (c @ crlf)) data' = c @ crlf" "length data' = length data"
    "rp_data parser' = rp_data parser" "rp_error parser' = 0" "hc_content_len (rp_parser parser') = int (length c)"
    "\<not> hc_chunks_done (rp_parser parser')"
    using recv_chunk_line_piece [of s "length c" "c @ crlf" ?es buff_size data parser] Cons.prems c
    by (auto simp: chunk_text_def)
  have t: "take (length c) data' = c"
    using arg_cong [OF l(2), of "take (length c)"] by simp
  have "recv_chunks buff_size parser data 0 body s = recv_chunks buff_size parser' data' 0 (body @ c) (s\<lparr>incoming := ?es\<rparr>)"
    by (subst recv_chunks.simps) (simp add: l t crlf_def Let_def overwrite_def)
  moreover have "\<exists>parser''. recv_chunks buff_size parser' data' 0 (body @ c) (s\<lparr>incoming := ?es\<rparr>) =
      Some (Inr (Some (parser'', (body @ c) @ concat cs)), s\<lparr>incoming := ?es\<rparr>\<lparr>incoming := es\<rparr>) \<and> rp_data parser'' = rp_data parser'"
    by (rule Cons.IH) (use Cons.prems l in simp_all)
  ultimately show ?case using l(4) by auto
qed

text \<open>
  C24. A chunked body is put together when the pieces in which it arrives are its chunks: if the
  peer sends each chunk, with its line and its end, in a piece of its own that fits the buffer,
  and nothing of the body arrived with the head, then the body is the chunks one after the
  other, the last chunk ends it, and the stream is left behind it.
\<close>

theorem chunked_body:
  assumes "isConnected s" "incoming s = map (\<lambda>c. Piece (chunk_text c)) (cs @ [[]]) @ es" "[] \<notin> set cs"
    and "\<forall>c \<in> set (cs @ [[]]). length (chunk_text c) \<le> unat buff_size" "unat buff_size < 2 ^ 31"
    and "length data = unat buff_size + 1" "rp_error parser = 0"
  shows "\<exists>parser'. recv_chunks buff_size parser data 0 [] s = Some (Inr (Some (parser', concat cs)), s\<lparr>incoming := es\<rparr>) \<and>
    rp_data parser' = rp_data parser"
  using recv_chunks_aligned [OF assms, of "[]"] by simp

lemma chunked_body_witness:
  "\<exists>parser s'. recv_chunks 64 (HttpResponseParser_new client_memory) (replicate 65 (CHR 0x00)) 0 []
    (open_stream [Piece (chunk_text ''hello ''), Piece (chunk_text ''world''), Piece (chunk_text [])] []) =
    Some (Inr (Some (parser, ''hello world'')), s')"
proof -
  have l: "\<forall>c \<in> set ([''hello '', ''world''] @ [[]]). length (chunk_text c) \<le> unat (64 :: u64)"
    by (simp add: chunk_text_def crlf_def hexs_def show_base.simps)
  show ?thesis
    using chunked_body [OF _ _ _ l, where s = "open_stream [Piece (chunk_text ''hello ''), Piece (chunk_text ''world''), Piece (chunk_text [])] []"
        and es = "[]" and data = "replicate 65 (CHR 0x00)" and parser = "HttpResponseParser_new client_memory"]
    by (auto simp: HttpResponseParser_new_def)
qed

text \<open>
  Chunks and pieces that do not agree are not. A chunk \<open>a @ b\<close> of which only \<open>a\<close> arrives with
  the line loses the last two bytes of \<open>a\<close>, which are taken for its end, and has its real end
  in the body: the next chunk starts from an empty buffer with the body \<open>a\<close> without these
  bytes, then \<open>b\<close> and the end of line. And what arrived together with the head, or with an
  earlier chunk, is not looked at before more has arrived: if nothing does, the function waits
  for ever, and if the peer closes, the response is lost.
\<close>

theorem chunks_not_aligned:
  assumes "isConnected s" "length (hexs (length (a @ b)) @ crlf @ a) \<le> unat buff_size" "unat buff_size < 2 ^ 31"
    and "length data = unat buff_size + 1" "rp_error parser = 0" "2 \<le> length a" "b \<noteq> []" "length b + 2 \<le> unat buff_size"
    and "length (a @ b) < 2 ^ 31"
  shows "(incoming s = Piece (hexs (length (a @ b)) @ crlf @ a) # Piece (b @ crlf) # es \<longrightarrow>
      (\<exists>parser' data'. recv_chunks buff_size parser data 0 body s =
        recv_chunks buff_size parser' data' 0 (body @ take (length a - 2) a @ b @ crlf) (s\<lparr>incoming := es\<rparr>))) \<and>
    (incoming s = [] \<longrightarrow> recv_chunks buff_size parser data len body s = None) \<and>
    (incoming s = [Peer_closed] \<longrightarrow> recv_chunks buff_size parser data len body s = Some (Inr None, stream_close s))"
proof (intro conjI impI)
  let ?n = "length (a @ b)" and ?es = "Piece (b @ crlf) # es"
  assume inc: "incoming s = Piece (hexs ?n @ crlf @ a) # ?es"
  obtain parser' data' where l: "recv_chunk_line buff_size parser data 0 s = Some (Inr (Some (parser', data', int (length a))), s\<lparr>incoming := ?es\<rparr>)"
    "take (length a) data' = a" "length data' = length data" "hc_content_len (rp_parser parser') = int ?n"
    "hc_chunks_done (rp_parser parser') = (?n = 0)"
    using recv_chunk_line_piece [OF assms(1) inc assms(9,2-5)] by auto
  have t: "take (length a - 2) data' = take (length a - 2) a"
    using arg_cong [OF l(2), of "take (length a - 2)"] by simp
  have b: "sint (ucast buff_size :: u32) = int (unat buff_size)" using int_word [OF assms(3)] by simp
  let ?k = "int (length b) + 2" and ?d = "overwrite 0 (b @ crlf) data'"
  have w: "unat (word_of_int ?k :: u64) = length b + 2"
  proof -
    have "word_of_int ?k = (of_nat (length b + 2) :: u64)" by (simp add: algebra_simps)
    moreover have "unat (of_nat (length b + 2) :: u64) = length b + 2" using assms(3,8) by (intro of_nat_inverse [OF refl]) simp
    ultimately show ?thesis by (simp only:)
  qed
  have rest: "recv_chunk_rest buff_size data' x ?k (s\<lparr>incoming := ?es\<rparr>) =
      Some (Inr (Some (?d, x @ b @ crlf)), s\<lparr>incoming := es\<rparr>)" for x
  proof -
    have rd: "stream_read (length b + 2) (s\<lparr>incoming := ?es\<rparr>) = Some (?k, b @ crlf, s\<lparr>incoming := es\<rparr>)"
      using assms(1) by (simp add: stream_read_def kernel_recv_def crlf_def)
    have z: "recv_chunk_rest buff_size ?d y 0 s2 = Some (Inr (Some (?d, y)), s2)" for y s2
      by (subst recv_chunk_rest.simps) simp
    have tk: "take (nat ?k) ?d = b @ crlf"
      using assms(4,8) l(3) by (simp add: overwrite_def crlf_def nat_add_distrib)
    have "\<not> ?k \<le> 0" "\<not> int (unat buff_size) < ?k" using assms(8) by linarith+
    then show ?thesis using rd w tk z
      by (subst recv_chunk_rest.simps) (simp add: b Let_def)
  qed
  have "\<not> int ?n \<le> int (length a) - 2" "int ?n - (int (length a) - 2) = ?k" "nat (int (length a) - 2) = length a - 2"
    using assms(6) by simp_all
  then have "recv_chunks buff_size parser data 0 body s =
      recv_chunks buff_size parser' ?d 0 ((body @ take (length a - 2) a) @ b @ crlf) (s\<lparr>incoming := es\<rparr>)"
    using l(5) assms(6,7) by (subst recv_chunks.simps) (simp add: l(1,4) t rest Let_def)
  then show "\<exists>parser' data'. recv_chunks buff_size parser data 0 body s =
        recv_chunks buff_size parser' data' 0 (body @ take (length a - 2) a @ b @ crlf) (s\<lparr>incoming := es\<rparr>)"
    by (metis append_assoc)
next
  assume "incoming s = []"
  then have "recv_chunk_line buff_size parser data len s = None"
    using assms(1) by (subst recv_chunk_line.simps) (simp add: stream_read_def kernel_recv_def)
  then show "recv_chunks buff_size parser data len body s = None" by (subst recv_chunks.simps) simp
next
  assume "incoming s = [Peer_closed]"
  then have "recv_chunk_line buff_size parser data len s = Some (Inr None, stream_close s)"
    using assms(1) by (subst recv_chunk_line.simps) (simp add: stream_read_def kernel_recv_def)
  then show "recv_chunks buff_size parser data len body s = Some (Inr None, stream_close s)"
    by (subst recv_chunks.simps) simp
qed

lemma chunks_not_aligned_witness:
  "\<exists>parser data. recv_chunks 64 (HttpResponseParser_new client_memory) (replicate 65 (CHR 0x00)) 0 []
      (open_stream [Piece (hexs (length ''hello'') @ crlf @ ''hel''), Piece (''lo'' @ crlf)] []) =
    recv_chunks 64 parser data 0 (''h'' @ ''lo'' @ crlf) (open_stream [] [])"
proof -
  have l: "length (hexs (length (''hel'' @ ''lo'')) @ crlf @ ''hel'') \<le> unat (64 :: u64)"
    by (simp add: crlf_def hexs_def show_base.simps)
  show ?thesis
    using chunks_not_aligned [OF _ l, of "open_stream [Piece (hexs (length ''hello'') @ crlf @ ''hel''), Piece (''lo'' @ crlf)] []"
        "replicate 65 (CHR 0x00)" "HttpResponseParser_new client_memory" "[]" "[]"]
    by (simp add: HttpResponseParser_new_def) (simp add: open_stream_def SocketStream_new_def)
qed

section \<open>Outcomes\<close>

lemma writeFixSize_result:
  assumes "writeFixSize buffer n s = Some (Inr rt, s')"
  shows "rt = sint (ucast n :: u32)"
proof -
  obtain r s1 where "writeFix_loop 0 n buffer s = Some (r, s1)" using assms by (auto simp: writeFixSize_def)
  with assms show ?thesis by (cases r) (auto simp: writeFixSize_def)
qed

lemma connect_owns:
  assumes "Socket_connect k addr t (CreateTCP a) = (b, s, cs)"
  shows "owns (s, held {} cs)"
  by (rule sock_step_owns [OF sock_step.connect [OF assms]]) (simp add: owns_def CreateTCP_def Socket_new_def)

lemma exchange_request_outcomes:
  assumes "length (HttpRequest_dump req) < 2 ^ 31" "exchange_request net req t peer s = Some (Inr r, s')"
  shows "hr_result r \<in> {TIMEOUT, OK} \<and> (hr_result r = OK \<longleftrightarrow> hr_response r \<noteq> None)"
proof -
  obtain rt s1 where w: "sendRequest req s = Some (Inr rt, s1)"
    using assms(2) by (cases "sendRequest req s"; cases "fst (the (sendRequest req s))") (auto simp: exchange_request_def)
  then have "rt = int (length (HttpRequest_dump req))"
    using int_word [OF assms(1)] by (auto simp: sendRequest_def Let_def dest!: writeFixSize_result)
  moreover have "HttpRequest_dump req \<noteq> []" by (simp add: HttpRequest_dump_def crlf_def)
  ultimately have "0 < rt" by simp
  then have x: "Option.bind (recvResponse (cn_cast net) (cn_buff_size net) (cn_memory net) (cn_data net) s1) (\<lambda>(x, s).
      case x of Inl e \<Rightarrow> Some (Inl e, s)
      | Inr None \<Rightarrow> Some (Inr \<lparr>hr_result = TIMEOUT, hr_response = None,
          hr_error = ''recv response timeout: '' @ peer @ '' timeout_ms:'' @ dec (unat t)\<rparr>, s)
      | Inr (Some rsp) \<Rightarrow> Some (Inr \<lparr>hr_result = OK, hr_response = Some rsp, hr_error = ''ok''\<rparr>, s)) = Some (Inr r, s')"
    using assms(2) by (simp add: exchange_request_def w)
  then obtain x s2 where y: "recvResponse (cn_cast net) (cn_buff_size net) (cn_memory net) (cn_data net) s1 = Some (x, s2)"
    by (cases "recvResponse (cn_cast net) (cn_buff_size net) (cn_memory net) (cn_data net) s1") auto
  show ?thesis
  proof (cases x)
    case (Inl e)
    then show ?thesis using x y by simp
  next
    case (Inr q)
    then show ?thesis using x y by (cases q) auto
  qed
qed

text \<open>
  C38. A request on a new connection leaves nothing behind and has one of four outcomes: when
  \<open>DoRequest\<close> returns, every descriptor it opened is closed, the result is a response, or none
  with one of \<open>INVALID_HOST\<close>, \<open>CONNECT_FAIL\<close> and \<open>TIMEOUT\<close>, and nothing was sent in the first two. The
  errors for a request that could not be sent are never given, whatever the peer does:
  \<open>writeFixSize\<close> reports none.
\<close>

theorem request_outcomes:
  assumes "length (HttpRequest_dump req) < 2 ^ 31" "DoRequest_req net req uri t = Some (Inr r, wire, calls)"
  shows "held {} calls = {} \<and> hr_result r \<in> {INVALID_HOST, CONNECT_FAIL, TIMEOUT, OK} \<and>
    (hr_result r = OK \<longleftrightarrow> hr_response r \<noteq> None) \<and> (hr_result r \<in> {INVALID_HOST, CONNECT_FAIL} \<longrightarrow> wire = [])"
proof (cases "createAddress (cn_host net) (cn_getaddrinfo net) uri")
  case None
  then show ?thesis using assms(2) by (auto simp: DoRequest_req_def)
next
  case (Some addr)
  obtain ok sock cs where c: "Socket_connect (cn_kernel net) addr (-1) (CreateTCP addr) = (ok, sock, cs)"
    by (cases "Socket_connect (cn_kernel net) addr (-1) (CreateTCP addr)")
  obtain b s2 cs2 where d: "Socket_close sock = (b, s2, cs2)" by (cases "Socket_close sock")
  have h: "held (held {} cs) cs2 = {}" using close_owns [OF connect_owns [OF c] d] by simp
  show ?thesis
  proof (cases ok)
    case False
    then show ?thesis using assms(2) Some c d h by (auto simp: DoRequest_req_def Let_def held_append)
  next
    case True
    let ?s = "SocketStream_new (Some sock) True (cn_incoming net) (cn_outgoing net)"
    obtain s' where e: "exchange_request net req t (toString (cn_host net) addr) ?s = Some (Inr r, s')"
      and cl: "calls = cs @ Call_option (sk_sock sock) SOL_SOCKET SO_RCVTIMEO # cs2"
      using assms(2) Some c d True by (auto simp: DoRequest_req_def Let_def)
    show ?thesis using exchange_request_outcomes [OF assms(1) e] h by (auto simp: cl held_append)
  qed
qed

definition sample_net :: client_net where
  "sample_net = \<lparr>cn_host = SYLAR_LITTLE_ENDIAN,
     cn_getaddrinfo = (\<lambda>node service. Some [IPv4Address (IPv4Address_new SYLAR_LITTLE_ENDIAN 0x7F000001 0)]),
     cn_kernel = \<lparr>k_socket = 5, k_accept = -1, k_bind = 0, k_connect = -1, k_listen = 0, k_sockname = None, k_peername = None\<rparr>,
     cn_incoming = [], cn_outgoing = [], cn_errno = (0, []), cn_cast = read_dec, cn_buff_size = 64,
     cn_memory = client_memory, cn_data = replicate 65 (CHR 0x00)\<rparr>"

lemma request_outcomes_witness:
  "\<exists>r calls. DoRequest_req sample_net (HttpRequest_new 0x11 True) \<lparr>m_scheme = ''http'', m_userinfo = [], m_host = ''h'',
      m_path = [], m_query = [], m_fragment = [], m_port = 0\<rparr> 100 = Some (Inr r, [], calls) \<and>
    hr_result r = CONNECT_FAIL \<and> held {} calls = {}"
proof -
  let ?u = "\<lparr>m_scheme = ''http'', m_userinfo = [], m_host = ''h'', m_path = [], m_query = [], m_fragment = [], m_port = 0\<rparr>"
  have "length (HttpRequest_dump (HttpRequest_new 0x11 True)) \<le> 50" by code_simp
  then have l: "length (HttpRequest_dump (HttpRequest_new 0x11 True)) < 2 ^ 31" by simp
  have "createAddress (cn_host sample_net) (cn_getaddrinfo sample_net) ?u \<noteq> None" by code_simp
  then obtain a where a: "createAddress (cn_host sample_net) (cn_getaddrinfo sample_net) ?u = Some a" by blast
  have "Option.is_none (map_option (\<lambda>a. \<not> fst (Socket_connect (cn_kernel sample_net) a (-1) (CreateTCP a)))
      (createAddress (cn_host sample_net) (cn_getaddrinfo sample_net) ?u)) = False \<and>
    the (map_option (\<lambda>a. \<not> fst (Socket_connect (cn_kernel sample_net) a (-1) (CreateTCP a)))
      (createAddress (cn_host sample_net) (cn_getaddrinfo sample_net) ?u))" by code_simp
  then have "\<not> fst (Socket_connect (cn_kernel sample_net) a (-1) (CreateTCP a))" unfolding a by simp
  then have "\<exists>r calls. DoRequest_req sample_net (HttpRequest_new 0x11 True) ?u 100 = Some (Inr r, [], calls) \<and> hr_result r = CONNECT_FAIL"
    by (cases "Socket_connect (cn_kernel sample_net) a (-1) (CreateTCP a)") (simp add: DoRequest_req_def a Let_def)
  then show ?thesis using request_outcomes [OF l] by blast
qed

end
