(* ===== verification/Connection_Pools.thy ===== *)
theory Connection_Pools
  imports Http_Connections
begin

text \<open>
  The pool of connections to one host (\<open>HttpConnectionPool\<close> of \<open>sylar/http/http_connection.cc\<close>).
  The connections are objects on a heap, the pool a list of pointers to the idle ones. The
  pointer that \<open>getConnection\<close> gives out has \<open>ReleasePtr\<close> as its deleter, so a release happens
  once for each. The list is changed under the mutex only, and what the functions do outside of
  it touches objects no other thread has a pointer to, and the atomic \<open>m_total\<close>: each function
  is one step. A pointer to an object that is not there any more is undefined behaviour.
\<close>

section \<open>State\<close>

record connection =
  co_stream :: stream
  co_createTime :: u64
  co_request :: u64

record pool =
  po_host :: string
  po_vhost :: string
  po_port :: u32
  po_maxSize :: u32
  po_maxAliveTime :: u32
  po_maxRequest :: u32
  po_conns :: "nat list"
  po_total :: u32
  po_heap :: "nat \<Rightarrow> connection option"

definition HttpConnectionPool_new :: "string \<Rightarrow> string \<Rightarrow> u32 \<Rightarrow> u32 \<Rightarrow> u32 \<Rightarrow> u32 \<Rightarrow> pool" where
  "HttpConnectionPool_new host vhost port max_size max_alive_time max_request =
     \<lparr>po_host = host, po_vhost = vhost, po_port = port, po_maxSize = max_size, po_maxAliveTime = max_alive_time,
      po_maxRequest = max_request, po_conns = [], po_total = 0, po_heap = (\<lambda>p. None)\<rparr>"

definition HttpConnection_new :: "sock \<Rightarrow> arrival list \<Rightarrow> acceptance list \<Rightarrow> connection" where
  "HttpConnection_new k ins outs = \<lparr>co_stream = SocketStream_new (Some k) True ins outs, co_createTime = 0, co_request = 0\<rparr>"

section \<open>Taking and giving back\<close>

text \<open>The loop of \<open>getConnection\<close>: the invalid connections, the one found, and the rest of the list.\<close>

fun take_idle :: "(nat \<Rightarrow> connection option) \<Rightarrow> u64 \<Rightarrow> u32 \<Rightarrow> nat list \<Rightarrow> fault + nat list \<times> nat option \<times> nat list" where
  "take_idle h now max_age [] = Inr ([], None, [])"
| "take_idle h now max_age (p # ps) =
     (case h p of
        None \<Rightarrow> Inl Undefined
      | Some conn \<Rightarrow>
          if \<not> isConnected (co_stream conn) then map_sum id (\<lambda>(bad, r). (p # bad, r)) (take_idle h now max_age ps)
          else if co_createTime conn + ucast max_age > now then
            map_sum id (\<lambda>(bad, r). (p # bad, r)) (take_idle h now max_age ps)
          else Inr ([], Some p, ps))"

fun delete_all :: "nat list \<Rightarrow> (nat \<Rightarrow> connection option) \<Rightarrow> fault + (nat \<Rightarrow> connection option)" where
  "delete_all [] h = Inr h"
| "delete_all (p # ps) h = (case h p of None \<Rightarrow> Inl Undefined | Some _ \<Rightarrow> delete_all ps (h(p := None)))"

text \<open>\<open>fresh\<close> is the address that \<open>new\<close> gives.\<close>

definition getConnection :: "u64 \<Rightarrow> nat \<Rightarrow> client_net \<Rightarrow> (pool, nat option) call" where
  "getConnection now_ms fresh net pool =
     (case take_idle (po_heap pool) now_ms (po_maxAliveTime pool) (po_conns pool) of
        Inl e \<Rightarrow> (Inl e, pool)
      | Inr (invalid_conns, ptr, rest) \<Rightarrow>
          (case delete_all invalid_conns (po_heap pool) of
             Inl e \<Rightarrow> (Inl e, pool\<lparr>po_conns := rest\<rparr>)
           | Inr h \<Rightarrow>
               let pool = pool\<lparr>po_conns := rest, po_heap := h, po_total := po_total pool - of_nat (length invalid_conns)\<rparr>
               in case ptr of
                    Some p \<Rightarrow> (Inr (Some p), pool)
                  | None \<Rightarrow>
                      (case LookupAnyIPAddress (cn_getaddrinfo net) (po_host pool) of
                         None \<Rightarrow> (Inr None, pool)
                       | Some a \<Rightarrow>
                           let addr = setPort (cn_host net) (ucast (po_port pool)) a;
                               (ok, sock, calls) = Socket_connect (cn_kernel net) addr (-1) (CreateTCP addr)
                           in if \<not> ok then (Inr None, pool)
                              else (Inr (Some fresh),
                                pool\<lparr>po_heap := h(fresh \<mapsto> HttpConnection_new sock (cn_incoming net) (cn_outgoing net)),
                                     po_total := po_total pool + 1\<rparr>))))"

definition ReleasePtr :: "u64 \<Rightarrow> nat \<Rightarrow> (pool, unit) call" where
  "ReleasePtr now_ms p pool =
     (case po_heap pool p of
        None \<Rightarrow> (Inl Undefined, pool)
      | Some ptr \<Rightarrow>
          let ptr = ptr\<lparr>co_request := co_request ptr + 1\<rparr>;
              pool = pool\<lparr>po_heap := (po_heap pool)(p \<mapsto> ptr)\<rparr>
          in if \<not> isConnected (co_stream ptr) \<or> co_createTime ptr + ucast (po_maxAliveTime pool) \<ge> now_ms
               \<or> co_request ptr \<ge> ucast (po_maxRequest pool)
             then (Inr (), pool\<lparr>po_heap := (po_heap pool)(p := None), po_total := po_total pool - 1\<rparr>)
             else (Inr (), pool\<lparr>po_conns := po_conns pool @ [p]\<rparr>))"

section \<open>Requests\<close>

text \<open>
  \<open>doRequest(req, timeout_ms)\<close>: the connection is taken at \<open>now_ms\<close> and released, also when an
  exception leaves the function, at \<open>end_ms\<close>.
\<close>

definition pool_doRequest_req :: "u64 \<Rightarrow> u64 \<Rightarrow> nat \<Rightarrow> client_net \<Rightarrow> HttpRequest \<Rightarrow> u64 \<Rightarrow> pool \<Rightarrow> ((fault + HttpResult) \<times> pool) option" where
  "pool_doRequest_req now_ms end_ms fresh net req timeout_ms pool =
     (case getConnection now_ms fresh net pool of
        (Inl e, pool) \<Rightarrow> Some (Inl e, pool)
      | (Inr None, pool) \<Rightarrow>
          Some (Inr \<lparr>hr_result = POOL_GET_CONNECTION, hr_response = None,
            hr_error = ''pool fail host: '' @ po_host pool @ '' post:'' @ dec (unat (po_port pool))\<rparr>, pool)
      | (Inr (Some p), pool) \<Rightarrow>
          (case po_heap pool p of
             None \<Rightarrow> Some (Inl Undefined, pool)
           | Some conn \<Rightarrow>
               map_option (\<lambda>(r, s).
                   case ReleasePtr end_ms p (pool\<lparr>po_heap := (po_heap pool)(p \<mapsto> conn\<lparr>co_stream := s\<rparr>)\<rparr>) of
                     (Inl e, pool) \<Rightarrow> (Inl e, pool) | (Inr _, pool) \<Rightarrow> (r, pool))
                 (case m_socket (co_stream conn) of
                    None \<Rightarrow> Some (Inr \<lparr>hr_result = POOL_INVALID_CONNECTION, hr_response = None,
                      hr_error = ''pool invalid connection host: '' @ po_host pool @ '' post:'' @ dec (unat (po_port pool))\<rparr>,
                      co_stream conn)
                  | Some sock \<Rightarrow>
                      exchange_request net req timeout_ms (toString (cn_host net) (fst (getRemoteAddress (cn_kernel net) sock)))
                        (co_stream conn))))"

definition pool_doRequest :: "u64 \<Rightarrow> u64 \<Rightarrow> nat \<Rightarrow> client_net \<Rightarrow> HttpMethod \<Rightarrow> string \<Rightarrow> u64 \<Rightarrow> (string \<times> string) list \<Rightarrow> string \<Rightarrow>
    pool \<Rightarrow> ((fault + HttpResult) \<times> pool) option" where
  "pool_doRequest now_ms end_ms fresh net m url timeout_ms headers body pool =
     (let req = (HttpRequest_new 0x11 True)\<lparr>req_path := url, req_method := m, req_close := False\<rparr>;
          host = (if po_vhost pool = [] then po_host pool else po_vhost pool)
      in pool_doRequest_req now_ms end_ms fresh net (build_request req host headers body) timeout_ms pool)"

definition relative_url :: "uri \<Rightarrow> string" where
  "relative_url u =
     getPath u @ (if m_query u = [] then [] else ''?'') @ m_query u @ (if m_fragment u = [] then [] else ''#'') @ m_fragment u"

definition pool_doRequest_uri :: "u64 \<Rightarrow> u64 \<Rightarrow> nat \<Rightarrow> client_net \<Rightarrow> HttpMethod \<Rightarrow> uri \<Rightarrow> u64 \<Rightarrow> (string \<times> string) list \<Rightarrow> string \<Rightarrow>
    pool \<Rightarrow> ((fault + HttpResult) \<times> pool) option" where
  "pool_doRequest_uri now_ms end_ms fresh net m u = pool_doRequest now_ms end_ms fresh net m (relative_url u)"

definition pool_doGet :: "u64 \<Rightarrow> u64 \<Rightarrow> nat \<Rightarrow> client_net \<Rightarrow> string \<Rightarrow> u64 \<Rightarrow> (string \<times> string) list \<Rightarrow> string \<Rightarrow>
    pool \<Rightarrow> ((fault + HttpResult) \<times> pool) option" where
  "pool_doGet now_ms end_ms fresh net = pool_doRequest now_ms end_ms fresh net GET"

definition pool_doGet_uri :: "u64 \<Rightarrow> u64 \<Rightarrow> nat \<Rightarrow> client_net \<Rightarrow> uri \<Rightarrow> u64 \<Rightarrow> (string \<times> string) list \<Rightarrow> string \<Rightarrow>
    pool \<Rightarrow> ((fault + HttpResult) \<times> pool) option" where
  "pool_doGet_uri now_ms end_ms fresh net u = pool_doGet now_ms end_ms fresh net (relative_url u)"

definition pool_doPost :: "u64 \<Rightarrow> u64 \<Rightarrow> nat \<Rightarrow> client_net \<Rightarrow> string \<Rightarrow> u64 \<Rightarrow> (string \<times> string) list \<Rightarrow> string \<Rightarrow>
    pool \<Rightarrow> ((fault + HttpResult) \<times> pool) option" where
  "pool_doPost now_ms end_ms fresh net = pool_doRequest now_ms end_ms fresh net POST"

definition pool_doPost_uri :: "u64 \<Rightarrow> u64 \<Rightarrow> nat \<Rightarrow> client_net \<Rightarrow> uri \<Rightarrow> u64 \<Rightarrow> (string \<times> string) list \<Rightarrow> string \<Rightarrow>
    pool \<Rightarrow> ((fault + HttpResult) \<times> pool) option" where
  "pool_doPost_uri now_ms end_ms fresh net u = pool_doPost now_ms end_ms fresh net (relative_url u)"

section \<open>Threads that share a pool\<close>

text \<open>
  The pool with the pointers that are given out. The holder of one may do anything to its
  stream: send, receive, close.
\<close>

inductive pool_step :: "pool \<times> nat set \<Rightarrow> pool \<times> nat set \<Rightarrow> bool" where
  taken: "getConnection now fresh net pool = (Inr (Some p), pool') \<Longrightarrow> po_heap pool fresh = None \<Longrightarrow>
    pool_step (pool, out) (pool', insert p out)"
| refused: "getConnection now fresh net pool = (Inr None, pool') \<Longrightarrow> po_heap pool fresh = None \<Longrightarrow>
    pool_step (pool, out) (pool', out)"
| used: "p \<in> out \<Longrightarrow> po_heap pool p = Some c \<Longrightarrow>
    pool_step (pool, out) (pool\<lparr>po_heap := (po_heap pool)(p \<mapsto> c\<lparr>co_stream := s\<rparr>)\<rparr>, out)"
| released: "p \<in> out \<Longrightarrow> ReleasePtr now p pool = (Inr (), pool') \<Longrightarrow> pool_step (pool, out) (pool', out - {p})"

definition pool_inv :: "pool \<times> nat set \<Rightarrow> bool" where
  "pool_inv = (\<lambda>(pool, out).
     distinct (po_conns pool) \<and> finite out \<and> set (po_conns pool) \<inter> out = {} \<and>
     dom (po_heap pool) = set (po_conns pool) \<union> out \<and>
     po_total pool = of_nat (length (po_conns pool) + card out) \<and>
     (\<forall>p c. po_heap pool p = Some c \<longrightarrow> co_createTime c = 0) \<and>
     (\<forall>p \<in> set (po_conns pool). isConnected (co_stream (the (po_heap pool p))) \<and>
        co_request (the (po_heap pool p)) < ucast (po_maxRequest pool)))"

lemma take_idle_ok:
  assumes "set ps \<subseteq> dom h"
  shows "\<exists>bad r rest. take_idle h now age ps = Inr (bad, r, rest) \<and>
    (case r of None \<Rightarrow> ps = bad \<and> rest = [] | Some p \<Rightarrow> ps = bad @ p # rest \<and>
       isConnected (co_stream (the (h p))) \<and> co_createTime (the (h p)) + ucast age \<le> now)"
  using assms
proof (induction ps)
  case (Cons p ps)
  then obtain c where c: "h p = Some c" by auto
  obtain bad r rest where ih: "take_idle h now age ps = Inr (bad, r, rest)"
    "case r of None \<Rightarrow> ps = bad \<and> rest = [] | Some p \<Rightarrow> ps = bad @ p # rest \<and>
       isConnected (co_stream (the (h p))) \<and> co_createTime (the (h p)) + ucast age \<le> now"
    using Cons by auto
  show ?case
    using c ih by (cases r; cases "isConnected (co_stream c)"; cases "co_createTime c + ucast age > now") auto
qed simp

lemma delete_all_ok:
  "distinct ps \<Longrightarrow> set ps \<subseteq> dom h \<Longrightarrow> delete_all ps h = Inr (h |` (- set ps))"
proof (induction ps arbitrary: h)
  case (Cons p ps)
  then obtain c where c: "h p = Some c" by auto
  have "delete_all ps (h(p := None)) = Inr ((h(p := None)) |` (- set ps))"
    by (rule Cons.IH) (use Cons.prems in auto)
  moreover have "(h(p := None)) |` (- set ps) = h |` (- set (p # ps))"
    by (auto simp: restrict_map_def fun_eq_iff)
  ultimately show ?case by (simp add: c)
qed (simp add: restrict_map_def)

lemma getConnection_ok:
  assumes inv: "pool_inv (pool, out)" and fresh: "po_heap pool fresh = None"
  shows "\<exists>r pool'. getConnection now fresh net pool = (Inr r, pool') \<and>
    pool_inv (pool', case r of None \<Rightarrow> out | Some p \<Rightarrow> insert p out) \<and> (\<forall>p. r = Some p \<longrightarrow> p \<notin> out)"
proof -
  let ?h = "po_heap pool" and ?ps = "po_conns pool"
  have i: "distinct ?ps" "finite out" "set ?ps \<inter> out = {}" "dom ?h = set ?ps \<union> out"
    "po_total pool = of_nat (length ?ps + card out)" "\<forall>p c. ?h p = Some c \<longrightarrow> co_createTime c = 0"
    "\<forall>p \<in> set ?ps. isConnected (co_stream (the (?h p))) \<and> co_request (the (?h p)) < ucast (po_maxRequest pool)"
    using inv by (simp_all add: pool_inv_def)
  obtain bad r rest where t: "take_idle ?h now (po_maxAliveTime pool) ?ps = Inr (bad, r, rest)"
    "case r of None \<Rightarrow> ?ps = bad \<and> rest = [] | Some p \<Rightarrow> ?ps = bad @ p # rest \<and>
       isConnected (co_stream (the (?h p))) \<and> co_createTime (the (?h p)) + ucast (po_maxAliveTime pool) \<le> now"
    using take_idle_ok [of ?ps ?h now "po_maxAliveTime pool"] i(4) by blast
  have bad: "distinct bad" "set bad \<subseteq> dom ?h" "set bad \<inter> out = {}"
    using t(2) i(1,3,4) by (auto split: option.splits)
  let ?k = "?h |` (- set bad)"
  note d = delete_all_ok [OF bad(1,2)]
  show ?thesis
  proof (cases r)
    case (Some p)
    let ?pool = "pool\<lparr>po_conns := rest, po_heap := ?k, po_total := po_total pool - of_nat (length bad)\<rparr>"
    have ps: "?ps = bad @ p # rest" using t(2) Some by simp
    have "dom ?k = set rest \<union> insert p out" unfolding dom_restrict i(4) using i(1,3) ps by auto
    moreover have "po_total pool - of_nat (length bad) = of_nat (length rest + card (insert p out))"
      using i(2,3,5) ps by auto
    ultimately have "pool_inv (?pool, insert p out)"
      using i ps by (auto simp: pool_inv_def restrict_map_def)
    then show ?thesis using t(1) d Some i(3) ps by (auto simp: getConnection_def)
  next
    case None
    let ?pool = "pool\<lparr>po_conns := [], po_heap := ?k, po_total := po_total pool - of_nat (length bad)\<rparr>"
    have ps: "?ps = bad" "rest = []" using t(2) None by simp_all
    have k: "dom ?k = out" "?k fresh = None" unfolding dom_restrict i(4) using i(3) ps fresh by (auto simp: restrict_map_def)
    have e: "pool_inv (?pool, out)" using i ps k(1) by (auto simp: pool_inv_def restrict_map_def split: if_splits)
    have f: "fresh \<notin> out" using k by auto
    have g: "pool_inv (?pool\<lparr>po_heap := ?k(fresh \<mapsto> HttpConnection_new sock ins outs), po_total := po_total ?pool + 1\<rparr>, insert fresh out)"
      for sock ins outs
      using e f by (auto simp: pool_inv_def HttpConnection_new_def)
    show ?thesis
    proof (cases "LookupAnyIPAddress (cn_getaddrinfo net) (po_host pool)")
      case no: None
      then have "getConnection now fresh net pool = (Inr None, ?pool)" using t(1) d None ps by (simp add: getConnection_def)
      then show ?thesis using e by simp
    next
      case (Some a)
      let ?addr = "setPort (cn_host net) (ucast (po_port pool)) a"
      obtain ok sock cs where c: "Socket_connect (cn_kernel net) ?addr (-1) (CreateTCP ?addr) = (ok, sock, cs)"
        by (metis prod_cases3)
      have "getConnection now fresh net pool = (if \<not> ok then (Inr None, ?pool) else (Inr (Some fresh),
          ?pool\<lparr>po_heap := ?k(fresh \<mapsto> HttpConnection_new sock (cn_incoming net) (cn_outgoing net)), po_total := po_total ?pool + 1\<rparr>))"
        using t(1) d None ps c Some by (simp add: getConnection_def)
      then show ?thesis using e f g [of sock "cn_incoming net" "cn_outgoing net"] by (cases ok) simp_all
    qed
  qed
qed

lemma ReleasePtr_ok:
  assumes inv: "pool_inv (pool, out)" and p: "p \<in> out"
  shows "\<exists>pool'. ReleasePtr now p pool = (Inr (), pool') \<and> pool_inv (pool', out - {p})"
proof -
  have i: "distinct (po_conns pool)" "finite out" "set (po_conns pool) \<inter> out = {}" "dom (po_heap pool) = set (po_conns pool) \<union> out"
    "po_total pool = of_nat (length (po_conns pool) + card out)" "\<forall>p c. po_heap pool p = Some c \<longrightarrow> co_createTime c = 0"
    "\<forall>p \<in> set (po_conns pool). isConnected (co_stream (the (po_heap pool p))) \<and>
       co_request (the (po_heap pool p)) < ucast (po_maxRequest pool)"
    using inv by (simp_all add: pool_inv_def)
  obtain c where c: "po_heap pool p = Some c" using i(4) p by auto
  have np: "p \<notin> set (po_conns pool)" using i(3) p by auto
  have n: "card out = Suc (card (out - {p}))" by (rule card_Suc_Diff1 [OF i(2) p, symmetric])
  let ?c = "c\<lparr>co_request := co_request c + 1\<rparr>"
  show ?thesis
  proof (cases "\<not> isConnected (co_stream c) \<or> co_createTime c + ucast (po_maxAliveTime pool) \<ge> now \<or>
      co_request c + 1 \<ge> ucast (po_maxRequest pool)")
    case True
    have "dom ((po_heap pool)(p := None)) = set (po_conns pool) \<union> (out - {p})" using i(4) np by auto
    moreover have "po_total pool - 1 = of_nat (length (po_conns pool) + card (out - {p}))" using i(5) n by simp
    ultimately have "pool_inv (pool\<lparr>po_heap := (po_heap pool)(p := None), po_total := po_total pool - 1\<rparr>, out - {p})"
      using i np by (auto simp: pool_inv_def)
    then show ?thesis using c True by (simp add: ReleasePtr_def Let_def)
  next
    case False
    let ?pool = "pool\<lparr>po_heap := (po_heap pool)(p \<mapsto> ?c), po_conns := po_conns pool @ [p]\<rparr>"
    have "co_request c + 1 < ucast (po_maxRequest pool)" using False by (simp add: not_le)
    moreover have "po_total pool = of_nat (length (po_conns ?pool) + card (out - {p}))" using i(5) by (simp add: n)
    moreover have "dom (po_heap ?pool) = set (po_conns ?pool) \<union> (out - {p})" using i(4) p by auto
    ultimately have "pool_inv (?pool, out - {p})"
      using i(1,2,3,6,7) np c False unfolding pool_inv_def by simp blast
    then show ?thesis using c False by (simp add: ReleasePtr_def Let_def)
  qed
qed

lemma pool_step_inv: "pool_step x y \<Longrightarrow> pool_inv x \<Longrightarrow> pool_inv y"
proof (induction rule: pool_step.induct)
  case (taken now fresh net pool p pool' out)
  then show ?case using getConnection_ok [OF taken.prems taken.hyps(2), of now net] by auto
next
  case (refused now fresh net pool pool' out)
  then show ?case using getConnection_ok [OF refused.prems refused.hyps(2), of now net] by auto
next
  case (used p out pool c s)
  then have "p \<notin> set (po_conns pool)" by (auto simp: pool_inv_def)
  then show ?case using used by (auto simp: pool_inv_def)
next
  case (released p out now pool pool')
  then show ?case using ReleasePtr_ok [OF released.prems released.hyps(1), of now] by auto
qed

lemma pool_reachable_inv:
  "pool_step\<^sup>*\<^sup>* (HttpConnectionPool_new host vhost port max_size age max_request, {}) x \<Longrightarrow> pool_inv x"
proof (induction rule: rtranclp_induct)
  case base
  show ?case by (simp add: pool_inv_def HttpConnectionPool_new_def)
qed (rule pool_step_inv)

text \<open>A pool whose one connection has served one request.\<close>

definition good_net :: client_net where
  "good_net = sample_net\<lparr>cn_kernel := \<lparr>k_socket = 5, k_accept = -1, k_bind = 0, k_connect = 0, k_listen = 0,
     k_sockname = None, k_peername = None\<rparr>\<rparr>"

lemma sample_pool:
  "\<exists>pool. pool_step\<^sup>*\<^sup>* (HttpConnectionPool_new ''h'' [] 80 5 100 10, {}) (pool, {}) \<and> po_conns pool = [0] \<and>
    po_maxAliveTime pool = 100"
proof -
  let ?p = "HttpConnectionPool_new ''h'' [] 80 5 100 10"
  have "case getConnection 1000 0 good_net ?p of (Inr (Some q), pool) \<Rightarrow>
      q = 0 \<and> po_conns (snd (ReleasePtr 2000 0 pool)) = [0] \<and> po_maxAliveTime (snd (ReleasePtr 2000 0 pool)) = 100 | _ \<Rightarrow> False"
    by code_simp
  then obtain pool where g: "getConnection 1000 0 good_net ?p = (Inr (Some 0), pool)"
    "po_conns (snd (ReleasePtr 2000 0 pool)) = [0]" "po_maxAliveTime (snd (ReleasePtr 2000 0 pool)) = 100"
    by (auto split: prod.splits sum.splits option.splits)
  have t: "pool_step (?p, {}) (pool, {0})"
    by (rule taken [OF g(1)]) (simp add: HttpConnectionPool_new_def)
  have "pool_inv (pool, {0})"
    using t by (intro pool_reachable_inv) (rule r_into_rtranclp)
  then obtain pool' where r: "ReleasePtr 2000 0 pool = (Inr (), pool')" using ReleasePtr_ok [of pool "{0}" 0 2000] by auto
  have "pool_step (pool, {0}) (pool', {})" using released [OF _ r, of "{0}"] by simp
  then have "pool_step\<^sup>*\<^sup>* (?p, {}) (pool', {})" using t by (meson r_into_rtranclp rtranclp.rtrancl_into_rtrancl)
  then show ?thesis using g(2,3) r by auto
qed

section \<open>Properties\<close>

text \<open>
  C10. A pool that threads share is safe: whatever they do with the connections they hold, no
  connection is idle twice, or idle and held; the objects that exist are exactly the idle and the
  held ones, and \<open>m_total\<close> is their number; every idle connection is connected and has served fewer
  requests than the maximum; and taking and releasing never touch an object that is gone.
\<close>

theorem pool_safe:
  assumes "pool_step\<^sup>*\<^sup>* (HttpConnectionPool_new host vhost port max_size age max_request, {}) (pool, out)"
  shows "distinct (po_conns pool) \<and> set (po_conns pool) \<inter> out = {} \<and> dom (po_heap pool) = set (po_conns pool) \<union> out \<and>
    po_total pool = of_nat (length (po_conns pool) + card out) \<and>
    (\<forall>p \<in> set (po_conns pool). isConnected (co_stream (the (po_heap pool p))) \<and>
       co_request (the (po_heap pool p)) < ucast (po_maxRequest pool)) \<and>
    (\<forall>now fresh net. po_heap pool fresh = None \<longrightarrow> (\<exists>r. fst (getConnection now fresh net pool) = Inr r \<and> (\<forall>p \<in> out. r \<noteq> Some p))) \<and>
    (\<forall>now. \<forall>p \<in> out. fst (ReleasePtr now p pool) = Inr ())"
proof -
  have i: "pool_inv (pool, out)" by (rule pool_reachable_inv [OF assms])
  have "\<exists>r. fst (getConnection now fresh net pool) = Inr r \<and> (\<forall>p \<in> out. r \<noteq> Some p)" if "po_heap pool fresh = None" for now fresh net
    using getConnection_ok [OF i that, of now net] by auto
  moreover have "fst (ReleasePtr now p pool) = Inr ()" if "p \<in> out" for now p
    using ReleasePtr_ok [OF i that, of now] by auto
  ultimately show ?thesis using i by (auto simp: pool_inv_def)
qed

lemma pool_safe_witness:
  "\<exists>pool. po_conns pool = [0] \<and> po_total pool = 1 \<and> fst (getConnection 3000 1 good_net pool) \<noteq> Inl Undefined"
proof -
  obtain pool where p: "pool_step\<^sup>*\<^sup>* (HttpConnectionPool_new ''h'' [] 80 5 100 10, {}) (pool, {})" "po_conns pool = [0]"
    using sample_pool by blast
  from pool_safe [OF p(1)] have "po_total pool = of_nat (length (po_conns pool))" "dom (po_heap pool) = set (po_conns pool)"
    and g: "po_heap pool 1 = None \<Longrightarrow> \<exists>r. fst (getConnection 3000 1 good_net pool) = Inr r" by auto
  then have "po_total pool = 1" "1 \<notin> dom (po_heap pool)" using p(2) by auto
  then show ?thesis using p(2) g by force
qed

text \<open>
  The pool does not renew its connections: the time at which one was made is never
  stored, and the comparison of the ages is the wrong way round. With a clock that counts from
  1970 the first idle connection is given out however old it is and whatever the maximal age,
  and one that is released is kept unless it is closed or has served enough requests; with a
  clock below the maximal age no connection is ever used again.
\<close>

theorem age_ignored:
  assumes "pool_step\<^sup>*\<^sup>* (HttpConnectionPool_new host vhost port max_size age max_request, {}) (pool, out)"
    and "po_conns pool = p # ps"
  shows "(2 ^ 32 \<le> now \<longrightarrow> getConnection now fresh net pool = (Inr (Some p), pool\<lparr>po_conns := ps\<rparr>)) \<and>
    (now < ucast (po_maxAliveTime pool) \<longrightarrow>
      (\<exists>rest. take_idle (po_heap pool) now (po_maxAliveTime pool) (p # ps) = Inr (p # rest, None, [])))"
proof (intro conjI impI)
  have i: "pool_inv (pool, out)" by (rule pool_reachable_inv [OF assms(1)])
  then have h: "q \<in> set (p # ps) \<Longrightarrow> \<exists>c. po_heap pool q = Some c \<and> isConnected (co_stream c) \<and> co_createTime c = 0" for q
    using assms(2) by (force simp: pool_inv_def)
  have u: "unat (ucast (po_maxAliveTime pool) :: u64) < 2 ^ 32"
  proof -
    have v: "unat (po_maxAliveTime pool) < 2 ^ 32" by (rule order_less_le_trans [OF unsigned_less]) simp
    then have "unat (po_maxAliveTime pool) < 2 ^ 64" by simp
    then show ?thesis using v by (simp add: unsigned_ucast_eq take_bit_nat_eq_self)
  qed
  {
    assume now: "2 ^ 32 \<le> now"
    have "unat (2 ^ 32 :: u64) = 2 ^ 32" by simp
    then have "(2 ^ 32 :: nat) \<le> unat now" using now by (metis word_le_nat_alt)
    then have "\<not> ucast (po_maxAliveTime pool) > now" using u by (simp add: word_less_nat_alt)
    then show "getConnection now fresh net pool = (Inr (Some p), pool\<lparr>po_conns := ps\<rparr>)"
      using h [of p] assms(2) by (auto simp: getConnection_def)
  next
    assume now: "now < ucast (po_maxAliveTime pool)"
    have "take_idle (po_heap pool) now (po_maxAliveTime pool) qs = Inr (qs, None, [])" if "set qs \<subseteq> set (p # ps)" for qs
      using that
    proof (induction qs)
      case (Cons q qs)
      obtain c where "po_heap pool q = Some c" "isConnected (co_stream c)" "co_createTime c = 0"
        using h [of q] Cons.prems by auto
      then show ?case using Cons now by simp
    qed simp
    from this [of "p # ps"]
    show "\<exists>rest. take_idle (po_heap pool) now (po_maxAliveTime pool) (p # ps) = Inr (p # rest, None, [])" by blast
  }
qed

lemma age_ignored_witness:
  "\<exists>pool. po_maxAliveTime pool = 100 \<and> getConnection (2 ^ 40) 1 good_net pool = (Inr (Some 0), pool\<lparr>po_conns := []\<rparr>)"
proof -
  obtain pool where p: "pool_step\<^sup>*\<^sup>* (HttpConnectionPool_new ''h'' [] 80 5 100 10, {}) (pool, {})" "po_conns pool = [0]"
    "po_maxAliveTime pool = 100"
    using sample_pool by blast
  then show ?thesis using age_ignored [OF p(1,2), of "2 ^ 40" 1 good_net] by auto
qed

end
