(* ===== verification/Threads.thy ===== *)
theory Threads
  imports Texts Prelude
begin

text \<open>
  Threads and locks (\<open>sylar/thread.h\<close>, \<open>sylar/thread.cc\<close>): the guards of locks, the spinning lock,
  the semaphore, and the construction of a thread, which waits until the new thread runs. The
  mutexes of \<open>pthread\<close> are a library: a guard is described by the calls it makes of its mutex.
\<close>

section \<open>Guards\<close>

text \<open>What a guard calls, and the flag \<open>m_locked\<close>; a constructor makes the first call.\<close>

datatype mutex_call = Lock | Rdlock | Wrlock | Unlock

type_synonym guard = "bool \<times> mutex_call list"

definition ScopedLock_new :: guard where
  "ScopedLock_new = (True, [Lock])"

definition ScopedLock_lock :: "guard \<Rightarrow> guard" where
  "ScopedLock_lock = (\<lambda>(m_locked, calls). if \<not> m_locked then (True, calls @ [Lock]) else (m_locked, calls))"

definition ScopedLock_unlock :: "guard \<Rightarrow> guard" where
  "ScopedLock_unlock = (\<lambda>(m_locked, calls). if m_locked then (False, calls @ [Unlock]) else (m_locked, calls))"

definition ReadScopedLock_new :: guard where
  "ReadScopedLock_new = (True, [Rdlock])"

definition ReadScopedLock_lock :: "guard \<Rightarrow> guard" where
  "ReadScopedLock_lock = (\<lambda>(m_locked, calls). if \<not> m_locked then (True, calls @ [Rdlock]) else (m_locked, calls))"

definition ReadScopedLock_unlock :: "guard \<Rightarrow> guard" where
  "ReadScopedLock_unlock = (\<lambda>(m_locked, calls). if m_locked then (False, calls @ [Unlock]) else (m_locked, calls))"

definition WriteScopedLock_new :: guard where
  "WriteScopedLock_new = (True, [Wrlock])"

definition WriteScopedLock_lock :: "guard \<Rightarrow> guard" where
  "WriteScopedLock_lock = (\<lambda>(m_locked, calls). if \<not> m_locked then (True, calls @ [Wrlock]) else (m_locked, calls))"

definition WriteScopedLock_unlock :: "guard \<Rightarrow> guard" where
  "WriteScopedLock_unlock = (\<lambda>(m_locked, calls). if m_locked then (False, calls @ [Unlock]) else (m_locked, calls))"

text \<open>
  The interface the rest of the code relies on: a guard made by \<open>new\<close> and used by \<open>lock\<close> and
  \<open>unlock\<close>, the destructor being \<open>unlock\<close>, holds its lock exactly while its flag is set.
\<close>

locale scoped_guard =
  fixes acquire :: mutex_call and gnew :: guard and glock gunlock :: "guard \<Rightarrow> guard"
  assumes acquire_is: "acquire \<noteq> Unlock"
    and new_locks: "gnew = (True, [acquire])"
    and lock_true: "glock (True, cs) = (True, cs)" and lock_false: "glock (False, cs) = (True, cs @ [acquire])"
    and unlock_true: "gunlock (True, cs) = (False, cs @ [Unlock])" and unlock_false: "gunlock (False, cs) = (False, cs)"
begin

definition used :: "bool list \<Rightarrow> guard" where
  "used ops = fold (\<lambda>l. if l then glock else gunlock) ops gnew"

lemma used_shape:
  "\<exists>n. used ops = (True, concat (replicate n [acquire, Unlock]) @ [acquire]) \<or> used ops = (False, concat (replicate n [acquire, Unlock]))"
proof (induction ops rule: rev_induct)
  case Nil
  show ?case unfolding used_def by (rule exI [of _ 0]) (simp add: new_locks)
next
  case (snoc l ops)
  then obtain n where n: "used ops = (True, concat (replicate n [acquire, Unlock]) @ [acquire]) \<or>
      used ops = (False, concat (replicate n [acquire, Unlock]))" by blast
  have s: "used (ops @ [l]) = (if l then glock else gunlock) (used ops)" by (simp add: used_def)
  have r: "concat (replicate n [acquire, Unlock]) @ [acquire, Unlock] = concat (replicate (Suc n) [acquire, Unlock])"
    by (induction n) simp_all
  show ?case using n s r by (cases l) (auto simp: lock_true lock_false unlock_true unlock_false intro: exI [of _ n] exI [of _ "Suc n"])
qed

text \<open>After the destructor: the mutex was taken and given back in turns, and is given back.\<close>

lemma destroyed: "\<exists>n. gunlock (used ops) = (False, concat (replicate n [acquire, Unlock]))"
proof -
  have "gunlock (used ops) = used (ops @ [False])" by (simp add: used_def)
  moreover obtain b cs where "gunlock (used ops) = (False, cs)"
    by (cases "used ops") (metis (full_types) unlock_true unlock_false)
  ultimately show ?thesis using used_shape [of "ops @ [False]"] by auto
qed

end

interpretation scoped: scoped_guard Lock ScopedLock_new ScopedLock_lock ScopedLock_unlock
  by unfold_locales (simp_all add: ScopedLock_new_def ScopedLock_lock_def ScopedLock_unlock_def)

interpretation read_scoped: scoped_guard Rdlock ReadScopedLock_new ReadScopedLock_lock ReadScopedLock_unlock
  by unfold_locales (simp_all add: ReadScopedLock_new_def ReadScopedLock_lock_def ReadScopedLock_unlock_def)

interpretation write_scoped: scoped_guard Wrlock WriteScopedLock_new WriteScopedLock_lock WriteScopedLock_unlock
  by unfold_locales (simp_all add: WriteScopedLock_new_def WriteScopedLock_lock_def WriteScopedLock_unlock_def)

section \<open>The spinning lock\<close>

text \<open>\<open>CASLock\<close>: one turn of the loop of \<open>lock\<close> exchanges the flag for true and goes on if it was true.\<close>

definition test_and_set :: "bool \<Rightarrow> bool \<times> bool" where
  "test_and_set m_mutex = (m_mutex, True)"

definition CASLock_unlock :: "bool \<Rightarrow> bool" where
  "CASLock_unlock m_mutex = False"

datatype place = Outside | Spinning | Inside

record 't cas_system =
  cs_flag :: bool
  cs_place :: "'t \<Rightarrow> place"

inductive cas_step :: "'t cas_system \<Rightarrow> 't cas_system \<Rightarrow> bool" where
  enter: "cs_place s t = Outside \<Longrightarrow> cas_step s (s\<lparr>cs_place := (cs_place s)(t := Spinning)\<rparr>)"
| turn: "cs_place s t = Spinning \<Longrightarrow> test_and_set (cs_flag s) = (old, flag') \<Longrightarrow>
    cas_step s (s\<lparr>cs_flag := flag', cs_place := (cs_place s)(t := if old then Spinning else Inside)\<rparr>)"
| leave: "cs_place s t = Inside \<Longrightarrow>
    cas_step s (s\<lparr>cs_flag := CASLock_unlock (cs_flag s), cs_place := (cs_place s)(t := Outside)\<rparr>)"

definition CASLock_new :: "'t cas_system" where
  "CASLock_new = \<lparr>cs_flag = False, cs_place = (\<lambda>t. Outside)\<rparr>"

definition cas_inv :: "'t cas_system \<Rightarrow> bool" where
  "cas_inv s \<longleftrightarrow> (\<forall>t u. cs_place s t = Inside \<and> cs_place s u = Inside \<longrightarrow> t = u) \<and>
     (cs_flag s \<longleftrightarrow> (\<exists>t. cs_place s t = Inside))"

lemma cas_step_inv: "cas_step s s' \<Longrightarrow> cas_inv s \<Longrightarrow> cas_inv s'"
proof (induction rule: cas_step.induct)
  case (enter s t)
  let ?s' = "s\<lparr>cs_place := (cs_place s)(t := Spinning)\<rparr>"
  have "cs_place ?s' u = Inside \<longleftrightarrow> cs_place s u = Inside" for u using enter.hyps by simp
  then show ?case using enter.prems unfolding cas_inv_def by simp
next
  case (turn s t old flag')
  then have o: "old = cs_flag s" "flag'" by (simp_all add: test_and_set_def)
  show ?case
  proof (cases "cs_flag s")
    case True
    let ?s' = "s\<lparr>cs_flag := flag', cs_place := (cs_place s)(t := if old then Spinning else Inside)\<rparr>"
    have "cs_place ?s' u = Inside \<longleftrightarrow> cs_place s u = Inside" for u using turn.hyps True o(1) by simp
    then show ?thesis using turn.prems True o(2) unfolding cas_inv_def by simp
  qed (use turn.prems o in \<open>auto simp: cas_inv_def\<close>)
next
  case (leave s t)
  then have "cs_place s u = Inside \<longleftrightarrow> u = t" for u unfolding cas_inv_def by blast
  then show ?case by (simp add: cas_inv_def CASLock_unlock_def)
qed

text \<open>
  C33. The spinning lock excludes: whatever the turns of the threads, at most one is inside, and
  the flag is set exactly while one is; so a thread that spins can enter as soon as none is.
\<close>

theorem cas_excludes:
  assumes "cas_step\<^sup>*\<^sup>* CASLock_new s"
  shows "(\<forall>t u. cs_place s t = Inside \<and> cs_place s u = Inside \<longrightarrow> t = u) \<and>
    (\<forall>t. cs_place s t = Spinning \<and> (\<forall>u. cs_place s u \<noteq> Inside) \<longrightarrow>
       (\<exists>s'. cas_step s s' \<and> cs_place s' t = Inside))"
proof -
  have i: "cas_inv s" using assms
  proof (induction rule: rtranclp_induct)
    case base
    show ?case by (simp add: cas_inv_def CASLock_new_def)
  qed (rule cas_step_inv)
  have "\<exists>s'. cas_step s s' \<and> cs_place s' t = Inside" if "cs_place s t = Spinning" "\<forall>u. cs_place s u \<noteq> Inside" for t
  proof -
    have "\<not> cs_flag s" using i that(2) by (simp add: cas_inv_def)
    then show ?thesis using cas_step.turn [of s t False True] that(1) by (auto simp: test_and_set_def)
  qed
  then show ?thesis using i by (simp add: cas_inv_def)
qed

lemma cas_excludes_witness: "\<exists>s'. cas_step (CASLock_new\<lparr>cs_place := (\<lambda>t. Outside)(0 :: nat := Spinning)\<rparr>) s' \<and> cs_place s' 0 = Inside"
proof -
  have "cas_step CASLock_new (CASLock_new\<lparr>cs_place := (\<lambda>t. Outside)(0 :: nat := Spinning)\<rparr>)"
    using cas_step.enter [of CASLock_new "0 :: nat"] by (simp add: CASLock_new_def)
  from cas_excludes [OF r_into_rtranclp, OF this] show ?thesis by simp
qed

text \<open>
  Every guard leaves its mutex as it found it: whatever calls of \<open>lock\<close> and \<open>unlock\<close> are made of
  it, when it is destroyed it has taken and given back the mutex in turns, never twice in a row,
  and as often the one as the other. So for the guards of all three kinds.
\<close>

definition all_guards :: "(mutex_call \<times> guard \<times> (guard \<Rightarrow> guard) \<times> (guard \<Rightarrow> guard)) list" where
  "all_guards = [(Lock, ScopedLock_new, ScopedLock_lock, ScopedLock_unlock),
     (Rdlock, ReadScopedLock_new, ReadScopedLock_lock, ReadScopedLock_unlock),
     (Wrlock, WriteScopedLock_new, WriteScopedLock_lock, WriteScopedLock_unlock)]"

theorem guards_balanced:
  assumes "(acquire, gnew, glock, gunlock) \<in> set all_guards"
  shows "\<exists>n. gunlock (fold (\<lambda>l. if l then glock else gunlock) ops gnew) = (False, concat (replicate n [acquire, Unlock]))"
  using assms scoped.destroyed [of ops] read_scoped.destroyed [of ops] write_scoped.destroyed [of ops]
  by (auto simp: all_guards_def scoped.used_def read_scoped.used_def write_scoped.used_def)

lemma guards_balanced_witness:
  "\<exists>n. ScopedLock_unlock (fold (\<lambda>l. if l then ScopedLock_lock else ScopedLock_unlock) [True, False, True] ScopedLock_new) =
     (False, concat (replicate n [Lock, Unlock]))"
  by (rule guards_balanced) (simp add: all_guards_def)

section \<open>The semaphore\<close>

text \<open>
  The value of the semaphore; \<open>max\<close> is the largest the library has. \<open>wait\<close> returns nothing while it
  blocks, and throws when a signal interrupts it; \<open>notify\<close> throws at the largest value.
\<close>

definition Semaphore_new :: "nat \<Rightarrow> nat \<Rightarrow> fault + nat" where
  "Semaphore_new max_val count = (if max_val < count then Inl (Logic_error ''sem_init error'') else Inr count)"

definition Semaphore_wait :: "bool \<Rightarrow> nat \<Rightarrow> (fault + nat) option" where
  "Semaphore_wait signal v =
     (if 0 < v then Some (Inr (v - 1)) else if signal then Some (Inl (Logic_error ''sem_wait error'')) else None)"

definition Semaphore_notify :: "nat \<Rightarrow> nat \<Rightarrow> fault + nat" where
  "Semaphore_notify max_val v = (if v < max_val then Inr (v + 1) else Inl (Logic_error ''sem_post error''))"

section \<open>Threads\<close>

text \<open>
  The object and what the new thread keeps of its own: \<open>t_thread\<close>, \<open>t_thread_name\<close> and the name the
  system shows. A function is a number; calling one that is empty throws.
\<close>

record thread =
  th_id :: int
  th_thread :: bool
  th_cb :: "nat option"
  th_name :: string
  th_sem :: nat

record thread_locals =
  tl_thread :: bool
  tl_name :: string
  tl_system_name :: string

definition Thread_fields :: "nat \<Rightarrow> string \<Rightarrow> thread" where
  "Thread_fields cb name =
     \<lparr>th_id = - 1, th_thread = False, th_cb = Some cb, th_name = (if name = [] then ''UNKNOW'' else name), th_sem = 0\<rparr>"

text \<open>
  The steps of the constructor and of \<open>run\<close>, one for each access of the object that the other side
  may see. \<open>tid\<close> is the number the system gives the thread.
\<close>

datatype maker = Creating | Waiting | Constructed | Destroyed | Thrown
datatype runner = Absent | Bind | Copy_name | Set_id | Set_name | Swap | Notify | Call | Done

record thread_system =
  ts_obj :: thread
  ts_maker :: maker
  ts_runner :: runner
  ts_locals :: thread_locals
  ts_cb :: "nat option"
  ts_calls :: "nat list"
  ts_join :: bool

definition Thread_start :: "nat \<Rightarrow> string \<Rightarrow> thread_system" where
  "Thread_start cb name =
     \<lparr>ts_obj = Thread_fields cb name, ts_maker = Creating, ts_runner = Absent,
      ts_locals = \<lparr>tl_thread = False, tl_name = ''UNKNOW'', tl_system_name = []\<rparr>, ts_cb = None, ts_calls = [], ts_join = False\<rparr>"

definition run_bind :: "thread_locals \<Rightarrow> thread_locals" where
  "run_bind l = l\<lparr>tl_thread := True\<rparr>"

definition run_copy_name :: "thread \<Rightarrow> thread_locals \<Rightarrow> thread_locals" where
  "run_copy_name th l = l\<lparr>tl_name := th_name th\<rparr>"

definition run_set_id :: "int \<Rightarrow> thread \<Rightarrow> thread" where
  "run_set_id tid th = th\<lparr>th_id := tid\<rparr>"

definition run_set_name :: "thread \<Rightarrow> thread_locals \<Rightarrow> thread_locals" where
  "run_set_name th l = l\<lparr>tl_system_name := c_str (take 15 (th_name th))\<rparr>"

definition run_swap :: "thread \<Rightarrow> nat option \<Rightarrow> nat option \<times> thread" where
  "run_swap th cb = (th_cb th, th\<lparr>th_cb := cb\<rparr>)"

text \<open>\<open>join\<close> and the destructor; joining waits for the end of \<open>run\<close>, and a second \<open>join\<close> does nothing.\<close>

definition Thread_join :: "bool \<Rightarrow> thread \<Rightarrow> fault + thread" where
  "Thread_join ok th =
     (if th_thread th then (if ok then Inr (th\<lparr>th_thread := False\<rparr>) else Inl (Logic_error ''pthread_join error'')) else Inr th)"

definition Thread_detaches :: "thread \<Rightarrow> bool" where
  "Thread_detaches th = th_thread th"

definition Thread_SetName :: "string \<Rightarrow> (thread \<times> thread_locals) \<Rightarrow> thread \<times> thread_locals" where
  "Thread_SetName name = (\<lambda>(th, l). (if tl_thread l then th\<lparr>th_name := name\<rparr> else th, l\<lparr>tl_name := name\<rparr>))"

inductive thread_step :: "int \<Rightarrow> thread_system \<Rightarrow> thread_system \<Rightarrow> bool" for tid where
  create: "ts_maker s = Creating \<Longrightarrow>
    thread_step tid s (s\<lparr>ts_obj := (ts_obj s)\<lparr>th_thread := True\<rparr>, ts_maker := Waiting, ts_runner := Bind\<rparr>)"
| create_fails: "ts_maker s = Creating \<Longrightarrow> thread_step tid s (s\<lparr>ts_maker := Thrown\<rparr>)"
| wait: "ts_maker s = Waiting \<Longrightarrow> Semaphore_wait False (th_sem (ts_obj s)) = Some (Inr v) \<Longrightarrow>
    thread_step tid s (s\<lparr>ts_obj := (ts_obj s)\<lparr>th_sem := v\<rparr>, ts_maker := Constructed\<rparr>)"
| join: "ts_maker s = Constructed \<Longrightarrow> ts_runner s = Done \<Longrightarrow> Thread_join True (ts_obj s) = Inr th \<Longrightarrow>
    thread_step tid s (s\<lparr>ts_obj := th, ts_join := True\<rparr>)"
| destroy: "ts_maker s = Constructed \<Longrightarrow> thread_step tid s (s\<lparr>ts_maker := Destroyed\<rparr>)"
| bind: "ts_runner s = Bind \<Longrightarrow> thread_step tid s (s\<lparr>ts_locals := run_bind (ts_locals s), ts_runner := Copy_name\<rparr>)"
| copy_name: "ts_runner s = Copy_name \<Longrightarrow>
    thread_step tid s (s\<lparr>ts_locals := run_copy_name (ts_obj s) (ts_locals s), ts_runner := Set_id\<rparr>)"
| set_id: "ts_runner s = Set_id \<Longrightarrow> thread_step tid s (s\<lparr>ts_obj := run_set_id tid (ts_obj s), ts_runner := Set_name\<rparr>)"
| set_name: "ts_runner s = Set_name \<Longrightarrow>
    thread_step tid s (s\<lparr>ts_locals := run_set_name (ts_obj s) (ts_locals s), ts_runner := Swap\<rparr>)"
| swap: "ts_runner s = Swap \<Longrightarrow> run_swap (ts_obj s) (ts_cb s) = (cb, th) \<Longrightarrow>
    thread_step tid s (s\<lparr>ts_cb := cb, ts_obj := th, ts_runner := Notify\<rparr>)"
| notify: "ts_runner s = Notify \<Longrightarrow> Semaphore_notify (2 ^ 31 - 1) (th_sem (ts_obj s)) = Inr v \<Longrightarrow>
    thread_step tid s (s\<lparr>ts_obj := (ts_obj s)\<lparr>th_sem := v\<rparr>, ts_runner := Call\<rparr>)"
| call: "ts_runner s = Call \<Longrightarrow> ts_cb s = Some f \<Longrightarrow> thread_step tid s (s\<lparr>ts_calls := ts_calls s @ [f], ts_runner := Done\<rparr>)"

text \<open>What holds at each place of \<open>run\<close>: which of its steps are done.\<close>

definition set_up :: "int \<Rightarrow> string \<Rightarrow> thread_system \<Rightarrow> bool" where
  "set_up tid name s \<longleftrightarrow> th_id (ts_obj s) = tid \<and> tl_thread (ts_locals s) \<and> tl_name (ts_locals s) = name \<and>
     tl_system_name (ts_locals s) = c_str (take 15 name)"

definition thread_inv :: "int \<Rightarrow> nat \<Rightarrow> string \<Rightarrow> thread_system \<Rightarrow> bool" where
  "thread_inv tid cb name s \<longleftrightarrow> th_name (ts_obj s) = name \<and>
     (ts_maker s \<in> {Creating, Thrown} \<longleftrightarrow> ts_runner s = Absent) \<and>
     (ts_maker s \<in> {Constructed, Destroyed} \<longrightarrow> ts_runner s \<in> {Call, Done}) \<and>
     (ts_runner s \<in> {Absent, Bind, Copy_name, Set_id, Set_name, Swap} \<longrightarrow> th_cb (ts_obj s) = Some cb \<and> ts_cb s = None) \<and>
     (ts_runner s \<in> {Notify, Call, Done} \<longrightarrow> th_cb (ts_obj s) = None \<and> ts_cb s = Some cb \<and> set_up tid name s) \<and>
     th_sem (ts_obj s) = (if ts_maker s = Waiting \<and> ts_runner s \<in> {Call, Done} then 1 else 0) \<and>
     (ts_runner s \<noteq> Absent \<and> ts_runner s \<noteq> Bind \<longrightarrow> tl_thread (ts_locals s)) \<and>
     (ts_runner s \<in> {Set_id, Set_name, Swap} \<longrightarrow> tl_name (ts_locals s) = name) \<and>
     (ts_runner s \<in> {Set_name, Swap} \<longrightarrow> th_id (ts_obj s) = tid) \<and>
     (ts_runner s = Swap \<longrightarrow> tl_system_name (ts_locals s) = c_str (take 15 name)) \<and>
     ts_calls s = (if ts_runner s = Done then [cb] else [])"

lemmas run_defs = run_bind_def run_copy_name_def run_set_id_def run_set_name_def run_swap_def Semaphore_wait_def
  Semaphore_notify_def Thread_join_def set_up_def

lemma thread_step_inv: "thread_step tid s s' \<Longrightarrow> thread_inv tid cb name s \<Longrightarrow> thread_inv tid cb name s'"
proof (induction rule: thread_step.induct)
  case (join s th)
  then show ?case by (auto simp: thread_inv_def run_defs split: if_splits)
next
  case (notify s v)
  have "ts_maker s = Waiting" using notify by (cases "ts_maker s") (auto simp: thread_inv_def)
  then show ?case using notify by (auto simp: thread_inv_def run_defs)
qed (auto simp: thread_inv_def run_defs split: if_splits)

lemma thread_reach_inv:
  "(thread_step tid)\<^sup>*\<^sup>* (Thread_start cb name) s \<Longrightarrow> thread_inv tid cb (if name = [] then ''UNKNOW'' else name) s"
proof (induction rule: rtranclp_induct)
  case base
  show ?case by (simp add: thread_inv_def Thread_start_def Thread_fields_def)
qed (rule thread_step_inv)



end
