(* ===== verification/Loggers.thy ===== *)
theory Loggers
  imports Texts Prelude
begin

text \<open>
  The logger (\<open>sylar/log.h\<close>, \<open>sylar/log.cc\<close>): levels, the pattern of a formatter and its items,
  appenders and loggers. \<open>localtime_r\<close> and \<open>strftime\<close> depend on the place and are the argument
  \<open>strftime\<close>; a result that does not fit the buffer of 64 bytes is undefined.
\<close>

section \<open>Levels\<close>

text \<open>A level is an \<open>int\<close>: the configuration also makes one of value 100.\<close>

definition UNKNOW :: int where "UNKNOW = 0"
definition DEBUG :: int where "DEBUG = 1"
definition INFO :: int where "INFO = 2"
definition WARN :: int where "WARN = 3"
definition ERROR :: int where "ERROR = 4"
definition FATAL :: int where "FATAL = 5"

lemmas level_defs = UNKNOW_def DEBUG_def INFO_def WARN_def ERROR_def FATAL_def

definition level_ToString :: "int \<Rightarrow> string" where
  "level_ToString level =
     (if level = DEBUG then ''DEBUG'' else if level = INFO then ''INFO'' else if level = WARN then ''WARN''
      else if level = ERROR then ''ERROR'' else if level = FATAL then ''FATAL'' else ''UNKNOW'')"

definition level_FromString :: "string \<Rightarrow> int" where
  "level_FromString str =
     (if str = ''debug'' then DEBUG else if str = ''info'' then INFO else if str = ''warn'' then WARN
      else if str = ''error'' then ERROR else if str = ''fatal'' then FATAL
      else if str = ''DEBUG'' then DEBUG else if str = ''INFO'' then INFO else if str = ''WARN'' then WARN
      else if str = ''ERROR'' then ERROR else if str = ''FATAL'' then FATAL else UNKNOW)"

section \<open>Patterns\<close>

definition isalpha :: "char \<Rightarrow> bool" where
  "isalpha c = (let n = of_char c :: nat in 65 \<le> n \<and> n \<le> 90 \<or> 97 \<le> n \<and> n \<le> 122)"

definition substr :: "string \<Rightarrow> nat \<Rightarrow> nat \<Rightarrow> string" where
  "substr s pos n = take n (drop pos s)"

text \<open>
  The inner loop of \<open>init\<close> over the characters after the percent sign at \<open>i\<close>; \<open>fmt_state\<close> is
  whether a brace is open. It gives the place it stopped at, the state, the name and the format.
\<close>

function item_loop :: "string \<Rightarrow> nat \<Rightarrow> nat \<Rightarrow> bool \<Rightarrow> nat \<Rightarrow> string \<Rightarrow> nat \<times> bool \<times> string \<times> string" where
  "item_loop pattern i n fmt_state fmt_begin str =
     (if length pattern \<le> n then (n, fmt_state, str, []) else
      if \<not> fmt_state \<and> \<not> isalpha (pattern ! n) \<and> pattern ! n \<noteq> CHR ''{'' \<and> pattern ! n \<noteq> CHR ''}''
      then (n, fmt_state, substr pattern (i + 1) (n - i - 1), [])
      else if \<not> fmt_state \<and> pattern ! n = CHR ''{''
      then item_loop pattern i (n + 1) True n (substr pattern (i + 1) (n - i - 1))
      else if fmt_state \<and> pattern ! n = CHR ''}''
      then (n + 1, False, str, substr pattern (fmt_begin + 1) (n - fmt_begin - 1))
      else item_loop pattern i (n + 1) fmt_state fmt_begin
             (if n + 1 = length pattern \<and> str = [] then drop (i + 1) pattern else str))"
  by pat_completeness auto
termination by (relation "measure (\<lambda>(pattern, i, n, _). length pattern - n)") auto

declare item_loop.simps [simp del]

lemma item_loop_forward: "n \<le> fst (item_loop pattern i n st b str)"
proof (induction pattern i n st b str rule: item_loop.induct)
  case (1 pattern i n st b str)
  show ?case
    by (subst item_loop.simps) (use 1 in \<open>auto intro: Suc_leD\<close>)
qed

text \<open>
  The outer loop: the parts found so far, as text, format and kind (0 for text), the text that
  is being collected, and whether there was an error.
\<close>

type_synonym part = "string \<times> string \<times> nat"

definition flush :: "string \<Rightarrow> part list" where
  "flush nstr = (if nstr = [] then [] else [(nstr, [], 0)])"

function init_loop :: "string \<Rightarrow> nat \<Rightarrow> string \<Rightarrow> part list \<Rightarrow> bool \<Rightarrow> part list \<times> bool" where
  "init_loop pattern i nstr vec err =
     (if length pattern \<le> i then (vec @ flush nstr, err) else
      if pattern ! i \<noteq> CHR ''%'' then init_loop pattern (i + 1) (nstr @ [pattern ! i]) vec err else
      if i + 1 < length pattern \<and> pattern ! (i + 1) = CHR ''%'' then init_loop pattern (i + 1) (nstr @ ''%'') vec err else
      let (n, fmt_state, str, fmt) = item_loop pattern i (i + 1) False 0 [] in
      if \<not> fmt_state then init_loop pattern n [] (vec @ flush nstr @ [(str, fmt, 1)]) err
      else init_loop pattern (i + 1) nstr (vec @ [(''<<pattern_error>>'', fmt, 0)]) True)"
  by pat_completeness auto
termination
proof (relation "measure (\<lambda>(pattern, i, _). length pattern - i)", goal_cases)
  case (4 pattern i nstr vec err x n y fmt_state z str fmt)
  then have "n = fst (item_loop pattern i (i + 1) False 0 [])" by (metis fst_conv)
  then have "i + 1 \<le> n" using item_loop_forward [of "i + 1" pattern i False 0 "[]"] by simp
  with 4 show ?case by simp
qed auto

declare init_loop.simps [simp del]

section \<open>Items and formatters\<close>

datatype format_item =
    MessageFormatItem | LevelFormatItem | ElapseFormatItem | NameFormatItem | ThreadIdFormatItem | NewLineFormatItem
  | DateTimeFormatItem string | FilenameFormatItem | LineFormatItem | TabFormatItem | FiberIdFormatItem
  | ThreadNameFormatItem | StringFormatItem string

definition DateTime_new :: "string \<Rightarrow> format_item" where
  "DateTime_new format = DateTimeFormatItem (if format = [] then ''%Y-%m-%d %H:%M:%S'' else format)"

definition s_format_items :: "string \<Rightarrow> string \<Rightarrow> format_item option" where
  "s_format_items str fmt =
     map_of [(''m'', MessageFormatItem), (''p'', LevelFormatItem), (''r'', ElapseFormatItem), (''c'', NameFormatItem),
       (''t'', ThreadIdFormatItem), (''n'', NewLineFormatItem), (''d'', DateTime_new fmt), (''f'', FilenameFormatItem),
       (''l'', LineFormatItem), (''T'', TabFormatItem), (''F'', FiberIdFormatItem), (''N'', ThreadNameFormatItem)] str"

text \<open>The item for a part, and whether it is an error.\<close>

definition make_item :: "part \<Rightarrow> format_item \<times> bool" where
  "make_item = (\<lambda>(str, fmt, kind).
     if kind = 0 then (StringFormatItem str, False)
     else case s_format_items str fmt of
       None \<Rightarrow> (StringFormatItem (''<< error_format %'' @ str @ ''>>''), True)
     | Some it \<Rightarrow> (it, False))"

record formatter =
  fm_pattern :: string
  fm_items :: "format_item list"
  fm_error :: bool

definition LogFormatter_new :: "string \<Rightarrow> formatter" where
  "LogFormatter_new pattern =
     (let (vec, err) = init_loop pattern 0 [] [] False
      in \<lparr>fm_pattern = pattern, fm_items = map (fst \<circ> make_item) vec, fm_error = err \<or> list_ex (snd \<circ> make_item) vec\<rparr>)"

record log_event =
  ev_file :: string
  ev_line :: int
  ev_elapse :: u32
  ev_threadId :: u32
  ev_threadName :: string
  ev_fiberId :: int
  ev_time :: u64
  ev_content :: string
  ev_logger :: string
  ev_level :: int

text \<open>\<open>getTime\<close> and \<open>getFiberId\<close> return a \<open>uint32_t\<close>.\<close>

definition getTime :: "log_event \<Rightarrow> u32" where
  "getTime ev = ucast (ev_time ev)"

fun format_item_text :: "(string \<Rightarrow> u32 \<Rightarrow> string) \<Rightarrow> int \<Rightarrow> log_event \<Rightarrow> format_item \<Rightarrow> fault + string" where
  "format_item_text strftime level ev MessageFormatItem = Inr (ev_content ev)"
| "format_item_text strftime level ev LevelFormatItem = Inr (level_ToString level)"
| "format_item_text strftime level ev ElapseFormatItem = Inr (dec (unat (ev_elapse ev)))"
| "format_item_text strftime level ev NameFormatItem = Inr (ev_logger ev)"
| "format_item_text strftime level ev ThreadIdFormatItem = Inr (dec (unat (ev_threadId ev)))"
| "format_item_text strftime level ev NewLineFormatItem = Inr [CHR 0x0A]"
| "format_item_text strftime level ev (DateTimeFormatItem fmt) =
     (let t = strftime fmt (getTime ev) in if 64 \<le> length t then Inl Undefined else Inr t)"
| "format_item_text strftime level ev FilenameFormatItem = Inr (ev_file ev)"
| "format_item_text strftime level ev LineFormatItem = Inr (dec_int (ev_line ev))"
| "format_item_text strftime level ev TabFormatItem = Inr [CHR 0x09]"
| "format_item_text strftime level ev FiberIdFormatItem = Inr (dec (unat (word_of_int (ev_fiberId ev) :: u32)))"
| "format_item_text strftime level ev ThreadNameFormatItem = Inr (ev_threadName ev)"
| "format_item_text strftime level ev (StringFormatItem s) = Inr s"

fun format_items :: "(string \<Rightarrow> u32 \<Rightarrow> string) \<Rightarrow> int \<Rightarrow> log_event \<Rightarrow> format_item list \<Rightarrow> fault + string" where
  "format_items strftime level ev [] = Inr []"
| "format_items strftime level ev (i # is) =
     (case format_item_text strftime level ev i of
        Inl e \<Rightarrow> Inl e
      | Inr t \<Rightarrow> map_sum id ((@) t) (format_items strftime level ev is))"

definition formatter_format :: "(string \<Rightarrow> u32 \<Rightarrow> string) \<Rightarrow> formatter \<Rightarrow> int \<Rightarrow> log_event \<Rightarrow> fault + string" where
  "formatter_format strftime fm level ev = format_items strftime level ev (fm_items fm)"

section \<open>Patterns and their parts\<close>

text \<open>What a pattern is written from: text, and names with or without a format in braces.\<close>

datatype token = Text string | Item string "string option"

fun token_text :: "token \<Rightarrow> string" where
  "token_text (Text t) = t"
| "token_text (Item name None) = CHR ''%'' # name"
| "token_text (Item name (Some f)) = CHR ''%'' # name @ CHR ''{'' # f @ ''}''"

fun token_part :: "token \<Rightarrow> part" where
  "token_part (Text t) = (t, [], 0)"
| "token_part (Item name None) = (name, [], 1)"
| "token_part (Item name (Some f)) = (name, f, 1)"

definition pattern_of :: "token list \<Rightarrow> string" where
  "pattern_of ts = concat (map token_text ts)"

text \<open>
  A text is not empty, has no percent sign, and does not follow another text; a name is letters;
  a format has no closing brace; and a name without a format is not followed by a text that
  starts with a letter or a brace.
\<close>

definition ends_name :: "char \<Rightarrow> bool" where
  "ends_name c \<longleftrightarrow> \<not> isalpha c \<and> c \<noteq> CHR ''{'' \<and> c \<noteq> CHR ''}''"

fun tokens_ok :: "token list \<Rightarrow> bool" where
  "tokens_ok [] = True"
| "tokens_ok (Text t # ts) = (t \<noteq> [] \<and> CHR ''%'' \<notin> set t \<and> (case ts of Text u # _ \<Rightarrow> False | _ \<Rightarrow> True) \<and> tokens_ok ts)"
| "tokens_ok (Item name None # ts) =
     (name \<noteq> [] \<and> list_all isalpha name \<and> (case ts of Text (c # u) # _ \<Rightarrow> ends_name c | _ \<Rightarrow> True) \<and> tokens_ok ts)"
| "tokens_ok (Item name (Some f) # ts) = (name \<noteq> [] \<and> list_all isalpha name \<and> CHR ''}'' \<notin> set f \<and> tokens_ok ts)"

lemma alpha_chars: "isalpha c \<Longrightarrow> c \<noteq> CHR ''%'' \<and> c \<noteq> CHR ''{'' \<and> c \<noteq> CHR ''}''"
  by (auto simp: isalpha_def Let_def)

lemma item_loop_alpha:
  "n < length pattern \<Longrightarrow> isalpha (pattern ! n) \<Longrightarrow> item_loop pattern i n False b [] =
    item_loop pattern i (n + 1) False b (if n + 1 = length pattern then drop (i + 1) pattern else [])"
  using alpha_chars [of "pattern ! n"] by (subst item_loop.simps) simp

lemma item_loop_skip:
  assumes "n \<le> m" "m < length pattern" "\<forall>j. n \<le> j \<and> j < m \<longrightarrow> isalpha (pattern ! j)"
  shows "item_loop pattern i n False b [] = item_loop pattern i m False b []"
  using assms
proof (induction "m - n" arbitrary: n)
  case (Suc k)
  have "item_loop pattern i n False b [] = item_loop pattern i (n + 1) False b []"
    using Suc.prems Suc.hyps(2) by (subst item_loop_alpha) auto
  also have "\<dots> = item_loop pattern i m False b []" using Suc.prems Suc.hyps(2) by (intro Suc.hyps(1)) auto
  finally show ?case .
qed simp

lemma item_loop_end:
  assumes "n < length pattern" "\<forall>j. n \<le> j \<and> j < length pattern \<longrightarrow> isalpha (pattern ! j)"
  shows "item_loop pattern i n False b [] = (length pattern, False, drop (i + 1) pattern, [])"
proof -
  let ?m = "length pattern - 1"
  have "item_loop pattern i n False b [] = item_loop pattern i ?m False b []"
    by (rule item_loop_skip) (use assms in auto)
  also have "\<dots> = item_loop pattern i (?m + 1) False b (if ?m + 1 = length pattern then drop (i + 1) pattern else [])"
  proof (subst item_loop_alpha)
    show "isalpha (pattern ! ?m)" using assms(1) by (intro assms(2) [rule_format]) auto
  qed (use assms(1) in auto)
  also have "?m + 1 = length pattern" using assms(1) by simp
  also have "item_loop pattern i (length pattern) False b (if length pattern = length pattern then drop (i + 1) pattern else []) =
      (length pattern, False, drop (i + 1) pattern, [])" by (subst item_loop.simps) simp
  finally show ?thesis .
qed

lemma item_loop_brace:
  assumes "n \<le> m" "m < length pattern" "pattern ! m = CHR ''}''" "\<forall>j. n \<le> j \<and> j < m \<longrightarrow> pattern ! j \<noteq> CHR ''}''"
    and "str \<noteq> []"
  shows "item_loop pattern i n True b str = (m + 1, False, str, substr pattern (b + 1) (m - b - 1))"
  using assms
proof (induction "m - n" arbitrary: n)
  case 0
  then show ?case by (subst item_loop.simps) simp
next
  case (Suc k)
  have "item_loop pattern i n True b str = item_loop pattern i (n + 1) True b str"
    using Suc.prems Suc.hyps(2) by (subst item_loop.simps) auto
  also have "\<dots> = (m + 1, False, str, substr pattern (b + 1) (m - b - 1))"
    using Suc.prems Suc.hyps(2) by (intro Suc.hyps(1)) auto
  finally show ?case .
qed

lemma nth_between: "pattern = pre @ mid @ post \<Longrightarrow> length pre \<le> j \<Longrightarrow> j < length pre + length mid \<Longrightarrow> pattern ! j \<in> set mid"
  using nth_mem [of "j - length pre" mid] by (auto simp: nth_append)

text \<open>A name at its place in a pattern, before the end, before a character that ends it, and with a format.\<close>

lemma item_loop_name:
  assumes p: "pattern = pre @ CHR ''%'' # name @ rest" and name: "name \<noteq> []" "list_all isalpha name"
    and rest: "rest = [] \<or> (\<exists>c u. rest = c # u \<and> ends_name c)"
  shows "item_loop pattern (length pre) (length pre + 1) False 0 [] = (length pre + 1 + length name, False, name, [])"
proof -
  have a: "isalpha (pattern ! j)" if "length pre + 1 \<le> j" "j < length pre + 1 + length name" for j
    using nth_between [of pattern "pre @ ''%''" name rest j] that p name(2) by (auto simp: list_all_iff)
  show ?thesis
  proof (cases "rest = []")
    case True
    then show ?thesis using p name a by (subst item_loop_end) auto
  next
    case False
    then obtain c u where c: "rest = c # u" "ends_name c" using rest by auto
    let ?m = "length pre + 1 + length name"
    have m: "?m < length pattern" "pattern ! ?m = c" using p c(1) by (simp_all add: nth_append)
    have "item_loop pattern (length pre) (length pre + 1) False 0 [] = item_loop pattern (length pre) ?m False 0 []"
      by (rule item_loop_skip) (use m a in auto)
    also have "\<dots> = (?m, False, name, [])"
      using m c(2) p by (subst item_loop.simps) (simp add: ends_name_def substr_def)
    finally show ?thesis .
  qed
qed

lemma item_loop_format:
  assumes p: "pattern = pre @ CHR ''%'' # name @ CHR ''{'' # f @ CHR ''}'' # rest" and name: "name \<noteq> []" "list_all isalpha name"
    and f: "CHR ''}'' \<notin> set f"
  shows "item_loop pattern (length pre) (length pre + 1) False 0 [] = (length pre + length name + length f + 3, False, name, f)"
proof -
  let ?m = "length pre + 1 + length name" and ?k = "length pre + 1 + length name + 1 + length f"
  have a: "isalpha (pattern ! j)" if "length pre + 1 \<le> j" "j < ?m" for j
    using nth_between [of pattern "pre @ ''%''" name "CHR ''{'' # f @ CHR ''}'' # rest" j] that p name(2) by (auto simp: list_all_iff)
  have b: "pattern ! j \<noteq> CHR ''}''" if "?m + 1 \<le> j" "j < ?k" for j
    using nth_between [of pattern "pre @ CHR ''%'' # name @ ''{''" f "CHR ''}'' # rest" j] that p f by auto
  have q: "pattern = (pre @ CHR ''%'' # name) @ CHR ''{'' # f @ CHR ''}'' # rest"
    "pattern = (pre @ CHR ''%'' # name @ CHR ''{'' # f) @ CHR ''}'' # rest" using p by simp_all
  have m: "?m < length pattern" "?k < length pattern" using p by simp_all
  have c: "pattern ! ?m = CHR ''{''" "pattern ! ?k = CHR ''}''"
    by (subst q(1), simp add: nth_append, subst q(2), simp add: nth_append)
  have s: "substr pattern (length pre + 1) (?m - length pre - 1) = name" "substr pattern (?m + 1) (?k - ?m - 1) = f"
    using p by (simp_all add: substr_def)
  have "item_loop pattern (length pre) (length pre + 1) False 0 [] = item_loop pattern (length pre) ?m False 0 []"
    by (rule item_loop_skip) (use m a in auto)
  also have "\<dots> = item_loop pattern (length pre) (?m + 1) True ?m name"
    using m(1) c(1) s(1) by (subst item_loop.simps) simp
  also have "\<dots> = (?k + 1, False, name, substr pattern (?m + 1) (?k - ?m - 1))"
    by (rule item_loop_brace) (use m(2) c(2) b name(1) in auto)
  finally show ?thesis unfolding s(2) by simp
qed

lemma init_loop_text:
  "CHR ''%'' \<notin> set t \<Longrightarrow> init_loop (pre @ t @ rest) (length pre) nstr vec err =
    init_loop (pre @ t @ rest) (length (pre @ t)) (nstr @ t) vec err"
proof (induction t arbitrary: pre nstr)
  case (Cons c t)
  have "init_loop (pre @ (c # t) @ rest) (length pre) nstr vec err =
      init_loop ((pre @ [c]) @ t @ rest) (length (pre @ [c])) (nstr @ [c]) vec err"
    using Cons.prems by (subst init_loop.simps) auto
  then show ?case using Cons.IH [of "pre @ [c]" "nstr @ [c]"] Cons.prems by simp
qed simp

lemma init_loop_item:
  assumes p: "pattern = pre @ CHR ''%'' # c # u" and c: "isalpha c"
    and l: "item_loop pattern (length pre) (length pre + 1) False 0 [] = (n, False, str, fmt)"
  shows "init_loop pattern (length pre) nstr vec err = init_loop pattern n [] (vec @ flush nstr @ [(str, fmt, 1)]) err"
proof -
  have "pattern ! length pre = CHR ''%''" "pattern ! (length pre + 1) = c" "length pre + 1 < length pattern"
    using p by (simp_all add: nth_append)
  then show ?thesis using l alpha_chars [OF c] by (subst init_loop.simps) simp
qed

lemma init_loop_tokens:
  assumes "tokens_ok ts" "nstr \<noteq> [] \<longrightarrow> (case ts of Text u # _ \<Rightarrow> False | _ \<Rightarrow> True)"
  shows "init_loop (pre @ pattern_of ts) (length pre) nstr vec err = (vec @ flush nstr @ map token_part ts, err)"
  using assms
proof (induction ts arbitrary: pre nstr vec rule: tokens_ok.induct)
  case 1
  then show ?case by (subst init_loop.simps) (simp add: pattern_of_def)
next
  case (2 t ts)
  have n: "nstr = []" using 2(3) by auto
  have "init_loop (pre @ t @ pattern_of ts) (length pre) nstr vec err =
      init_loop (pre @ t @ pattern_of ts) (length (pre @ t)) t vec err"
    using 2(2) n init_loop_text [of t pre "pattern_of ts" nstr] by simp
  also have "\<dots> = (vec @ flush t @ map token_part ts, err)"
    using 2(1) [of t "pre @ t" vec] 2(2) by simp
  finally show ?case using 2(2) n by (simp add: pattern_of_def flush_def)
next
  case (3 name ts)
  let ?rest = "pattern_of ts" and ?pat = "pre @ CHR ''%'' # name @ pattern_of ts"
  obtain c u where name: "name = c # u" "isalpha c" using 3(2) by (cases name) auto
  have r: "?rest = [] \<or> (\<exists>c u. ?rest = c # u \<and> ends_name c)"
  proof (cases ts)
    case (Cons a ts')
    show ?thesis
    proof (cases a)
      case (Text t)
      then show ?thesis using 3(2) Cons by (cases t) (auto simp: pattern_of_def)
    next
      case (Item m f)
      have "ends_name (CHR ''%'')" by (simp add: ends_name_def isalpha_def)
      then show ?thesis using Cons Item by (cases f) (auto simp: pattern_of_def)
    qed
  qed (simp add: pattern_of_def)
  have l: "item_loop ?pat (length pre) (length pre + 1) False 0 [] = (length pre + 1 + length name, False, name, [])"
    by (rule item_loop_name) (use 3(2) r in auto)
  have "init_loop ?pat (length pre) nstr vec err =
      init_loop ?pat (length pre + 1 + length name) [] (vec @ flush nstr @ [(name, [], 1)]) err"
    by (rule init_loop_item [OF _ name(2) l]) (simp add: name(1))
  also have "\<dots> = init_loop ((pre @ CHR ''%'' # name) @ ?rest) (length (pre @ CHR ''%'' # name)) [] (vec @ flush nstr @ [(name, [], 1)]) err"
    by simp
  also have "\<dots> = ((vec @ flush nstr @ [(name, [], 1)]) @ flush [] @ map token_part ts, err)"
    by (rule 3(1)) (use 3(2) in auto)
  finally show ?case by (simp add: pattern_of_def flush_def)
next
  case (4 name f ts)
  let ?rest = "pattern_of ts" and ?pat = "pre @ CHR ''%'' # name @ CHR ''{'' # f @ CHR ''}'' # pattern_of ts"
  obtain c u where name: "name = c # u" "isalpha c" using 4(2) by (cases name) auto
  have l: "item_loop ?pat (length pre) (length pre + 1) False 0 [] = (length pre + length name + length f + 3, False, name, f)"
    by (rule item_loop_format) (use 4(2) in auto)
  have "init_loop ?pat (length pre) nstr vec err =
      init_loop ?pat (length pre + length name + length f + 3) [] (vec @ flush nstr @ [(name, f, 1)]) err"
    by (rule init_loop_item [OF _ name(2) l]) (simp add: name(1))
  also have "\<dots> = init_loop ((pre @ CHR ''%'' # name @ CHR ''{'' # f @ ''}'') @ ?rest)
      (length (pre @ CHR ''%'' # name @ CHR ''{'' # f @ ''}'')) [] (vec @ flush nstr @ [(name, f, 1)]) err"
    by (simp add: numeral_3_eq_3 add.assoc)
  also have "\<dots> = ((vec @ flush nstr @ [(name, f, 1)]) @ flush [] @ map token_part ts, err)"
    by (rule 4(1)) (use 4(2) in auto)
  finally show ?case by (simp add: pattern_of_def flush_def)
qed

section \<open>Properties of patterns\<close>

text \<open>
  C22. A pattern is read back as it was written: from the pattern that tokens make, text, names
  and names with a format in braces, the formatter has exactly one item for each token in their
  order, the text itself, the item of the name with its format, and an error item, with the
  error flag set, exactly for a name that is not known.
\<close>

theorem pattern_roundtrip:
  assumes "tokens_ok ts"
  shows "fm_items (LogFormatter_new (pattern_of ts)) = map (fst \<circ> make_item \<circ> token_part) ts \<and>
    (fm_error (LogFormatter_new (pattern_of ts)) \<longleftrightarrow>
      (\<exists>name f. Item name f \<in> set ts \<and> s_format_items name [] = None))"
proof -
  have l: "init_loop (pattern_of ts) 0 [] [] False = (map token_part ts, False)"
    using init_loop_tokens [OF assms, of "[]" "[]" "[]" False] by (simp add: flush_def)
  have "snd (make_item (token_part t)) \<longleftrightarrow> (\<exists>name f. t = Item name f \<and> s_format_items name [] = None)" for t
  proof (cases t)
    case (Item name f)
    have "s_format_items name g = None \<longleftrightarrow> s_format_items name [] = None" for g
      by (auto simp: s_format_items_def split: if_splits)
    then show ?thesis using Item by (cases f; cases "s_format_items name []") (auto simp: make_item_def split: option.split)
  qed (simp add: make_item_def)
  then have "list_ex (snd \<circ> make_item) (map token_part ts) \<longleftrightarrow>
      (\<exists>name f. Item name f \<in> set ts \<and> s_format_items name [] = None)"
    by (fastforce simp: list_ex_iff)
  then show ?thesis by (simp add: LogFormatter_new_def l)
qed

lemma pattern_roundtrip_witness:
  "fm_items (LogFormatter_new ''%d{%H:%M}%T[%p] %m%n'') =
     [DateTimeFormatItem ''%H:%M'', TabFormatItem, StringFormatItem ''['', LevelFormatItem, StringFormatItem ''] '',
      MessageFormatItem, NewLineFormatItem] \<and> \<not> fm_error (LogFormatter_new ''%d{%H:%M}%T[%p] %m%n'')"
proof -
  let ?ts = "[Item ''d'' (Some ''%H:%M''), Item ''T'' None, Text ''['', Item ''p'' None, Text ''] '', Item ''m'' None, Item ''n'' None]"
  have ok: "tokens_ok ?ts" by (simp add: ends_name_def isalpha_def)
  have p: "pattern_of ?ts = ''%d{%H:%M}%T[%p] %m%n''" by (simp add: pattern_of_def)
  show ?thesis
    using pattern_roundtrip [OF ok] unfolding p
    by (simp add: make_item_def s_format_items_def DateTime_new_def)
qed

text \<open>
  Two percent signs are not one: the first is taken as text and the second starts an item,
  so before a name they give the sign and the item, and before anything else the sign and an
  error; and a brace that is not closed puts the error before the text that precedes it and
  reads what is in it as part of the pattern.
\<close>

theorem percent_and_brace:
  assumes "CHR ''%'' \<notin> set t" "t \<noteq> []" "CHR ''%'' \<notin> set f" "CHR ''}'' \<notin> set f"
  shows "fm_items (LogFormatter_new (t @ ''%%m'')) = [StringFormatItem (t @ ''%''), MessageFormatItem] \<and>
    (let fm = LogFormatter_new (t @ ''%%'') in
      fm_error fm \<and> fm_items fm = [StringFormatItem (t @ ''%''), StringFormatItem ''<< error_format %>>'']) \<and>
    (let fm = LogFormatter_new (t @ ''%d{'' @ f) in
      fm_error fm \<and> fm_items fm = [StringFormatItem ''<<pattern_error>>'', StringFormatItem (t @ ''d{'' @ f)])"
proof (intro conjI)
  have a: "init_loop (t @ u) 0 [] [] False = init_loop (t @ u) (length t) t [] False" for u
    using init_loop_text [OF assms(1), of "[]" u "[]" "[]" False] by simp
  have two: "init_loop (t @ CHR ''%'' # CHR ''%'' # u) 0 [] [] False =
      init_loop ((t @ ''%'') @ CHR ''%'' # u) (length (t @ ''%'')) (t @ ''%'') [] False" for u
    unfolding a by (subst init_loop.simps) (simp add: nth_append)
  have "item_loop ((t @ ''%'') @ ''%m'') (length (t @ ''%'')) (length (t @ ''%'') + 1) False 0 [] =
      (length (t @ ''%'') + 1 + length ''m'', False, ''m'', [])"
    by (rule item_loop_name [where rest = "[]"]) (simp_all add: isalpha_def)
  then have "init_loop ((t @ ''%'') @ ''%m'') (length (t @ ''%'')) (t @ ''%'') [] False =
      init_loop ((t @ ''%'') @ ''%m'') (length (t @ ''%'') + 1 + length ''m'') [] ([] @ flush (t @ ''%'') @ [(''m'', [], 1)]) False"
    by (intro init_loop_item [where c = "CHR ''m''" and u = "[]"]) (simp_all add: isalpha_def)
  also have "\<dots> = (flush (t @ ''%'') @ [(''m'', [], 1)], False)" by (subst init_loop.simps) (simp add: flush_def)
  finally show "fm_items (LogFormatter_new (t @ ''%%m'')) = [StringFormatItem (t @ ''%''), MessageFormatItem]"
    using two [of "''m''"] by (simp add: LogFormatter_new_def flush_def make_item_def s_format_items_def)
  have "item_loop ((t @ ''%'') @ ''%'') (length (t @ ''%'')) (length (t @ ''%'') + 1) False 0 [] = (length t + 2, False, [], [])"
    by (subst item_loop.simps) simp
  then have "init_loop ((t @ ''%'') @ ''%'') (length (t @ ''%'')) (t @ ''%'') [] False =
      init_loop ((t @ ''%'') @ ''%'') (length t + 2) [] (flush (t @ ''%'') @ [([], [], 1)]) False"
    by (subst init_loop.simps) (simp add: nth_append)
  also have "\<dots> = (flush (t @ ''%'') @ [([], [], 1)], False)" by (subst init_loop.simps) (simp add: flush_def)
  finally show "let fm = LogFormatter_new (t @ ''%%'') in
      fm_error fm \<and> fm_items fm = [StringFormatItem (t @ ''%''), StringFormatItem ''<< error_format %>>'']"
    using two [of "[]"] by (simp add: LogFormatter_new_def flush_def make_item_def s_format_items_def)
  let ?p = "t @ ''%d{'' @ f"
  have brace: "item_loop ?p (length t) n True b ''d'' = (length ?p, True, ''d'', [])" if "length t + 3 \<le> n" "n \<le> length ?p" for n b
    using that
  proof (induction "length ?p - n" arbitrary: n)
    case 0
    then show ?case by (subst item_loop.simps) simp
  next
    case (Suc k)
    have "?p ! n \<in> set f" using Suc.prems Suc.hyps(2) by (intro nth_between [where pre = "t @ ''%d{''" and post = "[]"]) auto
    then have "item_loop ?p (length t) n True b ''d'' = item_loop ?p (length t) (n + 1) True b ''d''"
      using Suc.prems Suc.hyps(2) assms(4) by (subst item_loop.simps) auto
    also have "\<dots> = (length ?p, True, ''d'', [])" using Suc.prems Suc.hyps(2) by (intro Suc.hyps(1)) auto
    finally show ?case .
  qed
  have "item_loop ?p (length t) (length t + 1) False 0 [] = item_loop ?p (length t) (length t + 2) False 0 []"
  proof (rule item_loop_skip)
    have "isalpha (?p ! (length t + 1))" by (simp add: nth_append isalpha_def)
    moreover have "j = length t + 1" if "length t + 1 \<le> j \<and> j < length t + 2" for j using that by simp
    ultimately show "\<forall>j. length t + 1 \<le> j \<and> j < length t + 2 \<longrightarrow> isalpha (?p ! j)" by metis
  qed simp_all
  also have "\<dots> = item_loop ?p (length t) (length t + 3) True (length t + 2) ''d''"
    by (subst item_loop.simps) (simp add: nth_append substr_def numeral_3_eq_3)
  also have "\<dots> = (length ?p, True, ''d'', [])" by (rule brace) simp_all
  finally have "init_loop ?p (length t) t [] False = init_loop ?p (length t + 1) t [(''<<pattern_error>>'', [], 0)] True"
    by (subst init_loop.simps) (simp add: nth_append)
  also have "\<dots> = init_loop ((t @ ''%'') @ (''d{'' @ f) @ []) (length (t @ ''%'')) t [(''<<pattern_error>>'', [], 0)] True" by simp
  also have "\<dots> = (((''<<pattern_error>>'', [], 0) # flush (t @ ''d{'' @ f)), True)"
    using assms(3) by (subst init_loop_text) (simp, subst init_loop.simps, simp)
  finally show "let fm = LogFormatter_new ?p in
      fm_error fm \<and> fm_items fm = [StringFormatItem ''<<pattern_error>>'', StringFormatItem (t @ ''d{'' @ f)]"
    using a [of "''%d{'' @ f"] by (simp add: LogFormatter_new_def flush_def make_item_def)
qed

lemma percent_and_brace_witness:
  "fm_items (LogFormatter_new ''100%%m'') = [StringFormatItem ''100%'', MessageFormatItem] \<and>
   fm_error (LogFormatter_new ''100%%'')"
  using percent_and_brace [of "''100''" "[]"] by (simp add: Let_def)

end
