(* ===== verification/Appenders.thy ===== *)
theory Appenders
  imports Loggers
begin

text \<open>
  Appenders, loggers and their manager (\<open>sylar/log.cc\<close>). Appenders and loggers are shared objects:
  they live in stores, and lists hold their addresses. What the time, the file system and
  \<open>strftime\<close> answer during a call is the argument \<open>env\<close>. The output is the list of what was
  written where. A critical section of a mutex is one step.
\<close>

section \<open>Appenders\<close>

text \<open>
  An \<open>ofstream\<close>: whether its buffer has a file open, and whether no error flag is set. Opening an
  open buffer fails, closing a closed one sets the flag, and a successful open clears it.
\<close>

record ofstream =
  fs_open :: bool
  fs_good :: bool

definition ofstream_new :: ofstream where
  "ofstream_new = \<lparr>fs_open = False, fs_good = True\<rparr>"

definition ofstream_close :: "ofstream \<Rightarrow> ofstream" where
  "ofstream_close fs = (if fs_open fs then fs\<lparr>fs_open := False\<rparr> else fs\<lparr>fs_good := False\<rparr>)"

definition ofstream_open :: "bool \<Rightarrow> ofstream \<Rightarrow> ofstream" where
  "ofstream_open ok fs =
     (if fs_open fs \<or> \<not> ok then fs\<lparr>fs_good := False\<rparr> else \<lparr>fs_open = True, fs_good = True\<rparr>)"

datatype appender_kind = StdoutLogAppender | FileLogAppender string

record appender =
  ap_kind :: appender_kind
  ap_level :: int
  ap_hasFormatter :: bool
  ap_formatter :: "formatter option"
  ap_stream :: ofstream
  ap_lastTime :: u64

record log_env =
  le_now :: u64
  le_open :: bool
  le_write :: bool
  le_strftime :: "string \<Rightarrow> u32 \<Rightarrow> string"

datatype target = Console | File string

type_synonym written = "(target \<times> string) list"

definition reopen :: "bool \<Rightarrow> appender \<Rightarrow> bool \<times> appender" where
  "reopen ok a =
     (let fs = (if fs_good (ap_stream a) then ofstream_close (ap_stream a) else ap_stream a);
          fs = ofstream_open ok fs
      in (fs_good fs, a\<lparr>ap_stream := fs\<rparr>))"

definition StdoutLogAppender_new :: appender where
  "StdoutLogAppender_new = \<lparr>ap_kind = StdoutLogAppender, ap_level = DEBUG, ap_hasFormatter = False, ap_formatter = None,
     ap_stream = ofstream_new, ap_lastTime = 0\<rparr>"

definition FileLogAppender_new :: "bool \<Rightarrow> string \<Rightarrow> appender" where
  "FileLogAppender_new ok filename =
     snd (reopen ok \<lparr>ap_kind = FileLogAppender filename, ap_level = DEBUG, ap_hasFormatter = False, ap_formatter = None,
       ap_stream = ofstream_new, ap_lastTime = 0\<rparr>)"

definition appender_setFormatter :: "formatter option \<Rightarrow> appender \<Rightarrow> appender" where
  "appender_setFormatter v a = a\<lparr>ap_formatter := v, ap_hasFormatter := (v \<noteq> None)\<rparr>"

definition appender_setLevel :: "int \<Rightarrow> appender \<Rightarrow> appender" where
  "appender_setLevel v a = a\<lparr>ap_level := v\<rparr>"

text \<open>The two \<open>log\<close> functions of appenders.\<close>

definition format_by :: "log_env \<Rightarrow> appender \<Rightarrow> int \<Rightarrow> log_event \<Rightarrow> fault + string" where
  "format_by env a level ev =
     (case ap_formatter a of None \<Rightarrow> Inl Null_deref | Some fm \<Rightarrow> formatter_format (le_strftime env) fm level ev)"

definition stdout_log :: "log_env \<Rightarrow> int \<Rightarrow> log_event \<Rightarrow> appender \<Rightarrow> fault + appender \<times> written" where
  "stdout_log env level ev a =
     (if level < ap_level a then Inr (a, []) else map_sum id (\<lambda>t. (a, [(Console, t)])) (format_by env a level ev))"

definition file_log :: "log_env \<Rightarrow> string \<Rightarrow> int \<Rightarrow> log_event \<Rightarrow> appender \<Rightarrow> fault + appender \<times> written" where
  "file_log env filename level ev a =
     (if level < ap_level a then Inr (a, []) else
      let a = (if le_now env \<noteq> ap_lastTime a then snd (reopen (le_open env) a)\<lparr>ap_lastTime := le_now env\<rparr> else a)
      in case format_by env a level ev of
           Inl e \<Rightarrow> Inl e
         | Inr t \<Rightarrow>
             if \<not> fs_good (ap_stream a) then Inr (a, [])
             else if fs_open (ap_stream a) \<and> le_write env then Inr (a, [(File filename, t)])
             else Inr (a\<lparr>ap_stream := (ap_stream a)\<lparr>fs_good := False\<rparr>\<rparr>, []))"

definition appender_log :: "log_env \<Rightarrow> int \<Rightarrow> log_event \<Rightarrow> appender \<Rightarrow> fault + appender \<times> written" where
  "appender_log env level ev a =
     (case ap_kind a of StdoutLogAppender \<Rightarrow> stdout_log env level ev a | FileLogAppender f \<Rightarrow> file_log env f level ev a)"

section \<open>Loggers\<close>

record logger =
  lg_name :: string
  lg_level :: int
  lg_appenders :: "nat list"
  lg_formatter :: "formatter option"
  lg_root :: "nat option"

definition default_pattern :: string where
  "default_pattern = ''%d{%Y-%m-%d %H:%M:%S}%T%t%T%N%T%F%T[%p]%T[%c]%T<%f:%l>%T%m%n''"

definition Logger_new :: "string \<Rightarrow> logger" where
  "Logger_new name = \<lparr>lg_name = name, lg_level = DEBUG, lg_appenders = [],
     lg_formatter = Some (LogFormatter_new default_pattern), lg_root = None\<rparr>"

record log_store =
  st_appenders :: "nat \<Rightarrow> appender option"
  st_loggers :: "nat \<Rightarrow> logger option"
  lm_loggers :: "string \<Rightarrow> nat option"
  lm_root :: nat

definition upd_appender :: "nat \<Rightarrow> (appender \<Rightarrow> appender) \<Rightarrow> log_store \<Rightarrow> log_store" where
  "upd_appender i f w = w\<lparr>st_appenders := (st_appenders w)(i := map_option f (st_appenders w i))\<rparr>"

definition upd_logger :: "nat \<Rightarrow> (logger \<Rightarrow> logger) \<Rightarrow> log_store \<Rightarrow> log_store" where
  "upd_logger i f w = w\<lparr>st_loggers := (st_loggers w)(i := map_option f (st_loggers w i))\<rparr>"

text \<open>\<open>setFormatter\<close> also sets it for the appenders that have none of their own.\<close>

definition inherit_formatter :: "formatter option \<Rightarrow> appender \<Rightarrow> appender" where
  "inherit_formatter v a = (if \<not> ap_hasFormatter a then a\<lparr>ap_formatter := v\<rparr> else a)"

definition logger_setFormatter :: "nat \<Rightarrow> formatter option \<Rightarrow> log_store \<Rightarrow> log_store" where
  "logger_setFormatter l v w =
     (case st_loggers w l of None \<Rightarrow> w
      | Some lg \<Rightarrow> fold (\<lambda>i. upd_appender i (inherit_formatter v)) (lg_appenders lg)
                  (upd_logger l (\<lambda>lg. lg\<lparr>lg_formatter := v\<rparr>) w))"

definition logger_setFormatter_str :: "nat \<Rightarrow> string \<Rightarrow> log_store \<Rightarrow> log_store" where
  "logger_setFormatter_str l v w =
     (let new_val = LogFormatter_new v in if fm_error new_val then w else logger_setFormatter l (Some new_val) w)"

definition addAppender :: "nat \<Rightarrow> nat \<Rightarrow> log_store \<Rightarrow> log_store" where
  "addAppender l i w =
     (case (st_loggers w l, st_appenders w i) of
        (Some lg, Some a) \<Rightarrow>
          upd_logger l (\<lambda>lg. lg\<lparr>lg_appenders := lg_appenders lg @ [i]\<rparr>)
            (if ap_formatter a = None then upd_appender i (\<lambda>a. a\<lparr>ap_formatter := lg_formatter lg\<rparr>) w else w)
      | _ \<Rightarrow> w)"

definition delAppender :: "nat \<Rightarrow> nat \<Rightarrow> log_store \<Rightarrow> log_store" where
  "delAppender l i = upd_logger l (\<lambda>lg. lg\<lparr>lg_appenders := remove1 i (lg_appenders lg)\<rparr>)"

definition clearAppenders :: "nat \<Rightarrow> log_store \<Rightarrow> log_store" where
  "clearAppenders l = upd_logger l (\<lambda>lg. lg\<lparr>lg_appenders := []\<rparr>)"

definition logger_setLevel :: "nat \<Rightarrow> int \<Rightarrow> log_store \<Rightarrow> log_store" where
  "logger_setLevel l v = upd_logger l (\<lambda>lg. lg\<lparr>lg_level := v\<rparr>)"

text \<open>
  \<open>log\<close>: to all appenders of the logger, one after the other, or to the root if it has none. A
  null pointer to a logger, or one to an object that is gone, is a null dereference.
\<close>

fun log_all :: "log_env \<Rightarrow> int \<Rightarrow> log_event \<Rightarrow> nat list \<Rightarrow> log_store \<Rightarrow> fault + log_store \<times> written" where
  "log_all env level ev [] w = Inr (w, [])"
| "log_all env level ev (i # is) w =
     (case st_appenders w i of
        None \<Rightarrow> Inl Null_deref
      | Some a \<Rightarrow>
          (case appender_log env level ev a of
             Inl e \<Rightarrow> Inl e
           | Inr (a, out) \<Rightarrow>
               map_sum id (\<lambda>(w, out'). (w, out @ out')) (log_all env level ev is (w\<lparr>st_appenders := (st_appenders w)(i \<mapsto> a)\<rparr>))))"

partial_function (option) logger_log :: "log_env \<Rightarrow> nat \<Rightarrow> int \<Rightarrow> log_event \<Rightarrow> log_store \<Rightarrow> (fault + log_store \<times> written) option" where
  "logger_log env l level ev w =
     (case st_loggers w l of
        None \<Rightarrow> Some (Inl Null_deref)
      | Some lg \<Rightarrow>
          if level < lg_level lg then Some (Inr (w, []))
          else if lg_appenders lg \<noteq> [] then Some (log_all env level ev (lg_appenders lg) w)
          else (case lg_root lg of Some r \<Rightarrow> logger_log env r level ev w | None \<Rightarrow> Some (Inr (w, []))))"

declare logger_log.simps [code]

section \<open>The manager\<close>

text \<open>\<open>LoggerManager\<close>: the root logger is at the address 0, with its appender at the address 0.\<close>

definition LoggerManager_new :: log_store where
  "LoggerManager_new =
     (let w = \<lparr>st_appenders = (\<lambda>_. None)(0 \<mapsto> StdoutLogAppender_new), st_loggers = (\<lambda>_. None)(0 \<mapsto> Logger_new ''root''),
               lm_loggers = (\<lambda>_. None), lm_root = 0\<rparr>
      in (addAppender 0 0 w)\<lparr>lm_loggers := (\<lambda>_. None)(''root'' \<mapsto> 0)\<rparr>)"

definition getLogger :: "nat \<Rightarrow> string \<Rightarrow> log_store \<Rightarrow> nat \<times> log_store" where
  "getLogger fresh name w =
     (case lm_loggers w name of
        Some l \<Rightarrow> (l, w)
      | None \<Rightarrow> (fresh, w\<lparr>st_loggers := (st_loggers w)(fresh \<mapsto> (Logger_new name)\<lparr>lg_root := Some (lm_root w)\<rparr>),
                         lm_loggers := (lm_loggers w)(name \<mapsto> fresh)\<rparr>))"

text \<open>The macros of \<open>log.h\<close> make an event only for a level that the logger lets through.\<close>

definition SYLAR_LOG_LEVEL :: "log_env \<Rightarrow> nat \<Rightarrow> int \<Rightarrow> log_event \<Rightarrow> log_store \<Rightarrow> (fault + log_store \<times> written) option" where
  "SYLAR_LOG_LEVEL env l level ev w =
     (case st_loggers w l of
        None \<Rightarrow> Some (Inl Null_deref)
      | Some lg \<Rightarrow>
          if lg_level lg \<le> level then logger_log env l level (ev\<lparr>ev_logger := lg_name lg, ev_level := level, ev_elapse := 0\<rparr>) w
          else Some (Inr (w, [])))"

section \<open>Reachable states\<close>

inductive log_step :: "log_store \<Rightarrow> log_store \<Rightarrow> bool" where
  get: "st_loggers w fresh = None \<Longrightarrow> log_step w (snd (getLogger fresh name w))"
| new_appender: "st_appenders w i = None \<Longrightarrow> log_step w (w\<lparr>st_appenders := (st_appenders w)(i \<mapsto> StdoutLogAppender_new)\<rparr>)"
| new_file: "st_appenders w i = None \<Longrightarrow> log_step w (w\<lparr>st_appenders := (st_appenders w)(i \<mapsto> FileLogAppender_new ok f)\<rparr>)"
| add: "log_step w (addAppender l i w)"
| del: "log_step w (delAppender l i w)"
| clear: "log_step w (clearAppenders l w)"
| level: "log_step w (logger_setLevel l v w)"
| appender_level: "log_step w (upd_appender i (appender_setLevel v) w)"
| formatter: "log_step w (logger_setFormatter l (Some fm) w)"
| formatter_str: "log_step w (logger_setFormatter_str l v w)"
| appender_formatter: "log_step w (upd_appender i (appender_setFormatter (Some fm)) w)"
| logged: "SYLAR_LOG_LEVEL env l v ev w = Some (Inr (w', out)) \<Longrightarrow> log_step w w'"

definition has_formatter :: "log_store \<Rightarrow> nat \<Rightarrow> bool" where
  "has_formatter w i \<longleftrightarrow> (\<exists>a. st_appenders w i = Some a \<and> ap_formatter a \<noteq> None)"

definition logger_ok :: "log_store \<Rightarrow> nat \<Rightarrow> logger \<Rightarrow> bool" where
  "logger_ok w l lg \<longleftrightarrow> lg_formatter lg \<noteq> None \<and> (\<forall>i \<in> set (lg_appenders lg). has_formatter w i) \<and>
     lg_root lg = (if l = lm_root w then None else Some (lm_root w))"

definition log_inv :: "log_store \<Rightarrow> bool" where
  "log_inv w \<longleftrightarrow> st_loggers w (lm_root w) \<noteq> None \<and> (\<forall>l lg. st_loggers w l = Some lg \<longrightarrow> logger_ok w l lg)"

lemma inv_cong:
  assumes "log_inv w" "st_loggers w' = st_loggers w" "lm_root w' = lm_root w" "\<And>i. has_formatter w i \<Longrightarrow> has_formatter w' i"
  shows "log_inv w'"
  using assms by (auto simp: log_inv_def logger_ok_def)

lemma upd_appender_simps [simp]:
  "st_loggers (upd_appender i f w) = st_loggers w" "lm_root (upd_appender i f w) = lm_root w"
  "lm_loggers (upd_appender i f w) = lm_loggers w"
  by (simp_all add: upd_appender_def)

lemma upd_appender_has:
  "(\<And>a. ap_formatter a \<noteq> None \<Longrightarrow> ap_formatter (f a) \<noteq> None) \<Longrightarrow> has_formatter w i \<Longrightarrow> has_formatter (upd_appender j f w) i"
  by (auto simp: has_formatter_def upd_appender_def)

lemma upd_logger_inv:
  assumes "log_inv w" "\<And>lg. st_loggers w l = Some lg \<Longrightarrow> logger_ok w l lg \<Longrightarrow> logger_ok w l (f lg)"
  shows "log_inv (upd_logger l f w)"
  using assms by (auto simp: log_inv_def upd_logger_def logger_ok_def has_formatter_def split: if_splits)

lemma fold_appenders:
  assumes "\<And>a. ap_formatter a \<noteq> None \<Longrightarrow> ap_formatter (f a) \<noteq> None"
  shows "st_loggers (fold (\<lambda>i. upd_appender i f) is w) = st_loggers w \<and> lm_root (fold (\<lambda>i. upd_appender i f) is w) = lm_root w \<and>
    (has_formatter w j \<longrightarrow> has_formatter (fold (\<lambda>i. upd_appender i f) is w) j)"
proof (induction "is" arbitrary: w)
  case (Cons i "is")
  then show ?case using upd_appender_has [of f w j i, OF assms] by simp
qed simp

lemma logger_setFormatter_inv:
  assumes "log_inv w" shows "log_inv (logger_setFormatter l (Some fm) w)"
proof (cases "st_loggers w l")
  case (Some lg)
  let ?w = "upd_logger l (\<lambda>lg. lg\<lparr>lg_formatter := Some fm\<rparr>) w" and ?f = "inherit_formatter (Some fm)"
  have w: "log_inv ?w" by (rule upd_logger_inv [OF assms]) (simp add: logger_ok_def)
  have f: "ap_formatter a \<noteq> None \<Longrightarrow> ap_formatter (?f a) \<noteq> None" for a by (simp add: inherit_formatter_def)
  show ?thesis
    using Some inv_cong [OF w, of "fold (\<lambda>i. upd_appender i ?f) (lg_appenders lg) ?w"]
      fold_appenders [of ?f "lg_appenders lg" ?w, OF f]
    by (simp add: logger_setFormatter_def)
qed (simp add: logger_setFormatter_def assms)

lemma addAppender_inv:
  assumes "log_inv w" shows "log_inv (addAppender l i w)"
proof (cases "\<exists>lg a. st_loggers w l = Some lg \<and> st_appenders w i = Some a")
  case True
  then obtain lg a where s: "st_loggers w l = Some lg" "st_appenders w i = Some a" by blast
  let ?w = "if ap_formatter a = None then upd_appender i (\<lambda>a. a\<lparr>ap_formatter := lg_formatter lg\<rparr>) w else w"
  have fm: "lg_formatter lg \<noteq> None" using assms s(1) by (simp add: log_inv_def logger_ok_def)
  have h: "has_formatter w j \<Longrightarrow> has_formatter ?w j" for j
    using fm upd_appender_has [of "\<lambda>a. a\<lparr>ap_formatter := lg_formatter lg\<rparr>" w j i] by simp
  have w: "log_inv ?w" by (rule inv_cong [OF assms]) (use h in auto)
  have "has_formatter ?w i" using s(2) fm by (auto simp: has_formatter_def upd_appender_def)
  then have "log_inv (upd_logger l (\<lambda>lg. lg\<lparr>lg_appenders := lg_appenders lg @ [i]\<rparr>) ?w)"
    by (intro upd_logger_inv [OF w]) (auto simp: logger_ok_def)
  then show ?thesis using s by (simp add: addAppender_def)
next
  case False
  then have "addAppender l i w = w" by (auto simp: addAppender_def split: option.split)
  then show ?thesis using assms by simp
qed

lemma reopen_frame [simp]:
  "ap_formatter (snd (reopen ok a)) = ap_formatter a" "ap_kind (snd (reopen ok a)) = ap_kind a"
  "ap_level (snd (reopen ok a)) = ap_level a" "ap_hasFormatter (snd (reopen ok a)) = ap_hasFormatter a"
  by (simp_all add: reopen_def Let_def)

lemma appender_log_frame:
  "appender_log env v ev a = Inr (a', out) \<Longrightarrow> ap_formatter a' = ap_formatter a \<and> ap_kind a' = ap_kind a \<and> ap_level a' = ap_level a"
  by (auto simp: appender_log_def stdout_log_def file_log_def map_sum_def Let_def split: appender_kind.splits if_splits sum.splits)

text \<open>An appender that has a formatter does not dereference a null pointer.\<close>

lemma format_not_null: "format_items f v ev is \<noteq> Inl Null_deref"
proof (induction "is")
  case (Cons i "is")
  have "format_item_text f v ev i \<noteq> Inl Null_deref" by (cases i) (simp_all add: Let_def)
  then show ?case using Cons by (cases "format_items f v ev is") (auto split: sum.splits)
qed simp

lemma appender_log_not_null: "ap_formatter a \<noteq> None \<Longrightarrow> appender_log env v ev a \<noteq> Inl Null_deref"
proof -
  assume a: "ap_formatter a \<noteq> None"
  have "format_by env b v ev \<noteq> Inl Null_deref" if "ap_formatter b \<noteq> None" for b
    using that format_not_null by (auto simp: format_by_def formatter_format_def)
  moreover have "map_sum id g x \<noteq> Inl Null_deref" if "x \<noteq> Inl Null_deref" for g :: "string \<Rightarrow> appender \<times> written" and x
    using that by (cases x) auto
  ultimately show ?thesis using a
    by (auto simp: appender_log_def stdout_log_def file_log_def Let_def split: appender_kind.splits sum.splits)
qed

lemma log_all_ok:
  "\<forall>i \<in> set is. has_formatter w i \<Longrightarrow> log_all env v ev is w \<noteq> Inl Null_deref \<and>
    (log_all env v ev is w = Inr (w', out) \<longrightarrow> st_loggers w' = st_loggers w \<and> lm_root w' = lm_root w \<and>
      (\<forall>j. has_formatter w j \<longrightarrow> has_formatter w' j))"
proof (induction "is" arbitrary: w out)
  case (Cons i "is")
  obtain a where a: "st_appenders w i = Some a" "ap_formatter a \<noteq> None" using Cons.prems by (auto simp: has_formatter_def)
  show ?case
  proof (cases "appender_log env v ev a")
    case (Inl e)
    then show ?thesis using a appender_log_not_null [OF a(2), of env v ev] by simp
  next
    case (Inr x)
    obtain a' out1 where x: "x = (a', out1)" by (cases x)
    let ?w = "w\<lparr>st_appenders := (st_appenders w)(i \<mapsto> a')\<rparr>"
    have f: "ap_formatter a' = ap_formatter a" using appender_log_frame Inr x by blast
    have h: "has_formatter w j \<Longrightarrow> has_formatter ?w j" for j using a f by (auto simp: has_formatter_def)
    have ih: "log_all env v ev is ?w \<noteq> Inl Null_deref \<and>
      (log_all env v ev is ?w = Inr (w', o2) \<longrightarrow> st_loggers w' = st_loggers ?w \<and> lm_root w' = lm_root ?w \<and>
        (\<forall>j. has_formatter ?w j \<longrightarrow> has_formatter w' j))" for o2
      by (rule Cons.IH) (use Cons.prems h in auto)
    show ?thesis
    proof (cases "log_all env v ev is ?w")
      case l: (Inl e)
      then show ?thesis using ih a(1) Inr x by simp
    next
      case r: (Inr y)
      then show ?thesis using ih [of "snd y"] h a(1) Inr x by (cases y) auto
    qed
  qed
qed simp

text \<open>Where the output of a logger goes, and that logging ends there.\<close>

lemma logger_log_cases:
  assumes "log_inv w" "st_loggers w l = Some lg"
  shows "logger_log env l v ev w =
    (if v < lg_level lg then Some (Inr (w, []))
     else if lg_appenders lg \<noteq> [] then Some (log_all env v ev (lg_appenders lg) w)
     else if l = lm_root w then Some (Inr (w, []))
     else (let r = the (st_loggers w (lm_root w)) in
       if v < lg_level r then Some (Inr (w, [])) else Some (log_all env v ev (lg_appenders r) w)))"
proof -
  obtain r where r: "st_loggers w (lm_root w) = Some r" "lg_root r = None"
    using assms(1) by (auto simp: log_inv_def logger_ok_def)
  have root: "lg_root lg = (if l = lm_root w then None else Some (lm_root w))"
    using assms by (auto simp: log_inv_def logger_ok_def)
  have "logger_log env (lm_root w) v ev w =
      (if v < lg_level r then Some (Inr (w, [])) else Some (log_all env v ev (lg_appenders r) w))"
    using r by (subst logger_log.simps) auto
  then show ?thesis using assms(2) r(1) root by (subst logger_log.simps) auto
qed

lemma logger_log_ok:
  assumes "log_inv w" "st_loggers w l \<noteq> None"
  shows "\<exists>r. logger_log env l v ev w = Some r \<and> r \<noteq> Inl Null_deref \<and>
    (\<forall>w' out. r = Inr (w', out) \<longrightarrow> log_inv w')"
proof -
  obtain lg r where l: "st_loggers w l = Some lg" and r: "st_loggers w (lm_root w) = Some r"
    using assms by (auto simp: log_inv_def)
  have h: "\<forall>i \<in> set (lg_appenders x). has_formatter w i" if "st_loggers w k = Some x" for k x
    using assms(1) that by (auto simp: log_inv_def logger_ok_def)
  have "log_all env v ev (lg_appenders x) w \<noteq> Inl Null_deref \<and>
      (\<forall>w' out. log_all env v ev (lg_appenders x) w = Inr (w', out) \<longrightarrow> log_inv w')" if "st_loggers w k = Some x" for k x
    using log_all_ok [OF h [OF that]] inv_cong [OF assms(1)] by blast
  from this [OF l] this [OF r] show ?thesis
    using assms(1) r unfolding logger_log_cases [OF assms(1) l] by (auto simp: Let_def)
qed

lemma log_step_inv: "log_step w w' \<Longrightarrow> log_inv w \<Longrightarrow> log_inv w'"
proof (induction rule: log_step.induct)
  case (get w fresh name)
  show ?case
  proof (cases "lm_loggers w name")
    case None
    have "fresh \<noteq> lm_root w" using get by (auto simp: log_inv_def)
    then show ?thesis using get None
      by (auto simp: getLogger_def log_inv_def logger_ok_def has_formatter_def Logger_new_def)
  qed (use get in \<open>simp add: getLogger_def\<close>)
next
  case (new_appender w i)
  show ?case by (rule inv_cong [OF new_appender.prems]) (use new_appender.hyps in \<open>auto simp: has_formatter_def\<close>)
next
  case (new_file w i ok f)
  show ?case by (rule inv_cong [OF new_file.prems]) (use new_file.hyps in \<open>auto simp: has_formatter_def\<close>)
next
  case (add w l i)
  then show ?case by (rule addAppender_inv)
next
  case (del w l i)
  show ?case unfolding delAppender_def
    by (rule upd_logger_inv [OF del.prems]) (auto simp: logger_ok_def dest: in_set_remove1 [THEN iffD1, rotated] set_remove1_subset [THEN subsetD])
next
  case (clear w l)
  show ?case unfolding clearAppenders_def by (rule upd_logger_inv [OF clear.prems]) (simp add: logger_ok_def)
next
  case (level w l v)
  show ?case unfolding logger_setLevel_def by (rule upd_logger_inv [OF level.prems]) (simp add: logger_ok_def)
next
  case (appender_level w i v)
  show ?case
    by (rule inv_cong [OF appender_level.prems]) (simp_all add: upd_appender_has appender_setLevel_def)
next
  case (formatter w l fm)
  then show ?case by (rule logger_setFormatter_inv)
next
  case (formatter_str w l v)
  then show ?case by (simp add: logger_setFormatter_str_def Let_def logger_setFormatter_inv)
next
  case (appender_formatter w i fm)
  show ?case
    by (rule inv_cong [OF appender_formatter.prems]) (simp_all add: upd_appender_has appender_setFormatter_def)
next
  case (logged env l v ev w w' out)
  show ?case
  proof (cases "st_loggers w l")
    case (Some lg)
    let ?ev = "ev\<lparr>ev_logger := lg_name lg, ev_level := v, ev_elapse := 0\<rparr>"
    obtain r where "logger_log env l v ?ev w = Some r" "\<forall>w' out. r = Inr (w', out) \<longrightarrow> log_inv w'"
      using logger_log_ok [OF logged.prems, of l env v ?ev] Some by auto
    then show ?thesis using logged Some by (cases "lg_level lg \<le> v") (auto simp: SYLAR_LOG_LEVEL_def)
  qed (use logged in \<open>simp add: SYLAR_LOG_LEVEL_def\<close>)
qed

lemma log_reachable_inv: "log_step\<^sup>*\<^sup>* LoggerManager_new w \<Longrightarrow> log_inv w"
proof (induction rule: rtranclp_induct)
  case base
  show ?case
    by (simp add: LoggerManager_new_def addAppender_def log_inv_def logger_ok_def has_formatter_def upd_logger_def upd_appender_def
        Logger_new_def StdoutLogAppender_new_def)
qed (rule log_step_inv)

section \<open>Properties\<close>

text \<open>
  C13. Logging is safe and goes where it should: in every state that the manager, loggers and
  appenders can reach while nobody sets a null formatter, a message to an existing logger
  returns, dereferences no null pointer, and is dropped below the level of the logger, else
  given to each appender of the logger in their order, or, when it has none, to those of the
  root under the level of the root.
\<close>

theorem logging_routes:
  assumes "log_step\<^sup>*\<^sup>* LoggerManager_new w" "st_loggers w l = Some lg"
  shows "(\<exists>r. logger_log env l v ev w = Some r \<and> r \<noteq> Inl Null_deref) \<and>
    (v < lg_level lg \<longrightarrow> logger_log env l v ev w = Some (Inr (w, []))) \<and>
    (lg_level lg \<le> v \<and> lg_appenders lg \<noteq> [] \<longrightarrow> logger_log env l v ev w = Some (log_all env v ev (lg_appenders lg) w)) \<and>
    (lg_level lg \<le> v \<and> lg_appenders lg = [] \<and> l \<noteq> lm_root w \<longrightarrow>
       (\<exists>r. st_loggers w (lm_root w) = Some r \<and> logger_log env l v ev w =
         (if v < lg_level r then Some (Inr (w, [])) else Some (log_all env v ev (lg_appenders r) w))))"
proof -
  have i: "log_inv w" by (rule log_reachable_inv [OF assms(1)])
  obtain r where r: "st_loggers w (lm_root w) = Some r" using i by (auto simp: log_inv_def)
  have "\<exists>r. logger_log env l v ev w = Some r \<and> r \<noteq> Inl Null_deref"
    using logger_log_ok [OF i, of l env v ev] assms(2) by blast
  then show ?thesis using r unfolding logger_log_cases [OF i assms(2)] by (auto simp: Let_def)
qed

lemma logging_routes_witness:
  "logger_log \<lparr>le_now = 0, le_open = True, le_write = True, le_strftime = (\<lambda>f t. [])\<rparr> 1 INFO
     \<lparr>ev_file = [], ev_line = 1, ev_elapse = 0, ev_threadId = 1, ev_threadName = [], ev_fiberId = 0, ev_time = 0,
      ev_content = ''up'', ev_logger = ''net'', ev_level = INFO\<rparr>
     (logger_setLevel 1 WARN (snd (getLogger 1 ''net'' LoggerManager_new))) =
   Some (Inr (logger_setLevel 1 WARN (snd (getLogger 1 ''net'' LoggerManager_new)), []))"
proof -
  let ?w = "snd (getLogger 1 ''net'' LoggerManager_new)"
  have f: "st_loggers LoggerManager_new 1 = None" "lm_loggers LoggerManager_new ''net'' = None"
    by (simp_all add: LoggerManager_new_def addAppender_def upd_logger_def upd_appender_def Let_def)
  have s: "log_step\<^sup>*\<^sup>* LoggerManager_new (logger_setLevel 1 WARN ?w)"
    using log_step.get [OF f(1), of "''net''"] log_step.level [of ?w 1 WARN] by (meson r_into_rtranclp rtranclp.rtrancl_into_rtrancl)
  obtain lg where l: "st_loggers (logger_setLevel 1 WARN ?w) 1 = Some lg" "lg_level lg = WARN"
    by (simp add: logger_setLevel_def upd_logger_def getLogger_def f(2))
  then have "INFO < lg_level lg" by (simp add: level_defs)
  then show ?thesis using logging_routes [OF s l(1)] by blast
qed

fun log_times :: "(log_env \<times> int \<times> log_event) list \<Rightarrow> appender \<Rightarrow> fault + appender \<times> written" where
  "log_times [] a = Inr (a, [])"
| "log_times ((env, v, ev) # cs) a =
     (case appender_log env v ev a of
        Inl e \<Rightarrow> Inl e | Inr (a, out) \<Rightarrow> map_sum id (\<lambda>(a, out'). (a, out @ out')) (log_times cs a))"

lemma log_times_stuck:
  assumes "ap_kind a = FileLogAppender f" "fs_open (ap_stream a)" "\<not> fs_good (ap_stream a)" "log_times cs a = Inr (a', out)"
  shows "out = []"
  using assms
proof (induction cs arbitrary: a out)
  case (Cons c cs)
  obtain env v ev where c: "c = (env, v, ev)" by (cases c)
  obtain a1 o1 where one: "appender_log env v ev a = Inr (a1, o1)"
    using Cons.prems(4) by (cases "appender_log env v ev a") (auto simp: c)
  have "ap_kind a1 = FileLogAppender f \<and> fs_open (ap_stream a1) \<and> \<not> fs_good (ap_stream a1) \<and> o1 = []"
    using one Cons.prems(1-3)
    by (auto simp: appender_log_def file_log_def reopen_def ofstream_open_def Let_def split: if_splits sum.splits)
  moreover obtain a2 o2 where "log_times cs a1 = Inr (a2, o2)"
    using Cons.prems(4) one by (cases "log_times cs a1") (auto simp: c)
  ultimately show ?case using Cons.IH [of a1 o2] Cons.prems(4) one by (auto simp: c)
qed simp



end
