(* ===== verification/Configs.thy ===== *)
theory Configs
  imports Texts Prelude Ordered_Containers
begin

text \<open>
  The configuration (\<open>sylar/config.h\<close>, \<open>sylar/config.cc\<close>): variables with their listeners, the
  table of variables, the conversions of containers, and the loading of YAML. The parser and
  emitter of YAML are a library: a document is a value of the type \<open>yaml\<close>, and \<open>load\<close> and \<open>emit\<close>
  are arguments, as are the conversions of the element types. The variables of all types share
  one type of values here; the type a variable was made with is a field of it. A critical
  section of a lock is one step.
\<close>

section \<open>Variables\<close>

record 'v config_var =
  cv_name :: string
  cv_description :: string
  cv_type :: string
  cv_val :: 'v
  cv_cbs :: "(u64 \<times> nat) list"
  cv_from :: "string \<Rightarrow> fault + 'v"
  cv_to :: "'v \<Rightarrow> fault + string"

definition lower :: "string \<Rightarrow> string" where
  "lower s = map (\<lambda>c. char_of (tolower c)) s"

definition ConfigVar_new :: "string \<Rightarrow> (string \<Rightarrow> fault + 'v) \<Rightarrow> ('v \<Rightarrow> fault + string) \<Rightarrow> string \<Rightarrow> 'v \<Rightarrow> string \<Rightarrow> 'v config_var" where
  "ConfigVar_new typ from to name default_value description =
     \<lparr>cv_name = lower name, cv_description = description, cv_type = typ, cv_val = default_value, cv_cbs = [],
      cv_from = from, cv_to = to\<rparr>"

text \<open>A call of a listener: which one, with the old and the new value.\<close>

type_synonym 'v notice = "nat \<times> 'v \<times> 'v"

text \<open>
  \<open>setValue\<close> has two critical sections: under the read lock it compares the values and calls the
  listeners in the order of their keys, under the write lock it assigns. It stops after the
  first where the values are equal.
\<close>

definition set_notify :: "'v \<Rightarrow> 'v config_var \<Rightarrow> bool \<times> 'v notice list" where
  "set_notify v cv = (if v = cv_val cv then (False, []) else (True, map (\<lambda>(key, cb). (cb, cv_val cv, v)) (cv_cbs cv)))"

definition set_assign :: "'v \<Rightarrow> 'v config_var \<Rightarrow> 'v config_var" where
  "set_assign v cv = cv\<lparr>cv_val := v\<rparr>"

definition setValue :: "'v \<Rightarrow> 'v config_var \<Rightarrow> 'v config_var \<times> 'v notice list" where
  "setValue v cv = (let (go_on, ns) = set_notify v cv in (if go_on then set_assign v cv else cv, ns))"

definition config_toString :: "'v config_var \<Rightarrow> string" where
  "config_toString cv = (case cv_to cv (cv_val cv) of Inr t \<Rightarrow> t | Inl e \<Rightarrow> [])"

text \<open>\<open>fromString\<close> catches what the conversion throws, and returns false in every case.\<close>

definition fromString :: "string \<Rightarrow> 'v config_var \<Rightarrow> bool \<times> 'v config_var \<times> 'v notice list" where
  "fromString val cv =
     (case cv_from cv val of Inr v \<Rightarrow> (False, setValue v cv) | Inl e \<Rightarrow> (False, cv, []))"

text \<open>Listeners; \<open>s_fun_id\<close> is the counter of the type, and \<open>std::map::operator[]\<close> overwrites.\<close>

definition addListener :: "u64 \<Rightarrow> nat \<Rightarrow> 'v config_var \<Rightarrow> u64 \<times> u64 \<times> 'v config_var" where
  "addListener s_fun_id cb cv =
     (let s_fun_id = s_fun_id + 1 in (s_fun_id, s_fun_id, cv\<lparr>cv_cbs := map_put (<) s_fun_id cb (cv_cbs cv)\<rparr>))"

definition delListener :: "u64 \<Rightarrow> 'v config_var \<Rightarrow> 'v config_var" where
  "delListener key cv = cv\<lparr>cv_cbs := map_erase (<) key (cv_cbs cv)\<rparr>"

definition getListener :: "u64 \<Rightarrow> 'v config_var \<Rightarrow> nat option" where
  "getListener key cv = map_find (<) key (cv_cbs cv)"

definition clearListener :: "'v config_var \<Rightarrow> 'v config_var" where
  "clearListener cv = cv\<lparr>cv_cbs := []\<rparr>"

section \<open>The table\<close>

type_synonym 'v config_table = "string \<Rightarrow> 'v config_var option"

definition name_chars :: string where
  "name_chars = ''abcdefghijklmnopqrstuvwxyz._012345678''"

definition valid_name :: "string \<Rightarrow> bool" where
  "valid_name name \<longleftrightarrow> set name \<subseteq> set name_chars"

text \<open>\<open>Lookup\<close> with a default: the variable, null when it has another type, or an exception.\<close>

definition Lookup_default :: "string \<Rightarrow> (string \<Rightarrow> fault + 'v) \<Rightarrow> ('v \<Rightarrow> fault + string) \<Rightarrow> string \<Rightarrow> 'v \<Rightarrow> string \<Rightarrow>
    ('v config_table, 'v config_var option) call" where
  "Lookup_default typ from to name default_value description s_datas =
     (case s_datas name of
        Some cv \<Rightarrow> (Inr (if cv_type cv = typ then Some cv else None), s_datas)
      | None \<Rightarrow>
          if \<not> valid_name name then (Inl (Invalid_argument name), s_datas)
          else let v = ConfigVar_new typ from to name default_value description in (Inr (Some v), s_datas(name \<mapsto> v)))"

definition Lookup_typed :: "string \<Rightarrow> string \<Rightarrow> 'v config_table \<Rightarrow> 'v config_var option" where
  "Lookup_typed typ name s_datas =
     (case s_datas name of Some cv \<Rightarrow> if cv_type cv = typ then Some cv else None | None \<Rightarrow> None)"

definition LookupBase :: "string \<Rightarrow> 'v config_table \<Rightarrow> 'v config_var option" where
  "LookupBase name s_datas = s_datas name"

text \<open>\<open>Visit\<close> calls its argument for every entry, in the order of the hash table.\<close>

definition Visit :: "string list \<Rightarrow> ('v config_var \<Rightarrow> 'a) \<Rightarrow> 'v config_table \<Rightarrow> 'a list" where
  "Visit order cb s_datas = map cb (List.map_filter s_datas order)"

section \<open>YAML\<close>

datatype yaml = Null | Scalar string | Sequence "yaml list" | Map "(string \<times> yaml) list"

text \<open>The pairs of names and nodes, as \<open>ListAllMember\<close> lists them.\<close>

function ListAllMember :: "string \<Rightarrow> yaml \<Rightarrow> (string \<times> yaml) list" where
  "ListAllMember pre node =
     (if \<not> valid_name pre then [] else
      (pre, node) # (case node of
         Map kvs \<Rightarrow> concat (map (\<lambda>(k, v). ListAllMember (if pre = [] then k else pre @ ''.'' @ k) v) kvs)
       | _ \<Rightarrow> []))"
  by pat_completeness auto

lemma size_entry: "(k, v) \<in> set kvs \<Longrightarrow> size v < size (Map kvs)"
  by (induction kvs) auto

termination ListAllMember
  by (relation "measure (\<lambda>(pre, node). size node)") (use size_entry in auto)

declare ListAllMember.simps [simp del]

definition node_text :: "(yaml \<Rightarrow> string) \<Rightarrow> yaml \<Rightarrow> string" where
  "node_text emit node = (case node of Scalar t \<Rightarrow> t | _ \<Rightarrow> emit node)"

definition load_entry :: "(yaml \<Rightarrow> string) \<Rightarrow> string \<times> yaml \<Rightarrow> 'v config_table \<times> (string \<times> 'v notice) list \<Rightarrow>
    'v config_table \<times> (string \<times> 'v notice) list" where
  "load_entry emit = (\<lambda>(key, node) (s_datas, ns).
     if key = [] then (s_datas, ns) else
     let key = lower key in
     case LookupBase key s_datas of
       None \<Rightarrow> (s_datas, ns)
     | Some var \<Rightarrow>
         let (_, var', ns') = fromString (node_text emit node) var
         in (s_datas(key \<mapsto> var'), ns @ map (Pair key) ns'))"

definition LoadFromYaml :: "(yaml \<Rightarrow> string) \<Rightarrow> yaml \<Rightarrow> 'v config_table \<Rightarrow> 'v config_table \<times> (string \<times> 'v notice) list" where
  "LoadFromYaml emit root s_datas = fold (load_entry emit) (ListAllMember [] root) (s_datas, [])"

text \<open>
  \<open>LoadFromConfDir\<close>: the files that \<open>ListAllFile\<close> found, each with its time of modification and
  what reading it as YAML gives. The time is stored before the file is read.
\<close>

record conf_file =
  cf_path :: string
  cf_mtime :: u64
  cf_root :: "yaml option"

definition load_file :: "(yaml \<Rightarrow> string) \<Rightarrow> conf_file \<Rightarrow> (string \<Rightarrow> u64) \<times> 'v config_table \<Rightarrow> (string \<Rightarrow> u64) \<times> 'v config_table" where
  "load_file emit f = (\<lambda>(s_file2modifytime, s_datas).
     if s_file2modifytime (cf_path f) = cf_mtime f then (s_file2modifytime, s_datas)
     else (s_file2modifytime(cf_path f := cf_mtime f),
       case cf_root f of None \<Rightarrow> s_datas | Some root \<Rightarrow> fst (LoadFromYaml emit root s_datas)))"

definition LoadFromConfDir :: "(yaml \<Rightarrow> string) \<Rightarrow> conf_file list \<Rightarrow> (string \<Rightarrow> u64) \<times> 'v config_table \<Rightarrow>
    (string \<Rightarrow> u64) \<times> 'v config_table" where
  "LoadFromConfDir emit files st = fold (load_file emit) files st"

section \<open>Conversions of containers\<close>

text \<open>
  The nodes \<open>node[0]\<close> to \<open>node[size - 1]\<close>: a scalar and null have none. For a map the library looks
  the numbers up as keys, which is the argument \<open>map_at\<close>.
\<close>

definition nodes :: "((string \<times> yaml) list \<Rightarrow> yaml list) \<Rightarrow> yaml \<Rightarrow> yaml list" where
  "nodes map_at n = (case n of Sequence xs \<Rightarrow> xs | Map kvs \<Rightarrow> map_at kvs | _ \<Rightarrow> [])"

definition seq_node :: "yaml list \<Rightarrow> yaml" where
  "seq_node xs = (if xs = [] then Null else Sequence xs)"

fun each :: "('a \<Rightarrow> fault + 'b) \<Rightarrow> 'a list \<Rightarrow> fault + 'b list" where
  "each f [] = Inr []"
| "each f (x # xs) = (case f x of Inl e \<Rightarrow> Inl e | Inr y \<Rightarrow> map_sum id ((#) y) (each f xs))"

record yaml_lib =
  yl_load :: "string \<Rightarrow> fault + yaml"
  yl_emit :: "yaml \<Rightarrow> string"
  yl_map_at :: "(string \<times> yaml) list \<Rightarrow> yaml list"

text \<open>\<open>vector\<close> and \<open>list\<close> from and to a text.\<close>

definition vector_from :: "yaml_lib \<Rightarrow> (string \<Rightarrow> fault + 'a) \<Rightarrow> string \<Rightarrow> fault + 'a list" where
  "vector_from lib from v =
     (case yl_load lib v of Inl e \<Rightarrow> Inl e | Inr node \<Rightarrow> each (\<lambda>n. from (yl_emit lib n)) (nodes (yl_map_at lib) node))"

definition vector_to :: "yaml_lib \<Rightarrow> ('a \<Rightarrow> fault + string) \<Rightarrow> 'a list \<Rightarrow> fault + string" where
  "vector_to lib to v =
     map_sum id (\<lambda>ns. yl_emit lib (seq_node ns)) (each (\<lambda>x. case to x of Inl e \<Rightarrow> Inl e | Inr t \<Rightarrow> yl_load lib t) v)"

definition list_from :: "yaml_lib \<Rightarrow> (string \<Rightarrow> fault + 'a) \<Rightarrow> string \<Rightarrow> fault + 'a list" where
  "list_from lib from v =
     (case yl_load lib v of Inl e \<Rightarrow> Inl e | Inr node \<Rightarrow> each (\<lambda>n. from (yl_emit lib n)) (nodes (yl_map_at lib) node))"

definition list_to :: "yaml_lib \<Rightarrow> ('a \<Rightarrow> fault + string) \<Rightarrow> 'a list \<Rightarrow> fault + string" where
  "list_to lib to v =
     map_sum id (\<lambda>ns. yl_emit lib (seq_node ns)) (each (\<lambda>x. case to x of Inl e \<Rightarrow> Inl e | Inr t \<Rightarrow> yl_load lib t) v)"

definition set_from :: "yaml_lib \<Rightarrow> (string \<Rightarrow> fault + 'a) \<Rightarrow> string \<Rightarrow> fault + 'a set" where
  "set_from lib from v =
     (case yl_load lib v of
        Inl e \<Rightarrow> Inl e | Inr node \<Rightarrow> map_sum id set (each (\<lambda>n. from (yl_emit lib n)) (nodes (yl_map_at lib) node)))"

text \<open>Sets; \<open>order\<close> is the order in which the set is walked.\<close>

definition set_to :: "yaml_lib \<Rightarrow> ('a \<Rightarrow> fault + string) \<Rightarrow> ('a set \<Rightarrow> 'a list) \<Rightarrow> 'a set \<Rightarrow> fault + string" where
  "set_to lib to order v =
     map_sum id (\<lambda>ns. yl_emit lib (seq_node ns))
       (each (\<lambda>x. case to x of Inl e \<Rightarrow> Inl e | Inr t \<Rightarrow> yl_load lib t) (order v))"

definition unordered_set_from :: "yaml_lib \<Rightarrow> (string \<Rightarrow> fault + 'a) \<Rightarrow> string \<Rightarrow> fault + 'a set" where
  "unordered_set_from lib from v =
     (case yl_load lib v of
        Inl e \<Rightarrow> Inl e | Inr node \<Rightarrow> map_sum id set (each (\<lambda>n. from (yl_emit lib n)) (nodes (yl_map_at lib) node)))"

definition unordered_set_to :: "yaml_lib \<Rightarrow> ('a \<Rightarrow> fault + string) \<Rightarrow> ('a set \<Rightarrow> 'a list) \<Rightarrow> 'a set \<Rightarrow> fault + string" where
  "unordered_set_to lib to order v =
     map_sum id (\<lambda>ns. yl_emit lib (seq_node ns))
       (each (\<lambda>x. case to x of Inl e \<Rightarrow> Inl e | Inr t \<Rightarrow> yl_load lib t) (order v))"

text \<open>The maps with names as keys; \<open>insert\<close> keeps the first value of a key.\<close>

definition pairs :: "yaml \<Rightarrow> (string \<times> yaml) list" where
  "pairs n = (case n of Map kvs \<Rightarrow> kvs | _ \<Rightarrow> [])"

definition map_node :: "(string \<times> yaml) list \<Rightarrow> yaml" where
  "map_node kvs = (if kvs = [] then Null else Map kvs)"

definition map_from :: "yaml_lib \<Rightarrow> (string \<Rightarrow> fault + 'a) \<Rightarrow> string \<Rightarrow> fault + (string \<Rightarrow> 'a option)" where
  "map_from lib from v =
     (case yl_load lib v of
        Inl e \<Rightarrow> Inl e
      | Inr node \<Rightarrow>
          map_sum id (\<lambda>kvs. fold (\<lambda>(k, x) m. if m k = None then m(k \<mapsto> x) else m) kvs (\<lambda>_. None))
            (each (\<lambda>(k, n). map_sum id (Pair k) (from (yl_emit lib n))) (pairs node)))"

definition map_to :: "yaml_lib \<Rightarrow> ('a \<Rightarrow> fault + string) \<Rightarrow> (string \<times> 'a) list \<Rightarrow> fault + string" where
  "map_to lib to kvs =
     map_sum id (\<lambda>ns. yl_emit lib (map_node ns))
       (each (\<lambda>(k, x). map_sum id (Pair k) (case to x of Inl e \<Rightarrow> Inl e | Inr t \<Rightarrow> yl_load lib t)) kvs)"

definition unordered_map_from :: "yaml_lib \<Rightarrow> (string \<Rightarrow> fault + 'a) \<Rightarrow> string \<Rightarrow> fault + (string \<Rightarrow> 'a option)" where
  "unordered_map_from lib from v =
     (case yl_load lib v of
        Inl e \<Rightarrow> Inl e
      | Inr node \<Rightarrow>
          map_sum id (\<lambda>kvs. fold (\<lambda>(k, x) m. if m k = None then m(k \<mapsto> x) else m) kvs (\<lambda>_. None))
            (each (\<lambda>(k, n). map_sum id (Pair k) (from (yl_emit lib n))) (pairs node)))"

definition unordered_map_to :: "yaml_lib \<Rightarrow> ('a \<Rightarrow> fault + string) \<Rightarrow> (string \<times> 'a) list \<Rightarrow> fault + string" where
  "unordered_map_to lib to kvs =
     map_sum id (\<lambda>ns. yl_emit lib (map_node ns))
       (each (\<lambda>(k, x). map_sum id (Pair k) (case to x of Inl e \<Rightarrow> Inl e | Inr t \<Rightarrow> yl_load lib t)) kvs)"

section \<open>Properties\<close>

interpretation keys: strict_weak_order "(<) :: u64 \<Rightarrow> u64 \<Rightarrow> bool"
  by unfold_locales auto

lemma lower_valid: "valid_name name \<Longrightarrow> lower name = name"
proof -
  have "\<forall>c \<in> set name_chars. (of_char c :: nat) < 65 \<or> 90 < (of_char c :: nat)" by (simp add: name_chars_def)
  then have "\<forall>c \<in> set name_chars. char_of (tolower c) = c" by (fastforce simp: tolower_def Let_def)
  then show "valid_name name \<Longrightarrow> lower name = name"
    unfolding lower_def valid_name_def by (intro map_idI) blast
qed

lemma ListAllMember_valid: "(key, n) \<in> set (ListAllMember pre node) \<Longrightarrow> valid_name key"
proof (induction pre node arbitrary: key n rule: ListAllMember.induct)
  case (1 pre node)
  show ?case
  proof (cases "valid_name pre")
    case True
    with "1.prems" consider "key = pre"
      | kvs k v where "node = Map kvs" "(k, v) \<in> set kvs" "(key, n) \<in> set (ListAllMember (if pre = [] then k else pre @ ''.'' @ k) v)"
      by (subst (asm) ListAllMember.simps) (auto split: yaml.splits)
    then show ?thesis
    proof cases
      case 2
      then show ?thesis using "1.IH" [OF _ 2(1,2) refl] True by auto
    qed (use True in simp)
  next
    case False
    then show ?thesis using "1.prems" by (subst (asm) ListAllMember.simps) simp
  qed
qed

text \<open>What loading the nodes of one variable does to it.\<close>

definition loaded :: "(yaml \<Rightarrow> string) \<Rightarrow> yaml list \<Rightarrow> 'v config_var \<Rightarrow> 'v config_var" where
  "loaded emit ns cv =
     fold (\<lambda>n cv. case cv_from cv (node_text emit n) of Inl e \<Rightarrow> cv | Inr v \<Rightarrow> cv\<lparr>cv_val := v\<rparr>) ns cv"

lemma fromString_var: "fst (snd (fromString t cv)) = (case cv_from cv t of Inl e \<Rightarrow> cv | Inr v \<Rightarrow> cv\<lparr>cv_val := v\<rparr>)"
  by (auto simp: fromString_def setValue_def set_notify_def set_assign_def Let_def split: sum.split)

lemma load_entry_other: "lower key \<noteq> name \<or> key = [] \<and> name = [] \<Longrightarrow> fst (load_entry emit (key, n) x) name = fst x name"
  by (cases x) (auto simp: load_entry_def Let_def LookupBase_def split: option.split prod.split)

lemma load_entry_same:
  assumes "key \<noteq> []" "lower key = key"
  shows "fst (load_entry emit (key, n) x) key = map_option (loaded emit [n]) (fst x key)"
proof (cases x)
  case (Pair s_datas ns)
  show ?thesis
  proof (cases "s_datas key")
    case None
    then show ?thesis using assms Pair by (simp add: load_entry_def LookupBase_def)
  next
    case (Some cv)
    obtain b cv' ns' where f: "fromString (node_text emit n) cv = (b, cv', ns')" by (cases "fromString (node_text emit n) cv")
    then have "cv' = loaded emit [n] cv" using fromString_var [of "node_text emit n" cv] by (simp add: loaded_def)
    then show ?thesis using assms Pair Some f by (simp add: load_entry_def LookupBase_def)
  qed
qed

lemma load_entries:
  assumes "name \<noteq> []" "\<forall>(key, n) \<in> set es. lower key = key"
  shows "fst (fold (load_entry emit) es x) name = map_option (loaded emit (map snd (filter (\<lambda>e. fst e = name) es))) (fst x name)"
  using assms(2)
proof (induction es arbitrary: x)
  case Nil
  then show ?case by (simp add: loaded_def option.map_ident)
next
  case (Cons e es)
  obtain key n where e: "e = (key, n)" by (cases e)
  show ?case
  proof (cases "key = name")
    case True
    have "fst (load_entry emit e x) name = map_option (loaded emit [n]) (fst x name)"
      using load_entry_same [of key emit n x] True assms(1) Cons.prems e by simp
    then show ?thesis using Cons True e by (simp add: option.map_comp comp_def) (simp add: loaded_def)
  next
    case False
    have "fst (load_entry emit e x) name = fst x name"
      using load_entry_other [of key name emit n x] False Cons.prems e by simp
    then show ?thesis using Cons False e by simp
  qed
qed

text \<open>
  C20. Loading a document sets exactly the variables it names: afterwards the table has the same
  variables, and each has the value to which the nodes under its dotted name convert, the last
  one that converts where there are several, or its old value where there is none; a text that
  does not convert changes nothing, and listeners, types and names stay.
\<close>

theorem yaml_loads:
  assumes "name \<noteq> []"
  shows "fst (LoadFromYaml emit root s_datas) name =
    map_option (loaded emit (map snd (filter (\<lambda>e. fst e = name) (ListAllMember [] root)))) (s_datas name)"
  unfolding LoadFromYaml_def
  using load_entries [OF assms, of "ListAllMember [] root" emit "(s_datas, [])"] ListAllMember_valid lower_valid by fastforce

lemma yaml_loads_witness:
  "map_option cv_val (fst (LoadFromYaml (\<lambda>n. []) (Map [(''tcp'', Map [(''port'', Scalar ''80'')])])
     ((\<lambda>_. None)(''tcp.port'' \<mapsto> ConfigVar_new ''string'' Inr Inr ''tcp.port'' ''8080'' []))) ''tcp.port'') = Some ''80''"
proof -
  have "map snd (filter (\<lambda>e. fst e = ''tcp.port'') (ListAllMember [] (Map [(''tcp'', Map [(''port'', Scalar ''80'')])]))) = [Scalar ''80'']"
    by (simp add: ListAllMember.simps valid_name_def name_chars_def)
  then show ?thesis
    using yaml_loads [of "''tcp.port''" "\<lambda>n. []" "Map [(''tcp'', Map [(''port'', Scalar ''80'')])]"
        "(\<lambda>_. None)(''tcp.port'' \<mapsto> ConfigVar_new ''string'' Inr Inr ''tcp.port'' ''8080'' [])"]
    by (simp add: loaded_def ConfigVar_new_def node_text_def)
qed

text \<open>
  Names are not made lower case: a key with a capital letter, or with the digit 9, is
  skipped with everything under it before the key would be lowered, so a document with it loads
  as one without; and no variable can be made under such a name, though the constructor of a
  variable would lower it.
\<close>

theorem capital_names_skipped:
  assumes "c \<in> set ''9ABCDEFGHIJKLMNOPQRSTUVWXYZ''" "c \<in> set k" "s_datas k = None"
  shows "LoadFromYaml emit (Map (as @ (k, v) # bs)) s_datas = LoadFromYaml emit (Map (as @ bs)) s_datas"
    and "Lookup_default typ from to k d desc s_datas = (Inl (Invalid_argument k), s_datas)"
proof -
  have "\<forall>c \<in> set ''9ABCDEFGHIJKLMNOPQRSTUVWXYZ''. c \<notin> set name_chars" by (simp add: name_chars_def)
  then have k: "\<not> valid_name k" using assms(1,2) by (auto simp: valid_name_def)
  have e: "valid_name []" by (simp add: valid_name_def)
  have root: "LoadFromYaml emit (Map kvs) s_datas =
      fold (load_entry emit) (concat (map (\<lambda>(k, v). ListAllMember k v) kvs)) (s_datas, [])" for kvs
    by (simp add: LoadFromYaml_def ListAllMember.simps [of "[]" "Map kvs"] e) (simp add: load_entry_def)
  have "ListAllMember k v = []" using k by (simp add: ListAllMember.simps)
  then show "LoadFromYaml emit (Map (as @ (k, v) # bs)) s_datas = LoadFromYaml emit (Map (as @ bs)) s_datas"
    by (simp add: root)
  show "Lookup_default typ from to k d desc s_datas = (Inl (Invalid_argument k), s_datas)"
    using k assms(3) by (simp add: Lookup_default_def)
qed

lemma capital_names_skipped_witness:
  "LoadFromYaml (\<lambda>n. []) (Map [(''Port'', Scalar ''80'')]) (\<lambda>_. None :: string config_var option) =
     LoadFromYaml (\<lambda>n. []) (Map []) (\<lambda>_. None) \<and>
   Lookup_default ''string'' Inr Inr ''Port'' ([] :: string) [] (\<lambda>_. None) = (Inl (Invalid_argument ''Port''), \<lambda>_. None)"
  using capital_names_skipped(1) [of "CHR ''P''" "''Port''" "\<lambda>_. None" "\<lambda>n. []" "[]" "Scalar ''80''" "[]"]
    capital_names_skipped(2) [of "CHR ''P''" "''Port''" "\<lambda>_. None" "''string''" Inr Inr "[] :: string" "[]"] by simp

text \<open>
  Two threads that set a variable: each compares and notifies under the read lock and assigns
  under the write lock, so both may notify before either assigns. Then the listeners hear the
  values in one order while the variable keeps the other one, and the old value that the second
  notification names was never replaced by it.
\<close>

inductive set_step :: "'v config_var \<times> ('v \<times> bool) list \<times> 'v notice list \<Rightarrow> 'v config_var \<times> ('v \<times> bool) list \<times> 'v notice list \<Rightarrow> bool" where
  notify: "ts ! i = (v, False) \<Longrightarrow> i < length ts \<Longrightarrow> set_notify v cv = (True, ns) \<Longrightarrow> set_step (cv, ts, out) (cv, ts[i := (v, True)], out @ ns)"
| assign: "ts ! i = (v, True) \<Longrightarrow> i < length ts \<Longrightarrow>
    set_step (cv, ts, out) (set_assign v cv, take i ts @ drop (Suc i) ts, out)"
| same: "ts ! i = (v, False) \<Longrightarrow> i < length ts \<Longrightarrow> set_notify v cv = (False, ns) \<Longrightarrow>
    set_step (cv, ts, out) (cv, take i ts @ drop (Suc i) ts, out)"

theorem listeners_miss_last:
  assumes "cv_cbs cv = [(key, cb)]" "a \<noteq> cv_val cv" "b \<noteq> cv_val cv"
  shows "set_step\<^sup>*\<^sup>* (cv, [(a, False), (b, False)], [])
    (cv\<lparr>cv_val := a\<rparr>, [], [(cb, cv_val cv, a), (cb, cv_val cv, b)])"
proof -
  note step = converse_rtranclp_into_rtranclp
  have n: "set_notify v cv = (True, [(cb, cv_val cv, v)])" if "v = a \<or> v = b" for v
    using assms that by (auto simp: set_notify_def)
  have "set_step (cv, [(a, False), (b, False)], []) (cv, [(a, True), (b, False)], [(cb, cv_val cv, a)])"
    using notify [of "[(a, False), (b, False)]" 0 a cv "[(cb, cv_val cv, a)]" "[]"] n by simp
  moreover have "set_step (cv, [(a, True), (b, False)], [(cb, cv_val cv, a)])
      (cv, [(a, True), (b, True)], [(cb, cv_val cv, a), (cb, cv_val cv, b)])"
    using notify [of "[(a, True), (b, False)]" 1 b cv "[(cb, cv_val cv, b)]" "[(cb, cv_val cv, a)]"] n by simp
  moreover have "set_step (cv, [(a, True), (b, True)], out) (cv\<lparr>cv_val := b\<rparr>, [(a, True)], out)" for out
    using assign [of "[(a, True), (b, True)]" 1 b cv out] by (simp add: set_assign_def)
  moreover have "set_step (cv\<lparr>cv_val := b\<rparr>, [(a, True)], out) (cv\<lparr>cv_val := a\<rparr>, [], out)" for out
    using assign [of "[(a, True)]" 0 a "cv\<lparr>cv_val := b\<rparr>" out] by (simp add: set_assign_def)
  ultimately show ?thesis by (meson step rtranclp.rtrancl_refl)
qed

lemma listeners_miss_last_witness:
  "set_step\<^sup>*\<^sup>* ((ConfigVar_new ''int'' (\<lambda>s. Inr 0) (\<lambda>v. Inr []) ''a'' 0 [])\<lparr>cv_cbs := [(1, 7)]\<rparr>, [(1, False), (2, False)], [])
     (((ConfigVar_new ''int'' (\<lambda>s. Inr 0) (\<lambda>v. Inr []) ''a'' 0 [])\<lparr>cv_cbs := [(1, 7)]\<rparr>)\<lparr>cv_val := 1\<rparr>, [], [(7, 0, 1), (7, 0, 2 :: int)])"
  using listeners_miss_last [of "(ConfigVar_new ''int'' (\<lambda>s. Inr 0) (\<lambda>v. Inr []) ''a'' (0 :: int) [])\<lparr>cv_cbs := [(1, 7)]\<rparr>" 1 7 1 2]
  by (simp add: ConfigVar_new_def)

lemma each_map: "(\<And>x. x \<in> set xs \<Longrightarrow> f x = Inr (g x)) \<Longrightarrow> each f xs = Inr (map g xs)"
  by (induction xs) auto

text \<open>
  A vector written and read again is the same, when the library reads the texts it wrote: the
  text of an element as a node, and the text of the whole, and when the conversions of the
  elements are inverse. The empty vector needs that null is written as a text that reads as null.
\<close>

theorem vector_roundtrip:
  assumes "\<And>x. x \<in> set v \<Longrightarrow> to x = Inr (text_of x) \<and> from (text_of x) = Inr x"
    and "\<And>x. x \<in> set v \<Longrightarrow> yl_load lib (text_of x) = Inr (node_of x) \<and> yl_emit lib (node_of x) = text_of x"
    and "yl_load lib (yl_emit lib (seq_node (map node_of v))) = Inr (seq_node (map node_of v))"
  shows "\<exists>t. vector_to lib to v = Inr t \<and> vector_from lib from t = Inr v"
proof -
  have to: "each (\<lambda>x. case to x of Inl e \<Rightarrow> Inl e | Inr t \<Rightarrow> yl_load lib t) v = Inr (map node_of v)"
    using assms(1,2) by (intro each_map) simp
  have "each (\<lambda>n. from (yl_emit lib n)) (map node_of v) = Inr v"
    using each_map [of "map node_of v" "\<lambda>n. from (yl_emit lib n)" "\<lambda>n. projr (from (yl_emit lib n))"] assms(1,2)
    by (force simp: comp_def intro: map_idI)
  moreover have "nodes (yl_map_at lib) (seq_node (map node_of v)) = map node_of v"
    by (simp add: nodes_def seq_node_def)
  ultimately show ?thesis by (simp add: vector_to_def vector_from_def to assms(3))
qed

definition digits_lib :: yaml_lib where
  "digits_lib = \<lparr>yl_load = (\<lambda>t. if t = ''~'' then Inr Null else if take 1 t = ''-'' then Inr (Sequence (map (\<lambda>c. Scalar [c]) (drop 1 t))) else Inr (Scalar t)),
     yl_emit = (\<lambda>n. case n of Scalar t \<Rightarrow> t | Sequence xs \<Rightarrow> ''-'' @ concat (map (\<lambda>n. case n of Scalar t \<Rightarrow> t | _ \<Rightarrow> []) xs) | _ \<Rightarrow> ''~''),
     yl_map_at = (\<lambda>kvs. [])\<rparr>"

lemma vector_roundtrip_witness:
  "\<exists>t. vector_to digits_lib Inr [''3'', ''4''] = Inr t \<and> vector_from digits_lib Inr t = Inr [''3'', ''4'']"
  by (rule vector_roundtrip [where text_of = id and node_of = Scalar]) (auto simp: digits_lib_def seq_node_def)

section \<open>Types of variables\<close>

text \<open>
  \<open>ty\<close> says which values a type has. A variable is typed when its value is of its type and its
  conversion makes only values of it, which is what the template gives each variable.
\<close>

definition var_typed :: "(string \<Rightarrow> 'v \<Rightarrow> bool) \<Rightarrow> string \<Rightarrow> 'v config_var \<Rightarrow> bool" where
  "var_typed ty name cv \<longleftrightarrow> cv_name cv = name \<and> valid_name name \<and> ty (cv_type cv) (cv_val cv) \<and>
     (\<forall>t v. cv_from cv t = Inr v \<longrightarrow> ty (cv_type cv) v)"

inductive config_step :: "(string \<Rightarrow> 'v \<Rightarrow> bool) \<Rightarrow> 'v config_table \<Rightarrow> 'v config_table \<Rightarrow> bool" for ty where
  lookup: "ty typ d \<Longrightarrow> \<forall>t v. from t = Inr v \<longrightarrow> ty typ v \<Longrightarrow> config_step ty T (snd (Lookup_default typ from to name d desc T))"
| set_value: "Lookup_typed typ name T = Some cv \<Longrightarrow> ty typ v \<Longrightarrow> config_step ty T (T(name \<mapsto> fst (setValue v cv)))"
| from_string: "LookupBase name T = Some cv \<Longrightarrow> config_step ty T (T(name \<mapsto> fst (snd (fromString t cv))))"
| load: "config_step ty T (fst (LoadFromYaml emit root T))"
| add_listener: "LookupBase name T = Some cv \<Longrightarrow> config_step ty T (T(name \<mapsto> snd (snd (addListener k cb cv))))"
| del_listener: "LookupBase name T = Some cv \<Longrightarrow> config_step ty T (T(name \<mapsto> delListener k cv))"
| clear_listener: "LookupBase name T = Some cv \<Longrightarrow> config_step ty T (T(name \<mapsto> clearListener cv))"

text \<open>What a step may do to a variable: it keeps its name, its type and its conversion.\<close>

definition same_kind :: "'v config_var \<Rightarrow> 'v config_var \<Rightarrow> bool" where
  "same_kind cv cv' \<longleftrightarrow> cv_name cv' = cv_name cv \<and> cv_type cv' = cv_type cv \<and> cv_from cv' = cv_from cv"

lemma load_root: "fst (fold (load_entry emit) es x) [] = fst x []"
proof (induction es arbitrary: x)
  case (Cons e es)
  obtain key n where e: "e = (key, n)" by (cases e)
  have "lower key \<noteq> [] \<or> key = []" by (simp add: lower_def)
  then have "fst (load_entry emit e x) [] = fst x []" using load_entry_other [of key "[]" emit n x] e by simp
  then show ?case using Cons by simp
qed simp

lemma load_var: "\<exists>ns. fst (LoadFromYaml emit root T) name = map_option (loaded emit ns) (T name)"
proof (cases "name = []")
  case True
  then show ?thesis using load_root [of emit _ "(T, [])"]
    by (intro exI [of _ "[]"]) (cases "T []"; simp add: LoadFromYaml_def loaded_def)
next
  case False
  then show ?thesis
    using load_entries [OF False, of "ListAllMember [] root" emit "(T, [])"] ListAllMember_valid lower_valid
    unfolding LoadFromYaml_def by fastforce
qed

lemma from_string_typed: "var_typed ty name cv \<Longrightarrow> var_typed ty name (fst (snd (fromString t cv))) \<and> same_kind cv (fst (snd (fromString t cv)))"
  by (auto simp: fromString_var var_typed_def same_kind_def split: sum.split)

lemma loaded_typed: "var_typed ty name cv \<Longrightarrow> var_typed ty name (loaded emit ns cv) \<and> same_kind cv (loaded emit ns cv)"
proof (induction ns arbitrary: cv)
  case Nil
  then show ?case by (simp add: loaded_def same_kind_def)
next
  case (Cons n ns)
  let ?cv = "fst (snd (fromString (node_text emit n) cv))"
  have "loaded emit (n # ns) cv = loaded emit ns ?cv" by (simp add: loaded_def fromString_var)
  then show ?case using from_string_typed [OF Cons.prems, of "node_text emit n"] Cons.IH [of ?cv] by (auto simp: same_kind_def)
qed

definition table_typed :: "(string \<Rightarrow> 'v \<Rightarrow> bool) \<Rightarrow> 'v config_table \<Rightarrow> bool" where
  "table_typed ty T \<longleftrightarrow> (\<forall>name cv. T name = Some cv \<longrightarrow> var_typed ty name cv)"

definition table_extends :: "'v config_table \<Rightarrow> 'v config_table \<Rightarrow> bool" where
  "table_extends T T' \<longleftrightarrow> (\<forall>name cv. T name = Some cv \<longrightarrow> (\<exists>cv'. T' name = Some cv' \<and> same_kind cv cv'))"

lemma table_update:
  assumes "table_typed ty T" "T name = Some cv" "var_typed ty name cv'" "same_kind cv cv'"
  shows "table_typed ty (T(name \<mapsto> cv')) \<and> table_extends T (T(name \<mapsto> cv'))"
  using assms by (auto simp: table_typed_def table_extends_def same_kind_def)

lemma config_step_typed: "config_step ty T T' \<Longrightarrow> table_typed ty T \<Longrightarrow> table_typed ty T' \<and> table_extends T T'"
proof (induction rule: config_step.induct)
  case (lookup tname d conv T to name desc)
  show ?case
  proof (cases "T name = None \<and> valid_name name")
    case True
    have "var_typed ty name (ConfigVar_new tname conv to name d desc)"
      using lookup.hyps True by (simp add: var_typed_def ConfigVar_new_def lower_valid)
    then show ?thesis using lookup.prems True
      by (auto simp: Lookup_default_def Let_def table_typed_def table_extends_def same_kind_def)
  next
    case False
    then have "snd (Lookup_default tname conv to name d desc T) = T" by (auto simp: Lookup_default_def split: option.splits)
    then show ?thesis using lookup.prems by (simp add: table_extends_def same_kind_def)
  qed
next
  case (set_value tname name T cv v)
  then have cv: "T name = Some cv" "cv_type cv = tname" by (auto simp: Lookup_typed_def split: option.splits if_splits)
  then have "var_typed ty name cv" using set_value.prems by (simp add: table_typed_def)
  then show ?case using cv set_value.hyps(2)
    by (intro table_update [OF set_value.prems cv(1)])
      (auto simp: setValue_def set_notify_def set_assign_def var_typed_def same_kind_def Let_def)
next
  case (from_string name T cv t)
  then have cv: "T name = Some cv" "var_typed ty name cv" by (auto simp: LookupBase_def table_typed_def)
  then show ?case using from_string_typed [OF cv(2)] by (intro table_update [OF from_string.prems cv(1)]) auto
next
  case (load T emit root)
  have "var_typed ty name cv' \<and> (\<exists>cv. T name = Some cv)" if "fst (LoadFromYaml emit root T) name = Some cv'" for name cv'
    using load_var [of emit root T name] that load loaded_typed by (fastforce simp: table_typed_def)
  moreover have "\<exists>cv'. fst (LoadFromYaml emit root T) name = Some cv' \<and> same_kind cv cv'" if "T name = Some cv" for name cv
    using load_var [of emit root T name] that load loaded_typed by (fastforce simp: table_typed_def)
  ultimately show ?case by (simp add: table_typed_def table_extends_def)
next
  case (add_listener name T cv k cb)
  then have cv: "T name = Some cv" "var_typed ty name cv" by (auto simp: LookupBase_def table_typed_def)
  then show ?case by (intro table_update [OF add_listener.prems cv(1)]) (auto simp: addListener_def Let_def var_typed_def same_kind_def)
next
  case (del_listener name T cv k)
  then have cv: "T name = Some cv" "var_typed ty name cv" by (auto simp: LookupBase_def table_typed_def)
  then show ?case by (intro table_update [OF del_listener.prems cv(1)]) (auto simp: delListener_def var_typed_def same_kind_def)
next
  case (clear_listener name T cv)
  then have cv: "T name = Some cv" "var_typed ty name cv" by (auto simp: LookupBase_def table_typed_def)
  then show ?case by (intro table_update [OF clear_listener.prems cv(1)]) (auto simp: clearListener_def var_typed_def same_kind_def)
qed

lemma config_steps_typed: "(config_step ty)\<^sup>*\<^sup>* T T' \<Longrightarrow> table_typed ty T \<Longrightarrow> table_typed ty T' \<and> table_extends T T'"
proof (induction rule: rtranclp_induct)
  case base
  then show ?case by (simp add: table_extends_def same_kind_def)
next
  case (step T1 T2)
  then have "table_typed ty T1" "table_extends T T1" by auto
  then show ?case using config_step_typed [OF step.hyps(2)] unfolding table_extends_def same_kind_def by metis
qed

text \<open>
  C11. The table of variables is typed: whatever sequence of lookups, assignments, loads of
  documents and changes of listeners made it, a variable is filed under its own name, which is a
  valid one, its value is of the type it was made with, and a lookup succeeds for exactly that
  type; and this is so for good, for no step removes a variable or changes its type.
\<close>

theorem config_typed:
  assumes "(config_step ty)\<^sup>*\<^sup>* (\<lambda>_. None) T" "T name = Some cv"
  shows "ty (cv_type cv) (cv_val cv) \<and> cv_name cv = name \<and> valid_name name \<and>
    (Lookup_typed typ name T = Some cv \<longleftrightarrow> typ = cv_type cv) \<and>
    (\<forall>T'. (config_step ty)\<^sup>*\<^sup>* T T' \<longrightarrow> (\<exists>cv'. Lookup_typed (cv_type cv) name T' = Some cv' \<and> ty (cv_type cv) (cv_val cv')))"
proof -
  have t: "table_typed ty T" using config_steps_typed [OF assms(1)] by (simp add: table_typed_def)
  have "\<exists>cv'. Lookup_typed (cv_type cv) name T' = Some cv' \<and> ty (cv_type cv) (cv_val cv')" if "(config_step ty)\<^sup>*\<^sup>* T T'" for T'
  proof -
    have "table_typed ty T'" "table_extends T T'" using config_steps_typed [OF that t] by auto
    then obtain cv' where "T' name = Some cv'" "same_kind cv cv'" "var_typed ty name cv'"
      using assms(2) unfolding table_typed_def table_extends_def by blast
    then show ?thesis by (intro exI [of _ cv']) (simp add: Lookup_typed_def same_kind_def var_typed_def)
  qed
  then show ?thesis using t assms(2) by (auto simp: table_typed_def var_typed_def Lookup_typed_def)
qed

lemma config_typed_witness:
  "cv_name (ConfigVar_new ''int'' (\<lambda>s. Inr (1 :: int)) (\<lambda>v. Inr []) ''tcp.port'' 80 []) = ''tcp.port''"
proof -
  let ?ty = "\<lambda>t v. t = ''int'' \<and> 0 < (v :: int)"
  let ?cv = "ConfigVar_new ''int'' (\<lambda>s. Inr (1 :: int)) (\<lambda>v. Inr []) ''tcp.port'' 80 []"
  let ?T = "snd (Lookup_default ''int'' (\<lambda>s. Inr (1 :: int)) (\<lambda>v. Inr []) ''tcp.port'' 80 [] (\<lambda>_. None))"
  have s: "(config_step ?ty)\<^sup>*\<^sup>* (\<lambda>_. None) ?T" by (rule r_into_rtranclp, rule config_step.lookup) auto
  have "?T ''tcp.port'' = Some ?cv"
    by (simp add: Lookup_default_def valid_name_def name_chars_def Let_def)
  from config_typed [OF s this] show ?thesis by blast
qed

end
