(* ===== verification/Log_Config.thy ===== *)
theory Log_Config
  imports Appenders Configs
begin

text \<open>
  The configuration of the loggers (\<open>sylar/log.cc\<close>): the definitions that the variable \<open>logs\<close> holds,
  their conversion from and to YAML, the listener that applies a change to the loggers, and the
  YAML that loggers print. A \<open>std::set<LogDefine>\<close> is the list of its elements in order of their
  names; new loggers and appenders are placed at the next unused address.
\<close>

section \<open>Definitions of loggers\<close>

record appender_define =
  lad_type :: int
  lad_level :: int
  lad_formatter :: string
  lad_file :: string

record log_define =
  ld_name :: string
  ld_level :: int
  ld_formatter :: string
  ld_appenders :: "appender_define list"

definition string_lt :: "string \<Rightarrow> string \<Rightarrow> bool" where
  "string_lt a b \<longleftrightarrow> map (of_char :: char \<Rightarrow> nat) a < map of_char b"

definition ld_less :: "log_define \<Rightarrow> log_define \<Rightarrow> bool" where
  "ld_less a b \<longleftrightarrow> string_lt (ld_name a) (ld_name b)"

interpretation log_defines: strict_weak_order ld_less
  by unfold_locales (auto simp: ld_less_def string_lt_def)

section \<open>From and to YAML\<close>

definition and_then :: "fault + 'a \<Rightarrow> ('a \<Rightarrow> fault + 'b) \<Rightarrow> fault + 'b" where
  "and_then m f = (case m of Inl e \<Rightarrow> Inl e | Inr a \<Rightarrow> f a)"

lemma and_then_simps [simp]: "and_then (Inl e) f = Inl e" "and_then (Inr a) f = f a"
  by (simp_all add: and_then_def)

text \<open>
  \<open>n[k]\<close> of the library: undefined (none) unless the node is a map with the key; a scalar throws.
  \<open>as<std::string>\<close> gives the text of a scalar, and for other nodes what the library does.
\<close>

record log_yaml = yaml_lib +
  yl_as :: "yaml \<Rightarrow> fault + string"
  yl_bad :: fault

definition field :: "log_yaml \<Rightarrow> string \<Rightarrow> yaml \<Rightarrow> fault + yaml option" where
  "field lib k n = (case n of Map kvs \<Rightarrow> Inr (map_of kvs k) | Scalar t \<Rightarrow> Inl (yl_bad lib) | _ \<Rightarrow> Inr None)"

definition as_string :: "log_yaml \<Rightarrow> yaml \<Rightarrow> fault + string" where
  "as_string lib n = (case n of Scalar t \<Rightarrow> Inr t | _ \<Rightarrow> yl_as lib n)"

text \<open>A field that may be missing, as a text.\<close>

definition text_or :: "log_yaml \<Rightarrow> string \<Rightarrow> string \<Rightarrow> yaml \<Rightarrow> fault + string" where
  "text_or lib k d n = and_then (field lib k n) (\<lambda>f. case f of None \<Rightarrow> Inr d | Some m \<Rightarrow> as_string lib m)"

text \<open>One appender: none where the code prints an error and goes on.\<close>

definition load_appender :: "log_yaml \<Rightarrow> yaml \<Rightarrow> fault + appender_define option" where
  "load_appender lib a =
     and_then (field lib ''type'' a) (\<lambda>t. case t of None \<Rightarrow> Inr None | Some t \<Rightarrow>
     and_then (as_string lib t) (\<lambda>type.
       if type = ''FileLogAppender'' then
         and_then (field lib ''file'' a) (\<lambda>f. case f of None \<Rightarrow> Inr None | Some f \<Rightarrow>
         and_then (as_string lib f) (\<lambda>file.
         and_then (text_or lib ''formatter'' [] a) (\<lambda>fm.
           Inr (Some \<lparr>lad_type = 1, lad_level = UNKNOW, lad_formatter = fm, lad_file = file\<rparr>))))
       else if type = ''StdoutLogAppender'' then
         Inr (Some \<lparr>lad_type = 2, lad_level = UNKNOW, lad_formatter = [], lad_file = []\<rparr>)
       else Inr None))"

definition load_logger :: "log_yaml \<Rightarrow> yaml \<Rightarrow> fault + log_define option" where
  "load_logger lib n =
     and_then (field lib ''name'' n) (\<lambda>f. case f of None \<Rightarrow> Inr None | Some f \<Rightarrow>
     and_then (as_string lib f) (\<lambda>name.
     and_then (text_or lib ''level'' [] n) (\<lambda>level.
     and_then (text_or lib ''formatter'' [] n) (\<lambda>fm.
     and_then (field lib ''appenders'' n) (\<lambda>as.
     and_then (each (load_appender lib) (case as of None \<Rightarrow> [] | Some m \<Rightarrow> nodes (yl_map_at lib) m)) (\<lambda>as.
       Inr (Some \<lparr>ld_name = name, ld_level = level_FromString level, ld_formatter = fm,
                  ld_appenders = List.map_filter id as\<rparr>)))))))"

definition logs_from :: "log_yaml \<Rightarrow> string \<Rightarrow> fault + log_define list" where
  "logs_from lib v =
     and_then (yl_load lib v) (\<lambda>node.
     and_then (each (load_logger lib) (nodes (yl_map_at lib) node)) (\<lambda>lds.
       Inr (fold (\<lambda>ld vec. snd (set_insert ld_less ld vec)) (List.map_filter id lds) [])))"

definition appender_node :: "appender_define \<Rightarrow> yaml" where
  "appender_node a = map_node
     ((if lad_type a = 1 then [(''type'', Scalar ''FileLogAppender''), (''file'', Scalar (lad_file a))]
       else if lad_type a = 2 then [(''type'', Scalar ''StdoutLoaAppender'')] else []) @
      (if lad_level a \<noteq> UNKNOW then [(''level'', Scalar (level_ToString (lad_level a)))] else []) @
      (if lad_formatter a \<noteq> [] then [(''formatter'', Scalar (lad_formatter a))] else []))"

definition logger_node :: "log_define \<Rightarrow> yaml" where
  "logger_node i = map_node
     ([(''name'', Scalar (ld_name i))] @
      (if ld_level i \<noteq> UNKNOW then [(''level'', Scalar (level_ToString (ld_level i)))] else []) @
      (if ld_formatter i = [] then [(''formatter'', Scalar (ld_formatter i))] else []) @
      (if ld_appenders i \<noteq> [] then [(''appenders'', Sequence (map appender_node (ld_appenders i)))] else []))"

definition logs_to :: "log_yaml \<Rightarrow> log_define list \<Rightarrow> string" where
  "logs_to lib v = yl_emit lib (seq_node (map logger_node v))"

section \<open>What loggers print\<close>

definition level_pairs :: "int \<Rightarrow> (string \<times> yaml) list" where
  "level_pairs v = (if v \<noteq> UNKNOW then [(''level'', Scalar (level_ToString v))] else [])"

definition formatter_pairs :: "formatter option \<Rightarrow> (string \<times> yaml) list" where
  "formatter_pairs fm = (case fm of None \<Rightarrow> [] | Some fm \<Rightarrow> [(''formatter'', Scalar (fm_pattern fm))])"

definition stdout_toYamlString :: "log_yaml \<Rightarrow> appender \<Rightarrow> string" where
  "stdout_toYamlString lib a = yl_emit lib (map_node
     ([(''type'', Scalar ''StdoutLogAppender'')] @ level_pairs (ap_level a) @
      (if ap_hasFormatter a then formatter_pairs (ap_formatter a) else [])))"

definition file_toYamlString :: "log_yaml \<Rightarrow> string \<Rightarrow> appender \<Rightarrow> string" where
  "file_toYamlString lib filename a = yl_emit lib (map_node
     ([(''type'', Scalar ''FileLogAppender''), (''file'', Scalar filename)] @ level_pairs (ap_level a) @
      (if ap_hasFormatter a then formatter_pairs (ap_formatter a) else [])))"

definition appender_toYamlString :: "log_yaml \<Rightarrow> appender \<Rightarrow> string" where
  "appender_toYamlString lib a =
     (case ap_kind a of StdoutLogAppender \<Rightarrow> stdout_toYamlString lib a | FileLogAppender f \<Rightarrow> file_toYamlString lib f a)"

definition logger_toYamlString :: "log_yaml \<Rightarrow> log_store \<Rightarrow> nat \<Rightarrow> fault + string" where
  "logger_toYamlString lib w l =
     (case st_loggers w l of None \<Rightarrow> Inl Null_deref | Some lg \<Rightarrow>
       map_sum id (\<lambda>as. yl_emit lib (map_node
           ([(''name'', Scalar (lg_name lg))] @ level_pairs (lg_level lg) @ formatter_pairs (lg_formatter lg) @
            (if as = [] then [] else [(''appenders'', Sequence as)]))))
         (each (\<lambda>i. case st_appenders w i of None \<Rightarrow> Inl Null_deref | Some a \<Rightarrow> yl_load lib (appender_toYamlString lib a))
           (lg_appenders lg)))"

text \<open>\<open>names\<close> are the names of the loggers in the order of the map.\<close>

definition manager_toYamlString :: "log_yaml \<Rightarrow> log_store \<Rightarrow> string list \<Rightarrow> fault + string" where
  "manager_toYamlString lib w names =
     map_sum id (\<lambda>ns. yl_emit lib (seq_node ns))
       (each (\<lambda>l. and_then (logger_toYamlString lib w l) (yl_load lib)) (List.map_filter (lm_loggers w) names))"

section \<open>The listener\<close>

fun run_all :: "('x \<Rightarrow> 's \<Rightarrow> fault + 's) \<Rightarrow> 'x list \<Rightarrow> 's \<Rightarrow> fault + 's" where
  "run_all f [] s = Inr s"
| "run_all f (x # xs) s = and_then (f x s) (run_all f xs)"

text \<open>
  The store with the next unused address. \<open>opens\<close> is whether the system opens a file. A type that
  is neither 1 nor 2 leaves a null pointer, which is dereferenced.
\<close>

type_synonym log_alloc = "log_store \<times> nat"

definition make_appender :: "(string \<Rightarrow> bool) \<Rightarrow> appender_define \<Rightarrow> fault + appender" where
  "make_appender opens a =
     (if lad_type a = 1 then Inr (FileLogAppender_new (opens (lad_file a)) (lad_file a))
      else if lad_type a = 2 then Inr StdoutLogAppender_new else Inl Null_deref)"

definition own_formatter :: "appender_define \<Rightarrow> appender \<Rightarrow> appender" where
  "own_formatter a ap =
     (if lad_formatter a \<noteq> [] then
        let fmt = LogFormatter_new (lad_formatter a) in if fm_error fmt then appender_setFormatter (Some fmt) ap else ap
      else ap)"

definition install_appender :: "(string \<Rightarrow> bool) \<Rightarrow> nat \<Rightarrow> appender_define \<Rightarrow> log_alloc \<Rightarrow> fault + log_alloc" where
  "install_appender opens l a = (\<lambda>(w, n).
     and_then (make_appender opens a) (\<lambda>ap.
       let ap = own_formatter a (appender_setLevel (lad_level a) ap)
       in Inr (addAppender l n (w\<lparr>st_appenders := (st_appenders w)(n \<mapsto> ap)\<rparr>), n + 1)))"

text \<open>A logger that is new or changed; one that the old value has in the same form is skipped.\<close>

definition define_named :: "log_define list \<Rightarrow> string \<Rightarrow> log_define option" where
  "define_named vs name = find (\<lambda>d. ld_name d = name) vs"

definition apply_define :: "(string \<Rightarrow> bool) \<Rightarrow> log_define \<Rightarrow> log_alloc \<Rightarrow> fault + log_alloc" where
  "apply_define opens i = (\<lambda>(w, n).
     let (l, w) = getLogger n (ld_name i) w;
         w = logger_setLevel l (ld_level i) w;
         w = (if ld_formatter i \<noteq> [] then logger_setFormatter_str l (ld_formatter i) w else w);
         w = clearAppenders l w
     in run_all (install_appender opens l) (ld_appenders i) (w, n + 1))"

definition set_define :: "(string \<Rightarrow> bool) \<Rightarrow> log_define list \<Rightarrow> log_define \<Rightarrow> log_alloc \<Rightarrow> fault + log_alloc" where
  "set_define opens old_value i s = (if define_named old_value (ld_name i) = Some i then Inr s else apply_define opens i s)"

definition drop_define :: "log_define list \<Rightarrow> log_define \<Rightarrow> log_alloc \<Rightarrow> fault + log_alloc" where
  "drop_define new_value i = (\<lambda>(w, n).
     if define_named new_value (ld_name i) \<noteq> None then Inr (w, n) else
     let (l, w) = getLogger n (ld_name i) w in Inr (clearAppenders l (logger_setLevel l 100 w), n + 1))"

definition on_logs_change :: "(string \<Rightarrow> bool) \<Rightarrow> log_define list \<Rightarrow> log_define list \<Rightarrow> log_alloc \<Rightarrow> fault + log_alloc" where
  "on_logs_change opens old_value new_value s =
     and_then (run_all (set_define opens old_value) new_value s) (run_all (drop_define new_value) old_value)"

section \<open>What is read back\<close>

definition reread :: "log_define \<Rightarrow> log_define" where
  "reread i = i\<lparr>ld_formatter := [],
     ld_appenders := map (\<lambda>a. a\<lparr>lad_level := UNKNOW\<rparr>) (filter (\<lambda>a. lad_type a = 1) (ld_appenders i))\<rparr>"

lemma each_of_map: "(\<And>x. x \<in> set xs \<Longrightarrow> f (g x) = Inr (h x)) \<Longrightarrow> each f (map g xs) = Inr (map h xs)"
  by (induction xs) auto

lemma load_appender_node:
  "load_appender lib (appender_node a) = Inr (if lad_type a = 1 then Some (a\<lparr>lad_level := UNKNOW\<rparr>) else None)"
  by (simp add: load_appender_def appender_node_def map_node_def field_def as_string_def text_or_def)

lemma levels_back: "v \<in> {0..5} \<Longrightarrow> level_FromString (if v \<noteq> UNKNOW then level_ToString v else []) = v"
proof -
  assume "v \<in> {0..5}"
  then have "v = 0 \<or> v = 1 \<or> v = 2 \<or> v = 3 \<or> v = 4 \<or> v = 5" by auto
  then show ?thesis by (auto simp: level_FromString_def level_ToString_def level_defs)
qed

lemma some_filter: "List.map_filter id (map (\<lambda>x. if P x then Some (f x) else None) xs) = map f (filter P xs)"
  by (induction xs) (auto simp: List.map_filter_simps)

lemma load_logger_node:
  assumes "ld_level i \<in> {0..5}"
  shows "load_logger lib (logger_node i) = Inr (Some (reread i))"
proof -
  let ?n = "logger_node i"
  have f: "field lib ''name'' ?n = Inr (Some (Scalar (ld_name i)))"
    "text_or lib ''formatter'' [] ?n = Inr []"
    "text_or lib ''level'' [] ?n = Inr (if ld_level i \<noteq> UNKNOW then level_ToString (ld_level i) else [])"
    "field lib ''appenders'' ?n = Inr (if ld_appenders i = [] then None else Some (Sequence (map appender_node (ld_appenders i))))"
    by (simp_all add: logger_node_def map_node_def field_def text_or_def as_string_def)
  have "each (load_appender lib) (map appender_node (ld_appenders i)) =
      Inr (map (\<lambda>a. if lad_type a = 1 then Some (a\<lparr>lad_level := UNKNOW\<rparr>) else None) (ld_appenders i))"
    by (rule each_of_map) (rule load_appender_node)
  then show ?thesis
    using f by (auto simp: load_logger_def levels_back [OF assms] as_string_def nodes_def reread_def some_filter
        simp del: level_FromString_def)
qed

lemma insert_last: "\<forall>y \<in> set xs. lt y x \<Longrightarrow> snd (set_insert lt x xs) = xs @ [x]"
proof -
  assume "\<forall>y \<in> set xs. lt y x"
  then have "takeWhile (\<lambda>y. lt y x) xs = xs" by (simp add: takeWhile_eq_all_conv)
  then have "lower_bound lt x xs = length xs" unfolding lower_bound_def by (rule arg_cong)
  then show ?thesis by (simp add: set_insert_def Let_def)
qed

lemma insert_defines_sorted:
  "sorted_wrt lt (ys @ xs) \<Longrightarrow> fold (\<lambda>x vec. snd (set_insert lt x vec)) xs ys = ys @ xs"
proof (induction xs arbitrary: ys)
  case (Cons x xs)
  have "snd (set_insert lt x ys) = ys @ [x]" using Cons.prems by (intro insert_last) (simp add: sorted_wrt_append)
  then show ?case using Cons.IH [of "ys @ [x]"] Cons.prems by simp
qed simp

text \<open>
  C36. The definitions of the loggers do not survive being written and read: when the library
  reads the node it wrote, every logger comes back with its name and level, but without its own
  formatter, without its appenders to the console (their type is written with a wrong letter),
  and with the level of every other appender forgotten.
\<close>

theorem logs_reread:
  assumes "sorted_wrt ld_less v" "\<forall>i \<in> set v. ld_level i \<in> {0..5}"
    and "yl_load lib (yl_emit lib (seq_node (map logger_node v))) = Inr (seq_node (map logger_node v))"
  shows "logs_from lib (logs_to lib v) = Inr (map reread v)"
proof -
  have "each (load_logger lib) (map logger_node v) = Inr (map (\<lambda>i. Some (reread i)) v)"
    by (rule each_of_map) (use assms(2) load_logger_node in blast)
  moreover have "List.map_filter id (map (\<lambda>i. Some (reread i)) v) = map reread v"
    by (induction v) (simp_all add: List.map_filter_simps)
  moreover have "sorted_wrt ld_less (map reread v)"
    using assms(1) by (simp add: sorted_wrt_map ld_less_def [abs_def] reread_def)
  moreover have "nodes (yl_map_at lib) (seq_node (map logger_node v)) = map logger_node v"
    by (simp add: nodes_def seq_node_def)
  ultimately show ?thesis
    using insert_defines_sorted [of ld_less "[]" "map reread v"] by (simp add: logs_from_def logs_to_def assms(3))
qed

lemma logs_reread_witness:
  "\<exists>lib :: log_yaml. logs_from lib (logs_to lib [\<lparr>ld_name = ''net'', ld_level = WARN, ld_formatter = ''%m'',
     ld_appenders = [\<lparr>lad_type = 2, lad_level = INFO, lad_formatter = [], lad_file = []\<rparr>]\<rparr>]) =
   Inr [\<lparr>ld_name = ''net'', ld_level = WARN, ld_formatter = [], ld_appenders = []\<rparr>]"
proof -
  let ?v = "[\<lparr>ld_name = ''net'', ld_level = WARN, ld_formatter = ''%m'',
     ld_appenders = [\<lparr>lad_type = 2, lad_level = INFO, lad_formatter = [], lad_file = []\<rparr>]\<rparr>]"
  let ?lib = "\<lparr>yl_load = (\<lambda>t. Inr (seq_node (map logger_node ?v))), yl_emit = (\<lambda>n. ''logs''), yl_map_at = (\<lambda>kvs. []),
    yl_as = (\<lambda>n. Inl Undefined), yl_bad = Undefined\<rparr>"
  have "logs_from ?lib (logs_to ?lib ?v) = Inr (map reread ?v)" by (rule logs_reread) (simp_all add: level_defs)
  then show ?thesis by (intro exI [of _ ?lib]) (simp add: reread_def)
qed

section \<open>What a change does\<close>

definition unused_from :: "log_alloc \<Rightarrow> bool" where
  "unused_from s \<longleftrightarrow> (\<forall>k \<ge> snd s. st_appenders (fst s) k = None \<and> st_loggers (fst s) k = None)"

lemma run_all_inv:
  assumes "run_all f xs s = Inr s'" "P s"
    and "\<And>x s s'. x \<in> set xs \<Longrightarrow> P s \<Longrightarrow> f x s = Inr s' \<Longrightarrow> P s'"
  shows "P s'"
  using assms
proof (induction xs arbitrary: s)
  case (Cons x xs)
  obtain s1 where s1: "f x s = Inr s1" "run_all f xs s1 = Inr s'"
    using Cons.prems(1) by (cases "f x s") auto
  have "P s1" by (rule Cons.prems(3) [OF _ Cons.prems(2) s1(1)]) simp
  then show ?case by (rule Cons.IH [OF s1(2)]) (rule Cons.prems(3); simp)
qed simp

text \<open>The change consists of steps of the system of loggers and appenders.\<close>

lemma adds_none [simp]:
  "st_appenders (addAppender l i w) k = None \<longleftrightarrow> st_appenders w k = None"
  "st_loggers (addAppender l i w) k = None \<longleftrightarrow> st_loggers w k = None"
  by (auto simp: addAppender_def upd_logger_def upd_appender_def split: option.split)

lemma install_steps:
  assumes "install_appender opens l a (w, n) = Inr s'" "unused_from (w, n)"
  shows "log_step\<^sup>*\<^sup>* w (fst s') \<and> unused_from s'"
proof -
  obtain ap where ap: "make_appender opens a = Inr ap"
    using assms(1) by (cases "make_appender opens a") (auto simp: install_appender_def)
  let ?put = "\<lambda>x. w\<lparr>st_appenders := (st_appenders w)(n \<mapsto> x)\<rparr>"
  let ?ap = "own_formatter a (appender_setLevel (lad_level a) ap)"
  have n: "st_appenders w n = None" using assms(2) by (simp add: unused_from_def)
  have s': "s' = (addAppender l n (?put ?ap), n + 1)" using assms(1) ap by (simp add: install_appender_def Let_def)
  have "log_step w (?put ap)"
    using ap log_step.new_file [OF n] log_step.new_appender [OF n] by (auto simp: make_appender_def split: if_splits)
  moreover have "log_step (?put ap) (?put (appender_setLevel (lad_level a) ap))"
    using log_step.appender_level [of "?put ap" n "lad_level a"] by (simp add: upd_appender_def)
  moreover have "log_step\<^sup>*\<^sup>* (?put (appender_setLevel (lad_level a) ap)) (?put ?ap)"
    using log_step.appender_formatter [of "?put (appender_setLevel (lad_level a) ap)" n "LogFormatter_new (lad_formatter a)"]
    by (auto simp: own_formatter_def Let_def upd_appender_def)
  moreover have "log_step (?put ?ap) (fst s')" using log_step.add s' by simp
  ultimately have "log_step\<^sup>*\<^sup>* w (fst s')"
    by (meson converse_rtranclp_into_rtranclp rtranclp.rtrancl_into_rtrancl)
  then show ?thesis using assms(2) s' by (auto simp: unused_from_def)
qed

lemma getLogger_steps:
  assumes "unused_from (w, n)" "getLogger n name w = (l, w')"
  shows "log_step w w' \<and> unused_from (w', n + 1)"
  using log_step.get [of w n name] assms by (auto simp: unused_from_def getLogger_def split: option.splits)

lemma fold_appenders_none: "st_appenders (fold (\<lambda>i. upd_appender i f) is w) k = None \<longleftrightarrow> st_appenders w k = None"
proof (induction "is" arbitrary: w)
  case (Cons i "is")
  have "st_appenders (upd_appender i f w) k = None \<longleftrightarrow> st_appenders w k = None" by (auto simp: upd_appender_def)
  then show ?case using Cons by simp
qed simp

lemma fold_appenders_loggers [simp]:
  "st_loggers (fold (\<lambda>i. upd_appender i f) is w) = st_loggers w"
  "lm_loggers (fold (\<lambda>i. upd_appender i f) is w) = lm_loggers w"
  "lm_root (fold (\<lambda>i. upd_appender i f) is w) = lm_root w"
  by (induction "is" arbitrary: w) simp_all

lemma upd_logger_simps [simp]:
  "st_appenders (upd_logger l f w) = st_appenders w" "lm_root (upd_logger l f w) = lm_root w"
  "lm_loggers (upd_logger l f w) = lm_loggers w"
  "st_loggers (upd_logger l f w) = (st_loggers w)(l := map_option f (st_loggers w l))"
  by (simp_all add: upd_logger_def)

lemma formatter_str_none [simp]:
  "st_appenders (logger_setFormatter_str l v w) k = None \<longleftrightarrow> st_appenders w k = None"
  "st_loggers (logger_setFormatter_str l v w) k = None \<longleftrightarrow> st_loggers w k = None"
  by (auto simp: logger_setFormatter_str_def logger_setFormatter_def Let_def fold_appenders_none split: option.split)

lemma apply_steps:
  assumes "apply_define opens i (w, n) = Inr s'" "unused_from (w, n)"
  shows "log_step\<^sup>*\<^sup>* w (fst s') \<and> unused_from s'"
proof -
  obtain l w1 where g: "getLogger n (ld_name i) w = (l, w1)" by (cases "getLogger n (ld_name i) w")
  let ?w2 = "logger_setLevel l (ld_level i) w1"
  let ?w3 = "if ld_formatter i \<noteq> [] then logger_setFormatter_str l (ld_formatter i) ?w2 else ?w2"
  let ?w4 = "clearAppenders l ?w3"
  have 1: "log_step w w1" "unused_from (w1, n + 1)" using getLogger_steps [OF assms(2) g] by auto
  have r: "run_all (install_appender opens l) (ld_appenders i) (?w4, n + 1) = Inr s'"
    using assms(1) g by (simp add: apply_define_def Let_def)
  have "log_step\<^sup>*\<^sup>* ?w2 ?w3" using log_step.formatter_str by auto
  then have "log_step\<^sup>*\<^sup>* w ?w4"
    using 1(1) log_step.level log_step.clear by (meson converse_rtranclp_into_rtranclp rtranclp.rtrancl_into_rtrancl)
  moreover have "unused_from (?w4, n + 1)"
    using 1(2) by (auto simp: unused_from_def clearAppenders_def logger_setLevel_def)
  ultimately show ?thesis
    by (intro run_all_inv [OF r, of "\<lambda>s. log_step\<^sup>*\<^sup>* w (fst s) \<and> unused_from s"])
      (auto dest!: install_steps intro: rtranclp_trans)
qed

lemma drop_steps:
  assumes "drop_define vs i (w, n) = Inr s'" "unused_from (w, n)"
  shows "log_step\<^sup>*\<^sup>* w (fst s') \<and> unused_from s'"
proof (cases "define_named vs (ld_name i)")
  case None
  obtain l w1 where g: "getLogger n (ld_name i) w = (l, w1)" by (cases "getLogger n (ld_name i) w")
  have 1: "log_step w w1" "unused_from (w1, n + 1)" using getLogger_steps [OF assms(2) g] by auto
  have s': "s' = (clearAppenders l (logger_setLevel l 100 w1), n + 1)" using assms(1) None g by (simp add: drop_define_def)
  have "log_step\<^sup>*\<^sup>* w (fst s')"
    using 1(1) log_step.level [of w1 l 100] log_step.clear [of "logger_setLevel l 100 w1" l] s'
    by (simp add: converse_rtranclp_into_rtranclp r_into_rtranclp)
  then show ?thesis using 1(2) s' by (auto simp: unused_from_def clearAppenders_def logger_setLevel_def)
qed (use assms in \<open>auto simp: drop_define_def\<close>)

lemma change_steps:
  assumes "on_logs_change opens old_value new_value s = Inr s'" "unused_from s"
  shows "log_step\<^sup>*\<^sup>* (fst s) (fst s') \<and> unused_from s'"
proof -
  obtain s1 where s1: "run_all (set_define opens old_value) new_value s = Inr s1" "run_all (drop_define new_value) old_value s1 = Inr s'"
    using assms(1) by (cases "run_all (set_define opens old_value) new_value s") (auto simp: on_logs_change_def)
  let ?P = "\<lambda>x. log_step\<^sup>*\<^sup>* (fst s) (fst x) \<and> unused_from x"
  have "?P s1"
    by (rule run_all_inv [OF s1(1), of ?P])
      (use assms(2) in \<open>auto simp: set_define_def split: if_splits dest!: apply_steps intro: rtranclp_trans\<close>)
  then show ?thesis
    by (rule run_all_inv [OF s1(2)]) (auto dest!: drop_steps intro: rtranclp_trans)
qed

text \<open>What the appenders installed at the end of a list look like.\<close>

definition appender_as :: "log_store \<Rightarrow> formatter option \<Rightarrow> nat \<Rightarrow> appender_define \<Rightarrow> bool" where
  "appender_as w fm k a \<longleftrightarrow> (\<exists>ap. st_appenders w k = Some ap \<and> ap_level ap = lad_level a \<and>
     ap_kind ap = (if lad_type a = 1 then FileLogAppender (lad_file a) else StdoutLogAppender) \<and>
     ap_formatter ap =
       (if lad_formatter a \<noteq> [] \<and> fm_error (LogFormatter_new (lad_formatter a)) then Some (LogFormatter_new (lad_formatter a)) else fm))"

lemma appender_as_cong: "st_appenders w' k = st_appenders w k \<Longrightarrow> appender_as w' fm k a = appender_as w fm k a"
  by (simp add: appender_as_def)

lemma install_one:
  assumes "install_appender opens l a (w, n) = Inr (w', n')" "st_loggers w l = Some lg"
  shows "n' = n + 1 \<and> lm_loggers w' = lm_loggers w \<and>
    st_loggers w' = (st_loggers w)(l \<mapsto> lg\<lparr>lg_appenders := lg_appenders lg @ [n]\<rparr>) \<and>
    (\<forall>k. k \<noteq> n \<longrightarrow> st_appenders w' k = st_appenders w k) \<and> appender_as w' (lg_formatter lg) n a"
proof -
  obtain ap where ap: "make_appender opens a = Inr ap"
    using assms(1) by (cases "make_appender opens a") (auto simp: install_appender_def)
  let ?ap = "own_formatter a (appender_setLevel (lad_level a) ap)"
  have w': "w' = addAppender l n (w\<lparr>st_appenders := (st_appenders w)(n \<mapsto> ?ap)\<rparr>)" "n' = n + 1"
    using assms(1) ap by (auto simp: install_appender_def Let_def)
  have "ap_level ?ap = lad_level a \<and> ap_formatter ?ap =
      (if lad_formatter a \<noteq> [] \<and> fm_error (LogFormatter_new (lad_formatter a)) then Some (LogFormatter_new (lad_formatter a)) else None) \<and>
      ap_kind ?ap = (if lad_type a = 1 then FileLogAppender (lad_file a) else StdoutLogAppender)"
    using ap by (auto simp: make_appender_def own_formatter_def appender_setLevel_def appender_setFormatter_def Let_def
        FileLogAppender_new_def StdoutLogAppender_new_def reopen_def split: if_splits)
  then show ?thesis using assms(2) w' by (auto simp: addAppender_def appender_as_def upd_appender_def)
qed

lemma install_all:
  assumes "run_all (install_appender opens l) as (w, n) = Inr (w', n')" "st_loggers w l = Some lg"
  shows "lm_loggers w' = lm_loggers w \<and>
    st_loggers w' = (st_loggers w)(l \<mapsto> lg\<lparr>lg_appenders := lg_appenders lg @ [n ..< n + length as]\<rparr>) \<and>
    (\<forall>k < n. st_appenders w' k = st_appenders w k) \<and>
    (\<forall>j < length as. appender_as w' (lg_formatter lg) (n + j) (as ! j))"
  using assms
proof (induction as arbitrary: w n lg)
  case Nil
  then show ?case by (auto simp: fun_upd_idem)
next
  case (Cons a as)
  obtain w1 n1 where one: "install_appender opens l a (w, n) = Inr (w1, n1)" "run_all (install_appender opens l) as (w1, n1) = Inr (w', n')"
    using Cons.prems(1) by (cases "install_appender opens l a (w, n)") auto
  let ?lg = "lg\<lparr>lg_appenders := lg_appenders lg @ [n]\<rparr>"
  have w1: "n1 = n + 1" "lm_loggers w1 = lm_loggers w" "st_loggers w1 = (st_loggers w)(l \<mapsto> ?lg)"
    "\<forall>k. k \<noteq> n \<longrightarrow> st_appenders w1 k = st_appenders w k" "appender_as w1 (lg_formatter lg) n a"
    using install_one [OF one(1) Cons.prems(2)] by auto
  have l: "st_loggers w1 l = Some ?lg" using w1(3) by simp
  note ih = Cons.IH [OF one(2) l, unfolded w1(1)]
  have "appender_as w' (lg_formatter lg) (n + j) ((a # as) ! j)" if "j < length (a # as)" for j
  proof (cases j)
    case 0
    have "st_appenders w' n = st_appenders w1 n" using ih by simp
    then show ?thesis using w1(5) 0 appender_as_cong [of w' n w1] by simp
  next
    case (Suc i)
    then show ?thesis using ih that by simp
  qed
  moreover have "[n ..< n + length (a # as)] = n # [n + 1 ..< n + 1 + length as]" by (subst upt_conv_Cons) simp_all
  ultimately show ?case using ih w1 by (auto simp: fun_upd_def)
qed

text \<open>The names of loggers belong to different loggers that exist.\<close>

definition names_ok :: "log_store \<Rightarrow> bool" where
  "names_ok w \<longleftrightarrow> (\<forall>x l. lm_loggers w x = Some l \<longrightarrow> st_loggers w l \<noteq> None) \<and>
     (\<forall>x y l. lm_loggers w x = Some l \<and> lm_loggers w y = Some l \<longrightarrow> x = y)"

definition old_appenders :: "log_store \<Rightarrow> nat \<Rightarrow> nat set" where
  "old_appenders w l = (case st_loggers w l of None \<Rightarrow> {} | Some lg \<Rightarrow> set (lg_appenders lg))"

text \<open>
  What a change may do to a store: it works on the logger of one name, which is made if there is
  none, gives it appenders that were not there before, and touches only those and the ones it had.
\<close>

definition changes_one :: "string \<Rightarrow> nat \<Rightarrow> logger \<Rightarrow> log_store \<Rightarrow> log_store \<Rightarrow> bool" where
  "changes_one name l lg w w' \<longleftrightarrow>
     lm_loggers w' = (lm_loggers w)(name \<mapsto> l) \<and> st_loggers w' = (st_loggers w)(l \<mapsto> lg) \<and>
     (lm_loggers w name = Some l \<or> lm_loggers w name = None \<and> st_loggers w l = None) \<and>
     (\<forall>k \<in> set (lg_appenders lg). st_appenders w k = None) \<and>
     (\<forall>k. st_appenders w k \<noteq> None \<and> k \<notin> old_appenders w l \<longrightarrow> st_appenders w' k = st_appenders w k)"

lemma getLogger_one:
  assumes "getLogger n name w = (l, w1)" "unused_from (w, n)" "names_ok w"
  obtains lg where "st_loggers w1 = (st_loggers w)(l \<mapsto> lg)" "lm_loggers w1 = (lm_loggers w)(name \<mapsto> l)"
    "st_appenders w1 = st_appenders w" "set (lg_appenders lg) = old_appenders w l"
    "lm_loggers w name = Some l \<or> lm_loggers w name = None \<and> st_loggers w l = None"
proof (cases "lm_loggers w name")
  case None
  then show ?thesis using assms that [of "(Logger_new name)\<lparr>lg_root := Some (lm_root w)\<rparr>"]
    by (auto simp: getLogger_def unused_from_def old_appenders_def Logger_new_def)
next
  case (Some k)
  then obtain lg where "st_loggers w k = Some lg" using assms(3) unfolding names_ok_def by blast
  then show ?thesis using assms(1) Some that [of lg] by (auto simp: getLogger_def old_appenders_def fun_upd_idem)
qed

lemma formatter_str_one:
  assumes "st_loggers w l = Some lg"
  obtains fm where "st_loggers (logger_setFormatter_str l v w) = (st_loggers w)(l \<mapsto> lg\<lparr>lg_formatter := fm\<rparr>)"
    "lm_loggers (logger_setFormatter_str l v w) = lm_loggers w"
    "\<forall>k. k \<notin> set (lg_appenders lg) \<longrightarrow> st_appenders (logger_setFormatter_str l v w) k = st_appenders w k"
proof (cases "fm_error (LogFormatter_new v)")
  case True
  then have "logger_setFormatter_str l v w = w" by (simp add: logger_setFormatter_str_def Let_def)
  then show ?thesis using that [of "lg_formatter lg"] assms by (simp add: fun_upd_idem)
next
  case False
  have frame: "k \<notin> set is \<Longrightarrow> st_appenders (fold (\<lambda>i. upd_appender i f) is w) k = st_appenders w k" for k f "is" w
    by (induction "is" arbitrary: w) (auto simp: upd_appender_def)
  show ?thesis using that [of "Some (LogFormatter_new v)"] False assms frame
    by (simp add: logger_setFormatter_str_def logger_setFormatter_def Let_def)
qed

lemma apply_one:
  assumes "apply_define opens i (w, n) = Inr (w', n')" "unused_from (w, n)" "names_ok w"
  obtains l lg where "changes_one (ld_name i) l lg w w'" "lg_level lg = ld_level i"
    "list_all2 (appender_as w' (lg_formatter lg)) (lg_appenders lg) (ld_appenders i)"
proof -
  obtain l w1 where g: "getLogger n (ld_name i) w = (l, w1)" by (cases "getLogger n (ld_name i) w")
  obtain lg where w1: "st_loggers w1 = (st_loggers w)(l \<mapsto> lg)" "lm_loggers w1 = (lm_loggers w)(ld_name i \<mapsto> l)"
    "st_appenders w1 = st_appenders w" "set (lg_appenders lg) = old_appenders w l"
    "lm_loggers w (ld_name i) = Some l \<or> lm_loggers w (ld_name i) = None \<and> st_loggers w l = None"
    by (rule getLogger_one [OF g assms(2,3)])
  let ?w2 = "logger_setLevel l (ld_level i) w1" and ?lg2 = "lg\<lparr>lg_level := ld_level i\<rparr>"
  have w2: "st_loggers ?w2 l = Some ?lg2" using w1(1) by (simp add: logger_setLevel_def)
  obtain fm where fm: "st_loggers (logger_setFormatter_str l (ld_formatter i) ?w2) = (st_loggers ?w2)(l \<mapsto> ?lg2\<lparr>lg_formatter := fm\<rparr>)"
    "lm_loggers (logger_setFormatter_str l (ld_formatter i) ?w2) = lm_loggers ?w2"
    "\<forall>k. k \<notin> set (lg_appenders ?lg2) \<longrightarrow> st_appenders (logger_setFormatter_str l (ld_formatter i) ?w2) k = st_appenders ?w2 k"
    by (rule formatter_str_one [OF w2])
  let ?w3 = "if ld_formatter i \<noteq> [] then logger_setFormatter_str l (ld_formatter i) ?w2 else ?w2"
  let ?lg3 = "?lg2\<lparr>lg_formatter := if ld_formatter i \<noteq> [] then fm else lg_formatter lg\<rparr>"
  let ?w4 = "clearAppenders l ?w3" and ?lg4 = "?lg3\<lparr>lg_appenders := []\<rparr>"
  have w4: "st_loggers ?w4 = (st_loggers w)(l \<mapsto> ?lg4)" "lm_loggers ?w4 = (lm_loggers w)(ld_name i \<mapsto> l)"
    "\<forall>k. k \<notin> old_appenders w l \<longrightarrow> st_appenders ?w4 k = st_appenders w k"
    using w1 w2 fm by (auto simp: clearAppenders_def logger_setLevel_def)
  have r: "run_all (install_appender opens l) (ld_appenders i) (?w4, n + 1) = Inr (w', n')"
    using assms(1) g by (simp add: apply_define_def Let_def)
  have l4: "st_loggers ?w4 l = Some ?lg4" using w4(1) by simp
  let ?lg = "?lg4\<lparr>lg_appenders := [n + 1 ..< n + 1 + length (ld_appenders i)]\<rparr>"
  have w': "lm_loggers w' = (lm_loggers w)(ld_name i \<mapsto> l)" "st_loggers w' = (st_loggers w)(l \<mapsto> ?lg)"
    "\<forall>k < n + 1. st_appenders w' k = st_appenders ?w4 k"
    "\<forall>j < length (ld_appenders i). appender_as w' (lg_formatter ?lg) (n + 1 + j) (ld_appenders i ! j)"
    using install_all [OF r l4] w4 by auto
  have low: "st_appenders w k \<noteq> None \<Longrightarrow> k < n" for k
    using assms(2) unfolding unused_from_def by (metis fst_conv snd_conv not_le_imp_less)
  have "changes_one (ld_name i) l ?lg w w'"
    unfolding changes_one_def using w' w4(3) w1(5) low assms(2) by (auto simp: unused_from_def less_Suc_eq)
  moreover have "list_all2 (appender_as w' (lg_formatter ?lg)) (lg_appenders ?lg) (ld_appenders i)"
    by (rule list_all2_all_nthI) (use w'(4) in \<open>simp_all del: upt_Suc\<close>)
  ultimately show ?thesis using that [of l ?lg] by simp
qed

lemma drop_one:
  assumes "drop_define vs i (w, n) = Inr (w', n')" "unused_from (w, n)" "names_ok w" "define_named vs (ld_name i) = None"
  obtains l lg where "changes_one (ld_name i) l lg w w'"
proof -
  obtain l w1 where g: "getLogger n (ld_name i) w = (l, w1)" by (cases "getLogger n (ld_name i) w")
  obtain lg where w1: "st_loggers w1 = (st_loggers w)(l \<mapsto> lg)" "lm_loggers w1 = (lm_loggers w)(ld_name i \<mapsto> l)"
    "st_appenders w1 = st_appenders w" "set (lg_appenders lg) = old_appenders w l"
    "lm_loggers w (ld_name i) = Some l \<or> lm_loggers w (ld_name i) = None \<and> st_loggers w l = None"
    by (rule getLogger_one [OF g assms(2,3)])
  have "w' = clearAppenders l (logger_setLevel l 100 w1)" using assms(1,4) g by (simp add: drop_define_def)
  then have "changes_one (ld_name i) l (lg\<lparr>lg_level := 100, lg_appenders := []\<rparr>) w w'"
    using w1 by (auto simp: changes_one_def clearAppenders_def logger_setLevel_def)
  then show ?thesis by (rule that)
qed

definition settled :: "log_define \<Rightarrow> log_store \<Rightarrow> bool" where
  "settled i w \<longleftrightarrow> (\<exists>l lg. lm_loggers w (ld_name i) = Some l \<and> st_loggers w l = Some lg \<and> lg_level lg = ld_level i \<and>
     list_all2 (appender_as w (lg_formatter lg)) (lg_appenders lg) (ld_appenders i) \<and>
     (\<forall>k. k \<noteq> l \<longrightarrow> old_appenders w k \<inter> set (lg_appenders lg) = {}))"

lemma old_appenders_exist: "log_inv w \<Longrightarrow> k \<in> old_appenders w l \<Longrightarrow> st_appenders w k \<noteq> None"
  by (cases "st_loggers w l") (fastforce simp: old_appenders_def log_inv_def logger_ok_def has_formatter_def)+

lemma settled_now:
  assumes "changes_one (ld_name i) l lg w w'" "log_inv w" "lg_level lg = ld_level i"
    and "list_all2 (appender_as w' (lg_formatter lg)) (lg_appenders lg) (ld_appenders i)"
  shows "settled i w'"
proof -
  have "old_appenders w' k \<inter> set (lg_appenders lg) = {}" if "k \<noteq> l" for k
  proof -
    have "old_appenders w' k = old_appenders w k" using assms(1) that by (simp add: changes_one_def old_appenders_def)
    then show ?thesis using assms(1) old_appenders_exist [OF assms(2), of _ k] unfolding changes_one_def by blast
  qed
  then show ?thesis using assms unfolding settled_def by (intro exI [of _ l] exI [of _ lg]) (simp add: changes_one_def)
qed

lemma settled_kept:
  assumes c: "changes_one name m lg' w w'" and w: "log_inv w" "names_ok w" and "name \<noteq> ld_name i" "settled i w"
  shows "settled i w'"
proof -
  obtain l lg where l: "lm_loggers w (ld_name i) = Some l" "st_loggers w l = Some lg" "lg_level lg = ld_level i"
    "list_all2 (appender_as w (lg_formatter lg)) (lg_appenders lg) (ld_appenders i)"
    "\<And>k. k \<noteq> l \<Longrightarrow> old_appenders w k \<inter> set (lg_appenders lg) = {}"
    using assms(5) by (auto simp: settled_def)
  have "m \<noteq> l"
  proof
    assume "m = l"
    then have "lm_loggers w name = Some l" using c l(2) by (auto simp: changes_one_def)
    then show False using w(2) l(1) assms(4) unfolding names_ok_def by blast
  qed
  have a: "k \<in> set (lg_appenders lg) \<Longrightarrow> st_appenders w k \<noteq> None" for k
    using old_appenders_exist [OF w(1), of k l] l(2) by (simp add: old_appenders_def)
  have same: "st_appenders w' k = st_appenders w k" if "k \<in> set (lg_appenders lg)" for k
    using c a [OF that] l(5) [OF \<open>m \<noteq> l\<close>] that unfolding changes_one_def by blast
  have "list_all2 (appender_as w' (lg_formatter lg)) (lg_appenders lg) (ld_appenders i)"
    by (rule list.rel_mono_strong [OF l(4)]) (use appender_as_cong [OF same] in blast)
  moreover have "old_appenders w' k \<inter> set (lg_appenders lg) = {}" if "k \<noteq> l" for k
  proof (cases "k = m")
    case True
    then have "old_appenders w' k = set (lg_appenders lg')" "\<forall>x \<in> set (lg_appenders lg'). st_appenders w x = None"
      using c by (simp_all add: changes_one_def old_appenders_def)
    then show ?thesis using a by blast
  next
    case False
    then show ?thesis using c l(5) [OF that] by (simp add: changes_one_def old_appenders_def)
  qed
  ultimately show ?thesis unfolding settled_def
    using c l(1-3) \<open>m \<noteq> l\<close> assms(4) by (intro exI [of _ l] exI [of _ lg]) (simp add: changes_one_def)
qed

lemma names_kept: "changes_one name l lg w w' \<Longrightarrow> names_ok w \<Longrightarrow> names_ok w'"
proof -
  assume c: "changes_one name l lg w w'" and w: "names_ok w"
  have e: "lm_loggers w x = Some k \<Longrightarrow> st_loggers w k \<noteq> None" for x k using w unfolding names_ok_def by blast
  have only: "x = name" if "lm_loggers w x = Some l" for x
    using that c e [OF that] w unfolding changes_one_def names_ok_def by blast
  have "st_loggers w' k \<noteq> None" if "lm_loggers w' x = Some k" for x k
    using that c e [of x k] by (auto simp: changes_one_def split: if_splits)
  moreover have "x = y" if "lm_loggers w' x = Some k" "lm_loggers w' y = Some k" for x y k
  proof (cases "k = l")
    case True
    then show ?thesis using that only c by (auto simp: changes_one_def split: if_splits)
  next
    case False
    then have "lm_loggers w x = Some k \<and> lm_loggers w y = Some k"
      using that c by (auto simp: changes_one_def split: if_splits)
    then show ?thesis using w unfolding names_ok_def by blast
  qed
  ultimately show "names_ok w'" unfolding names_ok_def by blast
qed

definition good :: "log_alloc \<Rightarrow> bool" where
  "good s \<longleftrightarrow> log_inv (fst s) \<and> names_ok (fst s) \<and> unused_from s"

lemma configs_kept: "log_step\<^sup>*\<^sup>* w w' \<Longrightarrow> log_inv w \<Longrightarrow> log_inv w'"
  by (induction rule: rtranclp_induct) (auto intro: log_step_inv)

lemma apply_good:
  assumes "apply_define opens i s = Inr s'" "good s"
  shows "good s' \<and> settled i (fst s') \<and> (\<forall>j. ld_name j \<noteq> ld_name i \<and> settled j (fst s) \<longrightarrow> settled j (fst s'))"
proof -
  obtain w n w' n' where s: "s = (w, n)" "s' = (w', n')" by (cases s, cases s')
  note a = assms [unfolded s]
  have w: "log_inv w" "names_ok w" "unused_from (w, n)" using a(2) by (simp_all add: good_def)
  obtain l lg where c: "changes_one (ld_name i) l lg w w'" "lg_level lg = ld_level i"
    "list_all2 (appender_as w' (lg_formatter lg)) (lg_appenders lg) (ld_appenders i)"
    by (rule apply_one [OF a(1) w(3,2)])
  have "good s'"
    using apply_steps [OF a(1) w(3)] configs_kept [of w w'] w names_kept [OF c(1)] s by (simp add: good_def)
  then show ?thesis
    using settled_now [OF c(1) w(1) c(2,3)] settled_kept [OF c(1) w(1,2)] s by (metis fst_conv)
qed

lemma drop_good:
  assumes "drop_define vs i s = Inr s'" "good s"
  shows "good s' \<and> (\<forall>j. define_named vs (ld_name j) \<noteq> None \<and> settled j (fst s) \<longrightarrow> settled j (fst s'))"
proof (cases "define_named vs (ld_name i)")
  case None
  obtain w n w' n' where s: "s = (w, n)" "s' = (w', n')" by (cases s, cases s')
  note a = assms [unfolded s]
  have w: "log_inv w" "names_ok w" "unused_from (w, n)" using a(2) by (simp_all add: good_def)
  obtain l lg where c: "changes_one (ld_name i) l lg w w'" by (rule drop_one [OF a(1) w(3,2) None])
  have "good s'"
    using drop_steps [OF a(1) w(3)] configs_kept [of w w'] w names_kept [OF c(1)] s by (simp add: good_def)
  then show ?thesis using settled_kept [OF c(1) w(1,2)] s None by (metis fst_conv)
qed (use assms in \<open>auto simp: drop_define_def split: prod.splits\<close>)

lemma set_all_good:
  assumes "run_all (set_define opens old_value) vs s = Inr s'" "good s" "distinct (map ld_name vs)"
  shows "good s' \<and> (\<forall>i \<in> set vs. define_named old_value (ld_name i) \<noteq> Some i \<longrightarrow> settled i (fst s')) \<and>
    (\<forall>j. ld_name j \<notin> ld_name ` set vs \<and> settled j (fst s) \<longrightarrow> settled j (fst s'))"
  using assms
proof (induction vs arbitrary: s)
  case (Cons i vs)
  obtain s1 where s1: "set_define opens old_value i s = Inr s1" "run_all (set_define opens old_value) vs s1 = Inr s'"
    using Cons.prems(1) by (cases "set_define opens old_value i s") auto
  have one: "good s1 \<and> (define_named old_value (ld_name i) \<noteq> Some i \<longrightarrow> settled i (fst s1)) \<and>
      (\<forall>j. ld_name j \<noteq> ld_name i \<and> settled j (fst s) \<longrightarrow> settled j (fst s1))"
    using apply_good [OF _ Cons.prems(2), of opens i s1] s1(1) Cons.prems(2) by (auto simp: set_define_def split: if_splits)
  show ?case using Cons.IH [OF s1(2)] one Cons.prems(3) by auto
qed simp

lemma drop_all_good:
  assumes "run_all (drop_define vs) olds s = Inr s'" "good s"
  shows "good s' \<and> (\<forall>j. define_named vs (ld_name j) \<noteq> None \<and> settled j (fst s) \<longrightarrow> settled j (fst s'))"
  using assms
proof (induction olds arbitrary: s)
  case (Cons i olds)
  obtain s1 where s1: "drop_define vs i s = Inr s1" "run_all (drop_define vs) olds s1 = Inr s'"
    using Cons.prems(1) by (cases "drop_define vs i s") auto
  show ?case using Cons.IH [OF s1(2)] drop_good [OF s1(1) Cons.prems(2)] by auto
qed simp

text \<open>Logging itself keeps the names, so every reachable store is good.\<close>

lemma log_all_names: "log_all env v ev is w = Inr (w', out) \<Longrightarrow> lm_loggers w' = lm_loggers w \<and> st_loggers w' = st_loggers w"
proof (induction "is" arbitrary: w out)
  case (Cons i "is")
  obtain a where a: "st_appenders w i = Some a" using Cons.prems by (cases "st_appenders w i") auto
  obtain a' o1 where one: "appender_log env v ev a = Inr (a', o1)"
    using Cons.prems a by (cases "appender_log env v ev a") auto
  let ?w = "w\<lparr>st_appenders := (st_appenders w)(i \<mapsto> a')\<rparr>"
  obtain o2 where "log_all env v ev is ?w = Inr (w', o2)"
    using Cons.prems a one by (cases "log_all env v ev is ?w") auto
  from Cons.IH [OF this] show ?case by simp
qed simp

lemma names_cong:
  "lm_loggers w' = lm_loggers w \<Longrightarrow> (\<And>k. st_loggers w' k = None \<longleftrightarrow> st_loggers w k = None) \<Longrightarrow> names_ok w \<Longrightarrow> names_ok w'"
  unfolding names_ok_def by simp

lemma adds_names [simp]: "lm_loggers (addAppender l i w) = lm_loggers w"
  by (auto simp: addAppender_def split: option.split)

lemma setFormatter_names [simp]:
  "lm_loggers (logger_setFormatter l v w) = lm_loggers w" "st_loggers (logger_setFormatter l v w) k = None \<longleftrightarrow> st_loggers w k = None"
  by (auto simp: logger_setFormatter_def split: option.split)

lemma setFormatter_str_names [simp]: "lm_loggers (logger_setFormatter_str l v w) = lm_loggers w"
  by (simp add: logger_setFormatter_str_def Let_def)

lemma log_step_names: "log_step w w' \<Longrightarrow> log_inv w \<Longrightarrow> names_ok w \<Longrightarrow> names_ok w'"
proof (induction rule: log_step.induct)
  case (get w fresh name)
  show ?case
  proof (cases "lm_loggers w name")
    case None
    then have "changes_one name fresh ((Logger_new name)\<lparr>lg_root := Some (lm_root w)\<rparr>) w (snd (getLogger fresh name w))"
      using get.hyps by (simp add: getLogger_def changes_one_def Logger_new_def)
    then show ?thesis by (rule names_kept) (rule get.prems(2))
  qed (use get in \<open>simp add: getLogger_def\<close>)
next
  case (logged env l v ev w w' out)
  show ?case
  proof (cases "st_loggers w l")
    case (Some lg)
    have "lm_loggers w' = lm_loggers w \<and> st_loggers w' = st_loggers w"
      using logged.hyps Some unfolding SYLAR_LOG_LEVEL_def
      by (auto simp: logger_log_cases [OF logged.prems(1) Some] Let_def dest!: log_all_names split: if_splits)
    then show ?thesis using logged.prems(2) by (intro names_cong [of w' w]) auto
  qed (use logged in \<open>simp add: SYLAR_LOG_LEVEL_def\<close>)
qed (rule names_cong; simp add: delAppender_def clearAppenders_def logger_setLevel_def)+

lemma reachable_names: "log_step\<^sup>*\<^sup>* LoggerManager_new w \<Longrightarrow> log_inv w \<and> names_ok w"
proof (induction rule: rtranclp_induct)
  case base
  have "names_ok LoggerManager_new" by (auto simp: names_ok_def LoggerManager_new_def)
  then show ?case using log_reachable_inv by blast
qed (blast intro: log_step_inv log_step_names)

text \<open>
  C8. When the listener has run, the logger of every definition that is new or changed has the
  level of the definition and exactly its appenders in their order, each of its kind and level;
  but an appender writes with the pattern of its own definition only when that pattern is
  malformed, for the test of the error is the wrong way round: with a good pattern it has the
  formatter of the logger. The state is one that logging can reach, so logging stays safe.
\<close>

theorem loggers_configured:
  assumes "log_step\<^sup>*\<^sup>* LoggerManager_new w" "unused_from (w, n)"
    and "on_logs_change opens old_value new_value (w, n) = Inr (w', n')"
    and "distinct (map ld_name new_value)" "i \<in> set new_value" "define_named old_value (ld_name i) \<noteq> Some i"
  shows "log_step\<^sup>*\<^sup>* LoggerManager_new w' \<and>
    (\<exists>l lg. lm_loggers w' (ld_name i) = Some l \<and> st_loggers w' l = Some lg \<and> lg_level lg = ld_level i \<and>
      list_all2 (appender_as w' (lg_formatter lg)) (lg_appenders lg) (ld_appenders i))"
proof -
  have g: "good (w, n)" using reachable_names [OF assms(1)] assms(2) by (simp add: good_def)
  obtain s1 where s1: "run_all (set_define opens old_value) new_value (w, n) = Inr s1"
    "run_all (drop_define new_value) old_value s1 = Inr (w', n')"
    using assms(3) by (cases "run_all (set_define opens old_value) new_value (w, n)") (auto simp: on_logs_change_def)
  have 1: "good s1" "settled i (fst s1)" using set_all_good [OF s1(1) g assms(4)] assms(5,6) by auto
  have "define_named new_value (ld_name i) \<noteq> None" using assms(5) by (auto simp: define_named_def find_None_iff)
  then have "settled i w'" using drop_all_good [OF s1(2) 1(1)] 1(2) by simp
  moreover have "log_step\<^sup>*\<^sup>* LoggerManager_new w'"
    using change_steps [OF assms(3,2)] assms(1) by (simp add: rtranclp_trans)
  ultimately show ?thesis unfolding settled_def by blast
qed

lemma loggers_configured_witness:
  "\<exists>w' n' l lg. on_logs_change (\<lambda>f. True) [] [\<lparr>ld_name = ''net'', ld_level = WARN, ld_formatter = [],
      ld_appenders = [\<lparr>lad_type = 2, lad_level = INFO, lad_formatter = ''%m'', lad_file = []\<rparr>]\<rparr>] (LoggerManager_new, 1) = Inr (w', n') \<and>
     lm_loggers w' ''net'' = Some l \<and> st_loggers w' l = Some lg \<and> lg_level lg = WARN"
proof -
  let ?v = "[\<lparr>ld_name = ''net'', ld_level = WARN, ld_formatter = [],
      ld_appenders = [\<lparr>lad_type = 2, lad_level = INFO, lad_formatter = ''%m'', lad_file = []\<rparr>]\<rparr>]"
  have u: "unused_from (LoggerManager_new, 1)"
    by (auto simp: unused_from_def LoggerManager_new_def Let_def)
  obtain w' n' where r: "on_logs_change (\<lambda>f. True) [] ?v (LoggerManager_new, 1) = Inr (w', n')"
    by (cases "getLogger 1 ''net'' LoggerManager_new")
      (simp add: on_logs_change_def set_define_def apply_define_def install_appender_def make_appender_def define_named_def
        Let_def split: prod.splits)
  show ?thesis
    using loggers_configured [OF rtranclp.rtrancl_refl u r, of "hd ?v"] r by (auto simp: define_named_def)
qed

end
