(* ===== verification/Envs.thy ===== *)
theory Envs
  imports Texts Prelude
begin

text \<open>
  The environment (\<open>sylar/env.cc\<close>): the arguments of the program, the help, the environment
  variables and paths. What \<open>readlink\<close> wrote into its 1024 bytes, the text of the link of
  \<open>/proc/pid/exe\<close> or nothing when it failed, is an argument of \<open>init\<close>; the environment of the process is
  a map, and whether \<open>setenv\<close> finds memory an argument.
\<close>

section \<open>State and operations\<close>

record env =
  m_args :: "string \<Rightarrow> string option"
  m_helps :: "(string \<times> string) list"
  m_program :: string
  m_exe :: string
  m_cwd :: string

definition Env_new :: env where
  "Env_new = \<lparr>m_args = (\<lambda>_. None), m_helps = [], m_program = [], m_exe = [], m_cwd = []\<rparr>"

definition env_add :: "string \<Rightarrow> string \<Rightarrow> env \<Rightarrow> env" where
  "env_add key val e = e\<lparr>m_args := (m_args e)(key \<mapsto> val)\<rparr>"

definition env_has :: "string \<Rightarrow> env \<Rightarrow> bool" where
  "env_has key e = (m_args e key \<noteq> None)"

definition env_get :: "string \<Rightarrow> string \<Rightarrow> env \<Rightarrow> string" where
  "env_get key default_val e = (case m_args e key of Some v \<Rightarrow> v | None \<Rightarrow> default_val)"

definition env_del :: "string \<Rightarrow> env \<Rightarrow> env" where
  "env_del key e = e\<lparr>m_args := (m_args e)(key := None)\<rparr>"

text \<open>The loop of \<open>init\<close> over the arguments after the first; \<open>now_key\<close> is the key that waits for a value.\<close>

definition add_key :: "string option \<Rightarrow> string \<Rightarrow> env \<Rightarrow> env" where
  "add_key now_key val e = (case now_key of None \<Rightarrow> e | Some key \<Rightarrow> env_add key val e)"

fun init_args :: "string list \<Rightarrow> string option \<Rightarrow> env \<Rightarrow> bool \<times> env" where
  "init_args [] now_key e = (True, add_key now_key [] e)"
| "init_args (a # as) now_key e =
     (if a \<noteq> [] \<and> hd a = CHR ''-'' then
        if length a > 1 then init_args as (Some (tl a)) (add_key now_key [] e) else (False, e)
      else case now_key of
        Some key \<Rightarrow> init_args as None (env_add key a e)
      | None \<Rightarrow> (False, e))"

definition dir_of :: "string \<Rightarrow> string" where
  "dir_of exe = (if CHR ''/'' \<in> set exe then rev (tl (dropWhile (\<lambda>c. c \<noteq> CHR ''/'') (rev exe))) else exe)"

definition env_init :: "string \<Rightarrow> string list \<Rightarrow> env \<Rightarrow> (fault + bool) \<times> env" where
  "env_init link argv e =
     (if 1024 \<le> length link then (Inl Undefined, e) else
      let e = e\<lparr>m_exe := link, m_cwd := dir_of link @ ''/''\<rparr>
      in case argv of
           [] \<Rightarrow> (Inl Undefined, e)
         | prog # as \<Rightarrow> (let (ok, e) = init_args as None (e\<lparr>m_program := prog\<rparr>) in (Inr ok, e)))"

text \<open>Helps: a vector with the keys in the order in which they were added last.\<close>

fun remove_help :: "string \<Rightarrow> (string \<times> string) list \<Rightarrow> (string \<times> string) list" where
  "remove_help key [] = []"
| "remove_help key (h # hs) = (if fst h = key then hs else h # remove_help key hs)"

definition removeHelp :: "string \<Rightarrow> env \<Rightarrow> env" where
  "removeHelp key e = e\<lparr>m_helps := remove_help key (m_helps e)\<rparr>"

definition addHelp :: "string \<Rightarrow> string \<Rightarrow> env \<Rightarrow> env" where
  "addHelp key desc e = (let e = removeHelp key e in e\<lparr>m_helps := m_helps e @ [(key, desc)]\<rparr>)"

definition printHelp :: "env \<Rightarrow> string" where
  "printHelp e = ''Usage: '' @ m_program e @ '' [options]'' @ [CHR 0x0A] @
     concat (map (\<lambda>(key, desc). ''    -'' @ key @ '' : '' @ desc @ [CHR 0x0A]) (m_helps e))"

text \<open>
  \<open>setenv\<close> fails for a name that is empty or has an equals sign, and without memory; it returns
  0 when it did not fail, which \<open>setEnv\<close> returns as a bool.
\<close>

definition setEnv :: "bool \<Rightarrow> string \<Rightarrow> string \<Rightarrow> (string \<Rightarrow> string option) \<Rightarrow> bool \<times> (string \<Rightarrow> string option)" where
  "setEnv memory key val environ =
     (let name = c_str key in
      if name = [] \<or> CHR ''='' \<in> set name \<or> \<not> memory then (True, environ) else (False, environ(name \<mapsto> c_str val)))"

definition getEnv :: "string \<Rightarrow> string \<Rightarrow> (string \<Rightarrow> string option) \<Rightarrow> string" where
  "getEnv key default_val environ = (case environ (c_str key) of None \<Rightarrow> default_val | Some v \<Rightarrow> v)"

definition getAbsolutePath :: "string \<Rightarrow> env \<Rightarrow> string" where
  "getAbsolutePath path e =
     (if path = [] then m_cwd e else if hd path = CHR ''/'' then path else m_cwd e @ path)"

section \<open>Arguments and options\<close>

text \<open>
  The options that a command line can state: a key that is not empty, with or without a value; a
  value does not begin with a dash.
\<close>

type_synonym options = "(string \<times> string option) list"

definition command_line :: "options \<Rightarrow> string list" where
  "command_line os = concat (map (\<lambda>(k, v). (CHR ''-'' # k) # (case v of None \<Rightarrow> [] | Some v \<Rightarrow> [v])) os)"

definition plain :: "string \<Rightarrow> bool" where
  "plain v \<longleftrightarrow> v = [] \<or> hd v \<noteq> CHR ''-''"

definition options_ok :: "options \<Rightarrow> bool" where
  "options_ok os \<longleftrightarrow> (\<forall>(k, v) \<in> set os. k \<noteq> [] \<and> (\<forall>t. v = Some t \<longrightarrow> plain t))"

definition with_options :: "options \<Rightarrow> env \<Rightarrow> env" where
  "with_options os e = fold (\<lambda>(k, v). env_add k (case v of None \<Rightarrow> [] | Some v \<Rightarrow> v)) os e"

lemma command_line_simps [simp]:
  "command_line [] = []" "command_line ((k, None) # os) = (CHR ''-'' # k) # command_line os"
  "command_line ((k, Some v) # os) = (CHR ''-'' # k) # v # command_line os"
  by (simp_all add: command_line_def)

lemma with_options_simps [simp]:
  "with_options [] e = e" "with_options ((k, None) # os) e = with_options os (env_add k [] e)"
  "with_options ((k, Some v) # os) e = with_options os (env_add k v e)"
  by (simp_all add: with_options_def)

lemma options_ok_simps [simp]:
  "options_ok []" "options_ok ((k, v) # os) \<longleftrightarrow> k \<noteq> [] \<and> (\<forall>t. v = Some t \<longrightarrow> plain t) \<and> options_ok os"
  by (auto simp: options_ok_def)

lemma init_args_options:
  "options_ok os \<Longrightarrow> init_args (command_line os) now e = (True, with_options os (add_key now [] e))"
proof (induction os arbitrary: now e)
  case (Cons kv os)
  obtain k v where kv: "kv = (k, v)" by (cases kv)
  show ?case
  proof (cases v)
    case None
    then show ?thesis using Cons kv by (simp add: add_key_def)
  next
    case (Some t)
    then have "init_args (command_line (kv # os)) now e = init_args (command_line os) None (env_add k t (add_key now [] e))"
      using Cons.prems kv by (auto simp: plain_def)
    then show ?thesis using Cons kv Some by (simp add: add_key_def)
  qed
qed simp

lemma init_args_complete:
  "fst (init_args as now e) \<Longrightarrow>
    \<exists>os. options_ok os \<and> (case now of None \<Rightarrow> as = command_line os
      | Some k \<Rightarrow> as = command_line os \<or> (\<exists>v. plain v \<and> as = v # command_line os))"
proof (induction as now e rule: init_args.induct)
  case (1 now e)
  then show ?case by (intro exI [of _ "[]"]) (auto split: option.split)
next
  case (2 a as now e)
  show ?case
  proof (cases "a \<noteq> [] \<and> hd a = CHR ''-''")
    case True
    then have l: "length a > 1" using "2.prems" by (simp split: if_splits)
    then obtain os where os: "options_ok os" "as = command_line os \<or> (\<exists>v. plain v \<and> as = v # command_line os)"
      using "2.IH"(1) [OF True l] "2.prems" True by auto
    have a: "a = CHR ''-'' # tl a" "tl a \<noteq> []" using True l by (cases a; auto)+
    from os(2) have "\<exists>os'. options_ok os' \<and> a # as = command_line os'"
    proof
      assume "as = command_line os"
      then show ?thesis using a os(1) by (intro exI [of _ "(tl a, None) # os"]) simp
    next
      assume "\<exists>v. plain v \<and> as = v # command_line os"
      then obtain v where "plain v" "as = v # command_line os" by blast
      then show ?thesis using a os(1) by (intro exI [of _ "(tl a, Some v) # os"]) simp
    qed
    then show ?thesis by (auto split: option.split)
  next
    case False
    then obtain key where k: "now = Some key" using "2.prems" by (auto split: option.splits)
    then obtain os where "options_ok os" "as = command_line os"
      using "2.IH"(2) [OF False k] "2.prems" False by auto
    then show ?thesis using k False by (auto simp: plain_def)
  qed
qed

lemma init_args_fields: "m_exe (snd (init_args as now e)) = m_exe e \<and> m_cwd (snd (init_args as now e)) = m_cwd e"
  by (induction as now e rule: init_args.induct) (auto simp: add_key_def env_add_def split: option.split)

section \<open>Properties\<close>

text \<open>
  C27. The program accepts exactly the command lines that state options, and afterwards the
  arguments are those options, the last value of a key that is given twice: so a value that
  begins with a dash, as a negative number does, cannot be given, and is taken as a key.
\<close>

theorem arguments_roundtrip:
  "init_args as None e = (True, e') \<longleftrightarrow> (\<exists>os. options_ok os \<and> as = command_line os \<and> e' = with_options os e)"
proof
  assume *: "init_args as None e = (True, e')"
  then obtain os where "options_ok os" "as = command_line os" using init_args_complete [of as None e] by auto
  then show "\<exists>os. options_ok os \<and> as = command_line os \<and> e' = with_options os e"
    using init_args_options [of os None e] * by (auto simp: add_key_def)
next
  assume "\<exists>os. options_ok os \<and> as = command_line os \<and> e' = with_options os e"
  then show "init_args as None e = (True, e')" using init_args_options [of _ None e] by (auto simp: add_key_def)
qed

text \<open>
  \<open>setEnv\<close> answers the wrong way round: it returns false exactly when the variable was set, and
  then \<open>getEnv\<close> gives the value, up to its first null character; where it returns true nothing
  has changed.
\<close>

theorem setEnv_inverted:
  assumes "setEnv memory key val environ = (b, environ')"
  shows "(b \<longleftrightarrow> c_str key = [] \<or> CHR ''='' \<in> set (c_str key) \<or> \<not> memory) \<and>
    (if b then environ' = environ else getEnv key d environ' = c_str val)"
  using assms by (auto simp: setEnv_def getEnv_def Let_def split: if_splits)

lemma setEnv_inverted_witness: "getEnv ''HOME'' [] (snd (setEnv True ''HOME'' ''/root'' (\<lambda>_. None))) = ''/root''"
  using setEnv_inverted [of True "''HOME''" "''/root''" "\<lambda>_. None" False "[''HOME'' \<mapsto> ''/root'']" "[]"]
  by (simp add: setEnv_def c_str_def)

lemma dir_of_absolute: "exe = [] \<or> hd exe = CHR ''/'' \<Longrightarrow> dir_of exe = [] \<or> hd (dir_of exe) = CHR ''/''"
proof -
  assume a: "exe = [] \<or> hd exe = CHR ''/''"
  let ?r = "dropWhile (\<lambda>c. c \<noteq> CHR ''/'') (rev exe)"
  obtain xs where e: "rev exe = xs @ ?r" by (metis takeWhile_dropWhile_id)
  then have "exe = rev ?r @ rev xs" by (metis rev_append rev_rev_ident)
  then show ?thesis using a by (cases ?r) (auto simp: dir_of_def hd_append split: if_splits)
qed

text \<open>
  Once the program has started, every path is made absolute: when the link of the
  executable is an absolute path, or could not be read, so is every path that \<open>getAbsolutePath\<close>
  returns, whether or not the arguments were accepted; the directory of the executable, with a
  slash at its end, is put before a path that does not begin with one.
\<close>

theorem paths_absolute:
  assumes "env_init link argv e = (Inr ok, e')" "link = [] \<or> hd link = CHR ''/''"
  shows "hd (getAbsolutePath p e') = CHR ''/'' \<and> getAbsolutePath p e' \<noteq> [] \<and>
    (p \<noteq> [] \<and> hd p \<noteq> CHR ''/'' \<longrightarrow> getAbsolutePath p e' = dir_of link @ ''/'' @ p)"
proof -
  obtain prog as where argv: "argv = prog # as" "\<not> 1024 \<le> length link"
    using assms(1) by (cases argv) (auto simp: env_init_def Let_def split: if_splits)
  let ?e = "e\<lparr>m_exe := link, m_cwd := dir_of link @ ''/'', m_program := prog\<rparr>"
  have "e' = snd (init_args as None ?e)" using assms(1) argv by (simp add: env_init_def Let_def split: prod.splits)
  then have c: "m_cwd e' = dir_of link @ ''/''" using init_args_fields [of as None ?e] by simp
  then have "hd (m_cwd e') = CHR ''/'' \<and> m_cwd e' \<noteq> []" using dir_of_absolute [OF assms(2)] by (auto simp: hd_append)
  then show ?thesis using c by (auto simp: getAbsolutePath_def hd_append)
qed

lemma paths_absolute_witness:
  "getAbsolutePath ''conf'' (snd (env_init ''/opt/app/run'' [''run'', ''-s''] Env_new)) = ''/opt/app/conf''"
proof -
  have "env_init ''/opt/app/run'' [''run'', ''-s''] Env_new = (Inr True, snd (env_init ''/opt/app/run'' [''run'', ''-s''] Env_new))"
    by (simp add: env_init_def Let_def)
  from paths_absolute [OF this, of "''conf''"] show ?thesis by (simp add: dir_of_def)
qed

lemma remove_help_subset: "set (remove_help key hs) \<subseteq> set hs"
  by (induction hs) auto

lemma remove_help_distinct: "distinct (map fst hs) \<Longrightarrow> distinct (map fst (remove_help key hs)) \<and> key \<notin> fst ` set (remove_help key hs)"
  using remove_help_subset by (induction hs) (auto, force+)

lemma addHelp_distinct: "distinct (map fst (m_helps e)) \<Longrightarrow> distinct (map fst (m_helps (addHelp key desc e)))"
  using remove_help_distinct by (auto simp: addHelp_def removeHelp_def Let_def)

end
