(* ===== verification/Utils.thy ===== *)
theory Utils
  imports Texts Prelude
begin

text \<open>
  Utilities (\<open>sylar/util.cc\<close>): the clock, stack traces, and the files of a directory, making a
  directory, and the file that holds the number of a process. What the system answers is given:
  the time, the symbols of the stack, a tree of directory entries in the order \<open>readdir\<close> lists them,
  and which paths can be made.
\<close>

section \<open>The clock\<close>

text \<open>\<open>gettimeofday\<close> gives seconds and microseconds; a product of \<open>long\<close>s that overflows is undefined.\<close>

definition GetCurrentMS :: "int \<Rightarrow> int \<Rightarrow> u64" where
  "GetCurrentMS tv_sec tv_usec = word_of_int tv_sec * 1000 + word_of_int (tv_usec div 1000)"

definition GetCurrentUS :: "int \<Rightarrow> int \<Rightarrow> fault + u64" where
  "GetCurrentUS tv_sec tv_usec =
     (if tv_sec * 1000 < - (2 ^ 63) \<or> 2 ^ 63 \<le> tv_sec * 1000 then Inl Undefined
      else Inr (word_of_int (tv_sec * 1000) * 1000 + word_of_int tv_usec))"

definition Time2Str :: "(string \<Rightarrow> int \<Rightarrow> string) \<Rightarrow> int \<Rightarrow> string \<Rightarrow> fault + string" where
  "Time2Str strftime ts format = (let t = strftime format ts in if 64 \<le> length t then Inl Undefined else Inr t)"

section \<open>Stack traces\<close>

text \<open>
  \<open>frames\<close> is the stack of the caller as the library names it, the innermost first; \<open>backtrace\<close> gives
  at most \<open>size\<close> of them, and \<open>backtrace_symbols\<close> none without memory. A negative number of frames to
  skip is a huge one as a \<open>size_t\<close>.
\<close>

definition Backtrace :: "bool \<Rightarrow> string list \<Rightarrow> string list \<Rightarrow> nat \<Rightarrow> int \<Rightarrow> string list" where
  "Backtrace memory frames bt siz skip =
     (if memory then bt @ drop (nat (skip mod 2 ^ 64)) (take siz frames) else bt)"

definition BacktraceToString :: "bool \<Rightarrow> string list \<Rightarrow> nat \<Rightarrow> int \<Rightarrow> string \<Rightarrow> string" where
  "BacktraceToString memory frames siz skip pre =
     concat (map (\<lambda>s. pre @ s @ [CHR 0x0A]) (Backtrace memory frames [] siz skip))"

section \<open>The files of a directory\<close>

text \<open>A directory that cannot be read has the flag false. Other entries are links, devices and so on.\<close>

datatype entry = DT_DIR bool "(string \<times> entry) list" | DT_REG | DT_OTHER

definition has_subfix :: "string \<Rightarrow> string \<Rightarrow> bool" where
  "has_subfix subfix filename \<longleftrightarrow>
     subfix = [] \<or> \<not> length filename < length subfix \<and> drop (length filename - length subfix) filename = subfix"

fun list_dir :: "string \<Rightarrow> string \<Rightarrow> entry \<Rightarrow> string list \<Rightarrow> string list"
  and list_entries :: "string \<Rightarrow> string \<Rightarrow> (string \<times> entry) list \<Rightarrow> string list \<Rightarrow> string list" where
  "list_dir subfix path e files =
     (case e of DT_DIR readable es \<Rightarrow> if readable then list_entries subfix path es files else files | _ \<Rightarrow> files)"
| "list_entries subfix path [] files = files"
| "list_entries subfix path ((d_name, e) # es) files =
     list_entries subfix path es
       (case e of
          DT_DIR r es' \<Rightarrow>
            if d_name = ''.'' \<or> d_name = ''..'' then files else list_dir subfix (path @ ''/'' @ d_name) e files
        | DT_REG \<Rightarrow> if has_subfix subfix d_name then files @ [path @ ''/'' @ d_name] else files
        | DT_OTHER \<Rightarrow> files)"

declare list_dir.simps [simp del]

text \<open>\<open>root\<close> is what is at the path, nothing where \<open>access\<close> fails.\<close>

definition ListAllFile :: "string list \<Rightarrow> string \<Rightarrow> entry option \<Rightarrow> string \<Rightarrow> string list" where
  "ListAllFile files path root subfix = (case root of None \<Rightarrow> files | Some e \<Rightarrow> list_dir subfix path e files)"

section \<open>Making a directory\<close>

text \<open>
  The paths that exist, and whether \<open>mkdir\<close> can make a path when they do. \<open>here\<close> is whether \<open>lstat\<close>
  finds the path. \<open>strchr\<close> starts behind the first character, which an empty path has not.
\<close>

definition mkdir_one :: "(string set \<Rightarrow> string \<Rightarrow> bool) \<Rightarrow> string \<Rightarrow> string set \<Rightarrow> bool \<times> string set" where
  "mkdir_one can dirname fs =
     (if dirname \<in> fs then (True, fs) else if can fs dirname then (True, insert dirname fs) else (False, fs))"

definition slashes :: "string \<Rightarrow> nat list" where
  "slashes path = filter (\<lambda>i. path ! i = CHR ''/'') [1 ..< length path]"

fun mkdir_all :: "(string set \<Rightarrow> string \<Rightarrow> bool) \<Rightarrow> string list \<Rightarrow> string set \<Rightarrow> bool \<times> string set" where
  "mkdir_all can [] fs = (True, fs)"
| "mkdir_all can (p # ps) fs = (case mkdir_one can p fs of (True, fs) \<Rightarrow> mkdir_all can ps fs | (False, fs) \<Rightarrow> (False, fs))"

definition Mkdir :: "(string set \<Rightarrow> string \<Rightarrow> bool) \<Rightarrow> bool \<Rightarrow> string \<Rightarrow> string set \<Rightarrow> fault + bool \<times> string set" where
  "Mkdir can here dirname fs =
     (if here then Inr (True, fs) else
      let path = c_str dirname
      in if path = [] then Inl Undefined
         else Inr (mkdir_all can (map (\<lambda>i. take i path) (slashes path) @ [path]) fs))"

section \<open>The file of a process\<close>

text \<open>The first line of the file, none where it cannot be found, opened or read; \<open>alive\<close> is \<open>kill(pid, 0) == 0\<close>.\<close>

definition IsRunningPidfile :: "(int \<Rightarrow> bool) \<Rightarrow> string option \<Rightarrow> bool" where
  "IsRunningPidfile alive first_line =
     (case first_line of None \<Rightarrow> False | Some line \<Rightarrow> line \<noteq> [] \<and> (let pid = atoi (c_str line) in \<not> pid \<le> 1 \<and> alive pid))"

section \<open>Properties\<close>



text \<open>Which files are under a path: by name, through directories that can be read, links not followed.\<close>

inductive file_under :: "string \<Rightarrow> entry \<Rightarrow> string \<Rightarrow> string \<Rightarrow> bool" where
  here: "(name, DT_REG) \<in> set es \<Longrightarrow> file_under path (DT_DIR True es) (path @ ''/'' @ name) name"
| below: "(d, DT_DIR r es') \<in> set es \<Longrightarrow> d \<noteq> ''.'' \<Longrightarrow> d \<noteq> ''..'' \<Longrightarrow> file_under (path @ ''/'' @ d) (DT_DIR r es') p name \<Longrightarrow>
    file_under path (DT_DIR True es) p name"

inductive_cases underE: "file_under path (DT_DIR r es) p name"

lemma not_under [simp]:
  "\<not> file_under path (DT_DIR False es) p name" "\<not> file_under path DT_REG p name" "\<not> file_under path DT_OTHER p name"
  "\<not> file_under path (DT_DIR r []) p name"
  by (auto elim: file_under.cases)

lemmas under_intros = file_under.intros file_under.intros [simplified append.simps]

lemma under_cons:
  "file_under path (DT_DIR True (ne # es)) p name \<longleftrightarrow>
    file_under path (DT_DIR True [ne]) p name \<or> file_under path (DT_DIR True es) p name" (is "?l \<longleftrightarrow> ?r")
proof
  show "?l \<Longrightarrow> ?r" by (erule underE) (auto intro: under_intros)
  show "?r \<Longrightarrow> ?l" by (erule disjE; erule underE) (auto intro: under_intros)
qed

lemma under_one:
  "file_under path (DT_DIR True [(d, DT_DIR r es)]) p name \<longleftrightarrow>
    d \<noteq> ''.'' \<and> d \<noteq> ''..'' \<and> file_under (path @ ''/'' @ d) (DT_DIR r es) p name" (is "?l \<longleftrightarrow> ?r")
  "file_under path (DT_DIR True [(d, DT_REG)]) p name \<longleftrightarrow> p = path @ ''/'' @ d \<and> name = d" (is "?l1 \<longleftrightarrow> ?r1")
  "\<not> file_under path (DT_DIR True [(d, DT_OTHER)]) p name"
proof -
  show "?l \<longleftrightarrow> ?r"
  proof
    show "?l \<Longrightarrow> ?r" by (erule underE) auto
    show "?r \<Longrightarrow> ?l" by (auto intro: under_intros)
  qed
  show "?l1 \<longleftrightarrow> ?r1"
  proof
    show "?l1 \<Longrightarrow> ?r1" by (erule underE) auto
    show "?r1 \<Longrightarrow> ?l1" by (auto intro: under_intros)
  qed
  show "\<not> file_under path (DT_DIR True [(d, DT_OTHER)]) p name" by (auto elim: underE)
qed

lemma list_dir_files:
  "set (list_dir subfix path e files) = set files \<union> {p. \<exists>name. file_under path e p name \<and> has_subfix subfix name}"
  "set (list_entries subfix path es files) = set files \<union> {p. \<exists>name. file_under path (DT_DIR True es) p name \<and> has_subfix subfix name}"
proof (induction subfix path e files and subfix path es files rule: list_dir_list_entries.induct)
  case (1 subfix path e files)
  show ?case
  proof (cases e)
    case (DT_DIR r es)
    then show ?thesis using 1 by (cases r) (simp_all add: list_dir.simps)
  qed (simp_all add: list_dir.simps)
next
  case (3 subfix path d_name e es files)
  note u = under_cons [of path "(d_name, e)" es]
  show ?case
  proof (cases e)
    case (DT_DIR r es')
    then show ?thesis using 3
      by (cases "d_name = ''.'' \<or> d_name = ''..''") (auto simp: u [unfolded DT_DIR] under_one)
  next
    case DT_REG
    then show ?thesis using 3 by (auto simp: u [unfolded DT_REG] under_one)
  next
    case DT_OTHER
    then show ?thesis using 3 by (auto simp: u [unfolded DT_OTHER] under_one)
  qed
qed simp

text \<open>
  C31. \<open>ListAllFile\<close> finds every regular file with the suffix in the tree under the path, through
  every directory that can be read, and nothing else, and keeps what was in the list; it looks at
  no other name than its own for a directory, so the entries for itself and its parent do not
  make it go on for ever.
\<close>

theorem list_all_files:
  "set (ListAllFile files path root subfix) =
    set files \<union> {p. \<exists>e name. root = Some e \<and> file_under path e p name \<and> has_subfix subfix name}"
  by (cases root) (simp_all add: ListAllFile_def list_dir_files(1))

lemma mkdir_all_made:
  assumes "mkdir_all can ps fs = (ok, fs')"
  shows "fs \<subseteq> fs' \<and> fs' \<subseteq> fs \<union> set ps \<and> (ok \<longrightarrow> set ps \<subseteq> fs')"
  using assms
proof (induction ps arbitrary: fs)
  case (Cons p ps)
  obtain b fs1 where one: "mkdir_one can p fs = (b, fs1)" by (cases "mkdir_one can p fs")
  then have s: "fs \<subseteq> fs1" "fs1 \<subseteq> insert p fs" "b \<longrightarrow> p \<in> fs1" by (auto simp: mkdir_one_def split: if_splits)
  show ?case
  proof (cases b)
    case True
    then have "mkdir_all can ps fs1 = (ok, fs')" using Cons.prems one by simp
    from Cons.IH [OF this] s True show ?thesis by auto
  next
    case False
    then show ?thesis using Cons.prems one s by auto
  qed
qed simp

text \<open>
  \<open>Mkdir\<close> that succeeds on a path that is not there has left it and all its parents existing;
  and whether or not it does, it makes nothing but the path and its parents, and keeps what
  exists.
\<close>

theorem mkdir_parents:
  assumes "Mkdir can False dirname fs = Inr (ok, fs')"
  shows "fs \<subseteq> fs' \<and> (\<forall>p \<in> fs' - fs. prefix p (c_str dirname)) \<and>
    (ok \<longrightarrow> c_str dirname \<in> fs' \<and> (\<forall>a b. c_str dirname = a @ CHR ''/'' # b \<and> a \<noteq> [] \<longrightarrow> a \<in> fs'))"
proof -
  let ?path = "c_str dirname" let ?ps = "map (\<lambda>i. take i ?path) (slashes ?path) @ [?path]"
  have m: "mkdir_all can ?ps fs = (ok, fs')" using assms by (simp add: Mkdir_def Let_def split: if_splits)
  have "prefix p ?path" if "p \<in> set ?ps" for p using that by (auto simp: take_is_prefix)
  moreover have "a \<in> set ?ps" if "?path = a @ CHR ''/'' # b" "a \<noteq> []" for a b
  proof -
    have "1 \<le> length a" "length a < length ?path" "?path ! length a = CHR ''/''" using that by (auto simp: Suc_le_eq)
    then have "length a \<in> set (slashes ?path)" by (simp add: slashes_def)
    then show ?thesis using that(1) by force
  qed
  ultimately show ?thesis using mkdir_all_made [OF m] by auto
qed

lemma mkdir_parents_witness: "\<exists>fs'. Mkdir (\<lambda>fs p. True) False ''/a/b'' {''/''} = Inr (True, fs') \<and> ''/a'' \<in> fs'"
proof -
  have "Mkdir (\<lambda>fs p. True) False ''/a/b'' {''/''} = Inr (True, {''/a/b'', ''/a'', ''/''})"
    by (simp add: Mkdir_def c_str_def slashes_def mkdir_one_def upt_rec Let_def)
  from mkdir_parents [OF this] this show ?thesis by (auto simp: c_str_def)
qed

text \<open>The text of a number, as a line of its own, is read back.\<close>

lemma atoi_dec: "n < 2 ^ 31 \<Longrightarrow> atoi (dec n) = int n"
  using strtol_dec [of n "[]"] by (simp add: atoi_def to_int_def signed_of_nat signed_take_bit_int_eq_self)

lemma pidfile_read: "1 < pid \<Longrightarrow> pid < 2 ^ 31 \<Longrightarrow> IsRunningPidfile alive (Some (dec pid)) = alive (int pid)"
proof -
  assume p: "1 < pid" "pid < 2 ^ 31"
  have "c_str (dec pid) = dec pid"
  proof (rule c_str_id)
    show "CHR 0x00 \<notin> set (dec pid)" using show_base_set [of 10 pid] by (auto simp: dec_def)
  qed
  then show ?thesis using atoi_dec [OF p(2)] p(1) by (simp add: IsRunningPidfile_def dec_def)
qed

end
