(* ===== verification/Tcp_Servers.thy ===== *)
theory Tcp_Servers
  imports Sockets
begin

text \<open>
  The TCP server (\<open>sylar/tcp_server.cc\<close>): binding to several addresses, the loops that accept, start
  and stop. Sockets are shared objects: they live in a store, and the server, the tasks of the
  accepting worker and the loops hold their addresses. A worker runs its tasks in any order. What
  the system answers is an argument, as in the theory \<open>Sockets\<close>; log output is left out.
\<close>

section \<open>State\<close>

datatype tcp_task = Start_accept nat | Close_socks

record tcp_server =
  tcp_store :: "nat \<Rightarrow> sock"
  tcp_next :: nat
  tcp_socks :: "nat list"
  tcp_isStop :: bool
  tcp_recvTimeout :: u64
  tcp_name :: string
  tcp_tasks :: "tcp_task list"
  tcp_loops :: "(nat \<times> bool) list"
  tcp_clients :: "(sock \<times> u64) list"

text \<open>
  A loop is the socket it accepts from, and whether it is in \<open>accept\<close>, having found that the server
  runs. Clients are scheduled with the timeout that is set for them. \<open>conf\<close> is the value of
  \<open>tcp_server.read_timeout\<close> when the server is made.
\<close>

definition TcpServer_new :: "u64 \<Rightarrow> tcp_server" where
  "TcpServer_new conf =
     \<lparr>tcp_store = (\<lambda>_. Socket_new 0 0 0), tcp_next = 0, tcp_socks = [], tcp_isStop = True, tcp_recvTimeout = conf,
      tcp_name = ''sylar/1.0.0'', tcp_tasks = [], tcp_loops = [], tcp_clients = []\<rparr>"

definition tcp_setRecvTimeout :: "u64 \<Rightarrow> tcp_server \<Rightarrow> tcp_server" where
  "tcp_setRecvTimeout v s = s\<lparr>tcp_recvTimeout := v\<rparr>"

definition tcp_setName :: "string \<Rightarrow> tcp_server \<Rightarrow> tcp_server" where
  "tcp_setName v s = s\<lparr>tcp_name := v\<rparr>"

section \<open>Binding\<close>

definition close_calls :: "sock \<Rightarrow> sock_call list" where
  "close_calls s = snd (snd (Socket_close s))"

definition closed :: "sock \<Rightarrow> sock" where
  "closed s = fst (snd (Socket_close s))"

text \<open>One turn of the loop of \<open>bind\<close>: the socket, or none; a socket that fails is destroyed.\<close>

definition bind_one :: "kernel \<times> address \<Rightarrow> sock option \<times> sock_call list" where
  "bind_one = (\<lambda>(k, addr).
     let (ok, s, c1) = Socket_bind k addr (CreateTCP addr)
     in if \<not> ok then (None, c1 @ close_calls s)
        else let (ok, s, c2) = Socket_listen k s
             in if \<not> ok then (None, c1 @ c2 @ close_calls s) else (Some s, c1 @ c2))"

fun bind_all :: "(kernel \<times> address) list \<Rightarrow> address list \<Rightarrow> address list \<times> sock list \<times> sock_call list" where
  "bind_all [] fails = (fails, [], [])"
| "bind_all (ka # kas) fails =
     (let (r, c1) = bind_one ka;
          (fails, ss, c2) = bind_all kas (case r of None \<Rightarrow> fails @ [snd ka] | Some s \<Rightarrow> fails)
      in (fails, (case r of None \<Rightarrow> ss | Some s \<Rightarrow> s # ss), c1 @ c2))"

text \<open>A socket that only the server holds is destroyed when the server lets it go.\<close>

definition referenced :: "tcp_server \<Rightarrow> nat \<Rightarrow> bool" where
  "referenced s i \<longleftrightarrow> Start_accept i \<in> set (tcp_tasks s) \<or> i \<in> fst ` set (tcp_loops s)"

definition let_go :: "nat list \<Rightarrow> tcp_server \<Rightarrow> tcp_server \<times> sock_call list" where
  "let_go is s =
     (let gone = filter (\<lambda>i. \<not> referenced s i) is
      in (s\<lparr>tcp_store := (\<lambda>i. if i \<in> set gone then closed (tcp_store s i) else tcp_store s i)\<rparr>,
          concat (map (\<lambda>i. close_calls (tcp_store s i)) gone)))"

definition add_socks :: "sock list \<Rightarrow> tcp_server \<Rightarrow> tcp_server" where
  "add_socks ss s =
     s\<lparr>tcp_store := (\<lambda>i. if tcp_next s \<le> i \<and> i < tcp_next s + length ss then ss ! (i - tcp_next s) else tcp_store s i),
       tcp_socks := tcp_socks s @ [tcp_next s ..< tcp_next s + length ss], tcp_next := tcp_next s + length ss\<rparr>"

definition TcpServer_bind :: "(kernel \<times> address) list \<Rightarrow> address list \<Rightarrow> tcp_server \<Rightarrow>
    bool \<times> address list \<times> tcp_server \<times> sock_call list" where
  "TcpServer_bind kas fails s =
     (let (fails, ss, cs) = bind_all kas fails;
          s = add_socks ss s
      in if fails \<noteq> [] then
           let is = tcp_socks s; (s, ds) = let_go is (s\<lparr>tcp_socks := []\<rparr>) in (False, fails, s, cs @ ds)
         else (True, fails, s, cs))"

definition TcpServer_bind_one :: "kernel \<times> address \<Rightarrow> tcp_server \<Rightarrow> bool \<times> tcp_server \<times> sock_call list" where
  "TcpServer_bind_one ka s = (let (ok, fails, s, cs) = TcpServer_bind [ka] [] s in (ok, s, cs))"

section \<open>Running\<close>

definition tcp_start :: "tcp_server \<Rightarrow> bool \<times> tcp_server" where
  "tcp_start s =
     (if \<not> tcp_isStop s then (True, s)
      else (True, s\<lparr>tcp_isStop := False, tcp_tasks := tcp_tasks s @ map Start_accept (tcp_socks s)\<rparr>))"

definition tcp_stop :: "tcp_server \<Rightarrow> tcp_server" where
  "tcp_stop s = s\<lparr>tcp_isStop := True, tcp_tasks := tcp_tasks s @ [Close_socks]\<rparr>"

text \<open>
  What the task of \<open>stop\<close> does: \<open>cancelAll\<close> wakes the loops that wait on the sockets, which changes
  nothing else here, and every socket is closed.
\<close>

definition close_socks :: "tcp_server \<Rightarrow> tcp_server" where
  "close_socks s =
     s\<lparr>tcp_store := (\<lambda>i. if i \<in> set (tcp_socks s) then closed (tcp_store s i) else tcp_store s i), tcp_socks := []\<rparr>"

definition run_task :: "tcp_task \<Rightarrow> tcp_server \<Rightarrow> tcp_server" where
  "run_task t s = (case t of Start_accept i \<Rightarrow> s\<lparr>tcp_loops := tcp_loops s @ [(i, False)]\<rparr> | Close_socks \<Rightarrow> close_socks s)"

text \<open>
  The loop of \<open>startAccept\<close>: the test of its head, and what follows when \<open>accept\<close> returned.
\<close>

definition accept_check :: "nat \<Rightarrow> tcp_server \<Rightarrow> tcp_server" where
  "accept_check j s =
     (let (i, b) = tcp_loops s ! j
      in s\<lparr>tcp_loops := if tcp_isStop s then take j (tcp_loops s) @ drop (Suc j) (tcp_loops s) else (tcp_loops s)[j := (i, True)]\<rparr>)"

definition accept_done :: "kernel \<Rightarrow> fd_table \<Rightarrow> nat \<Rightarrow> tcp_server \<Rightarrow> fault + tcp_server" where
  "accept_done k table j s =
     (let (i, b) = tcp_loops s ! j; s' = s\<lparr>tcp_loops := (tcp_loops s)[j := (i, False)]\<rparr>
      in case Socket_accept k table (tcp_store s i) of
           Inl e \<Rightarrow> Inl e
         | Inr (None, cs) \<Rightarrow> Inr s'
         | Inr (Some client, cs) \<Rightarrow> Inr (s'\<lparr>tcp_clients := tcp_clients s @ [(client, tcp_recvTimeout s)]\<rparr>))"

text \<open>The steps of a server; \<open>start\<close> is apart, so that what happens without it can be stated.\<close>

inductive tcp_step :: "tcp_server \<Rightarrow> tcp_server \<Rightarrow> bool" where
  bind: "TcpServer_bind kas fails s = (ok, fs, s', cs) \<Longrightarrow> tcp_step s s'"
| stop: "tcp_step s (tcp_stop s)"
| timeout: "tcp_step s (tcp_setRecvTimeout v s)"
| task: "tcp_tasks s = ts @ t # us \<Longrightarrow> tcp_step s (run_task t (s\<lparr>tcp_tasks := ts @ us\<rparr>))"
| check: "j < length (tcp_loops s) \<Longrightarrow> \<not> snd (tcp_loops s ! j) \<Longrightarrow> tcp_step s (accept_check j s)"
| accepted: "j < length (tcp_loops s) \<Longrightarrow> snd (tcp_loops s ! j) \<Longrightarrow> accept_done k table j s = Inr s' \<Longrightarrow> tcp_step s s'"

definition tcp_destroy :: "tcp_server \<Rightarrow> tcp_server" where
  "tcp_destroy s = close_socks s"

section \<open>Binding is all or nothing\<close>

definition answers_ok :: "kernel \<times> address \<Rightarrow> bool" where
  "answers_ok ka \<longleftrightarrow> k_socket (fst ka) \<noteq> -1 \<and> k_bind (fst ka) = 0 \<and> k_listen (fst ka) = 0"

lemma bind_one_result:
  assumes "k_socket k \<notin> fds"
  shows "if answers_ok (k, addr) then \<exists>s cs. bind_one (k, addr) = (Some s, cs) \<and> sk_sock s = k_socket k \<and> held fds cs = insert (k_socket k) fds
    else \<exists>cs. bind_one (k, addr) = (None, cs) \<and> held fds cs = fds"
proof -
  have new: "ensure_valid k (CreateTCP addr) =
      ((CreateTCP addr)\<lparr>sk_sock := k_socket k\<rparr>,
       Call_socket (k_socket k) # (if k_socket k \<noteq> -1 then initSock ((CreateTCP addr)\<lparr>sk_sock := k_socket k\<rparr>) else []))"
    by (simp add: ensure_valid_def isValid_def CreateTCP_def Socket_new_def newSock_def Let_def)
  have f: "sk_family (CreateTCP addr) = getFamily addr" "sk_isConnected (CreateTCP addr) = False"
    by (simp_all add: CreateTCP_def Socket_new_def)
  have d: "insert (k_socket k) fds - {k_socket k} = fds" using assms by auto
  consider "k_socket k = -1" | "k_socket k \<noteq> -1" "k_bind k \<noteq> 0" | "k_socket k \<noteq> -1" "k_bind k = 0" by blast
  then show ?thesis
  proof cases
    case 3
    let ?s = "snd (getLocalAddress k ((CreateTCP addr)\<lparr>sk_sock := k_socket k\<rparr>))"
    have "Socket_bind k addr (CreateTCP addr) =
        (True, ?s, Call_socket (k_socket k) # initSock ((CreateTCP addr)\<lparr>sk_sock := k_socket k\<rparr>) @ [Call_bind (k_socket k)])"
      using 3 new f by (simp add: Socket_bind_def isValid_def)
    then show ?thesis using 3 f d
      by (simp add: bind_one_def answers_ok_def Socket_listen_def isValid_def close_calls_def Socket_close_def held_append)
  qed (use new f d in \<open>simp_all add: bind_one_def answers_ok_def Socket_bind_def isValid_def close_calls_def Socket_close_def held_append\<close>)
qed

lemma bind_all_result:
  assumes "distinct (map (k_socket \<circ> fst) (filter (\<lambda>ka. k_socket (fst ka) \<noteq> -1) kas))"
    and "\<forall>ka \<in> set kas. k_socket (fst ka) \<notin> fds"
    and "bind_all kas fails = (fails', ss, cs)"
  shows "map sk_sock ss = map (k_socket \<circ> fst) (filter answers_ok kas) \<and>
    fails' = fails @ map snd (filter (\<lambda>ka. \<not> answers_ok ka) kas) \<and> held fds cs = fds \<union> sk_sock ` set ss"
  using assms
proof (induction kas arbitrary: fails fds ss cs)
  case (Cons ka kas)
  obtain k addr where ka: "ka = (k, addr)" by (cases ka)
  obtain r c1 where one: "bind_one ka = (r, c1)" by (cases "bind_one ka")
  obtain f2 s2 c2 where rest: "bind_all kas (case r of None \<Rightarrow> fails @ [snd ka] | Some s \<Rightarrow> fails) = (f2, s2, c2)"
    by (cases "bind_all kas (case r of None \<Rightarrow> fails @ [snd ka] | Some s \<Rightarrow> fails)") auto
  have k: "k_socket k \<notin> fds" using Cons.prems(2) ka by simp
  have res: "fails' = f2" "ss = (case r of None \<Rightarrow> s2 | Some s \<Rightarrow> s # s2)" "cs = c1 @ c2"
    using Cons.prems(3) one rest by simp_all
  have d: "distinct (map (k_socket \<circ> fst) (filter (\<lambda>ka. k_socket (fst ka) \<noteq> -1) kas))"
    using Cons.prems(1) by (simp add: comp_def split: if_splits)
  show ?case
  proof (cases "answers_ok ka")
    case True
    then obtain s where s: "r = Some s" "sk_sock s = k_socket k" "held fds c1 = insert (k_socket k) fds"
      using bind_one_result [OF k, of addr] one ka by auto
    have n: "k_socket k \<noteq> -1" using True ka by (simp add: answers_ok_def)
    have "\<forall>ka \<in> set kas. k_socket (fst ka) \<notin> insert (k_socket k) fds"
    proof
      fix kb assume b: "kb \<in> set kas"
      have "k_socket (fst kb) \<noteq> k_socket k"
      proof
        assume e: "k_socket (fst kb) = k_socket k"
        then have "kb \<in> set (filter (\<lambda>ka. k_socket (fst ka) \<noteq> -1) kas)" using b n by simp
        then have "k_socket (fst kb) \<in> set (map (k_socket \<circ> fst) (filter (\<lambda>ka. k_socket (fst ka) \<noteq> -1) kas))"
            unfolding set_map by (rule rev_image_eqI) simp
        then show False using Cons.prems(1) ka n e by simp
      qed
      then show "k_socket (fst kb) \<notin> insert (k_socket k) fds" using Cons.prems(2) b by simp
    qed
    from Cons.IH [OF d this rest [folded res(1)]] show ?thesis using res s True ka by (auto simp: held_append)
  next
    case False
    then have s: "r = None" "held fds c1 = fds" using bind_one_result [OF k, of addr] one ka by auto
    have "\<forall>ka \<in> set kas. k_socket (fst ka) \<notin> fds" using Cons.prems(2) by simp
    from Cons.IH [OF d this rest [folded res(1)]] show ?thesis using res s False ka by (auto simp: held_append)
  qed
qed simp

lemma let_go_held:
  assumes "distinct is" "\<forall>i \<in> set is. \<not> referenced s i"
    and "\<forall>i \<in> set is. sk_sock (tcp_store s i) \<noteq> -1"
  shows "held fds (snd (let_go is s)) = fds - (\<lambda>i. sk_sock (tcp_store s i)) ` set is"
proof -
  have "held fds (concat (map (\<lambda>i. close_calls (tcp_store s i)) is)) = fds - (\<lambda>i. sk_sock (tcp_store s i)) ` set is" for fds
    using assms(3)
  proof (induction "is" arbitrary: fds)
    case (Cons i "is")
    have "close_calls (tcp_store s i) = [Call_close (sk_sock (tcp_store s i))]"
      using Cons.prems by (simp add: close_calls_def Socket_close_def)
    then show ?case using Cons by auto
  qed simp
  moreover have "filter (\<lambda>i. \<not> referenced s i) is = is" using assms(2) by simp
  ultimately show ?thesis by (simp add: let_go_def Let_def)
qed



section \<open>Stopping\<close>

text \<open>How many clients may still come: one for each loop that is in \<open>accept\<close>.\<close>

definition in_accept :: "tcp_server \<Rightarrow> nat" where
  "in_accept s = length (filter snd (tcp_loops s))"

lemma filter_update:
  "j < length xs \<Longrightarrow> length (filter P (xs[j := x])) + (if P (xs ! j) then 1 else 0) = length (filter P xs) + (if P x then 1 else 0)"
proof -
  assume j: "j < length xs"
  have "xs = take j xs @ xs ! j # drop (Suc j) xs" using j by (rule id_take_nth_drop)
  then have "length (filter P xs) = length (filter P (take j xs @ xs ! j # drop (Suc j) xs))" by simp
  then show ?thesis using j by (simp add: upd_conv_take_nth_drop)
qed

lemma tcp_step_stopped:
  "tcp_step s s' \<Longrightarrow> tcp_isStop s \<Longrightarrow> tcp_isStop s' \<and>
    (\<exists>new. tcp_clients s' = tcp_clients s @ new \<and> length new + in_accept s' \<le> in_accept s)"
proof (induction rule: tcp_step.induct)
  case (bind kas fails s ok fs s' cs)
  then have "tcp_isStop s' = tcp_isStop s \<and> tcp_clients s' = tcp_clients s \<and> tcp_loops s' = tcp_loops s"
    by (auto simp: TcpServer_bind_def let_go_def add_socks_def Let_def split: prod.splits if_splits)
  then show ?case using bind.prems by (simp add: in_accept_def)
next
  case (task s ts t us)
  then show ?case by (cases t) (simp_all add: run_task_def close_socks_def in_accept_def)
next
  case (check j s)
  have "tcp_loops s = take j (tcp_loops s) @ tcp_loops s ! j # drop (Suc j) (tcp_loops s)"
    using check.hyps(1) by (rule id_take_nth_drop)
  then have "length (filter snd (tcp_loops s)) =
      length (filter snd (take j (tcp_loops s) @ tcp_loops s ! j # drop (Suc j) (tcp_loops s)))" by simp
  then show ?case using check by (simp add: accept_check_def in_accept_def split: prod.split)
next
  case (accepted j s k table s')
  obtain i b where i: "tcp_loops s ! j = (i, b)" by (cases "tcp_loops s ! j")
  have b: "b" using accepted.hyps(2) i by simp
  have f: "length (filter snd ((tcp_loops s)[j := (i, False)])) + 1 = length (filter snd (tcp_loops s))"
    using filter_update [OF accepted.hyps(1), of snd "(i, False)"] i b by simp
  obtain c cs where "Socket_accept k table (tcp_store s i) = Inr (c, cs)"
    using accepted.hyps(3) i by (cases "Socket_accept k table (tcp_store s i)") (auto simp: accept_done_def Let_def)
  then show ?case using accepted f i
    by (cases c) (auto simp: accept_done_def in_accept_def Let_def)
qed (simp_all add: tcp_stop_def tcp_setRecvTimeout_def in_accept_def)

text \<open>
  C25. A server that was stopped accepts no more than is on the way: without another \<open>start\<close>,
  however its tasks and loops are scheduled, at most one more client comes from each loop that
  was inside \<open>accept\<close>, and none once no loop is.
\<close>

theorem stop_bounds_clients:
  assumes "tcp_isStop s" "tcp_step\<^sup>*\<^sup>* s s'"
  shows "tcp_isStop s' \<and> (\<exists>new. tcp_clients s' = tcp_clients s @ new \<and> length new + in_accept s' \<le> in_accept s)"
  using assms(2,1)
proof (induction rule: rtranclp_induct)
  case (step y z)
  then obtain new where n: "tcp_isStop y" "tcp_clients y = tcp_clients s @ new" "length new + in_accept y \<le> in_accept s" by auto
  from tcp_step_stopped [OF step.hyps(2) n(1)] obtain m where
    "tcp_isStop z" "tcp_clients z = tcp_clients y @ m" "length m + in_accept z \<le> in_accept y" by auto
  then show ?case using n by (intro conjI exI [of _ "new @ m"]) auto
qed simp

lemma stop_bounds_clients_witness: "tcp_clients (run_task Close_socks ((tcp_stop (TcpServer_new 0))\<lparr>tcp_tasks := []\<rparr>)) = []"
proof -
  let ?s = "tcp_stop (TcpServer_new 0)"
  have "tcp_step ?s (run_task Close_socks (?s\<lparr>tcp_tasks := [] @ []\<rparr>))"
    by (rule tcp_step.task) (simp add: tcp_stop_def TcpServer_new_def)
  from stop_bounds_clients [OF _ r_into_rtranclp, OF _ this] show ?thesis
    by (simp add: tcp_stop_def TcpServer_new_def in_accept_def)
qed

text \<open>
  Starting again before the task of \<open>stop\<close> has run loses the server: it counts as running, so
  that another \<open>start\<close> does nothing, but when the tasks of the worker have run in their order it
  has no sockets, and the loops it started wait on sockets that are closed.
\<close>

definition run_tasks :: "tcp_server \<Rightarrow> tcp_server" where
  "run_tasks s = fold run_task (tcp_tasks s) (s\<lparr>tcp_tasks := []\<rparr>)"

lemma run_starts:
  "fold run_task (map Start_accept is) s = s\<lparr>tcp_loops := tcp_loops s @ map (\<lambda>i. (i, False)) is\<rparr>"
  by (induction "is" arbitrary: s) (simp_all add: run_task_def)

theorem restart_loses_sockets:
  assumes "tcp_tasks s = []" "tcp_loops s = []"
  shows "let s' = run_tasks (snd (tcp_start (tcp_stop s)))
    in \<not> tcp_isStop s' \<and> tcp_socks s' = [] \<and> snd (tcp_start s') = s' \<and>
       tcp_loops s' = map (\<lambda>i. (i, False)) (tcp_socks s) \<and> (\<forall>(i, b) \<in> set (tcp_loops s'). sk_sock (tcp_store s' i) = -1)"
proof -
  have c: "sk_sock (closed x) = -1" for x by (simp add: closed_def Socket_close_def Let_def)
  have t: "tcp_tasks (snd (tcp_start (tcp_stop s))) = Close_socks # map Start_accept (tcp_socks s)"
    using assms(1) by (simp add: tcp_start_def tcp_stop_def)
  have r: "run_tasks (snd (tcp_start (tcp_stop s))) =
      (close_socks ((snd (tcp_start (tcp_stop s)))\<lparr>tcp_tasks := []\<rparr>))\<lparr>tcp_loops := map (\<lambda>i. (i, False)) (tcp_socks s)\<rparr>"
    unfolding run_tasks_def t using assms(2)
    by (simp add: run_starts) (simp add: run_task_def close_socks_def tcp_start_def tcp_stop_def)
  show ?thesis unfolding r Let_def by (auto simp: close_socks_def tcp_start_def tcp_stop_def c)
qed

lemma restart_loses_sockets_witness:
  "tcp_socks (run_tasks (snd (tcp_start (tcp_stop ((TcpServer_new 0)\<lparr>tcp_socks := [3]\<rparr>))))) = []"
  using restart_loses_sockets [of "(TcpServer_new 0)\<lparr>tcp_socks := [3]\<rparr>"] by (simp add: TcpServer_new_def Let_def)

end
