(* ===== verification/Daemons.thy ===== *)
theory Daemons
  imports Log_Config Envs Utils Tcp_Servers
begin

text \<open>
  The daemon and the application (\<open>sylar/daemon.cc\<close>, \<open>sylar/application.cc\<close>): the process that
  starts its child again when it crashed, the configuration of the HTTP servers, and the start of
  the program, from its arguments to servers that are bound. The answers of the system are
  arguments; log output is left out.
\<close>

section \<open>The daemon\<close>

record process_info =
  parent_id :: int
  main_id :: int
  parent_start_time :: u64
  main_start_time :: u64
  restart_count :: u32

definition ProcessInfo_toString :: "(string \<Rightarrow> int \<Rightarrow> string) \<Rightarrow> process_info \<Rightarrow> fault + string" where
  "ProcessInfo_toString strftime p =
     and_then (Time2Str strftime (sint (parent_start_time p)) ''%Y-%m-%d %H:%M:%S'') (\<lambda>t1.
     and_then (Time2Str strftime (sint (main_start_time p)) ''%Y-%m-%d %H:%M:%S'') (\<lambda>t2.
       Inr (''[ProcessInfo parent_id='' @ dec_int (parent_id p) @ '' main_id='' @ dec_int (main_id p) @
            '' parent_start_time='' @ t1 @ '' main_start_time='' @ t2 @
            '' restart_count='' @ dec (unat (restart_count p)) @ '']'')))"

text \<open>
  What the system answers in one turn of the loop: \<open>fork\<close> fails, or makes a child and \<open>waitpid\<close>
  writes its status; where \<open>waitpid\<close> fails the status stays 0.
\<close>

datatype attempt = Fork_failed | Forked int "int option"

definition status_of :: "int option \<Rightarrow> int" where
  "status_of w = (case w of None \<Rightarrow> 0 | Some s \<Rightarrow> s)"

partial_function (option) daemon_loop :: "(nat \<Rightarrow> attempt) \<Rightarrow> nat \<Rightarrow> process_info \<Rightarrow> (int \<times> process_info) option" where
  "daemon_loop attempts n p =
     (case attempts n of
        Fork_failed \<Rightarrow> Some (-1, p)
      | Forked pid w \<Rightarrow>
          if status_of w \<noteq> 0 then daemon_loop attempts (n + 1) (p\<lparr>restart_count := restart_count p + 1\<rparr>)
          else Some (0, p))"

declare daemon_loop.simps [code]

definition real_daemon :: "int \<Rightarrow> u64 \<Rightarrow> (nat \<Rightarrow> attempt) \<Rightarrow> process_info \<Rightarrow> (int \<times> process_info) option" where
  "real_daemon pid now attempts p = daemon_loop attempts 0 (p\<lparr>parent_id := pid, parent_start_time := now\<rparr>)"

text \<open>The child of a turn: it has a copy of the record, and runs the program.\<close>

definition daemon_child :: "int \<Rightarrow> u64 \<Rightarrow> process_info \<Rightarrow> (process_info \<Rightarrow> 'a) \<Rightarrow> 'a" where
  "daemon_child pid now p main_cb = main_cb (p\<lparr>main_id := pid, main_start_time := now\<rparr>)"

definition real_start :: "(string list \<Rightarrow> int) \<Rightarrow> string list \<Rightarrow> int" where
  "real_start main_cb argv = main_cb argv"

text \<open>\<open>start_daemon\<close> as its caller sees it: nothing where it does not return.\<close>

definition start_daemon :: "string list \<Rightarrow> (string list \<Rightarrow> int) \<Rightarrow> bool \<Rightarrow> int \<Rightarrow> u64 \<Rightarrow> (nat \<Rightarrow> attempt) \<Rightarrow> process_info \<Rightarrow> int option" where
  "start_daemon argv main_cb is_daemon pid now attempts p =
     (if \<not> is_daemon then Some (real_start main_cb argv) else map_option fst (real_daemon pid now attempts p))"

section \<open>The configuration of the servers\<close>

record server_conf =
  sc_address :: "string list"
  sc_keepalive :: int
  sc_timeout :: int
  sc_name :: string

definition HttpServerConf_new :: server_conf where
  "HttpServerConf_new = \<lparr>sc_address = [], sc_keepalive = 0, sc_timeout = 1000 * 2 * 60, sc_name = []\<rparr>"

definition conf_isValid :: "server_conf \<Rightarrow> bool" where
  "conf_isValid c = (sc_address c \<noteq> [])"

text \<open>\<open>as<int>\<close> and \<open>as<std::string>\<close> with a default give it where the node is undefined or no such scalar.\<close>

record app_yaml = log_yaml +
  yl_int :: "string \<Rightarrow> int option"

definition int_or :: "app_yaml \<Rightarrow> int \<Rightarrow> yaml option \<Rightarrow> int" where
  "int_or lib d n = (case n of Some (Scalar t) \<Rightarrow> (case yl_int lib t of Some v \<Rightarrow> v | None \<Rightarrow> d) | _ \<Rightarrow> d)"

definition string_or :: "string \<Rightarrow> yaml option \<Rightarrow> string" where
  "string_or d n = (case n of Some (Scalar t) \<Rightarrow> t | _ \<Rightarrow> d)"

definition conf_from :: "app_yaml \<Rightarrow> string \<Rightarrow> fault + server_conf" where
  "conf_from lib v =
     and_then (yl_load lib v) (\<lambda>node.
     and_then (field (log_yaml.truncate lib) ''keepalive'' node) (\<lambda>k.
     and_then (field (log_yaml.truncate lib) ''timeout'' node) (\<lambda>t.
     and_then (field (log_yaml.truncate lib) ''name'' node) (\<lambda>n.
     and_then (field (log_yaml.truncate lib) ''address'' node) (\<lambda>a.
     and_then (each (as_string (log_yaml.truncate lib)) (case a of None \<Rightarrow> [] | Some m \<Rightarrow> nodes (yl_map_at lib) m)) (\<lambda>as.
       Inr \<lparr>sc_address = as, sc_keepalive = int_or lib 0 k, sc_timeout = int_or lib (1000 * 2 * 60) t,
            sc_name = string_or [] n\<rparr>))))))"

definition conf_node :: "server_conf \<Rightarrow> yaml" where
  "conf_node c = Map
     ([(''name'', Scalar (sc_name c)), (''keepalive'', Scalar (dec_int (sc_keepalive c))),
       (''timeout'', Scalar (dec_int (sc_timeout c)))] @
      (if sc_address c = [] then [] else [(''address'', Sequence (map Scalar (sc_address c)))]))"

definition conf_to :: "app_yaml \<Rightarrow> server_conf \<Rightarrow> string" where
  "conf_to lib c = yl_emit lib (conf_node c)"

section \<open>The application\<close>

text \<open>The configuration as a program: the table of variables, with values whose text is \<open>text_of\<close>.\<close>

definition conf_text :: "('v \<Rightarrow> string) \<Rightarrow> string \<Rightarrow> 'v config_table \<Rightarrow> string" where
  "conf_text text_of name s_datas = (case s_datas name of Some cv \<Rightarrow> text_of (cv_val cv) | None \<Rightarrow> [])"

definition pidfile_path :: "('v \<Rightarrow> string) \<Rightarrow> 'v config_table \<Rightarrow> string" where
  "pidfile_path text_of s_datas =
     conf_text text_of ''server.work_path'' s_datas @ ''/'' @ conf_text text_of ''server.pid_file'' s_datas"

text \<open>
  What \<open>init\<close> asks of the system: the link of the executable, the files of configuration under a
  path, the first line of a file, which processes live, which paths can be made and which exist.
\<close>

record 'v app_system =
  as_link :: string
  as_conf_files :: "string \<Rightarrow> conf_file list"
  as_emit :: "yaml \<Rightarrow> string"
  as_text_of :: "'v \<Rightarrow> string"
  as_first_line :: "string \<Rightarrow> string option"
  as_alive :: "int \<Rightarrow> bool"
  as_can_mkdir :: "string set \<Rightarrow> string \<Rightarrow> bool"
  as_lstat :: "string \<Rightarrow> bool"
  as_paths :: "string set"

definition app_helps :: "env \<Rightarrow> env" where
  "app_helps e = addHelp ''p'' ''print help'' (addHelp ''c'' ''conf path default: ./conf''
     (addHelp ''d'' ''run as daemon'' (addHelp ''s'' ''start with the terminal'' e)))"

definition app_init :: "'v app_system \<Rightarrow> string list \<Rightarrow> env \<Rightarrow> (string \<Rightarrow> u64) \<times> 'v config_table \<Rightarrow>
    fault + bool \<times> env \<times> (string \<Rightarrow> u64) \<times> 'v config_table" where
  "app_init sys argv e c =
     (case env_init (as_link sys) argv (app_helps e) of
        (Inl f, e) \<Rightarrow> Inl f
      | (Inr ok, e) \<Rightarrow>
          if \<not> ok then Inr (False, e, c)
          else if env_has ''p'' e then Inr (False, e, c)
          else if \<not> env_has ''s'' e \<and> \<not> env_has ''d'' e then Inr (False, e, c)
          else
            let conf_path = getAbsolutePath (env_get ''c'' ''conf'' e) e;
                c = LoadFromConfDir (as_emit sys) (as_conf_files sys conf_path) c;
                pidfile = pidfile_path (as_text_of sys) (snd c);
                work = conf_text (as_text_of sys) ''server.work_path'' (snd c)
            in if IsRunningPidfile (as_alive sys) (as_first_line sys pidfile) then Inr (False, e, c)
               else map_sum id (\<lambda>(ok, fs). (ok, e, c)) (Mkdir (as_can_mkdir sys) (as_lstat sys work) work (as_paths sys)))"

text \<open>The \<open>int\<close> of \<open>start_daemon\<close> is returned as a bool.\<close>

definition app_run :: "env \<Rightarrow> string list \<Rightarrow> (string list \<Rightarrow> int) \<Rightarrow> int \<Rightarrow> u64 \<Rightarrow> (nat \<Rightarrow> attempt) \<Rightarrow> process_info \<Rightarrow> bool option" where
  "app_run e argv main_cb pid now attempts p =
     map_option (\<lambda>r. r \<noteq> 0) (start_daemon argv main_cb (env_has ''d'' e) pid now attempts p)"

text \<open>
  \<open>run_fiber\<close>: the addresses of one text, none where it is skipped with an error; a text without a
  colon is a path. \<open>host\<close> is the byte order, \<open>getaddrinfo\<close> and \<open>ifas\<close> are the system's.
\<close>

definition conf_address :: "endian \<Rightarrow> (string \<Rightarrow> address list option) \<Rightarrow> ifaddr list option \<Rightarrow> string \<Rightarrow> fault + address option list" where
  "conf_address host getaddrinfo ifas a =
     (if CHR '':'' \<notin> set a then map_sum id (\<lambda>u. [Some u]) (UnixAddress_new (map of_char a)) else
      let name = takeWhile (\<lambda>c. c \<noteq> CHR '':'') a;
          port = atoi (c_str (tl (dropWhile (\<lambda>c. c \<noteq> CHR '':'') a)))
      in case IPAddress_Create host getaddrinfo (c_str name) (word_of_int port) of
           Some addr \<Rightarrow> Inr [Some addr]
         | None \<Rightarrow>
             let (ok, result) = GetInterfaceAddresses_of host ifas name AF_UNSPEC
             in if \<not> ok then Inr []
                else Inr (map (\<lambda>(x, _). if is_ip x then Some (setPort host (word_of_int port) x) else None) result))"

text \<open>A null address is dereferenced by \<open>bind\<close>.\<close>

definition all_addresses :: "address option list \<Rightarrow> fault + address list" where
  "all_addresses as = (if None \<in> set as then Inl Null_deref else Inr (map the as))"

record http_server =
  hs_keepalive :: bool
  hs_server :: tcp_server

text \<open>One server: none where it could not be bound, and the process exits with the status 0.\<close>

definition start_server :: "u64 \<Rightarrow> (address \<Rightarrow> kernel) \<Rightarrow> address list \<Rightarrow> server_conf \<Rightarrow> http_server option" where
  "start_server timeout kern addrs c =
     (let s = TcpServer_new timeout;
          (ok, fails, s, cs) = TcpServer_bind (map (\<lambda>a. (kern a, a)) addrs) [] s
      in if \<not> ok then None
         else let s = (if sc_name c \<noteq> [] then tcp_setName (sc_name c) s else s)
              in Some \<lparr>hs_keepalive = (sc_keepalive c \<noteq> 0), hs_server = snd (tcp_start s)\<rparr>)"

definition conf_server :: "endian \<Rightarrow> (string \<Rightarrow> address list option) \<Rightarrow> ifaddr list option \<Rightarrow> u64 \<Rightarrow> (address \<Rightarrow> kernel) \<Rightarrow>
    server_conf \<Rightarrow> fault + http_server option" where
  "conf_server host getaddrinfo ifas timeout kern c =
     and_then (each (conf_address host getaddrinfo ifas) (sc_address c)) (\<lambda>as.
     and_then (all_addresses (concat as)) (\<lambda>addrs. Inr (start_server timeout kern addrs c)))"

datatype fiber_end = Exit_zero | Serving "http_server list" | Threw fault "http_server list"

fun run_fiber :: "(server_conf \<Rightarrow> fault + http_server option) \<Rightarrow> server_conf list \<Rightarrow> http_server list \<Rightarrow> fiber_end" where
  "run_fiber one [] hs = Serving hs"
| "run_fiber one (c # cs) hs =
     (case one c of Inl e \<Rightarrow> Threw e hs | Inr None \<Rightarrow> Exit_zero | Inr (Some h) \<Rightarrow> run_fiber one cs (hs @ [h]))"

text \<open>
  \<open>main\<close>: the file of the process and the fiber. The status \<open>waitpid\<close> gives for the process, none
  while it serves. An exception ends the fiber, and \<open>main\<close> returns 0 unless servers that were
  started still accept; what is no exception is a signal.
\<close>

definition is_exception :: "fault \<Rightarrow> bool" where
  "is_exception e = (case e of Out_of_range _ \<Rightarrow> True | Logic_error _ \<Rightarrow> True | Invalid_argument _ \<Rightarrow> True | _ \<Rightarrow> False)"

definition app_main :: "bool \<Rightarrow> fiber_end \<Rightarrow> int option" where
  "app_main pidfile_opens fiber =
     (if \<not> pidfile_opens then Some 0
      else case fiber of
        Exit_zero \<Rightarrow> Some 0
      | Serving hs \<Rightarrow> None
      | Threw e hs \<Rightarrow>
          if \<not> is_exception e then Some 11
          else if \<exists>h \<in> set hs. tcp_socks (hs_server h) \<noteq> [] then None else Some 0)"

text \<open>What \<open>main\<close> writes into the file: its own number.\<close>

definition pidfile_text :: "nat \<Rightarrow> string" where
  "pidfile_text pid = dec pid"

section \<open>Properties\<close>

definition crashed :: "attempt \<Rightarrow> bool" where
  "crashed a = (case a of Fork_failed \<Rightarrow> False | Forked pid w \<Rightarrow> status_of w \<noteq> 0)"

lemma daemon_skip:
  assumes "\<forall>i < n. crashed (attempts (k + i))"
  shows "daemon_loop attempts k p = daemon_loop attempts (k + n) (p\<lparr>restart_count := restart_count p + of_nat n\<rparr>)"
  using assms
proof (induction n arbitrary: k p)
  case (Suc n)
  have "crashed (attempts k)" using Suc.prems [rule_format, of 0] by simp
  then have "daemon_loop attempts k p = daemon_loop attempts (k + 1) (p\<lparr>restart_count := restart_count p + 1\<rparr>)"
    by (subst daemon_loop.simps) (auto simp: crashed_def split: attempt.splits)
  also have "\<dots> = daemon_loop attempts (k + 1 + n)
      ((p\<lparr>restart_count := restart_count p + 1\<rparr>)\<lparr>restart_count := restart_count (p\<lparr>restart_count := restart_count p + 1\<rparr>) + of_nat n\<rparr>)"
    by (rule Suc.IH) (use Suc.prems in force)
  finally show ?case by (simp add: add.assoc)
qed simp

lemma daemon_returns: "daemon_loop attempts k p = Some r \<Longrightarrow> \<exists>i. \<not> crashed (attempts (k + i))"
proof (rule daemon_loop.raw_induct [of "\<lambda>attempts k p r. \<exists>i. \<not> crashed (attempts (k + i))"])
  fix f :: "(nat \<Rightarrow> attempt) \<Rightarrow> nat \<Rightarrow> process_info \<Rightarrow> (int \<times> process_info) option" and attempts n p r
  assume ih: "\<And>attempts k p r. f attempts k p = Some r \<Longrightarrow> \<exists>i. \<not> crashed (attempts (k + i))"
    and b: "(case attempts n of Fork_failed \<Rightarrow> Some (-1, p)
      | Forked pid w \<Rightarrow>
          if status_of w \<noteq> 0 then f attempts (n + 1) (p\<lparr>restart_count := restart_count p + 1\<rparr>) else Some (0, p)) = Some r"
  show "\<exists>i. \<not> crashed (attempts (n + i))"
  proof (cases "crashed (attempts n)")
    case True
    then have "f attempts (n + 1) (p\<lparr>restart_count := restart_count p + 1\<rparr>) = Some r"
      using b by (auto simp: crashed_def split: attempt.splits if_splits)
    from ih [OF this] obtain i where "\<not> crashed (attempts (n + 1 + i))" by blast
    then show ?thesis by (intro exI [of _ "Suc i"]) simp
  next
    case False
    then show ?thesis by (intro exI [of _ 0]) simp
  qed
qed

text \<open>
  C21. The daemon starts its program again exactly while it crashes: it returns when, and only
  when, a turn comes in which \<open>fork\<close> fails or the child ends with status 0, or cannot be waited
  for, which counts as that; then it gives -1 or 0, and has counted the children that crashed
  before; if every child crashes it never returns.
\<close>

theorem daemon_restarts:
  "daemon_loop attempts 0 p = Some (r, q) \<longleftrightarrow>
    (\<exists>n. (\<forall>i < n. crashed (attempts i)) \<and> \<not> crashed (attempts n) \<and> r = (if attempts n = Fork_failed then -1 else 0) \<and>
      q = p\<lparr>restart_count := restart_count p + of_nat n\<rparr>)"
proof -
  have stop: "\<not> crashed (attempts n) \<Longrightarrow> daemon_loop attempts n p = Some (if attempts n = Fork_failed then -1 else 0, p)" for n p
    by (subst daemon_loop.simps) (auto simp: crashed_def split: attempt.splits)
  have run: "daemon_loop attempts 0 p = Some (if attempts n = Fork_failed then -1 else 0, p\<lparr>restart_count := restart_count p + of_nat n\<rparr>)"
    if "\<forall>i < n. crashed (attempts i)" "\<not> crashed (attempts n)" for n
    using daemon_skip [of n attempts 0 p] stop [OF that(2)] that(1) by simp
  show ?thesis
  proof
    assume l: "daemon_loop attempts 0 p = Some (r, q)"
    have "\<exists>i. \<not> crashed (attempts i)" using daemon_returns [OF l] by auto
    then obtain n where n: "\<not> crashed (attempts n)" "\<forall>i < n. crashed (attempts i)"
      using exists_least_iff [of "\<lambda>i. \<not> crashed (attempts i)"] by blast
    have "(r, q) = (if attempts n = Fork_failed then -1 else 0, p\<lparr>restart_count := restart_count p + of_nat n\<rparr>)"
      using run [OF n(2,1)] l by (metis option.inject)
    then show "\<exists>n. (\<forall>i < n. crashed (attempts i)) \<and> \<not> crashed (attempts n) \<and> r = (if attempts n = Fork_failed then -1 else 0) \<and>
        q = p\<lparr>restart_count := restart_count p + of_nat n\<rparr>"
      using n by (intro exI [of _ n]) simp
  next
    assume "\<exists>n. (\<forall>i < n. crashed (attempts i)) \<and> \<not> crashed (attempts n) \<and> r = (if attempts n = Fork_failed then -1 else 0) \<and>
        q = p\<lparr>restart_count := restart_count p + of_nat n\<rparr>"
    then show "daemon_loop attempts 0 p = Some (r, q)" using run by auto
  qed
qed

lemma daemon_restarts_witness:
  "daemon_loop (\<lambda>n. if n < 2 then Forked 7 (Some 139) else Forked 8 (Some 0)) 0
     \<lparr>parent_id = 5, main_id = 0, parent_start_time = 0, main_start_time = 0, restart_count = 0\<rparr> =
   Some (0, \<lparr>parent_id = 5, main_id = 0, parent_start_time = 0, main_start_time = 0, restart_count = 2\<rparr>)"
  unfolding daemon_restarts by (intro exI [of _ 2]) (simp add: crashed_def status_of_def)

text \<open>
  C37. A start that fails is taken for success: when the file of the process cannot be opened, or a
  server cannot be bound, the process ends with status 0, so the daemon does not start it again
  and returns 0 at once; and \<open>run\<close>, which gives that number as a truth value, returns false.
\<close>

theorem failed_start_not_restarted:
  assumes "\<not> pidfile_opens \<or> fiber = run_fiber one (as @ c # bs) [] \<and> one c = Inr None \<and> (\<forall>b \<in> set as. \<exists>h. one b = Inr (Some h))"
    and "attempts 0 = Forked pid (app_main pidfile_opens fiber)" "env_has ''d'' e"
  shows "app_main pidfile_opens fiber = Some 0 \<and>
    real_daemon me now attempts p = Some (0, p\<lparr>parent_id := me, parent_start_time := now\<rparr>) \<and>
    app_run e argv main_cb me now attempts p = Some False"
proof -
  have "run_fiber one (as @ c # bs) hs = Exit_zero" if "one c = Inr None" "\<forall>b \<in> set as. \<exists>h. one b = Inr (Some h)" for hs
    using that by (induction as arbitrary: hs) auto
  then have m: "app_main pidfile_opens fiber = Some 0" using assms(1) by (auto simp: app_main_def)
  then have "real_daemon me now attempts p = Some (0, p\<lparr>parent_id := me, parent_start_time := now\<rparr>)"
    using assms(2) unfolding real_daemon_def by (subst daemon_loop.simps) (simp add: status_of_def)
  then show ?thesis using m assms(3) by (simp add: app_run_def start_daemon_def)
qed

lemma failed_start_not_restarted_witness:
  "app_run (env_add ''d'' [] Env_new) [''run''] (\<lambda>_. 0) 1 0 (\<lambda>_. Forked 2 (Some 0))
     \<lparr>parent_id = 0, main_id = 0, parent_start_time = 0, main_start_time = 0, restart_count = 0\<rparr> = Some False"
  using failed_start_not_restarted [of False "Serving []" "\<lambda>_. Inr None" "[]" HttpServerConf_new "[]" "\<lambda>_. Forked 2 (Some 0)" 2
      "env_add ''d'' [] Env_new" 1 0
      "\<lparr>parent_id = 0, main_id = 0, parent_start_time = 0, main_start_time = 0, restart_count = 0\<rparr>" "[''run'']" "\<lambda>_. 0"]
  by (simp add: app_main_def env_has_def env_add_def)

text \<open>
  The configuration of a server survives being written and read: when the library reads the
  node it wrote, and reads the numbers it wrote, the address list, the two numbers and the name
  come back, also where the list is empty and so is not written.
\<close>

theorem conf_roundtrip:
  assumes "yl_load lib (yl_emit lib (conf_node c)) = Inr (conf_node c)"
    and "yl_int lib (dec_int (sc_keepalive c)) = Some (sc_keepalive c)" "yl_int lib (dec_int (sc_timeout c)) = Some (sc_timeout c)"
  shows "conf_from lib (conf_to lib c) = Inr c"
proof -
  let ?l = "log_yaml.truncate lib" and ?n = "conf_node c"
  have f: "field ?l ''keepalive'' ?n = Inr (Some (Scalar (dec_int (sc_keepalive c))))"
    "field ?l ''timeout'' ?n = Inr (Some (Scalar (dec_int (sc_timeout c))))" "field ?l ''name'' ?n = Inr (Some (Scalar (sc_name c)))"
    "field ?l ''address'' ?n = Inr (if sc_address c = [] then None else Some (Sequence (map Scalar (sc_address c))))"
    by (simp_all add: conf_node_def field_def)
  have "each (as_string ?l) (map Scalar (sc_address c)) = Inr (map id (sc_address c))"
    by (rule each_of_map) (simp add: as_string_def)
  then have "each (as_string ?l) (case if sc_address c = [] then None else Some (Sequence (map Scalar (sc_address c))) of
      None \<Rightarrow> [] | Some m \<Rightarrow> nodes (yl_map_at lib) m) = Inr (sc_address c)"
    by (simp add: nodes_def)
  then show ?thesis
    unfolding conf_from_def conf_to_def assms(1) and_then_simps f using assms(2,3) by (simp add: int_or_def string_or_def)
qed

lemma conf_roundtrip_witness:
  "\<exists>lib. conf_from lib (conf_to lib \<lparr>sc_address = [''0.0.0.0:80''], sc_keepalive = 1, sc_timeout = 5, sc_name = ''web''\<rparr>) =
     Inr \<lparr>sc_address = [''0.0.0.0:80''], sc_keepalive = 1, sc_timeout = 5, sc_name = ''web''\<rparr>"
proof -
  let ?c = "\<lparr>sc_address = [''0.0.0.0:80''], sc_keepalive = 1, sc_timeout = 5, sc_name = ''web''\<rparr>"
  let ?lib = "\<lparr>yl_load = (\<lambda>t. Inr (conf_node ?c)), yl_emit = (\<lambda>n. ''conf''), yl_map_at = (\<lambda>kvs. []),
    yl_as = (\<lambda>n. Inl Undefined), yl_bad = Undefined, yl_int = (\<lambda>t. if t = dec_int 1 then Some 1 else Some 5)\<rparr>"
  have "dec_int 5 \<noteq> dec_int 1" by code_simp
  then have "conf_from ?lib (conf_to ?lib ?c) = Inr ?c" by (intro conf_roundtrip) simp_all
  then show ?thesis by blast
qed

text \<open>
  C26. Only one instance starts: when the file of the process, at the place the configuration says
  after it was loaded, holds what \<open>main\<close> of a running process wrote there, \<open>init\<close> fails, whatever the
  arguments and the files of configuration are.
\<close>

theorem single_instance:
  assumes "app_init sys argv e c = Inr (ok, e', c')"
    and "as_first_line sys (pidfile_path (as_text_of sys) (snd c')) = Some (pidfile_text pid)"
    and "1 < pid" "pid < 2 ^ 31" "as_alive sys (int pid)"
  shows "\<not> ok"
proof
  assume ok
  obtain r e1 where i: "env_init (as_link sys) argv (app_helps e) = (r, e1)" by (cases "env_init (as_link sys) argv (app_helps e)")
  have r: "r = Inr True" "\<not> env_has ''p'' e1" "env_has ''s'' e1 \<or> env_has ''d'' e1"
    using assms(1) i \<open>ok\<close> by (auto simp: app_init_def split: sum.splits if_splits)
  let ?c = "LoadFromConfDir (as_emit sys) (as_conf_files sys (getAbsolutePath (env_get ''c'' ''conf'' e1) e1)) c"
  have "c' = ?c \<and> \<not> IsRunningPidfile (as_alive sys) (as_first_line sys (pidfile_path (as_text_of sys) (snd ?c)))"
    using assms(1) i r \<open>ok\<close> by (auto simp: app_init_def Let_def map_sum_def split: if_splits sum.splits prod.splits)
  then show False using assms(2) pidfile_read [OF assms(3,4), of "as_alive sys"] assms(5) by (simp add: pidfile_text_def)
qed

definition running_system :: "string app_system" where
  "running_system = \<lparr>as_link = ''/run'', as_conf_files = (\<lambda>p. []), as_emit = (\<lambda>n. []), as_text_of = id,
     as_first_line = (\<lambda>p. Some (pidfile_text 42)), as_alive = (\<lambda>pid. True), as_can_mkdir = (\<lambda>fs p. True),
     as_lstat = (\<lambda>p. True), as_paths = {}\<rparr>"

lemma single_instance_witness:
  "\<exists>ok e' c'. app_init running_system [''run'', ''-s''] Env_new (\<lambda>_. 0, \<lambda>_. None) = Inr (ok, e', c') \<and> \<not> ok"
proof -
  obtain ok e' c' where r: "app_init running_system [''run'', ''-s''] Env_new (\<lambda>_. 0, \<lambda>_. None) = Inr (ok, e', c')"
    by (cases "app_init running_system [''run'', ''-s''] Env_new (\<lambda>_. 0, \<lambda>_. None)")
      (auto simp: app_init_def env_init_def running_system_def Mkdir_def Let_def env_has_def split: if_splits)
  have "\<not> ok" by (rule single_instance [OF r, of 42]) (simp_all add: running_system_def)
  then show ?thesis using r by blast
qed

definition unknown_name :: "endian \<Rightarrow> (string \<Rightarrow> address list option) \<Rightarrow> ifaddr list \<Rightarrow> string \<Rightarrow> bool" where
  "unknown_name host getaddrinfo ifas a \<longleftrightarrow>
     CHR '':'' \<in> set a \<and> (let name = takeWhile (\<lambda>c. c \<noteq> CHR '':'') a
       in name \<noteq> [] \<and> name \<noteq> ''*'' \<and> getaddrinfo (c_str name) = None \<and> (\<forall>i \<in> set ifas. ifa_name i \<noteq> name))"

lemma unknown_dropped: "unknown_name host getaddrinfo ifas a \<Longrightarrow> conf_address host getaddrinfo (Some ifas) a = Inr []"
proof -
  assume u: "unknown_name host getaddrinfo ifas a"
  let ?name = "takeWhile (\<lambda>c. c \<noteq> CHR '':'') a"
  have "set (concat (map (interface_entry AF_UNSPEC) ifas)) \<subseteq> {e. fst e \<noteq> ?name}"
    using u by (auto simp: unknown_name_def interface_entry_def Let_def split: if_splits)
  then have "filter (\<lambda>e. fst e = ?name) (concat (map (interface_entry AF_UNSPEC) ifas)) = []" by (auto simp: filter_empty_conv)
  then have g: "GetInterfaceAddresses_of host (Some ifas) ?name AF_UNSPEC = (True, [])"
    using u by (simp add: GetInterfaceAddresses_of_def GetInterfaceAddresses_def unknown_name_def Let_def)
  have "IPAddress_Create host getaddrinfo (c_str ?name) p = None" for p using u by (simp add: IPAddress_Create_def unknown_name_def Let_def)
  then show ?thesis using u g by (simp add: conf_address_def unknown_name_def Let_def)
qed

text \<open>
  An address that cannot be resolved is dropped without an error: a text with a colon whose
  name neither the resolver knows nor an interface has gives no address, and a server whose
  addresses are all of this kind starts, counts as running, and listens nowhere.
\<close>

theorem unresolved_silent:
  assumes "\<forall>a \<in> set (sc_address c). unknown_name host getaddrinfo ifas a"
  shows "\<exists>h. conf_server host getaddrinfo (Some ifas) timeout kern c = Inr (Some h) \<and>
    tcp_socks (hs_server h) = [] \<and> \<not> tcp_isStop (hs_server h) \<and> tcp_tasks (hs_server h) = []"
proof -
  have "each (conf_address host getaddrinfo (Some ifas)) (sc_address c) = Inr (map (\<lambda>_. []) (sc_address c))"
    using assms unknown_dropped by (intro each_map) blast
  moreover have "concat (map (\<lambda>_. []) (sc_address c)) = ([] :: address option list)" by (induction "sc_address c") auto
  ultimately have "conf_server host getaddrinfo (Some ifas) timeout kern c = Inr (start_server timeout kern [] c)"
    by (simp only: conf_server_def all_addresses_def and_then_simps) simp
  then show ?thesis
    by (auto simp: start_server_def TcpServer_bind_def add_socks_def TcpServer_new_def tcp_start_def tcp_setName_def Let_def)
qed

lemma unresolved_silent_witness:
  "\<exists>h. conf_server SYLAR_LITTLE_ENDIAN (\<lambda>_. None) (Some []) 0 kern \<lparr>sc_address = [''eth9:80''], sc_keepalive = 0, sc_timeout = 0, sc_name = []\<rparr> =
     Inr (Some h) \<and> tcp_socks (hs_server h) = []"
  using unresolved_silent [of "\<lparr>sc_address = [''eth9:80''], sc_keepalive = 0, sc_timeout = 0, sc_name = []\<rparr>" SYLAR_LITTLE_ENDIAN "\<lambda>_. None" "[]" 0 kern]
  by (auto simp: unknown_name_def)

text \<open>
  A text that begins with a colon, as the loopback address of IPv6 does, opens the server to
  everyone: when the resolver has no address for the empty name, it stands for the addresses of
  all interfaces, and where a second colon follows at once, at a port that the system chooses.
\<close>

theorem leading_colon_binds_any:
  assumes "getaddrinfo [] = None"
  shows "conf_address host getaddrinfo ifas (CHR '':'' # rest) =
    Inr [Some (setPort host (word_of_int (atoi (c_str rest))) (IPv4Address (IPv4Address_new host 0 0))),
         Some (setPort host (word_of_int (atoi (c_str rest))) (IPv6Address IPv6Address_any))] \<and>
    (rest \<noteq> [] \<and> hd rest = CHR '':'' \<longrightarrow> atoi (c_str rest) = 0)"
proof -
  have "atoi (CHR '':'' # t) = 0" for t
  proof -
    have "digit_of 10 (CHR '':'') = None" "\<not> isspace (CHR '':'')" by code_simp+
    then have "strtol 10 (CHR '':'' # t) = 0" by (simp add: strtol_def skip_prefix_def Let_def split: list.split)
    then show ?thesis by (simp add: atoi_def Texts.to_int_def)
  qed
  then have "rest \<noteq> [] \<and> hd rest = CHR '':'' \<longrightarrow> atoi (c_str rest) = 0" by (cases rest) (auto simp: c_str_def)
  then show ?thesis using assms
    by (simp add: conf_address_def IPAddress_Create_def GetInterfaceAddresses_of_def is_ip_def c_str_def AF_UNSPEC_def Let_def)
qed

lemma leading_colon_binds_any_witness:
  "conf_address SYLAR_LITTLE_ENDIAN (\<lambda>_. None) None ''::1:80'' =
     Inr [Some (setPort SYLAR_LITTLE_ENDIAN 0 (IPv4Address (IPv4Address_new SYLAR_LITTLE_ENDIAN 0 0))), Some (setPort SYLAR_LITTLE_ENDIAN 0 (IPv6Address IPv6Address_any))]"
  using leading_colon_binds_any [of "\<lambda>_. None" SYLAR_LITTLE_ENDIAN None "'':1:80''"] by simp

end
