(* ===== verification/Spec2Isabelle.thy ===== *)
theory Spec2Isabelle
  imports Bytearray_Props Timers Fibers Schedulers Fd_Manager Iomanager Hook Http_Messages Servlets
    Request_Props Response_Props Uri_Props Http_Sessions Stream_Bytes Http_Connections Connection_Pools
    Threads Daemons
begin

text \<open>
  A verification development of sylar, a C++ framework for servers (the directory \<open>src/sylar\<close>).

  \<^bold>\<open>The program.\<close> A fiber is a computation with a stack of its own. A scheduler runs
  fibers on a pool of threads; the I/O manager is a scheduler that is also a set of timers and a
  user of \<open>epoll\<close>, and lets a fiber wait for a descriptor or for a time. The system calls that
  would block a thread are hooked: they register with the I/O manager and give the thread back.
  Over the hooked calls there are sockets, streams, a TCP server that accepts in a fiber of its
  own, and an HTTP server and client with parsers that Ragel generated. Addresses, URIs and a
  buffer for binary protocols are data types they use. Logging and configuration are used
  everywhere and by each other; the application reads its arguments and its configuration, starts
  as a daemon and binds its servers.

  \<^bold>\<open>How the code is translated.\<close> A class or structure is a \<open>record\<close> with the members of
  the source, an enumeration a \<open>datatype\<close> or a number where the code casts numbers to it. A member
  function is a function from the object to its result and the object afterwards (the type
  \<open>call\<close> of \<open>Prelude\<close>); an exception, a failed assertion, a null dereference and other undefined
  behaviour are values of the type \<open>fault\<close>. Integers are words of their width where they can wrap.
  Objects that are shared through pointers live in a store, a function or list from addresses,
  which is a part of the state. What runs between taking a lock and giving it back is one step; the
  behaviours of several threads are the runs of an \<open>inductive\<close> relation that takes such steps in
  any order. Log output is left out except in the model of the logger itself. What an operation
  learns from outside (the kernel, the resolver, the clock, \<open>fnmatch\<close>, \<open>strftime\<close>, \<open>fork\<close>,
  yaml-cpp, \<open>boost::lexical_cast\<close>) is an argument: an answer, a list of answers, one per call, or
  a function. Nothing is assumed of them but what a theorem says in its premises.

  \<^bold>\<open>Foundations.\<close>
  \<^item> \<open>Prelude\<close>: machine types, faults, calls and their composition \<open>seqc\<close> (collection
    \<open>call_simps\<close>), slices of lists (collection \<open>list_slices\<close>).
  \<^item> \<open>Texts\<close>: strings, decimal and hexadecimal numbers, \<open>strcasecmp\<close>, and what reading a
    written number gives.
  \<^item> \<open>Ordered_Containers\<close>: \<open>std::set\<close> and \<open>std::map\<close> as sorted lists searched by their comparison
    only. Their lemmas are proved in the locale \<open>strict_weak_order\<close> and its extension
    \<open>strict_linear_order\<close>, which are interpreted on the comparisons of the code: that of timers
    (\<open>Timers\<close>), \<open>CaseInsensitiveLess\<close> (\<open>Http_Messages\<close>), that of logger definitions
    (\<open>Log_Config\<close>) and the keys of listeners (\<open>Configs\<close>).
  \<^item> \<open>Endian\<close>: \<open>endian.h\<close>, with the order of the host as an argument.
  \<^item> \<open>Ragel\<close>: the shape of the generated parsers; the loop \<open>run\<close> over a table of states.

  \<^bold>\<open>Fibers, threads and events.\<close>
  \<^item> \<open>Threads\<close> (\<open>thread.h\<close>, \<open>thread.cc\<close>): the three guards of locks, which are interpretations of
    the locale \<open>scoped_guard\<close>; the spinning lock, with mutual exclusion over every interleaving;
    the semaphore and the constructor of a thread, which waits until the new thread has its number
    and its name.
  \<^item> \<open>Fibers\<close> (\<open>fiber.cc\<close>): creation, reuse, switching in and out, the entry functions. \<open>consistent\<close>
    says that each context holds the execution of its fiber, and every switch keeps it.
  \<^item> \<open>Schedulers\<close> (\<open>scheduler.cc\<close>): the queue and its scan (\<open>scan\<close>), the two halves of the loop
    (\<open>run_pick\<close>, \<open>run_after\<close>), starting, stopping. \<open>world_step\<close> is any interleaving of workers; no
    fiber runs twice at once, pins to threads are respected, the counters are right.
  \<^item> \<open>Timers\<close> (\<open>timer.cc\<close>): timers, their set, expiry with the two critical sections of
    \<open>listExpiredCb\<close>; the set stays ordered, no timer with a function is lost, the first deadline
    always reaches the poller, and what expires is what is due.
  \<^item> \<open>Iomanager\<close> (\<open>iomanager.cc\<close>): the contexts of events, adding, deleting, cancelling and
    triggering them, the reports of \<open>epoll\<close>, the wait time. \<open>io_inv\<close> relates the pending count, the
    registered events and what the kernel watches.
  \<^item> \<open>Fd_Manager\<close> (\<open>fd_manager.cc\<close>) and \<open>Hook\<close> (\<open>hook.cc\<close>): the table of descriptors and the hooked
    calls, \<open>do_io\<close> with its wait and retry, \<open>connect\<close>, the sleeps, \<open>fcntl\<close>, \<open>ioctl\<close> and the options.

  \<^bold>\<open>Data.\<close>
  \<^item> \<open>Bytearray\<close>, \<open>Bytearray_Codec\<close>, \<open>Bytearray_Io\<close>, \<open>Bytearray_Props\<close> (\<open>bytearray.cc\<close>): the chain of
    blocks with its position and \<open>ba_inv\<close>; numbers, varints and strings over the locale
    \<open>byte_buffer\<close>, which the buffer interprets; views, dumps and files. The writers and readers are
    inverse, also between hosts of different byte order, and a write changes what it covers only.
  \<^item> \<open>Addresses\<close>, \<open>Address_Props\<close> (\<open>address.cc\<close>): the address classes, their order, masks, text,
    resolution and interfaces.
  \<^item> \<open>Uri_States\<close>, \<open>Uris\<close>, \<open>Uri_Grammar\<close>, \<open>Uri_Runs\<close>, \<open>Uri_Props\<close> (\<open>uri.h\<close>, \<open>uri.rl\<close>, \<open>uri.rl.cc\<close>): the
    machine of 561 states, \<open>Uri::Create\<close>, the text of a URI; reading inverts writing.

  \<^bold>\<open>HTTP.\<close>
  \<^item> \<open>Http_Messages\<close> (\<open>http.cc\<close>): methods, statuses, header maps, requests and responses and their text.
  \<^item> \<open>Http11_States\<close>, \<open>Http11_Parser\<close>, \<open>Request_Parser\<close>, \<open>Request_Grammar\<close>, \<open>Request_Props\<close>
    (\<open>http11_parser.rl\<close>, \<open>http11_parser.rl.cc\<close>, the request side of \<open>http_parser.cc\<close>): the parser with its
    offsets and pointer arithmetic. Whatever the bytes are, it stays in its buffer and fails no
    assertion; a request that was written is read back.
  \<^item> \<open>Httpclient_States\<close>, \<open>Httpclient_Parser\<close>, \<open>Response_Parser\<close>, \<open>Response_Props\<close>: the same for
    responses and the lines of chunks.
  \<^item> \<open>Servlets\<close> (\<open>servlet.cc\<close>): exact paths, patterns in their order, the default; which one decides.

  \<^bold>\<open>Network.\<close>
  \<^item> \<open>Sockets\<close> (\<open>socket.cc\<close>): the class, with the calls it makes of the system as a part of each result;
    \<open>sock_step\<close> follows the life of a descriptor.
  \<^item> \<open>Streams\<close>, \<open>Stream_Bytes\<close> (\<open>stream.cc\<close>, \<open>socket_stream.cc\<close>): reads and writes of a fixed size over
    memory and over a byte array; the second refines the first.
  \<^item> \<open>Http_Sessions\<close> (\<open>http_session.cc\<close>, \<open>http_server.cc\<close>): a request is put together from the pieces in
    which it arrives, and a connection is served in order and to its end.
  \<^item> \<open>Http_Connections\<close>, \<open>Connection_Pools\<close> (\<open>http_connection.cc\<close>): responses with chunks, requests on a new
    connection with their outcomes, and the pool, whose connections are idle or held by one user.
  \<^item> \<open>Tcp_Servers\<close> (\<open>tcp_server.cc\<close>): binding to all addresses or none; \<open>tcp_step\<close> interleaves the tasks
    and the accepting loops, so stopping can be followed to the last client.

  \<^bold>\<open>The process.\<close>
  \<^item> \<open>Loggers\<close>, \<open>Appenders\<close>, \<open>Log_Config\<close> (\<open>log.cc\<close>): patterns and their items, appenders with their files,
    loggers with the root as fallback, the manager; \<open>log_step\<close> is any use of them, and keeps
    \<open>log_inv\<close>. The definitions of loggers in the configuration and the listener that applies them
    are the meeting point of the two components: what the listener does is a run of \<open>log_step\<close>.
  \<^item> \<open>Configs\<close> (\<open>config.h\<close>, \<open>config.cc\<close>): variables, listeners, the table, the loading of documents and
    directories, the conversions of containers. \<open>config_step\<close> is any use of the table.
  \<^item> \<open>Envs\<close> (\<open>env.cc\<close>) and \<open>Utils\<close> (\<open>util.cc\<close>): arguments, help, variables, paths; clocks, stack traces,
    directories, the file of a process.
  \<^item> \<open>Daemons\<close> (\<open>daemon.cc\<close>, \<open>application.cc\<close>): the loop that starts a crashed child again, and the start of
    the program: arguments, configuration, the check for another instance, the servers.

  \<^bold>\<open>Loops and bounds.\<close> A loop over data is a recursive function with a termination
  proof. A loop that waits for somebody else (a peer, the kernel, a child) is a
  \<open>partial_function (option)\<close> with the value \<open>None\<close> where it goes on for ever, so that returning is
  something to prove: it is proved for the daemon (exactly when a turn comes that does not crash), for
  the session (a connection is served to its end), for the reads and writes of a fixed size (when the
  peer sends or takes enough), for requests (the outcomes of those that return, and a chunked body
  that is received) and for logging from every state that can be reached. The hooked calls take
  the list of the kernel's answers and of the ways their waits ended, and are shown to return on
  lists that are long enough. No definition has a fuel argument. The states of the three machines are
  given one by one and computed by simplification with the bundles \<open>http_sts\<close>, \<open>client_sts\<close> and
  \<open>uri_sts\<close>. Wrapping is visible where the code wraps: deadlines, offsets of the parsers, the lengths of
  streams that hold -1 as a \<open>size_t\<close>, and the position of varints.

  \<^bold>\<open>Behaviour that was shown and is probably not meant.\<close> The theories prove, among others: a request
  that is split inside its target loses its beginning; requests that are sent ahead on one
  connection are lost; chunks that do not arrive one to a piece are misread; the age of a pooled
  connection is not looked at; a timer that is refreshed has lost its
  function, so that its expiry calls nothing; a file appender never recovers from a failed write; \<open>setEnv\<close> reports the
  opposite of what happened; logger definitions do not survive being written as YAML; a server that is
  started again before its stop was carried out loses its sockets; a process that could not bind its
  servers ends with the status of success, and is therefore not started again.

  \<^bold>\<open>Not modelled.\<close> \<open>macro.h\<close>, \<open>singleton.h\<close>, \<open>noncopyable.h\<close>, \<open>sylar.h\<close>: no behaviour of their own; a
  failed assertion is the value \<open>Assert_fail\<close>, a singleton a part of the state. The mutexes of
  \<open>pthread\<close> are a library, a guard the calls it makes of one; the null mutexes do nothing. The text that
  \<open>vasprintf\<close> makes for the formatted log macros is the content of an event. \<open>dlsym\<close> and the macros
  that look up the original system calls are the loader's. \<open>ucontext\<close> is described by what its
  functions save and restore, not by machine registers; stack memory is not modelled, nor a failure of
  \<open>malloc\<close> or of \<open>new\<close>. yaml-cpp and Boost's conversions are arguments. Floating-point numbers are
  their bit patterns. The data races of code that reads without a lock are interleavings of whole
  accesses. \<open>src/tests\<close> and \<open>src/examples\<close> are programs that call the library and print.
\<close>

end
